(* ===== verification/Nfs_Prelude.thy ===== *)
theory Nfs_Prelude
  imports Main "HOL-Library.Word"
begin

text \<open>
  Shared vocabulary of the development: the machine integers of the C sources, the big-endian
  byte order of the XDR wire format, the sequencing combinator \<open>run\<close> that
  models straight-line C code which stops at the first fault, and the lemma collections the
  component theories add to.
\<close>

unbundle bit_operations_syntax

type_synonym u8 = "8 word"
type_synonym u16 = "16 word"
type_synonym u32 = "32 word"
type_synonym u64 = "64 word"
type_synonym bytes = "8 word list"

named_theorems maxsz_defs \<open>the definitions of the buffer-size macros\<close>
named_theorems enc_defs \<open>the definitions of the XDR encoders\<close>
named_theorems dec_defs \<open>the definitions of the XDR decoders\<close>
named_theorems wire_defs \<open>the byte formats of the operations\<close>
named_theorems writes_rules \<open>the write contracts of the encoders\<close>

section \<open>Byte order\<close>

text \<open>\<open>cpu_to_be32\<close>/\<open>htonl\<close> store a word as four bytes, most significant first;
  \<open>be32_to_cpup\<close> reads them back. A read of fewer than four bytes never happens in the
  sources and gives 0 here.\<close>

definition be32 :: "u32 \<Rightarrow> bytes" where
  "be32 w = [ucast (drop_bit 24 w), ucast (drop_bit 16 w), ucast (drop_bit 8 w), ucast w]"

fun be32_of :: "bytes \<Rightarrow> u32" where
  "be32_of (a # b # c # d # _) =
     push_bit 24 (ucast a) OR push_bit 16 (ucast b) OR push_bit 8 (ucast c) OR ucast d"
| "be32_of _ = 0"

definition be64 :: "u64 \<Rightarrow> bytes" where
  "be64 w = be32 (ucast (drop_bit 32 w)) @ be32 (ucast w)"

definition be64_of :: "bytes \<Rightarrow> u64" where
  "be64_of p = push_bit 32 (ucast (be32_of p)) OR ucast (be32_of (drop 4 p))"

lemma length_be32 [simp]: "length (be32 w) = 4"
  by (simp add: be32_def)

lemma length_be64 [simp]: "length (be64 w) = 8"
  by (simp add: be64_def)

lemma be32_of_be32_append [simp]: "be32_of (be32 w @ r) = w"
proof (rule bit_word_eqI)
  fix n assume "n < LENGTH(32)"
  then consider "n < 8" | "8 \<le> n" "n < 16" | "16 \<le> n" "n < 24" | "24 \<le> n" "n < 32"
    by fastforce
  then show "bit (be32_of (be32 w @ r)) n = bit w n"
    by cases (auto simp: be32_def bit_simps)
qed

lemma be32_of_be32 [simp]: "be32_of (be32 w) = w"
  using be32_of_be32_append [of w "[]"] by simp

lemma be64_of_be64_append [simp]: "be64_of (be64 w @ r) = w"
proof (rule bit_word_eqI)
  fix n assume "n < LENGTH(64)"
  then consider "n < 32" | "32 \<le> n" "n < 64"
    by fastforce
  then show "bit (be64_of (be64 w @ r)) n = bit w n"
    by cases (auto simp: be64_def be64_of_def bit_simps)
qed

lemma be32_inject [simp]: "be32 v = be32 w \<longleftrightarrow> v = w"
  by (metis be32_of_be32)

lemma be64_inject [simp]: "be64 v = be64 w \<longleftrightarrow> v = w"
  by (metis append_Nil2 be64_of_be64_append)

lemma be32_neq_Nil [simp]: "be32 w \<noteq> []"
  by (simp add: be32_def)

section \<open>XDR units\<close>

text \<open>XDR (RFC 4506) aligns every item to four bytes: \<open>XDR_QUADLEN\<close> counts the units of a
  byte length, \<open>quad\<close> is the length rounded up to whole units and \<open>pad\<close> the fill
  bytes.\<close>

definition XDR_QUADLEN :: "nat \<Rightarrow> nat" where
  "XDR_QUADLEN l = (l + 3) div 4"

definition quad :: "nat \<Rightarrow> nat" where
  "quad n = 4 * XDR_QUADLEN n"

definition pad :: "nat \<Rightarrow> nat" where
  "pad n = quad n - n"

lemma le_quad: "n \<le> quad n"
  unfolding quad_def XDR_QUADLEN_def by arith

lemma quad_mono: "m \<le> n \<Longrightarrow> quad m \<le> quad n"
  unfolding quad_def XDR_QUADLEN_def by (simp add: div_le_mono)

lemma add_pad [simp]: "n + pad n = quad n"
  using le_quad by (simp add: pad_def)

lemma quad_mult4 [simp]: "4 dvd n \<Longrightarrow> quad n = n"
  unfolding quad_def XDR_QUADLEN_def by (elim dvdE) simp

lemma quad_add4 [simp]: "quad (4 + n) = 4 + quad n"
  unfolding quad_def XDR_QUADLEN_def by presburger

lemma quad_le_iff: "quad n \<le> 4 * k \<longleftrightarrow> n \<le> 4 * k"
  unfolding quad_def XDR_QUADLEN_def by presburger

lemma dvd4_quad [simp]: "4 dvd quad n"
  by (simp add: quad_def)

section \<open>Straight-line code that stops at the first fault\<close>

fun run :: "('a \<Rightarrow> 'e + 'a) list \<Rightarrow> 'a \<Rightarrow> 'e + 'a" where
  "run [] s = Inr s"
| "run (f # fs) s = (case f s of Inl e \<Rightarrow> Inl e | Inr t \<Rightarrow> run fs t)"

lemma run_append:
  "run (fs @ gs) s = (case run fs s of Inl e \<Rightarrow> Inl e | Inr t \<Rightarrow> run gs t)"
  by (induction fs arbitrary: s) (auto split: sum.splits)

lemma run_single [simp]: "run [f] = f"
  by (rule ext) (simp split: sum.splits)

text \<open>An invariant every statement keeps is kept by the whole sequence.\<close>

lemma run_invariant:
  assumes "\<And>f s t. f \<in> set fs \<Longrightarrow> I s \<Longrightarrow> f s = Inr t \<Longrightarrow> I t"
    and "I s" and "run fs s = Inr t"
  shows "I t"
  using assms
proof (induction fs arbitrary: s)
  case (Cons f fs)
  then obtain u where "f s = Inr u" and "run fs u = Inr t"
    by (auto split: sum.splits)
  with Cons show ?case
    by (meson list.set_intros)
qed simp

section \<open>Words\<close>

lemma unat_add_no_overflow:
  fixes a b :: "'a::len word"
  assumes "unat a + unat b < 2 ^ LENGTH('a)"
  shows "unat (a + b) = unat a + unat b"
  using assms by (simp add: unat_word_ariths)

lemma unat_of_nat_u32: "n < 2 ^ 32 \<Longrightarrow> unat (of_nat n :: u32) = n"
  by (simp add: unat_of_nat take_bit_nat_eq_self)

lemma take_append_length [simp]: "n = length xs \<Longrightarrow> take n (xs @ ys) = xs"
  by simp

lemma drop_append_length [simp]: "n = length xs \<Longrightarrow> drop n (xs @ ys) = ys"
  by simp

end
