(* ===== verification/Nfs4_Const.thy ===== *)
theory Nfs4_Const
  imports Nfs_Prelude
begin

text \<open>
  The protocol constants of \<^verbatim>\<open>include/linux/nfs4.h\<close>, \<^verbatim>\<open>include/uapi/linux/nfs4.h\<close> and
  \<^verbatim>\<open>include/linux/nfs_xdr.h\<close>: operation numbers, status codes, attribute bits and size limits,
  with the values of the headers; the errno values of the platform; and the translation of
  server status codes to errno values (\<^verbatim>\<open>nfs4_stat_to_errno\<close> of \<^verbatim>\<open>fs/nfs/nfs4xdr.c\<close>).
\<close>

section \<open>Operation numbers\<close>

datatype (plugins only: code) nfs_opnum4 =
    OP_ACCESS
  | OP_CLOSE
  | OP_COMMIT
  | OP_CREATE
  | OP_DELEGPURGE
  | OP_DELEGRETURN
  | OP_GETATTR
  | OP_GETFH
  | OP_LINK
  | OP_LOCK
  | OP_LOCKT
  | OP_LOCKU
  | OP_LOOKUP
  | OP_LOOKUPP
  | OP_NVERIFY
  | OP_OPEN
  | OP_OPENATTR
  | OP_OPEN_CONFIRM
  | OP_OPEN_DOWNGRADE
  | OP_PUTFH
  | OP_PUTPUBFH
  | OP_PUTROOTFH
  | OP_READ
  | OP_READDIR
  | OP_READLINK
  | OP_REMOVE
  | OP_RENAME
  | OP_RENEW
  | OP_RESTOREFH
  | OP_SAVEFH
  | OP_SECINFO
  | OP_SETATTR
  | OP_SETCLIENTID
  | OP_SETCLIENTID_CONFIRM
  | OP_VERIFY
  | OP_WRITE
  | OP_RELEASE_LOCKOWNER
  | OP_BACKCHANNEL_CTL
  | OP_BIND_CONN_TO_SESSION
  | OP_EXCHANGE_ID
  | OP_CREATE_SESSION
  | OP_DESTROY_SESSION
  | OP_FREE_STATEID
  | OP_GET_DIR_DELEGATION
  | OP_GETDEVICEINFO
  | OP_GETDEVICELIST
  | OP_LAYOUTCOMMIT
  | OP_LAYOUTGET
  | OP_LAYOUTRETURN
  | OP_SECINFO_NO_NAME
  | OP_SEQUENCE
  | OP_SET_SSV
  | OP_TEST_STATEID
  | OP_WANT_DELEGATION
  | OP_DESTROY_CLIENTID
  | OP_RECLAIM_COMPLETE
  | OP_ALLOCATE
  | OP_COPY
  | OP_COPY_NOTIFY
  | OP_DEALLOCATE
  | OP_IO_ADVISE
  | OP_LAYOUTERROR
  | OP_LAYOUTSTATS
  | OP_OFFLOAD_CANCEL
  | OP_OFFLOAD_STATUS
  | OP_READ_PLUS
  | OP_SEEK
  | OP_WRITE_SAME
  | OP_ILLEGAL

primrec opnum :: "nfs_opnum4 \<Rightarrow> u32" where
  "opnum OP_ACCESS = 3"
| "opnum OP_CLOSE = 4"
| "opnum OP_COMMIT = 5"
| "opnum OP_CREATE = 6"
| "opnum OP_DELEGPURGE = 7"
| "opnum OP_DELEGRETURN = 8"
| "opnum OP_GETATTR = 9"
| "opnum OP_GETFH = 10"
| "opnum OP_LINK = 11"
| "opnum OP_LOCK = 12"
| "opnum OP_LOCKT = 13"
| "opnum OP_LOCKU = 14"
| "opnum OP_LOOKUP = 15"
| "opnum OP_LOOKUPP = 16"
| "opnum OP_NVERIFY = 17"
| "opnum OP_OPEN = 18"
| "opnum OP_OPENATTR = 19"
| "opnum OP_OPEN_CONFIRM = 20"
| "opnum OP_OPEN_DOWNGRADE = 21"
| "opnum OP_PUTFH = 22"
| "opnum OP_PUTPUBFH = 23"
| "opnum OP_PUTROOTFH = 24"
| "opnum OP_READ = 25"
| "opnum OP_READDIR = 26"
| "opnum OP_READLINK = 27"
| "opnum OP_REMOVE = 28"
| "opnum OP_RENAME = 29"
| "opnum OP_RENEW = 30"
| "opnum OP_RESTOREFH = 31"
| "opnum OP_SAVEFH = 32"
| "opnum OP_SECINFO = 33"
| "opnum OP_SETATTR = 34"
| "opnum OP_SETCLIENTID = 35"
| "opnum OP_SETCLIENTID_CONFIRM = 36"
| "opnum OP_VERIFY = 37"
| "opnum OP_WRITE = 38"
| "opnum OP_RELEASE_LOCKOWNER = 39"
| "opnum OP_BACKCHANNEL_CTL = 40"
| "opnum OP_BIND_CONN_TO_SESSION = 41"
| "opnum OP_EXCHANGE_ID = 42"
| "opnum OP_CREATE_SESSION = 43"
| "opnum OP_DESTROY_SESSION = 44"
| "opnum OP_FREE_STATEID = 45"
| "opnum OP_GET_DIR_DELEGATION = 46"
| "opnum OP_GETDEVICEINFO = 47"
| "opnum OP_GETDEVICELIST = 48"
| "opnum OP_LAYOUTCOMMIT = 49"
| "opnum OP_LAYOUTGET = 50"
| "opnum OP_LAYOUTRETURN = 51"
| "opnum OP_SECINFO_NO_NAME = 52"
| "opnum OP_SEQUENCE = 53"
| "opnum OP_SET_SSV = 54"
| "opnum OP_TEST_STATEID = 55"
| "opnum OP_WANT_DELEGATION = 56"
| "opnum OP_DESTROY_CLIENTID = 57"
| "opnum OP_RECLAIM_COMPLETE = 58"
| "opnum OP_ALLOCATE = 59"
| "opnum OP_COPY = 60"
| "opnum OP_COPY_NOTIFY = 61"
| "opnum OP_DEALLOCATE = 62"
| "opnum OP_IO_ADVISE = 63"
| "opnum OP_LAYOUTERROR = 64"
| "opnum OP_LAYOUTSTATS = 65"
| "opnum OP_OFFLOAD_CANCEL = 66"
| "opnum OP_OFFLOAD_STATUS = 67"
| "opnum OP_READ_PLUS = 68"
| "opnum OP_SEEK = 69"
| "opnum OP_WRITE_SAME = 70"
| "opnum OP_ILLEGAL = 10044"

section \<open>Status codes\<close>

abbreviation (input) NFS4_OK :: int where
  "NFS4_OK \<equiv> 0"

abbreviation (input) NFS4ERR_PERM :: int where
  "NFS4ERR_PERM \<equiv> 1"

abbreviation (input) NFS4ERR_NOENT :: int where
  "NFS4ERR_NOENT \<equiv> 2"

abbreviation (input) NFS4ERR_IO :: int where
  "NFS4ERR_IO \<equiv> 5"

abbreviation (input) NFS4ERR_NXIO :: int where
  "NFS4ERR_NXIO \<equiv> 6"

abbreviation (input) NFS4ERR_ACCESS :: int where
  "NFS4ERR_ACCESS \<equiv> 13"

abbreviation (input) NFS4ERR_EXIST :: int where
  "NFS4ERR_EXIST \<equiv> 17"

abbreviation (input) NFS4ERR_XDEV :: int where
  "NFS4ERR_XDEV \<equiv> 18"

abbreviation (input) NFS4ERR_NOTDIR :: int where
  "NFS4ERR_NOTDIR \<equiv> 20"

abbreviation (input) NFS4ERR_ISDIR :: int where
  "NFS4ERR_ISDIR \<equiv> 21"

abbreviation (input) NFS4ERR_INVAL :: int where
  "NFS4ERR_INVAL \<equiv> 22"

abbreviation (input) NFS4ERR_FBIG :: int where
  "NFS4ERR_FBIG \<equiv> 27"

abbreviation (input) NFS4ERR_NOSPC :: int where
  "NFS4ERR_NOSPC \<equiv> 28"

abbreviation (input) NFS4ERR_ROFS :: int where
  "NFS4ERR_ROFS \<equiv> 30"

abbreviation (input) NFS4ERR_MLINK :: int where
  "NFS4ERR_MLINK \<equiv> 31"

abbreviation (input) NFS4ERR_NAMETOOLONG :: int where
  "NFS4ERR_NAMETOOLONG \<equiv> 63"

abbreviation (input) NFS4ERR_NOTEMPTY :: int where
  "NFS4ERR_NOTEMPTY \<equiv> 66"

abbreviation (input) NFS4ERR_DQUOT :: int where
  "NFS4ERR_DQUOT \<equiv> 69"

abbreviation (input) NFS4ERR_STALE :: int where
  "NFS4ERR_STALE \<equiv> 70"

abbreviation (input) NFS4ERR_BADHANDLE :: int where
  "NFS4ERR_BADHANDLE \<equiv> 10001"

abbreviation (input) NFS4ERR_BAD_COOKIE :: int where
  "NFS4ERR_BAD_COOKIE \<equiv> 10003"

abbreviation (input) NFS4ERR_NOTSUPP :: int where
  "NFS4ERR_NOTSUPP \<equiv> 10004"

abbreviation (input) NFS4ERR_TOOSMALL :: int where
  "NFS4ERR_TOOSMALL \<equiv> 10005"

abbreviation (input) NFS4ERR_SERVERFAULT :: int where
  "NFS4ERR_SERVERFAULT \<equiv> 10006"

abbreviation (input) NFS4ERR_BADTYPE :: int where
  "NFS4ERR_BADTYPE \<equiv> 10007"

abbreviation (input) NFS4ERR_DELAY :: int where
  "NFS4ERR_DELAY \<equiv> 10008"

abbreviation (input) NFS4ERR_SAME :: int where
  "NFS4ERR_SAME \<equiv> 10009"

abbreviation (input) NFS4ERR_DENIED :: int where
  "NFS4ERR_DENIED \<equiv> 10010"

abbreviation (input) NFS4ERR_EXPIRED :: int where
  "NFS4ERR_EXPIRED \<equiv> 10011"

abbreviation (input) NFS4ERR_LOCKED :: int where
  "NFS4ERR_LOCKED \<equiv> 10012"

abbreviation (input) NFS4ERR_GRACE :: int where
  "NFS4ERR_GRACE \<equiv> 10013"

abbreviation (input) NFS4ERR_FHEXPIRED :: int where
  "NFS4ERR_FHEXPIRED \<equiv> 10014"

abbreviation (input) NFS4ERR_SHARE_DENIED :: int where
  "NFS4ERR_SHARE_DENIED \<equiv> 10015"

abbreviation (input) NFS4ERR_WRONGSEC :: int where
  "NFS4ERR_WRONGSEC \<equiv> 10016"

abbreviation (input) NFS4ERR_CLID_INUSE :: int where
  "NFS4ERR_CLID_INUSE \<equiv> 10017"

abbreviation (input) NFS4ERR_RESOURCE :: int where
  "NFS4ERR_RESOURCE \<equiv> 10018"

abbreviation (input) NFS4ERR_MOVED :: int where
  "NFS4ERR_MOVED \<equiv> 10019"

abbreviation (input) NFS4ERR_NOFILEHANDLE :: int where
  "NFS4ERR_NOFILEHANDLE \<equiv> 10020"

abbreviation (input) NFS4ERR_MINOR_VERS_MISMATCH :: int where
  "NFS4ERR_MINOR_VERS_MISMATCH \<equiv> 10021"

abbreviation (input) NFS4ERR_STALE_CLIENTID :: int where
  "NFS4ERR_STALE_CLIENTID \<equiv> 10022"

abbreviation (input) NFS4ERR_STALE_STATEID :: int where
  "NFS4ERR_STALE_STATEID \<equiv> 10023"

abbreviation (input) NFS4ERR_OLD_STATEID :: int where
  "NFS4ERR_OLD_STATEID \<equiv> 10024"

abbreviation (input) NFS4ERR_BAD_STATEID :: int where
  "NFS4ERR_BAD_STATEID \<equiv> 10025"

abbreviation (input) NFS4ERR_BAD_SEQID :: int where
  "NFS4ERR_BAD_SEQID \<equiv> 10026"

abbreviation (input) NFS4ERR_NOT_SAME :: int where
  "NFS4ERR_NOT_SAME \<equiv> 10027"

abbreviation (input) NFS4ERR_LOCK_RANGE :: int where
  "NFS4ERR_LOCK_RANGE \<equiv> 10028"

abbreviation (input) NFS4ERR_SYMLINK :: int where
  "NFS4ERR_SYMLINK \<equiv> 10029"

abbreviation (input) NFS4ERR_RESTOREFH :: int where
  "NFS4ERR_RESTOREFH \<equiv> 10030"

abbreviation (input) NFS4ERR_LEASE_MOVED :: int where
  "NFS4ERR_LEASE_MOVED \<equiv> 10031"

abbreviation (input) NFS4ERR_ATTRNOTSUPP :: int where
  "NFS4ERR_ATTRNOTSUPP \<equiv> 10032"

abbreviation (input) NFS4ERR_NO_GRACE :: int where
  "NFS4ERR_NO_GRACE \<equiv> 10033"

abbreviation (input) NFS4ERR_RECLAIM_BAD :: int where
  "NFS4ERR_RECLAIM_BAD \<equiv> 10034"

abbreviation (input) NFS4ERR_RECLAIM_CONFLICT :: int where
  "NFS4ERR_RECLAIM_CONFLICT \<equiv> 10035"

abbreviation (input) NFS4ERR_BADXDR :: int where
  "NFS4ERR_BADXDR \<equiv> 10036"

abbreviation (input) NFS4ERR_LOCKS_HELD :: int where
  "NFS4ERR_LOCKS_HELD \<equiv> 10037"

abbreviation (input) NFS4ERR_OPENMODE :: int where
  "NFS4ERR_OPENMODE \<equiv> 10038"

abbreviation (input) NFS4ERR_BADOWNER :: int where
  "NFS4ERR_BADOWNER \<equiv> 10039"

abbreviation (input) NFS4ERR_BADCHAR :: int where
  "NFS4ERR_BADCHAR \<equiv> 10040"

abbreviation (input) NFS4ERR_BADNAME :: int where
  "NFS4ERR_BADNAME \<equiv> 10041"

abbreviation (input) NFS4ERR_BAD_RANGE :: int where
  "NFS4ERR_BAD_RANGE \<equiv> 10042"

abbreviation (input) NFS4ERR_LOCK_NOTSUPP :: int where
  "NFS4ERR_LOCK_NOTSUPP \<equiv> 10043"

abbreviation (input) NFS4ERR_OP_ILLEGAL :: int where
  "NFS4ERR_OP_ILLEGAL \<equiv> 10044"

abbreviation (input) NFS4ERR_DEADLOCK :: int where
  "NFS4ERR_DEADLOCK \<equiv> 10045"

abbreviation (input) NFS4ERR_FILE_OPEN :: int where
  "NFS4ERR_FILE_OPEN \<equiv> 10046"

abbreviation (input) NFS4ERR_ADMIN_REVOKED :: int where
  "NFS4ERR_ADMIN_REVOKED \<equiv> 10047"

abbreviation (input) NFS4ERR_CB_PATH_DOWN :: int where
  "NFS4ERR_CB_PATH_DOWN \<equiv> 10048"

abbreviation (input) NFS4ERR_BADIOMODE :: int where
  "NFS4ERR_BADIOMODE \<equiv> 10049"

abbreviation (input) NFS4ERR_BADLAYOUT :: int where
  "NFS4ERR_BADLAYOUT \<equiv> 10050"

abbreviation (input) NFS4ERR_BAD_SESSION_DIGEST :: int where
  "NFS4ERR_BAD_SESSION_DIGEST \<equiv> 10051"

abbreviation (input) NFS4ERR_BADSESSION :: int where
  "NFS4ERR_BADSESSION \<equiv> 10052"

abbreviation (input) NFS4ERR_BADSLOT :: int where
  "NFS4ERR_BADSLOT \<equiv> 10053"

abbreviation (input) NFS4ERR_COMPLETE_ALREADY :: int where
  "NFS4ERR_COMPLETE_ALREADY \<equiv> 10054"

abbreviation (input) NFS4ERR_CONN_NOT_BOUND_TO_SESSION :: int where
  "NFS4ERR_CONN_NOT_BOUND_TO_SESSION \<equiv> 10055"

abbreviation (input) NFS4ERR_DELEG_ALREADY_WANTED :: int where
  "NFS4ERR_DELEG_ALREADY_WANTED \<equiv> 10056"

abbreviation (input) NFS4ERR_BACK_CHAN_BUSY :: int where
  "NFS4ERR_BACK_CHAN_BUSY \<equiv> 10057"

abbreviation (input) NFS4ERR_LAYOUTTRYLATER :: int where
  "NFS4ERR_LAYOUTTRYLATER \<equiv> 10058"

abbreviation (input) NFS4ERR_LAYOUTUNAVAILABLE :: int where
  "NFS4ERR_LAYOUTUNAVAILABLE \<equiv> 10059"

abbreviation (input) NFS4ERR_NOMATCHING_LAYOUT :: int where
  "NFS4ERR_NOMATCHING_LAYOUT \<equiv> 10060"

abbreviation (input) NFS4ERR_RECALLCONFLICT :: int where
  "NFS4ERR_RECALLCONFLICT \<equiv> 10061"

abbreviation (input) NFS4ERR_UNKNOWN_LAYOUTTYPE :: int where
  "NFS4ERR_UNKNOWN_LAYOUTTYPE \<equiv> 10062"

abbreviation (input) NFS4ERR_SEQ_MISORDERED :: int where
  "NFS4ERR_SEQ_MISORDERED \<equiv> 10063"

abbreviation (input) NFS4ERR_SEQUENCE_POS :: int where
  "NFS4ERR_SEQUENCE_POS \<equiv> 10064"

abbreviation (input) NFS4ERR_REQ_TOO_BIG :: int where
  "NFS4ERR_REQ_TOO_BIG \<equiv> 10065"

abbreviation (input) NFS4ERR_REP_TOO_BIG :: int where
  "NFS4ERR_REP_TOO_BIG \<equiv> 10066"

abbreviation (input) NFS4ERR_REP_TOO_BIG_TO_CACHE :: int where
  "NFS4ERR_REP_TOO_BIG_TO_CACHE \<equiv> 10067"

abbreviation (input) NFS4ERR_RETRY_UNCACHED_REP :: int where
  "NFS4ERR_RETRY_UNCACHED_REP \<equiv> 10068"

abbreviation (input) NFS4ERR_UNSAFE_COMPOUND :: int where
  "NFS4ERR_UNSAFE_COMPOUND \<equiv> 10069"

abbreviation (input) NFS4ERR_TOO_MANY_OPS :: int where
  "NFS4ERR_TOO_MANY_OPS \<equiv> 10070"

abbreviation (input) NFS4ERR_OP_NOT_IN_SESSION :: int where
  "NFS4ERR_OP_NOT_IN_SESSION \<equiv> 10071"

abbreviation (input) NFS4ERR_HASH_ALG_UNSUPP :: int where
  "NFS4ERR_HASH_ALG_UNSUPP \<equiv> 10072"

abbreviation (input) NFS4ERR_CLIENTID_BUSY :: int where
  "NFS4ERR_CLIENTID_BUSY \<equiv> 10074"

abbreviation (input) NFS4ERR_PNFS_IO_HOLE :: int where
  "NFS4ERR_PNFS_IO_HOLE \<equiv> 10075"

abbreviation (input) NFS4ERR_SEQ_FALSE_RETRY :: int where
  "NFS4ERR_SEQ_FALSE_RETRY \<equiv> 10076"

abbreviation (input) NFS4ERR_BAD_HIGH_SLOT :: int where
  "NFS4ERR_BAD_HIGH_SLOT \<equiv> 10077"

abbreviation (input) NFS4ERR_DEADSESSION :: int where
  "NFS4ERR_DEADSESSION \<equiv> 10078"

abbreviation (input) NFS4ERR_ENCR_ALG_UNSUPP :: int where
  "NFS4ERR_ENCR_ALG_UNSUPP \<equiv> 10079"

abbreviation (input) NFS4ERR_PNFS_NO_LAYOUT :: int where
  "NFS4ERR_PNFS_NO_LAYOUT \<equiv> 10080"

abbreviation (input) NFS4ERR_NOT_ONLY_OP :: int where
  "NFS4ERR_NOT_ONLY_OP \<equiv> 10081"

abbreviation (input) NFS4ERR_WRONG_CRED :: int where
  "NFS4ERR_WRONG_CRED \<equiv> 10082"

abbreviation (input) NFS4ERR_WRONG_TYPE :: int where
  "NFS4ERR_WRONG_TYPE \<equiv> 10083"

abbreviation (input) NFS4ERR_DIRDELEG_UNAVAIL :: int where
  "NFS4ERR_DIRDELEG_UNAVAIL \<equiv> 10084"

abbreviation (input) NFS4ERR_REJECT_DELEG :: int where
  "NFS4ERR_REJECT_DELEG \<equiv> 10085"

abbreviation (input) NFS4ERR_RETURNCONFLICT :: int where
  "NFS4ERR_RETURNCONFLICT \<equiv> 10086"

abbreviation (input) NFS4ERR_DELEG_REVOKED :: int where
  "NFS4ERR_DELEG_REVOKED \<equiv> 10087"

abbreviation (input) NFS4ERR_PARTNER_NOTSUPP :: int where
  "NFS4ERR_PARTNER_NOTSUPP \<equiv> 10088"

abbreviation (input) NFS4ERR_PARTNER_NO_AUTH :: int where
  "NFS4ERR_PARTNER_NO_AUTH \<equiv> 10089"

abbreviation (input) NFS4ERR_UNION_NOTSUPP :: int where
  "NFS4ERR_UNION_NOTSUPP \<equiv> 10090"

abbreviation (input) NFS4ERR_OFFLOAD_DENIED :: int where
  "NFS4ERR_OFFLOAD_DENIED \<equiv> 10091"

abbreviation (input) NFS4ERR_WRONG_LFS :: int where
  "NFS4ERR_WRONG_LFS \<equiv> 10092"

abbreviation (input) NFS4ERR_BADLABEL :: int where
  "NFS4ERR_BADLABEL \<equiv> 10093"

abbreviation (input) NFS4ERR_OFFLOAD_NO_REQS :: int where
  "NFS4ERR_OFFLOAD_NO_REQS \<equiv> 10094"

section \<open>Enumerations of the protocol\<close>

text \<open>\<^verbatim>\<open>enum nfs_ftype4\<close>\<close>

abbreviation (input) NF4BAD :: u32 where
  "NF4BAD \<equiv> 0"

abbreviation (input) NF4REG :: u32 where
  "NF4REG \<equiv> 1"

abbreviation (input) NF4DIR :: u32 where
  "NF4DIR \<equiv> 2"

abbreviation (input) NF4BLK :: u32 where
  "NF4BLK \<equiv> 3"

abbreviation (input) NF4CHR :: u32 where
  "NF4CHR \<equiv> 4"

abbreviation (input) NF4LNK :: u32 where
  "NF4LNK \<equiv> 5"

abbreviation (input) NF4SOCK :: u32 where
  "NF4SOCK \<equiv> 6"

abbreviation (input) NF4FIFO :: u32 where
  "NF4FIFO \<equiv> 7"

abbreviation (input) NF4ATTRDIR :: u32 where
  "NF4ATTRDIR \<equiv> 8"

abbreviation (input) NF4NAMEDATTR :: u32 where
  "NF4NAMEDATTR \<equiv> 9"

text \<open>\<^verbatim>\<open>enum open_claim_type4\<close>\<close>

abbreviation (input) NFS4_OPEN_CLAIM_NULL :: u32 where
  "NFS4_OPEN_CLAIM_NULL \<equiv> 0"

abbreviation (input) NFS4_OPEN_CLAIM_PREVIOUS :: u32 where
  "NFS4_OPEN_CLAIM_PREVIOUS \<equiv> 1"

abbreviation (input) NFS4_OPEN_CLAIM_DELEGATE_CUR :: u32 where
  "NFS4_OPEN_CLAIM_DELEGATE_CUR \<equiv> 2"

abbreviation (input) NFS4_OPEN_CLAIM_DELEGATE_PREV :: u32 where
  "NFS4_OPEN_CLAIM_DELEGATE_PREV \<equiv> 3"

abbreviation (input) NFS4_OPEN_CLAIM_FH :: u32 where
  "NFS4_OPEN_CLAIM_FH \<equiv> 4"

abbreviation (input) NFS4_OPEN_CLAIM_DELEG_CUR_FH :: u32 where
  "NFS4_OPEN_CLAIM_DELEG_CUR_FH \<equiv> 5"

abbreviation (input) NFS4_OPEN_CLAIM_DELEG_PREV_FH :: u32 where
  "NFS4_OPEN_CLAIM_DELEG_PREV_FH \<equiv> 6"

text \<open>\<^verbatim>\<open>enum opentype4\<close>\<close>

abbreviation (input) NFS4_OPEN_NOCREATE :: u32 where
  "NFS4_OPEN_NOCREATE \<equiv> 0"

abbreviation (input) NFS4_OPEN_CREATE :: u32 where
  "NFS4_OPEN_CREATE \<equiv> 1"

text \<open>\<^verbatim>\<open>enum createmode4\<close>\<close>

abbreviation (input) NFS4_CREATE_UNCHECKED :: u32 where
  "NFS4_CREATE_UNCHECKED \<equiv> 0"

abbreviation (input) NFS4_CREATE_GUARDED :: u32 where
  "NFS4_CREATE_GUARDED \<equiv> 1"

abbreviation (input) NFS4_CREATE_EXCLUSIVE :: u32 where
  "NFS4_CREATE_EXCLUSIVE \<equiv> 2"

abbreviation (input) NFS4_CREATE_EXCLUSIVE4_1 :: u32 where
  "NFS4_CREATE_EXCLUSIVE4_1 \<equiv> 3"

text \<open>\<^verbatim>\<open>enum limit_by4\<close>\<close>

abbreviation (input) NFS4_LIMIT_SIZE :: u32 where
  "NFS4_LIMIT_SIZE \<equiv> 1"

abbreviation (input) NFS4_LIMIT_BLOCKS :: u32 where
  "NFS4_LIMIT_BLOCKS \<equiv> 2"

text \<open>\<^verbatim>\<open>enum open_delegation_type4\<close>\<close>

abbreviation (input) NFS4_OPEN_DELEGATE_NONE :: u32 where
  "NFS4_OPEN_DELEGATE_NONE \<equiv> 0"

abbreviation (input) NFS4_OPEN_DELEGATE_READ :: u32 where
  "NFS4_OPEN_DELEGATE_READ \<equiv> 1"

abbreviation (input) NFS4_OPEN_DELEGATE_WRITE :: u32 where
  "NFS4_OPEN_DELEGATE_WRITE \<equiv> 2"

abbreviation (input) NFS4_OPEN_DELEGATE_NONE_EXT :: u32 where
  "NFS4_OPEN_DELEGATE_NONE_EXT \<equiv> 3"

text \<open>\<^verbatim>\<open>enum why_no_delegation4\<close>\<close>

abbreviation (input) WND4_NOT_WANTED :: u32 where
  "WND4_NOT_WANTED \<equiv> 0"

abbreviation (input) WND4_CONTENTION :: u32 where
  "WND4_CONTENTION \<equiv> 1"

abbreviation (input) WND4_RESOURCE :: u32 where
  "WND4_RESOURCE \<equiv> 2"

abbreviation (input) WND4_NOT_SUPP_FTYPE :: u32 where
  "WND4_NOT_SUPP_FTYPE \<equiv> 3"

abbreviation (input) WND4_WRITE_DELEG_NOT_SUPP_FTYPE :: u32 where
  "WND4_WRITE_DELEG_NOT_SUPP_FTYPE \<equiv> 4"

abbreviation (input) WND4_NOT_SUPP_UPGRADE :: u32 where
  "WND4_NOT_SUPP_UPGRADE \<equiv> 5"

abbreviation (input) WND4_NOT_SUPP_DOWNGRADE :: u32 where
  "WND4_NOT_SUPP_DOWNGRADE \<equiv> 6"

abbreviation (input) WND4_CANCELLED :: u32 where
  "WND4_CANCELLED \<equiv> 7"

abbreviation (input) WND4_IS_DIR :: u32 where
  "WND4_IS_DIR \<equiv> 8"

text \<open>\<^verbatim>\<open>enum lock_type4\<close>\<close>

abbreviation (input) NFS4_UNLOCK_LT :: u32 where
  "NFS4_UNLOCK_LT \<equiv> 0"

abbreviation (input) NFS4_READ_LT :: u32 where
  "NFS4_READ_LT \<equiv> 1"

abbreviation (input) NFS4_WRITE_LT :: u32 where
  "NFS4_WRITE_LT \<equiv> 2"

abbreviation (input) NFS4_READW_LT :: u32 where
  "NFS4_READW_LT \<equiv> 3"

abbreviation (input) NFS4_WRITEW_LT :: u32 where
  "NFS4_WRITEW_LT \<equiv> 4"

text \<open>\<^verbatim>\<open>enum state_protect_how4\<close>\<close>

abbreviation (input) SP4_NONE :: u32 where
  "SP4_NONE \<equiv> 0"

abbreviation (input) SP4_MACH_CRED :: u32 where
  "SP4_MACH_CRED \<equiv> 1"

abbreviation (input) SP4_SSV :: u32 where
  "SP4_SSV \<equiv> 2"

text \<open>\<^verbatim>\<open>enum pnfs_layoutreturn_type\<close>\<close>

abbreviation (input) RETURN_FILE :: u32 where
  "RETURN_FILE \<equiv> 1"

abbreviation (input) RETURN_FSID :: u32 where
  "RETURN_FSID \<equiv> 2"

abbreviation (input) RETURN_ALL :: u32 where
  "RETURN_ALL \<equiv> 3"

text \<open>\<^verbatim>\<open>enum pnfs_iomode\<close>\<close>

abbreviation (input) IOMODE_READ :: u32 where
  "IOMODE_READ \<equiv> 1"

abbreviation (input) IOMODE_RW :: u32 where
  "IOMODE_RW \<equiv> 2"

abbreviation (input) IOMODE_ANY :: u32 where
  "IOMODE_ANY \<equiv> 3"

text \<open>\<^verbatim>\<open>enum pnfs_notify_deviceid_type4\<close>\<close>

abbreviation (input) NOTIFY_DEVICEID4_CHANGE :: u32 where
  "NOTIFY_DEVICEID4_CHANGE \<equiv> 2"

abbreviation (input) NOTIFY_DEVICEID4_DELETE :: u32 where
  "NOTIFY_DEVICEID4_DELETE \<equiv> 4"

section \<open>Attribute bits\<close>

abbreviation (input) FATTR4_WORD0_SUPPORTED_ATTRS :: u32 where
  "FATTR4_WORD0_SUPPORTED_ATTRS \<equiv> 0x1"

abbreviation (input) FATTR4_WORD0_TYPE :: u32 where
  "FATTR4_WORD0_TYPE \<equiv> 0x2"

abbreviation (input) FATTR4_WORD0_FH_EXPIRE_TYPE :: u32 where
  "FATTR4_WORD0_FH_EXPIRE_TYPE \<equiv> 0x4"

abbreviation (input) FATTR4_WORD0_CHANGE :: u32 where
  "FATTR4_WORD0_CHANGE \<equiv> 0x8"

abbreviation (input) FATTR4_WORD0_SIZE :: u32 where
  "FATTR4_WORD0_SIZE \<equiv> 0x10"

abbreviation (input) FATTR4_WORD0_LINK_SUPPORT :: u32 where
  "FATTR4_WORD0_LINK_SUPPORT \<equiv> 0x20"

abbreviation (input) FATTR4_WORD0_SYMLINK_SUPPORT :: u32 where
  "FATTR4_WORD0_SYMLINK_SUPPORT \<equiv> 0x40"

abbreviation (input) FATTR4_WORD0_NAMED_ATTR :: u32 where
  "FATTR4_WORD0_NAMED_ATTR \<equiv> 0x80"

abbreviation (input) FATTR4_WORD0_FSID :: u32 where
  "FATTR4_WORD0_FSID \<equiv> 0x100"

abbreviation (input) FATTR4_WORD0_UNIQUE_HANDLES :: u32 where
  "FATTR4_WORD0_UNIQUE_HANDLES \<equiv> 0x200"

abbreviation (input) FATTR4_WORD0_LEASE_TIME :: u32 where
  "FATTR4_WORD0_LEASE_TIME \<equiv> 0x400"

abbreviation (input) FATTR4_WORD0_RDATTR_ERROR :: u32 where
  "FATTR4_WORD0_RDATTR_ERROR \<equiv> 0x800"

abbreviation (input) FATTR4_WORD2_SUPPATTR_EXCLCREAT :: u32 where
  "FATTR4_WORD2_SUPPATTR_EXCLCREAT \<equiv> 0x800"

abbreviation (input) FATTR4_WORD0_ACL :: u32 where
  "FATTR4_WORD0_ACL \<equiv> 0x1000"

abbreviation (input) FATTR4_WORD0_ACLSUPPORT :: u32 where
  "FATTR4_WORD0_ACLSUPPORT \<equiv> 0x2000"

abbreviation (input) FATTR4_WORD0_ARCHIVE :: u32 where
  "FATTR4_WORD0_ARCHIVE \<equiv> 0x4000"

abbreviation (input) FATTR4_WORD0_CANSETTIME :: u32 where
  "FATTR4_WORD0_CANSETTIME \<equiv> 0x8000"

abbreviation (input) FATTR4_WORD0_CASE_INSENSITIVE :: u32 where
  "FATTR4_WORD0_CASE_INSENSITIVE \<equiv> 0x10000"

abbreviation (input) FATTR4_WORD0_CASE_PRESERVING :: u32 where
  "FATTR4_WORD0_CASE_PRESERVING \<equiv> 0x20000"

abbreviation (input) FATTR4_WORD0_CHOWN_RESTRICTED :: u32 where
  "FATTR4_WORD0_CHOWN_RESTRICTED \<equiv> 0x40000"

abbreviation (input) FATTR4_WORD0_FILEHANDLE :: u32 where
  "FATTR4_WORD0_FILEHANDLE \<equiv> 0x80000"

abbreviation (input) FATTR4_WORD0_FILEID :: u32 where
  "FATTR4_WORD0_FILEID \<equiv> 0x100000"

abbreviation (input) FATTR4_WORD0_FILES_AVAIL :: u32 where
  "FATTR4_WORD0_FILES_AVAIL \<equiv> 0x200000"

abbreviation (input) FATTR4_WORD0_FILES_FREE :: u32 where
  "FATTR4_WORD0_FILES_FREE \<equiv> 0x400000"

abbreviation (input) FATTR4_WORD0_FILES_TOTAL :: u32 where
  "FATTR4_WORD0_FILES_TOTAL \<equiv> 0x800000"

abbreviation (input) FATTR4_WORD0_FS_LOCATIONS :: u32 where
  "FATTR4_WORD0_FS_LOCATIONS \<equiv> 0x1000000"

abbreviation (input) FATTR4_WORD0_HIDDEN :: u32 where
  "FATTR4_WORD0_HIDDEN \<equiv> 0x2000000"

abbreviation (input) FATTR4_WORD0_HOMOGENEOUS :: u32 where
  "FATTR4_WORD0_HOMOGENEOUS \<equiv> 0x4000000"

abbreviation (input) FATTR4_WORD0_MAXFILESIZE :: u32 where
  "FATTR4_WORD0_MAXFILESIZE \<equiv> 0x8000000"

abbreviation (input) FATTR4_WORD0_MAXLINK :: u32 where
  "FATTR4_WORD0_MAXLINK \<equiv> 0x10000000"

abbreviation (input) FATTR4_WORD0_MAXNAME :: u32 where
  "FATTR4_WORD0_MAXNAME \<equiv> 0x20000000"

abbreviation (input) FATTR4_WORD0_MAXREAD :: u32 where
  "FATTR4_WORD0_MAXREAD \<equiv> 0x40000000"

abbreviation (input) FATTR4_WORD0_MAXWRITE :: u32 where
  "FATTR4_WORD0_MAXWRITE \<equiv> 0x80000000"

abbreviation (input) FATTR4_WORD1_MIMETYPE :: u32 where
  "FATTR4_WORD1_MIMETYPE \<equiv> 0x1"

abbreviation (input) FATTR4_WORD1_MODE :: u32 where
  "FATTR4_WORD1_MODE \<equiv> 0x2"

abbreviation (input) FATTR4_WORD1_NO_TRUNC :: u32 where
  "FATTR4_WORD1_NO_TRUNC \<equiv> 0x4"

abbreviation (input) FATTR4_WORD1_NUMLINKS :: u32 where
  "FATTR4_WORD1_NUMLINKS \<equiv> 0x8"

abbreviation (input) FATTR4_WORD1_OWNER :: u32 where
  "FATTR4_WORD1_OWNER \<equiv> 0x10"

abbreviation (input) FATTR4_WORD1_OWNER_GROUP :: u32 where
  "FATTR4_WORD1_OWNER_GROUP \<equiv> 0x20"

abbreviation (input) FATTR4_WORD1_QUOTA_HARD :: u32 where
  "FATTR4_WORD1_QUOTA_HARD \<equiv> 0x40"

abbreviation (input) FATTR4_WORD1_QUOTA_SOFT :: u32 where
  "FATTR4_WORD1_QUOTA_SOFT \<equiv> 0x80"

abbreviation (input) FATTR4_WORD1_QUOTA_USED :: u32 where
  "FATTR4_WORD1_QUOTA_USED \<equiv> 0x100"

abbreviation (input) FATTR4_WORD1_RAWDEV :: u32 where
  "FATTR4_WORD1_RAWDEV \<equiv> 0x200"

abbreviation (input) FATTR4_WORD1_SPACE_AVAIL :: u32 where
  "FATTR4_WORD1_SPACE_AVAIL \<equiv> 0x400"

abbreviation (input) FATTR4_WORD1_SPACE_FREE :: u32 where
  "FATTR4_WORD1_SPACE_FREE \<equiv> 0x800"

abbreviation (input) FATTR4_WORD1_SPACE_TOTAL :: u32 where
  "FATTR4_WORD1_SPACE_TOTAL \<equiv> 0x1000"

abbreviation (input) FATTR4_WORD1_SPACE_USED :: u32 where
  "FATTR4_WORD1_SPACE_USED \<equiv> 0x2000"

abbreviation (input) FATTR4_WORD1_SYSTEM :: u32 where
  "FATTR4_WORD1_SYSTEM \<equiv> 0x4000"

abbreviation (input) FATTR4_WORD1_TIME_ACCESS :: u32 where
  "FATTR4_WORD1_TIME_ACCESS \<equiv> 0x8000"

abbreviation (input) FATTR4_WORD1_TIME_ACCESS_SET :: u32 where
  "FATTR4_WORD1_TIME_ACCESS_SET \<equiv> 0x10000"

abbreviation (input) FATTR4_WORD1_TIME_BACKUP :: u32 where
  "FATTR4_WORD1_TIME_BACKUP \<equiv> 0x20000"

abbreviation (input) FATTR4_WORD1_TIME_CREATE :: u32 where
  "FATTR4_WORD1_TIME_CREATE \<equiv> 0x40000"

abbreviation (input) FATTR4_WORD1_TIME_DELTA :: u32 where
  "FATTR4_WORD1_TIME_DELTA \<equiv> 0x80000"

abbreviation (input) FATTR4_WORD1_TIME_METADATA :: u32 where
  "FATTR4_WORD1_TIME_METADATA \<equiv> 0x100000"

abbreviation (input) FATTR4_WORD1_TIME_MODIFY :: u32 where
  "FATTR4_WORD1_TIME_MODIFY \<equiv> 0x200000"

abbreviation (input) FATTR4_WORD1_TIME_MODIFY_SET :: u32 where
  "FATTR4_WORD1_TIME_MODIFY_SET \<equiv> 0x400000"

abbreviation (input) FATTR4_WORD1_MOUNTED_ON_FILEID :: u32 where
  "FATTR4_WORD1_MOUNTED_ON_FILEID \<equiv> 0x800000"

abbreviation (input) FATTR4_WORD1_FS_LAYOUT_TYPES :: u32 where
  "FATTR4_WORD1_FS_LAYOUT_TYPES \<equiv> 0x40000000"

abbreviation (input) FATTR4_WORD2_LAYOUT_TYPES :: u32 where
  "FATTR4_WORD2_LAYOUT_TYPES \<equiv> 0x1"

abbreviation (input) FATTR4_WORD2_LAYOUT_BLKSIZE :: u32 where
  "FATTR4_WORD2_LAYOUT_BLKSIZE \<equiv> 0x2"

abbreviation (input) FATTR4_WORD2_MDSTHRESHOLD :: u32 where
  "FATTR4_WORD2_MDSTHRESHOLD \<equiv> 0x10"

abbreviation (input) FATTR4_WORD2_SECURITY_LABEL :: u32 where
  "FATTR4_WORD2_SECURITY_LABEL \<equiv> 0x10000"

abbreviation (input) THRESHOLD_RD :: u32 where
  "THRESHOLD_RD \<equiv> 0x1"

abbreviation (input) THRESHOLD_WR :: u32 where
  "THRESHOLD_WR \<equiv> 0x2"

abbreviation (input) THRESHOLD_RD_IO :: u32 where
  "THRESHOLD_RD_IO \<equiv> 0x4"

abbreviation (input) THRESHOLD_WR_IO :: u32 where
  "THRESHOLD_WR_IO \<equiv> 0x8"

abbreviation (input) NFS_ATTR_FATTR_TYPE :: u32 where
  "NFS_ATTR_FATTR_TYPE \<equiv> 0x1"

abbreviation (input) NFS_ATTR_FATTR_MODE :: u32 where
  "NFS_ATTR_FATTR_MODE \<equiv> 0x2"

abbreviation (input) NFS_ATTR_FATTR_NLINK :: u32 where
  "NFS_ATTR_FATTR_NLINK \<equiv> 0x4"

abbreviation (input) NFS_ATTR_FATTR_OWNER :: u32 where
  "NFS_ATTR_FATTR_OWNER \<equiv> 0x8"

abbreviation (input) NFS_ATTR_FATTR_GROUP :: u32 where
  "NFS_ATTR_FATTR_GROUP \<equiv> 0x10"

abbreviation (input) NFS_ATTR_FATTR_RDEV :: u32 where
  "NFS_ATTR_FATTR_RDEV \<equiv> 0x20"

abbreviation (input) NFS_ATTR_FATTR_SIZE :: u32 where
  "NFS_ATTR_FATTR_SIZE \<equiv> 0x40"

abbreviation (input) NFS_ATTR_FATTR_PRESIZE :: u32 where
  "NFS_ATTR_FATTR_PRESIZE \<equiv> 0x80"

abbreviation (input) NFS_ATTR_FATTR_BLOCKS_USED :: u32 where
  "NFS_ATTR_FATTR_BLOCKS_USED \<equiv> 0x100"

abbreviation (input) NFS_ATTR_FATTR_SPACE_USED :: u32 where
  "NFS_ATTR_FATTR_SPACE_USED \<equiv> 0x200"

abbreviation (input) NFS_ATTR_FATTR_FSID :: u32 where
  "NFS_ATTR_FATTR_FSID \<equiv> 0x400"

abbreviation (input) NFS_ATTR_FATTR_FILEID :: u32 where
  "NFS_ATTR_FATTR_FILEID \<equiv> 0x800"

abbreviation (input) NFS_ATTR_FATTR_ATIME :: u32 where
  "NFS_ATTR_FATTR_ATIME \<equiv> 0x1000"

abbreviation (input) NFS_ATTR_FATTR_MTIME :: u32 where
  "NFS_ATTR_FATTR_MTIME \<equiv> 0x2000"

abbreviation (input) NFS_ATTR_FATTR_CTIME :: u32 where
  "NFS_ATTR_FATTR_CTIME \<equiv> 0x4000"

abbreviation (input) NFS_ATTR_FATTR_PREMTIME :: u32 where
  "NFS_ATTR_FATTR_PREMTIME \<equiv> 0x8000"

abbreviation (input) NFS_ATTR_FATTR_PRECTIME :: u32 where
  "NFS_ATTR_FATTR_PRECTIME \<equiv> 0x10000"

abbreviation (input) NFS_ATTR_FATTR_CHANGE :: u32 where
  "NFS_ATTR_FATTR_CHANGE \<equiv> 0x20000"

abbreviation (input) NFS_ATTR_FATTR_PRECHANGE :: u32 where
  "NFS_ATTR_FATTR_PRECHANGE \<equiv> 0x40000"

abbreviation (input) NFS_ATTR_FATTR_V4_LOCATIONS :: u32 where
  "NFS_ATTR_FATTR_V4_LOCATIONS \<equiv> 0x80000"

abbreviation (input) NFS_ATTR_FATTR_V4_REFERRAL :: u32 where
  "NFS_ATTR_FATTR_V4_REFERRAL \<equiv> 0x100000"

abbreviation (input) NFS_ATTR_FATTR_MOUNTPOINT :: u32 where
  "NFS_ATTR_FATTR_MOUNTPOINT \<equiv> 0x200000"

abbreviation (input) NFS_ATTR_FATTR_MOUNTED_ON_FILEID :: u32 where
  "NFS_ATTR_FATTR_MOUNTED_ON_FILEID \<equiv> 0x400000"

abbreviation (input) NFS_ATTR_FATTR_OWNER_NAME :: u32 where
  "NFS_ATTR_FATTR_OWNER_NAME \<equiv> 0x800000"

abbreviation (input) NFS_ATTR_FATTR_GROUP_NAME :: u32 where
  "NFS_ATTR_FATTR_GROUP_NAME \<equiv> 0x1000000"

abbreviation (input) NFS_ATTR_FATTR_V4_SECURITY_LABEL :: u32 where
  "NFS_ATTR_FATTR_V4_SECURITY_LABEL \<equiv> 0x2000000"

section \<open>Limits and flags\<close>

abbreviation (input) NFS4_BITMAP_SIZE :: nat where
  "NFS4_BITMAP_SIZE \<equiv> 2"

abbreviation (input) NFS4_VERIFIER_SIZE :: nat where
  "NFS4_VERIFIER_SIZE \<equiv> 8"

abbreviation (input) NFS4_STATEID_SEQID_SIZE :: nat where
  "NFS4_STATEID_SEQID_SIZE \<equiv> 4"

abbreviation (input) NFS4_STATEID_OTHER_SIZE :: nat where
  "NFS4_STATEID_OTHER_SIZE \<equiv> 12"

abbreviation (input) NFS4_STATEID_SIZE :: nat where
  "NFS4_STATEID_SIZE \<equiv> NFS4_STATEID_SEQID_SIZE + NFS4_STATEID_OTHER_SIZE"

abbreviation (input) NFS4_FHSIZE :: nat where
  "NFS4_FHSIZE \<equiv> 128"

abbreviation (input) NFS4_MAXPATHLEN :: nat where
  "NFS4_MAXPATHLEN \<equiv> 4096"

abbreviation (input) NFS4_MAXNAMLEN :: nat where
  "NFS4_MAXNAMLEN \<equiv> 255"

abbreviation (input) NFS4_OPAQUE_LIMIT :: nat where
  "NFS4_OPAQUE_LIMIT \<equiv> 1024"

abbreviation (input) NFS4_MAX_SESSIONID_LEN :: nat where
  "NFS4_MAX_SESSIONID_LEN \<equiv> 16"

abbreviation (input) NFS4_ACCESS_READ :: u32 where
  "NFS4_ACCESS_READ \<equiv> 0x0001"

abbreviation (input) NFS4_ACCESS_LOOKUP :: u32 where
  "NFS4_ACCESS_LOOKUP \<equiv> 0x0002"

abbreviation (input) NFS4_ACCESS_MODIFY :: u32 where
  "NFS4_ACCESS_MODIFY \<equiv> 0x0004"

abbreviation (input) NFS4_ACCESS_EXTEND :: u32 where
  "NFS4_ACCESS_EXTEND \<equiv> 0x0008"

abbreviation (input) NFS4_ACCESS_DELETE :: u32 where
  "NFS4_ACCESS_DELETE \<equiv> 0x0010"

abbreviation (input) NFS4_ACCESS_EXECUTE :: u32 where
  "NFS4_ACCESS_EXECUTE \<equiv> 0x0020"

abbreviation (input) NFS4_FH_PERSISTENT :: u32 where
  "NFS4_FH_PERSISTENT \<equiv> 0x0000"

abbreviation (input) NFS4_FH_NOEXPIRE_WITH_OPEN :: u32 where
  "NFS4_FH_NOEXPIRE_WITH_OPEN \<equiv> 0x0001"

abbreviation (input) NFS4_FH_VOLATILE_ANY :: u32 where
  "NFS4_FH_VOLATILE_ANY \<equiv> 0x0002"

abbreviation (input) NFS4_FH_VOL_MIGRATION :: u32 where
  "NFS4_FH_VOL_MIGRATION \<equiv> 0x0004"

abbreviation (input) NFS4_FH_VOL_RENAME :: u32 where
  "NFS4_FH_VOL_RENAME \<equiv> 0x0008"

abbreviation (input) NFS4_OPEN_RESULT_CONFIRM :: u32 where
  "NFS4_OPEN_RESULT_CONFIRM \<equiv> 0x0002"

abbreviation (input) NFS4_OPEN_RESULT_LOCKTYPE_POSIX :: u32 where
  "NFS4_OPEN_RESULT_LOCKTYPE_POSIX \<equiv> 0x0004"

abbreviation (input) NFS4_SHARE_ACCESS_MASK :: u32 where
  "NFS4_SHARE_ACCESS_MASK \<equiv> 0x000F"

abbreviation (input) NFS4_SHARE_ACCESS_READ :: u32 where
  "NFS4_SHARE_ACCESS_READ \<equiv> 0x0001"

abbreviation (input) NFS4_SHARE_ACCESS_WRITE :: u32 where
  "NFS4_SHARE_ACCESS_WRITE \<equiv> 0x0002"

abbreviation (input) NFS4_SHARE_ACCESS_BOTH :: u32 where
  "NFS4_SHARE_ACCESS_BOTH \<equiv> 0x0003"

abbreviation (input) NFS4_SHARE_DENY_READ :: u32 where
  "NFS4_SHARE_DENY_READ \<equiv> 0x0001"

abbreviation (input) NFS4_SHARE_DENY_WRITE :: u32 where
  "NFS4_SHARE_DENY_WRITE \<equiv> 0x0002"

abbreviation (input) NFS4_SHARE_DENY_BOTH :: u32 where
  "NFS4_SHARE_DENY_BOTH \<equiv> 0x0003"

abbreviation (input) NFS4_SHARE_WANT_MASK :: u32 where
  "NFS4_SHARE_WANT_MASK \<equiv> 0xFF00"

abbreviation (input) NFS4_SHARE_WANT_NO_PREFERENCE :: u32 where
  "NFS4_SHARE_WANT_NO_PREFERENCE \<equiv> 0x0000"

abbreviation (input) NFS4_SHARE_WANT_READ_DELEG :: u32 where
  "NFS4_SHARE_WANT_READ_DELEG \<equiv> 0x0100"

abbreviation (input) NFS4_SHARE_WANT_WRITE_DELEG :: u32 where
  "NFS4_SHARE_WANT_WRITE_DELEG \<equiv> 0x0200"

abbreviation (input) NFS4_SHARE_WANT_ANY_DELEG :: u32 where
  "NFS4_SHARE_WANT_ANY_DELEG \<equiv> 0x0300"

abbreviation (input) NFS4_SHARE_WANT_NO_DELEG :: u32 where
  "NFS4_SHARE_WANT_NO_DELEG \<equiv> 0x0400"

abbreviation (input) NFS4_SHARE_WANT_CANCEL :: u32 where
  "NFS4_SHARE_WANT_CANCEL \<equiv> 0x0500"

abbreviation (input) NFS4_SHARE_WHEN_MASK :: u32 where
  "NFS4_SHARE_WHEN_MASK \<equiv> 0xF0000"

abbreviation (input) NFS4_SHARE_SIGNAL_DELEG_WHEN_RESRC_AVAIL :: u32 where
  "NFS4_SHARE_SIGNAL_DELEG_WHEN_RESRC_AVAIL \<equiv> 0x10000"

abbreviation (input) NFS4_SHARE_PUSH_DELEG_WHEN_UNCONTENDED :: u32 where
  "NFS4_SHARE_PUSH_DELEG_WHEN_UNCONTENDED \<equiv> 0x20000"

abbreviation (input) NFS4_CDFC4_FORE :: u32 where
  "NFS4_CDFC4_FORE \<equiv> 0x1"

abbreviation (input) NFS4_CDFC4_BACK :: u32 where
  "NFS4_CDFC4_BACK \<equiv> 0x2"

abbreviation (input) NFS4_CDFC4_BOTH :: u32 where
  "NFS4_CDFC4_BOTH \<equiv> 0x3"

abbreviation (input) NFS4_CDFC4_FORE_OR_BOTH :: u32 where
  "NFS4_CDFC4_FORE_OR_BOTH \<equiv> 0x3"

abbreviation (input) NFS4_CDFC4_BACK_OR_BOTH :: u32 where
  "NFS4_CDFC4_BACK_OR_BOTH \<equiv> 0x7"

abbreviation (input) NFS4_CDFS4_FORE :: u32 where
  "NFS4_CDFS4_FORE \<equiv> 0x1"

abbreviation (input) NFS4_CDFS4_BACK :: u32 where
  "NFS4_CDFS4_BACK \<equiv> 0x2"

abbreviation (input) NFS4_CDFS4_BOTH :: u32 where
  "NFS4_CDFS4_BOTH \<equiv> 0x3"

abbreviation (input) NFS4_SET_TO_SERVER_TIME :: u32 where
  "NFS4_SET_TO_SERVER_TIME \<equiv> 0"

abbreviation (input) NFS4_SET_TO_CLIENT_TIME :: u32 where
  "NFS4_SET_TO_CLIENT_TIME \<equiv> 1"

abbreviation (input) NFS4_ACE_ACCESS_ALLOWED_ACE_TYPE :: u32 where
  "NFS4_ACE_ACCESS_ALLOWED_ACE_TYPE \<equiv> 0"

abbreviation (input) NFS4_ACE_ACCESS_DENIED_ACE_TYPE :: u32 where
  "NFS4_ACE_ACCESS_DENIED_ACE_TYPE \<equiv> 1"

abbreviation (input) NFS4_ACE_SYSTEM_AUDIT_ACE_TYPE :: u32 where
  "NFS4_ACE_SYSTEM_AUDIT_ACE_TYPE \<equiv> 2"

abbreviation (input) NFS4_ACE_SYSTEM_ALARM_ACE_TYPE :: u32 where
  "NFS4_ACE_SYSTEM_ALARM_ACE_TYPE \<equiv> 3"

abbreviation (input) ACL4_SUPPORT_ALLOW_ACL :: u32 where
  "ACL4_SUPPORT_ALLOW_ACL \<equiv> 0x01"

abbreviation (input) ACL4_SUPPORT_DENY_ACL :: u32 where
  "ACL4_SUPPORT_DENY_ACL \<equiv> 0x02"

abbreviation (input) ACL4_SUPPORT_AUDIT_ACL :: u32 where
  "ACL4_SUPPORT_AUDIT_ACL \<equiv> 0x04"

abbreviation (input) ACL4_SUPPORT_ALARM_ACL :: u32 where
  "ACL4_SUPPORT_ALARM_ACL \<equiv> 0x08"

abbreviation (input) NFS4_ACE_FILE_INHERIT_ACE :: u32 where
  "NFS4_ACE_FILE_INHERIT_ACE \<equiv> 0x00000001"

abbreviation (input) NFS4_ACE_DIRECTORY_INHERIT_ACE :: u32 where
  "NFS4_ACE_DIRECTORY_INHERIT_ACE \<equiv> 0x00000002"

abbreviation (input) NFS4_ACE_NO_PROPAGATE_INHERIT_ACE :: u32 where
  "NFS4_ACE_NO_PROPAGATE_INHERIT_ACE \<equiv> 0x00000004"

abbreviation (input) NFS4_ACE_INHERIT_ONLY_ACE :: u32 where
  "NFS4_ACE_INHERIT_ONLY_ACE \<equiv> 0x00000008"

abbreviation (input) NFS4_ACE_SUCCESSFUL_ACCESS_ACE_FLAG :: u32 where
  "NFS4_ACE_SUCCESSFUL_ACCESS_ACE_FLAG \<equiv> 0x00000010"

abbreviation (input) NFS4_ACE_FAILED_ACCESS_ACE_FLAG :: u32 where
  "NFS4_ACE_FAILED_ACCESS_ACE_FLAG \<equiv> 0x00000020"

abbreviation (input) NFS4_ACE_IDENTIFIER_GROUP :: u32 where
  "NFS4_ACE_IDENTIFIER_GROUP \<equiv> 0x00000040"

abbreviation (input) NFS4_ACE_READ_DATA :: u32 where
  "NFS4_ACE_READ_DATA \<equiv> 0x00000001"

abbreviation (input) NFS4_ACE_LIST_DIRECTORY :: u32 where
  "NFS4_ACE_LIST_DIRECTORY \<equiv> 0x00000001"

abbreviation (input) NFS4_ACE_WRITE_DATA :: u32 where
  "NFS4_ACE_WRITE_DATA \<equiv> 0x00000002"

abbreviation (input) NFS4_ACE_ADD_FILE :: u32 where
  "NFS4_ACE_ADD_FILE \<equiv> 0x00000002"

abbreviation (input) NFS4_ACE_APPEND_DATA :: u32 where
  "NFS4_ACE_APPEND_DATA \<equiv> 0x00000004"

abbreviation (input) NFS4_ACE_ADD_SUBDIRECTORY :: u32 where
  "NFS4_ACE_ADD_SUBDIRECTORY \<equiv> 0x00000004"

abbreviation (input) NFS4_ACE_READ_NAMED_ATTRS :: u32 where
  "NFS4_ACE_READ_NAMED_ATTRS \<equiv> 0x00000008"

abbreviation (input) NFS4_ACE_WRITE_NAMED_ATTRS :: u32 where
  "NFS4_ACE_WRITE_NAMED_ATTRS \<equiv> 0x00000010"

abbreviation (input) NFS4_ACE_EXECUTE :: u32 where
  "NFS4_ACE_EXECUTE \<equiv> 0x00000020"

abbreviation (input) NFS4_ACE_DELETE_CHILD :: u32 where
  "NFS4_ACE_DELETE_CHILD \<equiv> 0x00000040"

abbreviation (input) NFS4_ACE_READ_ATTRIBUTES :: u32 where
  "NFS4_ACE_READ_ATTRIBUTES \<equiv> 0x00000080"

abbreviation (input) NFS4_ACE_WRITE_ATTRIBUTES :: u32 where
  "NFS4_ACE_WRITE_ATTRIBUTES \<equiv> 0x00000100"

abbreviation (input) NFS4_ACE_DELETE :: u32 where
  "NFS4_ACE_DELETE \<equiv> 0x00010000"

abbreviation (input) NFS4_ACE_READ_ACL :: u32 where
  "NFS4_ACE_READ_ACL \<equiv> 0x00020000"

abbreviation (input) NFS4_ACE_WRITE_ACL :: u32 where
  "NFS4_ACE_WRITE_ACL \<equiv> 0x00040000"

abbreviation (input) NFS4_ACE_WRITE_OWNER :: u32 where
  "NFS4_ACE_WRITE_OWNER \<equiv> 0x00080000"

abbreviation (input) NFS4_ACE_SYNCHRONIZE :: u32 where
  "NFS4_ACE_SYNCHRONIZE \<equiv> 0x00100000"

abbreviation (input) NFS4_ACE_GENERIC_READ :: u32 where
  "NFS4_ACE_GENERIC_READ \<equiv> 0x00120081"

abbreviation (input) NFS4_ACE_GENERIC_WRITE :: u32 where
  "NFS4_ACE_GENERIC_WRITE \<equiv> 0x00160106"

abbreviation (input) NFS4_ACE_GENERIC_EXECUTE :: u32 where
  "NFS4_ACE_GENERIC_EXECUTE \<equiv> 0x001200A0"

abbreviation (input) NFS4_ACE_MASK_ALL :: u32 where
  "NFS4_ACE_MASK_ALL \<equiv> 0x001F01FF"

abbreviation (input) EXCHGID4_FLAG_SUPP_MOVED_REFER :: u32 where
  "EXCHGID4_FLAG_SUPP_MOVED_REFER \<equiv> 0x00000001"

abbreviation (input) EXCHGID4_FLAG_SUPP_MOVED_MIGR :: u32 where
  "EXCHGID4_FLAG_SUPP_MOVED_MIGR \<equiv> 0x00000002"

abbreviation (input) EXCHGID4_FLAG_BIND_PRINC_STATEID :: u32 where
  "EXCHGID4_FLAG_BIND_PRINC_STATEID \<equiv> 0x00000100"

abbreviation (input) EXCHGID4_FLAG_USE_NON_PNFS :: u32 where
  "EXCHGID4_FLAG_USE_NON_PNFS \<equiv> 0x00010000"

abbreviation (input) EXCHGID4_FLAG_USE_PNFS_MDS :: u32 where
  "EXCHGID4_FLAG_USE_PNFS_MDS \<equiv> 0x00020000"

abbreviation (input) EXCHGID4_FLAG_USE_PNFS_DS :: u32 where
  "EXCHGID4_FLAG_USE_PNFS_DS \<equiv> 0x00040000"

abbreviation (input) EXCHGID4_FLAG_MASK_PNFS :: u32 where
  "EXCHGID4_FLAG_MASK_PNFS \<equiv> 0x00070000"

abbreviation (input) EXCHGID4_FLAG_UPD_CONFIRMED_REC_A :: u32 where
  "EXCHGID4_FLAG_UPD_CONFIRMED_REC_A \<equiv> 0x40000000"

abbreviation (input) EXCHGID4_FLAG_CONFIRMED_R :: u32 where
  "EXCHGID4_FLAG_CONFIRMED_R \<equiv> 0x80000000"

abbreviation (input) EXCHGID4_FLAG_MASK_A :: u32 where
  "EXCHGID4_FLAG_MASK_A \<equiv> 0x40070103"

abbreviation (input) EXCHGID4_FLAG_MASK_R :: u32 where
  "EXCHGID4_FLAG_MASK_R \<equiv> 0x80070103"

abbreviation (input) SEQ4_STATUS_CB_PATH_DOWN :: u32 where
  "SEQ4_STATUS_CB_PATH_DOWN \<equiv> 0x00000001"

abbreviation (input) SEQ4_STATUS_CB_GSS_CONTEXTS_EXPIRING :: u32 where
  "SEQ4_STATUS_CB_GSS_CONTEXTS_EXPIRING \<equiv> 0x00000002"

abbreviation (input) SEQ4_STATUS_CB_GSS_CONTEXTS_EXPIRED :: u32 where
  "SEQ4_STATUS_CB_GSS_CONTEXTS_EXPIRED \<equiv> 0x00000004"

abbreviation (input) SEQ4_STATUS_EXPIRED_ALL_STATE_REVOKED :: u32 where
  "SEQ4_STATUS_EXPIRED_ALL_STATE_REVOKED \<equiv> 0x00000008"

abbreviation (input) SEQ4_STATUS_EXPIRED_SOME_STATE_REVOKED :: u32 where
  "SEQ4_STATUS_EXPIRED_SOME_STATE_REVOKED \<equiv> 0x00000010"

abbreviation (input) SEQ4_STATUS_ADMIN_STATE_REVOKED :: u32 where
  "SEQ4_STATUS_ADMIN_STATE_REVOKED \<equiv> 0x00000020"

abbreviation (input) SEQ4_STATUS_RECALLABLE_STATE_REVOKED :: u32 where
  "SEQ4_STATUS_RECALLABLE_STATE_REVOKED \<equiv> 0x00000040"

abbreviation (input) SEQ4_STATUS_LEASE_MOVED :: u32 where
  "SEQ4_STATUS_LEASE_MOVED \<equiv> 0x00000080"

abbreviation (input) SEQ4_STATUS_RESTART_RECLAIM_NEEDED :: u32 where
  "SEQ4_STATUS_RESTART_RECLAIM_NEEDED \<equiv> 0x00000100"

abbreviation (input) SEQ4_STATUS_CB_PATH_DOWN_SESSION :: u32 where
  "SEQ4_STATUS_CB_PATH_DOWN_SESSION \<equiv> 0x00000200"

abbreviation (input) SEQ4_STATUS_BACKCHANNEL_FAULT :: u32 where
  "SEQ4_STATUS_BACKCHANNEL_FAULT \<equiv> 0x00000400"

abbreviation (input) NFS4_SECINFO_STYLE4_CURRENT_FH :: u32 where
  "NFS4_SECINFO_STYLE4_CURRENT_FH \<equiv> 0"

abbreviation (input) NFS4_SECINFO_STYLE4_PARENT :: u32 where
  "NFS4_SECINFO_STYLE4_PARENT \<equiv> 1"

abbreviation (input) NFS4_MAX_OPS :: nat where
  "NFS4_MAX_OPS \<equiv> 100"

abbreviation (input) NFS4_MAX_BACK_CHANNEL_OPS :: nat where
  "NFS4_MAX_BACK_CHANNEL_OPS \<equiv> 2"

abbreviation (input) NFS4_MAXLABELLEN :: nat where
  "NFS4_MAXLABELLEN \<equiv> 2048"

abbreviation (input) NFS4_DEVICEID4_SIZE :: nat where
  "NFS4_DEVICEID4_SIZE \<equiv> 16"

abbreviation (input) PNFS_LAYOUT_MAXSIZE :: nat where
  "PNFS_LAYOUT_MAXSIZE \<equiv> 4096"

abbreviation (input) NFS4_SETCLIENTID_NAMELEN :: nat where
  "NFS4_SETCLIENTID_NAMELEN \<equiv> 127"

abbreviation (input) NFS4_EXCHANGE_ID_LEN :: nat where
  "NFS4_EXCHANGE_ID_LEN \<equiv> 127"

text \<open>The operation maps of EXCHANGE_ID: one bit per operation in 64-bit longs, sent as 32-bit
  words (\<open>LAST_NFS4_OP\<close> is \<open>OP_WRITE_SAME\<close>).\<close>

definition NFS4_OP_MAP_NUM_LONGS :: nat where [maxsz_defs]:
  "NFS4_OP_MAP_NUM_LONGS = (unat (opnum OP_WRITE_SAME) + (8 * 8 - 1)) div (8 * 8)"

definition NFS4_OP_MAP_NUM_WORDS :: nat where [maxsz_defs]:
  "NFS4_OP_MAP_NUM_WORDS = NFS4_OP_MAP_NUM_LONGS * 8 div 4"

abbreviation (input) NFS_MAX_SECFLAVORS :: nat where
  "NFS_MAX_SECFLAVORS \<equiv> 12"

section \<open>Errno values of the platform\<close>

abbreviation (input) EPERM :: int where
  "EPERM \<equiv> 1"

abbreviation (input) ENOENT :: int where
  "ENOENT \<equiv> 2"

abbreviation (input) EIO :: int where
  "EIO \<equiv> 5"

abbreviation (input) ENXIO :: int where
  "ENXIO \<equiv> 6"

abbreviation (input) EBADF :: int where
  "EBADF \<equiv> 9"

abbreviation (input) EAGAIN :: int where
  "EAGAIN \<equiv> 11"

abbreviation (input) ENOMEM :: int where
  "ENOMEM \<equiv> 12"

abbreviation (input) EACCES :: int where
  "EACCES \<equiv> 13"

abbreviation (input) EBUSY :: int where
  "EBUSY \<equiv> 16"

abbreviation (input) EEXIST :: int where
  "EEXIST \<equiv> 17"

abbreviation (input) EXDEV :: int where
  "EXDEV \<equiv> 18"

abbreviation (input) ENOTDIR :: int where
  "ENOTDIR \<equiv> 20"

abbreviation (input) EISDIR :: int where
  "EISDIR \<equiv> 21"

abbreviation (input) EINVAL :: int where
  "EINVAL \<equiv> 22"

abbreviation (input) EFBIG :: int where
  "EFBIG \<equiv> 27"

abbreviation (input) ENOSPC :: int where
  "ENOSPC \<equiv> 28"

abbreviation (input) EROFS :: int where
  "EROFS \<equiv> 30"

abbreviation (input) EMLINK :: int where
  "EMLINK \<equiv> 31"

abbreviation (input) EDEADLK :: int where
  "EDEADLK \<equiv> 35"

abbreviation (input) ENAMETOOLONG :: int where
  "ENAMETOOLONG \<equiv> 36"

abbreviation (input) ENOTEMPTY :: int where
  "ENOTEMPTY \<equiv> 39"

abbreviation (input) ELOOP :: int where
  "ELOOP \<equiv> 40"

abbreviation (input) EOPNOTSUPP :: int where
  "EOPNOTSUPP \<equiv> 95"

abbreviation (input) ESTALE :: int where
  "ESTALE \<equiv> 116"

abbreviation (input) EREMOTEIO :: int where
  "EREMOTEIO \<equiv> 121"

abbreviation (input) EDQUOT :: int where
  "EDQUOT \<equiv> 122"

abbreviation (input) ECHILD :: int where
  "ECHILD \<equiv> 10"

abbreviation (input) EBADHANDLE :: int where
  "EBADHANDLE \<equiv> 521"

abbreviation (input) EBADCOOKIE :: int where
  "EBADCOOKIE \<equiv> 523"

abbreviation (input) ENOTSUPP :: int where
  "ENOTSUPP \<equiv> 524"

abbreviation (input) ETOOSMALL :: int where
  "ETOOSMALL \<equiv> 525"

abbreviation (input) EBADTYPE :: int where
  "EBADTYPE \<equiv> 527"

section \<open>Which errors advance a sequence id\<close>

text \<open>\<^verbatim>\<open>seqid_mutating_err\<close>: RFC 3530, section 8.1.5.\<close>

definition seqid_mutating_err :: "u32 \<Rightarrow> bool" where
  "seqid_mutating_err err =
     (err \<notin> {10022, 10023, 10025, 10026, 10036, 10018, 10020})"

section \<open>From server status codes to errno values\<close>

definition nfs_errtbl :: "(int \<times> int) list" where
  "nfs_errtbl =
    [(NFS4_OK, 0),
     (NFS4ERR_PERM, - EPERM),
     (NFS4ERR_NOENT, - ENOENT),
     (NFS4ERR_IO, - EIO),
     (NFS4ERR_NXIO, - ENXIO),
     (NFS4ERR_ACCESS, - EACCES),
     (NFS4ERR_EXIST, - EEXIST),
     (NFS4ERR_XDEV, - EXDEV),
     (NFS4ERR_NOTDIR, - ENOTDIR),
     (NFS4ERR_ISDIR, - EISDIR),
     (NFS4ERR_INVAL, - EINVAL),
     (NFS4ERR_FBIG, - EFBIG),
     (NFS4ERR_NOSPC, - ENOSPC),
     (NFS4ERR_ROFS, - EROFS),
     (NFS4ERR_MLINK, - EMLINK),
     (NFS4ERR_NAMETOOLONG, - ENAMETOOLONG),
     (NFS4ERR_NOTEMPTY, - ENOTEMPTY),
     (NFS4ERR_DQUOT, - EDQUOT),
     (NFS4ERR_STALE, - ESTALE),
     (NFS4ERR_BADHANDLE, - EBADHANDLE),
     (NFS4ERR_BAD_COOKIE, - EBADCOOKIE),
     (NFS4ERR_NOTSUPP, - ENOTSUPP),
     (NFS4ERR_TOOSMALL, - ETOOSMALL),
     (NFS4ERR_SERVERFAULT, - EREMOTEIO),
     (NFS4ERR_BADTYPE, - EBADTYPE),
     (NFS4ERR_LOCKED, - EAGAIN),
     (NFS4ERR_SYMLINK, - ELOOP),
     (NFS4ERR_OP_ILLEGAL, - EOPNOTSUPP),
     (NFS4ERR_DEADLOCK, - EDEADLK),
     (-1, - EIO)]"

text \<open>The loop over the table: it stops at the entry whose status is -1 and gives \<open>None\<close> when
  no earlier entry has the status (or when the table has no terminator, which
  \<open>nfs_errtbl\<close> has).\<close>

fun errtbl_scan :: "(int \<times> int) list \<Rightarrow> int \<Rightarrow> int option" where
  "errtbl_scan [] stat = None"
| "errtbl_scan ((st, er) # tbl) stat =
     (if st = -1 then None else if st = stat then Some er else errtbl_scan tbl stat)"

definition nfs4_stat_to_errno :: "int \<Rightarrow> int" where
  "nfs4_stat_to_errno stat =
     (case errtbl_scan nfs_errtbl stat of
        Some er \<Rightarrow> er
      | None \<Rightarrow> if stat \<le> 10000 \<or> stat > 10100 then - EREMOTEIO else - stat)"

text \<open>Facts about the enumeration and the translation that the components use.\<close>

lemma errtbl_scan_Some: "errtbl_scan tbl stat = Some er \<Longrightarrow> (stat, er) \<in> set tbl \<and> stat \<noteq> -1"
  by (induction tbl stat rule: errtbl_scan.induct) (auto split: if_splits)

lemma nfs4_stat_to_errno_zero_iff: "nfs4_stat_to_errno stat = 0 \<longleftrightarrow> stat = 0"
proof
  assume eq: "nfs4_stat_to_errno stat = 0"
  show "stat = 0"
  proof (cases "errtbl_scan nfs_errtbl stat")
    case None
    with eq show ?thesis by (auto simp: nfs4_stat_to_errno_def split: if_splits)
  next
    case (Some er)
    with eq errtbl_scan_Some [OF Some] show ?thesis
      by (auto simp: nfs4_stat_to_errno_def nfs_errtbl_def)
  qed
qed (simp add: nfs4_stat_to_errno_def nfs_errtbl_def)

lemma nfs4_stat_to_errno_noent [simp]: "nfs4_stat_to_errno 2 = - ENOENT"
  by (simp add: nfs4_stat_to_errno_def nfs_errtbl_def)

lemma nfs4_stat_to_errno_nonpos: "nfs4_stat_to_errno stat \<le> 0"
proof (cases "errtbl_scan nfs_errtbl stat")
  case None
  then show ?thesis by (auto simp: nfs4_stat_to_errno_def)
next
  case (Some er)
  with errtbl_scan_Some [OF Some] show ?thesis
    by (auto simp: nfs4_stat_to_errno_def nfs_errtbl_def)
qed

lemma nfs4_stat_to_errno_neg: "stat \<noteq> 0 \<Longrightarrow> nfs4_stat_to_errno stat < 0"
  using nfs4_stat_to_errno_nonpos [of stat] nfs4_stat_to_errno_zero_iff [of stat] by linarith

end
