(* ===== verification/Xdr_Sizes.thy ===== *)
theory Xdr_Sizes
  imports Nfs4_Const
begin

text \<open>
  The buffer-size macros of \<^verbatim>\<open>fs/nfs/nfs4xdr.c\<close>, in XDR units (32-bit words): the largest size of
  every item and operation the client encodes or decodes, and for every compound procedure the
  request size \<open>NFS4_enc_X_sz\<close> and reply size \<open>NFS4_dec_X_sz\<close> that the RPC layer allocates
  (\<open>p_arglen\<close> and \<open>p_replen\<close> of \<^verbatim>\<open>nfs4_procedures\<close>). The build modelled has
  \<open>CONFIG_NFS_V4_1\<close> and \<open>CONFIG_NFS_V4_SECURITY_LABEL\<close> set and \<open>DEBUG\<close> unset, as the stock
  CentOS 7 kernel the sources patch. The size limits that other kernel headers define are the
  fields of \<open>kconst\<close>, a parameter of every macro.
\<close>

record kconst =
  IDMAP_NAMESZ :: nat
  RPCBIND_MAXNETIDLEN :: nat
  RPCBIND_MAXUADDRLEN :: nat
  GSS_OID_MAX_LEN :: nat
  RPC_REPHDRSIZE :: nat
  RPC_MAX_AUTH_SIZE :: nat
  RPC_MAX_HEADER_WITH_AUTH :: nat
  RPC_MAX_REPHEADER_WITH_AUTH :: nat
  sizeof_utsname_sysname :: nat
  sizeof_utsname_release :: nat
  sizeof_utsname_version :: nat
  sizeof_utsname_machine :: nat

definition NFS4_MAXTAGLEN :: "'z kconst_scheme \<Rightarrow> nat" where [maxsz_defs]:
  "NFS4_MAXTAGLEN k = 0"

definition open_owner_id_maxsz :: "'z kconst_scheme \<Rightarrow> nat" where [maxsz_defs]:
  "open_owner_id_maxsz k = 1 + 2 + 1 + 1 + 2"

definition lock_owner_id_maxsz :: "'z kconst_scheme \<Rightarrow> nat" where [maxsz_defs]:
  "lock_owner_id_maxsz k = 1 + 1 + 4"

definition decode_lockowner_maxsz :: "'z kconst_scheme \<Rightarrow> nat" where [maxsz_defs]:
  "decode_lockowner_maxsz k = 1 + XDR_QUADLEN (IDMAP_NAMESZ k)"

definition compound_encode_hdr_maxsz :: "'z kconst_scheme \<Rightarrow> nat" where [maxsz_defs]:
  "compound_encode_hdr_maxsz k = 3 + (NFS4_MAXTAGLEN k div 4)"

definition compound_decode_hdr_maxsz :: "'z kconst_scheme \<Rightarrow> nat" where [maxsz_defs]:
  "compound_decode_hdr_maxsz k = 3 + (NFS4_MAXTAGLEN k div 4)"

definition op_encode_hdr_maxsz :: "'z kconst_scheme \<Rightarrow> nat" where [maxsz_defs]:
  "op_encode_hdr_maxsz k = 1"

definition op_decode_hdr_maxsz :: "'z kconst_scheme \<Rightarrow> nat" where [maxsz_defs]:
  "op_decode_hdr_maxsz k = 2"

definition encode_stateid_maxsz :: "'z kconst_scheme \<Rightarrow> nat" where [maxsz_defs]:
  "encode_stateid_maxsz k = XDR_QUADLEN NFS4_STATEID_SIZE"

definition decode_stateid_maxsz :: "'z kconst_scheme \<Rightarrow> nat" where [maxsz_defs]:
  "decode_stateid_maxsz k = XDR_QUADLEN NFS4_STATEID_SIZE"

definition encode_verifier_maxsz :: "'z kconst_scheme \<Rightarrow> nat" where [maxsz_defs]:
  "encode_verifier_maxsz k = XDR_QUADLEN NFS4_VERIFIER_SIZE"

definition decode_verifier_maxsz :: "'z kconst_scheme \<Rightarrow> nat" where [maxsz_defs]:
  "decode_verifier_maxsz k = XDR_QUADLEN NFS4_VERIFIER_SIZE"

definition encode_putfh_maxsz :: "'z kconst_scheme \<Rightarrow> nat" where [maxsz_defs]:
  "encode_putfh_maxsz k = op_encode_hdr_maxsz k + 1 + (NFS4_FHSIZE div 4)"

definition decode_putfh_maxsz :: "'z kconst_scheme \<Rightarrow> nat" where [maxsz_defs]:
  "decode_putfh_maxsz k = op_decode_hdr_maxsz k"

definition encode_putrootfh_maxsz :: "'z kconst_scheme \<Rightarrow> nat" where [maxsz_defs]:
  "encode_putrootfh_maxsz k = op_encode_hdr_maxsz k"

definition decode_putrootfh_maxsz :: "'z kconst_scheme \<Rightarrow> nat" where [maxsz_defs]:
  "decode_putrootfh_maxsz k = op_decode_hdr_maxsz k"

definition encode_getfh_maxsz :: "'z kconst_scheme \<Rightarrow> nat" where [maxsz_defs]:
  "encode_getfh_maxsz k = op_encode_hdr_maxsz k"

definition decode_getfh_maxsz :: "'z kconst_scheme \<Rightarrow> nat" where [maxsz_defs]:
  "decode_getfh_maxsz k = op_decode_hdr_maxsz k + 1 + ((3+NFS4_FHSIZE) div 4)"

definition nfs4_fattr_bitmap_maxsz :: "'z kconst_scheme \<Rightarrow> nat" where [maxsz_defs]:
  "nfs4_fattr_bitmap_maxsz k = 4"

definition encode_getattr_maxsz :: "'z kconst_scheme \<Rightarrow> nat" where [maxsz_defs]:
  "encode_getattr_maxsz k = op_encode_hdr_maxsz k + nfs4_fattr_bitmap_maxsz k"

definition nfs4_name_maxsz :: "'z kconst_scheme \<Rightarrow> nat" where [maxsz_defs]:
  "nfs4_name_maxsz k = 1 + ((3 + NFS4_MAXNAMLEN) div 4)"

definition nfs4_path_maxsz :: "'z kconst_scheme \<Rightarrow> nat" where [maxsz_defs]:
  "nfs4_path_maxsz k = 1 + ((3 + NFS4_MAXPATHLEN) div 4)"

definition nfs4_owner_maxsz :: "'z kconst_scheme \<Rightarrow> nat" where [maxsz_defs]:
  "nfs4_owner_maxsz k = 1 + XDR_QUADLEN (IDMAP_NAMESZ k)"

definition nfs4_group_maxsz :: "'z kconst_scheme \<Rightarrow> nat" where [maxsz_defs]:
  "nfs4_group_maxsz k = 1 + XDR_QUADLEN (IDMAP_NAMESZ k)"

definition nfs4_label_maxsz :: "'z kconst_scheme \<Rightarrow> nat" where [maxsz_defs]:
  "nfs4_label_maxsz k = 4 + 4 + 1 + XDR_QUADLEN NFS4_MAXLABELLEN"

definition decode_mdsthreshold_maxsz :: "'z kconst_scheme \<Rightarrow> nat" where [maxsz_defs]:
  "decode_mdsthreshold_maxsz k = 1 + 1 + nfs4_fattr_bitmap_maxsz k + 1 + 8"

definition nfs4_fattr_value_maxsz :: "'z kconst_scheme \<Rightarrow> nat" where [maxsz_defs]:
  "nfs4_fattr_value_maxsz k = 1 + (1 + 2 + 2 + 4 + 2 + 1 + 1 + 2 + 2 + 3 + 3 + 3 + nfs4_owner_maxsz k +
     nfs4_group_maxsz k + nfs4_label_maxsz k + decode_mdsthreshold_maxsz k)"

definition nfs4_fattr_maxsz :: "'z kconst_scheme \<Rightarrow> nat" where [maxsz_defs]:
  "nfs4_fattr_maxsz k = nfs4_fattr_bitmap_maxsz k + nfs4_fattr_value_maxsz k"

definition decode_getattr_maxsz :: "'z kconst_scheme \<Rightarrow> nat" where [maxsz_defs]:
  "decode_getattr_maxsz k = op_decode_hdr_maxsz k + nfs4_fattr_maxsz k"

definition encode_attrs_maxsz :: "'z kconst_scheme \<Rightarrow> nat" where [maxsz_defs]:
  "encode_attrs_maxsz k = nfs4_fattr_bitmap_maxsz k + 1 + 2 + 1 + nfs4_owner_maxsz k + nfs4_group_maxsz k +
     nfs4_label_maxsz k + 4 + 4"

definition encode_savefh_maxsz :: "'z kconst_scheme \<Rightarrow> nat" where [maxsz_defs]:
  "encode_savefh_maxsz k = op_encode_hdr_maxsz k"

definition decode_savefh_maxsz :: "'z kconst_scheme \<Rightarrow> nat" where [maxsz_defs]:
  "decode_savefh_maxsz k = op_decode_hdr_maxsz k"

definition encode_restorefh_maxsz :: "'z kconst_scheme \<Rightarrow> nat" where [maxsz_defs]:
  "encode_restorefh_maxsz k = op_encode_hdr_maxsz k"

definition decode_restorefh_maxsz :: "'z kconst_scheme \<Rightarrow> nat" where [maxsz_defs]:
  "decode_restorefh_maxsz k = op_decode_hdr_maxsz k"

definition encode_fsinfo_maxsz :: "'z kconst_scheme \<Rightarrow> nat" where [maxsz_defs]:
  "encode_fsinfo_maxsz k = encode_getattr_maxsz k"

definition decode_fsinfo_maxsz :: "'z kconst_scheme \<Rightarrow> nat" where [maxsz_defs]:
  "decode_fsinfo_maxsz k = op_decode_hdr_maxsz k + nfs4_fattr_bitmap_maxsz k + 4 + 8 + 5"

definition encode_renew_maxsz :: "'z kconst_scheme \<Rightarrow> nat" where [maxsz_defs]:
  "encode_renew_maxsz k = op_encode_hdr_maxsz k + 3"

definition decode_renew_maxsz :: "'z kconst_scheme \<Rightarrow> nat" where [maxsz_defs]:
  "decode_renew_maxsz k = op_decode_hdr_maxsz k"

definition encode_setclientid_maxsz :: "'z kconst_scheme \<Rightarrow> nat" where [maxsz_defs]:
  "encode_setclientid_maxsz k = op_encode_hdr_maxsz k + XDR_QUADLEN NFS4_VERIFIER_SIZE +
     XDR_QUADLEN NFS4_SETCLIENTID_NAMELEN + 1 + XDR_QUADLEN (RPCBIND_MAXNETIDLEN k) +
     XDR_QUADLEN (RPCBIND_MAXUADDRLEN k) + 1"

definition decode_setclientid_maxsz :: "'z kconst_scheme \<Rightarrow> nat" where [maxsz_defs]:
  "decode_setclientid_maxsz k = op_decode_hdr_maxsz k + 2 + 1024"

definition encode_setclientid_confirm_maxsz :: "'z kconst_scheme \<Rightarrow> nat" where [maxsz_defs]:
  "encode_setclientid_confirm_maxsz k = op_encode_hdr_maxsz k + 3 + (NFS4_VERIFIER_SIZE div 4)"

definition decode_setclientid_confirm_maxsz :: "'z kconst_scheme \<Rightarrow> nat" where [maxsz_defs]:
  "decode_setclientid_confirm_maxsz k = op_decode_hdr_maxsz k"

definition encode_lookup_maxsz :: "'z kconst_scheme \<Rightarrow> nat" where [maxsz_defs]:
  "encode_lookup_maxsz k = op_encode_hdr_maxsz k + nfs4_name_maxsz k"

definition decode_lookup_maxsz :: "'z kconst_scheme \<Rightarrow> nat" where [maxsz_defs]:
  "decode_lookup_maxsz k = op_decode_hdr_maxsz k"

definition encode_share_access_maxsz :: "'z kconst_scheme \<Rightarrow> nat" where [maxsz_defs]:
  "encode_share_access_maxsz k = 2"

definition encode_createmode_maxsz :: "'z kconst_scheme \<Rightarrow> nat" where [maxsz_defs]:
  "encode_createmode_maxsz k = 1 + encode_attrs_maxsz k + encode_verifier_maxsz k"

definition encode_opentype_maxsz :: "'z kconst_scheme \<Rightarrow> nat" where [maxsz_defs]:
  "encode_opentype_maxsz k = 1 + encode_createmode_maxsz k"

definition encode_claim_null_maxsz :: "'z kconst_scheme \<Rightarrow> nat" where [maxsz_defs]:
  "encode_claim_null_maxsz k = 1 + nfs4_name_maxsz k"

definition encode_open_maxsz :: "'z kconst_scheme \<Rightarrow> nat" where [maxsz_defs]:
  "encode_open_maxsz k = op_encode_hdr_maxsz k + 2 + encode_share_access_maxsz k + 2 + open_owner_id_maxsz k +
     encode_opentype_maxsz k + encode_claim_null_maxsz k"

definition decode_ace_maxsz :: "'z kconst_scheme \<Rightarrow> nat" where [maxsz_defs]:
  "decode_ace_maxsz k = 3 + nfs4_owner_maxsz k"

definition decode_delegation_maxsz :: "'z kconst_scheme \<Rightarrow> nat" where [maxsz_defs]:
  "decode_delegation_maxsz k = 1 + decode_stateid_maxsz k + 1 + decode_ace_maxsz k"

definition decode_change_info_maxsz :: "'z kconst_scheme \<Rightarrow> nat" where [maxsz_defs]:
  "decode_change_info_maxsz k = 5"

definition decode_open_maxsz :: "'z kconst_scheme \<Rightarrow> nat" where [maxsz_defs]:
  "decode_open_maxsz k = op_decode_hdr_maxsz k + decode_stateid_maxsz k + decode_change_info_maxsz k + 1 +
     nfs4_fattr_bitmap_maxsz k + decode_delegation_maxsz k"

definition encode_open_confirm_maxsz :: "'z kconst_scheme \<Rightarrow> nat" where [maxsz_defs]:
  "encode_open_confirm_maxsz k = op_encode_hdr_maxsz k + encode_stateid_maxsz k + 1"

definition decode_open_confirm_maxsz :: "'z kconst_scheme \<Rightarrow> nat" where [maxsz_defs]:
  "decode_open_confirm_maxsz k = op_decode_hdr_maxsz k + decode_stateid_maxsz k"

definition encode_open_downgrade_maxsz :: "'z kconst_scheme \<Rightarrow> nat" where [maxsz_defs]:
  "encode_open_downgrade_maxsz k = op_encode_hdr_maxsz k + encode_stateid_maxsz k + 1 + encode_share_access_maxsz k"

definition decode_open_downgrade_maxsz :: "'z kconst_scheme \<Rightarrow> nat" where [maxsz_defs]:
  "decode_open_downgrade_maxsz k = op_decode_hdr_maxsz k + decode_stateid_maxsz k"

definition encode_close_maxsz :: "'z kconst_scheme \<Rightarrow> nat" where [maxsz_defs]:
  "encode_close_maxsz k = op_encode_hdr_maxsz k + 1 + encode_stateid_maxsz k"

definition decode_close_maxsz :: "'z kconst_scheme \<Rightarrow> nat" where [maxsz_defs]:
  "decode_close_maxsz k = op_decode_hdr_maxsz k + decode_stateid_maxsz k"

definition encode_setattr_maxsz :: "'z kconst_scheme \<Rightarrow> nat" where [maxsz_defs]:
  "encode_setattr_maxsz k = op_encode_hdr_maxsz k + encode_stateid_maxsz k + encode_attrs_maxsz k"

definition decode_setattr_maxsz :: "'z kconst_scheme \<Rightarrow> nat" where [maxsz_defs]:
  "decode_setattr_maxsz k = op_decode_hdr_maxsz k + nfs4_fattr_bitmap_maxsz k"

definition encode_read_maxsz :: "'z kconst_scheme \<Rightarrow> nat" where [maxsz_defs]:
  "encode_read_maxsz k = op_encode_hdr_maxsz k + encode_stateid_maxsz k + 3"

definition decode_read_maxsz :: "'z kconst_scheme \<Rightarrow> nat" where [maxsz_defs]:
  "decode_read_maxsz k = op_decode_hdr_maxsz k + 2"

definition encode_readdir_maxsz :: "'z kconst_scheme \<Rightarrow> nat" where [maxsz_defs]:
  "encode_readdir_maxsz k = op_encode_hdr_maxsz k + 2 + encode_verifier_maxsz k + 5 + nfs4_label_maxsz k"

definition decode_readdir_maxsz :: "'z kconst_scheme \<Rightarrow> nat" where [maxsz_defs]:
  "decode_readdir_maxsz k = op_decode_hdr_maxsz k + decode_verifier_maxsz k"

definition encode_readlink_maxsz :: "'z kconst_scheme \<Rightarrow> nat" where [maxsz_defs]:
  "encode_readlink_maxsz k = op_encode_hdr_maxsz k"

definition decode_readlink_maxsz :: "'z kconst_scheme \<Rightarrow> nat" where [maxsz_defs]:
  "decode_readlink_maxsz k = op_decode_hdr_maxsz k + 1"

definition encode_write_maxsz :: "'z kconst_scheme \<Rightarrow> nat" where [maxsz_defs]:
  "encode_write_maxsz k = op_encode_hdr_maxsz k + encode_stateid_maxsz k + 4"

definition decode_write_maxsz :: "'z kconst_scheme \<Rightarrow> nat" where [maxsz_defs]:
  "decode_write_maxsz k = op_decode_hdr_maxsz k + 2 + decode_verifier_maxsz k"

definition encode_commit_maxsz :: "'z kconst_scheme \<Rightarrow> nat" where [maxsz_defs]:
  "encode_commit_maxsz k = op_encode_hdr_maxsz k + 3"

definition decode_commit_maxsz :: "'z kconst_scheme \<Rightarrow> nat" where [maxsz_defs]:
  "decode_commit_maxsz k = op_decode_hdr_maxsz k + decode_verifier_maxsz k"

definition encode_remove_maxsz :: "'z kconst_scheme \<Rightarrow> nat" where [maxsz_defs]:
  "encode_remove_maxsz k = op_encode_hdr_maxsz k + nfs4_name_maxsz k"

definition decode_remove_maxsz :: "'z kconst_scheme \<Rightarrow> nat" where [maxsz_defs]:
  "decode_remove_maxsz k = op_decode_hdr_maxsz k + decode_change_info_maxsz k"

definition encode_rename_maxsz :: "'z kconst_scheme \<Rightarrow> nat" where [maxsz_defs]:
  "encode_rename_maxsz k = op_encode_hdr_maxsz k + 2 * nfs4_name_maxsz k"

definition decode_rename_maxsz :: "'z kconst_scheme \<Rightarrow> nat" where [maxsz_defs]:
  "decode_rename_maxsz k = op_decode_hdr_maxsz k + decode_change_info_maxsz k + decode_change_info_maxsz k"

definition encode_link_maxsz :: "'z kconst_scheme \<Rightarrow> nat" where [maxsz_defs]:
  "encode_link_maxsz k = op_encode_hdr_maxsz k + nfs4_name_maxsz k"

definition decode_link_maxsz :: "'z kconst_scheme \<Rightarrow> nat" where [maxsz_defs]:
  "decode_link_maxsz k = op_decode_hdr_maxsz k + decode_change_info_maxsz k"

definition encode_lockowner_maxsz :: "'z kconst_scheme \<Rightarrow> nat" where [maxsz_defs]:
  "encode_lockowner_maxsz k = 7"

definition encode_lock_maxsz :: "'z kconst_scheme \<Rightarrow> nat" where [maxsz_defs]:
  "encode_lock_maxsz k = op_encode_hdr_maxsz k + 7 + 1 + encode_stateid_maxsz k + 1 + encode_lockowner_maxsz k"

definition decode_lock_denied_maxsz :: "'z kconst_scheme \<Rightarrow> nat" where [maxsz_defs]:
  "decode_lock_denied_maxsz k = 8 + decode_lockowner_maxsz k"

definition decode_lock_maxsz :: "'z kconst_scheme \<Rightarrow> nat" where [maxsz_defs]:
  "decode_lock_maxsz k = op_decode_hdr_maxsz k + decode_lock_denied_maxsz k"

definition encode_lockt_maxsz :: "'z kconst_scheme \<Rightarrow> nat" where [maxsz_defs]:
  "encode_lockt_maxsz k = op_encode_hdr_maxsz k + 5 + encode_lockowner_maxsz k"

definition decode_lockt_maxsz :: "'z kconst_scheme \<Rightarrow> nat" where [maxsz_defs]:
  "decode_lockt_maxsz k = op_decode_hdr_maxsz k + decode_lock_denied_maxsz k"

definition encode_locku_maxsz :: "'z kconst_scheme \<Rightarrow> nat" where [maxsz_defs]:
  "encode_locku_maxsz k = op_encode_hdr_maxsz k + 3 + encode_stateid_maxsz k + 4"

definition decode_locku_maxsz :: "'z kconst_scheme \<Rightarrow> nat" where [maxsz_defs]:
  "decode_locku_maxsz k = op_decode_hdr_maxsz k + decode_stateid_maxsz k"

definition encode_release_lockowner_maxsz :: "'z kconst_scheme \<Rightarrow> nat" where [maxsz_defs]:
  "encode_release_lockowner_maxsz k = op_encode_hdr_maxsz k + encode_lockowner_maxsz k"

definition decode_release_lockowner_maxsz :: "'z kconst_scheme \<Rightarrow> nat" where [maxsz_defs]:
  "decode_release_lockowner_maxsz k = op_decode_hdr_maxsz k"

definition encode_access_maxsz :: "'z kconst_scheme \<Rightarrow> nat" where [maxsz_defs]:
  "encode_access_maxsz k = op_encode_hdr_maxsz k + 1"

definition decode_access_maxsz :: "'z kconst_scheme \<Rightarrow> nat" where [maxsz_defs]:
  "decode_access_maxsz k = op_decode_hdr_maxsz k + 2"

definition encode_symlink_maxsz :: "'z kconst_scheme \<Rightarrow> nat" where [maxsz_defs]:
  "encode_symlink_maxsz k = op_encode_hdr_maxsz k + 1 + nfs4_name_maxsz k + 1 + nfs4_fattr_maxsz k"

definition decode_symlink_maxsz :: "'z kconst_scheme \<Rightarrow> nat" where [maxsz_defs]:
  "decode_symlink_maxsz k = op_decode_hdr_maxsz k + 8"

definition encode_create_maxsz :: "'z kconst_scheme \<Rightarrow> nat" where [maxsz_defs]:
  "encode_create_maxsz k = op_encode_hdr_maxsz k + 1 + 2 + nfs4_name_maxsz k + encode_attrs_maxsz k"

definition decode_create_maxsz :: "'z kconst_scheme \<Rightarrow> nat" where [maxsz_defs]:
  "decode_create_maxsz k = op_decode_hdr_maxsz k + decode_change_info_maxsz k + nfs4_fattr_bitmap_maxsz k"

definition encode_statfs_maxsz :: "'z kconst_scheme \<Rightarrow> nat" where [maxsz_defs]:
  "encode_statfs_maxsz k = encode_getattr_maxsz k"

definition decode_statfs_maxsz :: "'z kconst_scheme \<Rightarrow> nat" where [maxsz_defs]:
  "decode_statfs_maxsz k = decode_getattr_maxsz k"

definition encode_delegreturn_maxsz :: "'z kconst_scheme \<Rightarrow> nat" where [maxsz_defs]:
  "encode_delegreturn_maxsz k = op_encode_hdr_maxsz k + 4"

definition decode_delegreturn_maxsz :: "'z kconst_scheme \<Rightarrow> nat" where [maxsz_defs]:
  "decode_delegreturn_maxsz k = op_decode_hdr_maxsz k"

definition encode_getacl_maxsz :: "'z kconst_scheme \<Rightarrow> nat" where [maxsz_defs]:
  "encode_getacl_maxsz k = encode_getattr_maxsz k"

definition decode_getacl_maxsz :: "'z kconst_scheme \<Rightarrow> nat" where [maxsz_defs]:
  "decode_getacl_maxsz k = op_decode_hdr_maxsz k + nfs4_fattr_bitmap_maxsz k + 1"

definition encode_setacl_maxsz :: "'z kconst_scheme \<Rightarrow> nat" where [maxsz_defs]:
  "encode_setacl_maxsz k = op_encode_hdr_maxsz k + encode_stateid_maxsz k + 3"

definition decode_setacl_maxsz :: "'z kconst_scheme \<Rightarrow> nat" where [maxsz_defs]:
  "decode_setacl_maxsz k = decode_setattr_maxsz k"

definition encode_fs_locations_maxsz :: "'z kconst_scheme \<Rightarrow> nat" where [maxsz_defs]:
  "encode_fs_locations_maxsz k = encode_getattr_maxsz k"

definition decode_fs_locations_maxsz :: "'z kconst_scheme \<Rightarrow> nat" where [maxsz_defs]:
  "decode_fs_locations_maxsz k = 0"

definition encode_secinfo_maxsz :: "'z kconst_scheme \<Rightarrow> nat" where [maxsz_defs]:
  "encode_secinfo_maxsz k = op_encode_hdr_maxsz k + nfs4_name_maxsz k"

definition decode_secinfo_maxsz :: "'z kconst_scheme \<Rightarrow> nat" where [maxsz_defs]:
  "decode_secinfo_maxsz k = op_decode_hdr_maxsz k + 1 + ((NFS_MAX_SECFLAVORS * (16 + GSS_OID_MAX_LEN k)) div 4)"

definition NFS4_MAX_MACHINE_NAME_LEN :: "'z kconst_scheme \<Rightarrow> nat" where [maxsz_defs]:
  "NFS4_MAX_MACHINE_NAME_LEN k = 64"

definition IMPL_NAME_LIMIT :: "'z kconst_scheme \<Rightarrow> nat" where [maxsz_defs]:
  "IMPL_NAME_LIMIT k = sizeof_utsname_sysname k + sizeof_utsname_release k + sizeof_utsname_version k +
     sizeof_utsname_machine k + 8"

definition encode_exchange_id_maxsz :: "'z kconst_scheme \<Rightarrow> nat" where [maxsz_defs]:
  "encode_exchange_id_maxsz k = op_encode_hdr_maxsz k + encode_verifier_maxsz k + 1 + XDR_QUADLEN NFS4_EXCHANGE_ID_LEN +
     1 + 1 + 1 + NFS4_OP_MAP_NUM_WORDS + 1 + NFS4_OP_MAP_NUM_WORDS + 1 + 1 +
     XDR_QUADLEN NFS4_OPAQUE_LIMIT + 1 + XDR_QUADLEN (IMPL_NAME_LIMIT k) + 3"

definition decode_exchange_id_maxsz :: "'z kconst_scheme \<Rightarrow> nat" where [maxsz_defs]:
  "decode_exchange_id_maxsz k = op_decode_hdr_maxsz k + 2 + 1 + 1 + 1 + 1 + NFS4_OP_MAP_NUM_WORDS + 1 +
     NFS4_OP_MAP_NUM_WORDS + 2 + XDR_QUADLEN NFS4_OPAQUE_LIMIT + 1 +
     XDR_QUADLEN NFS4_OPAQUE_LIMIT + 1 + 1 + 1 + XDR_QUADLEN NFS4_OPAQUE_LIMIT + 1 +
     XDR_QUADLEN NFS4_OPAQUE_LIMIT + 3"

definition encode_channel_attrs_maxsz :: "'z kconst_scheme \<Rightarrow> nat" where [maxsz_defs]:
  "encode_channel_attrs_maxsz k = 6 + 1"

definition decode_channel_attrs_maxsz :: "'z kconst_scheme \<Rightarrow> nat" where [maxsz_defs]:
  "decode_channel_attrs_maxsz k = 6 + 1 + 1"

definition encode_create_session_maxsz :: "'z kconst_scheme \<Rightarrow> nat" where [maxsz_defs]:
  "encode_create_session_maxsz k = op_encode_hdr_maxsz k + 2 + 1 + 1 + encode_channel_attrs_maxsz k +
     encode_channel_attrs_maxsz k + 1 + 1 + 1 + 1 + 1 +
     XDR_QUADLEN (NFS4_MAX_MACHINE_NAME_LEN k) + 1 + 1 + 1"

definition decode_create_session_maxsz :: "'z kconst_scheme \<Rightarrow> nat" where [maxsz_defs]:
  "decode_create_session_maxsz k = op_decode_hdr_maxsz k + XDR_QUADLEN NFS4_MAX_SESSIONID_LEN + 1 + 1 +
     decode_channel_attrs_maxsz k + decode_channel_attrs_maxsz k"

definition encode_bind_conn_to_session_maxsz :: "'z kconst_scheme \<Rightarrow> nat" where [maxsz_defs]:
  "encode_bind_conn_to_session_maxsz k = op_encode_hdr_maxsz k + XDR_QUADLEN NFS4_MAX_SESSIONID_LEN + 1 + 1"

definition decode_bind_conn_to_session_maxsz :: "'z kconst_scheme \<Rightarrow> nat" where [maxsz_defs]:
  "decode_bind_conn_to_session_maxsz k = op_decode_hdr_maxsz k + XDR_QUADLEN NFS4_MAX_SESSIONID_LEN + 1 + 1"

definition encode_destroy_session_maxsz :: "'z kconst_scheme \<Rightarrow> nat" where [maxsz_defs]:
  "encode_destroy_session_maxsz k = op_encode_hdr_maxsz k + 4"

definition decode_destroy_session_maxsz :: "'z kconst_scheme \<Rightarrow> nat" where [maxsz_defs]:
  "decode_destroy_session_maxsz k = op_decode_hdr_maxsz k"

definition encode_destroy_clientid_maxsz :: "'z kconst_scheme \<Rightarrow> nat" where [maxsz_defs]:
  "encode_destroy_clientid_maxsz k = op_encode_hdr_maxsz k + 2"

definition decode_destroy_clientid_maxsz :: "'z kconst_scheme \<Rightarrow> nat" where [maxsz_defs]:
  "decode_destroy_clientid_maxsz k = op_decode_hdr_maxsz k"

definition encode_sequence_maxsz :: "'z kconst_scheme \<Rightarrow> nat" where [maxsz_defs]:
  "encode_sequence_maxsz k = op_encode_hdr_maxsz k + XDR_QUADLEN NFS4_MAX_SESSIONID_LEN + 4"

definition decode_sequence_maxsz :: "'z kconst_scheme \<Rightarrow> nat" where [maxsz_defs]:
  "decode_sequence_maxsz k = op_decode_hdr_maxsz k + XDR_QUADLEN NFS4_MAX_SESSIONID_LEN + 5"

definition encode_reclaim_complete_maxsz :: "'z kconst_scheme \<Rightarrow> nat" where [maxsz_defs]:
  "encode_reclaim_complete_maxsz k = op_encode_hdr_maxsz k + 4"

definition decode_reclaim_complete_maxsz :: "'z kconst_scheme \<Rightarrow> nat" where [maxsz_defs]:
  "decode_reclaim_complete_maxsz k = op_decode_hdr_maxsz k + 4"

definition encode_getdeviceinfo_maxsz :: "'z kconst_scheme \<Rightarrow> nat" where [maxsz_defs]:
  "encode_getdeviceinfo_maxsz k = op_encode_hdr_maxsz k + XDR_QUADLEN NFS4_DEVICEID4_SIZE + 1 + 1 + 1 + 1 + 1"

definition decode_getdeviceinfo_maxsz :: "'z kconst_scheme \<Rightarrow> nat" where [maxsz_defs]:
  "decode_getdeviceinfo_maxsz k = op_decode_hdr_maxsz k + 1 + 1 + 1 + 1"

definition encode_layoutget_maxsz :: "'z kconst_scheme \<Rightarrow> nat" where [maxsz_defs]:
  "encode_layoutget_maxsz k = op_encode_hdr_maxsz k + 10 + encode_stateid_maxsz k"

definition decode_layoutget_maxsz :: "'z kconst_scheme \<Rightarrow> nat" where [maxsz_defs]:
  "decode_layoutget_maxsz k = op_decode_hdr_maxsz k + 8 + decode_stateid_maxsz k + XDR_QUADLEN PNFS_LAYOUT_MAXSIZE"

definition encode_layoutcommit_maxsz :: "'z kconst_scheme \<Rightarrow> nat" where [maxsz_defs]:
  "encode_layoutcommit_maxsz k = op_encode_hdr_maxsz k + 2 + 2 + 1 + encode_stateid_maxsz k + 1 + 2 + 1 + 1 + 1"

definition decode_layoutcommit_maxsz :: "'z kconst_scheme \<Rightarrow> nat" where [maxsz_defs]:
  "decode_layoutcommit_maxsz k = op_decode_hdr_maxsz k + 3"

definition encode_layoutreturn_maxsz :: "'z kconst_scheme \<Rightarrow> nat" where [maxsz_defs]:
  "encode_layoutreturn_maxsz k = 8 + op_encode_hdr_maxsz k + encode_stateid_maxsz k + 1"

definition decode_layoutreturn_maxsz :: "'z kconst_scheme \<Rightarrow> nat" where [maxsz_defs]:
  "decode_layoutreturn_maxsz k = op_decode_hdr_maxsz k + 1 + decode_stateid_maxsz k"

definition encode_secinfo_no_name_maxsz :: "'z kconst_scheme \<Rightarrow> nat" where [maxsz_defs]:
  "encode_secinfo_no_name_maxsz k = op_encode_hdr_maxsz k + 1"

definition decode_secinfo_no_name_maxsz :: "'z kconst_scheme \<Rightarrow> nat" where [maxsz_defs]:
  "decode_secinfo_no_name_maxsz k = decode_secinfo_maxsz k"

definition encode_test_stateid_maxsz :: "'z kconst_scheme \<Rightarrow> nat" where [maxsz_defs]:
  "encode_test_stateid_maxsz k = op_encode_hdr_maxsz k + 2 + XDR_QUADLEN NFS4_STATEID_SIZE"

definition decode_test_stateid_maxsz :: "'z kconst_scheme \<Rightarrow> nat" where [maxsz_defs]:
  "decode_test_stateid_maxsz k = op_decode_hdr_maxsz k + 2 + 1"

definition encode_free_stateid_maxsz :: "'z kconst_scheme \<Rightarrow> nat" where [maxsz_defs]:
  "encode_free_stateid_maxsz k = op_encode_hdr_maxsz k + 1 + XDR_QUADLEN NFS4_STATEID_SIZE"

definition decode_free_stateid_maxsz :: "'z kconst_scheme \<Rightarrow> nat" where [maxsz_defs]:
  "decode_free_stateid_maxsz k = op_decode_hdr_maxsz k"

definition NFS4_enc_compound_sz :: "'z kconst_scheme \<Rightarrow> nat" where [maxsz_defs]:
  "NFS4_enc_compound_sz k = 1024"

definition NFS4_dec_compound_sz :: "'z kconst_scheme \<Rightarrow> nat" where [maxsz_defs]:
  "NFS4_dec_compound_sz k = 1024"

definition NFS4_enc_read_sz :: "'z kconst_scheme \<Rightarrow> nat" where [maxsz_defs]:
  "NFS4_enc_read_sz k = compound_encode_hdr_maxsz k + encode_sequence_maxsz k + encode_putfh_maxsz k +
     encode_read_maxsz k"

definition NFS4_dec_read_sz :: "'z kconst_scheme \<Rightarrow> nat" where [maxsz_defs]:
  "NFS4_dec_read_sz k = compound_decode_hdr_maxsz k + decode_sequence_maxsz k + decode_putfh_maxsz k +
     decode_read_maxsz k"

definition NFS4_enc_readlink_sz :: "'z kconst_scheme \<Rightarrow> nat" where [maxsz_defs]:
  "NFS4_enc_readlink_sz k = compound_encode_hdr_maxsz k + encode_sequence_maxsz k + encode_putfh_maxsz k +
     encode_readlink_maxsz k"

definition NFS4_dec_readlink_sz :: "'z kconst_scheme \<Rightarrow> nat" where [maxsz_defs]:
  "NFS4_dec_readlink_sz k = compound_decode_hdr_maxsz k + decode_sequence_maxsz k + decode_putfh_maxsz k +
     decode_readlink_maxsz k"

definition NFS4_enc_readdir_sz :: "'z kconst_scheme \<Rightarrow> nat" where [maxsz_defs]:
  "NFS4_enc_readdir_sz k = compound_encode_hdr_maxsz k + encode_sequence_maxsz k + encode_putfh_maxsz k +
     encode_readdir_maxsz k"

definition NFS4_dec_readdir_sz :: "'z kconst_scheme \<Rightarrow> nat" where [maxsz_defs]:
  "NFS4_dec_readdir_sz k = compound_decode_hdr_maxsz k + decode_sequence_maxsz k + decode_putfh_maxsz k +
     decode_readdir_maxsz k"

definition NFS4_enc_write_sz :: "'z kconst_scheme \<Rightarrow> nat" where [maxsz_defs]:
  "NFS4_enc_write_sz k = compound_encode_hdr_maxsz k + encode_sequence_maxsz k + encode_putfh_maxsz k +
     encode_write_maxsz k + encode_getattr_maxsz k"

definition NFS4_dec_write_sz :: "'z kconst_scheme \<Rightarrow> nat" where [maxsz_defs]:
  "NFS4_dec_write_sz k = compound_decode_hdr_maxsz k + decode_sequence_maxsz k + decode_putfh_maxsz k +
     decode_write_maxsz k + decode_getattr_maxsz k"

definition NFS4_enc_commit_sz :: "'z kconst_scheme \<Rightarrow> nat" where [maxsz_defs]:
  "NFS4_enc_commit_sz k = compound_encode_hdr_maxsz k + encode_sequence_maxsz k + encode_putfh_maxsz k +
     encode_commit_maxsz k"

definition NFS4_dec_commit_sz :: "'z kconst_scheme \<Rightarrow> nat" where [maxsz_defs]:
  "NFS4_dec_commit_sz k = compound_decode_hdr_maxsz k + decode_sequence_maxsz k + decode_putfh_maxsz k +
     decode_commit_maxsz k"

definition NFS4_enc_open_sz :: "'z kconst_scheme \<Rightarrow> nat" where [maxsz_defs]:
  "NFS4_enc_open_sz k = compound_encode_hdr_maxsz k + encode_sequence_maxsz k + encode_putfh_maxsz k +
     encode_open_maxsz k + encode_access_maxsz k + encode_getfh_maxsz k +
     encode_getattr_maxsz k"

definition NFS4_dec_open_sz :: "'z kconst_scheme \<Rightarrow> nat" where [maxsz_defs]:
  "NFS4_dec_open_sz k = compound_decode_hdr_maxsz k + decode_sequence_maxsz k + decode_putfh_maxsz k +
     decode_open_maxsz k + decode_access_maxsz k + decode_getfh_maxsz k +
     decode_getattr_maxsz k"

definition NFS4_enc_open_confirm_sz :: "'z kconst_scheme \<Rightarrow> nat" where [maxsz_defs]:
  "NFS4_enc_open_confirm_sz k = compound_encode_hdr_maxsz k + encode_putfh_maxsz k + encode_open_confirm_maxsz k"

definition NFS4_dec_open_confirm_sz :: "'z kconst_scheme \<Rightarrow> nat" where [maxsz_defs]:
  "NFS4_dec_open_confirm_sz k = compound_decode_hdr_maxsz k + decode_putfh_maxsz k + decode_open_confirm_maxsz k"

definition NFS4_enc_open_noattr_sz :: "'z kconst_scheme \<Rightarrow> nat" where [maxsz_defs]:
  "NFS4_enc_open_noattr_sz k = compound_encode_hdr_maxsz k + encode_sequence_maxsz k + encode_putfh_maxsz k +
     encode_open_maxsz k + encode_access_maxsz k + encode_getattr_maxsz k"

definition NFS4_dec_open_noattr_sz :: "'z kconst_scheme \<Rightarrow> nat" where [maxsz_defs]:
  "NFS4_dec_open_noattr_sz k = compound_decode_hdr_maxsz k + decode_sequence_maxsz k + decode_putfh_maxsz k +
     decode_open_maxsz k + decode_access_maxsz k + decode_getattr_maxsz k"

definition NFS4_enc_open_downgrade_sz :: "'z kconst_scheme \<Rightarrow> nat" where [maxsz_defs]:
  "NFS4_enc_open_downgrade_sz k = compound_encode_hdr_maxsz k + encode_sequence_maxsz k + encode_putfh_maxsz k +
     encode_open_downgrade_maxsz k + encode_getattr_maxsz k"

definition NFS4_dec_open_downgrade_sz :: "'z kconst_scheme \<Rightarrow> nat" where [maxsz_defs]:
  "NFS4_dec_open_downgrade_sz k = compound_decode_hdr_maxsz k + decode_sequence_maxsz k + decode_putfh_maxsz k +
     decode_open_downgrade_maxsz k + decode_getattr_maxsz k"

definition NFS4_enc_close_sz :: "'z kconst_scheme \<Rightarrow> nat" where [maxsz_defs]:
  "NFS4_enc_close_sz k = compound_encode_hdr_maxsz k + encode_sequence_maxsz k + encode_putfh_maxsz k +
     encode_close_maxsz k + encode_getattr_maxsz k"

definition NFS4_dec_close_sz :: "'z kconst_scheme \<Rightarrow> nat" where [maxsz_defs]:
  "NFS4_dec_close_sz k = compound_decode_hdr_maxsz k + decode_sequence_maxsz k + decode_putfh_maxsz k +
     decode_close_maxsz k + decode_getattr_maxsz k"

definition NFS4_enc_setattr_sz :: "'z kconst_scheme \<Rightarrow> nat" where [maxsz_defs]:
  "NFS4_enc_setattr_sz k = compound_encode_hdr_maxsz k + encode_sequence_maxsz k + encode_putfh_maxsz k +
     encode_setattr_maxsz k + encode_getattr_maxsz k"

definition NFS4_dec_setattr_sz :: "'z kconst_scheme \<Rightarrow> nat" where [maxsz_defs]:
  "NFS4_dec_setattr_sz k = compound_decode_hdr_maxsz k + decode_sequence_maxsz k + decode_putfh_maxsz k +
     decode_setattr_maxsz k + decode_getattr_maxsz k"

definition NFS4_enc_fsinfo_sz :: "'z kconst_scheme \<Rightarrow> nat" where [maxsz_defs]:
  "NFS4_enc_fsinfo_sz k = compound_encode_hdr_maxsz k + encode_sequence_maxsz k + encode_putfh_maxsz k +
     encode_fsinfo_maxsz k"

definition NFS4_dec_fsinfo_sz :: "'z kconst_scheme \<Rightarrow> nat" where [maxsz_defs]:
  "NFS4_dec_fsinfo_sz k = compound_decode_hdr_maxsz k + decode_sequence_maxsz k + decode_putfh_maxsz k +
     decode_fsinfo_maxsz k"

definition NFS4_enc_renew_sz :: "'z kconst_scheme \<Rightarrow> nat" where [maxsz_defs]:
  "NFS4_enc_renew_sz k = compound_encode_hdr_maxsz k + encode_renew_maxsz k"

definition NFS4_dec_renew_sz :: "'z kconst_scheme \<Rightarrow> nat" where [maxsz_defs]:
  "NFS4_dec_renew_sz k = compound_decode_hdr_maxsz k + decode_renew_maxsz k"

definition NFS4_enc_setclientid_sz :: "'z kconst_scheme \<Rightarrow> nat" where [maxsz_defs]:
  "NFS4_enc_setclientid_sz k = compound_encode_hdr_maxsz k + encode_setclientid_maxsz k"

definition NFS4_dec_setclientid_sz :: "'z kconst_scheme \<Rightarrow> nat" where [maxsz_defs]:
  "NFS4_dec_setclientid_sz k = compound_decode_hdr_maxsz k + decode_setclientid_maxsz k"

definition NFS4_enc_setclientid_confirm_sz :: "'z kconst_scheme \<Rightarrow> nat" where [maxsz_defs]:
  "NFS4_enc_setclientid_confirm_sz k = compound_encode_hdr_maxsz k + encode_setclientid_confirm_maxsz k"

definition NFS4_dec_setclientid_confirm_sz :: "'z kconst_scheme \<Rightarrow> nat" where [maxsz_defs]:
  "NFS4_dec_setclientid_confirm_sz k = compound_decode_hdr_maxsz k + decode_setclientid_confirm_maxsz k"

definition NFS4_enc_lock_sz :: "'z kconst_scheme \<Rightarrow> nat" where [maxsz_defs]:
  "NFS4_enc_lock_sz k = compound_encode_hdr_maxsz k + encode_sequence_maxsz k + encode_putfh_maxsz k +
     encode_lock_maxsz k"

definition NFS4_dec_lock_sz :: "'z kconst_scheme \<Rightarrow> nat" where [maxsz_defs]:
  "NFS4_dec_lock_sz k = compound_decode_hdr_maxsz k + decode_sequence_maxsz k + decode_putfh_maxsz k +
     decode_lock_maxsz k"

definition NFS4_enc_lockt_sz :: "'z kconst_scheme \<Rightarrow> nat" where [maxsz_defs]:
  "NFS4_enc_lockt_sz k = compound_encode_hdr_maxsz k + encode_sequence_maxsz k + encode_putfh_maxsz k +
     encode_lockt_maxsz k"

definition NFS4_dec_lockt_sz :: "'z kconst_scheme \<Rightarrow> nat" where [maxsz_defs]:
  "NFS4_dec_lockt_sz k = compound_decode_hdr_maxsz k + decode_sequence_maxsz k + decode_putfh_maxsz k +
     decode_lockt_maxsz k"

definition NFS4_enc_locku_sz :: "'z kconst_scheme \<Rightarrow> nat" where [maxsz_defs]:
  "NFS4_enc_locku_sz k = compound_encode_hdr_maxsz k + encode_sequence_maxsz k + encode_putfh_maxsz k +
     encode_locku_maxsz k"

definition NFS4_dec_locku_sz :: "'z kconst_scheme \<Rightarrow> nat" where [maxsz_defs]:
  "NFS4_dec_locku_sz k = compound_decode_hdr_maxsz k + decode_sequence_maxsz k + decode_putfh_maxsz k +
     decode_locku_maxsz k"

definition NFS4_enc_release_lockowner_sz :: "'z kconst_scheme \<Rightarrow> nat" where [maxsz_defs]:
  "NFS4_enc_release_lockowner_sz k = compound_encode_hdr_maxsz k + encode_lockowner_maxsz k"

definition NFS4_dec_release_lockowner_sz :: "'z kconst_scheme \<Rightarrow> nat" where [maxsz_defs]:
  "NFS4_dec_release_lockowner_sz k = compound_decode_hdr_maxsz k + decode_lockowner_maxsz k"

definition NFS4_enc_access_sz :: "'z kconst_scheme \<Rightarrow> nat" where [maxsz_defs]:
  "NFS4_enc_access_sz k = compound_encode_hdr_maxsz k + encode_sequence_maxsz k + encode_putfh_maxsz k +
     encode_access_maxsz k + encode_getattr_maxsz k"

definition NFS4_dec_access_sz :: "'z kconst_scheme \<Rightarrow> nat" where [maxsz_defs]:
  "NFS4_dec_access_sz k = compound_decode_hdr_maxsz k + decode_sequence_maxsz k + decode_putfh_maxsz k +
     decode_access_maxsz k + decode_getattr_maxsz k"

definition NFS4_enc_getattr_sz :: "'z kconst_scheme \<Rightarrow> nat" where [maxsz_defs]:
  "NFS4_enc_getattr_sz k = compound_encode_hdr_maxsz k + encode_sequence_maxsz k + encode_putfh_maxsz k +
     encode_getattr_maxsz k + encode_renew_maxsz k"

definition NFS4_dec_getattr_sz :: "'z kconst_scheme \<Rightarrow> nat" where [maxsz_defs]:
  "NFS4_dec_getattr_sz k = compound_decode_hdr_maxsz k + decode_sequence_maxsz k + decode_putfh_maxsz k +
     decode_getattr_maxsz k + decode_renew_maxsz k"

definition NFS4_enc_lookup_sz :: "'z kconst_scheme \<Rightarrow> nat" where [maxsz_defs]:
  "NFS4_enc_lookup_sz k = compound_encode_hdr_maxsz k + encode_sequence_maxsz k + encode_putfh_maxsz k +
     encode_lookup_maxsz k + encode_getattr_maxsz k + encode_getfh_maxsz k"

definition NFS4_dec_lookup_sz :: "'z kconst_scheme \<Rightarrow> nat" where [maxsz_defs]:
  "NFS4_dec_lookup_sz k = compound_decode_hdr_maxsz k + decode_sequence_maxsz k + decode_putfh_maxsz k +
     decode_lookup_maxsz k + decode_getattr_maxsz k + decode_getfh_maxsz k"

definition NFS4_enc_chain_lookup_sz :: "'z kconst_scheme \<Rightarrow> nat" where [maxsz_defs]:
  "NFS4_enc_chain_lookup_sz k = compound_encode_hdr_maxsz k + encode_sequence_maxsz k + encode_putfh_maxsz k +
     encode_lookup_maxsz k + encode_getattr_maxsz k + encode_getfh_maxsz k"

definition NFS4_dec_chain_lookup_sz :: "'z kconst_scheme \<Rightarrow> nat" where [maxsz_defs]:
  "NFS4_dec_chain_lookup_sz k = compound_decode_hdr_maxsz k + decode_sequence_maxsz k + decode_putfh_maxsz k +
     decode_lookup_maxsz k + decode_getattr_maxsz k + decode_getfh_maxsz k"

definition NFS4_enc_chain_lookup_open_sz :: "'z kconst_scheme \<Rightarrow> nat" where [maxsz_defs]:
  "NFS4_enc_chain_lookup_open_sz k = compound_encode_hdr_maxsz k + encode_sequence_maxsz k + encode_putfh_maxsz k +
     encode_lookup_maxsz k + encode_getattr_maxsz k + encode_getfh_maxsz k"

definition NFS4_dec_chain_lookup_open_sz :: "'z kconst_scheme \<Rightarrow> nat" where [maxsz_defs]:
  "NFS4_dec_chain_lookup_open_sz k = compound_decode_hdr_maxsz k + decode_sequence_maxsz k + decode_putfh_maxsz k +
     decode_lookup_maxsz k + decode_getattr_maxsz k + decode_getfh_maxsz k"

definition NFS4_enc_lookup_root_sz :: "'z kconst_scheme \<Rightarrow> nat" where [maxsz_defs]:
  "NFS4_enc_lookup_root_sz k = compound_encode_hdr_maxsz k + encode_sequence_maxsz k + encode_putrootfh_maxsz k +
     encode_getattr_maxsz k + encode_getfh_maxsz k"

definition NFS4_dec_lookup_root_sz :: "'z kconst_scheme \<Rightarrow> nat" where [maxsz_defs]:
  "NFS4_dec_lookup_root_sz k = compound_decode_hdr_maxsz k + decode_sequence_maxsz k + decode_putrootfh_maxsz k +
     decode_getattr_maxsz k + decode_getfh_maxsz k"

definition NFS4_enc_remove_sz :: "'z kconst_scheme \<Rightarrow> nat" where [maxsz_defs]:
  "NFS4_enc_remove_sz k = compound_encode_hdr_maxsz k + encode_sequence_maxsz k + encode_putfh_maxsz k +
     encode_remove_maxsz k"

definition NFS4_dec_remove_sz :: "'z kconst_scheme \<Rightarrow> nat" where [maxsz_defs]:
  "NFS4_dec_remove_sz k = compound_decode_hdr_maxsz k + decode_sequence_maxsz k + decode_putfh_maxsz k +
     decode_remove_maxsz k"

definition NFS4_enc_rename_sz :: "'z kconst_scheme \<Rightarrow> nat" where [maxsz_defs]:
  "NFS4_enc_rename_sz k = compound_encode_hdr_maxsz k + encode_sequence_maxsz k + encode_putfh_maxsz k +
     encode_savefh_maxsz k + encode_putfh_maxsz k + encode_rename_maxsz k"

definition NFS4_dec_rename_sz :: "'z kconst_scheme \<Rightarrow> nat" where [maxsz_defs]:
  "NFS4_dec_rename_sz k = compound_decode_hdr_maxsz k + decode_sequence_maxsz k + decode_putfh_maxsz k +
     decode_savefh_maxsz k + decode_putfh_maxsz k + decode_rename_maxsz k"

definition NFS4_enc_link_sz :: "'z kconst_scheme \<Rightarrow> nat" where [maxsz_defs]:
  "NFS4_enc_link_sz k = compound_encode_hdr_maxsz k + encode_sequence_maxsz k + encode_putfh_maxsz k +
     encode_savefh_maxsz k + encode_putfh_maxsz k + encode_link_maxsz k +
     encode_restorefh_maxsz k + encode_getattr_maxsz k"

definition NFS4_dec_link_sz :: "'z kconst_scheme \<Rightarrow> nat" where [maxsz_defs]:
  "NFS4_dec_link_sz k = compound_decode_hdr_maxsz k + decode_sequence_maxsz k + decode_putfh_maxsz k +
     decode_savefh_maxsz k + decode_putfh_maxsz k + decode_link_maxsz k +
     decode_restorefh_maxsz k + decode_getattr_maxsz k"

definition NFS4_enc_symlink_sz :: "'z kconst_scheme \<Rightarrow> nat" where [maxsz_defs]:
  "NFS4_enc_symlink_sz k = compound_encode_hdr_maxsz k + encode_sequence_maxsz k + encode_putfh_maxsz k +
     encode_symlink_maxsz k + encode_getattr_maxsz k + encode_getfh_maxsz k"

definition NFS4_dec_symlink_sz :: "'z kconst_scheme \<Rightarrow> nat" where [maxsz_defs]:
  "NFS4_dec_symlink_sz k = compound_decode_hdr_maxsz k + decode_sequence_maxsz k + decode_putfh_maxsz k +
     decode_symlink_maxsz k + decode_getattr_maxsz k + decode_getfh_maxsz k"

definition NFS4_enc_create_sz :: "'z kconst_scheme \<Rightarrow> nat" where [maxsz_defs]:
  "NFS4_enc_create_sz k = compound_encode_hdr_maxsz k + encode_sequence_maxsz k + encode_putfh_maxsz k +
     encode_create_maxsz k + encode_getfh_maxsz k + encode_getattr_maxsz k"

definition NFS4_dec_create_sz :: "'z kconst_scheme \<Rightarrow> nat" where [maxsz_defs]:
  "NFS4_dec_create_sz k = compound_decode_hdr_maxsz k + decode_sequence_maxsz k + decode_putfh_maxsz k +
     decode_create_maxsz k + decode_getfh_maxsz k + decode_getattr_maxsz k"

definition NFS4_enc_pathconf_sz :: "'z kconst_scheme \<Rightarrow> nat" where [maxsz_defs]:
  "NFS4_enc_pathconf_sz k = compound_encode_hdr_maxsz k + encode_sequence_maxsz k + encode_putfh_maxsz k +
     encode_getattr_maxsz k"

definition NFS4_dec_pathconf_sz :: "'z kconst_scheme \<Rightarrow> nat" where [maxsz_defs]:
  "NFS4_dec_pathconf_sz k = compound_decode_hdr_maxsz k + decode_sequence_maxsz k + decode_putfh_maxsz k +
     decode_getattr_maxsz k"

definition NFS4_enc_statfs_sz :: "'z kconst_scheme \<Rightarrow> nat" where [maxsz_defs]:
  "NFS4_enc_statfs_sz k = compound_encode_hdr_maxsz k + encode_sequence_maxsz k + encode_putfh_maxsz k +
     encode_statfs_maxsz k"

definition NFS4_dec_statfs_sz :: "'z kconst_scheme \<Rightarrow> nat" where [maxsz_defs]:
  "NFS4_dec_statfs_sz k = compound_decode_hdr_maxsz k + decode_sequence_maxsz k + decode_putfh_maxsz k +
     decode_statfs_maxsz k"

definition NFS4_enc_server_caps_sz :: "'z kconst_scheme \<Rightarrow> nat" where [maxsz_defs]:
  "NFS4_enc_server_caps_sz k = compound_encode_hdr_maxsz k + encode_sequence_maxsz k + encode_putfh_maxsz k +
     encode_getattr_maxsz k"

definition NFS4_dec_server_caps_sz :: "'z kconst_scheme \<Rightarrow> nat" where [maxsz_defs]:
  "NFS4_dec_server_caps_sz k = compound_decode_hdr_maxsz k + decode_sequence_maxsz k + decode_putfh_maxsz k +
     decode_getattr_maxsz k"

definition NFS4_enc_delegreturn_sz :: "'z kconst_scheme \<Rightarrow> nat" where [maxsz_defs]:
  "NFS4_enc_delegreturn_sz k = compound_encode_hdr_maxsz k + encode_sequence_maxsz k + encode_putfh_maxsz k +
     encode_delegreturn_maxsz k + encode_getattr_maxsz k"

definition NFS4_dec_delegreturn_sz :: "'z kconst_scheme \<Rightarrow> nat" where [maxsz_defs]:
  "NFS4_dec_delegreturn_sz k = compound_decode_hdr_maxsz k + decode_sequence_maxsz k + decode_delegreturn_maxsz k +
     decode_getattr_maxsz k"

definition NFS4_enc_getacl_sz :: "'z kconst_scheme \<Rightarrow> nat" where [maxsz_defs]:
  "NFS4_enc_getacl_sz k = compound_encode_hdr_maxsz k + encode_sequence_maxsz k + encode_putfh_maxsz k +
     encode_getacl_maxsz k"

definition NFS4_dec_getacl_sz :: "'z kconst_scheme \<Rightarrow> nat" where [maxsz_defs]:
  "NFS4_dec_getacl_sz k = compound_decode_hdr_maxsz k + decode_sequence_maxsz k + decode_putfh_maxsz k +
     decode_getacl_maxsz k"

definition NFS4_enc_setacl_sz :: "'z kconst_scheme \<Rightarrow> nat" where [maxsz_defs]:
  "NFS4_enc_setacl_sz k = compound_encode_hdr_maxsz k + encode_sequence_maxsz k + encode_putfh_maxsz k +
     encode_setacl_maxsz k"

definition NFS4_dec_setacl_sz :: "'z kconst_scheme \<Rightarrow> nat" where [maxsz_defs]:
  "NFS4_dec_setacl_sz k = compound_decode_hdr_maxsz k + decode_sequence_maxsz k + decode_putfh_maxsz k +
     decode_setacl_maxsz k"

definition NFS4_enc_fs_locations_sz :: "'z kconst_scheme \<Rightarrow> nat" where [maxsz_defs]:
  "NFS4_enc_fs_locations_sz k = compound_encode_hdr_maxsz k + encode_sequence_maxsz k + encode_putfh_maxsz k +
     encode_lookup_maxsz k + encode_fs_locations_maxsz k + encode_renew_maxsz k"

definition NFS4_dec_fs_locations_sz :: "'z kconst_scheme \<Rightarrow> nat" where [maxsz_defs]:
  "NFS4_dec_fs_locations_sz k = compound_decode_hdr_maxsz k + decode_sequence_maxsz k + decode_putfh_maxsz k +
     decode_lookup_maxsz k + decode_fs_locations_maxsz k + decode_renew_maxsz k"

definition NFS4_enc_secinfo_sz :: "'z kconst_scheme \<Rightarrow> nat" where [maxsz_defs]:
  "NFS4_enc_secinfo_sz k = compound_encode_hdr_maxsz k + encode_sequence_maxsz k + encode_putfh_maxsz k +
     encode_secinfo_maxsz k"

definition NFS4_dec_secinfo_sz :: "'z kconst_scheme \<Rightarrow> nat" where [maxsz_defs]:
  "NFS4_dec_secinfo_sz k = compound_decode_hdr_maxsz k + decode_sequence_maxsz k + decode_putfh_maxsz k +
     decode_secinfo_maxsz k"

definition NFS4_enc_fsid_present_sz :: "'z kconst_scheme \<Rightarrow> nat" where [maxsz_defs]:
  "NFS4_enc_fsid_present_sz k = compound_encode_hdr_maxsz k + encode_sequence_maxsz k + encode_putfh_maxsz k +
     encode_getfh_maxsz k + encode_renew_maxsz k"

definition NFS4_dec_fsid_present_sz :: "'z kconst_scheme \<Rightarrow> nat" where [maxsz_defs]:
  "NFS4_dec_fsid_present_sz k = compound_decode_hdr_maxsz k + decode_sequence_maxsz k + decode_putfh_maxsz k +
     decode_getfh_maxsz k + decode_renew_maxsz k"

definition NFS4_enc_bind_conn_to_session_sz :: "'z kconst_scheme \<Rightarrow> nat" where [maxsz_defs]:
  "NFS4_enc_bind_conn_to_session_sz k = compound_encode_hdr_maxsz k + encode_bind_conn_to_session_maxsz k"

definition NFS4_dec_bind_conn_to_session_sz :: "'z kconst_scheme \<Rightarrow> nat" where [maxsz_defs]:
  "NFS4_dec_bind_conn_to_session_sz k = compound_decode_hdr_maxsz k + decode_bind_conn_to_session_maxsz k"

definition NFS4_enc_exchange_id_sz :: "'z kconst_scheme \<Rightarrow> nat" where [maxsz_defs]:
  "NFS4_enc_exchange_id_sz k = compound_encode_hdr_maxsz k + encode_exchange_id_maxsz k"

definition NFS4_dec_exchange_id_sz :: "'z kconst_scheme \<Rightarrow> nat" where [maxsz_defs]:
  "NFS4_dec_exchange_id_sz k = compound_decode_hdr_maxsz k + decode_exchange_id_maxsz k"

definition NFS4_enc_create_session_sz :: "'z kconst_scheme \<Rightarrow> nat" where [maxsz_defs]:
  "NFS4_enc_create_session_sz k = compound_encode_hdr_maxsz k + encode_create_session_maxsz k"

definition NFS4_dec_create_session_sz :: "'z kconst_scheme \<Rightarrow> nat" where [maxsz_defs]:
  "NFS4_dec_create_session_sz k = compound_decode_hdr_maxsz k + decode_create_session_maxsz k"

definition NFS4_enc_destroy_session_sz :: "'z kconst_scheme \<Rightarrow> nat" where [maxsz_defs]:
  "NFS4_enc_destroy_session_sz k = compound_encode_hdr_maxsz k + encode_destroy_session_maxsz k"

definition NFS4_dec_destroy_session_sz :: "'z kconst_scheme \<Rightarrow> nat" where [maxsz_defs]:
  "NFS4_dec_destroy_session_sz k = compound_decode_hdr_maxsz k + decode_destroy_session_maxsz k"

definition NFS4_enc_destroy_clientid_sz :: "'z kconst_scheme \<Rightarrow> nat" where [maxsz_defs]:
  "NFS4_enc_destroy_clientid_sz k = compound_encode_hdr_maxsz k + encode_destroy_clientid_maxsz k"

definition NFS4_dec_destroy_clientid_sz :: "'z kconst_scheme \<Rightarrow> nat" where [maxsz_defs]:
  "NFS4_dec_destroy_clientid_sz k = compound_decode_hdr_maxsz k + decode_destroy_clientid_maxsz k"

definition NFS4_enc_sequence_sz :: "'z kconst_scheme \<Rightarrow> nat" where [maxsz_defs]:
  "NFS4_enc_sequence_sz k = compound_decode_hdr_maxsz k + encode_sequence_maxsz k"

definition NFS4_dec_sequence_sz :: "'z kconst_scheme \<Rightarrow> nat" where [maxsz_defs]:
  "NFS4_dec_sequence_sz k = compound_decode_hdr_maxsz k + decode_sequence_maxsz k"

definition NFS4_enc_get_lease_time_sz :: "'z kconst_scheme \<Rightarrow> nat" where [maxsz_defs]:
  "NFS4_enc_get_lease_time_sz k = compound_encode_hdr_maxsz k + encode_sequence_maxsz k + encode_putrootfh_maxsz k +
     encode_fsinfo_maxsz k"

definition NFS4_dec_get_lease_time_sz :: "'z kconst_scheme \<Rightarrow> nat" where [maxsz_defs]:
  "NFS4_dec_get_lease_time_sz k = compound_decode_hdr_maxsz k + decode_sequence_maxsz k + decode_putrootfh_maxsz k +
     decode_fsinfo_maxsz k"

definition NFS4_enc_reclaim_complete_sz :: "'z kconst_scheme \<Rightarrow> nat" where [maxsz_defs]:
  "NFS4_enc_reclaim_complete_sz k = compound_encode_hdr_maxsz k + encode_sequence_maxsz k + encode_reclaim_complete_maxsz k"

definition NFS4_dec_reclaim_complete_sz :: "'z kconst_scheme \<Rightarrow> nat" where [maxsz_defs]:
  "NFS4_dec_reclaim_complete_sz k = compound_decode_hdr_maxsz k + decode_sequence_maxsz k + decode_reclaim_complete_maxsz k"

definition NFS4_enc_getdeviceinfo_sz :: "'z kconst_scheme \<Rightarrow> nat" where [maxsz_defs]:
  "NFS4_enc_getdeviceinfo_sz k = compound_encode_hdr_maxsz k + encode_sequence_maxsz k + encode_getdeviceinfo_maxsz k"

definition NFS4_dec_getdeviceinfo_sz :: "'z kconst_scheme \<Rightarrow> nat" where [maxsz_defs]:
  "NFS4_dec_getdeviceinfo_sz k = compound_decode_hdr_maxsz k + decode_sequence_maxsz k + decode_getdeviceinfo_maxsz k"

definition NFS4_enc_layoutget_sz :: "'z kconst_scheme \<Rightarrow> nat" where [maxsz_defs]:
  "NFS4_enc_layoutget_sz k = compound_encode_hdr_maxsz k + encode_sequence_maxsz k + encode_putfh_maxsz k +
     encode_layoutget_maxsz k"

definition NFS4_dec_layoutget_sz :: "'z kconst_scheme \<Rightarrow> nat" where [maxsz_defs]:
  "NFS4_dec_layoutget_sz k = compound_decode_hdr_maxsz k + decode_sequence_maxsz k + decode_putfh_maxsz k +
     decode_layoutget_maxsz k"

definition NFS4_enc_layoutcommit_sz :: "'z kconst_scheme \<Rightarrow> nat" where [maxsz_defs]:
  "NFS4_enc_layoutcommit_sz k = compound_encode_hdr_maxsz k + encode_sequence_maxsz k + encode_putfh_maxsz k +
     encode_layoutcommit_maxsz k + encode_getattr_maxsz k"

definition NFS4_dec_layoutcommit_sz :: "'z kconst_scheme \<Rightarrow> nat" where [maxsz_defs]:
  "NFS4_dec_layoutcommit_sz k = compound_decode_hdr_maxsz k + decode_sequence_maxsz k + decode_putfh_maxsz k +
     decode_layoutcommit_maxsz k + decode_getattr_maxsz k"

definition NFS4_enc_layoutreturn_sz :: "'z kconst_scheme \<Rightarrow> nat" where [maxsz_defs]:
  "NFS4_enc_layoutreturn_sz k = compound_encode_hdr_maxsz k + encode_sequence_maxsz k + encode_putfh_maxsz k +
     encode_layoutreturn_maxsz k"

definition NFS4_dec_layoutreturn_sz :: "'z kconst_scheme \<Rightarrow> nat" where [maxsz_defs]:
  "NFS4_dec_layoutreturn_sz k = compound_decode_hdr_maxsz k + decode_sequence_maxsz k + decode_putfh_maxsz k +
     decode_layoutreturn_maxsz k"

definition NFS4_enc_secinfo_no_name_sz :: "'z kconst_scheme \<Rightarrow> nat" where [maxsz_defs]:
  "NFS4_enc_secinfo_no_name_sz k = compound_encode_hdr_maxsz k + encode_sequence_maxsz k + encode_putrootfh_maxsz k +
     encode_secinfo_no_name_maxsz k"

definition NFS4_dec_secinfo_no_name_sz :: "'z kconst_scheme \<Rightarrow> nat" where [maxsz_defs]:
  "NFS4_dec_secinfo_no_name_sz k = compound_decode_hdr_maxsz k + decode_sequence_maxsz k + decode_putrootfh_maxsz k +
     decode_secinfo_no_name_maxsz k"

definition NFS4_enc_test_stateid_sz :: "'z kconst_scheme \<Rightarrow> nat" where [maxsz_defs]:
  "NFS4_enc_test_stateid_sz k = compound_encode_hdr_maxsz k + encode_sequence_maxsz k + encode_test_stateid_maxsz k"

definition NFS4_dec_test_stateid_sz :: "'z kconst_scheme \<Rightarrow> nat" where [maxsz_defs]:
  "NFS4_dec_test_stateid_sz k = compound_decode_hdr_maxsz k + decode_sequence_maxsz k + decode_test_stateid_maxsz k"

definition NFS4_enc_free_stateid_sz :: "'z kconst_scheme \<Rightarrow> nat" where [maxsz_defs]:
  "NFS4_enc_free_stateid_sz k = compound_encode_hdr_maxsz k + encode_sequence_maxsz k + encode_free_stateid_maxsz k"

definition NFS4_dec_free_stateid_sz :: "'z kconst_scheme \<Rightarrow> nat" where [maxsz_defs]:
  "NFS4_dec_free_stateid_sz k = compound_decode_hdr_maxsz k + decode_sequence_maxsz k + decode_free_stateid_maxsz k"

definition nfs41_maxwrite_overhead :: "'z kconst_scheme \<Rightarrow> nat" where [maxsz_defs]:
  "nfs41_maxwrite_overhead k = (RPC_MAX_HEADER_WITH_AUTH k + compound_encode_hdr_maxsz k + encode_sequence_maxsz k +
     encode_putfh_maxsz k + encode_getattr_maxsz k) * 4"

definition nfs41_maxread_overhead :: "'z kconst_scheme \<Rightarrow> nat" where [maxsz_defs]:
  "nfs41_maxread_overhead k = (RPC_MAX_HEADER_WITH_AUTH k + compound_decode_hdr_maxsz k + decode_sequence_maxsz k +
     decode_putfh_maxsz k) * 4"

definition nfs41_maxgetdevinfo_overhead :: "'z kconst_scheme \<Rightarrow> nat" where [maxsz_defs]:
  "nfs41_maxgetdevinfo_overhead k = (RPC_MAX_REPHEADER_WITH_AUTH k + compound_decode_hdr_maxsz k +
     decode_sequence_maxsz k) * 4"

end
