(* ===== verification/Xdr_Encode_Prim.thy ===== *)
theory Xdr_Encode_Prim
  imports Xdr_Sizes
begin

text \<open>
  The encoding primitives of \<^verbatim>\<open>fs/nfs/nfs4xdr.c\<close> (\<^verbatim>\<open>reserve_space\<close> to
  \<^verbatim>\<open>encode_nfs4_verifier\<close>).

  The sunrpc library and the idmapper are not part of the repository: the functions the encoders
  call are the fields of the record \<open>kernel\<close>, an argument of every definition, and what their
  documentation promises is stated by \<open>xdr_env\<close>. The stream of the library is the
  opaque type \<open>'s\<close>; \<open>avail\<close> in \<open>xdr_env\<close> reads the room it has left.

  The state of an encoder is the stream with the bytes stored so far through the pointers
  that \<^verbatim>\<open>xdr_reserve_space\<close> returned (\<open>xbuf\<close>, in order), the page data spliced in by
  \<^verbatim>\<open>xdr_write_pages\<close> with its position (\<open>xpages\<close>), the reply-buffer set-up
  (\<open>rcv_inline\<close>), and the compound header. A fault is a value: a failed \<open>BUG_ON\<close>, a store
  through the NULL pointer of an unchecked reservation, a store past the reserved bytes, reserved
  bytes left uninitialised, or a read past a source buffer.
\<close>

section \<open>The kernel services the encoders call\<close>

text \<open>The members of \<^verbatim>\<open>struct nfs_server\<close> the sources read here; an attribute bitmap is an array of
  three words.\<close>

type_synonym bitmap3 = "u32 \<times> u32 \<times> u32"

record nfs_server =
  s_dev :: u32
  attr_bitmask :: bitmap3
  attr_bitmask_nl :: bitmap3

record 's kernel = kconst +
  xdr_reserve_space :: "'s \<Rightarrow> nat \<Rightarrow> 's option"
  xdr_write_pages :: "'s \<Rightarrow> bytes \<Rightarrow> u32 \<Rightarrow> u32 \<Rightarrow> 's"
  xdr_encode_hyper :: "u64 \<Rightarrow> bytes"
  xdr_encode_opaque :: "bytes \<Rightarrow> u32 \<Rightarrow> bytes"
  xdr_encode_opaque_fixed :: "bytes \<Rightarrow> nat \<Rightarrow> bytes"
  nfs_map_uid_to_name :: "nfs_server \<Rightarrow> u32 \<Rightarrow> nat \<Rightarrow> int \<times> bytes"
  nfs_map_gid_to_group :: "nfs_server \<Rightarrow> u32 \<Rightarrow> nat \<Rightarrow> int \<times> bytes"

text \<open>Opaque data on the wire (RFC 4506, sections 4.9 and 4.10): the bytes, then zero bytes up to
  the next unit; variable-length data is preceded by its length.\<close>

definition opaque_fixed :: "bytes \<Rightarrow> bytes" where
  "opaque_fixed bs = bs @ replicate (pad (length bs)) 0"

definition opaque_var :: "bytes \<Rightarrow> bytes" where
  "opaque_var bs = be32 (of_nat (length bs)) @ opaque_fixed bs"

text \<open>
  What the encoders rely on:
  \<^item> \<^verbatim>\<open>xdr_reserve_space\<close> gives the requested bytes, rounded up to whole XDR units, exactly when
    the buffer has them left;
  \<^item> \<^verbatim>\<open>xdr_encode_opaque_fixed\<close> and \<^verbatim>\<open>xdr_encode_opaque\<close> copy the data and pad it with zero bytes;
  \<^item> \<^verbatim>\<open>xdr_encode_hyper\<close> stores a 64-bit value, most significant byte first;
  \<^item> \<^verbatim>\<open>xdr_write_pages\<close> uses no room but at most the one unit that pads the page data;
  \<^item> the idmapper returns a negative errno or the length of a name that fits the buffer, and the
    name buffer (\<open>IDMAP_NAMESZ\<close>, 128 in the kernel headers) is small but holds ``nobody''.
\<close>

definition xdr_env :: "'s kernel \<Rightarrow> ('s \<Rightarrow> nat) \<Rightarrow> bool" where
  "xdr_env K avail \<longleftrightarrow>
     (\<forall>s n. if quad n \<le> avail s
            then \<exists>t. xdr_reserve_space K s n = Some t \<and> avail t = avail s - quad n
            else xdr_reserve_space K s n = None) \<and>
     (\<forall>b n. n \<le> length b \<longrightarrow> xdr_encode_opaque_fixed K b n = opaque_fixed (take n b)) \<and>
     (\<forall>b n. unat n \<le> length b \<longrightarrow> xdr_encode_opaque K b n = opaque_var (take (unat n) b)) \<and>
     (\<forall>w. xdr_encode_hyper K w = be64 w) \<and>
     (\<forall>s b i n. avail s \<le> avail (xdr_write_pages K s b i n) + 4 \<and>
                avail (xdr_write_pages K s b i n) \<le> avail s) \<and>
     (\<forall>f\<in>{nfs_map_uid_to_name K, nfs_map_gid_to_group K}. \<forall>sv x n.
        fst (f sv x n) < 0 \<or>
        fst (f sv x n) \<le> int n \<and> fst (f sv x n) \<le> int (length (snd (f sv x n)))) \<and>
     6 \<le> IDMAP_NAMESZ K \<and> IDMAP_NAMESZ K \<le> 65536"

lemma xdr_env_idmap:
  assumes "xdr_env K avail" and "f \<in> {nfs_map_uid_to_name K, nfs_map_gid_to_group K}"
    and "0 \<le> fst (f sv x n)"
  shows "fst (f sv x n) \<le> int n" "fst (f sv x n) \<le> int (length (snd (f sv x n)))"
  using assms unfolding xdr_env_def by (metis not_less)+

lemma xdr_env_namesz:
  assumes "xdr_env K avail"
  shows "6 \<le> IDMAP_NAMESZ K" "IDMAP_NAMESZ K \<le> 65536"
  using assms unfolding xdr_env_def by auto

section \<open>The encoder state\<close>

record compound_hdr =
  hstatus :: int
  nops :: u32
  nops_p :: "nat option"
  taglen :: u32
  htag :: bytes
  replen :: u32
  minorversion :: u32

record 's enc =
  strm :: 's
  xbuf :: bytes
  xpages :: "(nat \<times> bytes) list"
  rcv_inline :: "(u32 \<times> bytes \<times> u32 \<times> u32) option"
  rcv_read :: bool
  snd_write :: bool
  hdr :: compound_hdr

datatype xdr_fault = BUG | NULL_DEREF | OVERRUN | UNINIT | OOB_READ

type_synonym 's encoder = "'s enc \<Rightarrow> xdr_fault + 's enc"

record rpc_rqst =
  au_rslack :: u32

text \<open>A compound header as the procedures initialise it: \<open>minorversion\<close> set, every other member
  zero.\<close>

definition hdr_init :: "u32 \<Rightarrow> compound_hdr" where
  "hdr_init m = \<lparr>hstatus = 0, nops = 0, nops_p = None, taglen = 0, htag = [], replen = 0,
                 minorversion = m\<rparr>"

definition enc_init :: "'s \<Rightarrow> 's enc" where
  "enc_init x = \<lparr>strm = x, xbuf = [], xpages = [], rcv_inline = None, rcv_read = False,
                 snd_write = False, hdr = hdr_init 0\<rparr>"

section \<open>The primitives\<close>

text \<open>Storing \<open>bs\<close> through a pointer to \<open>n\<close> reserved bytes.\<close>

definition store :: "nat \<Rightarrow> bytes \<Rightarrow> 's encoder" where
  "store n bs s =
     (if quad n < length bs then Inl OVERRUN
      else if length bs < quad n then Inl UNINIT
      else Inr (s\<lparr>xbuf := xbuf s @ bs\<rparr>))"

text \<open>\<open>reserve_space K n bs\<close>: \<^verbatim>\<open>p = reserve_space(xdr, n)\<close> followed by the stores of \<open>bs\<close> at \<open>p\<close>.
  \<open>xreserve_space\<close> is the same with \<^verbatim>\<open>xdr_reserve_space\<close> called directly, its result not
  checked.\<close>

definition reserve_space :: "'s kernel \<Rightarrow> nat \<Rightarrow> bytes \<Rightarrow> 's encoder" where [enc_defs]:
  "reserve_space K n bs s =
     (case xdr_reserve_space K (strm s) n of
        None \<Rightarrow> Inl BUG
      | Some t \<Rightarrow> store n bs (s\<lparr>strm := t\<rparr>))"

definition xreserve_space :: "'s kernel \<Rightarrow> nat \<Rightarrow> bytes \<Rightarrow> 's encoder" where [enc_defs]:
  "xreserve_space K n bs s =
     (case xdr_reserve_space K (strm s) n of
        None \<Rightarrow> Inl NULL_DEREF
      | Some t \<Rightarrow> store n bs (s\<lparr>strm := t\<rparr>))"

definition encode_opaque_fixed :: "'s kernel \<Rightarrow> bytes \<Rightarrow> nat \<Rightarrow> 's encoder" where [enc_defs]:
  "encode_opaque_fixed K buf len s =
     (if length buf < len then Inl OOB_READ
      else xreserve_space K len (xdr_encode_opaque_fixed K buf len) s)"

definition encode_string :: "'s kernel \<Rightarrow> u32 \<Rightarrow> bytes \<Rightarrow> 's encoder" where [enc_defs]:
  "encode_string K len str s =
     (if length str < unat len then Inl OOB_READ
      else reserve_space K (unat (4 + len)) (xdr_encode_opaque K str len) s)"

definition encode_uint32 :: "'s kernel \<Rightarrow> u32 \<Rightarrow> 's encoder" where [enc_defs]:
  "encode_uint32 K n = reserve_space K 4 (be32 n)"

definition encode_uint64 :: "'s kernel \<Rightarrow> u64 \<Rightarrow> 's encoder" where [enc_defs]:
  "encode_uint64 K n = reserve_space K 8 (xdr_encode_hyper K n)"

text \<open>A sequence id (\<^verbatim>\<open>struct nfs_seqid\<close>) is represented by the counter of its sequence.\<close>

definition encode_nfs4_seqid :: "'s kernel \<Rightarrow> u32 \<Rightarrow> 's encoder" where [enc_defs]:
  "encode_nfs4_seqid K counter = encode_uint32 K counter"

definition encode_compound_hdr :: "'s kernel \<Rightarrow> rpc_rqst \<Rightarrow> 's encoder" where [enc_defs]:
  "encode_compound_hdr K req s =
     run [\<lambda>s. Inr (s\<lparr>hdr := (hdr s)\<lparr>replen := of_nat (RPC_REPHDRSIZE K) + au_rslack req + 3 +
                                              taglen (hdr s)\<rparr>\<rparr>),
          \<lambda>s. encode_string K (taglen (hdr s)) (htag (hdr s)) s,
          \<lambda>s. case reserve_space K 8 (be32 (minorversion (hdr s)) @ be32 (nops (hdr s))) s of
                 Inl e \<Rightarrow> Inl e
               | Inr t \<Rightarrow> Inr (t\<lparr>hdr := (hdr t)\<lparr>nops_p := Some (length (xbuf s) + 4)\<rparr>\<rparr>)] s"

definition encode_op_hdr :: "'s kernel \<Rightarrow> nfs_opnum4 \<Rightarrow> nat \<Rightarrow> 's encoder" where [enc_defs]:
  "encode_op_hdr K op rep =
     run [encode_uint32 K (opnum op),
          \<lambda>s. Inr (s\<lparr>hdr := (hdr s)\<lparr>nops := nops (hdr s) + 1,
                                     replen := replen (hdr s) + of_nat rep\<rparr>\<rparr>)]"

definition encode_nops :: "'s encoder" where [enc_defs]:
  "encode_nops s =
     (case nops_p (hdr s) of
        None \<Rightarrow> Inl NULL_DEREF
      | Some i \<Rightarrow> Inr (s\<lparr>xbuf := take i (xbuf s) @ be32 (nops (hdr s)) @ drop (i + 4) (xbuf s)\<rparr>))"

text \<open>\<^verbatim>\<open>nfs4_stateid\<close> is a packed struct: a big-endian sequence number and twelve opaque bytes. It and
  the verifier are copied as they lie in memory.\<close>

record nfs4_stateid =
  st_seqid :: u32
  st_other :: bytes

definition stateid_bytes :: "nfs4_stateid \<Rightarrow> bytes" where [wire_defs]:
  "stateid_bytes st = be32 (st_seqid st) @ st_other st"

definition encode_nfs4_stateid :: "'s kernel \<Rightarrow> nfs4_stateid \<Rightarrow> 's encoder" where [enc_defs]:
  "encode_nfs4_stateid K st = encode_opaque_fixed K (stateid_bytes st) NFS4_STATEID_SIZE"

definition encode_nfs4_verifier :: "'s kernel \<Rightarrow> bytes \<Rightarrow> 's encoder" where [enc_defs]:
  "encode_nfs4_verifier K verf = encode_opaque_fixed K verf NFS4_VERIFIER_SIZE"

section \<open>Facts about the wire formats\<close>

lemma length_opaque_fixed [simp]: "length (opaque_fixed bs) = quad (length bs)"
  by (simp add: opaque_fixed_def)

lemma length_opaque_var [simp]: "length (opaque_var bs) = 4 + quad (length bs)"
  by (simp add: opaque_var_def)

lemma opaque_fixed_aligned [simp]: "4 dvd length bs \<Longrightarrow> opaque_fixed bs = bs"
  by (simp add: opaque_fixed_def pad_def)

lemma length_stateid_bytes [simp]: "length (stateid_bytes st) = 4 + length (st_other st)"
  by (simp add: stateid_bytes_def)

section \<open>The write contract\<close>

text \<open>The state after appending \<open>bs\<close>, with \<open>n\<close> more operations and \<open>r\<close> more reply words counted.\<close>

definition emit :: "'s \<Rightarrow> bytes \<Rightarrow> u32 \<Rightarrow> u32 \<Rightarrow> 's enc \<Rightarrow> 's enc" where
  "emit t bs n r s = s\<lparr>strm := t, xbuf := xbuf s @ bs,
                       hdr := (hdr s)\<lparr>nops := nops (hdr s) + n, replen := replen (hdr s) + r\<rparr>\<rparr>"

lemma emit_emit [simp]: "emit t' bs' n' r' (emit t bs n r s) = emit t' (bs @ bs') (n + n') (r + r') s"
  by (simp add: emit_def add.assoc)

lemma emit_simps [simp]:
  "strm (emit t bs n r s) = t" "xbuf (emit t bs n r s) = xbuf s @ bs"
  "nops (hdr (emit t bs n r s)) = nops (hdr s) + n" "replen (hdr (emit t bs n r s)) = replen (hdr s) + r"
  "nops_p (hdr (emit t bs n r s)) = nops_p (hdr s)" "xpages (emit t bs n r s) = xpages s"
  "rcv_inline (emit t bs n r s) = rcv_inline s" "minorversion (hdr (emit t bs n r s)) = minorversion (hdr s)"
  by (simp_all add: emit_def)

lemma emit_none [simp]: "emit (strm s) [] 0 0 s = s"
  by (simp add: emit_def)

text \<open>
  \<open>writes avail f bs n r\<close>: when the buffer has room for \<open>bs\<close>, the encoder \<open>f\<close> appends exactly
  \<open>bs\<close>, uses exactly that much room, adds \<open>n\<close> operations and \<open>r\<close> expected reply words to the
  header and changes nothing else; when the room is missing it faults.
\<close>

definition writes :: "('s \<Rightarrow> nat) \<Rightarrow> 's encoder \<Rightarrow> bytes \<Rightarrow> u32 \<Rightarrow> u32 \<Rightarrow> bool" where
  "writes avail f bs n r \<longleftrightarrow>
     (\<forall>s. if length bs \<le> avail (strm s)
          then \<exists>t. f s = Inr (emit t bs n r s) \<and> avail t = avail (strm s) - length bs
          else \<exists>e. f s = Inl e)"

lemma writesI:
  assumes "\<And>s. length bs \<le> avail (strm s) \<Longrightarrow>
             \<exists>t. f s = Inr (emit t bs n r s) \<and> avail t = avail (strm s) - length bs"
    and "\<And>s. avail (strm s) < length bs \<Longrightarrow> \<exists>e. f s = Inl e"
  shows "writes avail f bs n r"
  using assms unfolding writes_def by (simp add: not_le)

lemma writesD:
  assumes "writes avail f bs n r" and "length bs \<le> avail (strm s)"
  obtains t where "f s = Inr (emit t bs n r s)" "avail t = avail (strm s) - length bs"
  using assms unfolding writes_def by meson

lemma writes_faults: "writes avail f bs n r \<Longrightarrow> avail (strm s) < length bs \<Longrightarrow> \<exists>e. f s = Inl e"
  unfolding writes_def by (meson not_le)

lemma writes_cong: "writes avail f bs n r \<Longrightarrow> bs = bs' \<Longrightarrow> n = n' \<Longrightarrow> r = r' \<Longrightarrow> writes avail f bs' n' r'"
  by simp

lemma writes_run_Nil [writes_rules]: "writes avail (run []) [] 0 0"
  by (rule writesI) (auto intro!: exI [where x = "strm _"])

lemma writes_run_Cons:
  assumes f: "writes avail f b n r" and fs: "writes avail (run fs) bs ns rs"
  shows "writes avail (run (f # fs)) (b @ bs) (n + ns) (r + rs)"
proof (rule writesI)
  fix s :: "'a enc" assume room: "length (b @ bs) \<le> avail (strm s)"
  then obtain t where t: "f s = Inr (emit t b n r s)" "avail t = avail (strm s) - length b"
    using f by (elim writesD [where s = s]) auto
  with room fs obtain t' where
    "run fs (emit t b n r s) = Inr (emit t' bs ns rs (emit t b n r s))" "avail t' = avail t - length bs"
    by (elim writesD [where s = "emit t b n r s"]) auto
  with t room show "\<exists>u. run (f # fs) s = Inr (emit u (b @ bs) (n + ns) (r + rs) s) \<and>
                        avail u = avail (strm s) - length (b @ bs)"
    by auto
next
  fix s :: "'a enc" assume short: "avail (strm s) < length (b @ bs)"
  show "\<exists>e. run (f # fs) s = Inl e"
  proof (cases "length b \<le> avail (strm s)")
    case True
    with f obtain t where t: "f s = Inr (emit t b n r s)" "avail t = avail (strm s) - length b"
      by (elim writesD)
    with short True have "\<exists>e. run fs (emit t b n r s) = Inl e"
      by (intro writes_faults [OF fs]) simp
    with t show ?thesis by auto
  next
    case False
    with writes_faults [OF f, of s] show ?thesis by auto
  qed
qed

text \<open>Updating only the header counts.\<close>

lemma writes_hdr_only:
  "writes avail (\<lambda>s. Inr (s\<lparr>hdr := (hdr s)\<lparr>nops := nops (hdr s) + n, replen := replen (hdr s) + r\<rparr>\<rparr>)) [] n r"
  by (rule writesI) (auto simp: emit_def intro!: exI [where x = "strm _"])

section \<open>The contracts of the primitives\<close>

lemma xdr_env_reserve:
  "xdr_env K avail \<Longrightarrow> quad n \<le> avail s \<Longrightarrow>
   \<exists>t. xdr_reserve_space K s n = Some t \<and> avail t = avail s - quad n"
  unfolding xdr_env_def by (metis (no_types, lifting))

lemma xdr_env_reserve_None:
  "xdr_env K avail \<Longrightarrow> avail s < quad n \<Longrightarrow> xdr_reserve_space K s n = None"
  unfolding xdr_env_def by (metis (no_types, lifting) not_le)

lemma xdr_env_simps:
  assumes "xdr_env K avail"
  shows "n \<le> length b \<Longrightarrow> xdr_encode_opaque_fixed K b n = opaque_fixed (take n b)"
    and "unat l \<le> length b \<Longrightarrow> xdr_encode_opaque K b l = opaque_var (take (unat l) b)"
    and "xdr_encode_hyper K w = be64 w"
  using assms unfolding xdr_env_def by auto

lemma writes_reserve_space [writes_rules]:
  assumes "xdr_env K avail" and "length bs = quad n"
  shows "writes avail (reserve_space K n bs) bs 0 0"
  using xdr_env_reserve [OF assms(1), of n] xdr_env_reserve_None [OF assms(1), of _ n] assms(2)
  by (intro writesI) (fastforce simp: reserve_space_def store_def emit_def)+

lemma writes_xreserve_space [writes_rules]:
  assumes "xdr_env K avail" and "length bs = quad n"
  shows "writes avail (xreserve_space K n bs) bs 0 0"
  using xdr_env_reserve [OF assms(1), of n] xdr_env_reserve_None [OF assms(1), of _ n] assms(2)
  by (intro writesI) (fastforce simp: xreserve_space_def store_def emit_def)+

lemma writes_encode_opaque_fixed [writes_rules]:
  assumes "xdr_env K avail" and "n \<le> length buf"
  shows "writes avail (encode_opaque_fixed K buf n) (opaque_fixed (take n buf)) 0 0"
proof -
  have "encode_opaque_fixed K buf n = xreserve_space K n (opaque_fixed (take n buf))"
    using assms by (auto simp: encode_opaque_fixed_def xdr_env_simps(1) [OF assms(1)])
  then show ?thesis using assms by (auto intro!: writes_xreserve_space simp: min_absorb2)
qed

text \<open>\<^verbatim>\<open>encode_string\<close> computes \<open>4 + len\<close> in 32 bits; below that bound it writes the length, the
  string and the padding.\<close>

lemma writes_encode_string [writes_rules]:
  assumes "xdr_env K avail" and "unat len \<le> length str" and "unat len < 2 ^ 32 - 4"
  shows "writes avail (encode_string K len str) (opaque_var (take (unat len) str)) 0 0"
proof -
  have u: "unat (4 + len) = 4 + unat len"
    using assms(3) by (subst unat_add_no_overflow) auto
  have "encode_string K len str = reserve_space K (4 + unat len) (opaque_var (take (unat len) str))"
    using assms u by (auto simp: encode_string_def xdr_env_simps(2) [OF assms(1)])
  then show ?thesis using assms by (auto intro!: writes_reserve_space simp: min_absorb2)
qed

lemma writes_encode_uint32 [writes_rules]:
  "xdr_env K avail \<Longrightarrow> writes avail (encode_uint32 K n) (be32 n) 0 0"
  by (simp add: encode_uint32_def writes_reserve_space)

lemma writes_encode_nfs4_seqid [writes_rules]:
  "xdr_env K avail \<Longrightarrow> writes avail (encode_nfs4_seqid K n) (be32 n) 0 0"
  by (simp add: encode_nfs4_seqid_def writes_encode_uint32)

lemma writes_encode_uint64 [writes_rules]:
  "xdr_env K avail \<Longrightarrow> writes avail (encode_uint64 K n) (be64 n) 0 0"
  by (simp add: encode_uint64_def writes_reserve_space xdr_env_simps)

lemma writes_encode_op_hdr [writes_rules]:
  assumes "xdr_env K avail"
  shows "writes avail (encode_op_hdr K op rep) (be32 (opnum op)) 1 (of_nat rep)"
  unfolding encode_op_hdr_def
  by (rule writes_cong, rule writes_run_Cons, rule writes_encode_uint32 [OF assms],
      simp only: run_single, rule writes_hdr_only) simp_all

lemma writes_encode_nfs4_stateid [writes_rules]:
  assumes "xdr_env K avail" and "length (st_other st) = NFS4_STATEID_OTHER_SIZE"
  shows "writes avail (encode_nfs4_stateid K st) (stateid_bytes st) 0 0"
  unfolding encode_nfs4_stateid_def
  using assms by (intro writes_cong [OF writes_encode_opaque_fixed]) auto

lemma writes_encode_nfs4_verifier [writes_rules]:
  assumes "xdr_env K avail" and "length verf = NFS4_VERIFIER_SIZE"
  shows "writes avail (encode_nfs4_verifier K verf) verf 0 0"
  unfolding encode_nfs4_verifier_def
  using assms by (intro writes_cong [OF writes_encode_opaque_fixed]) auto

end
