(* ===== verification/Xdr_Encode_Attrs.thy ===== *)
theory Xdr_Encode_Attrs
  imports Xdr_Encode_Prim
begin

text \<open>
  \<^verbatim>\<open>encode_attrs\<close> of \<^verbatim>\<open>fs/nfs/nfs4xdr.c\<close>: the attributes that SETATTR, CREATE and OPEN send. The
  function computes the attribute bitmap and the byte length of the values first, reserves the
  whole item at once, and then stores the values. The lemmas show that what is stored fills
  the reserved space exactly, that the length field counts the bytes that follow it, and that the
  item stays within \<open>encode_attrs_maxsz\<close>.
\<close>

section \<open>Data\<close>

abbreviation (input) ATTR_MODE :: u32 where "ATTR_MODE \<equiv> 0x1"
abbreviation (input) ATTR_UID :: u32 where "ATTR_UID \<equiv> 0x2"
abbreviation (input) ATTR_GID :: u32 where "ATTR_GID \<equiv> 0x4"
abbreviation (input) ATTR_SIZE :: u32 where "ATTR_SIZE \<equiv> 0x8"
abbreviation (input) ATTR_ATIME :: u32 where "ATTR_ATIME \<equiv> 0x10"
abbreviation (input) ATTR_MTIME :: u32 where "ATTR_MTIME \<equiv> 0x20"
abbreviation (input) ATTR_ATIME_SET :: u32 where "ATTR_ATIME_SET \<equiv> 0x80"
abbreviation (input) ATTR_MTIME_SET :: u32 where "ATTR_MTIME_SET \<equiv> 0x100"

text \<open>\<open>S_IALLUGO\<close> is the set of permission bits, 07777 in octal.\<close>

abbreviation (input) S_IALLUGO :: u16 where "S_IALLUGO \<equiv> 0xFFF"

record timespec =
  tv_sec :: u64
  tv_nsec :: u64

record iattr =
  ia_valid :: u32
  ia_mode :: u16
  ia_uid :: u32
  ia_gid :: u32
  ia_size :: u64
  ia_atime :: timespec
  ia_mtime :: timespec

record nfs4_label =
  label_lfs :: u32
  label_pi :: u32
  label_len :: u32
  label_data :: bytes

section \<open>Sizes and bitmap\<close>

text \<open>\<^verbatim>\<open>iap->ia_valid & bit\<close>\<close>

definition ia_has :: "iattr \<Rightarrow> u32 \<Rightarrow> bool" where
  "ia_has iap b \<longleftrightarrow> ia_valid iap AND b \<noteq> 0"

text \<open>The owner (and group) string: what the idmapper gives, or ``nobody''.\<close>

definition nobody :: "int \<times> bytes" where
  "nobody = (6, [0x6e, 0x6f, 0x62, 0x6f, 0x64, 0x79])"

definition attrs_owner :: "'s kernel \<Rightarrow> nfs_server \<Rightarrow> iattr \<Rightarrow> int \<times> bytes" where
  "attrs_owner K server iap =
     (let r = nfs_map_uid_to_name K server (ia_uid iap) (IDMAP_NAMESZ K)
      in if fst r < 0 then nobody else r)"

definition attrs_group :: "'s kernel \<Rightarrow> nfs_server \<Rightarrow> iattr \<Rightarrow> int \<times> bytes" where
  "attrs_group K server iap =
     (let r = nfs_map_gid_to_group K server (ia_gid iap) (IDMAP_NAMESZ K)
      in if fst r < 0 then nobody else r)"

text \<open>\<^verbatim>\<open>bmval[0]\<close>, \<^verbatim>\<open>bmval[1]\<close>, \<^verbatim>\<open>bmval[2]\<close> and \<^verbatim>\<open>len\<close> as the first half of the function computes
  them.\<close>

definition attrs_bmval :: "iattr \<Rightarrow> nfs4_label option \<Rightarrow> bitmap3" where
  "attrs_bmval iap lab =
     ((if ia_has iap ATTR_SIZE then FATTR4_WORD0_SIZE else 0),
      (if ia_has iap ATTR_MODE then FATTR4_WORD1_MODE else 0) OR
      (if ia_has iap ATTR_UID then FATTR4_WORD1_OWNER else 0) OR
      (if ia_has iap ATTR_GID then FATTR4_WORD1_OWNER_GROUP else 0) OR
      (if ia_has iap ATTR_ATIME_SET then FATTR4_WORD1_TIME_ACCESS_SET
       else if ia_has iap ATTR_ATIME then FATTR4_WORD1_TIME_ACCESS_SET else 0) OR
      (if ia_has iap ATTR_MTIME_SET then FATTR4_WORD1_TIME_MODIFY_SET
       else if ia_has iap ATTR_MTIME then FATTR4_WORD1_TIME_MODIFY_SET else 0),
      (case lab of None \<Rightarrow> 0 | Some l \<Rightarrow> FATTR4_WORD2_SECURITY_LABEL))"

definition attrs_len :: "'s kernel \<Rightarrow> nfs_server \<Rightarrow> iattr \<Rightarrow> nfs4_label option \<Rightarrow> u32" where
  "attrs_len K server iap lab =
     (if ia_has iap ATTR_SIZE then 8 else 0) +
     (if ia_has iap ATTR_MODE then 4 else 0) +
     (if ia_has iap ATTR_UID then 4 + of_nat (quad (nat (fst (attrs_owner K server iap)))) else 0) +
     (if ia_has iap ATTR_GID then 4 + of_nat (quad (nat (fst (attrs_group K server iap)))) else 0) +
     (if ia_has iap ATTR_ATIME_SET then 16 else if ia_has iap ATTR_ATIME then 4 else 0) +
     (if ia_has iap ATTR_MTIME_SET then 16 else if ia_has iap ATTR_MTIME then 4 else 0) +
     (case lab of None \<Rightarrow> 0 | Some l \<Rightarrow> 4 + 4 + 4 + push_bit 2 (drop_bit 2 (label_len l + 3)))"

definition attrs_bmval_len :: "bitmap3 \<Rightarrow> u32" where
  "attrs_bmval_len bm = (case bm of (b0, b1, b2) \<Rightarrow> if b2 \<noteq> 0 then 3 else if b1 \<noteq> 0 then 2 else 1)"

text \<open>\<^verbatim>\<open>for (i = 0; i < bmval_len; i++) *p++ = cpu_to_be32(bmval[i]);\<close>\<close>

definition bitmap_words :: "u32 \<Rightarrow> bitmap3 \<Rightarrow> bytes" where
  "bitmap_words n bm = (case bm of (b0, b1, b2) \<Rightarrow> concat (map be32 (take (unat n) [b0, b1, b2])))"

section \<open>The values\<close>

definition time_bytes :: "'s kernel \<Rightarrow> bool \<Rightarrow> timespec \<Rightarrow> bytes" where
  "time_bytes K client t =
     (if client then be32 NFS4_SET_TO_CLIENT_TIME @ xdr_encode_hyper K (tv_sec t) @ be32 (ucast (tv_nsec t))
      else be32 NFS4_SET_TO_SERVER_TIME)"

definition attrs_values :: "'s kernel \<Rightarrow> nfs_server \<Rightarrow> iattr \<Rightarrow> nfs4_label option \<Rightarrow> bytes" where
  "attrs_values K server iap lab =
     (case attrs_bmval iap lab of (b0, b1, b2) \<Rightarrow>
       (if b0 AND FATTR4_WORD0_SIZE \<noteq> 0 then xdr_encode_hyper K (ia_size iap) else []) @
       (if b1 AND FATTR4_WORD1_MODE \<noteq> 0 then be32 (ucast (ia_mode iap AND S_IALLUGO)) else []) @
       (if b1 AND FATTR4_WORD1_OWNER \<noteq> 0
        then xdr_encode_opaque K (snd (attrs_owner K server iap)) (of_int (fst (attrs_owner K server iap)))
        else []) @
       (if b1 AND FATTR4_WORD1_OWNER_GROUP \<noteq> 0
        then xdr_encode_opaque K (snd (attrs_group K server iap)) (of_int (fst (attrs_group K server iap)))
        else []) @
       (if b1 AND FATTR4_WORD1_TIME_ACCESS_SET \<noteq> 0
        then time_bytes K (ia_has iap ATTR_ATIME_SET) (ia_atime iap) else []) @
       (if b1 AND FATTR4_WORD1_TIME_MODIFY_SET \<noteq> 0
        then time_bytes K (ia_has iap ATTR_MTIME_SET) (ia_mtime iap) else []) @
       (case lab of None \<Rightarrow> []
        | Some l \<Rightarrow>
            if b2 AND FATTR4_WORD2_SECURITY_LABEL \<noteq> 0
            then be32 (label_lfs l) @ be32 (label_pi l) @ be32 (label_len l) @
                 xdr_encode_opaque_fixed K (label_data l) (unat (label_len l))
            else []))"

definition attrs_bytes :: "'s kernel \<Rightarrow> nfs_server \<Rightarrow> iattr \<Rightarrow> nfs4_label option \<Rightarrow> bytes" where [wire_defs]:
  "attrs_bytes K server iap lab =
     (let bm = attrs_bmval iap lab; n = attrs_bmval_len bm
      in be32 n @ bitmap_words n bm @ be32 (attrs_len K server iap lab) @ attrs_values K server iap lab)"

text \<open>A label shorter than its \<open>len\<close> would be read past its end.\<close>

definition encode_attrs :: "'s kernel \<Rightarrow> iattr \<Rightarrow> nfs4_label option \<Rightarrow> nfs_server \<Rightarrow> 's encoder" where [enc_defs]:
  "encode_attrs K iap lab server s =
     (if (case lab of None \<Rightarrow> False | Some l \<Rightarrow> length (label_data l) < unat (label_len l)) then Inl OOB_READ
      else reserve_space K
             (unat (4 + push_bit 2 (attrs_bmval_len (attrs_bmval iap lab)) + 4 + attrs_len K server iap lab))
             (attrs_bytes K server iap lab) s)"

section \<open>The stored bytes fill the reserved space\<close>

text \<open>A label as the security module hands it over: its length within the protocol limit and its
  bytes present.\<close>

definition label_ok :: "nfs4_label option \<Rightarrow> bool" where
  "label_ok lab = (case lab of None \<Rightarrow> True
     | Some l \<Rightarrow> unat (label_len l) \<le> NFS4_MAXLABELLEN \<and> unat (label_len l) \<le> length (label_data l))"

lemma attrs_bmval_bits:
  fixes iap lab
  defines "b0 \<equiv> fst (attrs_bmval iap lab)" and "b1 \<equiv> fst (snd (attrs_bmval iap lab))"
    and "b2 \<equiv> snd (snd (attrs_bmval iap lab))"
  shows "b0 AND FATTR4_WORD0_SIZE \<noteq> 0 \<longleftrightarrow> ia_has iap ATTR_SIZE"
    and "b1 AND FATTR4_WORD1_MODE \<noteq> 0 \<longleftrightarrow> ia_has iap ATTR_MODE"
    and "b1 AND FATTR4_WORD1_OWNER \<noteq> 0 \<longleftrightarrow> ia_has iap ATTR_UID"
    and "b1 AND FATTR4_WORD1_OWNER_GROUP \<noteq> 0 \<longleftrightarrow> ia_has iap ATTR_GID"
    and "b1 AND FATTR4_WORD1_TIME_ACCESS_SET \<noteq> 0 \<longleftrightarrow> ia_has iap ATTR_ATIME_SET \<or> ia_has iap ATTR_ATIME"
    and "b1 AND FATTR4_WORD1_TIME_MODIFY_SET \<noteq> 0 \<longleftrightarrow> ia_has iap ATTR_MTIME_SET \<or> ia_has iap ATTR_MTIME"
    and "b2 AND FATTR4_WORD2_SECURITY_LABEL \<noteq> 0 \<longleftrightarrow> lab \<noteq> None"
  unfolding b0_def b1_def b2_def attrs_bmval_def
  by (auto simp: bit.conj_disj_distrib2 split: option.split)

lemma length_time_bytes:
  "xdr_env K avail \<Longrightarrow> length (time_bytes K c t) = (if c then 16 else 4)"
  by (simp add: time_bytes_def xdr_env_simps)

text \<open>The same size as a natural number, without the 32-bit arithmetic.\<close>

definition attrs_size :: "'s kernel \<Rightarrow> nfs_server \<Rightarrow> iattr \<Rightarrow> nfs4_label option \<Rightarrow> nat" where
  "attrs_size K server iap lab =
     (if ia_has iap ATTR_SIZE then 8 else 0) +
     (if ia_has iap ATTR_MODE then 4 else 0) +
     (if ia_has iap ATTR_UID then 4 + quad (nat (fst (attrs_owner K server iap))) else 0) +
     (if ia_has iap ATTR_GID then 4 + quad (nat (fst (attrs_group K server iap))) else 0) +
     (if ia_has iap ATTR_ATIME_SET then 16 else if ia_has iap ATTR_ATIME then 4 else 0) +
     (if ia_has iap ATTR_MTIME_SET then 16 else if ia_has iap ATTR_MTIME then 4 else 0) +
     (case lab of None \<Rightarrow> 0 | Some l \<Rightarrow> 12 + quad (unat (label_len l)))"

lemma attrs_owner_bounds:
  assumes "xdr_env K avail"
  shows "0 \<le> fst (attrs_owner K sv iap)" "nat (fst (attrs_owner K sv iap)) \<le> IDMAP_NAMESZ K"
    "nat (fst (attrs_owner K sv iap)) \<le> length (snd (attrs_owner K sv iap))"
  using xdr_env_idmap [OF assms, of "nfs_map_uid_to_name K" sv "ia_uid iap" "IDMAP_NAMESZ K"]
    xdr_env_namesz [OF assms]
  by (auto simp: attrs_owner_def nobody_def Let_def)

lemma attrs_group_bounds:
  assumes "xdr_env K avail"
  shows "0 \<le> fst (attrs_group K sv iap)" "nat (fst (attrs_group K sv iap)) \<le> IDMAP_NAMESZ K"
    "nat (fst (attrs_group K sv iap)) \<le> length (snd (attrs_group K sv iap))"
  using xdr_env_idmap [OF assms, of "nfs_map_gid_to_group K" sv "ia_gid iap" "IDMAP_NAMESZ K"]
    xdr_env_namesz [OF assms]
  by (auto simp: attrs_group_def nobody_def Let_def)

lemma quad_word: "unat (l :: u32) \<le> NFS4_MAXLABELLEN \<Longrightarrow> push_bit 2 (drop_bit 2 (l + 3)) = of_nat (quad (unat l))"
proof -
  assume "unat l \<le> NFS4_MAXLABELLEN"
  then have u: "unat (l + 3) = unat l + 3"
    by (subst unat_add_no_overflow) auto
  have "4 * ((unat l + 3) div 4) < 2 ^ 32"
    using \<open>unat l \<le> NFS4_MAXLABELLEN\<close>
    by (intro le_less_trans [OF times_div_less_eq_dividend]) simp
  then have "push_bit 2 (drop_bit 2 (l + 3)) = of_nat (4 * ((unat l + 3) div 4))"
    by (intro word_unat_eq_iff [THEN iffD2])
      (simp add: push_bit_eq_mult drop_bit_eq_div unat_word_ariths unat_of_nat unat_div_distrib u take_bit_eq_mod mult.commute)
  then show ?thesis by (simp add: quad_def XDR_QUADLEN_def)
qed

lemma attrs_size_bound:
  assumes "xdr_env K avail" and "label_ok lab"
  shows "attrs_size K sv iap lab \<le> 64 + 2 * quad (IDMAP_NAMESZ K) + 4 * XDR_QUADLEN NFS4_MAXLABELLEN"
proof -
  have "quad (nat (fst (attrs_owner K sv iap))) \<le> quad (IDMAP_NAMESZ K)"
    "quad (nat (fst (attrs_group K sv iap))) \<le> quad (IDMAP_NAMESZ K)"
    using attrs_owner_bounds [OF assms(1)] attrs_group_bounds [OF assms(1)] by (auto intro: quad_mono)
  moreover have "case lab of None \<Rightarrow> True | Some l \<Rightarrow> quad (unat (label_len l)) \<le> 4 * XDR_QUADLEN NFS4_MAXLABELLEN"
    using assms(2) by (cases lab) (auto simp: label_ok_def XDR_QUADLEN_def dest: quad_mono)
  ultimately show ?thesis
    unfolding attrs_size_def by (auto split: option.splits)
qed

lemma unat_attrs_len:
  assumes "xdr_env K avail" and "label_ok lab"
  shows "unat (attrs_len K sv iap lab) = attrs_size K sv iap lab"
proof -
  have "attrs_len K sv iap lab = of_nat (attrs_size K sv iap lab)"
    using assms(2) unfolding attrs_len_def attrs_size_def
    by (auto simp: quad_word label_ok_def split: option.splits)
  moreover have "quad (IDMAP_NAMESZ K) \<le> 65536"
    using xdr_env_namesz [OF assms(1)] quad_le_iff [of "IDMAP_NAMESZ K" 16384] by simp
  then have "attrs_size K sv iap lab < 2 ^ 32"
    using attrs_size_bound [OF assms, of sv iap] by (simp add: XDR_QUADLEN_def)
  ultimately show ?thesis by (simp add: unat_of_nat_u32)
qed

lemma length_idmap_opaque:
  assumes "xdr_env K avail" and "0 \<le> n" and "nat n \<le> length b" and "nat n \<le> IDMAP_NAMESZ K"
  shows "length (xdr_encode_opaque K b (of_int n)) = 4 + quad (nat n)"
proof -
  have "unat (of_int n :: u32) = nat n"
    using assms xdr_env_namesz [OF assms(1)]
    by (simp flip: of_nat_nat add: unat_of_nat_u32)
  with assms show ?thesis by (simp add: xdr_env_simps(2) [OF assms(1)] min_absorb2)
qed

lemma length_attrs_values:
  assumes "xdr_env K avail" and "label_ok lab"
  shows "length (attrs_values K sv iap lab) = attrs_size K sv iap lab"
proof -
  note own = attrs_owner_bounds [OF assms(1), of sv iap] and grp = attrs_group_bounds [OF assms(1), of sv iap]
  have l: "lab = Some l \<Longrightarrow> length (xdr_encode_opaque_fixed K (label_data l) (unat (label_len l))) = quad (unat (label_len l))" for l
    using assms by (simp add: label_ok_def xdr_env_simps(1) [OF assms(1)] min_absorb2)
  obtain b0 b1 b2 where bm: "attrs_bmval iap lab = (b0, b1, b2)" by (metis prod_cases3)
  show ?thesis
    using attrs_bmval_bits [of iap lab] own grp l
    by (auto simp: attrs_values_def attrs_size_def bm length_idmap_opaque [OF assms(1)]
        length_time_bytes [OF assms(1)] xdr_env_simps(3) [OF assms(1)] split: option.splits)
qed

section \<open>The contract of \<open>encode_attrs\<close>\<close>

lemma length_bitmap_words:
  "length (bitmap_words (attrs_bmval_len bm) bm) = 4 * unat (attrs_bmval_len bm)"
  by (cases bm) (auto simp: bitmap_words_def attrs_bmval_len_def)

lemma attrs_bmval_len_bound: "unat (attrs_bmval_len bm) \<le> 3"
  by (cases bm) (auto simp: attrs_bmval_len_def)

lemma length_attrs_bytes:
  assumes "xdr_env K avail" and "label_ok lab"
  shows "length (attrs_bytes K sv iap lab) =
           8 + 4 * unat (attrs_bmval_len (attrs_bmval iap lab)) + attrs_size K sv iap lab"
  by (simp add: attrs_bytes_def Let_def length_bitmap_words length_attrs_values [OF assms])

lemma attrs_size_aligned: "4 dvd attrs_size K sv iap lab"
  unfolding attrs_size_def by (auto intro!: dvd_add split: option.split)

lemma writes_encode_attrs [writes_rules]:
  assumes "xdr_env K avail" and "label_ok lab"
  shows "writes avail (encode_attrs K iap lab sv) (attrs_bytes K sv iap lab) 0 0"
proof -
  let ?n = "attrs_bmval_len (attrs_bmval iap lab)" and ?size = "attrs_size K sv iap lab"
  have n: "?n \<in> {1, 2, 3}"
    by (cases "attrs_bmval iap lab") (auto simp: attrs_bmval_len_def)
  have sz: "?size \<le> 200000"
    using attrs_size_bound [OF assms, of sv iap] xdr_env_namesz [OF assms(1)]
      quad_le_iff [of "IDMAP_NAMESZ K" 16384] by (simp add: XDR_QUADLEN_def)
  have shift: "unat (push_bit 2 ?n) = 4 * unat ?n"
    using n by auto
  have "unat (4 + push_bit 2 ?n + 4 + attrs_len K sv iap lab) = 8 + 4 * unat ?n + ?size"
    using n sz shift unat_attrs_len [OF assms, of sv iap]
    by (simp add: unat_word_ariths) auto
  moreover have "quad (8 + 4 * unat ?n + ?size) = 8 + 4 * unat ?n + ?size"
    using attrs_size_aligned by (intro quad_mult4) (auto intro!: dvd_add)
  moreover have "encode_attrs K iap lab sv = reserve_space K
             (unat (4 + push_bit 2 ?n + 4 + attrs_len K sv iap lab)) (attrs_bytes K sv iap lab)"
    using assms(2) by (auto simp: encode_attrs_def label_ok_def split: option.splits)
  ultimately show ?thesis
    by (simp add: writes_reserve_space [OF assms(1)] length_attrs_bytes [OF assms])
qed

text \<open>The item never exceeds the words the size macros count for it.\<close>

lemma attrs_bytes_maxsz:
  assumes "xdr_env K avail" and "label_ok lab"
  shows "length (attrs_bytes K sv iap lab) \<le> 4 * encode_attrs_maxsz K"
proof -
  have "length (attrs_bytes K sv iap lab) \<le> 8 + 12 + (64 + 2 * quad (IDMAP_NAMESZ K) + 4 * XDR_QUADLEN NFS4_MAXLABELLEN)"
    using length_attrs_bytes [OF assms, of sv iap] attrs_size_bound [OF assms, of sv iap]
      attrs_bmval_len_bound [of "attrs_bmval iap lab"] by linarith
  also have "\<dots> \<le> 4 * encode_attrs_maxsz K"
    by (simp add: maxsz_defs quad_def)
  finally show ?thesis .
qed

end
