(* ===== verification/Nfs4_Args.thy ===== *)
theory Nfs4_Args
  imports Xdr_Encode_Attrs
begin

text \<open>
  The argument structures of \<^verbatim>\<open>include/linux/nfs_xdr.h\<close> (the members the encoders read) and the
  standard attribute bitmaps of \<^verbatim>\<open>fs/nfs/nfs4proc.c\<close>. Field names carry the structure's
  name where several structures share a member name. A \<^verbatim>\<open>struct nfs_seqid\<close> is represented by its counter, a page
  array by its bytes; the members of a union are separate fields, of which the code reads the one it
  wrote; a \<^verbatim>\<open>size_t\<close> length that the encoders only pass on as \<^verbatim>\<open>unsigned int\<close> is a 32-bit word.
\<close>

section \<open>Argument structures\<close>

record qstr =
  qlen :: u32
  qname :: bytes

record nfs_fh =
  fh_size :: u16
  fh_data :: bytes

record nfs4_session =
  sess_id :: bytes
  sess_minor_version :: u32

record nfs4_slot =
  slot_session :: "nfs4_session option"
  highest_used_slotid :: u32
  seq_nr :: u32
  slot_nr :: u32

record nfs4_sequence_args =
  sa_slot :: nfs4_slot
  sa_cache_this :: bool

record nfs_closeargs =
  close_seq_args :: nfs4_sequence_args
  close_fh :: nfs_fh
  close_stateid :: nfs4_stateid
  close_seqid :: u32
  close_fmode :: u32
  close_bitmask :: bitmap3

record nfs_commitargs =
  commit_seq_args :: nfs4_sequence_args
  commit_fh :: nfs_fh
  commit_offset :: u64
  commit_count :: u32

record nfs4_create_arg =
  create_seq_args :: nfs4_sequence_args
  create_ftype :: u32
  create_symlink_pages :: bytes
  create_symlink_len :: u32
  create_specdata1 :: u32
  create_specdata2 :: u32
  create_name :: qstr
  create_server :: nfs_server
  create_attrs :: iattr
  create_dir_fh :: nfs_fh
  create_bitmask :: bitmap3
  create_label :: "nfs4_label option"

record file_lock =
  fl_type :: u32
  fl_start :: u64
  fl_end :: u64

record nfs_lowner =
  lo_clientid :: u64
  lo_id :: u64
  lo_s_dev :: u32

record nfs_lock_args =
  lock_seq_args :: nfs4_sequence_args
  lock_fh :: nfs_fh
  lock_fl :: file_lock
  lock_lock_seqid :: u32
  lock_lock_stateid :: nfs4_stateid
  lock_open_seqid :: u32
  lock_open_stateid :: nfs4_stateid
  lock_owner :: nfs_lowner
  lock_block :: bool
  lock_reclaim :: bool
  new_lock_owner :: bool

record nfs_lockt_args =
  lockt_seq_args :: nfs4_sequence_args
  lockt_fh :: nfs_fh
  lockt_fl :: file_lock
  lockt_owner :: nfs_lowner

record nfs_locku_args =
  locku_seq_args :: nfs4_sequence_args
  locku_fh :: nfs_fh
  locku_fl :: file_lock
  locku_seqid :: u32
  locku_stateid :: nfs4_stateid

record nfs_openargs =
  open_seq_args :: nfs4_sequence_args
  open_fh :: nfs_fh
  open_seqid :: u32
  open_flags :: u32
  open_fmode :: u32
  open_access :: u32
  open_clientid :: u64
  open_id_create_time :: u64
  open_id_uniquifier :: u32
  open_attrs :: iattr
  open_verifier :: bytes
  open_delegation :: nfs4_stateid
  open_delegation_type :: u32
  open_name :: qstr
  open_server :: nfs_server
  open_bitmask :: bitmap3
  open_open_bitmap :: bitmap3
  open_claim :: u32
  open_createmode :: u32
  open_label :: "nfs4_label option"

record nfs_open_confirmargs =
  oc_seq_args :: nfs4_sequence_args
  oc_fh :: nfs_fh
  oc_stateid :: nfs4_stateid
  oc_seqid :: u32

record nfs_pgio_args =
  pgio_seq_args :: nfs4_sequence_args
  pgio_fh :: nfs_fh
  pgio_stateid :: nfs4_stateid
  pgio_offset :: u64
  pgio_count :: u32
  pgio_pgbase :: u32
  pgio_pages :: bytes
  pgio_bitmask :: "bitmap3 option"
  pgio_stable :: u32

record nfs4_readdir_arg =
  readdir_seq_args :: nfs4_sequence_args
  readdir_fh :: nfs_fh
  readdir_cookie :: u64
  readdir_verifier :: bytes
  readdir_count :: u32
  readdir_pages :: bytes
  readdir_pgbase :: u32
  readdir_bitmask :: bitmap3
  readdir_plus :: bool

record nfs_setaclargs =
  setacl_seq_args :: nfs4_sequence_args
  setacl_fh :: nfs_fh
  setacl_len :: u32
  setacl_pgbase :: u32
  setacl_pages :: bytes

record nfs_setattrargs =
  setattr_seq_args :: nfs4_sequence_args
  setattr_fh :: nfs_fh
  setattr_stateid :: nfs4_stateid
  setattr_iap :: iattr
  setattr_server :: nfs_server
  setattr_bitmask :: bitmap3
  setattr_label :: "nfs4_label option"

record nfs4_setclientid =
  sc_verifier :: bytes
  sc_name_len :: u32
  sc_name :: bytes
  sc_prog :: u32
  sc_netid_len :: u32
  sc_netid :: bytes
  sc_uaddr_len :: u32
  sc_uaddr :: bytes
  sc_cb_ident :: u32

record nfs4_setclientid_res =
  scr_clientid :: u64
  scr_confirm :: bytes

record nfs4_client =
  cl_clientid :: u64
  cl_seqid :: u32
  cl_minor_version :: u32
  cl_ipaddr :: bytes
  cl_boot_nsec :: u32
  cl_session :: "nfs4_session option"

record nfs41_state_protection =
  sp_how :: u32
  sp_enforce :: "u32 list"
  sp_allow :: "u32 list"

record nfs41_exchange_id_args =
  eid_client :: nfs4_client
  eid_verifier :: bytes
  eid_id_len :: u32
  eid_id :: bytes
  eid_flags :: u32
  eid_state_protect :: nfs41_state_protection

record nfs4_channel_attrs =
  max_rqst_sz :: u32
  max_resp_sz :: u32
  max_resp_sz_cached :: u32
  max_ops :: u32
  max_reqs :: u32

record nfs41_create_session_args =
  cs_client :: nfs4_client
  cs_flags :: u32
  cs_cb_program :: u32
  cs_fc_attrs :: nfs4_channel_attrs
  cs_bc_attrs :: nfs4_channel_attrs

record pnfs_layout_range =
  iomode :: u32
  lr_offset :: u64
  lr_length :: u64

record nfs4_layoutget_args =
  lg_seq_args :: nfs4_sequence_args
  lg_type :: u32
  lg_range :: pnfs_layout_range
  lg_minlength :: u64
  lg_maxcount :: u32
  lg_fh :: nfs_fh
  lg_stateid :: nfs4_stateid
  lg_pages :: bytes
  lg_pglen :: u32

record nfs4_getdeviceinfo_args =
  gd_seq_args :: nfs4_sequence_args
  gd_dev_id :: bytes
  gd_layout_type :: u32
  gd_maxcount :: u32
  gd_pages :: bytes
  gd_pgbase :: u32
  gd_pglen :: u32

record nfs4_accessargs =
  access_seq_args :: nfs4_sequence_args
  access_fh :: nfs_fh
  access_bitmask :: bitmap3
  access_access :: u32

record nfs4_lookup_arg =
  lookup_seq_args :: nfs4_sequence_args
  lookup_dir_fh :: nfs_fh
  lookup_name :: qstr
  lookup_bitmask :: bitmap3

text \<open>A chain of dentries is represented by the names (\<^verbatim>\<open>d_name\<close>) of its elements, in list order.\<close>

record nfs4_chain_lookup_arg =
  chain_seq_args :: nfs4_sequence_args
  chain_dir_fh :: nfs_fh
  chain_dchain_list :: "qstr list"
  chain_bitmask :: bitmap3

record nfs4_chain_lookup_open_arg =
  chain_open_seq_args :: nfs4_sequence_args
  chain_open_dir_fh :: nfs_fh
  chain_open_dchain_list :: "qstr list"
  chain_open_bitmask :: bitmap3

record nfs4_lookup_root_arg =
  lookup_root_seq_args :: nfs4_sequence_args
  lookup_root_bitmask :: bitmap3

record nfs_removeargs =
  remove_seq_args :: nfs4_sequence_args
  remove_fh :: nfs_fh
  remove_name :: qstr

record nfs_renameargs =
  rename_seq_args :: nfs4_sequence_args
  rename_old_dir :: nfs_fh
  rename_new_dir :: nfs_fh
  rename_old_name :: qstr
  rename_new_name :: qstr

record nfs4_link_arg =
  link_seq_args :: nfs4_sequence_args
  link_fh :: nfs_fh
  link_dir_fh :: nfs_fh
  link_name :: qstr
  link_bitmask :: bitmap3

record nfs4_getattr_arg =
  getattr_seq_args :: nfs4_sequence_args
  getattr_fh :: nfs_fh
  getattr_bitmask :: bitmap3

record nfs_release_lockowner_args =
  rlo_seq_args :: nfs4_sequence_args
  rlo_lock_owner :: nfs_lowner

record nfs4_readlink =
  readlink_seq_args :: nfs4_sequence_args
  readlink_fh :: nfs_fh
  readlink_pgbase :: u32
  readlink_pglen :: u32
  readlink_pages :: bytes

record nfs_getaclargs =
  getacl_seq_args :: nfs4_sequence_args
  getacl_fh :: nfs_fh
  getacl_acl_len :: u32
  getacl_acl_pgbase :: u32
  getacl_acl_pages :: bytes

record nfs4_fsinfo_arg =
  fsinfo_seq_args :: nfs4_sequence_args
  fsinfo_fh :: nfs_fh
  fsinfo_bitmask :: bitmap3

record nfs4_pathconf_arg =
  pathconf_seq_args :: nfs4_sequence_args
  pathconf_fh :: nfs_fh
  pathconf_bitmask :: bitmap3

record nfs4_statfs_arg =
  statfs_seq_args :: nfs4_sequence_args
  statfs_fh :: nfs_fh
  statfs_bitmask :: bitmap3

record nfs4_server_caps_arg =
  caps_seq_args :: nfs4_sequence_args
  caps_fhandle :: nfs_fh

record nfs4_delegreturnargs =
  delegreturn_seq_args :: nfs4_sequence_args
  delegreturn_fhandle :: nfs_fh
  delegreturn_stateid :: nfs4_stateid
  delegreturn_bitmask :: bitmap3

record nfs4_fs_locations_arg =
  fsloc_seq_args :: nfs4_sequence_args
  fsloc_dir_fh :: nfs_fh
  fsloc_fh :: nfs_fh
  fsloc_name :: qstr
  fsloc_page :: bytes
  fsloc_bitmask :: bitmap3
  fsloc_clientid :: u64
  fsloc_migration :: bool
  fsloc_renew :: bool

record nfs4_secinfo_arg =
  secinfo_seq_args :: nfs4_sequence_args
  secinfo_dir_fh :: nfs_fh
  secinfo_name :: qstr

record nfs4_fsid_present_arg =
  fsidp_seq_args :: nfs4_sequence_args
  fsidp_fh :: nfs_fh
  fsidp_clientid :: u64
  fsidp_renew :: bool

record nfs4_get_lease_time_args =
  lease_seq_args :: nfs4_sequence_args

record nfs41_reclaim_complete_args =
  reclaim_seq_args :: nfs4_sequence_args
  reclaim_one_fs :: bool

record nfs41_secinfo_no_name_args =
  secinfo_nn_seq_args :: nfs4_sequence_args
  secinfo_nn_style :: u32

record nfs41_test_stateid_args =
  test_seq_args :: nfs4_sequence_args
  test_stateid :: nfs4_stateid

record nfs41_free_stateid_args =
  free_seq_args :: nfs4_sequence_args
  free_stateid :: nfs4_stateid

record nfs4_layoutcommit_args =
  lc_seq_args :: nfs4_sequence_args
  lc_fh :: nfs_fh
  lc_stateid :: nfs4_stateid
  lc_lastbytewritten :: u64
  lc_bitmask :: bitmap3
  lc_layoutupdate_len :: u32
  lc_layoutupdate_pages :: "bytes option"
  lc_ld_id :: u32

record nfs4_layoutreturn_args =
  lr_seq_args :: nfs4_sequence_args
  lr_fh :: nfs_fh
  lr_layout_type :: u32
  lr_range :: pnfs_layout_range
  lr_stateid :: nfs4_stateid

section \<open>The standard bitmaps of \<^verbatim>\<open>fs/nfs/nfs4proc.c\<close>\<close>

definition nfs4_fattr_bitmap :: bitmap3 where
  "nfs4_fattr_bitmap =
     (FATTR4_WORD0_TYPE OR FATTR4_WORD0_CHANGE OR FATTR4_WORD0_SIZE OR FATTR4_WORD0_FSID OR
      FATTR4_WORD0_FILEID,
      FATTR4_WORD1_MODE OR FATTR4_WORD1_NUMLINKS OR FATTR4_WORD1_OWNER OR FATTR4_WORD1_OWNER_GROUP OR
      FATTR4_WORD1_RAWDEV OR FATTR4_WORD1_SPACE_USED OR FATTR4_WORD1_TIME_ACCESS OR
      FATTR4_WORD1_TIME_METADATA OR FATTR4_WORD1_TIME_MODIFY OR FATTR4_WORD1_MOUNTED_ON_FILEID,
      FATTR4_WORD2_SECURITY_LABEL)"

definition nfs4_statfs_bitmap :: bitmap3 where
  "nfs4_statfs_bitmap =
     (FATTR4_WORD0_FILES_AVAIL OR FATTR4_WORD0_FILES_FREE OR FATTR4_WORD0_FILES_TOTAL,
      FATTR4_WORD1_SPACE_AVAIL OR FATTR4_WORD1_SPACE_FREE OR FATTR4_WORD1_SPACE_TOTAL, 0)"

definition nfs4_pathconf_bitmap :: bitmap3 where
  "nfs4_pathconf_bitmap = (FATTR4_WORD0_MAXLINK OR FATTR4_WORD0_MAXNAME, 0, 0)"

definition nfs4_fsinfo_bitmap :: bitmap3 where
  "nfs4_fsinfo_bitmap =
     (FATTR4_WORD0_MAXFILESIZE OR FATTR4_WORD0_MAXREAD OR FATTR4_WORD0_MAXWRITE OR FATTR4_WORD0_LEASE_TIME,
      FATTR4_WORD1_TIME_DELTA OR FATTR4_WORD1_FS_LAYOUT_TYPES,
      FATTR4_WORD2_LAYOUT_BLKSIZE)"

definition nfs4_fs_locations_bitmap :: bitmap3 where
  "nfs4_fs_locations_bitmap =
     (FATTR4_WORD0_TYPE OR FATTR4_WORD0_CHANGE OR FATTR4_WORD0_SIZE OR FATTR4_WORD0_FSID OR
      FATTR4_WORD0_FILEID OR FATTR4_WORD0_FS_LOCATIONS,
      FATTR4_WORD1_MODE OR FATTR4_WORD1_NUMLINKS OR FATTR4_WORD1_OWNER OR FATTR4_WORD1_OWNER_GROUP OR
      FATTR4_WORD1_RAWDEV OR FATTR4_WORD1_SPACE_USED OR FATTR4_WORD1_TIME_ACCESS OR
      FATTR4_WORD1_TIME_METADATA OR FATTR4_WORD1_TIME_MODIFY OR FATTR4_WORD1_MOUNTED_ON_FILEID, 0)"

text \<open>\<^verbatim>\<open>a[i] & b[i]\<close> for the three words.\<close>

definition bm_and :: "bitmap3 \<Rightarrow> bitmap3 \<Rightarrow> bitmap3" where
  "bm_and a b = (fst a AND fst b, fst (snd a) AND fst (snd b), snd (snd a) AND snd (snd b))"

end
