(* ===== verification/Xdr_Encode_Ops.thy ===== *)
theory Xdr_Encode_Ops
  imports Nfs4_Args
begin

text \<open>
  The operation encoders of \<^verbatim>\<open>fs/nfs/nfs4xdr.c\<close> (\<^verbatim>\<open>encode_access\<close> to
  \<^verbatim>\<open>encode_free_stateid\<close>), one definition per function, in the order of the source.
\<close>

abbreviation (input) FMODE_READ :: u32 where "FMODE_READ \<equiv> 0x1"
abbreviation (input) FMODE_WRITE :: u32 where "FMODE_WRITE \<equiv> 0x2"

text \<open>Platform constants: \<open>O_CREAT\<close> (octal 100), the read-lock type, and the largest file offset.\<close>

abbreviation (input) O_CREAT :: u32 where "O_CREAT \<equiv> 0x40"
abbreviation (input) F_RDLCK :: u32 where "F_RDLCK \<equiv> 0"
abbreviation (input) OFFSET_MAX :: u64 where "OFFSET_MAX \<equiv> 0x7FFFFFFFFFFFFFFF"

text \<open>\<^verbatim>\<open>xdr_write_pages(xdr, pages, base, len)\<close>: the data follows the bytes stored so far.\<close>

definition write_pages :: "'s kernel \<Rightarrow> bytes \<Rightarrow> u32 \<Rightarrow> u32 \<Rightarrow> 's encoder" where [enc_defs]:
  "write_pages K pages base n s =
     Inr (s\<lparr>strm := xdr_write_pages K (strm s) pages base n,
            xpages := xpages s @ [(length (xbuf s), take (unat n) (drop (unat base) pages))]\<rparr>)"

definition encode_access :: "'s kernel \<Rightarrow> u32 \<Rightarrow> 's encoder" where [enc_defs]:
  "encode_access K access =
     run [encode_op_hdr K OP_ACCESS (decode_access_maxsz K),
          encode_uint32 K access]"

definition encode_close :: "'s kernel \<Rightarrow> nfs_closeargs \<Rightarrow> 's encoder" where [enc_defs]:
  "encode_close K arg =
     run [encode_op_hdr K OP_CLOSE (decode_close_maxsz K),
          encode_nfs4_seqid K (close_seqid arg),
          encode_nfs4_stateid K (close_stateid arg)]"

definition encode_commit :: "'s kernel \<Rightarrow> nfs_commitargs \<Rightarrow> 's encoder" where [enc_defs]:
  "encode_commit K args =
     run [encode_op_hdr K OP_COMMIT (decode_commit_maxsz K),
          reserve_space K 12 (xdr_encode_hyper K (commit_offset args) @ be32 (commit_count args))]"

definition encode_create :: "'s kernel \<Rightarrow> nfs4_create_arg \<Rightarrow> 's encoder" where [enc_defs]:
  "encode_create K create =
     run [encode_op_hdr K OP_CREATE (decode_create_maxsz K),
          encode_uint32 K (create_ftype create),
          if create_ftype create = NF4LNK then
            run [reserve_space K 4 (be32 (create_symlink_len create)),
                 write_pages K (create_symlink_pages create) 0 (create_symlink_len create)]
          else if create_ftype create = NF4BLK \<or> create_ftype create = NF4CHR then
            reserve_space K 8 (be32 (create_specdata1 create) @ be32 (create_specdata2 create))
          else run [],
          encode_string K (qlen (create_name create)) (qname (create_name create)),
          encode_attrs K (create_attrs create) (create_label create) (create_server create)]"

definition encode_getattr_one :: "'s kernel \<Rightarrow> u32 \<Rightarrow> 's encoder" where [enc_defs]:
  "encode_getattr_one K bitmap =
     run [encode_op_hdr K OP_GETATTR (decode_getattr_maxsz K),
          reserve_space K 8 (be32 1 @ be32 bitmap)]"

definition encode_getattr_two :: "'s kernel \<Rightarrow> u32 \<Rightarrow> u32 \<Rightarrow> 's encoder" where [enc_defs]:
  "encode_getattr_two K bm0 bm1 =
     run [encode_op_hdr K OP_GETATTR (decode_getattr_maxsz K),
          reserve_space K 12 (be32 2 @ be32 bm0 @ be32 bm1)]"

definition encode_getattr_three :: "'s kernel \<Rightarrow> bitmap3 \<Rightarrow> 's encoder" where [enc_defs]:
  "encode_getattr_three K bm =
     (case bm of (bm0, bm1, bm2) \<Rightarrow>
       run [encode_op_hdr K OP_GETATTR (decode_getattr_maxsz K),
            if bm2 \<noteq> 0 then reserve_space K 16 (be32 3 @ be32 bm0 @ be32 bm1 @ be32 bm2)
            else if bm1 \<noteq> 0 then reserve_space K 12 (be32 2 @ be32 bm0 @ be32 bm1)
            else reserve_space K 8 (be32 1 @ be32 bm0)])"

definition encode_getfattr :: "'s kernel \<Rightarrow> bitmap3 \<Rightarrow> 's encoder" where [enc_defs]:
  "encode_getfattr K bitmask = encode_getattr_three K (bm_and bitmask nfs4_fattr_bitmap)"

definition encode_getfattr_open :: "'s kernel \<Rightarrow> bitmap3 \<Rightarrow> bitmap3 \<Rightarrow> 's encoder" where [enc_defs]:
  "encode_getfattr_open K bitmask open_bitmap = encode_getattr_three K (bm_and bitmask open_bitmap)"

definition encode_fsinfo :: "'s kernel \<Rightarrow> bitmap3 \<Rightarrow> 's encoder" where [enc_defs]:
  "encode_fsinfo K bitmask = encode_getattr_three K (bm_and bitmask nfs4_fsinfo_bitmap)"

definition encode_fs_locations :: "'s kernel \<Rightarrow> bitmap3 \<Rightarrow> 's encoder" where [enc_defs]:
  "encode_fs_locations K bitmask =
     (case bm_and bitmask nfs4_fs_locations_bitmap of (bm0, bm1, bm2) \<Rightarrow> encode_getattr_two K bm0 bm1)"

definition encode_getfh :: "'s kernel \<Rightarrow> 's encoder" where [enc_defs]:
  "encode_getfh K = encode_op_hdr K OP_GETFH (decode_getfh_maxsz K)"

definition encode_link :: "'s kernel \<Rightarrow> qstr \<Rightarrow> 's encoder" where [enc_defs]:
  "encode_link K nm =
     run [encode_op_hdr K OP_LINK (decode_link_maxsz K),
          encode_string K (qlen nm) (qname nm)]"

definition nfs4_lock_type :: "file_lock \<Rightarrow> bool \<Rightarrow> u32" where
  "nfs4_lock_type fl block =
     (if fl_type fl = F_RDLCK then (if block then NFS4_READW_LT else NFS4_READ_LT)
      else (if block then NFS4_WRITEW_LT else NFS4_WRITE_LT))"

definition nfs4_lock_length :: "file_lock \<Rightarrow> u64" where
  "nfs4_lock_length fl =
     (if fl_end fl = OFFSET_MAX then NOT 0 else fl_end fl - fl_start fl + 1)"

text \<open>``lock id:'' and ``open id:'' in ASCII.\<close>

definition lock_id_str :: bytes where
  "lock_id_str = [0x6c, 0x6f, 0x63, 0x6b, 0x20, 0x69, 0x64, 0x3a]"

definition open_id_str :: bytes where
  "open_id_str = [0x6f, 0x70, 0x65, 0x6e, 0x20, 0x69, 0x64, 0x3a]"

definition encode_lockowner :: "'s kernel \<Rightarrow> nfs_lowner \<Rightarrow> 's encoder" where [enc_defs]:
  "encode_lockowner K lowner =
     reserve_space K 32
       (xdr_encode_hyper K (lo_clientid lowner) @ be32 20 @
        xdr_encode_opaque_fixed K lock_id_str 8 @ be32 (lo_s_dev lowner) @
        xdr_encode_hyper K (lo_id lowner))"

definition encode_lock :: "'s kernel \<Rightarrow> nfs_lock_args \<Rightarrow> 's encoder" where [enc_defs]:
  "encode_lock K args =
     run [encode_op_hdr K OP_LOCK (decode_lock_maxsz K),
          reserve_space K 28
            (be32 (nfs4_lock_type (lock_fl args) (lock_block args)) @
             be32 (of_bool (lock_reclaim args)) @
             xdr_encode_hyper K (fl_start (lock_fl args)) @
             xdr_encode_hyper K (nfs4_lock_length (lock_fl args)) @
             be32 (of_bool (new_lock_owner args))),
          if new_lock_owner args then
            run [encode_nfs4_seqid K (lock_open_seqid args),
                 encode_nfs4_stateid K (lock_open_stateid args),
                 encode_nfs4_seqid K (lock_lock_seqid args),
                 encode_lockowner K (lock_owner args)]
          else
            run [encode_nfs4_stateid K (lock_lock_stateid args),
                 encode_nfs4_seqid K (lock_lock_seqid args)]]"

definition encode_lockt :: "'s kernel \<Rightarrow> nfs_lockt_args \<Rightarrow> 's encoder" where [enc_defs]:
  "encode_lockt K args =
     run [encode_op_hdr K OP_LOCKT (decode_lockt_maxsz K),
          reserve_space K 20
            (be32 (nfs4_lock_type (lockt_fl args) False) @
             xdr_encode_hyper K (fl_start (lockt_fl args)) @
             xdr_encode_hyper K (nfs4_lock_length (lockt_fl args))),
          encode_lockowner K (lockt_owner args)]"

definition encode_locku :: "'s kernel \<Rightarrow> nfs_locku_args \<Rightarrow> 's encoder" where [enc_defs]:
  "encode_locku K args =
     run [encode_op_hdr K OP_LOCKU (decode_locku_maxsz K),
          encode_uint32 K (nfs4_lock_type (locku_fl args) False),
          encode_nfs4_seqid K (locku_seqid args),
          encode_nfs4_stateid K (locku_stateid args),
          reserve_space K 16
            (xdr_encode_hyper K (fl_start (locku_fl args)) @
             xdr_encode_hyper K (nfs4_lock_length (locku_fl args)))]"

definition encode_release_lockowner :: "'s kernel \<Rightarrow> nfs_lowner \<Rightarrow> 's encoder" where [enc_defs]:
  "encode_release_lockowner K lowner =
     run [encode_op_hdr K OP_RELEASE_LOCKOWNER (decode_release_lockowner_maxsz K),
          encode_lockowner K lowner]"

definition encode_lookup :: "'s kernel \<Rightarrow> qstr \<Rightarrow> 's encoder" where [enc_defs]:
  "encode_lookup K nm =
     run [encode_op_hdr K OP_LOOKUP (decode_lookup_maxsz K),
          encode_string K (qlen nm) (qname nm)]"

text \<open>The \<^verbatim>\<open>switch\<close> on the open mode in \<^verbatim>\<open>encode_share_access\<close>.\<close>

definition share_access :: "u32 \<Rightarrow> u32" where
  "share_access fmode =
     (let m = fmode AND (FMODE_READ OR FMODE_WRITE)
      in if m = FMODE_READ then NFS4_SHARE_ACCESS_READ
         else if m = FMODE_WRITE then NFS4_SHARE_ACCESS_WRITE
         else if m = (FMODE_READ OR FMODE_WRITE) then NFS4_SHARE_ACCESS_BOTH
         else 0)"

definition encode_share_access :: "'s kernel \<Rightarrow> u32 \<Rightarrow> 's encoder" where [enc_defs]:
  "encode_share_access K fmode = reserve_space K 8 (be32 (share_access fmode) @ be32 0)"

definition encode_openhdr :: "'s kernel \<Rightarrow> nfs_openargs \<Rightarrow> 's encoder" where [enc_defs]:
  "encode_openhdr K arg =
     run [encode_nfs4_seqid K (open_seqid arg),
          encode_share_access K (open_fmode arg),
          reserve_space K 36
            (xdr_encode_hyper K (open_clientid arg) @ be32 24 @
             xdr_encode_opaque_fixed K open_id_str 8 @
             be32 (s_dev (open_server arg)) @ be32 (open_id_uniquifier arg) @
             xdr_encode_hyper K (open_id_create_time arg))]"

text \<open>The local \<^verbatim>\<open>dummy\<close>, of which only \<^verbatim>\<open>ia_valid\<close> is set and read.\<close>

definition dummy_iattr :: iattr where
  "dummy_iattr = \<lparr>ia_valid = 0, ia_mode = 0, ia_uid = 0, ia_gid = 0, ia_size = 0,
     ia_atime = \<lparr>tv_sec = 0, tv_nsec = 0\<rparr>, ia_mtime = \<lparr>tv_sec = 0, tv_nsec = 0\<rparr>\<rparr>"

text \<open>For any other \<^verbatim>\<open>createmode\<close> the reserved word is left as it is.\<close>

definition encode_createmode :: "'s kernel \<Rightarrow> nfs_openargs \<Rightarrow> 's encoder" where [enc_defs]:
  "encode_createmode K arg =
     (if open_createmode arg = NFS4_CREATE_UNCHECKED then
        run [reserve_space K 4 (be32 NFS4_CREATE_UNCHECKED),
             encode_attrs K (open_attrs arg) (open_label arg) (open_server arg)]
      else if open_createmode arg = NFS4_CREATE_GUARDED then
        run [reserve_space K 4 (be32 NFS4_CREATE_GUARDED),
             encode_attrs K (open_attrs arg) (open_label arg) (open_server arg)]
      else if open_createmode arg = NFS4_CREATE_EXCLUSIVE then
        run [reserve_space K 4 (be32 NFS4_CREATE_EXCLUSIVE),
             encode_nfs4_verifier K (open_verifier arg)]
      else if open_createmode arg = NFS4_CREATE_EXCLUSIVE4_1 then
        run [reserve_space K 4 (be32 NFS4_CREATE_EXCLUSIVE4_1),
             encode_nfs4_verifier K (open_verifier arg),
             encode_attrs K dummy_iattr (open_label arg) (open_server arg)]
      else reserve_space K 4 [])"

definition encode_opentype :: "'s kernel \<Rightarrow> nfs_openargs \<Rightarrow> 's encoder" where [enc_defs]:
  "encode_opentype K arg =
     (if open_flags arg AND O_CREAT = 0 then reserve_space K 4 (be32 NFS4_OPEN_NOCREATE)
      else run [reserve_space K 4 (be32 NFS4_OPEN_CREATE),
                encode_createmode K arg])"

definition encode_delegation_type :: "'s kernel \<Rightarrow> u32 \<Rightarrow> 's encoder" where [enc_defs]:
  "encode_delegation_type K delegation_type =
     (if delegation_type = 0 then reserve_space K 4 (be32 NFS4_OPEN_DELEGATE_NONE)
      else if delegation_type = FMODE_READ then reserve_space K 4 (be32 NFS4_OPEN_DELEGATE_READ)
      else if delegation_type = (FMODE_WRITE OR FMODE_READ) then
        reserve_space K 4 (be32 NFS4_OPEN_DELEGATE_WRITE)
      else (\<lambda>s. Inl BUG))"

definition encode_claim_null :: "'s kernel \<Rightarrow> qstr \<Rightarrow> 's encoder" where [enc_defs]:
  "encode_claim_null K nm =
     run [reserve_space K 4 (be32 NFS4_OPEN_CLAIM_NULL),
          encode_string K (qlen nm) (qname nm)]"

definition encode_claim_previous :: "'s kernel \<Rightarrow> u32 \<Rightarrow> 's encoder" where [enc_defs]:
  "encode_claim_previous K typ =
     run [reserve_space K 4 (be32 NFS4_OPEN_CLAIM_PREVIOUS),
          encode_delegation_type K typ]"

definition encode_claim_delegate_cur :: "'s kernel \<Rightarrow> qstr \<Rightarrow> nfs4_stateid \<Rightarrow> 's encoder" where [enc_defs]:
  "encode_claim_delegate_cur K nm stateid =
     run [reserve_space K 4 (be32 NFS4_OPEN_CLAIM_DELEGATE_CUR),
          encode_nfs4_stateid K stateid,
          encode_string K (qlen nm) (qname nm)]"

definition encode_claim_fh :: "'s kernel \<Rightarrow> 's encoder" where [enc_defs]:
  "encode_claim_fh K = reserve_space K 4 (be32 NFS4_OPEN_CLAIM_FH)"

definition encode_claim_delegate_cur_fh :: "'s kernel \<Rightarrow> nfs4_stateid \<Rightarrow> 's encoder" where [enc_defs]:
  "encode_claim_delegate_cur_fh K stateid =
     run [reserve_space K 4 (be32 NFS4_OPEN_CLAIM_DELEG_CUR_FH),
          encode_nfs4_stateid K stateid]"

definition encode_open :: "'s kernel \<Rightarrow> nfs_openargs \<Rightarrow> 's encoder" where [enc_defs]:
  "encode_open K arg =
     run [encode_op_hdr K OP_OPEN (decode_open_maxsz K),
          encode_openhdr K arg,
          encode_opentype K arg,
          if open_claim arg = NFS4_OPEN_CLAIM_NULL then encode_claim_null K (open_name arg)
          else if open_claim arg = NFS4_OPEN_CLAIM_PREVIOUS then
            encode_claim_previous K (open_delegation_type arg)
          else if open_claim arg = NFS4_OPEN_CLAIM_DELEGATE_CUR then
            encode_claim_delegate_cur K (open_name arg) (open_delegation arg)
          else if open_claim arg = NFS4_OPEN_CLAIM_FH then encode_claim_fh K
          else if open_claim arg = NFS4_OPEN_CLAIM_DELEG_CUR_FH then
            encode_claim_delegate_cur_fh K (open_delegation arg)
          else (\<lambda>s. Inl BUG)]"

definition encode_open_confirm :: "'s kernel \<Rightarrow> nfs_open_confirmargs \<Rightarrow> 's encoder" where [enc_defs]:
  "encode_open_confirm K arg =
     run [encode_op_hdr K OP_OPEN_CONFIRM (decode_open_confirm_maxsz K),
          encode_nfs4_stateid K (oc_stateid arg),
          encode_nfs4_seqid K (oc_seqid arg)]"

definition encode_open_downgrade :: "'s kernel \<Rightarrow> nfs_closeargs \<Rightarrow> 's encoder" where [enc_defs]:
  "encode_open_downgrade K arg =
     run [encode_op_hdr K OP_OPEN_DOWNGRADE (decode_open_downgrade_maxsz K),
          encode_nfs4_stateid K (close_stateid arg),
          encode_nfs4_seqid K (close_seqid arg),
          encode_share_access K (close_fmode arg)]"

definition encode_putfh :: "'s kernel \<Rightarrow> nfs_fh \<Rightarrow> 's encoder" where [enc_defs]:
  "encode_putfh K fh =
     run [encode_op_hdr K OP_PUTFH (decode_putfh_maxsz K),
          encode_string K (ucast (fh_size fh)) (fh_data fh)]"

definition encode_putrootfh :: "'s kernel \<Rightarrow> 's encoder" where [enc_defs]:
  "encode_putrootfh K = encode_op_hdr K OP_PUTROOTFH (decode_putrootfh_maxsz K)"

definition encode_read :: "'s kernel \<Rightarrow> nfs_pgio_args \<Rightarrow> 's encoder" where [enc_defs]:
  "encode_read K args =
     run [encode_op_hdr K OP_READ (decode_read_maxsz K),
          encode_nfs4_stateid K (pgio_stateid args),
          reserve_space K 12 (xdr_encode_hyper K (pgio_offset args) @ be32 (pgio_count args))]"

text \<open>The attributes \<^verbatim>\<open>encode_readdir\<close> asks for, masked with what the server supports, and the
  number of bitmap words up to the last non-zero one.\<close>

definition readdir_attrs :: "nfs4_readdir_arg \<Rightarrow> bitmap3" where
  "readdir_attrs readdir =
     (let a0 = FATTR4_WORD0_RDATTR_ERROR OR
               (if readdir_plus readdir then
                  FATTR4_WORD0_TYPE OR FATTR4_WORD0_CHANGE OR FATTR4_WORD0_SIZE OR
                  FATTR4_WORD0_FSID OR FATTR4_WORD0_FILEHANDLE OR FATTR4_WORD0_FILEID else 0) OR
               (if fst (snd (readdir_bitmask readdir)) AND FATTR4_WORD1_MOUNTED_ON_FILEID = 0
                then FATTR4_WORD0_FILEID else 0);
          a1 = FATTR4_WORD1_MOUNTED_ON_FILEID OR
               (if readdir_plus readdir then
                  FATTR4_WORD1_MODE OR FATTR4_WORD1_NUMLINKS OR FATTR4_WORD1_OWNER OR
                  FATTR4_WORD1_OWNER_GROUP OR FATTR4_WORD1_RAWDEV OR FATTR4_WORD1_SPACE_USED OR
                  FATTR4_WORD1_TIME_ACCESS OR FATTR4_WORD1_TIME_METADATA OR
                  FATTR4_WORD1_TIME_MODIFY else 0);
          a2 = (if readdir_plus readdir then FATTR4_WORD2_SECURITY_LABEL else 0)
      in bm_and (a0, a1, a2) (readdir_bitmask readdir))"

definition readdir_attrlen :: "bitmap3 \<Rightarrow> u32" where
  "readdir_attrlen a =
     (case a of (a0, a1, a2) \<Rightarrow>
        if a2 \<noteq> 0 then 3 else if a1 \<noteq> 0 then 2 else if a0 \<noteq> 0 then 1 else 0)"

definition readdir_dircount :: "nfs4_readdir_arg \<Rightarrow> u32" where
  "readdir_dircount readdir =
     (if readdir_plus readdir then drop_bit 1 (drop_bit 1 (readdir_count readdir))
      else drop_bit 1 (readdir_count readdir))"

definition encode_readdir :: "'s kernel \<Rightarrow> nfs4_readdir_arg \<Rightarrow> 's encoder" where [enc_defs]:
  "encode_readdir K readdir =
     (let attrs = readdir_attrs readdir; attrlen = readdir_attrlen attrs
      in run [encode_op_hdr K OP_READDIR (decode_readdir_maxsz K),
              encode_uint64 K (readdir_cookie readdir),
              encode_nfs4_verifier K (readdir_verifier readdir),
              reserve_space K (unat (12 + push_bit 2 attrlen))
                (be32 (readdir_dircount readdir) @ be32 (readdir_count readdir) @ be32 attrlen @
                 bitmap_words attrlen attrs)])"

definition encode_readlink :: "'s kernel \<Rightarrow> 's encoder" where [enc_defs]:
  "encode_readlink K = encode_op_hdr K OP_READLINK (decode_readlink_maxsz K)"

definition encode_remove :: "'s kernel \<Rightarrow> qstr \<Rightarrow> 's encoder" where [enc_defs]:
  "encode_remove K nm =
     run [encode_op_hdr K OP_REMOVE (decode_remove_maxsz K),
          encode_string K (qlen nm) (qname nm)]"

definition encode_rename :: "'s kernel \<Rightarrow> qstr \<Rightarrow> qstr \<Rightarrow> 's encoder" where [enc_defs]:
  "encode_rename K oldname newname =
     run [encode_op_hdr K OP_RENAME (decode_rename_maxsz K),
          encode_string K (qlen oldname) (qname oldname),
          encode_string K (qlen newname) (qname newname)]"

definition encode_renew :: "'s kernel \<Rightarrow> u64 \<Rightarrow> 's encoder" where [enc_defs]:
  "encode_renew K clid =
     run [encode_op_hdr K OP_RENEW (decode_renew_maxsz K),
          encode_uint64 K clid]"

definition encode_restorefh :: "'s kernel \<Rightarrow> 's encoder" where [enc_defs]:
  "encode_restorefh K = encode_op_hdr K OP_RESTOREFH (decode_restorefh_maxsz K)"

definition zero_stateid :: nfs4_stateid where
  "zero_stateid = \<lparr>st_seqid = 0, st_other = replicate NFS4_STATEID_OTHER_SIZE 0\<rparr>"

definition encode_setacl :: "'s kernel \<Rightarrow> nfs_setaclargs \<Rightarrow> 's encoder" where [enc_defs]:
  "encode_setacl K arg =
     run [encode_op_hdr K OP_SETATTR (decode_setacl_maxsz K),
          encode_nfs4_stateid K zero_stateid,
          reserve_space K (2 * 4) (be32 1 @ be32 FATTR4_WORD0_ACL),
          reserve_space K 4 (be32 (setacl_len arg)),
          write_pages K (setacl_pages arg) (setacl_pgbase arg) (setacl_len arg)]"

definition encode_savefh :: "'s kernel \<Rightarrow> 's encoder" where [enc_defs]:
  "encode_savefh K = encode_op_hdr K OP_SAVEFH (decode_savefh_maxsz K)"

definition encode_setattr :: "'s kernel \<Rightarrow> nfs_setattrargs \<Rightarrow> nfs_server \<Rightarrow> 's encoder" where [enc_defs]:
  "encode_setattr K arg server =
     run [encode_op_hdr K OP_SETATTR (decode_setattr_maxsz K),
          encode_nfs4_stateid K (setattr_stateid arg),
          encode_attrs K (setattr_iap arg) (setattr_label arg) server]"

definition encode_setclientid :: "'s kernel \<Rightarrow> nfs4_setclientid \<Rightarrow> 's encoder" where [enc_defs]:
  "encode_setclientid K sc =
     run [encode_op_hdr K OP_SETCLIENTID (decode_setclientid_maxsz K),
          encode_nfs4_verifier K (sc_verifier sc),
          encode_string K (sc_name_len sc) (sc_name sc),
          reserve_space K 4 (be32 (sc_prog sc)),
          encode_string K (sc_netid_len sc) (sc_netid sc),
          encode_string K (sc_uaddr_len sc) (sc_uaddr sc),
          reserve_space K 4 (be32 (sc_cb_ident sc))]"

definition encode_setclientid_confirm :: "'s kernel \<Rightarrow> nfs4_setclientid_res \<Rightarrow> 's encoder" where [enc_defs]:
  "encode_setclientid_confirm K arg =
     run [encode_op_hdr K OP_SETCLIENTID_CONFIRM (decode_setclientid_confirm_maxsz K),
          encode_uint64 K (scr_clientid arg),
          encode_nfs4_verifier K (scr_confirm arg)]"

definition encode_write :: "'s kernel \<Rightarrow> nfs_pgio_args \<Rightarrow> 's encoder" where [enc_defs]:
  "encode_write K args =
     run [encode_op_hdr K OP_WRITE (decode_write_maxsz K),
          encode_nfs4_stateid K (pgio_stateid args),
          reserve_space K 16
            (xdr_encode_hyper K (pgio_offset args) @ be32 (pgio_stable args) @ be32 (pgio_count args)),
          write_pages K (pgio_pages args) (pgio_pgbase args) (pgio_count args)]"

definition encode_delegreturn :: "'s kernel \<Rightarrow> nfs4_stateid \<Rightarrow> 's encoder" where [enc_defs]:
  "encode_delegreturn K stateid =
     run [encode_op_hdr K OP_DELEGRETURN (decode_delegreturn_maxsz K),
          encode_nfs4_stateid K stateid]"

definition encode_secinfo :: "'s kernel \<Rightarrow> qstr \<Rightarrow> 's encoder" where [enc_defs]:
  "encode_secinfo K nm =
     run [encode_op_hdr K OP_SECINFO (decode_secinfo_maxsz K),
          encode_string K (qlen nm) (qname nm)]"

section \<open>NFSv4.1 operations\<close>

definition encode_bind_conn_to_session :: "'s kernel \<Rightarrow> nfs4_session \<Rightarrow> 's encoder" where [enc_defs]:
  "encode_bind_conn_to_session K session =
     run [encode_op_hdr K OP_BIND_CONN_TO_SESSION (decode_bind_conn_to_session_maxsz K),
          encode_opaque_fixed K (sess_id session) NFS4_MAX_SESSIONID_LEN,
          xreserve_space K 8 (be32 NFS4_CDFC4_BACK_OR_BOTH @ be32 0)]"

definition encode_op_map :: "'s kernel \<Rightarrow> u32 list \<Rightarrow> 's encoder" where [enc_defs]:
  "encode_op_map K words =
     run (encode_uint32 K (of_nat NFS4_OP_MAP_NUM_WORDS) #
          map (\<lambda>i. if i < length words then encode_uint32 K (words ! i) else (\<lambda>s. Inl OOB_READ))
            [0..<NFS4_OP_MAP_NUM_WORDS])"

text \<open>\<open>impl\<close> is the implementation id sent when the module parameter
  \<^verbatim>\<open>send_implementation_id\<close> and the configured domain allow it: the domain and the formatted
  system name.\<close>

definition encode_exchange_id ::
  "'s kernel \<Rightarrow> (bytes \<times> bytes) option \<Rightarrow> nfs41_exchange_id_args \<Rightarrow> 's encoder" where [enc_defs]:
  "encode_exchange_id K impl args =
     run [encode_op_hdr K OP_EXCHANGE_ID (decode_exchange_id_maxsz K),
          encode_nfs4_verifier K (eid_verifier args),
          encode_string K (eid_id_len args) (eid_id args),
          encode_uint32 K (eid_flags args),
          encode_uint32 K (sp_how (eid_state_protect args)),
          if sp_how (eid_state_protect args) = SP4_MACH_CRED then
            run [encode_op_map K (sp_enforce (eid_state_protect args)),
                 encode_op_map K (sp_allow (eid_state_protect args))]
          else run [],
          case impl of
            Some (domain, sysname) \<Rightarrow>
              if 0 < length sysname then
                run [encode_uint32 K 1,
                     encode_string K (of_nat (length domain)) domain,
                     encode_string K (of_nat (length sysname)) sysname,
                     reserve_space K 12 (xdr_encode_hyper K 0 @ be32 0)]
              else encode_uint32 K 0
          | None \<Rightarrow> encode_uint32 K 0]"

text \<open>The machine name is the client address, cut to the buffer by \<^verbatim>\<open>scnprintf\<close>.\<close>

definition encode_create_session :: "'s kernel \<Rightarrow> nfs41_create_session_args \<Rightarrow> 's encoder" where [enc_defs]:
  "encode_create_session K args =
     (let clp = cs_client args;
          cached = (NFS4_dec_open_sz K + RPC_REPHDRSIZE K + RPC_MAX_AUTH_SIZE K + 2) * 4;
          machine_name = take (NFS4_MAX_MACHINE_NAME_LEN K - 1) (cl_ipaddr clp);
          n = length machine_name
      in run [encode_op_hdr K OP_CREATE_SESSION (decode_create_session_maxsz K),
              reserve_space K (16 + 2 * 28 + 20 + n + 12)
                (xdr_encode_hyper K (cl_clientid clp) @ be32 (cl_seqid clp) @ be32 (cs_flags args) @
                 be32 0 @ be32 (max_rqst_sz (cs_fc_attrs args)) @ be32 (max_resp_sz (cs_fc_attrs args)) @
                 be32 (of_nat cached) @ be32 (max_ops (cs_fc_attrs args)) @
                 be32 (max_reqs (cs_fc_attrs args)) @ be32 0 @
                 be32 0 @ be32 (max_rqst_sz (cs_bc_attrs args)) @ be32 (max_resp_sz (cs_bc_attrs args)) @
                 be32 (max_resp_sz_cached (cs_bc_attrs args)) @ be32 (max_ops (cs_bc_attrs args)) @
                 be32 (max_reqs (cs_bc_attrs args)) @ be32 0 @
                 be32 (cs_cb_program args) @ be32 1 @ be32 1 @
                 be32 (cl_boot_nsec clp) @ xdr_encode_opaque K machine_name (of_nat n) @
                 be32 0 @ be32 0 @ be32 0)])"

definition encode_destroy_session :: "'s kernel \<Rightarrow> nfs4_session \<Rightarrow> 's encoder" where [enc_defs]:
  "encode_destroy_session K session =
     run [encode_op_hdr K OP_DESTROY_SESSION (decode_destroy_session_maxsz K),
          encode_opaque_fixed K (sess_id session) NFS4_MAX_SESSIONID_LEN]"

definition encode_destroy_clientid :: "'s kernel \<Rightarrow> u64 \<Rightarrow> 's encoder" where [enc_defs]:
  "encode_destroy_clientid K clientid =
     run [encode_op_hdr K OP_DESTROY_CLIENTID (decode_destroy_clientid_maxsz K),
          encode_uint64 K clientid]"

definition encode_reclaim_complete :: "'s kernel \<Rightarrow> bool \<Rightarrow> 's encoder" where [enc_defs]:
  "encode_reclaim_complete K one_fs =
     run [encode_op_hdr K OP_RECLAIM_COMPLETE (decode_reclaim_complete_maxsz K),
          encode_uint32 K (of_bool one_fs)]"

definition encode_sequence :: "'s kernel \<Rightarrow> nfs4_sequence_args \<Rightarrow> 's encoder" where [enc_defs]:
  "encode_sequence K args =
     (case slot_session (sa_slot args) of
        None \<Rightarrow> run []
      | Some session \<Rightarrow>
          run [encode_op_hdr K OP_SEQUENCE (decode_sequence_maxsz K),
               \<lambda>s. if length (sess_id session) < NFS4_MAX_SESSIONID_LEN then Inl OOB_READ
                   else reserve_space K (NFS4_MAX_SESSIONID_LEN + 16)
                     (xdr_encode_opaque_fixed K (sess_id session) NFS4_MAX_SESSIONID_LEN @
                      be32 (seq_nr (sa_slot args)) @ be32 (slot_nr (sa_slot args)) @
                      be32 (highest_used_slotid (sa_slot args)) @
                      be32 (of_bool (sa_cache_this args))) s])"

definition encode_getdeviceinfo :: "'s kernel \<Rightarrow> nfs4_getdeviceinfo_args \<Rightarrow> 's encoder" where [enc_defs]:
  "encode_getdeviceinfo K args =
     run [encode_op_hdr K OP_GETDEVICEINFO (decode_getdeviceinfo_maxsz K),
          \<lambda>s. if length (gd_dev_id args) < NFS4_DEVICEID4_SIZE then Inl OOB_READ
              else reserve_space K (NFS4_DEVICEID4_SIZE + 4 + 4)
                (xdr_encode_opaque_fixed K (gd_dev_id args) NFS4_DEVICEID4_SIZE @
                 be32 (gd_layout_type args) @ be32 (gd_maxcount args)) s,
          reserve_space K (4 + 4)
            (be32 1 @ be32 (NOTIFY_DEVICEID4_CHANGE OR NOTIFY_DEVICEID4_DELETE))]"

definition encode_layoutget :: "'s kernel \<Rightarrow> nfs4_layoutget_args \<Rightarrow> 's encoder" where [enc_defs]:
  "encode_layoutget K args =
     run [encode_op_hdr K OP_LAYOUTGET (decode_layoutget_maxsz K),
          reserve_space K 36
            (be32 0 @ be32 (lg_type args) @ be32 (iomode (lg_range args)) @
             xdr_encode_hyper K (lr_offset (lg_range args)) @
             xdr_encode_hyper K (lr_length (lg_range args)) @
             xdr_encode_hyper K (lg_minlength args)),
          encode_nfs4_stateid K (lg_stateid args),
          encode_uint32 K (lg_maxcount args)]"

text \<open>A layout driver may encode its part itself: \<open>ld\<close> is its callback, if it has one. The
  driver id and the inode's file handle are members of the argument record.\<close>

definition encode_layoutcommit ::
  "'s kernel \<Rightarrow> 's encoder option \<Rightarrow> nfs4_layoutcommit_args \<Rightarrow> 's encoder" where [enc_defs]:
  "encode_layoutcommit K ld args =
     run [encode_op_hdr K OP_LAYOUTCOMMIT (decode_layoutcommit_maxsz K),
          reserve_space K 20
            (xdr_encode_hyper K 0 @ xdr_encode_hyper K (lc_lastbytewritten args + 1) @ be32 0),
          encode_nfs4_stateid K (lc_stateid args),
          reserve_space K 20
            (be32 1 @ xdr_encode_hyper K (lc_lastbytewritten args) @ be32 0 @ be32 (lc_ld_id args)),
          case ld of
            Some f \<Rightarrow> f
          | None \<Rightarrow>
              run [encode_uint32 K (lc_layoutupdate_len args),
                   case lc_layoutupdate_pages args of
                     Some pages \<Rightarrow> write_pages K pages 0 (lc_layoutupdate_len args)
                   | None \<Rightarrow> run []]]"

definition encode_layoutreturn ::
  "'s kernel \<Rightarrow> 's encoder option \<Rightarrow> nfs4_layoutreturn_args \<Rightarrow> 's encoder" where [enc_defs]:
  "encode_layoutreturn K ld args =
     run [encode_op_hdr K OP_LAYOUTRETURN (decode_layoutreturn_maxsz K),
          reserve_space K 16
            (be32 0 @ be32 (lr_layout_type args) @ be32 (iomode (lr_range args)) @ be32 RETURN_FILE),
          reserve_space K 16
            (xdr_encode_hyper K (lr_offset (lr_range args)) @ xdr_encode_hyper K (lr_length (lr_range args))),
          encode_nfs4_stateid K (lr_stateid args),
          case ld of Some f \<Rightarrow> f | None \<Rightarrow> encode_uint32 K 0]"

definition encode_secinfo_no_name :: "'s kernel \<Rightarrow> u32 \<Rightarrow> 's encoder" where [enc_defs]:
  "encode_secinfo_no_name K style =
     run [encode_op_hdr K OP_SECINFO_NO_NAME (decode_secinfo_no_name_maxsz K),
          encode_uint32 K style]"

definition encode_test_stateid :: "'s kernel \<Rightarrow> nfs4_stateid \<Rightarrow> 's encoder" where [enc_defs]:
  "encode_test_stateid K stateid =
     run [encode_op_hdr K OP_TEST_STATEID (decode_test_stateid_maxsz K),
          encode_uint32 K 1,
          encode_nfs4_stateid K stateid]"

definition encode_free_stateid :: "'s kernel \<Rightarrow> nfs4_stateid \<Rightarrow> 's encoder" where [enc_defs]:
  "encode_free_stateid K stateid =
     run [encode_op_hdr K OP_FREE_STATEID (decode_free_stateid_maxsz K),
          encode_nfs4_stateid K stateid]"

end
