(* ===== verification/Xdr_Encode_Compound.thy ===== *)
theory Xdr_Encode_Compound
  imports Xdr_Encode_Ops
begin

text \<open>
  The request encoders of \<^verbatim>\<open>fs/nfs/nfs4xdr.c\<close> (\<^verbatim>\<open>nfs4_xdr_enc_access\<close> to
  \<^verbatim>\<open>nfs4_xdr_enc_free_stateid\<close>): each builds one COMPOUND request from a header, its
  operations and the operation count patched in at the end. They are collected, in the order of the
  table \<^verbatim>\<open>nfs4_procedures\<close>, in the datatype \<open>nfs4_request\<close> with the dispatch
  \<open>p_encode\<close> and the buffer size \<open>p_arglen\<close>.
\<close>

definition nfs4_xdr_minorversion :: "nfs4_sequence_args \<Rightarrow> u32" where
  "nfs4_xdr_minorversion args =
     (case slot_session (sa_slot args) of Some session \<Rightarrow> sess_minor_version session | None \<Rightarrow> 0)"

text \<open>The local \<^verbatim>\<open>struct compound_hdr hdr\<close> of a request encoder.\<close>

definition start_hdr :: "u32 \<Rightarrow> 's encoder" where
  "start_hdr m s = Inr (s\<lparr>hdr := hdr_init m\<rparr>)"

text \<open>\<^verbatim>\<open>xdr_inline_pages(&req->rq_rcv_buf, len << 2, pages, base, pglen)\<close>, and the transport hints.\<close>

definition inline_pages :: "(u32 \<Rightarrow> u32) \<Rightarrow> bytes \<Rightarrow> u32 \<Rightarrow> u32 \<Rightarrow> 's encoder" where
  "inline_pages f pages base n s =
     Inr (s\<lparr>rcv_inline := Some (push_bit 2 (f (replen (hdr s))), pages, base, n)\<rparr>)"

definition mark_read :: "'s encoder" where
  "mark_read s = Inr (s\<lparr>rcv_read := True\<rparr>)"

definition mark_write :: "'s encoder" where
  "mark_write s = Inr (s\<lparr>snd_write := True\<rparr>)"

definition nfs4_xdr_enc_access ::
  "'s kernel \<Rightarrow> rpc_rqst \<Rightarrow> nfs4_accessargs \<Rightarrow> 's encoder" where [enc_defs]:
  "nfs4_xdr_enc_access K req args =
     run [start_hdr (nfs4_xdr_minorversion (access_seq_args args)),
          encode_compound_hdr K req,
          encode_sequence K (access_seq_args args),
          encode_putfh K (access_fh args),
          encode_access K (access_access args),
          encode_getfattr K (access_bitmask args),
          encode_nops]"

definition nfs4_xdr_enc_lookup ::
  "'s kernel \<Rightarrow> rpc_rqst \<Rightarrow> nfs4_lookup_arg \<Rightarrow> 's encoder" where [enc_defs]:
  "nfs4_xdr_enc_lookup K req args =
     run [start_hdr (nfs4_xdr_minorversion (lookup_seq_args args)),
          encode_compound_hdr K req,
          encode_sequence K (lookup_seq_args args),
          encode_putfh K (lookup_dir_fh args),
          encode_lookup K (lookup_name args),
          encode_getfh K,
          encode_getfattr K (lookup_bitmask args),
          encode_nops]"

definition nfs4_xdr_enc_chain_lookup ::
  "'s kernel \<Rightarrow> rpc_rqst \<Rightarrow> nfs4_chain_lookup_arg \<Rightarrow> 's encoder" where [enc_defs]:
  "nfs4_xdr_enc_chain_lookup K req args =
     run ([start_hdr (nfs4_xdr_minorversion (chain_seq_args args)),
           encode_compound_hdr K req,
           encode_sequence K (chain_seq_args args),
           encode_putfh K (chain_dir_fh args)] @
          concat (map (\<lambda>d_name. [encode_lookup K d_name,
                                  encode_getfh K,
                                  encode_getfattr K (chain_bitmask args)])
                   (chain_dchain_list args)) @
          [encode_nops])"

definition nfs4_xdr_enc_chain_lookup_open ::
  "'s kernel \<Rightarrow> rpc_rqst \<Rightarrow> nfs4_chain_lookup_open_arg \<Rightarrow> 's encoder" where [enc_defs]:
  "nfs4_xdr_enc_chain_lookup_open K req args =
     run ([start_hdr (nfs4_xdr_minorversion (chain_open_seq_args args)),
           encode_compound_hdr K req,
           encode_sequence K (chain_open_seq_args args),
           encode_putfh K (chain_open_dir_fh args)] @
          concat (map (\<lambda>d_name. [encode_lookup K d_name,
                                  encode_getfh K,
                                  encode_getfattr K (chain_open_bitmask args)])
                   (chain_open_dchain_list args)) @
          [encode_nops])"

definition nfs4_xdr_enc_lookup_root ::
  "'s kernel \<Rightarrow> rpc_rqst \<Rightarrow> nfs4_lookup_root_arg \<Rightarrow> 's encoder" where [enc_defs]:
  "nfs4_xdr_enc_lookup_root K req args =
     run [start_hdr (nfs4_xdr_minorversion (lookup_root_seq_args args)),
          encode_compound_hdr K req,
          encode_sequence K (lookup_root_seq_args args),
          encode_putrootfh K,
          encode_getfh K,
          encode_getfattr K (lookup_root_bitmask args),
          encode_nops]"

definition nfs4_xdr_enc_remove ::
  "'s kernel \<Rightarrow> rpc_rqst \<Rightarrow> nfs_removeargs \<Rightarrow> 's encoder" where [enc_defs]:
  "nfs4_xdr_enc_remove K req args =
     run [start_hdr (nfs4_xdr_minorversion (remove_seq_args args)),
          encode_compound_hdr K req,
          encode_sequence K (remove_seq_args args),
          encode_putfh K (remove_fh args),
          encode_remove K (remove_name args),
          encode_nops]"

definition nfs4_xdr_enc_rename ::
  "'s kernel \<Rightarrow> rpc_rqst \<Rightarrow> nfs_renameargs \<Rightarrow> 's encoder" where [enc_defs]:
  "nfs4_xdr_enc_rename K req args =
     run [start_hdr (nfs4_xdr_minorversion (rename_seq_args args)),
          encode_compound_hdr K req,
          encode_sequence K (rename_seq_args args),
          encode_putfh K (rename_old_dir args),
          encode_savefh K,
          encode_putfh K (rename_new_dir args),
          encode_rename K (rename_old_name args) (rename_new_name args),
          encode_nops]"

definition nfs4_xdr_enc_link ::
  "'s kernel \<Rightarrow> rpc_rqst \<Rightarrow> nfs4_link_arg \<Rightarrow> 's encoder" where [enc_defs]:
  "nfs4_xdr_enc_link K req args =
     run [start_hdr (nfs4_xdr_minorversion (link_seq_args args)),
          encode_compound_hdr K req,
          encode_sequence K (link_seq_args args),
          encode_putfh K (link_fh args),
          encode_savefh K,
          encode_putfh K (link_dir_fh args),
          encode_link K (link_name args),
          encode_restorefh K,
          encode_getfattr K (link_bitmask args),
          encode_nops]"

definition nfs4_xdr_enc_create ::
  "'s kernel \<Rightarrow> rpc_rqst \<Rightarrow> nfs4_create_arg \<Rightarrow> 's encoder" where [enc_defs]:
  "nfs4_xdr_enc_create K req args =
     run [start_hdr (nfs4_xdr_minorversion (create_seq_args args)),
          encode_compound_hdr K req,
          encode_sequence K (create_seq_args args),
          encode_putfh K (create_dir_fh args),
          encode_create K args,
          encode_getfh K,
          encode_getfattr K (create_bitmask args),
          encode_nops]"

definition nfs4_xdr_enc_symlink ::
  "'s kernel \<Rightarrow> rpc_rqst \<Rightarrow> nfs4_create_arg \<Rightarrow> 's encoder" where [enc_defs]:
  "nfs4_xdr_enc_symlink K req args = nfs4_xdr_enc_create K req args"

definition nfs4_xdr_enc_getattr ::
  "'s kernel \<Rightarrow> rpc_rqst \<Rightarrow> nfs4_getattr_arg \<Rightarrow> 's encoder" where [enc_defs]:
  "nfs4_xdr_enc_getattr K req args =
     run [start_hdr (nfs4_xdr_minorversion (getattr_seq_args args)),
          encode_compound_hdr K req,
          encode_sequence K (getattr_seq_args args),
          encode_putfh K (getattr_fh args),
          encode_getfattr K (getattr_bitmask args),
          encode_nops]"

definition nfs4_xdr_enc_close ::
  "'s kernel \<Rightarrow> rpc_rqst \<Rightarrow> nfs_closeargs \<Rightarrow> 's encoder" where [enc_defs]:
  "nfs4_xdr_enc_close K req args =
     run [start_hdr (nfs4_xdr_minorversion (close_seq_args args)),
          encode_compound_hdr K req,
          encode_sequence K (close_seq_args args),
          encode_putfh K (close_fh args),
          encode_close K args,
          encode_getfattr K (close_bitmask args),
          encode_nops]"

definition nfs4_xdr_enc_open ::
  "'s kernel \<Rightarrow> rpc_rqst \<Rightarrow> nfs_openargs \<Rightarrow> 's encoder" where [enc_defs]:
  "nfs4_xdr_enc_open K req args =
     run [start_hdr (nfs4_xdr_minorversion (open_seq_args args)),
          encode_compound_hdr K req,
          encode_sequence K (open_seq_args args),
          encode_putfh K (open_fh args),
          encode_open K args,
          encode_getfh K,
          if open_access args \<noteq> 0 then encode_access K (open_access args) else run [],
          encode_getfattr_open K (open_bitmask args) (open_open_bitmap args),
          encode_nops]"

definition nfs4_xdr_enc_open_confirm ::
  "'s kernel \<Rightarrow> rpc_rqst \<Rightarrow> nfs_open_confirmargs \<Rightarrow> 's encoder" where [enc_defs]:
  "nfs4_xdr_enc_open_confirm K req args =
     run [start_hdr 0,
          encode_compound_hdr K req,
          encode_putfh K (oc_fh args),
          encode_open_confirm K args,
          encode_nops]"

definition nfs4_xdr_enc_open_noattr ::
  "'s kernel \<Rightarrow> rpc_rqst \<Rightarrow> nfs_openargs \<Rightarrow> 's encoder" where [enc_defs]:
  "nfs4_xdr_enc_open_noattr K req args =
     run [start_hdr (nfs4_xdr_minorversion (open_seq_args args)),
          encode_compound_hdr K req,
          encode_sequence K (open_seq_args args),
          encode_putfh K (open_fh args),
          encode_open K args,
          if open_access args \<noteq> 0 then encode_access K (open_access args) else run [],
          encode_getfattr_open K (open_bitmask args) (open_open_bitmap args),
          encode_nops]"

definition nfs4_xdr_enc_open_downgrade ::
  "'s kernel \<Rightarrow> rpc_rqst \<Rightarrow> nfs_closeargs \<Rightarrow> 's encoder" where [enc_defs]:
  "nfs4_xdr_enc_open_downgrade K req args =
     run [start_hdr (nfs4_xdr_minorversion (close_seq_args args)),
          encode_compound_hdr K req,
          encode_sequence K (close_seq_args args),
          encode_putfh K (close_fh args),
          encode_open_downgrade K args,
          encode_getfattr K (close_bitmask args),
          encode_nops]"

definition nfs4_xdr_enc_lock ::
  "'s kernel \<Rightarrow> rpc_rqst \<Rightarrow> nfs_lock_args \<Rightarrow> 's encoder" where [enc_defs]:
  "nfs4_xdr_enc_lock K req args =
     run [start_hdr (nfs4_xdr_minorversion (lock_seq_args args)),
          encode_compound_hdr K req,
          encode_sequence K (lock_seq_args args),
          encode_putfh K (lock_fh args),
          encode_lock K args,
          encode_nops]"

definition nfs4_xdr_enc_lockt ::
  "'s kernel \<Rightarrow> rpc_rqst \<Rightarrow> nfs_lockt_args \<Rightarrow> 's encoder" where [enc_defs]:
  "nfs4_xdr_enc_lockt K req args =
     run [start_hdr (nfs4_xdr_minorversion (lockt_seq_args args)),
          encode_compound_hdr K req,
          encode_sequence K (lockt_seq_args args),
          encode_putfh K (lockt_fh args),
          encode_lockt K args,
          encode_nops]"

definition nfs4_xdr_enc_locku ::
  "'s kernel \<Rightarrow> rpc_rqst \<Rightarrow> nfs_locku_args \<Rightarrow> 's encoder" where [enc_defs]:
  "nfs4_xdr_enc_locku K req args =
     run [start_hdr (nfs4_xdr_minorversion (locku_seq_args args)),
          encode_compound_hdr K req,
          encode_sequence K (locku_seq_args args),
          encode_putfh K (locku_fh args),
          encode_locku K args,
          encode_nops]"

definition nfs4_xdr_enc_release_lockowner ::
  "'s kernel \<Rightarrow> rpc_rqst \<Rightarrow> nfs_release_lockowner_args \<Rightarrow> 's encoder" where [enc_defs]:
  "nfs4_xdr_enc_release_lockowner K req args =
     run [start_hdr 0,
          encode_compound_hdr K req,
          encode_release_lockowner K (rlo_lock_owner args),
          encode_nops]"

definition nfs4_xdr_enc_readlink ::
  "'s kernel \<Rightarrow> rpc_rqst \<Rightarrow> nfs4_readlink \<Rightarrow> 's encoder" where [enc_defs]:
  "nfs4_xdr_enc_readlink K req args =
     run [start_hdr (nfs4_xdr_minorversion (readlink_seq_args args)),
          encode_compound_hdr K req,
          encode_sequence K (readlink_seq_args args),
          encode_putfh K (readlink_fh args),
          encode_readlink K,
          inline_pages (\<lambda>r. r) (readlink_pages args) (readlink_pgbase args) (readlink_pglen args),
          encode_nops]"

definition nfs4_xdr_enc_readdir ::
  "'s kernel \<Rightarrow> rpc_rqst \<Rightarrow> nfs4_readdir_arg \<Rightarrow> 's encoder" where [enc_defs]:
  "nfs4_xdr_enc_readdir K req args =
     run [start_hdr (nfs4_xdr_minorversion (readdir_seq_args args)),
          encode_compound_hdr K req,
          encode_sequence K (readdir_seq_args args),
          encode_putfh K (readdir_fh args),
          encode_readdir K args,
          inline_pages (\<lambda>r. r) (readdir_pages args) (readdir_pgbase args) (readdir_count args),
          encode_nops]"

definition nfs4_xdr_enc_read ::
  "'s kernel \<Rightarrow> rpc_rqst \<Rightarrow> nfs_pgio_args \<Rightarrow> 's encoder" where [enc_defs]:
  "nfs4_xdr_enc_read K req args =
     run [start_hdr (nfs4_xdr_minorversion (pgio_seq_args args)),
          encode_compound_hdr K req,
          encode_sequence K (pgio_seq_args args),
          encode_putfh K (pgio_fh args),
          encode_read K args,
          inline_pages (\<lambda>r. r) (pgio_pages args) (pgio_pgbase args) (pgio_count args),
          mark_read,
          encode_nops]"

definition nfs4_xdr_enc_setattr ::
  "'s kernel \<Rightarrow> rpc_rqst \<Rightarrow> nfs_setattrargs \<Rightarrow> 's encoder" where [enc_defs]:
  "nfs4_xdr_enc_setattr K req args =
     run [start_hdr (nfs4_xdr_minorversion (setattr_seq_args args)),
          encode_compound_hdr K req,
          encode_sequence K (setattr_seq_args args),
          encode_putfh K (setattr_fh args),
          encode_setattr K args (setattr_server args),
          encode_getfattr K (setattr_bitmask args),
          encode_nops]"

text \<open>\<^verbatim>\<open>nfs4_xdr_enc_getacl\<close> and \<^verbatim>\<open>nfs4_xdr_enc_fs_locations\<close> fix the page position from the reply
  length before their last operations are counted: \<open>with_replen g\<close> reads it at that point.\<close>

definition with_replen :: "(u32 \<Rightarrow> 's encoder) \<Rightarrow> 's encoder" where
  "with_replen g s = g (replen (hdr s)) s"

definition nfs4_xdr_enc_getacl ::
  "'s kernel \<Rightarrow> rpc_rqst \<Rightarrow> nfs_getaclargs \<Rightarrow> 's encoder" where [enc_defs]:
  "nfs4_xdr_enc_getacl K req args =
     run [start_hdr (nfs4_xdr_minorversion (getacl_seq_args args)),
          encode_compound_hdr K req,
          encode_sequence K (getacl_seq_args args),
          encode_putfh K (getacl_fh args),
          with_replen (\<lambda>r.
            let replen0 = r + of_nat (op_decode_hdr_maxsz K) + 1
            in run [encode_getattr_two K FATTR4_WORD0_ACL 0,
                    inline_pages (\<lambda>_. replen0) (getacl_acl_pages args) (getacl_acl_pgbase args)
                      (getacl_acl_len args)]),
          encode_nops]"

definition nfs4_xdr_enc_setacl ::
  "'s kernel \<Rightarrow> rpc_rqst \<Rightarrow> nfs_setaclargs \<Rightarrow> 's encoder" where [enc_defs]:
  "nfs4_xdr_enc_setacl K req args =
     run [start_hdr (nfs4_xdr_minorversion (setacl_seq_args args)),
          encode_compound_hdr K req,
          encode_sequence K (setacl_seq_args args),
          encode_putfh K (setacl_fh args),
          encode_setacl K args,
          encode_nops]"

definition nfs4_xdr_enc_write ::
  "'s kernel \<Rightarrow> rpc_rqst \<Rightarrow> nfs_pgio_args \<Rightarrow> 's encoder" where [enc_defs]:
  "nfs4_xdr_enc_write K req args =
     run [start_hdr (nfs4_xdr_minorversion (pgio_seq_args args)),
          encode_compound_hdr K req,
          encode_sequence K (pgio_seq_args args),
          encode_putfh K (pgio_fh args),
          encode_write K args,
          mark_write,
          case pgio_bitmask args of Some bitmask \<Rightarrow> encode_getfattr K bitmask | None \<Rightarrow> run [],
          encode_nops]"

definition nfs4_xdr_enc_commit ::
  "'s kernel \<Rightarrow> rpc_rqst \<Rightarrow> nfs_commitargs \<Rightarrow> 's encoder" where [enc_defs]:
  "nfs4_xdr_enc_commit K req args =
     run [start_hdr (nfs4_xdr_minorversion (commit_seq_args args)),
          encode_compound_hdr K req,
          encode_sequence K (commit_seq_args args),
          encode_putfh K (commit_fh args),
          encode_commit K args,
          encode_nops]"

definition nfs4_xdr_enc_fsinfo ::
  "'s kernel \<Rightarrow> rpc_rqst \<Rightarrow> nfs4_fsinfo_arg \<Rightarrow> 's encoder" where [enc_defs]:
  "nfs4_xdr_enc_fsinfo K req args =
     run [start_hdr (nfs4_xdr_minorversion (fsinfo_seq_args args)),
          encode_compound_hdr K req,
          encode_sequence K (fsinfo_seq_args args),
          encode_putfh K (fsinfo_fh args),
          encode_fsinfo K (fsinfo_bitmask args),
          encode_nops]"

definition nfs4_xdr_enc_pathconf ::
  "'s kernel \<Rightarrow> rpc_rqst \<Rightarrow> nfs4_pathconf_arg \<Rightarrow> 's encoder" where [enc_defs]:
  "nfs4_xdr_enc_pathconf K req args =
     run [start_hdr (nfs4_xdr_minorversion (pathconf_seq_args args)),
          encode_compound_hdr K req,
          encode_sequence K (pathconf_seq_args args),
          encode_putfh K (pathconf_fh args),
          encode_getattr_one K (fst (bm_and (pathconf_bitmask args) nfs4_pathconf_bitmap)),
          encode_nops]"

definition nfs4_xdr_enc_statfs ::
  "'s kernel \<Rightarrow> rpc_rqst \<Rightarrow> nfs4_statfs_arg \<Rightarrow> 's encoder" where [enc_defs]:
  "nfs4_xdr_enc_statfs K req args =
     run [start_hdr (nfs4_xdr_minorversion (statfs_seq_args args)),
          encode_compound_hdr K req,
          encode_sequence K (statfs_seq_args args),
          encode_putfh K (statfs_fh args),
          encode_getattr_two K (fst (bm_and (statfs_bitmask args) nfs4_statfs_bitmap))
            (fst (snd (bm_and (statfs_bitmask args) nfs4_statfs_bitmap))),
          encode_nops]"

definition server_caps_bitmap :: u32 where
  "server_caps_bitmap =
     FATTR4_WORD0_SUPPORTED_ATTRS OR FATTR4_WORD0_FH_EXPIRE_TYPE OR FATTR4_WORD0_LINK_SUPPORT OR
     FATTR4_WORD0_SYMLINK_SUPPORT OR FATTR4_WORD0_ACLSUPPORT"

definition nfs4_xdr_enc_server_caps ::
  "'s kernel \<Rightarrow> rpc_rqst \<Rightarrow> nfs4_server_caps_arg \<Rightarrow> 's encoder" where [enc_defs]:
  "nfs4_xdr_enc_server_caps K req args =
     run [start_hdr (nfs4_xdr_minorversion (caps_seq_args args)),
          encode_compound_hdr K req,
          encode_sequence K (caps_seq_args args),
          encode_putfh K (caps_fhandle args),
          encode_getattr_one K server_caps_bitmap,
          encode_nops]"

definition nfs4_xdr_enc_renew ::
  "'s kernel \<Rightarrow> rpc_rqst \<Rightarrow> nfs4_client \<Rightarrow> 's encoder" where [enc_defs]:
  "nfs4_xdr_enc_renew K req args =
     run [start_hdr 0,
          encode_compound_hdr K req,
          encode_renew K (cl_clientid args),
          encode_nops]"

definition nfs4_xdr_enc_setclientid ::
  "'s kernel \<Rightarrow> rpc_rqst \<Rightarrow> nfs4_setclientid \<Rightarrow> 's encoder" where [enc_defs]:
  "nfs4_xdr_enc_setclientid K req args =
     run [start_hdr 0,
          encode_compound_hdr K req,
          encode_setclientid K args,
          encode_nops]"

definition nfs4_xdr_enc_setclientid_confirm ::
  "'s kernel \<Rightarrow> rpc_rqst \<Rightarrow> nfs4_setclientid_res \<Rightarrow> 's encoder" where [enc_defs]:
  "nfs4_xdr_enc_setclientid_confirm K req args =
     run [start_hdr 0,
          encode_compound_hdr K req,
          encode_setclientid_confirm K args,
          encode_nops]"

definition nfs4_xdr_enc_delegreturn ::
  "'s kernel \<Rightarrow> rpc_rqst \<Rightarrow> nfs4_delegreturnargs \<Rightarrow> 's encoder" where [enc_defs]:
  "nfs4_xdr_enc_delegreturn K req args =
     run [start_hdr (nfs4_xdr_minorversion (delegreturn_seq_args args)),
          encode_compound_hdr K req,
          encode_sequence K (delegreturn_seq_args args),
          encode_putfh K (delegreturn_fhandle args),
          encode_getfattr K (delegreturn_bitmask args),
          encode_delegreturn K (delegreturn_stateid args),
          encode_nops]"

abbreviation (input) PAGE_SIZE :: u32 where "PAGE_SIZE \<equiv> 4096"

definition nfs4_xdr_enc_fs_locations ::
  "'s kernel \<Rightarrow> rpc_rqst \<Rightarrow> nfs4_fs_locations_arg \<Rightarrow> 's encoder" where [enc_defs]:
  "nfs4_xdr_enc_fs_locations K req args =
     run [start_hdr (nfs4_xdr_minorversion (fsloc_seq_args args)),
          encode_compound_hdr K req,
          encode_sequence K (fsloc_seq_args args),
          if fsloc_migration args then
            run [encode_putfh K (fsloc_fh args),
                 with_replen (\<lambda>replen0.
                   run [encode_fs_locations K (fsloc_bitmask args),
                        if fsloc_renew args then encode_renew K (fsloc_clientid args) else run [],
                        inline_pages (\<lambda>_. replen0) (fsloc_page args) 0 PAGE_SIZE])]
          else
            run [encode_putfh K (fsloc_dir_fh args),
                 encode_lookup K (fsloc_name args),
                 with_replen (\<lambda>replen0.
                   run [encode_fs_locations K (fsloc_bitmask args),
                        inline_pages (\<lambda>_. replen0) (fsloc_page args) 0 PAGE_SIZE])],
          encode_nops]"

definition nfs4_xdr_enc_secinfo ::
  "'s kernel \<Rightarrow> rpc_rqst \<Rightarrow> nfs4_secinfo_arg \<Rightarrow> 's encoder" where [enc_defs]:
  "nfs4_xdr_enc_secinfo K req args =
     run [start_hdr (nfs4_xdr_minorversion (secinfo_seq_args args)),
          encode_compound_hdr K req,
          encode_sequence K (secinfo_seq_args args),
          encode_putfh K (secinfo_dir_fh args),
          encode_secinfo K (secinfo_name args),
          encode_nops]"

definition nfs4_xdr_enc_fsid_present ::
  "'s kernel \<Rightarrow> rpc_rqst \<Rightarrow> nfs4_fsid_present_arg \<Rightarrow> 's encoder" where [enc_defs]:
  "nfs4_xdr_enc_fsid_present K req args =
     run [start_hdr (nfs4_xdr_minorversion (fsidp_seq_args args)),
          encode_compound_hdr K req,
          encode_sequence K (fsidp_seq_args args),
          encode_putfh K (fsidp_fh args),
          encode_getfh K,
          if fsidp_renew args then encode_renew K (fsidp_clientid args) else run [],
          encode_nops]"

section \<open>NFSv4.1 requests\<close>

definition nfs4_xdr_enc_bind_conn_to_session ::
  "'s kernel \<Rightarrow> rpc_rqst \<Rightarrow> nfs4_client \<Rightarrow> 's encoder" where [enc_defs]:
  "nfs4_xdr_enc_bind_conn_to_session K req args =
     run [start_hdr (cl_minor_version args),
          encode_compound_hdr K req,
          case cl_session args of
            Some session \<Rightarrow> encode_bind_conn_to_session K session
          | None \<Rightarrow> (\<lambda>s. Inl NULL_DEREF),
          encode_nops]"

definition nfs4_xdr_enc_exchange_id ::
  "'s kernel \<Rightarrow> rpc_rqst \<Rightarrow> (bytes \<times> bytes) option \<Rightarrow> nfs41_exchange_id_args \<Rightarrow> 's encoder" where [enc_defs]:
  "nfs4_xdr_enc_exchange_id K req impl args =
     run [start_hdr (cl_minor_version (eid_client args)),
          encode_compound_hdr K req,
          encode_exchange_id K impl args,
          encode_nops]"

definition nfs4_xdr_enc_create_session ::
  "'s kernel \<Rightarrow> rpc_rqst \<Rightarrow> nfs41_create_session_args \<Rightarrow> 's encoder" where [enc_defs]:
  "nfs4_xdr_enc_create_session K req args =
     run [start_hdr (cl_minor_version (cs_client args)),
          encode_compound_hdr K req,
          encode_create_session K args,
          encode_nops]"

definition nfs4_xdr_enc_destroy_session ::
  "'s kernel \<Rightarrow> rpc_rqst \<Rightarrow> nfs4_session \<Rightarrow> 's encoder" where [enc_defs]:
  "nfs4_xdr_enc_destroy_session K req args =
     run [start_hdr (sess_minor_version args),
          encode_compound_hdr K req,
          encode_destroy_session K args,
          encode_nops]"

definition nfs4_xdr_enc_destroy_clientid ::
  "'s kernel \<Rightarrow> rpc_rqst \<Rightarrow> nfs4_client \<Rightarrow> 's encoder" where [enc_defs]:
  "nfs4_xdr_enc_destroy_clientid K req args =
     run [start_hdr (cl_minor_version args),
          encode_compound_hdr K req,
          encode_destroy_clientid K (cl_clientid args),
          encode_nops]"

definition nfs4_xdr_enc_sequence ::
  "'s kernel \<Rightarrow> rpc_rqst \<Rightarrow> nfs4_sequence_args \<Rightarrow> 's encoder" where [enc_defs]:
  "nfs4_xdr_enc_sequence K req args =
     run [start_hdr (nfs4_xdr_minorversion args),
          encode_compound_hdr K req,
          encode_sequence K args,
          encode_nops]"

definition nfs4_xdr_enc_get_lease_time ::
  "'s kernel \<Rightarrow> rpc_rqst \<Rightarrow> nfs4_get_lease_time_args \<Rightarrow> 's encoder" where [enc_defs]:
  "nfs4_xdr_enc_get_lease_time K req args =
     run [start_hdr (nfs4_xdr_minorversion (lease_seq_args args)),
          encode_compound_hdr K req,
          encode_sequence K (lease_seq_args args),
          encode_putrootfh K,
          encode_fsinfo K (FATTR4_WORD0_LEASE_TIME, 0, 0),
          encode_nops]"

definition nfs4_xdr_enc_reclaim_complete ::
  "'s kernel \<Rightarrow> rpc_rqst \<Rightarrow> nfs41_reclaim_complete_args \<Rightarrow> 's encoder" where [enc_defs]:
  "nfs4_xdr_enc_reclaim_complete K req args =
     run [start_hdr (nfs4_xdr_minorversion (reclaim_seq_args args)),
          encode_compound_hdr K req,
          encode_sequence K (reclaim_seq_args args),
          encode_reclaim_complete K (reclaim_one_fs args),
          encode_nops]"

definition nfs4_xdr_enc_getdeviceinfo ::
  "'s kernel \<Rightarrow> rpc_rqst \<Rightarrow> nfs4_getdeviceinfo_args \<Rightarrow> 's encoder" where [enc_defs]:
  "nfs4_xdr_enc_getdeviceinfo K req args =
     run [start_hdr (nfs4_xdr_minorversion (gd_seq_args args)),
          encode_compound_hdr K req,
          encode_sequence K (gd_seq_args args),
          encode_getdeviceinfo K args,
          inline_pages (\<lambda>r. r - 2) (gd_pages args) (gd_pgbase args) (gd_pglen args),
          encode_nops]"

definition nfs4_xdr_enc_layoutget ::
  "'s kernel \<Rightarrow> rpc_rqst \<Rightarrow> nfs4_layoutget_args \<Rightarrow> 's encoder" where [enc_defs]:
  "nfs4_xdr_enc_layoutget K req args =
     run [start_hdr (nfs4_xdr_minorversion (lg_seq_args args)),
          encode_compound_hdr K req,
          encode_sequence K (lg_seq_args args),
          encode_putfh K (lg_fh args),
          encode_layoutget K args,
          inline_pages (\<lambda>r. r) (lg_pages args) 0 (lg_pglen args),
          encode_nops]"

definition nfs4_xdr_enc_layoutcommit ::
  "'s kernel \<Rightarrow> rpc_rqst \<Rightarrow> 's encoder option \<Rightarrow> nfs4_layoutcommit_args \<Rightarrow> 's encoder" where [enc_defs]:
  "nfs4_xdr_enc_layoutcommit K req ld args =
     run [start_hdr (nfs4_xdr_minorversion (lc_seq_args args)),
          encode_compound_hdr K req,
          encode_sequence K (lc_seq_args args),
          encode_putfh K (lc_fh args),
          encode_layoutcommit K ld args,
          encode_getfattr K (lc_bitmask args),
          encode_nops]"

definition nfs4_xdr_enc_layoutreturn ::
  "'s kernel \<Rightarrow> rpc_rqst \<Rightarrow> 's encoder option \<Rightarrow> nfs4_layoutreturn_args \<Rightarrow> 's encoder" where [enc_defs]:
  "nfs4_xdr_enc_layoutreturn K req ld args =
     run [start_hdr (nfs4_xdr_minorversion (lr_seq_args args)),
          encode_compound_hdr K req,
          encode_sequence K (lr_seq_args args),
          encode_putfh K (lr_fh args),
          encode_layoutreturn K ld args,
          encode_nops]"

definition nfs4_xdr_enc_secinfo_no_name ::
  "'s kernel \<Rightarrow> rpc_rqst \<Rightarrow> nfs41_secinfo_no_name_args \<Rightarrow> 's encoder" where [enc_defs]:
  "nfs4_xdr_enc_secinfo_no_name K req args =
     run [start_hdr (nfs4_xdr_minorversion (secinfo_nn_seq_args args)),
          encode_compound_hdr K req,
          encode_sequence K (secinfo_nn_seq_args args),
          encode_putrootfh K,
          encode_secinfo_no_name K (secinfo_nn_style args),
          encode_nops]"

definition nfs4_xdr_enc_test_stateid ::
  "'s kernel \<Rightarrow> rpc_rqst \<Rightarrow> nfs41_test_stateid_args \<Rightarrow> 's encoder" where [enc_defs]:
  "nfs4_xdr_enc_test_stateid K req args =
     run [start_hdr (nfs4_xdr_minorversion (test_seq_args args)),
          encode_compound_hdr K req,
          encode_sequence K (test_seq_args args),
          encode_test_stateid K (test_stateid args),
          encode_nops]"

definition nfs4_xdr_enc_free_stateid ::
  "'s kernel \<Rightarrow> rpc_rqst \<Rightarrow> nfs41_free_stateid_args \<Rightarrow> 's encoder" where [enc_defs]:
  "nfs4_xdr_enc_free_stateid K req args =
     run [start_hdr (nfs4_xdr_minorversion (free_seq_args args)),
          encode_compound_hdr K req,
          encode_sequence K (free_seq_args args),
          encode_free_stateid K (free_stateid args),
          encode_nops]"

section \<open>The procedure table\<close>

text \<open>\<^verbatim>\<open>nfs4_procedures\<close>: a request is a procedure with its arguments. EXCHANGE_ID, CREATE_SESSION,
  LAYOUTCOMMIT and LAYOUTRETURN, whose encoders take a further parameter or compute their sizes at
  run time, stay outside the table.\<close>

datatype (plugins only: size) nfs4_request =
    PROC_READ nfs_pgio_args
  | PROC_WRITE nfs_pgio_args
  | PROC_COMMIT nfs_commitargs
  | PROC_OPEN nfs_openargs
  | PROC_OPEN_CONFIRM nfs_open_confirmargs
  | PROC_OPEN_NOATTR nfs_openargs
  | PROC_OPEN_DOWNGRADE nfs_closeargs
  | PROC_CLOSE nfs_closeargs
  | PROC_SETATTR nfs_setattrargs
  | PROC_FSINFO nfs4_fsinfo_arg
  | PROC_RENEW nfs4_client
  | PROC_SETCLIENTID nfs4_setclientid
  | PROC_SETCLIENTID_CONFIRM nfs4_setclientid_res
  | PROC_LOCK nfs_lock_args
  | PROC_LOCKT nfs_lockt_args
  | PROC_LOCKU nfs_locku_args
  | PROC_ACCESS nfs4_accessargs
  | PROC_GETATTR nfs4_getattr_arg
  | PROC_LOOKUP nfs4_lookup_arg
  | PROC_LOOKUP_ROOT nfs4_lookup_root_arg
  | PROC_CHAIN_LOOKUP nfs4_chain_lookup_arg
  | PROC_CHAIN_LOOKUP_OPEN nfs4_chain_lookup_open_arg
  | PROC_REMOVE nfs_removeargs
  | PROC_RENAME nfs_renameargs
  | PROC_LINK nfs4_link_arg
  | PROC_SYMLINK nfs4_create_arg
  | PROC_CREATE nfs4_create_arg
  | PROC_PATHCONF nfs4_pathconf_arg
  | PROC_STATFS nfs4_statfs_arg
  | PROC_READLINK nfs4_readlink
  | PROC_READDIR nfs4_readdir_arg
  | PROC_SERVER_CAPS nfs4_server_caps_arg
  | PROC_DELEGRETURN nfs4_delegreturnargs
  | PROC_GETACL nfs_getaclargs
  | PROC_SETACL nfs_setaclargs
  | PROC_FS_LOCATIONS nfs4_fs_locations_arg
  | PROC_RELEASE_LOCKOWNER nfs_release_lockowner_args
  | PROC_SECINFO nfs4_secinfo_arg
  | PROC_FSID_PRESENT nfs4_fsid_present_arg
  | PROC_DESTROY_SESSION nfs4_session
  | PROC_SEQUENCE nfs4_sequence_args
  | PROC_GET_LEASE_TIME nfs4_get_lease_time_args
  | PROC_RECLAIM_COMPLETE nfs41_reclaim_complete_args
  | PROC_GETDEVICEINFO nfs4_getdeviceinfo_args
  | PROC_LAYOUTGET nfs4_layoutget_args
  | PROC_SECINFO_NO_NAME nfs41_secinfo_no_name_args
  | PROC_TEST_STATEID nfs41_test_stateid_args
  | PROC_FREE_STATEID nfs41_free_stateid_args
  | PROC_BIND_CONN_TO_SESSION nfs4_client
  | PROC_DESTROY_CLIENTID nfs4_client

primrec p_encode :: "'s kernel \<Rightarrow> rpc_rqst \<Rightarrow> nfs4_request \<Rightarrow> 's encoder" where
  "p_encode K req (PROC_READ a) = nfs4_xdr_enc_read K req a"
| "p_encode K req (PROC_WRITE a) = nfs4_xdr_enc_write K req a"
| "p_encode K req (PROC_COMMIT a) = nfs4_xdr_enc_commit K req a"
| "p_encode K req (PROC_OPEN a) = nfs4_xdr_enc_open K req a"
| "p_encode K req (PROC_OPEN_CONFIRM a) = nfs4_xdr_enc_open_confirm K req a"
| "p_encode K req (PROC_OPEN_NOATTR a) = nfs4_xdr_enc_open_noattr K req a"
| "p_encode K req (PROC_OPEN_DOWNGRADE a) = nfs4_xdr_enc_open_downgrade K req a"
| "p_encode K req (PROC_CLOSE a) = nfs4_xdr_enc_close K req a"
| "p_encode K req (PROC_SETATTR a) = nfs4_xdr_enc_setattr K req a"
| "p_encode K req (PROC_FSINFO a) = nfs4_xdr_enc_fsinfo K req a"
| "p_encode K req (PROC_RENEW a) = nfs4_xdr_enc_renew K req a"
| "p_encode K req (PROC_SETCLIENTID a) = nfs4_xdr_enc_setclientid K req a"
| "p_encode K req (PROC_SETCLIENTID_CONFIRM a) = nfs4_xdr_enc_setclientid_confirm K req a"
| "p_encode K req (PROC_LOCK a) = nfs4_xdr_enc_lock K req a"
| "p_encode K req (PROC_LOCKT a) = nfs4_xdr_enc_lockt K req a"
| "p_encode K req (PROC_LOCKU a) = nfs4_xdr_enc_locku K req a"
| "p_encode K req (PROC_ACCESS a) = nfs4_xdr_enc_access K req a"
| "p_encode K req (PROC_GETATTR a) = nfs4_xdr_enc_getattr K req a"
| "p_encode K req (PROC_LOOKUP a) = nfs4_xdr_enc_lookup K req a"
| "p_encode K req (PROC_LOOKUP_ROOT a) = nfs4_xdr_enc_lookup_root K req a"
| "p_encode K req (PROC_CHAIN_LOOKUP a) = nfs4_xdr_enc_chain_lookup K req a"
| "p_encode K req (PROC_CHAIN_LOOKUP_OPEN a) = nfs4_xdr_enc_chain_lookup_open K req a"
| "p_encode K req (PROC_REMOVE a) = nfs4_xdr_enc_remove K req a"
| "p_encode K req (PROC_RENAME a) = nfs4_xdr_enc_rename K req a"
| "p_encode K req (PROC_LINK a) = nfs4_xdr_enc_link K req a"
| "p_encode K req (PROC_SYMLINK a) = nfs4_xdr_enc_symlink K req a"
| "p_encode K req (PROC_CREATE a) = nfs4_xdr_enc_create K req a"
| "p_encode K req (PROC_PATHCONF a) = nfs4_xdr_enc_pathconf K req a"
| "p_encode K req (PROC_STATFS a) = nfs4_xdr_enc_statfs K req a"
| "p_encode K req (PROC_READLINK a) = nfs4_xdr_enc_readlink K req a"
| "p_encode K req (PROC_READDIR a) = nfs4_xdr_enc_readdir K req a"
| "p_encode K req (PROC_SERVER_CAPS a) = nfs4_xdr_enc_server_caps K req a"
| "p_encode K req (PROC_DELEGRETURN a) = nfs4_xdr_enc_delegreturn K req a"
| "p_encode K req (PROC_GETACL a) = nfs4_xdr_enc_getacl K req a"
| "p_encode K req (PROC_SETACL a) = nfs4_xdr_enc_setacl K req a"
| "p_encode K req (PROC_FS_LOCATIONS a) = nfs4_xdr_enc_fs_locations K req a"
| "p_encode K req (PROC_RELEASE_LOCKOWNER a) = nfs4_xdr_enc_release_lockowner K req a"
| "p_encode K req (PROC_SECINFO a) = nfs4_xdr_enc_secinfo K req a"
| "p_encode K req (PROC_FSID_PRESENT a) = nfs4_xdr_enc_fsid_present K req a"
| "p_encode K req (PROC_DESTROY_SESSION a) = nfs4_xdr_enc_destroy_session K req a"
| "p_encode K req (PROC_SEQUENCE a) = nfs4_xdr_enc_sequence K req a"
| "p_encode K req (PROC_GET_LEASE_TIME a) = nfs4_xdr_enc_get_lease_time K req a"
| "p_encode K req (PROC_RECLAIM_COMPLETE a) = nfs4_xdr_enc_reclaim_complete K req a"
| "p_encode K req (PROC_GETDEVICEINFO a) = nfs4_xdr_enc_getdeviceinfo K req a"
| "p_encode K req (PROC_LAYOUTGET a) = nfs4_xdr_enc_layoutget K req a"
| "p_encode K req (PROC_SECINFO_NO_NAME a) = nfs4_xdr_enc_secinfo_no_name K req a"
| "p_encode K req (PROC_TEST_STATEID a) = nfs4_xdr_enc_test_stateid K req a"
| "p_encode K req (PROC_FREE_STATEID a) = nfs4_xdr_enc_free_stateid K req a"
| "p_encode K req (PROC_BIND_CONN_TO_SESSION a) = nfs4_xdr_enc_bind_conn_to_session K req a"
| "p_encode K req (PROC_DESTROY_CLIENTID a) = nfs4_xdr_enc_destroy_clientid K req a"

primrec p_arglen :: "'z kconst_scheme \<Rightarrow> nfs4_request \<Rightarrow> nat" where
  "p_arglen K (PROC_READ a) = NFS4_enc_read_sz K"
| "p_arglen K (PROC_WRITE a) = NFS4_enc_write_sz K"
| "p_arglen K (PROC_COMMIT a) = NFS4_enc_commit_sz K"
| "p_arglen K (PROC_OPEN a) = NFS4_enc_open_sz K"
| "p_arglen K (PROC_OPEN_CONFIRM a) = NFS4_enc_open_confirm_sz K"
| "p_arglen K (PROC_OPEN_NOATTR a) = NFS4_enc_open_noattr_sz K"
| "p_arglen K (PROC_OPEN_DOWNGRADE a) = NFS4_enc_open_downgrade_sz K"
| "p_arglen K (PROC_CLOSE a) = NFS4_enc_close_sz K"
| "p_arglen K (PROC_SETATTR a) = NFS4_enc_setattr_sz K"
| "p_arglen K (PROC_FSINFO a) = NFS4_enc_fsinfo_sz K"
| "p_arglen K (PROC_RENEW a) = NFS4_enc_renew_sz K"
| "p_arglen K (PROC_SETCLIENTID a) = NFS4_enc_setclientid_sz K"
| "p_arglen K (PROC_SETCLIENTID_CONFIRM a) = NFS4_enc_setclientid_confirm_sz K"
| "p_arglen K (PROC_LOCK a) = NFS4_enc_lock_sz K"
| "p_arglen K (PROC_LOCKT a) = NFS4_enc_lockt_sz K"
| "p_arglen K (PROC_LOCKU a) = NFS4_enc_locku_sz K"
| "p_arglen K (PROC_ACCESS a) = NFS4_enc_access_sz K"
| "p_arglen K (PROC_GETATTR a) = NFS4_enc_getattr_sz K"
| "p_arglen K (PROC_LOOKUP a) = NFS4_enc_lookup_sz K"
| "p_arglen K (PROC_LOOKUP_ROOT a) = NFS4_enc_lookup_root_sz K"
| "p_arglen K (PROC_CHAIN_LOOKUP a) = NFS4_enc_chain_lookup_sz K"
| "p_arglen K (PROC_CHAIN_LOOKUP_OPEN a) = NFS4_enc_chain_lookup_open_sz K"
| "p_arglen K (PROC_REMOVE a) = NFS4_enc_remove_sz K"
| "p_arglen K (PROC_RENAME a) = NFS4_enc_rename_sz K"
| "p_arglen K (PROC_LINK a) = NFS4_enc_link_sz K"
| "p_arglen K (PROC_SYMLINK a) = NFS4_enc_symlink_sz K"
| "p_arglen K (PROC_CREATE a) = NFS4_enc_create_sz K"
| "p_arglen K (PROC_PATHCONF a) = NFS4_enc_pathconf_sz K"
| "p_arglen K (PROC_STATFS a) = NFS4_enc_statfs_sz K"
| "p_arglen K (PROC_READLINK a) = NFS4_enc_readlink_sz K"
| "p_arglen K (PROC_READDIR a) = NFS4_enc_readdir_sz K"
| "p_arglen K (PROC_SERVER_CAPS a) = NFS4_enc_server_caps_sz K"
| "p_arglen K (PROC_DELEGRETURN a) = NFS4_enc_delegreturn_sz K"
| "p_arglen K (PROC_GETACL a) = NFS4_enc_getacl_sz K"
| "p_arglen K (PROC_SETACL a) = NFS4_enc_setacl_sz K"
| "p_arglen K (PROC_FS_LOCATIONS a) = NFS4_enc_fs_locations_sz K"
| "p_arglen K (PROC_RELEASE_LOCKOWNER a) = NFS4_enc_release_lockowner_sz K"
| "p_arglen K (PROC_SECINFO a) = NFS4_enc_secinfo_sz K"
| "p_arglen K (PROC_FSID_PRESENT a) = NFS4_enc_fsid_present_sz K"
| "p_arglen K (PROC_DESTROY_SESSION a) = NFS4_enc_destroy_session_sz K"
| "p_arglen K (PROC_SEQUENCE a) = NFS4_enc_sequence_sz K"
| "p_arglen K (PROC_GET_LEASE_TIME a) = NFS4_enc_get_lease_time_sz K"
| "p_arglen K (PROC_RECLAIM_COMPLETE a) = NFS4_enc_reclaim_complete_sz K"
| "p_arglen K (PROC_GETDEVICEINFO a) = NFS4_enc_getdeviceinfo_sz K"
| "p_arglen K (PROC_LAYOUTGET a) = NFS4_enc_layoutget_sz K"
| "p_arglen K (PROC_SECINFO_NO_NAME a) = NFS4_enc_secinfo_no_name_sz K"
| "p_arglen K (PROC_TEST_STATEID a) = NFS4_enc_test_stateid_sz K"
| "p_arglen K (PROC_FREE_STATEID a) = NFS4_enc_free_stateid_sz K"
| "p_arglen K (PROC_BIND_CONN_TO_SESSION a) = NFS4_enc_bind_conn_to_session_sz K"
| "p_arglen K (PROC_DESTROY_CLIENTID a) = NFS4_enc_destroy_clientid_sz K"

primrec p_replen :: "'z kconst_scheme \<Rightarrow> nfs4_request \<Rightarrow> nat" where
  "p_replen K (PROC_READ a) = NFS4_dec_read_sz K"
| "p_replen K (PROC_WRITE a) = NFS4_dec_write_sz K"
| "p_replen K (PROC_COMMIT a) = NFS4_dec_commit_sz K"
| "p_replen K (PROC_OPEN a) = NFS4_dec_open_sz K"
| "p_replen K (PROC_OPEN_CONFIRM a) = NFS4_dec_open_confirm_sz K"
| "p_replen K (PROC_OPEN_NOATTR a) = NFS4_dec_open_noattr_sz K"
| "p_replen K (PROC_OPEN_DOWNGRADE a) = NFS4_dec_open_downgrade_sz K"
| "p_replen K (PROC_CLOSE a) = NFS4_dec_close_sz K"
| "p_replen K (PROC_SETATTR a) = NFS4_dec_setattr_sz K"
| "p_replen K (PROC_FSINFO a) = NFS4_dec_fsinfo_sz K"
| "p_replen K (PROC_RENEW a) = NFS4_dec_renew_sz K"
| "p_replen K (PROC_SETCLIENTID a) = NFS4_dec_setclientid_sz K"
| "p_replen K (PROC_SETCLIENTID_CONFIRM a) = NFS4_dec_setclientid_confirm_sz K"
| "p_replen K (PROC_LOCK a) = NFS4_dec_lock_sz K"
| "p_replen K (PROC_LOCKT a) = NFS4_dec_lockt_sz K"
| "p_replen K (PROC_LOCKU a) = NFS4_dec_locku_sz K"
| "p_replen K (PROC_ACCESS a) = NFS4_dec_access_sz K"
| "p_replen K (PROC_GETATTR a) = NFS4_dec_getattr_sz K"
| "p_replen K (PROC_LOOKUP a) = NFS4_dec_lookup_sz K"
| "p_replen K (PROC_LOOKUP_ROOT a) = NFS4_dec_lookup_root_sz K"
| "p_replen K (PROC_CHAIN_LOOKUP a) = NFS4_dec_chain_lookup_sz K"
| "p_replen K (PROC_CHAIN_LOOKUP_OPEN a) = NFS4_dec_chain_lookup_open_sz K"
| "p_replen K (PROC_REMOVE a) = NFS4_dec_remove_sz K"
| "p_replen K (PROC_RENAME a) = NFS4_dec_rename_sz K"
| "p_replen K (PROC_LINK a) = NFS4_dec_link_sz K"
| "p_replen K (PROC_SYMLINK a) = NFS4_dec_symlink_sz K"
| "p_replen K (PROC_CREATE a) = NFS4_dec_create_sz K"
| "p_replen K (PROC_PATHCONF a) = NFS4_dec_pathconf_sz K"
| "p_replen K (PROC_STATFS a) = NFS4_dec_statfs_sz K"
| "p_replen K (PROC_READLINK a) = NFS4_dec_readlink_sz K"
| "p_replen K (PROC_READDIR a) = NFS4_dec_readdir_sz K"
| "p_replen K (PROC_SERVER_CAPS a) = NFS4_dec_server_caps_sz K"
| "p_replen K (PROC_DELEGRETURN a) = NFS4_dec_delegreturn_sz K"
| "p_replen K (PROC_GETACL a) = NFS4_dec_getacl_sz K"
| "p_replen K (PROC_SETACL a) = NFS4_dec_setacl_sz K"
| "p_replen K (PROC_FS_LOCATIONS a) = NFS4_dec_fs_locations_sz K"
| "p_replen K (PROC_RELEASE_LOCKOWNER a) = NFS4_dec_release_lockowner_sz K"
| "p_replen K (PROC_SECINFO a) = NFS4_dec_secinfo_sz K"
| "p_replen K (PROC_FSID_PRESENT a) = NFS4_dec_fsid_present_sz K"
| "p_replen K (PROC_DESTROY_SESSION a) = NFS4_dec_destroy_session_sz K"
| "p_replen K (PROC_SEQUENCE a) = NFS4_dec_sequence_sz K"
| "p_replen K (PROC_GET_LEASE_TIME a) = NFS4_dec_get_lease_time_sz K"
| "p_replen K (PROC_RECLAIM_COMPLETE a) = NFS4_dec_reclaim_complete_sz K"
| "p_replen K (PROC_GETDEVICEINFO a) = NFS4_dec_getdeviceinfo_sz K"
| "p_replen K (PROC_LAYOUTGET a) = NFS4_dec_layoutget_sz K"
| "p_replen K (PROC_SECINFO_NO_NAME a) = NFS4_dec_secinfo_no_name_sz K"
| "p_replen K (PROC_TEST_STATEID a) = NFS4_dec_test_stateid_sz K"
| "p_replen K (PROC_FREE_STATEID a) = NFS4_dec_free_stateid_sz K"
| "p_replen K (PROC_BIND_CONN_TO_SESSION a) = NFS4_dec_bind_conn_to_session_sz K"
| "p_replen K (PROC_DESTROY_CLIENTID a) = NFS4_dec_destroy_clientid_sz K"

end
