(* ===== verification/Xdr_Wire.thy ===== *)
theory Xdr_Wire
  imports Nfs4_Args
begin

text \<open>
  The abstract side of the encoders: the requests of the NFSv4 protocol (RFC 7530 and RFC 5661) as
  values, with their XDR representation. An operation of a COMPOUND is an \<open>argop\<close>, its bytes on
  the wire \<open>argop_bytes\<close>; a request is a minor version and a list of operations
  (\<open>compound_bytes\<close>, with the empty tag the client always sends). Attributes (\<^verbatim>\<open>fattr4\<close>) are kept in
  their encoded form.
\<close>

datatype createtype =
    CT_Symlink bytes
  | CT_Device u32 u32 u32
  | CT_Plain u32

datatype locker =
    New_Owner u32 nfs4_stateid u32 u64 bytes
  | Old_Owner nfs4_stateid u32

datatype openhow =
    NoCreate
  | Create_Unchecked bytes
  | Create_Guarded bytes
  | Create_Exclusive bytes
  | Create_Exclusive4_1 bytes bytes

datatype openclaim =
    Claim_Null bytes
  | Claim_Previous u32
  | Claim_Delegate_Cur nfs4_stateid bytes
  | Claim_Fh
  | Claim_Deleg_Cur_Fh nfs4_stateid

datatype (plugins only: size) argop =
    Access u32
  | Close u32 nfs4_stateid
  | Commit u64 u32
  | Create createtype bytes bytes
  | Delegreturn nfs4_stateid
  | Getattr "u32 list"
  | Getfh
  | Link bytes
  | Lock u32 bool u64 u64 locker
  | Lockt u32 u64 u64 u64 bytes
  | Locku u32 u32 nfs4_stateid u64 u64
  | Lookup bytes
  | Open u32 u32 u64 bytes openhow openclaim
  | Open_Confirm nfs4_stateid u32
  | Open_Downgrade nfs4_stateid u32 u32
  | Putfh bytes
  | Putrootfh
  | Read nfs4_stateid u64 u32
  | Readdir u64 bytes u32 u32 "u32 list"
  | Readlink
  | Remove bytes
  | Rename bytes bytes
  | Renew u64
  | Restorefh
  | Savefh
  | Secinfo bytes
  | Setattr nfs4_stateid bytes
  | Setacl nfs4_stateid "u32 list" bytes
  | Setclientid bytes bytes u32 bytes bytes u32
  | Setclientid_Confirm u64 bytes
  | Write nfs4_stateid u64 u32 bytes
  | Release_Lockowner u64 bytes
  | Bind_Conn_To_Session bytes u32 bool
  | Destroy_Session bytes
  | Destroy_Clientid u64
  | Reclaim_Complete bool
  | Sequence bytes u32 u32 u32 bool
  | Getdeviceinfo bytes u32 u32 "u32 list"
  | Layoutget u32 u32 u64 u64 u64 nfs4_stateid u32
  | Secinfo_No_Name u32
  | Test_Stateid "nfs4_stateid list"
  | Free_Stateid nfs4_stateid

section \<open>Their bytes\<close>

text \<open>A counted array of words.\<close>

definition words_bytes :: "u32 list \<Rightarrow> bytes" where
  "words_bytes ws = be32 (of_nat (length ws)) @ concat (map be32 ws)"

definition bool_bytes :: "bool \<Rightarrow> bytes" where
  "bool_bytes b = be32 (of_bool b)"

primrec createtype_bytes :: "createtype \<Rightarrow> bytes" where
  "createtype_bytes (CT_Symlink target) = be32 NF4LNK @ opaque_var target"
| "createtype_bytes (CT_Device t d1 d2) = be32 t @ be32 d1 @ be32 d2"
| "createtype_bytes (CT_Plain t) = be32 t"

primrec locker_bytes :: "locker \<Rightarrow> bytes" where
  "locker_bytes (New_Owner oseq osid lseq clid owner) =
     bool_bytes True @ be32 oseq @ stateid_bytes osid @ be32 lseq @ be64 clid @ opaque_var owner"
| "locker_bytes (Old_Owner lsid lseq) = bool_bytes False @ stateid_bytes lsid @ be32 lseq"

primrec openhow_bytes :: "openhow \<Rightarrow> bytes" where
  "openhow_bytes NoCreate = be32 NFS4_OPEN_NOCREATE"
| "openhow_bytes (Create_Unchecked attrs) = be32 NFS4_OPEN_CREATE @ be32 NFS4_CREATE_UNCHECKED @ attrs"
| "openhow_bytes (Create_Guarded attrs) = be32 NFS4_OPEN_CREATE @ be32 NFS4_CREATE_GUARDED @ attrs"
| "openhow_bytes (Create_Exclusive verf) = be32 NFS4_OPEN_CREATE @ be32 NFS4_CREATE_EXCLUSIVE @ verf"
| "openhow_bytes (Create_Exclusive4_1 verf attrs) =
     be32 NFS4_OPEN_CREATE @ be32 NFS4_CREATE_EXCLUSIVE4_1 @ verf @ attrs"

primrec openclaim_bytes :: "openclaim \<Rightarrow> bytes" where
  "openclaim_bytes (Claim_Null nm) = be32 NFS4_OPEN_CLAIM_NULL @ opaque_var nm"
| "openclaim_bytes (Claim_Previous t) = be32 NFS4_OPEN_CLAIM_PREVIOUS @ be32 t"
| "openclaim_bytes (Claim_Delegate_Cur sid nm) =
     be32 NFS4_OPEN_CLAIM_DELEGATE_CUR @ stateid_bytes sid @ opaque_var nm"
| "openclaim_bytes Claim_Fh = be32 NFS4_OPEN_CLAIM_FH"
| "openclaim_bytes (Claim_Deleg_Cur_Fh sid) = be32 NFS4_OPEN_CLAIM_DELEG_CUR_FH @ stateid_bytes sid"

primrec argop_bytes :: "argop \<Rightarrow> bytes" where
  "argop_bytes (Access a) = be32 (opnum OP_ACCESS) @ be32 a"
| "argop_bytes (Close seqid sid) = be32 (opnum OP_CLOSE) @ be32 seqid @ stateid_bytes sid"
| "argop_bytes (Commit off n) = be32 (opnum OP_COMMIT) @ be64 off @ be32 n"
| "argop_bytes (Create t nm attrs) = be32 (opnum OP_CREATE) @ createtype_bytes t @ opaque_var nm @ attrs"
| "argop_bytes (Delegreturn sid) = be32 (opnum OP_DELEGRETURN) @ stateid_bytes sid"
| "argop_bytes (Getattr bm) = be32 (opnum OP_GETATTR) @ words_bytes bm"
| "argop_bytes Getfh = be32 (opnum OP_GETFH)"
| "argop_bytes (Link nm) = be32 (opnum OP_LINK) @ opaque_var nm"
| "argop_bytes (Lock t reclaim off n lk) =
     be32 (opnum OP_LOCK) @ be32 t @ bool_bytes reclaim @ be64 off @ be64 n @ locker_bytes lk"
| "argop_bytes (Lockt t off n clid owner) =
     be32 (opnum OP_LOCKT) @ be32 t @ be64 off @ be64 n @ be64 clid @ opaque_var owner"
| "argop_bytes (Locku t seqid sid off n) =
     be32 (opnum OP_LOCKU) @ be32 t @ be32 seqid @ stateid_bytes sid @ be64 off @ be64 n"
| "argop_bytes (Lookup nm) = be32 (opnum OP_LOOKUP) @ opaque_var nm"
| "argop_bytes (Open seqid acc clid owner how claim) =
     be32 (opnum OP_OPEN) @ be32 seqid @ be32 acc @ be32 0 @ be64 clid @ opaque_var owner @
     openhow_bytes how @ openclaim_bytes claim"
| "argop_bytes (Open_Confirm sid seqid) = be32 (opnum OP_OPEN_CONFIRM) @ stateid_bytes sid @ be32 seqid"
| "argop_bytes (Open_Downgrade sid seqid acc) =
     be32 (opnum OP_OPEN_DOWNGRADE) @ stateid_bytes sid @ be32 seqid @ be32 acc @ be32 0"
| "argop_bytes (Putfh fh) = be32 (opnum OP_PUTFH) @ opaque_var fh"
| "argop_bytes Putrootfh = be32 (opnum OP_PUTROOTFH)"
| "argop_bytes (Read sid off n) = be32 (opnum OP_READ) @ stateid_bytes sid @ be64 off @ be32 n"
| "argop_bytes (Readdir cookie verf dircount maxcount bm) =
     be32 (opnum OP_READDIR) @ be64 cookie @ verf @ be32 dircount @ be32 maxcount @ words_bytes bm"
| "argop_bytes Readlink = be32 (opnum OP_READLINK)"
| "argop_bytes (Remove nm) = be32 (opnum OP_REMOVE) @ opaque_var nm"
| "argop_bytes (Rename old new) = be32 (opnum OP_RENAME) @ opaque_var old @ opaque_var new"
| "argop_bytes (Renew clid) = be32 (opnum OP_RENEW) @ be64 clid"
| "argop_bytes Restorefh = be32 (opnum OP_RESTOREFH)"
| "argop_bytes Savefh = be32 (opnum OP_SAVEFH)"
| "argop_bytes (Secinfo nm) = be32 (opnum OP_SECINFO) @ opaque_var nm"
| "argop_bytes (Setattr sid attrs) = be32 (opnum OP_SETATTR) @ stateid_bytes sid @ attrs"
| "argop_bytes (Setacl sid bm acl) =
     be32 (opnum OP_SETATTR) @ stateid_bytes sid @ words_bytes bm @ opaque_var acl"
| "argop_bytes (Setclientid verf nm prog netid uaddr ident) =
     be32 (opnum OP_SETCLIENTID) @ verf @ opaque_var nm @ be32 prog @ opaque_var netid @
     opaque_var uaddr @ be32 ident"
| "argop_bytes (Setclientid_Confirm clid verf) = be32 (opnum OP_SETCLIENTID_CONFIRM) @ be64 clid @ verf"
| "argop_bytes (Write sid off st bs) =
     be32 (opnum OP_WRITE) @ stateid_bytes sid @ be64 off @ be32 st @ opaque_var bs"
| "argop_bytes (Release_Lockowner clid owner) =
     be32 (opnum OP_RELEASE_LOCKOWNER) @ be64 clid @ opaque_var owner"
| "argop_bytes (Bind_Conn_To_Session sess dir rdma) =
     be32 (opnum OP_BIND_CONN_TO_SESSION) @ sess @ be32 dir @ bool_bytes rdma"
| "argop_bytes (Destroy_Session sess) = be32 (opnum OP_DESTROY_SESSION) @ sess"
| "argop_bytes (Destroy_Clientid clid) = be32 (opnum OP_DESTROY_CLIENTID) @ be64 clid"
| "argop_bytes (Reclaim_Complete one_fs) = be32 (opnum OP_RECLAIM_COMPLETE) @ bool_bytes one_fs"
| "argop_bytes (Sequence sess seq slot highest cache) =
     be32 (opnum OP_SEQUENCE) @ sess @ be32 seq @ be32 slot @ be32 highest @ bool_bytes cache"
| "argop_bytes (Getdeviceinfo dev t maxcount notify) =
     be32 (opnum OP_GETDEVICEINFO) @ dev @ be32 t @ be32 maxcount @ words_bytes notify"
| "argop_bytes (Layoutget t mode off n minlen sid maxcount) =
     be32 (opnum OP_LAYOUTGET) @ be32 0 @ be32 t @ be32 mode @ be64 off @ be64 n @ be64 minlen @
     stateid_bytes sid @ be32 maxcount"
| "argop_bytes (Secinfo_No_Name style) = be32 (opnum OP_SECINFO_NO_NAME) @ be32 style"
| "argop_bytes (Test_Stateid sids) =
     be32 (opnum OP_TEST_STATEID) @ be32 (of_nat (length sids)) @ concat (map stateid_bytes sids)"
| "argop_bytes (Free_Stateid sid) = be32 (opnum OP_FREE_STATEID) @ stateid_bytes sid"

text \<open>A COMPOUND request: the empty tag, the minor version and the counted operations.\<close>

definition ops_bytes :: "argop list \<Rightarrow> bytes" where
  "ops_bytes ops = concat (map argop_bytes ops)"

definition compound_bytes :: "u32 \<Rightarrow> argop list \<Rightarrow> bytes" where
  "compound_bytes minor ops = be32 0 @ be32 minor @ be32 (of_nat (length ops)) @ ops_bytes ops"

lemma ops_bytes_simps [simp]:
  "ops_bytes [] = []" "ops_bytes (a # ops) = argop_bytes a @ ops_bytes ops"
  "ops_bytes (xs @ ys) = ops_bytes xs @ ops_bytes ys"
  by (simp_all add: ops_bytes_def)

text \<open>Every operation starts with its number, so two requests with different first operations
  differ on the wire.\<close>

primrec argop_num :: "argop \<Rightarrow> nfs_opnum4" where
  "argop_num (Access _) = OP_ACCESS" | "argop_num (Close _ _) = OP_CLOSE"
| "argop_num (Commit _ _) = OP_COMMIT" | "argop_num (Create _ _ _) = OP_CREATE"
| "argop_num (Delegreturn _) = OP_DELEGRETURN" | "argop_num (Getattr _) = OP_GETATTR"
| "argop_num Getfh = OP_GETFH" | "argop_num (Link _) = OP_LINK" | "argop_num (Lock _ _ _ _ _) = OP_LOCK"
| "argop_num (Lockt _ _ _ _ _) = OP_LOCKT" | "argop_num (Locku _ _ _ _ _) = OP_LOCKU"
| "argop_num (Lookup _) = OP_LOOKUP" | "argop_num (Open _ _ _ _ _ _) = OP_OPEN"
| "argop_num (Open_Confirm _ _) = OP_OPEN_CONFIRM" | "argop_num (Open_Downgrade _ _ _) = OP_OPEN_DOWNGRADE"
| "argop_num (Putfh _) = OP_PUTFH" | "argop_num Putrootfh = OP_PUTROOTFH"
| "argop_num (Read _ _ _) = OP_READ" | "argop_num (Readdir _ _ _ _ _) = OP_READDIR"
| "argop_num Readlink = OP_READLINK" | "argop_num (Remove _) = OP_REMOVE"
| "argop_num (Rename _ _) = OP_RENAME" | "argop_num (Renew _) = OP_RENEW"
| "argop_num Restorefh = OP_RESTOREFH" | "argop_num Savefh = OP_SAVEFH"
| "argop_num (Secinfo _) = OP_SECINFO" | "argop_num (Setattr _ _) = OP_SETATTR"
| "argop_num (Setacl _ _ _) = OP_SETATTR" | "argop_num (Setclientid _ _ _ _ _ _) = OP_SETCLIENTID"
| "argop_num (Setclientid_Confirm _ _) = OP_SETCLIENTID_CONFIRM"
| "argop_num (Write _ _ _ _) = OP_WRITE" | "argop_num (Release_Lockowner _ _) = OP_RELEASE_LOCKOWNER"
| "argop_num (Bind_Conn_To_Session _ _ _) = OP_BIND_CONN_TO_SESSION"
| "argop_num (Destroy_Session _) = OP_DESTROY_SESSION" | "argop_num (Destroy_Clientid _) = OP_DESTROY_CLIENTID"
| "argop_num (Reclaim_Complete _) = OP_RECLAIM_COMPLETE" | "argop_num (Sequence _ _ _ _ _) = OP_SEQUENCE"
| "argop_num (Getdeviceinfo _ _ _ _) = OP_GETDEVICEINFO" | "argop_num (Layoutget _ _ _ _ _ _ _) = OP_LAYOUTGET"
| "argop_num (Secinfo_No_Name _) = OP_SECINFO_NO_NAME" | "argop_num (Test_Stateid _) = OP_TEST_STATEID"
| "argop_num (Free_Stateid _) = OP_FREE_STATEID"

lemma be32_of_argop_bytes [simp]: "be32_of (argop_bytes a @ r) = opnum (argop_num a)"
  by (cases a) simp_all

end
