(* ===== verification/Xdr_Encode_Correct.thy ===== *)
theory Xdr_Encode_Correct
  imports Xdr_Encode_Compound Xdr_Wire
begin

text \<open>
  The operation encoders implement the protocol's operations. The interface between the operation
  encoders and the request encoders that call them is the locale \<open>op_encoder\<close>: on a well-formed
  argument the encoder appends exactly the wire format of the operation it stands for, counts one
  operation and adds its reply size; \<open>bounded_op\<close> adds that the size macro the buffers are computed
  from covers every well-formed argument. Both are interpreted for the encoders of the source.
\<close>

section \<open>The interface\<close>

locale op_encoder =
  fixes enc :: "'s kernel \<Rightarrow> 'a \<Rightarrow> 's encoder"
    and pre :: "'s kernel \<Rightarrow> 'a \<Rightarrow> bool"
    and arg :: "'s kernel \<Rightarrow> 'a \<Rightarrow> argop"
    and rep :: "'s kernel \<Rightarrow> nat"
  assumes enc_writes: "xdr_env K avail \<Longrightarrow> pre K a \<Longrightarrow>
    writes avail (enc K a) (argop_bytes (arg K a)) 1 (of_nat (rep K))"
begin

text \<open>It faults exactly when the operation does not fit.\<close>

lemma fault_iff:
  assumes "xdr_env K avail" and "pre K a"
  shows "(\<exists>e. enc K a s = Inl e) \<longleftrightarrow> avail (strm s) < length (argop_bytes (arg K a))"
  using writes_faults [OF enc_writes [OF assms], of s] writesD [OF enc_writes [OF assms], of s]
  by (metis not_less sum.distinct(2))

text \<open>A list of operations of the same kind.\<close>

lemma enc_list:
  assumes "xdr_env K avail" and "\<And>a. a \<in> set as \<Longrightarrow> pre K a"
  shows "writes avail (run (map (enc K) as)) (ops_bytes (map (arg K) as))
           (of_nat (length as)) (of_nat (length as * rep K))"
  using assms(2)
proof (induction as)
  case Nil
  show ?case using writes_run_Nil by (simp del: run.simps)
next
  case (Cons a as)
  from Cons.prems have "pre K a" by simp
  from writes_run_Cons [OF enc_writes [OF assms(1) this] Cons.IH] Cons.prems
  show ?case by (simp add: algebra_simps del: run.simps)
qed

end

locale bounded_op = op_encoder +
  fixes maxsz :: "'a kernel \<Rightarrow> nat"
  assumes wire_maxsz: "xdr_env K avail \<Longrightarrow> pre K a \<Longrightarrow> length (argop_bytes (arg K a)) \<le> 4 * maxsz K"
begin

text \<open>With the words the macro counts, the encoder succeeds.\<close>

lemma enc_fits:
  assumes "xdr_env K avail" and "pre K a" and "4 * maxsz K \<le> avail (strm s)"
  obtains t where "enc K a s = Inr (emit t (argop_bytes (arg K a)) 1 (of_nat (rep K)) s)"
    "avail (strm s) \<le> avail t + 4 * maxsz K"
  using writesD [OF enc_writes [OF assms(1,2)], of s] wire_maxsz [OF assms(1,2)] assms(3)
  by (metis add.commute diff_le_mono2 le_diff_conv le_trans)

end

section \<open>Well-formed arguments\<close>

definition name_ok :: "qstr \<Rightarrow> bool" where
  "name_ok nm \<longleftrightarrow> unat (qlen nm) \<le> NFS4_MAXNAMLEN \<and> unat (qlen nm) \<le> length (qname nm)"

definition name_bytes :: "qstr \<Rightarrow> bytes" where
  "name_bytes nm = take (unat (qlen nm)) (qname nm)"

definition fh_ok :: "nfs_fh \<Rightarrow> bool" where
  "fh_ok fh \<longleftrightarrow> unat (fh_size fh) \<le> NFS4_FHSIZE \<and> unat (fh_size fh) \<le> length (fh_data fh)"

definition fh_bytes :: "nfs_fh \<Rightarrow> bytes" where
  "fh_bytes fh = take (unat (fh_size fh)) (fh_data fh)"

definition stateid_ok :: "nfs4_stateid \<Rightarrow> bool" where
  "stateid_ok sid \<longleftrightarrow> length (st_other sid) = NFS4_STATEID_OTHER_SIZE"

definition bm3_words :: "bitmap3 \<Rightarrow> u32 list" where
  "bm3_words bm = (case bm of (b0, b1, b2) \<Rightarrow>
     if b2 \<noteq> 0 then [b0, b1, b2] else if b1 \<noteq> 0 then [b0, b1] else [b0])"

lemma length_name_bytes: "name_ok nm \<Longrightarrow> length (name_bytes nm) = unat (qlen nm)"
  by (simp add: name_ok_def name_bytes_def)

lemma length_fh_bytes: "fh_ok fh \<Longrightarrow> length (fh_bytes fh) = unat (fh_size fh)"
  by (simp add: fh_ok_def fh_bytes_def)

lemma writes_name [writes_rules]:
  "xdr_env K avail \<Longrightarrow> name_ok nm \<Longrightarrow>
   writes avail (encode_string K (qlen nm) (qname nm)) (opaque_var (name_bytes nm)) 0 0"
  unfolding name_bytes_def name_ok_def by (rule writes_encode_string) auto

lemma writes_fh [writes_rules]:
  "xdr_env K avail \<Longrightarrow> fh_ok fh \<Longrightarrow>
   writes avail (encode_string K (ucast (fh_size fh)) (fh_data fh)) (opaque_var (fh_bytes fh)) 0 0"
proof -
  assume a: "xdr_env K avail" "fh_ok fh"
  have "unat (ucast (fh_size fh) :: u32) = unat (fh_size fh)"
    by (simp add: unsigned_ucast_eq take_bit_nat_eq_self_iff less_trans [OF unsigned_less])
  with a writes_encode_string [of K avail "ucast (fh_size fh)" "fh_data fh"]
  show ?thesis by (simp add: fh_bytes_def fh_ok_def)
qed

lemma writes_stateid [writes_rules]:
  "xdr_env K avail \<Longrightarrow> stateid_ok sid \<Longrightarrow> writes avail (encode_nfs4_stateid K sid) (stateid_bytes sid) 0 0"
  by (simp add: stateid_ok_def writes_encode_nfs4_stateid)

lemma quad_name: "name_ok nm \<Longrightarrow> quad (length (name_bytes nm)) \<le> 256"
  using quad_le_iff [of "length (name_bytes nm)" 64] by (simp add: length_name_bytes name_ok_def)

lemma quad_fh: "fh_ok fh \<Longrightarrow> quad (length (fh_bytes fh)) \<le> 128"
  using quad_le_iff [of "length (fh_bytes fh)" 32] by (simp add: length_fh_bytes fh_ok_def)

lemma length_words_bytes [simp]: "length (words_bytes ws) = 4 + 4 * length ws"
  by (induction ws) (simp_all add: words_bytes_def)

lemma length_bool_bytes [simp]: "length (bool_bytes b) = 4"
  by (simp add: bool_bytes_def)

lemma length_bm3_words: "length (bm3_words bm) \<le> 3"
  by (cases bm) (simp add: bm3_words_def)

lemmas size_facts = quad_name quad_fh length_bm3_words
lemmas ok_lengths = length_name_bytes length_fh_bytes

text \<open>The rules that walk through the statements of an operation encoder.\<close>

lemmas op_intros = writes_run_Cons writes_run_Nil writes_reserve_space writes_xreserve_space
  writes_encode_uint32 writes_encode_uint64 writes_encode_nfs4_seqid writes_encode_op_hdr
  writes_encode_nfs4_verifier writes_encode_attrs writes_name writes_fh writes_stateid
  writes_encode_opaque_fixed

section \<open>The operations\<close>

text \<open>Encoders with no argument, or several, take a unit or a tuple.\<close>

interpretation access_op: bounded_op encode_access
  "\<lambda>K a. True" "\<lambda>K a. Access a"
  decode_access_maxsz encode_access_maxsz
  by unfold_locales (rule writes_cong, unfold encode_access_def,
      (rule op_intros | assumption | (auto simp: bool_bytes_def; fail))+, auto simp: maxsz_defs)

interpretation close_op: bounded_op encode_close
  "\<lambda>K a. stateid_ok (close_stateid a)" "\<lambda>K a. Close (close_seqid a) (close_stateid a)"
  decode_close_maxsz encode_close_maxsz
  by unfold_locales (rule writes_cong, unfold encode_close_def,
      (rule op_intros | assumption | (auto simp: bool_bytes_def stateid_ok_def XDR_QUADLEN_def; fail))+, auto simp: maxsz_defs stateid_ok_def XDR_QUADLEN_def)

interpretation commit_op: bounded_op encode_commit
  "\<lambda>K a. True" "\<lambda>K a. Commit (commit_offset a) (commit_count a)"
  decode_commit_maxsz encode_commit_maxsz
  by unfold_locales (rule writes_cong, unfold encode_commit_def,
      (rule op_intros | assumption | (auto simp: bool_bytes_def xdr_env_simps(3); fail))+, auto simp: maxsz_defs xdr_env_simps(3))

interpretation getfh_op: bounded_op "\<lambda>K (u :: unit). encode_getfh K"
  "\<lambda>K u. True" "\<lambda>K u. Getfh"
  decode_getfh_maxsz encode_getfh_maxsz
  by unfold_locales (rule writes_cong, unfold encode_getfh_def,
      (rule op_intros | assumption | (auto simp: bool_bytes_def; fail))+, auto simp: maxsz_defs)

interpretation putrootfh_op: bounded_op "\<lambda>K (u :: unit). encode_putrootfh K"
  "\<lambda>K u. True" "\<lambda>K u. Putrootfh"
  decode_putrootfh_maxsz encode_putrootfh_maxsz
  by unfold_locales (rule writes_cong, unfold encode_putrootfh_def,
      (rule op_intros | assumption | (auto simp: bool_bytes_def; fail))+, auto simp: maxsz_defs)

interpretation readlink_op: bounded_op "\<lambda>K (u :: unit). encode_readlink K"
  "\<lambda>K u. True" "\<lambda>K u. Readlink"
  decode_readlink_maxsz encode_readlink_maxsz
  by unfold_locales (rule writes_cong, unfold encode_readlink_def,
      (rule op_intros | assumption | (auto simp: bool_bytes_def; fail))+, auto simp: maxsz_defs)

interpretation restorefh_op: bounded_op "\<lambda>K (u :: unit). encode_restorefh K"
  "\<lambda>K u. True" "\<lambda>K u. Restorefh"
  decode_restorefh_maxsz encode_restorefh_maxsz
  by unfold_locales (rule writes_cong, unfold encode_restorefh_def,
      (rule op_intros | assumption | (auto simp: bool_bytes_def; fail))+, auto simp: maxsz_defs)

interpretation savefh_op: bounded_op "\<lambda>K (u :: unit). encode_savefh K"
  "\<lambda>K u. True" "\<lambda>K u. Savefh"
  decode_savefh_maxsz encode_savefh_maxsz
  by unfold_locales (rule writes_cong, unfold encode_savefh_def,
      (rule op_intros | assumption | (auto simp: bool_bytes_def; fail))+, auto simp: maxsz_defs)

interpretation link_op: bounded_op encode_link
  "\<lambda>K. name_ok" "\<lambda>K nm. Link (name_bytes nm)"
  decode_link_maxsz encode_link_maxsz
  by unfold_locales (rule writes_cong, unfold encode_link_def,
      (rule op_intros | assumption | (auto simp: bool_bytes_def; fail))+, auto simp: maxsz_defs dest!: quad_name)

interpretation lookup_op: bounded_op encode_lookup
  "\<lambda>K. name_ok" "\<lambda>K nm. Lookup (name_bytes nm)"
  decode_lookup_maxsz encode_lookup_maxsz
  by unfold_locales (rule writes_cong, unfold encode_lookup_def,
      (rule op_intros | assumption | (auto simp: bool_bytes_def; fail))+, auto simp: maxsz_defs dest!: quad_name)

interpretation remove_op: bounded_op encode_remove
  "\<lambda>K. name_ok" "\<lambda>K nm. Remove (name_bytes nm)"
  decode_remove_maxsz encode_remove_maxsz
  by unfold_locales (rule writes_cong, unfold encode_remove_def,
      (rule op_intros | assumption | (auto simp: bool_bytes_def; fail))+, auto simp: maxsz_defs dest!: quad_name)

interpretation secinfo_op: bounded_op encode_secinfo
  "\<lambda>K. name_ok" "\<lambda>K nm. Secinfo (name_bytes nm)"
  decode_secinfo_maxsz encode_secinfo_maxsz
  by unfold_locales (rule writes_cong, unfold encode_secinfo_def,
      (rule op_intros | assumption | (auto simp: bool_bytes_def; fail))+, auto simp: maxsz_defs dest!: quad_name)

interpretation rename_op: bounded_op "\<lambda>K a. encode_rename K (fst a) (snd a)"
  "\<lambda>K a. name_ok (fst a) \<and> name_ok (snd a)" "\<lambda>K a. Rename (name_bytes (fst a)) (name_bytes (snd a))"
  decode_rename_maxsz encode_rename_maxsz
  by unfold_locales (rule writes_cong, unfold encode_rename_def,
      (rule op_intros | assumption | (auto simp: bool_bytes_def; fail))+, auto simp: maxsz_defs dest!: quad_name)

interpretation putfh_op: bounded_op encode_putfh
  "\<lambda>K. fh_ok" "\<lambda>K fh. Putfh (fh_bytes fh)"
  decode_putfh_maxsz encode_putfh_maxsz
  by unfold_locales (rule writes_cong, unfold encode_putfh_def,
      (rule op_intros | assumption | (auto simp: bool_bytes_def; fail))+, auto simp: maxsz_defs dest!: quad_fh)

interpretation open_confirm_op: bounded_op encode_open_confirm
  "\<lambda>K a. stateid_ok (oc_stateid a)" "\<lambda>K a. Open_Confirm (oc_stateid a) (oc_seqid a)"
  decode_open_confirm_maxsz encode_open_confirm_maxsz
  by unfold_locales (rule writes_cong, unfold encode_open_confirm_def,
      (rule op_intros | assumption | (auto simp: bool_bytes_def stateid_ok_def XDR_QUADLEN_def; fail))+, auto simp: maxsz_defs stateid_ok_def XDR_QUADLEN_def)

interpretation open_downgrade_op: bounded_op encode_open_downgrade
  "\<lambda>K a. stateid_ok (close_stateid a)" "\<lambda>K a. Open_Downgrade (close_stateid a) (close_seqid a) (share_access (close_fmode a))"
  decode_open_downgrade_maxsz encode_open_downgrade_maxsz
  by unfold_locales (rule writes_cong, unfold encode_open_downgrade_def encode_share_access_def,
      (rule op_intros | assumption | (auto simp: bool_bytes_def stateid_ok_def XDR_QUADLEN_def; fail))+, auto simp: maxsz_defs stateid_ok_def XDR_QUADLEN_def)

interpretation read_op: bounded_op encode_read
  "\<lambda>K a. stateid_ok (pgio_stateid a)" "\<lambda>K a. Read (pgio_stateid a) (pgio_offset a) (pgio_count a)"
  decode_read_maxsz encode_read_maxsz
  by unfold_locales (rule writes_cong, unfold encode_read_def,
      (rule op_intros | assumption | (auto simp: bool_bytes_def stateid_ok_def XDR_QUADLEN_def xdr_env_simps(3); fail))+, auto simp: maxsz_defs stateid_ok_def XDR_QUADLEN_def xdr_env_simps(3))

interpretation renew_op: bounded_op encode_renew
  "\<lambda>K a. True" "\<lambda>K a. Renew a"
  decode_renew_maxsz encode_renew_maxsz
  by unfold_locales (rule writes_cong, unfold encode_renew_def,
      (rule op_intros | assumption | (auto simp: bool_bytes_def; fail))+, auto simp: maxsz_defs)

interpretation delegreturn_op: bounded_op encode_delegreturn
  "\<lambda>K. stateid_ok" "\<lambda>K. Delegreturn"
  decode_delegreturn_maxsz encode_delegreturn_maxsz
  by unfold_locales (rule writes_cong, unfold encode_delegreturn_def,
      (rule op_intros | assumption | (auto simp: bool_bytes_def stateid_ok_def XDR_QUADLEN_def; fail))+, auto simp: maxsz_defs stateid_ok_def XDR_QUADLEN_def)

interpretation free_stateid_op: bounded_op encode_free_stateid
  "\<lambda>K. stateid_ok" "\<lambda>K. Free_Stateid"
  decode_free_stateid_maxsz encode_free_stateid_maxsz
  by unfold_locales (rule writes_cong, unfold encode_free_stateid_def,
      (rule op_intros | assumption | (auto simp: bool_bytes_def stateid_ok_def XDR_QUADLEN_def; fail))+, auto simp: maxsz_defs stateid_ok_def XDR_QUADLEN_def)

interpretation test_stateid_op: bounded_op encode_test_stateid
  "\<lambda>K. stateid_ok" "\<lambda>K a. Test_Stateid [a]"
  decode_test_stateid_maxsz encode_test_stateid_maxsz
  by unfold_locales (rule writes_cong, unfold encode_test_stateid_def,
      (rule op_intros | assumption | (auto simp: bool_bytes_def stateid_ok_def XDR_QUADLEN_def; fail))+, auto simp: maxsz_defs stateid_ok_def XDR_QUADLEN_def)

interpretation secinfo_no_name_op: bounded_op encode_secinfo_no_name
  "\<lambda>K a. True" "\<lambda>K a. Secinfo_No_Name a"
  decode_secinfo_no_name_maxsz encode_secinfo_no_name_maxsz
  by unfold_locales (rule writes_cong, unfold encode_secinfo_no_name_def,
      (rule op_intros | assumption | (auto simp: bool_bytes_def; fail))+, auto simp: maxsz_defs)

interpretation destroy_clientid_op: bounded_op encode_destroy_clientid
  "\<lambda>K a. True" "\<lambda>K a. Destroy_Clientid a"
  decode_destroy_clientid_maxsz encode_destroy_clientid_maxsz
  by unfold_locales (rule writes_cong, unfold encode_destroy_clientid_def,
      (rule op_intros | assumption | (auto simp: bool_bytes_def; fail))+, auto simp: maxsz_defs)

interpretation reclaim_complete_op: bounded_op encode_reclaim_complete
  "\<lambda>K a. True" "\<lambda>K a. Reclaim_Complete a"
  decode_reclaim_complete_maxsz encode_reclaim_complete_maxsz
  by unfold_locales (rule writes_cong, unfold encode_reclaim_complete_def,
      (rule op_intros | assumption | (auto simp: bool_bytes_def bool_bytes_def; fail))+, auto simp: maxsz_defs bool_bytes_def)

interpretation setclientid_confirm_op: bounded_op encode_setclientid_confirm
  "\<lambda>K a. length (scr_confirm a) = NFS4_VERIFIER_SIZE" "\<lambda>K a. Setclientid_Confirm (scr_clientid a) (scr_confirm a)"
  decode_setclientid_confirm_maxsz encode_setclientid_confirm_maxsz
  by unfold_locales (rule writes_cong, unfold encode_setclientid_confirm_def,
      (rule op_intros | assumption | (auto simp: bool_bytes_def; fail))+, auto simp: maxsz_defs)

interpretation locku_op: bounded_op encode_locku
  "\<lambda>K a. stateid_ok (locku_stateid a)" "\<lambda>K a. Locku (nfs4_lock_type (locku_fl a) False) (locku_seqid a) (locku_stateid a) (fl_start (locku_fl a)) (nfs4_lock_length (locku_fl a))"
  decode_locku_maxsz encode_locku_maxsz
  by unfold_locales (rule writes_cong, unfold encode_locku_def,
      (rule op_intros | assumption | (auto simp: bool_bytes_def stateid_ok_def XDR_QUADLEN_def xdr_env_simps(3); fail))+, auto simp: maxsz_defs stateid_ok_def XDR_QUADLEN_def xdr_env_simps(3))

interpretation layoutget_op: bounded_op encode_layoutget
  "\<lambda>K a. stateid_ok (lg_stateid a)" "\<lambda>K a. Layoutget (lg_type a) (iomode (lg_range a)) (lr_offset (lg_range a)) (lr_length (lg_range a))
     (lg_minlength a) (lg_stateid a) (lg_maxcount a)"
  decode_layoutget_maxsz encode_layoutget_maxsz
  by unfold_locales (rule writes_cong, unfold encode_layoutget_def,
      (rule op_intros | assumption | (auto simp: bool_bytes_def stateid_ok_def XDR_QUADLEN_def xdr_env_simps(3); fail))+, auto simp: maxsz_defs stateid_ok_def XDR_QUADLEN_def xdr_env_simps(3))

interpretation destroy_session_op: bounded_op encode_destroy_session
  "\<lambda>K a. length (sess_id a) = NFS4_MAX_SESSIONID_LEN" "\<lambda>K a. Destroy_Session (sess_id a)"
  decode_destroy_session_maxsz encode_destroy_session_maxsz
  by unfold_locales (rule writes_cong, unfold encode_destroy_session_def,
      (rule op_intros | assumption | (auto simp: bool_bytes_def; fail))+, auto simp: maxsz_defs)

interpretation bind_conn_to_session_op: bounded_op encode_bind_conn_to_session
  "\<lambda>K a. length (sess_id a) = NFS4_MAX_SESSIONID_LEN" "\<lambda>K a. Bind_Conn_To_Session (sess_id a) NFS4_CDFC4_BACK_OR_BOTH False"
  decode_bind_conn_to_session_maxsz encode_bind_conn_to_session_maxsz
  by unfold_locales (rule writes_cong, unfold encode_bind_conn_to_session_def,
      (rule op_intros | assumption | (auto simp: bool_bytes_def bool_bytes_def XDR_QUADLEN_def; fail))+, auto simp: maxsz_defs bool_bytes_def XDR_QUADLEN_def)

interpretation getattr_one_op: bounded_op encode_getattr_one
  "\<lambda>K a. True" "\<lambda>K a. Getattr [a]"
  decode_getattr_maxsz encode_getattr_maxsz
  by unfold_locales (rule writes_cong, unfold encode_getattr_one_def,
      (rule op_intros | assumption | (auto simp: bool_bytes_def words_bytes_def; fail))+, auto simp: maxsz_defs words_bytes_def)

interpretation getattr_two_op: bounded_op "\<lambda>K a. encode_getattr_two K (fst a) (snd a)"
  "\<lambda>K a. True" "\<lambda>K a. Getattr [fst a, snd a]"
  decode_getattr_maxsz encode_getattr_maxsz
  by unfold_locales (rule writes_cong, unfold encode_getattr_two_def,
      (rule op_intros | assumption | (auto simp: bool_bytes_def words_bytes_def; fail))+, auto simp: maxsz_defs words_bytes_def)

section \<open>Operations with variants\<close>

subsection \<open>GETATTR with the bitmap cut after its last non-zero word\<close>

lemma encode_getattr_three_words:
  "encode_getattr_three K bm =
     run [encode_op_hdr K OP_GETATTR (decode_getattr_maxsz K),
          reserve_space K (4 + 4 * length (bm3_words bm)) (words_bytes (bm3_words bm))]"
  by (cases bm) (simp add: encode_getattr_three_def bm3_words_def words_bytes_def)

interpretation getattr_three_op: bounded_op encode_getattr_three "\<lambda>K bm. True"
  "\<lambda>K bm. Getattr (bm3_words bm)" decode_getattr_maxsz encode_getattr_maxsz
proof unfold_locales
  fix K :: "'a kernel" and avail :: "'a \<Rightarrow> nat" and bm :: bitmap3
  show "length (argop_bytes (Getattr (bm3_words bm))) \<le> 4 * encode_getattr_maxsz K"
    using length_bm3_words [of bm] by (simp add: maxsz_defs)
  assume K: "xdr_env K avail"
  show "writes avail (encode_getattr_three K bm) (argop_bytes (Getattr (bm3_words bm))) 1
               (of_nat (decode_getattr_maxsz K))"
    by (insert K, rule writes_cong, unfold encode_getattr_three_words, (rule op_intros | assumption | (simp; fail))+)
qed

text \<open>The masked forms are instances.\<close>

lemma writes_getfattr:
  "xdr_env K avail \<Longrightarrow> writes avail (encode_getfattr K bm)
     (argop_bytes (Getattr (bm3_words (bm_and bm nfs4_fattr_bitmap)))) 1 (of_nat (decode_getattr_maxsz K))"
  unfolding encode_getfattr_def by (rule getattr_three_op.enc_writes) simp_all

lemma writes_getfattr_open:
  "xdr_env K avail \<Longrightarrow> writes avail (encode_getfattr_open K bm obm)
     (argop_bytes (Getattr (bm3_words (bm_and bm obm)))) 1 (of_nat (decode_getattr_maxsz K))"
  unfolding encode_getfattr_open_def by (rule getattr_three_op.enc_writes) simp_all

lemma writes_fsinfo:
  "xdr_env K avail \<Longrightarrow> writes avail (encode_fsinfo K bm)
     (argop_bytes (Getattr (bm3_words (bm_and bm nfs4_fsinfo_bitmap)))) 1 (of_nat (decode_getattr_maxsz K))"
  unfolding encode_fsinfo_def by (rule getattr_three_op.enc_writes) simp_all

lemma writes_fs_locations:
  "xdr_env K avail \<Longrightarrow> writes avail (encode_fs_locations K bm)
     (argop_bytes (Getattr [fst (bm_and bm nfs4_fs_locations_bitmap), fst (snd (bm_and bm nfs4_fs_locations_bitmap))]))
     1 (of_nat (decode_getattr_maxsz K))"
  using getattr_two_op.enc_writes [of K avail "(a, b)" for a b]
  by (cases "bm_and bm nfs4_fs_locations_bitmap") (simp add: encode_fs_locations_def del: argop_bytes.simps)

subsection \<open>Lock owners and locks\<close>

text \<open>The owner a lock carries on the wire: the text, the device and the lock state's id.\<close>

definition lowner_bytes :: "nfs_lowner \<Rightarrow> bytes" where
  "lowner_bytes lo = lock_id_str @ be32 (lo_s_dev lo) @ be64 (lo_id lo)"

lemma length_id_str [simp]: "length lock_id_str = 8" "length open_id_str = 8"
  by (simp_all add: lock_id_str_def open_id_str_def)

lemma length_lowner_bytes [simp]: "length (lowner_bytes lo) = 20"
  by (simp add: lowner_bytes_def)

lemma writes_lockowner:
  "xdr_env K avail \<Longrightarrow>
   writes avail (encode_lockowner K lo) (be64 (lo_clientid lo) @ opaque_var (lowner_bytes lo)) 0 0"
  by (rule writes_cong, unfold encode_lockowner_def, rule writes_reserve_space, assumption)
    (simp_all add: xdr_env_simps lowner_bytes_def opaque_var_def)

definition locker_of :: "nfs_lock_args \<Rightarrow> locker" where
  "locker_of a =
     (if new_lock_owner a
      then New_Owner (lock_open_seqid a) (lock_open_stateid a) (lock_lock_seqid a)
             (lo_clientid (lock_owner a)) (lowner_bytes (lock_owner a))
      else Old_Owner (lock_lock_stateid a) (lock_lock_seqid a))"

definition lock_ok :: "nfs_lock_args \<Rightarrow> bool" where
  "lock_ok a = (if new_lock_owner a then stateid_ok (lock_open_stateid a) else stateid_ok (lock_lock_stateid a))"

interpretation lock_op: op_encoder encode_lock "\<lambda>K. lock_ok"
  "\<lambda>K a. Lock (nfs4_lock_type (lock_fl a) (lock_block a)) (lock_reclaim a) (fl_start (lock_fl a))
          (nfs4_lock_length (lock_fl a)) (locker_of a)" decode_lock_maxsz
proof unfold_locales
  fix K :: "'a kernel" and avail :: "'a \<Rightarrow> nat" and a
  assume K: "xdr_env K avail" and ok: "lock_ok a"
  show "writes avail (encode_lock K a)
     (argop_bytes (Lock (nfs4_lock_type (lock_fl a) (lock_block a)) (lock_reclaim a) (fl_start (lock_fl a))
          (nfs4_lock_length (lock_fl a)) (locker_of a))) 1 (of_nat (decode_lock_maxsz K))"
  proof (cases "new_lock_owner a")
    case True
    from K ok True show ?thesis
      unfolding encode_lock_def
      by - (rule writes_cong, simp only: if_True,
        (rule op_intros writes_lockowner | assumption | (simp add: xdr_env_simps(3) lock_ok_def; fail))+,
        simp_all add: bool_bytes_def xdr_env_simps(3) locker_of_def)
  next
    case False
    from K ok False show ?thesis
      unfolding encode_lock_def
      by - (rule writes_cong, simp only: if_False,
        (rule op_intros | assumption | (simp add: xdr_env_simps(3) lock_ok_def; fail))+,
        simp_all add: bool_bytes_def xdr_env_simps(3) locker_of_def)
  qed
qed

interpretation lockt_op: op_encoder encode_lockt "\<lambda>K a. True"
  "\<lambda>K a. Lockt (nfs4_lock_type (lockt_fl a) False) (fl_start (lockt_fl a)) (nfs4_lock_length (lockt_fl a))
          (lo_clientid (lockt_owner a)) (lowner_bytes (lockt_owner a))" decode_lockt_maxsz
  by unfold_locales (rule writes_cong, unfold encode_lockt_def,
      (rule op_intros writes_lockowner | assumption | (simp add: xdr_env_simps(3); fail))+)

interpretation release_lockowner_op: op_encoder encode_release_lockowner "\<lambda>K a. True"
  "\<lambda>K a. Release_Lockowner (lo_clientid a) (lowner_bytes a)" decode_release_lockowner_maxsz
  by unfold_locales (rule writes_cong, unfold encode_release_lockowner_def,
      (rule op_intros writes_lockowner | assumption)+, auto)

subsection \<open>OPEN\<close>

definition open_owner_bytes :: "nfs_openargs \<Rightarrow> bytes" where
  "open_owner_bytes a = open_id_str @ be32 (s_dev (open_server a)) @ be32 (open_id_uniquifier a) @
                        be64 (open_id_create_time a)"

definition openhow_of :: "'s kernel \<Rightarrow> nfs_openargs \<Rightarrow> openhow" where
  "openhow_of K a =
     (let attrs = attrs_bytes K (open_server a) (open_attrs a) (open_label a)
      in if open_flags a AND O_CREAT = 0 then NoCreate
         else if open_createmode a = NFS4_CREATE_UNCHECKED then Create_Unchecked attrs
         else if open_createmode a = NFS4_CREATE_GUARDED then Create_Guarded attrs
         else if open_createmode a = NFS4_CREATE_EXCLUSIVE then Create_Exclusive (open_verifier a)
         else Create_Exclusive4_1 (open_verifier a)
                (attrs_bytes K (open_server a) dummy_iattr (open_label a)))"

definition openhow_ok :: "nfs_openargs \<Rightarrow> bool" where
  "openhow_ok a \<longleftrightarrow>
     open_flags a AND O_CREAT = 0 \<or>
     open_createmode a \<in> {NFS4_CREATE_UNCHECKED, NFS4_CREATE_GUARDED, NFS4_CREATE_EXCLUSIVE,
                          NFS4_CREATE_EXCLUSIVE4_1} \<and>
     label_ok (open_label a) \<and> length (open_verifier a) = NFS4_VERIFIER_SIZE"

definition delegation_word :: "u32 \<Rightarrow> u32" where
  "delegation_word t = (if t = 0 then NFS4_OPEN_DELEGATE_NONE
     else if t = FMODE_READ then NFS4_OPEN_DELEGATE_READ else NFS4_OPEN_DELEGATE_WRITE)"

definition openclaim_of :: "nfs_openargs \<Rightarrow> openclaim" where
  "openclaim_of a =
     (if open_claim a = NFS4_OPEN_CLAIM_NULL then Claim_Null (name_bytes (open_name a))
      else if open_claim a = NFS4_OPEN_CLAIM_PREVIOUS then Claim_Previous (delegation_word (open_delegation_type a))
      else if open_claim a = NFS4_OPEN_CLAIM_DELEGATE_CUR
        then Claim_Delegate_Cur (open_delegation a) (name_bytes (open_name a))
      else if open_claim a = NFS4_OPEN_CLAIM_FH then Claim_Fh
      else Claim_Deleg_Cur_Fh (open_delegation a))"

text \<open>The claims and delegation types the encoder knows; any other value runs into \<^verbatim>\<open>BUG()\<close>.\<close>

definition openclaim_ok :: "nfs_openargs \<Rightarrow> bool" where
  "openclaim_ok a \<longleftrightarrow>
     open_claim a \<in> {NFS4_OPEN_CLAIM_NULL, NFS4_OPEN_CLAIM_PREVIOUS, NFS4_OPEN_CLAIM_DELEGATE_CUR,
                     NFS4_OPEN_CLAIM_FH, NFS4_OPEN_CLAIM_DELEG_CUR_FH} \<and>
     (open_claim a = NFS4_OPEN_CLAIM_PREVIOUS \<longrightarrow>
        open_delegation_type a \<in> {0, FMODE_READ, FMODE_WRITE OR FMODE_READ}) \<and>
     name_ok (open_name a) \<and> stateid_ok (open_delegation a)"

lemma writes_openhdr:
  "xdr_env K avail \<Longrightarrow>
   writes avail (encode_openhdr K a)
     (be32 (open_seqid a) @ be32 (share_access (open_fmode a)) @ be32 0 @ be64 (open_clientid a) @
      opaque_var (open_owner_bytes a)) 0 0"
  by (rule writes_cong, unfold encode_openhdr_def encode_share_access_def,
      (rule op_intros | assumption | (simp add: xdr_env_simps; fail))+)
    (simp_all add: xdr_env_simps open_owner_bytes_def opaque_var_def)

lemma writes_opentype:
  assumes K: "xdr_env K avail" and ok: "openhow_ok a"
  shows "writes avail (encode_opentype K a) (openhow_bytes (openhow_of K a)) 0 0"
proof (cases "open_flags a AND O_CREAT = 0")
  case True
  with K show ?thesis
    by (simp add: encode_opentype_def openhow_of_def writes_reserve_space)
next
  case False
  with ok have "open_createmode a \<in> {NFS4_CREATE_UNCHECKED, NFS4_CREATE_GUARDED, NFS4_CREATE_EXCLUSIVE,
      NFS4_CREATE_EXCLUSIVE4_1}" and l: "label_ok (open_label a)" "length (open_verifier a) = NFS4_VERIFIER_SIZE"
    by (auto simp: openhow_ok_def)
  then consider "open_createmode a = NFS4_CREATE_UNCHECKED" | "open_createmode a = NFS4_CREATE_GUARDED"
    | "open_createmode a = NFS4_CREATE_EXCLUSIVE" | "open_createmode a = NFS4_CREATE_EXCLUSIVE4_1"
    by auto
  then show ?thesis
    unfolding encode_opentype_def encode_createmode_def openhow_of_def Let_def
    using False K l
    by cases (simp del: run.simps run_single openhow_bytes.simps, rule writes_cong,
        (rule op_intros | assumption | (simp; fail))+)+
qed

lemma writes_claim:
  assumes K: "xdr_env K avail" and ok: "openclaim_ok a"
  shows "writes avail
     (if open_claim a = NFS4_OPEN_CLAIM_NULL then encode_claim_null K (open_name a)
      else if open_claim a = NFS4_OPEN_CLAIM_PREVIOUS then encode_claim_previous K (open_delegation_type a)
      else if open_claim a = NFS4_OPEN_CLAIM_DELEGATE_CUR
        then encode_claim_delegate_cur K (open_name a) (open_delegation a)
      else if open_claim a = NFS4_OPEN_CLAIM_FH then encode_claim_fh K
      else if open_claim a = NFS4_OPEN_CLAIM_DELEG_CUR_FH then encode_claim_delegate_cur_fh K (open_delegation a)
      else (\<lambda>s. Inl BUG)) (openclaim_bytes (openclaim_of a)) 0 0"
proof -
  have deleg: "writes avail (encode_delegation_type K t) (be32 (delegation_word t)) 0 0"
    if "t \<in> {0, FMODE_READ, FMODE_WRITE OR FMODE_READ}" for t
    using that by (auto simp: encode_delegation_type_def delegation_word_def writes_reserve_space [OF K])
  have name: "name_ok (open_name a)" and sid: "stateid_ok (open_delegation a)"
    using ok by (auto simp: openclaim_ok_def)
  have "writes avail (encode_claim_null K (open_name a)) (openclaim_bytes (Claim_Null (name_bytes (open_name a)))) 0 0"
    "writes avail (encode_claim_delegate_cur K (open_name a) (open_delegation a))
       (openclaim_bytes (Claim_Delegate_Cur (open_delegation a) (name_bytes (open_name a)))) 0 0"
    "writes avail (encode_claim_fh K) (openclaim_bytes Claim_Fh) 0 0"
    "writes avail (encode_claim_delegate_cur_fh K (open_delegation a))
       (openclaim_bytes (Claim_Deleg_Cur_Fh (open_delegation a))) 0 0"
    using K name sid
    by - (unfold encode_claim_null_def encode_claim_delegate_cur_def encode_claim_fh_def
        encode_claim_delegate_cur_fh_def, (rule writes_cong, (rule op_intros | assumption | (simp; fail))+)+)
  moreover have "writes avail (encode_claim_previous K t) (openclaim_bytes (Claim_Previous (delegation_word t))) 0 0"
    if "t \<in> {0, FMODE_READ, FMODE_WRITE OR FMODE_READ}" for t
    using K deleg [OF that] unfolding encode_claim_previous_def
    by - (rule writes_cong, (rule op_intros | assumption | (simp; fail))+)
  ultimately show ?thesis
    using ok unfolding openclaim_ok_def openclaim_of_def by (auto simp del: openclaim_bytes.simps)
qed

definition open_ok :: "nfs_openargs \<Rightarrow> bool" where
  "open_ok a \<longleftrightarrow> openhow_ok a \<and> openclaim_ok a"

interpretation open_op: op_encoder encode_open "\<lambda>K. open_ok"
  "\<lambda>K a. Open (open_seqid a) (share_access (open_fmode a)) (open_clientid a) (open_owner_bytes a)
          (openhow_of K a) (openclaim_of a)" decode_open_maxsz
proof unfold_locales
  fix K :: "'a kernel" and avail :: "'a \<Rightarrow> nat" and a
  assume K: "xdr_env K avail" and ok: "open_ok a"
  then show "writes avail (encode_open K a) (argop_bytes (Open (open_seqid a) (share_access (open_fmode a))
      (open_clientid a) (open_owner_bytes a) (openhow_of K a) (openclaim_of a))) 1 (of_nat (decode_open_maxsz K))"
    unfolding encode_open_def open_ok_def
    by - (rule writes_cong, (rule writes_run_Cons writes_run_Nil writes_encode_op_hdr writes_openhdr
        writes_opentype writes_claim | assumption | (simp; fail))+)
qed

subsection \<open>SETATTR, SETCLIENTID, READDIR, GETDEVICEINFO and SEQUENCE\<close>

interpretation setattr_op: bounded_op "\<lambda>K a. encode_setattr K (fst a) (snd a)"
  "\<lambda>K a. stateid_ok (setattr_stateid (fst a)) \<and> label_ok (setattr_label (fst a))"
  "\<lambda>K a. Setattr (setattr_stateid (fst a))
          (attrs_bytes K (snd a) (setattr_iap (fst a)) (setattr_label (fst a)))"
  decode_setattr_maxsz encode_setattr_maxsz
proof unfold_locales
  fix K :: "'a kernel" and avail :: "'a \<Rightarrow> nat" and a :: "nfs_setattrargs \<times> nfs_server"
  let ?sid = "setattr_stateid (fst a)" and ?b = "attrs_bytes K (snd a) (setattr_iap (fst a)) (setattr_label (fst a))"
  assume K: "xdr_env K avail" and ok: "stateid_ok ?sid \<and> label_ok (setattr_label (fst a))"
  then show "writes avail (encode_setattr K (fst a) (snd a)) (argop_bytes (Setattr ?sid ?b)) 1
               (of_nat (decode_setattr_maxsz K))"
    unfolding encode_setattr_def
    by - (rule writes_cong, (rule op_intros | assumption | (simp; fail))+)
  have "encode_setattr_maxsz K = op_encode_hdr_maxsz K + encode_stateid_maxsz K + encode_attrs_maxsz K"
    by (simp add: encode_setattr_maxsz_def)
  with attrs_bytes_maxsz [OF K, of "setattr_label (fst a)" "snd a" "setattr_iap (fst a)"] ok
  show "length (argop_bytes (Setattr ?sid ?b)) \<le> 4 * encode_setattr_maxsz K"
    by (simp add: stateid_ok_def op_encode_hdr_maxsz_def encode_stateid_maxsz_def XDR_QUADLEN_def)
qed

text \<open>The strings of SETCLIENTID are bounded by the client's buffers.\<close>

definition setclientid_ok :: "'s kernel \<Rightarrow> nfs4_setclientid \<Rightarrow> bool" where
  "setclientid_ok K a \<longleftrightarrow>
     length (sc_verifier a) = NFS4_VERIFIER_SIZE \<and>
     unat (sc_name_len a) \<le> length (sc_name a) \<and> unat (sc_name_len a) < 2 ^ 32 - 4 \<and>
     unat (sc_netid_len a) \<le> length (sc_netid a) \<and> unat (sc_netid_len a) < 2 ^ 32 - 4 \<and>
     unat (sc_uaddr_len a) \<le> length (sc_uaddr a) \<and> unat (sc_uaddr_len a) < 2 ^ 32 - 4"

interpretation setclientid_op: op_encoder encode_setclientid setclientid_ok
  "\<lambda>K a. Setclientid (sc_verifier a) (take (unat (sc_name_len a)) (sc_name a)) (sc_prog a)
     (take (unat (sc_netid_len a)) (sc_netid a)) (take (unat (sc_uaddr_len a)) (sc_uaddr a)) (sc_cb_ident a)"
  decode_setclientid_maxsz
  by unfold_locales (rule writes_cong, unfold encode_setclientid_def setclientid_ok_def,
      (rule op_intros writes_encode_string | assumption | (simp; fail))+)

text \<open>READDIR asks for the attributes up to the last non-zero word.\<close>

definition readdir_words :: "nfs4_readdir_arg \<Rightarrow> u32 list" where
  "readdir_words a = (case readdir_attrs a of (a0, a1, a2) \<Rightarrow>
     take (unat (readdir_attrlen (a0, a1, a2))) [a0, a1, a2])"

interpretation readdir_op: bounded_op encode_readdir
  "\<lambda>K a. length (readdir_verifier a) = NFS4_VERIFIER_SIZE"
  "\<lambda>K a. Readdir (readdir_cookie a) (readdir_verifier a) (readdir_dircount a) (readdir_count a) (readdir_words a)"
  decode_readdir_maxsz encode_readdir_maxsz
proof unfold_locales
  fix K :: "'a kernel" and avail :: "'a \<Rightarrow> nat" and a
  let ?op = "Readdir (readdir_cookie a) (readdir_verifier a) (readdir_dircount a) (readdir_count a) (readdir_words a)"
  obtain a0 a1 a2 where bm: "readdir_attrs a = (a0, a1, a2)" by (metis prod_cases3)
  have w: "readdir_attrlen (a0, a1, a2) = of_nat (length (readdir_words a))"
    "bitmap_words (readdir_attrlen (a0, a1, a2)) (a0, a1, a2) = concat (map be32 (readdir_words a))"
    "unat (12 + push_bit 2 (readdir_attrlen (a0, a1, a2))) = 12 + 4 * length (readdir_words a)"
    "length (readdir_words a) \<le> 3"
    by (auto simp: readdir_words_def bm readdir_attrlen_def bitmap_words_def)
  have len: "length (concat (map be32 ws)) = 4 * length ws" for ws
    by (induction ws) simp_all
  assume K: "xdr_env K avail" and ok: "length (readdir_verifier a) = NFS4_VERIFIER_SIZE"
  then show "writes avail (encode_readdir K a) (argop_bytes ?op) 1 (of_nat (decode_readdir_maxsz K))"
    unfolding encode_readdir_def Let_def bm unfolding w(2,3) unfolding w(1)
    by - (rule writes_cong, (rule op_intros | assumption | (simp add: words_bytes_def len; fail))+)
  show "length (argop_bytes ?op) \<le> 4 * encode_readdir_maxsz K"
    using ok w(4) by (simp add: maxsz_defs XDR_QUADLEN_def)
qed

interpretation getdeviceinfo_op: bounded_op encode_getdeviceinfo
  "\<lambda>K a. length (gd_dev_id a) = NFS4_DEVICEID4_SIZE"
  "\<lambda>K a. Getdeviceinfo (gd_dev_id a) (gd_layout_type a) (gd_maxcount a)
          [NOTIFY_DEVICEID4_CHANGE OR NOTIFY_DEVICEID4_DELETE]"
  decode_getdeviceinfo_maxsz encode_getdeviceinfo_maxsz
proof unfold_locales
  fix K :: "'a kernel" and avail :: "'a \<Rightarrow> nat" and a :: nfs4_getdeviceinfo_args
  let ?op = "Getdeviceinfo (gd_dev_id a) (gd_layout_type a) (gd_maxcount a)
               [NOTIFY_DEVICEID4_CHANGE OR NOTIFY_DEVICEID4_DELETE]"
  assume K: "xdr_env K avail" and ok: "length (gd_dev_id a) = NFS4_DEVICEID4_SIZE"
  then show "writes avail (encode_getdeviceinfo K a) (argop_bytes ?op) 1 (of_nat (decode_getdeviceinfo_maxsz K))"
    unfolding encode_getdeviceinfo_def
    by - (simp only: less_irrefl if_False, rule writes_cong,
        (rule op_intros | assumption | (simp add: xdr_env_simps(1) words_bytes_def; fail))+)
  show "length (argop_bytes ?op) \<le> 4 * encode_getdeviceinfo_maxsz K"
    using ok by (simp add: maxsz_defs XDR_QUADLEN_def)
qed

text \<open>SEQUENCE is sent only in a session; its operation list is empty otherwise.\<close>

definition seq_ops :: "nfs4_sequence_args \<Rightarrow> argop list" where
  "seq_ops a = (case slot_session (sa_slot a) of None \<Rightarrow> []
     | Some session \<Rightarrow> [Sequence (take NFS4_MAX_SESSIONID_LEN (sess_id session)) (seq_nr (sa_slot a))
         (slot_nr (sa_slot a)) (highest_used_slotid (sa_slot a)) (sa_cache_this a)])"

definition seq_ok :: "nfs4_sequence_args \<Rightarrow> bool" where
  "seq_ok a = (case slot_session (sa_slot a) of None \<Rightarrow> True
     | Some session \<Rightarrow> NFS4_MAX_SESSIONID_LEN \<le> length (sess_id session))"

lemma length_seq_ops: "length (seq_ops a) \<le> 1"
  by (simp add: seq_ops_def split: option.split)

lemma writes_sequence:
  assumes K: "xdr_env K avail" and ok: "seq_ok a"
  shows "writes avail (encode_sequence K a) (ops_bytes (seq_ops a)) (of_nat (length (seq_ops a)))
           (of_nat (length (seq_ops a) * decode_sequence_maxsz K))"
proof (cases "slot_session (sa_slot a)")
  case None
  with writes_run_Nil show ?thesis
    by (simp add: encode_sequence_def seq_ops_def del: run.simps)
next
  case (Some session)
  with ok have l: "\<not> length (sess_id session) < NFS4_MAX_SESSIONID_LEN"
    by (simp add: seq_ok_def)
  with K Some show ?thesis
    unfolding encode_sequence_def
    by - (simp only: option.case if_False, rule writes_cong,
        (rule op_intros | assumption | (simp add: xdr_env_simps(1) min_absorb2 seq_ops_def bool_bytes_def; fail))+)
qed

lemma seq_ops_maxsz:
  "seq_ok a \<Longrightarrow> length (ops_bytes (seq_ops a)) \<le> 4 * encode_sequence_maxsz K"
  by (auto simp: seq_ok_def seq_ops_def maxsz_defs XDR_QUADLEN_def split: option.splits)

end
