(* ===== verification/Xdr_Message.thy ===== *)
theory Xdr_Message
  imports Xdr_Encode_Correct
begin

text \<open>
  What an encoder puts on the wire when part of the data lies in pages: the buffer with the page data
  spliced in where \<^verbatim>\<open>xdr_write_pages\<close> was called. \<open>sends\<close> is the contract of a
  sequence of statements in these terms, and \<open>compound_frame\<close> the frame every request encoder
  has: header, operations, and the operation count patched in at the end.
\<close>

section \<open>What is sent: the buffer with the page data spliced in\<close>

fun splice_at :: "nat \<Rightarrow> (nat \<times> bytes) list \<Rightarrow> bytes \<Rightarrow> bytes" where
  "splice_at o1 [] b = b"
| "splice_at o1 ((i, p) # ps) b = take (i - o1) b @ opaque_fixed p @ splice_at i ps (drop (i - o1) b)"

definition message :: "'s enc \<Rightarrow> bytes" where
  "message s = splice_at 0 (xpages s) (xbuf s)"

definition shift_pages :: "nat \<Rightarrow> (nat \<times> bytes) list \<Rightarrow> (nat \<times> bytes) list" where
  "shift_pages n = map (\<lambda>(i, p). (n + i, p))"

lemma shift_pages_simps [simp]:
  "shift_pages n [] = []" "shift_pages n ((i, p) # ps) = (n + i, p) # shift_pages n ps"
  "shift_pages n (ps @ qs) = shift_pages n ps @ shift_pages n qs"
  "shift_pages m (shift_pages n ps) = shift_pages (m + n) ps" "shift_pages 0 ps = ps"
  by (auto simp: shift_pages_def)

lemma sorted_shift: "sorted (map fst ps) \<Longrightarrow> sorted (map fst (shift_pages n ps))"
  by (induction ps) (auto simp: shift_pages_def)

lemma shift_pages_ge: "(j, p) \<in> set (shift_pages n ps) \<Longrightarrow> n \<le> j"
  by (auto simp: shift_pages_def)

lemma splice_at_shift [simp]: "splice_at (n + o1) (shift_pages n ps) b = splice_at o1 ps b"
  by (induction o1 ps b rule: splice_at.induct) auto

text \<open>Splicing a concatenation, when the first part's page positions are in order and inside it.\<close>

lemma splice_at_append:
  assumes "sorted (map fst ps)" and "\<forall>(i, p) \<in> set ps. o1 \<le> i \<and> i \<le> o1 + length b"
  shows "splice_at o1 (ps @ shift_pages (o1 + length b) qs) (b @ c) = splice_at o1 ps b @ splice_at 0 qs c"
  using assms
proof (induction o1 ps b rule: splice_at.induct)
  case (1 o1 b)
  show ?case
  proof (cases qs)
    case (Cons q qs')
    then show ?thesis
      using splice_at_shift [of "o1 + length b" "fst q" qs'] by (cases q) simp
  qed simp
next
  case (2 o1 i p ps b)
  then have le: "o1 \<le> i" "i \<le> o1 + length b" by auto
  moreover have "\<forall>(j, q) \<in> set ps. i \<le> j \<and> j \<le> i + length (drop (i - o1) b)"
    using 2(2,3) le by fastforce
  moreover have "i + (length b - (i - o1)) = o1 + length b"
    using le by simp
  ultimately show ?case
    using "2.IH" 2(2) by (simp add: ac_simps)
qed

section \<open>The contract of request encoders\<close>

text \<open>\<open>sent s t bs n r\<close>: between \<open>s\<close> and \<open>t\<close> the bytes \<open>bs\<close> were added to the message, \<open>n\<close>
  operations and \<open>r\<close> reply words were counted.\<close>

definition sent :: "'s enc \<Rightarrow> 's enc \<Rightarrow> bytes \<Rightarrow> u32 \<Rightarrow> u32 \<Rightarrow> bool" where
  "sent s t bs n r \<longleftrightarrow>
     (\<exists>b ps. xbuf t = xbuf s @ b \<and> xpages t = xpages s @ shift_pages (length (xbuf s)) ps \<and>
        sorted (map fst ps) \<and> (\<forall>(i, p) \<in> set ps. i \<le> length b) \<and> splice_at 0 ps b = bs) \<and>
     nops (hdr t) = nops (hdr s) + n \<and> replen (hdr t) = replen (hdr s) + r \<and>
     nops_p (hdr t) = nops_p (hdr s)"

lemma sent_emit: "sent s (emit t bs n r s) bs n r"
  unfolding sent_def by (rule conjI [OF exI [where x = bs, OF exI [where x = "[]"]]]) auto

lemma sent_trans:
  assumes "sent s t bs n r" and "sent t u bs' n' r'"
  shows "sent s u (bs @ bs') (n + n') (r + r')"
proof -
  obtain b ps where 1: "xbuf t = xbuf s @ b" "xpages t = xpages s @ shift_pages (length (xbuf s)) ps"
      "sorted (map fst ps)" "\<forall>(i, p) \<in> set ps. i \<le> length b" "splice_at 0 ps b = bs"
    using assms(1) unfolding sent_def by blast
  obtain c qs where 2: "xbuf u = xbuf t @ c" "xpages u = xpages t @ shift_pages (length (xbuf t)) qs"
      "sorted (map fst qs)" "\<forall>(i, p) \<in> set qs. i \<le> length c" "splice_at 0 qs c = bs'"
    using assms(2) unfolding sent_def by blast
  let ?ps = "ps @ shift_pages (length b) qs"
  have "xbuf u = xbuf s @ b @ c" "xpages u = xpages s @ shift_pages (length (xbuf s)) ?ps"
    using 1 2 by simp_all
  moreover have "sorted (map fst ?ps)"
    using 1(3,4) sorted_shift [OF 2(3), of "length b"] shift_pages_ge
    by (fastforce simp: sorted_append)
  moreover have "\<forall>(i, p) \<in> set ?ps. i \<le> length (b @ c)"
    using 1 2 by (fastforce simp: shift_pages_def)
  moreover have "splice_at 0 ?ps (b @ c) = bs @ bs'"
    using splice_at_append [of ps 0 b qs c] 1 2 by simp
  ultimately show ?thesis
    using assms unfolding sent_def by (auto intro!: exI [where x = "b @ c"] exI [where x = ?ps])
qed

text \<open>\<open>sends avail f bs k n r\<close>: with \<open>k\<close> bytes of room \<open>f\<close> succeeds, adds \<open>bs\<close> to the message
  and uses at most \<open>k\<close> bytes of the buffer.\<close>

definition sends :: "('s \<Rightarrow> nat) \<Rightarrow> 's encoder \<Rightarrow> bytes \<Rightarrow> nat \<Rightarrow> u32 \<Rightarrow> u32 \<Rightarrow> bool" where
  "sends avail f bs k n r \<longleftrightarrow>
     (\<forall>s. k \<le> avail (strm s) \<longrightarrow>
        (\<exists>t. f s = Inr t \<and> sent s t bs n r \<and> avail (strm s) \<le> avail (strm t) + k))"

lemma sendsD:
  assumes "sends avail f bs k n r" and "k \<le> avail (strm s)"
  obtains t where "f s = Inr t" "sent s t bs n r" "avail (strm s) \<le> avail (strm t) + k"
  using assms unfolding sends_def by blast

lemma sends_cong: "sends avail f bs k n r \<Longrightarrow> bs = bs' \<Longrightarrow> n = n' \<Longrightarrow> r = r' \<Longrightarrow> k \<le> k' \<Longrightarrow> sends avail f bs' k' n' r'"
  unfolding sends_def by (meson add_left_mono le_trans)

lemma sends_writes: "writes avail f bs n r \<Longrightarrow> sends avail f bs (length bs) n r"
  unfolding sends_def by (metis add.commute emit_simps(1) le_add_diff_inverse le_refl sent_emit writesD)

lemma sends_run_Nil: "sends avail (run []) [] 0 0 0"
  using sends_writes [OF writes_run_Nil] by (simp del: run.simps)

lemma sends_run_Cons:
  assumes "sends avail f b k n r" and "sends avail (run fs) bs ks ns rs"
  shows "sends avail (run (f # fs)) (b @ bs) (k + ks) (n + ns) (r + rs)"
  unfolding sends_def
proof (intro allI impI)
  fix s :: "'a enc" assume room: "k + ks \<le> avail (strm s)"
  with assms(1) obtain t where t: "f s = Inr t" "sent s t b n r" "avail (strm s) \<le> avail (strm t) + k"
    by (elim sendsD [where s = s]) auto
  with room assms(2) obtain u where "run fs t = Inr u" "sent t u bs ns rs" "avail (strm t) \<le> avail (strm u) + ks"
    by (elim sendsD [where s = t]) auto
  with t show "\<exists>u. run (f # fs) s = Inr u \<and> sent s u (b @ bs) (n + ns) (r + rs) \<and>
                   avail (strm s) \<le> avail (strm u) + (k + ks)"
    using sent_trans by (intro exI [where x = u]) auto
qed

lemma sends_write_pages:
  assumes "xdr_env K avail"
  shows "sends avail (write_pages K pages base n) (opaque_fixed (take (unat n) (drop (unat base) pages))) 4 0 0"
proof -
  have "avail x \<le> avail (xdr_write_pages K x pages base n) + 4" for x
    using assms unfolding xdr_env_def by blast
  then show ?thesis
    unfolding sends_def sent_def
    by (auto simp: write_pages_def intro!: exI [where x = "[]"]
        exI [where x = "[(0, take (unat n) (drop (unat base) pages))]"])
qed

lemma sends_unchanged:
  assumes "\<And>s. \<exists>t. f s = Inr t \<and> strm t = strm s \<and> xbuf t = xbuf s \<and> xpages t = xpages s \<and> hdr t = hdr s"
  shows "sends avail f [] 0 0 0"
  unfolding sends_def sent_def
proof (intro allI impI)
  fix s from assms obtain t where "f s = Inr t" "strm t = strm s" "xbuf t = xbuf s" "xpages t = xpages s" "hdr t = hdr s"
    by blast
  then show "\<exists>t. f s = Inr t \<and> ((\<exists>b ps. xbuf t = xbuf s @ b \<and> xpages t = xpages s @ shift_pages (length (xbuf s)) ps \<and>
        sorted (map fst ps) \<and> (\<forall>(i, p) \<in> set ps. i \<le> length b) \<and> splice_at 0 ps b = []) \<and>
     nops (hdr t) = nops (hdr s) + 0 \<and> replen (hdr t) = replen (hdr s) + 0 \<and>
     nops_p (hdr t) = nops_p (hdr s)) \<and> avail (strm s) \<le> avail (strm t) + 0"
    by (intro exI [where x = t] conjI exI [where x = "[]"]) auto
qed

lemma sends_with_replen:
  assumes "\<And>x. sends avail (g x) bs k n r"
  shows "sends avail (with_replen g) bs k n r"
  using assms unfolding sends_def with_replen_def by blast

lemma sends_page_marks:
  "sends avail (inline_pages g pages base n) [] 0 0 0" "sends avail mark_read [] 0 0 0"
  "sends avail mark_write [] 0 0 0"
  by (rule sends_unchanged; simp add: inline_pages_def mark_read_def mark_write_def)+

section \<open>The frame of a request\<close>

lemma encode_compound_hdr_emit:
  assumes K: "xdr_env K avail" and room: "12 \<le> avail (strm s)"
  obtains x where "run [start_hdr m, encode_compound_hdr K req] s =
      Inr (s\<lparr>strm := x, xbuf := xbuf s @ be32 0 @ be32 m @ be32 0,
             hdr := (hdr_init m)\<lparr>replen := of_nat (RPC_REPHDRSIZE K) + au_rslack req + 3,
                                nops_p := Some (length (xbuf s) + 8)\<rparr>\<rparr>)"
    "avail x = avail (strm s) - 12"
proof -
  define u where "u = s\<lparr>hdr := (hdr_init m)\<lparr>replen := of_nat (RPC_REPHDRSIZE K) + au_rslack req + 3\<rparr>\<rparr>"
  have "writes avail (encode_string K 0 []) (be32 0) 0 0"
    using writes_encode_string [OF K, of 0 "[]"] by (simp add: opaque_var_def opaque_fixed_def pad_def)
  then obtain y where y: "encode_string K 0 [] u = Inr (emit y (be32 0) 0 0 u)" "avail y = avail (strm s) - 4"
    using room by (elim writesD [where s = u]) (auto simp: u_def)
  have "writes avail (reserve_space K 8 (be32 m @ be32 0)) (be32 m @ be32 0) 0 0"
    by (simp add: writes_reserve_space [OF K])
  then obtain x where x: "reserve_space K 8 (be32 m @ be32 0) (emit y (be32 0) 0 0 u) =
      Inr (emit x (be32 m @ be32 0) 0 0 (emit y (be32 0) 0 0 u))" "avail x = avail (strm s) - 12"
    using room y by (elim writesD [where s = "emit y (be32 0) 0 0 u"]) (auto simp: u_def)
  show thesis
    by (rule that [of x]) (use x y in \<open>auto simp: start_hdr_def encode_compound_hdr_def emit_def u_def hdr_init_def\<close>)
qed

text \<open>
  A request whose operations send \<open>bs\<close>, in a buffer with enough room: the message is the header
  (empty tag, minor version, the true number of operations) and \<open>bs\<close>, after whatever the buffer held.
\<close>

lemma compound_frame:
  assumes K: "xdr_env K avail" and fs: "sends avail (run fs) bs k n r"
    and room: "12 + k \<le> avail (strm s)" and pages: "xpages s = []"
  obtains t where "run (start_hdr m # encode_compound_hdr K req # fs @ [encode_nops]) s = Inr t"
    "message t = xbuf s @ be32 0 @ be32 m @ be32 n @ bs" "nops (hdr t) = n"
    "replen (hdr t) = of_nat (RPC_REPHDRSIZE K) + au_rslack req + 3 + r"
    "avail (strm s) \<le> avail (strm t) + (12 + k)"
proof -
  let ?h = "xbuf s @ be32 0 @ be32 m @ be32 0" and ?h' = "xbuf s @ be32 0 @ be32 m @ be32 n"
  from K room obtain x where x: "run [start_hdr m, encode_compound_hdr K req] s =
      Inr (s\<lparr>strm := x, xbuf := ?h,
             hdr := (hdr_init m)\<lparr>replen := of_nat (RPC_REPHDRSIZE K) + au_rslack req + 3,
                                nops_p := Some (length (xbuf s) + 8)\<rparr>\<rparr>)" (is "_ = Inr ?u")
    and ax: "avail x = avail (strm s) - 12"
    by (elim encode_compound_hdr_emit [where m = m and req = req]) auto
  from fs ax room obtain t where t: "run fs ?u = Inr t" "sent ?u t bs n r" "avail x \<le> avail (strm t) + k"
    by (elim sendsD [where s = ?u]) auto
  from t(2) pages obtain b ps where b: "xbuf t = ?h @ b" "xpages t = shift_pages (length ?h') ps" "splice_at 0 ps b = bs"
    and h: "nops (hdr t) = n" "replen (hdr t) = of_nat (RPC_REPHDRSIZE K) + au_rslack req + 3 + r"
      "nops_p (hdr t) = Some (length (xbuf s) + 8)"
    by (auto simp: sent_def hdr_init_def)
  have patched: "encode_nops t = Inr (t\<lparr>xbuf := ?h' @ b\<rparr>)"
    by (simp add: encode_nops_def h b(1))
  show thesis
  proof (rule that)
    show "run (start_hdr m # encode_compound_hdr K req # fs @ [encode_nops]) s = Inr (t\<lparr>xbuf := ?h' @ b\<rparr>)"
      using run_append [of "[start_hdr m, encode_compound_hdr K req]" "fs @ [encode_nops]" s]
        run_append [of fs "[encode_nops]" ?u] by (simp add: x t(1) patched del: run.simps)
    show "message (t\<lparr>xbuf := ?h' @ b\<rparr>) = xbuf s @ be32 0 @ be32 m @ be32 n @ bs"
      using splice_at_append [of "[]" 0 ?h' ps b] b by (simp add: message_def)
  qed (use h t(3) ax room in auto)
qed

end
