(* ===== verification/Xdr_Request.thy ===== *)
theory Xdr_Request
  imports Xdr_Message
begin

text \<open>
  Whole requests. For every entry of the procedure table, \<open>request_ops\<close> is the abstract COMPOUND
  it stands for, \<open>request_minor\<close> its minor version and \<open>request_ok\<close> what makes its arguments
  well-formed. The refinement theorem shows that what is sent is the wire form of that COMPOUND, with
  page data in its place and the operation count patched correctly, and the size theorem that the
  buffer the RPC layer allocates from \<open>p_arglen\<close> is large enough.
\<close>

section \<open>Operations that send page data\<close>

definition createtype_of :: "nfs4_create_arg \<Rightarrow> createtype" where
  "createtype_of a =
     (if create_ftype a = NF4LNK then CT_Symlink (take (unat (create_symlink_len a)) (create_symlink_pages a))
      else if create_ftype a = NF4BLK \<or> create_ftype a = NF4CHR
        then CT_Device (create_ftype a) (create_specdata1 a) (create_specdata2 a)
      else CT_Plain (create_ftype a))"

definition create_ok :: "nfs4_create_arg \<Rightarrow> bool" where
  "create_ok a \<longleftrightarrow> name_ok (create_name a) \<and> label_ok (create_label a) \<and>
     (create_ftype a = NF4LNK \<longrightarrow> unat (create_symlink_len a) \<le> length (create_symlink_pages a))"

lemma opaque_var_word: "length b = unat (n :: u32) \<Longrightarrow> opaque_var b = be32 n @ opaque_fixed b"
  by (simp add: opaque_var_def)

lemmas sends_prims = op_intros [THEN sends_writes]

lemma sends_create:
  assumes K: "xdr_env K avail" and ok: "create_ok a"
  shows "\<exists>k \<le> length (argop_bytes (Create (createtype_of a) (name_bytes (create_name a))
             (attrs_bytes K (create_server a) (create_attrs a) (create_label a)))) + 4.
         sends avail (encode_create K a)
           (argop_bytes (Create (createtype_of a) (name_bytes (create_name a))
             (attrs_bytes K (create_server a) (create_attrs a) (create_label a)))) k 1 (of_nat (decode_create_maxsz K))"
proof -
  let ?attrs = "attrs_bytes K (create_server a) (create_attrs a) (create_label a)"
  let ?ct = "if create_ftype a = NF4LNK then
               run [reserve_space K 4 (be32 (create_symlink_len a)),
                    write_pages K (create_symlink_pages a) 0 (create_symlink_len a)]
             else if create_ftype a = NF4BLK \<or> create_ftype a = NF4CHR then
               reserve_space K 8 (be32 (create_specdata1 a) @ be32 (create_specdata2 a))
             else run []"
  obtain cb k where ct: "createtype_bytes (createtype_of a) = be32 (create_ftype a) @ cb"
      "sends avail ?ct cb k 0 0" "k \<le> length cb + 4"
  proof (cases "create_ftype a = NF4LNK")
    case True
    let ?p = "take (unat (create_symlink_len a)) (create_symlink_pages a)"
    have "sends avail (run [reserve_space K 4 (be32 (create_symlink_len a)),
        write_pages K (create_symlink_pages a) 0 (create_symlink_len a)])
        (be32 (create_symlink_len a) @ opaque_fixed ?p @ []) (4 + (4 + 0)) (0 + (0 + 0)) (0 + (0 + 0))"
      by (intro sends_run_Cons sends_run_Nil sends_write_pages [OF K, of _ 0, simplified]
          sends_writes [OF writes_reserve_space [OF K], of "be32 w" 4 for w, simplified])
    moreover have "createtype_bytes (createtype_of a) = be32 NF4LNK @ be32 (create_symlink_len a) @ opaque_fixed ?p"
      using True ok by (simp add: createtype_of_def create_ok_def opaque_var_word [of _ "create_symlink_len a"])
    ultimately show thesis
      using that [of "be32 (create_symlink_len a) @ opaque_fixed ?p" 8] True by simp
  next
    case False
    then show thesis
      using that [of "be32 (create_specdata1 a) @ be32 (create_specdata2 a)" 8] that [of "[]" 0]
        sends_writes [OF writes_reserve_space [OF K], of "be32 (create_specdata1 a) @ be32 (create_specdata2 a)" 8]
        sends_run_Nil [of avail]
      by (cases "create_ftype a = NF4BLK \<or> create_ftype a = NF4CHR")
        (simp_all add: createtype_of_def del: run.simps)
  qed
  let ?k = "4 + (4 + (k + (length (opaque_var (name_bytes (create_name a))) + (length ?attrs + 0))))"
  have "sends avail (encode_create K a)
     (argop_bytes (Create (createtype_of a) (name_bytes (create_name a)) ?attrs))
     ?k 1
     (of_nat (decode_create_maxsz K))"
    unfolding encode_create_def using K ok ct
    by - (rule sends_cong, (rule sends_run_Cons sends_run_Nil sends_prims | assumption |
        (simp add: create_ok_def; fail))+)
  with ct show ?thesis
    by (intro exI [where x = ?k]) simp
qed

lemma sends_setacl:
  assumes K: "xdr_env K avail" and "unat (setacl_pgbase a) + unat (setacl_len a) \<le> length (setacl_pages a)"
  shows "sends avail (encode_setacl K a)
     (argop_bytes (Setacl zero_stateid [FATTR4_WORD0_ACL]
        (take (unat (setacl_len a)) (drop (unat (setacl_pgbase a)) (setacl_pages a))))) 36 1
     (of_nat (decode_setacl_maxsz K))"
  unfolding encode_setacl_def
  by (rule sends_cong, (rule sends_run_Cons sends_run_Nil sends_prims sends_write_pages K |
      (use assms in \<open>simp add: stateid_ok_def zero_stateid_def words_bytes_def opaque_var_word [of _ "setacl_len a"]\<close>; fail))+)

lemma sends_write:
  assumes K: "xdr_env K avail" and "stateid_ok (pgio_stateid a)"
    and "unat (pgio_pgbase a) + unat (pgio_count a) \<le> length (pgio_pages a)"
  shows "sends avail (encode_write K a)
     (argop_bytes (Write (pgio_stateid a) (pgio_offset a) (pgio_stable a)
        (take (unat (pgio_count a)) (drop (unat (pgio_pgbase a)) (pgio_pages a))))) 40 1
     (of_nat (decode_write_maxsz K))"
  unfolding encode_write_def
  by (rule sends_cong, (rule sends_run_Cons sends_run_Nil sends_prims sends_write_pages K |
      (use assms in \<open>simp add: stateid_ok_def xdr_env_simps(3) opaque_var_word [of _ "pgio_count a"]\<close>; fail))+)

section \<open>The COMPOUND of each procedure\<close>

definition chain_ops :: "bitmap3 \<Rightarrow> qstr list \<Rightarrow> argop list" where
  "chain_ops bm names = concat (map (\<lambda>nm. [Lookup (name_bytes nm), Getfh,
      Getattr (bm3_words (bm_and bm nfs4_fattr_bitmap))]) names)"

primrec request_seq :: "nfs4_request \<Rightarrow> nfs4_sequence_args option" where
  "request_seq (PROC_READ a) = Some (pgio_seq_args a)"
| "request_seq (PROC_WRITE a) = Some (pgio_seq_args a)"
| "request_seq (PROC_COMMIT a) = Some (commit_seq_args a)"
| "request_seq (PROC_OPEN a) = Some (open_seq_args a)"
| "request_seq (PROC_OPEN_CONFIRM a) = None"
| "request_seq (PROC_OPEN_NOATTR a) = Some (open_seq_args a)"
| "request_seq (PROC_OPEN_DOWNGRADE a) = Some (close_seq_args a)"
| "request_seq (PROC_CLOSE a) = Some (close_seq_args a)"
| "request_seq (PROC_SETATTR a) = Some (setattr_seq_args a)"
| "request_seq (PROC_FSINFO a) = Some (fsinfo_seq_args a)"
| "request_seq (PROC_RENEW a) = None"
| "request_seq (PROC_SETCLIENTID a) = None"
| "request_seq (PROC_SETCLIENTID_CONFIRM a) = None"
| "request_seq (PROC_LOCK a) = Some (lock_seq_args a)"
| "request_seq (PROC_LOCKT a) = Some (lockt_seq_args a)"
| "request_seq (PROC_LOCKU a) = Some (locku_seq_args a)"
| "request_seq (PROC_ACCESS a) = Some (access_seq_args a)"
| "request_seq (PROC_GETATTR a) = Some (getattr_seq_args a)"
| "request_seq (PROC_LOOKUP a) = Some (lookup_seq_args a)"
| "request_seq (PROC_LOOKUP_ROOT a) = Some (lookup_root_seq_args a)"
| "request_seq (PROC_CHAIN_LOOKUP a) = Some (chain_seq_args a)"
| "request_seq (PROC_CHAIN_LOOKUP_OPEN a) = Some (chain_open_seq_args a)"
| "request_seq (PROC_REMOVE a) = Some (remove_seq_args a)"
| "request_seq (PROC_RENAME a) = Some (rename_seq_args a)"
| "request_seq (PROC_LINK a) = Some (link_seq_args a)"
| "request_seq (PROC_SYMLINK a) = Some (create_seq_args a)"
| "request_seq (PROC_CREATE a) = Some (create_seq_args a)"
| "request_seq (PROC_PATHCONF a) = Some (pathconf_seq_args a)"
| "request_seq (PROC_STATFS a) = Some (statfs_seq_args a)"
| "request_seq (PROC_READLINK a) = Some (readlink_seq_args a)"
| "request_seq (PROC_READDIR a) = Some (readdir_seq_args a)"
| "request_seq (PROC_SERVER_CAPS a) = Some (caps_seq_args a)"
| "request_seq (PROC_DELEGRETURN a) = Some (delegreturn_seq_args a)"
| "request_seq (PROC_GETACL a) = Some (getacl_seq_args a)"
| "request_seq (PROC_SETACL a) = Some (setacl_seq_args a)"
| "request_seq (PROC_FS_LOCATIONS a) = Some (fsloc_seq_args a)"
| "request_seq (PROC_RELEASE_LOCKOWNER a) = None"
| "request_seq (PROC_SECINFO a) = Some (secinfo_seq_args a)"
| "request_seq (PROC_FSID_PRESENT a) = Some (fsidp_seq_args a)"
| "request_seq (PROC_DESTROY_SESSION a) = None"
| "request_seq (PROC_SEQUENCE a) = None"
| "request_seq (PROC_GET_LEASE_TIME a) = Some (lease_seq_args a)"
| "request_seq (PROC_RECLAIM_COMPLETE a) = Some (reclaim_seq_args a)"
| "request_seq (PROC_GETDEVICEINFO a) = Some (gd_seq_args a)"
| "request_seq (PROC_LAYOUTGET a) = Some (lg_seq_args a)"
| "request_seq (PROC_SECINFO_NO_NAME a) = Some (secinfo_nn_seq_args a)"
| "request_seq (PROC_TEST_STATEID a) = Some (test_seq_args a)"
| "request_seq (PROC_FREE_STATEID a) = Some (free_seq_args a)"
| "request_seq (PROC_BIND_CONN_TO_SESSION a) = None"
| "request_seq (PROC_DESTROY_CLIENTID a) = None"

primrec request_minor :: "nfs4_request \<Rightarrow> u32" where
  "request_minor (PROC_READ a) = nfs4_xdr_minorversion (pgio_seq_args a)"
| "request_minor (PROC_WRITE a) = nfs4_xdr_minorversion (pgio_seq_args a)"
| "request_minor (PROC_COMMIT a) = nfs4_xdr_minorversion (commit_seq_args a)"
| "request_minor (PROC_OPEN a) = nfs4_xdr_minorversion (open_seq_args a)"
| "request_minor (PROC_OPEN_CONFIRM a) = 0"
| "request_minor (PROC_OPEN_NOATTR a) = nfs4_xdr_minorversion (open_seq_args a)"
| "request_minor (PROC_OPEN_DOWNGRADE a) = nfs4_xdr_minorversion (close_seq_args a)"
| "request_minor (PROC_CLOSE a) = nfs4_xdr_minorversion (close_seq_args a)"
| "request_minor (PROC_SETATTR a) = nfs4_xdr_minorversion (setattr_seq_args a)"
| "request_minor (PROC_FSINFO a) = nfs4_xdr_minorversion (fsinfo_seq_args a)"
| "request_minor (PROC_RENEW a) = 0"
| "request_minor (PROC_SETCLIENTID a) = 0"
| "request_minor (PROC_SETCLIENTID_CONFIRM a) = 0"
| "request_minor (PROC_LOCK a) = nfs4_xdr_minorversion (lock_seq_args a)"
| "request_minor (PROC_LOCKT a) = nfs4_xdr_minorversion (lockt_seq_args a)"
| "request_minor (PROC_LOCKU a) = nfs4_xdr_minorversion (locku_seq_args a)"
| "request_minor (PROC_ACCESS a) = nfs4_xdr_minorversion (access_seq_args a)"
| "request_minor (PROC_GETATTR a) = nfs4_xdr_minorversion (getattr_seq_args a)"
| "request_minor (PROC_LOOKUP a) = nfs4_xdr_minorversion (lookup_seq_args a)"
| "request_minor (PROC_LOOKUP_ROOT a) = nfs4_xdr_minorversion (lookup_root_seq_args a)"
| "request_minor (PROC_CHAIN_LOOKUP a) = nfs4_xdr_minorversion (chain_seq_args a)"
| "request_minor (PROC_CHAIN_LOOKUP_OPEN a) = nfs4_xdr_minorversion (chain_open_seq_args a)"
| "request_minor (PROC_REMOVE a) = nfs4_xdr_minorversion (remove_seq_args a)"
| "request_minor (PROC_RENAME a) = nfs4_xdr_minorversion (rename_seq_args a)"
| "request_minor (PROC_LINK a) = nfs4_xdr_minorversion (link_seq_args a)"
| "request_minor (PROC_SYMLINK a) = nfs4_xdr_minorversion (create_seq_args a)"
| "request_minor (PROC_CREATE a) = nfs4_xdr_minorversion (create_seq_args a)"
| "request_minor (PROC_PATHCONF a) = nfs4_xdr_minorversion (pathconf_seq_args a)"
| "request_minor (PROC_STATFS a) = nfs4_xdr_minorversion (statfs_seq_args a)"
| "request_minor (PROC_READLINK a) = nfs4_xdr_minorversion (readlink_seq_args a)"
| "request_minor (PROC_READDIR a) = nfs4_xdr_minorversion (readdir_seq_args a)"
| "request_minor (PROC_SERVER_CAPS a) = nfs4_xdr_minorversion (caps_seq_args a)"
| "request_minor (PROC_DELEGRETURN a) = nfs4_xdr_minorversion (delegreturn_seq_args a)"
| "request_minor (PROC_GETACL a) = nfs4_xdr_minorversion (getacl_seq_args a)"
| "request_minor (PROC_SETACL a) = nfs4_xdr_minorversion (setacl_seq_args a)"
| "request_minor (PROC_FS_LOCATIONS a) = nfs4_xdr_minorversion (fsloc_seq_args a)"
| "request_minor (PROC_RELEASE_LOCKOWNER a) = 0"
| "request_minor (PROC_SECINFO a) = nfs4_xdr_minorversion (secinfo_seq_args a)"
| "request_minor (PROC_FSID_PRESENT a) = nfs4_xdr_minorversion (fsidp_seq_args a)"
| "request_minor (PROC_DESTROY_SESSION a) = sess_minor_version a"
| "request_minor (PROC_SEQUENCE a) = nfs4_xdr_minorversion a"
| "request_minor (PROC_GET_LEASE_TIME a) = nfs4_xdr_minorversion (lease_seq_args a)"
| "request_minor (PROC_RECLAIM_COMPLETE a) = nfs4_xdr_minorversion (reclaim_seq_args a)"
| "request_minor (PROC_GETDEVICEINFO a) = nfs4_xdr_minorversion (gd_seq_args a)"
| "request_minor (PROC_LAYOUTGET a) = nfs4_xdr_minorversion (lg_seq_args a)"
| "request_minor (PROC_SECINFO_NO_NAME a) = nfs4_xdr_minorversion (secinfo_nn_seq_args a)"
| "request_minor (PROC_TEST_STATEID a) = nfs4_xdr_minorversion (test_seq_args a)"
| "request_minor (PROC_FREE_STATEID a) = nfs4_xdr_minorversion (free_seq_args a)"
| "request_minor (PROC_BIND_CONN_TO_SESSION a) = cl_minor_version a"
| "request_minor (PROC_DESTROY_CLIENTID a) = cl_minor_version a"

primrec body_ops :: "'s kernel \<Rightarrow> nfs4_request \<Rightarrow> argop list" where
  "body_ops K (PROC_READ a) =
     [Putfh (fh_bytes (pgio_fh a)), Read (pgio_stateid a) (pgio_offset a) (pgio_count a)]"
| "body_ops K (PROC_WRITE a) =
     [Putfh (fh_bytes (pgio_fh a)), Write (pgio_stateid a) (pgio_offset a) (pgio_stable a)
     (take (unat (pgio_count a)) (drop (unat (pgio_pgbase a)) (pgio_pages a)))] @ (case
     pgio_bitmask a of None \<Rightarrow> [] | Some bm \<Rightarrow> [Getattr (bm3_words
     (bm_and bm nfs4_fattr_bitmap))])"
| "body_ops K (PROC_COMMIT a) =
     [Putfh (fh_bytes (commit_fh a)), Commit (commit_offset a) (commit_count a)]"
| "body_ops K (PROC_OPEN a) =
     [Putfh (fh_bytes (open_fh a)), Open (open_seqid a) (share_access (open_fmode a))
     (open_clientid a) (open_owner_bytes a) (openhow_of K a) (openclaim_of a), Getfh] @ (if
     open_access a \<noteq> 0 then [Access (open_access a)] else []) @ [Getattr (bm3_words
     (bm_and (open_bitmask a) (open_open_bitmap a)))]"
| "body_ops K (PROC_OPEN_CONFIRM a) =
     [Putfh (fh_bytes (oc_fh a)), Open_Confirm (oc_stateid a) (oc_seqid a)]"
| "body_ops K (PROC_OPEN_NOATTR a) =
     [Putfh (fh_bytes (open_fh a)), Open (open_seqid a) (share_access (open_fmode a))
     (open_clientid a) (open_owner_bytes a) (openhow_of K a) (openclaim_of a)] @ (if
     open_access a \<noteq> 0 then [Access (open_access a)] else []) @ [Getattr (bm3_words
     (bm_and (open_bitmask a) (open_open_bitmap a)))]"
| "body_ops K (PROC_OPEN_DOWNGRADE a) =
     [Putfh (fh_bytes (close_fh a)), Open_Downgrade (close_stateid a) (close_seqid a)
     (share_access (close_fmode a)), Getattr (bm3_words (bm_and (close_bitmask a)
     nfs4_fattr_bitmap))]"
| "body_ops K (PROC_CLOSE a) =
     [Putfh (fh_bytes (close_fh a)), Close (close_seqid a) (close_stateid a), Getattr
     (bm3_words (bm_and (close_bitmask a) nfs4_fattr_bitmap))]"
| "body_ops K (PROC_SETATTR a) =
     [Putfh (fh_bytes (setattr_fh a)), Setattr (setattr_stateid a) (attrs_bytes K
     (setattr_server a) (setattr_iap a) (setattr_label a)), Getattr (bm3_words (bm_and
     (setattr_bitmask a) nfs4_fattr_bitmap))]"
| "body_ops K (PROC_FSINFO a) =
     [Putfh (fh_bytes (fsinfo_fh a)), Getattr (bm3_words (bm_and (fsinfo_bitmask a)
     nfs4_fsinfo_bitmap))]"
| "body_ops K (PROC_RENEW a) =
     [Renew (cl_clientid a)]"
| "body_ops K (PROC_SETCLIENTID a) =
     [Setclientid (sc_verifier a) (take (unat (sc_name_len a)) (sc_name a)) (sc_prog a) (take
     (unat (sc_netid_len a)) (sc_netid a)) (take (unat (sc_uaddr_len a)) (sc_uaddr a))
     (sc_cb_ident a)]"
| "body_ops K (PROC_SETCLIENTID_CONFIRM a) =
     [Setclientid_Confirm (scr_clientid a) (scr_confirm a)]"
| "body_ops K (PROC_LOCK a) =
     [Putfh (fh_bytes (lock_fh a)), Lock (nfs4_lock_type (lock_fl a) (lock_block a))
     (lock_reclaim a) (fl_start (lock_fl a)) (nfs4_lock_length (lock_fl a)) (locker_of a)]"
| "body_ops K (PROC_LOCKT a) =
     [Putfh (fh_bytes (lockt_fh a)), Lockt (nfs4_lock_type (lockt_fl a) False) (fl_start
     (lockt_fl a)) (nfs4_lock_length (lockt_fl a)) (lo_clientid (lockt_owner a)) (lowner_bytes
     (lockt_owner a))]"
| "body_ops K (PROC_LOCKU a) =
     [Putfh (fh_bytes (locku_fh a)), Locku (nfs4_lock_type (locku_fl a) False) (locku_seqid a)
     (locku_stateid a) (fl_start (locku_fl a)) (nfs4_lock_length (locku_fl a))]"
| "body_ops K (PROC_ACCESS a) =
     [Putfh (fh_bytes (access_fh a)), Access (access_access a), Getattr (bm3_words (bm_and
     (access_bitmask a) nfs4_fattr_bitmap))]"
| "body_ops K (PROC_GETATTR a) =
     [Putfh (fh_bytes (getattr_fh a)), Getattr (bm3_words (bm_and (getattr_bitmask a)
     nfs4_fattr_bitmap))]"
| "body_ops K (PROC_LOOKUP a) =
     [Putfh (fh_bytes (lookup_dir_fh a)), Lookup (name_bytes (lookup_name a)), Getfh, Getattr
     (bm3_words (bm_and (lookup_bitmask a) nfs4_fattr_bitmap))]"
| "body_ops K (PROC_LOOKUP_ROOT a) =
     [Putrootfh, Getfh, Getattr (bm3_words (bm_and (lookup_root_bitmask a) nfs4_fattr_bitmap))]"
| "body_ops K (PROC_CHAIN_LOOKUP a) =
     [Putfh (fh_bytes (chain_dir_fh a))] @ chain_ops (chain_bitmask a) (chain_dchain_list a)"
| "body_ops K (PROC_CHAIN_LOOKUP_OPEN a) =
     [Putfh (fh_bytes (chain_open_dir_fh a))] @ chain_ops (chain_open_bitmask a)
     (chain_open_dchain_list a)"
| "body_ops K (PROC_REMOVE a) =
     [Putfh (fh_bytes (remove_fh a)), Remove (name_bytes (remove_name a))]"
| "body_ops K (PROC_RENAME a) =
     [Putfh (fh_bytes (rename_old_dir a)), Savefh, Putfh (fh_bytes (rename_new_dir a)), Rename
     (name_bytes (rename_old_name a)) (name_bytes (rename_new_name a))]"
| "body_ops K (PROC_LINK a) =
     [Putfh (fh_bytes (link_fh a)), Savefh, Putfh (fh_bytes (link_dir_fh a)), Link (name_bytes
     (link_name a)), Restorefh, Getattr (bm3_words (bm_and (link_bitmask a)
     nfs4_fattr_bitmap))]"
| "body_ops K (PROC_SYMLINK a) =
     [Putfh (fh_bytes (create_dir_fh a)), Create (createtype_of a) (name_bytes (create_name a))
     (attrs_bytes K (create_server a) (create_attrs a) (create_label a)), Getfh, Getattr
     (bm3_words (bm_and (create_bitmask a) nfs4_fattr_bitmap))]"
| "body_ops K (PROC_CREATE a) =
     [Putfh (fh_bytes (create_dir_fh a)), Create (createtype_of a) (name_bytes (create_name a))
     (attrs_bytes K (create_server a) (create_attrs a) (create_label a)), Getfh, Getattr
     (bm3_words (bm_and (create_bitmask a) nfs4_fattr_bitmap))]"
| "body_ops K (PROC_PATHCONF a) =
     [Putfh (fh_bytes (pathconf_fh a)), Getattr [fst (bm_and (pathconf_bitmask a)
     nfs4_pathconf_bitmap)]]"
| "body_ops K (PROC_STATFS a) =
     [Putfh (fh_bytes (statfs_fh a)), Getattr [fst (bm_and (statfs_bitmask a)
     nfs4_statfs_bitmap), fst (snd (bm_and (statfs_bitmask a) nfs4_statfs_bitmap))]]"
| "body_ops K (PROC_READLINK a) =
     [Putfh (fh_bytes (readlink_fh a)), Readlink]"
| "body_ops K (PROC_READDIR a) =
     [Putfh (fh_bytes (readdir_fh a)), Readdir (readdir_cookie a) (readdir_verifier a)
     (readdir_dircount a) (readdir_count a) (readdir_words a)]"
| "body_ops K (PROC_SERVER_CAPS a) =
     [Putfh (fh_bytes (caps_fhandle a)), Getattr [server_caps_bitmap]]"
| "body_ops K (PROC_DELEGRETURN a) =
     [Putfh (fh_bytes (delegreturn_fhandle a)), Getattr (bm3_words (bm_and (delegreturn_bitmask
     a) nfs4_fattr_bitmap)), Delegreturn (delegreturn_stateid a)]"
| "body_ops K (PROC_GETACL a) =
     [Putfh (fh_bytes (getacl_fh a)), Getattr [FATTR4_WORD0_ACL, 0]]"
| "body_ops K (PROC_SETACL a) =
     [Putfh (fh_bytes (setacl_fh a)), Setacl zero_stateid [FATTR4_WORD0_ACL] (take (unat
     (setacl_len a)) (drop (unat (setacl_pgbase a)) (setacl_pages a)))]"
| "body_ops K (PROC_FS_LOCATIONS a) =
     (if fsloc_migration a then [Putfh (fh_bytes (fsloc_fh a)), Getattr [fst (bm_and
     (fsloc_bitmask a) nfs4_fs_locations_bitmap), fst (snd (bm_and (fsloc_bitmask a)
     nfs4_fs_locations_bitmap))]] @ (if fsloc_renew a then [Renew (fsloc_clientid a)] else [])
     else [Putfh (fh_bytes (fsloc_dir_fh a)), Lookup (name_bytes (fsloc_name a)), Getattr [fst
     (bm_and (fsloc_bitmask a) nfs4_fs_locations_bitmap), fst (snd (bm_and (fsloc_bitmask a)
     nfs4_fs_locations_bitmap))]])"
| "body_ops K (PROC_RELEASE_LOCKOWNER a) =
     [Release_Lockowner (lo_clientid (rlo_lock_owner a)) (lowner_bytes (rlo_lock_owner a))]"
| "body_ops K (PROC_SECINFO a) =
     [Putfh (fh_bytes (secinfo_dir_fh a)), Secinfo (name_bytes (secinfo_name a))]"
| "body_ops K (PROC_FSID_PRESENT a) =
     [Putfh (fh_bytes (fsidp_fh a)), Getfh] @ (if fsidp_renew a then [Renew (fsidp_clientid a)]
     else [])"
| "body_ops K (PROC_DESTROY_SESSION a) =
     [Destroy_Session (sess_id a)]"
| "body_ops K (PROC_SEQUENCE a) =
     seq_ops a"
| "body_ops K (PROC_GET_LEASE_TIME a) =
     [Putrootfh, Getattr (bm3_words (bm_and (FATTR4_WORD0_LEASE_TIME, 0, 0)
     nfs4_fsinfo_bitmap))]"
| "body_ops K (PROC_RECLAIM_COMPLETE a) =
     [Reclaim_Complete (reclaim_one_fs a)]"
| "body_ops K (PROC_GETDEVICEINFO a) =
     [Getdeviceinfo (gd_dev_id a) (gd_layout_type a) (gd_maxcount a) [NOTIFY_DEVICEID4_CHANGE
     OR NOTIFY_DEVICEID4_DELETE]]"
| "body_ops K (PROC_LAYOUTGET a) =
     [Putfh (fh_bytes (lg_fh a)), Layoutget (lg_type a) (iomode (lg_range a)) (lr_offset
     (lg_range a)) (lr_length (lg_range a)) (lg_minlength a) (lg_stateid a) (lg_maxcount a)]"
| "body_ops K (PROC_SECINFO_NO_NAME a) =
     [Putrootfh, Secinfo_No_Name (secinfo_nn_style a)]"
| "body_ops K (PROC_TEST_STATEID a) =
     [Test_Stateid [test_stateid a]]"
| "body_ops K (PROC_FREE_STATEID a) =
     [Free_Stateid (free_stateid a)]"
| "body_ops K (PROC_BIND_CONN_TO_SESSION a) =
     (case cl_session a of Some ses \<Rightarrow> [Bind_Conn_To_Session (sess_id ses)
     NFS4_CDFC4_BACK_OR_BOTH False] | None \<Rightarrow> [])"
| "body_ops K (PROC_DESTROY_CLIENTID a) =
     [Destroy_Clientid (cl_clientid a)]"

primrec request_ok :: "'s kernel \<Rightarrow> nfs4_request \<Rightarrow> bool" where
  "request_ok K (PROC_READ a) \<longleftrightarrow>
     seq_ok (pgio_seq_args a) \<and> fh_ok (pgio_fh a) \<and> stateid_ok (pgio_stateid a)"
| "request_ok K (PROC_WRITE a) \<longleftrightarrow>
     seq_ok (pgio_seq_args a) \<and> fh_ok (pgio_fh a) \<and> stateid_ok (pgio_stateid a)
     \<and> unat (pgio_pgbase a) + unat (pgio_count a) \<le> length (pgio_pages a)"
| "request_ok K (PROC_COMMIT a) \<longleftrightarrow>
     seq_ok (commit_seq_args a) \<and> fh_ok (commit_fh a)"
| "request_ok K (PROC_OPEN a) \<longleftrightarrow>
     seq_ok (open_seq_args a) \<and> fh_ok (open_fh a) \<and> open_ok a"
| "request_ok K (PROC_OPEN_CONFIRM a) \<longleftrightarrow>
     fh_ok (oc_fh a) \<and> stateid_ok (oc_stateid a)"
| "request_ok K (PROC_OPEN_NOATTR a) \<longleftrightarrow>
     seq_ok (open_seq_args a) \<and> fh_ok (open_fh a) \<and> open_ok a"
| "request_ok K (PROC_OPEN_DOWNGRADE a) \<longleftrightarrow>
     seq_ok (close_seq_args a) \<and> fh_ok (close_fh a) \<and> stateid_ok (close_stateid a)"
| "request_ok K (PROC_CLOSE a) \<longleftrightarrow>
     seq_ok (close_seq_args a) \<and> fh_ok (close_fh a) \<and> stateid_ok (close_stateid a)"
| "request_ok K (PROC_SETATTR a) \<longleftrightarrow>
     seq_ok (setattr_seq_args a) \<and> fh_ok (setattr_fh a) \<and> stateid_ok (setattr_stateid
     a) \<and> label_ok (setattr_label a)"
| "request_ok K (PROC_FSINFO a) \<longleftrightarrow>
     seq_ok (fsinfo_seq_args a) \<and> fh_ok (fsinfo_fh a)"
| "request_ok K (PROC_RENEW a) \<longleftrightarrow>
     True"
| "request_ok K (PROC_SETCLIENTID a) \<longleftrightarrow>
     setclientid_ok K a"
| "request_ok K (PROC_SETCLIENTID_CONFIRM a) \<longleftrightarrow>
     length (scr_confirm a) = NFS4_VERIFIER_SIZE"
| "request_ok K (PROC_LOCK a) \<longleftrightarrow>
     seq_ok (lock_seq_args a) \<and> fh_ok (lock_fh a) \<and> lock_ok a"
| "request_ok K (PROC_LOCKT a) \<longleftrightarrow>
     seq_ok (lockt_seq_args a) \<and> fh_ok (lockt_fh a)"
| "request_ok K (PROC_LOCKU a) \<longleftrightarrow>
     seq_ok (locku_seq_args a) \<and> fh_ok (locku_fh a) \<and> stateid_ok (locku_stateid a)"
| "request_ok K (PROC_ACCESS a) \<longleftrightarrow>
     seq_ok (access_seq_args a) \<and> fh_ok (access_fh a)"
| "request_ok K (PROC_GETATTR a) \<longleftrightarrow>
     seq_ok (getattr_seq_args a) \<and> fh_ok (getattr_fh a)"
| "request_ok K (PROC_LOOKUP a) \<longleftrightarrow>
     seq_ok (lookup_seq_args a) \<and> fh_ok (lookup_dir_fh a) \<and> name_ok (lookup_name a)"
| "request_ok K (PROC_LOOKUP_ROOT a) \<longleftrightarrow>
     seq_ok (lookup_root_seq_args a)"
| "request_ok K (PROC_CHAIN_LOOKUP a) \<longleftrightarrow>
     seq_ok (chain_seq_args a) \<and> fh_ok (chain_dir_fh a) \<and> list_all name_ok
     (chain_dchain_list a)"
| "request_ok K (PROC_CHAIN_LOOKUP_OPEN a) \<longleftrightarrow>
     seq_ok (chain_open_seq_args a) \<and> fh_ok (chain_open_dir_fh a) \<and> list_all name_ok
     (chain_open_dchain_list a)"
| "request_ok K (PROC_REMOVE a) \<longleftrightarrow>
     seq_ok (remove_seq_args a) \<and> fh_ok (remove_fh a) \<and> name_ok (remove_name a)"
| "request_ok K (PROC_RENAME a) \<longleftrightarrow>
     seq_ok (rename_seq_args a) \<and> fh_ok (rename_old_dir a) \<and> fh_ok (rename_new_dir a)
     \<and> name_ok (rename_old_name a) \<and> name_ok (rename_new_name a)"
| "request_ok K (PROC_LINK a) \<longleftrightarrow>
     seq_ok (link_seq_args a) \<and> fh_ok (link_fh a) \<and> fh_ok (link_dir_fh a) \<and>
     name_ok (link_name a)"
| "request_ok K (PROC_SYMLINK a) \<longleftrightarrow>
     seq_ok (create_seq_args a) \<and> fh_ok (create_dir_fh a) \<and> create_ok a"
| "request_ok K (PROC_CREATE a) \<longleftrightarrow>
     seq_ok (create_seq_args a) \<and> fh_ok (create_dir_fh a) \<and> create_ok a"
| "request_ok K (PROC_PATHCONF a) \<longleftrightarrow>
     seq_ok (pathconf_seq_args a) \<and> fh_ok (pathconf_fh a)"
| "request_ok K (PROC_STATFS a) \<longleftrightarrow>
     seq_ok (statfs_seq_args a) \<and> fh_ok (statfs_fh a)"
| "request_ok K (PROC_READLINK a) \<longleftrightarrow>
     seq_ok (readlink_seq_args a) \<and> fh_ok (readlink_fh a)"
| "request_ok K (PROC_READDIR a) \<longleftrightarrow>
     seq_ok (readdir_seq_args a) \<and> fh_ok (readdir_fh a) \<and> length (readdir_verifier a)
     = NFS4_VERIFIER_SIZE"
| "request_ok K (PROC_SERVER_CAPS a) \<longleftrightarrow>
     seq_ok (caps_seq_args a) \<and> fh_ok (caps_fhandle a)"
| "request_ok K (PROC_DELEGRETURN a) \<longleftrightarrow>
     seq_ok (delegreturn_seq_args a) \<and> fh_ok (delegreturn_fhandle a) \<and> stateid_ok
     (delegreturn_stateid a)"
| "request_ok K (PROC_GETACL a) \<longleftrightarrow>
     seq_ok (getacl_seq_args a) \<and> fh_ok (getacl_fh a)"
| "request_ok K (PROC_SETACL a) \<longleftrightarrow>
     seq_ok (setacl_seq_args a) \<and> fh_ok (setacl_fh a) \<and> unat (setacl_pgbase a) + unat
     (setacl_len a) \<le> length (setacl_pages a)"
| "request_ok K (PROC_FS_LOCATIONS a) \<longleftrightarrow>
     seq_ok (fsloc_seq_args a) \<and> (if fsloc_migration a then fh_ok (fsloc_fh a) else fh_ok
     (fsloc_dir_fh a) \<and> name_ok (fsloc_name a))"
| "request_ok K (PROC_RELEASE_LOCKOWNER a) \<longleftrightarrow>
     True"
| "request_ok K (PROC_SECINFO a) \<longleftrightarrow>
     seq_ok (secinfo_seq_args a) \<and> fh_ok (secinfo_dir_fh a) \<and> name_ok (secinfo_name
     a)"
| "request_ok K (PROC_FSID_PRESENT a) \<longleftrightarrow>
     seq_ok (fsidp_seq_args a) \<and> fh_ok (fsidp_fh a)"
| "request_ok K (PROC_DESTROY_SESSION a) \<longleftrightarrow>
     length (sess_id a) = NFS4_MAX_SESSIONID_LEN"
| "request_ok K (PROC_SEQUENCE a) \<longleftrightarrow>
     seq_ok a"
| "request_ok K (PROC_GET_LEASE_TIME a) \<longleftrightarrow>
     seq_ok (lease_seq_args a)"
| "request_ok K (PROC_RECLAIM_COMPLETE a) \<longleftrightarrow>
     seq_ok (reclaim_seq_args a)"
| "request_ok K (PROC_GETDEVICEINFO a) \<longleftrightarrow>
     seq_ok (gd_seq_args a) \<and> length (gd_dev_id a) = NFS4_DEVICEID4_SIZE"
| "request_ok K (PROC_LAYOUTGET a) \<longleftrightarrow>
     seq_ok (lg_seq_args a) \<and> fh_ok (lg_fh a) \<and> stateid_ok (lg_stateid a)"
| "request_ok K (PROC_SECINFO_NO_NAME a) \<longleftrightarrow>
     seq_ok (secinfo_nn_seq_args a)"
| "request_ok K (PROC_TEST_STATEID a) \<longleftrightarrow>
     seq_ok (test_seq_args a) \<and> stateid_ok (test_stateid a)"
| "request_ok K (PROC_FREE_STATEID a) \<longleftrightarrow>
     seq_ok (free_seq_args a) \<and> stateid_ok (free_stateid a)"
| "request_ok K (PROC_BIND_CONN_TO_SESSION a) \<longleftrightarrow>
     (case cl_session a of Some ses \<Rightarrow> length (sess_id ses) = NFS4_MAX_SESSIONID_LEN
     | None \<Rightarrow> False)"
| "request_ok K (PROC_DESTROY_CLIENTID a) \<longleftrightarrow>
     True"

definition request_ops :: "'s kernel \<Rightarrow> nfs4_request \<Rightarrow> argop list" where
  "request_ops K r = (case request_seq r of None \<Rightarrow> [] | Some a \<Rightarrow> seq_ops a) @ body_ops K r"


section \<open>The refinement\<close>

text \<open>Statements ending with \<^verbatim>\<open>encode_nops\<close>.\<close>

definition sends_nops :: "('s \<Rightarrow> nat) \<Rightarrow> 's encoder list \<Rightarrow> bytes \<Rightarrow> nat \<Rightarrow> u32 \<Rightarrow> bool" where
  "sends_nops avail fs bs k n \<longleftrightarrow>
     (\<exists>gs r. fs = gs @ [encode_nops] \<and> sends avail (run gs) bs k n r)"

lemma sends_nops_Nil: "sends_nops avail [encode_nops] [] 0 0"
  unfolding sends_nops_def using sends_run_Nil by fastforce

lemma sends_nops_Cons:
  assumes "sends avail f b k n r" and "sends_nops avail fs bs ks ns"
  shows "sends_nops avail (f # fs) (b @ bs) (k + ks) (n + ns)"
proof -
  obtain gs rs where "fs = gs @ [encode_nops]" "sends avail (run gs) bs ks ns rs"
    using assms(2) by (auto simp: sends_nops_def)
  then show ?thesis
    unfolding sends_nops_def using sends_run_Cons [OF assms(1)]
    by (metis append_Cons)
qed

text \<open>\<open>encodes avail f s m ops\<close>: \<open>f\<close> succeeds on \<open>s\<close>, and the request \<open>m\<close>, \<open>ops\<close> is what it adds to the message.\<close>

definition encodes :: "'s encoder \<Rightarrow> 's enc \<Rightarrow> u32 \<Rightarrow> argop list \<Rightarrow> bool" where
  "encodes f s m ops \<longleftrightarrow>
     (\<exists>t. f s = Inr t \<and> message t = xbuf s @ compound_bytes m ops \<and> nops (hdr t) = of_nat (length ops))"

lemma encodes_plain:
  assumes "xdr_env K avail" and "xpages s = []"
    and "sends_nops avail fs bs k n" and "bs = ops_bytes ops" and "n = of_nat (length ops)" and "12 + k \<le> avail (strm s)"
  shows "encodes (run (start_hdr m # encode_compound_hdr K req # fs)) s m ops"
proof -
  obtain gs r where gs: "fs = gs @ [encode_nops]" "sends avail (run gs) bs k n r"
    using assms(3) by (auto simp: sends_nops_def)
  show ?thesis
    using compound_frame [OF assms(1) gs(2) assms(6,2), of m req] assms(4,5)
    by (metis (no_types, lifting) compound_bytes_def encodes_def gs(1))
qed

lemma encodes_seq:
  assumes "xdr_env K avail" and "xpages s = []" and "seq_ok sa"
    and "sends_nops avail fs bs k n" and "bs = ops_bytes ops" and "n = of_nat (length ops)"
    and "12 + (length (ops_bytes (seq_ops sa)) + k) \<le> avail (strm s)"
  shows "encodes (run (start_hdr m # encode_compound_hdr K req # encode_sequence K sa # fs)) s m (seq_ops sa @ ops)"
  using sends_nops_Cons [OF sends_writes [OF writes_sequence [OF assms(1,3)]] assms(4)] assms
  by (intro encodes_plain [OF assms(1,2)]) auto

text \<open>The room a request needs: its bytes, and one unit more when it pads page data.\<close>

definition request_room :: "'s kernel \<Rightarrow> nfs4_request \<Rightarrow> nat" where
  "request_room K r = length (compound_bytes (request_minor r) (request_ops K r)) +
     (case r of PROC_WRITE a \<Rightarrow> 4 | PROC_SETACL a \<Rightarrow> 4 | PROC_CREATE a \<Rightarrow> 4 | PROC_SYMLINK a \<Rightarrow> 4 | _ \<Rightarrow> 0)"

lemma encodes_body:
  assumes "xdr_env K avail" and "xpages s = []" and "request_seq r = Some sa" and "seq_ok sa"
    and "request_room K r \<le> avail (strm s)"
    and "sends_nops avail fs bs k n" and "bs = ops_bytes (body_ops K r)" and "n = of_nat (length (body_ops K r))"
    and "12 + (length (ops_bytes (seq_ops sa)) + k) \<le> request_room K r"
  shows "encodes (run (start_hdr m # encode_compound_hdr K req # encode_sequence K sa # fs)) s m (request_ops K r)"
  using encodes_seq [OF assms(1,2,4,6,7,8), of m req] assms(3,5,9) by (simp add: request_ops_def)

lemmas op_writes =
  access_op.enc_writes close_op.enc_writes commit_op.enc_writes getfh_op.enc_writes putrootfh_op.enc_writes
  readlink_op.enc_writes restorefh_op.enc_writes savefh_op.enc_writes link_op.enc_writes lookup_op.enc_writes
  remove_op.enc_writes secinfo_op.enc_writes rename_op.enc_writes [of _ _ "(a, b)" for a b, unfolded fst_conv snd_conv]
  putfh_op.enc_writes open_confirm_op.enc_writes
  open_downgrade_op.enc_writes read_op.enc_writes renew_op.enc_writes delegreturn_op.enc_writes
  free_stateid_op.enc_writes test_stateid_op.enc_writes secinfo_no_name_op.enc_writes
  destroy_clientid_op.enc_writes reclaim_complete_op.enc_writes setclientid_confirm_op.enc_writes
  locku_op.enc_writes layoutget_op.enc_writes destroy_session_op.enc_writes
  bind_conn_to_session_op.enc_writes getattr_one_op.enc_writes getattr_two_op.enc_writes [of _ _ "(a, b)" for a b, unfolded fst_conv snd_conv]
  writes_getfattr writes_getfattr_open writes_fsinfo writes_fs_locations lock_op.enc_writes lockt_op.enc_writes
  release_lockowner_op.enc_writes open_op.enc_writes setattr_op.enc_writes [of _ _ "(a, b)" for a b, unfolded fst_conv snd_conv]
  setclientid_op.enc_writes
  readdir_op.enc_writes getdeviceinfo_op.enc_writes

lemmas sends_ops = op_writes [THEN sends_writes] sends_page_marks sends_setacl sends_write

lemma sends_if:
  assumes "P \<Longrightarrow> sends avail f b k n r" and "\<not> P \<Longrightarrow> sends avail g b' k' n' r'"
  shows "sends avail (if P then f else g) (if P then b else b') (if P then k else k') (if P then n else n')
           (if P then r else r')"
  using assms by simp

lemma sends_option:
  assumes "x = None \<Longrightarrow> sends avail f b k n r" and "\<And>y. x = Some y \<Longrightarrow> sends avail (g y) (b' y) (k' y) (n' y) (r' y)"
  shows "sends avail (case x of None \<Rightarrow> f | Some y \<Rightarrow> g y) (case x of None \<Rightarrow> b | Some y \<Rightarrow> b' y)
           (case x of None \<Rightarrow> k | Some y \<Rightarrow> k' y) (case x of None \<Rightarrow> n | Some y \<Rightarrow> n' y)
           (case x of None \<Rightarrow> r | Some y \<Rightarrow> r' y)"
  using assms by (cases x) auto

section \<open>The refinement theorem\<close>

lemmas request_encoders =
  nfs4_xdr_enc_access_def nfs4_xdr_enc_bind_conn_to_session_def nfs4_xdr_enc_chain_lookup_def
  nfs4_xdr_enc_chain_lookup_open_def nfs4_xdr_enc_close_def nfs4_xdr_enc_commit_def
  nfs4_xdr_enc_create_def nfs4_xdr_enc_delegreturn_def nfs4_xdr_enc_destroy_clientid_def
  nfs4_xdr_enc_destroy_session_def nfs4_xdr_enc_free_stateid_def nfs4_xdr_enc_fs_locations_def
  nfs4_xdr_enc_fsid_present_def nfs4_xdr_enc_fsinfo_def nfs4_xdr_enc_get_lease_time_def
  nfs4_xdr_enc_getacl_def nfs4_xdr_enc_getattr_def nfs4_xdr_enc_getdeviceinfo_def
  nfs4_xdr_enc_layoutget_def nfs4_xdr_enc_link_def nfs4_xdr_enc_lock_def nfs4_xdr_enc_lockt_def
  nfs4_xdr_enc_locku_def nfs4_xdr_enc_lookup_def nfs4_xdr_enc_lookup_root_def
  nfs4_xdr_enc_open_confirm_def nfs4_xdr_enc_open_def nfs4_xdr_enc_open_downgrade_def
  nfs4_xdr_enc_open_noattr_def nfs4_xdr_enc_pathconf_def nfs4_xdr_enc_read_def
  nfs4_xdr_enc_readdir_def nfs4_xdr_enc_readlink_def nfs4_xdr_enc_reclaim_complete_def
  nfs4_xdr_enc_release_lockowner_def nfs4_xdr_enc_remove_def nfs4_xdr_enc_rename_def
  nfs4_xdr_enc_renew_def nfs4_xdr_enc_secinfo_def nfs4_xdr_enc_secinfo_no_name_def
  nfs4_xdr_enc_sequence_def nfs4_xdr_enc_server_caps_def nfs4_xdr_enc_setacl_def
  nfs4_xdr_enc_setattr_def nfs4_xdr_enc_setclientid_confirm_def nfs4_xdr_enc_setclientid_def
  nfs4_xdr_enc_statfs_def nfs4_xdr_enc_symlink_def nfs4_xdr_enc_test_stateid_def
  nfs4_xdr_enc_write_def

lemmas nops_intros = sends_nops_Nil sends_nops_Cons sends_ops sends_with_replen sends_run_Cons sends_run_Nil
  sends_if sends_option

subsection \<open>The chained lookups\<close>

lemma writes_chain_ops:
  assumes K: "xdr_env K avail" and "list_all name_ok names"
  shows "writes avail
     (run (concat (map (\<lambda>nm. [encode_lookup K nm, encode_getfh K, encode_getfattr K bm]) names)))
     (ops_bytes (chain_ops bm names)) (of_nat (length (chain_ops bm names)))
     (of_nat (length names * (decode_lookup_maxsz K + decode_getfh_maxsz K + decode_getattr_maxsz K)))"
  using assms(2)
proof (induction names)
  case Nil
  show ?case using writes_run_Nil by (simp add: chain_ops_def del: run.simps)
next
  case (Cons nm names)
  then have nm: "name_ok nm" and IH: "writes avail
      (run (concat (map (\<lambda>nm. [encode_lookup K nm, encode_getfh K, encode_getfattr K bm]) names)))
      (ops_bytes (chain_ops bm names)) (of_nat (length (chain_ops bm names)))
      (of_nat (length names * (decode_lookup_maxsz K + decode_getfh_maxsz K + decode_getattr_maxsz K)))"
    by auto
  show ?case
    unfolding list.map concat.simps append.simps
    by (rule writes_cong, rule writes_run_Cons [OF lookup_op.enc_writes [OF K nm]
          writes_run_Cons [OF getfh_op.enc_writes [OF K TrueI]
          writes_run_Cons [OF writes_getfattr [OF K] IH]]])
      (simp_all add: chain_ops_def algebra_simps)
qed

lemma sends_nops_append:
  assumes "writes avail (run gs) b n r" and "sends_nops avail fs bs ks ns"
  shows "sends_nops avail (gs @ fs) (b @ bs) (length b + ks) (n + ns)"
proof -
  obtain hs rs where hs: "fs = hs @ [encode_nops]" "sends avail (run hs) bs ks ns rs"
    using assms(2) by (auto simp: sends_nops_def)
  have "run (gs @ hs) = run [run gs, run hs]"
    by (rule ext) (simp add: run_append split: sum.splits)
  then have "sends avail (run (gs @ hs)) (b @ bs @ []) (length b + (ks + 0)) (n + (ns + 0)) (r + (rs + 0))"
    using sends_run_Cons [OF sends_writes [OF assms(1)] sends_run_Cons [OF hs(2) sends_run_Nil]]
    by (simp del: run.simps run_single)
  with hs(1) show ?thesis
    unfolding sends_nops_def by (intro exI [where x = "gs @ hs"]) auto
qed

lemma encodes_chain:
  assumes "xdr_env K avail" and "xpages s = []" and "request_ok K r" and "request_room K r \<le> avail (strm s)"
  shows "r = PROC_CHAIN_LOOKUP a \<Longrightarrow> encodes (p_encode K req r) s (request_minor r) (request_ops K r)"
    and "r = PROC_CHAIN_LOOKUP_OPEN b \<Longrightarrow> encodes (p_encode K req r) s (request_minor r) (request_ops K r)"
  using assms
  by - (hypsubst, unfold p_encode.simps nfs4_xdr_enc_chain_lookup_def nfs4_xdr_enc_chain_lookup_open_def
      request_minor.simps append.simps, rule encodes_body, assumption, assumption, (rule request_seq.simps
        nops_intros sends_nops_append [OF writes_chain_ops] | assumption |
      (simp add: request_room_def compound_bytes_def request_ops_def; fail))+)+

subsection \<open>The other special cases\<close>

lemma encodes_create:
  assumes K: "xdr_env K avail" and "xpages s = []" and ok: "request_ok K r"
    and room: "request_room K r \<le> avail (strm s)" and r: "r = PROC_CREATE a \<or> r = PROC_SYMLINK a"
  shows "encodes (p_encode K req r) s (request_minor r) (request_ops K r)"
proof -
  let ?op = "Create (createtype_of a) (name_bytes (create_name a))
               (attrs_bytes K (create_server a) (create_attrs a) (create_label a))"
  from ok r have ok': "create_ok a" "fh_ok (create_dir_fh a)" "seq_ok (create_seq_args a)" by auto
  obtain k where k: "k \<le> length (argop_bytes ?op) + 4"
      "sends avail (encode_create K a) (argop_bytes ?op) k 1 (of_nat (decode_create_maxsz K))"
    using sends_create [OF K ok'(1)] by blast
  have "p_encode K req r = nfs4_xdr_enc_create K req a" "request_minor r = nfs4_xdr_minorversion (create_seq_args a)"
    using r by (auto simp: nfs4_xdr_enc_symlink_def)
  moreover have "encodes (nfs4_xdr_enc_create K req a) s (nfs4_xdr_minorversion (create_seq_args a)) (request_ops K r)"
    unfolding nfs4_xdr_enc_create_def using assms(1,2) room ok' k r
    by - (rule encodes_body, assumption, assumption, (rule k nops_intros | assumption |
        (auto simp: request_room_def compound_bytes_def request_ops_def simp del: argop_bytes.simps; fail))+)
  ultimately show ?thesis by simp
qed

lemma encodes_session:
  assumes "xdr_env K avail" and "xpages s = []" and "request_ok K r" and "request_room K r \<le> avail (strm s)"
  shows "r = PROC_SEQUENCE a \<Longrightarrow> encodes (p_encode K req r) s (request_minor r) (request_ops K r)"
    and "r = PROC_BIND_CONN_TO_SESSION b \<Longrightarrow> encodes (p_encode K req r) s (request_minor r) (request_ops K r)"
proof -
  assume r: "r = PROC_SEQUENCE a"
  with assms encodes_seq [OF assms(1,2), of a "[encode_nops]" "[]" 0 0 "[]" "nfs4_xdr_minorversion a" req]
  show "encodes (p_encode K req r) s (request_minor r) (request_ops K r)"
    by (simp add: nfs4_xdr_enc_sequence_def request_room_def compound_bytes_def request_ops_def sends_nops_Nil
        del: run.simps)
next
  assume r: "r = PROC_BIND_CONN_TO_SESSION b"
  with assms(3) obtain ses where ses: "cl_session b = Some ses" "length (sess_id ses) = NFS4_MAX_SESSIONID_LEN"
    by (auto split: option.splits)
  show "encodes (p_encode K req r) s (request_minor r) (request_ops K r)"
    unfolding r p_encode.simps nfs4_xdr_enc_bind_conn_to_session_def ses option.case request_minor.simps
    by (rule encodes_plain [OF assms(1,2)], (rule nops_intros assms(1) |
        (use assms ses r in \<open>simp add: request_room_def compound_bytes_def request_ops_def\<close>; fail))+)
qed

theorem p_encode_encodes:
  assumes "xdr_env K avail" and "xpages s = []" and "request_ok K r"
    and "request_room K r \<le> avail (strm s)"
  shows "encodes (p_encode K req r) s (request_minor r) (request_ops K r)"
proof (cases r)
  case (PROC_CHAIN_LOOKUP a) then show ?thesis by (rule encodes_chain(1) [OF assms])
next
  case (PROC_CHAIN_LOOKUP_OPEN a) then show ?thesis by (rule encodes_chain(2) [OF assms])
next
  case (PROC_SYMLINK a) then show ?thesis by (intro encodes_create [OF assms] disjI2)
next
  case (PROC_CREATE a) then show ?thesis by (intro encodes_create [OF assms] disjI1)
next
  case (PROC_SEQUENCE a) then show ?thesis by (rule encodes_session(1) [OF assms])
next
  case (PROC_BIND_CONN_TO_SESSION a) then show ?thesis by (rule encodes_session(2) [OF assms])
qed (insert assms, (hypsubst, unfold p_encode.simps request_encoders request_ok.simps request_minor.simps Let_def,
      rule encodes_body encodes_plain, assumption, assumption, (rule request_seq.simps nops_intros | assumption |
      (simp add: request_room_def compound_bytes_def request_ops_def stateid_ok_def zero_stateid_def
        split: option.split; fail))+)+)

section \<open>The buffers are large enough\<close>

text \<open>
  The RPC layer allocates \<open>4 * p_arglen\<close> bytes for the operations of a request. For the procedures
  of \<open>sized\<close> that is enough for every well-formed argument. Outside it are the lock requests and
  SETCLIENTID, whose macros count too few words, the requests that send page data, and the chained
  lookups, whose buffer is scaled with the length of the chain.
\<close>

primrec sized :: "nfs4_request \<Rightarrow> bool" where
  "sized (PROC_READ a) = True"
| "sized (PROC_WRITE a) = False"
| "sized (PROC_COMMIT a) = True"
| "sized (PROC_OPEN a) = True"
| "sized (PROC_OPEN_CONFIRM a) = True"
| "sized (PROC_OPEN_NOATTR a) = True"
| "sized (PROC_OPEN_DOWNGRADE a) = True"
| "sized (PROC_CLOSE a) = True"
| "sized (PROC_SETATTR a) = True"
| "sized (PROC_FSINFO a) = True"
| "sized (PROC_RENEW a) = True"
| "sized (PROC_SETCLIENTID a) = False"
| "sized (PROC_SETCLIENTID_CONFIRM a) = True"
| "sized (PROC_LOCK a) = False"
| "sized (PROC_LOCKT a) = False"
| "sized (PROC_LOCKU a) = True"
| "sized (PROC_ACCESS a) = True"
| "sized (PROC_GETATTR a) = True"
| "sized (PROC_LOOKUP a) = True"
| "sized (PROC_LOOKUP_ROOT a) = True"
| "sized (PROC_CHAIN_LOOKUP a) = False"
| "sized (PROC_CHAIN_LOOKUP_OPEN a) = False"
| "sized (PROC_REMOVE a) = True"
| "sized (PROC_RENAME a) = True"
| "sized (PROC_LINK a) = True"
| "sized (PROC_SYMLINK a) = False"
| "sized (PROC_CREATE a) = False"
| "sized (PROC_PATHCONF a) = True"
| "sized (PROC_STATFS a) = True"
| "sized (PROC_READLINK a) = True"
| "sized (PROC_READDIR a) = True"
| "sized (PROC_SERVER_CAPS a) = True"
| "sized (PROC_DELEGRETURN a) = True"
| "sized (PROC_GETACL a) = True"
| "sized (PROC_SETACL a) = False"
| "sized (PROC_FS_LOCATIONS a) = True"
| "sized (PROC_RELEASE_LOCKOWNER a) = False"
| "sized (PROC_SECINFO a) = True"
| "sized (PROC_FSID_PRESENT a) = True"
| "sized (PROC_DESTROY_SESSION a) = True"
| "sized (PROC_SEQUENCE a) = True"
| "sized (PROC_GET_LEASE_TIME a) = True"
| "sized (PROC_RECLAIM_COMPLETE a) = True"
| "sized (PROC_GETDEVICEINFO a) = True"
| "sized (PROC_LAYOUTGET a) = True"
| "sized (PROC_SECINFO_NO_NAME a) = True"
| "sized (PROC_TEST_STATEID a) = True"
| "sized (PROC_FREE_STATEID a) = True"
| "sized (PROC_BIND_CONN_TO_SESSION a) = True"
| "sized (PROC_DESTROY_CLIENTID a) = True"

lemma attrs_bytes_slack:
  assumes "xdr_env K avail" and "label_ok lab"
  shows "length (attrs_bytes K sv iap lab) + 24 \<le> 4 * encode_attrs_maxsz K"
proof -
  have "length (attrs_bytes K sv iap lab) + 24 \<le> 8 + 12 + (64 + 2 * quad (IDMAP_NAMESZ K) + 4 * XDR_QUADLEN NFS4_MAXLABELLEN) + 24"
    using length_attrs_bytes [OF assms, of sv iap] attrs_size_bound [OF assms, of sv iap]
      attrs_bmval_len_bound [of "attrs_bmval iap lab"] by linarith
  also have "\<dots> \<le> 4 * encode_attrs_maxsz K"
    by (simp add: maxsz_defs quad_def)
  finally show ?thesis .
qed

text \<open>OPEN fits although the macro counts only the smallest claim: the spare words of the
  attributes make up for the state id of a delegation claim.\<close>

lemma open_wire_maxsz:
  assumes K: "xdr_env K avail" and ok: "open_ok a"
  shows "length (argop_bytes (Open (open_seqid a) (share_access (open_fmode a)) (open_clientid a)
           (open_owner_bytes a) (openhow_of K a) (openclaim_of a))) \<le> 4 * encode_open_maxsz K"
proof -
  have how: "length (openhow_bytes (openhow_of K a)) + 24 \<le> 4 * (4 + encode_attrs_maxsz K)"
  proof (cases "open_flags a AND O_CREAT = 0")
    case True
    then show ?thesis by (simp add: openhow_of_def maxsz_defs)
  next
    case False
    with ok have "label_ok (open_label a)" "length (open_verifier a) = NFS4_VERIFIER_SIZE"
      by (auto simp: open_ok_def openhow_ok_def)
    moreover have "24 \<le> 4 * encode_attrs_maxsz K" by (simp add: maxsz_defs)
    ultimately show ?thesis
      using False attrs_bytes_slack [OF K, of "open_label a" "open_server a" "open_attrs a"]
        attrs_bytes_slack [OF K, of "open_label a" "open_server a" dummy_iattr]
      by (auto simp: openhow_of_def Let_def)
  qed
  have claim: "length (openclaim_bytes (openclaim_of a)) \<le> 4 * (1 + 4 + nfs4_name_maxsz K)"
    using ok quad_name [of "open_name a"]
    by (auto simp: open_ok_def openclaim_ok_def openclaim_of_def stateid_ok_def nfs4_name_maxsz_def)
  have "length (open_owner_bytes a) = 24" by (simp add: open_owner_bytes_def)
  with how claim show ?thesis
    by (simp add: encode_open_maxsz_def encode_opentype_maxsz_def encode_createmode_maxsz_def
        encode_claim_null_maxsz_def op_encode_hdr_maxsz_def encode_share_access_maxsz_def
        open_owner_id_maxsz_def encode_verifier_maxsz_def XDR_QUADLEN_def)
qed

lemma ops_le_Nil: "length (ops_bytes []) \<le> 4 * 0"
  by simp

lemma ops_le_Cons:
  "length (argop_bytes a) \<le> 4 * x \<Longrightarrow> length (ops_bytes as) \<le> 4 * y \<Longrightarrow> length (ops_bytes (a # as)) \<le> 4 * (x + y)"
  by simp

lemma ops_le_append:
  "length (ops_bytes as) \<le> 4 * x \<Longrightarrow> length (ops_bytes bs) \<le> 4 * y \<Longrightarrow> length (ops_bytes (as @ bs)) \<le> 4 * (x + y)"
  by simp

lemma ops_le_if:
  "(P \<Longrightarrow> length (ops_bytes as) \<le> 4 * x) \<Longrightarrow> (\<not> P \<Longrightarrow> length (ops_bytes bs) \<le> 4 * y) \<Longrightarrow>
   length (ops_bytes (if P then as else bs)) \<le> 4 * (if P then x else y)"
  by simp

lemma ops_le_option:
  "(x = None \<Longrightarrow> length (ops_bytes as) \<le> 4 * m) \<Longrightarrow> (\<And>y. x = Some y \<Longrightarrow> length (ops_bytes (bs y)) \<le> 4 * n y) \<Longrightarrow>
   length (ops_bytes (case x of None \<Rightarrow> as | Some y \<Rightarrow> bs y)) \<le> 4 * (case x of None \<Rightarrow> m | Some y \<Rightarrow> n y)"
  by (cases x) simp_all

lemmas op_maxsz =
  access_op.wire_maxsz close_op.wire_maxsz commit_op.wire_maxsz getfh_op.wire_maxsz putrootfh_op.wire_maxsz
  readlink_op.wire_maxsz restorefh_op.wire_maxsz savefh_op.wire_maxsz link_op.wire_maxsz lookup_op.wire_maxsz
  remove_op.wire_maxsz secinfo_op.wire_maxsz rename_op.wire_maxsz [of _ _ "(a, b)" for a b, unfolded fst_conv snd_conv]
  putfh_op.wire_maxsz open_confirm_op.wire_maxsz
  open_downgrade_op.wire_maxsz read_op.wire_maxsz renew_op.wire_maxsz delegreturn_op.wire_maxsz
  free_stateid_op.wire_maxsz test_stateid_op.wire_maxsz secinfo_no_name_op.wire_maxsz
  destroy_clientid_op.wire_maxsz reclaim_complete_op.wire_maxsz setclientid_confirm_op.wire_maxsz
  locku_op.wire_maxsz layoutget_op.wire_maxsz destroy_session_op.wire_maxsz
  bind_conn_to_session_op.wire_maxsz getattr_one_op.wire_maxsz
  getattr_two_op.wire_maxsz [of _ _ "(a, b)" for a b, unfolded fst_conv snd_conv]
  getattr_three_op.wire_maxsz setattr_op.wire_maxsz [of _ _ "(a, b)" for a b, unfolded fst_conv snd_conv]
  readdir_op.wire_maxsz getdeviceinfo_op.wire_maxsz open_wire_maxsz

lemmas request_sizes =
  NFS4_enc_access_sz_def NFS4_enc_bind_conn_to_session_sz_def NFS4_enc_chain_lookup_open_sz_def
  NFS4_enc_chain_lookup_sz_def NFS4_enc_close_sz_def NFS4_enc_commit_sz_def
  NFS4_enc_create_sz_def NFS4_enc_delegreturn_sz_def NFS4_enc_destroy_clientid_sz_def
  NFS4_enc_destroy_session_sz_def NFS4_enc_free_stateid_sz_def NFS4_enc_fs_locations_sz_def
  NFS4_enc_fsid_present_sz_def NFS4_enc_fsinfo_sz_def NFS4_enc_get_lease_time_sz_def
  NFS4_enc_getacl_sz_def NFS4_enc_getattr_sz_def NFS4_enc_getdeviceinfo_sz_def
  NFS4_enc_layoutget_sz_def NFS4_enc_link_sz_def NFS4_enc_lock_sz_def NFS4_enc_lockt_sz_def
  NFS4_enc_locku_sz_def NFS4_enc_lookup_root_sz_def NFS4_enc_lookup_sz_def
  NFS4_enc_open_confirm_sz_def NFS4_enc_open_downgrade_sz_def NFS4_enc_open_noattr_sz_def
  NFS4_enc_open_sz_def NFS4_enc_pathconf_sz_def NFS4_enc_read_sz_def NFS4_enc_readdir_sz_def
  NFS4_enc_readlink_sz_def NFS4_enc_reclaim_complete_sz_def NFS4_enc_release_lockowner_sz_def
  NFS4_enc_remove_sz_def NFS4_enc_rename_sz_def NFS4_enc_renew_sz_def
  NFS4_enc_secinfo_no_name_sz_def NFS4_enc_secinfo_sz_def NFS4_enc_sequence_sz_def
  NFS4_enc_server_caps_sz_def NFS4_enc_setacl_sz_def NFS4_enc_setattr_sz_def
  NFS4_enc_setclientid_confirm_sz_def NFS4_enc_setclientid_sz_def NFS4_enc_statfs_sz_def
  NFS4_enc_symlink_sz_def NFS4_enc_test_stateid_sz_def NFS4_enc_write_sz_def

lemma request_ops_maxsz:
  assumes "xdr_env K avail" and "request_ok K r" and "sized r"
  shows "\<exists>x. length (ops_bytes (request_ops K r)) \<le> 4 * x \<and> 12 + 4 * x \<le> 4 * p_arglen K r"
  unfolding request_ops_def
proof (cases r)
qed (insert assms, ((simp only: sized.simps; fail) |
      (hypsubst, unfold body_ops.simps request_seq.simps option.case p_arglen.simps request_ok.simps,
       (rule exI conjI ops_le_append ops_le_Cons ops_le_Nil ops_le_if ops_le_option op_maxsz seq_ops_maxsz [of _ K] |
         assumption | (simp add: request_sizes maxsz_defs split: option.splits; fail))+))+)

lemma request_room_sized:
  assumes "xdr_env K avail" and "request_ok K r" and "sized r"
  shows "request_room K r \<le> 4 * p_arglen K r"
  using request_ops_maxsz [OF assms] assms(3)
  by (cases r) (auto simp: request_room_def compound_bytes_def)

section \<open>The chained lookups: sizes\<close>

lemma length_chain_ops: "length (chain_ops bm names) = 3 * length names"
  by (induction names) (simp_all add: chain_ops_def)

lemma chain_ops_maxsz:
  assumes K: "xdr_env K avail" and "list_all name_ok names"
  shows "length (ops_bytes (chain_ops bm names)) \<le>
           4 * (length names * (encode_lookup_maxsz K + encode_getfh_maxsz K + encode_getattr_maxsz K))"
  using assms(2)
proof (induction names)
  case (Cons nm names)
  then have "length (argop_bytes (Lookup (name_bytes nm))) \<le> 4 * encode_lookup_maxsz K"
    using lookup_op.wire_maxsz [OF K] by simp
  moreover have "length (argop_bytes Getfh) \<le> 4 * encode_getfh_maxsz K"
    using getfh_op.wire_maxsz [OF K] by simp
  moreover have "length (argop_bytes (Getattr (bm3_words (bm_and bm nfs4_fattr_bitmap)))) \<le> 4 * encode_getattr_maxsz K"
    using getattr_three_op.wire_maxsz [OF K] by simp
  moreover have "length (ops_bytes (chain_ops bm (nm # names))) =
      length (argop_bytes (Lookup (name_bytes nm))) + length (argop_bytes Getfh) +
      length (argop_bytes (Getattr (bm3_words (bm_and bm nfs4_fattr_bitmap)))) + length (ops_bytes (chain_ops bm names))"
    by (simp add: chain_ops_def)
  ultimately show ?case
    using Cons by (simp del: argop_bytes.simps add: algebra_simps)
qed (simp add: chain_ops_def)

text \<open>\<^verbatim>\<open>nfs4_proc_chain_lookup\<close> multiplies the size of the table by the length of the chain; every
  non-empty chain then fits.\<close>

lemma chain_room:
  assumes K: "xdr_env K avail" and ok: "seq_ok sa" "fh_ok fh" "list_all name_ok names" and ne: "names \<noteq> []"
    and h: "x = compound_encode_hdr_maxsz K + encode_sequence_maxsz K + encode_putfh_maxsz K +
               encode_lookup_maxsz K + encode_getattr_maxsz K + encode_getfh_maxsz K"
  shows "length (compound_bytes m (seq_ops sa @ Putfh (fh_bytes fh) # chain_ops bm names)) \<le> 4 * (x * length names)"
proof -
  let ?u = "encode_lookup_maxsz K + encode_getfh_maxsz K + encode_getattr_maxsz K" and ?n = "length names"
  have "length (compound_bytes m (seq_ops sa @ Putfh (fh_bytes fh) # chain_ops bm names)) \<le>
     12 + (4 * encode_sequence_maxsz K + (4 * encode_putfh_maxsz K + 4 * (?n * ?u)))"
    using seq_ops_maxsz [OF ok(1), of K] putfh_op.wire_maxsz [OF K ok(2)] chain_ops_maxsz [OF K ok(3), of bm]
    by (simp add: compound_bytes_def del: argop_bytes.simps)
  also have "\<dots> = 4 * (compound_encode_hdr_maxsz K + encode_sequence_maxsz K + encode_putfh_maxsz K) + 4 * (?n * ?u)"
    by (simp add: compound_encode_hdr_maxsz_def NFS4_MAXTAGLEN_def)
  also have "\<dots> \<le> 4 * ((compound_encode_hdr_maxsz K + encode_sequence_maxsz K + encode_putfh_maxsz K) * ?n) + 4 * (?n * ?u)"
    using ne by (intro add_mono mult_le_mono2) (cases names, simp_all)
  also have "\<dots> = 4 * (x * ?n)"
    by (simp add: h algebra_simps)
  finally show ?thesis .
qed

end
