(* ===== verification/Xdr_Sample.thy ===== *)
theory Xdr_Sample
  imports Xdr_Request
begin

text \<open>
  A concrete sunrpc library and idmapper that satisfy \<open>xdr_env\<close>, and sample arguments: the laws
  the encoders rely on can hold, and the theorems can be applied to actual requests. The stream is the
  number of bytes left; names are mapped to a one-letter string and the page padding always uses a
  unit.
\<close>

definition sample_kernel :: "nat kernel" where
  "sample_kernel =
     \<lparr>IDMAP_NAMESZ = 128, RPCBIND_MAXNETIDLEN = 4, RPCBIND_MAXUADDRLEN = 56, GSS_OID_MAX_LEN = 32,
      RPC_REPHDRSIZE = 4, RPC_MAX_AUTH_SIZE = 100, RPC_MAX_HEADER_WITH_AUTH = 416,
      RPC_MAX_REPHEADER_WITH_AUTH = 416, sizeof_utsname_sysname = 65, sizeof_utsname_release = 65,
      sizeof_utsname_version = 65, sizeof_utsname_machine = 65,
      xdr_reserve_space = (\<lambda>s n. if quad n \<le> s then Some (s - quad n) else None),
      xdr_write_pages = (\<lambda>s b i n. s - 4),
      xdr_encode_hyper = be64,
      xdr_encode_opaque = (\<lambda>b n. opaque_var (take (unat n) b)),
      xdr_encode_opaque_fixed = (\<lambda>b n. opaque_fixed (take n b)),
      nfs_map_uid_to_name = (\<lambda>sv u n. if n = 0 then (- 22, []) else (1, [0x75])),
      nfs_map_gid_to_group = (\<lambda>sv g n. if n = 0 then (- 22, []) else (1, [0x67]))\<rparr>"

lemma sample_env: "xdr_env sample_kernel (\<lambda>s. s)"
  unfolding xdr_env_def by (auto simp: sample_kernel_def)

definition sample_seq :: nfs4_sequence_args where
  "sample_seq = \<lparr>sa_slot = \<lparr>slot_session = Some \<lparr>sess_id = replicate 16 1, sess_minor_version = 1\<rparr>,
                           highest_used_slotid = 0, seq_nr = 7, slot_nr = 0\<rparr>, sa_cache_this = False\<rparr>"

definition sample_noseq :: nfs4_sequence_args where
  "sample_noseq = \<lparr>sa_slot = \<lparr>slot_session = None, highest_used_slotid = 0, seq_nr = 0, slot_nr = 0\<rparr>,
                  sa_cache_this = False\<rparr>"

definition sample_fh :: nfs_fh where
  "sample_fh = \<lparr>fh_size = 4, fh_data = [1, 2, 3, 4]\<rparr>"

definition sample_name :: "bytes \<Rightarrow> qstr" where
  "sample_name b = \<lparr>qlen = of_nat (length b), qname = b\<rparr>"

definition sample_rqst :: rpc_rqst where
  "sample_rqst = \<lparr>au_rslack = 8\<rparr>"

definition sample_chain :: nfs4_chain_lookup_arg where
  "sample_chain = \<lparr>chain_seq_args = sample_seq, chain_dir_fh = sample_fh,
     chain_dchain_list = [sample_name [0x61], sample_name [0x62, 0x63]], chain_bitmask = (2, 0, 0)\<rparr>"

definition sample_write :: nfs_pgio_args where
  "sample_write = \<lparr>pgio_seq_args = sample_noseq, pgio_fh = sample_fh,
     pgio_stateid = \<lparr>st_seqid = 1, st_other = replicate 12 9\<rparr>, pgio_offset = 0, pgio_count = 3, pgio_pgbase = 1,
     pgio_pages = [0, 1, 2, 3, 4], pgio_bitmask = None, pgio_stable = 0\<rparr>"

lemmas sample_defs = sample_seq_def sample_noseq_def sample_fh_def sample_name_def sample_rqst_def
  sample_chain_def sample_write_def

lemma sample_chain_ok: "request_ok sample_kernel (PROC_CHAIN_LOOKUP sample_chain)"
  by (simp add: sample_defs seq_ok_def fh_ok_def name_ok_def)

lemma sample_write_ok: "request_ok sample_kernel (PROC_WRITE sample_write)"
  by (simp add: sample_defs seq_ok_def fh_ok_def name_ok_def stateid_ok_def)

lemma sample_write_ops:
  "request_ops sample_kernel (PROC_WRITE sample_write) =
     [Putfh [1, 2, 3, 4], Write \<lparr>st_seqid = 1, st_other = replicate 12 9\<rparr> 0 0 [1, 2, 3]]"
  "request_minor (PROC_WRITE sample_write) = 0"
  "request_room sample_kernel (PROC_WRITE sample_write) \<le> 4096"
  by (simp_all add: request_room_def compound_bytes_def request_ops_def sample_defs seq_ops_def fh_bytes_def
      nfs4_xdr_minorversion_def quad_def XDR_QUADLEN_def)

lemma sample_chain_ops:
  "seq_ops (chain_seq_args sample_chain) @ Putfh (fh_bytes (chain_dir_fh sample_chain)) #
     chain_ops (chain_bitmask sample_chain) (chain_dchain_list sample_chain) =
     [Sequence (replicate 16 1) 7 0 0 False, Putfh [1, 2, 3, 4],
      Lookup [0x61], Getfh, Getattr [2], Lookup [0x62, 0x63], Getfh, Getattr [2]]"
  "nfs4_xdr_minorversion (chain_seq_args sample_chain) = 1"
  "chain_dchain_list sample_chain \<noteq> []"
  "4 * (p_arglen sample_kernel (PROC_CHAIN_LOOKUP sample_chain) * length (chain_dchain_list sample_chain)) \<le> 8192"
  by (simp_all add: sample_defs nfs4_xdr_minorversion_def seq_ops_def chain_ops_def fh_bytes_def name_bytes_def
      bm_and_def nfs4_fattr_bitmap_def bm3_words_def maxsz_defs XDR_QUADLEN_def)

end
