(* ===== verification/Xdr_Decode_Prim.thy ===== *)
theory Xdr_Decode_Prim
  imports Nfs4_Args
begin

text \<open>
  The decoding primitives of \<^verbatim>\<open>fs/nfs/nfs4xdr.c\<close> (\<^verbatim>\<open>decode_opaque_inline\<close> to
  \<^verbatim>\<open>decode_ace\<close>, and the fixed-size items).

  As for the encoders, the sunrpc library and the idmapper are a parameter: the record \<open>receiver\<close>, with
  what the decoders rely on stated by \<open>rcv_env\<close>. A receive stream is the opaque type \<open>'r\<close>;
  \<open>rest\<close> in \<open>rcv_env\<close> is the part of the reply not yet decoded. \<^verbatim>\<open>xdr_inline_decode(xdr, n)\<close> gives
  the bytes of the decoded region or nothing; a pointer into the region is the list of its bytes from
  there on, and reading a word past its end is the fault \<open>OOB_READ\<close>.

  A decoder returns its status (0, a negative errno, or for an attribute the bit of what it
  found), the outputs it writes, and the stream. Outputs written before an error are kept, as
  the callers read them.
\<close>

section \<open>The kernel services the decoders call\<close>

record 'r receiver =
  xdr_inline_decode :: "'r \<Rightarrow> nat \<Rightarrow> (bytes \<times> 'r) option"
  xdr_stream_pos :: "'r \<Rightarrow> u32"
  xdr_decode_hyper :: "bytes \<Rightarrow> u64"
  xdr_read_pages :: "'r \<Rightarrow> u32 \<Rightarrow> u32 \<times> 'r"
  nfs_map_name_to_uid :: "nfs_server \<Rightarrow> bytes \<Rightarrow> u32 option"
  nfs_map_group_to_gid :: "nfs_server \<Rightarrow> bytes \<Rightarrow> u32 option"
  kmemdup :: "bytes \<Rightarrow> bytes option"
  rcv_page_len :: "'r \<Rightarrow> u32"
  rcv_head_len :: "'r \<Rightarrow> u32"
  rcv_nwords :: "'r \<Rightarrow> u32"
  xdr_enter_page :: "'r \<Rightarrow> u32 \<Rightarrow> 'r"
  xdr_terminate_string :: "'r \<Rightarrow> u32 \<Rightarrow> 'r"
  xdr_set_scratch_buffer :: "'r \<Rightarrow> 'r"

text \<open>
  \<^item> \<^verbatim>\<open>xdr_inline_decode\<close> decodes the requested bytes, rounded up to whole units, exactly when the reply
    has them, and moves the stream behind them (nothing is said of sizes of 4 GiB and more);
  \<^item> \<^verbatim>\<open>xdr_stream_pos\<close> is the offset in the reply;
  \<^item> \<^verbatim>\<open>xdr_decode_hyper\<close> reads eight bytes, most significant first;
  \<^item> replies are shorter than \<open>2 ^ 32\<close> bytes.
\<close>

definition rcv_env :: "'r receiver \<Rightarrow> ('r \<Rightarrow> bytes) \<Rightarrow> bool" where
  "rcv_env D rest \<longleftrightarrow>
     (\<forall>r n. n < 2 ^ 32 \<longrightarrow> (if quad n \<le> length (rest r)
            then \<exists>t. xdr_inline_decode D r n = Some (take (quad n) (rest r), t) \<and> rest t = drop (quad n) (rest r) \<and>
                     xdr_stream_pos D t = xdr_stream_pos D r + of_nat (quad n)
            else xdr_inline_decode D r n = None)) \<and>
     (\<forall>p. xdr_decode_hyper D p = be64_of p) \<and>
     (\<forall>r. length (rest r) < 2 ^ 32)"

section \<open>Combinators\<close>

type_synonym ('r, 'a) decoder = "'r \<Rightarrow> xdr_fault + 'a \<times> 'r"

definition dret :: "'a \<Rightarrow> ('r, 'a) decoder" where
  "dret a r = Inr (a, r)"

definition dfail :: "xdr_fault \<Rightarrow> ('r, 'a) decoder" where
  "dfail e r = Inl e"

definition dbind :: "('r, 'a) decoder \<Rightarrow> ('a \<Rightarrow> ('r, 'b) decoder) \<Rightarrow> ('r, 'b) decoder" where
  "dbind m k r = (case m r of Inl e \<Rightarrow> Inl e | Inr (a, t) \<Rightarrow> k a t)"

text \<open>\<open>inline_decode D n k ovf\<close>: \<^verbatim>\<open>p = xdr_inline_decode(xdr, n)\<close>, continuing with \<open>k\<close>, or with \<open>ovf\<close> as
  the result when the pointer is NULL (the label \<^verbatim>\<open>out_overflow\<close>).\<close>

definition inline_decode :: "'r receiver \<Rightarrow> nat \<Rightarrow> 'a \<Rightarrow> (bytes \<Rightarrow> ('r, 'a) decoder) \<Rightarrow> ('r, 'a) decoder" where
  "inline_decode D n ovf k r =
     (case xdr_inline_decode D r n of None \<Rightarrow> Inr (ovf, r) | Some (p, t) \<Rightarrow> k p t)"

text \<open>The word at index \<open>i\<close> of a region, where the index may exceed what was decoded.\<close>

definition word_at :: "bytes \<Rightarrow> nat \<Rightarrow> (u32 \<Rightarrow> ('r, 'a) decoder) \<Rightarrow> ('r, 'a) decoder" where
  "word_at p i k = (if 4 * i + 4 \<le> length p then k (be32_of (drop (4 * i) p)) else dfail OOB_READ)"

text \<open>The word at a fixed index of a region that was requested with that size.\<close>

definition word :: "bytes \<Rightarrow> nat \<Rightarrow> u32" where
  "word p i = be32_of (drop (4 * i) p)"

text \<open>\<^verbatim>\<open>memcpy(old, b, len)\<close>: the first bytes of the destination are replaced.\<close>

definition copy_over :: "bytes \<Rightarrow> bytes \<Rightarrow> bytes" where
  "copy_over old b = b @ drop (length b) old"

text \<open>A file handle after \<^verbatim>\<open>memset(fh, 0, sizeof(*fh))\<close>.\<close>

definition fh_zero :: nfs_fh where
  "fh_zero = \<lparr>fh_size = 0, fh_data = replicate NFS4_FHSIZE 0\<rparr>"

section \<open>The primitives\<close>

definition decode_opaque_inline :: "'r receiver \<Rightarrow> ('r, int \<times> u32 \<times> bytes) decoder" where [dec_defs]:
  "decode_opaque_inline D =
     inline_decode D 4 (- EIO, 0, []) (\<lambda>p.
       let len = word p 0
       in inline_decode D (unat len) (- EIO, len, []) (\<lambda>q. dret (0, len, take (unat len) q)))"

text \<open>The header of a reply: status and operation count, with the status unset when the reply is too
  short to have one. \<open>taglen + 4\<close> is computed in 32 bits, and the position of the operation count
  from \<open>taglen\<close> itself.\<close>

definition decode_compound_hdr :: "'r receiver \<Rightarrow> ('r, int \<times> int option \<times> u32) decoder" where [dec_defs]:
  "decode_compound_hdr D =
     inline_decode D 8 (- EIO, None, 0) (\<lambda>p.
       let status = sint (word p 0); len = word p 1
       in inline_decode D (unat (len + 4)) (- EIO, Some status, 0) (\<lambda>q.
            word_at q (unat (drop_bit 2 (len + 3))) (\<lambda>n.
              dret (if n < 1 then nfs4_stat_to_errno status else 0, Some status, n))))"

text \<open>\<^verbatim>\<open>__decode_op_hdr\<close>: whether the operation is the expected one, and the status.\<close>

definition decode_op_hdr_checked :: "'r receiver \<Rightarrow> nfs_opnum4 \<Rightarrow> ('r, bool \<times> int) decoder" where [dec_defs]:
  "decode_op_hdr_checked D expected =
     inline_decode D 8 (False, - EIO) (\<lambda>p.
       if word p 0 \<noteq> opnum expected then dret (False, - EREMOTEIO)
       else let nfserr = sint (word p 1)
            in dret (True, if nfserr = 0 then 0 else nfs4_stat_to_errno nfserr))"

definition decode_op_hdr :: "'r receiver \<Rightarrow> nfs_opnum4 \<Rightarrow> ('r, int) decoder" where [dec_defs]:
  "decode_op_hdr D expected = dbind (decode_op_hdr_checked D expected) (\<lambda>(ok, retval). dret retval)"

definition decode_ace :: "'r receiver \<Rightarrow> ('r, int) decoder" where [dec_defs]:
  "decode_ace D =
     inline_decode D 12 (- EIO) (\<lambda>p. dbind (decode_opaque_inline D) (\<lambda>(status, len, str). dret status))"

text \<open>Copies of a fixed number of bytes; \<open>old\<close> is what the destination holds when there are too few.\<close>

definition decode_opaque_fixed :: "'r receiver \<Rightarrow> bytes \<Rightarrow> nat \<Rightarrow> ('r, int \<times> bytes) decoder" where [dec_defs]:
  "decode_opaque_fixed D old len =
     inline_decode D len (- EIO, old) (\<lambda>p. dret (0, take len p))"

definition stateid_of :: "bytes \<Rightarrow> nfs4_stateid" where
  "stateid_of b = \<lparr>st_seqid = be32_of b, st_other = drop 4 b\<rparr>"

definition decode_stateid :: "'r receiver \<Rightarrow> nfs4_stateid \<Rightarrow> ('r, int \<times> nfs4_stateid) decoder" where [dec_defs]:
  "decode_stateid D old =
     dbind (decode_opaque_fixed D (stateid_bytes old) NFS4_STATEID_SIZE) (\<lambda>(status, b). dret (status, stateid_of b))"

definition decode_verifier :: "'r receiver \<Rightarrow> bytes \<Rightarrow> ('r, int \<times> bytes) decoder" where [dec_defs]:
  "decode_verifier D old = decode_opaque_fixed D old NFS4_VERIFIER_SIZE"

definition decode_write_verifier :: "'r receiver \<Rightarrow> bytes \<Rightarrow> ('r, int \<times> bytes) decoder" where [dec_defs]:
  "decode_write_verifier D old = decode_opaque_fixed D old NFS4_VERIFIER_SIZE"

definition decode_sessionid :: "'r receiver \<Rightarrow> bytes \<Rightarrow> ('r, int \<times> bytes) decoder" where [dec_defs]:
  "decode_sessionid D old = decode_opaque_fixed D old NFS4_MAX_SESSIONID_LEN"

record nfs4_change_info =
  ci_atomic :: u32
  ci_before :: u64
  ci_after :: u64

definition decode_change_info :: "'r receiver \<Rightarrow> nfs4_change_info \<Rightarrow> ('r, int \<times> nfs4_change_info) decoder" where [dec_defs]:
  "decode_change_info D old =
     inline_decode D 20 (- EIO, old) (\<lambda>p.
       dret (0, \<lparr>ci_atomic = word p 0, ci_before = xdr_decode_hyper D (drop 4 p),
                 ci_after = xdr_decode_hyper D (drop 12 p)\<rparr>))"

section \<open>How the combinators run under the laws\<close>

lemma dret_simp [simp]: "dret a r = Inr (a, r)"
  by (simp add: dret_def)

lemma dfail_simp [simp]: "dfail e r = Inl e"
  by (simp add: dfail_def)

lemma dbind_Inr [simp]: "m r = Inr (a, t) \<Longrightarrow> dbind m k r = k a t"
  by (simp add: dbind_def)

lemma dbind_Inl [simp]: "m r = Inl e \<Longrightarrow> dbind m k r = Inl e"
  by (simp add: dbind_def)

lemma rcv_env_simps:
  assumes "rcv_env D rest"
  shows "xdr_decode_hyper D p = be64_of p" "length (rest r) < 2 ^ 32"
  using assms unfolding rcv_env_def by auto

text \<open>Decoding \<open>n\<close> bytes that the reply has.\<close>

lemma xdr_inline_decode_Some:
  assumes "rcv_env D rest" and "rest r = b @ c" and "length b = quad n"
  obtains t where "xdr_inline_decode D r n = Some (b, t)" "rest t = c"
    "xdr_stream_pos D t = xdr_stream_pos D r + of_nat (quad n)"
proof -
  have q: "quad n \<le> length (rest r)" using assms(2,3) by simp
  moreover have "n < 2 ^ 32"
    using q le_quad [of n] rcv_env_simps(2) [OF assms(1), of r] by linarith
  ultimately obtain t where "xdr_inline_decode D r n = Some (take (quad n) (rest r), t)" "rest t = drop (quad n) (rest r)"
      "xdr_stream_pos D t = xdr_stream_pos D r + of_nat (quad n)"
    using assms(1) unfolding rcv_env_def by (metis (no_types, lifting))
  with assms(2,3) that show thesis by simp
qed

lemma inline_decode_None:
  assumes "rcv_env D rest" and "length (rest r) < quad n" and "n < 2 ^ 32"
  shows "inline_decode D n ovf k r = Inr (ovf, r)"
proof -
  have "xdr_inline_decode D r n = None"
    using assms unfolding rcv_env_def by (metis (no_types, lifting) not_le)
  then show ?thesis by (simp add: inline_decode_def)
qed

text \<open>\<open>reads D rest m b a\<close>: on a stream that starts with \<open>b\<close>, the decoder \<open>m\<close> takes exactly \<open>b\<close> and
  returns \<open>a\<close>.\<close>

definition reads :: "'r receiver \<Rightarrow> ('r \<Rightarrow> bytes) \<Rightarrow> ('r, 'a) decoder \<Rightarrow> bytes \<Rightarrow> 'a \<Rightarrow> bool" where
  "reads D rest m b a \<longleftrightarrow>
     (\<forall>r c. rest r = b @ c \<longrightarrow>
        (\<exists>t. m r = Inr (a, t) \<and> rest t = c \<and> xdr_stream_pos D t = xdr_stream_pos D r + of_nat (length b)))"

lemma readsD:
  assumes "reads D rest m b a" and "rest r = b @ c"
  obtains t where "m r = Inr (a, t)" "rest t = c" "xdr_stream_pos D t = xdr_stream_pos D r + of_nat (length b)"
  using assms unfolding reads_def by blast

lemma reads_dret: "reads D rest (dret a) [] a"
  unfolding reads_def by auto

lemma reads_dbind:
  assumes "reads D rest m b a" and "reads D rest (k a) b' a'"
  shows "reads D rest (dbind m k) (b @ b') a'"
  unfolding reads_def
proof (intro allI impI)
  fix r c assume "rest r = (b @ b') @ c"
  then obtain t where t: "m r = Inr (a, t)" "rest t = b' @ c" "xdr_stream_pos D t = xdr_stream_pos D r + of_nat (length b)"
    using readsD [OF assms(1), of r "b' @ c"] by auto
  from readsD [OF assms(2) t(2)] obtain u where "k a t = Inr (a', u)" "rest u = c"
      "xdr_stream_pos D u = xdr_stream_pos D t + of_nat (length b')" .
  with t show "\<exists>u. dbind m k r = Inr (a', u) \<and> rest u = c \<and> xdr_stream_pos D u = xdr_stream_pos D r + of_nat (length (b @ b'))"
    by (auto simp: add.assoc)
qed

lemma reads_inline:
  assumes "rcv_env D rest" and "length b = quad n" and "reads D rest (k b) b' a"
  shows "reads D rest (inline_decode D n ovf k) (b @ b') a"
  unfolding reads_def
proof (intro allI impI)
  fix r c assume "rest r = (b @ b') @ c"
  then have "rest r = b @ (b' @ c)" by simp
  from xdr_inline_decode_Some [OF assms(1) this assms(2)]
  obtain t where "xdr_inline_decode D r n = Some (b, t)" and t: "rest t = b' @ c"
      "xdr_stream_pos D t = xdr_stream_pos D r + of_nat (quad n)" .
  then have step: "inline_decode D n ovf k r = k b t" by (simp add: inline_decode_def)
  from readsD [OF assms(3) t(1)] obtain u where "k b t = Inr (a, u)" "rest u = c"
      "xdr_stream_pos D u = xdr_stream_pos D t + of_nat (length b')" .
  with t step assms(2) show "\<exists>u. inline_decode D n ovf k r = Inr (a, u) \<and> rest u = c \<and>
      xdr_stream_pos D u = xdr_stream_pos D r + of_nat (length (b @ b'))"
    by (auto simp: add.assoc)
qed

lemma reads_cong: "reads D rest m b a \<Longrightarrow> b = b' \<Longrightarrow> a = a' \<Longrightarrow> reads D rest m b' a'"
  by simp

end
