(* ===== verification/Xdr_Decode_Attrs.thy ===== *)
theory Xdr_Decode_Attrs
  imports Xdr_Decode_Prim
begin

text \<open>
  The attribute decoders of \<^verbatim>\<open>fs/nfs/nfs4xdr.c\<close> (\<^verbatim>\<open>decode_attr_bitmap\<close> to
  \<^verbatim>\<open>decode_getfattr\<close>, \<^verbatim>\<open>decode_attr_pnfstype\<close> and \<^verbatim>\<open>decode_attr_layout_blksize\<close>). The server sends a bitmap of
  the attributes present, their total length, and the values in the order of the bits; each decoder
  checks that no attribute before its own is left, reads its value if the bit is set, and
  clears the bit. Their common shape is \<open>attr_item\<close> and, for a value of fixed size, \<open>attr_fixed\<close>.
\<close>

section \<open>Data\<close>

text \<open>The file type bits of the platform.\<close>

abbreviation (input) S_IFMT :: u16 where "S_IFMT \<equiv> 0xF000"
abbreviation (input) S_IFREG :: u16 where "S_IFREG \<equiv> 0x8000"
abbreviation (input) S_IFDIR :: u16 where "S_IFDIR \<equiv> 0x4000"
abbreviation (input) S_IFBLK :: u16 where "S_IFBLK \<equiv> 0x6000"
abbreviation (input) S_IFCHR :: u16 where "S_IFCHR \<equiv> 0x2000"
abbreviation (input) S_IFLNK :: u16 where "S_IFLNK \<equiv> 0xA000"
abbreviation (input) S_IFSOCK :: u16 where "S_IFSOCK \<equiv> 0xC000"
abbreviation (input) S_IFIFO :: u16 where "S_IFIFO \<equiv> 0x1000"

text \<open>Limits of \<^verbatim>\<open>include/linux/nfs_xdr.h\<close> and of the sunrpc library.\<close>

abbreviation (input) NFS4_PATHNAME_MAXCOMPONENTS :: u32 where "NFS4_PATHNAME_MAXCOMPONENTS \<equiv> 512"
abbreviation (input) NFS4_FS_LOCATION_MAXSERVERS :: nat where "NFS4_FS_LOCATION_MAXSERVERS \<equiv> 10"
abbreviation (input) NFS4_FS_LOCATIONS_MAXENTRIES :: nat where "NFS4_FS_LOCATIONS_MAXENTRIES \<equiv> 10"
abbreviation (input) XDR_MAX_NETOBJ :: u32 where "XDR_MAX_NETOBJ \<equiv> 1024"

definition nfs_type2fmt :: "u16 list" where
  "nfs_type2fmt = [0, S_IFREG, S_IFDIR, S_IFBLK, S_IFCHR, S_IFLNK, S_IFSOCK, S_IFIFO, 0, 0]"

record nfs4_threshold =
  th_bm :: u32
  th_l_type :: u32
  th_rd_sz :: u64
  th_wr_sz :: u64
  th_rd_io_sz :: u64
  th_wr_io_sz :: u64

record nfs_fattr =
  fa_valid :: u32
  fa_mode :: u16
  fa_nlink :: u32
  fa_uid :: u32
  fa_gid :: u32
  fa_rdev :: u32
  fa_size :: u64
  fa_blocks :: u32
  fa_used :: u64
  fa_fsid :: "u64 \<times> u64"
  fa_fileid :: u64
  fa_mounted_on_fileid :: u64
  fa_atime :: timespec
  fa_mtime :: timespec
  fa_ctime :: timespec
  fa_change_attr :: u64
  fa_pre_change_attr :: u64
  fa_pre_size :: u64
  fa_pre_mtime :: timespec
  fa_pre_ctime :: timespec
  fa_time_start :: u64
  fa_gencount :: u64
  fa_owner_name :: "bytes option"
  fa_group_name :: "bytes option"
  fa_mdsthreshold :: "nfs4_threshold option"

record nfs4_fs_location =
  loc_servers :: "bytes list"
  loc_rootpath :: "bytes list"

record nfs4_fs_locations =
  fsl_path :: "bytes list"
  fsl_locations :: "nfs4_fs_location list"

section \<open>Bitmaps\<close>

definition bm_word :: "nat \<Rightarrow> bitmap3 \<Rightarrow> u32" where
  "bm_word i bm = (case bm of (b0, b1, b2) \<Rightarrow> if i = 0 then b0 else if i = 1 then b1 else b2)"

text \<open>\<^verbatim>\<open>bitmap[i] &= ~bit\<close>\<close>

definition bm_clear :: "nat \<Rightarrow> u32 \<Rightarrow> bitmap3 \<Rightarrow> bitmap3" where
  "bm_clear i b bm = (case bm of (b0, b1, b2) \<Rightarrow>
     if i = 0 then (b0 AND NOT b, b1, b2) else if i = 1 then (b0, b1 AND NOT b, b2) else (b0, b1, b2 AND NOT b))"

text \<open>The three words are cleared first; \<open>bmlen << 2\<close> is computed in 32 bits.\<close>

definition decode_attr_bitmap :: "'r receiver \<Rightarrow> bitmap3 \<Rightarrow> ('r, int \<times> bitmap3) decoder" where [dec_defs]:
  "decode_attr_bitmap D old =
     inline_decode D 4 (- EIO, old) (\<lambda>p.
       let bmlen = word p 0
       in inline_decode D (unat (push_bit 2 bmlen)) (- EIO, (0, 0, 0)) (\<lambda>q.
            if bmlen > 0 then
              word_at q 0 (\<lambda>b0.
                if bmlen > 1 then
                  word_at q 1 (\<lambda>b1.
                    if bmlen > 2 then word_at q 2 (\<lambda>b2. dret (0, (b0, b1, b2)))
                    else dret (0, (b0, b1, 0)))
                else dret (0, (b0, 0, 0)))
            else dret (0, (0, 0, 0))))"

text \<open>The length of the values and the position they start at.\<close>

definition decode_attr_length :: "'r receiver \<Rightarrow> ('r, int \<times> u32 \<times> u32) decoder" where [dec_defs]:
  "decode_attr_length D = inline_decode D 4 (- EIO, 0, 0) (\<lambda>p r. Inr ((0, word p 0, xdr_stream_pos D r), r))"

definition verify_attr_len :: "'r receiver \<Rightarrow> u32 \<Rightarrow> u32 \<Rightarrow> ('r, int) decoder" where [dec_defs]:
  "verify_attr_len D savep attrlen r =
     (let attrwords = drop_bit 2 (attrlen + 3); nwords = drop_bit 2 (xdr_stream_pos D r - savep)
      in Inr (if attrwords \<noteq> nwords then - EIO else 0, r))"

section \<open>Single attributes\<close>

definition attr_item ::
  "nat \<Rightarrow> u32 \<Rightarrow> 'v \<Rightarrow> ('r, int \<times> 'v \<times> bitmap3) decoder \<Rightarrow> bitmap3 \<Rightarrow> ('r, int \<times> 'v \<times> bitmap3) decoder" where
  "attr_item i b dflt body bm =
     (if bm_word i bm AND (b - 1) \<noteq> 0 then dret (- EIO, dflt, bm)
      else if bm_word i bm AND b \<noteq> 0 then body
      else dret (0, dflt, bm))"

definition attr_fixed ::
  "'r receiver \<Rightarrow> nat \<Rightarrow> u32 \<Rightarrow> 'v \<Rightarrow> nat \<Rightarrow> (bytes \<Rightarrow> 'v) \<Rightarrow> int \<Rightarrow> bitmap3 \<Rightarrow> ('r, int \<times> 'v \<times> bitmap3) decoder" where
  "attr_fixed D i b dflt n val ret bm =
     attr_item i b dflt
       (inline_decode D n (- EIO, dflt, bm) (\<lambda>p. dret (ret, val p, bm_clear i b bm))) bm"

type_synonym ('r, 'v) attr_decoder = "bitmap3 \<Rightarrow> ('r, int \<times> 'v \<times> bitmap3) decoder"

definition decode_attr_supported :: "'r receiver \<Rightarrow> bitmap3 \<Rightarrow> ('r, bitmap3) attr_decoder" where [dec_defs]:
  "decode_attr_supported D old bm =
     (if bm_word 0 bm AND FATTR4_WORD0_SUPPORTED_ATTRS \<noteq> 0 then
        dbind (decode_attr_bitmap D old) (\<lambda>(ret, bitmask).
          if ret < 0 then dret (ret, bitmask, bm)
          else dret (0, bitmask, bm_clear 0 FATTR4_WORD0_SUPPORTED_ATTRS bm))
      else dret (0, (0, 0, 0), bm))"

definition decode_attr_type :: "'r receiver \<Rightarrow> ('r, u32) attr_decoder" where [dec_defs]:
  "decode_attr_type D bm =
     attr_item 0 FATTR4_WORD0_TYPE 0
       (inline_decode D 4 (- EIO, 0, bm) (\<lambda>p.
          let t = word p 0
          in if t < NF4REG \<or> t > NF4NAMEDATTR then dret (- EIO, t, bm)
             else dret (uint NFS_ATTR_FATTR_TYPE, t, bm_clear 0 FATTR4_WORD0_TYPE bm))) bm"

definition decode_attr_fh_expire_type :: "'r receiver \<Rightarrow> ('r, u32) attr_decoder" where [dec_defs]:
  "decode_attr_fh_expire_type D = attr_fixed D 0 FATTR4_WORD0_FH_EXPIRE_TYPE 0 4 (\<lambda>p. word p 0) 0"

definition decode_attr_change :: "'r receiver \<Rightarrow> ('r, u64) attr_decoder" where [dec_defs]:
  "decode_attr_change D = attr_fixed D 0 FATTR4_WORD0_CHANGE 0 8 (xdr_decode_hyper D) (uint NFS_ATTR_FATTR_CHANGE)"

definition decode_attr_size :: "'r receiver \<Rightarrow> ('r, u64) attr_decoder" where [dec_defs]:
  "decode_attr_size D = attr_fixed D 0 FATTR4_WORD0_SIZE 0 8 (xdr_decode_hyper D) (uint NFS_ATTR_FATTR_SIZE)"

definition decode_attr_link_support :: "'r receiver \<Rightarrow> ('r, u32) attr_decoder" where [dec_defs]:
  "decode_attr_link_support D = attr_fixed D 0 FATTR4_WORD0_LINK_SUPPORT 0 4 (\<lambda>p. word p 0) 0"

definition decode_attr_symlink_support :: "'r receiver \<Rightarrow> ('r, u32) attr_decoder" where [dec_defs]:
  "decode_attr_symlink_support D = attr_fixed D 0 FATTR4_WORD0_SYMLINK_SUPPORT 0 4 (\<lambda>p. word p 0) 0"

definition decode_attr_fsid :: "'r receiver \<Rightarrow> ('r, u64 \<times> u64) attr_decoder" where [dec_defs]:
  "decode_attr_fsid D =
     attr_fixed D 0 FATTR4_WORD0_FSID (0, 0) 16 (\<lambda>p. (xdr_decode_hyper D p, xdr_decode_hyper D (drop 8 p)))
       (uint NFS_ATTR_FATTR_FSID)"

definition decode_attr_lease_time :: "'r receiver \<Rightarrow> ('r, u32) attr_decoder" where [dec_defs]:
  "decode_attr_lease_time D = attr_fixed D 0 FATTR4_WORD0_LEASE_TIME 60 4 (\<lambda>p. word p 0) 0"

definition decode_attr_error :: "'r receiver \<Rightarrow> int \<Rightarrow> ('r, int) attr_decoder" where [dec_defs]:
  "decode_attr_error D old = attr_fixed D 0 FATTR4_WORD0_RDATTR_ERROR old 4 (\<lambda>p. sint (- word p 0)) 0"

text \<open>The length is a signed \<open>int\<close>: a negative one passes the limit and is passed on as a huge
  \<^verbatim>\<open>size_t\<close>; a copy of that size runs over the handle. Without a destination (\<open>None\<close>) the handle is
  skipped.\<close>

definition decode_attr_filehandle :: "'r receiver \<Rightarrow> nfs_fh option \<Rightarrow> ('r, nfs_fh option) attr_decoder" where [dec_defs]:
  "decode_attr_filehandle D fh bm =
     (let fh0 = map_option (\<lambda>_. fh_zero) fh
      in attr_item 0 FATTR4_WORD0_FILEHANDLE fh0
           (inline_decode D 4 (- EIO, fh0, bm) (\<lambda>p.
              let len = word p 0
              in if sint len > int NFS4_FHSIZE then dret (- EIO, fh0, bm)
                 else inline_decode D (unat (scast len :: u64)) (- EIO, fh0, bm) (\<lambda>q.
                   if fh \<noteq> None \<and> sint len < 0 then dfail OVERRUN
                   else dret (0, map_option (\<lambda>_. \<lparr>fh_size = ucast len,
                                    fh_data = copy_over (fh_data fh_zero) (take (unat len) q)\<rparr>) fh,
                              bm_clear 0 FATTR4_WORD0_FILEHANDLE bm)))) bm)"

definition decode_attr_aclsupport :: "'r receiver \<Rightarrow> ('r, u32) attr_decoder" where [dec_defs]:
  "decode_attr_aclsupport D = attr_fixed D 0 FATTR4_WORD0_ACLSUPPORT 0 4 (\<lambda>p. word p 0) 0"

definition decode_attr_fileid :: "'r receiver \<Rightarrow> ('r, u64) attr_decoder" where [dec_defs]:
  "decode_attr_fileid D = attr_fixed D 0 FATTR4_WORD0_FILEID 0 8 (xdr_decode_hyper D) (uint NFS_ATTR_FATTR_FILEID)"

definition decode_attr_mounted_on_fileid :: "'r receiver \<Rightarrow> ('r, u64) attr_decoder" where [dec_defs]:
  "decode_attr_mounted_on_fileid D =
     attr_fixed D 1 FATTR4_WORD1_MOUNTED_ON_FILEID 0 8 (xdr_decode_hyper D) (uint NFS_ATTR_FATTR_MOUNTED_ON_FILEID)"

definition decode_attr_files_avail :: "'r receiver \<Rightarrow> ('r, u64) attr_decoder" where [dec_defs]:
  "decode_attr_files_avail D = attr_fixed D 0 FATTR4_WORD0_FILES_AVAIL 0 8 (xdr_decode_hyper D) 0"

definition decode_attr_files_free :: "'r receiver \<Rightarrow> ('r, u64) attr_decoder" where [dec_defs]:
  "decode_attr_files_free D = attr_fixed D 0 FATTR4_WORD0_FILES_FREE 0 8 (xdr_decode_hyper D) 0"

definition decode_attr_files_total :: "'r receiver \<Rightarrow> ('r, u64) attr_decoder" where [dec_defs]:
  "decode_attr_files_total D = attr_fixed D 0 FATTR4_WORD0_FILES_TOTAL 0 8 (xdr_decode_hyper D) 0"

definition decode_attr_maxfilesize :: "'r receiver \<Rightarrow> ('r, u64) attr_decoder" where [dec_defs]:
  "decode_attr_maxfilesize D = attr_fixed D 0 FATTR4_WORD0_MAXFILESIZE 0 8 (xdr_decode_hyper D) 0"

definition decode_attr_maxlink :: "'r receiver \<Rightarrow> ('r, u32) attr_decoder" where [dec_defs]:
  "decode_attr_maxlink D = attr_fixed D 0 FATTR4_WORD0_MAXLINK 1 4 (\<lambda>p. word p 0) 0"

definition decode_attr_maxname :: "'r receiver \<Rightarrow> ('r, u32) attr_decoder" where [dec_defs]:
  "decode_attr_maxname D = attr_fixed D 0 FATTR4_WORD0_MAXNAME 1024 4 (\<lambda>p. word p 0) 0"

text \<open>Transfer sizes are cut to the largest signed value.\<close>

definition clamp31 :: "u64 \<Rightarrow> u32" where
  "clamp31 w = ucast (if w > 0x7FFFFFFF then 0x7FFFFFFF else w)"

definition decode_attr_maxread :: "'r receiver \<Rightarrow> ('r, u32) attr_decoder" where [dec_defs]:
  "decode_attr_maxread D = attr_fixed D 0 FATTR4_WORD0_MAXREAD 1024 8 (\<lambda>p. clamp31 (xdr_decode_hyper D p)) 0"

definition decode_attr_maxwrite :: "'r receiver \<Rightarrow> ('r, u32) attr_decoder" where [dec_defs]:
  "decode_attr_maxwrite D = attr_fixed D 0 FATTR4_WORD0_MAXWRITE 1024 8 (\<lambda>p. clamp31 (xdr_decode_hyper D p)) 0"

definition decode_attr_mode :: "'r receiver \<Rightarrow> ('r, u16) attr_decoder" where [dec_defs]:
  "decode_attr_mode D =
     attr_fixed D 1 FATTR4_WORD1_MODE 0 4 (\<lambda>p. ucast (word p 0) AND NOT S_IFMT) (uint NFS_ATTR_FATTR_MODE)"

definition decode_attr_nlink :: "'r receiver \<Rightarrow> ('r, u32) attr_decoder" where [dec_defs]:
  "decode_attr_nlink D = attr_fixed D 1 FATTR4_WORD1_NUMLINKS 1 4 (\<lambda>p. word p 0) (uint NFS_ATTR_FATTR_NLINK)"

text \<open>
  Owner and group: the id is ``-2'' until a name of acceptable length is mapped. With a name buffer
  (\<open>Some\<close>) the string is duplicated instead.
\<close>

definition decode_attr_idname ::
  "'r receiver \<Rightarrow> u32 \<Rightarrow> int \<Rightarrow> int \<Rightarrow> (bytes \<Rightarrow> u32 option) \<Rightarrow> bytes option \<Rightarrow> ('r, u32 \<times> bytes option) attr_decoder" where
  "decode_attr_idname D b name_ret id_ret mapname nm bm =
     attr_item 1 b (- 2, nm)
       (inline_decode D 4 (- EIO, (- 2, nm), bm) (\<lambda>p.
          let len = word p 0
          in inline_decode D (unat len) (- EIO, (- 2, nm), bm) (\<lambda>q.
               let str = take (unat len) q; bm' = bm_clear 1 b bm
               in case nm of
                    Some old \<Rightarrow>
                      (case kmemdup D str of
                         Some dup \<Rightarrow> dret (name_ret, (- 2, Some dup), bm')
                       | None \<Rightarrow> dret (0, (- 2, nm), bm'))
                  | None \<Rightarrow>
                      if len < XDR_MAX_NETOBJ then
                        (case mapname str of
                           Some uid \<Rightarrow> dret (id_ret, (uid, nm), bm')
                         | None \<Rightarrow> dret (0, (- 2, nm), bm'))
                      else dret (0, (- 2, nm), bm')))) bm"

definition decode_attr_owner ::
  "'r receiver \<Rightarrow> nfs_server \<Rightarrow> bytes option \<Rightarrow> ('r, u32 \<times> bytes option) attr_decoder" where [dec_defs]:
  "decode_attr_owner D server =
     decode_attr_idname D FATTR4_WORD1_OWNER (uint NFS_ATTR_FATTR_OWNER_NAME) (uint NFS_ATTR_FATTR_OWNER)
       (nfs_map_name_to_uid D server)"

definition decode_attr_group ::
  "'r receiver \<Rightarrow> nfs_server \<Rightarrow> bytes option \<Rightarrow> ('r, u32 \<times> bytes option) attr_decoder" where [dec_defs]:
  "decode_attr_group D server =
     decode_attr_idname D FATTR4_WORD1_OWNER_GROUP (uint NFS_ATTR_FATTR_GROUP_NAME) (uint NFS_ATTR_FATTR_GROUP)
       (nfs_map_group_to_gid D server)"

text \<open>Device numbers of the platform: twenty minor bits below twelve major ones.\<close>

definition MKDEV :: "u32 \<Rightarrow> u32 \<Rightarrow> u32" where
  "MKDEV ma mi = push_bit 20 ma OR mi"

definition decode_attr_rdev :: "'r receiver \<Rightarrow> ('r, u32) attr_decoder" where [dec_defs]:
  "decode_attr_rdev D =
     attr_fixed D 1 FATTR4_WORD1_RAWDEV 0 8
       (\<lambda>p. let tmp = MKDEV (word p 0) (word p 1)
            in if drop_bit 20 tmp = word p 0 \<and> tmp AND 0xFFFFF = word p 1 then tmp else 0)
       (uint NFS_ATTR_FATTR_RDEV)"

definition decode_attr_space_avail :: "'r receiver \<Rightarrow> ('r, u64) attr_decoder" where [dec_defs]:
  "decode_attr_space_avail D = attr_fixed D 1 FATTR4_WORD1_SPACE_AVAIL 0 8 (xdr_decode_hyper D) 0"

definition decode_attr_space_free :: "'r receiver \<Rightarrow> ('r, u64) attr_decoder" where [dec_defs]:
  "decode_attr_space_free D = attr_fixed D 1 FATTR4_WORD1_SPACE_FREE 0 8 (xdr_decode_hyper D) 0"

definition decode_attr_space_total :: "'r receiver \<Rightarrow> ('r, u64) attr_decoder" where [dec_defs]:
  "decode_attr_space_total D = attr_fixed D 1 FATTR4_WORD1_SPACE_TOTAL 0 8 (xdr_decode_hyper D) 0"

definition decode_attr_space_used :: "'r receiver \<Rightarrow> ('r, u64) attr_decoder" where [dec_defs]:
  "decode_attr_space_used D =
     attr_fixed D 1 FATTR4_WORD1_SPACE_USED 0 8 (xdr_decode_hyper D) (uint NFS_ATTR_FATTR_SPACE_USED)"

section \<open>Times\<close>

abbreviation (input) zero_time :: timespec where "zero_time \<equiv> \<lparr>tv_sec = 0, tv_nsec = 0\<rparr>"

definition decode_attr_time :: "'r receiver \<Rightarrow> timespec \<Rightarrow> ('r, int \<times> timespec) decoder" where [dec_defs]:
  "decode_attr_time D old =
     inline_decode D 12 (- EIO, old) (\<lambda>p.
       dret (0, \<lparr>tv_sec = xdr_decode_hyper D p, tv_nsec = ucast (word p 2)\<rparr>))"

text \<open>The bit is cleared even when the time cannot be read.\<close>

definition attr_time :: "'r receiver \<Rightarrow> u32 \<Rightarrow> int \<Rightarrow> ('r, timespec) attr_decoder" where
  "attr_time D b ret bm =
     attr_item 1 b zero_time
       (dbind (decode_attr_time D zero_time) (\<lambda>(status, t).
          dret (if status = 0 then ret else status, t, bm_clear 1 b bm))) bm"

definition decode_attr_time_access :: "'r receiver \<Rightarrow> ('r, timespec) attr_decoder" where [dec_defs]:
  "decode_attr_time_access D = attr_time D FATTR4_WORD1_TIME_ACCESS (uint NFS_ATTR_FATTR_ATIME)"

definition decode_attr_time_metadata :: "'r receiver \<Rightarrow> ('r, timespec) attr_decoder" where [dec_defs]:
  "decode_attr_time_metadata D = attr_time D FATTR4_WORD1_TIME_METADATA (uint NFS_ATTR_FATTR_CTIME)"

definition decode_attr_time_delta :: "'r receiver \<Rightarrow> ('r, timespec) attr_decoder" where [dec_defs]:
  "decode_attr_time_delta D = attr_time D FATTR4_WORD1_TIME_DELTA 0"

definition decode_attr_time_modify :: "'r receiver \<Rightarrow> ('r, timespec) attr_decoder" where [dec_defs]:
  "decode_attr_time_modify D = attr_time D FATTR4_WORD1_TIME_MODIFY (uint NFS_ATTR_FATTR_MTIME)"

section \<open>Security label\<close>

text \<open>A label that is too long is skipped and its bit stays set.\<close>

definition decode_attr_security_label ::
  "'r receiver \<Rightarrow> nfs4_label option \<Rightarrow> ('r, nfs4_label option) attr_decoder" where [dec_defs]:
  "decode_attr_security_label D lab bm =
     attr_item 2 FATTR4_WORD2_SECURITY_LABEL lab
       (inline_decode D 4 (- EIO, lab, bm) (\<lambda>p0. inline_decode D 4 (- EIO, lab, bm) (\<lambda>p1.
        inline_decode D 4 (- EIO, lab, bm) (\<lambda>p2.
          let lfs = word p0 0; pi = word p1 0; len = word p2 0
          in inline_decode D (unat len) (- EIO, lab, bm) (\<lambda>q.
               if unat len < NFS4_MAXLABELLEN then
                 (case lab of
                    Some old \<Rightarrow>
                      dret (uint NFS_ATTR_FATTR_V4_SECURITY_LABEL,
                            Some \<lparr>label_lfs = lfs, label_pi = pi, label_len = len,
                                  label_data = copy_over (label_data old) (take (unat len) q)\<rparr>,
                            bm_clear 2 FATTR4_WORD2_SECURITY_LABEL bm)
                  | None \<Rightarrow> dret (0, None, bm_clear 2 FATTR4_WORD2_SECURITY_LABEL bm))
               else dret (0, lab, bm)))))) bm"

section \<open>File system locations\<close>

text \<open>The components of a path, read one after the other into \<open>path\<close>; an error keeps those read.\<close>

fun pathname_loop :: "'r receiver \<Rightarrow> nat \<Rightarrow> bytes list \<Rightarrow> ('r, int \<times> bytes list) decoder" where
  "pathname_loop D 0 path = dret (0, path)"
| "pathname_loop D (Suc n) path =
     dbind (decode_opaque_inline D) (\<lambda>(status, len, str).
       if status \<noteq> 0 then dret (- EIO, path) else pathname_loop D n (path @ [str]))"

definition decode_pathname :: "'r receiver \<Rightarrow> bytes list \<Rightarrow> ('r, int \<times> bytes list) decoder" where [dec_defs]:
  "decode_pathname D old =
     inline_decode D 4 (- EIO, old) (\<lambda>p.
       let n = word p 0
       in if n = 0 then dret (0, [[]])
          else if n > NFS4_PATHNAME_MAXCOMPONENTS then dret (- EIO, old)
          else pathname_loop D (unat n) [])"

fun skip_strings :: "'r receiver \<Rightarrow> nat \<Rightarrow> ('r, int) decoder" where
  "skip_strings D 0 = dret 0"
| "skip_strings D (Suc n) =
     dbind (decode_opaque_inline D) (\<lambda>(status, len, str). if status \<noteq> 0 then dret status else skip_strings D n)"

text \<open>The servers of one location: at most ten are kept, the rest is skipped.\<close>

fun servers_loop :: "'r receiver \<Rightarrow> nat \<Rightarrow> bytes list \<Rightarrow> ('r, int \<times> bytes list) decoder" where
  "servers_loop D 0 servers = dret (0, servers)"
| "servers_loop D (Suc m) servers =
     (if length servers = NFS4_FS_LOCATION_MAXSERVERS
      then dbind (skip_strings D (Suc m)) (\<lambda>status. dret (status, servers))
      else dbind (decode_opaque_inline D) (\<lambda>(status, len, str).
             if status \<noteq> 0 then dret (status, servers) else servers_loop D m (servers @ [str])))"

fun locations_loop ::
  "'r receiver \<Rightarrow> nat \<Rightarrow> nfs4_fs_location list \<Rightarrow> ('r, int \<times> nfs4_fs_location list) decoder" where
  "locations_loop D 0 locs = dret (0, locs)"
| "locations_loop D (Suc n) locs =
     (if length locs = NFS4_FS_LOCATIONS_MAXENTRIES then dret (0, locs)
      else inline_decode D 4 (- EIO, locs) (\<lambda>p.
             dbind (servers_loop D (unat (word p 0)) []) (\<lambda>(status, servers).
               if status \<noteq> 0 then dret (- EIO, locs)
               else dbind (decode_pathname D []) (\<lambda>(status', path).
                      if status' \<noteq> 0 then dret (- EIO, locs)
                      else locations_loop D n (locs @ [\<lparr>loc_servers = servers, loc_rootpath = path\<rparr>])))))"

definition decode_attr_fs_locations ::
  "'r receiver \<Rightarrow> nfs4_fs_locations option \<Rightarrow> ('r, nfs4_fs_locations option) attr_decoder" where [dec_defs]:
  "decode_attr_fs_locations D res bm =
     attr_item 0 FATTR4_WORD0_FS_LOCATIONS res
       (case res of
          None \<Rightarrow> dret (- EIO, None, bm)
        | Some fsl \<Rightarrow>
            dbind (decode_pathname D (fsl_path fsl)) (\<lambda>(status, path).
              let fsl1 = fsl\<lparr>fsl_path := path\<rparr>
              in if status \<noteq> 0 then dret (status, Some fsl1, bm)
                 else inline_decode D 4 (- EIO, Some fsl1, bm) (\<lambda>p.
                        let n = sint (word p 0)
                        in if n \<le> 0 then dret (- EIO, Some fsl1, bm)
                           else dbind (locations_loop D (nat n) []) (\<lambda>(status', locs).
                                  let fsl2 = fsl1\<lparr>fsl_locations := locs\<rparr>
                                  in if status' \<noteq> 0 then dret (- EIO, Some fsl2, bm)
                                     else dret (if locs \<noteq> [] then uint NFS_ATTR_FATTR_V4_LOCATIONS else 0,
                                                Some fsl2, bm))))) bm"

section \<open>pNFS attributes\<close>

definition decode_threshold_hint :: "'r receiver \<Rightarrow> bitmap3 \<Rightarrow> u32 \<Rightarrow> ('r, int \<times> u64) decoder" where [dec_defs]:
  "decode_threshold_hint D bm hint_bit =
     (if bm_word 0 bm AND hint_bit \<noteq> 0
      then inline_decode D 8 (- EIO, 0) (\<lambda>p. dret (0, xdr_decode_hyper D p))
      else dret (0, 0))"

definition decode_first_threshold_item4 ::
  "'r receiver \<Rightarrow> nfs4_threshold \<Rightarrow> ('r, int \<times> nfs4_threshold) decoder" where [dec_defs]:
  "decode_first_threshold_item4 D old =
     inline_decode D 4 (- EIO, old) (\<lambda>p.
       let r1 = old\<lparr>th_l_type := word p 0\<rparr>
       in dbind (decode_attr_bitmap D (0, 0, 0)) (\<lambda>(status, bm).
          if status < 0 then dret (status, r1) else
          dbind (decode_attr_length D) (\<lambda>(status, attrlen, savep).
          if status < 0 then dret (status, r1) else
          dbind (decode_threshold_hint D bm THRESHOLD_RD) (\<lambda>(status, v).
          let r2 = r1\<lparr>th_rd_sz := v\<rparr> in if status < 0 then dret (status, r2) else
          dbind (decode_threshold_hint D bm THRESHOLD_WR) (\<lambda>(status, v).
          let r3 = r2\<lparr>th_wr_sz := v\<rparr> in if status < 0 then dret (status, r3) else
          dbind (decode_threshold_hint D bm THRESHOLD_RD_IO) (\<lambda>(status, v).
          let r4 = r3\<lparr>th_rd_io_sz := v\<rparr> in if status < 0 then dret (status, r4) else
          dbind (decode_threshold_hint D bm THRESHOLD_WR_IO) (\<lambda>(status, v).
          let r5 = r4\<lparr>th_wr_io_sz := v\<rparr> in if status < 0 then dret (status, r5) else
          dbind (verify_attr_len D savep attrlen) (\<lambda>status. dret (status, r5\<lparr>th_bm := bm_word 0 bm\<rparr>)))))))))"

definition decode_attr_mdsthreshold ::
  "'r receiver \<Rightarrow> nfs4_threshold option \<Rightarrow> ('r, nfs4_threshold option) attr_decoder" where [dec_defs]:
  "decode_attr_mdsthreshold D res bm =
     attr_item 2 FATTR4_WORD2_MDSTHRESHOLD res
       (case res of
          None \<Rightarrow> dret (- EREMOTEIO, None, bm)
        | Some th \<Rightarrow>
            inline_decode D 4 (- EIO, res, bm) (\<lambda>p.
              if word p 0 = 0 then dret (0, res, bm)
              else dbind (decode_first_threshold_item4 D th) (\<lambda>(status, th').
                     dret (status, Some th', bm_clear 2 FATTR4_WORD2_MDSTHRESHOLD bm)))) bm"

text \<open>\<open>num * 4\<close> is computed in 32 bits.\<close>

definition decode_first_pnfs_layout_type :: "'r receiver \<Rightarrow> u32 \<Rightarrow> ('r, int \<times> u32) decoder" where [dec_defs]:
  "decode_first_pnfs_layout_type D old =
     inline_decode D 4 (- EIO, old) (\<lambda>p.
       let num = word p 0
       in if num = 0 then dret (0, 0)
          else inline_decode D (unat (scast (num * 4) :: u64)) (- EIO, old) (\<lambda>q.
                 word_at q 0 (\<lambda>t. dret (0, t))))"

definition decode_attr_pnfstype :: "'r receiver \<Rightarrow> u32 \<Rightarrow> ('r, u32) attr_decoder" where [dec_defs]:
  "decode_attr_pnfstype D old bm =
     (if bm_word 1 bm AND (FATTR4_WORD1_FS_LAYOUT_TYPES - 1) \<noteq> 0 then dret (- EIO, old, bm)
      else if bm_word 1 bm AND FATTR4_WORD1_FS_LAYOUT_TYPES \<noteq> 0 then
        dbind (decode_first_pnfs_layout_type D old) (\<lambda>(status, t).
          dret (status, t, bm_clear 1 FATTR4_WORD1_FS_LAYOUT_TYPES bm))
      else dret (0, 0, bm))"

definition decode_attr_layout_blksize :: "'r receiver \<Rightarrow> ('r, u32) attr_decoder" where [dec_defs]:
  "decode_attr_layout_blksize D bm =
     (if bm_word 2 bm AND FATTR4_WORD2_LAYOUT_BLKSIZE \<noteq> 0 then
        inline_decode D 4 (- EIO, 0, bm) (\<lambda>p. dret (0, word p 0, bm_clear 2 FATTR4_WORD2_LAYOUT_BLKSIZE bm))
      else dret (0, 0, bm))"

end
