(* ===== verification/Xdr_Decode_Getattr.thy ===== *)
theory Xdr_Decode_Getattr
  imports Xdr_Decode_Attrs
begin

text \<open>
  The GETATTR replies of \<^verbatim>\<open>fs/nfs/nfs4xdr.c\<close>: \<^verbatim>\<open>decode_getfattr_attrs\<close>,
  \<^verbatim>\<open>decode_getfattr_generic\<close>, \<^verbatim>\<open>decode_getfattr_label\<close>, \<^verbatim>\<open>decode_getfattr\<close>, and the forms for server
  capabilities, file system statistics, path configuration and file system information. Each is a sequence
  of attribute decoders that stops at the first error, with what was written until then kept.
\<close>

section \<open>Sequences of attribute decoders\<close>

text \<open>A step runs one attribute decoder and stores what it returns; \<open>attr_steps\<close> runs steps until one
  satisfies the stopping condition and returns the last status.\<close>

type_synonym ('r, 'g) attr_step = "bitmap3 \<times> 'g \<Rightarrow> ('r, int \<times> bitmap3 \<times> 'g) decoder"

definition attr_step :: "('r, 'v) attr_decoder \<Rightarrow> (int \<Rightarrow> 'v \<Rightarrow> 'g \<Rightarrow> 'g) \<Rightarrow> ('r, 'g) attr_step" where
  "attr_step d upd s = dbind (d (fst s)) (\<lambda>(status, v, bm). dret (status, bm, upd status v (snd s)))"

fun attr_steps :: "(int \<Rightarrow> bool) \<Rightarrow> ('r, 'g) attr_step list \<Rightarrow> int \<Rightarrow> ('r, 'g) attr_step" where
  "attr_steps stop [] status s = dret (status, s)"
| "attr_steps stop (f # fs) status s =
     dbind (f s) (\<lambda>(status', s'). if stop status' then dret (status', s') else attr_steps stop fs status' s')"

section \<open>File attributes\<close>

text \<open>The outputs of \<^verbatim>\<open>decode_getfattr_attrs\<close>; a NULL argument is \<open>None\<close>.\<close>

record getfattr_out =
  out_fattr :: nfs_fattr
  out_fh :: "nfs_fh option"
  out_fsloc :: "nfs4_fs_locations option"
  out_label :: "nfs4_label option"

text \<open>\<^verbatim>\<open>fattr->valid |= status\<close>, not reached after an error.\<close>

definition set_valid :: "int \<Rightarrow> nfs_fattr \<Rightarrow> nfs_fattr" where
  "set_valid status fa = (if status < 0 then fa else fa\<lparr>fa_valid := fa_valid fa OR of_int status\<rparr>)"

definition fattr_step :: "('r, 'v) attr_decoder \<Rightarrow> ('v \<Rightarrow> nfs_fattr \<Rightarrow> nfs_fattr) \<Rightarrow> ('r, getfattr_out) attr_step" where
  "fattr_step d upd =
     attr_step d (\<lambda>status v g. g\<lparr>out_fattr := set_valid status (upd v (out_fattr g))\<rparr>)"

definition decode_getfattr_attrs ::
  "'r receiver \<Rightarrow> nfs_server \<Rightarrow> ('r, getfattr_out) attr_step" where [dec_defs]:
  "decode_getfattr_attrs D server s =
     attr_steps (\<lambda>status. status < 0)
      ([attr_step (decode_attr_type D) (\<lambda>status t g.
          if status < 0 then g
          else let fa = (out_fattr g)\<lparr>fa_mode := 0\<rparr>
               in g\<lparr>out_fattr := if status \<noteq> 0
                                  then set_valid status (fa\<lparr>fa_mode := fa_mode fa OR nfs_type2fmt ! unat t\<rparr>)
                                  else fa\<rparr>),
        fattr_step (decode_attr_change D) (\<lambda>v fa. fa\<lparr>fa_change_attr := v\<rparr>),
        fattr_step (decode_attr_size D) (\<lambda>v fa. fa\<lparr>fa_size := v\<rparr>),
        fattr_step (decode_attr_fsid D) (\<lambda>v fa. fa\<lparr>fa_fsid := v\<rparr>),
        attr_step (decode_attr_error D 0) (\<lambda>status v g. g),
        attr_step (\<lambda>bm. decode_attr_filehandle D (out_fh (snd s)) bm) (\<lambda>status v g. g\<lparr>out_fh := v\<rparr>),
        fattr_step (decode_attr_fileid D) (\<lambda>v fa. fa\<lparr>fa_fileid := v\<rparr>),
        attr_step (\<lambda>bm. decode_attr_fs_locations D (out_fsloc (snd s)) bm)
          (\<lambda>status v g. g\<lparr>out_fsloc := v, out_fattr := set_valid status (out_fattr g)\<rparr>),
        attr_step (decode_attr_mode D) (\<lambda>status v g.
          if status \<le> 0 then g
          else g\<lparr>out_fattr := set_valid status ((out_fattr g)\<lparr>fa_mode := fa_mode (out_fattr g) OR v\<rparr>)\<rparr>),
        fattr_step (decode_attr_nlink D) (\<lambda>v fa. fa\<lparr>fa_nlink := v\<rparr>),
        fattr_step (decode_attr_owner D server (fa_owner_name (out_fattr (snd s))))
          (\<lambda>(uid, nm) fa. fa\<lparr>fa_uid := uid, fa_owner_name := nm\<rparr>),
        fattr_step (decode_attr_group D server (fa_group_name (out_fattr (snd s))))
          (\<lambda>(gid, nm) fa. fa\<lparr>fa_gid := gid, fa_group_name := nm\<rparr>),
        fattr_step (decode_attr_rdev D) (\<lambda>v fa. fa\<lparr>fa_rdev := v\<rparr>),
        fattr_step (decode_attr_space_used D) (\<lambda>v fa. fa\<lparr>fa_used := v\<rparr>),
        fattr_step (decode_attr_time_access D) (\<lambda>v fa. fa\<lparr>fa_atime := v\<rparr>),
        fattr_step (decode_attr_time_metadata D) (\<lambda>v fa. fa\<lparr>fa_ctime := v\<rparr>),
        fattr_step (decode_attr_time_modify D) (\<lambda>v fa. fa\<lparr>fa_mtime := v\<rparr>),
        fattr_step (decode_attr_mounted_on_fileid D) (\<lambda>v fa. fa\<lparr>fa_mounted_on_fileid := v\<rparr>),
        attr_step (decode_attr_mdsthreshold D (fa_mdsthreshold (out_fattr (snd s))))
          (\<lambda>status v g. g\<lparr>out_fattr := (out_fattr g)\<lparr>fa_mdsthreshold := v\<rparr>\<rparr>)] @
       (if out_label (snd s) \<noteq> None
        then [attr_step (decode_attr_security_label D (out_label (snd s)))
                (\<lambda>status v g. g\<lparr>out_label := v, out_fattr := set_valid status (out_fattr g)\<rparr>)]
        else [])) 0 s"

definition decode_getfattr_generic ::
  "'r receiver \<Rightarrow> nfs_server \<Rightarrow> getfattr_out \<Rightarrow> ('r, int \<times> getfattr_out) decoder" where [dec_defs]:
  "decode_getfattr_generic D server g =
     dbind (decode_op_hdr D OP_GETATTR) (\<lambda>status.
     if status < 0 then dret (status, g) else
     dbind (decode_attr_bitmap D (0, 0, 0)) (\<lambda>(status, bm).
     if status < 0 then dret (status, g) else
     dbind (decode_attr_length D) (\<lambda>(status, attrlen, savep).
     if status < 0 then dret (status, g) else
     dbind (decode_getfattr_attrs D server (bm, g)) (\<lambda>(status, bm', g').
     if status < 0 then dret (status, g') else
     dbind (verify_attr_len D savep attrlen) (\<lambda>status. dret (status, g'))))))"

definition decode_getfattr_label ::
  "'r receiver \<Rightarrow> nfs_server \<Rightarrow> nfs_fattr \<Rightarrow> nfs4_label option \<Rightarrow> ('r, int \<times> nfs_fattr \<times> nfs4_label option) decoder" where [dec_defs]:
  "decode_getfattr_label D server fattr lab =
     dbind (decode_getfattr_generic D server \<lparr>out_fattr = fattr, out_fh = None, out_fsloc = None, out_label = lab\<rparr>)
       (\<lambda>(status, g). dret (status, out_fattr g, out_label g))"

definition decode_getfattr :: "'r receiver \<Rightarrow> nfs_server \<Rightarrow> nfs_fattr \<Rightarrow> ('r, int \<times> nfs_fattr) decoder" where [dec_defs]:
  "decode_getfattr D server fattr =
     dbind (decode_getfattr_generic D server \<lparr>out_fattr = fattr, out_fh = None, out_fsloc = None, out_label = None\<rparr>)
       (\<lambda>(status, g). dret (status, out_fattr g))"

section \<open>Other GETATTR replies\<close>

text \<open>Header, bitmap, length, the attributes (stopping at any non-zero status), and the length check.\<close>

definition getattr_reply ::
  "'r receiver \<Rightarrow> ('r, 'g) attr_step list \<Rightarrow> 'g \<Rightarrow> ('r, int \<times> 'g) decoder" where
  "getattr_reply D steps g =
     dbind (decode_op_hdr D OP_GETATTR) (\<lambda>status.
     if status \<noteq> 0 then dret (status, g) else
     dbind (decode_attr_bitmap D (0, 0, 0)) (\<lambda>(status, bm).
     if status \<noteq> 0 then dret (status, g) else
     dbind (decode_attr_length D) (\<lambda>(status, attrlen, savep).
     if status \<noteq> 0 then dret (status, g) else
     dbind (attr_steps (\<lambda>status. status \<noteq> 0) steps 0 (bm, g)) (\<lambda>(status, bm', g').
     if status \<noteq> 0 then dret (status, g') else
     dbind (verify_attr_len D savep attrlen) (\<lambda>status. dret (status, g'))))))"

record nfs4_server_caps_res =
  caps_attr_bitmask :: bitmap3
  caps_acl_bitmask :: u32
  caps_has_links :: u32
  caps_has_symlinks :: u32
  caps_fh_expire_type :: u32

definition decode_server_caps :: "'r receiver \<Rightarrow> nfs4_server_caps_res \<Rightarrow> ('r, int \<times> nfs4_server_caps_res) decoder" where [dec_defs]:
  "decode_server_caps D res =
     getattr_reply D
       [attr_step (decode_attr_supported D (caps_attr_bitmask res)) (\<lambda>status v g. g\<lparr>caps_attr_bitmask := v\<rparr>),
        attr_step (decode_attr_fh_expire_type D) (\<lambda>status v g. g\<lparr>caps_fh_expire_type := v\<rparr>),
        attr_step (decode_attr_link_support D) (\<lambda>status v g. g\<lparr>caps_has_links := v\<rparr>),
        attr_step (decode_attr_symlink_support D) (\<lambda>status v g. g\<lparr>caps_has_symlinks := v\<rparr>),
        attr_step (decode_attr_aclsupport D) (\<lambda>status v g. g\<lparr>caps_acl_bitmask := v\<rparr>)] res"

record nfs_fsstat =
  afiles :: u64
  ffiles :: u64
  tfiles :: u64
  abytes :: u64
  fbytes :: u64
  tbytes :: u64

definition decode_statfs :: "'r receiver \<Rightarrow> nfs_fsstat \<Rightarrow> ('r, int \<times> nfs_fsstat) decoder" where [dec_defs]:
  "decode_statfs D fsstat =
     getattr_reply D
       [attr_step (decode_attr_files_avail D) (\<lambda>status v g. g\<lparr>afiles := v\<rparr>),
        attr_step (decode_attr_files_free D) (\<lambda>status v g. g\<lparr>ffiles := v\<rparr>),
        attr_step (decode_attr_files_total D) (\<lambda>status v g. g\<lparr>tfiles := v\<rparr>),
        attr_step (decode_attr_space_avail D) (\<lambda>status v g. g\<lparr>abytes := v\<rparr>),
        attr_step (decode_attr_space_free D) (\<lambda>status v g. g\<lparr>fbytes := v\<rparr>),
        attr_step (decode_attr_space_total D) (\<lambda>status v g. g\<lparr>tbytes := v\<rparr>)] fsstat"

record nfs_pathconf =
  max_link :: u32
  max_namelen :: u32

definition decode_pathconf :: "'r receiver \<Rightarrow> nfs_pathconf \<Rightarrow> ('r, int \<times> nfs_pathconf) decoder" where [dec_defs]:
  "decode_pathconf D pathconf =
     getattr_reply D
       [attr_step (decode_attr_maxlink D) (\<lambda>status v g. g\<lparr>max_link := v\<rparr>),
        attr_step (decode_attr_maxname D) (\<lambda>status v g. g\<lparr>max_namelen := v\<rparr>)] pathconf"

record nfs_fsinfo =
  rtmax :: u32
  rtpref :: u32
  rtmult :: u32
  wtmax :: u32
  wtpref :: u32
  wtmult :: u32
  dtpref :: u32
  maxfilesize :: u64
  time_delta :: timespec
  lease_time :: u32
  layouttype :: u32
  blksize :: u32

text \<open>The multiples are set once the length is read; the preferred sizes follow the maxima that were
  read without error.\<close>

definition decode_fsinfo :: "'r receiver \<Rightarrow> nfs_fsinfo \<Rightarrow> ('r, int \<times> nfs_fsinfo) decoder" where [dec_defs]:
  "decode_fsinfo D fsinfo =
     getattr_reply D
       [\<lambda>(bm, g). dret (0, bm, g\<lparr>rtmult := 512, wtmult := 512\<rparr>),
        attr_step (decode_attr_lease_time D) (\<lambda>status v g. g\<lparr>lease_time := v\<rparr>),
        attr_step (decode_attr_maxfilesize D) (\<lambda>status v g. g\<lparr>maxfilesize := v\<rparr>),
        attr_step (decode_attr_maxread D) (\<lambda>status v g.
          if status \<noteq> 0 then g\<lparr>rtmax := v\<rparr> else g\<lparr>rtmax := v, rtpref := v, dtpref := v\<rparr>),
        attr_step (decode_attr_maxwrite D) (\<lambda>status v g.
          if status \<noteq> 0 then g\<lparr>wtmax := v\<rparr> else g\<lparr>wtmax := v, wtpref := v\<rparr>),
        attr_step (decode_attr_time_delta D) (\<lambda>status v g. g\<lparr>time_delta := v\<rparr>),
        attr_step (decode_attr_pnfstype D (layouttype fsinfo)) (\<lambda>status v g. g\<lparr>layouttype := v\<rparr>),
        attr_step (decode_attr_layout_blksize D) (\<lambda>status v g. g\<lparr>blksize := v\<rparr>)] fsinfo"

end
