(* ===== verification/Nfs4_Seqid.thy ===== *)
theory Nfs4_Seqid
  imports Nfs4_Args
begin

text \<open>
  Sequence ids of open and lock owners: \<^verbatim>\<open>nfs_increment_seqid\<close>, \<^verbatim>\<open>nfs_increment_open_seqid\<close>,
  \<^verbatim>\<open>nfs_increment_lock_seqid\<close> and \<^verbatim>\<open>nfs4_drop_state_owner\<close> of \<^verbatim>\<open>fs/nfs/nfs4state.c\<close>, and how they
  agree with \<^verbatim>\<open>seqid_mutating_err\<close> of \<^verbatim>\<open>include/linux/nfs4.h\<close>. The owner and the server number the
  state-changing operations; the client must count an operation exactly when the server did.
\<close>

text \<open>\<^verbatim>\<open>struct nfs_seqid_counter\<close>\<close>

record nfs_seqid_counter =
  sq_flags :: u32
  sq_counter :: u32

abbreviation (input) NFS_SEQID_CONFIRMED :: u32 where "NFS_SEQID_CONFIRMED \<equiv> 1"

text \<open>\<^verbatim>\<open>struct nfs4_state_owner\<close>: its sequence, whether it is linked into the server's tree of owners, and
  whether the client of its server has a session.\<close>

record nfs4_state_owner =
  so_seqid :: nfs_seqid_counter
  so_linked :: bool
  so_has_session :: bool

definition nfs4_drop_state_owner :: "nfs4_state_owner \<Rightarrow> nfs4_state_owner" where
  "nfs4_drop_state_owner sp = (if so_linked sp then sp\<lparr>so_linked := False\<rparr> else sp)"

definition nfs_increment_seqid :: "int \<Rightarrow> nfs_seqid_counter \<Rightarrow> nfs_seqid_counter" where
  "nfs_increment_seqid status sq =
     (if status = 0 then sq\<lparr>sq_counter := sq_counter sq + 1\<rparr>
      else if status = - NFS4ERR_BAD_SEQID then sq
      else if status = - NFS4ERR_STALE_CLIENTID \<or> status = - NFS4ERR_STALE_STATEID \<or>
              status = - NFS4ERR_BAD_STATEID \<or> status = - NFS4ERR_BADXDR \<or>
              status = - NFS4ERR_RESOURCE \<or> status = - NFS4ERR_NOFILEHANDLE then sq
      else sq\<lparr>sq_counter := sq_counter sq + 1\<rparr>)"

definition nfs_increment_open_seqid :: "int \<Rightarrow> nfs4_state_owner \<Rightarrow> nfs4_state_owner" where
  "nfs_increment_open_seqid status sp =
     (let sp' = (if status = - NFS4ERR_BAD_SEQID then nfs4_drop_state_owner sp else sp)
      in if \<not> so_has_session sp' then sp'\<lparr>so_seqid := nfs_increment_seqid status (so_seqid sp')\<rparr> else sp')"

definition nfs_increment_lock_seqid :: "int \<Rightarrow> nfs_seqid_counter \<Rightarrow> nfs_seqid_counter" where
  "nfs_increment_lock_seqid status sq = nfs_increment_seqid status sq"

text \<open>The two lists agree: the counter of an owner without a session moves exactly on the errors that
  \<^verbatim>\<open>seqid_mutating_err\<close> names.\<close>

lemma nfs_increment_seqid_mutating:
  "sq_counter (nfs_increment_seqid (- uint e) sq) =
     (if seqid_mutating_err e then sq_counter sq + 1 else sq_counter sq)"
  by (simp add: nfs_increment_seqid_def seqid_mutating_err_def word_uint_eq_iff)

lemma nfs_increment_seqid_flags [simp]: "sq_flags (nfs_increment_seqid status sq) = sq_flags sq"
  by (simp add: nfs_increment_seqid_def)

lemma nfs_increment_open_seqid_cases:
  "nfs_increment_open_seqid status sp =
     sp\<lparr>so_linked := so_linked sp \<and> status \<noteq> - NFS4ERR_BAD_SEQID,
        so_seqid := if so_has_session sp then so_seqid sp else nfs_increment_seqid status (so_seqid sp)\<rparr>"
  by (simp add: nfs_increment_open_seqid_def nfs4_drop_state_owner_def)

end
