(* ===== verification/Xdr_Decode_Ops.thy ===== *)
theory Xdr_Decode_Ops
  imports Xdr_Decode_Getattr Nfs4_Seqid
begin

text \<open>
  The decoders of the single operations of a reply (\<^verbatim>\<open>decode_access\<close> to \<^verbatim>\<open>decode_free_stateid\<close> of
  \<^verbatim>\<open>fs/nfs/nfs4xdr.c\<close>). Each takes the old value of what it writes and returns its status together with
  the new value; fields the code leaves alone keep the old value on every path.
\<close>

section \<open>Shapes shared by the operations\<close>

text \<open>\<^verbatim>\<open>status = m; if (status) return status;\<close> with the outputs \<open>a\<close> written so far.\<close>

definition on_ok :: "('r, int) decoder \<Rightarrow> 'a \<Rightarrow> ('r, int \<times> 'a) decoder \<Rightarrow> ('r, int \<times> 'a) decoder" where
  "on_ok m a k = dbind m (\<lambda>status. if status \<noteq> 0 then dret (status, a) else k)"

section \<open>File and directory operations\<close>

record access_out =
  acc_supported :: u32
  acc_access :: u32

definition decode_access :: "'r receiver \<Rightarrow> access_out \<Rightarrow> ('r, int \<times> access_out) decoder" where [dec_defs]:
  "decode_access D old =
     on_ok (decode_op_hdr D OP_ACCESS) old
       (inline_decode D 8 (- EIO, old) (\<lambda>p. dret (0, \<lparr>acc_supported = word p 0, acc_access = word p 1\<rparr>)))"

text \<open>The result of an operation of an open owner: its stateid and the owner whose sequence counts it.\<close>

record owner_out =
  oo_stateid :: nfs4_stateid
  oo_owner :: nfs4_state_owner

text \<open>CLOSE, OPEN_CONFIRM and OPEN_DOWNGRADE have the same body.\<close>

definition decode_owner_op :: "'r receiver \<Rightarrow> nfs_opnum4 \<Rightarrow> owner_out \<Rightarrow> ('r, int \<times> owner_out) decoder" where [dec_defs]:
  "decode_owner_op D opc res =
     dbind (decode_op_hdr D opc) (\<lambda>status.
       let res' = (if status \<noteq> - EIO then res\<lparr>oo_owner := nfs_increment_open_seqid status (oo_owner res)\<rparr> else res)
       in if status = 0
          then dbind (decode_stateid D (oo_stateid res')) (\<lambda>(status, sid). dret (status, res'\<lparr>oo_stateid := sid\<rparr>))
          else dret (status, res'))"

definition decode_close :: "'r receiver \<Rightarrow> owner_out \<Rightarrow> ('r, int \<times> owner_out) decoder" where [dec_defs]:
  "decode_close D res = decode_owner_op D OP_CLOSE res"

definition decode_commit :: "'r receiver \<Rightarrow> bytes \<Rightarrow> ('r, int \<times> bytes) decoder" where [dec_defs]:
  "decode_commit D verf = on_ok (decode_op_hdr D OP_COMMIT) verf (decode_write_verifier D verf)"

text \<open>A bitmap that is skipped: its length word and \<open>bmlen << 2\<close> bytes, in 32 bits.\<close>

definition skip_bitmap :: "'r receiver \<Rightarrow> 'a \<Rightarrow> ('r, int \<times> 'a) decoder" where [dec_defs]:
  "skip_bitmap D a =
     inline_decode D 4 (- EIO, a) (\<lambda>p. inline_decode D (unat (push_bit 2 (word p 0))) (- EIO, a) (\<lambda>q. dret (0, a)))"

definition decode_create :: "'r receiver \<Rightarrow> nfs4_change_info \<Rightarrow> ('r, int \<times> nfs4_change_info) decoder" where [dec_defs]:
  "decode_create D cinfo =
     on_ok (decode_op_hdr D OP_CREATE) cinfo
       (dbind (decode_change_info D cinfo) (\<lambda>(status, cinfo').
          if status \<noteq> 0 then dret (status, cinfo') else skip_bitmap D cinfo'))"

definition decode_getfh :: "'r receiver \<Rightarrow> ('r, int \<times> nfs_fh) decoder" where [dec_defs]:
  "decode_getfh D =
     on_ok (decode_op_hdr D OP_GETFH) fh_zero
       (inline_decode D 4 (- EIO, fh_zero) (\<lambda>p.
          let len = word p 0
          in if len > of_nat NFS4_FHSIZE then dret (- EIO, fh_zero)
             else inline_decode D (unat len) (- EIO, fh_zero\<lparr>fh_size := ucast len\<rparr>) (\<lambda>q.
                    dret (0, \<lparr>fh_size = ucast len, fh_data = copy_over (fh_data fh_zero) (take (unat len) q)\<rparr>))))"

definition decode_link :: "'r receiver \<Rightarrow> nfs4_change_info \<Rightarrow> ('r, int \<times> nfs4_change_info) decoder" where [dec_defs]:
  "decode_link D cinfo = on_ok (decode_op_hdr D OP_LINK) cinfo (decode_change_info D cinfo)"

section \<open>Locks\<close>

abbreviation (input) F_RDLCK :: u32 where "F_RDLCK \<equiv> 0"
abbreviation (input) F_WRLCK :: u32 where "F_WRLCK \<equiv> 1"
abbreviation (input) OFFSET_MAX :: u64 where "OFFSET_MAX \<equiv> 0x7FFFFFFFFFFFFFFF"

record denied_lock = file_lock +
  fl_pid :: u32

definition decode_lock_denied :: "'r receiver \<Rightarrow> denied_lock option \<Rightarrow> ('r, int \<times> denied_lock option) decoder" where [dec_defs]:
  "decode_lock_denied D fl =
     inline_decode D 32 (- EIO, fl) (\<lambda>p.
       let offset = xdr_decode_hyper D p; len = xdr_decode_hyper D (drop 8 p); type = word p 4;
           fl' = map_option (\<lambda>fl. fl\<lparr>fl_start := offset,
                     fl_end := if len = NOT 0 then OFFSET_MAX else offset + len - 1,
                     fl_type := if type AND 1 \<noteq> 0 then F_RDLCK else F_WRLCK, fl_pid := 0\<rparr>) fl
       in inline_decode D (unat (word p 7)) (- EIO, fl') (\<lambda>q. dret (- NFS4ERR_DENIED, fl')))"

record nfs_lock_res =
  lkr_stateid :: nfs4_stateid
  lkr_lock_seqid :: nfs_seqid_counter
  lkr_open_seqid :: "nfs4_state_owner option"

definition decode_lock :: "'r receiver \<Rightarrow> nfs_lock_res \<Rightarrow> ('r, int \<times> nfs_lock_res) decoder" where [dec_defs]:
  "decode_lock D res =
     (let count = (\<lambda>status res. dret (status,
            res\<lparr>lkr_open_seqid := map_option (nfs_increment_open_seqid status) (lkr_open_seqid res),
                lkr_lock_seqid := nfs_increment_lock_seqid status (lkr_lock_seqid res)\<rparr>))
      in dbind (decode_op_hdr D OP_LOCK) (\<lambda>status.
           if status = - EIO then dret (status, res)
           else if status = 0 then
             dbind (decode_stateid D (lkr_stateid res)) (\<lambda>(status, sid).
               if status \<noteq> 0 then dret (status, res\<lparr>lkr_stateid := sid\<rparr>) else count status (res\<lparr>lkr_stateid := sid\<rparr>))
           else if status = - NFS4ERR_DENIED then
             dbind (decode_lock_denied D None) (\<lambda>(status, fl). count status res)
           else count status res))"

definition decode_lockt :: "'r receiver \<Rightarrow> denied_lock option \<Rightarrow> ('r, int \<times> denied_lock option) decoder" where [dec_defs]:
  "decode_lockt D denied =
     dbind (decode_op_hdr D OP_LOCKT) (\<lambda>status.
       if status = - NFS4ERR_DENIED then decode_lock_denied D denied else dret (status, denied))"

record nfs_locku_res =
  lur_stateid :: nfs4_stateid
  lur_seqid :: nfs_seqid_counter

definition decode_locku :: "'r receiver \<Rightarrow> nfs_locku_res \<Rightarrow> ('r, int \<times> nfs_locku_res) decoder" where [dec_defs]:
  "decode_locku D res =
     dbind (decode_op_hdr D OP_LOCKU) (\<lambda>status.
       let res' = (if status \<noteq> - EIO then res\<lparr>lur_seqid := nfs_increment_lock_seqid status (lur_seqid res)\<rparr> else res)
       in if status = 0
          then dbind (decode_stateid D (lur_stateid res')) (\<lambda>(status, sid). dret (status, res'\<lparr>lur_stateid := sid\<rparr>))
          else dret (status, res'))"

definition decode_release_lockowner :: "'r receiver \<Rightarrow> ('r, int) decoder" where [dec_defs]:
  "decode_release_lockowner D = decode_op_hdr D OP_RELEASE_LOCKOWNER"

definition decode_lookup :: "'r receiver \<Rightarrow> ('r, int) decoder" where [dec_defs]:
  "decode_lookup D = decode_op_hdr D OP_LOOKUP"

section \<open>OPEN\<close>

text \<open>An unknown limit type leaves the old maximum.\<close>

definition decode_space_limit :: "'r receiver \<Rightarrow> u64 \<Rightarrow> ('r, int \<times> u64) decoder" where [dec_defs]:
  "decode_space_limit D maxsize =
     inline_decode D 12 (- EIO, maxsize) (\<lambda>p.
       let limit_type = word p 0
       in dret (0, if limit_type = 1 then xdr_decode_hyper D (drop 4 p)
                   else if limit_type = 2 then ucast (word p 1) * ucast (word p 2)
                   else maxsize))"

abbreviation (input) FMODE_READ :: u32 where "FMODE_READ \<equiv> 1"
abbreviation (input) FMODE_WRITE :: u32 where "FMODE_WRITE \<equiv> 2"

record nfs_openres =
  or_stateid :: nfs4_stateid
  or_fh :: nfs_fh
  or_cinfo :: nfs4_change_info
  or_rflags :: u32
  or_fattr :: nfs_fattr
  or_label :: "nfs4_label option"
  or_owner :: nfs4_state_owner
  or_server :: nfs_server
  or_delegation_type :: u32
  or_delegation :: nfs4_stateid
  or_do_recall :: u32
  or_maxsize :: u64
  or_attrset :: "u32 list"
  or_access_request :: u32
  or_access :: access_out

definition decode_delegation :: "'r receiver \<Rightarrow> nfs_openres \<Rightarrow> ('r, int \<times> nfs_openres) decoder" where [dec_defs]:
  "decode_delegation D res =
     inline_decode D 4 (- EIO, res) (\<lambda>p.
       let delegation_type = word p 0
       in if delegation_type = NFS4_OPEN_DELEGATE_NONE then dret (0, res\<lparr>or_delegation_type := 0\<rparr>)
          else dbind (decode_stateid D (or_delegation res)) (\<lambda>(status, sid).
            let res = res\<lparr>or_delegation := sid\<rparr>
            in if status \<noteq> 0 then dret (status, res)
               else inline_decode D 4 (- EIO, res) (\<lambda>p.
                 let res = res\<lparr>or_do_recall := word p 0\<rparr>;
                     ace = (\<lambda>res. dbind (decode_ace D) (\<lambda>status. dret (status, res)))
                 in if delegation_type = NFS4_OPEN_DELEGATE_READ then ace (res\<lparr>or_delegation_type := FMODE_READ\<rparr>)
                    else if delegation_type = NFS4_OPEN_DELEGATE_WRITE then
                      dbind (decode_space_limit D (or_maxsize res)) (\<lambda>(status, maxsize).
                        let res = res\<lparr>or_delegation_type := FMODE_WRITE OR FMODE_READ, or_maxsize := maxsize\<rparr>
                        in if status < 0 then dret (- EIO, res) else ace res)
                    else ace res)))"

definition decode_open :: "'r receiver \<Rightarrow> nfs_openres \<Rightarrow> ('r, int \<times> nfs_openres) decoder" where [dec_defs]:
  "decode_open D res =
     dbind (decode_op_hdr_checked D OP_OPEN) (\<lambda>(ok, status).
       if \<not> ok then dret (status, res)
       else let res = res\<lparr>or_owner := nfs_increment_open_seqid status (or_owner res)\<rparr>
       in if status \<noteq> 0 then dret (status, res)
       else dbind (decode_stateid D (or_stateid res)) (\<lambda>(status, sid).
         let res = res\<lparr>or_stateid := sid\<rparr>
         in if status \<noteq> 0 then dret (status, res)
         else dbind (decode_change_info D (or_cinfo res)) (\<lambda>(_, cinfo).
           let res = res\<lparr>or_cinfo := cinfo\<rparr>
           in inline_decode D 8 (- EIO, res) (\<lambda>p.
             let res = res\<lparr>or_rflags := word p 0\<rparr>; bmlen = word p 1
             in if bmlen > 10 then dret (- EIO, res)
                else inline_decode D (unat (push_bit 2 bmlen)) (- EIO, res) (\<lambda>q.
                  let savewords = min (unat bmlen) NFS4_BITMAP_SIZE
                  in decode_delegation D (res\<lparr>or_attrset :=
                       map (word q) [0..<savewords] @ replicate (NFS4_BITMAP_SIZE - savewords) 0\<rparr>))))))"

definition decode_open_confirm :: "'r receiver \<Rightarrow> owner_out \<Rightarrow> ('r, int \<times> owner_out) decoder" where [dec_defs]:
  "decode_open_confirm D res = decode_owner_op D OP_OPEN_CONFIRM res"

definition decode_open_downgrade :: "'r receiver \<Rightarrow> owner_out \<Rightarrow> ('r, int \<times> owner_out) decoder" where [dec_defs]:
  "decode_open_downgrade D res = decode_owner_op D OP_OPEN_DOWNGRADE res"

definition decode_putfh :: "'r receiver \<Rightarrow> ('r, int) decoder" where [dec_defs]:
  "decode_putfh D = decode_op_hdr D OP_PUTFH"

definition decode_putrootfh :: "'r receiver \<Rightarrow> ('r, int) decoder" where [dec_defs]:
  "decode_putrootfh D = decode_op_hdr D OP_PUTROOTFH"

section \<open>Data\<close>

record nfs_pgio_out =
  pgr_fattr :: "nfs_fattr option"
  pgr_count :: u32
  pgr_op_status :: u32
  pgr_eof :: u32
  pgr_committed :: u32
  pgr_verf :: bytes
  pgr_server :: nfs_server

definition decode_read :: "'r receiver \<Rightarrow> nfs_pgio_out \<Rightarrow> ('r, int \<times> nfs_pgio_out) decoder" where [dec_defs]:
  "decode_read D res =
     on_ok (decode_op_hdr D OP_READ) res
       (inline_decode D 8 (- EIO, res) (\<lambda>p r.
          let eof = word p 0; count = word p 1; (recvd, t) = xdr_read_pages D r count
          in if count > recvd then Inr ((0, res\<lparr>pgr_eof := 0, pgr_count := recvd\<rparr>), t)
             else Inr ((0, res\<lparr>pgr_eof := eof, pgr_count := count\<rparr>), t)))"

text \<open>The value of \<^verbatim>\<open>xdr_read_pages\<close> is returned as the status.\<close>

definition decode_readdir :: "'r receiver \<Rightarrow> bytes \<Rightarrow> ('r, int \<times> bytes) decoder" where [dec_defs]:
  "decode_readdir D verifier =
     on_ok (decode_op_hdr D OP_READDIR) verifier
       (dbind (decode_verifier D verifier) (\<lambda>(status, verf).
          if status \<noteq> 0 then dret (status, verf)
          else (\<lambda>r. case xdr_read_pages D r (rcv_page_len D r) of (n, t) \<Rightarrow> Inr ((sint n, verf), t))))"

definition decode_readlink :: "'r receiver \<Rightarrow> ('r, int) decoder" where [dec_defs]:
  "decode_readlink D =
     dbind (decode_op_hdr D OP_READLINK) (\<lambda>status.
       if status \<noteq> 0 then dret status
       else inline_decode D 4 (- EIO) (\<lambda>p r.
         let len = word p 0
         in if len \<ge> rcv_page_len D r \<or> len \<le> 0 then Inr (- ENAMETOOLONG, r)
            else case xdr_read_pages D r len of (recvd, t) \<Rightarrow>
              if recvd < len then Inr (- EIO, t) else Inr (0, xdr_terminate_string D t len)))"

definition decode_remove :: "'r receiver \<Rightarrow> nfs4_change_info \<Rightarrow> ('r, int \<times> nfs4_change_info) decoder" where [dec_defs]:
  "decode_remove D cinfo = on_ok (decode_op_hdr D OP_REMOVE) cinfo (decode_change_info D cinfo)"

definition decode_rename ::
  "'r receiver \<Rightarrow> nfs4_change_info \<times> nfs4_change_info \<Rightarrow> ('r, int \<times> nfs4_change_info \<times> nfs4_change_info) decoder" where [dec_defs]:
  "decode_rename D cis =
     on_ok (decode_op_hdr D OP_RENAME) cis
       (dbind (decode_change_info D (fst cis)) (\<lambda>(status, ci).
          if status \<noteq> 0 then dret (status, ci, snd cis)
          else dbind (decode_change_info D (snd cis)) (\<lambda>(status, ci'). dret (status, ci, ci'))))"

definition decode_renew :: "'r receiver \<Rightarrow> ('r, int) decoder" where [dec_defs]:
  "decode_renew D = decode_op_hdr D OP_RENEW"

definition decode_restorefh :: "'r receiver \<Rightarrow> ('r, int) decoder" where [dec_defs]:
  "decode_restorefh D = decode_op_hdr D OP_RESTOREFH"

record nfs_getaclres =
  acl_len :: u64
  acl_data_offset :: u64
  acl_flags :: u32
  acl_scratch :: bool

abbreviation (input) NFS4_ACL_TRUNC :: u32 where "NFS4_ACL_TRUNC \<equiv> 1"

definition decode_getacl :: "'r receiver \<Rightarrow> nfs_getaclres \<Rightarrow> ('r, int \<times> nfs_getaclres) decoder" where [dec_defs]:
  "decode_getacl D res0 =
     (let res = res0\<lparr>acl_len := 0\<rparr>
      in on_ok (decode_op_hdr D OP_GETATTR) res (\<lambda>r0.
           let r = xdr_enter_page D r0 (rcv_page_len D r0); pg_offset = rcv_head_len D r
           in dbind (decode_attr_bitmap D (0, 0, 0)) (\<lambda>(status, bm).
                if status \<noteq> 0 then dret (status, res)
                else dbind (decode_attr_length D) (\<lambda>(status, attrlen, savep).
                  if status \<noteq> 0 then dret (status, res)
                  else if fst bm AND (FATTR4_WORD0_ACL - 1) \<noteq> 0 then dret (- EIO, res)
                  else if fst bm AND FATTR4_WORD0_ACL \<noteq> 0 then (\<lambda>r.
                    let res = res\<lparr>acl_data_offset := ucast (xdr_stream_pos D r - pg_offset), acl_len := ucast attrlen\<rparr>
                    in if acl_len res > ucast (push_bit 2 (rcv_nwords D r)) \<or>
                          acl_len res + acl_data_offset res > ucast (rcv_page_len D r)
                       then Inr ((0, res\<lparr>acl_flags := acl_flags res OR NFS4_ACL_TRUNC\<rparr>), r)
                       else Inr ((0, res), r))
                  else dret (- EOPNOTSUPP, res))) r))"

definition decode_savefh :: "'r receiver \<Rightarrow> ('r, int) decoder" where [dec_defs]:
  "decode_savefh D = decode_op_hdr D OP_SAVEFH"

definition decode_setattr :: "'r receiver \<Rightarrow> ('r, int) decoder" where [dec_defs]:
  "decode_setattr D =
     dbind (decode_op_hdr D OP_SETATTR) (\<lambda>status.
       if status \<noteq> 0 then dret status else dbind (skip_bitmap D ()) (\<lambda>(status, _). dret status))"

section \<open>Client ids\<close>

definition decode_setclientid :: "'r receiver \<Rightarrow> nfs4_setclientid_res \<Rightarrow> ('r, int \<times> nfs4_setclientid_res) decoder" where [dec_defs]:
  "decode_setclientid D res =
     inline_decode D 8 (- EIO, res) (\<lambda>p.
       let nfserr = sint (word p 1)
       in if word p 0 \<noteq> opnum OP_SETCLIENTID then dret (- EIO, res)
          else if nfserr = 0 then
            inline_decode D (8 + NFS4_VERIFIER_SIZE) (- EIO, res) (\<lambda>q.
              dret (0, \<lparr>scr_clientid = xdr_decode_hyper D q, scr_confirm = take NFS4_VERIFIER_SIZE (drop 8 q)\<rparr>))
          else if nfserr = NFS4ERR_CLID_INUSE then
            inline_decode D 4 (- EIO, res) (\<lambda>q. inline_decode D (unat (word q 0)) (- EIO, res) (\<lambda>_.
            inline_decode D 4 (- EIO, res) (\<lambda>q. inline_decode D (unat (word q 0)) (- EIO, res) (\<lambda>_.
              dret (- NFS4ERR_CLID_INUSE, res)))))
          else dret (nfs4_stat_to_errno nfserr, res))"

definition decode_setclientid_confirm :: "'r receiver \<Rightarrow> ('r, int) decoder" where [dec_defs]:
  "decode_setclientid_confirm D = decode_op_hdr D OP_SETCLIENTID_CONFIRM"

definition decode_write :: "'r receiver \<Rightarrow> nfs_pgio_out \<Rightarrow> ('r, int \<times> nfs_pgio_out) decoder" where [dec_defs]:
  "decode_write D res =
     on_ok (decode_op_hdr D OP_WRITE) res
       (inline_decode D 8 (- EIO, res) (\<lambda>p.
          let res = res\<lparr>pgr_count := word p 0, pgr_committed := word p 1\<rparr>
          in dbind (decode_write_verifier D (pgr_verf res)) (\<lambda>(status, v). dret (status, res\<lparr>pgr_verf := v\<rparr>))))"

definition decode_delegreturn :: "'r receiver \<Rightarrow> ('r, int) decoder" where [dec_defs]:
  "decode_delegreturn D = decode_op_hdr D OP_DELEGRETURN"

end
