(* ===== verification/Xdr_Decode_Session.thy ===== *)
theory Xdr_Decode_Session
  imports Xdr_Decode_Ops
begin

text \<open>
  The decoders of security, session, state and layout operations (\<^verbatim>\<open>decode_secinfo_gss\<close> to
  \<^verbatim>\<open>decode_free_stateid\<close> of \<^verbatim>\<open>fs/nfs/nfs4xdr.c\<close>).
\<close>

section \<open>Security information\<close>

text \<open>Platform values: the RPC flavor number, and the sizes that decide how many flavors fit the page.\<close>

abbreviation (input) RPC_AUTH_GSS :: u32 where "RPC_AUTH_GSS \<equiv> 6"
abbreviation (input) GSS_OID_MAX_LEN :: nat where "GSS_OID_MAX_LEN \<equiv> 32"
abbreviation (input) PAGE_SIZE :: nat where "PAGE_SIZE \<equiv> 4096"
abbreviation (input) sizeof_secinfo4 :: nat where "sizeof_secinfo4 \<equiv> 48"
abbreviation (input) offsetof_flavors :: nat where "offsetof_flavors \<equiv> 4"

record nfs4_secinfo4 =
  si_flavor :: u32
  si_oid_len :: u32
  si_oid_data :: bytes
  si_qop :: u32
  si_service :: u32

definition decode_secinfo_gss :: "'r receiver \<Rightarrow> nfs4_secinfo4 \<Rightarrow> ('r, int \<times> nfs4_secinfo4) decoder" where [dec_defs]:
  "decode_secinfo_gss D flavor =
     inline_decode D 4 (- EIO, flavor) (\<lambda>p.
       let oid_len = word p 0
       in if oid_len > of_nat GSS_OID_MAX_LEN then dret (- EINVAL, flavor)
          else inline_decode D (unat oid_len) (- EIO, flavor) (\<lambda>q.
            let flavor = flavor\<lparr>si_oid_data := copy_over (si_oid_data flavor) (take (unat oid_len) q), si_oid_len := oid_len\<rparr>
            in inline_decode D 8 (- EIO, flavor) (\<lambda>p. dret (0, flavor\<lparr>si_qop := word p 0, si_service := word p 1\<rparr>))))"

text \<open>\<^verbatim>\<open>struct nfs4_secinfo_flavors\<close>: the number of flavors and the page's array.\<close>

record nfs4_secinfo_flavors =
  num_flavors :: u32
  sec_flavors :: "nfs4_secinfo4 list"

text \<open>The loop from index \<open>i\<close> with \<open>n\<close> flavors left in the reply. It stops at the end of the page; an
  index past the array would be a wild write.\<close>

fun secinfo_loop :: "'r receiver \<Rightarrow> nat \<Rightarrow> nat \<Rightarrow> nfs4_secinfo_flavors \<Rightarrow> ('r, int \<times> nfs4_secinfo_flavors) decoder" where
  "secinfo_loop D 0 i fls = dret (0, fls)"
| "secinfo_loop D (Suc n) i fls =
     (if offsetof_flavors + (i + 1) * sizeof_secinfo4 > PAGE_SIZE then dret (0, fls)
      else if i \<ge> length (sec_flavors fls) then dfail OVERRUN
      else inline_decode D 4 (- EIO, fls) (\<lambda>p.
        let fl = (sec_flavors fls ! i)\<lparr>si_flavor := word p 0\<rparr>;
            next_one = (\<lambda>fl. secinfo_loop D n (i + 1)
               (fls\<lparr>sec_flavors := (sec_flavors fls)[i := fl], num_flavors := num_flavors fls + 1\<rparr>))
        in if word p 0 = RPC_AUTH_GSS then
             dbind (decode_secinfo_gss D fl) (\<lambda>(status, fl).
               if status \<noteq> 0 then dret (status, fls\<lparr>sec_flavors := (sec_flavors fls)[i := fl]\<rparr>) else next_one fl)
           else next_one fl))"

definition decode_secinfo_common :: "'r receiver \<Rightarrow> nfs4_secinfo_flavors \<Rightarrow> ('r, int \<times> nfs4_secinfo_flavors) decoder" where [dec_defs]:
  "decode_secinfo_common D fls =
     inline_decode D 4 (- EIO, fls) (\<lambda>p. secinfo_loop D (unat (word p 0)) 0 (fls\<lparr>num_flavors := 0\<rparr>))"

definition decode_secinfo :: "'r receiver \<Rightarrow> nfs4_secinfo_flavors \<Rightarrow> ('r, int \<times> nfs4_secinfo_flavors) decoder" where [dec_defs]:
  "decode_secinfo D fls = on_ok (decode_op_hdr D OP_SECINFO) fls (decode_secinfo_common D fls)"

definition decode_secinfo_no_name :: "'r receiver \<Rightarrow> nfs4_secinfo_flavors \<Rightarrow> ('r, int \<times> nfs4_secinfo_flavors) decoder" where [dec_defs]:
  "decode_secinfo_no_name D fls = on_ok (decode_op_hdr D OP_SECINFO_NO_NAME) fls (decode_secinfo_common D fls)"

section \<open>Client ids and sessions\<close>

text \<open>The pointers \<^verbatim>\<open>xdr_inline_decode\<close> returns are used unchecked: NULL is dereferenced.\<close>

definition decode_op_map :: "'r receiver \<Rightarrow> u32 list \<Rightarrow> ('r, int \<times> u32 list) decoder" where [dec_defs]:
  "decode_op_map D old r =
     (case xdr_inline_decode D r 4 of
        None \<Rightarrow> Inl NULL_DEREF
      | Some (p, t) \<Rightarrow>
          let bitmap_words = unat (word p 0)
          in if bitmap_words > NFS4_OP_MAP_NUM_WORDS then Inr ((- EIO, old), t)
             else case xdr_inline_decode D t (4 * bitmap_words) of
                    None \<Rightarrow> if bitmap_words = 0 then Inr ((0, old), t) else Inl NULL_DEREF
                  | Some (q, u) \<Rightarrow> Inr ((0, map (word q) [0..<bitmap_words] @ drop bitmap_words old), u))"

record nfs41_exchange_id_res =
  eir_clientid :: u64
  eir_seqid :: u32
  eir_flags :: u32
  eir_so_minor_id :: u64
  eir_so_major_id :: bytes
  eir_so_major_id_sz :: u32
  eir_scope :: bytes
  eir_scope_sz :: u32
  eir_impl_domain :: bytes
  eir_impl_name :: bytes
  eir_impl_date :: "u64 \<times> u32"
  eir_state_protect :: nfs41_state_protection

text \<open>An opaque string copied into a buffer of \<open>NFS4_OPAQUE_LIMIT\<close> bytes: the code checks the limit before
  the copy.\<close>

definition decode_limited ::
  "'r receiver \<Rightarrow> 'a \<Rightarrow> (u32 \<Rightarrow> bytes \<Rightarrow> 'a) \<Rightarrow> ('a \<Rightarrow> ('r, int \<times> 'a) decoder) \<Rightarrow> ('r, int \<times> 'a) decoder" where
  "decode_limited D a put k =
     dbind (decode_opaque_inline D) (\<lambda>(status, dummy, str).
       if status \<noteq> 0 then dret (status, a)
       else if dummy > of_nat NFS4_OPAQUE_LIMIT then dret (- EIO, a)
       else k (put dummy str))"

definition decode_impl_id :: "'r receiver \<Rightarrow> nfs41_exchange_id_res \<Rightarrow> ('r, int \<times> nfs41_exchange_id_res) decoder" where
  "decode_impl_id D res =
     inline_decode D 4 (- EIO, res) (\<lambda>p.
       if word p 0 = 0 then dret (0, res)
       else decode_limited D res (\<lambda>n str. res\<lparr>eir_impl_domain := copy_over (eir_impl_domain res) str\<rparr>) (\<lambda>res.
            decode_limited D res (\<lambda>n str. res\<lparr>eir_impl_name := copy_over (eir_impl_name res) str\<rparr>) (\<lambda>res.
            inline_decode D 12 (- EIO, res) (\<lambda>q.
              dret (0, res\<lparr>eir_impl_date := (xdr_decode_hyper D q, word q 2)\<rparr>)))))"

definition decode_server_owner :: "'r receiver \<Rightarrow> nfs41_exchange_id_res \<Rightarrow> ('r, int \<times> nfs41_exchange_id_res) decoder" where
  "decode_server_owner D res =
     inline_decode D 8 (- EIO, res) (\<lambda>p.
       let res = res\<lparr>eir_so_minor_id := xdr_decode_hyper D p\<rparr>
       in decode_limited D res
            (\<lambda>n str. res\<lparr>eir_so_major_id := copy_over (eir_so_major_id res) str, eir_so_major_id_sz := n\<rparr>) (\<lambda>res.
          decode_limited D res
            (\<lambda>n str. res\<lparr>eir_scope := copy_over (eir_scope res) str, eir_scope_sz := n\<rparr>) (\<lambda>res.
          decode_impl_id D res)))"

definition decode_exchange_id :: "'r receiver \<Rightarrow> nfs41_exchange_id_res \<Rightarrow> ('r, int \<times> nfs41_exchange_id_res) decoder" where [dec_defs]:
  "decode_exchange_id D res =
     on_ok (decode_op_hdr D OP_EXCHANGE_ID) res
       (inline_decode D 8 (- EIO, res) (\<lambda>p.
          let res = res\<lparr>eir_clientid := xdr_decode_hyper D p\<rparr>
          in inline_decode D 12 (- EIO, res) (\<lambda>p.
            let how = word p 2; sp = (eir_state_protect res)\<lparr>sp_how := how\<rparr>;
                res = res\<lparr>eir_seqid := word p 0, eir_flags := word p 1, eir_state_protect := sp\<rparr>
            in if how = SP4_NONE then decode_server_owner D res
               else if how = SP4_MACH_CRED then
                 dbind (decode_op_map D (sp_enforce sp)) (\<lambda>(status, m).
                   let sp = sp\<lparr>sp_enforce := m\<rparr>
                   in if status \<noteq> 0 then dret (status, res\<lparr>eir_state_protect := sp\<rparr>)
                      else dbind (decode_op_map D (sp_allow sp)) (\<lambda>(status, m).
                        let res = res\<lparr>eir_state_protect := sp\<lparr>sp_allow := m\<rparr>\<rparr>
                        in if status \<noteq> 0 then dret (status, res) else decode_server_owner D res))
               else dret (- EIO, res))))"

definition decode_chan_attrs :: "'r receiver \<Rightarrow> nfs4_channel_attrs \<Rightarrow> ('r, int \<times> nfs4_channel_attrs) decoder" where [dec_defs]:
  "decode_chan_attrs D attrs =
     inline_decode D 28 (- EIO, attrs) (\<lambda>p.
       if word p 0 \<noteq> 0 then dret (- EINVAL, attrs)
       else let attrs = attrs\<lparr>max_rqst_sz := word p 1, max_resp_sz := word p 2, max_resp_sz_cached := word p 3,
                              max_ops := word p 4, max_reqs := word p 5\<rparr>
            in if word p 6 > 1 then dret (- EINVAL, attrs)
               else if word p 6 = 1 then inline_decode D 4 (- EIO, attrs) (\<lambda>_. dret (0, attrs))
               else dret (0, attrs))"

record nfs41_bind_conn_res =
  bcr_sess_id :: bytes
  bcr_dir :: u32
  bcr_rdma :: bool

definition decode_bind_conn_to_session :: "'r receiver \<Rightarrow> nfs41_bind_conn_res \<Rightarrow> ('r, int \<times> nfs41_bind_conn_res) decoder" where [dec_defs]:
  "decode_bind_conn_to_session D res =
     on_ok (decode_op_hdr D OP_BIND_CONN_TO_SESSION) res
       (dbind (decode_sessionid D (bcr_sess_id res)) (\<lambda>(status, sid).
          let res = res\<lparr>bcr_sess_id := sid\<rparr>
          in if status \<noteq> 0 then dret (status, res)
             else inline_decode D 8 (- EIO, res) (\<lambda>p.
               let res = res\<lparr>bcr_dir := word p 0\<rparr>
               in if bcr_dir res = 0 \<or> bcr_dir res > NFS4_CDFS4_BOTH then dret (- EIO, res)
                  else dret (0, res\<lparr>bcr_rdma := word p 1 \<noteq> 0\<rparr>))))"

text \<open>CREATE_SESSION writes into the client and its session.\<close>

record nfs41_create_session_res =
  csr_sess_id :: bytes
  csr_seqid :: u32
  csr_flags :: u32
  csr_fc_attrs :: nfs4_channel_attrs
  csr_bc_attrs :: nfs4_channel_attrs

definition decode_create_session :: "'r receiver \<Rightarrow> nfs41_create_session_res \<Rightarrow> ('r, int \<times> nfs41_create_session_res) decoder" where [dec_defs]:
  "decode_create_session D res =
     on_ok (decode_op_hdr D OP_CREATE_SESSION) res
       (dbind (decode_sessionid D (csr_sess_id res)) (\<lambda>(status, sid).
          let res = res\<lparr>csr_sess_id := sid\<rparr>
          in if status \<noteq> 0 then dret (status, res)
             else inline_decode D 8 (- EIO, res) (\<lambda>p.
               let res = res\<lparr>csr_seqid := word p 0, csr_flags := word p 1\<rparr>
               in dbind (decode_chan_attrs D (csr_fc_attrs res)) (\<lambda>(status, fc).
                    let res = res\<lparr>csr_fc_attrs := fc\<rparr>
                    in if status \<noteq> 0 then dret (status, res)
                       else dbind (decode_chan_attrs D (csr_bc_attrs res)) (\<lambda>(status, bc).
                              dret (status, res\<lparr>csr_bc_attrs := bc\<rparr>))))))"

definition decode_destroy_session :: "'r receiver \<Rightarrow> ('r, int) decoder" where [dec_defs]:
  "decode_destroy_session D = decode_op_hdr D OP_DESTROY_SESSION"

definition decode_destroy_clientid :: "'r receiver \<Rightarrow> ('r, int) decoder" where [dec_defs]:
  "decode_destroy_clientid D = decode_op_hdr D OP_DESTROY_CLIENTID"

definition decode_reclaim_complete :: "'r receiver \<Rightarrow> ('r, int) decoder" where [dec_defs]:
  "decode_reclaim_complete D = decode_op_hdr D OP_RECLAIM_COMPLETE"

record nfs4_sequence_res =
  sr_slot :: "nfs4_slot option"
  sr_highest_slotid :: u32
  sr_target_highest_slotid :: u32
  sr_status_flags :: u32
  sr_status :: int

text \<open>Without a slot, or a slot without a session, there is no SEQUENCE in the reply.\<close>

definition decode_sequence :: "'r receiver \<Rightarrow> nfs4_sequence_res \<Rightarrow> ('r, int \<times> nfs4_sequence_res) decoder" where [dec_defs]:
  "decode_sequence D res =
     (case sr_slot res of
        None \<Rightarrow> dret (0, res)
      | Some slot \<Rightarrow>
          (case slot_session slot of
             None \<Rightarrow> dret (0, res)
           | Some session \<Rightarrow>
               let out_err = (\<lambda>status res. dret (status, res\<lparr>sr_status := status\<rparr>))
               in dbind (decode_op_hdr D OP_SEQUENCE) (\<lambda>status.
                  if status \<noteq> 0 then out_err status res
                  else dbind (decode_sessionid D []) (\<lambda>(status, id).
                    if status \<noteq> 0 then out_err status res
                    else if id \<noteq> take NFS4_MAX_SESSIONID_LEN (sess_id session) then out_err (- EREMOTEIO) res
                    else inline_decode D 20 (- EIO, res\<lparr>sr_status := - EIO\<rparr>) (\<lambda>p.
                      if word p 0 \<noteq> seq_nr slot then out_err (- EREMOTEIO) res
                      else if word p 1 \<noteq> slot_nr slot then out_err (- EREMOTEIO) res
                      else out_err 0 (res\<lparr>sr_highest_slotid := word p 2, sr_target_highest_slotid := word p 3,
                                          sr_status_flags := word p 4\<rparr>))))))"

section \<open>Layouts and stateids\<close>

record pnfs_device_res =
  pd_layout_type :: u32
  pd_mincount :: u32

text \<open>The words of the notification bitmap after the first must be zero; \<open>4 * len\<close> is computed in 32
  bits, so the words read may lie past the decoded region.\<close>

fun notify_loop :: "bytes \<Rightarrow> nat \<Rightarrow> nat \<Rightarrow> 'a \<Rightarrow> ('r, int \<times> 'a) decoder" where
  "notify_loop q i 0 a = dret (0, a)"
| "notify_loop q i (Suc n) a = word_at q i (\<lambda>w. if w \<noteq> 0 then dret (- EIO, a) else notify_loop q (i + 1) n a)"

definition decode_getdeviceinfo :: "'r receiver \<Rightarrow> pnfs_device_res \<Rightarrow> ('r, int \<times> pnfs_device_res) decoder" where [dec_defs]:
  "decode_getdeviceinfo D pdev =
     dbind (decode_op_hdr D OP_GETDEVICEINFO) (\<lambda>status.
       if status = - ETOOSMALL then
         inline_decode D 4 (- EIO, pdev) (\<lambda>p. dret (status, pdev\<lparr>pd_mincount := word p 0\<rparr>))
       else if status \<noteq> 0 then dret (status, pdev)
       else inline_decode D 8 (- EIO, pdev) (\<lambda>p.
         if word p 0 \<noteq> pd_layout_type pdev then dret (- EINVAL, pdev)
         else let pdev = pdev\<lparr>pd_mincount := word p 1\<rparr>
              in (\<lambda>r. case xdr_read_pages D r (pd_mincount pdev) of (recvd, t) \<Rightarrow>
                   if recvd \<noteq> pd_mincount pdev then Inr ((- EIO, pdev), t)
                   else inline_decode D 4 (- EIO, pdev) (\<lambda>p.
                     let len = word p 0
                     in if len = 0 then dret (0, pdev)
                        else inline_decode D (unat (4 * len)) (- EIO, pdev) (\<lambda>q.
                          word_at q 0 (\<lambda>_. notify_loop q 1 (unat len - 1) pdev))) t)))"

record nfs4_layoutget_res =
  lgr_return_on_close :: u32
  lgr_range :: pnfs_layout_range
  lgr_type :: u32
  lgr_stateid :: nfs4_stateid
  lgr_layout_len :: u32

text \<open>The status of \<^verbatim>\<open>decode_stateid\<close> is not looked at.\<close>

definition decode_layoutget :: "'r receiver \<Rightarrow> nfs4_layoutget_res \<Rightarrow> ('r, int \<times> nfs4_layoutget_res) decoder" where [dec_defs]:
  "decode_layoutget D res =
     on_ok (decode_op_hdr D OP_LAYOUTGET) res
       (inline_decode D 4 (- EIO, res) (\<lambda>p.
          let res = res\<lparr>lgr_return_on_close := word p 0\<rparr>
          in dbind (decode_stateid D (lgr_stateid res)) (\<lambda>(_, sid).
            let res = res\<lparr>lgr_stateid := sid\<rparr>
            in inline_decode D 4 (- EIO, res) (\<lambda>p.
              if word p 0 = 0 then dret (- EINVAL, res)
              else inline_decode D 28 (- EIO, res) (\<lambda>p r.
                let res = res\<lparr>lgr_range := \<lparr>iomode = word p 4, lr_offset = xdr_decode_hyper D p,
                                             lr_length = xdr_decode_hyper D (drop 8 p)\<rparr>,
                              lgr_type := word p 5, lgr_layout_len := word p 6\<rparr>
                in case xdr_read_pages D r (lgr_layout_len res) of (recvd, t) \<Rightarrow>
                     if lgr_layout_len res > recvd then Inr ((- EINVAL, res), t) else Inr ((0, res), t))))))"

record nfs4_layoutreturn_res =
  lrs_present :: u32
  lrs_stateid :: nfs4_stateid

definition decode_layoutreturn :: "'r receiver \<Rightarrow> nfs4_layoutreturn_res \<Rightarrow> ('r, int \<times> nfs4_layoutreturn_res) decoder" where [dec_defs]:
  "decode_layoutreturn D res =
     on_ok (decode_op_hdr D OP_LAYOUTRETURN) res
       (inline_decode D 4 (- EIO, res) (\<lambda>p.
          let res = res\<lparr>lrs_present := word p 0\<rparr>
          in if lrs_present res \<noteq> 0
             then dbind (decode_stateid D (lrs_stateid res)) (\<lambda>(status, sid). dret (status, res\<lparr>lrs_stateid := sid\<rparr>))
             else dret (0, res)))"

text \<open>The second component is \<^verbatim>\<open>res->status\<close>, the status of the operation itself.\<close>

definition decode_layoutcommit :: "'r receiver \<Rightarrow> int \<Rightarrow> ('r, int \<times> int) decoder" where [dec_defs]:
  "decode_layoutcommit D res_status =
     dbind (decode_op_hdr D OP_LAYOUTCOMMIT) (\<lambda>status.
       if status \<noteq> 0 then dret (status, status)
       else inline_decode D 4 (- EIO, status) (\<lambda>p.
         if word p 0 \<noteq> 0 then inline_decode D 8 (- EIO, status) (\<lambda>_. dret (0, status)) else dret (0, status)))"

text \<open>\<^verbatim>\<open>num_res\<close> is a signed integer.\<close>

definition decode_test_stateid :: "'r receiver \<Rightarrow> u32 \<Rightarrow> ('r, int \<times> u32) decoder" where [dec_defs]:
  "decode_test_stateid D res_status =
     on_ok (decode_op_hdr D OP_TEST_STATEID) res_status
       (inline_decode D 4 (- EIO, res_status) (\<lambda>p.
          if sint (word p 0) \<noteq> 1 then dret (- EIO, res_status)
          else inline_decode D 4 (- EIO, res_status) (\<lambda>p. dret (0, word p 0))))"

definition decode_free_stateid :: "'r receiver \<Rightarrow> int \<Rightarrow> ('r, int \<times> int) decoder" where [dec_defs]:
  "decode_free_stateid D res_status =
     dbind (decode_op_hdr D OP_FREE_STATEID) (\<lambda>status. dret (status, status))"

end
