(* ===== verification/Xdr_Decode_Compound.thy ===== *)
theory Xdr_Decode_Compound
  imports Xdr_Decode_Session
begin

text \<open>
  The reply decoders of the procedures (\<^verbatim>\<open>nfs4_xdr_dec_*\<close> of \<^verbatim>\<open>fs/nfs/nfs4xdr.c\<close>) and
  \<^verbatim>\<open>nfs4_decode_dirent\<close>. A result structure is the pair of its \<^verbatim>\<open>seq_res\<close> and its other members. A decoder is
  a list of steps that ends at the first step with a non-zero status, as the chains of
  \<^verbatim>\<open>if (status) goto out\<close> do; a step whose status the code drops is an \<open>ignore_step\<close>.
\<close>

section \<open>Steps\<close>

type_synonym ('r, 's) step = "'s \<Rightarrow> ('r, int \<times> 's) decoder"

fun dec_steps :: "('r, 's) step list \<Rightarrow> ('r, 's) step" where
  "dec_steps [] s = dret (0, s)"
| "dec_steps (f # fs) s = dbind (f s) (\<lambda>(status, s'). if status \<noteq> 0 then dret (status, s') else dec_steps fs s')"

definition status_step :: "('r, int) decoder \<Rightarrow> ('r, 's) step" where
  "status_step m s = dbind m (\<lambda>status. dret (status, s))"

definition field_step :: "('v \<Rightarrow> ('r, int \<times> 'v) decoder) \<Rightarrow> ('s \<Rightarrow> 'v) \<Rightarrow> ('v \<Rightarrow> 's \<Rightarrow> 's) \<Rightarrow> ('r, 's) step" where
  "field_step d get put s = dbind (d (get s)) (\<lambda>(status, v). dret (status, put v s))"

definition ignore_step :: "('r, 's) step \<Rightarrow> ('r, 's) step" where
  "ignore_step f s = dbind (f s) (\<lambda>(status, s'). dret (0, s'))"

definition when_step :: "('s \<Rightarrow> bool) \<Rightarrow> ('r, 's) step \<Rightarrow> ('r, 's) step" where
  "when_step c f s = (if c s then f s else dret (0, s))"

text \<open>The steps every reply starts with.\<close>

definition hdr_step :: "'r receiver \<Rightarrow> ('r, 's) step" where
  "hdr_step D = status_step (dbind (decode_compound_hdr D) (\<lambda>(status, hdr_status, nops). dret status))"

definition seq_step :: "'r receiver \<Rightarrow> ('r, nfs4_sequence_res \<times> 'a) step" where
  "seq_step D = field_step (decode_sequence D) fst (\<lambda>v s. (v, snd s))"

definition putfh_step :: "'r receiver \<Rightarrow> ('r, 's) step" where
  "putfh_step D = status_step (decode_putfh D)"

definition putrootfh_step :: "'r receiver \<Rightarrow> ('r, 's) step" where
  "putrootfh_step D = status_step (decode_putrootfh D)"

definition body_step :: "('a \<Rightarrow> ('r, int \<times> 'a) decoder) \<Rightarrow> ('r, nfs4_sequence_res \<times> 'a) step" where
  "body_step d = field_step d snd (\<lambda>v s. (fst s, v))"

lemmas step_defs = status_step_def field_step_def ignore_step_def when_step_def hdr_step_def seq_step_def
  putfh_step_def putrootfh_step_def body_step_def

section \<open>Result structures\<close>

text \<open>Attributes with their label, and the server they come from.\<close>

record attr_out =
  ao_fattr :: nfs_fattr
  ao_label :: "nfs4_label option"
  ao_server :: nfs_server

definition attr_out_step :: "'r receiver \<Rightarrow> ('r, attr_out) step" where
  "attr_out_step D a =
     dbind (decode_getfattr_label D (ao_server a) (ao_fattr a) (ao_label a))
       (\<lambda>(status, fa, l). dret (status, a\<lparr>ao_fattr := fa, ao_label := l\<rparr>))"

text \<open>The same without a label (\<^verbatim>\<open>decode_getfattr\<close>).\<close>

definition plain_attr_step :: "'r receiver \<Rightarrow> ('r, attr_out) step" where
  "plain_attr_step D a =
     dbind (decode_getfattr D (ao_server a) (ao_fattr a)) (\<lambda>(status, fa). dret (status, a\<lparr>ao_fattr := fa\<rparr>))"

record nfs_closeres =
  clr_owner :: owner_out
  clr_attr :: attr_out

record nfs4_accessres =
  acr_access :: access_out
  acr_attr :: attr_out

record nfs4_lookup_res =
  lr_fh :: nfs_fh
  lr_attr :: attr_out

text \<open>The arrays of a chain lookup; a label pointer may be NULL.\<close>

record nfs4_chain_lookup_res =
  chr_server :: nfs_server
  chr_fattrs :: "nfs_fattr list"
  chr_size :: int
  chr_fhandles :: "nfs_fh list"
  chr_labels :: "nfs4_label option list"

record nfs4_link_res =
  lkr_cinfo :: nfs4_change_info
  lkr_attr :: attr_out

record nfs4_create_res =
  crr_fh :: nfs_fh
  crr_attr :: attr_out
  crr_cinfo :: nfs4_change_info

record nfs_commitres =
  cmr_op_status :: u32
  cmr_verf :: bytes

record nfs4_fs_locations_res =
  flr_fattr :: nfs_fattr
  flr_locations :: nfs4_fs_locations
  flr_server :: nfs_server
  flr_migration :: bool
  flr_renew :: bool

record nfs4_fsid_present_res =
  fpr_fh :: nfs_fh
  fpr_renew :: bool

record nfs4_layoutcommit_res =
  lcr_status :: int
  lcr_attr :: attr_out

section \<open>The procedures\<close>

definition nfs4_xdr_dec_open_downgrade :: "'r receiver \<Rightarrow> ('r, nfs4_sequence_res \<times> nfs_closeres) step" where [dec_defs]:
  "nfs4_xdr_dec_open_downgrade D =
     dec_steps [hdr_step D, seq_step D, putfh_step D,
       body_step (field_step (decode_open_downgrade D) clr_owner (\<lambda>v s. s\<lparr>clr_owner := v\<rparr>)),
       ignore_step (body_step (field_step (plain_attr_step D) clr_attr (\<lambda>v s. s\<lparr>clr_attr := v\<rparr>)))]"

definition nfs4_xdr_dec_access :: "'r receiver \<Rightarrow> ('r, nfs4_sequence_res \<times> nfs4_accessres) step" where [dec_defs]:
  "nfs4_xdr_dec_access D =
     dec_steps [hdr_step D, seq_step D, putfh_step D,
       body_step (field_step (decode_access D) acr_access (\<lambda>v s. s\<lparr>acr_access := v\<rparr>)),
       ignore_step (body_step (field_step (plain_attr_step D) acr_attr (\<lambda>v s. s\<lparr>acr_attr := v\<rparr>)))]"

definition nfs4_xdr_dec_lookup :: "'r receiver \<Rightarrow> ('r, nfs4_sequence_res \<times> nfs4_lookup_res) step" where [dec_defs]:
  "nfs4_xdr_dec_lookup D =
     dec_steps [hdr_step D, seq_step D, putfh_step D, status_step (decode_lookup D),
       body_step (field_step (\<lambda>_. decode_getfh D) lr_fh (\<lambda>v s. s\<lparr>lr_fh := v\<rparr>)),
       body_step (field_step (attr_out_step D) lr_attr (\<lambda>v s. s\<lparr>lr_attr := v\<rparr>))]"

text \<open>The arrays are indexed without a check; \<open>chain_loop D n i\<close> has \<open>n\<close> names left from index \<open>i\<close>.\<close>

definition chain_fh_step :: "'r receiver \<Rightarrow> nat \<Rightarrow> ('r, nfs4_chain_lookup_res) step" where [dec_defs]:
  "chain_fh_step D i res =
     (if i < length (chr_fhandles res)
      then dbind (decode_getfh D) (\<lambda>(status, fh). dret (status, res\<lparr>chr_fhandles := (chr_fhandles res)[i := fh]\<rparr>))
      else dfail OVERRUN)"

definition chain_attr_step :: "'r receiver \<Rightarrow> nat \<Rightarrow> ('r, nfs4_chain_lookup_res) step" where [dec_defs]:
  "chain_attr_step D i res =
     (if i < length (chr_fattrs res) \<and> i < length (chr_labels res)
      then dbind (decode_getfattr_label D (chr_server res) (chr_fattrs res ! i) (chr_labels res ! i))
             (\<lambda>(status, fa, l). dret (status,
                res\<lparr>chr_fattrs := (chr_fattrs res)[i := fa], chr_labels := (chr_labels res)[i := l]\<rparr>))
      else dfail OVERRUN)"

fun chain_loop :: "'r receiver \<Rightarrow> nat \<Rightarrow> nat \<Rightarrow> ('r, nfs4_chain_lookup_res) step" where
  "chain_loop D 0 i res = dret (0, res)"
| "chain_loop D (Suc n) i res =
     dec_steps [status_step (decode_lookup D), chain_fh_step D i, chain_attr_step D i, chain_loop D n (i + 1)] res"

definition nfs4_xdr_dec_chain_lookup :: "'r receiver \<Rightarrow> ('r, nfs4_sequence_res \<times> nfs4_chain_lookup_res) step" where [dec_defs]:
  "nfs4_xdr_dec_chain_lookup D =
     dec_steps [hdr_step D, seq_step D, putfh_step D, body_step (\<lambda>res. chain_loop D (nat (chr_size res)) 0 res)]"

text \<open>The procedure with OPEN decodes the same operations: the reply to OPEN itself is not read.\<close>

definition nfs4_xdr_dec_chain_lookup_open :: "'r receiver \<Rightarrow> ('r, nfs4_sequence_res \<times> nfs4_chain_lookup_res) step" where [dec_defs]:
  "nfs4_xdr_dec_chain_lookup_open D =
     dec_steps [hdr_step D, seq_step D, putfh_step D, body_step (\<lambda>res. chain_loop D (nat (chr_size res)) 0 res)]"

definition nfs4_xdr_dec_lookup_root :: "'r receiver \<Rightarrow> ('r, nfs4_sequence_res \<times> nfs4_lookup_res) step" where [dec_defs]:
  "nfs4_xdr_dec_lookup_root D =
     dec_steps [hdr_step D, seq_step D, putrootfh_step D,
       body_step (field_step (\<lambda>_. decode_getfh D) lr_fh (\<lambda>v s. s\<lparr>lr_fh := v\<rparr>)),
       body_step (field_step (attr_out_step D) lr_attr (\<lambda>v s. s\<lparr>lr_attr := v\<rparr>))]"

definition nfs4_xdr_dec_remove :: "'r receiver \<Rightarrow> ('r, nfs4_sequence_res \<times> nfs4_change_info) step" where [dec_defs]:
  "nfs4_xdr_dec_remove D = dec_steps [hdr_step D, seq_step D, putfh_step D, body_step (decode_remove D)]"

definition nfs4_xdr_dec_rename ::
  "'r receiver \<Rightarrow> ('r, nfs4_sequence_res \<times> nfs4_change_info \<times> nfs4_change_info) step" where [dec_defs]:
  "nfs4_xdr_dec_rename D =
     dec_steps [hdr_step D, seq_step D, putfh_step D, status_step (decode_savefh D), putfh_step D,
       body_step (decode_rename D)]"

definition nfs4_xdr_dec_link :: "'r receiver \<Rightarrow> ('r, nfs4_sequence_res \<times> nfs4_link_res) step" where [dec_defs]:
  "nfs4_xdr_dec_link D =
     dec_steps [hdr_step D, seq_step D, putfh_step D, status_step (decode_savefh D), putfh_step D,
       body_step (field_step (decode_link D) lkr_cinfo (\<lambda>v s. s\<lparr>lkr_cinfo := v\<rparr>)),
       status_step (decode_restorefh D),
       ignore_step (body_step (field_step (attr_out_step D) lkr_attr (\<lambda>v s. s\<lparr>lkr_attr := v\<rparr>)))]"

definition nfs4_xdr_dec_create :: "'r receiver \<Rightarrow> ('r, nfs4_sequence_res \<times> nfs4_create_res) step" where [dec_defs]:
  "nfs4_xdr_dec_create D =
     dec_steps [hdr_step D, seq_step D, putfh_step D,
       body_step (field_step (decode_create D) crr_cinfo (\<lambda>v s. s\<lparr>crr_cinfo := v\<rparr>)),
       body_step (field_step (\<lambda>_. decode_getfh D) crr_fh (\<lambda>v s. s\<lparr>crr_fh := v\<rparr>)),
       ignore_step (body_step (field_step (attr_out_step D) crr_attr (\<lambda>v s. s\<lparr>crr_attr := v\<rparr>)))]"

definition nfs4_xdr_dec_symlink :: "'r receiver \<Rightarrow> ('r, nfs4_sequence_res \<times> nfs4_create_res) step" where [dec_defs]:
  "nfs4_xdr_dec_symlink D = nfs4_xdr_dec_create D"

definition nfs4_xdr_dec_getattr :: "'r receiver \<Rightarrow> ('r, nfs4_sequence_res \<times> attr_out) step" where [dec_defs]:
  "nfs4_xdr_dec_getattr D = dec_steps [hdr_step D, seq_step D, putfh_step D, body_step (attr_out_step D)]"

definition nfs4_xdr_dec_setacl :: "'r receiver \<Rightarrow> ('r, nfs4_sequence_res \<times> unit) step" where [dec_defs]:
  "nfs4_xdr_dec_setacl D = dec_steps [hdr_step D, seq_step D, putfh_step D, status_step (decode_setattr D)]"

definition nfs4_xdr_dec_getacl :: "'r receiver \<Rightarrow> ('r, nfs4_sequence_res \<times> nfs_getaclres) step" where [dec_defs]:
  "nfs4_xdr_dec_getacl D s r =
     dec_steps [hdr_step D, seq_step D, putfh_step D, body_step (decode_getacl D)] s
       (if acl_scratch (snd s) then xdr_set_scratch_buffer D r else r)"

definition nfs4_xdr_dec_close :: "'r receiver \<Rightarrow> ('r, nfs4_sequence_res \<times> nfs_closeres) step" where [dec_defs]:
  "nfs4_xdr_dec_close D =
     dec_steps [hdr_step D, seq_step D, putfh_step D,
       body_step (field_step (decode_close D) clr_owner (\<lambda>v s. s\<lparr>clr_owner := v\<rparr>)),
       ignore_step (body_step (field_step (plain_attr_step D) clr_attr (\<lambda>v s. s\<lparr>clr_attr := v\<rparr>)))]"

text \<open>The parts of an OPEN reply after the operation itself.\<close>

definition open_access_step :: "'r receiver \<Rightarrow> ('r, nfs_openres) step" where
  "open_access_step D =
     when_step (\<lambda>s. or_access_request s \<noteq> 0)
       (ignore_step (field_step (decode_access D) or_access (\<lambda>v s. s\<lparr>or_access := v\<rparr>)))"

definition open_label_step :: "'r receiver \<Rightarrow> ('r, nfs_openres) step" where
  "open_label_step D s =
     dbind (decode_getfattr_label D (or_server s) (or_fattr s) (or_label s))
       (\<lambda>(status, fa, l). dret (status, s\<lparr>or_fattr := fa, or_label := l\<rparr>))"

definition open_attr_step :: "'r receiver \<Rightarrow> ('r, nfs_openres) step" where
  "open_attr_step D s =
     dbind (decode_getfattr D (or_server s) (or_fattr s)) (\<lambda>(status, fa). dret (status, s\<lparr>or_fattr := fa\<rparr>))"

definition nfs4_xdr_dec_open :: "'r receiver \<Rightarrow> ('r, nfs4_sequence_res \<times> nfs_openres) step" where [dec_defs]:
  "nfs4_xdr_dec_open D =
     dec_steps [hdr_step D, seq_step D, putfh_step D, body_step (decode_open D),
       body_step (field_step (\<lambda>_. decode_getfh D) or_fh (\<lambda>v s. s\<lparr>or_fh := v\<rparr>)),
       body_step (open_access_step D),
       ignore_step (body_step (open_label_step D))]"

definition nfs4_xdr_dec_open_confirm :: "'r receiver \<Rightarrow> ('r, nfs4_sequence_res \<times> owner_out) step" where [dec_defs]:
  "nfs4_xdr_dec_open_confirm D = dec_steps [hdr_step D, putfh_step D, body_step (decode_open_confirm D)]"

definition nfs4_xdr_dec_open_noattr :: "'r receiver \<Rightarrow> ('r, nfs4_sequence_res \<times> nfs_openres) step" where [dec_defs]:
  "nfs4_xdr_dec_open_noattr D =
     dec_steps [hdr_step D, seq_step D, putfh_step D, body_step (decode_open D),
       body_step (open_access_step D),
       ignore_step (body_step (open_attr_step D))]"

definition nfs4_xdr_dec_setattr :: "'r receiver \<Rightarrow> ('r, nfs4_sequence_res \<times> attr_out) step" where [dec_defs]:
  "nfs4_xdr_dec_setattr D =
     dec_steps [hdr_step D, seq_step D, putfh_step D, status_step (decode_setattr D),
       ignore_step (body_step (attr_out_step D))]"

definition nfs4_xdr_dec_lock :: "'r receiver \<Rightarrow> ('r, nfs4_sequence_res \<times> nfs_lock_res) step" where [dec_defs]:
  "nfs4_xdr_dec_lock D = dec_steps [hdr_step D, seq_step D, putfh_step D, body_step (decode_lock D)]"

definition nfs4_xdr_dec_lockt :: "'r receiver \<Rightarrow> ('r, nfs4_sequence_res \<times> denied_lock option) step" where [dec_defs]:
  "nfs4_xdr_dec_lockt D = dec_steps [hdr_step D, seq_step D, putfh_step D, body_step (decode_lockt D)]"

definition nfs4_xdr_dec_locku :: "'r receiver \<Rightarrow> ('r, nfs4_sequence_res \<times> nfs_locku_res) step" where [dec_defs]:
  "nfs4_xdr_dec_locku D = dec_steps [hdr_step D, seq_step D, putfh_step D, body_step (decode_locku D)]"

definition nfs4_xdr_dec_release_lockowner :: "'r receiver \<Rightarrow> ('r, 's) step" where [dec_defs]:
  "nfs4_xdr_dec_release_lockowner D = dec_steps [hdr_step D, status_step (decode_release_lockowner D)]"

definition nfs4_xdr_dec_readlink :: "'r receiver \<Rightarrow> ('r, nfs4_sequence_res \<times> unit) step" where [dec_defs]:
  "nfs4_xdr_dec_readlink D = dec_steps [hdr_step D, seq_step D, putfh_step D, status_step (decode_readlink D)]"

definition nfs4_xdr_dec_readdir :: "'r receiver \<Rightarrow> ('r, nfs4_sequence_res \<times> bytes) step" where [dec_defs]:
  "nfs4_xdr_dec_readdir D = dec_steps [hdr_step D, seq_step D, putfh_step D, body_step (decode_readdir D)]"

text \<open>READ, WRITE and COMMIT record the status of the whole compound, whatever the header's status; when
  the reply has none they copy the uninitialised member of the local \<^verbatim>\<open>hdr\<close>, \<open>junk\<close> here. READ and WRITE
  return the byte count.\<close>

definition hdr_status_step :: "'r receiver \<Rightarrow> u32 \<Rightarrow> (u32 \<Rightarrow> 'a \<Rightarrow> 'a) \<Rightarrow> ('r, nfs4_sequence_res \<times> 'a) step" where
  "hdr_status_step D junk put s =
     dbind (decode_compound_hdr D) (\<lambda>(status, hdr_status, nops).
       dret (status, fst s, put (case hdr_status of None \<Rightarrow> junk | Some h \<Rightarrow> of_int h) (snd s)))"

definition count_step :: "('r, nfs4_sequence_res \<times> nfs_pgio_out) step" where
  "count_step s = dret (sint (pgr_count (snd s)), s)"

definition nfs4_xdr_dec_read :: "'r receiver \<Rightarrow> u32 \<Rightarrow> ('r, nfs4_sequence_res \<times> nfs_pgio_out) step" where [dec_defs]:
  "nfs4_xdr_dec_read D junk =
     dec_steps [hdr_status_step D junk (\<lambda>v s. s\<lparr>pgr_op_status := v\<rparr>), seq_step D, putfh_step D,
       body_step (decode_read D), count_step]"

definition write_attr_step :: "'r receiver \<Rightarrow> ('r, nfs_pgio_out) step" where
  "write_attr_step D s =
     (case pgr_fattr s of
        None \<Rightarrow> dret (0, s)
      | Some fa \<Rightarrow> dbind (decode_getfattr D (pgr_server s) fa) (\<lambda>(status, fa). dret (0, s\<lparr>pgr_fattr := Some fa\<rparr>)))"

definition nfs4_xdr_dec_write :: "'r receiver \<Rightarrow> u32 \<Rightarrow> ('r, nfs4_sequence_res \<times> nfs_pgio_out) step" where [dec_defs]:
  "nfs4_xdr_dec_write D junk =
     dec_steps [hdr_status_step D junk (\<lambda>v s. s\<lparr>pgr_op_status := v\<rparr>), seq_step D, putfh_step D,
       body_step (decode_write D), body_step (write_attr_step D), count_step]"

definition nfs4_xdr_dec_commit :: "'r receiver \<Rightarrow> u32 \<Rightarrow> ('r, nfs4_sequence_res \<times> nfs_commitres) step" where [dec_defs]:
  "nfs4_xdr_dec_commit D junk =
     dec_steps [hdr_status_step D junk (\<lambda>v s. s\<lparr>cmr_op_status := v\<rparr>), seq_step D, putfh_step D,
       body_step (field_step (decode_commit D) cmr_verf (\<lambda>v s. s\<lparr>cmr_verf := v\<rparr>))]"

definition nfs4_xdr_dec_fsinfo :: "'r receiver \<Rightarrow> ('r, nfs4_sequence_res \<times> nfs_fsinfo) step" where [dec_defs]:
  "nfs4_xdr_dec_fsinfo D = dec_steps [hdr_step D, seq_step D, putfh_step D, body_step (decode_fsinfo D)]"

definition nfs4_xdr_dec_pathconf :: "'r receiver \<Rightarrow> ('r, nfs4_sequence_res \<times> nfs_pathconf) step" where [dec_defs]:
  "nfs4_xdr_dec_pathconf D = dec_steps [hdr_step D, seq_step D, putfh_step D, body_step (decode_pathconf D)]"

definition nfs4_xdr_dec_statfs :: "'r receiver \<Rightarrow> ('r, nfs4_sequence_res \<times> nfs_fsstat) step" where [dec_defs]:
  "nfs4_xdr_dec_statfs D = dec_steps [hdr_step D, seq_step D, putfh_step D, body_step (decode_statfs D)]"

definition nfs4_xdr_dec_server_caps :: "'r receiver \<Rightarrow> ('r, nfs4_sequence_res \<times> nfs4_server_caps_res) step" where [dec_defs]:
  "nfs4_xdr_dec_server_caps D = dec_steps [hdr_step D, seq_step D, putfh_step D, body_step (decode_server_caps D)]"

definition nfs4_xdr_dec_renew :: "'r receiver \<Rightarrow> ('r, 's) step" where [dec_defs]:
  "nfs4_xdr_dec_renew D = dec_steps [hdr_step D, status_step (decode_renew D)]"

definition nfs4_xdr_dec_setclientid :: "'r receiver \<Rightarrow> ('r, nfs4_setclientid_res) step" where [dec_defs]:
  "nfs4_xdr_dec_setclientid D = dec_steps [hdr_step D, decode_setclientid D]"

definition nfs4_xdr_dec_setclientid_confirm :: "'r receiver \<Rightarrow> ('r, 's) step" where [dec_defs]:
  "nfs4_xdr_dec_setclientid_confirm D = dec_steps [hdr_step D, status_step (decode_setclientid_confirm D)]"

definition nfs4_xdr_dec_delegreturn :: "'r receiver \<Rightarrow> ('r, nfs4_sequence_res \<times> attr_out) step" where [dec_defs]:
  "nfs4_xdr_dec_delegreturn D =
     dec_steps [hdr_step D, seq_step D, putfh_step D, body_step (plain_attr_step D), status_step (decode_delegreturn D)]"

definition fs_locations_step :: "'r receiver \<Rightarrow> ('r, nfs4_fs_locations_res) step" where
  "fs_locations_step D s r =
     dbind (decode_getfattr_generic D (flr_server s)
              \<lparr>out_fattr = flr_fattr s, out_fh = None, out_fsloc = Some (flr_locations s), out_label = None\<rparr>)
       (\<lambda>(status, g). dret (status,
          s\<lparr>flr_fattr := out_fattr g, flr_locations := (case out_fsloc g of None \<Rightarrow> flr_locations s | Some l \<Rightarrow> l)\<rparr>))
       (xdr_enter_page D r (of_nat PAGE_SIZE))"

definition nfs4_xdr_dec_fs_locations :: "'r receiver \<Rightarrow> ('r, nfs4_sequence_res \<times> nfs4_fs_locations_res) step" where [dec_defs]:
  "nfs4_xdr_dec_fs_locations D s =
     dec_steps ([hdr_step D, seq_step D, putfh_step D] @
       (if flr_migration (snd s)
        then [body_step (fs_locations_step D), when_step (\<lambda>s. flr_renew (snd s)) (status_step (decode_renew D))]
        else [status_step (decode_lookup D), body_step (fs_locations_step D)])) s"

definition nfs4_xdr_dec_secinfo :: "'r receiver \<Rightarrow> ('r, nfs4_sequence_res \<times> nfs4_secinfo_flavors) step" where [dec_defs]:
  "nfs4_xdr_dec_secinfo D = dec_steps [hdr_step D, seq_step D, putfh_step D, body_step (decode_secinfo D)]"

definition nfs4_xdr_dec_fsid_present :: "'r receiver \<Rightarrow> ('r, nfs4_sequence_res \<times> nfs4_fsid_present_res) step" where [dec_defs]:
  "nfs4_xdr_dec_fsid_present D =
     dec_steps [hdr_step D, seq_step D, putfh_step D,
       body_step (field_step (\<lambda>_. decode_getfh D) fpr_fh (\<lambda>v s. s\<lparr>fpr_fh := v\<rparr>)),
       when_step (\<lambda>s. fpr_renew (snd s)) (status_step (decode_renew D))]"

definition nfs4_xdr_dec_bind_conn_to_session :: "'r receiver \<Rightarrow> ('r, nfs41_bind_conn_res) step" where [dec_defs]:
  "nfs4_xdr_dec_bind_conn_to_session D = dec_steps [hdr_step D, decode_bind_conn_to_session D]"

definition nfs4_xdr_dec_exchange_id :: "'r receiver \<Rightarrow> ('r, nfs41_exchange_id_res) step" where [dec_defs]:
  "nfs4_xdr_dec_exchange_id D = dec_steps [hdr_step D, decode_exchange_id D]"

definition nfs4_xdr_dec_create_session :: "'r receiver \<Rightarrow> ('r, nfs41_create_session_res) step" where [dec_defs]:
  "nfs4_xdr_dec_create_session D = dec_steps [hdr_step D, decode_create_session D]"

definition nfs4_xdr_dec_destroy_session :: "'r receiver \<Rightarrow> ('r, 's) step" where [dec_defs]:
  "nfs4_xdr_dec_destroy_session D = dec_steps [hdr_step D, status_step (decode_destroy_session D)]"

definition nfs4_xdr_dec_destroy_clientid :: "'r receiver \<Rightarrow> ('r, 's) step" where [dec_defs]:
  "nfs4_xdr_dec_destroy_clientid D = dec_steps [hdr_step D, status_step (decode_destroy_clientid D)]"

definition nfs4_xdr_dec_sequence :: "'r receiver \<Rightarrow> ('r, nfs4_sequence_res) step" where [dec_defs]:
  "nfs4_xdr_dec_sequence D = dec_steps [hdr_step D, decode_sequence D]"

definition nfs4_xdr_dec_get_lease_time :: "'r receiver \<Rightarrow> ('r, nfs4_sequence_res \<times> nfs_fsinfo) step" where [dec_defs]:
  "nfs4_xdr_dec_get_lease_time D = dec_steps [hdr_step D, seq_step D, putrootfh_step D, body_step (decode_fsinfo D)]"

definition nfs4_xdr_dec_reclaim_complete :: "'r receiver \<Rightarrow> ('r, nfs4_sequence_res \<times> unit) step" where [dec_defs]:
  "nfs4_xdr_dec_reclaim_complete D = dec_steps [hdr_step D, seq_step D, status_step (decode_reclaim_complete D)]"

definition nfs4_xdr_dec_getdeviceinfo :: "'r receiver \<Rightarrow> ('r, nfs4_sequence_res \<times> pnfs_device_res) step" where [dec_defs]:
  "nfs4_xdr_dec_getdeviceinfo D = dec_steps [hdr_step D, seq_step D, body_step (decode_getdeviceinfo D)]"

definition nfs4_xdr_dec_layoutget :: "'r receiver \<Rightarrow> ('r, nfs4_sequence_res \<times> nfs4_layoutget_res) step" where [dec_defs]:
  "nfs4_xdr_dec_layoutget D = dec_steps [hdr_step D, seq_step D, putfh_step D, body_step (decode_layoutget D)]"

definition nfs4_xdr_dec_layoutreturn :: "'r receiver \<Rightarrow> ('r, nfs4_sequence_res \<times> nfs4_layoutreturn_res) step" where [dec_defs]:
  "nfs4_xdr_dec_layoutreturn D = dec_steps [hdr_step D, seq_step D, putfh_step D, body_step (decode_layoutreturn D)]"

definition nfs4_xdr_dec_layoutcommit :: "'r receiver \<Rightarrow> ('r, nfs4_sequence_res \<times> nfs4_layoutcommit_res) step" where [dec_defs]:
  "nfs4_xdr_dec_layoutcommit D =
     dec_steps [hdr_step D, seq_step D, putfh_step D,
       body_step (field_step (decode_layoutcommit D) lcr_status (\<lambda>v s. s\<lparr>lcr_status := v\<rparr>)),
       ignore_step (body_step (field_step (plain_attr_step D) lcr_attr (\<lambda>v s. s\<lparr>lcr_attr := v\<rparr>)))]"

definition nfs4_xdr_dec_secinfo_no_name :: "'r receiver \<Rightarrow> ('r, nfs4_sequence_res \<times> nfs4_secinfo_flavors) step" where [dec_defs]:
  "nfs4_xdr_dec_secinfo_no_name D = dec_steps [hdr_step D, seq_step D, putrootfh_step D, body_step (decode_secinfo_no_name D)]"

definition nfs4_xdr_dec_test_stateid :: "'r receiver \<Rightarrow> ('r, nfs4_sequence_res \<times> u32) step" where [dec_defs]:
  "nfs4_xdr_dec_test_stateid D = dec_steps [hdr_step D, seq_step D, body_step (decode_test_stateid D)]"

definition nfs4_xdr_dec_free_stateid :: "'r receiver \<Rightarrow> ('r, nfs4_sequence_res \<times> int) step" where [dec_defs]:
  "nfs4_xdr_dec_free_stateid D = dec_steps [hdr_step D, seq_step D, body_step (decode_free_stateid D)]"

section \<open>Directory entries\<close>

record nfs_entry =
  ent_ino :: u64
  ent_cookie :: u64
  ent_prev_cookie :: u64
  ent_name :: bytes
  ent_len :: u32
  ent_eof :: bool
  ent_fh :: "nfs_fh option"
  ent_fattr :: nfs_fattr
  ent_label :: "nfs4_label option"
  ent_d_type :: u32
  ent_server :: nfs_server

abbreviation (input) DT_UNKNOWN :: u32 where "DT_UNKNOWN \<equiv> 0"

definition nfs_umode_to_dtype :: "u16 \<Rightarrow> u32" where
  "nfs_umode_to_dtype mode = ucast (drop_bit 12 mode AND 15)"

definition entry_attrs :: "nfs_entry \<Rightarrow> getfattr_out \<Rightarrow> nfs_entry" where
  "entry_attrs entry g =
     entry\<lparr>ent_fattr := out_fattr g, ent_fh := out_fh g, ent_label := out_label g\<rparr>"

definition nfs4_decode_dirent :: "'r receiver \<Rightarrow> ('r, nfs_entry) step" where [dec_defs]:
  "nfs4_decode_dirent D entry =
     inline_decode D 4 (- EAGAIN, entry) (\<lambda>p.
       if word p 0 = 0 then
         inline_decode D 4 (- EAGAIN, entry) (\<lambda>p.
           if word p 0 = 0 then dret (- EAGAIN, entry) else dret (- EBADCOOKIE, entry\<lparr>ent_eof := True\<rparr>))
       else inline_decode D 12 (- EAGAIN, entry) (\<lambda>p.
         let entry = entry\<lparr>ent_prev_cookie := ent_cookie entry, ent_cookie := xdr_decode_hyper D p, ent_len := word p 2\<rparr>
         in inline_decode D (unat (ent_len entry)) (- EAGAIN, entry) (\<lambda>q.
           let entry = entry\<lparr>ent_name := take (unat (ent_len entry)) q, ent_ino := 1,
                             ent_fattr := (ent_fattr entry)\<lparr>fa_valid := 0\<rparr>\<rparr>
           in dbind (decode_attr_bitmap D (0, 0, 0)) (\<lambda>(status, bm).
              if status < 0 then dret (- EAGAIN, entry)
              else dbind (decode_attr_length D) (\<lambda>(status, len, savep).
                if status < 0 then dret (- EAGAIN, entry)
                else dbind (decode_getfattr_attrs D (ent_server entry)
                       (bm, \<lparr>out_fattr = ent_fattr entry, out_fh = ent_fh entry, out_fsloc = None,
                             out_label = ent_label entry\<rparr>)) (\<lambda>(status, bm', g).
                  let entry = entry_attrs entry g; fa = ent_fattr entry
                  in if status < 0 then dret (- EAGAIN, entry)
                     else dret (0, entry\<lparr>
                       ent_ino := if fa_valid fa AND NFS_ATTR_FATTR_MOUNTED_ON_FILEID \<noteq> 0 then fa_mounted_on_fileid fa
                                  else if fa_valid fa AND NFS_ATTR_FATTR_FILEID \<noteq> 0 then fa_fileid fa
                                  else ent_ino entry,
                       ent_d_type := if fa_valid fa AND NFS_ATTR_FATTR_TYPE \<noteq> 0 then nfs_umode_to_dtype (fa_mode fa)
                                     else DT_UNKNOWN\<rparr>)))))))"

end
