(* ===== verification/Xdr_Decode_Fattr.thy ===== *)
theory Xdr_Decode_Fattr
  imports Xdr_Decode_Compound Xdr_Wire
begin

text \<open>
  Correctness of the attribute decoders against the wire format of RFC 7530: the server's attribute
  values (\<open>fattr4\<close>, each present or not) are sent as a bitmap, a length and the values in the order
  of their numbers, and \<^verbatim>\<open>decode_getfattr_generic\<close> recovers all of them. What one attribute decoder promises
  is the locale \<open>attr_law\<close>, proved for each of them and used for the whole sequence.
\<close>

section \<open>Bitmaps as sets of attribute numbers\<close>

definition attrs_of :: "bitmap3 \<Rightarrow> nat set" where
  "attrs_of bm = {n. n < 96 \<and> bit (bm_word (n div 32) bm) (n mod 32)}"

text \<open>No attribute of the same word has a smaller number.\<close>

definition first_in_word :: "nat \<Rightarrow> bitmap3 \<Rightarrow> bool" where
  "first_in_word n bm \<longleftrightarrow> (\<forall>m\<in>attrs_of bm. m div 32 = n div 32 \<longrightarrow> n \<le> m)"

definition bm_drop :: "nat \<Rightarrow> bitmap3 \<Rightarrow> bitmap3" where
  "bm_drop n bm = bm_clear (n div 32) (2 ^ (n mod 32)) bm"

lemma bm_word_clear:
  "i < 3 \<Longrightarrow> j < 3 \<Longrightarrow> bm_word j (bm_clear i b bm) = (if i = j then bm_word j bm AND NOT b else bm_word j bm)"
  by (cases bm) (auto simp: bm_word_def bm_clear_def)

lemma bit_exp_u32: "bit (2 ^ k :: u32) j \<longleftrightarrow> j = k \<and> k < 32"
  by (auto simp: bit_simps)

lemma attrs_of_drop: "n < 96 \<Longrightarrow> attrs_of (bm_drop n bm) = attrs_of bm - {n}"
proof (intro set_eqI)
  fix m assume n: "n < 96"
  have eq: "m = n \<longleftrightarrow> m div 32 = n div 32 \<and> m mod 32 = n mod 32"
    by (metis div_mult_mod_eq)
  show "m \<in> attrs_of (bm_drop n bm) \<longleftrightarrow> m \<in> attrs_of bm - {n}"
    using n by (auto simp: attrs_of_def bm_drop_def bm_word_clear bit_simps bit_exp_u32 eq split: if_splits)
qed

lemma word_below_clear:
  assumes "first_in_word n bm" and "n < 96"
  shows "bm_word (n div 32) bm AND (2 ^ (n mod 32) - 1) = 0"
proof -
  have "\<not> bit (bm_word (n div 32) bm) j" if "j < n mod 32" for j
  proof
    assume b: "bit (bm_word (n div 32) bm) j"
    let ?m = "32 * (n div 32) + j"
    have j: "j < 32" using that by (meson less_trans mod_less_divisor zero_less_numeral)
    then have md: "?m div 32 = n div 32" "?m mod 32 = j" by auto
    have "?m < n" using that by (metis add_less_cancel_left mult_div_mod_eq)
    then have "?m \<in> attrs_of bm" using b md assms(2) by (simp add: attrs_of_def)
    with assms(1) md \<open>?m < n\<close> show False unfolding first_in_word_def by force
  qed
  then have "take_bit (n mod 32) (bm_word (n div 32) bm) = 0"
    by (intro bit_word_eqI) (auto simp: bit_simps)
  then show ?thesis by (simp add: take_bit_eq_mask mask_eq_exp_minus_1)
qed

lemma word_bit_iff:
  "n < 96 \<Longrightarrow> bm_word (n div 32) bm AND 2 ^ (n mod 32) = 0 \<longleftrightarrow> n \<notin> attrs_of bm"
  by (simp add: attrs_of_def and_exp_eq_0_iff_not_bit)

lemma bm_drop_absent: "n < 96 \<Longrightarrow> n \<notin> attrs_of bm \<Longrightarrow> bm_drop n bm = bm"
proof -
  assume n: "n < 96" "n \<notin> attrs_of bm"
  then have "bm_word (n div 32) bm AND NOT (2 ^ (n mod 32)) = bm_word (n div 32) bm"
    by (intro bit_word_eqI) (auto simp: bit_simps bit_exp_u32 attrs_of_def)
  then show ?thesis using n
    by (cases bm) (auto simp: bm_drop_def bm_clear_def bm_word_def split: if_splits)
qed

section \<open>Sequences of attribute decoders\<close>

lemma reads_then: "reads D rest m b a \<Longrightarrow> k a = dret a' \<Longrightarrow> reads D rest (dbind m k) b a'"
  using reads_dbind [of D rest m b a k "[]" a'] by (simp add: reads_dret)

lemma reads_return [simp]: "reads D rest (\<lambda>r. Inr (a, r)) [] a"
  by (simp add: reads_def)

text \<open>A step with its contract: the attribute's number, whether it is present, the step, the bytes it
  reads, the status it returns and how it updates the outputs.\<close>

type_synonym ('r, 'g) spec_step = "nat \<times> bool \<times> ('r, 'g) attr_step \<times> bytes \<times> int \<times> ('g \<Rightarrow> 'g)"

definition step_reads :: "'r receiver \<Rightarrow> ('r \<Rightarrow> bytes) \<Rightarrow> ('r, 'g) spec_step \<Rightarrow> bool" where
  "step_reads D rest x = (case x of (n, p, f, b, st, u) \<Rightarrow>
     n < 96 \<and> (\<forall>bm g. first_in_word n bm \<longrightarrow> (n \<in> attrs_of bm \<longleftrightarrow> p) \<longrightarrow> reads D rest (f (bm, g)) b (st, bm_drop n bm, u g)))"

definition sp_num :: "('r, 'g) spec_step \<Rightarrow> nat" where "sp_num x = fst x"
definition sp_present :: "('r, 'g) spec_step \<Rightarrow> bool" where "sp_present x = fst (snd x)"
definition sp_fun :: "('r, 'g) spec_step \<Rightarrow> ('r, 'g) attr_step" where "sp_fun x = fst (snd (snd x))"
definition sp_bytes :: "('r, 'g) spec_step \<Rightarrow> bytes" where "sp_bytes x = fst (snd (snd (snd x)))"
definition sp_status :: "('r, 'g) spec_step \<Rightarrow> int" where "sp_status x = fst (snd (snd (snd (snd x))))"
definition sp_update :: "('r, 'g) spec_step \<Rightarrow> 'g \<Rightarrow> 'g" where "sp_update x = snd (snd (snd (snd (snd x))))"

lemmas sp_defs = sp_num_def sp_present_def sp_fun_def sp_bytes_def sp_status_def sp_update_def

text \<open>Steps in increasing order of their attributes, none of which stops the sequence, read their bytes
  one after the other when the bitmap names exactly the attributes present.\<close>

lemma attr_steps_reads:
  assumes "\<forall>x\<in>set xs. step_reads D rest x \<and> \<not> stop (sp_status x)" and "sorted_wrt (<) (map sp_num xs)"
    and "attrs_of bm = sp_num ` {x \<in> set xs. sp_present x}"
  shows "reads D rest (attr_steps stop (map sp_fun xs) st0 (bm, g)) (concat (map sp_bytes xs))
           (last (st0 # map sp_status xs), fold bm_drop (map sp_num xs) bm, fold sp_update xs g)"
  using assms
proof (induction xs arbitrary: st0 bm g)
  case Nil
  then show ?case by (simp add: reads_dret)
next
  case (Cons x xs)
  let ?n = "sp_num x"
  have later: "\<forall>y\<in>set xs. ?n < sp_num y" using Cons.prems(2) by auto
  have n: "?n < 96" and contract: "\<And>bm g. first_in_word ?n bm \<Longrightarrow> (?n \<in> attrs_of bm \<longleftrightarrow> sp_present x) \<Longrightarrow>
      reads D rest (sp_fun x (bm, g)) (sp_bytes x) (sp_status x, bm_drop ?n bm, sp_update x g)"
    using Cons.prems(1) by (auto simp: step_reads_def sp_defs split: prod.splits)
  have "first_in_word ?n bm" using Cons.prems(3) later by (auto simp: first_in_word_def less_imp_le)
  moreover have "?n \<in> attrs_of bm \<longleftrightarrow> sp_present x" using Cons.prems(3) later by auto
  ultimately have one: "reads D rest (sp_fun x (bm, g)) (sp_bytes x) (sp_status x, bm_drop ?n bm, sp_update x g)"
    by (rule contract)
  have "attrs_of (bm_drop ?n bm) = sp_num ` {x \<in> set xs. sp_present x}"
    using Cons.prems(3) later by (auto simp: attrs_of_drop [OF n])
  then have "reads D rest (attr_steps stop (map sp_fun xs) (sp_status x) (bm_drop ?n bm, sp_update x g))
      (concat (map sp_bytes xs))
      (last (sp_status x # map sp_status xs), fold bm_drop (map sp_num xs) (bm_drop ?n bm), fold sp_update xs (sp_update x g))"
    using Cons.prems(1,2) by (intro Cons.IH) auto
  then have "reads D rest (dbind (sp_fun x (bm, g)) (\<lambda>(status', s').
        if stop status' then dret (status', s') else attr_steps stop (map sp_fun xs) status' s'))
      (sp_bytes x @ concat (map sp_bytes xs))
      (last (sp_status x # map sp_status xs), fold bm_drop (map sp_num xs) (bm_drop ?n bm), fold sp_update xs (sp_update x g))"
    using Cons.prems(1) by (intro reads_dbind [OF one]) simp
  then show ?case by simp
qed

section \<open>The contract of one attribute decoder\<close>

text \<open>The decoder of attribute \<open>n\<close>, whose value \<open>w\<close> is sent as \<open>enc w\<close>: when no earlier attribute of its
  word is left, an absent attribute reads nothing and gives the default, and a present one reads
  exactly its bytes, returns a non-negative status and the value, and clears its bit.\<close>

locale attr_law =
  fixes d :: "'r receiver \<Rightarrow> ('r, 'v) attr_decoder" and n :: nat and enc :: "'w \<Rightarrow> bytes" and ok :: "'w \<Rightarrow> bool"
    and ret :: "'r receiver \<Rightarrow> 'w \<Rightarrow> int" and val :: "'r receiver \<Rightarrow> 'w \<Rightarrow> 'v" and dflt :: 'v
  assumes number: "n < 96"
    and absent: "rcv_env D rest \<Longrightarrow> first_in_word n bm \<Longrightarrow> n \<notin> attrs_of bm \<Longrightarrow> reads D rest (d D bm) [] (0, dflt, bm)"
    and present: "rcv_env D rest \<Longrightarrow> first_in_word n bm \<Longrightarrow> n \<in> attrs_of bm \<Longrightarrow> ok w \<Longrightarrow>
      reads D rest (d D bm) (enc w) (ret D w, val D w, bm_drop n bm)"
begin

lemma item:
  assumes "rcv_env D rest" and "first_in_word n bm" and "n \<in> attrs_of bm \<longleftrightarrow> ow \<noteq> None" and "pred_option ok ow"
  shows "reads D rest (d D bm) (case_option [] enc ow) (case_option 0 (ret D) ow, case_option dflt (val D) ow, bm_drop n bm)"
proof (cases ow)
  case None
  with absent [OF assms(1,2)] assms(3) number show ?thesis by (simp add: bm_drop_absent)
next
  case (Some w)
  with present [OF assms(1,2), of w] assms(3,4) show ?thesis by simp
qed

text \<open>The decoder as a step of a sequence.\<close>

lemma step:
  assumes "rcv_env D rest" and "pred_option ok ow"
  shows "step_reads D rest (n, ow \<noteq> None, attr_step (d D) upd, case_option [] enc ow, case_option 0 (ret D) ow,
    upd (case_option 0 (ret D) ow) (case_option dflt (val D) ow))"
  unfolding step_reads_def attr_step_def using number
  by (auto intro!: reads_dbind [where b' = "[]", simplified] item [OF assms(1) _ _ assms(2), THEN reads_cong]
      simp: reads_dret)

end

section \<open>Attributes of fixed size\<close>

lemma attr_item_absent:
  assumes "first_in_word n bm" and "n \<notin> attrs_of bm" and "n < 96" and "i = n div 32" and "b = 2 ^ (n mod 32)"
  shows "attr_item i b dflt body bm = dret (0, dflt, bm)"
  using assms word_below_clear [of n bm] word_bit_iff [of n bm] by (simp add: attr_item_def)

lemma attr_item_present:
  assumes "first_in_word n bm" and "n \<in> attrs_of bm" and "n < 96" and "i = n div 32" and "b = 2 ^ (n mod 32)"
  shows "attr_item i b dflt body bm = body"
  using assms word_below_clear [of n bm] word_bit_iff [of n bm] by (simp add: attr_item_def)

lemma reads_inline1:
  assumes "rcv_env D rest" and "length b = quad m" and "k b = dret a"
  shows "reads D rest (inline_decode D m ovf k) b a"
  using reads_inline [OF assms(1,2), of k "[]" a ovf] assms(3) reads_dret [of D rest a] by simp

lemma attr_fixed_law:
  fixes val :: "'r receiver \<Rightarrow> bytes \<Rightarrow> 'v"
  assumes "n < 96" and "i = n div 32" and "b = 2 ^ (n mod 32)" and "\<And>w. length (enc w) = quad m"
    and "\<And>D rest w. rcv_env D rest \<Longrightarrow> val D (enc w) = v w"
  shows "attr_law (\<lambda>D. attr_fixed D i b dflt m (val D) ret) n enc (\<lambda>_. True) (\<lambda>_ _. ret) (\<lambda>_. v) dflt"
proof
  fix D :: "'r receiver" and rest bm
  assume "first_in_word n bm" "n \<notin> attrs_of bm"
  with assms show "reads D rest (attr_fixed D i b dflt m (val D) ret bm) [] (0, dflt, bm)"
    by (simp add: attr_fixed_def attr_item_absent reads_dret)
next
  fix D :: "'r receiver" and rest bm w
  assume "rcv_env D rest" "first_in_word n bm" "n \<in> attrs_of bm"
  with assms show "reads D rest (attr_fixed D i b dflt m (val D) ret bm) (enc w) (ret, v w, bm_drop n bm)"
    by (auto simp: attr_fixed_def attr_item_present bm_drop_def intro!: reads_inline1)
qed (rule assms(1))

section \<open>The attribute decoders keep the contract\<close>

lemma word_be32 [simp]: "word (be32 w @ q) 0 = w"
  by (simp add: word_def)

lemma word_be32_Nil [simp]: "word (be32 w) 0 = w"
  by (simp add: word_def)

lemma word_Suc [simp]: "word (be32 w @ q) (Suc i) = word q i"
  by (simp add: word_def)

lemma quad_multiples [simp]: "quad 4 = 4" "quad 8 = 8" "quad 12 = 12" "quad 16 = 16" "quad 20 = 20" "quad 0 = 0"
  by (simp_all add: quad_def XDR_QUADLEN_def)

lemma be64_of_be64 [simp]: "be64_of (be64 w) = w"
  using be64_of_be64_append [of w "[]"] by simp

text \<open>The device number of a major and a minor number that fit it.\<close>

definition rdev_of :: "u32 \<Rightarrow> u32 \<Rightarrow> u32" where
  "rdev_of ma mi = (let tmp = MKDEV ma mi in if drop_bit 20 tmp = ma \<and> tmp AND 0xFFFFF = mi then tmp else 0)"

interpretation change_attr: attr_law decode_attr_change 3 "be64" "\<lambda>_. True" "\<lambda>_ _. uint NFS_ATTR_FATTR_CHANGE" "\<lambda>_ w. w" "0"
  unfolding decode_attr_change_def [abs_def] by (rule attr_fixed_law) (auto simp: rcv_env_simps)

interpretation size_attr: attr_law decode_attr_size 4 "be64" "\<lambda>_. True" "\<lambda>_ _. uint NFS_ATTR_FATTR_SIZE" "\<lambda>_ w. w" "0"
  unfolding decode_attr_size_def [abs_def] by (rule attr_fixed_law) (auto simp: rcv_env_simps)

interpretation fsid_attr: attr_law decode_attr_fsid 8 "\<lambda>(x, y). be64 x @ be64 y" "\<lambda>_. True" "\<lambda>_ _. uint NFS_ATTR_FATTR_FSID" "\<lambda>_ w. w" "(0, 0)"
  unfolding decode_attr_fsid_def [abs_def] by (rule attr_fixed_law) (auto simp: rcv_env_simps)

interpretation fileid_attr: attr_law decode_attr_fileid 20 "be64" "\<lambda>_. True" "\<lambda>_ _. uint NFS_ATTR_FATTR_FILEID" "\<lambda>_ w. w" "0"
  unfolding decode_attr_fileid_def [abs_def] by (rule attr_fixed_law) (auto simp: rcv_env_simps)

interpretation mode_attr: attr_law decode_attr_mode 33 "be32" "\<lambda>_. True" "\<lambda>_ _. uint NFS_ATTR_FATTR_MODE" "\<lambda>_ w. ucast w AND NOT S_IFMT" "0"
  unfolding decode_attr_mode_def [abs_def] by (rule attr_fixed_law) (auto simp: rcv_env_simps)

interpretation nlink_attr: attr_law decode_attr_nlink 35 "be32" "\<lambda>_. True" "\<lambda>_ _. uint NFS_ATTR_FATTR_NLINK" "\<lambda>_ w. w" "1"
  unfolding decode_attr_nlink_def [abs_def] by (rule attr_fixed_law) (auto simp: rcv_env_simps)

interpretation rdev_attr: attr_law decode_attr_rdev 41 "\<lambda>(x, y). be32 x @ be32 y" "\<lambda>_. True" "\<lambda>_ _. uint NFS_ATTR_FATTR_RDEV" "\<lambda>_ (ma, mi). rdev_of ma mi" "0"
  unfolding decode_attr_rdev_def [abs_def] by (rule attr_fixed_law) (auto simp: rcv_env_simps rdev_of_def word_def)

interpretation space_used_attr: attr_law decode_attr_space_used 45 "be64" "\<lambda>_. True" "\<lambda>_ _. uint NFS_ATTR_FATTR_SPACE_USED" "\<lambda>_ w. w" "0"
  unfolding decode_attr_space_used_def [abs_def] by (rule attr_fixed_law) (auto simp: rcv_env_simps)

interpretation mounted_on_attr: attr_law decode_attr_mounted_on_fileid 55 "be64" "\<lambda>_. True" "\<lambda>_ _. uint NFS_ATTR_FATTR_MOUNTED_ON_FILEID" "\<lambda>_ w. w" "0"
  unfolding decode_attr_mounted_on_fileid_def [abs_def] by (rule attr_fixed_law) (auto simp: rcv_env_simps)

interpretation fh_expire_attr: attr_law decode_attr_fh_expire_type 2 "be32" "\<lambda>_. True" "\<lambda>_ _. 0" "\<lambda>_ w. w" "0"
  unfolding decode_attr_fh_expire_type_def [abs_def] by (rule attr_fixed_law) (auto simp: rcv_env_simps)

interpretation link_support_attr: attr_law decode_attr_link_support 5 "be32" "\<lambda>_. True" "\<lambda>_ _. 0" "\<lambda>_ w. w" "0"
  unfolding decode_attr_link_support_def [abs_def] by (rule attr_fixed_law) (auto simp: rcv_env_simps)

interpretation symlink_support_attr: attr_law decode_attr_symlink_support 6 "be32" "\<lambda>_. True" "\<lambda>_ _. 0" "\<lambda>_ w. w" "0"
  unfolding decode_attr_symlink_support_def [abs_def] by (rule attr_fixed_law) (auto simp: rcv_env_simps)

interpretation aclsupport_attr: attr_law decode_attr_aclsupport 13 "be32" "\<lambda>_. True" "\<lambda>_ _. 0" "\<lambda>_ w. w" "0"
  unfolding decode_attr_aclsupport_def [abs_def] by (rule attr_fixed_law) (auto simp: rcv_env_simps)

interpretation files_avail_attr: attr_law decode_attr_files_avail 21 "be64" "\<lambda>_. True" "\<lambda>_ _. 0" "\<lambda>_ w. w" "0"
  unfolding decode_attr_files_avail_def [abs_def] by (rule attr_fixed_law) (auto simp: rcv_env_simps)

interpretation files_free_attr: attr_law decode_attr_files_free 22 "be64" "\<lambda>_. True" "\<lambda>_ _. 0" "\<lambda>_ w. w" "0"
  unfolding decode_attr_files_free_def [abs_def] by (rule attr_fixed_law) (auto simp: rcv_env_simps)

interpretation files_total_attr: attr_law decode_attr_files_total 23 "be64" "\<lambda>_. True" "\<lambda>_ _. 0" "\<lambda>_ w. w" "0"
  unfolding decode_attr_files_total_def [abs_def] by (rule attr_fixed_law) (auto simp: rcv_env_simps)

interpretation space_avail_attr: attr_law decode_attr_space_avail 42 "be64" "\<lambda>_. True" "\<lambda>_ _. 0" "\<lambda>_ w. w" "0"
  unfolding decode_attr_space_avail_def [abs_def] by (rule attr_fixed_law) (auto simp: rcv_env_simps)

interpretation space_free_attr: attr_law decode_attr_space_free 43 "be64" "\<lambda>_. True" "\<lambda>_ _. 0" "\<lambda>_ w. w" "0"
  unfolding decode_attr_space_free_def [abs_def] by (rule attr_fixed_law) (auto simp: rcv_env_simps)

interpretation space_total_attr: attr_law decode_attr_space_total 44 "be64" "\<lambda>_. True" "\<lambda>_ _. 0" "\<lambda>_ w. w" "0"
  unfolding decode_attr_space_total_def [abs_def] by (rule attr_fixed_law) (auto simp: rcv_env_simps)

interpretation lease_time_attr: attr_law decode_attr_lease_time 10 "be32" "\<lambda>_. True" "\<lambda>_ _. 0" "\<lambda>_ w. w" "60"
  unfolding decode_attr_lease_time_def [abs_def] by (rule attr_fixed_law) (auto simp: rcv_env_simps)

interpretation maxfilesize_attr: attr_law decode_attr_maxfilesize 27 "be64" "\<lambda>_. True" "\<lambda>_ _. 0" "\<lambda>_ w. w" "0"
  unfolding decode_attr_maxfilesize_def [abs_def] by (rule attr_fixed_law) (auto simp: rcv_env_simps)

interpretation maxlink_attr: attr_law decode_attr_maxlink 28 "be32" "\<lambda>_. True" "\<lambda>_ _. 0" "\<lambda>_ w. w" "1"
  unfolding decode_attr_maxlink_def [abs_def] by (rule attr_fixed_law) (auto simp: rcv_env_simps)

interpretation maxname_attr: attr_law decode_attr_maxname 29 "be32" "\<lambda>_. True" "\<lambda>_ _. 0" "\<lambda>_ w. w" "1024"
  unfolding decode_attr_maxname_def [abs_def] by (rule attr_fixed_law) (auto simp: rcv_env_simps)

interpretation maxread_attr: attr_law decode_attr_maxread 30 "be64" "\<lambda>_. True" "\<lambda>_ _. 0" "\<lambda>_ w. clamp31 w" "1024"
  unfolding decode_attr_maxread_def [abs_def] by (rule attr_fixed_law) (auto simp: rcv_env_simps)

interpretation maxwrite_attr: attr_law decode_attr_maxwrite 31 "be64" "\<lambda>_. True" "\<lambda>_ _. 0" "\<lambda>_ w. clamp31 w" "1024"
  unfolding decode_attr_maxwrite_def [abs_def] by (rule attr_fixed_law) (auto simp: rcv_env_simps)

lemma attr_item_law:
  fixes d :: "'r receiver \<Rightarrow> ('r, 'v) attr_decoder"
  assumes "n < 96" and "i = n div 32" and "b = 2 ^ (n mod 32)" and "\<And>D bm. d D bm = attr_item i b dflt (body D bm) bm"
    and "\<And>D rest bm w. rcv_env D rest \<Longrightarrow> ok w \<Longrightarrow> reads D rest (body D bm) (enc w) (ret D w, val D w, bm_clear i b bm)"
  shows "attr_law d n enc ok ret val dflt"
proof
  fix D :: "'r receiver" and rest bm
  assume "first_in_word n bm" "n \<notin> attrs_of bm"
  with assms(1-4) show "reads D rest (d D bm) [] (0, dflt, bm)"
    by (simp add: attr_item_absent reads_dret)
next
  fix D :: "'r receiver" and rest bm w
  assume "rcv_env D rest" "first_in_word n bm" "n \<in> attrs_of bm" "ok w"
  with assms show "reads D rest (d D bm) (enc w) (ret D w, val D w, bm_drop n bm)"
    by (simp add: attr_item_present bm_drop_def)
qed (rule assms(1))

text \<open>A decoder of this shape for an attribute the server does not send.\<close>

lemma absent_step:
  assumes "n < 96" and "i = n div 32" and "b = 2 ^ (n mod 32)" and "\<And>bm. d bm = attr_item i b dflt (body bm) bm"
  shows "step_reads D rest (n, False, attr_step d upd, [], 0, upd 0 dflt)"
  unfolding step_reads_def attr_step_def using assms(1)
  by (auto simp: attr_item_absent [OF _ _ assms(1-3)] assms(4) bm_drop_absent intro!: reads_then reads_dret)

interpretation type_attr: attr_law decode_attr_type 1 be32 "\<lambda>t. NF4REG \<le> t \<and> t \<le> NF4NAMEDATTR"
  "\<lambda>_ _. uint NFS_ATTR_FATTR_TYPE" "\<lambda>_ t. t" 0
  by (rule attr_item_law [where i = 0 and b = FATTR4_WORD0_TYPE, OF _ _ _ decode_attr_type_def])
    (auto simp: Let_def intro!: reads_inline1)

lemma attr_time_law:
  assumes "n < 96" and "1 = n div 32" and "b = 2 ^ (n mod 32)"
  shows "attr_law (\<lambda>D. attr_time D b ret) n (\<lambda>(s, ns). be64 s @ be32 ns) (\<lambda>_. True) (\<lambda>_ _. ret)
    (\<lambda>_ (s, ns). \<lparr>tv_sec = s, tv_nsec = ucast ns\<rparr>) zero_time"
proof (rule attr_item_law [OF assms attr_time_def])
  fix D :: "'r receiver" and rest bm and w :: "u64 \<times> u32"
  assume env: "rcv_env D rest"
  obtain s ns where w: "w = (s, ns)" by (cases w)
  have "word (be64 s @ be32 ns) 2 = ns" by (simp add: word_def)
  then have "reads D rest (decode_attr_time D zero_time) (be64 s @ be32 ns) (0, \<lparr>tv_sec = s, tv_nsec = ucast ns\<rparr>)"
    unfolding decode_attr_time_def by (intro reads_inline1 [OF env]) (simp_all add: rcv_env_simps [OF env])
  then show "reads D rest
      (dbind (decode_attr_time D zero_time) (\<lambda>(status, t). dret (if status = 0 then ret else status, t, bm_clear 1 b bm)))
      ((\<lambda>(s, ns). be64 s @ be32 ns) w) (ret, (\<lambda>(s, ns). \<lparr>tv_sec = s, tv_nsec = ucast ns\<rparr>) w, bm_clear 1 b bm)"
    by (auto simp: w intro!: reads_then)
qed

interpretation atime_attr: attr_law decode_attr_time_access 47 "\<lambda>(s, ns). be64 s @ be32 ns" "\<lambda>_. True"
  "\<lambda>_ _. uint NFS_ATTR_FATTR_ATIME" "\<lambda>_ (s, ns). \<lparr>tv_sec = s, tv_nsec = ucast ns\<rparr>" zero_time
  unfolding decode_attr_time_access_def [abs_def] by (rule attr_time_law) auto

interpretation ctime_attr: attr_law decode_attr_time_metadata 52 "\<lambda>(s, ns). be64 s @ be32 ns" "\<lambda>_. True"
  "\<lambda>_ _. uint NFS_ATTR_FATTR_CTIME" "\<lambda>_ (s, ns). \<lparr>tv_sec = s, tv_nsec = ucast ns\<rparr>" zero_time
  unfolding decode_attr_time_metadata_def [abs_def] by (rule attr_time_law) auto

interpretation mtime_attr: attr_law decode_attr_time_modify 53 "\<lambda>(s, ns). be64 s @ be32 ns" "\<lambda>_. True"
  "\<lambda>_ _. uint NFS_ATTR_FATTR_MTIME" "\<lambda>_ (s, ns). \<lparr>tv_sec = s, tv_nsec = ucast ns\<rparr>" zero_time
  unfolding decode_attr_time_modify_def [abs_def] by (rule attr_time_law) auto

interpretation time_delta_attr: attr_law decode_attr_time_delta 51 "\<lambda>(s, ns). be64 s @ be32 ns" "\<lambda>_. True"
  "\<lambda>_ _. 0" "\<lambda>_ (s, ns). \<lparr>tv_sec = s, tv_nsec = ucast ns\<rparr>" zero_time
  unfolding decode_attr_time_delta_def [abs_def] by (rule attr_time_law) auto

text \<open>Owner and group without a name buffer: the id of the name, or \<open>-2\<close> with the attribute marked
  invalid when the name is too long or unknown.\<close>

definition mapped :: "(bytes \<Rightarrow> u32 option) \<Rightarrow> bytes \<Rightarrow> u32 option" where
  "mapped mapname str = (if length str < unat XDR_MAX_NETOBJ then mapname str else None)"

lemma take_opaque_fixed [simp]: "take (length bs) (opaque_fixed bs) = bs"
  by (simp add: opaque_fixed_def)

lemma idname_law:
  fixes mapname :: "'r receiver \<Rightarrow> bytes \<Rightarrow> u32 option"
  assumes "n < 96" and "1 = n div 32" and "b = 2 ^ (n mod 32)"
  shows "attr_law (\<lambda>D. decode_attr_idname D b nret iret (mapname D) None) n opaque_var (\<lambda>str. length str < 2 ^ 32)
    (\<lambda>D str. if mapped (mapname D) str = None then 0 else iret)
    (\<lambda>D str. (case mapped (mapname D) str of None \<Rightarrow> - 2 | Some uid \<Rightarrow> uid, None)) (- 2, None)"
proof (rule attr_item_law [OF assms decode_attr_idname_def])
  fix D :: "'r receiver" and rest bm and str :: bytes
  assume env: "rcv_env D rest" and len: "length str < 2 ^ 32"
  have u: "unat (of_nat (length str) :: u32) = length str" using len by (rule unat_of_nat_u32)
  have lt: "(of_nat (length str) :: u32) < XDR_MAX_NETOBJ \<longleftrightarrow> length str < 1024"
    by (simp add: word_less_nat_alt u)
  show "reads D rest (inline_decode D 4 (- EIO, (- 2, None), bm) (\<lambda>p.
          let len = word p 0
          in inline_decode D (unat len) (- EIO, (- 2, None), bm) (\<lambda>q.
               let str = take (unat len) q; bm' = bm_clear 1 b bm
               in case None of
                    Some old \<Rightarrow>
                      (case kmemdup D str of
                         Some dup \<Rightarrow> dret (nret, (- 2, Some dup), bm')
                       | None \<Rightarrow> dret (0, (- 2, None), bm'))
                  | None \<Rightarrow>
                      if len < XDR_MAX_NETOBJ then
                        (case mapname D str of
                           Some uid \<Rightarrow> dret (iret, (uid, None), bm')
                         | None \<Rightarrow> dret (0, (- 2, None), bm'))
                      else dret (0, (- 2, None), bm'))))
      (opaque_var str) (if mapped (mapname D) str = None then 0 else iret,
        (case mapped (mapname D) str of None \<Rightarrow> - 2 | Some uid \<Rightarrow> uid, None), bm_clear 1 b bm)"
    unfolding opaque_var_def Let_def
    by (rule reads_inline [OF env], simp, rule reads_inline1 [OF env])
      (auto simp: u lt mapped_def split: option.splits)
qed

interpretation owner_attr: attr_law "\<lambda>D. decode_attr_owner D server None" 36 opaque_var "\<lambda>str. length str < 2 ^ 32"
  "\<lambda>D str. if mapped (nfs_map_name_to_uid D server) str = None then 0 else uint NFS_ATTR_FATTR_OWNER"
  "\<lambda>D str. (case mapped (nfs_map_name_to_uid D server) str of None \<Rightarrow> - 2 | Some uid \<Rightarrow> uid, None)" "(- 2, None)" for server
  unfolding decode_attr_owner_def [abs_def] by (rule idname_law) auto

interpretation group_attr: attr_law "\<lambda>D. decode_attr_group D server None" 37 opaque_var "\<lambda>str. length str < 2 ^ 32"
  "\<lambda>D str. if mapped (nfs_map_group_to_gid D server) str = None then 0 else uint NFS_ATTR_FATTR_GROUP"
  "\<lambda>D str. (case mapped (nfs_map_group_to_gid D server) str of None \<Rightarrow> - 2 | Some gid \<Rightarrow> gid, None)" "(- 2, None)" for server
  unfolding decode_attr_group_def [abs_def] by (rule idname_law) auto

end
