(* ===== verification/Xdr_Decode_Attr_Reply.thy ===== *)
theory Xdr_Decode_Attr_Reply
  imports Xdr_Decode_Fattr
begin

text \<open>
  GETATTR replies as a whole: bitmap, length and values. What a server sends for a set of
  attributes is decoded to exactly those values, for file attributes (\<^verbatim>\<open>decode_getfattr_generic\<close>) and for
  the server capability, statistics, path configuration and file system information forms.
\<close>

section \<open>Headers and bitmaps\<close>

definition op_status_bytes :: "nfs_opnum4 \<Rightarrow> u32 \<Rightarrow> bytes" where
  "op_status_bytes opc status = be32 (opnum opc) @ be32 status"

lemma length_op_status [simp]: "length (op_status_bytes opc status) = 8"
  by (simp add: op_status_bytes_def)

lemma word_op_status [simp]: "word (op_status_bytes opc status) 0 = opnum opc" "word (op_status_bytes opc status) (Suc 0) = status"
  by (simp_all add: op_status_bytes_def)

lemma sint_0_iff: "sint (w :: u32) = 0 \<longleftrightarrow> w = 0"
  using signed_word_eqI [of w 0] by auto

lemma decode_op_hdr_checked_reads:
  assumes "rcv_env D rest"
  shows "reads D rest (decode_op_hdr_checked D opc) (op_status_bytes opc status)
    (True, if status = 0 then 0 else nfs4_stat_to_errno (sint status))"
  unfolding decode_op_hdr_checked_def by (intro reads_inline1 [OF assms]) (auto simp: Let_def sint_0_iff)

lemma decode_op_hdr_reads:
  assumes "rcv_env D rest"
  shows "reads D rest (decode_op_hdr D opc) (op_status_bytes opc status)
    (if status = 0 then 0 else nfs4_stat_to_errno (sint status))"
  unfolding decode_op_hdr_def by (intro reads_then [OF decode_op_hdr_checked_reads [OF assms]]) auto

lemma decode_op_hdr_ok: "rcv_env D rest \<Longrightarrow> reads D rest (decode_op_hdr D opc) (op_status_bytes opc 0) 0"
  using decode_op_hdr_reads [of D rest opc 0] by simp

definition bm_of_words :: "u32 list \<Rightarrow> bitmap3" where
  "bm_of_words ws = (if ws \<noteq> [] then ws ! 0 else 0, if length ws > 1 then ws ! 1 else 0, if length ws > 2 then ws ! 2 else 0)"

lemma length_concat_be32: "length (concat (map be32 ws)) = 4 * length ws"
  by (induction ws) auto

lemma word_concat_be32: "i < length ws \<Longrightarrow> be32_of (drop (4 * i) (concat (map be32 ws))) = ws ! i"
proof (induction ws arbitrary: i)
  case (Cons w ws)
  then show ?case by (cases i) auto
qed simp

lemma word_at_concat_be32:
  "i < length ws \<Longrightarrow> word_at (concat (map be32 ws)) i k = k (ws ! i)"
  by (simp add: word_at_def length_concat_be32 word_concat_be32)

lemma push_bit2_of_nat: "n < 2 ^ 30 \<Longrightarrow> unat (push_bit 2 (of_nat n :: u32)) = 4 * n"
proof -
  assume n: "n < 2 ^ 30"
  have "push_bit 2 (of_nat n :: u32) = of_nat (4 * n)" by (simp add: push_bit_eq_mult)
  with n unat_of_nat_u32 [of "4 * n"] show ?thesis by simp
qed

lemma decode_attr_bitmap_reads:
  assumes "rcv_env D rest" and "length ws < 2 ^ 30"
  shows "reads D rest (decode_attr_bitmap D old) (words_bytes ws) (0, bm_of_words ws)"
proof -
  have gt: "(of_nat (length ws) :: u32) > n \<longleftrightarrow> length ws > unat n" for n
    using assms(2) by (simp add: word_less_nat_alt unat_of_nat_u32)
  show ?thesis
    unfolding decode_attr_bitmap_def words_bytes_def Let_def
    by (rule reads_inline [OF assms(1)], simp, rule reads_inline1 [OF assms(1)])
      (use assms(2) in \<open>auto simp: push_bit2_of_nat length_concat_be32 gt word_at_concat_be32 bm_of_words_def\<close>)
qed

section \<open>The length of the values\<close>

lemma attr_words_eq:
  assumes "4 dvd n" and "n < 2 ^ 32"
  shows "drop_bit 2 (of_nat n + 3 :: u32) = drop_bit 2 (of_nat n)"
proof -
  obtain m where m: "n = 4 * m" using assms(1) by (elim dvdE)
  then have "n + 3 < 2 ^ 32" using assms(2) by simp
  then have "unat (of_nat n + 3 :: u32) = n + 3"
    using unat_of_nat_u32 [of "n + 3"] by simp
  moreover have "unat (of_nat n :: u32) = n" using assms(2) by (rule unat_of_nat_u32)
  ultimately have "unat (drop_bit 2 (of_nat n + 3 :: u32)) = unat (drop_bit 2 (of_nat n :: u32))"
    unfolding unat_drop_bit_eq by (simp only: drop_bit_eq_div) (simp add: m)
  then show ?thesis by (rule unsigned_word_eqI)
qed

text \<open>A length word, the values and the check of their length.\<close>

lemma reads_attr_body:
  assumes env: "rcv_env D rest" and m: "reads D rest m b x" and b: "4 dvd length b"
    and k: "\<And>savep. k (0, of_nat (length b), savep) = dbind m (h savep)"
    and h: "\<And>savep. h savep x = dbind (verify_attr_len D savep (of_nat (length b))) g" and g: "g 0 = dret a"
  shows "reads D rest (dbind (decode_attr_length D) k) (be32 (of_nat (length b)) @ b) a"
  unfolding reads_def
proof (intro allI impI)
  fix r c assume r: "rest r = (be32 (of_nat (length b)) @ b) @ c"
  then have "rest r = be32 (of_nat (length b)) @ (b @ c)" by simp
  from xdr_inline_decode_Some [OF env this, of 4]
  obtain t where t: "xdr_inline_decode D r 4 = Some (be32 (of_nat (length b)), t)" "rest t = b @ c"
      "xdr_stream_pos D t = xdr_stream_pos D r + 4" by auto
  from readsD [OF m t(2)] obtain u where u: "m t = Inr (x, u)" "rest u = c"
      "xdr_stream_pos D u = xdr_stream_pos D t + of_nat (length b)" .
  have "length b < 2 ^ 32" using rcv_env_simps(2) [OF env, of t] t(2) by simp
  then have v: "verify_attr_len D (xdr_stream_pos D t) (of_nat (length b)) u = Inr (0, u)"
    by (simp add: verify_attr_len_def Let_def u(3) attr_words_eq [OF b])
  have "decode_attr_length D r = Inr ((0, of_nat (length b), xdr_stream_pos D t), t)"
    by (simp add: decode_attr_length_def inline_decode_def t(1))
  then have "dbind (decode_attr_length D) k r = Inr (a, u)"
    by (simp add: k u(1) h v g)
  then show "\<exists>u. dbind (decode_attr_length D) k r = Inr (a, u) \<and> rest u = c \<and>
      xdr_stream_pos D u = xdr_stream_pos D r + of_nat (length (be32 (of_nat (length b)) @ b))"
    using t(3) u(2,3) by (auto simp: algebra_simps)
qed

section \<open>File attributes\<close>

text \<open>The attributes the client asks for in a lookup, each sent or not.\<close>

record fattr4 =
  a_type :: "u32 option"
  a_change :: "u64 option"
  a_size :: "u64 option"
  a_fsid :: "(u64 \<times> u64) option"
  a_fileid :: "u64 option"
  a_mode :: "u32 option"
  a_nlink :: "u32 option"
  a_owner :: "bytes option"
  a_group :: "bytes option"
  a_rawdev :: "(u32 \<times> u32) option"
  a_space_used :: "u64 option"
  a_atime :: "(u64 \<times> u32) option"
  a_ctime :: "(u64 \<times> u32) option"
  a_mtime :: "(u64 \<times> u32) option"
  a_mounted_on :: "u64 option"
  a_label :: "(u32 \<times> u32 \<times> bytes) option"

definition time4 :: "u64 \<times> u32 \<Rightarrow> bytes" where
  "time4 = (\<lambda>(s, ns). be64 s @ be32 ns)"

definition fsid4 :: "u64 \<times> u64 \<Rightarrow> bytes" where
  "fsid4 = (\<lambda>(x, y). be64 x @ be64 y)"

definition specdata4 :: "u32 \<times> u32 \<Rightarrow> bytes" where
  "specdata4 = (\<lambda>(x, y). be32 x @ be32 y)"

definition label4 :: "u32 \<times> u32 \<times> bytes \<Rightarrow> bytes" where
  "label4 = (\<lambda>(lfs, pi, b). be32 lfs @ be32 pi @ opaque_var b)"

text \<open>Attribute number and bytes, in the order they are sent.\<close>

definition fattr4_items :: "fattr4 \<Rightarrow> (nat \<times> bytes option) list" where
  "fattr4_items A =
     [(1, map_option be32 (a_type A)), (3, map_option be64 (a_change A)), (4, map_option be64 (a_size A)),
      (8, map_option fsid4 (a_fsid A)), (20, map_option be64 (a_fileid A)), (33, map_option be32 (a_mode A)),
      (35, map_option be32 (a_nlink A)), (36, map_option opaque_var (a_owner A)), (37, map_option opaque_var (a_group A)),
      (41, map_option specdata4 (a_rawdev A)), (45, map_option be64 (a_space_used A)), (47, map_option time4 (a_atime A)),
      (52, map_option time4 (a_ctime A)), (53, map_option time4 (a_mtime A)), (55, map_option be64 (a_mounted_on A)),
      (80, map_option label4 (a_label A))]"

definition items_present :: "(nat \<times> bytes option) list \<Rightarrow> nat set" where
  "items_present its = (\<Union>(n, b)\<in>set its. if b = None then {} else {n})"

definition sent_bytes :: "bytes option \<Rightarrow> bytes" where
  "sent_bytes b = (case b of None \<Rightarrow> [] | Some x \<Rightarrow> x)"

definition items_bytes :: "(nat \<times> bytes option) list \<Rightarrow> bytes" where
  "items_bytes its = concat (map (sent_bytes \<circ> snd) its)"

text \<open>A GETATTR result: status, bitmap, length and values.\<close>

definition getattr_bytes :: "u32 list \<Rightarrow> (nat \<times> bytes option) list \<Rightarrow> bytes" where
  "getattr_bytes ws its =
     op_status_bytes OP_GETATTR 0 @ words_bytes ws @ be32 (of_nat (length (items_bytes its))) @ items_bytes its"

definition fattr4_ok :: "fattr4 \<Rightarrow> bool" where
  "fattr4_ok A \<longleftrightarrow>
     pred_option (\<lambda>t. NF4REG \<le> t \<and> t \<le> NF4NAMEDATTR) (a_type A) \<and>
     pred_option (\<lambda>str. length str < 2 ^ 32) (a_owner A) \<and> pred_option (\<lambda>str. length str < 2 ^ 32) (a_group A) \<and>
     pred_option (\<lambda>(lfs, pi, b). length b < NFS4_MAXLABELLEN) (a_label A)"

text \<open>What the client records: absent attributes get their defaults and no valid bit.\<close>

definition flag :: "u32 \<Rightarrow> 'a option \<Rightarrow> u32" where
  "flag c ow = (if ow = None then 0 else c)"

definition timespec_of :: "(u64 \<times> u32) option \<Rightarrow> timespec" where
  "timespec_of ow = (case ow of None \<Rightarrow> zero_time | Some (s, ns) \<Rightarrow> \<lparr>tv_sec = s, tv_nsec = ucast ns\<rparr>)"

definition uid_of :: "'r receiver \<Rightarrow> nfs_server \<Rightarrow> fattr4 \<Rightarrow> u32 option" where
  "uid_of D server A = Option.bind (a_owner A) (mapped (nfs_map_name_to_uid D server))"

definition gid_of :: "'r receiver \<Rightarrow> nfs_server \<Rightarrow> fattr4 \<Rightarrow> u32 option" where
  "gid_of D server A = Option.bind (a_group A) (mapped (nfs_map_group_to_gid D server))"

definition label_of :: "nfs4_label option \<Rightarrow> fattr4 \<Rightarrow> nfs4_label option" where
  "label_of lab A = (case a_label A of None \<Rightarrow> lab
     | Some (lfs, pi, b) \<Rightarrow> map_option (\<lambda>old. \<lparr>label_lfs = lfs, label_pi = pi, label_len = of_nat (length b),
                                        label_data = copy_over (label_data old) b\<rparr>) lab)"

definition fattr4_valid :: "'r receiver \<Rightarrow> nfs_server \<Rightarrow> fattr4 \<Rightarrow> u32" where
  "fattr4_valid D server A =
     flag NFS_ATTR_FATTR_TYPE (a_type A) OR flag NFS_ATTR_FATTR_CHANGE (a_change A) OR
     flag NFS_ATTR_FATTR_SIZE (a_size A) OR flag NFS_ATTR_FATTR_FSID (a_fsid A) OR
     flag NFS_ATTR_FATTR_FILEID (a_fileid A) OR flag NFS_ATTR_FATTR_MODE (a_mode A) OR
     flag NFS_ATTR_FATTR_NLINK (a_nlink A) OR flag NFS_ATTR_FATTR_OWNER (uid_of D server A) OR
     flag NFS_ATTR_FATTR_GROUP (gid_of D server A) OR flag NFS_ATTR_FATTR_RDEV (a_rawdev A) OR
     flag NFS_ATTR_FATTR_SPACE_USED (a_space_used A) OR flag NFS_ATTR_FATTR_ATIME (a_atime A) OR
     flag NFS_ATTR_FATTR_CTIME (a_ctime A) OR flag NFS_ATTR_FATTR_MTIME (a_mtime A) OR
     flag NFS_ATTR_FATTR_MOUNTED_ON_FILEID (a_mounted_on A) OR flag NFS_ATTR_FATTR_V4_SECURITY_LABEL (a_label A)"

definition fattr_of :: "'r receiver \<Rightarrow> nfs_server \<Rightarrow> fattr4 \<Rightarrow> nfs_fattr \<Rightarrow> nfs_fattr" where
  "fattr_of D server A fa = fa\<lparr>
     fa_valid := fa_valid fa OR fattr4_valid D server A,
     fa_mode := case_option 0 (\<lambda>t. nfs_type2fmt ! unat t) (a_type A) OR
                case_option 0 (\<lambda>m. ucast m AND NOT S_IFMT) (a_mode A),
     fa_nlink := case_option 1 id (a_nlink A),
     fa_uid := case_option (- 2) id (uid_of D server A),
     fa_gid := case_option (- 2) id (gid_of D server A),
     fa_rdev := case_option 0 (\<lambda>(ma, mi). rdev_of ma mi) (a_rawdev A),
     fa_size := case_option 0 id (a_size A),
     fa_used := case_option 0 id (a_space_used A),
     fa_fsid := case_option (0, 0) id (a_fsid A),
     fa_fileid := case_option 0 id (a_fileid A),
     fa_mounted_on_fileid := case_option 0 id (a_mounted_on A),
     fa_atime := timespec_of (a_atime A),
     fa_mtime := timespec_of (a_mtime A),
     fa_ctime := timespec_of (a_ctime A),
     fa_change_attr := case_option 0 id (a_change A)\<rparr>"

section \<open>Decoding file attributes\<close>

text \<open>The effect of a step that stores a value and sets the valid bits \<open>c\<close>.\<close>

definition store :: "(nfs_fattr \<Rightarrow> nfs_fattr) \<Rightarrow> u32 \<Rightarrow> getfattr_out \<Rightarrow> getfattr_out" where
  "store f c g = g\<lparr>out_fattr := (f (out_fattr g))\<lparr>fa_valid := fa_valid (f (out_fattr g)) OR c\<rparr>\<rparr>"

text \<open>A step that keeps its contract and does not end the sequence.\<close>

definition spec_ok :: "'r receiver \<Rightarrow> ('r \<Rightarrow> bytes) \<Rightarrow> ('r, 'g) spec_step \<Rightarrow> bool" where
  "spec_ok D rest x \<longleftrightarrow> step_reads D rest x \<and> 0 \<le> sp_status x"

lemma set_valid_nonneg: "0 \<le> st \<Longrightarrow> set_valid st fa = fa\<lparr>fa_valid := fa_valid fa OR of_int st\<rparr>"
  by (simp add: set_valid_def)

context attr_law
begin

lemma spec:
  assumes "rcv_env D rest" and "pred_option ok ow" and "\<And>w. 0 \<le> ret D w"
    and "\<And>g. upd (case_option 0 (ret D) ow) (case_option dflt (val D) ow) g = u g"
  shows "spec_ok D rest (n, ow \<noteq> None, attr_step (d D) upd, case_option [] enc ow, case_option 0 (ret D) ow, u)"
proof -
  have u: "u = upd (case_option 0 (ret D) ow) (case_option dflt (val D) ow)" using assms(4) by auto
  have "0 \<le> case_option 0 (ret D) ow" using assms(3) by (auto split: option.splits)
  then show ?thesis unfolding spec_ok_def u using step [OF assms(1,2)] by (auto simp: sp_defs)
qed

lemma fattr:
  assumes "rcv_env D rest" and "pred_option ok ow" and "\<And>w. 0 \<le> ret D w"
    and "of_int (case_option 0 (ret D) ow) = c" and "\<And>fa. upd (case_option dflt (val D) ow) fa = f fa"
  shows "spec_ok D rest
    (n, ow \<noteq> None, fattr_step (d D) upd, case_option [] enc ow, case_option 0 (ret D) ow, store f c)"
proof -
  have "0 \<le> case_option 0 (ret D) ow" using assms(3) by (auto split: option.splits)
  with assms show ?thesis unfolding fattr_step_def by (intro spec) (auto simp: store_def set_valid_nonneg)
qed

end

lemma flag_ret: "of_int (case_option 0 (\<lambda>_. uint c) ow) = flag c ow"
  by (simp add: flag_def split: option.splits)

lemma flag_bind:
  "of_int (case_option 0 (\<lambda>str. if h str = None then 0 else uint c) ow) = flag c (Option.bind ow h)"
  by (simp add: flag_def split: option.splits)

lemma case_bind:
  "case_option (- 2, None) (\<lambda>str. (case h str of None \<Rightarrow> - 2 | Some uid \<Rightarrow> uid, None)) ow =
     (case_option (- 2) id (Option.bind ow h), None)"
  by (auto split: option.splits)

interpretation label_attr: attr_law "\<lambda>D. decode_attr_security_label D (Some old)" 80 label4
  "\<lambda>(lfs, pi, b). length b < NFS4_MAXLABELLEN" "\<lambda>_ _. uint NFS_ATTR_FATTR_V4_SECURITY_LABEL"
  "\<lambda>_ (lfs, pi, b). Some \<lparr>label_lfs = lfs, label_pi = pi, label_len = of_nat (length b), label_data = copy_over (label_data old) b\<rparr>"
  "Some old" for old
proof (rule attr_item_law [where i = 2 and b = FATTR4_WORD2_SECURITY_LABEL, OF _ _ _ decode_attr_security_label_def], goal_cases)
  case (4 D rest bm w)
  obtain lfs pi b where w: "w = (lfs, pi, b)" by (cases w)
  have u: "unat (of_nat (length b) :: u32) = length b" using 4(2) by (intro unat_of_nat_u32) (simp add: w)
  show ?case
    unfolding w label4_def opaque_var_def Let_def prod.case
    by (rule reads_inline [OF 4(1)], simp, rule reads_inline [OF 4(1)], simp, rule reads_inline [OF 4(1)], simp,
        rule reads_inline1 [OF 4(1)]) (use 4(2) in \<open>auto simp: w u\<close>)
qed simp_all

text \<open>The steps of \<^verbatim>\<open>decode_getfattr_attrs\<close> with what each reads, returns and stores when the attributes are
  \<open>A\<close>; \<open>fa\<close> and the pointers of \<open>g\<close> are those it is called with.\<close>

definition fattr_specs :: "'r receiver \<Rightarrow> nfs_server \<Rightarrow> getfattr_out \<Rightarrow> fattr4 \<Rightarrow> ('r, getfattr_out) spec_step list" where
  "fattr_specs D server g A =
     [(1, a_type A \<noteq> None, attr_step (decode_attr_type D) (\<lambda>status t g.
          if status < 0 then g
          else let fa = (out_fattr g)\<lparr>fa_mode := 0\<rparr>
               in g\<lparr>out_fattr := if status \<noteq> 0
                                  then set_valid status (fa\<lparr>fa_mode := fa_mode fa OR nfs_type2fmt ! unat t\<rparr>)
                                  else fa\<rparr>),
       case_option [] be32 (a_type A), case_option 0 (\<lambda>_. uint NFS_ATTR_FATTR_TYPE) (a_type A),
       store (\<lambda>fa. fa\<lparr>fa_mode := case_option 0 (\<lambda>t. nfs_type2fmt ! unat t) (a_type A)\<rparr>) (flag NFS_ATTR_FATTR_TYPE (a_type A))),
      (3, a_change A \<noteq> None, fattr_step (decode_attr_change D) (\<lambda>v fa. fa\<lparr>fa_change_attr := v\<rparr>),
       case_option [] be64 (a_change A), case_option 0 (\<lambda>_. uint NFS_ATTR_FATTR_CHANGE) (a_change A),
       store (\<lambda>fa. fa\<lparr>fa_change_attr := case_option 0 id (a_change A)\<rparr>) (flag NFS_ATTR_FATTR_CHANGE (a_change A))),
      (4, a_size A \<noteq> None, fattr_step (decode_attr_size D) (\<lambda>v fa. fa\<lparr>fa_size := v\<rparr>),
       case_option [] be64 (a_size A), case_option 0 (\<lambda>_. uint NFS_ATTR_FATTR_SIZE) (a_size A),
       store (\<lambda>fa. fa\<lparr>fa_size := case_option 0 id (a_size A)\<rparr>) (flag NFS_ATTR_FATTR_SIZE (a_size A))),
      (8, a_fsid A \<noteq> None, fattr_step (decode_attr_fsid D) (\<lambda>v fa. fa\<lparr>fa_fsid := v\<rparr>),
       case_option [] fsid4 (a_fsid A), case_option 0 (\<lambda>_. uint NFS_ATTR_FATTR_FSID) (a_fsid A),
       store (\<lambda>fa. fa\<lparr>fa_fsid := case_option (0, 0) id (a_fsid A)\<rparr>) (flag NFS_ATTR_FATTR_FSID (a_fsid A))),
      (11, False, attr_step (decode_attr_error D 0) (\<lambda>status v g. g), [], 0, \<lambda>g. g),
      (19, False, attr_step (\<lambda>bm. decode_attr_filehandle D (out_fh g) bm) (\<lambda>status v g. g\<lparr>out_fh := v\<rparr>), [], 0,
       \<lambda>h. h\<lparr>out_fh := map_option (\<lambda>_. fh_zero) (out_fh g)\<rparr>),
      (20, a_fileid A \<noteq> None, fattr_step (decode_attr_fileid D) (\<lambda>v fa. fa\<lparr>fa_fileid := v\<rparr>),
       case_option [] be64 (a_fileid A), case_option 0 (\<lambda>_. uint NFS_ATTR_FATTR_FILEID) (a_fileid A),
       store (\<lambda>fa. fa\<lparr>fa_fileid := case_option 0 id (a_fileid A)\<rparr>) (flag NFS_ATTR_FATTR_FILEID (a_fileid A))),
      (24, False, attr_step (\<lambda>bm. decode_attr_fs_locations D (out_fsloc g) bm)
          (\<lambda>status v g. g\<lparr>out_fsloc := v, out_fattr := set_valid status (out_fattr g)\<rparr>), [], 0,
       \<lambda>h. h\<lparr>out_fsloc := out_fsloc g\<rparr>),
      (33, a_mode A \<noteq> None, attr_step (decode_attr_mode D) (\<lambda>status v g.
          if status \<le> 0 then g
          else g\<lparr>out_fattr := set_valid status ((out_fattr g)\<lparr>fa_mode := fa_mode (out_fattr g) OR v\<rparr>)\<rparr>),
       case_option [] be32 (a_mode A), case_option 0 (\<lambda>_. uint NFS_ATTR_FATTR_MODE) (a_mode A),
       store (\<lambda>fa. fa\<lparr>fa_mode := fa_mode fa OR case_option 0 (\<lambda>m. ucast m AND NOT S_IFMT) (a_mode A)\<rparr>)
         (flag NFS_ATTR_FATTR_MODE (a_mode A))),
      (35, a_nlink A \<noteq> None, fattr_step (decode_attr_nlink D) (\<lambda>v fa. fa\<lparr>fa_nlink := v\<rparr>),
       case_option [] be32 (a_nlink A), case_option 0 (\<lambda>_. uint NFS_ATTR_FATTR_NLINK) (a_nlink A),
       store (\<lambda>fa. fa\<lparr>fa_nlink := case_option 1 id (a_nlink A)\<rparr>) (flag NFS_ATTR_FATTR_NLINK (a_nlink A))),
      (36, a_owner A \<noteq> None, fattr_step (decode_attr_owner D server None) (\<lambda>(uid, nm) fa. fa\<lparr>fa_uid := uid, fa_owner_name := nm\<rparr>),
       case_option [] opaque_var (a_owner A),
       case_option 0 (\<lambda>str. if mapped (nfs_map_name_to_uid D server) str = None then 0 else uint NFS_ATTR_FATTR_OWNER) (a_owner A),
       store (\<lambda>fa. fa\<lparr>fa_uid := case_option (- 2) id (uid_of D server A), fa_owner_name := None\<rparr>)
         (flag NFS_ATTR_FATTR_OWNER (uid_of D server A))),
      (37, a_group A \<noteq> None, fattr_step (decode_attr_group D server None) (\<lambda>(gid, nm) fa. fa\<lparr>fa_gid := gid, fa_group_name := nm\<rparr>),
       case_option [] opaque_var (a_group A),
       case_option 0 (\<lambda>str. if mapped (nfs_map_group_to_gid D server) str = None then 0 else uint NFS_ATTR_FATTR_GROUP) (a_group A),
       store (\<lambda>fa. fa\<lparr>fa_gid := case_option (- 2) id (gid_of D server A), fa_group_name := None\<rparr>)
         (flag NFS_ATTR_FATTR_GROUP (gid_of D server A))),
      (41, a_rawdev A \<noteq> None, fattr_step (decode_attr_rdev D) (\<lambda>v fa. fa\<lparr>fa_rdev := v\<rparr>),
       case_option [] specdata4 (a_rawdev A), case_option 0 (\<lambda>_. uint NFS_ATTR_FATTR_RDEV) (a_rawdev A),
       store (\<lambda>fa. fa\<lparr>fa_rdev := case_option 0 (\<lambda>(ma, mi). rdev_of ma mi) (a_rawdev A)\<rparr>) (flag NFS_ATTR_FATTR_RDEV (a_rawdev A))),
      (45, a_space_used A \<noteq> None, fattr_step (decode_attr_space_used D) (\<lambda>v fa. fa\<lparr>fa_used := v\<rparr>),
       case_option [] be64 (a_space_used A), case_option 0 (\<lambda>_. uint NFS_ATTR_FATTR_SPACE_USED) (a_space_used A),
       store (\<lambda>fa. fa\<lparr>fa_used := case_option 0 id (a_space_used A)\<rparr>) (flag NFS_ATTR_FATTR_SPACE_USED (a_space_used A))),
      (47, a_atime A \<noteq> None, fattr_step (decode_attr_time_access D) (\<lambda>v fa. fa\<lparr>fa_atime := v\<rparr>),
       case_option [] time4 (a_atime A), case_option 0 (\<lambda>_. uint NFS_ATTR_FATTR_ATIME) (a_atime A),
       store (\<lambda>fa. fa\<lparr>fa_atime := timespec_of (a_atime A)\<rparr>) (flag NFS_ATTR_FATTR_ATIME (a_atime A))),
      (52, a_ctime A \<noteq> None, fattr_step (decode_attr_time_metadata D) (\<lambda>v fa. fa\<lparr>fa_ctime := v\<rparr>),
       case_option [] time4 (a_ctime A), case_option 0 (\<lambda>_. uint NFS_ATTR_FATTR_CTIME) (a_ctime A),
       store (\<lambda>fa. fa\<lparr>fa_ctime := timespec_of (a_ctime A)\<rparr>) (flag NFS_ATTR_FATTR_CTIME (a_ctime A))),
      (53, a_mtime A \<noteq> None, fattr_step (decode_attr_time_modify D) (\<lambda>v fa. fa\<lparr>fa_mtime := v\<rparr>),
       case_option [] time4 (a_mtime A), case_option 0 (\<lambda>_. uint NFS_ATTR_FATTR_MTIME) (a_mtime A),
       store (\<lambda>fa. fa\<lparr>fa_mtime := timespec_of (a_mtime A)\<rparr>) (flag NFS_ATTR_FATTR_MTIME (a_mtime A))),
      (55, a_mounted_on A \<noteq> None, fattr_step (decode_attr_mounted_on_fileid D) (\<lambda>v fa. fa\<lparr>fa_mounted_on_fileid := v\<rparr>),
       case_option [] be64 (a_mounted_on A), case_option 0 (\<lambda>_. uint NFS_ATTR_FATTR_MOUNTED_ON_FILEID) (a_mounted_on A),
       store (\<lambda>fa. fa\<lparr>fa_mounted_on_fileid := case_option 0 id (a_mounted_on A)\<rparr>)
         (flag NFS_ATTR_FATTR_MOUNTED_ON_FILEID (a_mounted_on A))),
      (68, False, attr_step (decode_attr_mdsthreshold D (fa_mdsthreshold (out_fattr g)))
          (\<lambda>status v g. g\<lparr>out_fattr := (out_fattr g)\<lparr>fa_mdsthreshold := v\<rparr>\<rparr>), [], 0,
       \<lambda>h. h\<lparr>out_fattr := (out_fattr h)\<lparr>fa_mdsthreshold := fa_mdsthreshold (out_fattr g)\<rparr>\<rparr>)] @
     (case out_label g of None \<Rightarrow> []
      | Some old \<Rightarrow>
         [(80, a_label A \<noteq> None, attr_step (decode_attr_security_label D (Some old))
             (\<lambda>status v g. g\<lparr>out_label := v, out_fattr := set_valid status (out_fattr g)\<rparr>),
           case_option [] label4 (a_label A), case_option 0 (\<lambda>_. uint NFS_ATTR_FATTR_V4_SECURITY_LABEL) (a_label A),
           \<lambda>h. store (\<lambda>fa. fa) (flag NFS_ATTR_FATTR_V4_SECURITY_LABEL (a_label A)) (h\<lparr>out_label := label_of (Some old) A\<rparr>))])"

lemma absent_spec:
  assumes "n < 96" and "i = n div 32" and "b = 2 ^ (n mod 32)" and "\<And>bm. d bm = attr_item i b dflt (body bm) bm"
    and "\<And>g. upd 0 dflt g = u g"
  shows "spec_ok D rest (n, False, attr_step d upd, [], 0, u)"
proof -
  have u: "u = upd 0 dflt" using assms(5) by auto
  show ?thesis unfolding spec_ok_def u using absent_step [OF assms(1-4)] by (simp add: sp_defs)
qed

text \<open>The three steps that are not of the common form.\<close>

lemma type_spec:
  assumes "rcv_env D rest" and "pred_option (\<lambda>t. NF4REG \<le> t \<and> t \<le> NF4NAMEDATTR) ow"
  shows "spec_ok D rest (1, ow \<noteq> None, attr_step (decode_attr_type D) (\<lambda>status t g.
          if status < 0 then g
          else let fa = (out_fattr g)\<lparr>fa_mode := 0\<rparr>
               in g\<lparr>out_fattr := if status \<noteq> 0
                                  then set_valid status (fa\<lparr>fa_mode := fa_mode fa OR nfs_type2fmt ! unat t\<rparr>)
                                  else fa\<rparr>),
       case_option [] be32 ow, case_option 0 (\<lambda>_. uint NFS_ATTR_FATTR_TYPE) ow,
       store (\<lambda>fa. fa\<lparr>fa_mode := case_option 0 (\<lambda>t. nfs_type2fmt ! unat t) ow\<rparr>) (flag NFS_ATTR_FATTR_TYPE ow))"
  using assms by (intro type_attr.spec) (cases ow; simp add: store_def flag_def set_valid_def)+

lemma mode_spec:
  assumes "rcv_env D rest"
  shows "spec_ok D rest (33, ow \<noteq> None, attr_step (decode_attr_mode D) (\<lambda>status v g.
          if status \<le> 0 then g
          else g\<lparr>out_fattr := set_valid status ((out_fattr g)\<lparr>fa_mode := fa_mode (out_fattr g) OR v\<rparr>)\<rparr>),
       case_option [] be32 ow, case_option 0 (\<lambda>_. uint NFS_ATTR_FATTR_MODE) ow,
       store (\<lambda>fa. fa\<lparr>fa_mode := fa_mode fa OR case_option 0 (\<lambda>m. ucast m AND NOT S_IFMT) ow\<rparr>) (flag NFS_ATTR_FATTR_MODE ow))"
  using assms by (intro mode_attr.spec) (cases ow; simp add: store_def flag_def set_valid_def)+

lemma label_spec:
  assumes "rcv_env D rest" and "fattr4_ok A"
  shows "spec_ok D rest (80, a_label A \<noteq> None, attr_step (decode_attr_security_label D (Some old))
             (\<lambda>status v g. g\<lparr>out_label := v, out_fattr := set_valid status (out_fattr g)\<rparr>),
           case_option [] label4 (a_label A), case_option 0 (\<lambda>_. uint NFS_ATTR_FATTR_V4_SECURITY_LABEL) (a_label A),
           \<lambda>h. store (\<lambda>fa. fa) (flag NFS_ATTR_FATTR_V4_SECURITY_LABEL (a_label A)) (h\<lparr>out_label := label_of (Some old) A\<rparr>))"
  using assms unfolding fattr4_ok_def
  by (intro label_attr.spec) (auto simp: store_def flag_def set_valid_def label_of_def split: option.splits)

lemma value_id: "case_option x (\<lambda>w. w) ow = case_option x id ow"
  by (cases ow) simp_all

lemma pred_option_True [simp]: "pred_option (\<lambda>_. True) ow"
  by (cases ow) simp_all

lemma fattr_specs_contract:
  assumes env: "rcv_env D rest" and ok: "fattr4_ok A"
  shows "list_all (spec_ok D rest) (fattr_specs D server g A)"
  unfolding fattr_specs_def list_all_append list.pred_inject fsid4_def time4_def specdata4_def
  apply (intro conjI TrueI)
  subgoal using env ok unfolding fattr4_ok_def by (intro type_spec) auto
  subgoal by (rule change_attr.fattr [OF env]) (simp_all add: flag_ret value_id)
  subgoal by (rule size_attr.fattr [OF env]) (simp_all add: flag_ret value_id)
  subgoal by (rule fsid_attr.fattr [OF env]) (simp_all add: flag_ret value_id)
  subgoal by (rule absent_spec [where i = 0 and b = FATTR4_WORD0_RDATTR_ERROR]) (simp_all add: decode_attr_error_def attr_fixed_def)
  subgoal by (rule absent_spec [where i = 0 and b = FATTR4_WORD0_FILEHANDLE]) (simp_all add: decode_attr_filehandle_def Let_def)
  subgoal by (rule fileid_attr.fattr [OF env]) (simp_all add: flag_ret value_id)
  subgoal by (rule absent_spec [where i = 0 and b = FATTR4_WORD0_FS_LOCATIONS]) (simp_all add: decode_attr_fs_locations_def set_valid_def)
  subgoal by (rule mode_spec [OF env])
  subgoal by (rule nlink_attr.fattr [OF env]) (simp_all add: flag_ret value_id)
  subgoal using ok unfolding fattr4_ok_def by (intro owner_attr.fattr [OF env]) (simp_all add: flag_bind uid_of_def case_bind)
  subgoal using ok unfolding fattr4_ok_def by (intro group_attr.fattr [OF env]) (simp_all add: flag_bind gid_of_def case_bind)
  subgoal by (rule rdev_attr.fattr [OF env]) (simp_all add: flag_ret)
  subgoal by (rule space_used_attr.fattr [OF env]) (simp_all add: flag_ret value_id)
  subgoal by (rule atime_attr.fattr [OF env]) (simp_all add: flag_ret timespec_of_def)
  subgoal by (rule ctime_attr.fattr [OF env]) (simp_all add: flag_ret timespec_of_def)
  subgoal by (rule mtime_attr.fattr [OF env]) (simp_all add: flag_ret timespec_of_def)
  subgoal by (rule mounted_on_attr.fattr [OF env]) (simp_all add: flag_ret value_id)
  subgoal by (rule absent_spec [where i = 2 and b = FATTR4_WORD2_MDSTHRESHOLD]) (simp_all add: decode_attr_mdsthreshold_def)
  subgoal by simp
  subgoal by (cases "out_label g") (simp_all add: label_spec [OF env ok, simplified])
  done

lemma fattr_specs_run:
  assumes "fa_owner_name (out_fattr g) = None" and "fa_group_name (out_fattr g) = None"
  shows "decode_getfattr_attrs D server (bm, g) = attr_steps (\<lambda>status. status < 0) (map sp_fun (fattr_specs D server g A)) 0 (bm, g)"
  unfolding decode_getfattr_attrs_def fattr_specs_def
  by (cases "out_label g") (simp_all only: assms sp_fun_def fst_conv snd_conv list.map map_append option.case not_None_eq
      option.simps append_Nil2 if_True if_False simp_thms)

lemma fattr_specs_sorted: "sorted_wrt (<) (map sp_num (fattr_specs D server g A))"
  by (cases "out_label g") (simp_all add: fattr_specs_def sp_num_def)

lemma present_UN: "sp_num ` {x \<in> set xs. sp_present x} = (\<Union>x\<in>set xs. if \<not> sp_present x then {} else {sp_num x})"
  by auto

lemma fattr_specs_present:
  assumes "out_label g = None \<longrightarrow> a_label A = None"
  shows "sp_num ` {x \<in> set (fattr_specs D server g A). sp_present x} = items_present (fattr4_items A)"
  unfolding present_UN items_present_def using assms
  by (cases "out_label g") (simp_all only: fattr_specs_def fattr4_items_def sp_num_def sp_present_def append.simps list.set
      UN_insert UN_empty fst_conv snd_conv prod.case option.case simp_thms if_True if_False Un_empty_left Un_empty_right
      option.map_disc_iff append_Nil2)

lemma sent_bytes_None [simp]: "sent_bytes None = []"
  by (simp add: sent_bytes_def)

lemma sent_bytes_map: "sent_bytes (map_option f ow) = case_option [] f ow"
  by (cases ow) (simp_all add: sent_bytes_def)

lemma fattr_specs_bytes:
  assumes "out_label g = None \<longrightarrow> a_label A = None"
  shows "concat (map sp_bytes (fattr_specs D server g A)) = items_bytes (fattr4_items A)"
  using assms
  by (cases "out_label g") (simp_all add: fattr_specs_def fattr4_items_def items_bytes_def sp_bytes_def sent_bytes_map)

lemma fattr_specs_result:
  assumes "fa_owner_name (out_fattr g) = None" and "fa_group_name (out_fattr g) = None"
    and "out_label g = None \<longrightarrow> a_label A = None"
  shows "fold sp_update (fattr_specs D server g A) g =
    g\<lparr>out_fattr := fattr_of D server A (out_fattr g), out_fh := map_option (\<lambda>_. fh_zero) (out_fh g),
      out_label := label_of (out_label g) A\<rparr>"
  using assms
  by (cases "out_label g") (simp_all add: fattr_specs_def sp_update_def store_def fattr_of_def fattr4_valid_def
      label_of_def flag_def or.assoc)

lemma items_bytes_dvd: "\<forall>(n, b)\<in>set its. pred_option (\<lambda>x. 4 dvd length x) b \<Longrightarrow> 4 dvd length (items_bytes its)"
  unfolding items_bytes_def by (induction its) (auto simp: sent_bytes_def split: option.splits)

lemma fattr4_items_dvd: "4 dvd length (items_bytes (fattr4_items A))"
  by (rule items_bytes_dvd) (auto simp: fattr4_items_def fsid4_def time4_def specdata4_def label4_def opaque_var_def
      option.pred_map comp_def split_beta split: option.splits)

lemma decode_getfattr_attrs_reads:
  assumes "rcv_env D rest" and "fattr4_ok A" and "attrs_of bm = items_present (fattr4_items A)"
    and "fa_owner_name (out_fattr g) = None" and "fa_group_name (out_fattr g) = None"
    and "out_label g = None \<longrightarrow> a_label A = None"
  shows "\<exists>st bm'. 0 \<le> st \<and> reads D rest (decode_getfattr_attrs D server (bm, g)) (items_bytes (fattr4_items A))
    (st, bm', g\<lparr>out_fattr := fattr_of D server A (out_fattr g), out_fh := map_option (\<lambda>_. fh_zero) (out_fh g),
                out_label := label_of (out_label g) A\<rparr>)"
proof -
  let ?xs = "fattr_specs D server g A"
  have ok: "\<forall>x\<in>set ?xs. step_reads D rest x \<and> \<not> sp_status x < 0"
    using fattr_specs_contract [OF assms(1,2), of server g] by (simp add: list_all_iff spec_ok_def not_less)
  have "0 \<le> last (0 # map sp_status ?xs)"
    using ok last_in_set [of "0 # map sp_status ?xs"] by auto
  moreover have "attrs_of bm = sp_num ` {x \<in> set ?xs. sp_present x}"
    using assms(3) fattr_specs_present [OF assms(6), of D server] by simp
  note attr_steps_reads [OF ok fattr_specs_sorted this, of 0 g]
  ultimately show ?thesis
    unfolding fattr_specs_run [OF assms(4,5), of _ _ _ A] fattr_specs_bytes [OF assms(6)] fattr_specs_result [OF assms(4-6)]
    by blast
qed

lemma decode_getfattr_generic_reads:
  assumes env: "rcv_env D rest" and "fattr4_ok A" and "length ws < 2 ^ 30"
    and "attrs_of (bm_of_words ws) = items_present (fattr4_items A)"
    and "fa_owner_name (out_fattr g) = None" and "fa_group_name (out_fattr g) = None"
    and "out_label g = None \<longrightarrow> a_label A = None"
  shows "reads D rest (decode_getfattr_generic D server g) (getattr_bytes ws (fattr4_items A))
    (0, g\<lparr>out_fattr := fattr_of D server A (out_fattr g), out_fh := map_option (\<lambda>_. fh_zero) (out_fh g),
          out_label := label_of (out_label g) A\<rparr>)"
proof -
  let ?g = "g\<lparr>out_fattr := fattr_of D server A (out_fattr g), out_fh := map_option (\<lambda>_. fh_zero) (out_fh g),
            out_label := label_of (out_label g) A\<rparr>"
  obtain st bm' where st: "0 \<le> st"
    and attrs: "reads D rest (decode_getfattr_attrs D server (bm_of_words ws, g)) (items_bytes (fattr4_items A)) (st, bm', ?g)"
    using decode_getfattr_attrs_reads [OF env assms(2,4-7)] by blast
  show ?thesis
    unfolding decode_getfattr_generic_def getattr_bytes_def
    apply (rule reads_dbind [OF decode_op_hdr_ok [OF env]], simp)
    apply (rule reads_dbind [OF decode_attr_bitmap_reads [OF env assms(3)]], simp)
    by (rule reads_attr_body [OF env attrs fattr4_items_dvd, where g = "\<lambda>status. dret (status, ?g)" and
          h = "\<lambda>savep (status, bm', g'). if status < 0 then dret (status, g')
            else dbind (verify_attr_len D savep (of_nat (length (items_bytes (fattr4_items A))))) (\<lambda>status. dret (status, g'))"])
      (use st in simp_all)
qed

end
