(* ===== verification/Xdr_Decode_Chain.thy ===== *)
theory Xdr_Decode_Chain
  imports Xdr_Decode_Attr_Reply
begin

text \<open>
  Replies to the chained lookup. What a server sends for a chain of names (LOOKUP, GETFH and GETATTR per name,
  ending early at the first operation that fails) is decoded into the arrays of
  \<^verbatim>\<open>struct nfs4_chain_lookup_res\<close>: every entry before the failure is filled, nothing after it is touched, and the
  status is the errno of the failing operation.
\<close>

section \<open>Steps that read\<close>

lemma reads_dec_step:
  assumes "reads D rest (f s) b (0, s')" and "reads D rest (dec_steps fs s') b' a"
  shows "reads D rest (dec_steps (f # fs) s) (b @ b') a"
  unfolding dec_steps.simps using assms by (intro reads_dbind [OF assms(1)]) simp

lemma reads_dec_stop:
  assumes "reads D rest (f s) b (st, s')" and "st \<noteq> 0"
  shows "reads D rest (dec_steps (f # fs) s) b (st, s')"
  unfolding dec_steps.simps using assms by (intro reads_then [OF assms(1)]) simp

lemma reads_dec_last:
  assumes "reads D rest (f s) b a"
  shows "reads D rest (dec_steps [f] s) b a"
proof (cases "fst a = 0")
  case True
  then show ?thesis using assms reads_dec_step [of D rest f s b "snd a" "[]" "[]" a]
    by (cases a) (simp add: reads_dret)
next
  case False
  then show ?thesis using assms reads_dec_stop [of D rest f s b "fst a" "snd a" "[]"] by simp
qed

lemma reads_status_step:
  "reads D rest m b st \<Longrightarrow> reads D rest (status_step m s) b (st, s)"
  unfolding status_step_def by (rule reads_then) auto

lemma reads_field_step:
  "reads D rest (d (get s)) b (st, v) \<Longrightarrow> reads D rest (field_step d get put s) b (st, put v s)"
  unfolding field_step_def by (rule reads_then) auto

section \<open>Header and SEQUENCE\<close>

definition compound_res_bytes :: "u32 \<Rightarrow> bytes \<Rightarrow> u32 \<Rightarrow> bytes" where
  "compound_res_bytes status tag n = be32 status @ opaque_var tag @ be32 n"

lemma decode_compound_hdr_reads:
  assumes env: "rcv_env D rest" and len: "length tag + 8 < 2 ^ 32"
  shows "reads D rest (decode_compound_hdr D) (compound_res_bytes status tag n)
    (if n < 1 then nfs4_stat_to_errno (sint status) else 0, Some (sint status), n)"
proof -
  let ?l = "of_nat (length tag) :: u32"
  have l: "unat (?l + 4) = length tag + 4" "unat (?l + 3) = length tag + 3"
    using len unat_of_nat_u32 [of "length tag + 4"] unat_of_nat_u32 [of "length tag + 3"] by simp_all
  have q: "unat (drop_bit 2 (?l + 3)) = XDR_QUADLEN (length tag)"
    unfolding unat_drop_bit_eq l XDR_QUADLEN_def by (simp add: drop_bit_eq_div)
  have "length (opaque_fixed tag @ be32 n) = quad (unat (?l + 4))"
    using quad_add4 [of "length tag"] by (simp add: l add.commute)
  moreover have "4 * XDR_QUADLEN (length tag) = length (opaque_fixed tag)" by (simp add: quad_def)
  ultimately have second: "reads D rest (inline_decode D (unat (?l + 4)) (- EIO, Some (sint status), 0) (\<lambda>q.
      word_at q (unat (drop_bit 2 (?l + 3))) (\<lambda>n. dret (if n < 1 then nfs4_stat_to_errno (sint status) else 0, Some (sint status), n))))
      (opaque_fixed tag @ be32 n) (if n < 1 then nfs4_stat_to_errno (sint status) else 0, Some (sint status), n)"
    by (intro reads_inline1 [OF env]) (simp_all add: q word_at_def)
  have w: "word (be32 status @ be32 ?l) 0 = status" "word (be32 status @ be32 ?l) 1 = ?l" by simp_all
  have "reads D rest (decode_compound_hdr D) ((be32 status @ be32 ?l) @ (opaque_fixed tag @ be32 n))
      (if n < 1 then nfs4_stat_to_errno (sint status) else 0, Some (sint status), n)"
    unfolding decode_compound_hdr_def Let_def
    by (rule reads_inline [OF env], simp, simp only: w, rule second)
  then show ?thesis by (simp add: compound_res_bytes_def opaque_var_def)
qed

lemma hdr_step_reads:
  assumes "rcv_env D rest" and "length tag + 8 < 2 ^ 32" and "1 \<le> n"
  shows "reads D rest (hdr_step D s) (compound_res_bytes status tag n) (0, s)"
  unfolding hdr_step_def using assms(3)
  by (intro reads_status_step reads_then [OF decode_compound_hdr_reads [OF assms(1,2)]]) (auto simp: not_less)

text \<open>The SEQUENCE result of a session's slot; nothing without a session.\<close>

definition sequence_bytes :: "nfs4_sequence_res \<Rightarrow> u32 \<Rightarrow> u32 \<Rightarrow> u32 \<Rightarrow> bytes" where
  "sequence_bytes res hi target flags =
     (case Option.bind (sr_slot res) (\<lambda>slot. map_option (Pair slot) (slot_session slot)) of
        None \<Rightarrow> []
      | Some (slot, session) \<Rightarrow> op_status_bytes OP_SEQUENCE 0 @ take NFS4_MAX_SESSIONID_LEN (sess_id session) @
          be32 (seq_nr slot) @ be32 (slot_nr slot) @ be32 hi @ be32 target @ be32 flags)"

definition sequence_done :: "nfs4_sequence_res \<Rightarrow> u32 \<Rightarrow> u32 \<Rightarrow> u32 \<Rightarrow> nfs4_sequence_res" where
  "sequence_done res hi target flags =
     (case Option.bind (sr_slot res) slot_session of
        None \<Rightarrow> res
      | Some session \<Rightarrow> res\<lparr>sr_highest_slotid := hi, sr_target_highest_slotid := target, sr_status_flags := flags, sr_status := 0\<rparr>)"

definition sequence_res_ok :: "nfs4_sequence_res \<Rightarrow> bool" where
  "sequence_res_ok res \<longleftrightarrow>
     pred_option (\<lambda>slot. pred_option (\<lambda>session. NFS4_MAX_SESSIONID_LEN \<le> length (sess_id session)) (slot_session slot)) (sr_slot res)"

lemma decode_opaque_fixed_reads:
  assumes "rcv_env D rest" and "length b = len" and "4 dvd len"
  shows "reads D rest (decode_opaque_fixed D old len) b (0, b)"
  unfolding decode_opaque_fixed_def using assms by (intro reads_inline1) auto

lemma decode_sequence_reads:
  assumes env: "rcv_env D rest" and "sequence_res_ok res"
  shows "reads D rest (decode_sequence D res) (sequence_bytes res hi target flags) (0, sequence_done res hi target flags)"
proof (cases "Option.bind (sr_slot res) slot_session")
  case None
  then show ?thesis
    by (auto simp: decode_sequence_def sequence_bytes_def sequence_done_def reads_dret Option.bind_eq_None_conv split: option.splits)
next
  case (Some session)
  then obtain slot where slot: "sr_slot res = Some slot" "slot_session slot = Some session"
    by (auto simp: Option.bind_eq_Some_conv)
  let ?id = "take NFS4_MAX_SESSIONID_LEN (sess_id session)"
  have id: "length ?id = NFS4_MAX_SESSIONID_LEN" using assms(2) slot by (simp add: sequence_res_ok_def)
  have sid: "reads D rest (decode_sessionid D []) ?id (0, ?id)"
    unfolding decode_sessionid_def by (rule decode_opaque_fixed_reads [OF env id]) simp
  have nums: "word (be32 a @ be32 b @ be32 c @ be32 d @ be32 e) 2 = c" "word (be32 a @ be32 b @ be32 c @ be32 d @ be32 e) 3 = d"
      "word (be32 a @ be32 b @ be32 c @ be32 d @ be32 e) 4 = e" "word (be32 a @ be32 b @ be32 c @ be32 d @ be32 e) 1 = b"
    for a b c d e by (simp_all add: word_def)
  show ?thesis
    unfolding decode_sequence_def sequence_bytes_def sequence_done_def
    apply (simp add: slot Let_def del: dret_simp)
    apply (rule reads_dbind [OF decode_op_hdr_ok [OF env]], simp del: dret_simp)
    apply (rule reads_dbind [OF sid], simp del: dret_simp)
    by (rule reads_inline1 [OF env]) (simp_all add: nums del: dret_simp)
qed

section \<open>File handles\<close>

definition getfh_bytes :: "bytes \<Rightarrow> bytes" where
  "getfh_bytes b = op_status_bytes OP_GETFH 0 @ opaque_var b"

definition fh_of :: "bytes \<Rightarrow> nfs_fh" where
  "fh_of b = \<lparr>fh_size = of_nat (length b), fh_data = b @ replicate (NFS4_FHSIZE - length b) 0\<rparr>"

lemma decode_getfh_reads:
  assumes env: "rcv_env D rest" and b: "length b \<le> NFS4_FHSIZE"
  shows "reads D rest (decode_getfh D) (getfh_bytes b) (0, fh_of b)"
proof -
  let ?l = "of_nat (length b) :: u32"
  have u: "unat ?l = length b" using b by (intro unat_of_nat_u32) simp
  have c: "(ucast ?l :: u16) = of_nat (length b)" using b by (simp add: unsigned_of_nat take_bit_nat_eq_self)
  have le: "\<not> of_nat NFS4_FHSIZE < ?l" using b by (simp add: word_less_nat_alt u)
  have "reads D rest (inline_decode D (unat ?l) (- EIO, fh_zero\<lparr>fh_size := ucast ?l\<rparr>) (\<lambda>q.
      dret (0, \<lparr>fh_size = ucast ?l, fh_data = copy_over (fh_data fh_zero) (take (unat ?l) q)\<rparr>)))
      (opaque_fixed b) (0, fh_of b)"
    by (intro reads_inline1 [OF env]) (simp_all add: u c fh_of_def fh_zero_def copy_over_def)
  then show ?thesis
    unfolding decode_getfh_def getfh_bytes_def opaque_var_def on_ok_def Let_def
    by (intro reads_dbind [OF decode_op_hdr_ok [OF env]], simp, intro reads_inline [OF env], simp, simp add: le [simplified])
qed

lemma decode_getfh_error:
  assumes "rcv_env D rest" and "e \<noteq> 0" and "nfs4_stat_to_errno (sint e) \<noteq> 0"
  shows "reads D rest (decode_getfh D) (op_status_bytes OP_GETFH e) (nfs4_stat_to_errno (sint e), fh_zero)"
  unfolding decode_getfh_def on_ok_def using assms(2,3)
  by (intro reads_then [OF decode_op_hdr_reads [OF assms(1)]]) simp

section \<open>Chains\<close>

text \<open>A looked-up name: its file handle, the words of its bitmap and its attributes.\<close>

type_synonym chain_entry = "bytes \<times> u32 list \<times> fattr4"

definition entry_bytes :: "chain_entry \<Rightarrow> bytes" where
  "entry_bytes = (\<lambda>(fh, ws, A). op_status_bytes OP_LOOKUP 0 @ getfh_bytes fh @ getattr_bytes ws (fattr4_items A))"

definition entry_ok :: "chain_entry \<Rightarrow> bool" where
  "entry_ok = (\<lambda>(fh, ws, A). length fh \<le> NFS4_FHSIZE \<and> fattr4_ok A \<and> length ws < 2 ^ 30 \<and>
     attrs_of (bm_of_words ws) = items_present (fattr4_items A))"

text \<open>Where the server stops: which operation of a name failed, and with which status.\<close>

datatype chain_stop = No_Stop | Stop_Lookup u32 | Stop_Getfh u32 | Stop_Getattr bytes u32

fun stop_bytes :: "chain_stop \<Rightarrow> bytes" where
  "stop_bytes No_Stop = []"
| "stop_bytes (Stop_Lookup e) = op_status_bytes OP_LOOKUP e"
| "stop_bytes (Stop_Getfh e) = op_status_bytes OP_LOOKUP 0 @ op_status_bytes OP_GETFH e"
| "stop_bytes (Stop_Getattr fh e) = op_status_bytes OP_LOOKUP 0 @ getfh_bytes fh @ op_status_bytes OP_GETATTR e"

fun stop_ok :: "chain_stop \<Rightarrow> bool" where
  "stop_ok No_Stop = True"
| "stop_ok (Stop_Lookup e) = (e \<noteq> 0)"
| "stop_ok (Stop_Getfh e) = (e \<noteq> 0)"
| "stop_ok (Stop_Getattr fh e) = (e \<noteq> 0 \<and> length fh \<le> NFS4_FHSIZE)"

fun stop_status :: "chain_stop \<Rightarrow> int" where
  "stop_status No_Stop = 0"
| "stop_status (Stop_Lookup e) = nfs4_stat_to_errno (sint e)"
| "stop_status (Stop_Getfh e) = nfs4_stat_to_errno (sint e)"
| "stop_status (Stop_Getattr fh e) = nfs4_stat_to_errno (sint e)"

fun stop_put :: "nat \<Rightarrow> chain_stop \<Rightarrow> nfs4_chain_lookup_res \<Rightarrow> nfs4_chain_lookup_res" where
  "stop_put i No_Stop res = res"
| "stop_put i (Stop_Lookup e) res = res"
| "stop_put i (Stop_Getfh e) res = res\<lparr>chr_fhandles := (chr_fhandles res)[i := fh_zero]\<rparr>"
| "stop_put i (Stop_Getattr fh e) res = res\<lparr>chr_fhandles := (chr_fhandles res)[i := fh_of fh]\<rparr>"

definition put_entry :: "'r receiver \<Rightarrow> nat \<Rightarrow> chain_entry \<Rightarrow> nfs4_chain_lookup_res \<Rightarrow> nfs4_chain_lookup_res" where
  "put_entry D i = (\<lambda>(fh, ws, A) res. res\<lparr>
     chr_fhandles := (chr_fhandles res)[i := fh_of fh],
     chr_fattrs := (chr_fattrs res)[i := fattr_of D (chr_server res) A (chr_fattrs res ! i)],
     chr_labels := (chr_labels res)[i := label_of (chr_labels res ! i) A]\<rparr>)"

fun put_entries :: "'r receiver \<Rightarrow> nat \<Rightarrow> chain_entry list \<Rightarrow> nfs4_chain_lookup_res \<Rightarrow> nfs4_chain_lookup_res" where
  "put_entries D i [] res = res"
| "put_entries D i (e # es) res = put_entries D (i + 1) es (put_entry D i e res)"

text \<open>Arrays as \<^verbatim>\<open>nfs_allocate_handles\<close> makes them: long enough, and attributes without name buffers. Names are
  sent with a label only where the client has room for one.\<close>

definition arrays_ok :: "nat \<Rightarrow> nfs4_chain_lookup_res \<Rightarrow> bool" where
  "arrays_ok n res \<longleftrightarrow> n \<le> length (chr_fhandles res) \<and> n \<le> length (chr_fattrs res) \<and> n \<le> length (chr_labels res) \<and>
     (\<forall>fa\<in>set (chr_fattrs res). fa_owner_name fa = None \<and> fa_group_name fa = None)"

definition labels_fit :: "nat \<Rightarrow> chain_entry list \<Rightarrow> nfs4_chain_lookup_res \<Rightarrow> bool" where
  "labels_fit i es res \<longleftrightarrow>
     (\<forall>j<length es. chr_labels res ! (i + j) = None \<longrightarrow> a_label (snd (snd (es ! j))) = None)"

lemma arrays_ok_put: "i < n \<Longrightarrow> arrays_ok n res \<Longrightarrow> arrays_ok n (put_entry D i e res)"
  by (auto simp: arrays_ok_def put_entry_def fattr_of_def split: prod.splits dest!: set_update_subset_insert [THEN subsetD])

lemma labels_fit_put:
  assumes "labels_fit i (e # es) res"
  shows "labels_fit (i + 1) es (put_entry D i e res)"
  unfolding labels_fit_def
proof (intro allI impI)
  fix j assume "j < length es" and "chr_labels (put_entry D i e res) ! (i + 1 + j) = None"
  with assms show "a_label (snd (snd (es ! j))) = None"
    unfolding labels_fit_def put_entry_def by (auto split: prod.splits dest!: spec [of _ "Suc j"])
qed

lemma chain_attr_step_reads:
  assumes env: "rcv_env D rest" and "i < n" and "arrays_ok n res" and "entry_ok (fh, ws, A)"
    and "chr_labels res ! i = None \<longrightarrow> a_label A = None"
  shows "reads D rest (chain_attr_step D i res) (getattr_bytes ws (fattr4_items A))
    (0, res\<lparr>chr_fattrs := (chr_fattrs res)[i := fattr_of D (chr_server res) A (chr_fattrs res ! i)],
            chr_labels := (chr_labels res)[i := label_of (chr_labels res ! i) A]\<rparr>)"
proof -
  let ?g = "\<lparr>out_fattr = chr_fattrs res ! i, out_fh = None, out_fsloc = None, out_label = chr_labels res ! i\<rparr>"
  have "chr_fattrs res ! i \<in> set (chr_fattrs res)" using assms(2,3) by (simp add: arrays_ok_def)
  then have names: "fa_owner_name (out_fattr ?g) = None" "fa_group_name (out_fattr ?g) = None"
    using assms(3) by (auto simp: arrays_ok_def)
  have "reads D rest (decode_getfattr_generic D (chr_server res) ?g) (getattr_bytes ws (fattr4_items A))
      (0, ?g\<lparr>out_fattr := fattr_of D (chr_server res) A (out_fattr ?g), out_fh := map_option (\<lambda>_. fh_zero) (out_fh ?g),
             out_label := label_of (out_label ?g) A\<rparr>)"
    using assms(4,5) names by (intro decode_getfattr_generic_reads [OF env]) (simp_all add: entry_ok_def)
  then have "reads D rest (decode_getfattr_label D (chr_server res) (chr_fattrs res ! i) (chr_labels res ! i))
      (getattr_bytes ws (fattr4_items A))
      (0, fattr_of D (chr_server res) A (chr_fattrs res ! i), label_of (chr_labels res ! i) A)"
    unfolding decode_getfattr_label_def by (rule reads_then) simp
  then show ?thesis
    unfolding chain_attr_step_def using assms(2,3) by (auto simp: arrays_ok_def intro: reads_then)
qed

lemma chain_fh_step_reads:
  assumes "i < n" and "arrays_ok n res" and "reads D rest (decode_getfh D) b (st, fh)"
  shows "reads D rest (chain_fh_step D i res) b (st, res\<lparr>chr_fhandles := (chr_fhandles res)[i := fh]\<rparr>)"
  unfolding chain_fh_step_def using assms by (auto simp: arrays_ok_def intro: reads_then)

lemma lookup_reads:
  "rcv_env D rest \<Longrightarrow> reads D rest (status_step (decode_lookup D) s) (op_status_bytes OP_LOOKUP 0) (0, s)"
  unfolding decode_lookup_def by (intro reads_status_step decode_op_hdr_ok)

lemma errno_nonzero: "(e :: u32) \<noteq> 0 \<Longrightarrow> nfs4_stat_to_errno (sint e) \<noteq> 0"
  by (simp add: nfs4_stat_to_errno_zero_iff sint_0_iff)

text \<open>The GETATTR that fails.\<close>

lemma chain_attr_step_error:
  assumes "rcv_env D rest" and "i < n" and "arrays_ok n res" and "e \<noteq> 0"
  shows "reads D rest (chain_attr_step D i res) (op_status_bytes OP_GETATTR e) (nfs4_stat_to_errno (sint e), res)"
proof -
  have neg: "nfs4_stat_to_errno (sint e) < 0"
    using assms(4) by (intro nfs4_stat_to_errno_neg) (simp add: sint_0_iff)
  have "reads D rest (decode_getfattr_generic D (chr_server res) g) (op_status_bytes OP_GETATTR e)
      (nfs4_stat_to_errno (sint e), g)" for g
    unfolding decode_getfattr_generic_def using assms(4) neg
    by (intro reads_then [OF decode_op_hdr_reads [OF assms(1)]]) simp
  then have "reads D rest (decode_getfattr_label D (chr_server res) (chr_fattrs res ! i) (chr_labels res ! i))
      (op_status_bytes OP_GETATTR e) (nfs4_stat_to_errno (sint e), chr_fattrs res ! i, chr_labels res ! i)"
    unfolding decode_getfattr_label_def by (rule reads_then) simp
  then show ?thesis
    unfolding chain_attr_step_def using assms(2,3) by (auto simp: arrays_ok_def intro!: reads_then)
qed

lemma chain_stop_reads:
  assumes env: "rcv_env D rest" and i: "i < m" "arrays_ok m res" and "stop_ok stop" and "stop \<noteq> No_Stop"
  shows "reads D rest (chain_loop D (Suc n) i res) (stop_bytes stop) (stop_status stop, stop_put i stop res)"
proof (cases stop)
  case (Stop_Lookup e)
  with assms(4) have e: "e \<noteq> 0" by simp
  have "reads D rest (status_step (decode_lookup D) res) (op_status_bytes OP_LOOKUP e) (nfs4_stat_to_errno (sint e), res)"
    unfolding decode_lookup_def using decode_op_hdr_reads [OF env, of OP_LOOKUP e] e by (intro reads_status_step) simp
  then show ?thesis unfolding chain_loop.simps Stop_Lookup stop_bytes.simps stop_status.simps stop_put.simps
    by (intro reads_dec_stop errno_nonzero [OF e])
next
  case (Stop_Getfh e)
  with assms(4) have e: "e \<noteq> 0" by simp
  show ?thesis unfolding chain_loop.simps Stop_Getfh stop_bytes.simps stop_status.simps stop_put.simps
    by (rule reads_dec_step, rule lookup_reads [OF env], rule reads_dec_stop,
        rule chain_fh_step_reads [OF i decode_getfh_error [OF env e errno_nonzero [OF e]]], rule errno_nonzero [OF e])
next
  case (Stop_Getattr fh e)
  with assms(4) have e: "e \<noteq> 0" and fh: "length fh \<le> NFS4_FHSIZE" by auto
  have "arrays_ok m (res\<lparr>chr_fhandles := (chr_fhandles res)[i := fh_of fh]\<rparr>)" using i(2) by (simp add: arrays_ok_def)
  note step = chain_attr_step_error [OF env i(1) this e]
  show ?thesis unfolding chain_loop.simps Stop_Getattr stop_bytes.simps stop_status.simps stop_put.simps
    by (rule reads_dec_step, rule lookup_reads [OF env], rule reads_dec_step,
        rule chain_fh_step_reads [OF i decode_getfh_reads [OF env fh]], rule reads_dec_stop, rule step, rule errno_nonzero [OF e])
qed (use assms(5) in simp)

text \<open>The loop over the whole chain, complete (\<open>No_Stop\<close>) or cut short.\<close>

lemma chain_loop_reads:
  assumes env: "rcv_env D rest"
  shows "\<forall>e\<in>set es. entry_ok e \<Longrightarrow> stop_ok stop \<Longrightarrow> arrays_ok (i + n) res \<Longrightarrow> labels_fit i es res \<Longrightarrow>
    (if stop = No_Stop then n = length es else length es < n) \<Longrightarrow>
    reads D rest (chain_loop D n i res) (concat (map entry_bytes es) @ stop_bytes stop)
      (stop_status stop, stop_put (i + length es) stop (put_entries D i es res))"
proof (induction es arbitrary: i n res)
  case Nil
  show ?case
  proof (cases "stop = No_Stop")
    case True
    with Nil.prems(5) show ?thesis by simp
  next
    case False
    with Nil.prems(5) obtain m where "n = Suc m" by (auto simp: gr0_conv_Suc)
    with chain_stop_reads [OF env, of i "i + n" res stop m] Nil.prems False show ?thesis
      by (simp del: chain_loop.simps)
  qed
next
  case (Cons e es)
  obtain fh ws A where e: "e = (fh, ws, A)" by (cases e)
  obtain m where n: "n = Suc m" using Cons.prems(5) by (cases n) (auto split: if_splits)
  let ?r1 = "res\<lparr>chr_fhandles := (chr_fhandles res)[i := fh_of fh]\<rparr>"
  have i: "i < i + n" by (simp add: n)
  have r1: "arrays_ok (i + n) ?r1" using Cons.prems(3) by (simp add: arrays_ok_def)
  have eok: "entry_ok (fh, ws, A)" and fh: "length fh \<le> NFS4_FHSIZE"
    using Cons.prems(1) by (auto simp: e entry_ok_def)
  have lab: "chr_labels ?r1 ! i = None \<longrightarrow> a_label A = None"
    using Cons.prems(4) by (auto simp: labels_fit_def e dest: spec [of _ 0])
  have put: "put_entry D i e res = ?r1\<lparr>chr_fattrs := (chr_fattrs ?r1)[i := fattr_of D (chr_server ?r1) A (chr_fattrs ?r1 ! i)],
      chr_labels := (chr_labels ?r1)[i := label_of (chr_labels ?r1 ! i) A]\<rparr>"
    by (simp add: put_entry_def e)
  have "reads D rest (chain_loop D m (i + 1) (put_entry D i e res)) (concat (map entry_bytes es) @ stop_bytes stop)
      (stop_status stop, stop_put (i + 1 + length es) stop (put_entries D (i + 1) es (put_entry D i e res)))"
    using Cons.prems arrays_ok_put [OF i Cons.prems(3), of D e] labels_fit_put [OF Cons.prems(4), of D]
    by (intro Cons.IH) (auto simp: n split: if_splits)
  then have tail: "reads D rest (dec_steps [chain_loop D m (i + 1)] (put_entry D i e res))
      (concat (map entry_bytes es) @ stop_bytes stop)
      (stop_status stop, stop_put (i + length (e # es)) stop (put_entries D i (e # es) res))"
    by (intro reads_dec_last) simp
  have "reads D rest (chain_loop D (Suc m) i res)
      (op_status_bytes OP_LOOKUP 0 @ getfh_bytes fh @ getattr_bytes ws (fattr4_items A) @ concat (map entry_bytes es) @ stop_bytes stop)
      (stop_status stop, stop_put (i + length (e # es)) stop (put_entries D i (e # es) res))"
    unfolding chain_loop.simps
    by (rule reads_dec_step, rule lookup_reads [OF env], rule reads_dec_step,
        rule chain_fh_step_reads [OF i Cons.prems(3) decode_getfh_reads [OF env fh]], rule reads_dec_step,
        rule chain_attr_step_reads [OF env i r1 eok lab, folded put], rule tail)
  then show ?case by (simp add: n e entry_bytes_def del: chain_loop.simps)
qed

section \<open>What the arrays hold\<close>

lemma put_entries_frame [simp]:
  "length (chr_fhandles (put_entries D i es res)) = length (chr_fhandles res)"
  "length (chr_fattrs (put_entries D i es res)) = length (chr_fattrs res)"
  "length (chr_labels (put_entries D i es res)) = length (chr_labels res)"
  "chr_server (put_entries D i es res) = chr_server res"
  "chr_size (put_entries D i es res) = chr_size res"
  by (induction es arbitrary: i res) (auto simp: put_entry_def split: prod.splits)

lemma put_entries_other:
  assumes "k < i \<or> i + length es \<le> k"
  shows "chr_fhandles (put_entries D i es res) ! k = chr_fhandles res ! k"
    "chr_fattrs (put_entries D i es res) ! k = chr_fattrs res ! k"
    "chr_labels (put_entries D i es res) ! k = chr_labels res ! k"
  using assms by (induction es arbitrary: i res) (auto simp: put_entry_def split: prod.splits)

definition filled :: "'r receiver \<Rightarrow> chain_entry list \<Rightarrow> nfs4_chain_lookup_res \<Rightarrow> nfs4_chain_lookup_res \<Rightarrow> nat \<Rightarrow> bool" where
  "filled D es old res j \<longleftrightarrow> (case es ! j of (fh, ws, A) \<Rightarrow>
     chr_fhandles res ! j = fh_of fh \<and> chr_fattrs res ! j = fattr_of D (chr_server old) A (chr_fattrs old ! j) \<and>
     chr_labels res ! j = label_of (chr_labels old ! j) A)"

lemma put_entries_nth:
  assumes "arrays_ok (i + length es) res" and "j < length es"
  shows "case es ! j of (fh, ws, A) \<Rightarrow> chr_fhandles (put_entries D i es res) ! (i + j) = fh_of fh \<and>
     chr_fattrs (put_entries D i es res) ! (i + j) = fattr_of D (chr_server res) A (chr_fattrs res ! (i + j)) \<and>
     chr_labels (put_entries D i es res) ! (i + j) = label_of (chr_labels res ! (i + j)) A"
  using assms
proof (induction es arbitrary: i j res)
  case (Cons e es)
  have ok: "arrays_ok (i + 1 + length es) (put_entry D i e res)"
    using arrays_ok_put [of i _ res D e] Cons.prems(1) by simp
  show ?case
  proof (cases j)
    case 0
    with Cons.prems(1) show ?thesis
      by (auto simp: put_entries_other put_entry_def arrays_ok_def split: prod.splits)
  next
    case (Suc k)
    with Cons.IH [OF ok, of k] Cons.prems(2) show ?thesis
      by (auto simp: put_entry_def split: prod.splits)
  qed
qed simp

lemma stop_put_other:
  "chr_fattrs (stop_put i stop res) = chr_fattrs res" "chr_labels (stop_put i stop res) = chr_labels res"
  "k \<noteq> i \<Longrightarrow> chr_fhandles (stop_put i stop res) ! k = chr_fhandles res ! k"
  by (cases stop; simp)+

section \<open>The procedure\<close>

text \<open>The whole reply: header, SEQUENCE in a session, PUTFH, and the chain.\<close>

definition chain_reply_bytes ::
  "nfs4_sequence_res \<Rightarrow> u32 \<times> bytes \<times> u32 \<Rightarrow> u32 \<times> u32 \<times> u32 \<Rightarrow> chain_entry list \<Rightarrow> chain_stop \<Rightarrow> bytes" where
  "chain_reply_bytes sres = (\<lambda>(status, tag, n) (hi, target, flags) es stop.
     compound_res_bytes status tag n @ sequence_bytes sres hi target flags @ op_status_bytes OP_PUTFH 0 @
     concat (map entry_bytes es) @ stop_bytes stop)"

definition chain_reply_ok ::
  "nfs4_sequence_res \<Rightarrow> nfs4_chain_lookup_res \<Rightarrow> u32 \<times> bytes \<times> u32 \<Rightarrow> chain_entry list \<Rightarrow> chain_stop \<Rightarrow> bool" where
  "chain_reply_ok sres res = (\<lambda>(status, tag, n) es stop.
     sequence_res_ok sres \<and> length tag + 8 < 2 ^ 32 \<and> 1 \<le> n \<and> 0 \<le> chr_size res \<and> arrays_ok (nat (chr_size res)) res \<and>
     (\<forall>e\<in>set es. entry_ok e) \<and> labels_fit 0 es res \<and> stop_ok stop \<and>
     (if stop = No_Stop then int (length es) = chr_size res else int (length es) < chr_size res))"

lemma nfs4_xdr_dec_chain_lookup_reads:
  assumes env: "rcv_env D rest" and "chain_reply_ok sres res (status, tag, n) es stop"
  shows "reads D rest (nfs4_xdr_dec_chain_lookup D (sres, res)) (chain_reply_bytes sres (status, tag, n) (hi, target, flags) es stop)
    (stop_status stop, sequence_done sres hi target flags, stop_put (length es) stop (put_entries D 0 es res))"
proof -
  note ok = assms(2) [unfolded chain_reply_ok_def prod.case]
  have tag: "length tag + 8 < 2 ^ 32" and n: "1 \<le> n" and sres: "sequence_res_ok sres" using ok by auto
  let ?s = "sequence_done sres hi target flags"
  have seq: "reads D rest (seq_step D (sres, res)) (sequence_bytes sres hi target flags) (0, ?s, res)"
    using reads_field_step [where get = fst and put = "\<lambda>v s. (v, snd s)" and s = "(sres, res)", OF decode_sequence_reads [OF env]] sres
    unfolding seq_step_def by simp
  have putfh: "reads D rest (putfh_step D (?s, res)) (op_status_bytes OP_PUTFH 0) (0, ?s, res)"
    unfolding putfh_step_def decode_putfh_def by (intro reads_status_step decode_op_hdr_ok env)
  have "reads D rest (chain_loop D (nat (chr_size res)) 0 res) (concat (map entry_bytes es) @ stop_bytes stop)
      (stop_status stop, stop_put (0 + length es) stop (put_entries D 0 es res))"
    using ok by (intro chain_loop_reads [OF env]) (auto split: if_splits)
  then have loop: "reads D rest (body_step (\<lambda>res. chain_loop D (nat (chr_size res)) 0 res) (?s, res))
      (concat (map entry_bytes es) @ stop_bytes stop) (stop_status stop, ?s, stop_put (length es) stop (put_entries D 0 es res))"
    unfolding body_step_def field_step_def by (intro reads_then) auto
  show ?thesis
    unfolding nfs4_xdr_dec_chain_lookup_def chain_reply_bytes_def prod.case
    by (rule reads_dec_step, rule hdr_step_reads [OF env tag n], rule reads_dec_step, rule seq,
        rule reads_dec_step, rule putfh, rule reads_dec_last, rule loop)
qed

end
