(* ===== verification/Xdr_Decode_Sample.thy ===== *)
theory Xdr_Decode_Sample
  imports Xdr_Decode_Chain
begin

text \<open>
  A concrete receive side that satisfies \<open>rcv_env\<close> (the stream is the list of bytes left and the position) and
  sample replies: the laws the decoders rely on can hold, and the theorems apply to actual replies.
\<close>

type_synonym sample_stream = "bytes \<times> u32"

definition sample_rest :: "sample_stream \<Rightarrow> bytes" where
  "sample_rest r = (if length (fst r) < 2 ^ 32 then fst r else [])"

definition sample_receiver :: "sample_stream receiver" where
  "sample_receiver =
     \<lparr>xdr_inline_decode = (\<lambda>r n. if quad n \<le> length (sample_rest r)
         then Some (take (quad n) (sample_rest r), (drop (quad n) (sample_rest r), snd r + of_nat (quad n))) else None),
      xdr_stream_pos = snd,
      xdr_decode_hyper = be64_of,
      xdr_read_pages = (\<lambda>r n. (n, r)),
      nfs_map_name_to_uid = (\<lambda>sv b. if b = [0x72] then Some 0 else None),
      nfs_map_group_to_gid = (\<lambda>sv b. None),
      kmemdup = Some,
      rcv_page_len = (\<lambda>r. 0), rcv_head_len = (\<lambda>r. 0), rcv_nwords = (\<lambda>r. 0),
      xdr_enter_page = (\<lambda>r n. r), xdr_terminate_string = (\<lambda>r n. r), xdr_set_scratch_buffer = (\<lambda>r. r)\<rparr>"

lemma sample_receiver_env: "rcv_env sample_receiver sample_rest"
  unfolding rcv_env_def
proof (intro conjI allI impI)
  fix r :: sample_stream and n
  show "if quad n \<le> length (sample_rest r)
      then \<exists>t. xdr_inline_decode sample_receiver r n = Some (take (quad n) (sample_rest r), t) \<and>
             sample_rest t = drop (quad n) (sample_rest r) \<and>
             xdr_stream_pos sample_receiver t = xdr_stream_pos sample_receiver r + of_nat (quad n)
      else xdr_inline_decode sample_receiver r n = None"
    by (auto simp: sample_receiver_def) (auto simp: sample_rest_def split: if_splits)
qed (auto simp: sample_receiver_def sample_rest_def)

definition sample_attrs :: fattr4 where
  "sample_attrs = \<lparr>a_type = Some 2, a_change = None, a_size = Some 4096, a_fsid = None, a_fileid = Some 17, a_mode = Some 493,
     a_nlink = None, a_owner = Some [0x72], a_group = None, a_rawdev = None, a_space_used = None, a_atime = None,
     a_ctime = None, a_mtime = None, a_mounted_on = None, a_label = None\<rparr>"

lemma attrs_of_code [code]: "attrs_of bm = set (filter (\<lambda>n. bit (bm_word (n div 32) bm) (n mod 32)) [0..<96])"
  by (auto simp: attrs_of_def)

definition sample_words :: "u32 list" where
  "sample_words = [0x100012, 0x12]"

lemma sample_attrs_bitmap: "attrs_of (bm_of_words sample_words) = items_present (fattr4_items sample_attrs)"
  by code_simp

definition sample_entry :: chain_entry where
  "sample_entry = ([1, 2, 3, 4], sample_words, sample_attrs)"

lemma sample_entry_ok: "entry_ok sample_entry"
  unfolding entry_ok_def sample_entry_def prod.case using sample_attrs_bitmap
  by (simp add: sample_attrs_def fattr4_ok_def sample_words_def)

definition empty_fattr :: nfs_fattr where
  "empty_fattr = \<lparr>fa_valid = 0, fa_mode = 0, fa_nlink = 0, fa_uid = 0, fa_gid = 0, fa_rdev = 0, fa_size = 0, fa_blocks = 0, fa_used = 0,
     fa_fsid = (0, 0), fa_fileid = 0, fa_mounted_on_fileid = 0, fa_atime = zero_time, fa_mtime = zero_time,
     fa_ctime = zero_time, fa_change_attr = 0, fa_pre_change_attr = 0, fa_pre_size = 0,
     fa_pre_mtime = zero_time, fa_pre_ctime = zero_time, fa_time_start = 0, fa_gencount = 0, fa_owner_name = None, fa_group_name = None, fa_mdsthreshold = None\<rparr>"

definition sample_server :: nfs_server where
  "sample_server = \<lparr>s_dev = 1, attr_bitmask = (0, 0, 0), attr_bitmask_nl = (0, 0, 0)\<rparr>"

definition sample_chain_res :: nfs4_chain_lookup_res where
  "sample_chain_res = \<lparr>chr_server = sample_server, chr_fattrs = [empty_fattr, empty_fattr], chr_size = 2,
     chr_fhandles = [fh_zero, fh_zero], chr_labels = [None, None]\<rparr>"

definition sample_seq_res :: nfs4_sequence_res where
  "sample_seq_res = \<lparr>sr_slot = Some \<lparr>slot_session = Some \<lparr>sess_id = replicate 16 1, sess_minor_version = 1\<rparr>,
       highest_used_slotid = 0, seq_nr = 7, slot_nr = 0\<rparr>,
     sr_highest_slotid = 0, sr_target_highest_slotid = 0, sr_status_flags = 0, sr_status = 1\<rparr>"

lemma sample_reply_ok:
  "chain_reply_ok sample_seq_res sample_chain_res (2, [], 5) [sample_entry] (Stop_Lookup 2)"
  "chain_reply_ok sample_seq_res sample_chain_res (0, [], 8) [sample_entry, sample_entry] No_Stop"
  using sample_entry_ok
  by (simp_all add: chain_reply_ok_def sequence_res_ok_def sample_seq_res_def sample_chain_res_def arrays_ok_def empty_fattr_def
      labels_fit_def sample_entry_def sample_attrs_def All_less_Suc)

text \<open>The bytes of a reply whose first name is found and whose second does not exist.\<close>

definition sample_reply :: bytes where
  "sample_reply = chain_reply_bytes sample_seq_res (2, [], 5) (0, 0, 0) [sample_entry] (Stop_Lookup 2)"

lemma sample_reply_stream: "sample_rest (sample_reply, 0) = sample_reply @ []"
proof -
  have "length sample_reply < 1000" by code_simp
  then show ?thesis by (simp add: sample_rest_def)
qed

end
