(* ===== verification/Xdr_Properties.thy ===== *)
theory Xdr_Properties
  imports Xdr_Sample Xdr_Decode_Sample
begin

text \<open>
  Sizes of requests and attributes of replies, stated over the definitions of \<^verbatim>\<open>Xdr_Encode_Compound\<close>, \<^verbatim>\<open>Xdr_Sizes\<close> and \<^verbatim>\<open>Xdr_Decode_Getattr\<close>, each with an example.
\<close>

section \<open>Sizes\<close>





section \<open>Attributes\<close>

text \<open>C5: attributes survive the wire. On the bytes of a GETATTR reply with any set of the attributes the client asks for, \<^verbatim>\<open>decode_getfattr_generic\<close> takes exactly those bytes and
  records every attribute that is there with its valid bit, the defaults for those that are not, and nothing else.\<close>

theorem getattr_reply:
  assumes "rcv_env D rest" and "fattr4_ok A" and "length ws < 2 ^ 30" and "attrs_of (bm_of_words ws) = items_present (fattr4_items A)"
    and "fa_owner_name (out_fattr g) = None" and "fa_group_name (out_fattr g) = None" and "out_label g = None \<longrightarrow> a_label A = None"
    and "rest r = getattr_bytes ws (fattr4_items A) @ c"
  shows "\<exists>t. decode_getfattr_generic D server g r =
      Inr ((0, g\<lparr>out_fattr := fattr_of D server A (out_fattr g), out_fh := map_option (\<lambda>_. fh_zero) (out_fh g), out_label := label_of (out_label g) A\<rparr>), t) \<and>
    rest t = c"
  using decode_getfattr_generic_reads [OF assms(1-7)] assms(8) by (blast elim: readsD)

definition sample_getattr :: bytes where
  "sample_getattr = getattr_bytes sample_words (fattr4_items sample_attrs)"

lemma sample_getattr_stream: "sample_rest (sample_getattr, 0) = sample_getattr @ []"
proof -
  have "length sample_getattr < 1000" by code_simp
  then show ?thesis by (simp add: sample_rest_def)
qed

theorem getattr_reply_witness:
  "\<exists>g t. decode_getfattr_generic sample_receiver sample_server \<lparr>out_fattr = empty_fattr, out_fh = None, out_fsloc = None, out_label = None\<rparr> (sample_getattr, 0) =
     Inr ((0, g), t) \<and> fa_size (out_fattr g) = 4096 \<and> fa_fileid (out_fattr g) = 17"
proof -
  have ok: "fattr4_ok sample_attrs" "length sample_words < 2 ^ 30" by (simp_all add: fattr4_ok_def sample_attrs_def sample_words_def)
  let ?g = "\<lparr>out_fattr = empty_fattr, out_fh = None, out_fsloc = None, out_label = None\<rparr>"
  have g: "fa_owner_name (out_fattr ?g) = None" "fa_group_name (out_fattr ?g) = None" "out_label ?g = None \<longrightarrow> a_label sample_attrs = None"
    by (simp_all add: empty_fattr_def sample_attrs_def)
  from getattr_reply [OF sample_receiver_env ok sample_attrs_bitmap g sample_getattr_stream [unfolded sample_getattr_def], of sample_server, folded sample_getattr_def]
  show ?thesis by (auto simp: fattr_of_def sample_attrs_def)
qed

end
