(* ===== verification/Nfs_Chain_Call.thy ===== *)
theory Nfs_Chain_Call
  imports Xdr_Request Xdr_Decode_Chain
begin

text \<open>
  The procedures of \<^verbatim>\<open>fs/nfs/nfs4proc.c\<close> that send a chained lookup: \<^verbatim>\<open>nfs4_proc_chain_lookup\<close> and
  \<^verbatim>\<open>nfs4_proc_chain_lookup_open\<close>, with \<^verbatim>\<open>nfs4_bitmask\<close> and \<^verbatim>\<open>nfs_fattr_init\<close> (\<^verbatim>\<open>fs/nfs/inode.c\<close>).

  Both change the sizes of their entry in the procedure table for the time of the call and put them back.
  The entry is shared by every call, so it is part of the state: \<open>cs_proc\<close>, beside the rest of the client
  (\<open>cs_world\<close>) and the clocks of \<^verbatim>\<open>nfs_fattr_init\<close>.

  \<^verbatim>\<open>nfs4_call_sync\<close> hands the message to the RPC scheduler, which fills in the SEQUENCE arguments from a slot,
  encodes, transmits, decodes and returns the task's status: it is the parameter \<open>call_sync\<close>. The arguments are a function
  of the SEQUENCE arguments, as the slot is chosen after they are handed over.
\<close>

section \<open>Definitions\<close>

text \<open>\<^verbatim>\<open>struct rpc_procinfo\<close>: the buffer sizes, in words.\<close>

record rpc_procinfo =
  pi_arglen :: u32
  pi_replen :: u32

record 'w call_state =
  cs_world :: 'w
  cs_proc :: rpc_procinfo
  cs_jiffies :: u64
  cs_attr_generation :: u64

type_synonym ('w, 'a, 'r) call_sync =
  "rpc_procinfo \<Rightarrow> bool \<Rightarrow> (nfs4_sequence_args \<Rightarrow> 'a) \<Rightarrow> 'r \<Rightarrow> 'w \<Rightarrow> int \<times> 'r \<times> 'w"

definition nfs4_bitmask :: "nfs_server \<Rightarrow> nfs4_label option \<Rightarrow> bitmap3" where
  "nfs4_bitmask server label = (if label \<noteq> None then attr_bitmask server else attr_bitmask_nl server)"

definition nfs_fattr_init :: "u64 \<Rightarrow> u64 \<Rightarrow> nfs_fattr \<Rightarrow> nfs_fattr" where
  "nfs_fattr_init now gen fa =
     fa\<lparr>fa_valid := 0, fa_time_start := now, fa_gencount := gen, fa_owner_name := None, fa_group_name := None\<rparr>"

text \<open>\<^verbatim>\<open>for(i = 0; i < size; ++i) nfs_fattr_init(fattrs[i])\<close>: each takes the next generation number.\<close>

fun init_fattrs :: "nat \<Rightarrow> nat \<Rightarrow> 'w call_state \<Rightarrow> nfs_fattr list \<Rightarrow> xdr_fault + nfs_fattr list \<times> 'w call_state" where
  "init_fattrs i 0 s fattrs = Inr (fattrs, s)"
| "init_fattrs i (Suc n) s fattrs =
     (if i < length fattrs
      then let gen = cs_attr_generation s + 1
           in init_fattrs (i + 1) n (s\<lparr>cs_attr_generation := gen\<rparr>) (fattrs[i := nfs_fattr_init (cs_jiffies s) gen (fattrs ! i)])
      else Inl OOB_READ)"

definition nfs4_proc_chain_lookup ::
  "('w, nfs4_chain_lookup_arg, nfs4_chain_lookup_res) call_sync \<Rightarrow> (nfs_server \<times> nfs_fh) option \<Rightarrow> qstr list \<Rightarrow>
   nfs_fh list \<Rightarrow> nfs_fattr list \<Rightarrow> nfs4_label option list \<Rightarrow> int \<Rightarrow> 'w call_state \<Rightarrow>
   xdr_fault + (int \<times> nfs4_chain_lookup_res) \<times> 'w call_state" where
  "nfs4_proc_chain_lookup call_sync dir dchain_list fhandles fattrs labels sz s =
     (case dir of None \<Rightarrow> Inl NULL_DEREF | Some (server, dir_fh) \<Rightarrow>
      let arglen = pi_arglen (cs_proc s);
          replen = pi_replen (cs_proc s);
          s = s\<lparr>cs_proc := \<lparr>pi_arglen = arglen * of_int sz, pi_replen = replen * of_int sz\<rparr>\<rparr>;
          args = (\<lambda>seq. \<lparr>chain_seq_args = seq, chain_dir_fh = dir_fh, chain_dchain_list = dchain_list,
                         chain_bitmask = nfs4_bitmask server None\<rparr>)
      in case init_fattrs 0 (nat sz) s fattrs of
           Inl e \<Rightarrow> Inl e
         | Inr (fattrs, s) \<Rightarrow>
             let res = \<lparr>chr_server = server, chr_fattrs = fattrs, chr_size = sz, chr_fhandles = fhandles,
                        chr_labels = labels\<rparr>;
                 (status, res, w) = call_sync (cs_proc s) False args res (cs_world s)
             in Inr ((status, res), s\<lparr>cs_world := w, cs_proc := \<lparr>pi_arglen = arglen, pi_replen = replen\<rparr>\<rparr>))"

text \<open>The directory is its server and file handle; without one \<^verbatim>\<open>NFS_CLIENT(dir)\<close> reads through NULL. The bitmap depends on the label of the last name, \<^verbatim>\<open>labels[size - 1]\<close>.\<close>

definition nfs4_proc_chain_lookup_open ::
  "('w, nfs4_chain_lookup_open_arg, nfs4_chain_lookup_res) call_sync \<Rightarrow> (nfs_server \<times> nfs_fh) option \<Rightarrow> qstr list \<Rightarrow>
   nfs_fh list \<Rightarrow> nfs_fattr list \<Rightarrow> nfs4_label option list \<Rightarrow> int \<Rightarrow> 'w call_state \<Rightarrow>
   xdr_fault + (int \<times> nfs4_chain_lookup_res) \<times> 'w call_state" where
  "nfs4_proc_chain_lookup_open call_sync dir dchain_list fhandles fattrs labels sz s =
     (case dir of None \<Rightarrow> Inl NULL_DEREF | Some (server, dir_fh) \<Rightarrow>
      let arglen = pi_arglen (cs_proc s);
          replen = pi_replen (cs_proc s);
          s = s\<lparr>cs_proc := \<lparr>pi_arglen = arglen * of_int sz * 2, pi_replen = replen * of_int sz * 2\<rparr>\<rparr>
      in if sz < 1 \<or> length labels < nat sz then Inl OOB_READ
         else let args = (\<lambda>seq. \<lparr>chain_open_seq_args = seq, chain_open_dir_fh = dir_fh, chain_open_dchain_list = dchain_list,
                                 chain_open_bitmask = nfs4_bitmask server (labels ! nat (sz - 1))\<rparr>)
              in case init_fattrs 0 (nat sz) s fattrs of
                   Inl e \<Rightarrow> Inl e
                 | Inr (fattrs, s) \<Rightarrow>
                     let res = \<lparr>chr_server = server, chr_fattrs = fattrs, chr_size = sz, chr_fhandles = fhandles,
                                chr_labels = labels\<rparr>;
                         (status, res, w) = call_sync (cs_proc s) False args res (cs_world s)
                     in Inr ((status, res), s\<lparr>cs_world := w, cs_proc := \<lparr>pi_arglen = arglen, pi_replen = replen\<rparr>\<rparr>))"

section \<open>Facts about the procedures\<close>

text \<open>Cleared attributes: nothing valid, no name buffers.\<close>

definition fresh_fattr :: "nfs_fattr \<Rightarrow> bool" where
  "fresh_fattr fa \<longleftrightarrow> fa_valid fa = 0 \<and> fa_owner_name fa = None \<and> fa_group_name fa = None"

lemma fresh_fattr_init [simp]: "fresh_fattr (nfs_fattr_init now g fa)"
  by (simp add: fresh_fattr_def nfs_fattr_init_def)

lemma init_fattrs_ok:
  assumes "i + n \<le> length fattrs"
  shows "\<exists>fattrs' g. init_fattrs i n s fattrs = Inr (fattrs', s\<lparr>cs_attr_generation := g\<rparr>) \<and>
    length fattrs' = length fattrs \<and> (\<forall>j<i. fattrs' ! j = fattrs ! j) \<and> (\<forall>j. i \<le> j \<and> j < i + n \<longrightarrow> fresh_fattr (fattrs' ! j))"
  using assms
proof (induction n arbitrary: i s fattrs)
  case 0
  then show ?case by (intro exI [of _ fattrs] exI [of _ "cs_attr_generation s"]) auto
next
  case (Suc n)
  let ?g = "cs_attr_generation s + 1"
  let ?f = "fattrs[i := nfs_fattr_init (cs_jiffies s) ?g (fattrs ! i)]"
  have twice: "s\<lparr>cs_attr_generation := ?g, cs_attr_generation := g\<rparr> = s\<lparr>cs_attr_generation := g\<rparr>" for g by simp
  from Suc.prems have "i + 1 + n \<le> length ?f" and i: "i < length fattrs" by simp_all
  from Suc.IH [OF this(1), of "s\<lparr>cs_attr_generation := ?g\<rparr>"] obtain f' g where
    "init_fattrs (i + 1) n (s\<lparr>cs_attr_generation := ?g\<rparr>) ?f = Inr (f', s\<lparr>cs_attr_generation := g\<rparr>)"
    and l: "length f' = length fattrs" and below: "\<forall>j<i + 1. f' ! j = ?f ! j"
    and fresh: "\<forall>j. i + 1 \<le> j \<and> j < i + 1 + n \<longrightarrow> fresh_fattr (f' ! j)"
    unfolding twice length_list_update by blast
  with i have "init_fattrs i (Suc n) s fattrs = Inr (f', s\<lparr>cs_attr_generation := g\<rparr>)" by (simp add: Let_def)
  moreover have "fresh_fattr (f' ! i)" "\<forall>j<i. f' ! j = fattrs ! j" using below i by simp_all
  then have "fresh_fattr (f' ! j)" if "i \<le> j" "j < i + Suc n" for j
    using fresh that by (cases "j = i") auto
  ultimately show ?case using l \<open>\<forall>j<i. f' ! j = fattrs ! j\<close> by blast
qed

text \<open>What the scheduler is given: buffers for the whole chain, the names, and cleared attributes; afterwards the
  table entry is as before.\<close>

lemma nfs4_proc_chain_lookup_call:
  assumes "sz = int n" and "length fattrs = n"
  shows "\<exists>fattrs' g. length fattrs' = n \<and> (\<forall>fa\<in>set fattrs'. fresh_fattr fa) \<and>
    (let proc = \<lparr>pi_arglen = pi_arglen (cs_proc s) * of_nat n, pi_replen = pi_replen (cs_proc s) * of_nat n\<rparr>;
         args = (\<lambda>seq. \<lparr>chain_seq_args = seq, chain_dir_fh = fh, chain_dchain_list = names, chain_bitmask = attr_bitmask_nl server\<rparr>);
         res = \<lparr>chr_server = server, chr_fattrs = fattrs', chr_size = sz, chr_fhandles = fhandles, chr_labels = labels\<rparr>
     in \<forall>status res' w. call_sync proc False args res (cs_world s) = (status, res', w) \<longrightarrow>
          nfs4_proc_chain_lookup call_sync (Some (server, fh)) names fhandles fattrs labels sz s =
            Inr ((status, res'), s\<lparr>cs_world := w, cs_attr_generation := g\<rparr>))"
proof -
  let ?s = "s\<lparr>cs_proc := \<lparr>pi_arglen = pi_arglen (cs_proc s) * of_int sz, pi_replen = pi_replen (cs_proc s) * of_int sz\<rparr>\<rparr>"
  from init_fattrs_ok [of 0 n fattrs ?s] assms(2) obtain f' g where
    f': "init_fattrs 0 n ?s fattrs = Inr (f', ?s\<lparr>cs_attr_generation := g\<rparr>)" and l: "length f' = n"
    and nth: "\<forall>j<n. fresh_fattr (f' ! j)"
    by auto
  have "\<forall>fa\<in>set f'. fresh_fattr fa" using nth l by (metis in_set_conv_nth)
  moreover have "s\<lparr>cs_proc := cs_proc s\<rparr> = s" for s :: "'a call_state" by simp
  ultimately show ?thesis using f' l assms(1)
    by (intro exI [of _ f'] exI [of _ g]) (auto simp: nfs4_proc_chain_lookup_def nfs4_bitmask_def Let_def)
qed

text \<open>The table's size times the length of the chain holds the request.\<close>

lemma chain_lookup_encodes:
  assumes "xdr_env K avail" and "xpages s = []" and "request_ok K (PROC_CHAIN_LOOKUP a)" and "chain_dchain_list a \<noteq> []"
    and "4 * (p_arglen K (PROC_CHAIN_LOOKUP a) * length (chain_dchain_list a)) \<le> avail (strm s)"
  obtains t where "nfs4_xdr_enc_chain_lookup K req a s = Inr t"
    and "message t = xbuf s @ compound_bytes (nfs4_xdr_minorversion (chain_seq_args a))
           (seq_ops (chain_seq_args a) @ Putfh (fh_bytes (chain_dir_fh a)) # chain_ops (chain_bitmask a) (chain_dchain_list a))"
proof -
  let ?r = "PROC_CHAIN_LOOKUP a"
  have "request_room K ?r \<le> avail (strm s)"
    using chain_room [OF assms(1), of "chain_seq_args a" "chain_dir_fh a" "chain_dchain_list a"
        "NFS4_enc_chain_lookup_sz K" "request_minor ?r" "chain_bitmask a"] assms(3-5)
    by (simp add: request_room_def request_ops_def NFS4_enc_chain_lookup_sz_def)
  from p_encode_encodes [OF assms(1-3) this, of req] that show thesis
    by (simp add: encodes_def request_ops_def) blast
qed

end
