(* ===== verification/Nfs_Chain_Server.thy ===== *)
theory Nfs_Chain_Server
  imports Nfs_Chain_Call
begin

text \<open>
  A chained lookup from end to end. The server is specified by the protocol (RFC 7530, RFC 5661): it runs the
  operations of a COMPOUND one after the other on a current file handle and stops at the first that fails.
  The RPC layer is a parameter that carries a request to the server and its reply back. Then
  \<^verbatim>\<open>nfs4_proc_chain_lookup\<close> gives, for the whole chain, what resolving the names one at a time gives.
\<close>

section \<open>The server\<close>

text \<open>The exported tree: what a name is in a directory (a status, or a file handle), and the attributes of a file
  for a requested bitmap (a status, or the bitmap words and the attributes sent).\<close>

record nfs_tree =
  ft_lookup :: "bytes \<Rightarrow> bytes \<Rightarrow> u32 + bytes"
  ft_getattr :: "bytes \<Rightarrow> u32 list \<Rightarrow> u32 + u32 list \<times> fattr4"

definition tree_ok :: "nfs_tree \<Rightarrow> bool" where
  "tree_ok T \<longleftrightarrow>
     (\<forall>fh nm. case ft_lookup T fh nm of Inl e \<Rightarrow> e \<noteq> 0 | Inr fh' \<Rightarrow> length fh' \<le> NFS4_FHSIZE) \<and>
     (\<forall>fh ws. case ft_getattr T fh ws of
        Inl e \<Rightarrow> e \<noteq> 0
      | Inr (ws', A) \<Rightarrow> fattr4_ok A \<and> length ws' < 2 ^ 30 \<and> attrs_of (bm_of_words ws') = items_present (fattr4_items A) \<and>
          items_present (fattr4_items A) \<subseteq> attrs_of (bm_of_words ws))"

text \<open>The result of a COMPOUND: the bytes of the operations' results, the status of the last, and their number.\<close>

type_synonym compound_res = "bytes \<times> u32 \<times> nat"

definition then_res :: "bytes \<Rightarrow> compound_res option \<Rightarrow> compound_res option" where
  "then_res b = map_option (\<lambda>(b', status, n). (b @ b', status, n + 1))"

text \<open>The operations a lookup consists of; \<open>sq\<close> are the slot numbers a SEQUENCE reports.\<close>

fun serve :: "nfs_tree \<Rightarrow> u32 \<times> u32 \<times> u32 \<Rightarrow> bytes \<Rightarrow> argop list \<Rightarrow> compound_res option" where
  "serve T sq cfh [] = Some ([], 0, 0)"
| "serve T sq cfh (Sequence sid seq slot hi cache # ops) =
     then_res (op_status_bytes OP_SEQUENCE 0 @ sid @ be32 seq @ be32 slot @ be32 (fst sq) @ be32 (fst (snd sq)) @ be32 (snd (snd sq)))
       (serve T sq cfh ops)"
| "serve T sq cfh (Putfh fh # ops) = then_res (op_status_bytes OP_PUTFH 0) (serve T sq fh ops)"
| "serve T sq cfh (Lookup nm # ops) =
     (case ft_lookup T cfh nm of
        Inl e \<Rightarrow> Some (op_status_bytes OP_LOOKUP e, e, 1)
      | Inr fh \<Rightarrow> then_res (op_status_bytes OP_LOOKUP 0) (serve T sq fh ops))"
| "serve T sq cfh (Getfh # ops) = then_res (getfh_bytes cfh) (serve T sq cfh ops)"
| "serve T sq cfh (Getattr ws # ops) =
     (case ft_getattr T cfh ws of
        Inl e \<Rightarrow> Some (op_status_bytes OP_GETATTR e, e, 1)
      | Inr (ws', A) \<Rightarrow> then_res (getattr_bytes ws' (fattr4_items A)) (serve T sq cfh ops))"
| "serve T sq cfh (op # ops) = None"

text \<open>Resolving names one at a time: what each is found to be, and why the walk ended.\<close>

fun chain_walk :: "nfs_tree \<Rightarrow> u32 list \<Rightarrow> bytes \<Rightarrow> bytes list \<Rightarrow> chain_entry list \<times> chain_stop" where
  "chain_walk T ws fh [] = ([], No_Stop)"
| "chain_walk T ws fh (nm # nms) =
     (case ft_lookup T fh nm of
        Inl e \<Rightarrow> ([], Stop_Lookup e)
      | Inr fh' \<Rightarrow>
          (case ft_getattr T fh' ws of
             Inl e \<Rightarrow> ([], Stop_Getattr fh' e)
           | Inr (ws', A) \<Rightarrow> let (es, stop) = chain_walk T ws fh' nms in ((fh', ws', A) # es, stop)))"

fun walk_ops :: "chain_entry list \<Rightarrow> chain_stop \<Rightarrow> nat" where
  "walk_ops es No_Stop = 3 * length es"
| "walk_ops es (Stop_Lookup e) = 3 * length es + 1"
| "walk_ops es (Stop_Getfh e) = 3 * length es + 2"
| "walk_ops es (Stop_Getattr fh e) = 3 * length es + 3"

fun stop_code :: "chain_stop \<Rightarrow> u32" where
  "stop_code No_Stop = 0"
| "stop_code (Stop_Lookup e) = e"
| "stop_code (Stop_Getfh e) = e"
| "stop_code (Stop_Getattr fh e) = e"

section \<open>The server runs a chain\<close>

lemma then_res_Some [simp]: "then_res b (Some (b', st, n)) = Some (b @ b', st, n + 1)"
  by (simp add: then_res_def)

lemma serve_chain_ops:
  assumes "chain_walk T (bm3_words (bm_and bm nfs4_fattr_bitmap)) fh (map name_bytes names) = (es, stop)"
  shows "serve T sq fh (chain_ops bm names) = Some (concat (map entry_bytes es) @ stop_bytes stop, stop_code stop, walk_ops es stop)"
  using assms
proof (induction names arbitrary: fh es stop)
  case (Cons nm names)
  then show ?case
    by (cases stop) (auto simp: chain_ops_def entry_bytes_def split: sum.splits prod.splits)
qed (simp add: chain_ops_def)

lemma chain_walk_ok:
  assumes "tree_ok T"
  shows "chain_walk T ws fh nms = (es, stop) \<Longrightarrow>
    (\<forall>e\<in>set es. entry_ok e \<and> items_present (fattr4_items (snd (snd e))) \<subseteq> attrs_of (bm_of_words ws)) \<and> stop_ok stop \<and>
    (if stop = No_Stop then length es = length nms else length es < length nms)"
proof (induction nms arbitrary: fh es stop)
  case (Cons nm nms)
  note T = assms [unfolded tree_ok_def]
  have L: "case ft_lookup T fh nm of Inl e \<Rightarrow> e \<noteq> 0 | Inr fh' \<Rightarrow> length fh' \<le> NFS4_FHSIZE" using T by blast
  have G: "case ft_getattr T fh' ws of Inl e \<Rightarrow> e \<noteq> 0
      | Inr (ws', A) \<Rightarrow> fattr4_ok A \<and> length ws' < 2 ^ 30 \<and> attrs_of (bm_of_words ws') = items_present (fattr4_items A) \<and>
          items_present (fattr4_items A) \<subseteq> attrs_of (bm_of_words ws)" for fh' using T by blast
  show ?case
  proof (cases "ft_lookup T fh nm")
    case (Inl e)
    with Cons.prems L show ?thesis by auto
  next
    case (Inr fh')
    show ?thesis
    proof (cases "ft_getattr T fh' ws")
      case (Inl e)
      with Cons.prems Inr L G [of fh'] show ?thesis by auto
    next
      case r: (Inr p)
      obtain ws' A where p: "p = (ws', A)" by (cases p)
      obtain es' stop' where w: "chain_walk T ws fh' nms = (es', stop')" by (cases "chain_walk T ws fh' nms")
      have "es = (fh', ws', A) # es'" "stop = stop'" using Cons.prems Inr r p w by auto
      with Cons.IH [OF w] L G [of fh'] Inr r p show ?thesis by (auto simp: entry_ok_def)
    qed
  qed
qed simp

section \<open>The exchange\<close>

text \<open>The RPC layer, for a call that uses the SEQUENCE arguments \<open>seq\<close> and is not restarted: it encodes into a buffer of the
  procedure's size, carries the request to the server and back (\<open>net\<close>), decodes into the result structure, whose
  SEQUENCE part refers to the same slot, and returns the decoder's status.\<close>

definition rpc_exchange ::
  "'s kernel \<Rightarrow> ('s \<Rightarrow> nat) \<Rightarrow> 'r receiver \<Rightarrow> (bytes \<Rightarrow> 'w \<Rightarrow> 'r \<times> 'w) \<Rightarrow> nfs4_sequence_args \<Rightarrow>
   ('w, nfs4_chain_lookup_arg, nfs4_chain_lookup_res) call_sync \<Rightarrow> bool" where
  "rpc_exchange K avail D net seq call_sync \<longleftrightarrow>
     (\<forall>proc args res w. \<exists>sres req s0.
        sr_slot sres = Some (sa_slot seq) \<and> xbuf s0 = [] \<and> xpages s0 = [] \<and> 4 * unat (pi_arglen proc) \<le> avail (strm s0) \<and>
        (\<forall>t status sres' res' u.
           nfs4_xdr_enc_chain_lookup K req (args seq) s0 = Inr t \<longrightarrow>
           nfs4_xdr_dec_chain_lookup D (sres, res) (fst (net (message t) w)) = Inr ((status, sres', res'), u) \<longrightarrow>
           call_sync proc (sa_cache_this seq) args res w = (status, res', snd (net (message t) w))))"

text \<open>The server \<open>T\<close> answers a COMPOUND, echoing some tag.\<close>

definition answers ::
  "('r \<Rightarrow> bytes) \<Rightarrow> (bytes \<Rightarrow> 'w \<Rightarrow> 'r \<times> 'w) \<Rightarrow> nfs_tree \<Rightarrow> u32 \<Rightarrow> argop list \<Rightarrow> 'w \<Rightarrow> bool" where
  "answers rest net T minor ops w \<longleftrightarrow>
     (\<exists>sq tag b status n. serve T sq [] ops = Some (b, status, n) \<and> length tag + 8 < 2 ^ 32 \<and>
        rest (fst (net (compound_bytes minor ops) w)) = compound_res_bytes status tag (of_nat n) @ b)"

lemma serve_chain_request:
  assumes "chain_walk T (bm3_words (bm_and bm nfs4_fattr_bitmap)) (fh_bytes fh) (map name_bytes names) = (es, stop)"
    and "sr_slot sres = Some (sa_slot seq)" and "sq = (hi, target, flags)"
  shows "\<exists>n. serve T sq [] (seq_ops seq @ Putfh (fh_bytes fh) # chain_ops bm names) =
      Some (sequence_bytes sres hi target flags @ op_status_bytes OP_PUTFH 0 @ concat (map entry_bytes es) @ stop_bytes stop,
            stop_code stop, n) \<and> 1 \<le> n \<and> n \<le> 2 + walk_ops es stop"
proof (cases "slot_session (sa_slot seq)")
  case None
  then show ?thesis using serve_chain_ops [OF assms(1), of sq] assms(2)
    by (simp add: seq_ops_def sequence_bytes_def)
next
  case (Some session)
  then show ?thesis using serve_chain_ops [OF assms(1), of sq] assms(2,3)
    by (simp add: seq_ops_def sequence_bytes_def)
qed

lemma walk_ops_le: "walk_ops es stop \<le> 3 * length es + 3"
  by (cases stop) auto

text \<open>A label is sent only when the bitmap asks for it.\<close>

lemma no_label:
  assumes "snd (snd bm) AND FATTR4_WORD2_SECURITY_LABEL = 0"
    and "items_present (fattr4_items A) \<subseteq> attrs_of (bm_of_words (bm3_words (bm_and bm nfs4_fattr_bitmap)))"
  shows "a_label A = None"
proof (rule ccontr)
  assume "a_label A \<noteq> None"
  then have "80 \<in> items_present (fattr4_items A)" by (auto simp: items_present_def fattr4_items_def)
  with assms(2) have "bit (snd (snd bm)) 16"
    by (auto simp: attrs_of_def bm_word_def bm_of_words_def bm3_words_def bm_and_def bit_and_iff split: if_splits prod.splits)
  then have "bit (snd (snd bm) AND FATTR4_WORD2_SECURITY_LABEL) 16"
    by (simp add: bit_and_iff)
  with assms(1) show False by simp
qed

text \<open>A client ready for a chained lookup: well-formed SEQUENCE arguments, directory and names, at most the 30
  names that \<^verbatim>\<open>walk_chain\<close> collects, the table's entry undisturbed, and a bitmap without the label.\<close>

definition chain_client_ok ::
  "'s kernel \<Rightarrow> nfs4_sequence_args \<Rightarrow> nfs_server \<Rightarrow> nfs_fh \<Rightarrow> qstr list \<Rightarrow> 'w call_state \<Rightarrow> bool" where
  "chain_client_ok K seq server fh names s \<longleftrightarrow>
     seq_ok seq \<and> \<not> sa_cache_this seq \<and> fh_ok fh \<and> list_all name_ok names \<and> names \<noteq> [] \<and> length names \<le> 30 \<and>
     pi_arglen (cs_proc s) = of_nat (NFS4_enc_chain_lookup_sz K) \<and> NFS4_enc_chain_lookup_sz K * 30 < 2 ^ 32 \<and>
     snd (snd (attr_bitmask_nl server)) AND FATTR4_WORD2_SECURITY_LABEL = 0"

text \<open>The attributes requested for every name.\<close>

definition chain_request_words :: "nfs_server \<Rightarrow> u32 list" where
  "chain_request_words server = bm3_words (bm_and (attr_bitmask_nl server) nfs4_fattr_bitmap)"

text \<open>The reply of the server is one the decoder accepts.\<close>

lemma served_reply:
  assumes ok: "chain_client_ok K seq server fh names s" and T: "tree_ok T"
    and srv: "serve T (hi, target, flags) [] (seq_ops seq @ Putfh (fh_bytes fh) # chain_ops (attr_bitmask_nl server) names) =
      Some (b, status, n)"
    and walk: "chain_walk T (chain_request_words server) (fh_bytes fh) (map name_bytes names) = (es, stop)"
    and slot: "sr_slot sres = Some (sa_slot seq)" and tag: "length tag + 8 < 2 ^ 32"
    and res: "chr_size res = int (length names)" "arrays_ok (length names) res"
  shows "chain_reply_ok sres res (status, tag, of_nat n) es stop \<and>
    compound_res_bytes status tag (of_nat n) @ b = chain_reply_bytes sres (status, tag, of_nat n) (hi, target, flags) es stop"
proof -
  note c = ok [unfolded chain_client_ok_def]
  from serve_chain_request [OF walk [unfolded chain_request_words_def] slot refl, of hi target flags] srv
  have b: "b = sequence_bytes sres hi target flags @ op_status_bytes OP_PUTFH 0 @ concat (map entry_bytes es) @ stop_bytes stop"
    and n: "1 \<le> n" "n \<le> 2 + walk_ops es stop" by auto
  note w = chain_walk_ok [OF T walk]
  have len: "length es \<le> length names" using w by (auto split: if_splits)
  have n32: "(1 :: u32) \<le> of_nat n"
    using n walk_ops_le [of es stop] len c by (simp add: word_le_nat_alt unat_of_nat_u32)
  have "a_label (snd (snd (es ! j))) = None" if "j < length es" for j
    using w c nth_mem [OF that] by (intro no_label [of "attr_bitmask_nl server"]) (auto simp: chain_request_words_def)
  then have "labels_fit 0 es res" by (simp add: labels_fit_def)
  moreover have "sequence_res_ok sres"
    using c slot by (auto simp: sequence_res_ok_def seq_ok_def pred_option_def split: option.splits)
  ultimately show ?thesis
    using w tag n32 res b unfolding chain_reply_ok_def chain_reply_bytes_def by (auto split: if_splits)
qed

lemma chain_exchange:
  assumes K: "xdr_env K avail" and D: "rcv_env D rest" and rpc: "rpc_exchange K avail D net seq call_sync"
    and ok: "chain_client_ok K seq server fh names s" and T: "tree_ok T"
    and ans: "answers rest net T (nfs4_xdr_minorversion seq)
      (seq_ops seq @ Putfh (fh_bytes fh) # chain_ops (attr_bitmask_nl server) names) (cs_world s)"
    and walk: "chain_walk T (chain_request_words server) (fh_bytes fh) (map name_bytes names) = (es, stop)"
    and proc: "pi_arglen proc = pi_arglen (cs_proc s) * of_nat (length names)"
    and args: "args = (\<lambda>seq. \<lparr>chain_seq_args = seq, chain_dir_fh = fh, chain_dchain_list = names, chain_bitmask = attr_bitmask_nl server\<rparr>)"
    and res: "chr_size res = int (length names)" "arrays_ok (length names) res"
  shows "\<exists>w. call_sync proc False args res (cs_world s) = (stop_status stop, stop_put (length es) stop (put_entries D 0 es res), w)"
proof -
  note c = ok [unfolded chain_client_ok_def]
  from rpc [unfolded rpc_exchange_def, rule_format, of proc args res "cs_world s"]
  obtain sres req s0 where slot: "sr_slot sres = Some (sa_slot seq)" and s0: "xbuf s0 = []" "xpages s0 = []"
    "4 * unat (pi_arglen proc) \<le> avail (strm s0)"
    and call: "\<And>t status sres' res' u. nfs4_xdr_enc_chain_lookup K req (args seq) s0 = Inr t \<Longrightarrow>
       nfs4_xdr_dec_chain_lookup D (sres, res) (fst (net (message t) (cs_world s))) = Inr ((status, sres', res'), u) \<Longrightarrow>
       call_sync proc (sa_cache_this seq) args res (cs_world s) = (status, res', snd (net (message t) (cs_world s)))"
    by blast
  have "NFS4_enc_chain_lookup_sz K * length names \<le> NFS4_enc_chain_lookup_sz K * 30" using c by (intro mult_le_mono2) simp
  then have "NFS4_enc_chain_lookup_sz K * length names < 2 ^ 32" using c by linarith
  then have "unat (pi_arglen proc) = NFS4_enc_chain_lookup_sz K * length names"
    using c by (simp add: proc unat_of_nat_u32 flip: of_nat_mult)
  then have room: "4 * (p_arglen K (PROC_CHAIN_LOOKUP (args seq)) * length (chain_dchain_list (args seq))) \<le> avail (strm s0)"
    using s0(3) by (simp add: args)
  have "request_ok K (PROC_CHAIN_LOOKUP (args seq))" "chain_dchain_list (args seq) \<noteq> []" using c by (simp_all add: args)
  from chain_lookup_encodes [OF K s0(2) this room, of req] obtain t where t: "nfs4_xdr_enc_chain_lookup K req (args seq) s0 = Inr t"
    and m: "message t = compound_bytes (nfs4_xdr_minorversion seq) (seq_ops seq @ Putfh (fh_bytes fh) # chain_ops (attr_bitmask_nl server) names)"
    by (auto simp: s0 args)
  from ans obtain hi target flags tag b status n where srv: "serve T (hi, target, flags) []
        (seq_ops seq @ Putfh (fh_bytes fh) # chain_ops (attr_bitmask_nl server) names) = Some (b, status, n)"
    and tag: "length tag + 8 < 2 ^ 32"
    and reply: "rest (fst (net (message t) (cs_world s))) = compound_res_bytes status tag (of_nat n) @ b"
    unfolding answers_def m by (metis prod.exhaust)
  note r = served_reply [OF ok T srv walk slot tag res]
  obtain u where "nfs4_xdr_dec_chain_lookup D (sres, res) (fst (net (message t) (cs_world s))) =
      Inr ((stop_status stop, sequence_done sres hi target flags, stop_put (length es) stop (put_entries D 0 es res)), u)"
    using nfs4_xdr_dec_chain_lookup_reads [OF D conjunct1 [OF r], of hi target flags]
    by (rule readsD [of _ _ _ _ _ _ "[]"]) (use reply r in simp)
  from call [OF t this] c show ?thesis by auto
qed

text \<open>The arrays as the caller finds them.\<close>

lemma nfs4_proc_chain_lookup_exchange:
  assumes "xdr_env K avail" and "rcv_env D rest" and "rpc_exchange K avail D net seq call_sync"
    and ok: "chain_client_ok K seq server fh names s" and "tree_ok T"
    and "answers rest net T (nfs4_xdr_minorversion seq)
      (seq_ops seq @ Putfh (fh_bytes fh) # chain_ops (attr_bitmask_nl server) names) (cs_world s)"
    and walk: "chain_walk T (chain_request_words server) (fh_bytes fh) (map name_bytes names) = (es, stop)"
    and len: "length fhandles = length names" "length fattrs = length names" "length labels = length names"
  shows "\<exists>res s'. nfs4_proc_chain_lookup call_sync (Some (server, fh)) names fhandles fattrs labels (int (length names)) s =
      Inr ((stop_status stop, res), s') \<and> cs_proc s' = cs_proc s \<and>
    (\<forall>j<length es. chr_fhandles res ! j = fh_of (fst (es ! j)) \<and>
       (\<exists>fa. fresh_fattr fa \<and> chr_fattrs res ! j = fattr_of D server (snd (snd (es ! j))) fa)) \<and>
    (\<forall>j. length es \<le> j \<and> j < length names \<longrightarrow> fa_valid (chr_fattrs res ! j) = 0)"
proof -
  from nfs4_proc_chain_lookup_call [OF refl len(2), of s fh names server fhandles labels call_sync]
  obtain fa' g where fa': "length fa' = length names" "\<forall>fa\<in>set fa'. fresh_fattr fa"
    and call: "\<And>status res' w. call_sync \<lparr>pi_arglen = pi_arglen (cs_proc s) * of_nat (length names),
         pi_replen = pi_replen (cs_proc s) * of_nat (length names)\<rparr> False
         (\<lambda>seq. \<lparr>chain_seq_args = seq, chain_dir_fh = fh, chain_dchain_list = names, chain_bitmask = attr_bitmask_nl server\<rparr>)
         \<lparr>chr_server = server, chr_fattrs = fa', chr_size = int (length names), chr_fhandles = fhandles, chr_labels = labels\<rparr>
         (cs_world s) = (status, res', w) \<Longrightarrow>
       nfs4_proc_chain_lookup call_sync (Some (server, fh)) names fhandles fattrs labels (int (length names)) s =
         Inr ((status, res'), s\<lparr>cs_world := w, cs_attr_generation := g\<rparr>)"
    unfolding Let_def by blast
  let ?res = "\<lparr>chr_server = server, chr_fattrs = fa', chr_size = int (length names), chr_fhandles = fhandles, chr_labels = labels\<rparr>"
  have arr: "arrays_ok (length names) ?res" using fa' len by (auto simp: arrays_ok_def fresh_fattr_def)
  let ?proc = "\<lparr>pi_arglen = pi_arglen (cs_proc s) * of_nat (length names), pi_replen = pi_replen (cs_proc s) * of_nat (length names)\<rparr>"
  obtain w where out: "nfs4_proc_chain_lookup call_sync (Some (server, fh)) names fhandles fattrs labels (int (length names)) s =
      Inr ((stop_status stop, stop_put (length es) stop (put_entries D 0 es ?res)), s\<lparr>cs_world := w, cs_attr_generation := g\<rparr>)"
    using chain_exchange [OF assms(1-3) ok assms(5-6) walk _ refl _ arr, of ?proc] call by force
  have le: "length es \<le> length names" using chain_walk_ok [OF assms(5) walk] by (auto split: if_splits)
  then have "arrays_ok (0 + length es) ?res" using arr by (auto simp: arrays_ok_def)
  note nth = put_entries_nth [OF this, of _ D]
  have "\<exists>fa. fresh_fattr fa \<and> chr_fattrs (put_entries D 0 es ?res) ! j = fattr_of D server (snd (snd (es ! j))) fa" if "j < length es" for j
    using nth [OF that] fa' le that by (intro exI [of _ "fa' ! j"]) (auto split: prod.splits)
  moreover have "chr_fhandles (put_entries D 0 es ?res) ! j = fh_of (fst (es ! j))" if "j < length es" for j
    using nth [OF that] by (auto split: prod.splits)
  moreover have "fa_valid (chr_fattrs (put_entries D 0 es ?res) ! j) = 0" if "length es \<le> j" "j < length names" for j
    using that fa' by (auto simp: put_entries_other fresh_fattr_def)
  ultimately show ?thesis using out
    by (intro exI [of _ "stop_put (length es) stop (put_entries D 0 es ?res)"] exI [of _ "s\<lparr>cs_world := w, cs_attr_generation := g\<rparr>"])
      (simp add: stop_put_other)
qed

end
