(* ===== verification/Nfs_Chain_Sample.thy ===== *)
theory Nfs_Chain_Sample
  imports Nfs_Chain_Server Xdr_Sample Xdr_Decode_Sample
begin

text \<open>
  A concrete server, network and RPC layer for the end-to-end statement: the exported tree has one name in the
  directory, the network delivers the reply of that server, and the RPC layer runs the encoder and the decoder.
\<close>

definition sample_tree :: nfs_tree where
  "sample_tree =
     \<lparr>ft_lookup = (\<lambda>fh nm. if fh = [1, 2, 3, 4] \<and> nm = [0x61] then Inr [5, 6, 7, 8] else Inl 2),
      ft_getattr = (\<lambda>fh ws. if ws = sample_words then Inr (sample_words, sample_attrs) else Inl 22)\<rparr>"

lemma sample_tree_ok: "tree_ok sample_tree"
  using sample_entry_ok sample_attrs_bitmap
  by (auto simp: tree_ok_def sample_tree_def entry_ok_def sample_entry_def)

definition sample_chain_server :: nfs_server where
  "sample_chain_server = \<lparr>s_dev = 1, attr_bitmask = (0x100012, 0x12, 0), attr_bitmask_nl = (0x100012, 0x12, 0)\<rparr>"

definition sample_names :: "qstr list" where
  "sample_names = [sample_name [0x61], sample_name [0x62, 0x63]]"

definition sample_call_state :: "unit call_state" where
  "sample_call_state = \<lparr>cs_world = (), cs_proc = \<lparr>pi_arglen = of_nat (NFS4_enc_chain_lookup_sz sample_kernel),
     pi_replen = of_nat (NFS4_dec_chain_lookup_sz sample_kernel)\<rparr>, cs_jiffies = 0, cs_attr_generation = 0\<rparr>"

lemma sample_client_ok: "chain_client_ok sample_kernel sample_seq sample_chain_server sample_fh sample_names sample_call_state"
  unfolding chain_client_ok_def
  by (simp add: sample_defs sample_names_def sample_call_state_def sample_chain_server_def seq_ok_def fh_ok_def name_ok_def
      NFS4_enc_chain_lookup_sz_def maxsz_defs XDR_QUADLEN_def sample_kernel_def)

definition sample_ops :: "argop list" where
  "sample_ops = seq_ops sample_seq @ Putfh (fh_bytes sample_fh) # chain_ops (attr_bitmask_nl sample_chain_server) sample_names"

definition sample_net :: "bytes \<Rightarrow> unit \<Rightarrow> sample_stream \<times> unit" where
  "sample_net m w =
     (case serve sample_tree (0, 0, 0) [] sample_ops of
        Some (b, status, n) \<Rightarrow> ((compound_res_bytes status [] (of_nat n) @ b, 0), ())
      | None \<Rightarrow> (([], 0), ()))"

lemma sample_walk:
  "chain_walk sample_tree (chain_request_words sample_chain_server) (fh_bytes sample_fh) (map name_bytes sample_names) =
     ([([5, 6, 7, 8], sample_words, sample_attrs)], Stop_Lookup 2)"
  by (simp add: sample_tree_def chain_request_words_def sample_chain_server_def sample_defs sample_names_def fh_bytes_def name_bytes_def
      bm_and_def nfs4_fattr_bitmap_def bm3_words_def sample_words_def)

lemma sample_served:
  obtains b n where "serve sample_tree (0, 0, 0) [] sample_ops = Some (b, 2, n)" "length b < 1000"
proof -
  let ?es = "[([5, 6, 7, 8], sample_words, sample_attrs)]"
  have slot: "sr_slot sample_seq_res = Some (sa_slot sample_seq)" by (simp add: sample_seq_res_def sample_seq_def)
  have "length (sequence_bytes sample_seq_res 0 0 0 @ op_status_bytes OP_PUTFH 0 @ concat (map entry_bytes ?es) @ stop_bytes (Stop_Lookup 2)) < 1000"
    by code_simp
  with serve_chain_request [OF sample_walk [unfolded chain_request_words_def] slot refl, of 0 0 0] that show thesis
    by (auto simp: sample_ops_def)
qed

lemma sample_answers: "answers sample_rest sample_net sample_tree minor sample_ops w"
proof -
  obtain b n where "serve sample_tree (0, 0, 0) [] sample_ops = Some (b, 2, n)" "length b < 1000" by (rule sample_served)
  then show ?thesis unfolding answers_def
    by - (rule exI [of _ "(0, 0, 0)"], rule exI [of _ "[]"], rule exI [of _ b], rule exI [of _ 2],
        rule exI [of _ n], simp add: sample_net_def sample_rest_def compound_res_bytes_def opaque_var_def opaque_fixed_def pad_def)
qed

definition sample_call_sync :: "(unit, nfs4_chain_lookup_arg, nfs4_chain_lookup_res) call_sync" where
  "sample_call_sync proc cache args res w =
     (case nfs4_xdr_enc_chain_lookup sample_kernel sample_rqst (args sample_seq) (enc_init (4 * unat (pi_arglen proc))) of
        Inl e \<Rightarrow> (- EIO, res, w)
      | Inr t \<Rightarrow>
          (case nfs4_xdr_dec_chain_lookup sample_receiver (sample_seq_res, res) (fst (sample_net (message t) w)) of
             Inl e \<Rightarrow> (- EIO, res, w)
           | Inr ((status, sres, res), u) \<Rightarrow> (status, res, snd (sample_net (message t) w))))"

lemma sample_rpc: "rpc_exchange sample_kernel (\<lambda>s. s) sample_receiver sample_net sample_seq sample_call_sync"
  unfolding rpc_exchange_def
  by (intro allI exI [of _ sample_seq_res] exI [of _ sample_rqst] exI [of _ "enc_init (4 * unat (pi_arglen proc))" for proc])
    (auto simp: sample_call_sync_def enc_init_def sample_seq_res_def sample_seq_def)

end
