(* ===== verification/Nfs_Inode.thy ===== *)
theory Nfs_Inode
  imports Xdr_Decode_Attrs
begin

text \<open>
  The attribute cache of an NFS inode, \<^verbatim>\<open>fs/nfs/inode.c\<close>: validity flags and timeouts, the update of the cached
  attributes from a reply (\<^verbatim>\<open>nfs_refresh_inode\<close>, \<^verbatim>\<open>nfs_post_op_update_inode\<close>), and the front end that turns a file
  handle and attributes into an inode (\<^verbatim>\<open>nfs_fhget\<close>).

  \<^verbatim>\<open>struct nfs_inode\<close> and the \<^verbatim>\<open>struct inode\<close> inside it are one record. Flags and clocks are 64-bit words
  (\<^verbatim>\<open>unsigned long\<close>), so clocks and generation counters are compared through their wrapped difference; \<open>i_size\<close> is the \<^verbatim>\<open>loff_t\<close> as
  an integer. Delegations and pNFS layouts belong to other files, as does the label cache: what the code asks of them is the parameter \<open>inode_hooks\<close>.
  Statistics, tracing and the local disk cache (\<^verbatim>\<open>nfs_fscache_\<dots>\<close>) are left out.
\<close>

section \<open>State\<close>

text \<open>The bits of \<^verbatim>\<open>cache_validity\<close>\<close>

abbreviation (input) NFS_INO_INVALID_ATTR :: u64 where "NFS_INO_INVALID_ATTR \<equiv> 0x01"
abbreviation (input) NFS_INO_INVALID_DATA :: u64 where "NFS_INO_INVALID_DATA \<equiv> 0x02"
abbreviation (input) NFS_INO_INVALID_ATIME :: u64 where "NFS_INO_INVALID_ATIME \<equiv> 0x04"
abbreviation (input) NFS_INO_INVALID_ACCESS :: u64 where "NFS_INO_INVALID_ACCESS \<equiv> 0x08"
abbreviation (input) NFS_INO_INVALID_ACL :: u64 where "NFS_INO_INVALID_ACL \<equiv> 0x10"
abbreviation (input) NFS_INO_REVAL_PAGECACHE :: u64 where "NFS_INO_REVAL_PAGECACHE \<equiv> 0x20"
abbreviation (input) NFS_INO_REVAL_FORCED :: u64 where "NFS_INO_REVAL_FORCED \<equiv> 0x40"
abbreviation (input) NFS_INO_INVALID_LABEL :: u64 where "NFS_INO_INVALID_LABEL \<equiv> 0x80"

abbreviation (input) NFS_ATTR_FATTR :: u32 where
  "NFS_ATTR_FATTR \<equiv>
     NFS_ATTR_FATTR_TYPE OR NFS_ATTR_FATTR_MODE OR NFS_ATTR_FATTR_NLINK OR NFS_ATTR_FATTR_OWNER OR NFS_ATTR_FATTR_GROUP OR
     NFS_ATTR_FATTR_RDEV OR NFS_ATTR_FATTR_SIZE OR NFS_ATTR_FATTR_FSID OR NFS_ATTR_FATTR_FILEID OR NFS_ATTR_FATTR_ATIME OR
     NFS_ATTR_FATTR_MTIME OR NFS_ATTR_FATTR_CTIME OR NFS_ATTR_FATTR_CHANGE"

datatype inode_ops = FILE_INODE_OPS | DIR_INODE_OPS | REFERRAL_INODE_OPS | MOUNTPOINT_INODE_OPS | SYMLINK_INODE_OPS | BAD_INODE_OPS

datatype file_ops = NO_FILE_OPS | FILE_OPS | DIR_OPS | SPECIAL_OPS u32

record nfs_inode =
  fileid :: u64
  ino_fh :: nfs_fh
  ino_stale :: bool
  cache_validity :: u64
  read_cache_jiffies :: u64
  attrtimeo :: u64
  attrtimeo_timestamp :: u64
  attr_gencount :: u64
  cache_change_attribute :: u64
  cookieverf :: "u32 \<times> u32"
  nrequests :: u64
  write_io :: u64
  read_io :: u64
  i_ino :: u64
  i_automount :: bool
  i_mode :: u16
  i_op :: inode_ops
  i_fop :: file_ops
  i_version :: u64
  i_size :: int
  i_nlink :: u32
  i_uid :: u32
  i_gid :: u32
  i_blocks :: u64
  i_atime :: timespec
  i_mtime :: timespec
  i_ctime :: timespec
  i_nrpages :: nat
  i_security :: bool

text \<open>What the inode code reads of \<^verbatim>\<open>struct nfs_server\<close>: the file system id, the limits of the attribute timeout and
  the capability bits.\<close>

record nfs_sb =
  sb_fsid :: "u64 \<times> u64"
  acregmin :: u32
  acregmax :: u32
  acdirmin :: u32
  acdirmax :: u32
  cap_atime :: bool
  cap_mtime :: bool
  cap_ctime :: bool
  cap_change_attr :: bool
  cap_nlink :: bool
  cap_owner :: bool
  cap_owner_group :: bool
  cap_mode :: bool
  cap_security_label :: bool
  cl_minorversion :: u32

record inode_hooks =
  have_read_delegation :: "nfs_inode \<Rightarrow> bool"
  nfs_have_delegated_attributes :: "nfs_inode \<Rightarrow> bool"
  pnfs_layoutcommit_outstanding :: "nfs_inode \<Rightarrow> bool"
  nfs_zap_label_cache_locked :: "nfs_inode \<Rightarrow> nfs_inode"

text \<open>An inode with its super block and the two global clocks: \<^verbatim>\<open>jiffies\<close> and \<^verbatim>\<open>nfs_attr_generation_counter\<close>.\<close>

record inode_state =
  the_inode :: nfs_inode
  the_sb :: nfs_sb
  generation :: u64
  now :: u64

section \<open>Small helpers\<close>

definition has :: "nfs_fattr \<Rightarrow> u32 \<Rightarrow> bool" where
  "has fa b \<longleftrightarrow> fa_valid fa AND b \<noteq> 0"

definition S_ISREG :: "u16 \<Rightarrow> bool" where "S_ISREG m \<longleftrightarrow> m AND S_IFMT = S_IFREG"
definition S_ISDIR :: "u16 \<Rightarrow> bool" where "S_ISDIR m \<longleftrightarrow> m AND S_IFMT = S_IFDIR"
definition S_ISLNK :: "u16 \<Rightarrow> bool" where "S_ISLNK m \<longleftrightarrow> m AND S_IFMT = S_IFLNK"

abbreviation (input) OFFSET_MAX :: u64 where "OFFSET_MAX \<equiv> 0x7FFFFFFFFFFFFFFF"

definition nfs_size_to_loff_t :: "u64 \<Rightarrow> int" where
  "nfs_size_to_loff_t sz = (if sz > OFFSET_MAX - 1 then uint (OFFSET_MAX - 1) else uint sz)"

definition nfs_calc_block_size :: "u64 \<Rightarrow> u64" where
  "nfs_calc_block_size tsize = drop_bit 9 (tsize + 511)"

definition timespec_compare :: "timespec \<Rightarrow> timespec \<Rightarrow> int" where
  "timespec_compare a b =
     (if sint (tv_sec a) < sint (tv_sec b) then -1
      else if sint (tv_sec b) < sint (tv_sec a) then 1
      else sint (ucast (tv_nsec a - tv_nsec b) :: u32))"

definition time_in_range_open :: "u64 \<Rightarrow> u64 \<Rightarrow> u64 \<Rightarrow> bool" where
  "time_in_range_open a b c \<longleftrightarrow> 0 \<le> sint (a - b) \<and> sint (a - c) < 0"

definition NFS_MINATTRTIMEO :: "nfs_sb \<Rightarrow> nfs_inode \<Rightarrow> u32" where
  "NFS_MINATTRTIMEO sb ino = (if S_ISDIR (i_mode ino) then acdirmin sb else acregmin sb)"

definition NFS_MAXATTRTIMEO :: "nfs_sb \<Rightarrow> nfs_inode \<Rightarrow> u32" where
  "NFS_MAXATTRTIMEO sb ino = (if S_ISDIR (i_mode ino) then acdirmax sb else acregmax sb)"

definition nfs_fileid_to_ino_t :: "u64 \<Rightarrow> u64" where
  "nfs_fileid_to_ino_t fid = fid"

definition nfs_fattr_to_ino_t :: "nfs_fattr \<Rightarrow> u64" where
  "nfs_fattr_to_ino_t fa = nfs_fileid_to_ino_t (fa_fileid fa)"

section \<open>Validity of the caches\<close>

definition nfs_set_cache_invalid :: "u64 \<Rightarrow> nfs_inode \<Rightarrow> nfs_inode" where
  "nfs_set_cache_invalid flags ino =
     (let flags = (if i_nrpages ino = 0 then flags AND NOT NFS_INO_INVALID_DATA else flags)
      in ino\<lparr>cache_validity := cache_validity ino OR flags\<rparr>)"

definition nfs_zap_caches_locked :: "inode_hooks \<Rightarrow> nfs_sb \<Rightarrow> u64 \<Rightarrow> nfs_inode \<Rightarrow> nfs_inode" where
  "nfs_zap_caches_locked H sb jiffies ino =
     (let ino = ino\<lparr>attrtimeo := ucast (NFS_MINATTRTIMEO sb ino), attrtimeo_timestamp := jiffies, cookieverf := (0, 0)\<rparr>
      in nfs_zap_label_cache_locked H
           (if S_ISREG (i_mode ino) \<or> S_ISDIR (i_mode ino) \<or> S_ISLNK (i_mode ino)
            then nfs_set_cache_invalid (NFS_INO_INVALID_ATTR OR NFS_INO_INVALID_DATA OR NFS_INO_INVALID_ACCESS OR
                   NFS_INO_INVALID_ACL OR NFS_INO_REVAL_PAGECACHE) ino
            else nfs_set_cache_invalid (NFS_INO_INVALID_ATTR OR NFS_INO_INVALID_ACCESS OR NFS_INO_INVALID_ACL OR
                   NFS_INO_REVAL_PAGECACHE) ino))"

definition nfs_zap_mapping :: "nfs_inode \<Rightarrow> nfs_inode" where
  "nfs_zap_mapping ino = (if i_nrpages ino \<noteq> 0 then nfs_set_cache_invalid NFS_INO_INVALID_DATA ino else ino)"

definition nfs_invalidate_atime :: "nfs_inode \<Rightarrow> nfs_inode" where
  "nfs_invalidate_atime ino = nfs_set_cache_invalid NFS_INO_INVALID_ATIME ino"

definition nfs_invalidate_inode :: "inode_hooks \<Rightarrow> nfs_sb \<Rightarrow> u64 \<Rightarrow> nfs_inode \<Rightarrow> nfs_inode" where
  "nfs_invalidate_inode H sb jiffies ino = nfs_zap_caches_locked H sb jiffies (ino\<lparr>ino_stale := True\<rparr>)"

definition nfs_mark_for_revalidate :: "nfs_inode \<Rightarrow> nfs_inode" where
  "nfs_mark_for_revalidate ino =
     (let ino = ino\<lparr>cache_validity := cache_validity ino OR NFS_INO_INVALID_ATTR OR NFS_INO_INVALID_ACCESS\<rparr>
      in if S_ISDIR (i_mode ino)
         then ino\<lparr>cache_validity := cache_validity ino OR NFS_INO_REVAL_PAGECACHE OR NFS_INO_INVALID_DATA\<rparr> else ino)"

definition nfs_force_lookup_revalidate :: "nfs_inode \<Rightarrow> nfs_inode" where
  "nfs_force_lookup_revalidate dir = dir\<lparr>cache_change_attribute := cache_change_attribute dir + 1\<rparr>"

definition nfs_attribute_timeout :: "u64 \<Rightarrow> nfs_inode \<Rightarrow> bool" where
  "nfs_attribute_timeout jiffies ino \<longleftrightarrow>
     \<not> time_in_range_open jiffies (read_cache_jiffies ino) (read_cache_jiffies ino + attrtimeo ino)"

definition nfs_attribute_cache_expired :: "inode_hooks \<Rightarrow> u64 \<Rightarrow> nfs_inode \<Rightarrow> bool" where
  "nfs_attribute_cache_expired H jiffies ino \<longleftrightarrow>
     (if nfs_have_delegated_attributes H ino then False else nfs_attribute_timeout jiffies ino)"

definition nfs_need_revalidate_inode :: "inode_hooks \<Rightarrow> u64 \<Rightarrow> nfs_inode \<Rightarrow> bool" where
  "nfs_need_revalidate_inode H jiffies ino \<longleftrightarrow>
     (if cache_validity ino AND (NFS_INO_INVALID_ATTR OR NFS_INO_INVALID_LABEL) \<noteq> 0 then True
      else nfs_attribute_cache_expired H jiffies ino)"

definition nfs_revalidate_inode_rcu :: "inode_hooks \<Rightarrow> u64 \<Rightarrow> nfs_inode \<Rightarrow> int" where
  "nfs_revalidate_inode_rcu H jiffies ino =
     (if cache_validity ino AND (NFS_INO_INVALID_ATTR OR NFS_INO_INVALID_LABEL) = 0 \<and> \<not> nfs_attribute_cache_expired H jiffies ino
      then if ino_stale ino then - ESTALE else 0
      else - ECHILD)"

definition nfs_mapping_need_revalidate_inode :: "inode_hooks \<Rightarrow> u64 \<Rightarrow> nfs_inode \<Rightarrow> bool" where
  "nfs_mapping_need_revalidate_inode H jiffies ino \<longleftrightarrow>
     (if nfs_have_delegated_attributes H ino then False
      else cache_validity ino AND NFS_INO_REVAL_PAGECACHE \<noteq> 0 \<or> nfs_attribute_timeout jiffies ino \<or> ino_stale ino)"

section \<open>Updating the cached attributes\<close>

text \<open>\<^verbatim>\<open>nfs_wcc_update_inode\<close>: with the attributes from before the operation in the reply, the cache can follow the
  change; returns the flags to report.\<close>

definition wcc_change :: "nfs_fattr \<Rightarrow> nfs_inode \<times> u64 \<Rightarrow> nfs_inode \<times> u64" where
  "wcc_change fa = (\<lambda>(ino, ret).
     if has fa NFS_ATTR_FATTR_PRECHANGE \<and> has fa NFS_ATTR_FATTR_CHANGE \<and> i_version ino = fa_pre_change_attr fa
     then let ino = ino\<lparr>i_version := fa_change_attr fa\<rparr>
          in (if S_ISDIR (i_mode ino) then nfs_set_cache_invalid NFS_INO_INVALID_DATA ino else ino, ret OR NFS_INO_INVALID_ATTR)
     else (ino, ret))"

definition wcc_ctime :: "nfs_fattr \<Rightarrow> nfs_inode \<times> u64 \<Rightarrow> nfs_inode \<times> u64" where
  "wcc_ctime fa = (\<lambda>(ino, ret).
     if has fa NFS_ATTR_FATTR_PRECTIME \<and> has fa NFS_ATTR_FATTR_CTIME \<and> i_ctime ino = fa_pre_ctime fa
     then (ino\<lparr>i_ctime := fa_ctime fa\<rparr>, ret OR NFS_INO_INVALID_ATTR) else (ino, ret))"

definition wcc_mtime :: "nfs_fattr \<Rightarrow> nfs_inode \<times> u64 \<Rightarrow> nfs_inode \<times> u64" where
  "wcc_mtime fa = (\<lambda>(ino, ret).
     if has fa NFS_ATTR_FATTR_PREMTIME \<and> has fa NFS_ATTR_FATTR_MTIME \<and> i_mtime ino = fa_pre_mtime fa
     then let ino = ino\<lparr>i_mtime := fa_mtime fa\<rparr>
          in (if S_ISDIR (i_mode ino) then nfs_set_cache_invalid NFS_INO_INVALID_DATA ino else ino, ret OR NFS_INO_INVALID_ATTR)
     else (ino, ret))"

definition wcc_size :: "nfs_fattr \<Rightarrow> nfs_inode \<times> u64 \<Rightarrow> nfs_inode \<times> u64" where
  "wcc_size fa = (\<lambda>(ino, ret).
     if has fa NFS_ATTR_FATTR_PRESIZE \<and> has fa NFS_ATTR_FATTR_SIZE \<and> i_size ino = nfs_size_to_loff_t (fa_pre_size fa) \<and>
        nrequests ino = 0
     then (ino\<lparr>i_size := nfs_size_to_loff_t (fa_size fa)\<rparr>, ret OR NFS_INO_INVALID_ATTR) else (ino, ret))"

definition nfs_wcc_update_inode :: "nfs_fattr \<Rightarrow> nfs_inode \<Rightarrow> nfs_inode \<times> u64" where
  "nfs_wcc_update_inode fa ino = wcc_size fa (wcc_mtime fa (wcc_ctime fa (wcc_change fa (ino, 0))))"

text \<open>\<^verbatim>\<open>nfs_check_inode_attributes\<close>: the attributes in the reply are not newer; differences only mark the cache.\<close>

definition mark_if :: "bool \<Rightarrow> u64 \<Rightarrow> u64" where
  "mark_if c flags = (if c then flags else 0)"

definition check_invalid :: "nfs_fattr \<Rightarrow> nfs_inode \<Rightarrow> u64" where
  "check_invalid fa ino =
     mark_if (has fa NFS_ATTR_FATTR_CHANGE \<and> i_version ino \<noteq> fa_change_attr fa) (NFS_INO_INVALID_ATTR OR NFS_INO_REVAL_PAGECACHE) OR
     mark_if (has fa NFS_ATTR_FATTR_MTIME \<and> i_mtime ino \<noteq> fa_mtime fa) NFS_INO_INVALID_ATTR OR
     mark_if (has fa NFS_ATTR_FATTR_SIZE \<and> i_size ino \<noteq> nfs_size_to_loff_t (fa_size fa) \<and> nrequests ino = 0)
       (NFS_INO_INVALID_ATTR OR NFS_INO_REVAL_PAGECACHE) OR
     mark_if (has fa NFS_ATTR_FATTR_MODE \<and> i_mode ino AND S_IALLUGO \<noteq> fa_mode fa AND S_IALLUGO)
       (NFS_INO_INVALID_ATTR OR NFS_INO_INVALID_ACCESS OR NFS_INO_INVALID_ACL) OR
     mark_if (has fa NFS_ATTR_FATTR_OWNER \<and> i_uid ino \<noteq> fa_uid fa) (NFS_INO_INVALID_ATTR OR NFS_INO_INVALID_ACCESS OR NFS_INO_INVALID_ACL) OR
     mark_if (has fa NFS_ATTR_FATTR_GROUP \<and> i_gid ino \<noteq> fa_gid fa) (NFS_INO_INVALID_ATTR OR NFS_INO_INVALID_ACCESS OR NFS_INO_INVALID_ACL) OR
     mark_if (has fa NFS_ATTR_FATTR_NLINK \<and> i_nlink ino \<noteq> fa_nlink fa) NFS_INO_INVALID_ATTR OR
     mark_if (has fa NFS_ATTR_FATTR_ATIME \<and> i_atime ino \<noteq> fa_atime fa) NFS_INO_INVALID_ATIME"

definition nfs_check_inode_attributes :: "inode_hooks \<Rightarrow> nfs_fattr \<Rightarrow> nfs_inode \<Rightarrow> int \<times> nfs_inode" where
  "nfs_check_inode_attributes H fa ino =
     (if nfs_have_delegated_attributes H ino then (0, ino)
      else if has fa NFS_ATTR_FATTR_FILEID \<and> fileid ino \<noteq> fa_fileid fa then (- EIO, ino)
      else if has fa NFS_ATTR_FATTR_TYPE \<and> i_mode ino AND S_IFMT \<noteq> fa_mode fa AND S_IFMT then (- EIO, ino)
      else let invalid = check_invalid fa ino;
               ino = (if invalid \<noteq> 0 then nfs_set_cache_invalid invalid ino else ino)
           in (0, ino\<lparr>read_cache_jiffies := fa_time_start fa\<rparr>))"

definition nfs_ctime_need_update :: "nfs_inode \<Rightarrow> nfs_fattr \<Rightarrow> bool" where
  "nfs_ctime_need_update ino fa \<longleftrightarrow> has fa NFS_ATTR_FATTR_CTIME \<and> timespec_compare (fa_ctime fa) (i_ctime ino) > 0"

definition nfs_size_need_update :: "nfs_inode \<Rightarrow> nfs_fattr \<Rightarrow> bool" where
  "nfs_size_need_update ino fa \<longleftrightarrow> has fa NFS_ATTR_FATTR_SIZE \<and> nfs_size_to_loff_t (fa_size fa) > i_size ino"

definition nfs_inode_attrs_need_update :: "u64 \<Rightarrow> nfs_inode \<Rightarrow> nfs_fattr \<Rightarrow> bool" where
  "nfs_inode_attrs_need_update gen ino fa \<longleftrightarrow>
     sint (fa_gencount fa - attr_gencount ino) > 0 \<or> nfs_ctime_need_update ino fa \<or> nfs_size_need_update ino fa \<or>
     sint (attr_gencount ino - gen) > 0"

definition nfs_inode_attrs_handle_layoutcommit :: "inode_hooks \<Rightarrow> nfs_inode \<Rightarrow> nfs_fattr \<Rightarrow> nfs_fattr" where
  "nfs_inode_attrs_handle_layoutcommit H ino fa =
     (if pnfs_layoutcommit_outstanding H ino
      then fa\<lparr>fa_valid := fa_valid fa AND
                NOT (NFS_ATTR_FATTR_CHANGE OR NFS_ATTR_FATTR_MTIME OR NFS_ATTR_FATTR_CTIME OR NFS_ATTR_FATTR_SIZE)\<rparr>
      else fa)"

definition nfs_fileid_valid :: "nfs_inode \<Rightarrow> nfs_fattr \<Rightarrow> bool" where
  "nfs_fileid_valid ino fa \<longleftrightarrow>
     (if has fa NFS_ATTR_FATTR_FILEID then fileid ino = fa_fileid fa else True) \<or>
     (if has fa NFS_ATTR_FATTR_MOUNTED_ON_FILEID then fileid ino = fa_mounted_on_fileid fa else True)"

text \<open>\<^verbatim>\<open>nfs_update_inode\<close>. Its blocks, each on the inode and the flags collected in \<open>invalid\<close>; \<open>save\<close> are the validity
  flags from before, of which a block puts some back when the server should have sent its attribute and did not.\<close>

definition put_back :: "bool \<Rightarrow> u64 \<Rightarrow> nfs_inode \<times> u64 \<Rightarrow> nfs_inode \<times> u64" where
  "put_back capable flags = (\<lambda>(ino, invalid).
     (if capable then ino\<lparr>cache_validity := cache_validity ino OR flags\<rparr> else ino, invalid))"

definition update_change :: "nfs_sb \<Rightarrow> u64 \<Rightarrow> nfs_fattr \<Rightarrow> nfs_inode \<times> u64 \<Rightarrow> nfs_inode \<times> u64" where
  "update_change sb save fa = (\<lambda>(ino, invalid).
     if has fa NFS_ATTR_FATTR_CHANGE
     then if i_version ino \<noteq> fa_change_attr fa
          then ((if S_ISDIR (i_mode ino) then nfs_force_lookup_revalidate ino else ino)\<lparr>i_version := fa_change_attr fa\<rparr>,
                invalid OR NFS_INO_INVALID_ATTR OR NFS_INO_INVALID_DATA OR NFS_INO_INVALID_ACCESS OR NFS_INO_INVALID_ACL OR
                  NFS_INO_REVAL_PAGECACHE)
          else (ino, invalid)
     else put_back (cap_change_attr sb) save (ino, invalid))"

definition update_mtime :: "nfs_sb \<Rightarrow> u64 \<Rightarrow> nfs_fattr \<Rightarrow> nfs_inode \<times> u64 \<Rightarrow> nfs_inode \<times> u64" where
  "update_mtime sb save fa = (\<lambda>(ino, invalid).
     if has fa NFS_ATTR_FATTR_MTIME then (ino\<lparr>i_mtime := fa_mtime fa\<rparr>, invalid)
     else put_back (cap_mtime sb) (save AND (NFS_INO_INVALID_ATTR OR NFS_INO_REVAL_FORCED)) (ino, invalid))"

definition update_ctime :: "nfs_sb \<Rightarrow> u64 \<Rightarrow> nfs_fattr \<Rightarrow> nfs_inode \<times> u64 \<Rightarrow> nfs_inode \<times> u64" where
  "update_ctime sb save fa = (\<lambda>(ino, invalid).
     if has fa NFS_ATTR_FATTR_CTIME then (ino\<lparr>i_ctime := fa_ctime fa\<rparr>, invalid)
     else put_back (cap_ctime sb) (save AND (NFS_INO_INVALID_ATTR OR NFS_INO_REVAL_FORCED)) (ino, invalid))"

definition update_size :: "u64 \<Rightarrow> nfs_fattr \<Rightarrow> nfs_inode \<times> u64 \<Rightarrow> nfs_inode \<times> u64" where
  "update_size save fa = (\<lambda>(ino, invalid).
     if has fa NFS_ATTR_FATTR_SIZE
     then let new_isize = nfs_size_to_loff_t (fa_size fa); cur_isize = i_size ino
          in if new_isize \<noteq> cur_isize \<and> (nrequests ino = 0 \<or> new_isize > cur_isize)
             then (ino\<lparr>i_size := new_isize\<rparr>,
                   (invalid OR NFS_INO_INVALID_ATTR OR NFS_INO_INVALID_DATA) AND NOT NFS_INO_REVAL_PAGECACHE)
             else (ino, invalid)
     else put_back True (save AND (NFS_INO_INVALID_ATTR OR NFS_INO_REVAL_PAGECACHE OR NFS_INO_REVAL_FORCED)) (ino, invalid))"

definition update_atime :: "nfs_sb \<Rightarrow> u64 \<Rightarrow> nfs_fattr \<Rightarrow> nfs_inode \<times> u64 \<Rightarrow> nfs_inode \<times> u64" where
  "update_atime sb save fa = (\<lambda>(ino, invalid).
     if has fa NFS_ATTR_FATTR_ATIME then (ino\<lparr>i_atime := fa_atime fa\<rparr>, invalid)
     else put_back (cap_atime sb) (save AND (NFS_INO_INVALID_ATIME OR NFS_INO_REVAL_FORCED)) (ino, invalid))"

abbreviation (input) INVALID_ACCESS_BITS :: u64 where
  "INVALID_ACCESS_BITS \<equiv> NFS_INO_INVALID_ATTR OR NFS_INO_INVALID_ACCESS OR NFS_INO_INVALID_ACL"

definition update_mode :: "nfs_sb \<Rightarrow> u64 \<Rightarrow> nfs_fattr \<Rightarrow> nfs_inode \<times> u64 \<Rightarrow> nfs_inode \<times> u64" where
  "update_mode sb save fa = (\<lambda>(ino, invalid).
     if has fa NFS_ATTR_FATTR_MODE
     then if i_mode ino AND S_IALLUGO \<noteq> fa_mode fa AND S_IALLUGO
          then (ino\<lparr>i_mode := (i_mode ino AND S_IFMT) OR (fa_mode fa AND S_IALLUGO)\<rparr>, invalid OR INVALID_ACCESS_BITS)
          else (ino, invalid)
     else put_back (cap_mode sb) (save AND (INVALID_ACCESS_BITS OR NFS_INO_REVAL_FORCED)) (ino, invalid))"

definition update_owner :: "nfs_sb \<Rightarrow> u64 \<Rightarrow> nfs_fattr \<Rightarrow> nfs_inode \<times> u64 \<Rightarrow> nfs_inode \<times> u64" where
  "update_owner sb save fa = (\<lambda>(ino, invalid).
     if has fa NFS_ATTR_FATTR_OWNER
     then if i_uid ino \<noteq> fa_uid fa then (ino\<lparr>i_uid := fa_uid fa\<rparr>, invalid OR INVALID_ACCESS_BITS) else (ino, invalid)
     else put_back (cap_owner sb) (save AND (INVALID_ACCESS_BITS OR NFS_INO_REVAL_FORCED)) (ino, invalid))"

definition update_group :: "nfs_sb \<Rightarrow> u64 \<Rightarrow> nfs_fattr \<Rightarrow> nfs_inode \<times> u64 \<Rightarrow> nfs_inode \<times> u64" where
  "update_group sb save fa = (\<lambda>(ino, invalid).
     if has fa NFS_ATTR_FATTR_GROUP
     then if i_gid ino \<noteq> fa_gid fa then (ino\<lparr>i_gid := fa_gid fa\<rparr>, invalid OR INVALID_ACCESS_BITS) else (ino, invalid)
     else put_back (cap_owner_group sb) (save AND (INVALID_ACCESS_BITS OR NFS_INO_REVAL_FORCED)) (ino, invalid))"

definition update_nlink :: "nfs_sb \<Rightarrow> u64 \<Rightarrow> nfs_fattr \<Rightarrow> nfs_inode \<times> u64 \<Rightarrow> nfs_inode \<times> u64" where
  "update_nlink sb save fa = (\<lambda>(ino, invalid).
     if has fa NFS_ATTR_FATTR_NLINK
     then if i_nlink ino \<noteq> fa_nlink fa
          then (ino\<lparr>i_nlink := fa_nlink fa\<rparr>,
                invalid OR NFS_INO_INVALID_ATTR OR (if S_ISDIR (i_mode ino) then NFS_INO_INVALID_DATA else 0))
          else (ino, invalid)
     else put_back (cap_nlink sb) (save AND (NFS_INO_INVALID_ATTR OR NFS_INO_REVAL_FORCED)) (ino, invalid))"

definition update_blocks :: "nfs_fattr \<Rightarrow> nfs_inode \<times> u64 \<Rightarrow> nfs_inode \<times> u64" where
  "update_blocks fa = (\<lambda>(ino, invalid).
     let ino = (if has fa NFS_ATTR_FATTR_SPACE_USED then ino\<lparr>i_blocks := nfs_calc_block_size (fa_used fa)\<rparr> else ino)
     in (if has fa NFS_ATTR_FATTR_BLOCKS_USED then ino\<lparr>i_blocks := ucast (fa_blocks fa)\<rparr> else ino, invalid))"

definition update_attrs :: "nfs_sb \<Rightarrow> u64 \<Rightarrow> nfs_fattr \<Rightarrow> nfs_inode \<times> u64 \<Rightarrow> nfs_inode \<times> u64" where
  "update_attrs sb save fa x =
     update_blocks fa (update_nlink sb save fa (update_group sb save fa (update_owner sb save fa (update_mode sb save fa
       (update_atime sb save fa (update_size save fa (update_ctime sb save fa (update_mtime sb save fa (update_change sb save fa x)))))))))"

text \<open>The end of \<^verbatim>\<open>nfs_update_inode\<close>: the timeout restarts after a change, and doubles up to its maximum without one.\<close>

definition update_timeout :: "u64 \<Rightarrow> inode_state \<Rightarrow> inode_state" where
  "update_timeout invalid s =
     (let ino = the_inode s
      in if invalid AND NFS_INO_INVALID_ATTR \<noteq> 0
         then s\<lparr>generation := generation s + 1,
                the_inode := ino\<lparr>attrtimeo := ucast (NFS_MINATTRTIMEO (the_sb s) ino), attrtimeo_timestamp := now s,
                                 attr_gencount := generation s + 1\<rparr>\<rparr>
         else if \<not> time_in_range_open (now s) (attrtimeo_timestamp ino) (attrtimeo_timestamp ino + attrtimeo ino)
         then let t = push_bit 1 (attrtimeo ino)
              in s\<lparr>the_inode := ino\<lparr>attrtimeo := if t > ucast (NFS_MAXATTRTIMEO (the_sb s) ino) then ucast (NFS_MAXATTRTIMEO (the_sb s) ino) else t,
                                    attrtimeo_timestamp := now s\<rparr>\<rparr>
         else s)"

text \<open>The start, and what happens to the collected flags: nothing of the attributes is invalid any more, data caches are
  only kept for files, directories and links, and a delegation protects the rest.\<close>

definition update_start :: "nfs_fattr \<Rightarrow> nfs_inode \<Rightarrow> nfs_inode" where
  "update_start fa ino = ino\<lparr>read_cache_jiffies := fa_time_start fa,
     cache_validity := cache_validity ino AND
       NOT (NFS_INO_INVALID_ATTR OR NFS_INO_INVALID_ATIME OR NFS_INO_REVAL_FORCED OR NFS_INO_REVAL_PAGECACHE)\<rparr>"

definition update_fsid :: "nfs_fattr \<Rightarrow> nfs_inode \<Rightarrow> nfs_sb \<Rightarrow> nfs_sb" where
  "update_fsid fa ino sb =
     (if S_ISDIR (i_mode ino) \<and> has fa NFS_ATTR_FATTR_FSID \<and> sb_fsid sb \<noteq> fa_fsid fa \<and> \<not> i_automount ino
      then sb\<lparr>sb_fsid := fa_fsid fa\<rparr> else sb)"

definition update_finish :: "inode_hooks \<Rightarrow> u64 \<Rightarrow> u64 \<Rightarrow> inode_state \<Rightarrow> inode_state" where
  "update_finish H save invalid s =
     (let ino = the_inode s;
          invalid = invalid AND NOT NFS_INO_INVALID_ATTR;
          invalid = (if S_ISREG (i_mode ino) \<or> S_ISDIR (i_mode ino) \<or> S_ISLNK (i_mode ino) then invalid
                     else invalid AND NOT NFS_INO_INVALID_DATA)
      in if \<not> have_read_delegation H ino \<or> save AND NFS_INO_REVAL_FORCED \<noteq> 0
         then s\<lparr>the_inode := nfs_set_cache_invalid invalid ino\<rparr> else s)"

definition nfs_update_inode :: "inode_hooks \<Rightarrow> nfs_fattr \<Rightarrow> inode_state \<Rightarrow> int \<times> inode_state" where
  "nfs_update_inode H fa s =
     (let ino = the_inode s; sb = the_sb s
      in if \<not> nfs_fileid_valid ino fa then (- ESTALE, s\<lparr>the_inode := nfs_invalidate_inode H sb (now s) ino\<rparr>)
         else if has fa NFS_ATTR_FATTR_TYPE \<and> i_mode ino AND S_IFMT \<noteq> fa_mode fa AND S_IFMT
         then (- ESTALE, s\<lparr>the_inode := nfs_invalidate_inode H sb (now s) ino\<rparr>)
         else
           let sb = update_fsid fa ino sb;
               save = cache_validity ino;
               (ino, invalid) = update_attrs sb save fa (nfs_wcc_update_inode fa (update_start fa ino))
           in (0, update_finish H save invalid (update_timeout invalid (s\<lparr>the_inode := ino, the_sb := sb\<rparr>))))"

definition nfs_refresh_inode_locked :: "inode_hooks \<Rightarrow> nfs_fattr \<Rightarrow> inode_state \<Rightarrow> int \<times> inode_state" where
  "nfs_refresh_inode_locked H fa s =
     (let fa = nfs_inode_attrs_handle_layoutcommit H (the_inode s) fa
      in if nfs_inode_attrs_need_update (generation s) (the_inode s) fa then nfs_update_inode H fa s
         else let (ret, ino) = nfs_check_inode_attributes H fa (the_inode s) in (ret, s\<lparr>the_inode := ino\<rparr>))"

definition nfs_refresh_inode :: "inode_hooks \<Rightarrow> nfs_fattr \<Rightarrow> inode_state \<Rightarrow> int \<times> inode_state" where
  "nfs_refresh_inode H fa s = (if \<not> has fa NFS_ATTR_FATTR then (0, s) else nfs_refresh_inode_locked H fa s)"

definition nfs_post_op_update_inode_locked :: "inode_hooks \<Rightarrow> nfs_fattr \<Rightarrow> inode_state \<Rightarrow> int \<times> inode_state" where
  "nfs_post_op_update_inode_locked H fa s =
     (let ino = the_inode s;
          invalid = NFS_INO_INVALID_ATTR OR NFS_INO_REVAL_PAGECACHE OR (if S_ISDIR (i_mode ino) then NFS_INO_INVALID_DATA else 0);
          s = s\<lparr>the_inode := nfs_set_cache_invalid invalid ino\<rparr>
      in if \<not> has fa NFS_ATTR_FATTR then (0, s) else nfs_refresh_inode_locked H fa s)"

definition nfs_post_op_update_inode :: "inode_hooks \<Rightarrow> nfs_fattr \<Rightarrow> inode_state \<Rightarrow> int \<times> inode_state" where
  "nfs_post_op_update_inode H fa s = nfs_post_op_update_inode_locked H fa s"

text \<open>\<^verbatim>\<open>nfs_post_op_update_inode_force_wcc\<close> pretends that the cached attributes are those from before the operation.\<close>

definition force_wcc :: "nfs_inode \<Rightarrow> nfs_fattr \<Rightarrow> nfs_fattr" where
  "force_wcc ino fa =
     (let fa = (if has fa NFS_ATTR_FATTR_CHANGE \<and> \<not> has fa NFS_ATTR_FATTR_PRECHANGE
                then fa\<lparr>fa_pre_change_attr := i_version ino, fa_valid := fa_valid fa OR NFS_ATTR_FATTR_PRECHANGE\<rparr> else fa);
          fa = (if has fa NFS_ATTR_FATTR_CTIME \<and> \<not> has fa NFS_ATTR_FATTR_PRECTIME
                then fa\<lparr>fa_pre_ctime := i_ctime ino, fa_valid := fa_valid fa OR NFS_ATTR_FATTR_PRECTIME\<rparr> else fa);
          fa = (if has fa NFS_ATTR_FATTR_MTIME \<and> \<not> has fa NFS_ATTR_FATTR_PREMTIME
                then fa\<lparr>fa_pre_mtime := i_mtime ino, fa_valid := fa_valid fa OR NFS_ATTR_FATTR_PREMTIME\<rparr> else fa)
      in if has fa NFS_ATTR_FATTR_SIZE \<and> \<not> has fa NFS_ATTR_FATTR_PRESIZE
         then fa\<lparr>fa_pre_size := of_int (i_size ino), fa_valid := fa_valid fa OR NFS_ATTR_FATTR_PRESIZE\<rparr> else fa)"

definition nfs_post_op_update_inode_force_wcc :: "inode_hooks \<Rightarrow> nfs_fattr \<Rightarrow> inode_state \<Rightarrow> int \<times> inode_state" where
  "nfs_post_op_update_inode_force_wcc H fa s =
     (if \<not> has fa NFS_ATTR_FATTR \<or> \<not> nfs_inode_attrs_need_update (generation s) (the_inode s) fa
      then nfs_post_op_update_inode_locked H
             (fa\<lparr>fa_valid := fa_valid fa AND NOT (NFS_ATTR_FATTR_PRECHANGE OR NFS_ATTR_FATTR_PRESIZE OR
                                                  NFS_ATTR_FATTR_PREMTIME OR NFS_ATTR_FATTR_PRECTIME)\<rparr>) s
      else nfs_post_op_update_inode_locked H (force_wcc (the_inode s) fa) s)"

end
