(* ===== verification/Nfs_Inode_Correct.thy ===== *)
theory Nfs_Inode_Correct
  imports Nfs_Inode
begin

text \<open>
  What the attribute cache guarantees: an update takes over exactly the attributes the reply has (a refinement of
  \<open>apply_fattr\<close>), a reply that is not newer changes none, an inode that has become another object is marked stale, and the
  timeout stays between its limits.
\<close>

section \<open>The abstract cache\<close>

text \<open>The cached attributes, without validity flags and timeouts.\<close>

definition attrs_view :: "nfs_inode \<Rightarrow> nfs_inode" where
  "attrs_view ino = ino\<lparr>cache_validity := 0, cache_change_attribute := 0, read_cache_jiffies := 0, attrtimeo := 0, attrtimeo_timestamp := 0, attr_gencount := 0\<rparr>"

text \<open>Taking over what a reply has: a size is not reduced while writes are outstanding, the type of the file is kept.\<close>

definition apply_fattr :: "nfs_fattr \<Rightarrow> nfs_inode \<Rightarrow> nfs_inode" where
  "apply_fattr fa ino = ino\<lparr>
     i_version := if has fa NFS_ATTR_FATTR_CHANGE then fa_change_attr fa else i_version ino,
     i_mtime := if has fa NFS_ATTR_FATTR_MTIME then fa_mtime fa else i_mtime ino,
     i_ctime := if has fa NFS_ATTR_FATTR_CTIME then fa_ctime fa else i_ctime ino,
     i_size := if has fa NFS_ATTR_FATTR_SIZE \<and> (nrequests ino = 0 \<or> nfs_size_to_loff_t (fa_size fa) > i_size ino)
               then nfs_size_to_loff_t (fa_size fa) else i_size ino,
     i_atime := if has fa NFS_ATTR_FATTR_ATIME then fa_atime fa else i_atime ino,
     i_mode := if has fa NFS_ATTR_FATTR_MODE then (i_mode ino AND S_IFMT) OR (fa_mode fa AND S_IALLUGO) else i_mode ino,
     i_uid := if has fa NFS_ATTR_FATTR_OWNER then fa_uid fa else i_uid ino,
     i_gid := if has fa NFS_ATTR_FATTR_GROUP then fa_gid fa else i_gid ino,
     i_nlink := if has fa NFS_ATTR_FATTR_NLINK then fa_nlink fa else i_nlink ino,
     i_blocks := if has fa NFS_ATTR_FATTR_BLOCKS_USED then ucast (fa_blocks fa)
                 else if has fa NFS_ATTR_FATTR_SPACE_USED then nfs_calc_block_size (fa_used fa) else i_blocks ino\<rparr>"

lemma mode_split: "(m AND S_IFMT) OR (m AND S_IALLUGO) = (m :: u16)"
proof -
  have "(m AND S_IFMT) OR (m AND S_IALLUGO) = m AND (S_IFMT OR S_IALLUGO)" by (simp only: bit.conj_disj_distrib)
  also have "S_IFMT OR S_IALLUGO = (- 1 :: u16)" by simp
  finally show ?thesis by simp
qed

named_theorems view_simps

lemma view_set_cache_invalid [view_simps]: "attrs_view (nfs_set_cache_invalid f ino) = attrs_view ino"
  by (simp add: nfs_set_cache_invalid_def attrs_view_def)

text \<open>The fields an update reads are those of the view.\<close>

lemma view_fields:
  "i_version (attrs_view ino) = i_version ino" "i_mtime (attrs_view ino) = i_mtime ino" "i_ctime (attrs_view ino) = i_ctime ino"
  "i_size (attrs_view ino) = i_size ino" "i_atime (attrs_view ino) = i_atime ino" "i_mode (attrs_view ino) = i_mode ino"
  "i_uid (attrs_view ino) = i_uid ino" "i_gid (attrs_view ino) = i_gid ino" "i_nlink (attrs_view ino) = i_nlink ino"
  "i_blocks (attrs_view ino) = i_blocks ino" "nrequests (attrs_view ino) = nrequests ino" "fileid (attrs_view ino) = fileid ino"
  by (simp_all add: attrs_view_def)

text \<open>The parts of an update, block by block.\<close>

lemma view_wcc [view_simps]:
  "attrs_view (fst (wcc_change fa x)) = (let ino = attrs_view (fst x) in
     if has fa NFS_ATTR_FATTR_PRECHANGE \<and> has fa NFS_ATTR_FATTR_CHANGE \<and> i_version ino = fa_pre_change_attr fa
     then ino\<lparr>i_version := fa_change_attr fa\<rparr> else ino)"
  "attrs_view (fst (wcc_ctime fa x)) = (let ino = attrs_view (fst x) in
     if has fa NFS_ATTR_FATTR_PRECTIME \<and> has fa NFS_ATTR_FATTR_CTIME \<and> i_ctime ino = fa_pre_ctime fa
     then ino\<lparr>i_ctime := fa_ctime fa\<rparr> else ino)"
  "attrs_view (fst (wcc_mtime fa x)) = (let ino = attrs_view (fst x) in
     if has fa NFS_ATTR_FATTR_PREMTIME \<and> has fa NFS_ATTR_FATTR_MTIME \<and> i_mtime ino = fa_pre_mtime fa
     then ino\<lparr>i_mtime := fa_mtime fa\<rparr> else ino)"
  "attrs_view (fst (wcc_size fa x)) = (let ino = attrs_view (fst x) in
     if has fa NFS_ATTR_FATTR_PRESIZE \<and> has fa NFS_ATTR_FATTR_SIZE \<and> i_size ino = nfs_size_to_loff_t (fa_pre_size fa) \<and> nrequests ino = 0
     then ino\<lparr>i_size := nfs_size_to_loff_t (fa_size fa)\<rparr> else ino)"
  by (cases x; simp add: wcc_change_def wcc_ctime_def wcc_mtime_def wcc_size_def Let_def view_fields;
      simp add: attrs_view_def nfs_set_cache_invalid_def)+

lemma view_update [view_simps]:
  "attrs_view (fst (update_change sb save fa x)) =
     i_version_update (\<lambda>v. if has fa NFS_ATTR_FATTR_CHANGE then fa_change_attr fa else v) (attrs_view (fst x))"
  "attrs_view (fst (update_mtime sb save fa x)) =
     i_mtime_update (\<lambda>t. if has fa NFS_ATTR_FATTR_MTIME then fa_mtime fa else t) (attrs_view (fst x))"
  "attrs_view (fst (update_ctime sb save fa x)) =
     i_ctime_update (\<lambda>t. if has fa NFS_ATTR_FATTR_CTIME then fa_ctime fa else t) (attrs_view (fst x))"
  "attrs_view (fst (update_size save fa x)) =
     i_size_update (\<lambda>z. if has fa NFS_ATTR_FATTR_SIZE \<and> (nrequests (attrs_view (fst x)) = 0 \<or> nfs_size_to_loff_t (fa_size fa) > z)
                        then nfs_size_to_loff_t (fa_size fa) else z) (attrs_view (fst x))"
  "attrs_view (fst (update_atime sb save fa x)) =
     i_atime_update (\<lambda>t. if has fa NFS_ATTR_FATTR_ATIME then fa_atime fa else t) (attrs_view (fst x))"
  "attrs_view (fst (update_owner sb save fa x)) =
     i_uid_update (\<lambda>u. if has fa NFS_ATTR_FATTR_OWNER then fa_uid fa else u) (attrs_view (fst x))"
  "attrs_view (fst (update_group sb save fa x)) =
     i_gid_update (\<lambda>g. if has fa NFS_ATTR_FATTR_GROUP then fa_gid fa else g) (attrs_view (fst x))"
  "attrs_view (fst (update_nlink sb save fa x)) =
     i_nlink_update (\<lambda>n. if has fa NFS_ATTR_FATTR_NLINK then fa_nlink fa else n) (attrs_view (fst x))"
  "attrs_view (fst (update_blocks fa x)) =
     i_blocks_update (\<lambda>b. if has fa NFS_ATTR_FATTR_BLOCKS_USED then ucast (fa_blocks fa)
                          else if has fa NFS_ATTR_FATTR_SPACE_USED then nfs_calc_block_size (fa_used fa) else b) (attrs_view (fst x))"
  by (cases x; auto simp: update_change_def update_mtime_def update_ctime_def update_size_def update_atime_def update_owner_def
      update_group_def update_nlink_def update_blocks_def put_back_def nfs_force_lookup_revalidate_def attrs_view_def Let_def)+

lemma view_update_mode [view_simps]:
  "attrs_view (fst (update_mode sb save fa x)) =
     i_mode_update (\<lambda>m. if has fa NFS_ATTR_FATTR_MODE then (m AND S_IFMT) OR (fa_mode fa AND S_IALLUGO) else m) (attrs_view (fst x))"
proof (cases x)
  case (Pair ino invalid)
  show ?thesis
  proof (cases "i_mode ino AND S_IALLUGO = fa_mode fa AND S_IALLUGO")
    case True
    with mode_split [of "i_mode ino"] Pair show ?thesis
      by (auto simp: update_mode_def put_back_def attrs_view_def Let_def)
  qed (auto simp: Pair update_mode_def put_back_def attrs_view_def Let_def)
qed

lemma view_update_timeout [view_simps]: "attrs_view (the_inode (update_timeout f s)) = attrs_view (the_inode s)"
  by (simp add: update_timeout_def attrs_view_def Let_def)

lemma view_wcc_shape:
  "\<exists>v. attrs_view (fst (wcc_change fa x)) = (attrs_view (fst x))\<lparr>i_version := v\<rparr> \<and>
     (has fa NFS_ATTR_FATTR_CHANGE \<or> v = i_version (attrs_view (fst x)))"
  "\<exists>c. attrs_view (fst (wcc_ctime fa x)) = (attrs_view (fst x))\<lparr>i_ctime := c\<rparr> \<and>
     (has fa NFS_ATTR_FATTR_CTIME \<or> c = i_ctime (attrs_view (fst x)))"
  "\<exists>m. attrs_view (fst (wcc_mtime fa x)) = (attrs_view (fst x))\<lparr>i_mtime := m\<rparr> \<and>
     (has fa NFS_ATTR_FATTR_MTIME \<or> m = i_mtime (attrs_view (fst x)))"
  "\<exists>z. attrs_view (fst (wcc_size fa x)) = (attrs_view (fst x))\<lparr>i_size := z\<rparr> \<and>
     (has fa NFS_ATTR_FATTR_SIZE \<and> nrequests (attrs_view (fst x)) = 0 \<or> z = i_size (attrs_view (fst x)))"
proof -
  have same: "r\<lparr>i_version := i_version r\<rparr> = r" "r\<lparr>i_ctime := i_ctime r\<rparr> = r" "r\<lparr>i_mtime := i_mtime r\<rparr> = r" "r\<lparr>i_size := i_size r\<rparr> = r"
    for r :: nfs_inode by simp_all
  show "\<exists>v. attrs_view (fst (wcc_change fa x)) = (attrs_view (fst x))\<lparr>i_version := v\<rparr> \<and>
     (has fa NFS_ATTR_FATTR_CHANGE \<or> v = i_version (attrs_view (fst x)))"
    unfolding view_wcc Let_def using same by metis
  show "\<exists>c. attrs_view (fst (wcc_ctime fa x)) = (attrs_view (fst x))\<lparr>i_ctime := c\<rparr> \<and>
     (has fa NFS_ATTR_FATTR_CTIME \<or> c = i_ctime (attrs_view (fst x)))"
    unfolding view_wcc Let_def using same by metis
  show "\<exists>m. attrs_view (fst (wcc_mtime fa x)) = (attrs_view (fst x))\<lparr>i_mtime := m\<rparr> \<and>
     (has fa NFS_ATTR_FATTR_MTIME \<or> m = i_mtime (attrs_view (fst x)))"
    unfolding view_wcc Let_def using same by metis
  show "\<exists>z. attrs_view (fst (wcc_size fa x)) = (attrs_view (fst x))\<lparr>i_size := z\<rparr> \<and>
     (has fa NFS_ATTR_FATTR_SIZE \<and> nrequests (attrs_view (fst x)) = 0 \<or> z = i_size (attrs_view (fst x)))"
    unfolding view_wcc Let_def using same by metis
qed

lemma update_attrs_view:
  "attrs_view (fst (update_attrs sb save fa (nfs_wcc_update_inode fa ino))) = apply_fattr fa (attrs_view ino)"
proof -
  obtain v where v: "attrs_view (fst (wcc_change fa (ino, 0))) = (attrs_view ino)\<lparr>i_version := v\<rparr>"
    "has fa NFS_ATTR_FATTR_CHANGE \<or> v = i_version (attrs_view ino)"
    using view_wcc_shape(1) [of fa "(ino, 0)"] by auto
  obtain c where c: "attrs_view (fst (wcc_ctime fa (wcc_change fa (ino, 0)))) = (attrs_view ino)\<lparr>i_version := v, i_ctime := c\<rparr>"
    "has fa NFS_ATTR_FATTR_CTIME \<or> c = i_ctime (attrs_view ino)"
    using view_wcc_shape(2) [of fa "wcc_change fa (ino, 0)"] v(1) by auto
  obtain m where m: "attrs_view (fst (wcc_mtime fa (wcc_ctime fa (wcc_change fa (ino, 0))))) =
      (attrs_view ino)\<lparr>i_version := v, i_ctime := c, i_mtime := m\<rparr>" "has fa NFS_ATTR_FATTR_MTIME \<or> m = i_mtime (attrs_view ino)"
    using view_wcc_shape(3) [of fa "wcc_ctime fa (wcc_change fa (ino, 0))"] c(1) by auto
  obtain z where z: "attrs_view (fst (nfs_wcc_update_inode fa ino)) =
      (attrs_view ino)\<lparr>i_version := v, i_ctime := c, i_mtime := m, i_size := z\<rparr>"
    "has fa NFS_ATTR_FATTR_SIZE \<and> nrequests (attrs_view ino) = 0 \<or> z = i_size (attrs_view ino)"
    using view_wcc_shape(4) [of fa "wcc_mtime fa (wcc_ctime fa (wcc_change fa (ino, 0)))"] m(1)
    unfolding nfs_wcc_update_inode_def by auto
  have "attrs_view (fst (update_attrs sb save fa (nfs_wcc_update_inode fa ino))) =
      apply_fattr fa ((attrs_view ino)\<lparr>i_version := v, i_ctime := c, i_mtime := m, i_size := z\<rparr>)"
    unfolding update_attrs_def view_update view_update_mode z(1) apply_fattr_def
    by (rule nfs_inode.equality) (simp_all, blast)
  also have "\<dots> = apply_fattr fa (attrs_view ino)"
    using v(2) c(2) m(2) z(2) unfolding apply_fattr_def by (intro nfs_inode.equality) auto
  finally show ?thesis .
qed

text \<open>A reply is for another object when its file id or its type differs.\<close>

definition same_object :: "nfs_inode \<Rightarrow> nfs_fattr \<Rightarrow> bool" where
  "same_object ino fa \<longleftrightarrow> nfs_fileid_valid ino fa \<and>
     (has fa NFS_ATTR_FATTR_TYPE \<longrightarrow> i_mode ino AND S_IFMT = fa_mode fa AND S_IFMT)"

section \<open>Updates\<close>

text \<open>The result of an update of the same object.\<close>

lemma nfs_update_inode_same:
  fixes s fa H
  defines "x \<equiv> update_attrs (update_fsid fa (the_inode s) (the_sb s)) (cache_validity (the_inode s)) fa
    (nfs_wcc_update_inode fa (update_start fa (the_inode s)))"
  assumes "same_object (the_inode s) fa"
  shows "nfs_update_inode H fa s = (0, update_finish H (cache_validity (the_inode s)) (snd x)
    (update_timeout (snd x) (s\<lparr>the_inode := fst x, the_sb := update_fsid fa (the_inode s) (the_sb s)\<rparr>)))"
  using assms by (simp add: nfs_update_inode_def same_object_def Let_def case_prod_beta)

lemma view_update_finish [view_simps]: "attrs_view (the_inode (update_finish H save f s)) = attrs_view (the_inode s)"
  by (simp add: update_finish_def Let_def view_set_cache_invalid)

lemma view_update_start [view_simps]: "attrs_view (update_start fa ino) = attrs_view ino"
  by (simp add: update_start_def attrs_view_def)

lemma nfs_update_inode_view:
  assumes "same_object (the_inode s) fa"
  shows "attrs_view (the_inode (snd (nfs_update_inode H fa s))) = apply_fattr fa (attrs_view (the_inode s))"
  unfolding nfs_update_inode_same [OF assms] by (simp add: view_simps update_attrs_view)

text \<open>What the label cache may do to an inode when the caches are dropped.\<close>

definition label_law :: "inode_hooks \<Rightarrow> bool" where
  "label_law H \<longleftrightarrow> (\<forall>ino. \<exists>m. nfs_zap_label_cache_locked H ino = ino\<lparr>cache_validity := cache_validity ino OR m\<rparr>)"

lemma set_cache_invalid_shape:
  "\<exists>m. nfs_set_cache_invalid f ino = ino\<lparr>cache_validity := cache_validity ino OR m\<rparr> \<and> (bit f 0 \<longrightarrow> bit m 0)"
  by (intro exI [of _ "if i_nrpages ino = 0 then f AND NOT NFS_INO_INVALID_DATA else f"])
    (simp add: nfs_set_cache_invalid_def Let_def bit_and_iff bit_not_iff)

lemma zap_caches_shape:
  assumes "label_law H"
  shows "\<exists>m. bit m 0 \<and> nfs_zap_caches_locked H sb j ino = ino\<lparr>attrtimeo := ucast (NFS_MINATTRTIMEO sb ino),
    attrtimeo_timestamp := j, cookieverf := (0, 0), cache_validity := cache_validity ino OR m\<rparr>"
proof -
  let ?ino = "ino\<lparr>attrtimeo := ucast (NFS_MINATTRTIMEO sb ino), attrtimeo_timestamp := j, cookieverf := (0, 0)\<rparr>"
  obtain f where f: "bit (f :: u64) 0" "nfs_zap_caches_locked H sb j ino = nfs_zap_label_cache_locked H (nfs_set_cache_invalid f ?ino)"
  proof (cases "S_ISREG (i_mode ino) \<or> S_ISDIR (i_mode ino) \<or> S_ISLNK (i_mode ino)")
    case True
    then show thesis by (intro that [of "0x3B"]) (simp_all add: nfs_zap_caches_locked_def Let_def)
  next
    case False
    then show thesis by (intro that [of "0x39"]) (simp_all add: nfs_zap_caches_locked_def Let_def)
  qed
  obtain m where m: "nfs_set_cache_invalid f ?ino = ?ino\<lparr>cache_validity := cache_validity ?ino OR m\<rparr>" "bit m 0"
    using set_cache_invalid_shape [of f ?ino] f(1) by blast
  let ?ino' = "?ino\<lparr>cache_validity := cache_validity ?ino OR m\<rparr>"
  obtain m' where "nfs_zap_label_cache_locked H ?ino' = ?ino'\<lparr>cache_validity := cache_validity ?ino' OR m'\<rparr>"
    using assms unfolding label_law_def by blast
  then show ?thesis using f(2) m by (intro exI [of _ "m OR m'"]) (simp add: bit_or_iff or.assoc)
qed

lemma nfs_update_inode_stale:
  assumes "\<not> same_object (the_inode s) fa" and "label_law H"
  shows "\<exists>m. bit m 0 \<and> nfs_update_inode H fa s = (- ESTALE, s\<lparr>the_inode := (the_inode s)\<lparr>ino_stale := True,
    attrtimeo := ucast (NFS_MINATTRTIMEO (the_sb s) (the_inode s)), attrtimeo_timestamp := now s, cookieverf := (0, 0),
    cache_validity := cache_validity (the_inode s) OR m\<rparr>\<rparr>)"
proof -
  have out: "nfs_update_inode H fa s = (- ESTALE, s\<lparr>the_inode := nfs_invalidate_inode H (the_sb s) (now s) (the_inode s)\<rparr>)"
    using assms(1) by (auto simp: nfs_update_inode_def same_object_def Let_def)
  have min: "NFS_MINATTRTIMEO (the_sb s) ((the_inode s)\<lparr>ino_stale := True\<rparr>) = NFS_MINATTRTIMEO (the_sb s) (the_inode s)"
    by (simp add: NFS_MINATTRTIMEO_def)
  from zap_caches_shape [OF assms(2), of "the_sb s" "now s" "(the_inode s)\<lparr>ino_stale := True\<rparr>"]
  obtain m where "bit m 0" "nfs_invalidate_inode H (the_sb s) (now s) (the_inode s) = (the_inode s)\<lparr>ino_stale := True,
      attrtimeo := ucast (NFS_MINATTRTIMEO (the_sb s) (the_inode s)), attrtimeo_timestamp := now s, cookieverf := (0, 0),
      cache_validity := cache_validity (the_inode s) OR m\<rparr>"
    unfolding nfs_invalidate_inode_def min by auto
  then show ?thesis unfolding out by (intro exI [of _ m]) simp
qed

section \<open>Replies that are not newer\<close>

lemma nfs_check_inode_attributes_view:
  "attrs_view (snd (nfs_check_inode_attributes H fa ino)) = attrs_view ino"
  unfolding nfs_check_inode_attributes_def Let_def
  by (simp add: attrs_view_def nfs_set_cache_invalid_def)

text \<open>A difference between the reply and the cache is noticed.\<close>

lemma check_invalid_attr:
  assumes "has fa NFS_ATTR_FATTR_CHANGE \<and> i_version ino \<noteq> fa_change_attr fa \<or> has fa NFS_ATTR_FATTR_MTIME \<and> i_mtime ino \<noteq> fa_mtime fa \<or>
    has fa NFS_ATTR_FATTR_NLINK \<and> i_nlink ino \<noteq> fa_nlink fa \<or> has fa NFS_ATTR_FATTR_OWNER \<and> i_uid ino \<noteq> fa_uid fa \<or>
    has fa NFS_ATTR_FATTR_GROUP \<and> i_gid ino \<noteq> fa_gid fa"
  shows "bit (check_invalid fa ino) 0"
  using assms unfolding check_invalid_def by (auto simp: mark_if_def bit_or_iff)

section \<open>The timeout\<close>

definition timeout_ok :: "nfs_sb \<Rightarrow> nfs_inode \<Rightarrow> bool" where
  "timeout_ok sb ino \<longleftrightarrow> unat (NFS_MINATTRTIMEO sb ino) \<le> unat (attrtimeo ino) \<and> unat (attrtimeo ino) \<le> unat (NFS_MAXATTRTIMEO sb ino)"

lemma unat_ucast_u32 [simp]: "unat (ucast (x :: u32) :: u64) = unat x"
proof -
  have "unat x < 2 ^ 64" using unsigned_less [of x, where 'a = nat] by simp
  then show ?thesis by (simp add: unsigned_ucast_eq take_bit_nat_eq_self)
qed

lemma double_timeout:
  assumes "unat (t :: u64) \<le> unat (m :: u32)"
  shows "unat (push_bit 1 t) = 2 * unat t"
proof -
  have "unat m < 2 ^ 32" using unsigned_less [of m, where 'a = nat] by simp
  with assms have "2 * unat t < 2 ^ 64" by simp
  then show ?thesis by (simp add: unat_word_ariths)
qed

lemma update_timeout_ok:
  assumes "timeout_ok (the_sb s) (the_inode s)" and "NFS_MINATTRTIMEO (the_sb s) (the_inode s) \<le> NFS_MAXATTRTIMEO (the_sb s) (the_inode s)"
  shows "timeout_ok (the_sb s) (the_inode (update_timeout f s))"
  using assms double_timeout [of "attrtimeo (the_inode s)" "NFS_MAXATTRTIMEO (the_sb s) (the_inode s)"]
  by (auto simp: timeout_ok_def update_timeout_def Let_def NFS_MINATTRTIMEO_def NFS_MAXATTRTIMEO_def word_less_nat_alt word_le_nat_alt
      simp del: push_bit_of_1)

text \<open>The blocks of an update leave the timers alone and keep a reported change.\<close>

definition timers :: "nfs_inode \<Rightarrow> u64 \<times> u64 \<times> u64" where
  "timers ino = (attrtimeo ino, attrtimeo_timestamp ino, attr_gencount ino)"

lemmas block_defs = wcc_change_def wcc_ctime_def wcc_mtime_def wcc_size_def update_change_def update_mtime_def update_ctime_def
  update_size_def update_atime_def update_mode_def update_owner_def update_group_def update_nlink_def update_blocks_def put_back_def
  nfs_force_lookup_revalidate_def nfs_set_cache_invalid_def Let_def

lemma timers_blocks [simp]:
  "timers (fst (wcc_change fa x)) = timers (fst x)" "timers (fst (wcc_ctime fa x)) = timers (fst x)"
  "timers (fst (wcc_mtime fa x)) = timers (fst x)" "timers (fst (wcc_size fa x)) = timers (fst x)"
  "timers (fst (update_change sb save fa x)) = timers (fst x)" "timers (fst (update_mtime sb save fa x)) = timers (fst x)"
  "timers (fst (update_ctime sb save fa x)) = timers (fst x)" "timers (fst (update_size save fa x)) = timers (fst x)"
  "timers (fst (update_atime sb save fa x)) = timers (fst x)" "timers (fst (update_mode sb save fa x)) = timers (fst x)"
  "timers (fst (update_owner sb save fa x)) = timers (fst x)" "timers (fst (update_group sb save fa x)) = timers (fst x)"
  "timers (fst (update_nlink sb save fa x)) = timers (fst x)" "timers (fst (update_blocks fa x)) = timers (fst x)"
  by (cases x; simp add: timers_def block_defs)+

lemma timers_update: "timers (fst (update_attrs sb save fa (nfs_wcc_update_inode fa ino))) = timers ino"
  by (simp add: update_attrs_def nfs_wcc_update_inode_def)

lemma report_blocks:
  "bit (snd x) 0 \<Longrightarrow> bit (snd (wcc_ctime fa x)) 0" "bit (snd x) 0 \<Longrightarrow> bit (snd (wcc_mtime fa x)) 0"
  "bit (snd x) 0 \<Longrightarrow> bit (snd (wcc_size fa x)) 0" "bit (snd x) 0 \<Longrightarrow> bit (snd (update_change sb save fa x)) 0"
  "bit (snd x) 0 \<Longrightarrow> bit (snd (update_mtime sb save fa x)) 0" "bit (snd x) 0 \<Longrightarrow> bit (snd (update_ctime sb save fa x)) 0"
  "bit (snd x) 0 \<Longrightarrow> bit (snd (update_size save fa x)) 0" "bit (snd x) 0 \<Longrightarrow> bit (snd (update_atime sb save fa x)) 0"
  "bit (snd x) 0 \<Longrightarrow> bit (snd (update_mode sb save fa x)) 0" "bit (snd x) 0 \<Longrightarrow> bit (snd (update_owner sb save fa x)) 0"
  "bit (snd x) 0 \<Longrightarrow> bit (snd (update_group sb save fa x)) 0" "bit (snd x) 0 \<Longrightarrow> bit (snd (update_nlink sb save fa x)) 0"
  "bit (snd x) 0 \<Longrightarrow> bit (snd (update_blocks fa x)) 0"
  by (cases x; simp add: block_defs bit_or_iff bit_and_iff bit_not_iff)+

text \<open>A new change attribute is always reported, by the block for it or by the one before.\<close>

lemma change_reported:
  assumes "has fa NFS_ATTR_FATTR_CHANGE" and "i_version ino \<noteq> fa_change_attr fa"
  shows "bit (snd (update_attrs sb save fa (nfs_wcc_update_inode fa ino))) 0"
proof -
  let ?x = "wcc_size fa (wcc_mtime fa (wcc_ctime fa (wcc_change fa (ino, 0))))"
  have "bit (snd (update_change sb save fa ?x)) 0"
  proof (cases "bit (snd (wcc_change fa (ino, 0))) 0")
    case True
    then show ?thesis by (intro report_blocks(1-4))
  next
    case False
    then have "wcc_change fa (ino, 0) = (ino, 0)" by (auto simp: wcc_change_def Let_def split: if_splits)
    then have "i_version (attrs_view (fst ?x)) = i_version (attrs_view ino)"
      using view_wcc_shape(2) [of fa "(ino, 0)"] view_wcc_shape(3) [of fa "wcc_ctime fa (ino, 0)"]
        view_wcc_shape(4) [of fa "wcc_mtime fa (wcc_ctime fa (ino, 0))"] by auto
    then have "i_version (fst ?x) = i_version ino" by (simp add: view_fields)
    then show ?thesis using assms by (cases ?x) (simp add: update_change_def bit_or_iff)
  qed
  then show ?thesis unfolding update_attrs_def nfs_wcc_update_inode_def by (intro report_blocks(5-13))
qed

text \<open>A changed change attribute gives the cache a new generation.\<close>

lemma nfs_update_inode_generation:
  assumes "same_object (the_inode s) fa" and "has fa NFS_ATTR_FATTR_CHANGE" and "i_version (the_inode s) \<noteq> fa_change_attr fa"
  shows "generation (snd (nfs_update_inode H fa s)) = generation s + 1"
    and "attr_gencount (the_inode (snd (nfs_update_inode H fa s))) = generation s + 1"
proof -
  let ?x = "update_attrs (update_fsid fa (the_inode s) (the_sb s)) (cache_validity (the_inode s)) fa
    (nfs_wcc_update_inode fa (update_start fa (the_inode s)))"
  have "i_version (update_start fa (the_inode s)) \<noteq> fa_change_attr fa" using assms(3) by (simp add: update_start_def)
  then have "odd (snd ?x)" using change_reported [OF assms(2)] by (simp only: bit_0 not_False_eq_True)
  then have "snd ?x AND NFS_INO_INVALID_ATTR \<noteq> 0" by (simp only: and_one_eq odd_iff_mod_2_eq_one one_neq_zero not_False_eq_True)
  then show "generation (snd (nfs_update_inode H fa s)) = generation s + 1"
    "attr_gencount (the_inode (snd (nfs_update_inode H fa s))) = generation s + 1"
    unfolding nfs_update_inode_same [OF assms(1)]
    by (simp_all add: update_finish_def update_timeout_def nfs_set_cache_invalid_def Let_def)
qed

text \<open>The timeout invariant: kept by every update.\<close>

definition sb_ok :: "nfs_sb \<Rightarrow> bool" where
  "sb_ok sb \<longleftrightarrow> acregmin sb \<le> acregmax sb \<and> acdirmin sb \<le> acdirmax sb"

lemma sb_ok_minmax: "sb_ok sb \<Longrightarrow> NFS_MINATTRTIMEO sb ino \<le> NFS_MAXATTRTIMEO sb ino"
  by (simp add: sb_ok_def NFS_MINATTRTIMEO_def NFS_MAXATTRTIMEO_def)

text \<open>The limits depend on the super block and the file type only.\<close>

lemma limits_cong:
  assumes "S_ISDIR (i_mode ino) = S_ISDIR (i_mode ino')"
  shows "NFS_MINATTRTIMEO sb ino = NFS_MINATTRTIMEO sb ino'" "NFS_MAXATTRTIMEO sb ino = NFS_MAXATTRTIMEO sb ino'"
  using assms by (simp_all add: NFS_MINATTRTIMEO_def NFS_MAXATTRTIMEO_def)

lemma timeout_ok_cong:
  assumes "attrtimeo ino = attrtimeo ino'" and "i_mode ino = i_mode ino'"
  shows "timeout_ok sb ino = timeout_ok sb ino'"
  using assms limits_cong [of ino ino'] by (simp add: timeout_ok_def)

lemma limits_fsid [simp]:
  "NFS_MINATTRTIMEO (update_fsid fa i sb) ino = NFS_MINATTRTIMEO sb ino"
  "NFS_MAXATTRTIMEO (update_fsid fa i sb) ino = NFS_MAXATTRTIMEO sb ino" "sb_ok (update_fsid fa i sb) = sb_ok sb"
  by (simp_all add: update_fsid_def NFS_MINATTRTIMEO_def NFS_MAXATTRTIMEO_def sb_ok_def)

lemma apply_fattr_type: "i_mode (apply_fattr fa ino) AND S_IFMT = i_mode ino AND S_IFMT"
proof -
  have "((m AND S_IFMT) OR (n AND S_IALLUGO)) AND S_IFMT = m AND S_IFMT" for m n :: u16
    by (simp only: bit.conj_disj_distrib2 and.assoc) simp
  then show ?thesis by (simp add: apply_fattr_def)
qed

lemma update_keeps_type:
  "S_ISDIR (i_mode (fst (update_attrs sb save fa (nfs_wcc_update_inode fa (update_start fa ino))))) = S_ISDIR (i_mode ino)"
proof -
  let ?y = "fst (update_attrs sb save fa (nfs_wcc_update_inode fa (update_start fa ino)))"
  have "i_mode (attrs_view ?y) AND S_IFMT = i_mode (attrs_view ino) AND S_IFMT"
    by (simp only: update_attrs_view view_update_start apply_fattr_type)
  then show ?thesis by (simp add: S_ISDIR_def view_fields)
qed

lemma update_finish_timers:
  "attrtimeo (the_inode (update_finish H f g u)) = attrtimeo (the_inode u)"
  "i_mode (the_inode (update_finish H f g u)) = i_mode (the_inode u)"
  by (simp_all add: update_finish_def nfs_set_cache_invalid_def Let_def)

lemma update_finish_sb: "the_sb (update_finish H f g u) = the_sb u"
  by (simp add: update_finish_def Let_def)

lemma update_timeout_sb: "the_sb (update_timeout f u) = the_sb u"
  by (simp add: update_timeout_def Let_def)

lemma nfs_update_inode_timeout:
  assumes "timeout_ok (the_sb s) (the_inode s)" and "sb_ok (the_sb s)" and "label_law H"
  shows "timeout_ok (the_sb (snd (nfs_update_inode H fa s))) (the_inode (snd (nfs_update_inode H fa s)))"
proof (cases "same_object (the_inode s) fa")
  case True
  let ?sb = "update_fsid fa (the_inode s) (the_sb s)"
  let ?x = "update_attrs ?sb (cache_validity (the_inode s)) fa (nfs_wcc_update_inode fa (update_start fa (the_inode s)))"
  let ?s = "s\<lparr>the_inode := fst ?x, the_sb := ?sb\<rparr>"
  have "timers (fst ?x) = timers (the_inode s)"
    by (simp add: timers_update) (simp add: timers_def update_start_def)
  then have "attrtimeo (fst ?x) = attrtimeo (the_inode s)" by (simp add: timers_def)
  with assms(1) limits_cong [OF update_keeps_type] have "timeout_ok (the_sb ?s) (the_inode ?s)"
    by (simp add: timeout_ok_def)
  from update_timeout_ok [OF this] assms(2) have "timeout_ok ?sb (the_inode (update_timeout (snd ?x) ?s))"
    by (simp add: sb_ok_minmax)
  then have "timeout_ok (the_sb (update_finish H f g (update_timeout (snd ?x) ?s)))
      (the_inode (update_finish H f g (update_timeout (snd ?x) ?s)))" for f g
    unfolding update_finish_sb update_timeout_sb
    using timeout_ok_cong [OF update_finish_timers, of ?sb H f g "update_timeout (snd ?x) ?s"] by simp
  then show ?thesis unfolding nfs_update_inode_same [OF True] by simp
next
  case False
  from nfs_update_inode_stale [OF this assms(3)] obtain m where
    "nfs_update_inode H fa s = (- ESTALE, s\<lparr>the_inode := (the_inode s)\<lparr>ino_stale := True,
       attrtimeo := ucast (NFS_MINATTRTIMEO (the_sb s) (the_inode s)), attrtimeo_timestamp := now s, cookieverf := (0, 0),
       cache_validity := cache_validity (the_inode s) OR m\<rparr>\<rparr>)" by blast
  with sb_ok_minmax [OF assms(2), of "the_inode s"] show ?thesis
    by (simp add: timeout_ok_def NFS_MINATTRTIMEO_def NFS_MAXATTRTIMEO_def word_le_nat_alt)
qed

lemma nfs_refresh_inode_timeout:
  assumes "timeout_ok (the_sb s) (the_inode s)" and "sb_ok (the_sb s)" and "label_law H"
  shows "timeout_ok (the_sb (snd (nfs_refresh_inode_locked H fa s))) (the_inode (snd (nfs_refresh_inode_locked H fa s)))"
proof -
  have "timeout_ok (the_sb s) (snd (nfs_check_inode_attributes H fa' (the_inode s)))" for fa'
  proof -
    have "attrtimeo (snd (nfs_check_inode_attributes H fa' ino)) = attrtimeo ino" "i_mode (snd (nfs_check_inode_attributes H fa' ino)) = i_mode ino"
      for ino by (simp_all add: nfs_check_inode_attributes_def nfs_set_cache_invalid_def Let_def)
    with assms(1) show ?thesis using timeout_ok_cong by blast
  qed
  with nfs_update_inode_timeout [OF assms] show ?thesis
    by (simp add: nfs_refresh_inode_locked_def Let_def case_prod_beta)
qed

section \<open>Order of replies\<close>

lemma has_masked: "has (fa\<lparr>fa_valid := fa_valid fa AND m\<rparr>) b \<Longrightarrow> has fa b"
proof -
  assume a: "has (fa\<lparr>fa_valid := fa_valid fa AND m\<rparr>) b"
  have "(fa_valid fa AND m) AND b = (fa_valid fa AND b) AND m" by (simp only: and.assoc and.commute and.left_commute)
  with a show "has fa b" by (auto simp: has_def)
qed

lemma layoutcommit_need_update:
  "nfs_inode_attrs_need_update gen ino (nfs_inode_attrs_handle_layoutcommit H i fa) \<Longrightarrow> nfs_inode_attrs_need_update gen ino fa"
  unfolding nfs_inode_attrs_need_update_def nfs_inode_attrs_handle_layoutcommit_def nfs_ctime_need_update_def nfs_size_need_update_def
  by (auto split: if_splits dest: has_masked)

lemma nfs_refresh_inode_old:
  assumes "\<not> nfs_inode_attrs_need_update (generation s) (the_inode s) fa"
  shows "attrs_view (the_inode (snd (nfs_refresh_inode H fa s))) = attrs_view (the_inode s)"
  using assms layoutcommit_need_update [of "generation s" "the_inode s" H "the_inode s" fa]
    nfs_check_inode_attributes_view [of H "nfs_inode_attrs_handle_layoutcommit H (the_inode s) fa" "the_inode s"]
  by (auto simp: nfs_refresh_inode_def nfs_refresh_inode_locked_def Let_def split: prod.splits)

end
