(* ===== verification/Nfs_Fhget.thy ===== *)
theory Nfs_Fhget
  imports Nfs_Inode_Correct
begin

text \<open>
  Inodes from file handles (\<^verbatim>\<open>nfs_fhget\<close> of \<^verbatim>\<open>fs/nfs/inode.c\<close>) and the operations of that file that change or read
  the attributes of an inode: \<^verbatim>\<open>nfs_setattr_update_inode\<close>, \<^verbatim>\<open>__nfs_revalidate_inode\<close>, \<^verbatim>\<open>nfs_getattr\<close>.

  The inode cache of the VFS is the parameter \<open>'w icache\<close> on an opaque world \<open>'w\<close>: \<^verbatim>\<open>iget5_locked\<close> finds an inode that
  passes the test or makes a new one and lets the caller initialise it, saying which.
\<close>

section \<open>The inode cache\<close>

record 'w icache =
  iget5_locked :: "'w \<Rightarrow> u64 \<Rightarrow> (nfs_inode \<Rightarrow> bool) \<Rightarrow> (nfs_inode \<Rightarrow> nfs_inode) \<Rightarrow> (nat \<times> bool) option \<times> 'w"
  ic_inode :: "'w \<Rightarrow> nat \<Rightarrow> nfs_inode"
  ic_set_inode :: "'w \<Rightarrow> nat \<Rightarrow> nfs_inode \<Rightarrow> 'w"
  ic_sb :: "'w \<Rightarrow> nfs_sb"
  ic_set_sb :: "'w \<Rightarrow> nfs_sb \<Rightarrow> 'w"
  ic_generation :: "'w \<Rightarrow> u64"
  ic_set_generation :: "'w \<Rightarrow> u64 \<Rightarrow> 'w"
  ic_jiffies :: "'w \<Rightarrow> u64"

text \<open>Running an operation on one inode of the cache.\<close>

definition ic_load :: "'w icache \<Rightarrow> 'w \<Rightarrow> nat \<Rightarrow> inode_state" where
  "ic_load C w i = \<lparr>the_inode = ic_inode C w i, the_sb = ic_sb C w, generation = ic_generation C w, now = ic_jiffies C w\<rparr>"

definition ic_store :: "'w icache \<Rightarrow> nat \<Rightarrow> inode_state \<Rightarrow> 'w \<Rightarrow> 'w" where
  "ic_store C i s w = ic_set_generation C (ic_set_sb C (ic_set_inode C w i (the_inode s)) (the_sb s)) (generation s)"

section \<open>Finding an inode\<close>

definition is_bad_inode :: "nfs_inode \<Rightarrow> bool" where
  "is_bad_inode ino \<longleftrightarrow> i_op ino = BAD_INODE_OPS"

definition nfs_same_fh :: "nfs_fh \<Rightarrow> nfs_fh \<Rightarrow> bool" where
  "nfs_same_fh a b \<longleftrightarrow> fh_size a = fh_size b \<and> take (unat (fh_size a)) (fh_data a) = take (unat (fh_size a)) (fh_data b)"

definition nfs_find_actor :: "nfs_fh \<Rightarrow> nfs_fattr \<Rightarrow> nfs_inode \<Rightarrow> bool" where
  "nfs_find_actor fh fa ino \<longleftrightarrow>
     (if fileid ino \<noteq> fa_fileid fa then False
      else if S_IFMT AND i_mode ino \<noteq> S_IFMT AND fa_mode fa then False
      else if \<not> nfs_same_fh (ino_fh ino) fh then False
      else if is_bad_inode ino \<or> ino_stale ino then False
      else True)"

definition nfs_init_locked :: "nfs_fh \<Rightarrow> nfs_fattr \<Rightarrow> nfs_inode \<Rightarrow> nfs_inode" where
  "nfs_init_locked fh fa ino = ino\<lparr>fileid := fa_fileid fa, ino_fh := fh\<rparr>"

definition nfs_attr_check_mountpoint :: "nfs_sb \<Rightarrow> nfs_fattr \<Rightarrow> nfs_fattr" where
  "nfs_attr_check_mountpoint sb fa =
     (if sb_fsid sb \<noteq> fa_fsid fa then fa\<lparr>fa_valid := fa_valid fa OR NFS_ATTR_FATTR_MOUNTPOINT\<rparr> else fa)"

definition nfs_attr_use_mounted_on_fileid :: "nfs_fattr \<Rightarrow> bool" where
  "nfs_attr_use_mounted_on_fileid fa \<longleftrightarrow>
     (if \<not> has fa NFS_ATTR_FATTR_MOUNTED_ON_FILEID \<or> \<not> has fa NFS_ATTR_FATTR_MOUNTPOINT \<and> \<not> has fa NFS_ATTR_FATTR_V4_REFERRAL
      then False else True)"

definition nfs_clear_label_invalid :: "nfs_inode \<Rightarrow> nfs_inode" where
  "nfs_clear_label_invalid ino = ino\<lparr>cache_validity := cache_validity ino AND NOT NFS_INO_INVALID_LABEL\<rparr>"

text \<open>The security module is told the label; whatever it answers, the label is marked valid.\<close>

definition nfs_setsecurity :: "nfs_fattr \<Rightarrow> nfs4_label option \<Rightarrow> nfs_inode \<Rightarrow> nfs_inode" where
  "nfs_setsecurity fa label ino =
     (case label of None \<Rightarrow> ino
      | Some l \<Rightarrow> if has fa NFS_ATTR_FATTR_V4_SECURITY_LABEL \<and> i_security ino then nfs_clear_label_invalid ino else ino)"

section \<open>A new inode\<close>

definition new_inode_ops :: "nfs_fattr \<Rightarrow> nfs_inode \<Rightarrow> nfs_inode" where
  "new_inode_ops fa ino =
     (let ino = ino\<lparr>i_op := FILE_INODE_OPS\<rparr>
      in if S_ISREG (i_mode ino) then ino\<lparr>i_fop := FILE_OPS\<rparr>
         else if S_ISDIR (i_mode ino) then
           let ino = ino\<lparr>i_op := DIR_INODE_OPS, i_fop := DIR_OPS\<rparr>
           in if has fa NFS_ATTR_FATTR_MOUNTPOINT \<or> has fa NFS_ATTR_FATTR_V4_REFERRAL
              then ino\<lparr>i_op := if has fa NFS_ATTR_FATTR_V4_REFERRAL then REFERRAL_INODE_OPS else MOUNTPOINT_INODE_OPS,
                       i_fop := NO_FILE_OPS, i_automount := True\<rparr>
              else ino
         else if S_ISLNK (i_mode ino) then ino\<lparr>i_op := SYMLINK_INODE_OPS\<rparr>
         else ino\<lparr>i_fop := SPECIAL_OPS (fa_rdev fa)\<rparr>)"

text \<open>One attribute of a new inode: taken over, or marked to be fetched when the server should have it.\<close>

definition take_attr :: "nfs_fattr \<Rightarrow> u32 \<Rightarrow> (nfs_inode \<Rightarrow> nfs_inode) \<Rightarrow> bool \<Rightarrow> nfs_inode \<Rightarrow> nfs_inode" where
  "take_attr fa b f capable ino =
     (if has fa b then f ino else if capable then nfs_set_cache_invalid NFS_INO_INVALID_ATTR ino else ino)"

definition new_inode_zero :: "nfs_inode \<Rightarrow> nfs_inode" where
  "new_inode_zero ino = ino\<lparr>i_atime := zero_time, i_mtime := zero_time, i_ctime := zero_time, i_version := 0, i_size := 0,
     i_nlink := 0, i_uid := - 2, i_gid := - 2, i_blocks := 0, cookieverf := (0, 0), write_io := 0, read_io := 0\<rparr>"

definition new_inode_attrs :: "nfs_sb \<Rightarrow> nfs_fattr \<Rightarrow> nfs_inode \<Rightarrow> nfs_inode" where
  "new_inode_attrs sb fa ino =
     (let ino = ino\<lparr>read_cache_jiffies := fa_time_start fa, attr_gencount := fa_gencount fa\<rparr>;
          ino = take_attr fa NFS_ATTR_FATTR_ATIME (\<lambda>i. i\<lparr>i_atime := fa_atime fa\<rparr>) (cap_atime sb) ino;
          ino = take_attr fa NFS_ATTR_FATTR_MTIME (\<lambda>i. i\<lparr>i_mtime := fa_mtime fa\<rparr>) (cap_mtime sb) ino;
          ino = take_attr fa NFS_ATTR_FATTR_CTIME (\<lambda>i. i\<lparr>i_ctime := fa_ctime fa\<rparr>) (cap_ctime sb) ino;
          ino = take_attr fa NFS_ATTR_FATTR_CHANGE (\<lambda>i. i\<lparr>i_version := fa_change_attr fa\<rparr>) (cap_change_attr sb) ino;
          ino = (if has fa NFS_ATTR_FATTR_SIZE then ino\<lparr>i_size := nfs_size_to_loff_t (fa_size fa)\<rparr>
                 else nfs_set_cache_invalid (NFS_INO_INVALID_ATTR OR NFS_INO_REVAL_PAGECACHE) ino);
          ino = take_attr fa NFS_ATTR_FATTR_NLINK (\<lambda>i. i\<lparr>i_nlink := fa_nlink fa\<rparr>) (cap_nlink sb) ino;
          ino = take_attr fa NFS_ATTR_FATTR_OWNER (\<lambda>i. i\<lparr>i_uid := fa_uid fa\<rparr>) (cap_owner sb) ino;
          ino = take_attr fa NFS_ATTR_FATTR_GROUP (\<lambda>i. i\<lparr>i_gid := fa_gid fa\<rparr>) (cap_owner_group sb) ino;
          ino = (if has fa NFS_ATTR_FATTR_BLOCKS_USED then ino\<lparr>i_blocks := ucast (fa_blocks fa)\<rparr> else ino)
      in if has fa NFS_ATTR_FATTR_SPACE_USED then ino\<lparr>i_blocks := nfs_calc_block_size (fa_used fa)\<rparr> else ino)"

definition new_inode :: "nfs_sb \<Rightarrow> u64 \<Rightarrow> u64 \<Rightarrow> nfs_fattr \<Rightarrow> nfs4_label option \<Rightarrow> nfs_inode \<Rightarrow> nfs_inode" where
  "new_inode sb jiffies hash fa label ino =
     (let ino = ino\<lparr>i_ino := hash, i_mode := fa_mode fa\<rparr>;
          ino = (if \<not> has fa NFS_ATTR_FATTR_MODE \<and> cap_mode sb then nfs_set_cache_invalid NFS_INO_INVALID_ATTR ino else ino);
          ino = new_inode_attrs sb fa (new_inode_zero (new_inode_ops fa ino));
          ino = nfs_setsecurity fa label ino
      in ino\<lparr>attrtimeo := ucast (NFS_MINATTRTIMEO sb ino), attrtimeo_timestamp := jiffies\<rparr>)"

text \<open>\<^verbatim>\<open>nfs_fhget\<close>: the attributes may be changed on the way (the mount point flag, and the file id of a mount point).\<close>

definition nfs_fhget ::
  "inode_hooks \<Rightarrow> 'w icache \<Rightarrow> nfs_fh \<Rightarrow> nfs_fattr \<Rightarrow> nfs4_label option \<Rightarrow> 'w \<Rightarrow> (int + nat) \<times> nfs_fattr \<times> 'w" where
  "nfs_fhget H C fh fa label w =
     (let fa = nfs_attr_check_mountpoint (ic_sb C w) fa
      in if \<not> nfs_attr_use_mounted_on_fileid fa \<and> \<not> has fa NFS_ATTR_FATTR_FILEID then (Inl (- ENOENT), fa, w)
         else
           let fa = (if nfs_attr_use_mounted_on_fileid fa then fa\<lparr>fa_fileid := fa_mounted_on_fileid fa\<rparr> else fa)
           in if \<not> has fa NFS_ATTR_FATTR_TYPE then (Inl (- ENOENT), fa, w)
              else
                let hash = nfs_fattr_to_ino_t fa
                in case iget5_locked C w hash (nfs_find_actor fh fa) (nfs_init_locked fh fa) of
                     (None, w) \<Rightarrow> (Inl (- ENOMEM), fa, w)
                   | (Some (i, is_new), w) \<Rightarrow>
                       (Inr i, fa,
                        if is_new then ic_set_inode C w i (new_inode (ic_sb C w) (ic_jiffies C w) hash fa label (ic_inode C w i))
                        else ic_store C i (snd (nfs_refresh_inode H fa (ic_load C w i))) w))"

section \<open>Changing and reading attributes\<close>

text \<open>\<^verbatim>\<open>nfs_vmtruncate\<close>; \<open>newsize_ok\<close> is the VFS's check of the new size.\<close>

definition nfs_vmtruncate :: "(nfs_inode \<Rightarrow> int \<Rightarrow> int) \<Rightarrow> int \<Rightarrow> nfs_inode \<Rightarrow> int \<times> nfs_inode" where
  "nfs_vmtruncate newsize_ok offset ino =
     (let err = newsize_ok ino offset
      in if err \<noteq> 0 then (err, ino)
         else (err, ino\<lparr>i_size := offset,
                        cache_validity := if offset = 0 then cache_validity ino AND NOT NFS_INO_INVALID_DATA else cache_validity ino\<rparr>))"

definition nfs_setattr_update_inode :: "(nfs_inode \<Rightarrow> int \<Rightarrow> int) \<Rightarrow> iattr \<Rightarrow> nfs_inode \<Rightarrow> nfs_inode" where
  "nfs_setattr_update_inode newsize_ok attr ino =
     (let ino = (if ia_valid attr AND (ATTR_MODE OR ATTR_UID OR ATTR_GID) \<noteq> 0
                 then nfs_set_cache_invalid (NFS_INO_INVALID_ACCESS OR NFS_INO_INVALID_ACL)
                        (let ino = (if ia_valid attr AND ATTR_MODE \<noteq> 0
                                    then ino\<lparr>i_mode := (ia_mode attr AND S_IALLUGO) OR (i_mode ino AND NOT S_IALLUGO)\<rparr> else ino);
                             ino = (if ia_valid attr AND ATTR_UID \<noteq> 0 then ino\<lparr>i_uid := ia_uid attr\<rparr> else ino)
                         in if ia_valid attr AND ATTR_GID \<noteq> 0 then ino\<lparr>i_gid := ia_gid attr\<rparr> else ino)
                 else ino)
      in if ia_valid attr AND ATTR_SIZE \<noteq> 0 then snd (nfs_vmtruncate newsize_ok (sint (ia_size attr)) ino) else ino)"

text \<open>\<^verbatim>\<open>__nfs_revalidate_inode\<close>: fetch the attributes and refresh. \<open>alloc\<close> and \<open>label_err\<close> are the outcomes of the two
  allocations, \<open>getattr\<close> the procedure of the protocol version.\<close>

definition nfs_zap_acl_cache :: "nfs_inode \<Rightarrow> nfs_inode" where
  "nfs_zap_acl_cache ino = ino\<lparr>cache_validity := cache_validity ino AND NOT NFS_INO_INVALID_ACL\<rparr>"

definition nfs_revalidate_inode_now ::
  "inode_hooks \<Rightarrow> bool \<Rightarrow> int \<Rightarrow> (nfs_fh \<Rightarrow> int \<times> nfs_fattr \<times> nfs4_label option) \<Rightarrow> inode_state \<Rightarrow> int \<times> inode_state" where
  "nfs_revalidate_inode_now H alloc label_err getattr s =
     (let ino = the_inode s
      in if is_bad_inode ino then (- ESTALE, s)
         else if ino_stale ino then (- ESTALE, s)
         else if \<not> alloc then (- ENOMEM, s)
         else if label_err \<noteq> 0 then (label_err, s)
         else case getattr (ino_fh ino) of (status, fa, label) \<Rightarrow>
           if status \<noteq> 0 then
             (status,
              if status = - ESTALE
              then let ino = nfs_zap_caches_locked H (the_sb s) (now s) ino
                   in s\<lparr>the_inode := if S_ISDIR (i_mode ino) then ino else ino\<lparr>ino_stale := True\<rparr>\<rparr>
              else s)
           else
             let (status, s) = nfs_refresh_inode H fa s
             in if status \<noteq> 0 then (status, s)
                else let ino = the_inode s;
                         ino = (if cache_validity ino AND NFS_INO_INVALID_ACL \<noteq> 0 then nfs_zap_acl_cache ino else ino)
                     in (0, s\<lparr>the_inode := nfs_setsecurity fa label ino\<rparr>))"

definition nfs_revalidate_inode ::
  "inode_hooks \<Rightarrow> bool \<Rightarrow> int \<Rightarrow> (nfs_fh \<Rightarrow> int \<times> nfs_fattr \<times> nfs4_label option) \<Rightarrow> inode_state \<Rightarrow> int \<times> inode_state" where
  "nfs_revalidate_inode H alloc label_err getattr s =
     (if \<not> nfs_need_revalidate_inode H (now s) (the_inode s) then (if ino_stale (the_inode s) then - ESTALE else 0, s)
      else nfs_revalidate_inode_now H alloc label_err getattr s)"

text \<open>\<^verbatim>\<open>nfs_getattr\<close>, with the call of \<^verbatim>\<open>__nfs_revalidate_inode\<close> commented out: it answers from the cache. \<open>flush\<close> writes dirty
  pages back; the flag of the result says that the parent directory is asked to use READDIRPLUS.\<close>

record kstat =
  ks_ino :: u64
  ks_mode :: u16
  ks_nlink :: u32
  ks_uid :: u32
  ks_gid :: u32
  ks_size :: int
  ks_atime :: timespec
  ks_mtime :: timespec
  ks_ctime :: timespec
  ks_blocks :: u64

definition nfs_compat_user_ino64 :: "bool \<Rightarrow> u64 \<Rightarrow> u64" where
  "nfs_compat_user_ino64 enable_ino64 fid =
     (if enable_ino64 then fid else ucast ((ucast fid :: u32) XOR ucast (drop_bit 32 fid)))"

definition generic_fillattr :: "nfs_inode \<Rightarrow> kstat" where
  "generic_fillattr ino = \<lparr>ks_ino = i_ino ino, ks_mode = i_mode ino, ks_nlink = i_nlink ino, ks_uid = i_uid ino, ks_gid = i_gid ino,
     ks_size = i_size ino, ks_atime = i_atime ino, ks_mtime = i_mtime ino, ks_ctime = i_ctime ino, ks_blocks = i_blocks ino\<rparr>"

definition nfs_getattr ::
  "inode_hooks \<Rightarrow> (nfs_inode \<Rightarrow> int \<times> nfs_inode) \<Rightarrow> bool \<Rightarrow> bool \<times> bool \<Rightarrow> bool \<Rightarrow> inode_state \<Rightarrow> int \<times> kstat option \<times> bool \<times> inode_state" where
  "nfs_getattr H flush readdirplus = (\<lambda>(noatime, nodiratime) enable_ino64 s.
     let need_atime = (cache_validity (the_inode s) AND NFS_INO_INVALID_ATIME \<noteq> 0);
         (err, ino) = (if S_ISREG (i_mode (the_inode s)) then flush (the_inode s) else (0, the_inode s));
         s = s\<lparr>the_inode := ino\<rparr>
     in if err \<noteq> 0 then (err, None, False, s)
        else
          let need_atime = (if noatime \<or> nodiratime \<and> S_ISDIR (i_mode ino) then False else need_atime);
              plus = ((need_atime \<or> nfs_need_revalidate_inode H (now s) ino) \<and> readdirplus)
          in (0, Some ((generic_fillattr ino)\<lparr>ks_ino := nfs_compat_user_ino64 enable_ino64 (fileid ino)\<rparr>), plus, s))"

section \<open>A new inode is an updated empty one\<close>

lemma view_upd [simp]:
  "attrs_view (ino\<lparr>i_atime := t\<rparr>) = (attrs_view ino)\<lparr>i_atime := t\<rparr>" "attrs_view (ino\<lparr>i_mtime := t\<rparr>) = (attrs_view ino)\<lparr>i_mtime := t\<rparr>"
  "attrs_view (ino\<lparr>i_ctime := t\<rparr>) = (attrs_view ino)\<lparr>i_ctime := t\<rparr>" "attrs_view (ino\<lparr>i_version := v\<rparr>) = (attrs_view ino)\<lparr>i_version := v\<rparr>"
  "attrs_view (ino\<lparr>i_size := z\<rparr>) = (attrs_view ino)\<lparr>i_size := z\<rparr>" "attrs_view (ino\<lparr>i_nlink := n\<rparr>) = (attrs_view ino)\<lparr>i_nlink := n\<rparr>"
  "attrs_view (ino\<lparr>i_uid := u\<rparr>) = (attrs_view ino)\<lparr>i_uid := u\<rparr>" "attrs_view (ino\<lparr>i_gid := u\<rparr>) = (attrs_view ino)\<lparr>i_gid := u\<rparr>"
  "attrs_view (ino\<lparr>i_blocks := b\<rparr>) = (attrs_view ino)\<lparr>i_blocks := b\<rparr>"
  by (simp_all add: attrs_view_def)

lemma view_take_attr:
  "attrs_view (take_attr fa b f c ino) = (if has fa b then attrs_view (f ino) else attrs_view ino)"
  by (simp add: take_attr_def view_set_cache_invalid)

lemma view_timers [simp]:
  "attrs_view (ino\<lparr>read_cache_jiffies := t, attr_gencount := g\<rparr>) = attrs_view ino"
  "attrs_view (ino\<lparr>attrtimeo := t, attrtimeo_timestamp := g\<rparr>) = attrs_view ino"
  by (simp_all add: attrs_view_def)

lemma view_setsecurity: "attrs_view (nfs_setsecurity fa label ino) = attrs_view ino"
  by (simp add: nfs_setsecurity_def nfs_clear_label_invalid_def attrs_view_def split: option.split)

lemma upd_form:
  "(if c then ino\<lparr>i_atime := t\<rparr> else ino) = i_atime_update (\<lambda>x. if c then t else x) ino"
  "(if c then ino\<lparr>i_mtime := t\<rparr> else ino) = i_mtime_update (\<lambda>x. if c then t else x) ino"
  "(if c then ino\<lparr>i_ctime := t\<rparr> else ino) = i_ctime_update (\<lambda>x. if c then t else x) ino"
  "(if c then ino\<lparr>i_version := v\<rparr> else ino) = i_version_update (\<lambda>x. if c then v else x) ino"
  "(if c then ino\<lparr>i_size := z\<rparr> else ino) = i_size_update (\<lambda>x. if c then z else x) ino"
  "(if c then ino\<lparr>i_nlink := n\<rparr> else ino) = i_nlink_update (\<lambda>x. if c then n else x) ino"
  "(if c then ino\<lparr>i_uid := n\<rparr> else ino) = i_uid_update (\<lambda>x. if c then n else x) ino"
  "(if c then ino\<lparr>i_gid := n\<rparr> else ino) = i_gid_update (\<lambda>x. if c then n else x) ino"
  "(if c then ino\<lparr>i_blocks := v\<rparr> else ino) = i_blocks_update (\<lambda>x. if c then v else x) ino"
  by (cases c; simp)+

lemma view_new_inode_attrs:
  assumes "nrequests ino = 0" and "\<not> (has fa NFS_ATTR_FATTR_BLOCKS_USED \<and> has fa NFS_ATTR_FATTR_SPACE_USED)"
  shows "attrs_view (new_inode_attrs sb fa ino) =
    (apply_fattr fa (attrs_view ino))\<lparr>i_mode := i_mode ino\<rparr>"
proof -
  have if_view: "attrs_view (if c then a else b) = (if c then attrs_view a else attrs_view b)" for c a b by simp
  have "attrs_view (new_inode_attrs sb fa ino) =
    i_blocks_update (\<lambda>x. if has fa NFS_ATTR_FATTR_SPACE_USED then nfs_calc_block_size (fa_used fa) else x)
    (i_blocks_update (\<lambda>x. if has fa NFS_ATTR_FATTR_BLOCKS_USED then ucast (fa_blocks fa) else x)
    (i_gid_update (\<lambda>x. if has fa NFS_ATTR_FATTR_GROUP then fa_gid fa else x)
    (i_uid_update (\<lambda>x. if has fa NFS_ATTR_FATTR_OWNER then fa_uid fa else x)
    (i_nlink_update (\<lambda>x. if has fa NFS_ATTR_FATTR_NLINK then fa_nlink fa else x)
    (i_size_update (\<lambda>x. if has fa NFS_ATTR_FATTR_SIZE then nfs_size_to_loff_t (fa_size fa) else x)
    (i_version_update (\<lambda>x. if has fa NFS_ATTR_FATTR_CHANGE then fa_change_attr fa else x)
    (i_ctime_update (\<lambda>x. if has fa NFS_ATTR_FATTR_CTIME then fa_ctime fa else x)
    (i_mtime_update (\<lambda>x. if has fa NFS_ATTR_FATTR_MTIME then fa_mtime fa else x)
    (i_atime_update (\<lambda>x. if has fa NFS_ATTR_FATTR_ATIME then fa_atime fa else x) (attrs_view ino))))))))))"
    unfolding new_inode_attrs_def Let_def
    by (simp only: if_view view_take_attr view_upd view_set_cache_invalid view_timers) (simp only: upd_form)
  also have "\<dots> = (apply_fattr fa (attrs_view ino))\<lparr>i_mode := i_mode ino\<rparr>"
    using assms unfolding apply_fattr_def by (intro nfs_inode.equality) (simp_all add: view_fields)
  finally show ?thesis .
qed

text \<open>The empty inode an update starts from.\<close>

definition blank_inode :: "u64 \<Rightarrow> nfs_fattr \<Rightarrow> nfs_inode \<Rightarrow> nfs_inode" where
  "blank_inode hash fa ino = new_inode_zero (new_inode_ops fa (ino\<lparr>i_ino := hash, i_mode := fa_mode fa\<rparr>))"

lemma new_inode_ops_fields [simp]:
  "i_mode (new_inode_ops fa ino) = i_mode ino" "nrequests (new_inode_ops fa ino) = nrequests ino"
  "cache_validity (new_inode_ops fa ino) = cache_validity ino" "i_nrpages (new_inode_ops fa ino) = i_nrpages ino"
  by (simp_all add: new_inode_ops_def Let_def)

lemma view_new_inode_ops: "attrs_view (new_inode_ops fa ino) = new_inode_ops fa (attrs_view ino)"
  by (simp add: new_inode_ops_def attrs_view_def Let_def)

lemma view_new_inode_zero: "attrs_view (new_inode_zero ino) = new_inode_zero (attrs_view ino)"
  by (simp add: new_inode_zero_def attrs_view_def)

lemma view_new_inode:
  assumes "nrequests ino = 0" and "\<not> (has fa NFS_ATTR_FATTR_BLOCKS_USED \<and> has fa NFS_ATTR_FATTR_SPACE_USED)"
  shows "attrs_view (new_inode sb j hash fa label ino) = apply_fattr fa (attrs_view (blank_inode hash fa ino))"
proof -
  let ?i1 = "ino\<lparr>i_ino := hash, i_mode := fa_mode fa\<rparr>"
  let ?i2 = "if \<not> has fa NFS_ATTR_FATTR_MODE \<and> cap_mode sb then nfs_set_cache_invalid NFS_INO_INVALID_ATTR ?i1 else ?i1"
  let ?z = "new_inode_zero (new_inode_ops fa ?i2)"
  have v: "attrs_view ?z = attrs_view (blank_inode hash fa ino)"
    by (simp add: view_new_inode_zero view_new_inode_ops blank_inode_def view_set_cache_invalid)
  have z: "nrequests ?z = 0" "i_mode ?z = fa_mode fa"
    using assms(1) by (simp_all add: new_inode_zero_def nfs_set_cache_invalid_def Let_def)
  have "i_mode (attrs_view ?z) = fa_mode fa" using z by (simp add: view_fields)
  moreover have "i_mode (apply_fattr fa x) = fa_mode fa" if "i_mode x = fa_mode fa" for x
    using mode_split [of "fa_mode fa"] that by (simp add: apply_fattr_def)
  ultimately have "i_mode (apply_fattr fa (attrs_view ?z)) = fa_mode fa" by blast
  then have "(apply_fattr fa (attrs_view ?z))\<lparr>i_mode := i_mode ?z\<rparr> = apply_fattr fa (attrs_view ?z)"
    unfolding z(2) by (intro nfs_inode.equality) simp_all
  then show ?thesis
    using view_new_inode_attrs [OF z(1) assms(2), of sb] v
    by (simp add: new_inode_def Let_def view_setsecurity)
qed

section \<open>What a lookup can make an inode of\<close>

lemma nfs_fhget_no_inode:
  assumes "fa_valid fa = 0"
  shows "\<exists>fa'. nfs_fhget H C fh fa label w = (Inl (- ENOENT), fa', w)"
proof -
  have "\<not> has (nfs_attr_check_mountpoint sb fa) NFS_ATTR_FATTR_MOUNTED_ON_FILEID"
    "\<not> has (nfs_attr_check_mountpoint sb fa) NFS_ATTR_FATTR_FILEID" for sb
    using assms by (auto simp: nfs_attr_check_mountpoint_def has_def)
  then show ?thesis by (simp add: nfs_fhget_def Let_def nfs_attr_use_mounted_on_fileid_def)
qed

end
