(* ===== verification/Vfs_State.thy ===== *)
theory Vfs_State
  imports Nfs_Chain_Call Nfs_Fhget
begin

text \<open>
  The state of a path walk (\<^verbatim>\<open>struct nameidata\<close> of \<^verbatim>\<open>include/linux/namei.h\<close>) and the operations on it that
  the chained lookup is built from: references to dentries and mounts, the directory mutex, and the
  small helpers of \<^verbatim>\<open>fs/namei.c\<close>. The dentry cache, the mount table and the inode cache are the parameter
  \<open>'w vfs\<close> on an opaque world \<open>'w\<close>.

  The references the walk itself holds are counted in \<open>refs\<close> and \<open>mrefs\<close>: giving back one it does not hold is the
  fault \<open>OVER_PUT\<close>, taking a mutex it holds \<open>DEADLOCK\<close>, releasing one it does not hold \<open>NOT_HELD\<close>. The mutex of a
  directory is named by the dentry the walk reaches it by.

  Walks are reference walks: \<^verbatim>\<open>filename_lookup\<close> does not set \<^verbatim>\<open>LOOKUP_RCU\<close> any more. The branches for that flag are not
  modelled; taking one is the fault \<open>RCU_WALK\<close>.
\<close>

section \<open>State\<close>

type_synonym dentry = nat
type_synonym inode = nat
type_synonym vfsmount = nat

datatype last_type = LAST_NORM | LAST_ROOT | LAST_DOT | LAST_DOTDOT | LAST_BIND

abbreviation (input) LOOKUP_FOLLOW :: u32 where "LOOKUP_FOLLOW \<equiv> 0x1"
abbreviation (input) LOOKUP_DIRECTORY :: u32 where "LOOKUP_DIRECTORY \<equiv> 0x2"
abbreviation (input) LOOKUP_AUTOMOUNT :: u32 where "LOOKUP_AUTOMOUNT \<equiv> 0x4"
abbreviation (input) LOOKUP_PARENT :: u32 where "LOOKUP_PARENT \<equiv> 0x10"
abbreviation (input) LOOKUP_RCU :: u32 where "LOOKUP_RCU \<equiv> 0x40"
abbreviation (input) LOOKUP_JUMPED :: u32 where "LOOKUP_JUMPED \<equiv> 0x1000"
abbreviation (input) LOOKUP_ROOT :: u32 where "LOOKUP_ROOT \<equiv> 0x2000"

record vpath =
  p_mnt :: vfsmount
  p_dentry :: dentry

text \<open>\<^verbatim>\<open>struct chain_dentry\<close>\<close>

record chain_dentry =
  cd_name :: qstr
  cd_dentry :: dentry

record 'w walk =
  world :: 'w
  refs :: "dentry \<Rightarrow> nat"
  mrefs :: "vfsmount \<Rightarrow> nat"
  held :: "dentry list"
  nd_path :: vpath
  nd_root :: "vpath option"
  nd_last :: qstr
  nd_last_type :: last_type
  nd_inode :: "inode option"
  nd_flags :: u32
  dchain_list :: "chain_dentry list"
  chain_size :: u32
  chain_parent :: dentry
  nd_depth :: nat
  link_count :: nat
  total_link_count :: nat

text \<open>The last two count the links the task follows (\<^verbatim>\<open>current->link_count\<close> and \<^verbatim>\<open>current->total_link_count\<close>).

  The kernel services: the dentry cache (\<^verbatim>\<open>d_lookup\<close> to \<^verbatim>\<open>d_materialise_unique\<close>), mounts, the allocator and what
  it leaves in uninitialised memory, the operations of a directory's protocol version, and permissions.\<close>

record 'w vfs =
  d_lookup :: "'w \<Rightarrow> dentry \<Rightarrow> qstr \<Rightarrow> dentry option"
  d_alloc :: "'w \<Rightarrow> dentry \<Rightarrow> qstr \<Rightarrow> dentry option \<times> 'w"
  d_is_chain_temp :: "'w \<Rightarrow> dentry \<Rightarrow> bool"
  d_is_symlink :: "'w \<Rightarrow> dentry \<Rightarrow> bool"
  d_mountpoint :: "'w \<Rightarrow> dentry \<Rightarrow> bool"
  d_inode :: "'w \<Rightarrow> dentry \<Rightarrow> inode option"
  d_parent :: "'w \<Rightarrow> dentry \<Rightarrow> dentry"
  d_op_revalidate :: "'w \<Rightarrow> dentry \<Rightarrow> bool"
  d_revalidate :: "'w \<Rightarrow> dentry \<Rightarrow> u32 \<Rightarrow> int \<times> 'w"
  d_invalidate :: "'w \<Rightarrow> dentry \<Rightarrow> int \<times> 'w"
  d_set_chain_temp :: "'w \<Rightarrow> dentry \<Rightarrow> 'w"
  d_materialise_unique :: "'w \<Rightarrow> dentry \<Rightarrow> inode option \<Rightarrow> (int + dentry option) \<times> 'w"
  lookup_mnt :: "'w \<Rightarrow> vpath \<Rightarrow> vfsmount option"
  mnt_root :: "'w \<Rightarrow> vfsmount \<Rightarrow> dentry"
  mnt_above :: "'w \<Rightarrow> vfsmount \<Rightarrow> vpath option"
  path_connected :: "'w \<Rightarrow> vpath \<Rightarrow> bool"
  fs_root :: "'w \<Rightarrow> vpath"
  kmalloc_ok :: "'w \<Rightarrow> bool \<times> 'w"
  junk_fh :: "'w \<Rightarrow> nfs_fh"
  junk_fattr :: "'w \<Rightarrow> nfs_fattr"
  i_op_chain_lookup :: "'w \<Rightarrow> inode \<Rightarrow> bool"
  proto_chain_lookup :: "'w \<Rightarrow> inode \<Rightarrow> qstr list \<Rightarrow> nfs_fh list \<Rightarrow> nfs_fattr list \<Rightarrow> nfs4_label option list \<Rightarrow> int \<Rightarrow>
     xdr_fault + (int \<times> nfs4_chain_lookup_res) \<times> 'w"
  nfs_block_sillyrename :: "'w \<Rightarrow> dentry \<Rightarrow> 'w"
  nfs_unblock_sillyrename :: "'w \<Rightarrow> dentry \<Rightarrow> 'w"
  inode_permission :: "'w \<Rightarrow> inode \<Rightarrow> int"

datatype vfs_fault = OVER_PUT dentry | MNT_OVER_PUT | DEADLOCK | NOT_HELD | EMPTY_LIST | NULL_POINTER |
  BAD_POINTER | RPC_FAULT xdr_fault | RCU_WALK | BUG | OUT_OF_FUEL

section \<open>Sequencing\<close>

type_synonym ('w, 'a) cmd = "'w walk \<Rightarrow> vfs_fault + 'a \<times> 'w walk"

definition vret :: "'a \<Rightarrow> ('w, 'a) cmd" where
  "vret a s = Inr (a, s)"

definition vfail :: "vfs_fault \<Rightarrow> ('w, 'a) cmd" where
  "vfail f s = Inl f"

definition vbind :: "('w, 'a) cmd \<Rightarrow> ('a \<Rightarrow> ('w, 'b) cmd) \<Rightarrow> ('w, 'b) cmd" where
  "vbind m k s = (case m s of Inl f \<Rightarrow> Inl f | Inr (a, t) \<Rightarrow> k a t)"

text \<open>\<open>vseq\<close> ignores the value; \<open>vget\<close> reads the state, \<open>vmod\<close> changes it.\<close>

definition vseq :: "('w, 'a) cmd \<Rightarrow> ('w, 'b) cmd \<Rightarrow> ('w, 'b) cmd" where
  "vseq m k = vbind m (\<lambda>_. k)"

definition vget :: "('w walk \<Rightarrow> ('w, 'a) cmd) \<Rightarrow> ('w, 'a) cmd" where
  "vget k s = k s s"

definition vmod :: "('w walk \<Rightarrow> 'w walk) \<Rightarrow> ('w, unit) cmd" where
  "vmod f s = Inr ((), f s)"

definition vwhen :: "bool \<Rightarrow> ('w, unit) cmd \<Rightarrow> ('w, unit) cmd" where
  "vwhen c m = (if c then m else vret ())"

lemma vret_simp [simp]: "vret a s = Inr (a, s)"
  by (simp add: vret_def)

lemma vfail_simp [simp]: "vfail f s = Inl f"
  by (simp add: vfail_def)

lemma vbind_simps [simp]:
  "m s = Inr (a, t) \<Longrightarrow> vbind m k s = k a t"
  "m s = Inl f \<Longrightarrow> vbind m k s = Inl f"
  by (simp_all add: vbind_def)

lemma vseq_simps [simp]:
  "m s = Inr (a, t) \<Longrightarrow> vseq m k s = k t"
  "m s = Inl f \<Longrightarrow> vseq m k s = Inl f"
  by (simp_all add: vseq_def)

lemma vget_simp [simp]: "vget k s = k s s"
  by (simp add: vget_def)

lemma vmod_simp [simp]: "vmod f s = Inr ((), f s)"
  by (simp add: vmod_def)

lemma vwhen_simps [simp]: "vwhen True m = m" "vwhen False m s = Inr ((), s)"
  by (simp_all add: vwhen_def)

section \<open>References and mutexes\<close>

definition dget :: "dentry \<Rightarrow> ('w, unit) cmd" where
  "dget d = vmod (\<lambda>s. s\<lparr>refs := (refs s)(d := refs s d + 1)\<rparr>)"

definition dput :: "dentry \<Rightarrow> ('w, unit) cmd" where
  "dput d s = (if refs s d = 0 then Inl (OVER_PUT d) else Inr ((), s\<lparr>refs := (refs s)(d := refs s d - 1)\<rparr>))"

definition mntget :: "vfsmount \<Rightarrow> ('w, unit) cmd" where
  "mntget m = vmod (\<lambda>s. s\<lparr>mrefs := (mrefs s)(m := mrefs s m + 1)\<rparr>)"

definition mntput :: "vfsmount \<Rightarrow> ('w, unit) cmd" where
  "mntput m s = (if mrefs s m = 0 then Inl MNT_OVER_PUT else Inr ((), s\<lparr>mrefs := (mrefs s)(m := mrefs s m - 1)\<rparr>))"

definition mutex_lock :: "dentry \<Rightarrow> ('w, unit) cmd" where
  "mutex_lock d s = (if d \<in> set (held s) then Inl DEADLOCK else Inr ((), s\<lparr>held := d # held s\<rparr>))"

definition mutex_unlock :: "dentry \<Rightarrow> ('w, unit) cmd" where
  "mutex_unlock d s = (if d \<notin> set (held s) then Inl NOT_HELD else Inr ((), s\<lparr>held := remove1 d (held s)\<rparr>))"

lemma dget_simp [simp]: "dget d s = Inr ((), s\<lparr>refs := (refs s)(d := refs s d + 1)\<rparr>)"
  by (simp add: dget_def)

lemma mntget_simp [simp]: "mntget m s = Inr ((), s\<lparr>mrefs := (mrefs s)(m := mrefs s m + 1)\<rparr>)"
  by (simp add: mntget_def)

lemma dput_ok: "refs s d = Suc n \<Longrightarrow> dput d s = Inr ((), s\<lparr>refs := (refs s)(d := n)\<rparr>)"
  by (simp add: dput_def)

section \<open>Helpers of namei.c\<close>

definition path_put :: "vpath \<Rightarrow> ('w, unit) cmd" where
  "path_put p = vseq (dput (p_dentry p)) (mntput (p_mnt p))"

definition path_get :: "vpath \<Rightarrow> ('w, unit) cmd" where
  "path_get p = vseq (mntget (p_mnt p)) (dget (p_dentry p))"

definition set_root :: "'w vfs \<Rightarrow> ('w, unit) cmd" where
  "set_root V = vget (\<lambda>s. case nd_root s of
     Some r \<Rightarrow> vret ()
   | None \<Rightarrow> let r = fs_root V (world s)
             in vseq (path_get r) (vmod (\<lambda>s. s\<lparr>nd_root := Some r\<rparr>)))"

definition no_rcu :: "('w, 'a) cmd \<Rightarrow> ('w, 'a) cmd" where
  "no_rcu m = vget (\<lambda>s. if nd_flags s AND LOOKUP_RCU = 0 then m else vfail RCU_WALK)"

definition terminate_walk :: "('w, unit) cmd" where
  "terminate_walk = no_rcu (vget (\<lambda>s. path_put (nd_path s)))"

definition path_put_conditional :: "vpath \<Rightarrow> ('w, unit) cmd" where
  "path_put_conditional p = vseq (dput (p_dentry p)) (vget (\<lambda>s. vwhen (p_mnt p \<noteq> p_mnt (nd_path s)) (mntput (p_mnt p))))"

definition path_to_nameidata :: "vpath \<Rightarrow> ('w, unit) cmd" where
  "path_to_nameidata p = no_rcu (vget (\<lambda>s.
     vseq (dput (p_dentry (nd_path s)))
       (vseq (vwhen (p_mnt (nd_path s) \<noteq> p_mnt p) (mntput (p_mnt (nd_path s))))
          (vmod (\<lambda>s. s\<lparr>nd_path := p\<rparr>)))))"

definition should_follow_link :: "'w vfs \<Rightarrow> 'w \<Rightarrow> dentry \<Rightarrow> u32 \<Rightarrow> u32" where
  "should_follow_link V w d follow = (if d_is_symlink V w d then follow else 0)"

text \<open>\<open>follow_mount V n p\<close>: at most \<open>n\<close> mounts on top of each other.\<close>

fun follow_mount :: "'w vfs \<Rightarrow> nat \<Rightarrow> vpath \<Rightarrow> ('w, vpath) cmd" where
  "follow_mount V 0 p = vfail OUT_OF_FUEL"
| "follow_mount V (Suc n) p = vget (\<lambda>s.
     if \<not> d_mountpoint V (world s) (p_dentry p) then vret p
     else case lookup_mnt V (world s) p of
            None \<Rightarrow> vret p
          | Some mounted \<Rightarrow>
              let p' = \<lparr>p_mnt = mounted, p_dentry = mnt_root V (world s) mounted\<rparr>
              in vseq (mntget mounted) (vseq (path_put p) (vseq (dget (p_dentry p')) (follow_mount V n p'))))"

text \<open>\<^verbatim>\<open>follow_up\<close>: to the mountpoint in the parent mount, if there is one.\<close>

definition follow_up :: "'w vfs \<Rightarrow> vpath \<Rightarrow> ('w, (bool \<times> vpath)) cmd" where
  "follow_up V p = vget (\<lambda>s.
     case mnt_above V (world s) (p_mnt p) of
       None \<Rightarrow> vret (False, p)
     | Some q \<Rightarrow>
         vseq (mntget (p_mnt q)) (vseq (dget (p_dentry q))
           (vseq (dput (p_dentry p)) (vseq (mntput (p_mnt p)) (vret (True, q))))))"

fun dotdot_loop :: "'w vfs \<Rightarrow> nat \<Rightarrow> ('w, int) cmd" where
  "dotdot_loop V 0 = vfail OUT_OF_FUEL"
| "dotdot_loop V (Suc n) = vget (\<lambda>s.
     let p = nd_path s
     in if nd_root s = Some p then vret 0
        else if p_dentry p \<noteq> mnt_root V (world s) (p_mnt p) then
          let up = p\<lparr>p_dentry := d_parent V (world s) (p_dentry p)\<rparr>
          in vseq (dget (p_dentry up)) (vseq (vmod (\<lambda>s. s\<lparr>nd_path := up\<rparr>)) (vseq (dput (p_dentry p))
               (if path_connected V (world s) up then vret 0
                else vseq (path_put up) (vret (- ENOENT)))))
        else vbind (follow_up V p) (\<lambda>(went, p').
          if went then vseq (vmod (\<lambda>s. s\<lparr>nd_path := p'\<rparr>)) (dotdot_loop V n) else vret 0))"

definition follow_dotdot :: "'w vfs \<Rightarrow> nat \<Rightarrow> ('w, int) cmd" where
  "follow_dotdot V n =
     vseq (set_root V) (vbind (dotdot_loop V n) (\<lambda>err.
       if err \<noteq> 0 then vret err
       else vget (\<lambda>s. vbind (follow_mount V n (nd_path s)) (\<lambda>p.
         vseq (vmod (\<lambda>s. s\<lparr>nd_path := p, nd_inode := d_inode V (world s) (p_dentry p)\<rparr>)) (vret 0)))))"

definition handle_dots :: "'w vfs \<Rightarrow> nat \<Rightarrow> last_type \<Rightarrow> ('w, int) cmd" where
  "handle_dots V n type = (if type = LAST_DOTDOT then no_rcu (follow_dotdot V n) else vret 0)"

end
