(* ===== verification/Nfs_Chain_Dir.thy ===== *)
theory Nfs_Chain_Dir
  imports Vfs_State
begin

text \<open>
  The directory side of the chained lookup, \<^verbatim>\<open>fs/nfs/dir.c\<close>: allocating the result arrays
  (\<^verbatim>\<open>nfs_allocate_handles\<close>), turning the results into dentries and inodes (\<^verbatim>\<open>nfs_fill_dchain_list\<close>), freeing the arrays
  (\<^verbatim>\<open>nfs_free_handles\<close>), and \<^verbatim>\<open>nfs_chain_lookup\<close>, the \<^verbatim>\<open>chain_lookup\<close> operation of an NFSv4 directory inode.

  An array of pointers is a list of slots; an array that could not be allocated is \<open>None\<close>. Reading through a NULL array is the
  fault \<open>NULL_POINTER\<close>, using an uninitialised slot or an error pointer \<open>BAD_POINTER\<close>.
\<close>

section \<open>The arrays\<close>

datatype 'a slot = Unset | Null | Err int | Alloc 'a

definition vworld :: "('w \<Rightarrow> 'a \<times> 'w) \<Rightarrow> ('w, 'a) cmd" where
  "vworld f s = (case f (world s) of (a, w) \<Rightarrow> Inr (a, s\<lparr>world := w\<rparr>))"

definition nfs_alloc_fhandle :: "'w vfs \<Rightarrow> 'w \<Rightarrow> nfs_fh slot \<times> 'w" where
  "nfs_alloc_fhandle V w = (case kmalloc_ok V w of (ok, w) \<Rightarrow> (if ok then Alloc ((junk_fh V w)\<lparr>fh_size := 0\<rparr>) else Null, w))"

definition nfs_alloc_fattr :: "'w vfs \<Rightarrow> 'w icache \<Rightarrow> 'w \<Rightarrow> nfs_fattr slot \<times> 'w" where
  "nfs_alloc_fattr V C w =
     (case kmalloc_ok V w of (ok, w) \<Rightarrow>
        if ok then let gen = ic_generation C w + 1
                   in (Alloc (nfs_fattr_init (ic_jiffies C w) gen (junk_fattr V w)), ic_set_generation C w gen)
        else (Null, w))"

definition nfs4_label_alloc :: "'w vfs \<Rightarrow> 'w icache \<Rightarrow> 'w \<Rightarrow> nfs4_label slot \<times> 'w" where
  "nfs4_label_alloc V C w =
     (if cl_minorversion (ic_sb C w) < 2 then (Null, w)
      else if \<not> cap_security_label (ic_sb C w) then (Null, w)
      else case kmalloc_ok V w of (ok, w) \<Rightarrow>
        if \<not> ok then (Err (- ENOMEM), w)
        else case kmalloc_ok V w of (ok, w) \<Rightarrow>
          if \<not> ok then (Err (- ENOMEM), w)
          else (Alloc \<lparr>label_lfs = 0, label_pi = 0, label_len = of_nat NFS4_MAXLABELLEN,
                       label_data = replicate NFS4_MAXLABELLEN 0\<rparr>, w))"

record handles =
  h_fhandles :: "nfs_fh slot list option"
  h_fattrs :: "nfs_fattr slot list option"
  h_labels :: "nfs4_label slot list option"

definition alloc_array :: "'w vfs \<Rightarrow> nat \<Rightarrow> 'w \<Rightarrow> 'a slot list option \<times> 'w" where
  "alloc_array V n w = (case kmalloc_ok V w of (ok, w) \<Rightarrow> (if ok then Some (replicate n Unset) else None, w))"

fun alloc_loop ::
  "'w vfs \<Rightarrow> 'w icache \<Rightarrow> nat \<Rightarrow> nat \<Rightarrow> nfs_fh slot list \<times> nfs_fattr slot list \<times> nfs4_label slot list \<Rightarrow> 'w \<Rightarrow>
   (int \<times> nfs_fh slot list \<times> nfs_fattr slot list \<times> nfs4_label slot list) \<times> 'w" where
  "alloc_loop V C i 0 (fhs, fas, labs) w = ((0, fhs, fas, labs), w)"
| "alloc_loop V C i (Suc n) (fhs, fas, labs) w =
     (case nfs_alloc_fhandle V w of (fh, w) \<Rightarrow>
      case nfs_alloc_fattr V C w of (fa, w) \<Rightarrow>
      case nfs4_label_alloc V C w of (lab, w) \<Rightarrow>
        let arrays = (fhs[i := fh], fas[i := fa], labs[i := lab])
        in if fh = Null \<or> fa = Null then ((- ENOMEM, arrays), w)
           else alloc_loop V C (i + 1) n arrays w)"

definition nfs_allocate_handles :: "'w vfs \<Rightarrow> 'w icache \<Rightarrow> u32 \<Rightarrow> ('w, int \<times> handles) cmd" where
  "nfs_allocate_handles V C sz = vworld (\<lambda>w.
     case alloc_array V (unat sz) w of (fhs, w) \<Rightarrow>
     case alloc_array V (unat sz) w of (fas, w) \<Rightarrow>
     case alloc_array V (unat sz) w of (labs, w) \<Rightarrow>
     case (fhs, fas, labs) of
       (Some f, Some a, Some l) \<Rightarrow>
         (case alloc_loop V C 0 (unat sz) (f, a, l) w of
            ((err, f, a, l), w) \<Rightarrow> ((err, \<lparr>h_fhandles = Some f, h_fattrs = Some a, h_labels = Some l\<rparr>), w))
     | _ \<Rightarrow> ((- ENOMEM, \<lparr>h_fhandles = fhs, h_fattrs = fas, h_labels = labs\<rparr>), w))"

text \<open>\<^verbatim>\<open>kfree\<close> of a slot: NULL is fine; the label also frees what it points to, so an error pointer is followed.\<close>

fun free_slot :: "'a slot \<Rightarrow> ('w, unit) cmd" where
  "free_slot Unset = vfail BAD_POINTER"
| "free_slot Null = vret ()"
| "free_slot (Err e) = vfail BAD_POINTER"
| "free_slot (Alloc a) = vret ()"

definition slot_at :: "'a slot list option \<Rightarrow> nat \<Rightarrow> ('w, 'a slot) cmd" where
  "slot_at xs i = (case xs of None \<Rightarrow> vfail NULL_POINTER | Some ys \<Rightarrow> if i < length ys then vret (ys ! i) else vfail BAD_POINTER)"

fun free_loop :: "handles \<Rightarrow> nat \<Rightarrow> nat \<Rightarrow> ('w, unit) cmd" where
  "free_loop h i 0 = vret ()"
| "free_loop h i (Suc n) =
     vseq (vbind (slot_at (h_fhandles h) i) free_slot)
       (vseq (vbind (slot_at (h_fattrs h) i) free_slot)
         (vseq (vbind (slot_at (h_labels h) i) free_slot) (free_loop h (i + 1) n)))"

definition nfs_free_handles :: "handles \<Rightarrow> u32 \<Rightarrow> ('w, unit) cmd" where
  "nfs_free_handles h sz = free_loop h 0 (unat sz)"

section \<open>Filling the chain\<close>

text \<open>The result of \<^verbatim>\<open>nfs_fill_dchain_list\<close>: an error of the dentry cache, the special value 10 (the walk met a symbolic
  link), or another pointer.\<close>

datatype fill_res = Fill_Err int | Fill_Link | Fill_Ok

text \<open>The loop: the entries from here on, what remains of the list, the dentry and the inode of the last round.\<close>

fun fill_loop ::
  "'w vfs \<Rightarrow> inode_hooks \<Rightarrow> 'w icache \<Rightarrow> nfs_fh list \<Rightarrow> nfs_fattr list \<Rightarrow> nfs4_label option list \<Rightarrow> nat \<Rightarrow>
   chain_dentry list \<Rightarrow> dentry option \<times> inode option \<Rightarrow>
   ('w, fill_res \<times> chain_dentry list \<times> dentry option \<times> inode option) cmd" where
  "fill_loop V H C fhs fas labs i [] prev = vret (Fill_Ok, [], prev)"
| "fill_loop V H C fhs fas labs i (e # es) prev =
     (if \<not> (i < length fhs \<and> i < length fas \<and> i < length labs) then vfail BAD_POINTER
      else
        vbind (vworld (\<lambda>w. case nfs_fhget H C (fhs ! i) (fas ! i) (labs ! i) w of (r, fa, w) \<Rightarrow> (r, w))) (\<lambda>r.
          let inode = (case r of Inl err \<Rightarrow> None | Inr ino \<Rightarrow> Some ino)
          in vbind (vworld (\<lambda>w. d_materialise_unique V w (cd_dentry e) inode)) (\<lambda>res.
               case res of
                 Inl err \<Rightarrow> vret (Fill_Err err, e # es, prev)
               | Inr alias \<Rightarrow>
                   let e' = (case alias of None \<Rightarrow> e | Some d \<Rightarrow> e\<lparr>cd_dentry := d\<rparr>);
                       prev = (Some (cd_dentry e), inode)
                   in vseq (case alias of None \<Rightarrow> vret () | Some d \<Rightarrow> dget d)
                        (vget (\<lambda>s. if d_is_symlink V (world s) (cd_dentry e) then vret (Fill_Link, e' # es, prev)
                                   else vbind (fill_loop V H C fhs fas labs (i + 1) es prev) (\<lambda>(r, es', prev).
                                          vret (r, e' # es', prev)))))))"

definition nfs_fill_dchain_list ::
  "'w vfs \<Rightarrow> inode_hooks \<Rightarrow> 'w icache \<Rightarrow> nfs_fh list \<Rightarrow> nfs_fattr list \<Rightarrow> nfs4_label option list \<Rightarrow> ('w, fill_res) cmd" where
  "nfs_fill_dchain_list V H C fhs fas labs = vget (\<lambda>s.
     vbind (fill_loop V H C fhs fas labs 0 (dchain_list s) (None, None)) (\<lambda>(r, es, dentry, inode).
       vseq (vmod (\<lambda>s. s\<lparr>dchain_list := es\<rparr>))
         (case r of
            Fill_Err e \<Rightarrow> vret r
          | _ \<Rightarrow> (case dentry of
                   None \<Rightarrow> vfail EMPTY_LIST
                 | Some d \<Rightarrow> vseq (vmod (\<lambda>s. s\<lparr>nd_path := (nd_path s)\<lparr>p_dentry := d\<rparr>, nd_inode := inode\<rparr>)) (vret r)))))"

section \<open>The operation\<close>

text \<open>The values behind the pointers that are handed to the protocol. An error pointer among the labels is passed on
  like a label that is never filled; whatever the call does, \<^verbatim>\<open>nfs_free_handles\<close> then follows it.\<close>

fun slot_value :: "'a slot \<Rightarrow> 'a option" where
  "slot_value (Alloc a) = Some a"
| "slot_value _ = None"

definition slot_values :: "'a slot list option \<Rightarrow> 'a list" where
  "slot_values xs = (case xs of None \<Rightarrow> [] | Some ys \<Rightarrow> List.map_filter slot_value ys)"

definition proto_call ::
  "'w vfs \<Rightarrow> inode \<Rightarrow> handles \<Rightarrow> u32 \<Rightarrow> ('w, int \<times> nfs4_chain_lookup_res) cmd" where
  "proto_call V dir h sz s =
     (case proto_chain_lookup V (world s) dir (map cd_name (dchain_list s)) (slot_values (h_fhandles h)) (slot_values (h_fattrs h))
             (case h_labels h of None \<Rightarrow> [] | Some ls \<Rightarrow> map slot_value ls) (sint sz) of
        Inl f \<Rightarrow> Inl (RPC_FAULT f)
      | Inr (r, w) \<Rightarrow> Inr (r, s\<lparr>world := w\<rparr>))"

text \<open>The statuses after which the chain is filled: success, and three errors that still resolved a part of it.\<close>

definition fill_status :: "int \<Rightarrow> bool" where
  "fill_status err \<longleftrightarrow> \<not> (err < 0 \<and> err \<noteq> - ENOENT \<and> err \<noteq> - EACCES \<and> err \<noteq> - 40)"

definition nfs_chain_lookup :: "'w vfs \<Rightarrow> inode_hooks \<Rightarrow> 'w icache \<Rightarrow> ('w, int) cmd" where
  "nfs_chain_lookup V H C = vget (\<lambda>s0.
     let parent = p_dentry (nd_path s0); sz = chain_size s0
     in case d_inode V (world s0) parent of
          None \<Rightarrow> vfail NULL_POINTER
        | Some dir \<Rightarrow>
            vbind (nfs_allocate_handles V C sz) (\<lambda>(err, h).
              vbind
                (if err < 0 then vret err
                 else vseq (vmod (\<lambda>s. s\<lparr>world := nfs_block_sillyrename V (world s) parent\<rparr>))
                   (vbind (proto_call V dir h sz) (\<lambda>(err, res).
                      vbind (if \<not> fill_status err then vret err
                             else vbind (nfs_fill_dchain_list V H C (chr_fhandles res) (chr_fattrs res) (chr_labels res)) (\<lambda>r.
                                    vret (if r = Fill_Link then 10 else err)))
                        (\<lambda>err. vseq (vmod (\<lambda>s. s\<lparr>world := nfs_unblock_sillyrename V (world s) parent\<rparr>)) (vret err)))))
                (\<lambda>err. vseq (dput parent) (vseq (nfs_free_handles h sz) (vret err)))))"

text \<open>\<^verbatim>\<open>nfs_chain_lookup_open\<close> calls the protocol without a directory.\<close>

definition nfs_chain_lookup_open ::
  "((nfs_server \<times> nfs_fh) option \<Rightarrow> qstr list \<Rightarrow> nfs_fh list \<Rightarrow> nfs_fattr list \<Rightarrow> nfs4_label option list \<Rightarrow> int \<Rightarrow>
    'w call_state \<Rightarrow> xdr_fault + (int \<times> nfs4_chain_lookup_res) \<times> 'w call_state) \<Rightarrow>
   'w call_state \<Rightarrow> xdr_fault + int \<times> 'w call_state" where
  "nfs_chain_lookup_open proto s =
     (case proto None [] [] [] [] 0 s of Inl e \<Rightarrow> Inl e | Inr ((err, res), s) \<Rightarrow> Inr (err, s))"

end
