(* ===== verification/Namei_Chain.thy ===== *)
theory Namei_Chain
  imports Nfs_Chain_Dir
begin

text \<open>
  Collecting the names of a path into a chain, \<^verbatim>\<open>fs/namei.c\<close>: \<^verbatim>\<open>lookup_dcache\<close>, \<^verbatim>\<open>dchain_list_pop\<close>, \<^verbatim>\<open>free_dchain_list\<close>,
  \<^verbatim>\<open>chain_lookup\<close> and \<^verbatim>\<open>walk_chain\<close>. A name that the dentry cache does not know is appended to \<^verbatim>\<open>nd->dchain_list\<close> with a temporary
  dentry; the chain is sent when it has 30 names, or by \<^verbatim>\<open>lookup_last\<close>. While a chain is pending the walk holds the mutex of
  the directory it starts from.
\<close>

section \<open>The dentry cache\<close>

definition d_alloc_ref :: "'w vfs \<Rightarrow> dentry \<Rightarrow> qstr \<Rightarrow> ('w, (int + dentry) \<times> bool) cmd" where
  "d_alloc_ref V dir name =
     vbind (vworld (\<lambda>w. d_alloc V w dir name)) (\<lambda>d.
       case d of None \<Rightarrow> vret (Inl (- ENOMEM), False) | Some d \<Rightarrow> vseq (dget d) (vret (Inr d, True)))"

text \<open>The second component is \<^verbatim>\<open>*need_lookup\<close>.\<close>

definition lookup_dcache :: "'w vfs \<Rightarrow> qstr \<Rightarrow> dentry \<Rightarrow> u32 \<Rightarrow> ('w, (int + dentry) \<times> bool) cmd" where
  "lookup_dcache V name dir flags = vget (\<lambda>s.
     case d_lookup V (world s) dir name of
       None \<Rightarrow> d_alloc_ref V dir name
     | Some d \<Rightarrow>
         vseq (dget d)
           (if d_is_chain_temp V (world s) d then vret (Inr d, True)
            else if d_op_revalidate V (world s) d then
              vbind (vworld (\<lambda>w. d_revalidate V w d flags)) (\<lambda>err.
                if err \<le> 0 then
                  if err < 0 then vseq (dput d) (vret (Inl err, False))
                  else vbind (vworld (\<lambda>w. d_invalidate V w d)) (\<lambda>r.
                         if r = 0 then vseq (dput d) (d_alloc_ref V dir name) else vret (Inr d, False))
                else vret (Inr d, False))
            else vret (Inr d, False)))"

section \<open>The chain\<close>

definition dchain_list_pop :: "('w, unit) cmd" where
  "dchain_list_pop = vget (\<lambda>s.
     if dchain_list s = [] then vfail EMPTY_LIST
     else vseq (dput (cd_dentry (last (dchain_list s))))
            (vmod (\<lambda>s. s\<lparr>dchain_list := butlast (dchain_list s), chain_size := chain_size s - 1\<rparr>)))"

text \<open>The loop of \<^verbatim>\<open>free_dchain_list\<close>; \<open>first\<close> says that \<^verbatim>\<open>prev\<close> is still NULL.\<close>

fun free_chain :: "'w vfs \<Rightarrow> bool \<Rightarrow> chain_dentry list \<Rightarrow> ('w, unit) cmd" where
  "free_chain V first [] = vret ()"
| "free_chain V first (e # es) = vget (\<lambda>s.
     let path_dentry = p_dentry (nd_path s)
     in vseq (vwhen (cd_dentry e \<noteq> path_dentry) (dput (cd_dentry e)))
          (vseq (vwhen (d_is_symlink V (world s) (cd_dentry e))
                   (vseq (vwhen (\<not> first) (dput path_dentry)) (vmod (\<lambda>s. s\<lparr>nd_last := cd_name e\<rparr>))))
             (free_chain V False es)))"

definition free_dchain_list :: "'w vfs \<Rightarrow> ('w, unit) cmd" where
  "free_dchain_list V = vget (\<lambda>s.
     vseq (free_chain V True (dchain_list s)) (vmod (\<lambda>s. s\<lparr>dchain_list := [], chain_size := 0\<rparr>)))"

definition unlock_chain :: "('w, unit) cmd" where
  "unlock_chain = vget (\<lambda>s. mutex_unlock (chain_parent s))"

text \<open>\<^verbatim>\<open>chain_lookup\<close> returns its status and what it leaves in \<^verbatim>\<open>*path\<close>.\<close>

definition chain_lookup :: "'w vfs \<Rightarrow> inode_hooks \<Rightarrow> 'w icache \<Rightarrow> vpath \<Rightarrow> ('w, int \<times> vpath) cmd" where
  "chain_lookup V H C path = vget (\<lambda>s.
     if nd_inode s = None then vfail NULL_POINTER
     else vbind (nfs_chain_lookup V H C) (\<lambda>err.
       vbind (if err > 0
              then vget (\<lambda>s. let p = nd_path s; parent = d_parent V (world s) (p_dentry p)
                             in vseq (vmod (\<lambda>s. s\<lparr>nd_path := p\<lparr>p_dentry := parent\<rparr>, nd_inode := d_inode V (world s) parent\<rparr>))
                                  (vseq (dget parent) (vret p)))
              else vret path) (\<lambda>path.
         vseq (free_dchain_list V)
           (vseq (vwhen (err < 0) terminate_walk) (vseq unlock_chain (vret (err, path)))))))"

text \<open>The dentry the next name is looked up in: the last of the chain, or the directory itself, which then is locked.\<close>

definition chain_start :: "('w, dentry) cmd" where
  "chain_start = vget (\<lambda>s.
     if chain_size s \<noteq> 0
     then if dchain_list s = [] then vfail EMPTY_LIST else vret (cd_dentry (last (dchain_list s)))
     else let d = p_dentry (nd_path s)
          in vseq (vmod (\<lambda>s. s\<lparr>chain_parent := d\<rparr>)) (vseq (mutex_lock d) (vret d)))"

text \<open>The label \<^verbatim>\<open>out_err\<close>.\<close>

definition walk_chain_err :: "'w vfs \<Rightarrow> int \<Rightarrow> vpath \<Rightarrow> ('w, int \<times> vpath) cmd" where
  "walk_chain_err V err path =
     vseq terminate_walk (vseq (free_dchain_list V) (vseq unlock_chain (vret (err, path))))"

text \<open>A name the cache knows ends the chain: the walk moves to it.\<close>

definition walk_cached :: "'w vfs \<Rightarrow> nat \<Rightarrow> dentry \<Rightarrow> u32 \<Rightarrow> vpath \<Rightarrow> ('w, int \<times> vpath) cmd" where
  "walk_cached V n dentry follow path =
     vbind (vget (\<lambda>s. if d_mountpoint V (world s) (p_dentry path) then follow_mount V n path else vret path)) (\<lambda>path.
       vget (\<lambda>s.
         if should_follow_link V (world s) (p_dentry path) follow \<noteq> 0 then vseq unlock_chain (vret (1, path))
         else
           let inode = d_inode V (world s) dentry
           in vseq (path_to_nameidata path)
                (vseq (vmod (\<lambda>s. s\<lparr>nd_inode := inode\<rparr>))
                   (vseq (free_dchain_list V)
                      (vseq unlock_chain
                         (if inode = None then vseq terminate_walk (vret (- ENOENT, path)) else vret (0, path)))))))"

text \<open>An unknown name is appended.\<close>

definition walk_append :: "'w vfs \<Rightarrow> inode_hooks \<Rightarrow> 'w icache \<Rightarrow> dentry \<Rightarrow> vpath \<Rightarrow> ('w, int \<times> vpath) cmd" where
  "walk_append V H C dentry path =
     vbind (vworld (kmalloc_ok V)) (\<lambda>ok.
       if \<not> ok then walk_chain_err V (- ENOMEM) path
       else
         vseq (vmod (\<lambda>s. s\<lparr>world := d_set_chain_temp V (world s) dentry,
                           dchain_list := dchain_list s @ [\<lparr>cd_name = nd_last s, cd_dentry = dentry\<rparr>],
                           chain_size := chain_size s + 1\<rparr>))
           (vget (\<lambda>s. if chain_size s \<ge> 30 then chain_lookup V H C path else vret (0, path))))"

definition walk_chain :: "'w vfs \<Rightarrow> inode_hooks \<Rightarrow> 'w icache \<Rightarrow> nat \<Rightarrow> u32 \<Rightarrow> vpath \<Rightarrow> ('w, int \<times> vpath) cmd" where
  "walk_chain V H C n follow path = vget (\<lambda>s.
     if nd_last_type s \<noteq> LAST_NORM then
       if chain_size s > 0 \<and> nd_last_type s = LAST_DOTDOT then
         vseq dchain_list_pop (vseq (vget (\<lambda>s. vwhen (chain_size s = 0) unlock_chain)) (vret (0, path)))
       else if chain_size s > 0 \<and> nd_last_type s = LAST_DOT then vret (0, path)
       else vbind (handle_dots V n (nd_last_type s)) (\<lambda>err. vret (err, path))
     else
       vbind chain_start (\<lambda>dir.
         vbind (lookup_dcache V (nd_last s) dir (nd_flags s)) (\<lambda>(d, need_lookup).
           case d of
             Inl err \<Rightarrow> walk_chain_err V err path
           | Inr dentry \<Rightarrow>
               vget (\<lambda>s.
                 let path = \<lparr>p_mnt = p_mnt (nd_path s), p_dentry = dentry\<rparr>
                 in if \<not> need_lookup then walk_cached V n dentry follow path
                    else walk_append V H C dentry path))))"

end
