(* ===== verification/Namei_Walk.thy ===== *)
theory Namei_Walk
  imports Namei_Chain
begin

text \<open>
  The walk along a path, \<^verbatim>\<open>fs/namei.c\<close>: single components (\<^verbatim>\<open>walk_component\<close> and what it calls), symbolic links, the loop over the
  components \<^verbatim>\<open>link_path_walk\<close>, and the lookups \<^verbatim>\<open>path_lookupat\<close>, \<^verbatim>\<open>filename_lookup\<close>, \<^verbatim>\<open>kern_path\<close> and \<^verbatim>\<open>kern_path_locked\<close>. Walks are reference walks, as in
  \<^verbatim>\<open>Vfs_State\<close>.

  A path is the list of its bytes without the final NUL; the name of a \<^verbatim>\<open>qstr\<close> is what its pointer points to, the rest of the path included. The loops that the
  kernel bounds by counting links, mounts and components take a bound of their own and give the fault \<open>OUT_OF_FUEL\<close> beyond it.
\<close>

abbreviation (input) LOOKUP_REVAL :: u32 where "LOOKUP_REVAL \<equiv> 0x20"
abbreviation (input) LOOKUP_OPEN :: u32 where "LOOKUP_OPEN \<equiv> 0x100"
abbreviation (input) LOOKUP_CREATE :: u32 where "LOOKUP_CREATE \<equiv> 0x200"
abbreviation (input) MAX_NESTED_LINKS :: nat where "MAX_NESTED_LINKS \<equiv> 8"
abbreviation (input) EREMOTE :: int where "EREMOTE \<equiv> 66"
abbreviation (input) AT_FDCWD :: int where "AT_FDCWD \<equiv> -100"
abbreviation (input) SLASH :: u8 where "SLASH \<equiv> 0x2F"
abbreviation (input) DOT :: u8 where "DOT \<equiv> 0x2E"

text \<open>What \<^verbatim>\<open>->follow_link\<close> leaves: a string, an error pointer in its place, or nothing because it has jumped to a path.\<close>

datatype link = Link_Path bytes | Link_Err int | Link_Jump vpath

text \<open>More kernel services. \<open>None\<close> stands for an operation that the dentry or inode does not have.\<close>

record 'w walk_env =
  d_can_lookup :: "'w \<Rightarrow> dentry \<Rightarrow> bool"
  d_is_negative :: "'w \<Rightarrow> dentry \<Rightarrow> bool"
  d_hash :: "'w \<Rightarrow> dentry \<Rightarrow> (qstr \<Rightarrow> int \<times> qstr) option"
  d_weak_revalidate :: "'w \<Rightarrow> dentry \<Rightarrow> (u32 \<Rightarrow> int \<times> 'w) option"
  d_manage :: "'w \<Rightarrow> dentry \<Rightarrow> (int \<times> 'w) option"
  d_need_automount :: "'w \<Rightarrow> dentry \<Rightarrow> bool"
  d_automount :: "'w \<Rightarrow> vpath \<Rightarrow> ((int + vfsmount option) \<times> 'w) option"
  finish_automount :: "'w \<Rightarrow> vfsmount \<Rightarrow> vpath \<Rightarrow> int \<times> 'w"
  IS_DEADDIR :: "'w \<Rightarrow> inode \<Rightarrow> bool"
  i_op_lookup :: "'w \<Rightarrow> inode \<Rightarrow> dentry \<Rightarrow> u32 \<Rightarrow> (int + dentry option) \<times> 'w"
  touch_atime :: "'w \<Rightarrow> vpath \<Rightarrow> 'w"
  security_inode_follow_link :: "'w \<Rightarrow> dentry \<Rightarrow> int"
  i_op_follow_link :: "'w \<Rightarrow> dentry \<Rightarrow> (int + link) \<times> 'w"
  i_op_put_link :: "'w \<Rightarrow> dentry \<Rightarrow> 'w"
  sysctl_protected_symlinks :: bool
  current_fsuid :: nat
  inode_uid :: "'w \<Rightarrow> inode \<Rightarrow> nat"
  inode_mode :: "'w \<Rightarrow> inode \<Rightarrow> u16"
  get_fs_pwd :: "'w \<Rightarrow> vpath"
  fdget_raw :: "'w \<Rightarrow> int \<Rightarrow> vpath option"
  junk_path :: "'w \<Rightarrow> vpath"

section \<open>Mounts\<close>

text \<open>The results are the status, the path and \<^verbatim>\<open>need_mntput\<close>.\<close>

definition follow_automount :: "'w vfs \<Rightarrow> 'w walk_env \<Rightarrow> vpath \<Rightarrow> u32 \<Rightarrow> bool \<Rightarrow> ('w, int \<times> vpath \<times> bool) cmd" where
  "follow_automount V W path flags need_mntput = vget (\<lambda>s.
     case d_automount W (world s) path of
       None \<Rightarrow> vret (- EREMOTE, path, need_mntput)
     | Some _ \<Rightarrow>
         if flags AND (LOOKUP_PARENT OR LOOKUP_DIRECTORY OR LOOKUP_OPEN OR LOOKUP_CREATE OR LOOKUP_AUTOMOUNT) = 0 \<and>
            d_inode V (world s) (p_dentry path) \<noteq> None
         then vret (- EISDIR, path, need_mntput)
         else
           vseq (vmod (\<lambda>s. s\<lparr>total_link_count := total_link_count s + 1\<rparr>)) (vget (\<lambda>s.
             if total_link_count s \<ge> 40 then vret (- ELOOP, path, need_mntput)
             else case d_automount W (world s) path of
                    None \<Rightarrow> vret (- EREMOTE, path, need_mntput)
                  | Some (mnt, w) \<Rightarrow>
                      vseq (vmod (\<lambda>s. s\<lparr>world := w\<rparr>))
                        (case mnt of
                           Inl e \<Rightarrow> vret (if e = - EISDIR \<and> flags AND LOOKUP_PARENT \<noteq> 0 then - EREMOTE else e, path, need_mntput)
                         | Inr None \<Rightarrow> vret (0, path, need_mntput)
                         | Inr (Some mnt) \<Rightarrow>
                             vseq (vwhen (\<not> need_mntput) (mntget (p_mnt path)))
                               (vbind (vworld (\<lambda>w. finish_automount W w mnt path)) (\<lambda>err.
                                  if err = - EBUSY then vret (0, path, True)
                                  else if err = 0 then
                                    vseq (path_put path) (vget (\<lambda>s.
                                      let root = mnt_root V (world s) mnt
                                      in vseq (dget root) (vret (0, \<lparr>p_mnt = mnt, p_dentry = root\<rparr>, True))))
                                  else vret (err, path, True)))))))"

fun managed_loop :: "'w vfs \<Rightarrow> 'w walk_env \<Rightarrow> nat \<Rightarrow> u32 \<Rightarrow> vpath \<Rightarrow> bool \<Rightarrow> int \<Rightarrow> ('w, int \<times> vpath \<times> bool) cmd" where
  "managed_loop V W 0 flags path need_mntput ret = vfail OUT_OF_FUEL"
| "managed_loop V W (Suc n) flags path need_mntput ret = vget (\<lambda>s.
     let transit = d_manage W (world s) (p_dentry path); mounted = d_mountpoint V (world s) (p_dentry path);
         automount = d_need_automount W (world s) (p_dentry path)
     in if transit = None \<and> \<not> mounted \<and> \<not> automount then vret (ret, path, need_mntput)
        else vbind (case transit of None \<Rightarrow> vret ret | Some (r, w) \<Rightarrow> vseq (vmod (\<lambda>s. s\<lparr>world := w\<rparr>)) (vret r)) (\<lambda>ret.
          if transit \<noteq> None \<and> ret < 0 then vret (ret, path, need_mntput)
          else vget (\<lambda>s.
            case (if mounted then lookup_mnt V (world s) path else None) of
              Some m \<Rightarrow>
                vseq (mntget m) (vseq (dput (p_dentry path)) (vseq (vwhen need_mntput (mntput (p_mnt path)))
                  (let p' = \<lparr>p_mnt = m, p_dentry = mnt_root V (world s) m\<rparr>
                   in vseq (dget (p_dentry p')) (managed_loop V W n flags p' True ret))))
            | None \<Rightarrow>
                if automount then vbind (follow_automount V W path flags need_mntput) (\<lambda>(r, path, need_mntput).
                  if r < 0 then vret (r, path, need_mntput) else managed_loop V W n flags path need_mntput r)
                else vret (ret, path, need_mntput))))"

definition follow_managed :: "'w vfs \<Rightarrow> 'w walk_env \<Rightarrow> nat \<Rightarrow> vpath \<Rightarrow> u32 \<Rightarrow> ('w, int \<times> vpath) cmd" where
  "follow_managed V W n path flags =
     vbind (managed_loop V W n flags path False 0) (\<lambda>(ret, path', need_mntput).
       vseq (vwhen (need_mntput \<and> p_mnt path' = p_mnt path) (mntput (p_mnt path')))
         (let ret = (if ret = - EISDIR then 0 else ret)
          in vret (if ret < 0 then ret else of_bool need_mntput, path')))"

section \<open>One component\<close>

definition lookup_fast :: "'w vfs \<Rightarrow> 'w walk_env \<Rightarrow> nat \<Rightarrow> vpath \<Rightarrow> ('w, int \<times> vpath \<times> inode option) cmd" where
  "lookup_fast V W n path = no_rcu (vget (\<lambda>s.
     case d_lookup V (world s) (p_dentry (nd_path s)) (nd_last s) of
       None \<Rightarrow> vret (1, path, None)
     | Some d \<Rightarrow>
         vseq (dget d) (vbind (if d_op_revalidate V (world s) d then vworld (\<lambda>w. d_revalidate V w d (nd_flags s)) else vret 1) (\<lambda>status.
           if status < 0 then vseq (dput d) (vret (status, path, None))
           else vbind (if status = 0 then vworld (\<lambda>w. d_invalidate V w d) else vret 1) (\<lambda>r.
             if r = 0 then vseq (dput d) (vret (1, path, None))
             else vbind (follow_managed V W n \<lparr>p_mnt = p_mnt (nd_path s), p_dentry = d\<rparr> (nd_flags s)) (\<lambda>(err, path).
               if err < 0 then vseq (path_put_conditional path) (vret (err, path, None))
               else vseq (vwhen (err \<noteq> 0) (vmod (\<lambda>s. s\<lparr>nd_flags := nd_flags s OR LOOKUP_JUMPED\<rparr>)))
                      (vget (\<lambda>s. vret (0, path, d_inode V (world s) (p_dentry path))))))))))"

definition lookup_real :: "'w walk_env \<Rightarrow> inode \<Rightarrow> dentry \<Rightarrow> u32 \<Rightarrow> ('w, int + dentry) cmd" where
  "lookup_real W dir dentry flags = vget (\<lambda>s.
     if IS_DEADDIR W (world s) dir then vseq (dput dentry) (vret (Inl (- ENOENT)))
     else vbind (vworld (\<lambda>w. i_op_lookup W w dir dentry flags)) (\<lambda>old.
       case old of
         Inl e \<Rightarrow> vseq (dput dentry) (vret (Inl e))
       | Inr None \<Rightarrow> vret (Inr dentry)
       | Inr (Some d) \<Rightarrow> vseq (dget d) (vseq (dput dentry) (vret (Inr d)))))"

definition lookup_hash :: "'w vfs \<Rightarrow> 'w walk_env \<Rightarrow> qstr \<Rightarrow> dentry \<Rightarrow> u32 \<Rightarrow> ('w, int + dentry) cmd" where
  "lookup_hash V W name base flags =
     vbind (lookup_dcache V name base flags) (\<lambda>(d, need_lookup).
       if \<not> need_lookup then vret d
       else case d of
              Inl e \<Rightarrow> vret (Inl e)
            | Inr dentry \<Rightarrow> vget (\<lambda>s. case d_inode V (world s) base of None \<Rightarrow> vfail NULL_POINTER | Some dir \<Rightarrow> lookup_real W dir dentry flags))"

definition lookup_slow :: "'w vfs \<Rightarrow> 'w walk_env \<Rightarrow> nat \<Rightarrow> vpath \<Rightarrow> ('w, int \<times> vpath) cmd" where
  "lookup_slow V W n path = vget (\<lambda>s.
     let parent = p_dentry (nd_path s)
     in if nd_inode s \<noteq> d_inode V (world s) parent then vfail BUG
        else vseq (mutex_lock parent) (vbind (lookup_hash V W (nd_last s) parent (nd_flags s)) (\<lambda>d.
          vseq (mutex_unlock parent)
            (case d of
               Inl e \<Rightarrow> vret (e, path)
             | Inr d \<Rightarrow>
                 vbind (follow_managed V W n \<lparr>p_mnt = p_mnt (nd_path s), p_dentry = d\<rparr> (nd_flags s)) (\<lambda>(err, path).
                   if err < 0 then vseq (path_put_conditional path) (vret (err, path))
                   else vseq (vwhen (err \<noteq> 0) (vmod (\<lambda>s. s\<lparr>nd_flags := nd_flags s OR LOOKUP_JUMPED\<rparr>))) (vret (0, path)))))))"

definition walk_component :: "'w vfs \<Rightarrow> 'w walk_env \<Rightarrow> nat \<Rightarrow> vpath \<Rightarrow> u32 \<Rightarrow> ('w, int \<times> vpath) cmd" where
  "walk_component V W n path follow = vget (\<lambda>s.
     if nd_last_type s \<noteq> LAST_NORM then vbind (handle_dots V n (nd_last_type s)) (\<lambda>err. vret (err, path))
     else vbind (lookup_fast V W n path) (\<lambda>(err, path, inode).
       if err < 0 then vseq terminate_walk (vret (err, path))
       else vbind (if err \<noteq> 0
                   then vbind (lookup_slow V W n path) (\<lambda>(err, path). vget (\<lambda>s. vret (err, path, d_inode V (world s) (p_dentry path))))
                   else vret (0, path, inode)) (\<lambda>(err, path, inode).
         if err < 0 then vseq terminate_walk (vret (err, path))
         else vget (\<lambda>s.
           if inode = None \<or> d_is_negative W (world s) (p_dentry path)
           then vseq (path_to_nameidata path) (vseq terminate_walk (vret (- ENOENT, path)))
           else if should_follow_link V (world s) (p_dentry path) follow \<noteq> 0 then vret (1, path)
           else vseq (path_to_nameidata path) (vseq (vmod (\<lambda>s. s\<lparr>nd_inode := inode\<rparr>)) (vret (0, path)))))))"

section \<open>Symbolic links\<close>

definition nd_jump_link :: "'w vfs \<Rightarrow> vpath \<Rightarrow> ('w, unit) cmd" where
  "nd_jump_link V path = vget (\<lambda>s.
     vseq (path_put (nd_path s))
       (vmod (\<lambda>s. s\<lparr>nd_path := path, nd_inode := d_inode V (world s) (p_dentry path), nd_flags := nd_flags s OR LOOKUP_JUMPED\<rparr>)))"

definition put_link :: "'w walk_env \<Rightarrow> vpath \<Rightarrow> ('w, unit) cmd" where
  "put_link W link = vseq (vmod (\<lambda>s. s\<lparr>world := i_op_put_link W (world s) (p_dentry link)\<rparr>)) (path_put link)"

definition may_follow_link :: "'w vfs \<Rightarrow> 'w walk_env \<Rightarrow> vpath \<Rightarrow> ('w, int) cmd" where
  "may_follow_link V W link = vget (\<lambda>s.
     if \<not> sysctl_protected_symlinks W then vret 0
     else case (d_inode V (world s) (p_dentry link), d_inode V (world s) (p_dentry (nd_path s))) of
            (Some inode, Some parent) \<Rightarrow>
              if current_fsuid W = inode_uid W (world s) inode then vret 0
              else if inode_mode W (world s) parent AND 0x202 \<noteq> 0x202 then vret 0
              else if inode_uid W (world s) parent = inode_uid W (world s) inode then vret 0
              else vseq (path_put_conditional link) (vget (\<lambda>s. vseq (path_put (nd_path s)) (vret (- EACCES))))
          | _ \<Rightarrow> vfail NULL_POINTER)"

text \<open>\<open>walk\<close> is \<^verbatim>\<open>link_path_walk\<close>.\<close>

definition vfs_follow_link :: "'w vfs \<Rightarrow> (bytes \<Rightarrow> ('w, int) cmd) \<Rightarrow> int + bytes \<Rightarrow> ('w, int) cmd" where
  "vfs_follow_link V walk link =
     (case link of
        Inl e \<Rightarrow> vget (\<lambda>s. vseq (path_put (nd_path s)) (vret e))
      | Inr link \<Rightarrow>
          vseq (vwhen (take 1 link = [SLASH])
                 (vseq (set_root V) (vget (\<lambda>s. vseq (path_put (nd_path s))
                   (case nd_root s of
                      None \<Rightarrow> vfail NULL_POINTER
                    | Some r \<Rightarrow> vseq (vmod (\<lambda>s. s\<lparr>nd_path := r\<rparr>)) (vseq (path_get r) (vmod (\<lambda>s. s\<lparr>nd_flags := nd_flags s OR LOOKUP_JUMPED\<rparr>))))))))
            (vseq (vmod (\<lambda>s. s\<lparr>nd_inode := d_inode V (world s) (p_dentry (nd_path s))\<rparr>)) (walk link)))"

text \<open>\<open>uses_chain\<close>: the directory the walk is in has the operation \<^verbatim>\<open>chain_lookup\<close>.\<close>

definition uses_chain :: "'w vfs \<Rightarrow> 'w walk \<Rightarrow> bool" where
  "uses_chain V s \<longleftrightarrow> (case nd_inode s of None \<Rightarrow> False | Some i \<Rightarrow> i_op_chain_lookup V (world s) i) \<and> nd_flags s AND LOOKUP_AUTOMOUNT = 0"

definition follow_link ::
  "'w vfs \<Rightarrow> inode_hooks \<Rightarrow> 'w icache \<Rightarrow> 'w walk_env \<Rightarrow> (bytes \<Rightarrow> ('w, int) cmd) \<Rightarrow> vpath \<Rightarrow> ('w, int \<times> vpath) cmd" where
  "follow_link V H C W walk link =
     (let out_put_nd_path = (\<lambda>e. vget (\<lambda>s. vseq (path_put (nd_path s)) (vseq (path_put link) (vret (e, link)))))
      in no_rcu (vget (\<lambda>s.
        vseq (vwhen (p_mnt link = p_mnt (nd_path s)) (mntget (p_mnt link)))
          (if total_link_count s \<ge> 40 then out_put_nd_path (- ELOOP)
           else vseq (vmod (\<lambda>s. s\<lparr>total_link_count := total_link_count s + 1, world := touch_atime W (world s) link\<rparr>)) (vget (\<lambda>s.
             let error = security_inode_follow_link W (world s) (p_dentry link)
             in if error \<noteq> 0 then out_put_nd_path error
                else vseq (vmod (\<lambda>s. s\<lparr>nd_last_type := LAST_BIND\<rparr>)) (vbind (vworld (\<lambda>w. i_op_follow_link W w (p_dentry link))) (\<lambda>r.
                  case r of
                    Inl e \<Rightarrow> out_put_nd_path e
                  | Inr (Link_Jump p) \<Rightarrow> vseq (nd_jump_link V p) (vret (0, link))
                  | Inr l \<Rightarrow>
                      vbind (vfs_follow_link V walk (case l of Link_Path b \<Rightarrow> Inr b | Link_Err e \<Rightarrow> Inl e | Link_Jump _ \<Rightarrow> Inl 0)) (\<lambda>error.
                        vbind (vget (\<lambda>s. if uses_chain V s \<and> chain_size s \<noteq> 0 then vbind (chain_lookup V H C link) (\<lambda>(_, link). vret link) else vret link))
                          (\<lambda>link. vseq (vwhen (error \<noteq> 0) (put_link W link)) (vret (error, link))))))))))))"

fun nested_loop ::
  "'w vfs \<Rightarrow> inode_hooks \<Rightarrow> 'w icache \<Rightarrow> 'w walk_env \<Rightarrow> (bytes \<Rightarrow> ('w, int) cmd) \<Rightarrow> nat \<Rightarrow> nat \<Rightarrow> vpath \<Rightarrow> ('w, int \<times> vpath) cmd" where
  "nested_loop V H C W walk m 0 path = vfail OUT_OF_FUEL"
| "nested_loop V H C W walk m (Suc n) path =
     vbind (follow_link V H C W walk path) (\<lambda>(res, link).
       if res \<noteq> 0 then vret (res, path)
       else vbind (walk_component V W m path LOOKUP_FOLLOW) (\<lambda>(res, path).
         vseq (put_link W link) (if res > 0 then nested_loop V H C W walk m n path else vret (res, path))))"

definition nested_symlink ::
  "'w vfs \<Rightarrow> inode_hooks \<Rightarrow> 'w icache \<Rightarrow> 'w walk_env \<Rightarrow> (bytes \<Rightarrow> ('w, int) cmd) \<Rightarrow> nat \<Rightarrow> vpath \<Rightarrow> ('w, int \<times> vpath) cmd" where
  "nested_symlink V H C W walk m path = vget (\<lambda>s.
     if link_count s \<ge> MAX_NESTED_LINKS
     then vseq (path_put_conditional path) (vseq (path_put (nd_path s)) (vret (- ELOOP, path)))
     else if nd_depth s \<ge> MAX_NESTED_LINKS then vfail BUG
     else vseq (vmod (\<lambda>s. s\<lparr>nd_depth := nd_depth s + 1, link_count := link_count s + 1\<rparr>))
            (vbind (nested_loop V H C W walk m m path) (\<lambda>r.
               vseq (vmod (\<lambda>s. s\<lparr>link_count := link_count s - 1, nd_depth := nd_depth s - 1\<rparr>)) (vret r))))"

section \<open>The path\<close>

text \<open>The length of a component, and its kind. The hash of \<^verbatim>\<open>hash_name\<close> only speeds up the dentry cache.\<close>

definition hash_name :: "bytes \<Rightarrow> nat" where
  "hash_name name = Suc (length (takeWhile (\<lambda>c. c \<noteq> SLASH) (tl name)))"

definition name_type :: "bytes \<Rightarrow> last_type" where
  "name_type name =
     (let c = take (hash_name name) name in if c = [DOT, DOT] then LAST_DOTDOT else if c = [DOT] then LAST_DOT else LAST_NORM)"

text \<open>The first half of the loop: \<^verbatim>\<open>nd->last\<close>, its type and the flag \<^verbatim>\<open>LOOKUP_JUMPED\<close>. A name may be rejected by the hash function of the file system.\<close>

definition set_last :: "'w walk_env \<Rightarrow> bytes \<Rightarrow> ('w, int) cmd" where
  "set_last W name =
     (let this = \<lparr>qlen = of_nat (hash_name name), qname = name\<rparr>; type = name_type name
      in vseq (vmod (\<lambda>s. s\<lparr>nd_flags := if type = LAST_DOTDOT then nd_flags s OR LOOKUP_JUMPED
                                    else if type = LAST_NORM then nd_flags s AND NOT LOOKUP_JUMPED else nd_flags s\<rparr>))
           (vget (\<lambda>s. case (if type = LAST_NORM then d_hash W (world s) (p_dentry (nd_path s)) else None) of
              None \<Rightarrow> vseq (vmod (\<lambda>s. s\<lparr>nd_last := this, nd_last_type := type\<rparr>)) (vret 0)
            | Some h \<Rightarrow> (case h this of (err, this) \<Rightarrow>
                if err < 0 then vret err else vseq (vmod (\<lambda>s. s\<lparr>nd_last := this, nd_last_type := type\<rparr>)) (vret 0)))))"

definition start_walk :: "(bytes \<Rightarrow> ('w, int) cmd) \<Rightarrow> bytes \<Rightarrow> ('w, int) cmd" where
  "start_walk loop name = (let name = dropWhile (\<lambda>c. c = SLASH) name in if name = [] then vret 0 else loop name)"

text \<open>\<open>path_loop\<close>: at most so many components, links included; \<open>m\<close> bounds the loops within a component.\<close>

primrec path_loop ::
  "'w vfs \<Rightarrow> inode_hooks \<Rightarrow> 'w icache \<Rightarrow> 'w walk_env \<Rightarrow> nat \<Rightarrow> nat \<Rightarrow> vpath \<Rightarrow> bytes \<Rightarrow> ('w, int) cmd" where
  "path_loop V H C W m 0 = (\<lambda>next name. vfail OUT_OF_FUEL)"
| "path_loop V H C W m (Suc n) = (\<lambda>next name.
     vbind (set_last W name) (\<lambda>err.
       if err < 0 then vseq terminate_walk (vret err)
       else
         let rest = dropWhile (\<lambda>c. c = SLASH) (drop (hash_name name) name)
         in if rest = [] then vret 0
            else vbind (vget (\<lambda>s. if uses_chain V s then walk_chain V H C m LOOKUP_FOLLOW next else walk_component V W m next LOOKUP_FOLLOW)) (\<lambda>(err, next).
              if err < 0 then vret err
              else vbind (if err = 0 then vret (0, next)
                          else vget (\<lambda>s. nested_symlink V H C W (start_walk (path_loop V H C W m n (junk_path W (world s)))) m next)) (\<lambda>(err, next).
                if err \<noteq> 0 then vret err
                else vget (\<lambda>s. if \<not> d_can_lookup W (world s) (p_dentry (nd_path s)) then vseq terminate_walk (vret (- ENOTDIR))
                               else path_loop V H C W m n next rest)))))"

definition link_path_walk :: "'w vfs \<Rightarrow> inode_hooks \<Rightarrow> 'w icache \<Rightarrow> 'w walk_env \<Rightarrow> nat \<Rightarrow> bytes \<Rightarrow> ('w, int) cmd" where
  "link_path_walk V H C W n name = vget (\<lambda>s. start_walk (path_loop V H C W n n (junk_path W (world s))) name)"

section \<open>Lookups\<close>

definition path_init :: "'w vfs \<Rightarrow> 'w walk_env \<Rightarrow> int \<Rightarrow> bytes \<Rightarrow> u32 \<Rightarrow> ('w, int) cmd" where
  "path_init V W dfd name flags =
     vseq (vmod (\<lambda>s. s\<lparr>nd_last_type := LAST_ROOT, nd_flags := flags OR LOOKUP_JUMPED, nd_depth := 0, chain_size := 0, dchain_list := []\<rparr>))
       (let set_inode = vseq (vmod (\<lambda>s. s\<lparr>nd_inode := d_inode V (world s) (p_dentry (nd_path s))\<rparr>)) (vret 0)
        in no_rcu (vget (\<lambda>s.
          if flags AND LOOKUP_ROOT \<noteq> 0 then
            (case nd_root s of
               None \<Rightarrow> vfail NULL_POINTER
             | Some root \<Rightarrow>
                 let inode = d_inode V (world s) (p_dentry root)
                 in if name \<noteq> [] \<and> \<not> d_can_lookup W (world s) (p_dentry root) then vret (- ENOTDIR)
                    else if name \<noteq> [] \<and> inode = None then vfail NULL_POINTER
                    else let retval = (if name = [] then 0 else inode_permission V (world s) (the inode))
                         in if retval \<noteq> 0 then vret retval
                            else vseq (vmod (\<lambda>s. s\<lparr>nd_path := root, nd_inode := inode\<rparr>)) (vseq (path_get root) (vret 0)))
          else vseq (vmod (\<lambda>s. s\<lparr>nd_root := None\<rparr>))
            (if take 1 name = [SLASH] then
               vseq (set_root V) (vget (\<lambda>s. case nd_root s of
                   None \<Rightarrow> vfail NULL_POINTER
                 | Some r \<Rightarrow> vseq (path_get r) (vseq (vmod (\<lambda>s. s\<lparr>nd_path := r\<rparr>)) set_inode)))
             else if dfd = AT_FDCWD then
               let pwd = get_fs_pwd W (world s) in vseq (path_get pwd) (vseq (vmod (\<lambda>s. s\<lparr>nd_path := pwd\<rparr>)) set_inode)
             else case fdget_raw W (world s) dfd of
                    None \<Rightarrow> vret (- EBADF)
                  | Some p \<Rightarrow> if name \<noteq> [] \<and> \<not> d_can_lookup W (world s) (p_dentry p) then vret (- ENOTDIR)
                             else vseq (vmod (\<lambda>s. s\<lparr>nd_path := p\<rparr>)) (vseq (path_get p) set_inode)))))"

definition lookup_last :: "'w vfs \<Rightarrow> inode_hooks \<Rightarrow> 'w icache \<Rightarrow> 'w walk_env \<Rightarrow> nat \<Rightarrow> vpath \<Rightarrow> ('w, int \<times> vpath) cmd" where
  "lookup_last V H C W n path =
     vseq (vmod (\<lambda>s. s\<lparr>nd_flags := (if nd_last_type s = LAST_NORM \<and> unat (qlen (nd_last s)) < length (qname (nd_last s))
                                 then nd_flags s OR LOOKUP_FOLLOW OR LOOKUP_DIRECTORY else nd_flags s) AND NOT LOOKUP_PARENT\<rparr>)) (vget (\<lambda>s.
       if (case d_inode V (world s) (p_dentry (nd_path s)) of None \<Rightarrow> False | Some i \<Rightarrow> i_op_chain_lookup V (world s) i) \<and> nd_flags s AND LOOKUP_AUTOMOUNT = 0
       then vbind (walk_chain V H C n (nd_flags s AND LOOKUP_FOLLOW) path) (\<lambda>(err, path).
              if err \<noteq> 0 then vret (err, path)
              else vget (\<lambda>s. if chain_size s = 0 then vret (err, path) else chain_lookup V H C path))
       else walk_component V W n path (nd_flags s AND LOOKUP_FOLLOW)))"

definition complete_walk :: "'w walk_env \<Rightarrow> ('w, int) cmd" where
  "complete_walk W = no_rcu (vget (\<lambda>s.
     if nd_flags s AND LOOKUP_JUMPED = 0 then vret 0
     else case d_weak_revalidate W (world s) (p_dentry (nd_path s)) of
            None \<Rightarrow> vret 0
          | Some f \<Rightarrow> (case f (nd_flags s) of (status, w) \<Rightarrow>
              vseq (vmod (\<lambda>s. s\<lparr>world := w\<rparr>))
                (if status > 0 then vret 0
                 else vseq (path_put (nd_path s)) (vret (if status = 0 then - ESTALE else status))))))"

text \<open>The two loops of \<^verbatim>\<open>path_lookupat\<close>: again from the name a chain stopped at, and following the link at the end.\<close>

fun last_links ::
  "'w vfs \<Rightarrow> inode_hooks \<Rightarrow> 'w icache \<Rightarrow> 'w walk_env \<Rightarrow> nat \<Rightarrow> nat \<Rightarrow> int \<Rightarrow> vpath \<Rightarrow> ('w, int) cmd" where
  "last_links V H C W m 0 err path = (if err > 0 then vfail OUT_OF_FUEL else vret err)"
| "last_links V H C W m (Suc n) err path =
     (if err \<le> 0 then vret err
      else vbind (may_follow_link V W path) (\<lambda>err.
        if err \<noteq> 0 then vret err
        else vseq (vmod (\<lambda>s. s\<lparr>nd_flags := nd_flags s OR LOOKUP_PARENT\<rparr>))
          (vbind (follow_link V H C W (link_path_walk V H C W m) path) (\<lambda>(err, link).
             if err \<noteq> 0 then vret err
             else vbind (lookup_last V H C W m path) (\<lambda>(err, path). vseq (put_link W link) (last_links V H C W m n err path))))))"

fun relookup ::
  "'w vfs \<Rightarrow> inode_hooks \<Rightarrow> 'w icache \<Rightarrow> 'w walk_env \<Rightarrow> nat \<Rightarrow> nat \<Rightarrow> u32 \<Rightarrow> bytes \<Rightarrow> vpath \<Rightarrow> ('w, int) cmd" where
  "relookup V H C W m 0 flags name path = vfail OUT_OF_FUEL"
| "relookup V H C W m (Suc n) flags name path =
     vbind (link_path_walk V H C W m name) (\<lambda>err.
       if err \<noteq> 0 \<or> flags AND LOOKUP_PARENT \<noteq> 0 then vret err
       else vbind (lookup_last V H C W m path) (\<lambda>(err, path).
         if err = 10 then vget (\<lambda>s. relookup V H C W m n flags (qname (nd_last s)) path)
         else last_links V H C W m m err path))"

definition path_lookupat :: "'w vfs \<Rightarrow> inode_hooks \<Rightarrow> 'w icache \<Rightarrow> 'w walk_env \<Rightarrow> nat \<Rightarrow> int \<Rightarrow> bytes \<Rightarrow> u32 \<Rightarrow> ('w, int) cmd" where
  "path_lookupat V H C W n dfd name flags =
     vbind (path_init V W dfd name (flags OR LOOKUP_PARENT)) (\<lambda>err.
       if err \<noteq> 0 then vret err
       else vseq (vmod (\<lambda>s. s\<lparr>total_link_count := 0\<rparr>))
         (vbind (vget (\<lambda>s. relookup V H C W n n flags name (junk_path W (world s)))) (\<lambda>err.
           vbind (if err = 0 then complete_walk W else vret err) (\<lambda>err.
             vbind (vget (\<lambda>s. if err = 0 \<and> nd_flags s AND LOOKUP_DIRECTORY \<noteq> 0 \<and> \<not> d_can_lookup W (world s) (p_dentry (nd_path s))
                              then vseq (path_put (nd_path s)) (vret (- ENOTDIR)) else vret err)) (\<lambda>err.
               vget (\<lambda>s. case nd_root s of
                   None \<Rightarrow> vret err
                 | Some r \<Rightarrow> if nd_flags s AND LOOKUP_ROOT \<noteq> 0 then vret err
                            else vseq (path_put r) (vseq (vmod (\<lambda>s. s\<lparr>nd_root := None\<rparr>)) (vret err))))))))"

text \<open>The audit record is left out.\<close>

definition filename_lookup :: "'w vfs \<Rightarrow> inode_hooks \<Rightarrow> 'w icache \<Rightarrow> 'w walk_env \<Rightarrow> nat \<Rightarrow> int \<Rightarrow> bytes \<Rightarrow> u32 \<Rightarrow> ('w, int) cmd" where
  "filename_lookup V H C W n dfd name flags =
     vbind (path_lookupat V H C W n dfd name flags) (\<lambda>retval.
       if retval = - ESTALE then path_lookupat V H C W n dfd name (flags OR LOOKUP_REVAL) else vret retval)"

text \<open>Names that come from the kernel: \<^verbatim>\<open>getname_kernel\<close> may run out of memory.\<close>

definition do_path_lookup :: "'w vfs \<Rightarrow> inode_hooks \<Rightarrow> 'w icache \<Rightarrow> 'w walk_env \<Rightarrow> nat \<Rightarrow> int \<Rightarrow> int + bytes \<Rightarrow> u32 \<Rightarrow> ('w, int) cmd" where
  "do_path_lookup V H C W n dfd name flags = (case name of Inl e \<Rightarrow> vret e | Inr name \<Rightarrow> filename_lookup V H C W n dfd name flags)"

definition kern_path :: "'w vfs \<Rightarrow> inode_hooks \<Rightarrow> 'w icache \<Rightarrow> 'w walk_env \<Rightarrow> nat \<Rightarrow> int + bytes \<Rightarrow> u32 \<Rightarrow> ('w, int \<times> vpath option) cmd" where
  "kern_path V H C W n name flags =
     vbind (do_path_lookup V H C W n AT_FDCWD name flags) (\<lambda>res. vget (\<lambda>s. vret (res, if res = 0 then Some (nd_path s) else None)))"

text \<open>The object with its parent locked.\<close>

definition kern_path_locked :: "'w vfs \<Rightarrow> inode_hooks \<Rightarrow> 'w icache \<Rightarrow> 'w walk_env \<Rightarrow> nat \<Rightarrow> int + bytes \<Rightarrow> ('w, (int + dentry) \<times> vpath option) cmd" where
  "kern_path_locked V H C W n name =
     (case name of
        Inl e \<Rightarrow> vret (Inl e, None)
      | Inr name \<Rightarrow>
          vbind (filename_lookup V H C W n AT_FDCWD name LOOKUP_PARENT) (\<lambda>err.
            if err \<noteq> 0 then vret (Inl err, None)
            else vget (\<lambda>s.
              if nd_last_type s \<noteq> LAST_NORM then vseq (path_put (nd_path s)) (vret (Inl (- EINVAL), None))
              else vseq (mutex_lock (p_dentry (nd_path s))) (vbind (lookup_hash V W (nd_last s) (p_dentry (nd_path s)) 0) (\<lambda>d.
                case d of
                  Inl e \<Rightarrow> vseq (mutex_unlock (p_dentry (nd_path s))) (vseq (path_put (nd_path s)) (vret (Inl e, None)))
                | Inr d \<Rightarrow> vret (Inr d, Some (nd_path s)))))))"

end
