(* ===== verification/Namei_Chain_Correct.thy ===== *)
theory Namei_Chain_Correct
  imports Namei_Chain
begin

text \<open>
  References and mutexes of a walk that collects a chain. \<open>walk_inv\<close> says what the walk holds between two names: one
  reference for \<^verbatim>\<open>nd->path\<close>, one for every dentry of the pending chain, and the mutex of the directory the chain starts from exactly
  while there is a chain. Every step keeps it or, when it fails, has given everything back.
\<close>

section \<open>Commands on known states\<close>

lemma vworld_simp: "vworld f s = (case f (world s) of (a, w) \<Rightarrow> Inr (a, s\<lparr>world := w\<rparr>))"
  by (simp add: vworld_def)

lemma vbind_step: "m s = Inr (a, t) \<Longrightarrow> vbind m k s = k a t"
  by simp

lemma vseq_step: "m s = Inr (a, t) \<Longrightarrow> vseq m k s = k t"
  by simp

lemma dput_step: "refs s d = Suc n \<Longrightarrow> dput d s = Inr ((), s\<lparr>refs := (refs s)(d := n)\<rparr>)"
  by (simp add: dput_def)

section \<open>Allocation\<close>

text \<open>An allocator that does not fail.\<close>

definition memory_law :: "'w vfs \<Rightarrow> bool" where
  "memory_law V \<longleftrightarrow> (\<forall>w. fst (kmalloc_ok V w))"

definition slot_ok :: "nfs_fh slot \<Rightarrow> nfs_fattr slot \<Rightarrow> nfs4_label slot \<Rightarrow> bool" where
  "slot_ok fh fa l \<longleftrightarrow> (\<exists>a. fh = Alloc a) \<and> (\<exists>b. fa = Alloc b \<and> fresh_fattr b) \<and> (l = Null \<or> (\<exists>c. l = Alloc c))"

lemma alloc_one:
  assumes "memory_law V"
  obtains fh fa l w1 w2 w3 where "nfs_alloc_fhandle V w = (fh, w1)" "nfs_alloc_fattr V C w1 = (fa, w2)" "nfs4_label_alloc V C w2 = (l, w3)"
    "slot_ok fh fa l"
proof -
  have k: "fst (kmalloc_ok V x)" for x using assms by (simp add: memory_law_def)
  obtain fh w1 where 1: "nfs_alloc_fhandle V w = (fh, w1)" by (cases "nfs_alloc_fhandle V w")
  obtain fa w2 where 2: "nfs_alloc_fattr V C w1 = (fa, w2)" by (cases "nfs_alloc_fattr V C w1")
  obtain l w3 where 3: "nfs4_label_alloc V C w2 = (l, w3)" by (cases "nfs4_label_alloc V C w2")
  have "\<exists>a. fh = Alloc a" using 1 k [of w] by (auto simp: nfs_alloc_fhandle_def split: prod.splits)
  moreover have "\<exists>b. fa = Alloc b \<and> fresh_fattr b"
    using 2 k [of w1] by (auto simp: nfs_alloc_fattr_def Let_def split: prod.splits)
  moreover have "l = Null \<or> (\<exists>c. l = Alloc c)"
    using 3 k by (auto simp: nfs4_label_alloc_def split: prod.splits if_splits) (metis fst_conv)+
  ultimately show thesis using that [OF 1 2 3] by (simp add: slot_ok_def)
qed

definition filled_slots :: "nat \<Rightarrow> nfs_fh slot list \<times> nfs_fattr slot list \<times> nfs4_label slot list \<Rightarrow> nat \<Rightarrow> bool" where
  "filled_slots n = (\<lambda>(fhs, fas, labs) m. length fhs = m \<and> length fas = m \<and> length labs = m \<and>
     (\<forall>j<n. slot_ok (fhs ! j) (fas ! j) (labs ! j)))"

lemma alloc_loop_ok:
  assumes "memory_law V" and "filled_slots i x m" and "i + n \<le> m"
  shows "\<exists>y w'. alloc_loop V C i n x w = ((0, y), w') \<and> filled_slots (i + n) y m"
  using assms(2,3)
proof (induction n arbitrary: i x w)
  case 0
  then show ?case by (cases x) (auto simp: filled_slots_def)
next
  case (Suc n)
  obtain fhs fas labs where x: "x = (fhs, fas, labs)" by (cases x)
  obtain fh fa l w1 w2 w3 where a: "nfs_alloc_fhandle V w = (fh, w1)" "nfs_alloc_fattr V C w1 = (fa, w2)" "nfs4_label_alloc V C w2 = (l, w3)"
    "slot_ok fh fa l" by (rule alloc_one [OF assms(1)])
  have "filled_slots (i + 1) (fhs[i := fh], fas[i := fa], labs[i := l]) m"
    using Suc.prems a(4) by (auto simp: filled_slots_def x less_Suc_eq)
  moreover have "i + 1 + n \<le> m" using Suc.prems by simp
  ultimately obtain y w' where "alloc_loop V C (i + 1) n (fhs[i := fh], fas[i := fa], labs[i := l]) w3 = ((0, y), w')"
    "filled_slots (i + 1 + n) y m" using Suc.IH by blast
  with a show ?case by (cases y) (auto simp: x slot_ok_def Let_def)
qed

definition handles_ok :: "nat \<Rightarrow> handles \<Rightarrow> bool" where
  "handles_ok n h \<longleftrightarrow> (\<exists>f a l. h = \<lparr>h_fhandles = Some f, h_fattrs = Some a, h_labels = Some l\<rparr> \<and> filled_slots n (f, a, l) n)"

lemma alloc_array_ok:
  assumes "memory_law V"
  obtains w' where "alloc_array V n w = (Some (replicate n Unset), w')"
proof (rule that)
  have "fst (kmalloc_ok V w)" using assms by (simp add: memory_law_def)
  then show "alloc_array V n w = (Some (replicate n Unset), snd (kmalloc_ok V w))" by (simp add: alloc_array_def case_prod_beta)
qed

lemma nfs_allocate_handles_ok:
  assumes "memory_law V"
  shows "\<exists>h w'. nfs_allocate_handles V C sz s = Inr ((0, h), s\<lparr>world := w'\<rparr>) \<and> handles_ok (unat sz) h"
proof -
  let ?n = "unat sz"
  obtain w1 where 1: "alloc_array V ?n (world s) = (Some (replicate ?n (Unset :: nfs_fh slot)), w1 :: 'a)" by (rule alloc_array_ok [OF assms])
  obtain w2 where 2: "alloc_array V ?n w1 = (Some (replicate ?n (Unset :: nfs_fattr slot)), w2 :: 'a)" by (rule alloc_array_ok [OF assms])
  obtain w3 where 3: "alloc_array V ?n w2 = (Some (replicate ?n (Unset :: nfs4_label slot)), w3 :: 'a)" by (rule alloc_array_ok [OF assms])
  have "filled_slots 0 (replicate ?n Unset, replicate ?n Unset, replicate ?n Unset) ?n" by (simp add: filled_slots_def)
  from alloc_loop_ok [OF assms this, of ?n C w3] obtain f a l w' where
    "alloc_loop V C 0 ?n (replicate ?n Unset, replicate ?n Unset, replicate ?n Unset) w3 = ((0, f, a, l), w')" "filled_slots ?n (f, a, l) ?n"
    by auto
  then show ?thesis unfolding nfs_allocate_handles_def handles_ok_def using 1 2 3
    by (simp add: vworld_simp) blast
qed

lemma nfs_free_handles_ok:
  assumes "handles_ok (unat sz) h"
  shows "nfs_free_handles h sz s = Inr ((), s)"
proof -
  obtain f a l where h: "h = \<lparr>h_fhandles = Some f, h_fattrs = Some a, h_labels = Some l\<rparr>" "filled_slots (unat sz) (f, a, l) (unat sz)"
    using assms by (auto simp: handles_ok_def)
  have "free_loop h i n s = Inr ((), s)" if "i + n \<le> unat sz" for i n
    using that
  proof (induction n arbitrary: i)
    case (Suc n)
    then have i: "i < unat sz" by simp
    then have ok: "slot_ok (f ! i) (a ! i) (l ! i)" and len: "i < length f" "i < length a" "i < length l"
      using h(2) by (auto simp: filled_slots_def)
    from ok have "free_slot (f ! i) s = Inr ((), s)" "free_slot (a ! i) s = Inr ((), s)" "free_slot (l ! i) s = Inr ((), s)"
      by (auto simp: slot_ok_def)
    with Suc len show ?case by (simp add: h(1) slot_at_def vseq_def vbind_def)
  qed simp
  then show ?thesis by (simp add: nfs_free_handles_def)
qed

section \<open>Filling and freeing\<close>

text \<open>A dentry cache that instantiates every temporary dentry in place, and no symbolic links.\<close>

definition in_place :: "'w vfs \<Rightarrow> bool" where
  "in_place V \<longleftrightarrow> (\<forall>w d i. fst (d_materialise_unique V w d i) = Inr None)"

definition no_links :: "'w vfs \<Rightarrow> bool" where
  "no_links V \<longleftrightarrow> (\<forall>w d. \<not> d_is_symlink V w d)"

lemma fill_loop_plain:
  assumes "in_place V" and "no_links V"
  shows "i + length es \<le> length fhs \<Longrightarrow> i + length es \<le> length fas \<Longrightarrow> i + length es \<le> length labs \<Longrightarrow>
    \<exists>w ino. fill_loop V H C fhs fas labs i es prev s =
      Inr ((Fill_Ok, es, if es = [] then prev else (Some (cd_dentry (last es)), ino)), s\<lparr>world := w\<rparr>)"
proof (induction es arbitrary: i prev s)
  case Nil
  show ?case by (intro exI [of _ "world s"]) simp
next
  case (Cons e es)
  obtain r fa w1 where 1: "nfs_fhget H C (fhs ! i) (fas ! i) (labs ! i) (world s) = (r, fa, w1)"
    by (cases "nfs_fhget H C (fhs ! i) (fas ! i) (labs ! i) (world s)")
  let ?ino = "case r of Inl err \<Rightarrow> None | Inr ino \<Rightarrow> Some ino"
  obtain w2 where 2: "d_materialise_unique V w1 (cd_dentry e) ?ino = (Inr None, w2)"
    using assms(1) unfolding in_place_def by (metis prod.collapse)
  have "i + 1 + length es \<le> length fhs" "i + 1 + length es \<le> length fas" "i + 1 + length es \<le> length labs" using Cons.prems by simp_all
  from Cons.IH [OF this, of "(Some (cd_dentry e), ?ino)" "s\<lparr>world := w2\<rparr>"] obtain w ino where
    ih: "fill_loop V H C fhs fas labs (i + 1) es (Some (cd_dentry e), ?ino) (s\<lparr>world := w2\<rparr>) =
      Inr ((Fill_Ok, es, if es = [] then (Some (cd_dentry e), ?ino) else (Some (cd_dentry (last es)), ino)), s\<lparr>world := w\<rparr>)" by auto
  have "fill_loop V H C fhs fas labs i (e # es) prev s =
      Inr ((Fill_Ok, e # es, if es = [] then (Some (cd_dentry e), ?ino) else (Some (cd_dentry (last es)), ino)), s\<lparr>world := w\<rparr>)"
    using Cons.prems 1 2 ih assms(2) by (simp add: vworld_def vbind_def vseq_def Let_def no_links_def)
  then show ?case by (cases "es = []") auto
qed

text \<open>The dentries of the chain.\<close>

definition chain_ds :: "'w walk \<Rightarrow> dentry list" where
  "chain_ds s = map cd_dentry (dchain_list s)"

lemma nfs_fill_dchain_list_plain:
  assumes "in_place V" and "no_links V" and "dchain_list s \<noteq> []"
    and "length (dchain_list s) \<le> length fhs" "length (dchain_list s) \<le> length fas" "length (dchain_list s) \<le> length labs"
  shows "\<exists>w ino. nfs_fill_dchain_list V H C fhs fas labs s =
    Inr (Fill_Ok, s\<lparr>world := w, nd_path := (nd_path s)\<lparr>p_dentry := last (chain_ds s)\<rparr>, nd_inode := ino\<rparr>)"
proof -
  obtain w ino where "fill_loop V H C fhs fas labs 0 (dchain_list s) (None, None) s =
      Inr ((Fill_Ok, dchain_list s, Some (cd_dentry (last (dchain_list s))), ino), s\<lparr>world := w\<rparr>)"
    using fill_loop_plain [OF assms(1,2), of 0 "dchain_list s" fhs fas labs H C "(None, None)" s] assms(3-6) by auto
  then show ?thesis using assms(3)
    by (intro exI [of _ w] exI [of _ ino]) (simp add: nfs_fill_dchain_list_def vbind_def vseq_def chain_ds_def last_map)
qed

text \<open>Freeing a chain without links gives back one reference per dentry, except for the one the walk has moved to.\<close>

lemma free_chain_plain:
  assumes "no_links V"
  shows "(\<And>d. refs s d = g d + count_list (filter (\<lambda>x. x \<noteq> p_dentry (nd_path s)) (map cd_dentry es)) d) \<Longrightarrow>
    free_chain V first es s = Inr ((), s\<lparr>refs := g\<rparr>)"
proof (induction es arbitrary: s first)
  case Nil
  then have "refs s = g" by (auto simp: fun_eq_iff)
  then show ?case by simp
next
  case (Cons e es)
  let ?p = "p_dentry (nd_path s)"
  show ?case
  proof (cases "cd_dentry e = ?p")
    case True
    with Cons.prems have "\<And>d. refs s d = g d + count_list (filter (\<lambda>x. x \<noteq> ?p) (map cd_dentry es)) d" by simp
    from Cons.IH [OF this, of False] True assms show ?thesis
      by (simp add: vseq_def vbind_def no_links_def Let_def)
  next
    case False
    let ?n = "g (cd_dentry e) + count_list (filter (\<lambda>x. x \<noteq> ?p) (map cd_dentry es)) (cd_dentry e)"
    let ?s = "s\<lparr>refs := (refs s)(cd_dentry e := ?n)\<rparr>"
    have r: "refs s (cd_dentry e) = Suc ?n" using Cons.prems [of "cd_dentry e"] False by simp
    have "refs ?s d = g d + count_list (filter (\<lambda>x. x \<noteq> p_dentry (nd_path ?s)) (map cd_dentry es)) d" for d
      using Cons.prems [of d] False by (cases "d = cd_dentry e") auto
    from Cons.IH [OF this, of False] False r assms show ?thesis
      by (simp add: vseq_def vbind_def no_links_def Let_def dput_def)
  qed
qed

lemma free_dchain_list_plain:
  assumes "no_links V" and "\<And>d. refs s d = g d + count_list (filter (\<lambda>x. x \<noteq> p_dentry (nd_path s)) (chain_ds s)) d"
  shows "free_dchain_list V s = Inr ((), s\<lparr>refs := g, dchain_list := [], chain_size := 0\<rparr>)"
  using free_chain_plain [OF assms(1), of s g "dchain_list s" True] assms(2)
  by (simp add: free_dchain_list_def chain_ds_def vseq_def vbind_def)

section \<open>The lookup of a chain\<close>

text \<open>The protocol answers a call for these names with a status, whatever else the arrays hold.\<close>

definition answers_with :: "'w vfs \<Rightarrow> qstr list \<Rightarrow> int \<Rightarrow> bool" where
  "answers_with V names err \<longleftrightarrow>
     (\<forall>w dir fhs fas labs. length fhs = length names \<and> length fas = length names \<and> length labs = length names \<longrightarrow>
        (\<exists>res w'. proto_chain_lookup V w dir names fhs fas labs (int (length names)) = Inr ((err, res), w') \<and>
           length names \<le> length (chr_fhandles res) \<and> length names \<le> length (chr_fattrs res) \<and> length names \<le> length (chr_labels res)))"

lemma length_slot_values:
  assumes "\<And>x. x \<in> set xs \<Longrightarrow> \<exists>a. x = Alloc a"
  shows "length (slot_values (Some xs)) = length xs"
proof -
  have "length (List.map_filter slot_value xs) = length xs"
    using assms by (induction xs) (force simp: map_filter_simps)+
  then show ?thesis by (simp add: slot_values_def)
qed

lemma proto_call_ok:
  assumes "handles_ok n h" and "answers_with V (map cd_name (dchain_list s)) err" and "length (dchain_list s) = n" and "sint sz = int n"
  obtains res w where "proto_call V dir h sz s = Inr ((err, res), s\<lparr>world := w\<rparr>)"
    "n \<le> length (chr_fhandles res)" "n \<le> length (chr_fattrs res)" "n \<le> length (chr_labels res)"
proof -
  obtain f a l where h: "h = \<lparr>h_fhandles = Some f, h_fattrs = Some a, h_labels = Some l\<rparr>" and fs: "filled_slots n (f, a, l) n"
    using assms(1) by (auto simp: handles_ok_def)
  have "\<exists>b. x = Alloc b" if "x \<in> set f" for x using fs that unfolding filled_slots_def slot_ok_def prod.case in_set_conv_nth by blast
  moreover have "\<exists>b. x = Alloc b" if "x \<in> set a" for x using fs that unfolding filled_slots_def slot_ok_def prod.case in_set_conv_nth by metis
  ultimately have "length (slot_values (Some f)) = n" "length (slot_values (Some a)) = n"
    using fs length_slot_values [of f] length_slot_values [of a] by (simp_all add: filled_slots_def)
  moreover have "length (map slot_value l) = n" using fs by (simp add: filled_slots_def)
  ultimately obtain res w where "proto_chain_lookup V (world s) dir (map cd_name (dchain_list s)) (slot_values (Some f)) (slot_values (Some a))
      (map slot_value l) (int n) = Inr ((err, res), w)"
    "n \<le> length (chr_fhandles res)" "n \<le> length (chr_fattrs res)" "n \<le> length (chr_labels res)"
    using assms(2,3) unfolding answers_with_def by (metis length_map)
  then show thesis using that assms(4) by (simp add: proto_call_def h)
qed

text \<open>A walk about to look up its chain.\<close>

definition chain_ready :: "'w vfs \<Rightarrow> 'w walk \<Rightarrow> bool" where
  "chain_ready V s \<longleftrightarrow> dchain_list s \<noteq> [] \<and> length (dchain_list s) \<le> 30 \<and> chain_size s = of_nat (length (dchain_list s)) \<and>
     d_inode V (world s) (p_dentry (nd_path s)) \<noteq> None"

lemma chain_ready_size:
  assumes "chain_ready V s"
  shows "unat (chain_size s) = length (dchain_list s)" "sint (chain_size s) = int (length (dchain_list s))"
proof -
  have "length (dchain_list s) \<le> 30" "chain_size s = of_nat (length (dchain_list s))" using assms by (simp_all add: chain_ready_def)
  then show "unat (chain_size s) = length (dchain_list s)" "sint (chain_size s) = int (length (dchain_list s))"
    by (simp_all add: unat_of_nat_u32 signed_of_nat signed_take_bit_int_eq_self)
qed

lemma nfs_chain_lookup_run:
  assumes V: "memory_law V" "in_place V" "no_links V" and s: "chain_ready V s"
    and ans: "answers_with V (map cd_name (dchain_list s)) err" and r: "refs s (p_dentry (nd_path s)) = Suc k"
  shows "\<exists>w p ino. nfs_chain_lookup V H C s =
      Inr (err, s\<lparr>world := w, nd_path := p, nd_inode := ino, refs := (refs s)(p_dentry (nd_path s) := k)\<rparr>) \<and>
    p = (if fill_status err then (nd_path s)\<lparr>p_dentry := last (chain_ds s)\<rparr> else nd_path s)"
proof -
  let ?n = "length (dchain_list s)" and ?parent = "p_dentry (nd_path s)"
  note n = chain_ready_size [OF s]
  obtain dir where dir: "d_inode V (world s) ?parent = Some dir" using s by (auto simp: chain_ready_def)
  obtain h w1 where h: "nfs_allocate_handles V C (chain_size s) s = Inr ((0, h), s\<lparr>world := w1\<rparr>)" "handles_ok ?n h"
    using nfs_allocate_handles_ok [OF V(1), of C "chain_size s" s] n(1) by auto
  let ?s2 = "s\<lparr>world := nfs_block_sillyrename V w1 ?parent\<rparr>"
  obtain res w3 where call: "proto_call V dir h (chain_size s) ?s2 = Inr ((err, res), ?s2\<lparr>world := w3\<rparr>)"
    and len: "?n \<le> length (chr_fhandles res)" "?n \<le> length (chr_fattrs res)" "?n \<le> length (chr_labels res)"
    using proto_call_ok [OF h(2), of V ?s2 err "chain_size s" dir] ans n(2) by auto
  have free: "nfs_free_handles h (chain_size s) t = Inr ((), t)" for t :: "'a walk"
    using nfs_free_handles_ok [of "chain_size s" h] h(2) n(1) by simp
  let ?s3 = "s\<lparr>world := w3\<rparr>"
  show ?thesis
  proof (cases "fill_status err")
    case True
    have "dchain_list ?s3 \<noteq> []" using s by (simp add: chain_ready_def)
    from nfs_fill_dchain_list_plain [OF V(2,3) this, of "chr_fhandles res" "chr_fattrs res" "chr_labels res" H C] len
    obtain w4 ino where "nfs_fill_dchain_list V H C (chr_fhandles res) (chr_fattrs res) (chr_labels res) ?s3 =
        Inr (Fill_Ok, s\<lparr>world := w4, nd_path := (nd_path s)\<lparr>p_dentry := last (chain_ds s)\<rparr>, nd_inode := ino\<rparr>)"
      by (auto simp: chain_ds_def)
    with True h call free r dir show ?thesis
      by (intro exI [of _ "nfs_unblock_sillyrename V w4 ?parent"] exI [of _ "(nd_path s)\<lparr>p_dentry := last (chain_ds s)\<rparr>"] exI [of _ ino])
        (auto simp: nfs_chain_lookup_def Let_def vbind_def vseq_def dput_def)
  next
    case False
    with h call free r dir show ?thesis
      by (intro exI [of _ "nfs_unblock_sillyrename V w3 ?parent"] exI [of _ "nd_path s"] exI [of _ "nd_inode s"])
        (auto simp: nfs_chain_lookup_def Let_def vbind_def vseq_def dput_def)
  qed
qed

section \<open>Balance\<close>

text \<open>What the walk holds: a reference for its path and for every dentry of the chain, on top of what others hold
  (\<open>base\<close>, \<open>mbase\<close>).\<close>

definition balanced :: "(dentry \<Rightarrow> nat) \<Rightarrow> (vfsmount \<Rightarrow> nat) \<Rightarrow> 'w walk \<Rightarrow> bool" where
  "balanced base mbase s \<longleftrightarrow>
     (\<forall>d. refs s d = base d + of_bool (d = p_dentry (nd_path s)) + count_list (chain_ds s) d) \<and>
     (\<forall>m. mrefs s m = mbase m + of_bool (m = p_mnt (nd_path s)))"

text \<open>Everything has been given back.\<close>

definition released :: "(dentry \<Rightarrow> nat) \<Rightarrow> (vfsmount \<Rightarrow> nat) \<Rightarrow> 'w walk \<Rightarrow> bool" where
  "released base mbase s \<longleftrightarrow> refs s = base \<and> mrefs s = mbase \<and> dchain_list s = [] \<and> chain_size s = 0 \<and> held s = []"

text \<open>Every name is one level below the one before it.\<close>

definition layered :: "(dentry \<Rightarrow> nat) \<Rightarrow> 'w walk \<Rightarrow> bool" where
  "layered depth s \<longleftrightarrow> (\<forall>i<length (chain_ds s). depth (chain_ds s ! i) = depth (p_dentry (nd_path s)) + i + 1)"

definition walk_inv :: "(dentry \<Rightarrow> nat) \<Rightarrow> (dentry \<Rightarrow> nat) \<Rightarrow> (vfsmount \<Rightarrow> nat) \<Rightarrow> nat \<Rightarrow> 'w walk \<Rightarrow> bool" where
  "walk_inv depth base mbase n s \<longleftrightarrow> balanced base mbase s \<and> layered depth s \<and>
     chain_size s = of_nat (length (dchain_list s)) \<and> length (dchain_list s) \<le> n \<and>
     held s = (if dchain_list s = [] then [] else [chain_parent s]) \<and>
     (dchain_list s \<noteq> [] \<longrightarrow> chain_parent s = p_dentry (nd_path s)) \<and> nd_flags s AND LOOKUP_RCU = 0"

lemma layered_distinct:
  assumes "layered depth s"
  shows "distinct (chain_ds s)" "p_dentry (nd_path s) \<notin> set (chain_ds s)"
proof -
  show "distinct (chain_ds s)" unfolding distinct_conv_nth
  proof (intro allI impI)
    fix i j assume "i < length (chain_ds s)" "j < length (chain_ds s)" "i \<noteq> j"
    then have "depth (chain_ds s ! i) \<noteq> depth (chain_ds s ! j)" using assms by (simp add: layered_def)
    then show "chain_ds s ! i \<noteq> chain_ds s ! j" by auto
  qed
  show "p_dentry (nd_path s) \<notin> set (chain_ds s)"
  proof
    assume "p_dentry (nd_path s) \<in> set (chain_ds s)"
    then obtain i where "i < length (chain_ds s)" "chain_ds s ! i = p_dentry (nd_path s)" by (auto simp: in_set_conv_nth)
    then show False using assms by (fastforce simp: layered_def)
  qed
qed

lemma count_distinct: "distinct xs \<Longrightarrow> count_list xs d = of_bool (d \<in> set xs)"
  by (induction xs) auto

lemma count_filter_ne: "count_list (filter (\<lambda>x. x \<noteq> p) xs) d = (if d = p then 0 else count_list xs d)"
  by (induction xs) auto

lemma terminate_walk_ok:
  assumes "refs s (p_dentry (nd_path s)) = Suc k" and "mrefs s (p_mnt (nd_path s)) = Suc m" and "nd_flags s AND LOOKUP_RCU = 0"
  shows "terminate_walk s =
    Inr ((), s\<lparr>refs := (refs s)(p_dentry (nd_path s) := k), mrefs := (mrefs s)(p_mnt (nd_path s) := m)\<rparr>)"
  using assms by (simp add: terminate_walk_def no_rcu_def path_put_def vseq_def vbind_def dput_def mntput_def)

lemma unlock_chain_ok: "held s = [chain_parent s] \<Longrightarrow> unlock_chain s = Inr ((), s\<lparr>held := []\<rparr>)"
  by (simp add: unlock_chain_def mutex_unlock_def)

text \<open>What a lookup leaves alone.\<close>

definition walk_frame :: "'w walk \<Rightarrow> 'w walk \<Rightarrow> bool" where
  "walk_frame s t \<longleftrightarrow> nd_flags t = nd_flags s \<and> nd_root t = nd_root s"

lemma walk_frame_trans: "walk_frame s t \<Longrightarrow> walk_frame t u \<Longrightarrow> walk_frame s u"
  by (simp add: walk_frame_def)

text \<open>The state in which a chain is looked up.\<close>

definition chain_pending :: "'w vfs \<Rightarrow> (dentry \<Rightarrow> nat) \<Rightarrow> (dentry \<Rightarrow> nat) \<Rightarrow> (vfsmount \<Rightarrow> nat) \<Rightarrow> 'w walk \<Rightarrow> bool" where
  "chain_pending V depth base mbase s \<longleftrightarrow> walk_inv depth base mbase 30 s \<and> dchain_list s \<noteq> [] \<and> nd_inode s \<noteq> None \<and>
     d_inode V (world s) (p_dentry (nd_path s)) \<noteq> None"

lemma chain_pending_facts:
  assumes "chain_pending V depth base mbase s"
  shows "chain_ready V s" and "refs s (p_dentry (nd_path s)) = Suc (base (p_dentry (nd_path s)))"
    and "\<And>d. ((refs s)(p_dentry (nd_path s) := base (p_dentry (nd_path s)))) d = base d + count_list (chain_ds s) d"
    and "distinct (chain_ds s)" "p_dentry (nd_path s) \<notin> set (chain_ds s)" "chain_ds s \<noteq> []"
    and "held s = [chain_parent s]" "mrefs s (p_mnt (nd_path s)) = Suc (mbase (p_mnt (nd_path s)))" "nd_flags s AND LOOKUP_RCU = 0"
proof -
  have inv: "walk_inv depth base mbase 30 s" and ne: "dchain_list s \<noteq> []" using assms by (simp_all add: chain_pending_def)
  show "chain_ready V s" "held s = [chain_parent s]" "nd_flags s AND LOOKUP_RCU = 0" "chain_ds s \<noteq> []"
    using assms by (simp_all add: chain_pending_def chain_ready_def walk_inv_def chain_ds_def)
  have lay: "layered depth s" and bal: "balanced base mbase s" using inv by (simp_all add: walk_inv_def)
  show "distinct (chain_ds s)" and out: "p_dentry (nd_path s) \<notin> set (chain_ds s)" by (rule layered_distinct [OF lay])+
  then have zero: "count_list (chain_ds s) (p_dentry (nd_path s)) = 0" by (simp add: count_list_0_iff)
  show "refs s (p_dentry (nd_path s)) = Suc (base (p_dentry (nd_path s)))" using bal zero by (simp add: balanced_def)
  show "mrefs s (p_mnt (nd_path s)) = Suc (mbase (p_mnt (nd_path s)))" using bal by (simp add: balanced_def)
  show "((refs s)(p_dentry (nd_path s) := base (p_dentry (nd_path s)))) d = base d + count_list (chain_ds s) d" for d
    using bal zero by (auto simp: balanced_def)
qed

lemma chain_lookup_run:
  assumes V: "memory_law V" "in_place V" "no_links V" and s: "chain_pending V depth base mbase s"
    and ans: "answers_with V (map cd_name (dchain_list s)) err" and err: "fill_status err" "err \<le> 0"
  shows "\<exists>s'. chain_lookup V H C path s = Inr ((err, path), s') \<and> walk_frame s s' \<and>
    (if err < 0 then released base mbase s'
     else walk_inv depth base mbase 0 s' \<and> nd_path s' = (nd_path s)\<lparr>p_dentry := last (chain_ds s)\<rparr>)"
proof -
  note f = chain_pending_facts [OF s]
  let ?p = "p_dentry (nd_path s)" and ?q = "last (chain_ds s)"
  let ?path = "(nd_path s)\<lparr>p_dentry := ?q\<rparr>" and ?g = "\<lambda>d. base d + of_bool (d = ?q)"
  from nfs_chain_lookup_run [OF V f(1) ans f(2), of H C] err(1) obtain w ino where
    look: "nfs_chain_lookup V H C s = Inr (err, s\<lparr>world := w, nd_path := ?path, nd_inode := ino, refs := (refs s)(?p := base ?p)\<rparr>)"
    by auto
  let ?s1 = "s\<lparr>world := w, nd_path := ?path, nd_inode := ino, refs := (refs s)(?p := base ?p)\<rparr>"
  have q: "?q \<in> set (chain_ds s)" using f(6) by simp
  have "refs ?s1 d = ?g d + count_list (filter (\<lambda>x. x \<noteq> p_dentry (nd_path ?s1)) (chain_ds ?s1)) d" for d
    using f(3) [of d] f(4) q by (auto simp: count_filter_ne count_distinct chain_ds_def)
  note free = free_dchain_list_plain [OF V(3) this]
  let ?s2 = "?s1\<lparr>refs := ?g, dchain_list := [], chain_size := 0\<rparr>"
  have nd: "nd_inode s \<noteq> None" using s by (simp add: chain_pending_def)
  show ?thesis
  proof (cases "err < 0")
    case True
    let ?s3 = "?s2\<lparr>refs := (refs ?s2)(?q := base ?q), mrefs := (mrefs s)(p_mnt (nd_path s) := mbase (p_mnt (nd_path s)))\<rparr>"
    have tw: "terminate_walk ?s2 = Inr ((), ?s3)"
      using terminate_walk_ok [of ?s2 "base ?q" "mbase (p_mnt (nd_path s))"] f(8,9) by simp
    have unl: "unlock_chain ?s3 = Inr ((), ?s3\<lparr>held := []\<rparr>)" using f(7) by (intro unlock_chain_ok) simp
    have "chain_lookup V H C path s = Inr ((err, path), ?s3\<lparr>held := []\<rparr>)"
      using nd look free tw unl True by (simp add: chain_lookup_def vbind_def vseq_def)
    moreover have "refs ?s3 = base" by auto
    moreover have "mrefs ?s3 = mbase"
      using s by (auto simp: chain_pending_def walk_inv_def balanced_def)
    ultimately show ?thesis using True by (auto simp: released_def walk_frame_def)
  next
    case False
    then have "err = 0" using err(2) by simp
    have unl: "unlock_chain ?s2 = Inr ((), ?s2\<lparr>held := []\<rparr>)" using f(7) by (intro unlock_chain_ok) simp
    have "chain_lookup V H C path s = Inr ((err, path), ?s2\<lparr>held := []\<rparr>)"
      using nd look free unl \<open>err = 0\<close> by (simp add: chain_lookup_def vbind_def vseq_def)
    moreover have "walk_inv depth base mbase 0 (?s2\<lparr>held := []\<rparr>)"
      using s by (auto simp: chain_pending_def walk_inv_def balanced_def layered_def chain_ds_def)
    ultimately show ?thesis using False by (auto simp: walk_frame_def)
  qed
qed

text \<open>After any other error the directory's reference is given back twice: by \<^verbatim>\<open>nfs_chain_lookup\<close> and by
  \<^verbatim>\<open>terminate_walk\<close>.\<close>

lemma chain_lookup_double_put:
  assumes V: "memory_law V" "in_place V" "no_links V" and s: "chain_pending V depth base mbase s"
    and ans: "answers_with V (map cd_name (dchain_list s)) err" and err: "\<not> fill_status err"
    and "base (p_dentry (nd_path s)) = 0"
  shows "chain_lookup V H C path s = Inl (OVER_PUT (p_dentry (nd_path s)))"
proof -
  note f = chain_pending_facts [OF s]
  let ?p = "p_dentry (nd_path s)"
  from nfs_chain_lookup_run [OF V f(1) ans f(2), of H C] err obtain w ino where
    look: "nfs_chain_lookup V H C s = Inr (err, s\<lparr>world := w, nd_path := nd_path s, nd_inode := ino, refs := (refs s)(?p := base ?p)\<rparr>)"
    by auto
  let ?s1 = "s\<lparr>world := w, nd_path := nd_path s, nd_inode := ino, refs := (refs s)(?p := base ?p)\<rparr>"
  have "refs ?s1 d = base d + count_list (filter (\<lambda>x. x \<noteq> p_dentry (nd_path ?s1)) (chain_ds ?s1)) d" for d
    using f(3) [of d] f(5) by (auto simp: count_filter_ne chain_ds_def count_list_0_iff)
  note free = free_dchain_list_plain [OF V(3) this]
  have nd: "nd_inode s \<noteq> None" using s by (simp add: chain_pending_def)
  have "err < 0" using err by (auto simp: fill_status_def)
  then show ?thesis
    using nd look free f(9) assms(7)
    by (simp add: chain_lookup_def vbind_def vseq_def terminate_walk_def no_rcu_def path_put_def dput_def)
qed

section \<open>One more name\<close>

text \<open>Dentries form a forest: what is found or made in a directory is one level below it.\<close>

definition dcache_law :: "'w vfs \<Rightarrow> (dentry \<Rightarrow> nat) \<Rightarrow> bool" where
  "dcache_law V depth \<longleftrightarrow>
     (\<forall>w dir nm d. d_lookup V w dir nm = Some d \<longrightarrow> depth d = Suc (depth dir)) \<and>
     (\<forall>w dir nm d w'. d_alloc V w dir nm = (Some d, w') \<longrightarrow> depth d = Suc (depth dir))"

text \<open>\<^verbatim>\<open>lookup_dcache\<close> either fails, holding nothing more than before, or holds one reference to the dentry it returns.\<close>

definition dcache_result ::
  "(dentry \<Rightarrow> nat) \<Rightarrow> dentry \<Rightarrow> 'w walk \<Rightarrow> vfs_fault + ((int + dentry) \<times> bool) \<times> 'w walk \<Rightarrow> bool" where
  "dcache_result depth dir s r \<longleftrightarrow>
     (\<exists>err w. r = Inr ((Inl err, False), s\<lparr>world := w\<rparr>) \<and> err < 0) \<or>
     (\<exists>w d nl. r = Inr ((Inr d, nl), s\<lparr>world := w, refs := (refs s)(d := Suc (refs s d))\<rparr>) \<and> depth d = Suc (depth dir))"

lemma dcache_result_world: "dcache_result depth dir (s\<lparr>world := w\<rparr>) r \<Longrightarrow> dcache_result depth dir s r"
  unfolding dcache_result_def by auto

lemma d_alloc_ref_result:
  assumes "dcache_law V depth"
  shows "dcache_result depth dir s (d_alloc_ref V dir nm s)"
proof (cases "d_alloc V (world s) dir nm")
  case (Pair d w)
  show ?thesis
  proof (cases d)
    case None
    with Pair show ?thesis by (auto simp: dcache_result_def d_alloc_ref_def vbind_def vworld_def)
  next
    case (Some e)
    moreover have "depth e = Suc (depth dir)" using assms Pair Some unfolding dcache_law_def by blast
    ultimately show ?thesis using Pair by (auto simp: dcache_result_def d_alloc_ref_def vbind_def vseq_def vworld_def)
  qed
qed

lemma dput_after_dget:
  "dput d (s\<lparr>world := w, refs := (refs s)(d := Suc (refs s d))\<rparr>) = Inr ((), s\<lparr>world := w\<rparr>)"
  by (simp add: dput_def)

lemma lookup_dcache_result:
  assumes law: "dcache_law V depth"
  shows "dcache_result depth dir s (lookup_dcache V nm dir fl s)"
proof (cases "d_lookup V (world s) dir nm")
  case None
  then show ?thesis using d_alloc_ref_result [OF law] by (simp add: lookup_dcache_def)
next
  case (Some d)
  let ?s = "s\<lparr>refs := (refs s)(d := Suc (refs s d))\<rparr>"
  have "depth d = Suc (depth dir)" using law Some unfolding dcache_law_def by blast
  then have found: "dcache_result depth dir s (Inr ((Inr d, nl), s\<lparr>world := w, refs := (refs s)(d := Suc (refs s d))\<rparr>))" for nl w
    unfolding dcache_result_def by auto
  let ?held = "\<lambda>w. s\<lparr>world := w, refs := (refs s)(d := Suc (refs s d))\<rparr>"
  obtain err w1 where rev: "d_revalidate V (world s) d fl = (err, w1)" by (cases "d_revalidate V (world s) d fl")
  obtain r w2 where inv: "d_invalidate V w1 d = (r, w2)" by (cases "d_invalidate V w1 d")
  have get: "dget d s = Inr ((), ?held (world s))" by simp
  have reval: "vworld (\<lambda>w. d_revalidate V w d fl) (?held (world s)) = Inr (err, ?held w1)" by (simp add: vworld_def rev)
  have inval: "vworld (\<lambda>w. d_invalidate V w d) (?held w1) = Inr (r, ?held w2)" by (simp add: vworld_def inv)
  note run = Some lookup_dcache_def vget_simp option.case vseq_step [where m = "dget d", OF get]
    vbind_step [where m = "vworld (\<lambda>w. d_revalidate V w d fl)", OF reval] vbind_step [where m = "vworld (\<lambda>w. d_invalidate V w d)", OF inval]
    vseq_step [where m = "dput d", OF dput_after_dget] if_True if_False vret_simp
  consider (temp) "d_is_chain_temp V (world s) d" | (no_op) "\<not> d_is_chain_temp V (world s) d" "\<not> d_op_revalidate V (world s) d"
    | (op) "\<not> d_is_chain_temp V (world s) d" "d_op_revalidate V (world s) d" by blast
  then show ?thesis
  proof cases
    case temp
    then have "lookup_dcache V nm dir fl s = Inr ((Inr d, True), ?held (world s))" by (simp only: run)
    with found show ?thesis by (simp only:)
  next
    case no_op
    then have "lookup_dcache V nm dir fl s = Inr ((Inr d, False), ?held (world s))" by (simp only: run)
    with found show ?thesis by (simp only:)
  next
    case op
    consider "err < 0" | "err = 0" "r = 0" | "err = 0" "r \<noteq> 0" | "\<not> err \<le> 0" by linarith
    then show ?thesis
    proof cases
      case 1
      with op have "lookup_dcache V nm dir fl s = Inr ((Inl err, False), s\<lparr>world := w1\<rparr>)" by (simp only: run less_imp_le)
      with 1 show ?thesis unfolding dcache_result_def by blast
    next
      case 2
      with op have "lookup_dcache V nm dir fl s = d_alloc_ref V dir nm (s\<lparr>world := w2\<rparr>)" by (simp only: run order_refl less_irrefl refl)
      then show ?thesis using dcache_result_world [OF d_alloc_ref_result [OF law]] by (simp only:)
    next
      case 3
      with op have "lookup_dcache V nm dir fl s = Inr ((Inr d, False), ?held w2)" by (simp only: run order_refl less_irrefl)
      with found show ?thesis by (simp only:)
    next
      case 4
      with op have "lookup_dcache V nm dir fl s = Inr ((Inr d, False), ?held w1)" by (simp only: run)
      with found show ?thesis by (simp only:)
    qed
  qed
qed

text \<open>A walk that has the chain's directory locked: before the first name of a chain is appended, and from then on.\<close>

definition walk_locked :: "(dentry \<Rightarrow> nat) \<Rightarrow> (dentry \<Rightarrow> nat) \<Rightarrow> (vfsmount \<Rightarrow> nat) \<Rightarrow> nat \<Rightarrow> 'w walk \<Rightarrow> bool" where
  "walk_locked depth base mbase n s \<longleftrightarrow> balanced base mbase s \<and> layered depth s \<and>
     chain_size s = of_nat (length (dchain_list s)) \<and> length (dchain_list s) \<le> n \<and>
     held s = [chain_parent s] \<and> chain_parent s = p_dentry (nd_path s) \<and> nd_flags s AND LOOKUP_RCU = 0"

lemma walk_locked_inv: "walk_locked depth base mbase n s \<Longrightarrow> dchain_list s \<noteq> [] \<Longrightarrow> walk_inv depth base mbase n s"
  by (simp add: walk_locked_def walk_inv_def)

lemma of_nat_eq_0_u32: "n \<le> 30 \<Longrightarrow> (of_nat n = (0 :: u32)) = (n = 0)"
proof
  assume "n \<le> 30" and "of_nat n = (0 :: u32)"
  then have "unat (of_nat n :: u32) = 0" by simp
  with \<open>n \<le> 30\<close> show "n = 0" by (simp add: unat_of_nat_u32)
qed simp

lemma chain_start_ok:
  assumes "walk_inv depth base mbase 29 s"
  obtains s1 dir where "chain_start s = Inr (dir, s1)" "walk_locked depth base mbase 29 s1" "dchain_list s1 = dchain_list s"
    "nd_path s1 = nd_path s" "nd_last s1 = nd_last s" "nd_flags s1 = nd_flags s" "nd_inode s1 = nd_inode s" "world s1 = world s" "walk_frame s s1"
    "depth dir = depth (p_dentry (nd_path s)) + length (dchain_list s)"
proof (cases "dchain_list s = []")
  case True
  let ?s1 = "s\<lparr>chain_parent := p_dentry (nd_path s), held := [p_dentry (nd_path s)]\<rparr>"
  have "chain_start s = Inr (p_dentry (nd_path s), ?s1)"
    using assms True by (simp add: chain_start_def walk_inv_def Let_def vseq_def vbind_def mutex_lock_def)
  moreover have "walk_locked depth base mbase 29 ?s1"
    using assms True by (simp add: walk_inv_def walk_locked_def balanced_def layered_def chain_ds_def)
  ultimately show thesis using that True by (simp add: walk_frame_def)
next
  case False
  let ?d = "last (chain_ds s)"
  have n: "length (dchain_list s) \<le> 29" "chain_size s = of_nat (length (dchain_list s))" using assms by (simp_all add: walk_inv_def)
  then have "chain_size s \<noteq> 0" using False of_nat_eq_0_u32 [of "length (dchain_list s)"] by simp
  then have "chain_start s = Inr (?d, s)" using False by (simp add: chain_start_def chain_ds_def last_map)
  moreover have "walk_locked depth base mbase 29 s" using assms False by (simp add: walk_inv_def walk_locked_def)
  moreover have "depth ?d = depth (p_dentry (nd_path s)) + length (dchain_list s)"
  proof -
    let ?n = "length (chain_ds s)"
    have "?n \<noteq> 0" and "?d = chain_ds s ! (?n - 1)" using False by (simp_all add: chain_ds_def last_conv_nth)
    moreover have "depth (chain_ds s ! (?n - 1)) = depth (p_dentry (nd_path s)) + (?n - 1) + 1"
      using assms \<open>?n \<noteq> 0\<close> unfolding walk_inv_def layered_def by simp
    ultimately show ?thesis by (simp add: chain_ds_def)
  qed
  ultimately show thesis using that by (simp add: walk_frame_def)
qed

text \<open>Giving up: everything is released.\<close>

lemma walk_chain_err_ok:
  assumes "no_links V" and "walk_locked depth base mbase n s"
  shows "\<exists>s'. walk_chain_err V err path s = Inr ((err, path), s') \<and> released base mbase s'"
proof -
  let ?p = "p_dentry (nd_path s)" and ?m = "p_mnt (nd_path s)"
  have lay: "layered depth s" and bal: "balanced base mbase s" using assms(2) by (simp_all add: walk_locked_def)
  have out: "?p \<notin> set (chain_ds s)" by (rule layered_distinct [OF lay])
  then have "refs s ?p = Suc (base ?p)" "mrefs s ?m = Suc (mbase ?m)" using bal by (simp_all add: balanced_def count_list_0_iff)
  note tw = terminate_walk_ok [OF this]
  let ?s1 = "s\<lparr>refs := (refs s)(?p := base ?p), mrefs := (mrefs s)(?m := mbase ?m)\<rparr>"
  have "refs ?s1 d = base d + count_list (filter (\<lambda>x. x \<noteq> p_dentry (nd_path ?s1)) (chain_ds ?s1)) d" for d
    using bal out by (auto simp: count_filter_ne chain_ds_def balanced_def count_list_0_iff)
  note free = free_dchain_list_plain [OF assms(1) this]
  let ?s2 = "?s1\<lparr>refs := base, dchain_list := [], chain_size := 0\<rparr>"
  have unl: "unlock_chain ?s2 = Inr ((), ?s2\<lparr>held := []\<rparr>)" using assms(2) by (intro unlock_chain_ok) (simp add: walk_locked_def)
  have "walk_chain_err V err path s = Inr ((err, path), ?s2\<lparr>held := []\<rparr>)"
    using tw free unl assms(2) by (simp add: walk_chain_err_def vseq_def vbind_def walk_locked_def)
  moreover have "mrefs ?s1 = mbase" using bal by (auto simp: balanced_def)
  ultimately show ?thesis by (auto simp: released_def)
qed

lemma walk_inv_mono: "walk_inv depth base mbase m s \<Longrightarrow> length (dchain_list s) \<le> n \<Longrightarrow> walk_inv depth base mbase n s"
  by (simp add: walk_inv_def)

lemma walk_inv_le: "walk_inv depth base mbase m s \<Longrightarrow> m \<le> n \<Longrightarrow> walk_inv depth base mbase n s"
  by (simp add: walk_inv_def)

text \<open>\<open>walk_holds\<close>: a locked walk which, besides, holds the dentry the next name is.\<close>

definition walk_holds :: "(dentry \<Rightarrow> nat) \<Rightarrow> (dentry \<Rightarrow> nat) \<Rightarrow> (vfsmount \<Rightarrow> nat) \<Rightarrow> dentry \<Rightarrow> 'w walk \<Rightarrow> bool" where
  "walk_holds depth base mbase d s \<longleftrightarrow> layered depth s \<and> depth d = depth (p_dentry (nd_path s)) + length (dchain_list s) + 1 \<and>
     (\<forall>x. refs s x = base x + of_bool (x = d) + of_bool (x = p_dentry (nd_path s)) + count_list (chain_ds s) x) \<and>
     (\<forall>m. mrefs s m = mbase m + of_bool (m = p_mnt (nd_path s))) \<and>
     chain_size s = of_nat (length (dchain_list s)) \<and> length (dchain_list s) \<le> 29 \<and>
     held s = [chain_parent s] \<and> chain_parent s = p_dentry (nd_path s) \<and> nd_flags s AND LOOKUP_RCU = 0"

lemma walk_holds_new:
  assumes "walk_holds depth base mbase d s"
  shows "d \<noteq> p_dentry (nd_path s)" "d \<notin> set (chain_ds s)"
proof -
  have lay: "\<And>i. i < length (chain_ds s) \<Longrightarrow> depth (chain_ds s ! i) = depth (p_dentry (nd_path s)) + i + 1"
    and d: "depth d = depth (p_dentry (nd_path s)) + length (chain_ds s) + 1"
    using assms by (auto simp: walk_holds_def layered_def chain_ds_def)
  show "d \<noteq> p_dentry (nd_path s)" using d by auto
  show "d \<notin> set (chain_ds s)" using lay d by (fastforce simp: in_set_conv_nth)
qed

lemma walk_locked_holds:
  assumes "walk_locked depth base mbase 29 s" and "depth d = depth (p_dentry (nd_path s)) + length (dchain_list s) + 1"
  shows "walk_holds depth base mbase d (s\<lparr>world := w, refs := (refs s)(d := Suc (refs s d))\<rparr>)"
  using assms by (auto simp: walk_locked_def walk_holds_def balanced_def layered_def chain_ds_def)

text \<open>A name the cache knows: the walk moves to it and holds nothing else.\<close>

definition no_mounts :: "'w vfs \<Rightarrow> bool" where
  "no_mounts V \<longleftrightarrow> (\<forall>w d. \<not> d_mountpoint V w d)"

lemma walk_cached_ok:
  assumes V: "no_links V" "no_mounts V" and s: "walk_holds depth base mbase d s"
  shows "\<exists>err s'. walk_cached V n d follow \<lparr>p_mnt = p_mnt (nd_path s), p_dentry = d\<rparr> s =
      Inr ((err, \<lparr>p_mnt = p_mnt (nd_path s), p_dentry = d\<rparr>), s') \<and>
    (if d_inode V (world s) d = None then err = - ENOENT \<and> released base mbase s'
     else err = 0 \<and> walk_inv depth base mbase 0 s' \<and> nd_path s' = \<lparr>p_mnt = p_mnt (nd_path s), p_dentry = d\<rparr>)"
proof -
  let ?p = "p_dentry (nd_path s)" and ?m = "p_mnt (nd_path s)"
  let ?path = "\<lparr>p_mnt = ?m, p_dentry = d\<rparr>" and ?g = "\<lambda>x. base x + of_bool (x = d)"
  note new = walk_holds_new [OF s]
  have lay: "layered depth s" and rcu: "nd_flags s AND LOOKUP_RCU = 0" and h: "held s = [chain_parent s]"
    and r: "\<And>x. refs s x = base x + of_bool (x = d) + of_bool (x = ?p) + count_list (chain_ds s) x"
    and m: "\<And>x. mrefs s x = mbase x + of_bool (x = ?m)"
    using s by (auto simp: walk_holds_def)
  have out: "count_list (chain_ds s) ?p = 0" "count_list (chain_ds s) d = 0"
    using layered_distinct(2) [OF lay] new(2) by (simp_all add: count_list_0_iff)
  let ?s1 = "s\<lparr>refs := (refs s)(?p := base ?p), nd_path := ?path\<rparr>"
  have to: "path_to_nameidata ?path s = Inr ((), ?s1)"
    using rcu r [of ?p] out new by (simp add: path_to_nameidata_def no_rcu_def vseq_def vbind_def dput_def)
  let ?s2 = "?s1\<lparr>nd_inode := d_inode V (world s) d\<rparr>"
  have "refs ?s2 x = ?g x + count_list (filter (\<lambda>x. x \<noteq> p_dentry (nd_path ?s2)) (chain_ds ?s2)) x" for x
    using r [of x] out new by (auto simp: count_filter_ne chain_ds_def)
  note free = free_dchain_list_plain [OF V(1) this]
  let ?s3 = "?s2\<lparr>refs := ?g, dchain_list := [], chain_size := 0\<rparr>"
  have unl: "unlock_chain ?s3 = Inr ((), ?s3\<lparr>held := []\<rparr>)" using h by (intro unlock_chain_ok) simp
  let ?s4 = "?s3\<lparr>held := []\<rparr>"
  have run: "walk_cached V n d follow ?path s =
      (if d_inode V (world s) d = None then vseq terminate_walk (vret (- ENOENT, ?path)) else vret (0, ?path)) ?s4"
    using V to free unl by (simp add: walk_cached_def vbind_def vseq_def no_mounts_def no_links_def should_follow_link_def Let_def)
  show ?thesis
  proof (cases "d_inode V (world s) d = None")
    case True
    have "terminate_walk ?s4 = Inr ((), ?s4\<lparr>refs := ?g(d := base d), mrefs := (mrefs s)(?m := mbase ?m)\<rparr>)"
      using terminate_walk_ok [of ?s4 "base d" "mbase ?m"] m rcu by simp
    with run True show ?thesis using m by (auto simp: vseq_def vbind_def released_def)
  next
    case False
    with run show ?thesis using m rcu by (auto simp: walk_inv_def balanced_def layered_def chain_ds_def)
  qed
qed

text \<open>A name it does not know: it joins the chain, which is sent when it has thirty names.\<close>

lemma walk_append_next:
  assumes V: "memory_law V" and s: "walk_holds depth base mbase d s"
  obtains w s1 where "kmalloc_ok V (world s) = (True, w)" "world s1 = d_set_chain_temp V w d"
    "walk_append V H C d path s = (if 30 \<le> Suc (length (dchain_list s)) then chain_lookup V H C path else vret (0, path)) s1"
    "walk_inv depth base mbase (Suc (length (dchain_list s))) s1" "nd_path s1 = nd_path s" "nd_inode s1 = nd_inode s" "walk_frame s s1"
    "dchain_list s1 = dchain_list s @ [\<lparr>cd_name = nd_last s, cd_dentry = d\<rparr>]"
proof -
  obtain w where w: "kmalloc_ok V (world s) = (True, w)" using V unfolding memory_law_def by (metis (full_types) prod.collapse)
  let ?n = "length (dchain_list s)" and ?e = "\<lparr>cd_name = nd_last s, cd_dentry = d\<rparr>"
  let ?s1 = "s\<lparr>world := d_set_chain_temp V w d, dchain_list := dchain_list s @ [?e], chain_size := chain_size s + 1\<rparr>"
  have n: "?n \<le> 29" and sz: "chain_size s = of_nat ?n" using s by (simp_all add: walk_holds_def)
  have size: "chain_size ?s1 = of_nat (Suc ?n)" using sz by simp
  have big: "30 \<le> chain_size ?s1 \<longleftrightarrow> 30 \<le> Suc ?n"
    unfolding size using n by (simp add: word_le_nat_alt unat_of_nat_u32 del: of_nat_Suc)
  have lay: "layered depth ?s1"
    using s by (auto simp: walk_holds_def layered_def chain_ds_def nth_append less_Suc_eq)
  have inv: "walk_inv depth base mbase (Suc ?n) ?s1"
    using s lay size unfolding walk_inv_def walk_holds_def balanced_def by (auto simp: chain_ds_def)
  have "walk_append V H C d path s = (if 30 \<le> Suc ?n then chain_lookup V H C path else vret (0, path)) ?s1"
    using w big by (simp add: walk_append_def vworld_simp vbind_def vseq_def)
  from that [OF w _ this inv] show thesis by (simp add: walk_frame_def)
qed

lemma walk_append_short:
  assumes V: "memory_law V" and s: "walk_holds depth base mbase d s" and n: "length (dchain_list s) < 29"
  obtains s' where "walk_append V H C d path s = Inr ((0, path), s')" "walk_inv depth base mbase 29 s'" "nd_path s' = nd_path s" "nd_inode s' = nd_inode s" "walk_frame s s'"
    "dchain_list s' = dchain_list s @ [\<lparr>cd_name = nd_last s, cd_dentry = d\<rparr>]"
    "world s' = d_set_chain_temp V (snd (kmalloc_ok V (world s))) d"
proof -
  obtain w s1 where 1: "kmalloc_ok V (world s) = (True, w)" "world s1 = d_set_chain_temp V w d"
    "walk_append V H C d path s = (if 30 \<le> Suc (length (dchain_list s)) then chain_lookup V H C path else vret (0, path)) s1"
    "walk_inv depth base mbase (Suc (length (dchain_list s))) s1" "nd_path s1 = nd_path s" "nd_inode s1 = nd_inode s" "walk_frame s s1"
    "dchain_list s1 = dchain_list s @ [\<lparr>cd_name = nd_last s, cd_dentry = d\<rparr>]" by (rule walk_append_next [OF V s])
  moreover have "walk_inv depth base mbase 29 s1" by (rule walk_inv_le [OF 1(4)]) (use n in simp)
  ultimately show thesis using n by (intro that [of s1]) simp_all
qed

lemma walk_append_ok:
  assumes V: "memory_law V" "in_place V" "no_links V" and s: "walk_holds depth base mbase d s" "nd_inode s \<noteq> None"
    and pos: "\<And>w. d_inode V w (p_dentry (nd_path s)) \<noteq> None"
    and ans: "answers_with V (map cd_name (dchain_list s) @ [nd_last s]) err" and err: "fill_status err" "err \<le> 0"
  shows "\<exists>e s'. walk_append V H C d path s = Inr ((e, path), s') \<and> walk_frame s s' \<and>
    (if length (dchain_list s) < 29
     then e = 0 \<and> walk_inv depth base mbase 29 s' \<and> nd_path s' = nd_path s \<and> nd_inode s' = nd_inode s \<and>
       dchain_list s' = dchain_list s @ [\<lparr>cd_name = nd_last s, cd_dentry = d\<rparr>]
     else e = err \<and> (if err < 0 then released base mbase s'
       else walk_inv depth base mbase 0 s' \<and> nd_path s' = (nd_path s)\<lparr>p_dentry := d\<rparr>))"
proof (cases "length (dchain_list s) < 29")
  case True
  obtain s' where "walk_append V H C d path s = Inr ((0, path), s')" "walk_inv depth base mbase 29 s'" "nd_path s' = nd_path s"
    "nd_inode s' = nd_inode s" "walk_frame s s'" "dchain_list s' = dchain_list s @ [\<lparr>cd_name = nd_last s, cd_dentry = d\<rparr>]" by (rule walk_append_short [OF V(1) s(1) True])
  with True show ?thesis by auto
next
  case False
  then have n: "length (dchain_list s) = 29" using s(1) by (simp add: walk_holds_def)
  obtain s1 where run: "walk_append V H C d path s = chain_lookup V H C path s1" and "walk_inv depth base mbase 30 s1"
    and eq: "nd_path s1 = nd_path s" "nd_inode s1 = nd_inode s" "walk_frame s s1" "dchain_list s1 = dchain_list s @ [\<lparr>cd_name = nd_last s, cd_dentry = d\<rparr>]"
    using n by (auto intro: walk_append_next [OF V(1) s(1), of H C path])
  then have pend: "chain_pending V depth base mbase s1" using s(2) pos by (simp add: chain_pending_def)
  have "answers_with V (map cd_name (dchain_list s1)) err" using ans eq by simp
  from chain_lookup_run [OF V pend this err, of H C path] run n eq show ?thesis by (auto simp: chain_ds_def intro: walk_frame_trans)
qed

lemma walk_inv_pop:
  assumes "walk_inv depth base mbase 29 s" and "dchain_list s \<noteq> []"
  shows "\<exists>s'. vseq dchain_list_pop (vseq (vget (\<lambda>s. vwhen (chain_size s = 0) unlock_chain)) (vret (0 :: int, path))) s = Inr ((0, path), s') \<and>
    walk_inv depth base mbase 29 s' \<and> nd_path s' = nd_path s \<and> dchain_list s' = butlast (dchain_list s)"
proof -
  obtain es e where es: "dchain_list s = es @ [e]" using assms(2) by (metis append_butlast_last_id)
  let ?n = "length es"
  let ?s1 = "s\<lparr>refs := (refs s)(cd_dentry e := refs s (cd_dentry e) - 1), dchain_list := es, chain_size := chain_size s - 1\<rparr>"
  have bal: "balanced base mbase s" and lay: "layered depth s" and n: "?n < 29" and size: "chain_size s = of_nat (Suc ?n)"
    and h: "held s = [chain_parent s]" "chain_parent s = p_dentry (nd_path s)" "nd_flags s AND LOOKUP_RCU = 0"
    using assms es by (auto simp: walk_inv_def)
  have pos: "refs s (cd_dentry e) \<noteq> 0" using bal es by (simp add: balanced_def chain_ds_def)
  have size1: "chain_size ?s1 = of_nat ?n" using size by simp
  then have zero: "chain_size ?s1 = 0 \<longleftrightarrow> es = []" using of_nat_eq_0_u32 [of ?n] n by simp
  have bal1: "balanced base mbase ?s1" using bal pos es by (auto simp: balanced_def chain_ds_def)
  have lay1: "layered depth ?s1" using lay es unfolding layered_def chain_ds_def by (auto simp: nth_append split: if_splits)
  have pop: "dchain_list_pop s = Inr ((), ?s1)"
    using es pos by (simp add: dchain_list_pop_def vseq_def vbind_def dput_def)
  show ?thesis
  proof (cases "es = []")
    case True
    then have "unlock_chain ?s1 = Inr ((), ?s1\<lparr>held := []\<rparr>)" using h by (intro unlock_chain_ok) simp
    with pop True zero h n size1 bal1 show ?thesis
      by (auto simp: vseq_def vbind_def walk_inv_def es balanced_def chain_ds_def layered_def)
  next
    case False
    then have "vget (\<lambda>s. vwhen (chain_size s = 0) unlock_chain) ?s1 = Inr ((), ?s1)" using zero by simp
    with pop have "vseq dchain_list_pop (vseq (vget (\<lambda>s. vwhen (chain_size s = 0) unlock_chain)) (vret (0 :: int, path))) s = Inr ((0, path), ?s1)"
      by (simp only: vseq_simps vret_simp)
    moreover have "walk_inv depth base mbase 29 ?s1" unfolding walk_inv_def using False h n size1 bal1 lay1 by simp
    ultimately show ?thesis using es by auto
  qed
qed

text \<open>One step of \<^verbatim>\<open>link_path_walk\<close> through \<^verbatim>\<open>walk_chain\<close>, for ordinary names and for dots inside the chain.\<close>

lemma walk_chain_inv:
  assumes V: "memory_law V" "in_place V" "no_links V" "no_mounts V" "dcache_law V depth"
    and s: "walk_inv depth base mbase 29 s" "nd_inode s \<noteq> None"
    and pos: "\<And>w. d_inode V w (p_dentry (nd_path s)) \<noteq> None"
    and dots: "nd_last_type s = LAST_NORM \<or> dchain_list s \<noteq> [] \<and> nd_last_type s \<in> {LAST_DOT, LAST_DOTDOT}"
    and ans: "answers_with V (map cd_name (dchain_list s) @ [nd_last s]) err" and err: "fill_status err" "err \<le> 0"
  shows "\<exists>e path' s'. walk_chain V H C n follow path s = Inr ((e, path'), s') \<and>
    (if e < 0 then released base mbase s' else e = 0 \<and> walk_inv depth base mbase 29 s')"
proof (cases "nd_last_type s = LAST_NORM")
  case False
  with dots have ne: "dchain_list s \<noteq> []" and type: "nd_last_type s = LAST_DOT \<or> nd_last_type s = LAST_DOTDOT" by auto
  have "length (dchain_list s) \<le> 29" "chain_size s = of_nat (length (dchain_list s))" using s(1) by (simp_all add: walk_inv_def)
  then have "0 < chain_size s" using ne of_nat_eq_0_u32 [of "length (dchain_list s)"] by (simp add: word_gt_0)
  with type s(1) walk_inv_pop [OF s(1) ne, of path] show ?thesis by (auto simp: walk_chain_def)
next
  case True
  obtain dir s1 where start: "chain_start s = Inr (dir, s1)" "walk_locked depth base mbase 29 s1" "nd_path s1 = nd_path s"
    "dchain_list s1 = dchain_list s" "nd_inode s1 = nd_inode s" "nd_last s1 = nd_last s" "depth dir = depth (p_dentry (nd_path s)) + length (dchain_list s)"
    by (rule chain_start_ok [OF s(1)])
  let ?look = "lookup_dcache V (nd_last s) dir (nd_flags s)"
  have run: "walk_chain V H C n follow path s = vbind ?look (\<lambda>(d, need_lookup).
      case d of Inl err \<Rightarrow> walk_chain_err V err path
      | Inr dentry \<Rightarrow> vget (\<lambda>s. let path = \<lparr>p_mnt = p_mnt (nd_path s), p_dentry = dentry\<rparr>
          in if \<not> need_lookup then walk_cached V n dentry follow path else walk_append V H C dentry path)) s1"
    using True start(1) by (simp add: walk_chain_def)
  from lookup_dcache_result [OF V(5), of dir s1 "nd_last s" "nd_flags s"] show ?thesis
    unfolding dcache_result_def
  proof (elim disjE exE conjE)
    fix e w assume look: "?look s1 = Inr ((Inl e, False), s1\<lparr>world := w\<rparr>)" and "e < 0"
    have "walk_locked depth base mbase 29 (s1\<lparr>world := w\<rparr>)"
      using start(2) by (simp add: walk_locked_def balanced_def layered_def chain_ds_def)
    from walk_chain_err_ok [OF V(3) this, of e path] run look \<open>e < 0\<close> show ?thesis by auto
  next
    fix w d nl
    let ?s2 = "s1\<lparr>world := w, refs := (refs s1)(d := Suc (refs s1 d))\<rparr>"
    assume look: "?look s1 = Inr ((Inr d, nl), ?s2)" and "depth d = Suc (depth dir)"
    then have "depth d = depth (p_dentry (nd_path s1)) + length (dchain_list s1) + 1" using start by simp
    from walk_locked_holds [OF start(2) this] have holds: "walk_holds depth base mbase d ?s2" .
    let ?path = "\<lparr>p_mnt = p_mnt (nd_path ?s2), p_dentry = d\<rparr>"
    have run2: "walk_chain V H C n follow path s =
        (if \<not> nl then walk_cached V n d follow ?path else walk_append V H C d ?path) ?s2"
      using run look by (simp add: Let_def)
    show ?thesis
    proof (cases nl)
      case False
      from walk_cached_ok [OF V(3,4) holds, of n follow] run2 False obtain e s' where
        "walk_chain V H C n follow path s = Inr ((e, ?path), s')"
        "e = - ENOENT \<and> released base mbase s' \<or> e = 0 \<and> walk_inv depth base mbase 0 s'" by (auto split: if_splits)
      then show ?thesis using walk_inv_le [of depth base mbase 0 s' 29] by (intro exI [of _ e] exI) auto
    next
      case True
      have "nd_inode ?s2 \<noteq> None" "\<And>w. d_inode V w (p_dentry (nd_path ?s2)) \<noteq> None"
        "answers_with V (map cd_name (dchain_list ?s2) @ [nd_last ?s2]) err" using s(2) pos start ans by simp_all
      from walk_append_ok [OF V(1-3) holds this err, of H C ?path] run2 True err(2) obtain e s' where
        "walk_chain V H C n follow path s = Inr ((e, ?path), s')"
        "e < 0 \<and> released base mbase s' \<or> e = 0 \<and> (walk_inv depth base mbase 0 s' \<or> walk_inv depth base mbase 29 s')"
        by (auto split: if_splits)
      then show ?thesis using walk_inv_le [of depth base mbase 0 s' 29] by (intro exI [of _ e] exI) auto
    qed
  qed
qed

text \<open>A name the cache does not know gets a new dentry, which is appended.\<close>

lemma walk_chain_new:
  assumes V: "dcache_law V depth" and s: "walk_inv depth base mbase 29 s"
    and new: "nd_last_type s = LAST_NORM" "\<And>dir. d_lookup V (world s) dir (nd_last s) = None"
      "\<And>dir. \<exists>d w. d_alloc V (world s) dir (nd_last s) = (Some d, w)"
  obtains dir d w s2 where "d_alloc V (world s) dir (nd_last s) = (Some d, w)" "world s2 = w"
    "walk_chain V H C n follow path s = walk_append V H C d \<lparr>p_mnt = p_mnt (nd_path s), p_dentry = d\<rparr> s2"
    "walk_holds depth base mbase d s2" "nd_path s2 = nd_path s" "dchain_list s2 = dchain_list s" "nd_last s2 = nd_last s"
    "nd_inode s2 = nd_inode s" "walk_frame s s2"
proof -
  obtain s1 dir where start: "chain_start s = Inr (dir, s1)" "walk_locked depth base mbase 29 s1" "dchain_list s1 = dchain_list s"
    "nd_path s1 = nd_path s" "nd_last s1 = nd_last s" "nd_inode s1 = nd_inode s" "world s1 = world s" "walk_frame s s1"
    "depth dir = depth (p_dentry (nd_path s)) + length (dchain_list s)" by (rule chain_start_ok [OF s])
  obtain d w where d: "d_alloc V (world s) dir (nd_last s) = (Some d, w)" using new(3) by blast
  let ?s2 = "s1\<lparr>world := w, refs := (refs s1)(d := Suc (refs s1 d))\<rparr>"
  have look: "lookup_dcache V (nd_last s) dir (nd_flags s) s1 = Inr ((Inr d, True), ?s2)"
    using new(2) d start(7) by (simp add: lookup_dcache_def d_alloc_ref_def vworld_simp vbind_def vseq_def)
  have "depth d = Suc (depth dir)" using V d unfolding dcache_law_def by blast
  then have "depth d = depth (p_dentry (nd_path s1)) + length (dchain_list s1) + 1" using start by simp
  note holds = walk_locked_holds [OF start(2) this]
  have "walk_chain V H C n follow path s = walk_append V H C d \<lparr>p_mnt = p_mnt (nd_path s), p_dentry = d\<rparr> ?s2"
    using new(1) start look by (simp add: walk_chain_def Let_def)
  then show thesis using that [OF d _ _ holds] start by (simp add: walk_frame_def)
qed

text \<open>Names the cache does not know are only collected: the names so far and the new one are pending, and no request has been sent
  (\<open>world\<close> has seen the allocations and the new dentry's mark, nothing else).\<close>

lemma walk_chain_collects:
  assumes V: "memory_law V" "dcache_law V depth" and s: "walk_inv depth base mbase 29 s" "length (dchain_list s) < 29"
    and new: "nd_last_type s = LAST_NORM" "\<And>dir. d_lookup V (world s) dir (nd_last s) = None"
      "\<And>dir. \<exists>d w. d_alloc V (world s) dir (nd_last s) = (Some d, w)"
  shows "\<exists>dir d w path' s'. d_alloc V (world s) dir (nd_last s) = (Some d, w) \<and>
    walk_chain V H C n follow path s = Inr ((0, path'), s') \<and> walk_inv depth base mbase 29 s' \<and> nd_path s' = nd_path s \<and>
    dchain_list s' = dchain_list s @ [\<lparr>cd_name = nd_last s, cd_dentry = d\<rparr>] \<and> nd_inode s' = nd_inode s \<and> walk_frame s s' \<and>
    world s' = d_set_chain_temp V (snd (kmalloc_ok V w)) d"
proof -
  obtain dir d w s2 where d: "d_alloc V (world s) dir (nd_last s) = (Some d, w)" "world s2 = w"
    and run: "walk_chain V H C n follow path s = walk_append V H C d \<lparr>p_mnt = p_mnt (nd_path s), p_dentry = d\<rparr> s2"
    and s2: "walk_holds depth base mbase d s2" "nd_path s2 = nd_path s" "dchain_list s2 = dchain_list s" "nd_last s2 = nd_last s"
      "nd_inode s2 = nd_inode s" "walk_frame s s2" by (rule walk_chain_new [OF V(2) s(1) new])
  have short: "length (dchain_list s2) < 29" using s(2) s2 by simp
  let ?path = "\<lparr>p_mnt = p_mnt (nd_path s), p_dentry = d\<rparr>"
  obtain s' where "walk_append V H C d ?path s2 = Inr ((0, ?path), s')" "walk_inv depth base mbase 29 s'" "nd_path s' = nd_path s2"
    "nd_inode s' = nd_inode s2" "walk_frame s2 s'" "dchain_list s' = dchain_list s2 @ [\<lparr>cd_name = nd_last s2, cd_dentry = d\<rparr>]"
    "world s' = d_set_chain_temp V (snd (kmalloc_ok V (world s2))) d"
    by (rule walk_append_short [OF V(1) s2(1) short])
  with run d s2 walk_frame_trans show ?thesis by (intro exI conjI) (assumption | simp | blast)+
qed

text \<open>A cached name that is a mountpoint: \<^verbatim>\<open>follow_mount\<close> gives back the reference to the mount the walk is in, and
  \<^verbatim>\<open>path_to_nameidata\<close> gives it back again.\<close>

lemma walk_cached_mount_double_put:
  assumes V: "no_links V" and s: "walk_holds depth base mbase d s"
    and mnt: "d_mountpoint V (world s) d" "lookup_mnt V (world s) \<lparr>p_mnt = p_mnt (nd_path s), p_dentry = d\<rparr> = Some m"
      "m \<noteq> p_mnt (nd_path s)" "\<not> d_mountpoint V (world s) (mnt_root V (world s) m)"
    and base: "mbase (p_mnt (nd_path s)) = 0"
  shows "walk_cached V (Suc (Suc n)) d follow \<lparr>p_mnt = p_mnt (nd_path s), p_dentry = d\<rparr> s = Inl MNT_OVER_PUT"
proof -
  note new = walk_holds_new [OF s]
  have "refs s d = Suc (base d)" "mrefs s (p_mnt (nd_path s)) = Suc 0" "nd_flags s AND LOOKUP_RCU = 0"
    "refs s (p_dentry (nd_path s)) \<noteq> 0"
    using s new base by (auto simp: walk_holds_def count_list_0_iff)
  with V mnt new show ?thesis
    by (auto simp: walk_cached_def vbind_def vseq_def path_put_def dput_def mntput_def no_links_def should_follow_link_def
        path_to_nameidata_def no_rcu_def Let_def)
qed

end
