(* ===== verification/Namei_Walk_Correct.thy ===== *)
theory Namei_Walk_Correct
  imports Namei_Walk Namei_Chain_Correct
begin

text \<open>
  Paths of which no component is in the dentry cache. The walk collects all components but the last without asking the server, and the lookup of the last one sends
  them together; a lookup that stops before the last component leaves them collected, with the mutex of the starting directory held.
\<close>

section \<open>Paths\<close>

text \<open>Ordinary components, the path they make, and the names the walk collects: each points into the path.\<close>

definition plain :: "bytes \<Rightarrow> bool" where
  "plain c \<longleftrightarrow> c \<noteq> [] \<and> SLASH \<notin> set c \<and> c \<noteq> [DOT] \<and> c \<noteq> [DOT, DOT] \<and> length c < 2 ^ 32"

fun path_of :: "bytes list \<Rightarrow> bytes" where
  "path_of [] = []"
| "path_of [c] = c"
| "path_of (c # d # cs) = c @ SLASH # path_of (d # cs)"

fun chain_names :: "bytes list \<Rightarrow> qstr list" where
  "chain_names [] = []"
| "chain_names (c # cs) = \<lparr>qlen = of_nat (length c), qname = path_of (c # cs)\<rparr> # chain_names cs"

lemma length_chain_names [simp]: "length (chain_names cs) = length cs"
  by (induction cs) simp_all

lemma chain_names_eq_Nil [simp]: "chain_names cs = [] \<longleftrightarrow> cs = []"
  by (cases cs) simp_all

lemma path_of_Cons: "path_of (c # cs) = c @ (if cs = [] then [] else SLASH # path_of cs)"
  by (cases cs) simp_all

lemma path_of_hd: "plain c \<Longrightarrow> path_of (c # cs) \<noteq> [] \<and> hd (path_of (c # cs)) \<noteq> SLASH"
  by (cases c) (auto simp: plain_def path_of_Cons)

lemma hash_name_path:
  assumes "plain c"
  shows "hash_name (path_of (c # cs)) = length c"
proof -
  obtain x xs where c: "c = x # xs" using assms by (auto simp: plain_def neq_Nil_conv)
  then have "SLASH \<notin> set xs" using assms by (simp add: plain_def)
  then have "takeWhile (\<lambda>c. c \<noteq> SLASH) (xs @ r) = xs @ takeWhile (\<lambda>c. c \<noteq> SLASH) r" for r
    by (intro takeWhile_append2) auto
  then show ?thesis by (simp add: hash_name_def path_of_Cons c)
qed

lemma name_type_path: "plain c \<Longrightarrow> name_type (path_of (c # cs)) = LAST_NORM"
  using hash_name_path [of c cs] by (simp add: name_type_def Let_def path_of_Cons plain_def)

lemma rest_path:
  assumes "plain c" and "\<forall>d\<in>set cs. plain d"
  shows "dropWhile (\<lambda>c. c = SLASH) (drop (hash_name (path_of (c # cs))) (path_of (c # cs))) = path_of cs"
proof (cases cs)
  case Nil
  then show ?thesis using hash_name_path [OF assms(1), of cs] by simp
next
  case (Cons d ds)
  then have "dropWhile (\<lambda>c. c = SLASH) (path_of cs) = path_of cs" using path_of_hd [of d ds] assms(2) by (metis dropWhile_eq_self_iff list.set_intros(1))
  with Cons show ?thesis using hash_name_path [OF assms(1), of cs] by (simp add: path_of_Cons [of c])
qed

lemma start_walk_path: "plain c \<Longrightarrow> start_walk loop (path_of (c # cs)) = loop (path_of (c # cs))"
  using path_of_hd [of c cs] by (simp add: start_walk_def Let_def dropWhile_eq_self_iff [THEN iffD2] dropWhile_eq_Nil_conv)

text \<open>The bytes of the collected names are the components.\<close>

lemma chain_names_bytes: "\<forall>c\<in>set cs. plain c \<Longrightarrow> map name_bytes (chain_names cs) = cs"
  by (induction cs) (auto simp: name_bytes_def path_of_Cons plain_def unat_of_nat_u32)

section \<open>The walk\<close>

text \<open>The names are not in the cache, and dentries for them can be allocated.\<close>

definition cold :: "'w vfs \<Rightarrow> qstr list \<Rightarrow> bool" where
  "cold V names \<longleftrightarrow> (\<forall>nm\<in>set names. \<forall>w dir. d_lookup V w dir nm = None \<and> (\<exists>d w'. d_alloc V w dir nm = (Some d, w')))"

text \<open>A directory that stays one, of a file system with \<^verbatim>\<open>chain_lookup\<close> and without a hash function of its own.\<close>

definition chain_dir :: "'w vfs \<Rightarrow> 'w walk_env \<Rightarrow> dentry \<Rightarrow> inode \<Rightarrow> bool" where
  "chain_dir V W d i \<longleftrightarrow> (\<forall>w. d_inode V w d = Some i \<and> i_op_chain_lookup V w i \<and> d_can_lookup W w d \<and> d_hash W w d = None)"

text \<open>The walk is in the directory \<open>p\<close> and has collected \<open>names\<close>.\<close>

definition collecting :: "(dentry \<Rightarrow> nat) \<Rightarrow> (dentry \<Rightarrow> nat) \<Rightarrow> (vfsmount \<Rightarrow> nat) \<Rightarrow> vpath \<Rightarrow> inode \<Rightarrow> qstr list \<Rightarrow> 'w walk \<Rightarrow> bool" where
  "collecting depth base mbase p i names s \<longleftrightarrow> walk_inv depth base mbase 29 s \<and> nd_path s = p \<and> nd_inode s = Some i \<and>
     map cd_name (dchain_list s) = names \<and> nd_flags s AND LOOKUP_AUTOMOUNT = 0"

lemma and_zero: "(f :: u32) AND r = 0 \<Longrightarrow> (f AND m) AND r = 0"
  by (simp add: and.assoc and.commute [of m r]) (simp flip: and.assoc)

abbreviation (input) at_name :: "bytes \<Rightarrow> bytes list \<Rightarrow> 'w walk \<Rightarrow> 'w walk" where
  "at_name c cs s \<equiv> s\<lparr>nd_flags := nd_flags s AND NOT LOOKUP_JUMPED, nd_last := hd (chain_names (c # cs)), nd_last_type := LAST_NORM\<rparr>"

lemma set_last_path:
  assumes "plain c" and "chain_dir V W (p_dentry (nd_path s)) i"
  shows "set_last W (path_of (c # cs)) s = Inr (0, at_name c cs s)"
  using assms by (simp add: set_last_def Let_def name_type_path hash_name_path chain_dir_def vseq_def vbind_def)

lemma collecting_at_name:
  assumes "collecting depth base mbase p i names s"
  shows "collecting depth base mbase p i names (at_name c cs s)"
  using assms by (simp add: collecting_def walk_inv_def and_zero balanced_def layered_def chain_ds_def)

text \<open>One component more.\<close>

lemma collect_next:
  assumes V: "memory_law V" "dcache_law V depth" and s: "collecting depth base mbase p i names s" "length names < 29"
    and new: "nd_last_type s = LAST_NORM" "cold V [nd_last s]"
  shows "\<exists>next' s'. walk_chain V H C m follow nx s = Inr ((0, next'), s') \<and> collecting depth base mbase p i (names @ [nd_last s]) s' \<and> walk_frame s s'"
proof -
  have "walk_inv depth base mbase 29 s" "length (dchain_list s) < 29" using s by (auto simp: collecting_def)
  moreover have "\<And>dir. d_lookup V (world s) dir (nd_last s) = None" "\<And>dir. \<exists>d w. d_alloc V (world s) dir (nd_last s) = (Some d, w)"
    using new(2) by (simp_all add: cold_def)
  ultimately obtain d path' s' where "walk_chain V H C m follow nx s = Inr ((0, path'), s')" "walk_inv depth base mbase 29 s'" "nd_path s' = nd_path s"
    "dchain_list s' = dchain_list s @ [\<lparr>cd_name = nd_last s, cd_dentry = d\<rparr>]" "nd_inode s' = nd_inode s" "walk_frame s s'"
    using walk_chain_collects [OF V _ _ new(1), where H = H and C = C and n = m and follow = follow and path = nx] by blast
  with s(1) show ?thesis by (auto simp: collecting_def walk_frame_def)
qed

text \<open>The loop: all components but the last are collected, the last one is \<^verbatim>\<open>nd->last\<close>.\<close>

lemma path_loop_cold:
  assumes V: "memory_law V" "dcache_law V depth" and dir: "chain_dir V W (p_dentry p) i"
  shows "collecting depth base mbase p i names s \<Longrightarrow> \<forall>d\<in>set (c # cs). plain d \<Longrightarrow> cold V (chain_names (c # cs)) \<Longrightarrow>
    length names + length cs \<le> 29 \<Longrightarrow> length cs < n \<Longrightarrow>
    \<exists>s'. path_loop V H C W m n nx (path_of (c # cs)) s = Inr (0, s') \<and> collecting depth base mbase p i (names @ butlast (chain_names (c # cs))) s' \<and>
      nd_last s' = last (chain_names (c # cs)) \<and> nd_last_type s' = LAST_NORM \<and> nd_flags s' = nd_flags s AND NOT LOOKUP_JUMPED \<and> nd_root s' = nd_root s"
proof (induction cs arbitrary: c names s n nx)
  case Nil
  then obtain k where n: "n = Suc k" by (cases n) auto
  have at: "set_last W (path_of [c]) s = Inr (0, at_name c [] s)"
    using Nil.prems dir by (intro set_last_path) (simp_all add: collecting_def)
  have "path_loop V H C W m n nx (path_of [c]) s = Inr (0, at_name c [] s)"
    using rest_path [of c "[]"] Nil.prems at unfolding n by (simp add: vbind_def)
  with collecting_at_name [OF Nil.prems(1), of c "[]"] show ?case by simp
next
  case (Cons d cs)
  then obtain k where n: "n = Suc k" by (cases n) auto
  let ?s1 = "at_name c (d # cs) s"
  have pl: "plain c" "\<forall>x\<in>set (d # cs). plain x" using Cons.prems(2) by simp_all
  have at: "set_last W (path_of (c # d # cs)) s = Inr (0, ?s1)"
    using Cons.prems(1) dir pl(1) by (intro set_last_path) (simp_all add: collecting_def)
  have col: "collecting depth base mbase p i names ?s1" by (rule collecting_at_name [OF Cons.prems(1)])
  have "cold V [nd_last ?s1]" "length names < 29" "nd_last_type ?s1 = LAST_NORM" using Cons.prems(3,4) by (simp_all add: cold_def)
  from collect_next [OF V col this(2,3,1), where H = H and C = C and m = m and follow = 1 and nx = nx]
  obtain next' s2 where walk: "walk_chain V H C m LOOKUP_FOLLOW nx ?s1 = Inr ((0, next'), s2)"
    and s2: "collecting depth base mbase p i (names @ [hd (chain_names (c # d # cs))]) s2" "walk_frame ?s1 s2" by auto
  have use: "uses_chain V ?s1" using col dir by (simp add: uses_chain_def collecting_def chain_dir_def)
  have "path_of (d # cs) \<noteq> []" using path_of_hd [of d cs] pl(2) by simp
  then have loop: "path_loop V H C W m n nx (path_of (c # d # cs)) s = path_loop V H C W m k next' (path_of (d # cs)) s2"
    using n at walk use s2(1) dir rest_path [OF pl] unfolding n
    by (simp add: vbind_def collecting_def chain_dir_def del: path_of.simps)
  have "cold V (chain_names (d # cs))" using Cons.prems(3) by (simp add: cold_def)
  with Cons.IH [OF s2(1), of d k next'] pl(2) Cons.prems(4,5) n obtain s' where
    "path_loop V H C W m k next' (path_of (d # cs)) s2 = Inr (0, s')"
    "collecting depth base mbase p i ((names @ [hd (chain_names (c # d # cs))]) @ butlast (chain_names (d # cs))) s'"
    "nd_last s' = last (chain_names (d # cs))" "nd_last_type s' = LAST_NORM" "nd_flags s' = nd_flags s2 AND NOT LOOKUP_JUMPED" "nd_root s' = nd_root s2"
    by auto
  with loop s2(2) show ?case by (simp add: walk_frame_def and.assoc del: path_of.simps)
qed

lemma link_path_walk_cold:
  assumes V: "memory_law V" "dcache_law V depth" and dir: "chain_dir V W (p_dentry p) i" and s: "collecting depth base mbase p i [] s"
    and cs: "cs \<noteq> []" "length cs \<le> 30" "\<forall>c\<in>set cs. plain c" "cold V (chain_names cs)" "length cs \<le> n"
  obtains s' where "link_path_walk V H C W n (path_of cs) s = Inr (0, s')" "collecting depth base mbase p i (butlast (chain_names cs)) s'"
    "nd_last s' = last (chain_names cs)" "nd_last_type s' = LAST_NORM" "nd_flags s' = nd_flags s AND NOT LOOKUP_JUMPED" "nd_root s' = nd_root s"
proof -
  obtain d ds where "cs = d # ds" using cs(1) by (auto simp: neq_Nil_conv)
  with path_loop_cold [OF V dir s, of d ds n H C n "junk_path W (world s)"] cs(2-5) that show thesis
    by (auto simp: link_path_walk_def start_walk_path simp del: path_of.simps chain_names.simps butlast.simps last.simps)
qed

section \<open>The last component\<close>

lemma unat_qlen_last:
  assumes "cs \<noteq> []" and "\<forall>c\<in>set cs. plain c"
  shows "unat (qlen (last (chain_names cs))) = length (qname (last (chain_names cs)))"
  using assms by (induction cs rule: chain_names.induct) (auto simp: plain_def unat_of_nat_u32)

text \<open>The chain with the last component is sent at once, by \<^verbatim>\<open>walk_chain\<close> if it has thirty names and otherwise by \<^verbatim>\<open>lookup_last\<close>.\<close>

lemma lookup_last_cold:
  assumes V: "memory_law V" "in_place V" "no_links V" "dcache_law V depth" and dir: "chain_dir V W (p_dentry p) i"
    and s: "collecting depth base mbase p i names s" "nd_last_type s = LAST_NORM" "cold V [nd_last s]"
      "unat (qlen (nd_last s)) = length (qname (nd_last s))"
    and ans: "answers_with V (names @ [nd_last s]) err" and err: "fill_status err" "err \<le> 0"
  shows "\<exists>path' s'. lookup_last V H C W n path s = Inr ((err, path'), s') \<and> nd_flags s' = nd_flags s AND NOT LOOKUP_PARENT \<and> nd_root s' = nd_root s \<and>
    (if err < 0 then released base mbase s' else walk_inv depth base mbase 0 s' \<and> (\<exists>d. nd_path s' = p\<lparr>p_dentry := d\<rparr>))"
proof -
  let ?s1 = "s\<lparr>nd_flags := nd_flags s AND NOT LOOKUP_PARENT\<rparr>"
  have col: "collecting depth base mbase p i names ?s1"
    using s(1) by (simp add: collecting_def walk_inv_def and_zero balanced_def layered_def chain_ds_def)
  let ?follow = "nd_flags ?s1 AND LOOKUP_FOLLOW"
  have run: "lookup_last V H C W n path s =
      vbind (walk_chain V H C n ?follow path) (\<lambda>(err, path).
        if err \<noteq> 0 then vret (err, path) else vget (\<lambda>s. if chain_size s = 0 then vret (err, path) else chain_lookup V H C path)) ?s1"
    using s(2,4) col dir by (simp add: lookup_last_def collecting_def chain_dir_def vseq_def vbind_def)
  have inv: "walk_inv depth base mbase 29 ?s1" and at: "nd_path ?s1 = p" "nd_inode ?s1 = Some i" "map cd_name (dchain_list ?s1) = names"
    using col by (simp_all add: collecting_def)
  have fresh: "nd_last_type ?s1 = LAST_NORM" "\<And>dir. d_lookup V (world ?s1) dir (nd_last ?s1) = None"
    "\<And>dir. \<exists>d w. d_alloc V (world ?s1) dir (nd_last ?s1) = (Some d, w)" using s(2,3) by (simp_all add: cold_def)
  obtain d s2 where new: "walk_chain V H C n ?follow path ?s1 = walk_append V H C d \<lparr>p_mnt = p_mnt (nd_path ?s1), p_dentry = d\<rparr> s2"
    and s2: "walk_holds depth base mbase d s2" "nd_path s2 = nd_path ?s1" "dchain_list s2 = dchain_list ?s1" "nd_last s2 = nd_last ?s1"
      "nd_inode s2 = nd_inode ?s1" "walk_frame ?s1 s2"
    by (rule walk_chain_new [OF V(4) inv fresh])
  have hyps: "nd_inode s2 \<noteq> None" "\<And>w. d_inode V w (p_dentry (nd_path s2)) \<noteq> None" "answers_with V (map cd_name (dchain_list s2) @ [nd_last s2]) err"
    using s2 at dir ans by (simp_all add: chain_dir_def)
  let ?path = "\<lparr>p_mnt = p_mnt (nd_path ?s1), p_dentry = d\<rparr>"
  obtain e s3 where app: "walk_append V H C d ?path s2 = Inr ((e, ?path), s3)" and fr: "walk_frame s2 s3"
    and res: "if length (dchain_list s2) < 29
     then e = 0 \<and> walk_inv depth base mbase 29 s3 \<and> nd_path s3 = nd_path s2 \<and> nd_inode s3 = nd_inode s2 \<and>
       dchain_list s3 = dchain_list s2 @ [\<lparr>cd_name = nd_last s2, cd_dentry = d\<rparr>]
     else e = err \<and> (if err < 0 then released base mbase s3 else walk_inv depth base mbase 0 s3 \<and> nd_path s3 = (nd_path s2)\<lparr>p_dentry := d\<rparr>)"
    using walk_append_ok [OF V(1-3) s2(1) hyps err] by blast
  note fr3 = walk_frame_trans [OF s2(6) fr]
  show ?thesis
  proof (cases "length (dchain_list s2) < 29")
    case True
    then have inv3: "walk_inv depth base mbase 29 s3" and l3: "dchain_list s3 = dchain_list s2 @ [\<lparr>cd_name = nd_last s2, cd_dentry = d\<rparr>]"
      and p3: "nd_path s3 = p" "nd_inode s3 = Some i" "e = 0" using res s2 at by auto
    then have "chain_pending V depth base mbase s3" using walk_inv_le [OF inv3, of 30] dir by (simp add: chain_pending_def chain_dir_def)
    moreover have "answers_with V (map cd_name (dchain_list s3)) err" using l3 hyps(3) by simp
    ultimately obtain s' where cl: "chain_lookup V H C ?path s3 = Inr ((err, ?path), s')" "walk_frame s3 s'"
      "if err < 0 then released base mbase s' else walk_inv depth base mbase 0 s' \<and> nd_path s' = (nd_path s3)\<lparr>p_dentry := last (chain_ds s3)\<rparr>"
      using chain_lookup_run [OF V(1-3) _ _ err] by blast
    have "chain_size s3 = of_nat (length (dchain_list s3))" "length (dchain_list s3) \<le> 30" using inv3 by (simp_all add: walk_inv_def)
    then have "chain_size s3 \<noteq> 0" using of_nat_eq_0_u32 [of "length (dchain_list s3)"] l3 by simp
    then have "lookup_last V H C W n path s = Inr ((err, ?path), s')" using run new app p3 cl by (simp add: vbind_def)
    with cl fr3 p3 show ?thesis by (auto simp: walk_frame_def)
  next
    case False
    then have e: "e = err" "if err < 0 then released base mbase s3 else walk_inv depth base mbase 0 s3 \<and> nd_path s3 = (nd_path s2)\<lparr>p_dentry := d\<rparr>"
      using res by auto
    then have "err = 0 \<Longrightarrow> chain_size s3 = 0" by (simp add: walk_inv_def)
    then have "lookup_last V H C W n path s = Inr ((err, ?path), s3)" using run new app e(1) by (simp add: vbind_def)
    with e fr3 s2(2) at(1) show ?thesis by (auto simp: walk_frame_def)
  qed
qed

section \<open>Whole lookups\<close>

text \<open>The lookup of a relative path starts in the working directory. Flags that turn the walk into another one are not set.\<close>

definition chain_flags :: "u32 \<Rightarrow> bool" where
  "chain_flags f \<longleftrightarrow> f AND LOOKUP_AUTOMOUNT = 0 \<and> f AND LOOKUP_RCU = 0 \<and> f AND LOOKUP_ROOT = 0 \<and> f AND LOOKUP_DIRECTORY = 0"

lemma chain_flags_or: "chain_flags f \<Longrightarrow> chain_flags m \<Longrightarrow> chain_flags (f OR m)"
  by (simp add: chain_flags_def bit.conj_disj_distrib2)

lemma chain_flags_and: "chain_flags f \<Longrightarrow> chain_flags (f AND m)"
  by (simp add: chain_flags_def and_zero)

lemma path_init_pwd:
  assumes "get_fs_pwd W (world s) = p" and "plain c" and "chain_dir V W (p_dentry p) i" and "held s = []" and "chain_flags flags"
  shows "\<exists>s'. path_init V W AT_FDCWD (path_of (c # cs)) flags s = Inr (0, s') \<and> collecting depth (refs s) (mrefs s) p i [] s' \<and>
    nd_flags s' = flags OR LOOKUP_JUMPED \<and> nd_root s' = None"
proof -
  have f: "chain_flags (flags OR LOOKUP_JUMPED)" by (rule chain_flags_or [OF assms(5)]) (simp add: chain_flags_def)
  have sl: "take 1 (path_of (c # cs)) \<noteq> [SLASH]" using path_of_hd [OF assms(2), of cs] by (cases "path_of (c # cs)") auto
  show ?thesis using assms f sl
    by (simp add: path_init_def no_rcu_def chain_flags_def path_get_def vseq_def vbind_def Let_def chain_dir_def collecting_def walk_inv_def balanced_def layered_def
        chain_ds_def del: path_of.simps)
qed

lemma path_lookupat_end:
  assumes "path_init V W dfd name (flags OR LOOKUP_PARENT) s = Inr (0, s1)"
    and "relookup V H C W n n flags name (junk_path W (world s1)) (s1\<lparr>total_link_count := 0\<rparr>) = Inr (err, t)"
    and "nd_flags t AND LOOKUP_JUMPED = 0" "chain_flags (nd_flags t)" "nd_root t = None"
  shows "path_lookupat V H C W n dfd name flags s = Inr (err, t)"
  using assms by (simp add: path_lookupat_def vbind_def vseq_def complete_walk_def no_rcu_def chain_flags_def)

lemma jumped_off: "(((f :: u32) AND NOT LOOKUP_JUMPED) AND m) AND LOOKUP_JUMPED = 0"
  by (rule and_zero) (simp add: and.assoc)

lemma collecting_count: "collecting depth base mbase p i names (s\<lparr>total_link_count := k\<rparr>) = collecting depth base mbase p i names s"
  by (simp add: collecting_def walk_inv_def balanced_def layered_def chain_ds_def)

text \<open>The walk to the last component, from the working directory.\<close>

lemma walk_from_pwd:
  assumes V: "memory_law V" "dcache_law V depth" and dir: "get_fs_pwd W (world s) = p" "chain_dir V W (p_dentry p) i" and s: "held s = []" "chain_flags flags"
    and cs: "cs \<noteq> []" "length cs \<le> 30" "\<forall>c\<in>set cs. plain c" "cold V (chain_names cs)" "length cs \<le> n"
  obtains s1 t where "path_init V W AT_FDCWD (path_of cs) (flags OR LOOKUP_PARENT) s = Inr (0, s1)"
    "link_path_walk V H C W n (path_of cs) (s1\<lparr>total_link_count := 0\<rparr>) = Inr (0, t)"
    "collecting depth (refs s) (mrefs s) p i (butlast (chain_names cs)) t" "nd_last t = last (chain_names cs)" "nd_last_type t = LAST_NORM"
    "chain_flags (nd_flags t)" "nd_flags t = (flags OR LOOKUP_PARENT OR LOOKUP_JUMPED) AND NOT LOOKUP_JUMPED" "nd_root t = None"
proof -
  obtain c ds where c: "cs = c # ds" "plain c" using cs(1,3) by (auto simp: neq_Nil_conv)
  have fl: "chain_flags (flags OR LOOKUP_PARENT)" by (rule chain_flags_or [OF s(2)]) (simp add: chain_flags_def)
  obtain s1 where s1: "path_init V W AT_FDCWD (path_of cs) (flags OR LOOKUP_PARENT) s = Inr (0, s1)" "collecting depth (refs s) (mrefs s) p i [] s1"
    "nd_flags s1 = (flags OR LOOKUP_PARENT) OR LOOKUP_JUMPED" "nd_root s1 = None"
    using path_init_pwd [OF dir(1) c(2) dir(2) s(1) fl, where cs = ds] c(1) by blast
  have col: "collecting depth (refs s) (mrefs s) p i [] (s1\<lparr>total_link_count := 0\<rparr>)" using s1(2) by (simp add: collecting_count)
  obtain t where t: "link_path_walk V H C W n (path_of cs) (s1\<lparr>total_link_count := 0\<rparr>) = Inr (0, t)"
    "collecting depth (refs s) (mrefs s) p i (butlast (chain_names cs)) t" "nd_last t = last (chain_names cs)" "nd_last_type t = LAST_NORM"
    "nd_flags t = nd_flags (s1\<lparr>total_link_count := 0\<rparr>) AND NOT LOOKUP_JUMPED" "nd_root t = nd_root (s1\<lparr>total_link_count := 0\<rparr>)"
    by (rule link_path_walk_cold [OF V dir(2) col cs])
  have "chain_flags (nd_flags s1)" unfolding s1(3) by (rule chain_flags_or [OF fl]) (simp add: chain_flags_def)
  then have "chain_flags (nd_flags t)" using t(5) chain_flags_and by simp
  with s1 t show thesis by (intro that [OF s1(1) t(1-4)]) (simp_all add: or.assoc)
qed

lemma last_cold: "cold V (chain_names cs) \<Longrightarrow> cs \<noteq> [] \<Longrightarrow> cold V [last (chain_names cs)]"
  by (simp add: cold_def)

text \<open>A path of up to thirty components is looked up with one request.\<close>

lemma path_lookupat_cold:
  assumes V: "memory_law V" "in_place V" "no_links V" "dcache_law V depth" and dir: "get_fs_pwd W (world s) = p" "chain_dir V W (p_dentry p) i"
    and s: "held s = []" "chain_flags flags" "flags AND LOOKUP_PARENT = 0"
    and cs: "cs \<noteq> []" "length cs \<le> 30" "\<forall>c\<in>set cs. plain c" "cold V (chain_names cs)" "length cs \<le> n"
    and ans: "answers_with V (chain_names cs) err" and err: "fill_status err" "err \<le> 0"
  shows "\<exists>s'. path_lookupat V H C W n AT_FDCWD (path_of cs) flags s = Inr (err, s') \<and>
    (if err < 0 then released (refs s) (mrefs s) s' else walk_inv depth (refs s) (mrefs s) 0 s' \<and> (\<exists>d. nd_path s' = p\<lparr>p_dentry := d\<rparr>))"
proof -
  obtain s1 t where s1: "path_init V W AT_FDCWD (path_of cs) (flags OR LOOKUP_PARENT) s = Inr (0, s1)"
    and t: "link_path_walk V H C W n (path_of cs) (s1\<lparr>total_link_count := 0\<rparr>) = Inr (0, t)"
    "collecting depth (refs s) (mrefs s) p i (butlast (chain_names cs)) t" "nd_last t = last (chain_names cs)" "nd_last_type t = LAST_NORM"
    "chain_flags (nd_flags t)" "nd_flags t = (flags OR LOOKUP_PARENT OR LOOKUP_JUMPED) AND NOT LOOKUP_JUMPED" "nd_root t = None"
    by (rule walk_from_pwd [OF V(1,4) dir s(1,2) cs])
  let ?path = "junk_path W (world s1)"
  have "cold V [nd_last t]" "unat (qlen (nd_last t)) = length (qname (nd_last t))" "answers_with V (butlast (chain_names cs) @ [nd_last t]) err"
    using t(3) last_cold [OF cs(4,1)] unat_qlen_last [OF cs(1,3)] ans cs(1) by simp_all
  from lookup_last_cold [OF V dir(2) t(2,4) this err, of H C n ?path] obtain path' s' where
    last: "lookup_last V H C W n ?path t = Inr ((err, path'), s')" "nd_flags s' = nd_flags t AND NOT LOOKUP_PARENT" "nd_root s' = nd_root t"
    and res: "if err < 0 then released (refs s) (mrefs s) s' else walk_inv depth (refs s) (mrefs s) 0 s' \<and> (\<exists>d. nd_path s' = p\<lparr>p_dentry := d\<rparr>)" by blast
  obtain k where k: "n = Suc k" using cs(1,5) by (cases n) auto
  have re: "relookup V H C W n n flags (path_of cs) ?path (s1\<lparr>total_link_count := 0\<rparr>) = Inr (err, s')"
    unfolding k using t(1) last(1) s(3) err(2) unfolding k by (simp add: vbind_def)
  have "nd_flags s' AND LOOKUP_JUMPED = 0" "chain_flags (nd_flags s')" "nd_root s' = None"
    using last(2,3) t(5-7) jumped_off chain_flags_and by simp_all
  from path_lookupat_end [OF s1 re this] res show ?thesis by blast
qed

lemma kern_path_cold:
  assumes "memory_law V" "in_place V" "no_links V" "dcache_law V depth" and "get_fs_pwd W (world s) = p" "chain_dir V W (p_dentry p) i"
    and "held s = []" "chain_flags flags" "flags AND LOOKUP_PARENT = 0"
    and "cs \<noteq> []" "length cs \<le> 30" "\<forall>c\<in>set cs. plain c" "cold V (chain_names cs)" "length cs \<le> n"
    and "answers_with V (chain_names cs) err" and "fill_status err" "err \<le> 0"
  shows "\<exists>r s'. kern_path V H C W n (Inr (path_of cs)) flags s = Inr ((err, r), s') \<and>
    (if err < 0 then r = None \<and> released (refs s) (mrefs s) s'
     else walk_inv depth (refs s) (mrefs s) 0 s' \<and> (\<exists>d. nd_path s' = p\<lparr>p_dentry := d\<rparr>) \<and> r = Some (nd_path s'))"
proof -
  obtain s' where s': "path_lookupat V H C W n AT_FDCWD (path_of cs) flags s = Inr (err, s')"
    "if err < 0 then released (refs s) (mrefs s) s' else walk_inv depth (refs s) (mrefs s) 0 s' \<and> (\<exists>d. nd_path s' = p\<lparr>p_dentry := d\<rparr>)"
    using path_lookupat_cold [OF assms] by blast
  have "err \<noteq> - ESTALE" using assms(16,17) by (auto simp: fill_status_def)
  then have "filename_lookup V H C W n AT_FDCWD (path_of cs) flags s = Inr (err, s')" using s'(1) by (simp add: filename_lookup_def vbind_def)
  then show ?thesis using s'(2) assms(17) by (auto simp: kern_path_def do_path_lookup_def vbind_def)
qed

text \<open>A lookup of the parent stops with the chain pending. It has not reached the parent, and the mutex it takes next is the one it holds.\<close>

lemma kern_path_locked_cold:
  assumes V: "memory_law V" "dcache_law V depth" and dir: "get_fs_pwd W (world s) = p" "chain_dir V W (p_dentry p) i" and s: "held s = []"
    and cs: "2 \<le> length cs" "length cs \<le> 30" "\<forall>c\<in>set cs. plain c" "cold V (chain_names cs)" "length cs \<le> n"
  shows "kern_path_locked V H C W n (Inr (path_of cs)) s = Inl DEADLOCK"
proof -
  have ne: "cs \<noteq> []" and "chain_flags LOOKUP_PARENT" using cs(1) by (auto simp: chain_flags_def)
  obtain s1 t where s1: "path_init V W AT_FDCWD (path_of cs) (LOOKUP_PARENT OR LOOKUP_PARENT) s = Inr (0, s1)"
    and t: "link_path_walk V H C W n (path_of cs) (s1\<lparr>total_link_count := 0\<rparr>) = Inr (0, t)"
    "collecting depth (refs s) (mrefs s) p i (butlast (chain_names cs)) t" "nd_last_type t = LAST_NORM"
    "chain_flags (nd_flags t)" "nd_flags t = (LOOKUP_PARENT OR LOOKUP_PARENT OR LOOKUP_JUMPED) AND NOT LOOKUP_JUMPED" "nd_root t = None"
    by (rule walk_from_pwd [OF V dir s \<open>chain_flags LOOKUP_PARENT\<close> ne cs(2-5)])
  obtain k where k: "n = Suc k" using cs(1,5) by (cases n) auto
  have re: "relookup V H C W n n LOOKUP_PARENT (path_of cs) (junk_path W (world s1)) (s1\<lparr>total_link_count := 0\<rparr>) = Inr (0, t)"
    unfolding k using t(1) unfolding k by (simp add: vbind_def)
  have "nd_flags t AND LOOKUP_JUMPED = 0" using t(5) by simp
  from path_lookupat_end [OF s1 re this t(4,6)] have "filename_lookup V H C W n AT_FDCWD (path_of cs) LOOKUP_PARENT s = Inr (0, t)"
    by (simp add: filename_lookup_def vbind_def)
  moreover have "dchain_list t \<noteq> []"
    using t(2) cs(1) by (auto simp: collecting_def dest!: arg_cong [where f = length])
  then have "p_dentry (nd_path t) \<in> set (held t)" using t(2) by (simp add: collecting_def walk_inv_def)
  ultimately show ?thesis using t(3) by (simp add: kern_path_locked_def vbind_def vseq_def mutex_lock_def)
qed

end
