(* ===== verification/Vfs_Sample.thy ===== *)
theory Vfs_Sample
  imports Namei_Chain_Correct Nfs_Chain_Sample
begin

text \<open>
  A small concrete inode, inode cache and dentry cache for evaluating the statements on the walk: dentry \<open>d\<close> is \<open>d\<close> levels
  below the root, no name is cached, every allocation succeeds and the protocol answers a chain with the status \<open>err\<close>.
\<close>

definition sample_inode :: nfs_inode where
  "sample_inode = \<lparr>fileid = 9, ino_fh = sample_fh, ino_stale = False, cache_validity = 0, read_cache_jiffies = 0, attrtimeo = 3000,
     attrtimeo_timestamp = 0, attr_gencount = 0, cache_change_attribute = 0, cookieverf = (0, 0), nrequests = 0, write_io = 0, read_io = 0,
     i_ino = 9, i_automount = False, i_mode = 0x81A4, i_op = FILE_INODE_OPS, i_fop = FILE_OPS, i_version = 1, i_size = 5,
     i_nlink = 1, i_uid = 0, i_gid = 0, i_blocks = 0, i_atime = zero_time, i_mtime = zero_time, i_ctime = zero_time, i_nrpages = 0, i_security = False\<rparr>"

definition sample_sb :: nfs_sb where
  "sample_sb = \<lparr>sb_fsid = (1, 0), acregmin = 3000, acregmax = 60000, acdirmin = 30000, acdirmax = 60000, cap_atime = True, cap_mtime = True,
     cap_ctime = True, cap_change_attr = True, cap_nlink = True, cap_owner = True, cap_owner_group = True, cap_mode = True,
     cap_security_label = False, cl_minorversion = 1\<rparr>"

definition sample_hooks :: inode_hooks where
  "sample_hooks = \<lparr>have_read_delegation = (\<lambda>_. False), nfs_have_delegated_attributes = (\<lambda>_. False),
     pnfs_layoutcommit_outstanding = (\<lambda>_. False), nfs_zap_label_cache_locked = (\<lambda>i. i)\<rparr>"

definition sample_state :: inode_state where
  "sample_state = \<lparr>the_inode = sample_inode, the_sb = sample_sb, generation = 7, now = 100\<rparr>"

definition sample_icache :: "unit icache" where
  "sample_icache = \<lparr>iget5_locked = (\<lambda>w h t u. (Some (0, True), w)), ic_inode = (\<lambda>w i. sample_inode), ic_set_inode = (\<lambda>w i x. w),
     ic_sb = (\<lambda>w. sample_sb), ic_set_sb = (\<lambda>w x. w), ic_generation = (\<lambda>w. 7), ic_set_generation = (\<lambda>w x. w), ic_jiffies = (\<lambda>w. 100)\<rparr>"

definition sample_vfs :: "int \<Rightarrow> unit vfs" where
  "sample_vfs err = \<lparr>d_lookup = (\<lambda>w d nm. None), d_alloc = (\<lambda>w d nm. (Some (Suc d), w)), d_is_chain_temp = (\<lambda>w d. False),
     d_is_symlink = (\<lambda>w d. False), d_mountpoint = (\<lambda>w d. False), d_inode = (\<lambda>w d. Some d), d_parent = (\<lambda>w d. d - 1),
     d_op_revalidate = (\<lambda>w d. False), d_revalidate = (\<lambda>w d f. (1, w)), d_invalidate = (\<lambda>w d. (0, w)), d_set_chain_temp = (\<lambda>w d. w),
     d_materialise_unique = (\<lambda>w d i. (Inr None, w)), lookup_mnt = (\<lambda>w p. None), mnt_root = (\<lambda>w m. 0), mnt_above = (\<lambda>w m. None),
     path_connected = (\<lambda>w p. True), fs_root = (\<lambda>w. \<lparr>p_mnt = 0, p_dentry = 0\<rparr>), kmalloc_ok = (\<lambda>w. (True, w)), junk_fh = (\<lambda>w. fh_zero),
     junk_fattr = (\<lambda>w. empty_fattr), i_op_chain_lookup = (\<lambda>w i. True),
     proto_chain_lookup = (\<lambda>w i names fhs fas labs n. Inr ((err, \<lparr>chr_server = sample_chain_server, chr_fattrs = fas, chr_size = n,
        chr_fhandles = fhs, chr_labels = labs\<rparr>), w)),
     nfs_block_sillyrename = (\<lambda>w d. w), nfs_unblock_sillyrename = (\<lambda>w d. w), inode_permission = (\<lambda>w i. 0)\<rparr>"

text \<open>The walk has collected \<open>n\<close> names below dentry 5.\<close>

definition sample_walk_state :: "nat \<Rightarrow> unit walk" where
  "sample_walk_state n = \<lparr>world = (), refs = (\<lambda>d. of_bool (5 \<le> d \<and> d \<le> 5 + n)), mrefs = (\<lambda>m. of_bool (m = 0)),
     held = (if n = 0 then [] else [5]), nd_path = \<lparr>p_mnt = 0, p_dentry = 5\<rparr>, nd_root = None, nd_last = sample_name [0x61],
     nd_last_type = LAST_NORM, nd_inode = Some 5, nd_flags = 0,
     dchain_list = map (\<lambda>i. \<lparr>cd_name = sample_name [0x61], cd_dentry = i\<rparr>) [6..<6 + n], chain_size = of_nat n, chain_parent = 5, nd_depth = 0, link_count = 0, total_link_count = 0\<rparr>"

lemma sample_vfs_laws:
  "memory_law (sample_vfs err)" "in_place (sample_vfs err)" "no_links (sample_vfs err)" "no_mounts (sample_vfs err)"
  "dcache_law (sample_vfs err) id" "answers_with (sample_vfs err) names err" "d_inode (sample_vfs err) w d \<noteq> None"
  by (auto simp: sample_vfs_def memory_law_def in_place_def no_links_def no_mounts_def dcache_law_def answers_with_def)

lemma count_upt: "count_list [a..<b] x = of_bool (a \<le> x \<and> x < b)"
  by (simp add: count_distinct)

lemma sample_walk_inv: "n \<le> m \<Longrightarrow> walk_inv id (\<lambda>_. 0) (\<lambda>_. 0) m (sample_walk_state n)"
  by (auto simp: walk_inv_def balanced_def layered_def chain_ds_def sample_walk_state_def count_upt comp_def)

lemma sample_pending: "0 < n \<Longrightarrow> n \<le> 30 \<Longrightarrow> chain_pending (sample_vfs err) id (\<lambda>_. 0) (\<lambda>_. 0) (sample_walk_state n)"
  using sample_walk_inv [of n 30] by (simp add: chain_pending_def sample_vfs_laws) (simp add: sample_walk_state_def)

text \<open>A reply that changes the sample inode: version 2, size 9.\<close>

definition sample_fattr :: nfs_fattr where
  "sample_fattr = empty_fattr\<lparr>fa_valid := NFS_ATTR_FATTR_SIZE OR NFS_ATTR_FATTR_CHANGE, fa_size := 9, fa_change_attr := 2, fa_gencount := 7\<rparr>"

lemmas sample_inode_defs = sample_state_def sample_inode_def sample_sb_def sample_fattr_def empty_fattr_def sample_hooks_def

lemma sample_same_object: "same_object sample_inode sample_fattr"
  by (simp add: same_object_def nfs_fileid_valid_def has_def sample_inode_defs)

lemma sample_timeout: "timeout_ok sample_sb sample_inode" "sb_ok sample_sb"
  by (simp_all add: timeout_ok_def sb_ok_def NFS_MINATTRTIMEO_def NFS_MAXATTRTIMEO_def S_ISDIR_def sample_inode_defs)

lemma sample_label_law: "label_law sample_hooks"
  unfolding label_law_def by (auto simp: sample_hooks_def intro!: exI [of _ 0])

end
