(* ===== verification/Namei_Properties.thy ===== *)
theory Namei_Properties
  imports Namei_Walk_Correct Vfs_Sample
begin

text \<open>
  The properties of whole path lookups, stated over the definitions of \<^verbatim>\<open>Namei_Walk\<close> and \<^verbatim>\<open>Namei_Chain\<close>, each with an example.
\<close>

section \<open>Samples\<close>

text \<open>Plain directories without links, mounts or checks; the working directory is dentry 5.\<close>

definition sample_walk_env :: "unit walk_env" where
  "sample_walk_env = \<lparr>d_can_lookup = (\<lambda>w d. True), d_is_negative = (\<lambda>w d. False), d_hash = (\<lambda>w d. None), d_weak_revalidate = (\<lambda>w d. None),
     d_manage = (\<lambda>w d. None), d_need_automount = (\<lambda>w d. False), d_automount = (\<lambda>w p. None), finish_automount = (\<lambda>w m p. (0, w)),
     IS_DEADDIR = (\<lambda>w i. False), i_op_lookup = (\<lambda>w i d f. (Inr None, w)), touch_atime = (\<lambda>w p. w), security_inode_follow_link = (\<lambda>w d. 0),
     i_op_follow_link = (\<lambda>w d. (Inl (- EINVAL), w)), i_op_put_link = (\<lambda>w d. w), sysctl_protected_symlinks = False, current_fsuid = 0,
     inode_uid = (\<lambda>w i. 0), inode_mode = (\<lambda>w i. 0), get_fs_pwd = (\<lambda>w. \<lparr>p_mnt = 0, p_dentry = 5\<rparr>), fdget_raw = (\<lambda>w fd. None),
     junk_path = (\<lambda>w. \<lparr>p_mnt = 0, p_dentry = 0\<rparr>)\<rparr>"

definition sample_idle :: "unit walk" where
  "sample_idle = (sample_walk_state 0)\<lparr>refs := (\<lambda>_. 0), mrefs := (\<lambda>_. 0)\<rparr>"

lemma sample_walk_laws:
  "get_fs_pwd sample_walk_env (world s) = \<lparr>p_mnt = 0, p_dentry = 5\<rparr>" "chain_dir (sample_vfs err) sample_walk_env (p_dentry \<lparr>p_mnt = 0, p_dentry = 5\<rparr>) 5"
  "cold (sample_vfs err) names" "held sample_idle = []" "refs sample_idle = (\<lambda>_. 0)" "mrefs sample_idle = (\<lambda>_. 0)"
  by (simp_all add: sample_walk_env_def chain_dir_def sample_vfs_def cold_def sample_idle_def sample_walk_state_def)

definition sample_components :: "bytes list" where
  "sample_components = [[0x61], [0x62, 0x63], [0x64]]"

lemma sample_components_ok:
  "sample_components \<noteq> []" "2 \<le> length sample_components" "length sample_components \<le> 30" "\<forall>c\<in>set sample_components. plain c" "length sample_components \<le> 5"
  by (simp_all add: sample_components_def plain_def)

section \<open>Lookups\<close>



text \<open>C15: lookups of a parent directory. When the first of at least two components of a path is not in the dentry cache (nor are the others), \<^verbatim>\<open>kern_path_locked\<close> gets from
  \<^verbatim>\<open>filename_lookup\<close> not the parent directory but the directory where the walk started, with the components still pending and the mutex of that directory
  locked, and locks it again.\<close>

theorem parent_lookup_deadlock:
  assumes "memory_law V" "dcache_law V depth" and "get_fs_pwd W (world s) = p" "chain_dir V W (p_dentry p) i" and "held s = []"
    and "2 \<le> length cs" "length cs \<le> 30" "\<forall>c\<in>set cs. plain c" "cold V (chain_names cs)" "length cs \<le> n"
  shows "kern_path_locked V H C W n (Inr (path_of cs)) s = Inl DEADLOCK"
  using assms by (rule kern_path_locked_cold)

theorem parent_lookup_deadlock_witness:
  "kern_path_locked (sample_vfs 0) sample_hooks sample_icache sample_walk_env 5 (Inr [0x61, 0x2F, 0x62, 0x63, 0x2F, 0x64]) sample_idle = Inl DEADLOCK"
proof -
  have path: "path_of sample_components = [0x61, 0x2F, 0x62, 0x63, 0x2F, 0x64]" by (simp add: sample_components_def)
  show ?thesis unfolding path [symmetric]
    by (rule parent_lookup_deadlock [OF sample_vfs_laws(1,5) sample_walk_laws(1,2,4) sample_components_ok(2-4) sample_walk_laws(3) sample_components_ok(5)])
qed

text \<open>C16: mountpoints on the way. When a name is in the cache and something is mounted on it, \<^verbatim>\<open>walk_chain\<close> gives back the reference to the mount it is in twice, in \<^verbatim>\<open>follow_mount\<close>
  and in \<^verbatim>\<open>path_to_nameidata\<close>.\<close>

theorem mountpoint_double_put:
  assumes "no_links V" and "walk_holds depth base mbase d s"
    and "d_mountpoint V (world s) d" "lookup_mnt V (world s) \<lparr>p_mnt = p_mnt (nd_path s), p_dentry = d\<rparr> = Some m"
      "m \<noteq> p_mnt (nd_path s)" "\<not> d_mountpoint V (world s) (mnt_root V (world s) m)"
    and "mbase (p_mnt (nd_path s)) = 0"
  shows "walk_cached V (Suc (Suc n)) d follow \<lparr>p_mnt = p_mnt (nd_path s), p_dentry = d\<rparr> s = Inl MNT_OVER_PUT"
  using assms by (rule walk_cached_mount_double_put)

theorem mountpoint_double_put_witness:
  "walk_cached ((sample_vfs 0)\<lparr>d_mountpoint := (\<lambda>w d. d = 6), lookup_mnt := (\<lambda>w p. Some 1)\<rparr>) 2 6 LOOKUP_FOLLOW \<lparr>p_mnt = 0, p_dentry = 6\<rparr>
     ((sample_walk_state 0)\<lparr>held := [5], refs := (\<lambda>d. of_bool (d = 5 \<or> d = 6))\<rparr>) = Inl MNT_OVER_PUT"
proof -
  let ?V = "(sample_vfs 0)\<lparr>d_mountpoint := (\<lambda>w d. d = 6), lookup_mnt := (\<lambda>w p. Some 1)\<rparr>"
  let ?s = "(sample_walk_state 0)\<lparr>held := [5], refs := (\<lambda>d. of_bool (d = 5 \<or> d = 6))\<rparr>"
  have "no_links ?V" by (simp add: no_links_def sample_vfs_def)
  moreover have "walk_holds id (\<lambda>_. 0) (\<lambda>_. 0) 6 ?s"
    by (auto simp: walk_holds_def layered_def chain_ds_def sample_walk_state_def)
  ultimately have "walk_cached ?V (Suc (Suc 0)) 6 LOOKUP_FOLLOW \<lparr>p_mnt = p_mnt (nd_path ?s), p_dentry = 6\<rparr> ?s = Inl MNT_OVER_PUT"
    by (rule mountpoint_double_put [where m = 1]) (simp_all add: sample_vfs_def sample_walk_state_def)
  then show ?thesis by (simp add: sample_walk_state_def numeral_2_eq_2)
qed

end
