(* ===== verification/Nfs_Inode_Steps.thy ===== *)
theory Nfs_Inode_Steps
  imports Nfs_Fhget Nfs_Steps
begin

text \<open>
  The life of a cached inode as a transition system: replies of the server that are merged into it, local changes of its
  attributes, invalidation, and the passing of time. What every transition keeps is \<open>kept\<close>: which object the inode is, that a stale
  inode stays stale, and the limits of the attribute timeout.
\<close>

definition identity :: "nfs_inode \<Rightarrow> u64 \<times> nfs_fh \<times> u16" where
  "identity ino = (fileid ino, ino_fh ino, i_mode ino AND S_IFMT)"

definition inode_ok :: "inode_state \<Rightarrow> bool" where
  "inode_ok s \<longleftrightarrow> sb_ok (the_sb s) \<and> timeout_ok (the_sb s) (the_inode s)"

definition kept :: "inode_state \<Rightarrow> inode_state \<Rightarrow> bool" where
  "kept s t \<longleftrightarrow> identity (the_inode t) = identity (the_inode s) \<and> (ino_stale (the_inode s) \<longrightarrow> ino_stale (the_inode t)) \<and>
     (inode_ok s \<longrightarrow> inode_ok t)"

inductive attr_step :: "inode_hooks \<Rightarrow> inode_state \<Rightarrow> inode_state \<Rightarrow> bool" for H where
  refresh: "attr_step H s (snd (nfs_refresh_inode H fa s))"
| post_op: "attr_step H s (snd (nfs_post_op_update_inode H fa s))"
| post_op_wcc: "attr_step H s (snd (nfs_post_op_update_inode_force_wcc H fa s))"
| revalidate: "attr_step H s (snd (nfs_revalidate_inode H alloc label_err getattr s))"
| setattr: "attr_step H s (s\<lparr>the_inode := nfs_setattr_update_inode newsize_ok attr (the_inode s)\<rparr>)"
| zap_caches: "attr_step H s (s\<lparr>the_inode := nfs_zap_caches_locked H (the_sb s) (now s) (the_inode s)\<rparr>)"
| zap_mapping: "attr_step H s (s\<lparr>the_inode := nfs_zap_mapping (the_inode s)\<rparr>)"
| invalidate_atime: "attr_step H s (s\<lparr>the_inode := nfs_invalidate_atime (the_inode s)\<rparr>)"
| mark_for_revalidate: "attr_step H s (s\<lparr>the_inode := nfs_mark_for_revalidate (the_inode s)\<rparr>)"
| force_lookup_revalidate: "attr_step H s (s\<lparr>the_inode := nfs_force_lookup_revalidate (the_inode s)\<rparr>)"
| tick: "attr_step H s (s\<lparr>now := j\<rparr>)"

inductive_cases attr_stepE: "attr_step H s t"

section \<open>What is kept\<close>

lemma kept_refl: "kept s s"
  by (simp add: kept_def)

lemma kept_trans: "kept s t \<Longrightarrow> kept t u \<Longrightarrow> kept s u"
  by (auto simp: kept_def)

text \<open>The limits depend on the type of the file only.\<close>

lemma inode_ok_cong:
  assumes "attrtimeo (the_inode t) = attrtimeo (the_inode s)" and "identity (the_inode t) = identity (the_inode s)" and "the_sb t = the_sb s"
  shows "inode_ok t = inode_ok s"
proof -
  have "S_ISDIR (i_mode (the_inode t)) = S_ISDIR (i_mode (the_inode s))" using assms(2) by (simp add: identity_def S_ISDIR_def)
  from limits_cong [OF this] show ?thesis using assms by (simp add: inode_ok_def timeout_ok_def)
qed

lemma kept_plain:
  assumes "attrtimeo ino = attrtimeo (the_inode s)" and "identity ino = identity (the_inode s)"
    and "ino_stale (the_inode s) \<longrightarrow> ino_stale ino"
  shows "kept s (s\<lparr>the_inode := ino\<rparr>)"
  using inode_ok_cong [of "s\<lparr>the_inode := ino\<rparr>" s] assms by (simp add: kept_def)

lemma identity_view: "identity (attrs_view ino) = identity ino" "ino_stale (attrs_view ino) = ino_stale ino"
  by (simp_all add: identity_def attrs_view_def)

lemma identity_apply: "identity (apply_fattr fa ino) = identity ino" "ino_stale (apply_fattr fa ino) = ino_stale ino"
  using apply_fattr_type [of fa ino] by (simp_all add: identity_def) (simp_all add: apply_fattr_def)

lemma kept_zap:
  assumes "label_law H"
  shows "kept s (s\<lparr>the_inode := nfs_zap_caches_locked H (the_sb s) (now s) (the_inode s)\<rparr>)"
proof -
  obtain m where m: "nfs_zap_caches_locked H (the_sb s) (now s) (the_inode s) = (the_inode s)\<lparr>attrtimeo := ucast (NFS_MINATTRTIMEO (the_sb s) (the_inode s)),
      attrtimeo_timestamp := now s, cookieverf := (0, 0), cache_validity := cache_validity (the_inode s) OR m\<rparr>"
    using zap_caches_shape [OF assms] by metis
  have "NFS_MINATTRTIMEO sb (i\<lparr>attrtimeo := a, attrtimeo_timestamp := b, cookieverf := c, cache_validity := d\<rparr>) = NFS_MINATTRTIMEO sb i"
    "NFS_MAXATTRTIMEO sb (i\<lparr>attrtimeo := a, attrtimeo_timestamp := b, cookieverf := c, cache_validity := d\<rparr>) = NFS_MAXATTRTIMEO sb i"
    for sb i a b c d by (simp_all add: NFS_MINATTRTIMEO_def NFS_MAXATTRTIMEO_def)
  then show ?thesis using sb_ok_minmax [of "the_sb s" "the_inode s"]
    by (auto simp: m kept_def identity_def inode_ok_def timeout_ok_def word_le_nat_alt)
qed

lemma update_sb_ok: "sb_ok (the_sb s) \<Longrightarrow> sb_ok (the_sb (snd (nfs_update_inode H fa s)))"
  by (auto simp: nfs_update_inode_def Let_def update_finish_sb update_timeout_sb case_prod_beta)

lemma kept_update:
  assumes "label_law H"
  shows "kept s (snd (nfs_update_inode H fa s))"
proof -
  let ?t = "snd (nfs_update_inode H fa s)"
  have ok: "inode_ok s \<Longrightarrow> inode_ok ?t" using nfs_update_inode_timeout [OF _ _ assms] update_sb_ok by (simp add: inode_ok_def)
  show ?thesis
  proof (cases "same_object (the_inode s) fa")
    case True
    have "identity (the_inode ?t) = identity (the_inode s)" "ino_stale (the_inode ?t) = ino_stale (the_inode s)"
      using nfs_update_inode_view [OF True, of H] identity_view identity_apply by metis+
    with ok show ?thesis by (simp add: kept_def)
  next
    case False
    with nfs_update_inode_stale [OF False assms] ok show ?thesis by (auto simp: kept_def identity_def)
  qed
qed

lemma kept_check: "kept s (s\<lparr>the_inode := snd (nfs_check_inode_attributes H fa (the_inode s))\<rparr>)"
proof (rule kept_plain)
  let ?i = "snd (nfs_check_inode_attributes H fa (the_inode s))"
  show "identity ?i = identity (the_inode s)" "ino_stale (the_inode s) \<longrightarrow> ino_stale ?i"
    using nfs_check_inode_attributes_view [of H fa "the_inode s"] identity_view by metis+
  show "attrtimeo ?i = attrtimeo (the_inode s)" by (simp add: nfs_check_inode_attributes_def nfs_set_cache_invalid_def Let_def)
qed

lemma kept_refresh_locked:
  assumes "label_law H"
  shows "kept s (snd (nfs_refresh_inode_locked H fa s))"
  using kept_update [OF assms] kept_check by (simp add: nfs_refresh_inode_locked_def Let_def case_prod_beta)

lemma kept_refresh:
  assumes "label_law H"
  shows "kept s (snd (nfs_refresh_inode H fa s))"
  using kept_refresh_locked [OF assms] kept_refl by (simp add: nfs_refresh_inode_def)

lemma set_cache_invalid_fields:
  "attrtimeo (nfs_set_cache_invalid f ino) = attrtimeo ino" "identity (nfs_set_cache_invalid f ino) = identity ino"
  "ino_stale (nfs_set_cache_invalid f ino) = ino_stale ino"
  by (simp_all add: nfs_set_cache_invalid_def identity_def Let_def)

lemma kept_set_cache_invalid: "kept s (s\<lparr>the_inode := nfs_set_cache_invalid f (the_inode s)\<rparr>)"
  by (intro kept_plain) (simp_all add: set_cache_invalid_fields)

lemma kept_post_op:
  assumes "label_law H"
  shows "kept s (snd (nfs_post_op_update_inode_locked H fa s))"
  unfolding nfs_post_op_update_inode_locked_def Let_def
  using kept_trans [OF kept_set_cache_invalid kept_refresh_locked [OF assms]] kept_set_cache_invalid by simp

lemma setsecurity_fields:
  "attrtimeo (nfs_setsecurity fa label ino) = attrtimeo ino" "identity (nfs_setsecurity fa label ino) = identity ino"
  "ino_stale (nfs_setsecurity fa label ino) = ino_stale ino"
  by (simp_all add: nfs_setsecurity_def nfs_clear_label_invalid_def identity_def split: option.split)

lemma zap_acl_fields:
  "attrtimeo (nfs_zap_acl_cache ino) = attrtimeo ino" "identity (nfs_zap_acl_cache ino) = identity ino"
  "ino_stale (nfs_zap_acl_cache ino) = ino_stale ino"
  by (simp_all add: nfs_zap_acl_cache_def identity_def)

lemma kept_revalidate:
  assumes "label_law H"
  shows "kept s (snd (nfs_revalidate_inode H alloc label_err getattr s))"
proof -
  have stale: "kept s (s\<lparr>the_inode := if c then i else i\<lparr>ino_stale := True\<rparr>\<rparr>)"
    if "kept s (s\<lparr>the_inode := i\<rparr>)" for c i
    using that kept_trans [OF that kept_plain [of "i\<lparr>ino_stale := True\<rparr>" "s\<lparr>the_inode := i\<rparr>"]] by (simp add: identity_def)
  have fin: "kept s (t\<lparr>the_inode := nfs_setsecurity fa label (if c then nfs_zap_acl_cache (the_inode t) else the_inode t)\<rparr>)"
    if "kept s t" for t fa label c
    by (rule kept_trans [OF that kept_plain]) (simp_all add: setsecurity_fields zap_acl_fields)
  have "kept s (snd (nfs_revalidate_inode_now H alloc label_err getattr s))"
    using kept_refl stale [OF kept_zap [OF assms]] kept_refresh [OF assms] fin [OF kept_refresh [OF assms]]
    by (simp add: nfs_revalidate_inode_now_def Let_def case_prod_beta)
  then show ?thesis using kept_refl by (simp add: nfs_revalidate_inode_def)
qed

lemma setattr_type: "((a AND S_IALLUGO) OR (m AND NOT S_IALLUGO)) AND S_IFMT = m AND (S_IFMT :: u16)"
proof -
  have "((a AND S_IALLUGO) OR (m AND NOT S_IALLUGO)) AND S_IFMT = a AND (S_IALLUGO AND S_IFMT) OR m AND (NOT S_IALLUGO AND S_IFMT)" for a m :: u16
    by (simp only: bit.conj_disj_distrib2 and.assoc)
  then show ?thesis by simp
qed

lemma vmtruncate_fields:
  "attrtimeo (snd (nfs_vmtruncate ok z ino)) = attrtimeo ino" "identity (snd (nfs_vmtruncate ok z ino)) = identity ino"
  "ino_stale (snd (nfs_vmtruncate ok z ino)) = ino_stale ino"
  by (simp_all add: nfs_vmtruncate_def identity_def Let_def)

lemma owner_fields:
  "attrtimeo (ino\<lparr>i_uid := u\<rparr>) = attrtimeo ino" "identity (ino\<lparr>i_uid := u\<rparr>) = identity ino" "ino_stale (ino\<lparr>i_uid := u\<rparr>) = ino_stale ino"
  "attrtimeo (ino\<lparr>i_gid := g\<rparr>) = attrtimeo ino" "identity (ino\<lparr>i_gid := g\<rparr>) = identity ino" "ino_stale (ino\<lparr>i_gid := g\<rparr>) = ino_stale ino"
  "attrtimeo (ino\<lparr>i_mode := m\<rparr>) = attrtimeo ino" "ino_stale (ino\<lparr>i_mode := m\<rparr>) = ino_stale ino"
  "identity (ino\<lparr>i_mode := (a AND S_IALLUGO) OR (i_mode ino AND NOT S_IALLUGO)\<rparr>) = identity ino"
  using setattr_type [of a "i_mode ino"] by (simp_all add: identity_def)

lemma setattr_fields:
  "attrtimeo (nfs_setattr_update_inode ok attr ino) = attrtimeo ino" "identity (nfs_setattr_update_inode ok attr ino) = identity ino"
  "ino_stale (nfs_setattr_update_inode ok attr ino) = ino_stale ino"
  unfolding nfs_setattr_update_inode_def Let_def
  by (simp_all only: if_distrib [of attrtimeo] if_distrib [of identity] if_distrib [of ino_stale]
      vmtruncate_fields set_cache_invalid_fields owner_fields if_cancel)

lemma kept_setattr: "kept s (s\<lparr>the_inode := nfs_setattr_update_inode newsize_ok attr (the_inode s)\<rparr>)"
  by (rule kept_plain) (simp_all only: setattr_fields simp_thms)

section \<open>Every transition\<close>

lemma attr_step_kept:
  assumes "attr_step H s t" and "label_law H"
  shows "kept s t"
  using assms
proof (induction rule: attr_step.induct)
  case (post_op_wcc s fa)
  then show ?case using kept_post_op by (simp add: nfs_post_op_update_inode_force_wcc_def)
next
  case (tick s j)
  then show ?case by (simp add: kept_def inode_ok_def)
qed (simp_all add: kept_refresh kept_post_op kept_revalidate kept_setattr kept_zap kept_set_cache_invalid nfs_post_op_update_inode_def
      nfs_zap_mapping_def kept_refl nfs_invalidate_atime_def kept_plain nfs_mark_for_revalidate_def Let_def nfs_force_lookup_revalidate_def identity_def)

interpretation attr: step_relation "attr_step H" "\<lambda>_. label_law H" kept for H
  by unfold_locales (auto intro: kept_refl kept_trans attr_step_kept)

lemma attr_steps_kept:
  assumes "(attr_step H)\<^sup>*\<^sup>* s t" and "label_law H"
  shows "kept s t"
  using assms by (rule attr.steps_rel)

end
