(* ===== verification/Nfs4_Client.thy ===== *)
theory Nfs4_Client
  imports Nfs4_Seqid Nfs_Steps
begin

text \<open>
  The state of an NFSv4 client that recovery works on, and the functions of \<^verbatim>\<open>fs/nfs/nfs4state.c\<close> that schedule recovery: the bits
  of \<^verbatim>\<open>clp->cl_state\<close>, the mounted file systems with their state owners, open states and lock states, and
  \<^verbatim>\<open>nfs4_schedule_state_manager\<close> with its callers.

  Bits of a flag word are a set of names. The tree of owners of a server, the list of states of an owner and the list of
  locks of a state are lists in the order in which the code visits them. Functions of other files (thread creation, delegations,
  sessions, reference counts of clients) are the parameter \<open>'w client_env\<close>; they work on the whole client, so that they may also
  stand for what other threads do meanwhile.
\<close>

section \<open>Data\<close>

abbreviation (input) ETIMEDOUT :: int where "ETIMEDOUT \<equiv> 110"
abbreviation (input) ENOKEY :: int where "ENOKEY \<equiv> 126"

datatype clnt_bit = NFS4CLNT_MANAGER_RUNNING | NFS4CLNT_CHECK_LEASE | NFS4CLNT_LEASE_EXPIRED | NFS4CLNT_RECLAIM_REBOOT |
  NFS4CLNT_RECLAIM_NOGRACE | NFS4CLNT_DELEGRETURN | NFS4CLNT_SESSION_RESET | NFS4CLNT_LEASE_CONFIRM |
  NFS4CLNT_SERVER_SCOPE_MISMATCH | NFS4CLNT_PURGE_STATE | NFS4CLNT_BIND_CONN_TO_SESSION | NFS4CLNT_MOVED | NFS4CLNT_LEASE_MOVED

datatype state_bit = LK_STATE_IN_USE | NFS_DELEGATED_STATE | NFS_OPEN_STATE | NFS_O_RDONLY_STATE | NFS_O_WRONLY_STATE |
  NFS_O_RDWR_STATE | NFS_STATE_RECLAIM_REBOOT | NFS_STATE_RECLAIM_NOGRACE | NFS_STATE_RECOVERY_FAILED

datatype owner_bit = NFS_OWNER_RECLAIM_REBOOT | NFS_OWNER_RECLAIM_NOGRACE

datatype lock_bit = NFS_LOCK_INITIALIZED | NFS_LOCK_LOST

datatype mig_bit = NFS_MIG_IN_TRANSITION | NFS_MIG_FAILED

text \<open>\<^verbatim>\<open>struct nfs4_lock_state\<close>, \<^verbatim>\<open>struct nfs4_state\<close> and \<^verbatim>\<open>struct nfs4_state_owner\<close>, as far as they are read here.\<close>

record lock_state =
  ls_owner :: nat
  ls_count :: nat
  ls_flags :: "lock_bit set"
  ls_seqid_flags :: u32
  ls_stateid :: nfs4_stateid

record open_state =
  st_flags :: "state_bit set"
  st_count :: nat
  n_rdonly :: u32
  n_wronly :: u32
  n_rdwr :: u32
  st_mode :: u32
  st_stateid :: nfs4_stateid
  st_open_stateid :: nfs4_stateid
  st_locks :: "lock_state list"
  st_inode :: nat

record state_owner =
  ow_flags :: "owner_bit set"
  ow_count :: nat
  ow_seqid_flags :: u32
  ow_states :: "open_state list"

record client_server =
  fh_persistent :: bool
  mig_gen :: u32
  mig_status :: "mig_bit set"
  state_owners :: "state_owner list"

text \<open>The slot tables a client drains: its own for version 4.0 (\<^verbatim>\<open>cl_slot_tbl\<close>), or those of the back and the fore channel of its session.
  \<open>dt_used\<close> says that \<^verbatim>\<open>highest_used_slotid\<close> is a slot.\<close>

record drain_table =
  dt_draining :: bool
  dt_used :: bool

datatype slot_tables = V40_Table drain_table | Session_Tables drain_table drain_table

text \<open>\<open>cl_threads\<close> counts the threads that run \<^verbatim>\<open>nfs4_run_state_manager\<close> and have not given up the manager bit; \<open>cl_world\<close> is
  the rest of the kernel.\<close>

record 'w nfs_client =
  cl_world :: 'w
  cl_state :: "clnt_bit set"
  cl_count :: nat
  cl_cons_state :: int
  cl_last_renewal :: u64
  cl_tables :: slot_tables
  cl_mig_gen :: u32
  cl_threads :: nat
  cl_superblocks :: "client_server list"

record 'w client_env =
  kthread_run :: "'w nfs_client \<Rightarrow> bool \<times> 'w nfs_client"
  nfs_put_client :: "'w nfs_client \<Rightarrow> 'w nfs_client"
  nfs_expire_all_delegations :: "'w nfs_client \<Rightarrow> 'w nfs_client"
  nfs_delegation_mark_reclaim :: "'w nfs_client \<Rightarrow> 'w nfs_client"
  nfs_delegation_reap_unclaimed :: "'w nfs_client \<Rightarrow> 'w nfs_client"
  wait_on_manager :: "'w nfs_client \<Rightarrow> int \<times> 'w nfs_client"

section \<open>Bits\<close>

definition set_bit_clnt :: "clnt_bit \<Rightarrow> 'w nfs_client \<Rightarrow> 'w nfs_client" where
  "set_bit_clnt b clp = clp\<lparr>cl_state := insert b (cl_state clp)\<rparr>"

definition clear_bit_clnt :: "clnt_bit \<Rightarrow> 'w nfs_client \<Rightarrow> 'w nfs_client" where
  "clear_bit_clnt b clp = clp\<lparr>cl_state := cl_state clp - {b}\<rparr>"

lemma bit_clnt_simps [simp]:
  "cl_state (set_bit_clnt b clp) = insert b (cl_state clp)" "cl_state (clear_bit_clnt b clp) = cl_state clp - {b}"
  "cl_threads (set_bit_clnt b clp) = cl_threads clp" "cl_threads (clear_bit_clnt b clp) = cl_threads clp"
  "cl_superblocks (set_bit_clnt b clp) = cl_superblocks clp" "cl_superblocks (clear_bit_clnt b clp) = cl_superblocks clp"
  by (simp_all add: set_bit_clnt_def clear_bit_clnt_def)

section \<open>Scheduling the manager\<close>

text \<open>\<^verbatim>\<open>nfs4_clear_state_manager_bit\<close> also wakes up whoever waits for the bit.\<close>

definition nfs4_clear_state_manager_bit :: "'w nfs_client \<Rightarrow> 'w nfs_client" where
  "nfs4_clear_state_manager_bit clp = clear_bit_clnt NFS4CLNT_MANAGER_RUNNING clp"

definition nfs4_schedule_state_manager :: "'w client_env \<Rightarrow> 'w nfs_client \<Rightarrow> 'w nfs_client" where
  "nfs4_schedule_state_manager E clp =
     (if NFS4CLNT_MANAGER_RUNNING \<in> cl_state clp then clp
      else let clp = (set_bit_clnt NFS4CLNT_MANAGER_RUNNING clp)\<lparr>cl_count := cl_count clp + 1\<rparr>
           in case kthread_run E clp of (ok, clp) \<Rightarrow>
                if ok then clp\<lparr>cl_threads := cl_threads clp + 1\<rparr>
                else nfs_put_client E (nfs4_clear_state_manager_bit clp))"

definition nfs4_schedule_lease_recovery :: "'w client_env \<Rightarrow> 'w nfs_client \<Rightarrow> 'w nfs_client" where
  "nfs4_schedule_lease_recovery E clp =
     nfs4_schedule_state_manager E
       (if NFS4CLNT_LEASE_EXPIRED \<notin> cl_state clp then set_bit_clnt NFS4CLNT_CHECK_LEASE clp else clp)"

text \<open>Operations on one file system of the client name it by its position.\<close>

definition upd_server :: "nat \<Rightarrow> (client_server \<Rightarrow> client_server) \<Rightarrow> 'w nfs_client \<Rightarrow> 'w nfs_client" where
  "upd_server i f clp = clp\<lparr>cl_superblocks := (cl_superblocks clp)[i := f (cl_superblocks clp ! i)]\<rparr>"

definition nfs4_schedule_migration_recovery :: "'w client_env \<Rightarrow> nat \<Rightarrow> 'w nfs_client \<Rightarrow> int \<times> 'w nfs_client" where
  "nfs4_schedule_migration_recovery E i clp =
     (let server = cl_superblocks clp ! i
      in if \<not> fh_persistent server then (- NFS4ERR_IO, clp)
         else if NFS_MIG_FAILED \<in> mig_status server then (- NFS4ERR_IO, clp)
         else (0, nfs4_schedule_state_manager E (set_bit_clnt NFS4CLNT_MOVED
                    (upd_server i (\<lambda>sv. sv\<lparr>mig_status := insert NFS_MIG_IN_TRANSITION (mig_status sv)\<rparr>) clp))))"

definition nfs4_schedule_lease_moved_recovery :: "'w client_env \<Rightarrow> 'w nfs_client \<Rightarrow> 'w nfs_client" where
  "nfs4_schedule_lease_moved_recovery E clp = nfs4_schedule_state_manager E (set_bit_clnt NFS4CLNT_LEASE_MOVED clp)"

definition nfs4_wait_clnt_recover :: "'w client_env \<Rightarrow> 'w nfs_client \<Rightarrow> int \<times> 'w nfs_client" where
  "nfs4_wait_clnt_recover E clp =
     (case wait_on_manager E (clp\<lparr>cl_count := cl_count clp + 1\<rparr>) of (res, clp) \<Rightarrow>
        (if res \<noteq> 0 then res else if cl_cons_state clp < 0 then cl_cons_state clp else res, nfs_put_client E clp))"

text \<open>\<^verbatim>\<open>nfs4_client_recover_expired_lease\<close>: \<open>NFS4_MAX_LOOP_ON_RECOVER\<close> is 10; \<open>ret\<close> is what the last round left.\<close>

fun recover_expired_loop :: "'w client_env \<Rightarrow> nat \<Rightarrow> int \<Rightarrow> 'w nfs_client \<Rightarrow> int \<times> 'w nfs_client" where
  "recover_expired_loop E 0 ret clp = (ret, clp)"
| "recover_expired_loop E (Suc n) ret clp =
     (case nfs4_wait_clnt_recover E clp of (ret, clp) \<Rightarrow>
        if ret \<noteq> 0 then (ret, clp)
        else if NFS4CLNT_LEASE_EXPIRED \<notin> cl_state clp \<and> NFS4CLNT_CHECK_LEASE \<notin> cl_state clp then (ret, clp)
        else recover_expired_loop E n (- EIO) (nfs4_schedule_state_manager E clp))"

definition nfs40_handle_cb_pathdown :: "'w client_env \<Rightarrow> 'w nfs_client \<Rightarrow> 'w nfs_client" where
  "nfs40_handle_cb_pathdown E clp = nfs_expire_all_delegations E (set_bit_clnt NFS4CLNT_LEASE_EXPIRED clp)"

definition nfs4_schedule_path_down_recovery :: "'w client_env \<Rightarrow> 'w nfs_client \<Rightarrow> 'w nfs_client" where
  "nfs4_schedule_path_down_recovery E clp = nfs4_schedule_state_manager E (nfs40_handle_cb_pathdown E clp)"

section \<open>Marking states\<close>

text \<open>Marking one state touches the state, its owner and the client. \<open>mark_reclaim\<close> is the type of the two functions; the
  flag of the result says that the state was marked.\<close>

record 'w marked =
  m_state :: open_state
  m_owner_flags :: "owner_bit set"
  m_clp :: "'w nfs_client"

type_synonym 'w mark_reclaim = "'w marked \<Rightarrow> bool \<times> 'w marked"

definition nfs4_state_mark_reclaim_reboot :: "'w mark_reclaim" where
  "nfs4_state_mark_reclaim_reboot m =
     (if NFS_STATE_RECLAIM_NOGRACE \<in> st_flags (m_state m)
      then (False, m\<lparr>m_state := (m_state m)\<lparr>st_flags := st_flags (m_state m) - {NFS_STATE_RECLAIM_REBOOT}\<rparr>\<rparr>)
      else (True, m\<lparr>m_state := (m_state m)\<lparr>st_flags := insert NFS_STATE_RECLAIM_REBOOT (st_flags (m_state m))\<rparr>,
                    m_owner_flags := insert NFS_OWNER_RECLAIM_REBOOT (m_owner_flags m),
                    m_clp := set_bit_clnt NFS4CLNT_RECLAIM_REBOOT (m_clp m)\<rparr>))"

definition nfs4_state_mark_reclaim_nograce :: "'w mark_reclaim" where
  "nfs4_state_mark_reclaim_nograce m =
     (True, m\<lparr>m_state := (m_state m)\<lparr>st_flags := insert NFS_STATE_RECLAIM_NOGRACE (st_flags (m_state m)) - {NFS_STATE_RECLAIM_REBOOT}\<rparr>,
              m_owner_flags := insert NFS_OWNER_RECLAIM_NOGRACE (m_owner_flags m),
              m_clp := set_bit_clnt NFS4CLNT_RECLAIM_NOGRACE (m_clp m)\<rparr>)"

definition nfs4_valid_open_stateid :: "open_state \<Rightarrow> bool" where
  "nfs4_valid_open_stateid st \<longleftrightarrow> NFS_STATE_RECOVERY_FAILED \<notin> st_flags st"

definition nfs4_schedule_stateid_recovery :: "'w client_env \<Rightarrow> 'w marked \<Rightarrow> int \<times> 'w marked" where
  "nfs4_schedule_stateid_recovery E m =
     (if \<not> nfs4_valid_open_stateid (m_state m) then (- EBADF, m)
      else let m = snd (nfs4_state_mark_reclaim_nograce m)
           in (0, m\<lparr>m_clp := nfs4_schedule_state_manager E (m_clp m)\<rparr>))"

section \<open>Only one manager\<close>

text \<open>The environment keeps its hands off the manager bit and the number of managers, and a thread that was not started leaves no trace.\<close>

definition manager_law :: "'w client_env \<Rightarrow> bool" where
  "manager_law E \<longleftrightarrow> (\<forall>clp. let same = (\<lambda>x. (NFS4CLNT_MANAGER_RUNNING \<in> cl_state x \<longleftrightarrow> NFS4CLNT_MANAGER_RUNNING \<in> cl_state clp) \<and> cl_threads x = cl_threads clp)
     in same (snd (kthread_run E clp)) \<and> same (nfs_put_client E clp))"

definition one_manager :: "'w nfs_client \<Rightarrow> bool" where
  "one_manager clp \<longleftrightarrow> cl_threads clp = of_bool (NFS4CLNT_MANAGER_RUNNING \<in> cl_state clp)"

lemma manager_lawD:
  assumes "manager_law E"
  shows "NFS4CLNT_MANAGER_RUNNING \<in> cl_state (snd (kthread_run E clp)) \<longleftrightarrow> NFS4CLNT_MANAGER_RUNNING \<in> cl_state clp"
    and "cl_threads (snd (kthread_run E clp)) = cl_threads clp"
    and "NFS4CLNT_MANAGER_RUNNING \<in> cl_state (nfs_put_client E clp) \<longleftrightarrow> NFS4CLNT_MANAGER_RUNNING \<in> cl_state clp"
    and "cl_threads (nfs_put_client E clp) = cl_threads clp"
  using assms by (auto simp: manager_law_def Let_def)

lemma one_manager_schedule:
  assumes "manager_law E" and "one_manager clp"
  shows "one_manager (nfs4_schedule_state_manager E clp)"
proof (cases "NFS4CLNT_MANAGER_RUNNING \<in> cl_state clp")
  case False
  let ?c = "(set_bit_clnt NFS4CLNT_MANAGER_RUNNING clp)\<lparr>cl_count := cl_count clp + 1\<rparr>"
  obtain ok c where k: "kthread_run E ?c = (ok, c)" by (cases "kthread_run E ?c")
  have c: "NFS4CLNT_MANAGER_RUNNING \<in> cl_state c" "cl_threads c = 0"
    using manager_lawD(1,2) [OF assms(1), of ?c] k False assms(2) by (simp_all add: one_manager_def)
  with False k show ?thesis using manager_lawD(3,4) [OF assms(1), of "nfs4_clear_state_manager_bit c"]
    by (simp add: nfs4_schedule_state_manager_def one_manager_def nfs4_clear_state_manager_bit_def Let_def)
qed (use assms in \<open>simp add: nfs4_schedule_state_manager_def\<close>)

lemma one_manager_bit: "b \<noteq> NFS4CLNT_MANAGER_RUNNING \<Longrightarrow> one_manager (set_bit_clnt b clp) = one_manager clp"
  "b \<noteq> NFS4CLNT_MANAGER_RUNNING \<Longrightarrow> one_manager (clear_bit_clnt b clp) = one_manager clp"
  by (auto simp: one_manager_def)

end
