(* ===== verification/Nfs4_Sequence.thy ===== *)
theory Nfs4_Sequence
  imports Nfs4_Client
begin

text \<open>
  Slots and sequence numbers of a session, \<^verbatim>\<open>fs/nfs/nfs4proc.c\<close>: \<^verbatim>\<open>nfs4_init_sequence\<close>, \<^verbatim>\<open>nfs40_setup_sequence\<close>,
  \<^verbatim>\<open>nfs41_setup_sequence\<close>, \<^verbatim>\<open>nfs40_sequence_done\<close>, \<^verbatim>\<open>nfs41_sequence_done\<close> and \<^verbatim>\<open>nfs41_sequence_free_slot\<close>. A slot carries one
  request at a time; its sequence number lets the server tell a new request from a retransmitted one.

  The slot table itself (\<^verbatim>\<open>fs/nfs/nfs4session.c\<close>) and the RPC scheduler are the parameter \<open>'t session_env\<close>. Slots are named by
  their position in the table.
\<close>

section \<open>Data\<close>

record slot =
  sl_seq_nr :: u32
  sl_interrupted :: bool

record 't slot_table =
  tb_slot :: "nat \<Rightarrow> slot"
  tb_draining :: bool
  tb_highest_used :: u32
  tb_target_highest :: u32
  tb_has_session :: bool
  tb_rest :: 't

abbreviation (input) NFS4_NO_SLOT :: u32 where "NFS4_NO_SLOT \<equiv> 0xFFFFFFFF"

text \<open>What the scheduler is told to do with a task.\<close>

datatype task_action = TASK_WAIT | TASK_START | TASK_SLEEP | TASK_SLEEP_PRIVILEGED | TASK_RESTART | TASK_RESTART_PREPARE | TASK_DELAY

record rpc_task =
  tk_was_sent :: bool
  tk_status :: int
  tk_timeout :: u64
  tk_action :: task_action

text \<open>The fields of \<^verbatim>\<open>struct nfs4_sequence_args\<close> and \<^verbatim>\<open>struct nfs4_sequence_res\<close> that are used here.\<close>

record seq_args =
  sqa_slot :: "nat option"
  sqa_cache_this :: bool
  sqa_privileged :: bool

record seq_res =
  sqr_slot :: "nat option"
  sqr_timestamp :: u64
  sqr_status_flags :: u32
  sqr_status :: int

record ('t, 'w) seq_state =
  sq_tbl :: "'t slot_table"
  sq_args :: seq_args
  sq_res :: seq_res
  sq_task :: rpc_task
  sq_clp :: "'w nfs_client"
  sq_jiffies :: u64

text \<open>\<open>restart_prepare_ok\<close> and \<open>restart_ok\<close> are the results of \<^verbatim>\<open>rpc_restart_call_prepare\<close> and \<^verbatim>\<open>rpc_restart_call\<close>: a task
  that is being killed cannot be restarted.\<close>

record 't session_env =
  nfs4_alloc_slot :: "'t slot_table \<Rightarrow> (int + nat) \<times> 't slot_table"
  nfs4_free_slot :: "'t slot_table \<Rightarrow> nat \<Rightarrow> 't slot_table"
  nfs41_wake_and_assign_slot :: "'t slot_table \<Rightarrow> nat \<Rightarrow> bool \<times> 't slot_table"
  nfs41_update_target_slotid :: "'t slot_table \<Rightarrow> nat \<Rightarrow> seq_res \<Rightarrow> 't slot_table"
  restart_prepare_ok :: "rpc_task \<Rightarrow> bool"
  restart_ok :: "rpc_task \<Rightarrow> bool"
  quarter_second :: u64

section \<open>Operations\<close>

definition time_before :: "u64 \<Rightarrow> u64 \<Rightarrow> bool" where
  "time_before a b \<longleftrightarrow> sint (a - b) < 0"

definition do_renew_lease :: "u64 \<Rightarrow> 'w nfs_client \<Rightarrow> 'w nfs_client" where
  "do_renew_lease timestamp clp = (if time_before (cl_last_renewal clp) timestamp then clp\<lparr>cl_last_renewal := timestamp\<rparr> else clp)"

definition nfs4_init_sequence :: "bool \<Rightarrow> seq_args \<times> seq_res \<Rightarrow> seq_args \<times> seq_res" where
  "nfs4_init_sequence cache_reply = (\<lambda>(args, res).
     (args\<lparr>sqa_slot := None, sqa_cache_this := cache_reply, sqa_privileged := False\<rparr>, res\<lparr>sqr_slot := None\<rparr>))"

definition nfs4_set_sequence_privileged :: "seq_args \<Rightarrow> seq_args" where
  "nfs4_set_sequence_privileged args = args\<lparr>sqa_privileged := True\<rparr>"

definition seq_start :: "('t, 'w) seq_state \<Rightarrow> int \<times> ('t, 'w) seq_state" where
  "seq_start s = (0, s\<lparr>sq_task := (sq_task s)\<lparr>tk_action := TASK_START\<rparr>\<rparr>)"

definition seq_sleep :: "('t, 'w) seq_state \<Rightarrow> int \<times> ('t, 'w) seq_state" where
  "seq_sleep s = (- EAGAIN, s\<lparr>sq_task := (sq_task s)\<lparr>tk_action := if sqa_privileged (sq_args s) then TASK_SLEEP_PRIVILEGED else TASK_SLEEP\<rparr>\<rparr>)"

definition take_slot :: "'t session_env \<Rightarrow> (nat \<Rightarrow> ('t, 'w) seq_state \<Rightarrow> ('t, 'w) seq_state) \<Rightarrow> ('t, 'w) seq_state \<Rightarrow> int \<times> ('t, 'w) seq_state" where
  "take_slot E prepare s =
     (if tb_draining (sq_tbl s) \<and> \<not> sqa_privileged (sq_args s) then seq_sleep s
      else case nfs4_alloc_slot E (sq_tbl s) of
             (Inl err, tbl) \<Rightarrow>
               seq_sleep (s\<lparr>sq_tbl := tbl, sq_task := if err = - ENOMEM then (sq_task s)\<lparr>tk_timeout := quarter_second E\<rparr> else sq_task s\<rparr>)
           | (Inr slot, tbl) \<Rightarrow>
               seq_start (prepare slot (s\<lparr>sq_tbl := tbl, sq_args := (sq_args s)\<lparr>sqa_slot := Some slot\<rparr>, sq_res := (sq_res s)\<lparr>sqr_slot := Some slot\<rparr>\<rparr>)))"

definition nfs40_setup_sequence :: "'t session_env \<Rightarrow> ('t, 'w) seq_state \<Rightarrow> int \<times> ('t, 'w) seq_state" where
  "nfs40_setup_sequence E s = (if sqr_slot (sq_res s) \<noteq> None then seq_start s else take_slot E (\<lambda>_ s. s) s)"

definition nfs41_setup_sequence :: "'t session_env \<Rightarrow> ('t, 'w) seq_state \<Rightarrow> int \<times> ('t, 'w) seq_state" where
  "nfs41_setup_sequence E s =
     (if sqr_slot (sq_res s) \<noteq> None then seq_start s
      else take_slot E (\<lambda>_ s. s\<lparr>sq_res := (sq_res s)\<lparr>sqr_timestamp := sq_jiffies s, sqr_status_flags := 0, sqr_status := 1\<rparr>\<rparr>)
             (s\<lparr>sq_task := (sq_task s)\<lparr>tk_timeout := 0\<rparr>\<rparr>))"

definition nfs4_setup_sequence :: "'t session_env \<Rightarrow> ('t, 'w) seq_state \<Rightarrow> int \<times> ('t, 'w) seq_state" where
  "nfs4_setup_sequence E s = (if \<not> tb_has_session (sq_tbl s) then nfs40_setup_sequence E s else nfs41_setup_sequence E s)"

definition nfs40_sequence_done :: "'t session_env \<Rightarrow> ('t, 'w) seq_state \<Rightarrow> int \<times> ('t, 'w) seq_state" where
  "nfs40_sequence_done E s =
     (case sqr_slot (sq_res s) of
        None \<Rightarrow> (1, s)
      | Some slot \<Rightarrow>
          (case nfs41_wake_and_assign_slot E (sq_tbl s) slot of (assigned, tbl) \<Rightarrow>
             (1, s\<lparr>sq_tbl := if assigned then tbl else nfs4_free_slot E tbl slot, sq_res := (sq_res s)\<lparr>sqr_slot := None\<rparr>\<rparr>)))"

text \<open>\<^verbatim>\<open>nfs41_ping_server\<close> and its caller are in \<^verbatim>\<open>fs/nfs/nfs4state.c\<close>.\<close>

definition nfs41_ping_server :: "'w client_env \<Rightarrow> 'w nfs_client \<Rightarrow> 'w nfs_client" where
  "nfs41_ping_server CE clp = nfs4_schedule_state_manager CE (set_bit_clnt NFS4CLNT_CHECK_LEASE clp)"

definition nfs41_server_notify_highest_slotid_update :: "'w client_env \<Rightarrow> 'w nfs_client \<Rightarrow> 'w nfs_client" where
  "nfs41_server_notify_highest_slotid_update CE clp = nfs41_ping_server CE clp"

definition nfs41_sequence_free_slot :: "'t session_env \<Rightarrow> 'w client_env \<Rightarrow> nat \<Rightarrow> ('t, 'w) seq_state \<Rightarrow> ('t, 'w) seq_state" where
  "nfs41_sequence_free_slot E CE slot s =
     (let above = tb_highest_used (sq_tbl s) > tb_target_highest (sq_tbl s)
      in case nfs41_wake_and_assign_slot E (sq_tbl s) slot of (assigned, tbl) \<Rightarrow>
           let tbl' = (if assigned then tbl else nfs4_free_slot E tbl slot);
               send = above \<and> \<not> assigned \<and> tb_highest_used tbl' = NFS4_NO_SLOT
           in s\<lparr>sq_tbl := tbl', sq_res := (sq_res s)\<lparr>sqr_slot := None\<rparr>,
                sq_clp := if send then nfs41_server_notify_highest_slotid_update CE (sq_clp s) else sq_clp s\<rparr>)"

definition upd_slot :: "nat \<Rightarrow> (slot \<Rightarrow> slot) \<Rightarrow> ('t, 'w) seq_state \<Rightarrow> ('t, 'w) seq_state" where
  "upd_slot i f s = s\<lparr>sq_tbl := (sq_tbl s)\<lparr>tb_slot := (tb_slot (sq_tbl s))(i := f (tb_slot (sq_tbl s) i))\<rparr>\<rparr>"

text \<open>The labels of \<^verbatim>\<open>nfs41_sequence_done\<close>: \<open>out\<close> frees the slot and returns \<open>ret\<close>; \<open>retry_nowait\<close> restarts the task from its preparation and
  then frees the slot; \<open>out_retry\<close> restarts it with the same slot.\<close>

definition seq_out :: "'t session_env \<Rightarrow> 'w client_env \<Rightarrow> nat \<Rightarrow> int \<Rightarrow> ('t, 'w) seq_state \<Rightarrow> int \<times> ('t, 'w) seq_state" where
  "seq_out E CE slot ret s = (ret, nfs41_sequence_free_slot E CE slot s)"

definition retry_nowait :: "'t session_env \<Rightarrow> 'w client_env \<Rightarrow> nat \<Rightarrow> ('t, 'w) seq_state \<Rightarrow> int \<times> ('t, 'w) seq_state" where
  "retry_nowait E CE slot s =
     (if restart_prepare_ok E (sq_task s)
      then seq_out E CE slot 0 (s\<lparr>sq_task := (sq_task s)\<lparr>tk_action := TASK_RESTART_PREPARE, tk_status := 0\<rparr>\<rparr>)
      else seq_out E CE slot 1 s)"

definition out_retry :: "'t session_env \<Rightarrow> 'w client_env \<Rightarrow> nat \<Rightarrow> ('t, 'w) seq_state \<Rightarrow> int \<times> ('t, 'w) seq_state" where
  "out_retry E CE slot s =
     (if \<not> restart_ok E (sq_task s) then seq_out E CE slot 1 s
      else (0, s\<lparr>sq_task := (sq_task s)\<lparr>tk_action := TASK_DELAY\<rparr>\<rparr>))"

abbreviation (input) next_seq :: "slot \<Rightarrow> slot" where
  "next_seq sl \<equiv> sl\<lparr>sl_seq_nr := sl_seq_nr sl + 1\<rparr>"

definition nfs41_sequence_done :: "'t session_env \<Rightarrow> 'w client_env \<Rightarrow> ('t, 'w) seq_state \<Rightarrow> int \<times> ('t, 'w) seq_state" where
  "nfs41_sequence_done E CE s =
     (case sqr_slot (sq_res s) of
        None \<Rightarrow> (1, s)
      | Some slot \<Rightarrow>
          if \<not> tk_was_sent (sq_task s) then seq_out E CE slot 1 s
          else
            let interrupted = sl_interrupted (tb_slot (sq_tbl s) slot);
                s = upd_slot slot (\<lambda>sl. sl\<lparr>sl_interrupted := False\<rparr>) s;
                status = sqr_status (sq_res s)
            in if status = 0 then
                 let s = upd_slot slot next_seq s;
                     clp = do_renew_lease (sqr_timestamp (sq_res s)) (sq_clp s);
                     clp = (if sqr_status_flags (sq_res s) \<noteq> 0 then nfs4_schedule_lease_recovery CE clp else clp)
                 in seq_out E CE slot 1 (s\<lparr>sq_clp := clp, sq_tbl := nfs41_update_target_slotid E (sq_tbl s) slot (sq_res s)\<rparr>)
               else if status = 1 then seq_out E CE slot 1 (upd_slot slot (\<lambda>sl. sl\<lparr>sl_interrupted := True\<rparr>) s)
               else if status = - NFS4ERR_DELAY then out_retry E CE slot s
               else if status = - NFS4ERR_BADSLOT then retry_nowait E CE slot s
               else if status = - NFS4ERR_SEQ_MISORDERED then
                 if interrupted then retry_nowait E CE slot (upd_slot slot next_seq s)
                 else if sl_seq_nr (tb_slot (sq_tbl s) slot) \<noteq> 1 then retry_nowait E CE slot (upd_slot slot (\<lambda>sl. sl\<lparr>sl_seq_nr := 1\<rparr>) s)
                 else seq_out E CE slot 1 s
               else if status = - NFS4ERR_SEQ_FALSE_RETRY then retry_nowait E CE slot (upd_slot slot next_seq s)
               else seq_out E CE slot 1 (upd_slot slot next_seq s))"

definition nfs4_sequence_done :: "'t session_env \<Rightarrow> 'w client_env \<Rightarrow> ('t, 'w) seq_state \<Rightarrow> int \<times> ('t, 'w) seq_state" where
  "nfs4_sequence_done E CE s =
     (if sqr_slot (sq_res s) = None then (1, s)
      else if \<not> tb_has_session (sq_tbl s) then nfs40_sequence_done E s else nfs41_sequence_done E CE s)"

end
