(* ===== verification/Nfs4_Slot_Protocol.thy ===== *)
theory Nfs4_Slot_Protocol
  imports Nfs4_Sequence
begin

text \<open>
  One slot of a session between client and server. The client side is \<^verbatim>\<open>nfs41_sequence_done\<close>; the server follows the rules for slots
  of the protocol: a sequence number one above the last is a new request, the same number is a retransmission, which
  is answered from the reply cache if it is the same request and refused as a false retry if it is another, and every other
  number is refused. Requests and replies may be lost.
\<close>

section \<open>The client's slot\<close>

text \<open>What the slot table may not change behind the client's back.\<close>

definition slots_kept :: "'t session_env \<Rightarrow> bool" where
  "slots_kept E \<longleftrightarrow> (\<forall>tbl i res. tb_slot (nfs4_free_slot E tbl i) = tb_slot tbl \<and> tb_slot (snd (nfs41_wake_and_assign_slot E tbl i)) = tb_slot tbl \<and>
     tb_slot (nfs41_update_target_slotid E tbl i res) = tb_slot tbl)"

text \<open>The slot after the answer \<open>status\<close>.\<close>

definition slot_after :: "int \<Rightarrow> slot \<Rightarrow> slot" where
  "slot_after status sl =
     (if status = 1 then sl\<lparr>sl_interrupted := True\<rparr>
      else if status = - NFS4ERR_DELAY \<or> status = - NFS4ERR_BADSLOT then sl\<lparr>sl_interrupted := False\<rparr>
      else if status = - NFS4ERR_SEQ_MISORDERED \<and> \<not> sl_interrupted sl then sl\<lparr>sl_seq_nr := 1\<rparr>
      else \<lparr>sl_seq_nr = sl_seq_nr sl + 1, sl_interrupted = False\<rparr>)"

lemma free_slot_slots:
  assumes "slots_kept E"
  shows "tb_slot (sq_tbl (nfs41_sequence_free_slot E CE i s)) = tb_slot (sq_tbl s)"
  using assms by (simp add: nfs41_sequence_free_slot_def slots_kept_def Let_def case_prod_beta)

lemma seq_out_slots:
  assumes "slots_kept E"
  shows "tb_slot (sq_tbl (snd (seq_out E CE i ret s))) = tb_slot (sq_tbl s)"
    "tb_slot (sq_tbl (snd (retry_nowait E CE i s))) = tb_slot (sq_tbl s)"
    "tb_slot (sq_tbl (snd (out_retry E CE i s))) = tb_slot (sq_tbl s)"
  by (simp_all add: seq_out_def retry_nowait_def out_retry_def free_slot_slots [OF assms])

lemma upd_slot_simps [simp]:
  "tb_slot (sq_tbl (upd_slot i f s)) = (tb_slot (sq_tbl s))(i := f (tb_slot (sq_tbl s) i))" "sq_res (upd_slot i f s) = sq_res s"
  "sq_task (upd_slot i f s) = sq_task s" "sq_clp (upd_slot i f s) = sq_clp s"
  by (simp_all add: upd_slot_def)

lemma nfs41_sequence_done_slots:
  assumes "slots_kept E" and "sqr_slot (sq_res s) = Some i" and "tk_was_sent (sq_task s)"
  shows "tb_slot (sq_tbl (snd (nfs41_sequence_done E CE s))) =
    (tb_slot (sq_tbl s))(i := slot_after (sqr_status (sq_res s)) (tb_slot (sq_tbl s) i))"
proof -
  have up: "tb_slot (nfs41_update_target_slotid E tbl j res) = tb_slot tbl" for tbl j res using assms(1) by (simp add: slots_kept_def)
  show ?thesis using assms(2,3)
    by (cases "tb_slot (sq_tbl s) i") (auto simp: nfs41_sequence_done_def Let_def seq_out_slots [OF assms(1)] up slot_after_def)
qed

lemma nfs41_sequence_done_unsent:
  assumes "slots_kept E" and "sqr_slot (sq_res s) = Some i" and "\<not> tk_was_sent (sq_task s)"
  shows "tb_slot (sq_tbl (snd (nfs41_sequence_done E CE s))) = tb_slot (sq_tbl s)"
  using assms by (simp add: nfs41_sequence_done_def seq_out_slots)

text \<open>A request that the server has seen or may have seen never leaves its slot behind.\<close>

lemma nfs41_sequence_done_frees:
  assumes "sqr_slot (sq_res s) = Some i"
  shows "sqr_slot (sq_res (snd (nfs41_sequence_done E CE s))) = None \<or>
    sqr_status (sq_res s) = - NFS4ERR_DELAY \<and> fst (nfs41_sequence_done E CE s) = 0"
  using assms
  by (auto simp: nfs41_sequence_done_def Let_def seq_out_def retry_nowait_def out_retry_def nfs41_sequence_free_slot_def case_prod_beta)

section \<open>Client and server\<close>

text \<open>\<open>ps_executed\<close> are the requests the server has carried out, \<open>ps_acked\<close> those the client has seen succeed.\<close>

record slot_sys =
  ps_slot :: slot
  ps_srv_seq :: u32
  ps_srv_req :: "nat option"
  ps_executed :: "nat list"
  ps_acked :: "nat list"

definition server_answer :: "nat \<Rightarrow> slot_sys \<Rightarrow> int \<times> slot_sys" where
  "server_answer req p =
     (let seq = sl_seq_nr (ps_slot p)
      in if seq = ps_srv_seq p + 1
         then (0, p\<lparr>ps_srv_seq := seq, ps_srv_req := Some req, ps_executed := req # ps_executed p\<rparr>)
         else if seq = ps_srv_seq p then (if ps_srv_req p = Some req then 0 else - NFS4ERR_SEQ_FALSE_RETRY, p)
         else (- NFS4ERR_SEQ_MISORDERED, p))"

text \<open>One use of slot \<open>i\<close> for the request \<open>req\<close>, in a session whose other parts are arbitrary. \<open>status\<close> is what the client's decoder
  leaves in \<^verbatim>\<open>sr_status\<close>: the server's answer, or 1 when there is none.\<close>

inductive client_done :: "'t session_env \<Rightarrow> 'w client_env \<Rightarrow> nat \<Rightarrow> bool \<Rightarrow> int \<Rightarrow> slot \<Rightarrow> slot \<Rightarrow> bool" for E CE i where
  "sqr_slot (sq_res s) = Some i \<Longrightarrow> tk_was_sent (sq_task s) = sent \<Longrightarrow> sqr_status (sq_res s) = status \<Longrightarrow>
   tb_slot (sq_tbl s) i = sl \<Longrightarrow> tb_slot (sq_tbl (snd (nfs41_sequence_done E CE s))) i = sl' \<Longrightarrow> client_done E CE i sent status sl sl'"

definition may_send :: "nat \<Rightarrow> slot_sys \<Rightarrow> bool" where
  "may_send req p \<longleftrightarrow> req \<notin> set (ps_executed p) \<or> ps_srv_req p = Some req \<and> sl_seq_nr (ps_slot p) = ps_srv_seq p"

inductive slot_step :: "'t session_env \<Rightarrow> 'w client_env \<Rightarrow> nat \<Rightarrow> slot_sys \<Rightarrow> slot_sys \<Rightarrow> bool" for E CE i where
  exchange: "may_send req p \<Longrightarrow> server_answer req p = (status, p') \<Longrightarrow> client_done E CE i True status (ps_slot p) sl \<Longrightarrow>
    slot_step E CE i p (p'\<lparr>ps_slot := sl, ps_acked := if status = 0 then req # ps_acked p else ps_acked p\<rparr>)"
| lost_reply: "may_send req p \<Longrightarrow> server_answer req p = (status, p') \<Longrightarrow> client_done E CE i True 1 (ps_slot p) sl \<Longrightarrow>
    slot_step E CE i p (p'\<lparr>ps_slot := sl\<rparr>)"
| lost_request: "client_done E CE i True 1 (ps_slot p) sl \<Longrightarrow> slot_step E CE i p (p\<lparr>ps_slot := sl\<rparr>)"
| not_sent: "client_done E CE i False status (ps_slot p) sl \<Longrightarrow> slot_step E CE i p (p\<lparr>ps_slot := sl\<rparr>)"

definition slot_inv :: "slot_sys \<Rightarrow> bool" where
  "slot_inv p \<longleftrightarrow>
     (sl_seq_nr (ps_slot p) = ps_srv_seq p + 1 \<or> sl_interrupted (ps_slot p) \<and> sl_seq_nr (ps_slot p) = ps_srv_seq p) \<and>
     distinct (ps_executed p) \<and> set (ps_acked p) \<subseteq> set (ps_executed p) \<and> set_option (ps_srv_req p) \<subseteq> set (ps_executed p)"

lemma client_done_sent: "slots_kept E \<Longrightarrow> client_done E CE i True status sl sl' \<Longrightarrow> sl' = slot_after status sl"
  by (auto elim!: client_done.cases simp: nfs41_sequence_done_slots)

lemma client_done_unsent: "slots_kept E \<Longrightarrow> client_done E CE i False status sl sl' \<Longrightarrow> sl' = sl"
  by (auto elim!: client_done.cases simp: nfs41_sequence_done_unsent)

text \<open>The three answers a server gives in a reachable state.\<close>

lemma server_answer_cases:
  assumes "slot_inv p" and "may_send req p" and "server_answer req p = (status, p')"
  obtains (new) "status = 0" "sl_seq_nr (ps_slot p) = ps_srv_seq p + 1" "req \<notin> set (ps_executed p)"
      "p' = p\<lparr>ps_srv_seq := ps_srv_seq p + 1, ps_srv_req := Some req, ps_executed := req # ps_executed p\<rparr>"
  | (replay) "status = 0" "p' = p" "ps_srv_req p = Some req" "sl_seq_nr (ps_slot p) = ps_srv_seq p"
  | (false_retry) "status = - NFS4ERR_SEQ_FALSE_RETRY" "p' = p" "sl_seq_nr (ps_slot p) = ps_srv_seq p"
proof (cases "sl_seq_nr (ps_slot p) = ps_srv_seq p + 1")
  case True
  have "req \<notin> set (ps_executed p)" using assms(2) True by (simp add: may_send_def)
  with True assms(3) show ?thesis by (intro new) (auto simp: server_answer_def Let_def)
next
  case False
  then have "sl_seq_nr (ps_slot p) = ps_srv_seq p" using assms(1) by (auto simp: slot_inv_def)
  with False assms(3) replay false_retry show ?thesis by (auto simp: server_answer_def Let_def split: if_splits)
qed

lemma slot_step_inv:
  assumes "slots_kept E" and "slot_step E CE i p q" and "slot_inv p"
  shows "slot_inv q"
  using assms(2,3)
proof (induction rule: slot_step.induct)
  case (exchange req p status p' sl)
  note sl = client_done_sent [OF assms(1) exchange.hyps(3)]
  from exchange.prems exchange.hyps(1,2) show ?case
    by (cases rule: server_answer_cases) (use exchange.prems sl in \<open>auto simp: slot_inv_def slot_after_def\<close>)
next
  case (lost_reply req p status p' sl)
  note sl = client_done_sent [OF assms(1) lost_reply.hyps(3)]
  from lost_reply.prems lost_reply.hyps(1,2) show ?case
    by (cases rule: server_answer_cases) (use lost_reply.prems sl in \<open>auto simp: slot_inv_def slot_after_def\<close>)
next
  case (lost_request p sl)
  then show ?case by (auto dest!: client_done_sent [OF assms(1)] simp: slot_inv_def slot_after_def)
next
  case (not_sent status p sl)
  then show ?case by (auto dest!: client_done_unsent [OF assms(1)] simp: slot_inv_def)
qed

interpretation slots: step_invariant "slot_step E CE i" "\<lambda>p. slots_kept E \<and> slot_inv p" for E CE i
  by unfold_locales (auto intro: slot_step_inv)

text \<open>Progress: two delivered exchanges of a request are enough, whatever was lost before.\<close>

lemma slot_progress:
  assumes "slots_kept E" and "slot_inv p" and "req \<notin> set (ps_executed p)"
    and "server_answer req p = (s1, p1)" "client_done E CE i True s1 (ps_slot p) l1" "q = p1\<lparr>ps_slot := l1\<rparr>"
    and "server_answer req q = (s2, p2)"
  shows "s1 = 0 \<or> s2 = 0 \<and> req \<notin> set (ps_executed q)"
proof -
  have send: "may_send req p" using assms(3) by (simp add: may_send_def)
  note l1 = client_done_sent [OF assms(1,5)]
  from assms(2) send assms(4) show ?thesis
  proof (cases rule: server_answer_cases)
    case false_retry
    have "sl_seq_nr l1 = ps_srv_seq p + 1" using false_retry l1 by (simp add: slot_after_def)
    with false_retry assms(3,6,7) show ?thesis by (auto simp: server_answer_def Let_def)
  qed auto
qed

end
