(* ===== verification/Nfs4_Seqid_Queue.thy ===== *)
theory Nfs4_Seqid_Queue
  imports Nfs4_Seqid Nfs_Steps
begin

text \<open>
  The queue of sequence ids of an open or lock owner: \<^verbatim>\<open>nfs_wait_on_sequence\<close> and \<^verbatim>\<open>nfs_release_seqid\<close> of
  \<^verbatim>\<open>fs/nfs/nfs4state.c\<close>. Requests of one owner are sent one at a time, in the order in which they asked, so that the
  server sees consecutive numbers. Each function is one atomic step: it holds the spin lock of the sequence.

  Seqids and RPC tasks are named by numbers. \<open>q_sleeping\<close> are the tasks on the wait queue; \<^verbatim>\<open>rpc_sleep_on\<close> puts a task there and
  \<^verbatim>\<open>rpc_wake_up_queued_task\<close> takes it off if it is there.
\<close>

record seqid_queue =
  q_sequence :: nfs_seqid_counter
  q_list :: "nat list"
  q_task :: "nat \<Rightarrow> nat option"
  q_sleeping :: "nat set"

definition nfs_alloc_seqid :: "nat \<Rightarrow> seqid_queue \<Rightarrow> seqid_queue" where
  "nfs_alloc_seqid i q = q\<lparr>q_task := (q_task q)(i := None)\<rparr>"

definition nfs_wait_on_sequence :: "nat \<Rightarrow> nat \<Rightarrow> seqid_queue \<Rightarrow> int \<times> seqid_queue" where
  "nfs_wait_on_sequence i task q =
     (let q = q\<lparr>q_task := (q_task q)(i \<mapsto> task), q_list := if i \<in> set (q_list q) then q_list q else q_list q @ [i]\<rparr>
      in if hd (q_list q) = i then (0, q)
         else (- EAGAIN, q\<lparr>q_sleeping := insert task (q_sleeping q)\<rparr>))"

definition rpc_wake_up_queued_task :: "nat option \<Rightarrow> seqid_queue \<Rightarrow> seqid_queue" where
  "rpc_wake_up_queued_task t q = (case t of None \<Rightarrow> q | Some t \<Rightarrow> q\<lparr>q_sleeping := q_sleeping q - {t}\<rparr>)"

definition nfs_release_seqid :: "nat \<Rightarrow> seqid_queue \<Rightarrow> seqid_queue" where
  "nfs_release_seqid i q =
     (if i \<notin> set (q_list q) then q
      else let q = q\<lparr>q_list := remove1 i (q_list q)\<rparr>
           in if q_list q \<noteq> [] then rpc_wake_up_queued_task (q_task q (hd (q_list q))) q else q)"

section \<open>The protocol\<close>

text \<open>Tasks with a queue and the server's number for the owner. A task that got 0 from \<^verbatim>\<open>nfs_wait_on_sequence\<close> is \<open>running\<close>: it
  sends its request with the counter as sequence id. The server counts an operation unless it answers with one of
  the errors that do not change the sequence id. Whoever was told to wait calls again when it is woken.\<close>

record owner_state =
  os_queue :: seqid_queue
  os_running :: "nat set"
  os_server :: u32
  os_sent :: "u32 list"

abbreviation (input) counter :: "owner_state \<Rightarrow> u32" where
  "counter s \<equiv> sq_counter (q_sequence (os_queue s))"

inductive owner_step :: "owner_state \<Rightarrow> owner_state \<Rightarrow> bool" where
  alloc: "i \<notin> set (q_list (os_queue s)) \<Longrightarrow> owner_step s (s\<lparr>os_queue := nfs_alloc_seqid i (os_queue s)\<rparr>)"
| wait: "task \<notin> q_sleeping (os_queue s) \<Longrightarrow> \<forall>j \<in> set (q_list (os_queue s)). j \<noteq> i \<longrightarrow> q_task (os_queue s) j \<noteq> Some task \<Longrightarrow>
    i \<in> set (q_list (os_queue s)) \<longrightarrow> q_task (os_queue s) i = Some task \<Longrightarrow>
    nfs_wait_on_sequence i task (os_queue s) = (status, q) \<Longrightarrow>
    owner_step s (s\<lparr>os_queue := q, os_running := if status = 0 then insert i (os_running s) else os_running s\<rparr>)"
| reply: "i \<in> os_running s \<Longrightarrow>
    owner_step s (s\<lparr>os_sent := os_sent s @ [counter s],
      os_server := if seqid_mutating_err e then os_server s + 1 else os_server s,
      os_queue := (os_queue s)\<lparr>q_sequence := nfs_increment_seqid (- uint e) (q_sequence (os_queue s))\<rparr>\<rparr>)"
| release: "\<forall>t \<in> q_sleeping (os_queue s). q_task (os_queue s) i \<noteq> Some t \<Longrightarrow>
    owner_step s (s\<lparr>os_queue := nfs_release_seqid i (os_queue s), os_running := os_running s - {i}\<rparr>)"
| wake: "owner_step s (s\<lparr>os_queue := (os_queue s)\<lparr>q_sleeping := q_sleeping (os_queue s) - {t}\<rparr>\<rparr>)"

text \<open>What holds in every reachable state: only the first of the queue runs, it is not asleep, whoever sleeps is
  behind it, and the counters agree.\<close>

definition queue_ok :: "seqid_queue \<Rightarrow> bool" where
  "queue_ok q \<longleftrightarrow> distinct (q_list q) \<and> (\<forall>i \<in> set (q_list q). q_task q i \<noteq> None) \<and> inj_on (q_task q) (set (q_list q)) \<and>
     q_sleeping q \<subseteq> {t. \<exists>i \<in> set (tl (q_list q)). q_task q i = Some t}"

definition owner_inv :: "owner_state \<Rightarrow> bool" where
  "owner_inv s \<longleftrightarrow> queue_ok (os_queue s) \<and> (\<forall>i \<in> os_running s. q_list (os_queue s) \<noteq> [] \<and> hd (q_list (os_queue s)) = i) \<and>
     os_server s = counter s"

lemma set_tl_subset: "set (tl xs) \<subseteq> set xs"
  by (cases xs) auto

lemma queue_ok_head_awake:
  assumes "queue_ok q" and "q_list q = i # is" and "q_task q i = Some t"
  shows "t \<notin> q_sleeping q"
proof
  assume "t \<in> q_sleeping q"
  with assms(1,2) obtain j where j: "j \<in> set is" "q_task q j = Some t" unfolding queue_ok_def by auto
  have "inj_on (q_task q) (set (q_list q))" using assms(1) by (simp add: queue_ok_def)
  then have "i = j" using j assms(2,3) by (intro inj_onD [where f = "q_task q" and A = "set (q_list q)"]) simp_all
  with j(1) assms(1,2) show False by (simp add: queue_ok_def)
qed

text \<open>The tasks of seqids that are not queued do not matter.\<close>

lemma queue_ok_cong:
  assumes "q_list q' = q_list q" and "q_sleeping q' = q_sleeping q" and "\<And>j. j \<in> set (q_list q) \<Longrightarrow> q_task q' j = q_task q j"
  shows "queue_ok q' = queue_ok q"
proof -
  have "inj_on (q_task q') (set (q_list q)) = inj_on (q_task q) (set (q_list q))" using assms(3) by (rule inj_on_cong)
  moreover have "(\<exists>i \<in> set (tl (q_list q)). q_task q' i = Some t) = (\<exists>i \<in> set (tl (q_list q)). q_task q i = Some t)" for t
    using assms(3) set_tl_subset by (metis subsetD)
  ultimately show ?thesis using assms by (simp add: queue_ok_def)
qed

lemma wait_ok:
  assumes "queue_ok q" and "task \<notin> q_sleeping q" and "\<forall>j \<in> set (q_list q). j \<noteq> i \<longrightarrow> q_task q j \<noteq> Some task"
    and "i \<in> set (q_list q) \<longrightarrow> q_task q i = Some task" and "nfs_wait_on_sequence i task q = (status, q')"
  shows "queue_ok q'" and "status = 0 \<longleftrightarrow> hd (q_list q') = i" and "\<exists>xs. q_list q' = q_list q @ xs" and "q_list q' \<noteq> []"
    and "q_sequence q' = q_sequence q"
proof -
  let ?l = "if i \<in> set (q_list q) then q_list q else q_list q @ [i]"
  have l: "q_list q' = ?l" and t: "q_task q' = (q_task q)(i \<mapsto> task)" and sl: "q_sleeping q' = (if hd ?l = i then q_sleeping q else insert task (q_sleeping q))"
    and st: "status = 0 \<longleftrightarrow> hd ?l = i" and "q_sequence q' = q_sequence q"
    using assms(5) by (auto simp: nfs_wait_on_sequence_def Let_def split: if_splits)
  show "status = 0 \<longleftrightarrow> hd (q_list q') = i" "\<exists>xs. q_list q' = q_list q @ xs" "q_list q' \<noteq> []" "q_sequence q' = q_sequence q"
    using st l \<open>q_sequence q' = q_sequence q\<close> by auto
  have inj: "inj_on (q_task q') (set ?l)"
    using assms(1,3) unfolding queue_ok_def t by (auto simp: inj_on_def)
  have others: "\<exists>j \<in> set (tl ?l). q_task q' j = Some x" if "x \<in> q_sleeping q" for x
  proof -
    obtain j where "j \<in> set (tl (q_list q))" "q_task q j = Some x" using assms(1) \<open>x \<in> q_sleeping q\<close> by (auto simp: queue_ok_def)
    moreover have "j \<in> set (q_list q)" using \<open>j \<in> set (tl (q_list q))\<close> by (cases "q_list q") auto
    moreover have "j \<noteq> i" using calculation assms(2,4) \<open>x \<in> q_sleeping q\<close> by auto
    moreover have "j \<in> set (tl ?l)" using calculation by (cases "q_list q") auto
    ultimately show ?thesis unfolding t by (intro bexI [of _ j]) simp_all
  qed
  have own: "\<exists>j \<in> set (tl ?l). q_task q' j = Some task" if "hd ?l \<noteq> i"
  proof -
    have "i \<in> set ?l" by simp
    then have "i \<in> set (tl ?l)" using that by (cases ?l) auto
    then show ?thesis unfolding t by auto
  qed
  have "q_sleeping q' \<subseteq> {t. \<exists>i \<in> set (tl ?l). q_task q' i = Some t}" unfolding sl using others own by auto
  moreover have "distinct ?l" "\<forall>j \<in> set ?l. q_task q' j \<noteq> None" using assms(1) by (auto simp: queue_ok_def t)
  ultimately show "queue_ok q'" using inj unfolding queue_ok_def l by blast
qed

lemma release_ok:
  assumes "queue_ok q" and "\<forall>t \<in> q_sleeping q. q_task q i \<noteq> Some t"
  shows "queue_ok (nfs_release_seqid i q)" and "q_list (nfs_release_seqid i q) = remove1 i (q_list q)"
    and "q_sequence (nfs_release_seqid i q) = q_sequence q"
proof -
  let ?l = "remove1 i (q_list q)" and ?q = "nfs_release_seqid i q"
  show l: "q_list ?q = ?l" and "q_sequence ?q = q_sequence q"
    by (auto simp: nfs_release_seqid_def Let_def rpc_wake_up_queued_task_def remove1_idem split: option.split)
  show "queue_ok ?q"
  proof (cases "i \<in> set (q_list q)")
    case False
    then show ?thesis using assms(1) by (simp add: nfs_release_seqid_def)
  next
    case True
    have t: "q_task ?q = q_task q" by (auto simp: nfs_release_seqid_def Let_def rpc_wake_up_queued_task_def split: option.split)
    have sub: "set ?l \<subseteq> set (q_list q)" by (rule set_remove1_subset)
    have "x \<in> {t. \<exists>j \<in> set (tl ?l). q_task q j = Some t}" if "x \<in> q_sleeping ?q" for x
    proof -
      have x: "x \<in> q_sleeping q" and woken: "?l \<noteq> [] \<Longrightarrow> q_task q (hd ?l) \<noteq> Some x"
        using that True by (auto simp: nfs_release_seqid_def Let_def rpc_wake_up_queued_task_def split: option.splits if_splits)
      then obtain j where j: "j \<in> set (tl (q_list q))" "q_task q j = Some x" using assms(1) by (auto simp: queue_ok_def)
      then have "j \<in> set (q_list q)" "j \<noteq> i" using assms(2) x by (cases "q_list q", auto)
      then have "j \<in> set ?l" by simp
      then have "j \<in> set (tl ?l)" using woken j(2) by (cases ?l) auto
      with j(2) show ?thesis by blast
    qed
    moreover have "inj_on (q_task q) (set ?l)" using assms(1) sub by (auto simp: queue_ok_def intro: inj_on_subset)
    ultimately show ?thesis using assms(1) sub unfolding queue_ok_def l t by (auto simp: subset_iff)
  qed
qed

lemma owner_step_inv: "owner_step s t \<Longrightarrow> owner_inv s \<Longrightarrow> owner_inv t"
proof (induction rule: owner_step.induct)
  case (alloc i s)
  then have "queue_ok (nfs_alloc_seqid i (os_queue s))"
    by (subst queue_ok_cong [of _ "os_queue s"]) (auto simp: owner_inv_def nfs_alloc_seqid_def)
  with alloc show ?case by (simp add: owner_inv_def nfs_alloc_seqid_def)
next
  case (wait task s i status q)
  then have ok: "queue_ok (os_queue s)" by (simp add: owner_inv_def)
  note w = wait_ok [OF ok wait.hyps(1-4)]
  obtain xs where "q_list q = q_list (os_queue s) @ xs" using w(3) by blast
  then have "hd (q_list q) = hd (q_list (os_queue s))" if "q_list (os_queue s) \<noteq> []" using that by simp
  with w wait.prems show ?case by (auto simp: owner_inv_def)
next
  case (reply i s e)
  then show ?case using nfs_increment_seqid_mutating [of e "q_sequence (os_queue s)"]
    by (simp add: owner_inv_def queue_ok_def)
next
  case (release s i)
  then have ok: "queue_ok (os_queue s)" by (simp add: owner_inv_def)
  note r = release_ok [OF ok release.hyps]
  have "remove1 i (q_list (os_queue s)) \<noteq> [] \<and> hd (remove1 i (q_list (os_queue s))) = j" if "j \<in> os_running s" "j \<noteq> i" for j
    using release.prems that by (cases "q_list (os_queue s)") (auto simp: owner_inv_def)
  with r release.prems show ?case by (auto simp: owner_inv_def)
next
  case (wake s t)
  then show ?case by (auto simp: owner_inv_def queue_ok_def)
qed

interpretation owner: step_invariant owner_step owner_inv
  by unfold_locales (rule owner_step_inv)

end
