(* ===== verification/Nfs4_Recovery.thy ===== *)
theory Nfs4_Recovery
  imports Nfs4_Client
begin

text \<open>
  Recovery of client state, \<^verbatim>\<open>fs/nfs/nfs4state.c\<close>: reclaiming open states and locks after the server has lost them, the lease, the session,
  and the loop of the state manager thread. The procedures that talk to the server (\<^verbatim>\<open>struct nfs4_state_recovery_ops\<close>,
  \<^verbatim>\<open>struct nfs4_state_maintenance_ops\<close>, session creation and so on) are the parameters \<open>'w recovery_ops\<close> and \<open>'w manager_env\<close>.

  \<^verbatim>\<open>nfs4_reclaim_open_state\<close>, \<^verbatim>\<open>nfs4_do_reclaim\<close> and \<^verbatim>\<open>nfs4_state_manager\<close> start over after each piece of work and need not end; their models
  take a bound on the number of rounds and return \<open>None\<close> when it is used up. The reference counts that keep a state or an owner while it is
  being worked on are taken and given back in pairs and left out.
\<close>

section \<open>Procedures\<close>

text \<open>A file lock on the inode of a state: whether it is a POSIX or a flock lock, and whether it was taken through this state.\<close>

record flock =
  fl_posix_or_flock :: bool
  fl_of_state :: bool
  fl_number :: nat

type_synonym 'w bits = "'w \<times> clnt_bit set"

text \<open>\<open>recover_open\<close> and \<open>recover_lock\<close> may change the state, the kernel and the bits of the client.\<close>

record 'w recovery_ops =
  owner_flag_bit :: owner_bit
  state_flag_bit :: state_bit
  i_flock :: "'w \<Rightarrow> open_state \<Rightarrow> flock list"
  recover_open :: "open_state \<Rightarrow> 'w bits \<Rightarrow> int \<times> open_state \<times> 'w bits"
  recover_lock :: "open_state \<Rightarrow> nat \<Rightarrow> 'w bits \<Rightarrow> int \<times> open_state \<times> 'w bits"

section \<open>Open states of one owner\<close>

text \<open>The loop over the locks: errors of the server's side end it, others count as a lost lock.\<close>

definition lock_error_ends :: "int \<Rightarrow> bool" where
  "lock_error_ends status \<longleftrightarrow> status \<in> {- ESTALE, - NFS4ERR_ADMIN_REVOKED, - NFS4ERR_STALE_STATEID, - NFS4ERR_BAD_STATEID, - NFS4ERR_EXPIRED,
     - NFS4ERR_NO_GRACE, - NFS4ERR_STALE_CLIENTID, - NFS4ERR_BADSESSION, - NFS4ERR_BADSLOT, - NFS4ERR_BAD_HIGH_SLOT,
     - NFS4ERR_CONN_NOT_BOUND_TO_SESSION}"

fun reclaim_locks_loop :: "'w recovery_ops \<Rightarrow> flock list \<Rightarrow> int \<Rightarrow> open_state \<Rightarrow> 'w bits \<Rightarrow> int \<times> open_state \<times> 'w bits" where
  "reclaim_locks_loop R [] status st w = (status, st, w)"
| "reclaim_locks_loop R (fl # fls) status st w =
     (if \<not> fl_posix_or_flock fl \<or> \<not> fl_of_state fl then reclaim_locks_loop R fls status st w
      else case recover_lock R st (fl_number fl) w of (status, st, w) \<Rightarrow>
        if status \<noteq> 0 \<and> lock_error_ends status then (status, st, w)
        else reclaim_locks_loop R fls 0 st w)"

definition nfs4_reclaim_locks :: "'w recovery_ops \<Rightarrow> open_state \<Rightarrow> 'w bits \<Rightarrow> int \<times> open_state \<times> 'w bits" where
  "nfs4_reclaim_locks R st w = reclaim_locks_loop R (i_flock R (fst w) st) 0 st w"

definition nfs4_state_mark_recovery_failed :: "open_state \<Rightarrow> open_state" where
  "nfs4_state_mark_recovery_failed st = st\<lparr>st_flags := insert NFS_STATE_RECOVERY_FAILED (st_flags st)\<rparr>"

text \<open>What is done about a state that could not be recovered.\<close>

datatype reclaim_verdict = Give_Up | Try_Nograce | Try_Nograce_Stop | Stop

definition reclaim_verdict :: "int \<Rightarrow> reclaim_verdict" where
  "reclaim_verdict status =
     (if status \<in> {- EAGAIN, - NFS4ERR_ADMIN_REVOKED, - NFS4ERR_STALE_STATEID, - NFS4ERR_BAD_STATEID, - NFS4ERR_RECLAIM_BAD, - NFS4ERR_RECLAIM_CONFLICT}
      then Try_Nograce
      else if status \<in> {- NFS4ERR_EXPIRED, - NFS4ERR_NO_GRACE} then Try_Nograce_Stop
      else if status \<in> {- NFS4ERR_STALE_CLIENTID, - NFS4ERR_BADSESSION, - NFS4ERR_BADSLOT, - NFS4ERR_BAD_HIGH_SLOT, - NFS4ERR_CONN_NOT_BOUND_TO_SESSION}
      then Stop
      else Give_Up)"

text \<open>The first state of the list that wants to be recovered; the bits that were tested on the way are cleared.\<close>

fun next_state :: "state_bit \<Rightarrow> open_state list \<Rightarrow> nat option \<times> open_state list" where
  "next_state b [] = (None, [])"
| "next_state b (st # sts) =
     (if b \<in> st_flags st \<and> nfs4_valid_open_stateid st \<and> st_mode st \<noteq> 0
      then (Some 0, st\<lparr>st_flags := st_flags st - {b}\<rparr> # sts)
      else case next_state b sts of (r, sts) \<Rightarrow> (map_option Suc r, st\<lparr>st_flags := st_flags st - {b}\<rparr> # sts))"

text \<open>One owner with the part of the client that its recovery touches.\<close>

record 'w reclaim =
  rc_flags :: "owner_bit set"
  rc_states :: "open_state list"
  rc_bits :: "'w bits"

definition rc_mark_nograce :: "nat \<Rightarrow> 'w reclaim \<Rightarrow> 'w reclaim" where
  "rc_mark_nograce i c =
     c\<lparr>rc_states := (rc_states c)[i := (rc_states c ! i)\<lparr>st_flags := insert NFS_STATE_RECLAIM_NOGRACE (st_flags (rc_states c ! i)) - {NFS_STATE_RECLAIM_REBOOT}\<rparr>],
       rc_flags := insert NFS_OWNER_RECLAIM_NOGRACE (rc_flags c),
       rc_bits := (fst (rc_bits c), insert NFS4CLNT_RECLAIM_NOGRACE (snd (rc_bits c)))\<rparr>"

definition recover_state :: "'w recovery_ops \<Rightarrow> open_state \<Rightarrow> 'w bits \<Rightarrow> int \<times> open_state \<times> 'w bits" where
  "recover_state R st w =
     (case recover_open R st w of (status, st, w) \<Rightarrow> if status \<ge> 0 then nfs4_reclaim_locks R st w else (status, st, w))"

fun nfs4_reclaim_open_state :: "'w recovery_ops \<Rightarrow> nat \<Rightarrow> 'w reclaim \<Rightarrow> (int \<times> 'w reclaim) option" where
  "nfs4_reclaim_open_state R 0 c = None"
| "nfs4_reclaim_open_state R (Suc n) c =
     (case next_state (state_flag_bit R) (rc_states c) of
        (None, sts) \<Rightarrow> Some (0, c\<lparr>rc_states := sts\<rparr>)
      | (Some i, sts) \<Rightarrow>
          (case recover_state R (sts ! i) (rc_bits c) of (status, st, w) \<Rightarrow>
             let c = c\<lparr>rc_states := sts[i := st], rc_bits := w\<rparr>
             in if status \<ge> 0
                then nfs4_reclaim_open_state R n (c\<lparr>rc_states := sts[i := st\<lparr>st_flags := st_flags st - {NFS_STATE_RECLAIM_NOGRACE}\<rparr>]\<rparr>)
                else case reclaim_verdict status of
                       Give_Up \<Rightarrow> nfs4_reclaim_open_state R n (c\<lparr>rc_states := sts[i := nfs4_state_mark_recovery_failed st]\<rparr>)
                     | Try_Nograce \<Rightarrow> nfs4_reclaim_open_state R n (rc_mark_nograce i c)
                     | Try_Nograce_Stop \<Rightarrow> Some (status, rc_mark_nograce i c)
                     | Stop \<Rightarrow> Some (status, c)))"

section \<open>Marking everything\<close>

definition nfs4_clear_open_state :: "open_state \<Rightarrow> open_state" where
  "nfs4_clear_open_state st =
     st\<lparr>st_flags := st_flags st - {NFS_DELEGATED_STATE, NFS_O_RDONLY_STATE, NFS_O_WRONLY_STATE, NFS_O_RDWR_STATE},
        st_locks := map (\<lambda>l. l\<lparr>ls_seqid_flags := 0, ls_flags := ls_flags l - {NFS_LOCK_INITIALIZED}\<rparr>) (st_locks st)\<rparr>"

text \<open>The loops over the states of an owner, the owners of a server and the servers of a client. The bits of the client are threaded
  through.\<close>

fun reset_states :: "'w mark_reclaim \<Rightarrow> open_state list \<Rightarrow> owner_bit set \<Rightarrow> 'w nfs_client \<Rightarrow> open_state list \<times> owner_bit set \<times> 'w nfs_client" where
  "reset_states mark [] fl clp = ([], fl, clp)"
| "reset_states mark (st # sts) fl clp =
     (case mark \<lparr>m_state = st, m_owner_flags = fl, m_clp = clp\<rparr> of (yes, m) \<Rightarrow>
        case reset_states mark sts (m_owner_flags m) (m_clp m) of (sts, fl, clp) \<Rightarrow>
          ((if yes then nfs4_clear_open_state (m_state m) else m_state m) # sts, fl, clp))"

fun reset_owners :: "'w mark_reclaim \<Rightarrow> state_owner list \<Rightarrow> 'w nfs_client \<Rightarrow> state_owner list \<times> 'w nfs_client" where
  "reset_owners mark [] clp = ([], clp)"
| "reset_owners mark (sp # sps) clp =
     (case reset_states mark (ow_states sp) (ow_flags sp) clp of (sts, fl, clp) \<Rightarrow>
        case reset_owners mark sps clp of (sps, clp) \<Rightarrow>
          (sp\<lparr>ow_seqid_flags := 0, ow_states := sts, ow_flags := fl\<rparr> # sps, clp))"

fun reset_servers :: "'w mark_reclaim \<Rightarrow> client_server list \<Rightarrow> 'w nfs_client \<Rightarrow> client_server list \<times> 'w nfs_client" where
  "reset_servers mark [] clp = ([], clp)"
| "reset_servers mark (sv # svs) clp =
     (case reset_owners mark (state_owners sv) clp of (sps, clp) \<Rightarrow>
        case reset_servers mark svs clp of (svs, clp) \<Rightarrow> (sv\<lparr>state_owners := sps\<rparr> # svs, clp))"

definition nfs4_state_mark_reclaim_helper :: "'w mark_reclaim \<Rightarrow> 'w nfs_client \<Rightarrow> 'w nfs_client" where
  "nfs4_state_mark_reclaim_helper mark clp =
     (case reset_servers mark (cl_superblocks clp) clp of (svs, clp) \<Rightarrow> clp\<lparr>cl_superblocks := svs\<rparr>)"

definition nfs4_state_start_reclaim_reboot :: "'w client_env \<Rightarrow> 'w nfs_client \<Rightarrow> 'w nfs_client" where
  "nfs4_state_start_reclaim_reboot E clp = nfs4_state_mark_reclaim_helper nfs4_state_mark_reclaim_reboot (nfs_delegation_mark_reclaim E clp)"

definition nfs_delegation_clear_all :: "'w client_env \<Rightarrow> 'w nfs_client \<Rightarrow> 'w nfs_client" where
  "nfs_delegation_clear_all E clp = nfs_delegation_reap_unclaimed E (nfs_delegation_mark_reclaim E clp)"

definition nfs4_state_start_reclaim_nograce :: "'w client_env \<Rightarrow> 'w nfs_client \<Rightarrow> 'w nfs_client" where
  "nfs4_state_start_reclaim_nograce E clp = nfs4_state_mark_reclaim_helper nfs4_state_mark_reclaim_nograce (nfs_delegation_clear_all E clp)"

text \<open>\<^verbatim>\<open>nfs4_clear_reclaim_server\<close>: states that were not reclaimed after a reboot are handled like expired ones.\<close>

definition clear_reclaim_mark :: "'w mark_reclaim" where
  "clear_reclaim_mark m =
     (if NFS_STATE_RECLAIM_REBOOT \<in> st_flags (m_state m) then (False, snd (nfs4_state_mark_reclaim_nograce m)) else (False, m))"

fun clear_reclaim_states :: "open_state list \<Rightarrow> owner_bit set \<Rightarrow> 'w nfs_client \<Rightarrow> open_state list \<times> owner_bit set \<times> 'w nfs_client" where
  "clear_reclaim_states [] fl clp = ([], fl, clp)"
| "clear_reclaim_states (st # sts) fl clp =
     (case snd (clear_reclaim_mark \<lparr>m_state = st, m_owner_flags = fl, m_clp = clp\<rparr>) of m \<Rightarrow>
        case clear_reclaim_states sts (m_owner_flags m) (m_clp m) of (sts, fl, clp) \<Rightarrow> (m_state m # sts, fl, clp))"

fun clear_reclaim_owners :: "state_owner list \<Rightarrow> 'w nfs_client \<Rightarrow> state_owner list \<times> 'w nfs_client" where
  "clear_reclaim_owners [] clp = ([], clp)"
| "clear_reclaim_owners (sp # sps) clp =
     (case clear_reclaim_states (ow_states sp) (ow_flags sp) clp of (sts, fl, clp) \<Rightarrow>
        case clear_reclaim_owners sps clp of (sps, clp) \<Rightarrow> (sp\<lparr>ow_states := sts, ow_flags := fl\<rparr> # sps, clp))"

fun clear_reclaim_servers :: "client_server list \<Rightarrow> 'w nfs_client \<Rightarrow> client_server list \<times> 'w nfs_client" where
  "clear_reclaim_servers [] clp = ([], clp)"
| "clear_reclaim_servers (sv # svs) clp =
     (case clear_reclaim_owners (state_owners sv) clp of (sps, clp) \<Rightarrow>
        case clear_reclaim_servers svs clp of (svs, clp) \<Rightarrow> (sv\<lparr>state_owners := sps\<rparr> # svs, clp))"

definition nfs4_state_clear_reclaim_reboot :: "'w client_env \<Rightarrow> 'w nfs_client \<Rightarrow> bool \<times> 'w nfs_client" where
  "nfs4_state_clear_reclaim_reboot E clp =
     (if NFS4CLNT_RECLAIM_REBOOT \<notin> cl_state clp then (False, clp)
      else case clear_reclaim_servers (cl_superblocks clp) (clear_bit_clnt NFS4CLNT_RECLAIM_REBOOT clp) of (svs, clp) \<Rightarrow>
        (True, nfs_delegation_reap_unclaimed E (clp\<lparr>cl_superblocks := svs\<rparr>)))"

section \<open>Draining\<close>

text \<open>Everything a manager needs from elsewhere. \<open>wait_complete\<close> is \<^verbatim>\<open>wait_for_completion_interruptible\<close>; the flag of
  \<open>nfs4_proc_get_locations\<close> says that the reply has locations.\<close>

record 'w manager_env =
  me_client :: "'w client_env"
  reboot_recovery_ops :: "'w recovery_ops"
  nograce_recovery_ops :: "'w recovery_ops"
  wait_complete :: "'w nfs_client \<Rightarrow> int \<times> 'w nfs_client"
  nfs41_wake_slot_table :: "'w nfs_client \<Rightarrow> 'w nfs_client"
  get_clid_cred :: "'w nfs_client \<Rightarrow> bool"
  get_state_renewal_cred :: "'w nfs_client \<Rightarrow> bool"
  renew_lease_op :: "'w nfs_client \<Rightarrow> int \<times> 'w nfs_client"
  establish_clid :: "'w nfs_client \<Rightarrow> int \<times> 'w nfs_client"
  reclaim_complete_op :: "('w nfs_client \<Rightarrow> 'w nfs_client) option"
  pnfs_destroy_all_layouts :: "'w nfs_client \<Rightarrow> 'w nfs_client"
  nfs_mark_client_ready :: "int \<Rightarrow> 'w nfs_client \<Rightarrow> 'w nfs_client"
  nfs4_proc_destroy_session :: "'w nfs_client \<Rightarrow> int \<times> 'w nfs_client"
  nfs4_proc_create_session :: "'w nfs_client \<Rightarrow> int \<times> 'w nfs_client"
  nfs4_proc_bind_conn_to_session :: "'w nfs_client \<Rightarrow> int \<times> 'w nfs_client"
  nfs41_setup_state_renewal :: "'w nfs_client \<Rightarrow> 'w nfs_client"
  alloc_locations :: "'w nfs_client \<Rightarrow> bool"
  nfs4_proc_get_locations :: "nat \<Rightarrow> 'w nfs_client \<Rightarrow> int \<times> bool \<times> 'w nfs_client"
  nfs4_replace_transport :: "nat \<Rightarrow> 'w nfs_client \<Rightarrow> int \<times> 'w nfs_client"
  nfs4_proc_fsid_present :: "nat \<Rightarrow> 'w nfs_client \<Rightarrow> int \<times> 'w nfs_client"
  nfs_client_return_marked_delegations :: "'w nfs_client \<Rightarrow> 'w nfs_client"

definition nfs4_drain_slot_tbl :: "'w manager_env \<Rightarrow> (drain_table \<Rightarrow> slot_tables) \<Rightarrow> drain_table \<Rightarrow> 'w nfs_client \<Rightarrow> int \<times> 'w nfs_client" where
  "nfs4_drain_slot_tbl M put tbl clp =
     (let clp = clp\<lparr>cl_tables := put (tbl\<lparr>dt_draining := True\<rparr>)\<rparr> in if dt_used tbl then wait_complete M clp else (0, clp))"

definition nfs4_begin_drain_session :: "'w manager_env \<Rightarrow> 'w nfs_client \<Rightarrow> int \<times> 'w nfs_client" where
  "nfs4_begin_drain_session M clp =
     (case cl_tables clp of
        V40_Table tbl \<Rightarrow> nfs4_drain_slot_tbl M V40_Table tbl clp
      | Session_Tables bc fc \<Rightarrow>
          (case nfs4_drain_slot_tbl M (\<lambda>bc. Session_Tables bc fc) bc clp of (ret, clp) \<Rightarrow>
             if ret \<noteq> 0 then (ret, clp)
             else case cl_tables clp of
                    Session_Tables bc fc \<Rightarrow> nfs4_drain_slot_tbl M (Session_Tables bc) fc clp
                  | V40_Table tbl \<Rightarrow> (ret, clp)))"

definition nfs4_end_drain_slot_table :: "'w manager_env \<Rightarrow> (drain_table \<Rightarrow> slot_tables) \<Rightarrow> drain_table \<Rightarrow> 'w nfs_client \<Rightarrow> 'w nfs_client" where
  "nfs4_end_drain_slot_table M put tbl clp =
     (if dt_draining tbl then nfs41_wake_slot_table M (clp\<lparr>cl_tables := put (tbl\<lparr>dt_draining := False\<rparr>)\<rparr>) else clp)"

definition nfs4_end_drain_session :: "'w manager_env \<Rightarrow> 'w nfs_client \<Rightarrow> 'w nfs_client" where
  "nfs4_end_drain_session M clp =
     (case cl_tables clp of
        V40_Table tbl \<Rightarrow> nfs4_end_drain_slot_table M V40_Table tbl clp
      | Session_Tables bc fc \<Rightarrow>
          (let clp = nfs4_end_drain_slot_table M (\<lambda>bc. Session_Tables bc fc) bc clp
           in case cl_tables clp of
                Session_Tables bc fc \<Rightarrow> nfs4_end_drain_slot_table M (Session_Tables bc) fc clp
              | V40_Table tbl \<Rightarrow> clp))"

definition nfs4_has_session :: "'w nfs_client \<Rightarrow> bool" where
  "nfs4_has_session clp = (case cl_tables clp of V40_Table tbl \<Rightarrow> False | Session_Tables bc fc \<Rightarrow> True)"

section \<open>Errors\<close>

definition nfs4_state_end_reclaim_reboot :: "'w manager_env \<Rightarrow> 'w nfs_client \<Rightarrow> 'w nfs_client" where
  "nfs4_state_end_reclaim_reboot M clp =
     (case nfs4_state_clear_reclaim_reboot (me_client M) clp of (yes, clp) \<Rightarrow>
        if \<not> yes then clp else case reclaim_complete_op M of None \<Rightarrow> clp | Some f \<Rightarrow> f clp)"

definition nfs4_recovery_handle_error :: "'w manager_env \<Rightarrow> int \<Rightarrow> 'w nfs_client \<Rightarrow> int \<times> 'w nfs_client" where
  "nfs4_recovery_handle_error M error clp =
     (let E = me_client M
      in if error = 0 then (0, clp)
         else if error = - NFS4ERR_CB_PATH_DOWN then (0, nfs40_handle_cb_pathdown E clp)
         else if error = - NFS4ERR_NO_GRACE then (0, nfs4_state_end_reclaim_reboot M clp)
         else if error = - NFS4ERR_STALE_CLIENTID then
           (0, nfs4_state_start_reclaim_reboot E (snd (nfs4_state_clear_reclaim_reboot E (set_bit_clnt NFS4CLNT_LEASE_EXPIRED clp))))
         else if error = - NFS4ERR_EXPIRED then (0, nfs4_state_start_reclaim_nograce E (set_bit_clnt NFS4CLNT_LEASE_EXPIRED clp))
         else if error \<in> {- NFS4ERR_BADSESSION, - NFS4ERR_BADSLOT, - NFS4ERR_BAD_HIGH_SLOT, - NFS4ERR_DEADSESSION, - NFS4ERR_SEQ_FALSE_RETRY,
                          - NFS4ERR_SEQ_MISORDERED} then (0, set_bit_clnt NFS4CLNT_SESSION_RESET clp)
         else if error = - NFS4ERR_CONN_NOT_BOUND_TO_SESSION then (0, set_bit_clnt NFS4CLNT_BIND_CONN_TO_SESSION clp)
         else (error, clp))"

section \<open>Reclaiming\<close>

text \<open>\<^verbatim>\<open>nfs4_purge_state_owners\<close>: owners nobody uses are released.\<close>

definition nfs4_purge_state_owners :: "client_server \<Rightarrow> client_server" where
  "nfs4_purge_state_owners sv = sv\<lparr>state_owners := filter (\<lambda>sp. ow_count sp \<noteq> 0) (state_owners sv)\<rparr>"

fun next_owner_of :: "owner_bit \<Rightarrow> state_owner list \<Rightarrow> nat option" where
  "next_owner_of b [] = None"
| "next_owner_of b (sp # sps) = (if b \<in> ow_flags sp then Some 0 else map_option Suc (next_owner_of b sps))"

text \<open>The first owner with the bit, as server and position; the servers up to it are purged.\<close>

fun next_owner :: "owner_bit \<Rightarrow> client_server list \<Rightarrow> (nat \<times> nat) option \<times> client_server list" where
  "next_owner b [] = (None, [])"
| "next_owner b (sv # svs) =
     (let sv = nfs4_purge_state_owners sv
      in case next_owner_of b (state_owners sv) of
           Some j \<Rightarrow> (Some (0, j), sv # svs)
         | None \<Rightarrow> (case next_owner b svs of (r, svs) \<Rightarrow> (map_option (\<lambda>(i, j). (Suc i, j)) r, sv # svs)))"

definition get_owner :: "nat \<times> nat \<Rightarrow> client_server list \<Rightarrow> state_owner" where
  "get_owner p svs = state_owners (svs ! fst p) ! snd p"

definition put_owner :: "nat \<times> nat \<Rightarrow> state_owner \<Rightarrow> client_server list \<Rightarrow> client_server list" where
  "put_owner p sp svs = svs[fst p := (svs ! fst p)\<lparr>state_owners := (state_owners (svs ! fst p))[snd p := sp]\<rparr>]"

definition reclaim_owner :: "'w recovery_ops \<Rightarrow> nat \<Rightarrow> nat \<times> nat \<Rightarrow> 'w nfs_client \<Rightarrow> (int \<times> 'w nfs_client) option" where
  "reclaim_owner R n p clp =
     (let sp = get_owner p (cl_superblocks clp);
          c = \<lparr>rc_flags = ow_flags sp - {owner_flag_bit R}, rc_states = ow_states sp, rc_bits = (cl_world clp, cl_state clp)\<rparr>
      in case nfs4_reclaim_open_state R n c of
           None \<Rightarrow> None
         | Some (status, c) \<Rightarrow>
             let sp = sp\<lparr>ow_states := rc_states c, ow_flags := if status < 0 then insert (owner_flag_bit R) (rc_flags c) else rc_flags c\<rparr>
             in Some (status, clp\<lparr>cl_superblocks := put_owner p sp (cl_superblocks clp), cl_world := fst (rc_bits c), cl_state := snd (rc_bits c)\<rparr>))"

text \<open>\<open>n\<close> bounds the rounds over the owners and, for each of them, over its states.\<close>

fun do_reclaim_loop :: "'w manager_env \<Rightarrow> 'w recovery_ops \<Rightarrow> nat \<Rightarrow> nat \<Rightarrow> 'w nfs_client \<Rightarrow> (int \<times> 'w nfs_client) option" where
  "do_reclaim_loop M R m 0 clp = None"
| "do_reclaim_loop M R m (Suc n) clp =
     (case next_owner (owner_flag_bit R) (cl_superblocks clp) of
        (None, svs) \<Rightarrow> Some (0, clp\<lparr>cl_superblocks := svs\<rparr>)
      | (Some p, svs) \<Rightarrow>
          (case reclaim_owner R m p (clp\<lparr>cl_superblocks := svs\<rparr>) of
             None \<Rightarrow> None
           | Some (status, clp) \<Rightarrow>
               if status < 0
               then case nfs4_recovery_handle_error M status clp of (status, clp) \<Rightarrow> Some (if status \<noteq> 0 then status else - EAGAIN, clp)
               else do_reclaim_loop M R m n clp))"

definition nfs4_do_reclaim :: "'w manager_env \<Rightarrow> 'w recovery_ops \<Rightarrow> nat \<Rightarrow> 'w nfs_client \<Rightarrow> (int \<times> 'w nfs_client) option" where
  "nfs4_do_reclaim M R n clp = do_reclaim_loop M R n n clp"

end
