(* ===== verification/Nfs4_Manager.thy ===== *)
theory Nfs4_Manager
  imports Nfs4_Recovery
begin

text \<open>
  The lease, the session, migration, and the loop of the state manager: \<^verbatim>\<open>nfs4_check_lease\<close> to \<^verbatim>\<open>nfs4_state_manager\<close> of
  \<^verbatim>\<open>fs/nfs/nfs4state.c\<close>, and the reactions to the flags of a SEQUENCE reply. The pauses (\<^verbatim>\<open>ssleep\<close>) have no effect on the state.
\<close>

abbreviation (input) EPROTONOSUPPORT :: int where "EPROTONOSUPPORT \<equiv> 93"
abbreviation (input) ESERVERFAULT :: int where "ESERVERFAULT \<equiv> 526"
abbreviation (input) NFS_CS_SESSION_INITING :: int where "NFS_CS_SESSION_INITING \<equiv> 2"

section \<open>The lease\<close>

definition nfs4_check_lease :: "'w manager_env \<Rightarrow> 'w nfs_client \<Rightarrow> int \<times> 'w nfs_client" where
  "nfs4_check_lease M clp =
     (if NFS4CLNT_LEASE_EXPIRED \<in> cl_state clp then (0, clp)
      else if \<not> get_state_renewal_cred M clp \<and> \<not> get_clid_cred M clp then nfs4_recovery_handle_error M (- ENOKEY) clp
      else case renew_lease_op M clp of (status, clp) \<Rightarrow>
        if status = - ETIMEDOUT then (0, set_bit_clnt NFS4CLNT_CHECK_LEASE clp)
        else nfs4_recovery_handle_error M status clp)"

definition nfs4_handle_reclaim_lease_error :: "'w manager_env \<Rightarrow> int \<Rightarrow> 'w nfs_client \<Rightarrow> int \<times> 'w nfs_client" where
  "nfs4_handle_reclaim_lease_error M status clp =
     (if status = - NFS4ERR_SEQ_MISORDERED then
        if NFS4CLNT_PURGE_STATE \<in> cl_state clp then (- ESERVERFAULT, clp)
        else (0, set_bit_clnt NFS4CLNT_LEASE_EXPIRED (clear_bit_clnt NFS4CLNT_LEASE_CONFIRM (set_bit_clnt NFS4CLNT_PURGE_STATE clp)))
      else if status = - NFS4ERR_STALE_CLIENTID then
        (0, set_bit_clnt NFS4CLNT_LEASE_EXPIRED (nfs4_state_start_reclaim_reboot (me_client M) (clear_bit_clnt NFS4CLNT_LEASE_CONFIRM clp)))
      else if status = - NFS4ERR_CLID_INUSE then
        (- EPERM, clear_bit_clnt NFS4CLNT_LEASE_CONFIRM (nfs_mark_client_ready M (- EPERM) clp))
      else if status \<in> {- EACCES, - NFS4ERR_DELAY, - ETIMEDOUT, - EAGAIN} then (0, set_bit_clnt NFS4CLNT_LEASE_EXPIRED clp)
      else if status = - NFS4ERR_MINOR_VERS_MISMATCH then
        (- EPROTONOSUPPORT,
         if cl_cons_state clp = NFS_CS_SESSION_INITING then nfs_mark_client_ready M (- EPROTONOSUPPORT) clp else clp)
      else (status, clp))"

definition nfs4_establish_lease :: "'w manager_env \<Rightarrow> 'w nfs_client \<Rightarrow> int \<times> 'w nfs_client" where
  "nfs4_establish_lease M clp =
     (let clp = snd (nfs4_begin_drain_session M clp)
      in if \<not> get_clid_cred M clp then (- ENOENT, clp)
         else case establish_clid M clp of (status, clp) \<Rightarrow>
           if status \<noteq> 0 then (status, clp) else (0, pnfs_destroy_all_layouts M clp))"

definition nfs4_reclaim_lease :: "'w manager_env \<Rightarrow> 'w nfs_client \<Rightarrow> int \<times> 'w nfs_client" where
  "nfs4_reclaim_lease M clp =
     (case nfs4_establish_lease M clp of (status, clp) \<Rightarrow>
        if status < 0 then nfs4_handle_reclaim_lease_error M status clp
        else
          let clp = (if NFS4CLNT_SERVER_SCOPE_MISMATCH \<in> cl_state clp
                     then nfs4_state_start_reclaim_nograce (me_client M) (clear_bit_clnt NFS4CLNT_SERVER_SCOPE_MISMATCH clp) else clp);
              clp = (if NFS4CLNT_RECLAIM_NOGRACE \<notin> cl_state clp then set_bit_clnt NFS4CLNT_RECLAIM_REBOOT clp else clp)
          in (0, clear_bit_clnt NFS4CLNT_LEASE_EXPIRED (clear_bit_clnt NFS4CLNT_CHECK_LEASE clp)))"

definition nfs4_purge_lease :: "'w manager_env \<Rightarrow> 'w nfs_client \<Rightarrow> int \<times> 'w nfs_client" where
  "nfs4_purge_lease M clp =
     (case nfs4_establish_lease M clp of (status, clp) \<Rightarrow>
        if status < 0 then nfs4_handle_reclaim_lease_error M status clp
        else (0, nfs4_state_start_reclaim_nograce (me_client M)
                   (set_bit_clnt NFS4CLNT_LEASE_EXPIRED (clear_bit_clnt NFS4CLNT_PURGE_STATE clp))))"

section \<open>Migration\<close>

definition nfs4_try_migration :: "'w manager_env \<Rightarrow> nat \<Rightarrow> 'w nfs_client \<Rightarrow> int \<times> 'w nfs_client" where
  "nfs4_try_migration M i clp =
     (let (result, clp) =
            (if \<not> alloc_locations M clp then (0, clp)
             else case nfs4_proc_get_locations M i clp of (result, located, clp) \<Rightarrow>
               if result \<noteq> 0 then (result, clp)
               else if \<not> located then (- NFS4ERR_NXIO, clp)
               else case nfs4_replace_transport M i (snd (nfs4_begin_drain_session M clp)) of (status, clp) \<Rightarrow>
                 if status \<noteq> 0 then (- NFS4ERR_NXIO, clp) else (0, clp))
      in (result, if result \<noteq> 0 then upd_server i (\<lambda>sv. sv\<lparr>mig_status := insert NFS_MIG_FAILED (mig_status sv)\<rparr>) clp else clp))"

text \<open>The first server that this pass has not seen.\<close>

definition unseen_server :: "'w nfs_client \<Rightarrow> nat option" where
  "unseen_server clp = (let svs = cl_superblocks clp in List.find (\<lambda>i. mig_gen (svs ! i) \<noteq> cl_mig_gen clp) [0..<length svs])"

definition see_server :: "nat \<Rightarrow> 'w nfs_client \<Rightarrow> 'w nfs_client" where
  "see_server i clp = upd_server i (\<lambda>sv. sv\<lparr>mig_gen := cl_mig_gen clp\<rparr>) clp"

fun handle_migration_loop :: "'w manager_env \<Rightarrow> nat \<Rightarrow> 'w nfs_client \<Rightarrow> (int \<times> 'w nfs_client) option" where
  "handle_migration_loop M 0 clp = None"
| "handle_migration_loop M (Suc n) clp =
     (case unseen_server clp of
        None \<Rightarrow> Some (0, clp)
      | Some i \<Rightarrow>
          let clp = see_server i clp
          in if NFS_MIG_IN_TRANSITION \<notin> mig_status (cl_superblocks clp ! i) then handle_migration_loop M n clp
             else
               let clp = upd_server i (\<lambda>sv. sv\<lparr>mig_status := mig_status sv - {NFS_MIG_IN_TRANSITION}\<rparr>) clp
               in case nfs4_try_migration M i clp of (status, clp) \<Rightarrow>
                    if status < 0 then Some (status, clp) else handle_migration_loop M n clp)"

definition nfs4_handle_migration :: "'w manager_env \<Rightarrow> nat \<Rightarrow> 'w nfs_client \<Rightarrow> (int \<times> 'w nfs_client) option" where
  "nfs4_handle_migration M n clp =
     (if \<not> get_state_renewal_cred M clp then Some (- NFS4ERR_NOENT, clp)
      else handle_migration_loop M n (clp\<lparr>cl_mig_gen := cl_mig_gen clp + 1\<rparr>))"

fun handle_lease_moved_loop :: "'w manager_env \<Rightarrow> nat \<Rightarrow> 'w nfs_client \<Rightarrow> (int \<times> 'w nfs_client) option" where
  "handle_lease_moved_loop M 0 clp = None"
| "handle_lease_moved_loop M (Suc n) clp =
     (case unseen_server clp of
        None \<Rightarrow> Some (0, clp)
      | Some i \<Rightarrow>
          (case nfs4_proc_fsid_present M i (see_server i clp) of (status, clp) \<Rightarrow>
             if status \<noteq> - NFS4ERR_MOVED then handle_lease_moved_loop M n clp
             else case nfs4_try_migration M i clp of (status, clp) \<Rightarrow>
               if status = - NFS4ERR_LEASE_MOVED then handle_lease_moved_loop M n clp else Some (0, clp)))"

definition nfs4_handle_lease_moved :: "'w manager_env \<Rightarrow> nat \<Rightarrow> 'w nfs_client \<Rightarrow> (int \<times> 'w nfs_client) option" where
  "nfs4_handle_lease_moved M n clp =
     (if \<not> get_state_renewal_cred M clp then Some (- NFS4ERR_NOENT, clp)
      else handle_lease_moved_loop M n (clp\<lparr>cl_mig_gen := cl_mig_gen clp + 1\<rparr>))"

section \<open>The session\<close>

definition nfs4_schedule_session_recovery :: "'w client_env \<Rightarrow> int \<Rightarrow> 'w nfs_client \<Rightarrow> 'w nfs_client" where
  "nfs4_schedule_session_recovery E err clp =
     nfs4_schedule_lease_recovery E
       (if err = - NFS4ERR_CONN_NOT_BOUND_TO_SESSION then set_bit_clnt NFS4CLNT_BIND_CONN_TO_SESSION clp
        else set_bit_clnt NFS4CLNT_SESSION_RESET clp)"

definition nfs4_reset_all_state :: "'w client_env \<Rightarrow> 'w nfs_client \<Rightarrow> 'w nfs_client" where
  "nfs4_reset_all_state E clp =
     (if NFS4CLNT_LEASE_EXPIRED \<in> cl_state clp then clp
      else nfs4_schedule_state_manager E (nfs4_state_start_reclaim_nograce E
             (clear_bit_clnt NFS4CLNT_LEASE_CONFIRM (set_bit_clnt NFS4CLNT_PURGE_STATE (set_bit_clnt NFS4CLNT_LEASE_EXPIRED clp)))))"

definition nfs41_handle_server_reboot :: "'w client_env \<Rightarrow> 'w nfs_client \<Rightarrow> 'w nfs_client" where
  "nfs41_handle_server_reboot E clp =
     (if NFS4CLNT_LEASE_EXPIRED \<in> cl_state clp then clp
      else nfs4_schedule_state_manager E (nfs4_state_start_reclaim_reboot E (set_bit_clnt NFS4CLNT_LEASE_EXPIRED clp)))"

definition nfs41_handle_state_revoked :: "'w client_env \<Rightarrow> 'w nfs_client \<Rightarrow> 'w nfs_client" where
  "nfs41_handle_state_revoked E clp = nfs4_reset_all_state E clp"

definition nfs41_handle_recallable_state_revoked :: "'w client_env \<Rightarrow> 'w nfs_client \<Rightarrow> 'w nfs_client" where
  "nfs41_handle_recallable_state_revoked E clp = nfs_expire_all_delegations E clp"

definition nfs41_handle_backchannel_fault :: "'w client_env \<Rightarrow> 'w nfs_client \<Rightarrow> 'w nfs_client" where
  "nfs41_handle_backchannel_fault E clp =
     (let clp = nfs_expire_all_delegations E clp
      in if NFS4CLNT_SESSION_RESET \<in> cl_state clp then clp
         else nfs4_schedule_state_manager E (set_bit_clnt NFS4CLNT_SESSION_RESET clp))"

definition nfs41_handle_cb_path_down :: "'w client_env \<Rightarrow> 'w nfs_client \<Rightarrow> 'w nfs_client" where
  "nfs41_handle_cb_path_down E clp =
     (if NFS4CLNT_BIND_CONN_TO_SESSION \<in> cl_state clp then clp
      else nfs4_schedule_state_manager E (set_bit_clnt NFS4CLNT_BIND_CONN_TO_SESSION clp))"

definition nfs41_handle_sequence_flag_errors :: "'w client_env \<Rightarrow> u32 \<Rightarrow> 'w nfs_client \<Rightarrow> 'w nfs_client" where
  "nfs41_handle_sequence_flag_errors E flags clp =
     (if flags = 0 then clp
      else
        let clp = (if flags AND SEQ4_STATUS_RESTART_RECLAIM_NEEDED \<noteq> 0 then nfs41_handle_server_reboot E clp else clp);
            clp = (if flags AND (SEQ4_STATUS_EXPIRED_ALL_STATE_REVOKED OR SEQ4_STATUS_EXPIRED_SOME_STATE_REVOKED OR SEQ4_STATUS_ADMIN_STATE_REVOKED) \<noteq> 0
                   then nfs41_handle_state_revoked E clp else clp);
            clp = (if flags AND SEQ4_STATUS_LEASE_MOVED \<noteq> 0 then nfs4_schedule_lease_moved_recovery E clp else clp);
            clp = (if flags AND SEQ4_STATUS_RECALLABLE_STATE_REVOKED \<noteq> 0 then nfs41_handle_recallable_state_revoked E clp else clp)
        in if flags AND SEQ4_STATUS_BACKCHANNEL_FAULT \<noteq> 0 then nfs41_handle_backchannel_fault E clp
           else if flags AND (SEQ4_STATUS_CB_PATH_DOWN OR SEQ4_STATUS_CB_PATH_DOWN_SESSION) \<noteq> 0 then nfs41_handle_cb_path_down E clp
           else clp)"

definition nfs41_finish_session_reset :: "'w manager_env \<Rightarrow> 'w nfs_client \<Rightarrow> 'w nfs_client" where
  "nfs41_finish_session_reset M clp =
     nfs41_setup_state_renewal M (clear_bit_clnt NFS4CLNT_BIND_CONN_TO_SESSION
       (clear_bit_clnt NFS4CLNT_SESSION_RESET (clear_bit_clnt NFS4CLNT_LEASE_CONFIRM clp)))"

definition nfs4_reset_session :: "'w manager_env \<Rightarrow> 'w nfs_client \<Rightarrow> int \<times> 'w nfs_client" where
  "nfs4_reset_session M clp =
     (if \<not> nfs4_has_session clp then (0, clp)
      else case nfs4_proc_destroy_session M (snd (nfs4_begin_drain_session M clp)) of (status, clp) \<Rightarrow>
        if status \<in> {0, - NFS4ERR_BADSESSION, - NFS4ERR_DEADSESSION} then
          (case nfs4_proc_create_session M clp of (status, clp) \<Rightarrow>
             if status \<noteq> 0 then nfs4_handle_reclaim_lease_error M status clp else (0, nfs41_finish_session_reset M clp))
        else if status \<in> {- NFS4ERR_BACK_CHAN_BUSY, - NFS4ERR_DELAY} then (0, set_bit_clnt NFS4CLNT_SESSION_RESET clp)
        else nfs4_recovery_handle_error M status clp)"

definition nfs4_bind_conn_to_session :: "'w manager_env \<Rightarrow> 'w nfs_client \<Rightarrow> int \<times> 'w nfs_client" where
  "nfs4_bind_conn_to_session M clp =
     (if \<not> nfs4_has_session clp then (0, clp)
      else case nfs4_proc_bind_conn_to_session M (snd (nfs4_begin_drain_session M clp)) of (ret, clp) \<Rightarrow>
        let clp = clear_bit_clnt NFS4CLNT_BIND_CONN_TO_SESSION clp
        in if ret = 0 then (0, clp)
           else if ret = - NFS4ERR_DELAY then (0, set_bit_clnt NFS4CLNT_BIND_CONN_TO_SESSION clp)
           else nfs4_recovery_handle_error M ret clp)"

section \<open>The manager\<close>

text \<open>One pass of the loop. \<open>Continue\<close> goes to the condition of the loop, \<open>Break\<close> leaves it, \<open>Failed\<close> is \<open>out_error\<close>; \<open>None\<close> means that a bound was
  used up inside.\<close>

datatype pass = Continue | Break | Failed int

type_synonym 'w manager_section = "'w nfs_client \<Rightarrow> (pass option \<times> 'w nfs_client) option"

text \<open>The sections are tried in turn; one that yields no verdict falls through to the next.\<close>

fun sections :: "'w manager_section list \<Rightarrow> 'w nfs_client \<Rightarrow> (pass \<times> 'w nfs_client) option" where
  "sections [] clp = Some (Break, clp)"
| "sections (f # fs) clp =
     (case f clp of None \<Rightarrow> None | Some (Some p, clp) \<Rightarrow> Some (p, clp) | Some (None, clp) \<Rightarrow> sections fs clp)"

definition verdict :: "int \<Rightarrow> pass option \<Rightarrow> pass option" where
  "verdict status p = (if status < 0 then Some (Failed status) else p)"

definition purge_section :: "'w manager_env \<Rightarrow> 'w manager_section" where
  "purge_section M clp =
     Some (if NFS4CLNT_PURGE_STATE \<in> cl_state clp then case nfs4_purge_lease M clp of (status, clp) \<Rightarrow> (verdict status (Some Continue), clp)
           else (None, clp))"

definition lease_section :: "'w manager_env \<Rightarrow> 'w manager_section" where
  "lease_section M clp =
     Some (if NFS4CLNT_LEASE_EXPIRED \<in> cl_state clp then case nfs4_reclaim_lease M clp of (status, clp) \<Rightarrow> (verdict status (Some Continue), clp)
           else (None, clp))"

definition session_section :: "'w manager_env \<Rightarrow> 'w manager_section" where
  "session_section M clp =
     Some (if NFS4CLNT_SESSION_RESET \<in> cl_state clp
           then case nfs4_reset_session M (clear_bit_clnt NFS4CLNT_SESSION_RESET clp) of (status, clp) \<Rightarrow>
             (if NFS4CLNT_LEASE_EXPIRED \<in> cl_state clp then Some Continue else verdict status None, clp)
           else (None, clp))"

definition bind_section :: "'w manager_env \<Rightarrow> 'w manager_section" where
  "bind_section M clp =
     Some (if NFS4CLNT_BIND_CONN_TO_SESSION \<in> cl_state clp
           then case nfs4_bind_conn_to_session M (clear_bit_clnt NFS4CLNT_BIND_CONN_TO_SESSION clp) of (status, clp) \<Rightarrow> (verdict status (Some Continue), clp)
           else (None, clp))"

definition check_section :: "'w manager_env \<Rightarrow> 'w manager_section" where
  "check_section M clp =
     Some (if NFS4CLNT_CHECK_LEASE \<in> cl_state clp
           then case nfs4_check_lease M (clear_bit_clnt NFS4CLNT_CHECK_LEASE clp) of (status, clp) \<Rightarrow> (verdict status (Some Continue), clp)
           else (None, clp))"

definition moved_section :: "'w manager_env \<Rightarrow> nat \<Rightarrow> 'w manager_section" where
  "moved_section M n clp =
     (if NFS4CLNT_MOVED \<in> cl_state clp
      then map_option (\<lambda>(status, clp). (verdict status None, clp)) (nfs4_handle_migration M n (clear_bit_clnt NFS4CLNT_MOVED clp))
      else Some (None, clp))"

definition lease_moved_section :: "'w manager_env \<Rightarrow> nat \<Rightarrow> 'w manager_section" where
  "lease_moved_section M n clp =
     (if NFS4CLNT_LEASE_MOVED \<in> cl_state clp
      then map_option (\<lambda>(status, clp). (verdict status None, clp)) (nfs4_handle_lease_moved M n (clear_bit_clnt NFS4CLNT_LEASE_MOVED clp))
      else Some (None, clp))"

definition reboot_section :: "'w manager_env \<Rightarrow> nat \<Rightarrow> 'w manager_section" where
  "reboot_section M n clp =
     (if NFS4CLNT_RECLAIM_REBOOT \<in> cl_state clp
      then map_option (\<lambda>(status, clp).
             if status = - EAGAIN then (Some Continue, clp)
             else if status < 0 then (Some (Failed status), clp)
             else (None, nfs4_state_end_reclaim_reboot M clp)) (nfs4_do_reclaim M (reboot_recovery_ops M) n clp)
      else Some (None, clp))"

definition nograce_section :: "'w manager_env \<Rightarrow> nat \<Rightarrow> 'w manager_section" where
  "nograce_section M n clp =
     (if NFS4CLNT_RECLAIM_NOGRACE \<in> cl_state clp
      then map_option (\<lambda>(status, clp). (if status = - EAGAIN then Some Continue else verdict status None, clp))
             (nfs4_do_reclaim M (nograce_recovery_ops M) n (clear_bit_clnt NFS4CLNT_RECLAIM_NOGRACE clp))
      else Some (None, clp))"

definition end_section :: "'w manager_env \<Rightarrow> 'w manager_section" where
  "end_section M clp =
     (let clp = nfs4_end_drain_session M clp
      in Some (if NFS4CLNT_DELEGRETURN \<in> cl_state clp
               then (Some Continue, nfs_client_return_marked_delegations M (clear_bit_clnt NFS4CLNT_DELEGRETURN clp))
               else
                 let clp = (nfs4_clear_state_manager_bit clp)\<lparr>cl_threads := cl_threads clp - 1\<rparr>
                 in if cl_state clp = {} then (Some Break, clp)
                    else if NFS4CLNT_MANAGER_RUNNING \<in> cl_state clp then (Some Break, clp)
                    else (Some Continue, (set_bit_clnt NFS4CLNT_MANAGER_RUNNING clp)\<lparr>cl_threads := cl_threads clp + 1\<rparr>)))"

definition manager_pass :: "'w manager_env \<Rightarrow> nat \<Rightarrow> 'w nfs_client \<Rightarrow> (pass \<times> 'w nfs_client) option" where
  "manager_pass M n =
     sections [purge_section M, lease_section M, session_section M, bind_section M, check_section M, moved_section M n,
       lease_moved_section M n, reboot_section M n, nograce_section M n, end_section M]"

text \<open>The loop; the result says whether it ended at \<open>out_error\<close>.\<close>

fun nfs4_state_manager :: "'w manager_env \<Rightarrow> nat \<Rightarrow> 'w nfs_client \<Rightarrow> (int option \<times> 'w nfs_client) option" where
  "nfs4_state_manager M 0 clp = None"
| "nfs4_state_manager M (Suc n) clp =
     (case manager_pass M n clp of
        None \<Rightarrow> None
      | Some (Failed status, clp) \<Rightarrow>
          Some (Some status, (nfs4_clear_state_manager_bit (nfs4_end_drain_session M clp))\<lparr>cl_threads := cl_threads clp - 1\<rparr>)
      | Some (Break, clp) \<Rightarrow> Some (None, clp)
      | Some (Continue, clp) \<Rightarrow> if cl_count clp > 1 then nfs4_state_manager M n clp else Some (None, clp))"

definition nfs4_run_state_manager :: "'w manager_env \<Rightarrow> nat \<Rightarrow> 'w nfs_client \<Rightarrow> 'w nfs_client option" where
  "nfs4_run_state_manager M n clp = map_option (\<lambda>(r, clp). nfs_put_client (me_client M) clp) (nfs4_state_manager M n clp)"

end
