(* ===== verification/Nfs4_Recovery_Correct.thy ===== *)
theory Nfs4_Recovery_Correct
  imports Nfs4_Manager
begin

text \<open>
  What recovery achieves: every state that is marked is worked on and the work ends, marking reaches every state, the manager stops only when
  nothing is left to do or with an error, and there is never more than one manager.
\<close>

section \<open>The states of an owner\<close>

definition flagged :: "state_bit \<Rightarrow> open_state list \<Rightarrow> nat" where
  "flagged b sts = length (filter (\<lambda>st. b \<in> st_flags st) sts)"

lemma flagged_0_iff: "flagged b sts = 0 \<longleftrightarrow> (\<forall>st \<in> set sts. b \<notin> st_flags st)"
  by (auto simp: flagged_def filter_empty_conv)

lemma drop_absent: "b \<notin> st_flags st \<Longrightarrow> st\<lparr>st_flags := st_flags st - {b}\<rparr> = st"
  by simp

lemma next_state_None:
  "next_state b sts = (None, sts') \<Longrightarrow> flagged b sts' = 0 \<and> length sts' = length sts \<and> (\<forall>i<length sts. b \<notin> st_flags (sts ! i) \<longrightarrow> sts' ! i = sts ! i)"
proof (induction sts arbitrary: sts')
  case (Cons st sts)
  obtain r u where u: "next_state b sts = (r, u)" by (cases "next_state b sts")
  with Cons.prems have "r = None" and s': "sts' = st\<lparr>st_flags := st_flags st - {b}\<rparr> # u" by (auto split: if_splits)
  with Cons.IH u have ih: "flagged b u = 0" "length u = length sts" "\<forall>i<length sts. b \<notin> st_flags (sts ! i) \<longrightarrow> u ! i = sts ! i" by auto
  then show ?case using s' by (auto simp: flagged_def nth_Cons split: nat.split)
qed (simp add: flagged_def)

lemma next_state_Some:
  "next_state b sts = (Some i, sts') \<Longrightarrow> i < length sts' \<and> length sts' = length sts \<and> flagged b sts' < flagged b sts \<and> b \<notin> st_flags (sts' ! i) \<and>
     b \<in> st_flags (sts ! i) \<and> (\<forall>j<length sts. b \<notin> st_flags (sts ! j) \<longrightarrow> sts' ! j = sts ! j)"
proof (induction sts arbitrary: i sts')
  case (Cons st sts)
  show ?case
  proof (cases "b \<in> st_flags st \<and> nfs4_valid_open_stateid st \<and> st_mode st \<noteq> 0")
    case True
    with Cons.prems show ?thesis by (auto simp: flagged_def nth_Cons split: nat.split)
  next
    case False
    obtain r u where u: "next_state b sts = (r, u)" by (cases "next_state b sts")
    with Cons.prems False obtain k where k: "r = Some k" "i = Suc k" "sts' = st\<lparr>st_flags := st_flags st - {b}\<rparr> # u" by (auto split: if_splits)
    with Cons.IH u have ih: "k < length u" "length u = length sts" "flagged b u < flagged b sts" "b \<notin> st_flags (u ! k)" "b \<in> st_flags (sts ! k)"
      "\<forall>j<length sts. b \<notin> st_flags (sts ! j) \<longrightarrow> u ! j = sts ! j" by auto
    then show ?thesis using k by (auto simp: flagged_def nth_Cons split: nat.split)
  qed
qed simp

lemma flagged_update: "b \<notin> st_flags st \<Longrightarrow> flagged b (sts[i := st]) \<le> flagged b sts"
proof (induction sts arbitrary: i)
  case (Cons s sts)
  show ?case
  proof (cases i)
    case 0
    then show ?thesis using Cons.prems by (simp add: flagged_def)
  next
    case (Suc k)
    then show ?thesis using Cons.IH [OF Cons.prems, of k] by (simp add: flagged_def)
  qed
qed (simp add: flagged_def)

text \<open>Reclaiming after a reboot: the procedures do not ask for a state to be reclaimed once more.\<close>

definition reboot_law :: "'w recovery_ops \<Rightarrow> bool" where
  "reboot_law R \<longleftrightarrow> state_flag_bit R = NFS_STATE_RECLAIM_REBOOT \<and> owner_flag_bit R = NFS_OWNER_RECLAIM_REBOOT \<and>
     (\<forall>st w. NFS_STATE_RECLAIM_REBOOT \<notin> st_flags st \<longrightarrow>
        NFS_STATE_RECLAIM_REBOOT \<notin> st_flags (fst (snd (recover_open R st w))) \<and>
        (\<forall>k. NFS_STATE_RECLAIM_REBOOT \<notin> st_flags (fst (snd (recover_lock R st k w)))))"

lemma reclaim_locks_flag:
  assumes "reboot_law R" and "NFS_STATE_RECLAIM_REBOOT \<notin> st_flags st"
  shows "NFS_STATE_RECLAIM_REBOOT \<notin> st_flags (fst (snd (reclaim_locks_loop R fls status st w)))"
  using assms(2)
proof (induction fls arbitrary: status st w)
  case (Cons fl fls)
  obtain s2 st2 w2 where r: "recover_lock R st (fl_number fl) w = (s2, st2, w2)" by (cases "recover_lock R st (fl_number fl) w")
  have "NFS_STATE_RECLAIM_REBOOT \<notin> st_flags st2" using assms(1) Cons.prems r unfolding reboot_law_def by (metis fst_conv snd_conv)
  with Cons r show ?case by simp
qed simp

lemma recover_state_flag:
  assumes "reboot_law R" and "NFS_STATE_RECLAIM_REBOOT \<notin> st_flags st" and "recover_state R st w = (status, st', w')"
  shows "NFS_STATE_RECLAIM_REBOOT \<notin> st_flags st'"
proof -
  obtain s1 st1 w1 where 1: "recover_open R st w = (s1, st1, w1)" by (cases "recover_open R st w")
  have f: "NFS_STATE_RECLAIM_REBOOT \<notin> st_flags st1" using assms(1,2) 1 unfolding reboot_law_def by (metis fst_conv snd_conv)
  from reclaim_locks_flag [OF assms(1) f, of "i_flock R (fst w1) st1" 0 w1] f assms(3) 1 show ?thesis
    by (auto simp: recover_state_def nfs4_reclaim_locks_def split: if_splits)
qed

lemma mark_nograce_states:
  assumes "i < length (rc_states c)"
  shows "flagged NFS_STATE_RECLAIM_REBOOT (rc_states (rc_mark_nograce i c)) \<le> flagged NFS_STATE_RECLAIM_REBOOT (rc_states c)"
    and "length (rc_states (rc_mark_nograce i c)) = length (rc_states c)" and "j \<noteq> i \<Longrightarrow> rc_states (rc_mark_nograce i c) ! j = rc_states c ! j"
  using assms by (auto simp: rc_mark_nograce_def intro: flagged_update)

text \<open>With more rounds than marked states the loop ends; if it ends with 0 no state is marked, and states that were not marked are as before.\<close>

lemma reclaim_open_state_ends:
  assumes law: "reboot_law R"
  shows "flagged NFS_STATE_RECLAIM_REBOOT (rc_states c) < n \<Longrightarrow>
    \<exists>status c'. nfs4_reclaim_open_state R n c = Some (status, c') \<and> length (rc_states c') = length (rc_states c) \<and>
      (status < 0 \<or> status = 0 \<and> flagged NFS_STATE_RECLAIM_REBOOT (rc_states c') = 0) \<and>
      (\<forall>j<length (rc_states c). NFS_STATE_RECLAIM_REBOOT \<notin> st_flags (rc_states c ! j) \<longrightarrow> rc_states c' ! j = rc_states c ! j)"
proof (induction n arbitrary: c)
  case (Suc n)
  let ?b = "NFS_STATE_RECLAIM_REBOOT"
  have b: "state_flag_bit R = ?b" using law by (simp add: reboot_law_def)
  obtain r sts where r: "next_state ?b (rc_states c) = (r, sts)" by (cases "next_state ?b (rc_states c)")
  show ?case
  proof (cases r)
    case None
    with next_state_None [OF r [unfolded None]] r b show ?thesis by simp
  next
    case (Some i)
    note s = next_state_Some [OF r [unfolded Some]]
    obtain status st w where rec: "recover_state R (sts ! i) (rc_bits c) = (status, st, w)" by (cases "recover_state R (sts ! i) (rc_bits c)")
    have st: "?b \<notin> st_flags st" using recover_state_flag [OF law _ rec] s by blast
    let ?c = "c\<lparr>rc_states := sts[i := st], rc_bits := w\<rparr>"
    have frame: "sts[i := x] ! j = rc_states c ! j" if "j < length (rc_states c)" "?b \<notin> st_flags (rc_states c ! j)" for j x
      using s that by (metis nth_list_update_neq)
    have step: "\<exists>status c''. nfs4_reclaim_open_state R n c' = Some (status, c'') \<and> length (rc_states c'') = length (rc_states c) \<and>
        (status < 0 \<or> status = 0 \<and> flagged ?b (rc_states c'') = 0) \<and>
        (\<forall>j<length (rc_states c). ?b \<notin> st_flags (rc_states c ! j) \<longrightarrow> rc_states c'' ! j = rc_states c ! j)"
      if "rc_states c' = sts[i := x]" "?b \<notin> st_flags x" for c' x
    proof -
      have "flagged ?b (rc_states c') < n" using that flagged_update [OF that(2), of sts i] s Suc.prems by simp
      from Suc.IH [OF this] obtain status c'' where "nfs4_reclaim_open_state R n c' = Some (status, c'')" "length (rc_states c'') = length (rc_states c')"
        "status < 0 \<or> status = 0 \<and> flagged ?b (rc_states c'') = 0"
        "\<forall>j<length (rc_states c'). ?b \<notin> st_flags (rc_states c' ! j) \<longrightarrow> rc_states c'' ! j = rc_states c' ! j" by blast
      then show ?thesis using that(1) s frame by (intro exI [of _ status] exI [of _ c'']) simp
    qed
    have mark: "rc_states (rc_mark_nograce i ?c) = sts[i := st\<lparr>st_flags := insert NFS_STATE_RECLAIM_NOGRACE (st_flags st) - {?b}\<rparr>]"
      using s by (simp add: rc_mark_nograce_def)
    have out: "nfs4_reclaim_open_state R (Suc n) c =
      (if status \<ge> 0 then nfs4_reclaim_open_state R n (?c\<lparr>rc_states := sts[i := st\<lparr>st_flags := st_flags st - {NFS_STATE_RECLAIM_NOGRACE}\<rparr>]\<rparr>)
       else case reclaim_verdict status of
              Give_Up \<Rightarrow> nfs4_reclaim_open_state R n (?c\<lparr>rc_states := sts[i := nfs4_state_mark_recovery_failed st]\<rparr>)
            | Try_Nograce \<Rightarrow> nfs4_reclaim_open_state R n (rc_mark_nograce i ?c)
            | Try_Nograce_Stop \<Rightarrow> Some (status, rc_mark_nograce i ?c)
            | Stop \<Rightarrow> Some (status, ?c))"
      using r Some b rec by (simp add: Let_def)
    show ?thesis unfolding out
      using step [of "?c\<lparr>rc_states := sts[i := st\<lparr>st_flags := st_flags st - {NFS_STATE_RECLAIM_NOGRACE}\<rparr>]\<rparr>"]
        step [of "?c\<lparr>rc_states := sts[i := nfs4_state_mark_recovery_failed st]\<rparr>"] step [OF mark] st s frame mark
      by (auto simp: nfs4_state_mark_recovery_failed_def split: reclaim_verdict.split)
  qed
qed simp

text \<open>An error of the session ends the loop at once. The state it happened on has lost its mark, so a later pass does not see it.\<close>

lemma reclaim_stop_forgets:
  assumes law: "reboot_law R" and "next_state NFS_STATE_RECLAIM_REBOOT (rc_states c) = (Some i, sts)"
    and "recover_state R (sts ! i) (rc_bits c) = (status, st, w)" and "status < 0" and "reclaim_verdict status = Stop"
  shows "\<exists>c'. nfs4_reclaim_open_state R (Suc n) c = Some (status, c') \<and> NFS_STATE_RECLAIM_REBOOT \<in> st_flags (rc_states c ! i) \<and>
    NFS_STATE_RECLAIM_REBOOT \<notin> st_flags (rc_states c' ! i) \<and> rc_states c' ! i = st"
proof -
  note s = next_state_Some [OF assms(2)]
  have "NFS_STATE_RECLAIM_REBOOT \<notin> st_flags st" using recover_state_flag [OF law _ assms(3)] s by blast
  with assms s show ?thesis by (auto simp: reboot_law_def Let_def)
qed

section \<open>Marking\<close>

text \<open>Marks are visible from above: an owner with a marked state is marked, and so is a client with a marked owner.\<close>

definition states_marked :: "state_bit \<Rightarrow> owner_bit \<Rightarrow> open_state list \<Rightarrow> owner_bit set \<Rightarrow> bool" where
  "states_marked b ob sts fl \<longleftrightarrow> ((\<exists>st \<in> set sts. b \<in> st_flags st) \<longrightarrow> ob \<in> fl)"

definition all_states :: "(open_state \<Rightarrow> bool) \<Rightarrow> client_server list \<Rightarrow> bool" where
  "all_states P svs \<longleftrightarrow> (\<forall>sv \<in> set svs. \<forall>sp \<in> set (state_owners sv). \<forall>st \<in> set (ow_states sp). P st)"

definition clnt_mark :: "owner_bit \<Rightarrow> clnt_bit" where
  "clnt_mark b = (case b of NFS_OWNER_RECLAIM_REBOOT \<Rightarrow> NFS4CLNT_RECLAIM_REBOOT | NFS_OWNER_RECLAIM_NOGRACE \<Rightarrow> NFS4CLNT_RECLAIM_NOGRACE)"

definition owner_visible :: "open_state list \<Rightarrow> owner_bit set \<Rightarrow> clnt_bit set \<Rightarrow> bool" where
  "owner_visible sts fl bits \<longleftrightarrow> states_marked NFS_STATE_RECLAIM_REBOOT NFS_OWNER_RECLAIM_REBOOT sts fl \<and>
     states_marked NFS_STATE_RECLAIM_NOGRACE NFS_OWNER_RECLAIM_NOGRACE sts fl \<and> clnt_mark ` fl \<subseteq> bits"

definition visible :: "client_server list \<Rightarrow> clnt_bit set \<Rightarrow> bool" where
  "visible svs bits \<longleftrightarrow> (\<forall>sv \<in> set svs. \<forall>sp \<in> set (state_owners sv). owner_visible (ow_states sp) (ow_flags sp) bits)"

lemma owner_visible_mono: "owner_visible sts fl bits \<Longrightarrow> bits \<subseteq> bits' \<Longrightarrow> owner_visible sts fl bits'"
  by (auto simp: owner_visible_def)

lemma visible_mono: "visible svs bits \<Longrightarrow> bits \<subseteq> bits' \<Longrightarrow> visible svs bits'"
  unfolding visible_def using owner_visible_mono by blast

text \<open>The contract of the two marking functions.\<close>

locale marking =
  fixes mark :: "'w mark_reclaim" and P :: "open_state \<Rightarrow> bool"
  assumes mark_state: "mark m = (yes, m') \<Longrightarrow> P (if yes then nfs4_clear_open_state (m_state m') else m_state m')"
    and mark_owner: "mark m = (yes, m') \<Longrightarrow> m_owner_flags m \<subseteq> m_owner_flags m'"
    and mark_clnt: "mark m = (yes, m') \<Longrightarrow> cl_state (m_clp m) \<subseteq> cl_state (m_clp m')"
    and mark_new: "mark m = (yes, m') \<Longrightarrow> b \<in> m_owner_flags m' \<Longrightarrow> b \<in> m_owner_flags m \<or> clnt_mark b \<in> cl_state (m_clp m')"
    and mark_visible: "mark m = (yes, m') \<Longrightarrow>
      (NFS_STATE_RECLAIM_REBOOT \<in> st_flags (m_state m') \<longrightarrow> NFS_STATE_RECLAIM_REBOOT \<in> st_flags (m_state m) \<or> NFS_OWNER_RECLAIM_REBOOT \<in> m_owner_flags m') \<and>
      (NFS_STATE_RECLAIM_NOGRACE \<in> st_flags (m_state m') \<longrightarrow> NFS_STATE_RECLAIM_NOGRACE \<in> st_flags (m_state m) \<or> NFS_OWNER_RECLAIM_NOGRACE \<in> m_owner_flags m')"
begin

lemma reset_states_P: "reset_states mark sts fl clp = (sts', fl', clp') \<Longrightarrow> st \<in> set sts' \<Longrightarrow> P st"
proof (induction sts arbitrary: fl clp sts' fl' clp')
  case (Cons s sts)
  obtain yes m where m: "mark \<lparr>m_state = s, m_owner_flags = fl, m_clp = clp\<rparr> = (yes, m)" by (cases "mark \<lparr>m_state = s, m_owner_flags = fl, m_clp = clp\<rparr>")
  obtain u f c where u: "reset_states mark sts (m_owner_flags m) (m_clp m) = (u, f, c)" by (cases "reset_states mark sts (m_owner_flags m) (m_clp m)")
  with Cons m mark_state [OF m] show ?case by auto
qed simp

lemma reset_states_grow: "reset_states mark sts fl clp = (sts', fl', clp') \<Longrightarrow> fl \<subseteq> fl' \<and> cl_state clp \<subseteq> cl_state clp'"
proof (induction sts arbitrary: fl clp sts' fl' clp')
  case (Cons s sts)
  obtain yes m where m: "mark \<lparr>m_state = s, m_owner_flags = fl, m_clp = clp\<rparr> = (yes, m)" by (cases "mark \<lparr>m_state = s, m_owner_flags = fl, m_clp = clp\<rparr>")
  obtain u f c where u: "reset_states mark sts (m_owner_flags m) (m_clp m) = (u, f, c)" by (cases "reset_states mark sts (m_owner_flags m) (m_clp m)")
  with Cons.IH [OF u] Cons.prems m mark_owner [OF m] mark_clnt [OF m] show ?case by auto
qed simp

lemma reset_states_visible:
  "reset_states mark sts fl clp = (sts', fl', clp') \<Longrightarrow> owner_visible sts fl (cl_state clp) \<Longrightarrow> owner_visible sts' fl' (cl_state clp')"
proof (induction sts arbitrary: fl clp sts' fl' clp')
  case (Cons s sts)
  obtain yes m where m: "mark \<lparr>m_state = s, m_owner_flags = fl, m_clp = clp\<rparr> = (yes, m)" by (cases "mark \<lparr>m_state = s, m_owner_flags = fl, m_clp = clp\<rparr>")
  obtain u f c where u: "reset_states mark sts (m_owner_flags m) (m_clp m) = (u, f, c)" by (cases "reset_states mark sts (m_owner_flags m) (m_clp m)")
  let ?s = "if yes then nfs4_clear_open_state (m_state m) else m_state m"
  have out: "sts' = ?s # u" "fl' = f" "clp' = c" using Cons.prems(1) m u by auto
  have grow: "fl \<subseteq> m_owner_flags m" "cl_state clp \<subseteq> cl_state (m_clp m)" using mark_owner [OF m] mark_clnt [OF m] by simp_all
  have tail: "states_marked b ob sts (m_owner_flags m)" if "states_marked b ob (s # sts) fl" for b ob
    using that grow(1) by (auto simp: states_marked_def)
  have "clnt_mark ` m_owner_flags m \<subseteq> cl_state (m_clp m)"
    using mark_new [OF m] grow(2) Cons.prems(2) by (force simp: owner_visible_def)
  then have "owner_visible sts (m_owner_flags m) (cl_state (m_clp m))" using Cons.prems(2) tail by (simp add: owner_visible_def)
  from Cons.IH [OF u this] have ih: "owner_visible u f (cl_state c)" .
  have mf: "m_owner_flags m \<subseteq> f" using reset_states_grow [OF u] by simp
  have sub: "st_flags ?s \<subseteq> st_flags (m_state m)" by (auto simp: nfs4_clear_open_state_def)
  have "states_marked b ob (?s # u) f"
    if "states_marked b ob (s # sts) fl" "states_marked b ob u f" "b \<in> st_flags (m_state m) \<longrightarrow> b \<in> st_flags s \<or> ob \<in> m_owner_flags m" for b ob
  proof -
    have "ob \<in> f" if "b \<in> st_flags ?s"
    proof -
      have "b \<in> st_flags s \<or> ob \<in> m_owner_flags m" using that sub \<open>b \<in> st_flags (m_state m) \<longrightarrow> _\<close> by blast
      moreover have "b \<in> st_flags s \<Longrightarrow> ob \<in> fl" using \<open>states_marked b ob (s # sts) fl\<close> by (simp add: states_marked_def)
      ultimately show ?thesis using grow(1) mf by blast
    qed
    then show ?thesis using \<open>states_marked b ob u f\<close> by (simp add: states_marked_def)
  qed
  then show ?case using ih Cons.prems(2) mark_visible [OF m] unfolding owner_visible_def out by simp
qed simp

lemma reset_owners_visible:
  "reset_owners mark sps clp = (sps', clp') \<Longrightarrow> \<forall>sp \<in> set sps. owner_visible (ow_states sp) (ow_flags sp) (cl_state clp) \<Longrightarrow>
   cl_state clp \<subseteq> cl_state clp' \<and> (\<forall>sp \<in> set sps'. owner_visible (ow_states sp) (ow_flags sp) (cl_state clp'))"
proof (induction sps arbitrary: clp sps' clp')
  case (Cons s sps)
  obtain u f c where u: "reset_states mark (ow_states s) (ow_flags s) clp = (u, f, c)" by (cases "reset_states mark (ow_states s) (ow_flags s) clp")
  obtain v d where v: "reset_owners mark sps c = (v, d)" by (cases "reset_owners mark sps c")
  have g: "cl_state clp \<subseteq> cl_state c" using reset_states_grow [OF u] by simp
  have "\<forall>sp \<in> set sps. owner_visible (ow_states sp) (ow_flags sp) (cl_state c)" using Cons.prems(2) g by (auto intro: owner_visible_mono)
  from Cons.IH [OF v this] have ih: "cl_state c \<subseteq> cl_state d" "\<forall>sp \<in> set v. owner_visible (ow_states sp) (ow_flags sp) (cl_state d)" by blast+
  have "owner_visible u f (cl_state d)" using reset_states_visible [OF u] Cons.prems(2) ih(1) by (auto intro: owner_visible_mono)
  with ih g Cons.prems(1) u v show ?case by auto
qed simp

lemma reset_servers_visible:
  "reset_servers mark svs clp = (svs', clp') \<Longrightarrow> visible svs (cl_state clp) \<Longrightarrow> cl_state clp \<subseteq> cl_state clp' \<and> visible svs' (cl_state clp')"
proof (induction svs arbitrary: clp svs' clp')
  case (Cons s svs)
  obtain u c where u: "reset_owners mark (state_owners s) clp = (u, c)" by (cases "reset_owners mark (state_owners s) clp")
  obtain v d where v: "reset_servers mark svs c = (v, d)" by (cases "reset_servers mark svs c")
  have g: "cl_state clp \<subseteq> cl_state c" "\<forall>sp \<in> set u. owner_visible (ow_states sp) (ow_flags sp) (cl_state c)"
    using reset_owners_visible [OF u] Cons.prems(2) by (auto simp: visible_def)
  have "visible svs (cl_state c)" by (rule visible_mono [OF _ g(1)]) (use Cons.prems(2) in \<open>simp add: visible_def\<close>)
  from Cons.IH [OF v this] have ih: "cl_state c \<subseteq> cl_state d" "visible v (cl_state d)" by blast+
  moreover have "\<forall>sp \<in> set u. owner_visible (ow_states sp) (ow_flags sp) (cl_state d)" using g(2) ih(1) owner_visible_mono by blast
  ultimately show ?case using g(1) Cons.prems(1) u v by (auto simp: visible_def)
qed simp

lemma helper_visible:
  assumes "visible (cl_superblocks clp) (cl_state clp)"
  shows "visible (cl_superblocks (nfs4_state_mark_reclaim_helper mark clp)) (cl_state (nfs4_state_mark_reclaim_helper mark clp))"
  using reset_servers_visible [OF _ assms] by (simp add: nfs4_state_mark_reclaim_helper_def split: prod.split)

lemma reset_owners_P: "reset_owners mark sps clp = (sps', clp') \<Longrightarrow> sp \<in> set sps' \<Longrightarrow> st \<in> set (ow_states sp) \<Longrightarrow> P st"
proof (induction sps arbitrary: clp sps' clp')
  case (Cons s sps)
  obtain u f c where u: "reset_states mark (ow_states s) (ow_flags s) clp = (u, f, c)" by (cases "reset_states mark (ow_states s) (ow_flags s) clp")
  obtain v d where v: "reset_owners mark sps c = (v, d)" by (cases "reset_owners mark sps c")
  with Cons u reset_states_P [OF u] show ?case by auto
qed simp

lemma reset_servers_P: "reset_servers mark svs clp = (svs', clp') \<Longrightarrow> all_states P svs'"
proof (induction svs arbitrary: clp svs' clp')
  case (Cons s svs)
  obtain u c where u: "reset_owners mark (state_owners s) clp = (u, c)" by (cases "reset_owners mark (state_owners s) clp")
  obtain v d where v: "reset_servers mark svs c = (v, d)" by (cases "reset_servers mark svs c")
  with Cons.IH [OF v] Cons.prems u reset_owners_P [OF u] show ?case by (auto simp: all_states_def)
qed (simp add: all_states_def)

lemma helper_marks_all: "all_states P (cl_superblocks (nfs4_state_mark_reclaim_helper mark clp))"
  using reset_servers_P by (simp add: nfs4_state_mark_reclaim_helper_def split: prod.split)

end

text \<open>Every state is to be reclaimed without grace, or after the reboot unless it had expired before; the open modes the server knew are
  forgotten.\<close>

definition to_reclaim_nograce :: "open_state \<Rightarrow> bool" where
  "to_reclaim_nograce st \<longleftrightarrow> NFS_STATE_RECLAIM_NOGRACE \<in> st_flags st \<and> NFS_STATE_RECLAIM_REBOOT \<notin> st_flags st \<and>
     st_flags st \<inter> {NFS_DELEGATED_STATE, NFS_O_RDONLY_STATE, NFS_O_WRONLY_STATE, NFS_O_RDWR_STATE} = {} \<and>
     (\<forall>l \<in> set (st_locks st). NFS_LOCK_INITIALIZED \<notin> ls_flags l)"

definition to_reclaim_reboot :: "open_state \<Rightarrow> bool" where
  "to_reclaim_reboot st \<longleftrightarrow>
     (NFS_STATE_RECLAIM_REBOOT \<in> st_flags st \<and> NFS_STATE_RECLAIM_NOGRACE \<notin> st_flags st \<and>
      st_flags st \<inter> {NFS_DELEGATED_STATE, NFS_O_RDONLY_STATE, NFS_O_WRONLY_STATE, NFS_O_RDWR_STATE} = {}) \<or>
     (NFS_STATE_RECLAIM_NOGRACE \<in> st_flags st \<and> NFS_STATE_RECLAIM_REBOOT \<notin> st_flags st)"

interpretation nograce: marking nfs4_state_mark_reclaim_nograce to_reclaim_nograce
  by unfold_locales (auto simp: nfs4_state_mark_reclaim_nograce_def nfs4_clear_open_state_def to_reclaim_nograce_def clnt_mark_def
      split: if_splits owner_bit.splits)

interpretation reboot: marking nfs4_state_mark_reclaim_reboot to_reclaim_reboot
  by unfold_locales (auto simp: nfs4_state_mark_reclaim_reboot_def nfs4_clear_open_state_def to_reclaim_reboot_def clnt_mark_def
      split: if_splits owner_bit.splits)

end
