(* ===== verification/Nfs4_Manager_Correct.thy ===== *)
theory Nfs4_Manager_Correct
  imports Nfs4_Recovery_Correct
begin

text \<open>
  The state manager owns the client while it runs: nothing it does, and nothing the rest of the kernel does meanwhile, takes away the manager bit or
  starts a second manager. When it stops it has given the bit back, and it stops without an error only when there is nothing left to do
  (or nobody but the manager uses the client any more).
\<close>

section \<open>While the manager runs\<close>

definition busy :: "'w nfs_client \<Rightarrow> bool" where
  "busy clp \<longleftrightarrow> NFS4CLNT_MANAGER_RUNNING \<in> cl_state clp \<and> cl_threads clp = 1"

definition keeps :: "('w nfs_client \<Rightarrow> 'w nfs_client) \<Rightarrow> bool" where
  "keeps f \<longleftrightarrow> (\<forall>clp. busy clp \<longrightarrow> busy (f clp))"

definition keeps_bits :: "('w bits \<Rightarrow> int \<times> open_state \<times> 'w bits) \<Rightarrow> bool" where
  "keeps_bits f \<longleftrightarrow> (\<forall>w. NFS4CLNT_MANAGER_RUNNING \<in> snd w \<longrightarrow> NFS4CLNT_MANAGER_RUNNING \<in> snd (snd (snd (f w))))"

definition quiet_ops :: "'w recovery_ops \<Rightarrow> bool" where
  "quiet_ops R \<longleftrightarrow> (\<forall>st. keeps_bits (recover_open R st) \<and> (\<forall>k. keeps_bits (recover_lock R st k)))"

text \<open>The rest of the kernel leaves the manager bit of a running manager alone: whoever wants a manager finds that there is one.\<close>

definition quiet :: "'w manager_env \<Rightarrow> bool" where
  "quiet M \<longleftrightarrow> (\<forall>f \<in> {snd \<circ> wait_complete M, nfs41_wake_slot_table M, snd \<circ> renew_lease_op M, snd \<circ> establish_clid M,
       pnfs_destroy_all_layouts M, snd \<circ> nfs4_proc_destroy_session M, snd \<circ> nfs4_proc_create_session M, snd \<circ> nfs4_proc_bind_conn_to_session M,
       nfs41_setup_state_renewal M, nfs_client_return_marked_delegations M, nfs_expire_all_delegations (me_client M),
       nfs_delegation_mark_reclaim (me_client M), nfs_delegation_reap_unclaimed (me_client M)}. keeps f) \<and>
     (\<forall>i. keeps (\<lambda>c. snd (snd (nfs4_proc_get_locations M i c))) \<and> keeps (snd \<circ> nfs4_replace_transport M i) \<and> keeps (snd \<circ> nfs4_proc_fsid_present M i)) \<and>
     (\<forall>e. keeps (nfs_mark_client_ready M e)) \<and> (\<forall>f. reclaim_complete_op M = Some f \<longrightarrow> keeps f) \<and>
     quiet_ops (reboot_recovery_ops M) \<and> quiet_ops (nograce_recovery_ops M)"

named_theorems busy_rules

lemma busy_bits [busy_rules]:
  "busy clp \<Longrightarrow> busy (set_bit_clnt b clp)" "busy clp \<Longrightarrow> b \<noteq> NFS4CLNT_MANAGER_RUNNING \<Longrightarrow> busy (clear_bit_clnt b clp)"
  by (simp_all add: busy_def)

lemma busy_fields [simp]:
  "busy (clp\<lparr>cl_superblocks := x\<rparr>) = busy clp" "busy (clp\<lparr>cl_tables := t\<rparr>) = busy clp" "busy (clp\<lparr>cl_mig_gen := g\<rparr>) = busy clp"
  "busy (upd_server i f clp) = busy clp"
  by (simp_all add: busy_def upd_server_def)

lemma quiet_client [busy_rules]:
  assumes "quiet M" and "busy clp"
  shows "busy (nfs_expire_all_delegations (me_client M) clp)" "busy (nfs_delegation_mark_reclaim (me_client M) clp)"
    "busy (nfs_delegation_reap_unclaimed (me_client M) clp)"
  using assms by (simp_all add: quiet_def keeps_def)

lemma quiet_simple [busy_rules]:
  assumes "quiet M" and "busy clp"
  shows "busy (nfs41_wake_slot_table M clp)" "busy (pnfs_destroy_all_layouts M clp)" "busy (nfs41_setup_state_renewal M clp)"
    "busy (nfs_client_return_marked_delegations M clp)" "busy (nfs_mark_client_ready M e clp)"
  using assms by (simp_all add: quiet_def keeps_def)

lemma quiet_calls:
  assumes "quiet M" and "busy clp"
  shows "wait_complete M clp = (r, c) \<Longrightarrow> busy c" "renew_lease_op M clp = (r, c) \<Longrightarrow> busy c" "establish_clid M clp = (r, c) \<Longrightarrow> busy c"
    "nfs4_proc_destroy_session M clp = (r, c) \<Longrightarrow> busy c" "nfs4_proc_create_session M clp = (r, c) \<Longrightarrow> busy c"
    "nfs4_proc_bind_conn_to_session M clp = (r, c) \<Longrightarrow> busy c" "nfs4_replace_transport M i clp = (r, c) \<Longrightarrow> busy c"
    "nfs4_proc_fsid_present M i clp = (r, c) \<Longrightarrow> busy c" "nfs4_proc_get_locations M i clp = (r, l, c) \<Longrightarrow> busy c"
    "reclaim_complete_op M = Some f \<Longrightarrow> busy (f clp)"
  using assms unfolding quiet_def keeps_def comp_def by (auto dest!: spec [of _ clp] spec [of _ i])

section \<open>Recovery keeps it busy\<close>

lemma busy_mark: "busy (m_clp m) \<Longrightarrow> busy (m_clp (snd (nfs4_state_mark_reclaim_reboot m)))" "busy (m_clp m) \<Longrightarrow> busy (m_clp (snd (nfs4_state_mark_reclaim_nograce m)))"
  by (simp_all add: nfs4_state_mark_reclaim_reboot_def nfs4_state_mark_reclaim_nograce_def busy_bits)

lemma busy_reset_states:
  assumes "\<And>m. busy (m_clp m) \<Longrightarrow> busy (m_clp (snd (mark m)))"
  shows "busy clp \<Longrightarrow> busy (snd (snd (reset_states mark sts fl clp)))"
proof (induction sts arbitrary: fl clp)
  case (Cons st sts)
  from assms [of "\<lparr>m_state = st, m_owner_flags = fl, m_clp = clp\<rparr>"] Cons.prems
  have "busy (m_clp (snd (mark \<lparr>m_state = st, m_owner_flags = fl, m_clp = clp\<rparr>)))" by simp
  from Cons.IH [OF this] show ?case by (simp add: case_prod_beta)
qed simp

lemma busy_reset_owners:
  assumes "\<And>m. busy (m_clp m) \<Longrightarrow> busy (m_clp (snd (mark m)))"
  shows "busy clp \<Longrightarrow> busy (snd (reset_owners mark sps clp))"
proof (induction sps arbitrary: clp)
  case (Cons sp sps)
  from Cons.IH [OF busy_reset_states [OF assms Cons.prems, where sts = "ow_states sp" and fl = "ow_flags sp"]] show ?case by (simp add: case_prod_beta)
qed simp

lemma busy_reset_servers:
  assumes "\<And>m. busy (m_clp m) \<Longrightarrow> busy (m_clp (snd (mark m)))"
  shows "busy clp \<Longrightarrow> busy (snd (reset_servers mark svs clp))"
proof (induction svs arbitrary: clp)
  case (Cons sv svs)
  from Cons.IH [OF busy_reset_owners [OF assms Cons.prems, where sps = "state_owners sv"]] show ?case by (simp add: case_prod_beta)
qed simp

lemma busy_start_reclaim [busy_rules]:
  assumes "quiet M" and "busy clp"
  shows "busy (nfs4_state_start_reclaim_reboot (me_client M) clp)" "busy (nfs4_state_start_reclaim_nograce (me_client M) clp)"
proof -
  have helper: "busy (nfs4_state_mark_reclaim_helper mark c)" if "busy c" "\<And>m. busy (m_clp m) \<Longrightarrow> busy (m_clp (snd (mark m)))" for mark and c :: "'a nfs_client"
    using busy_reset_servers [OF that(2,1)] by (simp add: nfs4_state_mark_reclaim_helper_def case_prod_beta)
  show "busy (nfs4_state_start_reclaim_reboot (me_client M) clp)"
    unfolding nfs4_state_start_reclaim_reboot_def by (intro helper quiet_client assms busy_mark)
  show "busy (nfs4_state_start_reclaim_nograce (me_client M) clp)"
    unfolding nfs4_state_start_reclaim_nograce_def nfs_delegation_clear_all_def by (intro helper quiet_client assms busy_mark)
qed

lemma busy_clear_states: "busy clp \<Longrightarrow> busy (snd (snd (clear_reclaim_states sts fl clp)))"
proof (induction sts arbitrary: fl clp)
  case (Cons st sts)
  have "busy (m_clp (snd (clear_reclaim_mark \<lparr>m_state = st, m_owner_flags = fl, m_clp = clp\<rparr>)))"
    using Cons.prems busy_mark(2) [of "\<lparr>m_state = st, m_owner_flags = fl, m_clp = clp\<rparr>"] by (simp add: clear_reclaim_mark_def)
  from Cons.IH [OF this] show ?case by (simp add: case_prod_beta)
qed simp

lemma busy_clear_owners: "busy clp \<Longrightarrow> busy (snd (clear_reclaim_owners sps clp))"
proof (induction sps arbitrary: clp)
  case (Cons sp sps)
  from Cons.IH [OF busy_clear_states [OF Cons.prems, of "ow_states sp" "ow_flags sp"]] show ?case by (simp add: case_prod_beta)
qed simp

lemma busy_clear_servers: "busy clp \<Longrightarrow> busy (snd (clear_reclaim_servers svs clp))"
proof (induction svs arbitrary: clp)
  case (Cons sv svs)
  from Cons.IH [OF busy_clear_owners [OF Cons.prems, of "state_owners sv"]] show ?case by (simp add: case_prod_beta)
qed simp

lemma busy_clear_reclaim [busy_rules]:
  assumes "quiet M" and "busy clp"
  shows "busy (snd (nfs4_state_clear_reclaim_reboot (me_client M) clp))"
proof -
  have "busy (clear_bit_clnt NFS4CLNT_RECLAIM_REBOOT clp)" using assms(2) by (simp add: busy_def)
  from busy_clear_servers [OF this, of "cl_superblocks clp"] show ?thesis
    using assms(2) by (simp add: nfs4_state_clear_reclaim_reboot_def case_prod_beta quiet_client(3) [OF assms(1)])
qed

lemma busy_end_reclaim [busy_rules]:
  assumes "quiet M" and "busy clp"
  shows "busy (nfs4_state_end_reclaim_reboot M clp)"
  using busy_clear_reclaim [OF assms] quiet_calls(10) [OF assms(1)]
  by (auto simp: nfs4_state_end_reclaim_reboot_def case_prod_beta split: option.split)

lemma busy_handle_error:
  assumes "quiet M" and "busy clp"
  shows "busy (snd (nfs4_recovery_handle_error M e clp))"
  unfolding nfs4_recovery_handle_error_def nfs40_handle_cb_pathdown_def Let_def
  by (simp add: assms busy_end_reclaim busy_start_reclaim busy_clear_reclaim quiet_client busy_bits)

text \<open>Reclaiming the states of an owner works on the bits only.\<close>

abbreviation (input) running :: "'w bits \<Rightarrow> bool" where
  "running w \<equiv> NFS4CLNT_MANAGER_RUNNING \<in> snd w"

lemma quiet_opsD:
  assumes "quiet_ops R" and "running w"
  shows "recover_open R st w = (r, st', w') \<Longrightarrow> running w'" "recover_lock R st k w = (r, st', w') \<Longrightarrow> running w'"
  using assms unfolding quiet_ops_def keeps_bits_def by (metis snd_conv)+

lemma running_locks: "quiet_ops R \<Longrightarrow> running w \<Longrightarrow> running (snd (snd (reclaim_locks_loop R fls status st w)))"
proof (induction fls arbitrary: status st w)
  case (Cons fl fls)
  obtain r st2 w2 where r: "recover_lock R st (fl_number fl) w = (r, st2, w2)" by (cases "recover_lock R st (fl_number fl) w")
  with quiet_opsD(2) [OF Cons.prems] have "running w2" by blast
  with Cons r show ?case by simp
qed simp

lemma running_recover_state:
  assumes "quiet_ops R" and "running w" and "recover_state R st w = (r, st', w')"
  shows "running w'"
proof -
  obtain r1 st1 w1 where 1: "recover_open R st w = (r1, st1, w1)" by (cases "recover_open R st w")
  with quiet_opsD(1) [OF assms(1,2)] have "running w1" by blast
  from running_locks [OF assms(1) this, of "i_flock R (fst w1) st1" 0 st1] this assms(3) 1 show ?thesis
    by (auto simp: recover_state_def nfs4_reclaim_locks_def split: if_splits)
qed

lemma running_reclaim:
  assumes "quiet_ops R"
  shows "running (rc_bits c) \<Longrightarrow> nfs4_reclaim_open_state R n c = Some (status, c') \<Longrightarrow> running (rc_bits c')"
proof (induction n arbitrary: c)
  case (Suc n)
  obtain r sts where r: "next_state (state_flag_bit R) (rc_states c) = (r, sts)" by (cases "next_state (state_flag_bit R) (rc_states c)")
  show ?case
  proof (cases r)
    case None
    with r Suc.prems show ?thesis by auto
  next
    case (Some i)
    obtain s st w where rec: "recover_state R (sts ! i) (rc_bits c) = (s, st, w)" by (cases "recover_state R (sts ! i) (rc_bits c)")
    have w: "running w" by (rule running_recover_state [OF assms Suc.prems(1) rec])
    have go: "nfs4_reclaim_open_state R n d = Some (status, c') \<Longrightarrow> running (rc_bits d) \<Longrightarrow> running (rc_bits c')" for d
      using Suc.IH by blast
    from Suc.prems(2) r Some rec w show ?thesis
      by (auto simp: Let_def rc_mark_nograce_def split: if_splits reclaim_verdict.splits dest!: go)
  qed
qed simp

lemma busy_reclaim_owner:
  assumes "quiet_ops R" and "busy clp" and "reclaim_owner R n p clp = Some (status, clp')"
  shows "busy clp'"
proof -
  let ?c = "\<lparr>rc_flags = ow_flags (get_owner p (cl_superblocks clp)) - {owner_flag_bit R}, rc_states = ow_states (get_owner p (cl_superblocks clp)),
    rc_bits = (cl_world clp, cl_state clp)\<rparr>"
  from assms(3) obtain c where c: "nfs4_reclaim_open_state R n ?c = Some (status, c)"
    and out: "cl_state clp' = snd (rc_bits c)" "cl_threads clp' = cl_threads clp"
    by (auto simp: reclaim_owner_def Let_def split: option.splits)
  have "running (rc_bits ?c)" using assms(2) by (simp add: busy_def)
  from running_reclaim [OF assms(1) this c] out assms(2) show ?thesis by (simp add: busy_def)
qed

lemma busy_do_reclaim:
  assumes "quiet M" and "quiet_ops R"
  shows "busy clp \<Longrightarrow> do_reclaim_loop M R m n clp = Some (status, clp') \<Longrightarrow> busy clp'"
proof (induction n arbitrary: clp)
  case (Suc n)
  obtain r svs where r: "next_owner (owner_flag_bit R) (cl_superblocks clp) = (r, svs)" by (cases "next_owner (owner_flag_bit R) (cl_superblocks clp)")
  show ?case
  proof (cases r)
    case None
    with r Suc.prems show ?thesis by auto
  next
    case (Some p)
    have b: "busy (clp\<lparr>cl_superblocks := svs\<rparr>)" using Suc.prems(1) by simp
    from Suc.prems(2) r Some obtain s c where c: "reclaim_owner R m p (clp\<lparr>cl_superblocks := svs\<rparr>) = Some (s, c)"
      by (auto split: option.splits)
    have "busy c" by (rule busy_reclaim_owner [OF assms(2) b c])
    with Suc.IH [of c] busy_handle_error [OF assms(1), of c s] Suc.prems(2) r Some c show ?thesis
      by (auto split: if_splits prod.splits)
  qed
qed simp

section \<open>The lease, the session, migration\<close>

lemma busy_drain_tbl:
  assumes "quiet M" and "busy clp"
  shows "busy (snd (nfs4_drain_slot_tbl M put tbl clp))"
proof -
  have "busy (clp\<lparr>cl_tables := put (tbl\<lparr>dt_draining := True\<rparr>)\<rparr>)" using assms(2) by simp
  with quiet_calls(1) [OF assms(1) this] show ?thesis by (auto simp: nfs4_drain_slot_tbl_def Let_def) (metis prod.collapse)
qed

lemma busy_begin_drain [busy_rules]:
  assumes "quiet M" and "busy clp"
  shows "busy (snd (nfs4_begin_drain_session M clp))"
proof (cases "cl_tables clp")
  case (V40_Table tbl)
  with busy_drain_tbl [OF assms] show ?thesis by (simp add: nfs4_begin_drain_session_def)
next
  case (Session_Tables bc fc)
  obtain r c where c: "nfs4_drain_slot_tbl M (\<lambda>bc. Session_Tables bc fc) bc clp = (r, c)" by (cases "nfs4_drain_slot_tbl M (\<lambda>bc. Session_Tables bc fc) bc clp")
  have "busy c" using busy_drain_tbl [OF assms, of "\<lambda>bc. Session_Tables bc fc" bc] c by simp
  with busy_drain_tbl [OF assms(1) this] Session_Tables c show ?thesis
    by (simp add: nfs4_begin_drain_session_def split: slot_tables.split)
qed

lemma busy_end_drain [busy_rules]:
  assumes "quiet M" and "busy clp"
  shows "busy (nfs4_end_drain_session M clp)"
proof -
  have t: "busy (nfs4_end_drain_slot_table M put tbl c)" if "busy c" for put tbl c
    using that quiet_simple(1) [OF assms(1)] by (simp add: nfs4_end_drain_slot_table_def)
  show ?thesis using t assms(2) by (simp add: nfs4_end_drain_session_def Let_def split: slot_tables.split)
qed

lemma busy_lease_error:
  assumes "quiet M" and "busy clp"
  shows "busy (snd (nfs4_handle_reclaim_lease_error M status clp))"
  unfolding nfs4_handle_reclaim_lease_error_def
  by (simp add: assms busy_bits busy_start_reclaim quiet_simple)

lemma busy_establish:
  assumes "quiet M" and "busy clp" and "nfs4_establish_lease M clp = (r, c)"
  shows "busy c"
proof -
  have b: "busy (snd (nfs4_begin_drain_session M clp))" by (rule busy_begin_drain [OF assms(1,2)])
  obtain r1 c1 where 1: "establish_clid M (snd (nfs4_begin_drain_session M clp)) = (r1, c1)" by (cases "establish_clid M (snd (nfs4_begin_drain_session M clp))")
  with quiet_calls(3) [OF assms(1) b] have "busy c1" by blast
  with assms(3) b 1 show ?thesis by (auto simp: nfs4_establish_lease_def Let_def quiet_simple [OF assms(1)] split: if_splits)
qed

lemma busy_lease:
  assumes "quiet M" and "busy clp"
  shows "busy (snd (nfs4_reclaim_lease M clp))" "busy (snd (nfs4_purge_lease M clp))" "busy (snd (nfs4_check_lease M clp))"
proof -
  obtain r c where e: "nfs4_establish_lease M clp = (r, c)" by (cases "nfs4_establish_lease M clp")
  have c: "busy c" by (rule busy_establish [OF assms e])
  show "busy (snd (nfs4_reclaim_lease M clp))" "busy (snd (nfs4_purge_lease M clp))"
    using c e by (simp_all add: nfs4_reclaim_lease_def nfs4_purge_lease_def Let_def busy_lease_error busy_start_reclaim busy_bits assms(1))
  obtain r1 c1 where 1: "renew_lease_op M clp = (r1, c1)" by (cases "renew_lease_op M clp")
  with quiet_calls(2) [OF assms] have "busy c1" by blast
  then show "busy (snd (nfs4_check_lease M clp))"
    using 1 assms by (simp add: nfs4_check_lease_def busy_handle_error busy_bits)
qed

lemma busy_session:
  assumes "quiet M" and "busy clp"
  shows "busy (snd (nfs4_reset_session M clp))" "busy (snd (nfs4_bind_conn_to_session M clp))"
proof -
  let ?d = "snd (nfs4_begin_drain_session M clp)"
  have d: "busy ?d" by (rule busy_begin_drain [OF assms])
  obtain r c where c: "nfs4_proc_destroy_session M ?d = (r, c)" by (cases "nfs4_proc_destroy_session M ?d")
  have bc: "busy c" using quiet_calls(4) [OF assms(1) d c] .
  obtain r2 c2 where c2: "nfs4_proc_create_session M c = (r2, c2)" by (cases "nfs4_proc_create_session M c")
  have bc2: "busy c2" using quiet_calls(5) [OF assms(1) bc c2] .
  have "busy (nfs41_finish_session_reset M c2)" using bc2 by (simp add: nfs41_finish_session_reset_def quiet_simple [OF assms(1)] busy_bits)
  then show "busy (snd (nfs4_reset_session M clp))"
    using c c2 bc bc2 assms by (simp add: nfs4_reset_session_def busy_lease_error busy_handle_error busy_bits)
  obtain r3 c3 where c3: "nfs4_proc_bind_conn_to_session M ?d = (r3, c3)" by (cases "nfs4_proc_bind_conn_to_session M ?d")
  have bc3: "busy c3" using quiet_calls(6) [OF assms(1) d c3] .
  then show "busy (snd (nfs4_bind_conn_to_session M clp))"
    using c3 assms by (simp add: nfs4_bind_conn_to_session_def Let_def busy_handle_error busy_bits)
qed

lemma busy_try_migration:
  assumes "quiet M" and "busy clp"
  shows "busy (snd (nfs4_try_migration M i clp))"
proof -
  obtain r l c where c: "nfs4_proc_get_locations M i clp = (r, l, c)" by (cases "nfs4_proc_get_locations M i clp")
  have bc: "busy c" using quiet_calls(9) [OF assms c] .
  let ?d = "snd (nfs4_begin_drain_session M c)"
  have d: "busy ?d" by (rule busy_begin_drain [OF assms(1) bc])
  obtain r2 c2 where c2: "nfs4_replace_transport M i ?d = (r2, c2)" by (cases "nfs4_replace_transport M i ?d")
  have "busy c2" using quiet_calls(7) [OF assms(1) d c2] .
  then show ?thesis using c c2 bc assms(2) by (simp add: nfs4_try_migration_def Let_def)
qed

lemma busy_migration_loop:
  assumes "quiet M"
  shows "busy clp \<Longrightarrow> handle_migration_loop M n clp = Some (r, c) \<Longrightarrow> busy c"
proof (induction n arbitrary: clp)
  case (Suc n)
  show ?case
  proof (cases "unseen_server clp")
    case (Some i)
    let ?c = "see_server i clp"
    let ?d = "upd_server i (\<lambda>sv. sv\<lparr>mig_status := mig_status sv - {NFS_MIG_IN_TRANSITION}\<rparr>) ?c"
    have b: "busy ?c" using Suc.prems(1) by (simp add: see_server_def)
    obtain r2 c2 where t: "nfs4_try_migration M i ?d = (r2, c2)" by (cases "nfs4_try_migration M i ?d")
    have "busy c2" using busy_try_migration [OF assms, of ?d i] b t by simp
    with Suc.IH Suc.prems(2) Some b t show ?thesis by (auto simp: Let_def split: if_splits)
  qed (use Suc.prems in auto)
qed simp

lemma busy_lease_moved_loop:
  assumes "quiet M"
  shows "busy clp \<Longrightarrow> handle_lease_moved_loop M n clp = Some (r, c) \<Longrightarrow> busy c"
proof (induction n arbitrary: clp)
  case (Suc n)
  show ?case
  proof (cases "unseen_server clp")
    case (Some i)
    let ?c = "see_server i clp"
    have b: "busy ?c" using Suc.prems(1) by (simp add: see_server_def)
    obtain r1 c1 where p: "nfs4_proc_fsid_present M i ?c = (r1, c1)" by (cases "nfs4_proc_fsid_present M i ?c")
    have b1: "busy c1" using quiet_calls(8) [OF assms b p] .
    obtain r2 c2 where t: "nfs4_try_migration M i c1 = (r2, c2)" by (cases "nfs4_try_migration M i c1")
    have "busy c2" using busy_try_migration [OF assms b1, of i] t by simp
    with Suc.IH Suc.prems(2) Some p b1 t show ?thesis by (auto split: if_splits)
  qed (use Suc.prems in auto)
qed simp

section \<open>The loop\<close>

definition section_keeps :: "'w manager_section \<Rightarrow> bool" where
  "section_keeps f \<longleftrightarrow> (\<forall>clp p c. busy clp \<longrightarrow> f clp = Some (p, c) \<longrightarrow> busy c \<and> p \<noteq> Some Break \<and> (\<forall>e. p = Some (Failed e) \<longrightarrow> e < 0))"

lemma section_keepsI:
  "(\<And>clp p c. busy clp \<Longrightarrow> f clp = Some (p, c) \<Longrightarrow> busy c \<and> p \<noteq> Some Break \<and> (\<forall>e. p = Some (Failed e) \<longrightarrow> e < 0)) \<Longrightarrow> section_keeps f"
  by (simp add: section_keeps_def)

lemma verdict_simps: "verdict status (Some Continue) \<noteq> Some Break" "verdict status None \<noteq> Some Break"
  "verdict status (Some Continue) = Some (Failed e) \<longleftrightarrow> status < 0 \<and> e = status" "verdict status None = Some (Failed e) \<longleftrightarrow> status < 0 \<and> e = status"
  by (auto simp: verdict_def)

lemma lease_sections_keep:
  assumes "quiet M"
  shows "section_keeps (purge_section M)" "section_keeps (lease_section M)" "section_keeps (session_section M)" "section_keeps (bind_section M)"
    "section_keeps (check_section M)"
proof -
  have cb: "busy (clear_bit_clnt NFS4CLNT_SESSION_RESET clp)" "busy (clear_bit_clnt NFS4CLNT_BIND_CONN_TO_SESSION clp)" "busy (clear_bit_clnt NFS4CLNT_CHECK_LEASE clp)"
    if "busy clp" for clp :: "'a nfs_client" using that by (simp_all add: busy_bits)
  show "section_keeps (purge_section M)" "section_keeps (lease_section M)"
    using busy_lease(1,2) [OF assms] by (intro section_keepsI; auto simp: purge_section_def lease_section_def verdict_simps split: if_splits prod.splits; metis snd_conv)+
  show "section_keeps (session_section M)" "section_keeps (bind_section M)" "section_keeps (check_section M)"
    using busy_session [OF assms cb(1)] busy_session [OF assms cb(2)] busy_lease(3) [OF assms cb(3)]
    by (intro section_keepsI; auto simp: session_section_def bind_section_def check_section_def verdict_simps split: if_splits prod.splits; metis snd_conv)+
qed

lemma moved_sections_keep:
  assumes "quiet M"
  shows "section_keeps (moved_section M n)" "section_keeps (lease_moved_section M n)"
proof -
  have cb: "busy (clear_bit_clnt NFS4CLNT_MOVED clp)" "busy (clear_bit_clnt NFS4CLNT_LEASE_MOVED clp)" if "busy clp" for clp :: "'a nfs_client"
    using that by (simp_all add: busy_bits)
  have m: "busy c" if "busy clp" "nfs4_handle_migration M n clp = Some (r, c)" for clp r c
    using that busy_migration_loop [OF assms, of "clp\<lparr>cl_mig_gen := cl_mig_gen clp + 1\<rparr>" n r c] by (auto simp: nfs4_handle_migration_def split: if_splits)
  have l: "busy c" if "busy clp" "nfs4_handle_lease_moved M n clp = Some (r, c)" for clp r c
    using that busy_lease_moved_loop [OF assms, of "clp\<lparr>cl_mig_gen := cl_mig_gen clp + 1\<rparr>" n r c] by (auto simp: nfs4_handle_lease_moved_def split: if_splits)
  show "section_keeps (moved_section M n)" "section_keeps (lease_moved_section M n)"
    by (intro section_keepsI; auto simp: moved_section_def lease_moved_section_def verdict_simps split: if_splits dest: m [OF cb(1)] l [OF cb(2)])+
qed

lemma reclaim_sections_keep:
  assumes "quiet M"
  shows "section_keeps (reboot_section M n)" "section_keeps (nograce_section M n)"
proof -
  have ops: "quiet_ops (reboot_recovery_ops M)" "quiet_ops (nograce_recovery_ops M)" using assms by (simp_all add: quiet_def)
  have cb: "busy (clear_bit_clnt NFS4CLNT_RECLAIM_NOGRACE clp)" if "busy clp" for clp :: "'a nfs_client" using that by (simp add: busy_bits)
  show "section_keeps (reboot_section M n)"
    by (intro section_keepsI)
      (auto simp: reboot_section_def nfs4_do_reclaim_def split: if_splits dest: busy_do_reclaim [OF assms ops(1)] intro: busy_end_reclaim [OF assms])
  show "section_keeps (nograce_section M n)"
    by (intro section_keepsI)
      (auto simp: nograce_section_def nfs4_do_reclaim_def verdict_simps split: if_splits dest: busy_do_reclaim [OF assms ops(2) cb])
qed

text \<open>Tables that are not draining let requests through.\<close>

definition draining :: "'w nfs_client \<Rightarrow> bool" where
  "draining clp \<longleftrightarrow> (case cl_tables clp of V40_Table t \<Rightarrow> dt_draining t | Session_Tables bc fc \<Rightarrow> dt_draining bc \<or> dt_draining fc)"

definition tables_law :: "'w manager_env \<Rightarrow> bool" where
  "tables_law M \<longleftrightarrow> (\<forall>clp. cl_tables (nfs41_wake_slot_table M clp) = cl_tables clp)"

lemma end_drain_tables:
  assumes "tables_law M"
  shows "\<not> draining (nfs4_end_drain_session M clp)"
proof -
  have t: "cl_tables (nfs4_end_drain_slot_table M put tbl c) = (if dt_draining tbl then put (tbl\<lparr>dt_draining := False\<rparr>) else cl_tables c)" for put tbl c
    using assms by (simp add: nfs4_end_drain_slot_table_def tables_law_def)
  show ?thesis by (cases "cl_tables clp") (auto simp: draining_def nfs4_end_drain_session_def Let_def t split: slot_tables.split)
qed

text \<open>What the manager leaves behind.\<close>

definition manager_done :: "'w nfs_client \<Rightarrow> bool" where
  "manager_done clp \<longleftrightarrow> NFS4CLNT_MANAGER_RUNNING \<notin> cl_state clp \<and> cl_threads clp = 0 \<and> \<not> draining clp"

lemma end_section_cases:
  assumes "quiet M" and "tables_law M" and "busy clp" and "end_section M clp = Some (p, c)"
  shows "p = Some Continue \<and> busy c \<or> p = Some Break \<and> cl_state c = {} \<and> manager_done c"
proof -
  let ?c = "nfs4_end_drain_session M clp"
  have b: "busy ?c" by (rule busy_end_drain [OF assms(1,3)])
  have d: "\<not> draining ?c" by (rule end_drain_tables [OF assms(2)])
  have ret: "busy (nfs_client_return_marked_delegations M (clear_bit_clnt NFS4CLNT_DELEGRETURN ?c))"
    by (rule quiet_simple(4) [OF assms(1)]) (use b in \<open>simp add: busy_bits\<close>)
  show ?thesis using assms(4) b d ret
    by (auto simp: end_section_def Let_def nfs4_clear_state_manager_bit_def manager_done_def draining_def busy_def clear_bit_clnt_def set_bit_clnt_def
        split: if_splits)
qed

lemma sections_run:
  assumes "\<forall>f \<in> set fs. section_keeps f" and "busy clp" and "sections (fs @ [end_section M]) clp = Some (p, c)" and "quiet M" and "tables_law M"
  shows "p = Continue \<and> busy c \<or> p = Break \<and> cl_state c = {} \<and> manager_done c \<or> (\<exists>e<0. p = Failed e) \<and> busy c"
  using assms(1-3)
proof (induction fs arbitrary: clp)
  case Nil
  then show ?case using end_section_cases [OF assms(4,5) Nil.prems(2)] by (auto split: option.splits prod.splits)
next
  case (Cons f fs)
  then obtain q d where q: "f clp = Some (q, d)" by (auto split: option.splits)
  have kf: "section_keeps f" using Cons.prems(1) by simp
  have k: "busy d" "q \<noteq> Some Break" "\<And>e. q = Some (Failed e) \<Longrightarrow> e < 0"
    using kf Cons.prems(2) q unfolding section_keeps_def by blast+
  show ?case
  proof (cases q)
    case None
    with Cons k q show ?thesis by simp
  next
    case (Some r)
    with Cons.prems(3) q have "p = r" "c = d" by simp_all
    with k Some show ?thesis by (cases r) auto
  qed
qed

lemma manager_pass_run:
  assumes "quiet M" and "tables_law M" and "busy clp" and "manager_pass M n clp = Some (p, c)"
  shows "p = Continue \<and> busy c \<or> p = Break \<and> cl_state c = {} \<and> manager_done c \<or> (\<exists>e<0. p = Failed e) \<and> busy c"
proof -
  let ?fs = "[purge_section M, lease_section M, session_section M, bind_section M, check_section M, moved_section M n, lease_moved_section M n,
    reboot_section M n, nograce_section M n]"
  have keep: "\<forall>f \<in> set ?fs. section_keeps f"
    using lease_sections_keep [OF assms(1)] moved_sections_keep [OF assms(1)] reclaim_sections_keep [OF assms(1)] by simp
  have "manager_pass M n clp = sections (?fs @ [end_section M]) clp" by (simp add: manager_pass_def)
  with assms(4) have "sections (?fs @ [end_section M]) clp = Some (p, c)" by simp
  from sections_run [OF keep assms(3) this assms(1,2)] show ?thesis .
qed

lemma nfs4_state_manager_stops:
  assumes "quiet M" and "tables_law M"
  shows "busy clp \<Longrightarrow> nfs4_state_manager M n clp = Some (r, c) \<Longrightarrow>
    (case r of None \<Rightarrow> cl_state c = {} \<and> manager_done c \<or> busy c \<and> cl_count c \<le> 1 | Some e \<Rightarrow> e < 0 \<and> manager_done c)"
proof (induction n arbitrary: clp)
  case (Suc n)
  obtain p d where p: "manager_pass M n clp = Some (p, d)" using Suc.prems(2) by (auto split: option.splits)
  from manager_pass_run [OF assms Suc.prems(1) p] consider "p = Continue" "busy d" | "p = Break" "cl_state d = {}" "manager_done d" |
    e where "p = Failed e" "e < 0" "busy d" by blast
  then show ?case
  proof cases
    case 1
    with Suc p show ?thesis by (auto split: if_splits)
  next
    case 2
    with Suc.prems p show ?thesis by auto
  next
    case (3 e)
    have "\<not> draining (nfs4_end_drain_session M d)" by (rule end_drain_tables [OF assms(2)])
    with 3 Suc.prems(2) p show ?thesis
      by (auto simp: manager_done_def nfs4_clear_state_manager_bit_def draining_def busy_def clear_bit_clnt_def)
  qed
qed simp

end
