(* ===== verification/Nfs4_Reboot.thy ===== *)
theory Nfs4_Reboot
  imports Nfs4_Manager_Correct
begin

text \<open>
  Recovery after a reboot of the server, from the loop over the owners to the manager: reclaiming ends and leaves no owner and no
  state marked, and with a server that answers the manager gives everything back to the applications.
\<close>

section \<open>The owners of a client\<close>

definition owners :: "client_server list \<Rightarrow> state_owner list" where
  "owners svs = concat (map state_owners svs)"

definition marked_owners :: "owner_bit \<Rightarrow> client_server list \<Rightarrow> nat" where
  "marked_owners b svs = length (filter (\<lambda>sp. b \<in> ow_flags sp) (owners svs))"

lemma owners_simps [simp]: "owners [] = []" "owners (sv # svs) = state_owners sv @ owners svs"
  by (simp_all add: owners_def)

lemma marked_owners_simps: "marked_owners b [] = 0"
  "marked_owners b (sv # svs) = length (filter (\<lambda>sp. b \<in> ow_flags sp) (state_owners sv)) + marked_owners b svs"
  by (simp_all add: marked_owners_def)

lemma marked_owners_0: "marked_owners b svs = 0 \<longleftrightarrow> (\<forall>sp \<in> set (owners svs). b \<notin> ow_flags sp)"
  by (auto simp: marked_owners_def filter_empty_conv)

lemma next_owner_of_None: "next_owner_of b sps = None \<longleftrightarrow> filter (\<lambda>sp. b \<in> ow_flags sp) sps = []"
  by (induction sps) auto

lemma next_owner_of_Some: "next_owner_of b sps = Some j \<Longrightarrow> j < length sps \<and> b \<in> ow_flags (sps ! j)"
  by (induction sps arbitrary: j) (auto split: if_splits)

lemma purge_length: "length (filter P (state_owners (nfs4_purge_state_owners sv))) \<le> length (filter P (state_owners sv))"
proof -
  have "filter P (state_owners (nfs4_purge_state_owners sv)) = filter (\<lambda>sp. ow_count sp \<noteq> 0) (filter P (state_owners sv))"
    by (simp add: nfs4_purge_state_owners_def conj_commute)
  then show ?thesis by (simp only: length_filter_le)
qed

lemma next_owner_less: "next_owner b svs = (r, svs') \<Longrightarrow> marked_owners b svs' \<le> marked_owners b svs \<and> set (owners svs') \<subseteq> set (owners svs)"
proof (induction svs arbitrary: r svs')
  case (Cons sv svs)
  obtain q u where u: "next_owner b svs = (q, u)" by (cases "next_owner b svs")
  have p: "set (state_owners (nfs4_purge_state_owners sv)) \<subseteq> set (state_owners sv)" by (auto simp: nfs4_purge_state_owners_def)
  from Cons.IH [OF u] Cons.prems u p purge_length [of "\<lambda>sp. b \<in> ow_flags sp" sv] show ?case
    by (auto simp: marked_owners_simps Let_def split: option.splits)
qed simp

lemma next_owner_None: "next_owner b svs = (None, svs') \<Longrightarrow> marked_owners b svs' = 0"
proof (induction svs arbitrary: svs')
  case (Cons sv svs)
  obtain q u where u: "next_owner b svs = (q, u)" by (cases "next_owner b svs")
  with Cons show ?case by (auto simp: marked_owners_simps Let_def next_owner_of_None split: option.splits)
qed (simp add: marked_owners_simps)

definition is_owner :: "nat \<times> nat \<Rightarrow> client_server list \<Rightarrow> bool" where
  "is_owner p svs \<longleftrightarrow> fst p < length svs \<and> snd p < length (state_owners (svs ! fst p))"

lemma next_owner_Some: "next_owner b svs = (Some p, svs') \<Longrightarrow> is_owner p svs' \<and> b \<in> ow_flags (get_owner p svs')"
proof (induction svs arbitrary: p svs')
  case (Cons sv svs)
  show ?case
  proof (cases "next_owner_of b (state_owners (nfs4_purge_state_owners sv))")
    case None
    obtain q u where u: "next_owner b svs = (q, u)" by (cases "next_owner b svs")
    with Cons.prems None obtain i j where ij: "q = Some (i, j)" "p = (Suc i, j)" "svs' = nfs4_purge_state_owners sv # u"
      by (auto simp: Let_def)
    with Cons.IH u show ?thesis by (simp add: is_owner_def get_owner_def)
  next
    case (Some j)
    with Cons.prems next_owner_of_Some [OF Some] show ?thesis by (auto simp: is_owner_def get_owner_def Let_def)
  qed
qed simp

lemma filter_update_less: "j < length xs \<Longrightarrow> P (xs ! j) \<Longrightarrow> \<not> P x \<Longrightarrow> length (filter P (xs[j := x])) < length (filter P xs)"
proof (induction xs arbitrary: j)
  case (Cons y ys)
  then show ?case by (cases j) auto
qed simp

lemma set_update_subset: "set (xs[j := x]) \<subseteq> insert x (set xs)"
  by (rule set_update_subset_insert)

lemma put_owner_less:
  "is_owner p svs \<Longrightarrow> b \<in> ow_flags (get_owner p svs) \<Longrightarrow> b \<notin> ow_flags sp \<Longrightarrow>
   marked_owners b (put_owner p sp svs) < marked_owners b svs"
proof (induction svs arbitrary: p)
  case (Cons sv svs)
  obtain i j where p: "p = (i, j)" by (cases p)
  show ?case
  proof (cases i)
    case 0
    with Cons.prems p filter_update_less [of j "state_owners sv" "\<lambda>sp. b \<in> ow_flags sp" sp] show ?thesis
      by (simp add: is_owner_def get_owner_def put_owner_def marked_owners_simps)
  next
    case (Suc k)
    with Cons.IH [of "(k, j)"] Cons.prems p show ?thesis by (simp add: is_owner_def get_owner_def put_owner_def marked_owners_simps)
  qed
qed (simp add: is_owner_def)

lemma put_owner_owners: "is_owner p svs \<Longrightarrow> set (owners (put_owner p sp svs)) \<subseteq> insert sp (set (owners svs))"
proof (induction svs arbitrary: p)
  case (Cons sv svs)
  obtain i j where p: "p = (i, j)" by (cases p)
  show ?case
  proof (cases i)
    case 0
    with p show ?thesis using set_update_subset_insert [of "state_owners sv" j sp] by (auto simp: put_owner_def)
  next
    case (Suc k)
    with Cons.IH [of "(k, j)"] Cons.prems p show ?thesis by (auto simp: is_owner_def put_owner_def)
  qed
qed (simp add: is_owner_def)

lemma get_owner_in: "is_owner p svs \<Longrightarrow> get_owner p svs \<in> set (owners svs)"
  by (auto simp: is_owner_def get_owner_def owners_def intro!: bexI [of _ "svs ! fst p"])

section \<open>Reclaiming\<close>

lemma reclaim_open_state_flags: "nfs4_reclaim_open_state R n c = Some (status, c') \<Longrightarrow> rc_flags c' \<subseteq> insert NFS_OWNER_RECLAIM_NOGRACE (rc_flags c)"
proof (induction n arbitrary: c)
  case (Suc n)
  then show ?case
    by (auto simp: Let_def rc_mark_nograce_def split: prod.splits option.splits if_splits reclaim_verdict.splits dest!: Suc.IH)
qed simp

text \<open>A marked state belongs to a marked owner, and \<open>m\<close> is more than any owner has states.\<close>

definition reclaimable :: "nat \<Rightarrow> client_server list \<Rightarrow> bool" where
  "reclaimable m svs \<longleftrightarrow> (\<forall>sp \<in> set (owners svs). states_marked NFS_STATE_RECLAIM_REBOOT NFS_OWNER_RECLAIM_REBOOT (ow_states sp) (ow_flags sp) \<and>
     length (ow_states sp) < m)"

definition unmarked :: "client_server list \<Rightarrow> bool" where
  "unmarked svs \<longleftrightarrow> (\<forall>sp \<in> set (owners svs). NFS_OWNER_RECLAIM_REBOOT \<notin> ow_flags sp \<and> (\<forall>st \<in> set (ow_states sp). NFS_STATE_RECLAIM_REBOOT \<notin> st_flags st))"

lemma reclaimable_subset: "reclaimable m svs \<Longrightarrow> set (owners svs') \<subseteq> set (owners svs) \<Longrightarrow> reclaimable m svs'"
  unfolding reclaimable_def by blast

lemma reclaim_owner_ends:
  assumes law: "reboot_law R" and "is_owner p (cl_superblocks clp)" and "length (ow_states (get_owner p (cl_superblocks clp))) < m"
  shows "\<exists>status clp' sp. reclaim_owner R m p clp = Some (status, clp') \<and> cl_superblocks clp' = put_owner p sp (cl_superblocks clp) \<and>
    length (ow_states sp) < m \<and> states_marked NFS_STATE_RECLAIM_REBOOT NFS_OWNER_RECLAIM_REBOOT (ow_states sp) (ow_flags sp) \<and>
    (0 \<le> status \<longrightarrow> NFS_OWNER_RECLAIM_REBOOT \<notin> ow_flags sp)"
proof -
  let ?sp = "get_owner p (cl_superblocks clp)"
  let ?c = "\<lparr>rc_flags = ow_flags ?sp - {NFS_OWNER_RECLAIM_REBOOT}, rc_states = ow_states ?sp, rc_bits = (cl_world clp, cl_state clp)\<rparr>"
  have ob: "owner_flag_bit R = NFS_OWNER_RECLAIM_REBOOT" using law by (simp add: reboot_law_def)
  have "flagged NFS_STATE_RECLAIM_REBOOT (rc_states ?c) < m" using assms(3) by (simp add: flagged_def le_less_trans [OF length_filter_le])
  from reclaim_open_state_ends [OF law this] obtain status c' where r: "nfs4_reclaim_open_state R m ?c = Some (status, c')"
    and len: "length (rc_states c') = length (ow_states ?sp)" and fin: "status < 0 \<or> status = 0 \<and> flagged NFS_STATE_RECLAIM_REBOOT (rc_states c') = 0" by auto
  have fl: "NFS_OWNER_RECLAIM_REBOOT \<notin> rc_flags c'" using reclaim_open_state_flags [OF r] by auto
  let ?new = "?sp\<lparr>ow_states := rc_states c', ow_flags := if status < 0 then insert NFS_OWNER_RECLAIM_REBOOT (rc_flags c') else rc_flags c'\<rparr>"
  have "states_marked NFS_STATE_RECLAIM_REBOOT NFS_OWNER_RECLAIM_REBOOT (ow_states ?new) (ow_flags ?new)"
    using fin by (auto simp: states_marked_def flagged_0_iff)
  then show ?thesis using r ob len assms(3) fl by (auto simp: reclaim_owner_def Let_def intro!: exI [of _ ?new])
qed

text \<open>The loop over the owners ends, and when it reports success nothing is left to reclaim.\<close>

lemma handle_error_negative: "error < 0 \<Longrightarrow> nfs4_recovery_handle_error M error clp = (status, clp') \<Longrightarrow> status \<le> 0"
  by (auto simp: nfs4_recovery_handle_error_def Let_def split: if_splits)

lemma do_reclaim_loop_ends:
  assumes law: "reboot_law R"
  shows "reclaimable m (cl_superblocks clp) \<Longrightarrow> marked_owners NFS_OWNER_RECLAIM_REBOOT (cl_superblocks clp) < n \<Longrightarrow>
    \<exists>status clp'. do_reclaim_loop M R m n clp = Some (status, clp') \<and> (status < 0 \<or> status = 0 \<and> unmarked (cl_superblocks clp'))"
proof (induction n arbitrary: clp)
  case (Suc n)
  let ?b = NFS_OWNER_RECLAIM_REBOOT
  have ob: "owner_flag_bit R = ?b" using law by (simp add: reboot_law_def)
  obtain r svs where r: "next_owner ?b (cl_superblocks clp) = (r, svs)" by (cases "next_owner ?b (cl_superblocks clp)")
  note less = next_owner_less [OF r]
  have rec: "reclaimable m svs" using reclaimable_subset [OF Suc.prems(1)] less by blast
  show ?case
  proof (cases r)
    case None
    with r next_owner_None [of ?b "cl_superblocks clp" svs] have none: "\<forall>sp \<in> set (owners svs). ?b \<notin> ow_flags sp" by (simp add: marked_owners_0)
    have "unmarked svs" using none rec by (auto simp: unmarked_def reclaimable_def states_marked_def)
    with r None ob show ?thesis by simp
  next
    case (Some p)
    let ?c = "clp\<lparr>cl_superblocks := svs\<rparr>"
    have p: "is_owner p svs" "?b \<in> ow_flags (get_owner p svs)" using next_owner_Some r Some by blast+
    have len: "length (ow_states (get_owner p svs)) < m" using rec get_owner_in [OF p(1)] by (simp add: reclaimable_def)
    from reclaim_owner_ends [OF law, of p ?c m] p(1) len obtain status c sp where o: "reclaim_owner R m p ?c = Some (status, c)"
      "cl_superblocks c = put_owner p sp svs" "length (ow_states sp) < m" "states_marked NFS_STATE_RECLAIM_REBOOT ?b (ow_states sp) (ow_flags sp)"
      "0 \<le> status \<longrightarrow> ?b \<notin> ow_flags sp" by auto
    show ?thesis
    proof (cases "status < 0")
      case True
      obtain s d where h: "nfs4_recovery_handle_error M status c = (s, d)" by (cases "nfs4_recovery_handle_error M status c")
      with handle_error_negative [OF True h] r Some ob o(1) True show ?thesis by auto
    next
      case False
      have "marked_owners ?b (cl_superblocks c) < n" using put_owner_less [OF p, of sp] o(2,5) False less Suc.prems(2) by simp
      moreover have "reclaimable m (cl_superblocks c)" using put_owner_owners [OF p(1), of sp] rec o(2-4) unfolding reclaimable_def by (auto dest!: subsetD)
      ultimately show ?thesis using Suc.IH [of c] r Some ob o(1) False by auto
    qed
  qed
qed simp

section \<open>The whole recovery\<close>

text \<open>A server that answers, and a kernel that does not ask for more meanwhile.\<close>

definition same_client :: "'w nfs_client \<Rightarrow> 'w nfs_client \<Rightarrow> bool" where
  "same_client c d \<longleftrightarrow> cl_state c = cl_state d \<and> cl_superblocks c = cl_superblocks d \<and> cl_count c = cl_count d \<and> cl_threads c = cl_threads d"

definition calm_ops :: "'w recovery_ops \<Rightarrow> bool" where
  "calm_ops R \<longleftrightarrow> (\<forall>st w. fst (recover_open R st w) \<ge> 0 \<and> snd (snd (snd (recover_open R st w))) = snd w \<and>
     (\<forall>k. fst (recover_lock R st k w) \<ge> 0 \<and> snd (snd (snd (recover_lock R st k w))) = snd w))"

definition calm :: "'w manager_env \<Rightarrow> bool" where
  "calm M \<longleftrightarrow> calm_ops (reboot_recovery_ops M) \<and>
     (\<forall>c. get_clid_cred M c \<and> fst (establish_clid M c) = 0 \<and> same_client (snd (establish_clid M c)) c \<and> same_client (snd (wait_complete M c)) c \<and>
        same_client (nfs41_wake_slot_table M c) c \<and> same_client (pnfs_destroy_all_layouts M c) c \<and>
        same_client (nfs_delegation_reap_unclaimed (me_client M) c) c \<and> (\<forall>f. reclaim_complete_op M = Some f \<longrightarrow> same_client (f c) c))"

lemma same_client_trans: "same_client c d \<Longrightarrow> same_client d e \<Longrightarrow> same_client c e"
  by (simp add: same_client_def)

lemma same_client_tables [simp]: "same_client c (d\<lparr>cl_tables := t\<rparr>) = same_client c d" "same_client c c"
  by (simp_all add: same_client_def)

lemma reclaim_locks_calm:
  "calm_ops R \<Longrightarrow> 0 \<le> status \<Longrightarrow> 0 \<le> fst (reclaim_locks_loop R fls status st w) \<and> snd (snd (snd (reclaim_locks_loop R fls status st w))) = snd w"
proof (induction fls arbitrary: status st w)
  case (Cons fl fls)
  obtain s st2 w2 where r: "recover_lock R st (fl_number fl) w = (s, st2, w2)" by (cases "recover_lock R st (fl_number fl) w")
  have "0 \<le> s" "snd w2 = snd w" using Cons.prems(1) r unfolding calm_ops_def by (metis fst_conv snd_conv)+
  with Cons r show ?case by (simp add: lock_error_ends_def)
qed simp

lemma recover_state_calm:
  assumes "calm_ops R" and "recover_state R st w = (status, st', w')"
  shows "0 \<le> status" and "snd w' = snd w"
proof -
  obtain s st2 w2 where r: "recover_open R st w = (s, st2, w2)" by (cases "recover_open R st w")
  have "0 \<le> s" "snd w2 = snd w" using assms(1) r unfolding calm_ops_def by (metis fst_conv snd_conv)+
  with reclaim_locks_calm [OF assms(1), of 0 "i_flock R (fst w2) st2" st2 w2] assms(2) r show "0 \<le> status" "snd w' = snd w"
    by (auto simp: recover_state_def nfs4_reclaim_locks_def)
qed

lemma reclaim_open_state_calm:
  assumes "calm_ops R"
  shows "nfs4_reclaim_open_state R n c = Some (status, c') \<Longrightarrow> status = 0 \<and> snd (rc_bits c') = snd (rc_bits c)"
proof (induction n arbitrary: c)
  case (Suc n)
  then show ?case using recover_state_calm [OF assms]
    by (auto simp: Let_def split: prod.splits option.splits if_splits; fastforce)
qed simp

lemma do_reclaim_calm:
  assumes "calm_ops R"
  shows "do_reclaim_loop M R m n clp = Some (status, clp') \<Longrightarrow>
    status = 0 \<and> cl_state clp' = cl_state clp \<and> cl_count clp' = cl_count clp \<and> cl_threads clp' = cl_threads clp"
proof (induction n arbitrary: clp)
  case (Suc n)
  have o: "s = 0 \<and> cl_state d = cl_state c \<and> cl_count d = cl_count c \<and> cl_threads d = cl_threads c" if "reclaim_owner R m p c = Some (s, d)" for s p c d
    using that by (auto simp: reclaim_owner_def Let_def split: option.splits dest!: reclaim_open_state_calm [OF assms])
  from Suc show ?case by (auto split: prod.splits option.splits if_splits dest!: o)
qed simp

lemma clear_reclaim_states_unmarked: "\<forall>st \<in> set sts. NFS_STATE_RECLAIM_REBOOT \<notin> st_flags st \<Longrightarrow> clear_reclaim_states sts fl clp = (sts, fl, clp)"
  by (induction sts) (auto simp: clear_reclaim_mark_def)

lemma clear_reclaim_unmarked: "unmarked svs \<Longrightarrow> clear_reclaim_servers svs clp = (svs, clp)"
proof (induction svs)
  case (Cons sv svs)
  have ow: "clear_reclaim_owners sps clp = (sps, clp)" if "\<forall>sp \<in> set sps. \<forall>st \<in> set (ow_states sp). NFS_STATE_RECLAIM_REBOOT \<notin> st_flags st" for sps
    using that by (induction sps) (auto simp: clear_reclaim_states_unmarked)
  have "clear_reclaim_owners (state_owners sv) clp = (state_owners sv, clp)" by (rule ow) (use Cons.prems in \<open>auto simp: unmarked_def\<close>)
  moreover have "unmarked svs" using Cons.prems by (auto simp: unmarked_def)
  ultimately show ?case using Cons.IH by simp
qed simp

lemma calm_drain:
  assumes "calm M"
  shows "same_client (snd (nfs4_begin_drain_session M c)) c" and "same_client (nfs4_end_drain_session M c) c"
proof -
  have w: "same_client (snd (wait_complete M d)) d" "same_client (nfs41_wake_slot_table M d) d" for d using assms by (simp_all add: calm_def)
  have b: "same_client (snd (nfs4_drain_slot_tbl M put t d)) d" for put t d using w(1) [of "d\<lparr>cl_tables := put (t\<lparr>dt_draining := True\<rparr>)\<rparr>"]
    by (simp add: nfs4_drain_slot_tbl_def Let_def same_client_def)
  have e: "same_client (nfs4_end_drain_slot_table M put t d) d" for put t d using w(2) [of "d\<lparr>cl_tables := put (t\<lparr>dt_draining := False\<rparr>)\<rparr>"]
    by (simp add: nfs4_end_drain_slot_table_def same_client_def)
  show "same_client (snd (nfs4_begin_drain_session M c)) c"
    by (simp add: nfs4_begin_drain_session_def b case_prod_beta same_client_trans [OF b b] split: slot_tables.split)
  show "same_client (nfs4_end_drain_session M c) c"
    by (auto simp: nfs4_end_drain_session_def Let_def split: slot_tables.split intro: e intro!: same_client_trans [OF e e])
qed

text \<open>The two passes. The first gets a new lease and decides to reclaim; the second reclaims and finds that nothing is left to do.\<close>

abbreviation (input) reboot_bits :: "clnt_bit set" where
  "reboot_bits \<equiv> {NFS4CLNT_MANAGER_RUNNING, NFS4CLNT_LEASE_EXPIRED, NFS4CLNT_CHECK_LEASE, NFS4CLNT_RECLAIM_REBOOT}"

lemma lease_pass:
  assumes "calm M" and "cl_state clp \<subseteq> reboot_bits" and "{NFS4CLNT_MANAGER_RUNNING, NFS4CLNT_LEASE_EXPIRED} \<subseteq> cl_state clp"
  shows "\<exists>c. manager_pass M n clp = Some (Continue, c) \<and> cl_state c = {NFS4CLNT_MANAGER_RUNNING, NFS4CLNT_RECLAIM_REBOOT} \<and>
    cl_superblocks c = cl_superblocks clp \<and> cl_count c = cl_count clp \<and> cl_threads c = cl_threads clp"
proof -
  let ?b = "snd (nfs4_begin_drain_session M clp)"
  obtain r c where e: "establish_clid M ?b = (r, c)" by (cases "establish_clid M ?b")
  have "fst (establish_clid M ?b) = 0" "same_client (snd (establish_clid M ?b)) ?b" using assms(1) by (simp_all add: calm_def)
  then have "r = 0" "same_client c ?b" using e by simp_all
  moreover have p: "same_client (pnfs_destroy_all_layouts M c) c" using assms(1) by (simp add: calm_def)
  ultimately have c: "same_client (pnfs_destroy_all_layouts M c) clp"
    using same_client_trans [OF p] same_client_trans [OF _ calm_drain(1) [OF assms(1)]] by simp
  have est: "nfs4_establish_lease M clp = (0, pnfs_destroy_all_layouts M c)"
    using assms(1) e \<open>r = 0\<close> by (simp add: nfs4_establish_lease_def calm_def)
  let ?d = "pnfs_destroy_all_layouts M c"
  let ?r = "clear_bit_clnt NFS4CLNT_LEASE_EXPIRED (clear_bit_clnt NFS4CLNT_CHECK_LEASE (set_bit_clnt NFS4CLNT_RECLAIM_REBOOT ?d))"
  have d: "cl_state ?d = cl_state clp" "cl_superblocks ?d = cl_superblocks clp" "cl_count ?d = cl_count clp" "cl_threads ?d = cl_threads clp"
    using c by (simp_all add: same_client_def)
  have no: "NFS4CLNT_PURGE_STATE \<notin> cl_state clp" "NFS4CLNT_SERVER_SCOPE_MISMATCH \<notin> cl_state clp" "NFS4CLNT_RECLAIM_NOGRACE \<notin> cl_state clp"
    using assms(2) by auto
  have "nfs4_reclaim_lease M clp = (0, ?r)" using no by (simp add: nfs4_reclaim_lease_def est d)
  then have "manager_pass M n clp = Some (Continue, ?r)"
    using no assms(3) by (simp add: manager_pass_def purge_section_def lease_section_def verdict_def)
  moreover have "cl_state ?r = {NFS4CLNT_MANAGER_RUNNING, NFS4CLNT_RECLAIM_REBOOT}"
    using assms(2,3) by (simp add: d) (auto dest: subsetD [OF assms(2)])
  ultimately show ?thesis using d by (intro exI [of _ ?r]) (simp add: clear_bit_clnt_def set_bit_clnt_def)
qed

lemma reclaim_pass:
  assumes "calm M" and "tables_law M" and "reboot_law (reboot_recovery_ops M)"
    and "cl_state clp = {NFS4CLNT_MANAGER_RUNNING, NFS4CLNT_RECLAIM_REBOOT}" and "cl_threads clp = 1"
    and "reclaimable n (cl_superblocks clp)" and "marked_owners NFS_OWNER_RECLAIM_REBOOT (cl_superblocks clp) < n"
  shows "\<exists>c. manager_pass M n clp = Some (Break, c) \<and> cl_state c = {} \<and> unmarked (cl_superblocks c) \<and> manager_done c"
proof -
  let ?R = "reboot_recovery_ops M"
  have ops: "calm_ops ?R" using assms(1) by (simp add: calm_def)
  from do_reclaim_loop_ends [OF assms(3,6,7)] obtain status d where d: "do_reclaim_loop M ?R n n clp = Some (status, d)"
    "status < 0 \<or> status = 0 \<and> unmarked (cl_superblocks d)" by blast
  note k = do_reclaim_calm [OF ops d(1)]
  have un: "unmarked (cl_superblocks d)" using d(2) k by simp
  let ?f = "nfs_delegation_reap_unclaimed (me_client M) (clear_bit_clnt NFS4CLNT_RECLAIM_REBOOT d)"
  let ?e = "nfs4_state_end_reclaim_reboot M d"
  have "same_client ?e ?f"
    using assms(1,4) k
    by (auto simp: nfs4_state_end_reclaim_reboot_def nfs4_state_clear_reclaim_reboot_def clear_reclaim_unmarked [OF un] calm_def same_client_def split: option.split)
  then have e: "same_client ?e (clear_bit_clnt NFS4CLNT_RECLAIM_REBOOT d)" using same_client_trans assms(1) by (simp add: calm_def same_client_def)
  let ?g = "nfs4_end_drain_session M ?e"
  have g: "same_client ?g (clear_bit_clnt NFS4CLNT_RECLAIM_REBOOT d)" using same_client_trans [OF calm_drain(2) [OF assms(1)] e] .
  have st: "cl_state ?e = {NFS4CLNT_MANAGER_RUNNING}" "cl_state ?g = {NFS4CLNT_MANAGER_RUNNING}" "cl_superblocks ?g = cl_superblocks d" "cl_threads ?g = 1"
    using e g k assms(4,5) by (auto simp: same_client_def)
  have "manager_pass M n clp = Some (Break, (nfs4_clear_state_manager_bit ?g)\<lparr>cl_threads := cl_threads ?g - 1\<rparr>)"
    using d(1) k assms(4) st
    by (simp add: manager_pass_def purge_section_def lease_section_def session_section_def bind_section_def check_section_def moved_section_def
        lease_moved_section_def reboot_section_def nograce_section_def end_section_def nfs4_do_reclaim_def nfs4_clear_state_manager_bit_def Let_def clear_bit_clnt_def)
  moreover have "\<not> draining ?g" by (rule end_drain_tables [OF assms(2)])
  ultimately show ?thesis using st un
    by (auto simp: manager_done_def draining_def nfs4_clear_state_manager_bit_def clear_bit_clnt_def)
qed

lemma reboot_recovered:
  assumes "calm M" and "tables_law M" and "reboot_law (reboot_recovery_ops M)"
    and "cl_state clp \<subseteq> reboot_bits" and "{NFS4CLNT_MANAGER_RUNNING, NFS4CLNT_LEASE_EXPIRED} \<subseteq> cl_state clp" and "cl_threads clp = 1" and "cl_count clp > 1"
    and "reclaimable n (cl_superblocks clp)" and "marked_owners NFS_OWNER_RECLAIM_REBOOT (cl_superblocks clp) < n"
  shows "\<exists>c. nfs4_state_manager M (Suc (Suc n)) clp = Some (None, c) \<and> cl_state c = {} \<and> unmarked (cl_superblocks c) \<and> manager_done c"
proof -
  from lease_pass [OF assms(1,4,5), of "Suc n"] obtain c where c: "manager_pass M (Suc n) clp = Some (Continue, c)"
    "cl_state c = {NFS4CLNT_MANAGER_RUNNING, NFS4CLNT_RECLAIM_REBOOT}" "cl_superblocks c = cl_superblocks clp" "cl_count c = cl_count clp"
    "cl_threads c = cl_threads clp" by blast
  have "cl_threads c = 1" "reclaimable n (cl_superblocks c)" "marked_owners NFS_OWNER_RECLAIM_REBOOT (cl_superblocks c) < n"
    using c(3,5) assms(6,8,9) by simp_all
  from reclaim_pass [OF assms(1-3) c(2) this] obtain d where
    "manager_pass M n c = Some (Break, d)" "cl_state d = {}" "unmarked (cl_superblocks d)" "manager_done d" by blast
  with c(1,4) assms(7) show ?thesis by simp
qed

end
