(* ===== verification/Nfs4_State_Sample.thy ===== *)
theory Nfs4_State_Sample
  imports Nfs4_Slot_Protocol Nfs4_Seqid_Queue Nfs4_Reboot
begin

text \<open>
  A small client for the examples: a session whose slot table does nothing of its own, a kernel in which every call succeeds,
  procedures that recover what they are asked to, and a client with two open states of one owner.
\<close>

section \<open>A session\<close>

definition sample_session :: "unit session_env" where
  "sample_session = \<lparr>nfs4_alloc_slot = (\<lambda>tbl. (Inr 0, tbl)), nfs4_free_slot = (\<lambda>tbl i. tbl), nfs41_wake_and_assign_slot = (\<lambda>tbl i. (False, tbl)),
     nfs41_update_target_slotid = (\<lambda>tbl i res. tbl), restart_prepare_ok = (\<lambda>_. True), restart_ok = (\<lambda>_. True), quarter_second = 250\<rparr>"

lemma sample_slots_kept: "slots_kept sample_session"
  by (simp add: slots_kept_def sample_session_def)

text \<open>A session as it is created.\<close>

definition new_slot :: slot where
  "new_slot = \<lparr>sl_seq_nr = 1, sl_interrupted = False\<rparr>"

definition new_slot_sys :: slot_sys where
  "new_slot_sys = \<lparr>ps_slot = new_slot, ps_srv_seq = 0, ps_srv_req = None, ps_executed = [], ps_acked = []\<rparr>"

lemma new_slot_sys_inv: "slot_inv new_slot_sys"
  by (simp add: slot_inv_def new_slot_sys_def new_slot_def)

section \<open>A client\<close>

definition sample_client_env :: "unit client_env" where
  "sample_client_env = \<lparr>kthread_run = (\<lambda>c. (True, c)), nfs_put_client = (\<lambda>c. c\<lparr>cl_count := cl_count c - 1\<rparr>), nfs_expire_all_delegations = (\<lambda>c. c),
     nfs_delegation_mark_reclaim = (\<lambda>c. c), nfs_delegation_reap_unclaimed = (\<lambda>c. c), wait_on_manager = (\<lambda>c. (0, c))\<rparr>"

definition sample_stateid :: nfs4_stateid where
  "sample_stateid = \<lparr>st_seqid = 1, st_other = replicate 12 9\<rparr>"

definition sample_open_state :: "state_bit set \<Rightarrow> open_state" where
  "sample_open_state fl = \<lparr>st_flags = fl, st_count = 1, n_rdonly = 1, n_wronly = 0, n_rdwr = 0, st_mode = 1, st_stateid = sample_stateid,
     st_open_stateid = sample_stateid, st_locks = [], st_inode = 0\<rparr>"

definition sample_owner :: "owner_bit set \<Rightarrow> state_bit set \<Rightarrow> state_owner" where
  "sample_owner ob sb = \<lparr>ow_flags = ob, ow_count = 1, ow_seqid_flags = 0,
     ow_states = [sample_open_state {NFS_OPEN_STATE, NFS_O_RDONLY_STATE}, sample_open_state (insert NFS_OPEN_STATE sb)]\<rparr>"

definition sample_client :: "clnt_bit set \<Rightarrow> unit nfs_client" where
  "sample_client bits = \<lparr>cl_world = (), cl_state = bits, cl_count = 2, cl_cons_state = 0, cl_last_renewal = 0,
     cl_tables = Session_Tables \<lparr>dt_draining = False, dt_used = False\<rparr> \<lparr>dt_draining = True, dt_used = False\<rparr>, cl_mig_gen = 0,
     cl_threads = of_bool (NFS4CLNT_MANAGER_RUNNING \<in> bits),
     cl_superblocks = [\<lparr>fh_persistent = True, mig_gen = 0, mig_status = {}, state_owners = [sample_owner {} {}]\<rparr>]\<rparr>"

lemma sample_manager_law: "manager_law sample_client_env"
  by (simp add: manager_law_def sample_client_env_def Let_def)

section \<open>Recovery\<close>

definition sample_recovery :: "owner_bit \<Rightarrow> state_bit \<Rightarrow> int \<Rightarrow> unit recovery_ops" where
  "sample_recovery ob sb err = \<lparr>owner_flag_bit = ob, state_flag_bit = sb, i_flock = (\<lambda>_ _. []),
     recover_open = (\<lambda>st w. (err, st\<lparr>st_flags := insert NFS_O_RDONLY_STATE (st_flags st)\<rparr>, w)), recover_lock = (\<lambda>st _ w. (0, st, w))\<rparr>"

abbreviation (input) sample_reboot_ops :: "int \<Rightarrow> unit recovery_ops" where
  "sample_reboot_ops \<equiv> sample_recovery NFS_OWNER_RECLAIM_REBOOT NFS_STATE_RECLAIM_REBOOT"

lemma sample_reboot_law: "reboot_law (sample_reboot_ops err)"
  by (simp add: reboot_law_def sample_recovery_def)

definition sample_manager :: "unit manager_env" where
  "sample_manager = \<lparr>me_client = sample_client_env, reboot_recovery_ops = sample_reboot_ops 0,
     nograce_recovery_ops = sample_recovery NFS_OWNER_RECLAIM_NOGRACE NFS_STATE_RECLAIM_NOGRACE 0, wait_complete = (\<lambda>c. (0, c)), nfs41_wake_slot_table = (\<lambda>c. c),
     get_clid_cred = (\<lambda>c. True), get_state_renewal_cred = (\<lambda>c. True), renew_lease_op = (\<lambda>c. (0, c)), establish_clid = (\<lambda>c. (0, c)),
     reclaim_complete_op = None, pnfs_destroy_all_layouts = (\<lambda>c. c), nfs_mark_client_ready = (\<lambda>e c. c\<lparr>cl_cons_state := e\<rparr>),
     nfs4_proc_destroy_session = (\<lambda>c. (0, c)), nfs4_proc_create_session = (\<lambda>c. (0, c)), nfs4_proc_bind_conn_to_session = (\<lambda>c. (0, c)),
     nfs41_setup_state_renewal = (\<lambda>c. c), alloc_locations = (\<lambda>c. True), nfs4_proc_get_locations = (\<lambda>i c. (0, True, c)),
     nfs4_replace_transport = (\<lambda>i c. (0, c)), nfs4_proc_fsid_present = (\<lambda>i c. (0, c)), nfs_client_return_marked_delegations = (\<lambda>c. c)\<rparr>"

lemma sample_quiet: "quiet sample_manager"
  by (simp add: quiet_def keeps_def quiet_ops_def keeps_bits_def sample_manager_def sample_client_env_def sample_recovery_def busy_def)

lemma sample_tables_law: "tables_law sample_manager"
  by (simp add: tables_law_def sample_manager_def)

lemma sample_busy: "busy (sample_client (insert NFS4CLNT_MANAGER_RUNNING bits))"
  by (simp add: busy_def sample_client_def)

lemma sample_calm: "calm sample_manager"
  by (simp add: calm_def calm_ops_def sample_manager_def sample_client_env_def sample_recovery_def)

text \<open>The client after the server told it about its reboot: every state is marked.\<close>

definition sample_reboot :: "unit nfs_client" where
  "sample_reboot = nfs4_state_start_reclaim_reboot sample_client_env (sample_client {NFS4CLNT_MANAGER_RUNNING, NFS4CLNT_LEASE_EXPIRED})"

lemmas sample_reboot_simps = sample_reboot_def nfs4_state_start_reclaim_reboot_def nfs4_state_mark_reclaim_helper_def nfs4_state_mark_reclaim_reboot_def
  sample_client_def sample_client_env_def sample_owner_def sample_open_state_def nfs4_clear_open_state_def

lemma sample_reboot_state:
  "cl_state sample_reboot = {NFS4CLNT_MANAGER_RUNNING, NFS4CLNT_LEASE_EXPIRED, NFS4CLNT_RECLAIM_REBOOT}"
  "cl_threads sample_reboot = 1" "cl_count sample_reboot = 2"
  "map (\<lambda>sp. (ow_flags sp, map st_flags (ow_states sp))) (owners (cl_superblocks sample_reboot)) =
     [({NFS_OWNER_RECLAIM_REBOOT}, [{NFS_STATE_RECLAIM_REBOOT, NFS_OPEN_STATE}, {NFS_STATE_RECLAIM_REBOOT, NFS_OPEN_STATE}])]"
  by (auto simp: sample_reboot_simps set_bit_clnt_def)

lemma sample_reclaimable: "reclaimable 3 (cl_superblocks sample_reboot)" "marked_owners NFS_OWNER_RECLAIM_REBOOT (cl_superblocks sample_reboot) < 3"
  by (simp_all add: sample_reboot_simps reclaimable_def states_marked_def marked_owners_def)

end
