(* ===== verification/Nfs4_State_Properties.thy ===== *)
theory Nfs4_State_Properties
  imports Nfs4_State_Sample
begin

text \<open>
  The properties of the state of an NFSv4 client, stated over the definitions of \<^verbatim>\<open>Nfs4_Sequence\<close>, \<^verbatim>\<open>Nfs4_Seqid_Queue\<close>,
  \<^verbatim>\<open>Nfs4_Client\<close>, \<^verbatim>\<open>Nfs4_Recovery\<close> and \<^verbatim>\<open>Nfs4_Manager\<close>, each with an example.
\<close>

section \<open>Slots\<close>


definition sample_seq_state :: "int \<Rightarrow> slot \<Rightarrow> (unit, unit) seq_state" where
  "sample_seq_state status sl = \<lparr>sq_tbl = \<lparr>tb_slot = (\<lambda>_. sl), tb_draining = False, tb_highest_used = 0, tb_target_highest = 0, tb_has_session = True, tb_rest = ()\<rparr>,
     sq_args = \<lparr>sqa_slot = Some 0, sqa_cache_this = False, sqa_privileged = False\<rparr>,
     sq_res = \<lparr>sqr_slot = Some 0, sqr_timestamp = 0, sqr_status_flags = 0, sqr_status = status\<rparr>,
     sq_task = \<lparr>tk_was_sent = True, tk_status = 0, tk_timeout = 0, tk_action = TASK_WAIT\<rparr>, sq_clp = sample_client {}, sq_jiffies = 0\<rparr>"

lemma sample_client_done: "client_done sample_session sample_client_env 0 True status sl (slot_after status sl)"
  by (rule client_done.intros [of "sample_seq_state status sl"])
    (simp_all add: sample_seq_state_def nfs41_sequence_done_slots [OF sample_slots_kept])




text \<open>C24: progress of a slot. Whatever happened before, a request that the server has not carried out yet is carried out by the first exchange
  that is not lost or by the second: the only thing the server can object to is that the number was used for another request,
  and after that answer the client has moved to the next number.\<close>

theorem slot_two_tries:
  assumes "slots_kept E" and "(slot_step E CE i)\<^sup>*\<^sup>* new_slot_sys p" and "req \<notin> set (ps_executed p)"
    and "server_answer req p = (s1, p1)" and "client_done E CE i True s1 (ps_slot p) l1"
    and "server_answer req (p1\<lparr>ps_slot := l1\<rparr>) = (s2, p2)"
  shows "s1 = 0 \<and> req \<in> set (ps_executed p1) \<or>
    s1 = - NFS4ERR_SEQ_FALSE_RETRY \<and> s2 = 0 \<and> req \<notin> set (ps_executed p1) \<and> req \<in> set (ps_executed p2)"
proof -
  have inv: "slot_inv p" using slots.steps_inv [OF assms(2)] assms(1) new_slot_sys_inv by blast
  have send: "may_send req p" using assms(3) by (simp add: may_send_def)
  note l1 = client_done_sent [OF assms(1,5)]
  from inv send assms(4) show ?thesis
  proof (cases rule: server_answer_cases)
    case replay
    with inv assms(3) show ?thesis by (auto simp: slot_inv_def)
  next
    case false_retry
    then have "sl_seq_nr l1 = ps_srv_seq p + 1" using l1 by (simp add: slot_after_def)
    with false_retry assms(3,6) show ?thesis by (auto simp: server_answer_def Let_def)
  qed auto
qed

definition sample_interrupted :: slot_sys where
  "sample_interrupted = \<lparr>ps_slot = \<lparr>sl_seq_nr = 1, sl_interrupted = True\<rparr>, ps_srv_seq = 1, ps_srv_req = Some 5, ps_executed = [5], ps_acked = []\<rparr>"

lemma sample_interrupted_steps: "(slot_step sample_session sample_client_env 0)\<^sup>*\<^sup>* new_slot_sys sample_interrupted"
  using slot_step.lost_reply [OF _ _ sample_client_done, of 5 new_slot_sys]
  by (intro r_into_rtranclp) (simp add: may_send_def server_answer_def slot_after_def new_slot_sys_def new_slot_def sample_interrupted_def Let_def)

theorem slot_two_tries_witness:
  "6 \<in> set (ps_executed (snd (server_answer 6 (sample_interrupted\<lparr>ps_slot := slot_after (- NFS4ERR_SEQ_FALSE_RETRY) (ps_slot sample_interrupted)\<rparr>))))"
  using slot_two_tries [OF sample_slots_kept sample_interrupted_steps, of 6 "- NFS4ERR_SEQ_FALSE_RETRY" sample_interrupted, OF _ _ sample_client_done prod.collapse [symmetric]]
  by (simp add: server_answer_def sample_interrupted_def Let_def)

section \<open>Sequence ids\<close>

text \<open>C25: the requests of an owner. Whatever tasks wait, are woken, run, and release their sequence ids, at most one of them runs, it is
  the first of the queue and not asleep, whoever sleeps is queued behind it, and the owner's counter is the server's
  number, wrap-around included, so that every request carries the number the server expects.\<close>

theorem owner_serialised:
  assumes "owner_step\<^sup>*\<^sup>* s t" and "queue_ok (os_queue s)" and "os_running s = {}" and "os_server s = sq_counter (q_sequence (os_queue s))"
  shows "(\<forall>i \<in> os_running t. \<exists>is. q_list (os_queue t) = i # is \<and> (\<forall>u. q_task (os_queue t) i = Some u \<longrightarrow> u \<notin> q_sleeping (os_queue t))) \<and>
    os_server t = sq_counter (q_sequence (os_queue t)) \<and>
    (\<forall>u \<in> q_sleeping (os_queue t). \<exists>i \<in> set (tl (q_list (os_queue t))). q_task (os_queue t) i = Some u)"
proof -
  have inv: "owner_inv t" using owner.steps_inv [OF assms(1)] assms(2-4) by (simp add: owner_inv_def)
  then have ok: "queue_ok (os_queue t)" by (simp add: owner_inv_def)
  have "\<exists>is. q_list (os_queue t) = i # is \<and> (\<forall>u. q_task (os_queue t) i = Some u \<longrightarrow> u \<notin> q_sleeping (os_queue t))" if "i \<in> os_running t" for i
  proof -
    obtain "is" where "q_list (os_queue t) = i # is" using inv \<open>i \<in> os_running t\<close> by (cases "q_list (os_queue t)") (auto simp: owner_inv_def)
    then show ?thesis using queue_ok_head_awake [OF ok] by blast
  qed
  with inv show ?thesis by (auto simp: owner_inv_def queue_ok_def)
qed

text \<open>Two tasks: the second waits for the first.\<close>

definition sample_queue :: "nat list \<Rightarrow> (nat \<Rightarrow> nat option) \<Rightarrow> nat set \<Rightarrow> u32 \<Rightarrow> seqid_queue" where
  "sample_queue l t sl n = \<lparr>q_sequence = \<lparr>sq_flags = 0, sq_counter = n\<rparr>, q_list = l, q_task = t, q_sleeping = sl\<rparr>"

definition sample_owner_state :: "seqid_queue \<Rightarrow> nat set \<Rightarrow> u32 list \<Rightarrow> owner_state" where
  "sample_owner_state q r sent = \<lparr>os_queue = q, os_running = r, os_server = sq_counter (q_sequence q), os_sent = sent\<rparr>"

lemma sample_owner_steps:
  "owner_step\<^sup>*\<^sup>* (sample_owner_state (sample_queue [] Map.empty {} (- 1)) {} [])
    (sample_owner_state (sample_queue [1, 2] [1 \<mapsto> 11, 2 \<mapsto> 12] {12} 0) {1} [- 1])"
proof -
  let ?s = sample_owner_state and ?q = sample_queue
  note defs = sample_owner_state_def sample_queue_def nfs_wait_on_sequence_def Let_def
  have "owner_step (?s (?q [] Map.empty {} (- 1)) {} []) (?s (?q [1] [1 \<mapsto> 11] {} (- 1)) {1} [])"
    using owner_step.wait [of 11 "?s (?q [] Map.empty {} (- 1)) {} []" 1] by (simp add: defs)
  moreover have "owner_step (?s (?q [1] [1 \<mapsto> 11] {} (- 1)) {1} []) (?s (?q [1, 2] [1 \<mapsto> 11, 2 \<mapsto> 12] {12} (- 1)) {1} [])"
    using owner_step.wait [of 12 "?s (?q [1] [1 \<mapsto> 11] {} (- 1)) {1} []" 2] by (simp add: defs)
  moreover have "owner_step (?s (?q [1, 2] [1 \<mapsto> 11, 2 \<mapsto> 12] {12} (- 1)) {1} []) (?s (?q [1, 2] [1 \<mapsto> 11, 2 \<mapsto> 12] {12} 0) {1} [- 1])"
    using owner_step.reply [of 1 "?s (?q [1, 2] [1 \<mapsto> 11, 2 \<mapsto> 12] {12} (- 1)) {1} []" 0]
    by (simp add: defs nfs_increment_seqid_def seqid_mutating_err_def)
  ultimately show ?thesis by (meson converse_rtranclp_into_rtranclp rtranclp.rtrancl_refl)
qed

theorem owner_serialised_witness:
  "\<exists>is. q_list (os_queue (sample_owner_state (sample_queue [1, 2] [1 \<mapsto> 11, 2 \<mapsto> 12] {12} 0) {1} [- 1])) = 1 # is"
proof -
  have "queue_ok (sample_queue [] Map.empty {} (- 1))" by (simp add: queue_ok_def sample_queue_def)
  from owner_serialised [OF sample_owner_steps] this show ?thesis by (simp add: sample_owner_state_def)
qed

text \<open>Client and server count the same operations. The counter of an owner moves, by one and modulo the word size, exactly on the
  answers that \<^verbatim>\<open>seqid_mutating_err\<close> calls mutating; with a session it does not move at all, and an owner
  whose number the server calls bad is taken off the server's tree.\<close>

lemma seqid_counting:
  "nfs_increment_open_seqid (- uint e) sp =
     sp\<lparr>so_linked := so_linked sp \<and> uint e \<noteq> NFS4ERR_BAD_SEQID,
        so_seqid := (so_seqid sp)\<lparr>sq_counter := sq_counter (so_seqid sp) + of_bool (seqid_mutating_err e \<and> \<not> so_has_session sp)\<rparr>\<rparr>"
proof -
  have c: "nfs_increment_seqid (- uint e) q = q\<lparr>sq_counter := sq_counter q + of_bool (seqid_mutating_err e)\<rparr>" for q
    using nfs_increment_seqid_mutating [of e q] by (cases q) (auto simp: nfs_increment_seqid_def)
  show ?thesis unfolding nfs_increment_open_seqid_cases c by simp
qed

section \<open>Recovery\<close>

text \<open>One manager. Scheduling the state manager starts a thread only when there is none, and when the thread cannot be started the
  client is as if nobody had asked.\<close>

lemma schedule_one_manager:
  assumes "manager_law E" and "one_manager clp"
  shows "one_manager (nfs4_schedule_state_manager E clp) \<and> one_manager (nfs4_schedule_lease_recovery E clp) \<and>
    one_manager (nfs4_schedule_lease_moved_recovery E clp) \<and> one_manager (snd (nfs4_schedule_migration_recovery E i clp)) \<and>
    one_manager (m_clp (snd (nfs4_schedule_stateid_recovery E (m\<lparr>m_clp := clp\<rparr>))))"
proof -
  have up: "one_manager (upd_server j f c) = one_manager c" for j f and c :: "'a nfs_client" by (simp add: one_manager_def upd_server_def)
  show ?thesis using one_manager_schedule [OF assms(1)] assms(2)
    by (simp add: nfs4_schedule_lease_recovery_def nfs4_schedule_lease_moved_recovery_def nfs4_schedule_migration_recovery_def
        nfs4_schedule_stateid_recovery_def nfs4_state_mark_reclaim_nograce_def one_manager_bit up Let_def)
qed

text \<open>C26: reclaiming after a reboot of the server ends. With a bound above the number of marked owners and the number of states of each
  of them \<^verbatim>\<open>nfs4_do_reclaim\<close> returns, whatever the server answers, and when it returns 0 no owner
  and no state of the client is marked any more.\<close>

theorem reboot_reclaim_ends:
  assumes "reboot_law R" and "reclaimable n (cl_superblocks clp)" and "marked_owners NFS_OWNER_RECLAIM_REBOOT (cl_superblocks clp) < n"
  shows "\<exists>status clp'. nfs4_do_reclaim M R n clp = Some (status, clp') \<and> status \<le> 0 \<and> (status = 0 \<longrightarrow> unmarked (cl_superblocks clp'))"
  using do_reclaim_loop_ends [OF assms, of M] by (fastforce simp: nfs4_do_reclaim_def)

theorem reboot_reclaim_ends_witness:
  "\<exists>status clp'. nfs4_do_reclaim sample_manager (sample_reboot_ops 0) 3 sample_reboot = Some (status, clp') \<and> status \<le> 0 \<and>
     (status = 0 \<longrightarrow> unmarked (cl_superblocks clp'))"
  using reboot_reclaim_ends [OF sample_reboot_law sample_reclaimable] by blast

text \<open>C27: an error of the session during recovery. The loop over the states of an owner stops at once and reports it, and the state that was being
  reclaimed has lost its mark although it was not recovered, so that no later pass reclaims it.\<close>

theorem session_error_forgets_state:
  assumes "reboot_law R" and "next_state NFS_STATE_RECLAIM_REBOOT (rc_states c) = (Some i, sts)"
    and "recover_state R (sts ! i) (rc_bits c) = (status, st, w)"
    and "status \<in> {- NFS4ERR_BADSESSION, - NFS4ERR_BADSLOT, - NFS4ERR_BAD_HIGH_SLOT, - NFS4ERR_CONN_NOT_BOUND_TO_SESSION}"
  shows "\<exists>c'. nfs4_reclaim_open_state R (Suc n) c = Some (status, c') \<and> NFS_STATE_RECLAIM_REBOOT \<in> st_flags (rc_states c ! i) \<and>
    NFS_STATE_RECLAIM_REBOOT \<notin> st_flags (rc_states c' ! i)"
proof -
  have "status < 0" "reclaim_verdict status = Stop" using assms(4) by (auto simp: reclaim_verdict_def)
  from reclaim_stop_forgets [OF assms(1-3) this] show ?thesis by blast
qed

theorem session_error_forgets_state_witness:
  "\<exists>c'. nfs4_reclaim_open_state (sample_reboot_ops (- NFS4ERR_BADSESSION)) 5
      \<lparr>rc_flags = {}, rc_states = [sample_open_state {NFS_STATE_RECLAIM_REBOOT}], rc_bits = ((), {})\<rparr> = Some (- NFS4ERR_BADSESSION, c') \<and>
     NFS_STATE_RECLAIM_REBOOT \<notin> st_flags (rc_states c' ! 0)"
  using session_error_forgets_state [OF sample_reboot_law, of "\<lparr>rc_flags = {}, rc_states = [sample_open_state {NFS_STATE_RECLAIM_REBOOT}], rc_bits = ((), {})\<rparr>"
      0 "[sample_open_state {}]" "- NFS4ERR_BADSESSION" "- NFS4ERR_BADSESSION" _ _ 4]
  by (simp add: sample_open_state_def nfs4_valid_open_stateid_def recover_state_def sample_recovery_def numeral_eq_Suc)

text \<open>Marking. When the server has rebooted or all state has expired, every state of every owner of every server is marked for the
  recovery that applies and has forgotten the modes and locks the server no longer knows; and marks stay visible from above: an owner
  with a marked state is marked, and so is the client.\<close>

lemma marking_reaches_all:
  assumes "visible (cl_superblocks clp) (cl_state clp)"
  shows "all_states to_reclaim_nograce (cl_superblocks (nfs4_state_mark_reclaim_helper nfs4_state_mark_reclaim_nograce clp)) \<and>
    all_states to_reclaim_reboot (cl_superblocks (nfs4_state_mark_reclaim_helper nfs4_state_mark_reclaim_reboot clp)) \<and>
    (let c = nfs4_state_mark_reclaim_helper nfs4_state_mark_reclaim_nograce clp in visible (cl_superblocks c) (cl_state c)) \<and>
    (let c = nfs4_state_mark_reclaim_helper nfs4_state_mark_reclaim_reboot clp in visible (cl_superblocks c) (cl_state c))"
  using nograce.helper_visible [OF assms] reboot.helper_visible [OF assms] by (simp add: nograce.helper_marks_all reboot.helper_marks_all Let_def)





end
