(* ===== verification/Nfs4_Open_State.thy ===== *)
theory Nfs4_Open_State
  imports Nfs4_Recovery Nfs4_Sequence
begin

text \<open>
  The open states of an owner: how opens and closes of a file change the counts, the mode and the state ids of its \<^verbatim>\<open>struct nfs4_state\<close>
  (\<^verbatim>\<open>fs/nfs/nfs4proc.c\<close>: \<^verbatim>\<open>can_open_cached\<close> to \<^verbatim>\<open>nfs4_try_open_cached\<close>, \<^verbatim>\<open>nfs4_close_prepare\<close>, \<^verbatim>\<open>nfs4_close_done\<close>;
  \<^verbatim>\<open>fs/nfs/nfs4state.c\<close>: \<^verbatim>\<open>nfs4_state_set_mode_locked\<close>, \<^verbatim>\<open>nfs4_put_open_state\<close>, \<^verbatim>\<open>__nfs4_close\<close>).

  An owner is a \<open>state_owner\<close> with the list of its states in the order of \<^verbatim>\<open>so_states\<close>; \<open>oc_index\<close> is the position of the state that is worked on. The comparisons
  of state ids (\<^verbatim>\<open>fs/nfs/nfs4_fs.h\<close>) are parameters.
\<close>

section \<open>Data\<close>

abbreviation (input) READ :: u32 where "READ \<equiv> 1"
abbreviation (input) WRITE :: u32 where "WRITE \<equiv> 2"
abbreviation (input) RDWR :: u32 where "RDWR \<equiv> 3"

record nfs_delegation =
  dl_type :: u32
  dl_stateid :: nfs4_stateid
  dl_returning :: bool
  dl_need_reclaim :: bool
  dl_referenced :: bool

record stateid_env =
  nfs4_stateid_match_other :: "nfs4_stateid \<Rightarrow> nfs4_stateid \<Rightarrow> bool"
  nfs4_stateid_is_newer :: "nfs4_stateid \<Rightarrow> nfs4_stateid \<Rightarrow> bool"
  nfs4_stateid_match :: "nfs4_stateid \<Rightarrow> nfs4_stateid \<Rightarrow> bool"

record 'w open_ctx =
  oc_owner :: state_owner
  oc_index :: nat
  oc_deleg :: "nfs_delegation option"
  oc_clp :: "'w nfs_client"

definition oc_state :: "'w open_ctx \<Rightarrow> open_state" where
  "oc_state c = ow_states (oc_owner c) ! oc_index c"

definition oc_upd :: "(open_state \<Rightarrow> open_state) \<Rightarrow> 'w open_ctx \<Rightarrow> 'w open_ctx" where
  "oc_upd f c = c\<lparr>oc_owner := (oc_owner c)\<lparr>ow_states := (ow_states (oc_owner c))[oc_index c := f (oc_state c)]\<rparr>\<rparr>"

definition set_flag :: "state_bit \<Rightarrow> open_state \<Rightarrow> open_state" where
  "set_flag b st = st\<lparr>st_flags := insert b (st_flags st)\<rparr>"

definition clear_flag :: "state_bit \<Rightarrow> open_state \<Rightarrow> open_state" where
  "clear_flag b st = st\<lparr>st_flags := st_flags st - {b}\<rparr>"

section \<open>The mode\<close>

text \<open>States that are open for writing come first in the list of the owner.\<close>

definition nfs4_state_set_mode_locked :: "u32 \<Rightarrow> 'w open_ctx \<Rightarrow> 'w open_ctx" where
  "nfs4_state_set_mode_locked fmode c =
     (let st = oc_state c; i = oc_index c; sts = ow_states (oc_owner c); rest = take i sts @ drop (Suc i) sts; st' = st\<lparr>st_mode := fmode\<rparr>
      in if st_mode st = fmode then c
         else if fmode AND WRITE \<noteq> st_mode st AND WRITE then
           if fmode AND WRITE \<noteq> 0 then c\<lparr>oc_owner := (oc_owner c)\<lparr>ow_states := st' # rest\<rparr>, oc_index := 0\<rparr>
           else c\<lparr>oc_owner := (oc_owner c)\<lparr>ow_states := rest @ [st']\<rparr>, oc_index := length rest\<rparr>
         else oc_upd (\<lambda>_. st') c)"

definition can_open_cached :: "open_state \<Rightarrow> u32 \<Rightarrow> bool \<Rightarrow> bool" where
  "can_open_cached st mode excl_or_trunc \<longleftrightarrow>
     \<not> excl_or_trunc \<and>
     (let m = mode AND RDWR
      in if m = READ then NFS_O_RDONLY_STATE \<in> st_flags st \<and> n_rdonly st \<noteq> 0
         else if m = WRITE then NFS_O_WRONLY_STATE \<in> st_flags st \<and> n_wronly st \<noteq> 0
         else if m = RDWR then NFS_O_RDWR_STATE \<in> st_flags st \<and> n_rdwr st \<noteq> 0
         else False)"

text \<open>Whether a delegation is good for an open, and the delegation afterwards.\<close>

definition can_open_delegated :: "nfs_delegation option \<Rightarrow> u32 \<Rightarrow> bool \<times> nfs_delegation option" where
  "can_open_delegated delegation fmode =
     (case delegation of
        None \<Rightarrow> (False, None)
      | Some d \<Rightarrow>
          if dl_type d AND fmode \<noteq> fmode \<or> dl_need_reclaim d \<or> dl_returning d then (False, Some d)
          else (True, Some (d\<lparr>dl_referenced := True\<rparr>)))"

definition count_open :: "u32 \<Rightarrow> open_state \<Rightarrow> open_state" where
  "count_open fmode st =
     (if fmode = WRITE then st\<lparr>n_wronly := n_wronly st + 1\<rparr>
      else if fmode = READ then st\<lparr>n_rdonly := n_rdonly st + 1\<rparr>
      else if fmode = RDWR then st\<lparr>n_rdwr := n_rdwr st + 1\<rparr> else st)"

definition update_open_stateflags :: "u32 \<Rightarrow> 'w open_ctx \<Rightarrow> 'w open_ctx" where
  "update_open_stateflags fmode c =
     (let c = oc_upd (count_open fmode) c in nfs4_state_set_mode_locked (st_mode (oc_state c) OR fmode) c)"

section \<open>State ids\<close>

text \<open>The state with the flags of its owner and the client, for \<^verbatim>\<open>nfs4_state_mark_reclaim_nograce\<close>.\<close>

definition oc_mark :: "'w open_ctx \<Rightarrow> 'w open_ctx" where
  "oc_mark c =
     (let m = snd (nfs4_state_mark_reclaim_nograce \<lparr>m_state = oc_state c, m_owner_flags = ow_flags (oc_owner c), m_clp = oc_clp c\<rparr>);
          c = oc_upd (\<lambda>_. m_state m) c
      in c\<lparr>oc_owner := (oc_owner c)\<lparr>ow_flags := m_owner_flags m\<rparr>, oc_clp := m_clp m\<rparr>)"

definition nfs_test_and_clear_all_open_stateid :: "'w open_ctx \<Rightarrow> 'w open_ctx" where
  "nfs_test_and_clear_all_open_stateid c =
     (let st = oc_state c;
          need_recover = NFS_O_RDONLY_STATE \<in> st_flags st \<and> n_rdonly st \<noteq> 0 \<or> NFS_O_WRONLY_STATE \<in> st_flags st \<and> n_wronly st \<noteq> 0 \<or>
            NFS_O_RDWR_STATE \<in> st_flags st \<and> n_rdwr st \<noteq> 0;
          c = oc_upd (clear_flag NFS_O_RDWR_STATE \<circ> clear_flag NFS_O_WRONLY_STATE \<circ> clear_flag NFS_O_RDONLY_STATE) c
      in if need_recover then oc_mark c else c)"

definition nfs_need_update_open_stateid :: "stateid_env \<Rightarrow> nfs4_stateid \<Rightarrow> 'w open_ctx \<Rightarrow> bool \<times> 'w open_ctx" where
  "nfs_need_update_open_stateid S stateid c =
     (let was_open = NFS_OPEN_STATE \<in> st_flags (oc_state c); c = oc_upd (set_flag NFS_OPEN_STATE) c
      in if \<not> was_open then (True, c)
         else if \<not> nfs4_stateid_match_other S stateid (st_open_stateid (oc_state c)) then (True, nfs_test_and_clear_all_open_stateid c)
         else (nfs4_stateid_is_newer S stateid (st_open_stateid (oc_state c)), c))"

definition copy_stateid :: "nfs4_stateid \<Rightarrow> open_state \<Rightarrow> open_state" where
  "copy_stateid stateid st =
     (let st = (if NFS_DELEGATED_STATE \<notin> st_flags st then st\<lparr>st_stateid := stateid\<rparr> else st) in st\<lparr>st_open_stateid := stateid\<rparr>)"

definition update_stateid :: "stateid_env \<Rightarrow> nfs4_stateid \<Rightarrow> 'w open_ctx \<Rightarrow> 'w open_ctx" where
  "update_stateid S stateid c =
     (case nfs_need_update_open_stateid S stateid c of (need, c) \<Rightarrow> if \<not> need then c else oc_upd (copy_stateid stateid) c)"

definition clear_modes :: "u32 \<Rightarrow> open_state \<Rightarrow> open_state" where
  "clear_modes fmode st =
     (let st = clear_flag NFS_O_RDWR_STATE st; m = fmode AND RDWR
      in if m = WRITE then clear_flag NFS_O_RDONLY_STATE st
         else if m = READ then clear_flag NFS_O_WRONLY_STATE st
         else if m = 0 then clear_flag NFS_OPEN_STATE (clear_flag NFS_O_WRONLY_STATE (clear_flag NFS_O_RDONLY_STATE st))
         else st)"

definition nfs_clear_open_stateid_locked :: "stateid_env \<Rightarrow> nfs4_stateid option \<Rightarrow> u32 \<Rightarrow> 'w open_ctx \<Rightarrow> 'w open_ctx" where
  "nfs_clear_open_stateid_locked S stateid fmode c =
     (let c = oc_upd (clear_modes fmode) c in case stateid of None \<Rightarrow> c | Some s \<Rightarrow> update_stateid S s c)"

definition oc_schedule :: "'w client_env \<Rightarrow> 'w open_ctx \<Rightarrow> 'w open_ctx" where
  "oc_schedule E c =
     (if NFS_STATE_RECLAIM_NOGRACE \<in> st_flags (oc_state c) then c\<lparr>oc_clp := nfs4_schedule_state_manager E (oc_clp c)\<rparr> else c)"

definition nfs_clear_open_stateid :: "'w client_env \<Rightarrow> stateid_env \<Rightarrow> nfs4_stateid option \<Rightarrow> u32 \<Rightarrow> 'w open_ctx \<Rightarrow> 'w open_ctx" where
  "nfs_clear_open_stateid E S stateid fmode c = oc_schedule E (nfs_clear_open_stateid_locked S stateid fmode c)"

definition set_modes :: "u32 \<Rightarrow> open_state \<Rightarrow> open_state" where
  "set_modes fmode st =
     (if fmode = READ then set_flag NFS_O_RDONLY_STATE st
      else if fmode = WRITE then set_flag NFS_O_WRONLY_STATE st
      else if fmode = RDWR then set_flag NFS_O_RDWR_STATE st else st)"

definition nfs_set_open_stateid_locked :: "stateid_env \<Rightarrow> nfs4_stateid \<Rightarrow> u32 \<Rightarrow> 'w open_ctx \<Rightarrow> 'w open_ctx" where
  "nfs_set_open_stateid_locked S stateid fmode c = update_stateid S stateid (oc_upd (set_modes fmode) c)"

text \<open>\<^verbatim>\<open>__update_open_stateid\<close>\<close>

definition update_open_stateid_now :: "stateid_env \<Rightarrow> nfs4_stateid option \<Rightarrow> nfs4_stateid option \<Rightarrow> u32 \<Rightarrow> 'w open_ctx \<Rightarrow> 'w open_ctx" where
  "update_open_stateid_now S open_stateid deleg_stateid fmode c =
     (let c = (case deleg_stateid of None \<Rightarrow> c | Some d \<Rightarrow> oc_upd (\<lambda>st. set_flag NFS_DELEGATED_STATE (st\<lparr>st_stateid := d\<rparr>)) c);
          c = (case open_stateid of None \<Rightarrow> c | Some s \<Rightarrow> nfs_set_open_stateid_locked S s fmode c)
      in update_open_stateflags fmode c)"

definition usable_delegation :: "stateid_env \<Rightarrow> nfs4_stateid option \<Rightarrow> u32 \<Rightarrow> nfs_delegation option \<Rightarrow> nfs_delegation option" where
  "usable_delegation S delegation fmode deleg_cur =
     (case deleg_cur of
        None \<Rightarrow> None
      | Some d \<Rightarrow>
          if dl_returning d \<or> dl_type d AND fmode \<noteq> fmode then None
          else case delegation of None \<Rightarrow> Some d | Some s \<Rightarrow> if nfs4_stateid_match S (dl_stateid d) s then Some d else None)"

definition update_open_stateid ::
  "'w client_env \<Rightarrow> stateid_env \<Rightarrow> nfs4_stateid option \<Rightarrow> nfs4_stateid option \<Rightarrow> u32 \<Rightarrow> 'w open_ctx \<Rightarrow> bool \<times> 'w open_ctx" where
  "update_open_stateid E S open_stateid delegation fmode c =
     (let fmode = fmode AND RDWR;
          (ret, c) = (case usable_delegation S delegation fmode (oc_deleg c) of
              Some d \<Rightarrow> (True, update_open_stateid_now S open_stateid (Some (dl_stateid d)) fmode (c\<lparr>oc_deleg := Some (d\<lparr>dl_referenced := True\<rparr>)\<rparr>))
            | None \<Rightarrow> (case open_stateid of None \<Rightarrow> (False, c) | Some s \<Rightarrow> (True, update_open_stateid_now S (Some s) None fmode c)))
      in (ret, oc_schedule E c))"

end
