(* ===== verification/Nfs4_Close.thy ===== *)
theory Nfs4_Close
  imports Nfs4_Open_State
begin

text \<open>
  Closing: \<^verbatim>\<open>nfs4_put_open_state\<close> and \<^verbatim>\<open>__nfs4_close\<close> of \<^verbatim>\<open>fs/nfs/nfs4state.c\<close>; \<^verbatim>\<open>nfs4_try_open_cached\<close>, \<^verbatim>\<open>nfs4_close_prepare\<close>,
  \<^verbatim>\<open>nfs4_close_done\<close> and \<^verbatim>\<open>nfs4_state_has_opener\<close> of \<^verbatim>\<open>fs/nfs/nfs4proc.c\<close>.
\<close>

text \<open>The rest of the kernel as these functions see it: the sequence id of the request (\<^verbatim>\<open>Nfs4_Seqid_Queue\<close>), its SEQUENCE (\<^verbatim>\<open>Nfs4_Sequence\<close>; \<open>True\<close> is success), the
  attribute cache (\<^verbatim>\<open>Nfs_Inode\<close>), the asynchronous error handler (\<^verbatim>\<open>Nfs4_Exception\<close>; \<open>True\<close> asks for another try), permissions and pNFS.\<close>

record 'w open_env =
  nfs_may_open :: "'w open_ctx \<Rightarrow> int \<times> 'w open_ctx"
  release_seqid :: "'w open_ctx \<Rightarrow> 'w open_ctx"
  wait_on_sequence :: "'w open_ctx \<Rightarrow> bool \<times> 'w open_ctx"
  setup_sequence :: "'w open_ctx \<Rightarrow> bool \<times> 'w open_ctx"
  finish_sequence :: "'w open_ctx \<Rightarrow> bool \<times> 'w open_ctx"
  async_error :: "'w open_ctx \<Rightarrow> bool \<times> 'w open_ctx"
  refresh_inode :: "'w open_ctx \<Rightarrow> 'w open_ctx"
  pnfs_roc_drain :: "'w open_ctx \<Rightarrow> bool \<times> 'w open_ctx"
  pnfs_roc_set_barrier :: "'w open_ctx \<Rightarrow> 'w open_ctx"

section \<open>Opening from the cache\<close>

text \<open>\<open>nfs_may_open\<close> checks permissions; meanwhile the delegation may change. The loop goes on as long as the delegation it saw is replaced by
  another usable one before it is used.\<close>

fun nfs4_try_open_cached ::
  "'w client_env \<Rightarrow> stateid_env \<Rightarrow> 'w open_env \<Rightarrow> bool \<Rightarrow> bool \<Rightarrow> u32 \<Rightarrow> nat \<Rightarrow> 'w open_ctx \<Rightarrow> (int \<times> 'w open_ctx) option" where
  "nfs4_try_open_cached E S X is_recover excl fmode 0 c = None"
| "nfs4_try_open_cached E S X is_recover excl fmode (Suc n) c =
     (let take = oc_upd (\<lambda>st. st\<lparr>st_count := st_count st + 1\<rparr>)
      in if can_open_cached (oc_state c) fmode excl then Some (0, take (update_open_stateflags fmode c))
         else case can_open_delegated (oc_deleg c) fmode of
                (False, _) \<Rightarrow> Some (- EAGAIN, c)
              | (True, d) \<Rightarrow>
                  let c = release_seqid X (c\<lparr>oc_deleg := d\<rparr>)
                  in case (if is_recover then (0, c) else nfs_may_open X c) of (ret, c) \<Rightarrow>
                       if ret \<noteq> 0 then Some (ret, c)
                       else case update_open_stateid E S None (map_option dl_stateid d) fmode c of (ok, c) \<Rightarrow>
                         if ok then Some (0, take c) else nfs4_try_open_cached E S X is_recover excl fmode n c)"

section \<open>Closing\<close>

text \<open>The counts and the new mode, and whether the server has to be told.\<close>

definition count_close :: "u32 \<Rightarrow> open_state \<Rightarrow> open_state" where
  "count_close fmode st =
     (let m = fmode AND RDWR
      in if m = READ then st\<lparr>n_rdonly := n_rdonly st - 1\<rparr>
         else if m = WRITE then st\<lparr>n_wronly := n_wronly st - 1\<rparr>
         else if m = RDWR then st\<lparr>n_rdwr := n_rdwr st - 1\<rparr> else st)"

definition close_newstate :: "open_state \<Rightarrow> u32 \<times> bool" where
  "close_newstate st =
     (if n_rdwr st = 0
      then ((if n_rdonly st = 0 then 0 else READ) OR (if n_wronly st = 0 then 0 else WRITE),
            n_rdonly st = 0 \<and> (NFS_O_RDONLY_STATE \<in> st_flags st \<or> NFS_O_RDWR_STATE \<in> st_flags st) \<or>
            n_wronly st = 0 \<and> (NFS_O_WRONLY_STATE \<in> st_flags st \<or> NFS_O_RDWR_STATE \<in> st_flags st))
      else (RDWR, False))"

text \<open>\<^verbatim>\<open>nfs4_put_state_owner\<close> and \<^verbatim>\<open>nfs4_put_open_state\<close>: the last reference takes the state off the list and gives back that of the owner.\<close>

definition put_owner_ref :: "'w open_ctx \<Rightarrow> 'w open_ctx" where
  "put_owner_ref c = c\<lparr>oc_owner := (oc_owner c)\<lparr>ow_count := ow_count (oc_owner c) - 1\<rparr>\<rparr>"

definition nfs4_put_open_state :: "'w open_ctx \<Rightarrow> 'w open_ctx" where
  "nfs4_put_open_state c =
     (let c = oc_upd (\<lambda>st. st\<lparr>st_count := st_count st - 1\<rparr>) c; i = oc_index c; sts = ow_states (oc_owner c)
      in if st_count (oc_state c) \<noteq> 0 then c
         else put_owner_ref (c\<lparr>oc_owner := (oc_owner c)\<lparr>ow_states := take i sts @ drop (Suc i) sts\<rparr>\<rparr>))"

text \<open>\<^verbatim>\<open>__nfs4_close\<close> up to the decision: the counts and the mode change at once.\<close>

definition nfs4_close_local :: "u32 \<Rightarrow> 'w open_ctx \<Rightarrow> bool \<times> 'w open_ctx" where
  "nfs4_close_local fmode c =
     (let c = c\<lparr>oc_owner := (oc_owner c)\<lparr>ow_count := ow_count (oc_owner c) + 1\<rparr>\<rparr>;
          c = oc_upd (count_close fmode) c
      in case close_newstate (oc_state c) of (newstate, call_close) \<Rightarrow>
           let c = (if newstate = 0 then oc_upd (clear_flag NFS_DELEGATED_STATE) c else c)
           in (call_close, nfs4_state_set_mode_locked newstate c))"

text \<open>\<open>nfs4_do_close\<close> starts the task that tells the server; it keeps the references until the task is done.\<close>

definition nfs4_close :: "('w open_ctx \<Rightarrow> 'w open_ctx) \<Rightarrow> u32 \<Rightarrow> 'w open_ctx \<Rightarrow> 'w open_ctx" where
  "nfs4_close nfs4_do_close fmode c =
     (case nfs4_close_local fmode c of (call_close, c) \<Rightarrow>
        if \<not> call_close then put_owner_ref (nfs4_put_open_state c) else nfs4_do_close c)"

text \<open>What \<^verbatim>\<open>nfs4_close_prepare\<close> asks the server for: the mode that stays open (0 is a CLOSE, anything else an OPEN_DOWNGRADE), and whether anything
  is sent at all.\<close>

definition close_mode :: "open_state \<Rightarrow> u32 \<times> bool" where
  "close_mode st =
     (let is_rdwr = NFS_O_RDWR_STATE \<in> st_flags st; is_rdonly = NFS_O_RDONLY_STATE \<in> st_flags st; is_wronly = NFS_O_WRONLY_STATE \<in> st_flags st;
          (fmode, call_close) =
            (if n_rdwr st = 0
             then ((if n_rdonly st \<noteq> 0 \<and> is_rdonly then READ else 0) OR (if n_wronly st \<noteq> 0 \<and> is_wronly then WRITE else 0),
                   n_rdonly st = 0 \<and> is_rdonly \<or> n_wronly st = 0 \<and> is_wronly)
             else (if is_rdwr then RDWR else 0, False));
          call_close = (call_close \<or> fmode = 0 \<and> is_rdwr)
      in (fmode, call_close \<and> nfs4_valid_open_stateid st))"

datatype close_action = Close_Wait | Close_No_Action | Close_Send u32

definition nfs4_close_prepare :: "'w open_env \<Rightarrow> bool \<Rightarrow> 'w open_ctx \<Rightarrow> close_action \<times> 'w open_ctx" where
  "nfs4_close_prepare X roc c =
     (case wait_on_sequence X c of
        (False, c) \<Rightarrow> (Close_Wait, snd (finish_sequence X c))
      | (True, c) \<Rightarrow>
          (case close_mode (oc_state c) of (fmode, call_close) \<Rightarrow>
             if \<not> call_close then (Close_No_Action, snd (finish_sequence X c))
             else case (if fmode = 0 \<and> roc then pnfs_roc_drain X c else (False, c)) of
                    (True, c) \<Rightarrow> (Close_Wait, snd (finish_sequence X (release_seqid X c)))
                  | (False, c) \<Rightarrow> (case setup_sequence X c of (True, c) \<Rightarrow> (Close_Send fmode, c) | (False, c) \<Rightarrow> (Close_Wait, release_seqid X c))))"

definition renew_lease :: "u64 \<Rightarrow> 'w nfs_client \<Rightarrow> 'w nfs_client" where
  "renew_lease timestamp clp = do_renew_lease timestamp clp"

text \<open>The reply: the result says whether the task is done.\<close>

definition nfs4_close_done ::
  "'w client_env \<Rightarrow> stateid_env \<Rightarrow> 'w open_env \<Rightarrow> bool \<Rightarrow> u32 \<Rightarrow> nfs4_stateid \<Rightarrow> u64 \<Rightarrow> int \<Rightarrow> 'w open_ctx \<Rightarrow> bool \<times> 'w open_ctx" where
  "nfs4_close_done E S X roc fmode res_stateid timestamp status c =
     (case finish_sequence X c of
        (False, c) \<Rightarrow> (False, c)
      | (True, c) \<Rightarrow>
          (case (if status = 0 then
                   let c = (if fmode = 0 \<and> roc then pnfs_roc_set_barrier X c else c)
                   in (True, nfs_clear_open_stateid E S (Some res_stateid) fmode (c\<lparr>oc_clp := renew_lease timestamp (oc_clp c)\<rparr>))
                 else if status \<in> {- NFS4ERR_ADMIN_REVOKED, - NFS4ERR_STALE_STATEID, - NFS4ERR_OLD_STATEID, - NFS4ERR_BAD_STATEID, - NFS4ERR_EXPIRED} \<and> fmode = 0
                 then (True, nfs_clear_open_stateid E S None fmode c)
                 else case async_error X c of (again, c) \<Rightarrow> if again then (False, c) else (True, nfs_clear_open_stateid E S None fmode c)) of
             (done, c) \<Rightarrow> (done, refresh_inode X (release_seqid X c))))"

definition nfs4_state_has_opener :: "open_state \<Rightarrow> bool" where
  "nfs4_state_has_opener st \<longleftrightarrow> NFS_O_RDONLY_STATE \<in> st_flags st \<and> n_rdonly st \<noteq> 0 \<or> NFS_O_WRONLY_STATE \<in> st_flags st \<and> n_wronly st \<noteq> 0 \<or>
     NFS_O_RDWR_STATE \<in> st_flags st \<and> n_rdwr st \<noteq> 0"

end
