(* ===== verification/Nfs4_Lock_State.thy ===== *)
theory Nfs4_Lock_State
  imports Nfs4_Open_State
begin

text \<open>
  Lock states and the choice of a state id for reading and writing: \<^verbatim>\<open>__nfs4_find_lock_state\<close> to \<^verbatim>\<open>nfs4_select_rw_stateid\<close> of
  \<^verbatim>\<open>fs/nfs/nfs4state.c\<close>. Lock states are named by their owner. Memory and lock owner ids may run out (\<open>alloc_ok\<close>), and whatever other
  tasks do while the lock of the state is dropped is the parameter \<open>meanwhile\<close>.
\<close>

section \<open>Finding, adding and removing\<close>

fun find_lock_state :: "nat \<Rightarrow> lock_state list \<Rightarrow> (lock_state \<times> lock_state list) option" where
  "find_lock_state owner [] = None"
| "find_lock_state owner (l # ls) =
     (if ls_owner l = owner then let l = l\<lparr>ls_count := ls_count l + 1\<rparr> in Some (l, l # ls)
      else map_option (\<lambda>(r, ls). (r, l # ls)) (find_lock_state owner ls))"

definition zero_stateid :: nfs4_stateid where
  "zero_stateid = \<lparr>st_seqid = 0, st_other = replicate 12 0\<rparr>"

definition nfs4_alloc_lock_state :: "bool \<Rightarrow> nat \<Rightarrow> lock_state option" where
  "nfs4_alloc_lock_state alloc_ok owner =
     (if \<not> alloc_ok then None
      else Some \<lparr>ls_owner = owner, ls_count = 1, ls_flags = {}, ls_seqid_flags = 0, ls_stateid = zero_stateid\<rparr>)"

text \<open>The loop makes at most two rounds: a new lock state is added in the second unless another task has added one meanwhile.\<close>

definition nfs4_get_lock_state :: "bool \<Rightarrow> (open_state \<Rightarrow> open_state) \<Rightarrow> nat \<Rightarrow> open_state \<Rightarrow> lock_state option \<times> open_state" where
  "nfs4_get_lock_state alloc_ok meanwhile owner st =
     (case find_lock_state owner (st_locks st) of
        Some (l, ls) \<Rightarrow> (Some l, st\<lparr>st_locks := ls\<rparr>)
      | None \<Rightarrow>
          (let st = meanwhile st
           in case nfs4_alloc_lock_state alloc_ok owner of
                None \<Rightarrow> (None, st)
              | Some new \<Rightarrow>
                  (case find_lock_state owner (st_locks st) of
                     Some (l, ls) \<Rightarrow> (Some l, st\<lparr>st_locks := ls\<rparr>)
                   | None \<Rightarrow> (Some new, set_flag LK_STATE_IN_USE (st\<lparr>st_locks := new # st_locks st\<rparr>)))))"

text \<open>\<open>put_lock\<close> gives back a reference to the lock state of \<open>owner\<close>; the flag says that it was the last one and the state had been used on the server, so that the
  server is told (\<^verbatim>\<open>free_lock_state\<close>).\<close>

fun put_lock :: "nat \<Rightarrow> lock_state list \<Rightarrow> lock_state option \<times> lock_state list" where
  "put_lock owner [] = (None, [])"
| "put_lock owner (l # ls) =
     (if ls_owner l = owner then let l = l\<lparr>ls_count := ls_count l - 1\<rparr> in if ls_count l = 0 then (Some l, ls) else (None, l # ls)
      else case put_lock owner ls of (r, ls) \<Rightarrow> (r, l # ls))"

definition nfs4_put_lock_state :: "nat \<Rightarrow> open_state \<Rightarrow> bool \<times> open_state" where
  "nfs4_put_lock_state owner st =
     (case put_lock owner (st_locks st) of (gone, ls) \<Rightarrow>
        let st = st\<lparr>st_locks := ls\<rparr>
        in case gone of
             None \<Rightarrow> (False, st)
           | Some l \<Rightarrow> (NFS_LOCK_INITIALIZED \<in> ls_flags l, if ls = [] then clear_flag LK_STATE_IN_USE st else st))"

definition nfs4_fl_copy_lock :: "nat \<Rightarrow> open_state \<Rightarrow> open_state" where
  "nfs4_fl_copy_lock owner st = st\<lparr>st_locks := map (\<lambda>l. if ls_owner l = owner then l\<lparr>ls_count := ls_count l + 1\<rparr> else l) (st_locks st)\<rparr>"

definition nfs4_fl_release_lock :: "nat \<Rightarrow> open_state \<Rightarrow> bool \<times> open_state" where
  "nfs4_fl_release_lock owner st = nfs4_put_lock_state owner st"

text \<open>\<open>fl_ops_set\<close> says that the file lock has a lock state already.\<close>

definition nfs4_set_lock_state :: "bool \<Rightarrow> (open_state \<Rightarrow> open_state) \<Rightarrow> bool \<Rightarrow> nat \<Rightarrow> open_state \<Rightarrow> int \<times> open_state" where
  "nfs4_set_lock_state alloc_ok meanwhile fl_ops_set owner st =
     (if fl_ops_set then (0, st)
      else case nfs4_get_lock_state alloc_ok meanwhile owner st of (None, st) \<Rightarrow> (- ENOMEM, st) | (Some l, st) \<Rightarrow> (0, st))"

section \<open>Choosing a state id\<close>

definition nfs4_copy_lock_stateid :: "nfs4_stateid \<Rightarrow> nat option \<Rightarrow> open_state \<Rightarrow> int \<times> nfs4_stateid \<times> open_state" where
  "nfs4_copy_lock_stateid dst lockowner st =
     (case lockowner of
        None \<Rightarrow> (- ENOENT, dst, st)
      | Some owner \<Rightarrow>
          if LK_STATE_IN_USE \<notin> st_flags st then (- ENOENT, dst, st)
          else case find_lock_state owner (st_locks st) of
                 None \<Rightarrow> (- ENOENT, dst, st)
               | Some (l, ls) \<Rightarrow>
                   let (ret, dst) = (if NFS_LOCK_LOST \<in> ls_flags l then (- EIO, dst)
                                     else if NFS_LOCK_INITIALIZED \<in> ls_flags l then (0, ls_stateid l) else (- ENOENT, dst))
                   in (ret, dst, snd (nfs4_put_lock_state owner (st\<lparr>st_locks := ls\<rparr>))))"

definition nfs4_copy_open_stateid :: "open_state \<Rightarrow> nfs4_stateid" where
  "nfs4_copy_open_stateid st = (if NFS_OPEN_STATE \<in> st_flags st then st_open_stateid st else zero_stateid)"

text \<open>\<open>deleg\<close> is what \<^verbatim>\<open>nfs4_copy_delegation_stateid\<close> finds for the inode and the mode.\<close>

definition nfs4_select_rw_stateid :: "nfs4_stateid option \<Rightarrow> bool \<Rightarrow> nfs4_stateid \<Rightarrow> nat option \<Rightarrow> open_state \<Rightarrow> int \<times> nfs4_stateid \<times> open_state" where
  "nfs4_select_rw_stateid deleg cap_nfsv41 dst lockowner st =
     (case nfs4_copy_lock_stateid dst lockowner st of (ret, dst, st) \<Rightarrow>
        let (ret, dst) = (if ret = - EIO then (ret, dst)
                          else case deleg of
                                 Some d \<Rightarrow> (0, d)
                               | None \<Rightarrow> if ret \<noteq> - ENOENT then (ret, dst) else (0, nfs4_copy_open_stateid st))
        in (ret, if cap_nfsv41 then dst\<lparr>st_seqid := 0\<rparr> else dst, st))"

section \<open>References\<close>

definition locks_ok :: "open_state \<Rightarrow> bool" where
  "locks_ok st \<longleftrightarrow> distinct (map ls_owner (st_locks st)) \<and> (\<forall>l \<in> set (st_locks st). 0 < ls_count l) \<and>
     (LK_STATE_IN_USE \<in> st_flags st \<longleftrightarrow> st_locks st \<noteq> [])"

text \<open>How many references there are to the lock state of an owner.\<close>

fun refs_in :: "nat \<Rightarrow> lock_state list \<Rightarrow> nat" where
  "refs_in x [] = 0"
| "refs_in x (l # ls) = (if ls_owner l = x then ls_count l else 0) + refs_in x ls"

definition lock_refs :: "open_state \<Rightarrow> nat \<Rightarrow> nat" where
  "lock_refs st owner = refs_in owner (st_locks st)"

lemma refs_in_absent: "x \<notin> ls_owner ` set ls \<Longrightarrow> refs_in x ls = 0"
  by (induction ls) auto

lemma find_lock_None: "find_lock_state owner ls = None \<longleftrightarrow> owner \<notin> ls_owner ` set ls"
  by (induction ls) (auto simp: Let_def)

lemma find_lock_Some:
  "find_lock_state owner ls = Some (l, ls') \<Longrightarrow> ls_owner l = owner \<and> l \<in> set ls' \<and> map ls_owner ls' = map ls_owner ls \<and> (\<forall>k \<in> set ls'. k \<in> set ls \<or> k = l) \<and> 0 < ls_count l \<and>
     refs_in x ls' = refs_in x ls + of_bool (x = owner)"
proof (induction ls arbitrary: ls')
  case (Cons k ls)
  then show ?case by (cases "ls_owner k = owner") (auto simp: Let_def)
qed simp

lemma find_put: "find_lock_state owner ls = Some (l, ls') \<Longrightarrow> \<forall>k \<in> set ls. 0 < ls_count k \<Longrightarrow> put_lock owner ls' = (None, ls)"
proof (induction ls arbitrary: ls')
  case (Cons k ls)
  then show ?case by (cases "ls_owner k = owner") (auto simp: Let_def)
qed simp

lemma put_lock_ok:
  "put_lock owner ls = (r, ls') \<Longrightarrow> distinct (map ls_owner ls) \<Longrightarrow> \<forall>k \<in> set ls. 0 < ls_count k \<Longrightarrow>
   distinct (map ls_owner ls') \<and> set (map ls_owner ls') \<subseteq> set (map ls_owner ls) \<and> (\<forall>k \<in> set ls'. 0 < ls_count k) \<and> (r = None \<longrightarrow> map ls_owner ls' = map ls_owner ls) \<and>
   refs_in x ls' = refs_in x ls - of_bool (x = owner)"
proof (induction ls arbitrary: r ls')
  case (Cons k ls)
  show ?case
  proof (cases "ls_owner k = owner")
    case True
    with Cons.prems show ?thesis by (auto simp: Let_def split: if_splits)
  next
    case False
    obtain r2 u where u: "put_lock owner ls = (r2, u)" by (cases "put_lock owner ls")
    with Cons.IH [OF u] Cons.prems False show ?thesis by (auto simp: image_subset_iff)
  qed
qed simp

lemma find_lock_ok:
  assumes "locks_ok st" and "find_lock_state owner (st_locks st) = Some (l, ls)"
  shows "locks_ok (st\<lparr>st_locks := ls\<rparr>)" and "l \<in> set ls"
    and "lock_refs (st\<lparr>st_locks := ls\<rparr>) x = lock_refs st x + of_bool (x = owner)"
proof -
  note f = find_lock_Some [OF assms(2), of x]
  have "\<forall>k \<in> set ls. 0 < ls_count k" using f assms(1) by (auto simp: locks_ok_def)
  moreover have "ls = [] \<longleftrightarrow> st_locks st = []" using f by (metis map_is_Nil_conv)
  ultimately show "locks_ok (st\<lparr>st_locks := ls\<rparr>)" using f assms(1) by (simp add: locks_ok_def)
  show "lock_refs (st\<lparr>st_locks := ls\<rparr>) x = lock_refs st x + of_bool (x = owner)" using f by (simp add: lock_refs_def)
  show "l \<in> set ls" using f by simp
qed

lemma add_lock_ok:
  assumes "locks_ok st" and "owner \<notin> ls_owner ` set (st_locks st)" and "ls_owner new = owner" and "ls_count new = 1"
  shows "locks_ok (set_flag LK_STATE_IN_USE (st\<lparr>st_locks := new # st_locks st\<rparr>))"
    and "lock_refs (set_flag LK_STATE_IN_USE (st\<lparr>st_locks := new # st_locks st\<rparr>)) x = lock_refs st x + of_bool (x = owner)"
  using assms by (auto simp: locks_ok_def set_flag_def lock_refs_def)

lemma get_lock_state_ok:
  assumes "locks_ok st" and "locks_ok (meanwhile st)" and "nfs4_get_lock_state alloc_ok meanwhile owner st = (r, st')"
  shows "locks_ok st' \<and> (case r of
      None \<Rightarrow> \<not> alloc_ok \<and> st' = meanwhile st
    | Some l \<Rightarrow> ls_owner l = owner \<and> l \<in> set (st_locks st') \<and> (meanwhile st = st \<longrightarrow> (\<forall>x. lock_refs st' x = lock_refs st x + of_bool (x = owner))))"
proof -
  let ?new = "\<lparr>ls_owner = owner, ls_count = 1, ls_flags = {}, ls_seqid_flags = 0, ls_stateid = zero_stateid\<rparr>"
  consider (found) l ls where "find_lock_state owner (st_locks st) = Some (l, ls)" "r = Some l" "st' = st\<lparr>st_locks := ls\<rparr>"
    | (failed) "r = None" "\<not> alloc_ok" "st' = meanwhile st"
    | (later) l ls where "find_lock_state owner (st_locks st) = None" "find_lock_state owner (st_locks (meanwhile st)) = Some (l, ls)" "r = Some l"
        "st' = (meanwhile st)\<lparr>st_locks := ls\<rparr>"
    | (new) "find_lock_state owner (st_locks (meanwhile st)) = None" "r = Some ?new"
        "st' = set_flag LK_STATE_IN_USE ((meanwhile st)\<lparr>st_locks := ?new # st_locks (meanwhile st)\<rparr>)"
  proof (cases "find_lock_state owner (st_locks st)")
    case None
    note get = assms(3) [unfolded nfs4_get_lock_state_def nfs4_alloc_lock_state_def Let_def None option.case]
    show thesis
    proof (cases alloc_ok)
      case False
      with get show thesis by (intro failed) simp_all
    next
      case True
      show thesis
      proof (cases "find_lock_state owner (st_locks (meanwhile st))")
        case None
        with True get show thesis by (intro new) simp_all
      next
        case (Some p)
        obtain l ls where "p = (l, ls)" by (cases p)
        with True get Some \<open>find_lock_state owner (st_locks st) = None\<close> show thesis by (intro later [of l ls]) simp_all
      qed
    qed
  next
    case (Some p)
    obtain l ls where "p = (l, ls)" by (cases p)
    with assms(3) Some show thesis by (intro found [of l ls]) (simp_all add: nfs4_get_lock_state_def)
  qed
  then show ?thesis
  proof cases
    case (found l ls)
    with find_lock_ok [OF assms(1) found(1)] find_lock_Some [OF found(1)] show ?thesis by simp
  next
    case failed
    with assms(2) show ?thesis by simp
  next
    case (later l ls)
    with find_lock_ok [OF assms(2) later(2)] find_lock_Some [OF later(2)] show ?thesis by (cases "meanwhile st = st") simp_all
  next
    case new
    then have "owner \<notin> ls_owner ` set (st_locks (meanwhile st))" by (simp add: find_lock_None)
    from add_lock_ok [OF assms(2) this, of ?new] new show ?thesis by (cases "meanwhile st = st") (simp_all add: set_flag_def)
  qed
qed

lemma put_lock_state_ok:
  assumes "locks_ok st" and "nfs4_put_lock_state owner st = (told, st')"
  shows "locks_ok st'" and "lock_refs st' x = lock_refs st x - of_bool (x = owner)"
proof -
  obtain r ls where p: "put_lock owner (st_locks st) = (r, ls)" by (cases "put_lock owner (st_locks st)")
  have d: "distinct (map ls_owner (st_locks st))" "\<forall>k \<in> set (st_locks st). 0 < ls_count k" using assms(1) by (simp_all add: locks_ok_def)
  note ok = put_lock_ok [OF p d, of x]
  have "ls = [] \<longleftrightarrow> st_locks st = []" if "r = None" using ok that by (metis map_is_Nil_conv)
  moreover have "st_locks st \<noteq> []" if "r \<noteq> None" using p that by (cases "st_locks st") auto
  ultimately show "locks_ok st'" "lock_refs st' x = lock_refs st x - of_bool (x = owner)"
    using assms p ok by (auto simp: nfs4_put_lock_state_def locks_ok_def lock_refs_def clear_flag_def Let_def split: option.splits if_splits)
qed

text \<open>Choosing a state id leaves the references as they were.\<close>

lemma copy_lock_stateid_state:
  assumes "locks_ok st"
  shows "snd (snd (nfs4_copy_lock_stateid dst lockowner st)) = st"
proof -
  have "snd (nfs4_put_lock_state owner (st\<lparr>st_locks := ls\<rparr>)) = st" if "find_lock_state owner (st_locks st) = Some (l, ls)" for owner l ls
    using find_put [OF that] assms by (simp add: nfs4_put_lock_state_def locks_ok_def)
  then show ?thesis by (auto simp: nfs4_copy_lock_stateid_def Let_def split: option.split)
qed

definition lock_of :: "nat option \<Rightarrow> open_state \<Rightarrow> lock_state option" where
  "lock_of lockowner st = (case lockowner of None \<Rightarrow> None | Some owner \<Rightarrow> find (\<lambda>l. ls_owner l = owner) (st_locks st))"

lemma find_lock_find:
  "find_lock_state owner ls = None \<longleftrightarrow> find (\<lambda>l. ls_owner l = owner) ls = None"
  "find_lock_state owner ls = Some (l, ls') \<Longrightarrow> \<exists>k. find (\<lambda>l. ls_owner l = owner) ls = Some k \<and> l = k\<lparr>ls_count := ls_count k + 1\<rparr>"
  by (induction ls arbitrary: ls') (auto simp: Let_def split: if_splits)

text \<open>The specification: a lost lock is an error, a delegation comes before everything else, then the lock, then the open state, and the anonymous state id last.\<close>

definition rw_stateid :: "nfs4_stateid option \<Rightarrow> nat option \<Rightarrow> open_state \<Rightarrow> nfs4_stateid option" where
  "rw_stateid deleg lockowner st =
     (let lock = lock_of lockowner st; has = (\<lambda>b. case lock of None \<Rightarrow> False | Some l \<Rightarrow> b \<in> ls_flags l)
      in if has NFS_LOCK_LOST then None
         else case deleg of
                Some d \<Rightarrow> Some d
              | None \<Rightarrow> if has NFS_LOCK_INITIALIZED then Some (ls_stateid (the lock))
                         else Some (if NFS_OPEN_STATE \<in> st_flags st then st_open_stateid st else zero_stateid))"

lemma nfs4_copy_lock_stateid_spec:
  assumes "locks_ok st"
  shows "nfs4_copy_lock_stateid dst lockowner st =
    (case lock_of lockowner st of
       None \<Rightarrow> (- ENOENT, dst, st)
     | Some l \<Rightarrow> if NFS_LOCK_LOST \<in> ls_flags l then (- EIO, dst, st)
                 else if NFS_LOCK_INITIALIZED \<in> ls_flags l then (0, ls_stateid l, st) else (- ENOENT, dst, st))"
proof (cases lockowner)
  case None
  then show ?thesis by (simp add: nfs4_copy_lock_stateid_def lock_of_def)
next
  case (Some owner)
  note same = copy_lock_stateid_state [OF assms, of dst lockowner]
  show ?thesis
  proof (cases "find_lock_state owner (st_locks st)")
    case None
    then have "find (\<lambda>l. ls_owner l = owner) (st_locks st) = None" by (simp only: find_lock_find)
    with None Some show ?thesis by (simp add: nfs4_copy_lock_stateid_def lock_of_def)
  next
    case (Some p)
    obtain l ls where p: "p = (l, ls)" by (cases p)
    obtain k where k: "find (\<lambda>l. ls_owner l = owner) (st_locks st) = Some k" "l = k\<lparr>ls_count := ls_count k + 1\<rparr>"
      using find_lock_find(2) Some p by blast
    have "LK_STATE_IN_USE \<in> st_flags st" using assms k by (cases "st_locks st") (auto simp: locks_ok_def)
    with same Some p k \<open>lockowner = Some owner\<close> show ?thesis by (auto simp: nfs4_copy_lock_stateid_def lock_of_def Let_def split: if_splits)
  qed
qed

lemma nfs4_select_rw_stateid_spec:
  assumes "locks_ok st"
  shows "nfs4_select_rw_stateid deleg cap dst lockowner st =
    (case rw_stateid deleg lockowner st of
       None \<Rightarrow> (- EIO, if cap then dst\<lparr>st_seqid := 0\<rparr> else dst, st)
     | Some s \<Rightarrow> (0, if cap then s\<lparr>st_seqid := 0\<rparr> else s, st))"
  by (auto simp: nfs4_select_rw_stateid_def nfs4_copy_lock_stateid_spec [OF assms] rw_stateid_def nfs4_copy_open_stateid_def Let_def split: option.splits)

end
