(* ===== verification/Nfs4_Exception.thy ===== *)
theory Nfs4_Exception
  imports Nfs4_Manager
begin

text \<open>
  Errors of NFSv4 procedures: \<^verbatim>\<open>nfs4_map_errors\<close>, \<^verbatim>\<open>nfs4_update_delay\<close>, \<^verbatim>\<open>nfs4_delay\<close>,
  \<^verbatim>\<open>nfs4_handle_exception\<close> and \<^verbatim>\<open>nfs4_async_handle_error\<close> of \<^verbatim>\<open>fs/nfs/nfs4proc.c\<close>, and the loop around them that
  \<^verbatim>\<open>nfs4_proc_getattr\<close> and most other procedures have.

  \<open>HZ\<close>, the number of clock ticks per second, is a parameter of the kernel's configuration; delays are counted in ticks.
\<close>

abbreviation (input) ERESTARTSYS :: int where "ERESTARTSYS \<equiv> 512"

section \<open>Errors for user space\<close>

definition nfs4_map_errors :: "int \<Rightarrow> int" where
  "nfs4_map_errors err =
     (if err \<ge> -1000 then err
      else if err \<in> {- NFS4ERR_RESOURCE, - NFS4ERR_LAYOUTTRYLATER, - NFS4ERR_RECALLCONFLICT} then - EREMOTEIO
      else if err \<in> {- NFS4ERR_WRONGSEC, - NFS4ERR_WRONG_CRED} then - EPERM
      else if err \<in> {- NFS4ERR_BADOWNER, - NFS4ERR_BADNAME} then - EINVAL
      else if err = - NFS4ERR_SHARE_DENIED then - EACCES
      else if err = - NFS4ERR_MINOR_VERS_MISMATCH then - EPROTONOSUPPORT
      else if err = - NFS4ERR_ACCESS then - EACCES
      else if err = - NFS4ERR_FILE_OPEN then - EBUSY
      else - EIO)"

section \<open>Waiting\<close>

definition NFS4_POLL_RETRY_MIN :: "int \<Rightarrow> int" where
  "NFS4_POLL_RETRY_MIN HZ = HZ div 10"

definition NFS4_POLL_RETRY_MAX :: "int \<Rightarrow> int" where
  "NFS4_POLL_RETRY_MAX HZ = 15 * HZ"

text \<open>The delay and the new timeout. The caller without a timeout (a null pointer) waits the maximum.\<close>

definition nfs4_update_delay :: "int \<Rightarrow> int option \<Rightarrow> int \<times> int option" where
  "nfs4_update_delay HZ timeout =
     (case timeout of
        None \<Rightarrow> (NFS4_POLL_RETRY_MAX HZ, None)
      | Some t \<Rightarrow>
          let t = (if t \<le> 0 then NFS4_POLL_RETRY_MIN HZ else t);
              t = (if t > NFS4_POLL_RETRY_MAX HZ then NFS4_POLL_RETRY_MAX HZ else t)
          in (t, Some (2 * t)))"

section \<open>The handler\<close>

text \<open>\<^verbatim>\<open>struct nfs4_exception\<close> with what it points to. The state is that of \<^verbatim>\<open>m_state\<close> of the \<open>'w marked\<close> below, if \<open>ex_has_state\<close>;
  \<open>ex_deleg\<close> says that there is an inode and that it has a delegation for reading.\<close>

record nfs4_exception =
  ex_timeout :: int
  ex_retry :: bool
  ex_has_state :: bool
  ex_deleg :: bool

record 'w exc =
  x_mark :: "'w marked"
  x_server :: nat
  x_nomap :: bool
  x_slept :: int

text \<open>What the handler needs from the rest of the kernel: a delegation can be returned, and a signal may end a wait. \<open>x_slept\<close> adds up the
  ticks of the delays.\<close>

record 'w exc_env =
  xe_client :: "'w client_env"
  xe_HZ :: int
  nfs4_inode_return_delegation :: "'w exc \<Rightarrow> 'w exc"
  fatal_signal_pending :: "'w exc \<Rightarrow> bool"

definition nfs4_delay :: "'w exc_env \<Rightarrow> int \<Rightarrow> 'w exc \<Rightarrow> int \<times> int \<times> 'w exc" where
  "nfs4_delay E timeout x =
     (case nfs4_update_delay (xe_HZ E) (Some timeout) of (ret, timeout') \<Rightarrow>
        let x = x\<lparr>x_slept := x_slept x + ret\<rparr>
        in (if fatal_signal_pending E x then - ERESTARTSYS else 0, the timeout', x))"

text \<open>The label \<^verbatim>\<open>wait_on_recovery\<close>.\<close>

definition wait_on_recovery :: "'w exc_env \<Rightarrow> nfs4_exception \<Rightarrow> 'w exc \<Rightarrow> int \<times> nfs4_exception \<times> 'w exc" where
  "wait_on_recovery E ex x =
     (case nfs4_wait_clnt_recover (xe_client E) (m_clp (x_mark x)) of (ret, clp) \<Rightarrow>
        let x = x\<lparr>x_mark := (x_mark x)\<lparr>m_clp := clp\<rparr>\<rparr>
        in if x_server x < length (cl_superblocks clp) \<and> NFS_MIG_FAILED \<in> mig_status (cl_superblocks clp ! x_server x) then (- EIO, ex, x)
           else (ret, if ret = 0 then ex\<lparr>ex_retry := True\<rparr> else ex, x))"

definition x_clnt :: "('w nfs_client \<Rightarrow> 'w nfs_client) \<Rightarrow> 'w exc \<Rightarrow> 'w exc" where
  "x_clnt f x = x\<lparr>x_mark := (x_mark x)\<lparr>m_clp := f (m_clp (x_mark x))\<rparr>\<rparr>"

definition recover_stateid :: "'w exc_env \<Rightarrow> 'w exc \<Rightarrow> int \<times> 'w exc" where
  "recover_stateid E x = (case nfs4_schedule_stateid_recovery (xe_client E) (x_mark x) of (ret, m) \<Rightarrow> (ret, x\<lparr>x_mark := m\<rparr>))"

abbreviation (input) session_errors :: "int set" where
  "session_errors \<equiv> {- NFS4ERR_BADSESSION, - NFS4ERR_BADSLOT, - NFS4ERR_BAD_HIGH_SLOT, - NFS4ERR_CONN_NOT_BOUND_TO_SESSION, - NFS4ERR_DEADSESSION,
     - NFS4ERR_SEQ_FALSE_RETRY, - NFS4ERR_SEQ_MISORDERED}"

definition nfs4_handle_exception :: "'w exc_env \<Rightarrow> int \<Rightarrow> nfs4_exception \<Rightarrow> 'w exc \<Rightarrow> int \<times> nfs4_exception \<times> 'w exc" where
  "nfs4_handle_exception E errorcode ex x =
     (let ex = ex\<lparr>ex_retry := False\<rparr>; C = xe_client E; again = ex\<lparr>ex_retry := True\<rparr>;
          fail = (\<lambda>ret ex x. (nfs4_map_errors ret, ex, x));
          stateid = (\<lambda>x. case recover_stateid E x of (ret, x) \<Rightarrow> if ret < 0 then fail ret ex x else wait_on_recovery E ex x)
      in if errorcode = 0 then (0, ex, x)
         else if errorcode = - NFS4ERR_OPENMODE then
           if ex_deleg ex then (0, again, nfs4_inode_return_delegation E x)
           else if \<not> ex_has_state ex then fail errorcode ex x
           else stateid x
         else if errorcode \<in> {- NFS4ERR_DELEG_REVOKED, - NFS4ERR_ADMIN_REVOKED, - NFS4ERR_BAD_STATEID} then
           if \<not> ex_has_state ex then
             if ex_deleg ex then fail errorcode again (nfs4_inode_return_delegation E x) else fail errorcode ex x
           else stateid x
         else if errorcode = - NFS4ERR_EXPIRED then
           (case (if ex_has_state ex then recover_stateid E x else (0, x)) of (ret, x) \<Rightarrow>
              if ret < 0 then fail ret ex x
              else wait_on_recovery E ex (x_clnt (nfs4_schedule_lease_recovery C) x))
         else if errorcode \<in> {- NFS4ERR_STALE_STATEID, - NFS4ERR_STALE_CLIENTID} then
           wait_on_recovery E ex (x_clnt (nfs4_schedule_lease_recovery C) x)
         else if errorcode = - NFS4ERR_MOVED then
           (case nfs4_schedule_migration_recovery C (x_server x) (m_clp (x_mark x)) of (ret, clp) \<Rightarrow>
              let x = x_clnt (\<lambda>_. clp) x in if ret < 0 then fail ret ex x else wait_on_recovery E ex x)
         else if errorcode = - NFS4ERR_LEASE_MOVED then
           wait_on_recovery E ex (x_clnt (nfs4_schedule_lease_moved_recovery C) x)
         else if errorcode \<in> session_errors then
           wait_on_recovery E ex (x_clnt (nfs4_schedule_session_recovery C errorcode) x)
         else if errorcode = - NFS4ERR_FILE_OPEN \<and> ex_timeout ex > xe_HZ E then fail (- EBUSY) ex x
         else if errorcode \<in> {- NFS4ERR_FILE_OPEN, - NFS4ERR_GRACE, - NFS4ERR_DELAY} then
           (case nfs4_delay E (ex_timeout ex) x of (ret, timeout, x) \<Rightarrow>
              let ex = ex\<lparr>ex_timeout := timeout\<rparr>
              in if ret \<noteq> 0 then fail ret ex x else fail ret (ex\<lparr>ex_retry := True\<rparr>) x)
         else if errorcode \<in> {- NFS4ERR_RETRY_UNCACHED_REP, - NFS4ERR_OLD_STATEID} then fail errorcode again x
         else if errorcode \<in> {- NFS4ERR_BADOWNER, - NFS4ERR_BADNAME} then
           if x_nomap x then fail errorcode again (x\<lparr>x_nomap := False\<rparr>) else fail errorcode ex x
         else fail errorcode ex x)"

section \<open>Asynchronous calls\<close>

text \<open>The parts of the task that the handler changes: its status, whether it sleeps until the manager is done, and how long it is delayed.\<close>

record async_task =
  at_status :: int
  at_sleeps :: bool
  at_delay :: int

definition async_fail :: "int \<Rightarrow> async_task \<Rightarrow> int option \<Rightarrow> 'w exc \<Rightarrow> int \<times> async_task \<times> int option \<times> 'w exc" where
  "async_fail status t timeout x = (0, t\<lparr>at_status := status\<rparr>, timeout, x)"

definition async_restart :: "async_task \<Rightarrow> int option \<Rightarrow> 'w exc \<Rightarrow> int \<times> async_task \<times> int option \<times> 'w exc" where
  "async_restart t timeout x = (- EAGAIN, t\<lparr>at_status := 0\<rparr>, timeout, x)"

definition async_wait :: "async_task \<Rightarrow> int option \<Rightarrow> 'w exc \<Rightarrow> int \<times> async_task \<times> int option \<times> 'w exc" where
  "async_wait t timeout x =
     (let clp = m_clp (x_mark x); t = t\<lparr>at_sleeps := NFS4CLNT_MANAGER_RUNNING \<in> cl_state clp\<rparr>
      in if x_server x < length (cl_superblocks clp) \<and> NFS_MIG_FAILED \<in> mig_status (cl_superblocks clp ! x_server x) then async_fail (- EIO) t timeout x
         else async_restart t timeout x)"

definition nfs4_async_handle_error :: "'w exc_env \<Rightarrow> bool \<Rightarrow> int option \<Rightarrow> async_task \<Rightarrow> 'w exc \<Rightarrow> int \<times> async_task \<times> int option \<times> 'w exc" where
  "nfs4_async_handle_error E has_state timeout t x =
     (let status = at_status t; C = xe_client E; HZ = xe_HZ E
      in if status \<ge> 0 then (0, t, timeout, x)
         else if status \<in> {- NFS4ERR_DELEG_REVOKED, - NFS4ERR_ADMIN_REVOKED, - NFS4ERR_BAD_STATEID, - NFS4ERR_OPENMODE} \<and> has_state then
           (case recover_stateid E x of (ret, x) \<Rightarrow> if ret < 0 then async_fail (- EIO) t timeout x else async_wait t timeout x)
         else if status = - NFS4ERR_EXPIRED then
           (case (if has_state then recover_stateid E x else (0, x)) of (ret, x) \<Rightarrow>
              if ret < 0 then async_fail (- EIO) t timeout x
              else async_wait t timeout (x_clnt (nfs4_schedule_lease_recovery C) x))
         else if status \<in> {- NFS4ERR_STALE_STATEID, - NFS4ERR_STALE_CLIENTID} then
           async_wait t timeout (x_clnt (nfs4_schedule_lease_recovery C) x)
         else if status = - NFS4ERR_MOVED then
           (case nfs4_schedule_migration_recovery C (x_server x) (m_clp (x_mark x)) of (ret, clp) \<Rightarrow>
              let x = x_clnt (\<lambda>_. clp) x in if ret < 0 then async_fail (- EIO) t timeout x else async_wait t timeout x)
         else if status = - NFS4ERR_LEASE_MOVED then async_wait t timeout (x_clnt (nfs4_schedule_lease_moved_recovery C) x)
         else if status \<in> session_errors then async_wait t timeout (x_clnt (nfs4_schedule_session_recovery C status) x)
         else if status = - NFS4ERR_DELAY then
           (case nfs4_update_delay HZ timeout of (d, timeout) \<Rightarrow> async_restart (t\<lparr>at_delay := d\<rparr>) timeout x)
         else if status = - NFS4ERR_GRACE then async_restart (t\<lparr>at_delay := NFS4_POLL_RETRY_MAX HZ\<rparr>) timeout x
         else if status \<in> {- NFS4ERR_RETRY_UNCACHED_REP, - NFS4ERR_OLD_STATEID} then async_restart t timeout x
         else async_fail (nfs4_map_errors status) t timeout x)"

section \<open>Retrying\<close>

text \<open>The loop of \<^verbatim>\<open>nfs4_proc_getattr\<close>: the procedure \<open>call\<close> is tried until the handler does not ask for another try.\<close>

fun retry_loop :: "'w exc_env \<Rightarrow> ('w exc \<Rightarrow> int \<times> 'w exc) \<Rightarrow> nat \<Rightarrow> nfs4_exception \<Rightarrow> 'w exc \<Rightarrow> (int \<times> 'w exc) option" where
  "retry_loop E call 0 ex x = None"
| "retry_loop E call (Suc n) ex x =
     (case call x of (err, x) \<Rightarrow>
        case nfs4_handle_exception E err ex x of (err, ex, x) \<Rightarrow> if ex_retry ex then retry_loop E call n ex x else Some (err, x))"

definition nfs4_proc_getattr :: "'w exc_env \<Rightarrow> ('w exc \<Rightarrow> int \<times> 'w exc) \<Rightarrow> nat \<Rightarrow> 'w exc \<Rightarrow> (int \<times> 'w exc) option" where
  "nfs4_proc_getattr E getattr n x = retry_loop E getattr n \<lparr>ex_timeout = 0, ex_retry = False, ex_has_state = False, ex_deleg = False\<rparr> x"

section \<open>What it gives\<close>

text \<open>No error of the protocol reaches user space.\<close>

lemma nfs4_map_errors_range: "nfs4_map_errors err \<ge> -1000" "err < 0 \<Longrightarrow> nfs4_map_errors err < 0" "err \<ge> -1000 \<Longrightarrow> nfs4_map_errors err = err"
  by (auto simp: nfs4_map_errors_def)

definition wait_law :: "'w client_env \<Rightarrow> bool" where
  "wait_law E \<longleftrightarrow> (\<forall>clp. fst (wait_on_manager E clp) \<ge> -1000 \<and> cl_cons_state (snd (wait_on_manager E clp)) \<ge> -1000)"

lemma wait_clnt_range:
  assumes "wait_law E"
  shows "fst (nfs4_wait_clnt_recover E clp) \<ge> -1000"
proof -
  let ?c = "clp\<lparr>cl_count := cl_count clp + 1\<rparr>"
  obtain r d where w: "wait_on_manager E ?c = (r, d)" by (cases "wait_on_manager E ?c")
  have "r \<ge> -1000" "cl_cons_state d \<ge> -1000" using assms w unfolding wait_law_def by (metis fst_conv snd_conv)+
  with w show ?thesis by (simp add: nfs4_wait_clnt_recover_def)
qed

lemma wait_on_recovery_range:
  assumes "wait_law (xe_client E)"
  shows "fst (wait_on_recovery E ex x) \<ge> -1000"
  using wait_clnt_range [OF assms, of "m_clp (x_mark x)"] by (auto simp: wait_on_recovery_def Let_def split: prod.split)

lemma nfs4_handle_exception_range:
  assumes "wait_law (xe_client E)"
  shows "fst (nfs4_handle_exception E err ex x) \<ge> -1000"
  by (simp add: nfs4_handle_exception_def Let_def case_prod_beta nfs4_map_errors_range wait_on_recovery_range [OF assms] del: insert_iff)

text \<open>The delays double from a tenth of a second to fifteen seconds.\<close>

lemma nfs4_update_delay_bounds:
  assumes "HZ \<ge> 10" and "nfs4_update_delay HZ timeout = (d, timeout')"
  shows "1 \<le> d" and "d \<le> NFS4_POLL_RETRY_MAX HZ" and "\<And>t. timeout = Some t \<Longrightarrow> t \<le> 0 \<or> NFS4_POLL_RETRY_MIN HZ \<le> t \<Longrightarrow> NFS4_POLL_RETRY_MIN HZ \<le> d"
    and "\<And>t. timeout' = Some t \<Longrightarrow> t = 2 * d"
  using assms by (auto simp: nfs4_update_delay_def NFS4_POLL_RETRY_MIN_def NFS4_POLL_RETRY_MAX_def Let_def split: option.splits if_splits)

lemma handle_file_open:
  assumes "HZ \<ge> 10" and "xe_HZ E = HZ" and "\<And>x. \<not> fatal_signal_pending E x"
  shows "nfs4_handle_exception E (- NFS4ERR_FILE_OPEN) ex x =
    (if ex_timeout ex > HZ then (- EBUSY, ex\<lparr>ex_retry := False\<rparr>, x)
     else let d = (if ex_timeout ex \<le> 0 then HZ div 10 else ex_timeout ex)
          in (0, ex\<lparr>ex_retry := True, ex_timeout := 2 * d\<rparr>, x\<lparr>x_slept := x_slept x + d\<rparr>))"
  using assms by (auto simp: nfs4_handle_exception_def nfs4_delay_def nfs4_update_delay_def NFS4_POLL_RETRY_MIN_def NFS4_POLL_RETRY_MAX_def Let_def
      nfs4_map_errors_def)

text \<open>A file that stays open on the server: the client gives up after at most six tries and two seconds.\<close>

lemma file_open_gives_up:
  assumes hz: "HZ \<ge> 10" and E: "xe_HZ E = HZ" "\<And>x. \<not> fatal_signal_pending E x"
    and call: "\<And>x. call x = (- NFS4ERR_FILE_OPEN, f x)" "\<And>x. x_slept (f x) = x_slept x"
  shows "\<exists>y. nfs4_proc_getattr E call 6 x = Some (- EBUSY, y) \<and> x_slept x + HZ < x_slept y + 10 + HZ div 10 \<and> x_slept y \<le> x_slept x + 2 * HZ"
proof -
  define d where "d = HZ div 10"
  have d: "10 * d \<le> HZ" "HZ < 10 * d + 10" "1 \<le> d" using hz by (simp_all add: d_def)
  note h = handle_file_open [OF hz E] and r = retry_loop.simps call(1)
  have six: "(6::nat) = Suc (Suc (Suc (Suc (Suc (Suc 0)))))" by simp
  show ?thesis unfolding six nfs4_proc_getattr_def using d
    by (simp add: r h call(2) Let_def flip: d_def)
qed

end
