(* ===== verification/Nfs4_Open_Proc.thy ===== *)
theory Nfs4_Open_Proc
  imports Nfs4_Close Nfs4_Lock_State Nfs4_Exception Nfs_Inode
begin

text \<open>
  The OPEN call and the recovery of open states, \<^verbatim>\<open>fs/nfs/nfs4proc.c\<close>: from \<^verbatim>\<open>nfs4_opendata_check_deleg\<close> to \<^verbatim>\<open>nfs41_open_expired\<close>, and \<^verbatim>\<open>nfs4_get_open_state\<close> of
  \<^verbatim>\<open>fs/nfs/nfs4state.c\<close>.

  \<open>open_data\<close> is \<^verbatim>\<open>struct nfs4_opendata\<close> as far as it is read here. The RPC layer is a parameter: \<open>rpc_open\<close> sends the request and gives the status and the result of the
  task. A task that has to wait is prepared again when it is woken; \<open>n\<close> bounds how often. A caller that is killed while it waits leaves the task behind, which then finishes with
  \<^verbatim>\<open>nfs4_open_release\<close>.
\<close>

section \<open>Data\<close>

record open_res =
  or_stateid :: nfs4_stateid
  or_deleg_type :: u32
  or_rflags :: u32
  or_changed :: bool
  or_valid :: u32
  or_mode :: u16

record open_data =
  op_claim :: u32
  op_fmode :: u32
  op_creat :: bool
  op_excl :: bool
  op_trunc :: bool
  op_createmode :: u32
  op_noattr :: bool
  op_has_state :: bool
  op_done :: bool
  op_status :: int
  op_cancelled :: bool
  op_is_recover :: bool
  op_created :: bool
  op_timestamp :: u64
  op_refs :: nat
  op_res :: open_res

abbreviation (input) OPEN_RESULT_CONFIRM :: u32 where "OPEN_RESULT_CONFIRM \<equiv> 0x2"
abbreviation (input) OPEN_RESULT_LOCKTYPE_POSIX :: u32 where "OPEN_RESULT_LOCKTYPE_POSIX \<equiv> 0x4"
abbreviation (input) CREATE_EXCLUSIVE4_1 :: u32 where "CREATE_EXCLUSIVE4_1 \<equiv> 3"

definition zero_res :: open_res where
  "zero_res = \<lparr>or_stateid = zero_stateid, or_deleg_type = 0, or_rflags = 0, or_changed = False, or_valid = 0, or_mode = 0\<rparr>"

record 'w open_proc =
  open_hooks :: "'w open_env"
  rpc_run_error :: "'w open_ctx \<Rightarrow> int option"
  rpc_open :: "open_data \<Rightarrow> 'w open_ctx \<Rightarrow> (int \<times> open_res) \<times> 'w open_ctx"
  rpc_confirm :: "open_data \<Rightarrow> 'w open_ctx \<Rightarrow> (int \<times> nfs4_stateid) \<times> 'w open_ctx"
  rpc_wait :: "'w open_ctx \<Rightarrow> int \<times> 'w open_ctx"
  open_jiffies :: "'w open_ctx \<Rightarrow> u64"
  persistent_session :: bool
  open_minorversion :: nat
  nfs_confirm_seqid :: "'w open_ctx \<Rightarrow> 'w open_ctx"
  nfs_inode_set_delegation :: "open_res \<Rightarrow> 'w open_ctx \<Rightarrow> 'w open_ctx"
  nfs_inode_reclaim_delegation :: "open_res \<Rightarrow> 'w open_ctx \<Rightarrow> 'w open_ctx"
  refresh_attrs :: "open_res \<Rightarrow> 'w open_ctx \<Rightarrow> int \<times> 'w open_ctx"
  open_fhget :: "open_res \<Rightarrow> 'w open_ctx \<Rightarrow> (int + nat) \<times> 'w open_ctx"
  alloc_open_state :: "'w open_ctx \<Rightarrow> bool \<times> 'w open_ctx"
  alloc_opendata :: "'w open_ctx \<Rightarrow> bool \<times> 'w open_ctx"
  nfs4_do_close :: "'w open_ctx \<Rightarrow> 'w open_ctx"

section \<open>Finding the state\<close>

text \<open>The states of an inode are searched in the order of the owner's list. An owner has at most one valid state for an inode.\<close>

definition find_state_byowner :: "nat \<Rightarrow> 'w open_ctx \<Rightarrow> 'w open_ctx option" where
  "find_state_byowner inode c =
     (case List.find (\<lambda>i. let st = ow_states (oc_owner c) ! i in st_inode st = inode \<and> nfs4_valid_open_stateid st \<and> st_count st \<noteq> 0)
             [0..<length (ow_states (oc_owner c))] of
        None \<Rightarrow> None
      | Some i \<Rightarrow> Some (oc_upd (\<lambda>st. st\<lparr>st_count := st_count st + 1\<rparr>) (c\<lparr>oc_index := i\<rparr>)))"

definition nfs4_alloc_open_state :: "nat \<Rightarrow> open_state" where
  "nfs4_alloc_open_state inode = \<lparr>st_flags = {}, st_count = 1, n_rdonly = 0, n_wronly = 0, n_rdwr = 0, st_mode = 0, st_stateid = zero_stateid,
     st_open_stateid = zero_stateid, st_locks = [], st_inode = inode\<rparr>"

text \<open>Without a state for the inode a new one goes to the end of the owner's list. The allocation may sleep.\<close>

definition nfs4_get_open_state :: "'w open_proc \<Rightarrow> nat \<Rightarrow> 'w open_ctx \<Rightarrow> bool \<times> 'w open_ctx" where
  "nfs4_get_open_state P inode c =
     (case find_state_byowner inode c of
        Some c \<Rightarrow> (True, c)
      | None \<Rightarrow>
          (case alloc_open_state P c of (ok, c) \<Rightarrow>
             case find_state_byowner inode c of
               Some c \<Rightarrow> (True, c)
             | None \<Rightarrow>
                 if \<not> ok then (False, c)
                 else let ow = oc_owner c
                      in (True, c\<lparr>oc_owner := ow\<lparr>ow_count := ow_count ow + 1, ow_states := ow_states ow @ [nfs4_alloc_open_state inode]\<rparr>,
                                  oc_index := length (ow_states ow)\<rparr>)))"

definition nfs4_opendata_check_deleg :: "'w open_proc \<Rightarrow> open_data \<Rightarrow> 'w open_ctx \<Rightarrow> 'w open_ctx" where
  "nfs4_opendata_check_deleg P data c =
     (if op_claim data = NFS4_OPEN_CLAIM_DELEGATE_CUR then c
      else if (case oc_deleg c of None \<Rightarrow> False | Some d \<Rightarrow> dl_need_reclaim d) then nfs_inode_reclaim_delegation P (op_res data) c
      else nfs_inode_set_delegation P (op_res data) c)"

text \<open>Back to the state of an inode, which is valid and therefore the only one the owner has for it.\<close>

definition at_inode :: "nat \<Rightarrow> 'w open_ctx \<Rightarrow> 'w open_ctx" where
  "at_inode inode c =
     (case List.find (\<lambda>i. st_inode (ow_states (oc_owner c) ! i) = inode \<and> nfs4_valid_open_stateid (ow_states (oc_owner c) ! i)) [0..<length (ow_states (oc_owner c))] of
        None \<Rightarrow> c
      | Some i \<Rightarrow> c\<lparr>oc_index := i\<rparr>)"

definition take_state :: "'w open_ctx \<Rightarrow> 'w open_ctx" where
  "take_state c = oc_upd (\<lambda>st. st\<lparr>st_count := st_count st + 1\<rparr>) c"

text \<open>The state of a request that has been answered: an error, or the context at the state with a reference to it.\<close>

definition opendata_reclaim_to_nfs4_state ::
  "'w client_env \<Rightarrow> stateid_env \<Rightarrow> 'w open_proc \<Rightarrow> open_data \<Rightarrow> 'w open_ctx \<Rightarrow> int \<times> 'w open_ctx" where
  "opendata_reclaim_to_nfs4_state E S P data c =
     (let update = (\<lambda>c. (0, take_state (snd (update_open_stateid E S (Some (or_stateid (op_res data))) None (op_fmode data) c))))
      in if \<not> op_done data then if op_status data \<noteq> 0 then (op_status data, c) else update c
         else case refresh_attrs P (op_res data) c of (ret, c) \<Rightarrow>
                if ret \<noteq> 0 then (ret, c)
                else update (if or_deleg_type (op_res data) \<noteq> 0 then nfs4_opendata_check_deleg P data c else c))"

definition opendata_to_nfs4_state ::
  "'w client_env \<Rightarrow> stateid_env \<Rightarrow> 'w open_proc \<Rightarrow> nat \<Rightarrow> open_data \<Rightarrow> 'w open_ctx \<Rightarrow> (int \<times> 'w open_ctx) option" where
  "opendata_to_nfs4_state E S P n data c =
     (let X = open_hooks P
      in if \<not> op_done data
         then map_option (\<lambda>(ret, c). (ret, release_seqid X c))
                (nfs4_try_open_cached E S X (op_is_recover data) (op_excl data \<or> op_trunc data) (op_fmode data) n c)
         else if or_valid (op_res data) AND NFS_ATTR_FATTR = 0 then Some (- EAGAIN, c)
         else case open_fhget P (op_res data) c of
                (Inl e, c) \<Rightarrow> Some (e, c)
              | (Inr inode, c) \<Rightarrow>
                  (case nfs4_get_open_state P inode c of
                     (False, c) \<Rightarrow> Some (- ENOMEM, c)
                   | (True, c) \<Rightarrow>
                       let c = (if or_deleg_type (op_res data) \<noteq> 0 then nfs4_opendata_check_deleg P data c else c);
                           c = snd (update_open_stateid E S (Some (or_stateid (op_res data))) None (op_fmode data) c)
                       in Some (0, release_seqid X c)))"

definition nfs4_opendata_to_nfs4_state ::
  "'w client_env \<Rightarrow> stateid_env \<Rightarrow> 'w open_proc \<Rightarrow> nat \<Rightarrow> open_data \<Rightarrow> 'w open_ctx \<Rightarrow> (int \<times> 'w open_ctx) option" where
  "nfs4_opendata_to_nfs4_state E S P n data c =
     (if op_claim data = NFS4_OPEN_CLAIM_PREVIOUS then Some (opendata_reclaim_to_nfs4_state E S P data c)
      else opendata_to_nfs4_state E S P n data c)"

section \<open>The task\<close>

definition nfs4_opendata_put :: "open_data \<Rightarrow> 'w open_ctx \<Rightarrow> open_data \<times> 'w open_ctx" where
  "nfs4_opendata_put data c =
     (let data = data\<lparr>op_refs := op_refs data - 1\<rparr>
      in (data, if op_refs data \<noteq> 0 then c else put_owner_ref (if op_has_state data then nfs4_put_open_state c else c)))"

datatype open_action = Open_Wait | Open_No_Action | Open_Send

definition nfs4_open_prepare :: "'w open_proc \<Rightarrow> open_data \<Rightarrow> 'w open_ctx \<Rightarrow> open_action \<times> open_data \<times> 'w open_ctx" where
  "nfs4_open_prepare P data c =
     (let X = open_hooks P; stop = (\<lambda>a c. (a, data, snd (finish_sequence X c)))
      in case wait_on_sequence X c of
           (False, c) \<Rightarrow> stop Open_Wait c
         | (True, c) \<Rightarrow>
             if op_has_state data \<and> can_open_cached (oc_state c) (op_fmode data) (op_excl data \<or> op_trunc data) then stop Open_No_Action c
             else
               (case (if op_has_state data \<and> op_claim data \<notin> {NFS4_OPEN_CLAIM_DELEGATE_CUR, NFS4_OPEN_CLAIM_DELEG_CUR_FH}
                      then can_open_delegated (oc_deleg c) (op_fmode data) else (False, oc_deleg c)) of (use_deleg, d) \<Rightarrow>
                  let c = c\<lparr>oc_deleg := d\<rparr>
                  in if use_deleg then stop Open_No_Action c
                     else
                       let data = data\<lparr>op_noattr := op_claim data \<in> {NFS4_OPEN_CLAIM_PREVIOUS, NFS4_OPEN_CLAIM_FH, NFS4_OPEN_CLAIM_DELEG_CUR_FH,
                                     NFS4_OPEN_CLAIM_DELEG_PREV_FH}, op_timestamp := open_jiffies P c,
                                   op_createmode := if \<not> op_excl data then NFS4_CREATE_UNCHECKED else if persistent_session P then NFS4_CREATE_GUARDED
                                     else if open_minorversion P > 0 then CREATE_EXCLUSIVE4_1 else NFS4_CREATE_EXCLUSIVE\<rparr>
                       in case setup_sequence X c of
                            (True, c) \<Rightarrow> (Open_Send, data, c)
                          | (False, c) \<Rightarrow> (Open_Wait, data, release_seqid X c)))"

text \<open>The result says whether the task is done.\<close>

definition nfs4_open_done :: "'w open_proc \<Rightarrow> int \<Rightarrow> open_data \<Rightarrow> 'w open_ctx \<Rightarrow> bool \<times> open_data \<times> 'w open_ctx" where
  "nfs4_open_done P status data c =
     (let data = data\<lparr>op_status := status\<rparr>; res = op_res data
      in case finish_sequence (open_hooks P) c of
           (False, c) \<Rightarrow> (False, data, c)
         | (True, c) \<Rightarrow>
             let fmt = or_mode res AND S_IFMT;
                 data = (if status = 0 \<and> or_valid res AND NFS_ATTR_FATTR_TYPE \<noteq> 0
                         then data\<lparr>op_status := if fmt = S_IFREG then status else if fmt = S_IFLNK then - ELOOP else if fmt = S_IFDIR then - EISDIR else - ENOTDIR\<rparr>
                         else data);
                 c = (if status = 0 then c\<lparr>oc_clp := renew_lease (op_timestamp data) (oc_clp c)\<rparr> else c);
                 c = (if status = 0 \<and> or_rflags res AND OPEN_RESULT_CONFIRM = 0 then nfs_confirm_seqid P c else c)
             in (True, data\<lparr>op_done := True\<rparr>, c))"

fun open_task :: "'w open_proc \<Rightarrow> nat \<Rightarrow> open_data \<Rightarrow> 'w open_ctx \<Rightarrow> (open_data \<times> 'w open_ctx) option" where
  "open_task P 0 data c = None"
| "open_task P (Suc n) data c =
     (case nfs4_open_prepare P data c of
        (Open_Wait, data, c) \<Rightarrow> open_task P n data c
      | (Open_No_Action, data, c) \<Rightarrow> Some (data, c)
      | (Open_Send, data, c) \<Rightarrow>
          (case rpc_open P data c of ((status, res), c) \<Rightarrow>
             case nfs4_open_done P status (data\<lparr>op_res := res\<rparr>) c of
               (True, data, c) \<Rightarrow> Some (data, c)
             | (False, data, c) \<Rightarrow> open_task P n data c))"

text \<open>A cancelled request that was granted is closed again.\<close>

definition nfs4_open_release ::
  "'w client_env \<Rightarrow> stateid_env \<Rightarrow> 'w open_proc \<Rightarrow> nat \<Rightarrow> open_data \<Rightarrow> 'w open_ctx \<Rightarrow> (open_data \<times> 'w open_ctx) option" where
  "nfs4_open_release E S P n data c =
     (if \<not> op_cancelled data \<or> op_status data \<noteq> 0 \<or> \<not> op_done data \<or> or_rflags (op_res data) AND OPEN_RESULT_CONFIRM \<noteq> 0
      then Some (nfs4_opendata_put data c)
      else let own = (if op_has_state data then at_inode (st_inode (oc_state c)) else (\<lambda>c. c))
           in map_option (\<lambda>(ret, c). nfs4_opendata_put data (own (if ret = 0 then nfs4_close (nfs4_do_close P) (op_fmode data) c else c)))
                (nfs4_opendata_to_nfs4_state E S P n data c))"

definition nfs4_run_open_task ::
  "'w client_env \<Rightarrow> stateid_env \<Rightarrow> 'w open_proc \<Rightarrow> nat \<Rightarrow> bool \<Rightarrow> open_data \<Rightarrow> 'w open_ctx \<Rightarrow> (int \<times> open_data \<times> 'w open_ctx) option" where
  "nfs4_run_open_task E S P n isrecover data c =
     (let data = data\<lparr>op_refs := op_refs data + 1, op_done := False, op_status := 0, op_cancelled := False, op_is_recover := isrecover\<rparr>
      in case rpc_run_error P c of
           Some e \<Rightarrow> map_option (\<lambda>(data, c). (e, data, c)) (nfs4_open_release E S P n data c)
         | None \<Rightarrow>
             (case rpc_wait P c of (status, c) \<Rightarrow>
                if status \<noteq> 0 then Some (status, data\<lparr>op_cancelled := True\<rparr>, c)
                else case open_task P n data c of
                       None \<Rightarrow> None
                     | Some (data, c) \<Rightarrow>
                         map_option (\<lambda>(data, c). (op_status data, data, c)) (nfs4_open_release E S P n data c)))"

text \<open>OPEN_CONFIRM, for version 4.0.\<close>

definition nfs4_open_confirm_done :: "'w open_proc \<Rightarrow> int \<Rightarrow> nfs4_stateid \<Rightarrow> open_data \<Rightarrow> 'w open_ctx \<Rightarrow> open_data \<times> 'w open_ctx" where
  "nfs4_open_confirm_done P status stateid data c =
     (let c = snd (finish_sequence (open_hooks P) c); data = data\<lparr>op_status := status\<rparr>
      in if status \<noteq> 0 then (data, c)
         else let c = nfs_confirm_seqid P c
              in (data\<lparr>op_res := (op_res data)\<lparr>or_stateid := stateid\<rparr>, op_done := True\<rparr>, c\<lparr>oc_clp := renew_lease (op_timestamp data) (oc_clp c)\<rparr>))"

definition nfs4_proc_open_confirm :: "'w open_proc \<Rightarrow> open_data \<Rightarrow> 'w open_ctx \<Rightarrow> int \<times> open_data \<times> 'w open_ctx" where
  "nfs4_proc_open_confirm P data c =
     (let data = data\<lparr>op_done := False, op_status := 0, op_timestamp := open_jiffies P c\<rparr>
      in case rpc_run_error P c of
           Some e \<Rightarrow> (e, data, c)
         | None \<Rightarrow>
             (case rpc_wait P c of (status, c) \<Rightarrow>
                if status \<noteq> 0 then (status, data\<lparr>op_refs := op_refs data + 1, op_cancelled := True\<rparr>, c)
                else case rpc_confirm P data c of ((status, stateid), c) \<Rightarrow>
                       case nfs4_open_confirm_done P status stateid data c of (data, c) \<Rightarrow> (op_status data, data, c)))"

definition nfs4_recover_proc_open ::
  "'w client_env \<Rightarrow> stateid_env \<Rightarrow> 'w open_proc \<Rightarrow> nat \<Rightarrow> open_data \<Rightarrow> 'w open_ctx \<Rightarrow> (int \<times> open_data \<times> 'w open_ctx) option" where
  "nfs4_recover_proc_open E S P n data c =
     (case nfs4_run_open_task E S P n True data c of
        None \<Rightarrow> None
      | Some (status, data, c) \<Rightarrow>
          Some (if status \<noteq> 0 \<or> \<not> op_done data \<or> or_rflags (op_res data) AND OPEN_RESULT_CONFIRM = 0 then (status, data, c)
                else nfs4_proc_open_confirm P data c))"

section \<open>Recovery\<close>

text \<open>One mode: the state is opened again and the open that this counts is closed. The result has the inode of the state that was found.\<close>

definition nfs4_open_recover_helper ::
  "'w client_env \<Rightarrow> stateid_env \<Rightarrow> 'w open_proc \<Rightarrow> nat \<Rightarrow> u32 \<Rightarrow> open_data \<Rightarrow> 'w open_ctx \<Rightarrow> (int \<times> nat \<times> open_data \<times> 'w open_ctx) option" where
  "nfs4_open_recover_helper E S P n fmode data c =
     (let data = data\<lparr>op_creat := False, op_excl := False, op_trunc := False, op_fmode := fmode, op_res := zero_res\<rparr>; old = st_inode (oc_state c)
      in case nfs4_recover_proc_open E S P n data c of
           None \<Rightarrow> None
         | Some (ret, data, c) \<Rightarrow>
             if ret \<noteq> 0 then Some (ret, old, data, c)
             else case nfs4_opendata_to_nfs4_state E S P n data c of
                    None \<Rightarrow> None
                  | Some (ret, c) \<Rightarrow>
                      if ret \<noteq> 0 then Some (ret, old, data, c)
                      else Some (0, st_inode (oc_state c), data, nfs4_close (nfs4_do_close P) fmode c))"

definition recover_mode ::
  "'w client_env \<Rightarrow> stateid_env \<Rightarrow> 'w open_proc \<Rightarrow> nat \<Rightarrow> nat \<Rightarrow> (open_state \<Rightarrow> u32) \<Rightarrow> u32 \<Rightarrow> (int \<times> open_data \<times> 'w open_ctx) option \<Rightarrow>
   (int \<times> open_data \<times> 'w open_ctx) option" where
  "recover_mode E S P n inode count fmode r =
     (case r of
        None \<Rightarrow> None
      | Some (ret, data, c) \<Rightarrow>
          if ret \<noteq> 0 \<or> count (oc_state c) = 0 then Some (ret, data, c)
          else case nfs4_open_recover_helper E S P n fmode data c of
                 None \<Rightarrow> None
               | Some (ret, newstate, data, c) \<Rightarrow> if ret = 0 \<and> newstate \<noteq> inode then Some (- ESTALE, data, at_inode inode c) else Some (ret, data, c))"

definition reset_modes :: "open_state \<Rightarrow> open_state" where
  "reset_modes st = st\<lparr>st_flags := st_flags st - {NFS_O_RDWR_STATE, NFS_O_WRONLY_STATE, NFS_O_RDONLY_STATE, NFS_DELEGATED_STATE, NFS_OPEN_STATE}\<rparr>"

definition sync_stateid :: "stateid_env \<Rightarrow> open_state \<Rightarrow> open_state" where
  "sync_stateid S st =
     (if NFS_DELEGATED_STATE \<notin> st_flags st \<and> \<not> nfs4_stateid_match S (st_stateid st) (st_open_stateid st) then st\<lparr>st_stateid := st_open_stateid st\<rparr> else st)"

definition nfs4_open_recover ::
  "'w client_env \<Rightarrow> stateid_env \<Rightarrow> 'w open_proc \<Rightarrow> nat \<Rightarrow> open_data \<Rightarrow> 'w open_ctx \<Rightarrow> (int \<times> open_data \<times> 'w open_ctx) option" where
  "nfs4_open_recover E S P n data c =
     (let inode = st_inode (oc_state c)
      in case recover_mode E S P n inode n_rdonly READ (recover_mode E S P n inode n_wronly WRITE (recover_mode E S P n inode n_rdwr RDWR
                (Some (0, data, oc_upd reset_modes c)))) of
           None \<Rightarrow> None
         | Some (ret, data, c) \<Rightarrow> Some (ret, data, if ret = 0 then oc_upd (sync_stateid S) c else c))"

definition nfs4_map_atomic_open_claim :: "bool \<Rightarrow> u32 \<Rightarrow> u32" where
  "nfs4_map_atomic_open_claim atomic_open_v1 claim =
     (if atomic_open_v1 then claim
      else if claim = NFS4_OPEN_CLAIM_FH then NFS4_OPEN_CLAIM_NULL
      else if claim = NFS4_OPEN_CLAIM_DELEG_CUR_FH then NFS4_OPEN_CLAIM_DELEGATE_CUR
      else if claim = NFS4_OPEN_CLAIM_DELEG_PREV_FH then NFS4_OPEN_CLAIM_DELEGATE_PREV
      else claim)"

definition nfs4_open_recoverdata_alloc :: "'w open_proc \<Rightarrow> bool \<Rightarrow> u32 \<Rightarrow> 'w open_ctx \<Rightarrow> open_data option \<times> 'w open_ctx" where
  "nfs4_open_recoverdata_alloc P cap claim c =
     (case alloc_opendata P c of
        (False, c) \<Rightarrow> (None, c)
      | (True, c) \<Rightarrow>
          (Some \<lparr>op_claim = nfs4_map_atomic_open_claim cap claim, op_fmode = 0, op_creat = False, op_excl = False, op_trunc = False, op_createmode = 0,
                 op_noattr = False, op_has_state = True, op_done = False, op_status = 0, op_cancelled = False, op_is_recover = False, op_created = False,
                 op_timestamp = 0, op_refs = 1, op_res = zero_res\<rparr>,
           take_state (c\<lparr>oc_owner := (oc_owner c)\<lparr>ow_count := ow_count (oc_owner c) + 1\<rparr>\<rparr>)))"

text \<open>\<^verbatim>\<open>_nfs4_do_open_reclaim\<close> and \<^verbatim>\<open>_nfs4_open_expired\<close>. The first also fills in the type of the delegation that is claimed, which only the request has; the second drops
  the dentry on \<^verbatim>\<open>-ESTALE\<close>, which is not part of this state.\<close>

definition open_recover_claim ::
  "'w client_env \<Rightarrow> stateid_env \<Rightarrow> 'w open_proc \<Rightarrow> nat \<Rightarrow> u32 \<Rightarrow> bool \<Rightarrow> 'w open_ctx \<Rightarrow> (int \<times> 'w open_ctx) option" where
  "open_recover_claim E S P n claim cap c =
     (case nfs4_open_recoverdata_alloc P cap claim c of
        (None, c) \<Rightarrow> Some (- ENOMEM, c)
      | (Some data, c) \<Rightarrow> map_option (\<lambda>(status, data, c). (status, snd (nfs4_opendata_put data c))) (nfs4_open_recover E S P n data c))"

text \<open>The exception handler on the state of the context.\<close>

definition oc_exception :: "'w exc_env \<Rightarrow> int \<Rightarrow> nfs4_exception \<Rightarrow> 'w open_ctx \<Rightarrow> nfs4_exception \<times> 'w open_ctx" where
  "oc_exception Q err ex c =
     (case nfs4_handle_exception Q err ex \<lparr>x_mark = \<lparr>m_state = oc_state c, m_owner_flags = ow_flags (oc_owner c), m_clp = oc_clp c\<rparr>, x_server = 0, x_nomap = False,
             x_slept = 0\<rparr> of (_, ex, x) \<Rightarrow>
        let m = x_mark x; c = oc_upd (\<lambda>_. m_state m) c
        in (ex, c\<lparr>oc_owner := (oc_owner c)\<lparr>ow_flags := m_owner_flags m\<rparr>, oc_clp := m_clp m\<rparr>))"

abbreviation (input) no_exception :: nfs4_exception where
  "no_exception \<equiv> \<lparr>ex_timeout = 0, ex_retry = False, ex_has_state = False, ex_deleg = False\<rparr>"

text \<open>The loops; \<open>cap\<close> is the capability \<^verbatim>\<open>NFS_CAP_ATOMIC_OPEN_V1\<close>, \<open>call\<close> one try.\<close>

fun do_open_reclaim_loop ::
  "'w exc_env \<Rightarrow> (bool \<Rightarrow> 'w open_ctx \<Rightarrow> (int \<times> 'w open_ctx) option) \<Rightarrow> nat \<Rightarrow> bool \<Rightarrow> nfs4_exception \<Rightarrow> 'w open_ctx \<Rightarrow> (int \<times> 'w open_ctx) option" where
  "do_open_reclaim_loop Q call 0 cap ex c = None"
| "do_open_reclaim_loop Q call (Suc k) cap ex c =
     (case call cap c of
        None \<Rightarrow> None
      | Some (err, c) \<Rightarrow>
          if err = - EINVAL \<and> cap then do_open_reclaim_loop Q call k False (ex\<lparr>ex_retry := True\<rparr>) c
          else if err \<noteq> - NFS4ERR_DELAY then Some (err, c)
          else case oc_exception Q err ex c of (ex, c) \<Rightarrow> if ex_retry ex then do_open_reclaim_loop Q call k cap ex c else Some (err, c))"

fun do_open_expired_loop ::
  "'w exc_env \<Rightarrow> (bool \<Rightarrow> 'w open_ctx \<Rightarrow> (int \<times> 'w open_ctx) option) \<Rightarrow> nat \<Rightarrow> bool \<Rightarrow> nfs4_exception \<Rightarrow> 'w open_ctx \<Rightarrow> (int \<times> 'w open_ctx) option" where
  "do_open_expired_loop Q call 0 cap ex c = None"
| "do_open_expired_loop Q call (Suc k) cap ex c =
     (case call cap c of
        None \<Rightarrow> None
      | Some (err, c) \<Rightarrow>
          if err = - EINVAL \<and> cap then do_open_expired_loop Q call k False (ex\<lparr>ex_retry := True\<rparr>) c
          else if err \<notin> {- NFS4ERR_GRACE, - NFS4ERR_DELAY} then Some (err, c)
          else case oc_exception Q err ex c of (ex, c) \<Rightarrow> if ex_retry ex then do_open_expired_loop Q call k cap ex c else Some (0, c))"

text \<open>\<open>ctx\<close> says whether the inode has an open context with the state.\<close>

definition nfs4_open_reclaim ::
  "'w exc_env \<Rightarrow> stateid_env \<Rightarrow> 'w open_proc \<Rightarrow> nat \<Rightarrow> bool \<Rightarrow> bool \<Rightarrow> 'w open_ctx \<Rightarrow> (int \<times> 'w open_ctx) option" where
  "nfs4_open_reclaim Q S P n cap ctx c =
     (if \<not> ctx then Some (- EAGAIN, c)
      else do_open_reclaim_loop Q (open_recover_claim (xe_client Q) S P n NFS4_OPEN_CLAIM_PREVIOUS) n cap no_exception c)"

definition nfs4_open_expired ::
  "'w exc_env \<Rightarrow> stateid_env \<Rightarrow> 'w open_proc \<Rightarrow> nat \<Rightarrow> bool \<Rightarrow> bool \<Rightarrow> 'w open_ctx \<Rightarrow> (int \<times> 'w open_ctx) option" where
  "nfs4_open_expired Q S P n cap ctx c =
     (if \<not> ctx then Some (- EAGAIN, c)
      else do_open_expired_loop Q (open_recover_claim (xe_client Q) S P n NFS4_OPEN_CLAIM_FH) n cap no_exception c)"

section \<open>Delegations\<close>

text \<open>\<^verbatim>\<open>nfs_inode_find_state_and_recover\<close> (\<open>find_recover\<close>) and \<^verbatim>\<open>nfs_remove_bad_delegation\<close> (\<open>remove\<close>) belong to the delegation code.\<close>

definition nfs4_handle_delegation_recall_error ::
  "'w client_env \<Rightarrow> ('w open_ctx \<Rightarrow> 'w open_ctx) \<Rightarrow> nat \<Rightarrow> int \<Rightarrow> 'w open_ctx \<Rightarrow> int \<times> 'w open_ctx" where
  "nfs4_handle_delegation_recall_error E find_recover srv err c =
     (let deleg = oc_upd (set_flag NFS_DELEGATED_STATE); clp = (\<lambda>f c. c\<lparr>oc_clp := f (oc_clp c)\<rparr>)
      in if err \<in> {- NFS4ERR_BADSESSION, - NFS4ERR_BADSLOT, - NFS4ERR_BAD_HIGH_SLOT, - NFS4ERR_CONN_NOT_BOUND_TO_SESSION, - NFS4ERR_DEADSESSION}
         then (- EAGAIN, clp (nfs4_schedule_session_recovery E err) (deleg c))
         else if err \<in> {- NFS4ERR_STALE_CLIENTID, - NFS4ERR_STALE_STATEID} then (- EAGAIN, clp (nfs4_schedule_lease_recovery E) (deleg c))
         else if err = - NFS4ERR_EXPIRED then (- EAGAIN, clp (nfs4_schedule_lease_recovery E) c)
         else if err = - NFS4ERR_MOVED then (- EAGAIN, clp (\<lambda>clp. snd (nfs4_schedule_migration_recovery E srv clp)) c)
         else if err = - NFS4ERR_LEASE_MOVED then (- EAGAIN, clp (nfs4_schedule_lease_moved_recovery E) c)
         else if err \<in> {- NFS4ERR_DELEG_REVOKED, - NFS4ERR_ADMIN_REVOKED, - NFS4ERR_BAD_STATEID, - NFS4ERR_OPENMODE} then
           let c = find_recover c; m = snd (nfs4_schedule_stateid_recovery E \<lparr>m_state = oc_state c, m_owner_flags = ow_flags (oc_owner c), m_clp = oc_clp c\<rparr>);
               c = oc_upd (\<lambda>_. m_state m) c
           in (- EAGAIN, c\<lparr>oc_owner := (oc_owner c)\<lparr>ow_flags := m_owner_flags m\<rparr>, oc_clp := m_clp m\<rparr>)
         else if err \<in> {- NFS4ERR_DELAY, - NFS4ERR_GRACE} then (- EAGAIN, deleg c)
         else if err \<in> {- ENOMEM, - NFS4ERR_DENIED} then (0, c)
         else (err, c))"

definition nfs4_open_delegation_recall ::
  "'w client_env \<Rightarrow> stateid_env \<Rightarrow> 'w open_proc \<Rightarrow> ('w open_ctx \<Rightarrow> 'w open_ctx) \<Rightarrow> nat \<Rightarrow> nat \<Rightarrow> bool \<Rightarrow> 'w open_ctx \<Rightarrow> (int \<times> 'w open_ctx) option" where
  "nfs4_open_delegation_recall E S P find_recover srv n cap c =
     (case nfs4_open_recoverdata_alloc P cap NFS4_OPEN_CLAIM_DELEG_CUR_FH c of
        (None, c) \<Rightarrow> Some (- ENOMEM, c)
      | (Some data, c) \<Rightarrow>
          map_option (\<lambda>(err, data, c). nfs4_handle_delegation_recall_error E find_recover srv err (snd (nfs4_opendata_put data c))) (nfs4_open_recover E S P n data c))"

definition nfs_finish_clear_delegation_stateid :: "('w open_ctx \<Rightarrow> 'w open_ctx) \<Rightarrow> 'w open_ctx \<Rightarrow> 'w open_ctx" where
  "nfs_finish_clear_delegation_stateid remove c =
     oc_upd (\<lambda>st. clear_flag NFS_DELEGATED_STATE (st\<lparr>st_stateid := st_open_stateid st\<rparr>)) (remove c)"

definition nfs40_clear_delegation_stateid :: "('w open_ctx \<Rightarrow> 'w open_ctx) \<Rightarrow> 'w open_ctx \<Rightarrow> 'w open_ctx" where
  "nfs40_clear_delegation_stateid remove c = (if oc_deleg c \<noteq> None then nfs_finish_clear_delegation_stateid remove c else c)"

definition nfs40_open_expired ::
  "'w exc_env \<Rightarrow> stateid_env \<Rightarrow> 'w open_proc \<Rightarrow> ('w open_ctx \<Rightarrow> 'w open_ctx) \<Rightarrow> nat \<Rightarrow> bool \<Rightarrow> bool \<Rightarrow> 'w open_ctx \<Rightarrow> (int \<times> 'w open_ctx) option" where
  "nfs40_open_expired Q S P remove n cap ctx c = nfs4_open_expired Q S P n cap ctx (nfs40_clear_delegation_stateid remove c)"

text \<open>TEST_STATEID and FREE_STATEID of version 4.1 are the parameters \<open>test\<close> and \<open>free\<close>.\<close>

definition nfs41_check_delegation_stateid ::
  "(nfs4_stateid \<Rightarrow> 'w open_ctx \<Rightarrow> int \<times> 'w open_ctx) \<Rightarrow> (nfs4_stateid \<Rightarrow> 'w open_ctx \<Rightarrow> 'w open_ctx) \<Rightarrow> ('w open_ctx \<Rightarrow> 'w open_ctx) \<Rightarrow> 'w open_ctx \<Rightarrow>
   'w open_ctx" where
  "nfs41_check_delegation_stateid test free remove c =
     (case oc_deleg c of
        None \<Rightarrow> c
      | Some d \<Rightarrow>
          (case test (dl_stateid d) c of (status, c) \<Rightarrow>
             if status = 0 then c
             else nfs_finish_clear_delegation_stateid remove (if status \<noteq> - NFS4ERR_BAD_STATEID then free (dl_stateid d) c else c)))"

definition nfs41_check_open_stateid ::
  "(nfs4_stateid \<Rightarrow> 'w open_ctx \<Rightarrow> int \<times> 'w open_ctx) \<Rightarrow> (nfs4_stateid \<Rightarrow> 'w open_ctx \<Rightarrow> 'w open_ctx) \<Rightarrow> 'w open_ctx \<Rightarrow> int \<times> 'w open_ctx" where
  "nfs41_check_open_stateid test free c =
     (let st = oc_state c
      in if st_flags st \<inter> {NFS_O_RDONLY_STATE, NFS_O_WRONLY_STATE, NFS_O_RDWR_STATE} = {} then (- NFS4ERR_BAD_STATEID, c)
         else case test (st_open_stateid st) c of (status, c) \<Rightarrow>
                if status = 0 then (0, c)
                else let c = (if status \<noteq> - NFS4ERR_BAD_STATEID then free (st_open_stateid st) c else c)
                     in (status, oc_upd (\<lambda>st. st\<lparr>st_flags := st_flags st - {NFS_O_RDONLY_STATE, NFS_O_WRONLY_STATE, NFS_O_RDWR_STATE, NFS_OPEN_STATE}\<rparr>) c))"

definition nfs41_open_expired ::
  "'w exc_env \<Rightarrow> stateid_env \<Rightarrow> 'w open_proc \<Rightarrow> (nfs4_stateid \<Rightarrow> 'w open_ctx \<Rightarrow> int \<times> 'w open_ctx) \<Rightarrow> (nfs4_stateid \<Rightarrow> 'w open_ctx \<Rightarrow> 'w open_ctx) \<Rightarrow>
   ('w open_ctx \<Rightarrow> 'w open_ctx) \<Rightarrow> nat \<Rightarrow> bool \<Rightarrow> bool \<Rightarrow> 'w open_ctx \<Rightarrow> (int \<times> 'w open_ctx) option" where
  "nfs41_open_expired Q S P test free remove n cap ctx c =
     (case nfs41_check_open_stateid test free (nfs41_check_delegation_stateid test free remove c) of (status, c) \<Rightarrow>
        if status = 0 then Some (0, c) else nfs4_open_expired Q S P n cap ctx c)"

end
