(* ===== verification/Nfs4_Close_Correct.thy ===== *)
theory Nfs4_Close_Correct
  imports Nfs4_Close Nfs_Steps "HOL-Library.Multiset"
begin

text \<open>
  An open state stands for the multiset of the modes in which the file is open. The counts and the mode of the state follow it, the states of an owner that are open for
  writing come first, and a CLOSE or OPEN_DOWNGRADE leaves the server with exactly what the openers that are left asked for.
\<close>

section \<open>Positions\<close>

definition oc_ok :: "'w open_ctx \<Rightarrow> bool" where
  "oc_ok c \<longleftrightarrow> oc_index c < length (ow_states (oc_owner c))"

lemma oc_upd_simps [simp]:
  "oc_ok c \<Longrightarrow> oc_state (oc_upd f c) = f (oc_state c)" "oc_ok (oc_upd f c) = oc_ok c" "oc_clp (oc_upd f c) = oc_clp c" "oc_deleg (oc_upd f c) = oc_deleg c"
  "ow_flags (oc_owner (oc_upd f c)) = ow_flags (oc_owner c)" "oc_index (oc_upd f c) = oc_index c"
  by (simp_all add: oc_upd_def oc_state_def oc_ok_def)

lemma oc_fields [simp]:
  "oc_state (c\<lparr>oc_clp := x\<rparr>) = oc_state c" "oc_ok (c\<lparr>oc_clp := x\<rparr>) = oc_ok c" "oc_state (c\<lparr>oc_deleg := y\<rparr>) = oc_state c" "oc_ok (c\<lparr>oc_deleg := y\<rparr>) = oc_ok c"
  "oc_state (c\<lparr>oc_owner := (oc_owner c)\<lparr>ow_count := n\<rparr>\<rparr>) = oc_state c" "oc_ok (c\<lparr>oc_owner := (oc_owner c)\<lparr>ow_count := n\<rparr>\<rparr>) = oc_ok c"
  "oc_state (c\<lparr>oc_owner := (oc_owner c)\<lparr>ow_flags := fl\<rparr>, oc_clp := x\<rparr>) = oc_state c" "oc_ok (c\<lparr>oc_owner := (oc_owner c)\<lparr>ow_flags := fl\<rparr>, oc_clp := x\<rparr>) = oc_ok c"
  by (simp_all add: oc_state_def oc_ok_def)

lemma set_mode_state:
  assumes "oc_ok c"
  shows "oc_state (nfs4_state_set_mode_locked m c) = (oc_state c)\<lparr>st_mode := m\<rparr>" and "oc_ok (nfs4_state_set_mode_locked m c)"
  using assms by (auto simp: nfs4_state_set_mode_locked_def Let_def oc_state_def oc_ok_def oc_upd_def nth_append)

section \<open>Writers first\<close>

definition writable :: "open_state \<Rightarrow> bool" where
  "writable st \<longleftrightarrow> st_mode st AND WRITE \<noteq> 0"

definition write_first :: "open_state list \<Rightarrow> bool" where
  "write_first sts \<longleftrightarrow> sorted (map (\<lambda>st. \<not> writable st) sts)"

lemma sorted_remove: "sorted (xs @ y # ys) \<Longrightarrow> sorted (xs @ ys)" for y :: "'a :: linorder"
  by (simp add: sorted_append)

lemma write_first_remove:
  assumes "write_first sts"
  shows "write_first (take i sts @ drop (Suc i) sts)"
proof (cases "i < length sts")
  case True
  have rem: "write_first (xs @ y # ys) \<Longrightarrow> write_first (xs @ ys)" for xs y ys
    using sorted_remove [of "map (\<lambda>st. \<not> writable st) xs" "\<not> writable y" "map (\<lambda>st. \<not> writable st) ys"]
    unfolding write_first_def map_append list.map .
  show ?thesis by (rule rem [of _ "sts ! i"]) (use assms in \<open>simp only: id_take_nth_drop [OF True, symmetric]\<close>)
next
  case False
  then have "take i sts = sts" "drop (Suc i) sts = []" by simp_all
  with assms show ?thesis by (simp only: append_Nil2)
qed

lemma write_first_add: "write_first sts \<Longrightarrow> writable st \<Longrightarrow> write_first (st # sts)" "write_first sts \<Longrightarrow> \<not> writable st \<Longrightarrow> write_first (sts @ [st])"
  by (simp_all add: write_first_def sorted_append)

lemma write_first_update: "write_first sts \<Longrightarrow> i < length sts \<Longrightarrow> writable st = writable (sts ! i) \<Longrightarrow> write_first (sts[i := st])"
  by (simp add: write_first_def map_update) (metis list_update_id map_update nth_map)

lemma set_mode_write_first:
  assumes "oc_ok c" and "write_first (ow_states (oc_owner c))"
  shows "write_first (ow_states (oc_owner (nfs4_state_set_mode_locked m c)))"
proof -
  let ?st = "(oc_state c)\<lparr>st_mode := m\<rparr>" and ?sts = "ow_states (oc_owner c)" and ?i = "oc_index c"
  have w: "writable ?st \<longleftrightarrow> m AND WRITE \<noteq> 0" by (simp add: writable_def)
  have "write_first (?sts[?i := ?st])" if "m AND WRITE = st_mode (oc_state c) AND WRITE"
    using assms that by (intro write_first_update) (simp_all add: oc_ok_def writable_def oc_state_def)
  moreover note write_first_add [OF write_first_remove [OF assms(2), of ?i], of ?st]
  ultimately show ?thesis using assms(2) w by (simp add: nfs4_state_set_mode_locked_def Let_def oc_upd_def)
qed

section \<open>Openers\<close>

text \<open>The modes in which a file is open, as a multiset. Every mode is READ, WRITE or both.\<close>

definition mode_of :: "u32 multiset \<Rightarrow> u32" where
  "mode_of M = (if READ \<in># M \<or> RDWR \<in># M then READ else 0) OR (if WRITE \<in># M \<or> RDWR \<in># M then WRITE else 0)"

definition represents :: "u32 multiset \<Rightarrow> open_state \<Rightarrow> bool" where
  "represents M st \<longleftrightarrow> set_mset M \<subseteq> {READ, WRITE, RDWR} \<and> unat (n_rdonly st) = count M READ \<and> unat (n_wronly st) = count M WRITE \<and>
     unat (n_rdwr st) = count M RDWR \<and> st_mode st = mode_of M"

lemma mode_of_add: "f \<in> {READ, WRITE, RDWR} \<Longrightarrow> mode_of (add_mset f M) = mode_of M OR f"
  by (auto simp: mode_of_def)

lemma unat_suc: "unat (x :: u32) = n \<Longrightarrow> n < 2 ^ 32 - 1 \<Longrightarrow> unat (x + 1) = n + 1"
proof -
  assume n: "unat x = n" "n < 2 ^ 32 - 1"
  have "unat (x + 1) = (unat x + unat (1 :: u32)) mod 2 ^ 32" by (simp add: unat_word_ariths)
  also have "\<dots> = n + 1" using n by (intro trans [OF mod_less]) simp_all
  finally show ?thesis .
qed

lemma unat_pred: "unat (x :: u32) = n \<Longrightarrow> 0 < n \<Longrightarrow> unat (x - 1) = n - 1"
  by (metis gr0_conv_Suc diff_Suc_1 unat_0 unat_minus_one nat_less_le)

lemma count_open_represents:
  assumes "represents M st" and "f \<in> {READ, WRITE, RDWR}" and "count M f < 2 ^ 32 - 1"
  shows "represents (add_mset f M) ((count_open f st)\<lparr>st_mode := st_mode st OR f\<rparr>)"
proof -
  have m: "st_mode st OR f = mode_of (add_mset f M)" using assms(1,2) mode_of_add [OF assms(2)] by (simp add: represents_def)
  from assms show ?thesis unfolding m by (auto simp: represents_def count_open_def unat_suc)
qed

lemma update_open_stateflags_represents:
  assumes "oc_ok c" and "represents M (oc_state c)" and "f \<in> {READ, WRITE, RDWR}" and "count M f < 2 ^ 32 - 1"
  shows "represents (add_mset f M) (oc_state (update_open_stateflags f c))" and "oc_ok (update_open_stateflags f c)"
proof -
  have "st_mode (count_open f (oc_state c)) = st_mode (oc_state c)" by (simp add: count_open_def)
  with assms count_open_represents [OF assms(2-4)] show "represents (add_mset f M) (oc_state (update_open_stateflags f c))"
    by (simp add: update_open_stateflags_def Let_def set_mode_state)
  show "oc_ok (update_open_stateflags f c)" using assms(1) by (simp add: update_open_stateflags_def Let_def set_mode_state)
qed

lemma close_newstate_mode:
  assumes "unat (n_rdonly st) = count M READ" "unat (n_wronly st) = count M WRITE" "unat (n_rdwr st) = count M RDWR"
  shows "fst (close_newstate st) = mode_of M"
proof -
  have z: "n_rdonly st = 0 \<longleftrightarrow> READ \<notin># M" "n_wronly st = 0 \<longleftrightarrow> WRITE \<notin># M" "n_rdwr st = 0 \<longleftrightarrow> RDWR \<notin># M"
    using assms by (simp_all add: not_in_iff flip: unat_eq_0)
  show ?thesis by (simp add: close_newstate_def mode_of_def z)
qed

lemma close_represents:
  assumes "oc_ok c" and "represents M (oc_state c)" and "f \<in># M" and "nfs4_close_local f c = (call, c')"
  shows "represents (M - {#f#}) (oc_state c')" and "oc_ok c'"
proof -
  let ?st = "count_close f (oc_state c)" and ?M = "M - {#f#}"
  have f: "f \<in> {READ, WRITE, RDWR}" using assms(2,3) by (auto simp: represents_def)
  have n: "unat (n_rdonly ?st) = count ?M READ" "unat (n_wronly ?st) = count ?M WRITE" "unat (n_rdwr ?st) = count ?M RDWR"
    using assms(2,3) f by (auto simp: represents_def count_close_def unat_pred)
  obtain m call where cn: "close_newstate ?st = (m, call)" by (cases "close_newstate ?st")
  have m: "m = mode_of ?M" using close_newstate_mode [OF n] cn by simp
  have "set_mset ?M \<subseteq> {READ, WRITE, RDWR}" using assms(2) by (auto simp: represents_def dest: in_diffD)
  then have r: "represents ?M (?st\<lparr>st_mode := m\<rparr>)" using n m by (simp add: represents_def)
  then have r': "represents ?M ((clear_flag NFS_DELEGATED_STATE ?st)\<lparr>st_mode := m\<rparr>)" by (simp add: represents_def clear_flag_def)
  let ?c = "oc_upd (count_close f) (c\<lparr>oc_owner := (oc_owner c)\<lparr>ow_count := ow_count (oc_owner c) + 1\<rparr>\<rparr>)"
  have "oc_state ?c = ?st" "oc_ok ?c" using assms(1) by simp_all
  with assms(4) cn r r' show "represents ?M (oc_state c')" "oc_ok c'"
    by (auto simp: nfs4_close_local_def Let_def set_mode_state split: if_splits)
qed

section \<open>The server\<close>

text \<open>The share reservation the server has for the open owner, as the flags of the state record it, and what is still needed: the modes with an opener that
  the server knows of.\<close>

definition share :: "state_bit set \<Rightarrow> u32" where
  "share fl = (if NFS_O_RDONLY_STATE \<in> fl \<or> NFS_O_RDWR_STATE \<in> fl then READ else 0) OR
     (if NFS_O_WRONLY_STATE \<in> fl \<or> NFS_O_RDWR_STATE \<in> fl then WRITE else 0)"

definition needed :: "open_state \<Rightarrow> state_bit set" where
  "needed st = {b \<in> st_flags st. b = NFS_O_RDONLY_STATE \<and> n_rdonly st \<noteq> 0 \<or> b = NFS_O_WRONLY_STATE \<and> n_wronly st \<noteq> 0 \<or> b = NFS_O_RDWR_STATE \<and> n_rdwr st \<noteq> 0}"

lemma close_mode_sent:
  assumes "close_mode st = (fmode, True)"
  shows "fmode = share (needed st)" and "share (st_flags (clear_modes fmode st)) = fmode" and "needed st \<subseteq> st_flags (clear_modes fmode st)"
    and "n_rdwr st = 0" and "fmode \<in> {0, READ, WRITE}"
  using assms by (auto simp: close_mode_def Let_def share_def needed_def clear_modes_def clear_flag_def split: if_splits)

text \<open>A successful CLOSE or OPEN_DOWNGRADE: the server keeps what is needed and nothing else.\<close>

lemma update_stateid_flags:
  assumes "oc_ok c" and "NFS_OPEN_STATE \<in> st_flags (oc_state c) \<Longrightarrow> nfs4_stateid_match_other S s (st_open_stateid (oc_state c))"
  shows "st_flags (oc_state (update_stateid S s c)) = insert NFS_OPEN_STATE (st_flags (oc_state c))"
  using assms by (auto simp: update_stateid_def nfs_need_update_open_stateid_def copy_stateid_def set_flag_def Let_def)

lemma oc_schedule_state [simp]: "oc_state (oc_schedule E c) = oc_state c" "oc_owner (oc_schedule E c) = oc_owner c" "oc_index (oc_schedule E c) = oc_index c"
  by (simp_all add: oc_schedule_def)

text \<open>The rest of the kernel leaves the states of the owner alone; the error handler may mark them for recovery.\<close>

definition states_kept :: "'w open_ctx \<Rightarrow> 'w open_ctx \<Rightarrow> bool" where
  "states_kept c d \<longleftrightarrow> ow_states (oc_owner d) = ow_states (oc_owner c) \<and> oc_index d = oc_index c"

lemma states_kept_state: "states_kept c d \<Longrightarrow> oc_state d = oc_state c" "states_kept c d \<Longrightarrow> oc_ok d = oc_ok c"
  by (simp_all add: states_kept_def oc_state_def oc_ok_def)

definition counts_kept :: "'w open_ctx \<Rightarrow> 'w open_ctx \<Rightarrow> bool" where
  "counts_kept c d \<longleftrightarrow> oc_index d = oc_index c \<and> length (ow_states (oc_owner d)) = length (ow_states (oc_owner c)) \<and>
     map st_mode (ow_states (oc_owner d)) = map st_mode (ow_states (oc_owner c)) \<and>
     (oc_ok c \<longrightarrow> n_rdonly (oc_state d) = n_rdonly (oc_state c) \<and> n_wronly (oc_state d) = n_wronly (oc_state c) \<and> n_rdwr (oc_state d) = n_rdwr (oc_state c))"

lemma states_counts_kept: "states_kept c d \<Longrightarrow> counts_kept c d"
  by (simp add: counts_kept_def states_kept_state) (simp add: states_kept_def)

definition open_law :: "'w open_env \<Rightarrow> bool" where
  "open_law X \<longleftrightarrow> (\<forall>c. states_kept c (snd (finish_sequence X c)) \<and> states_kept c (release_seqid X c) \<and> states_kept c (refresh_inode X c) \<and>
     states_kept c (pnfs_roc_set_barrier X c) \<and> counts_kept c (snd (async_error X c)))"

text \<open>A successful answer updates the state id of the state as it was when the request was sent.\<close>

lemma close_done_success:
  assumes law: "open_law X" and "oc_ok c" and "fst (finish_sequence X c)"
  obtains e where "oc_ok e" "oc_state e = oc_state c"
    "oc_state (snd (nfs4_close_done E S X roc fmode s ts 0 c)) = oc_state (nfs_clear_open_stateid E S (Some s) fmode e)"
proof -
  obtain d where d: "finish_sequence X c = (True, d)" using assms(3) by (cases "finish_sequence X c") simp
  have kd: "states_kept c d" using law d unfolding open_law_def by (metis snd_conv)
  define e where "e = (if fmode = 0 \<and> roc then pnfs_roc_set_barrier X d else d)"
  have ke: "states_kept d e" using law by (simp add: e_def open_law_def states_kept_def)
  let ?e = "e\<lparr>oc_clp := renew_lease ts (oc_clp e)\<rparr>"
  let ?g = "nfs_clear_open_stateid E S (Some s) fmode ?e"
  have e: "oc_ok ?e" "oc_state ?e = oc_state c" using states_kept_state [OF kd] states_kept_state [OF ke] assms(2) by simp_all
  have "states_kept ?g (release_seqid X ?g)" "states_kept (release_seqid X ?g) (refresh_inode X (release_seqid X ?g))"
    using law unfolding open_law_def by blast+
  then have "oc_state (refresh_inode X (release_seqid X ?g)) = oc_state ?g" by (simp add: states_kept_state(1))
  moreover have "snd (nfs4_close_done E S X roc fmode s ts 0 c) = refresh_inode X (release_seqid X ?g)"
    by (simp add: nfs4_close_done_def d e_def Let_def)
  ultimately show ?thesis using that [OF e] by simp
qed

lemma close_done_flags:
  assumes "open_law X" and "oc_ok c" and "fst (finish_sequence X c)"
    and "fmode \<noteq> 0 \<Longrightarrow> nfs4_stateid_match_other S s (st_open_stateid (oc_state c))" and "fmode \<in> {0, READ, WRITE}"
  shows "st_flags (oc_state (snd (nfs4_close_done E S X roc fmode s ts 0 c))) = insert NFS_OPEN_STATE (st_flags (clear_modes fmode (oc_state c)))"
proof -
  obtain e where e: "oc_ok e" "oc_state e = oc_state c"
    "oc_state (snd (nfs4_close_done E S X roc fmode s ts 0 c)) = oc_state (nfs_clear_open_stateid E S (Some s) fmode e)"
    by (rule close_done_success [OF assms(1-3)])
  let ?f = "oc_upd (clear_modes fmode) e"
  have f: "oc_ok ?f" "oc_state ?f = clear_modes fmode (oc_state c)" using e by simp_all
  have "NFS_OPEN_STATE \<in> st_flags (oc_state ?f) \<Longrightarrow> nfs4_stateid_match_other S s (st_open_stateid (oc_state ?f))"
    using assms(4,5) f(2) by (auto simp: clear_modes_def clear_flag_def Let_def)
  from update_stateid_flags [OF f(1) this] show ?thesis
    by (simp add: e(3) nfs_clear_open_stateid_def nfs_clear_open_stateid_locked_def f(2) Let_def)
qed

lemma share_open_flag: "share (insert NFS_OPEN_STATE fl) = share fl"
  by (simp add: share_def)

section \<open>The life of an open file\<close>

lemma counts_kept_trans: "counts_kept c d \<Longrightarrow> counts_kept d e \<Longrightarrow> counts_kept c e"
  by (auto simp: counts_kept_def oc_ok_def)

lemma counts_kept_refl [simp]: "counts_kept c c" "counts_kept c (c\<lparr>oc_clp := x\<rparr>)" "counts_kept c (c\<lparr>oc_deleg := y\<rparr>)"
  "counts_kept c (c\<lparr>oc_owner := (oc_owner c)\<lparr>ow_flags := fl\<rparr>, oc_clp := x\<rparr>)"
  by (simp_all add: counts_kept_def oc_state_def)

lemma counts_kept_state:
  assumes "n_rdonly (f (oc_state c)) = n_rdonly (oc_state c)" "n_wronly (f (oc_state c)) = n_wronly (oc_state c)"
    "n_rdwr (f (oc_state c)) = n_rdwr (oc_state c)" "st_mode (f (oc_state c)) = st_mode (oc_state c)"
  shows "counts_kept c (oc_upd f c)"
proof -
  have "map st_mode (ow_states (oc_owner (oc_upd f c))) = map st_mode (ow_states (oc_owner c))"
    using assms(4) by (simp add: oc_upd_def map_update) (metis list_update_id list_update_beyond map_update not_le nth_map oc_state_def length_map)
  moreover have "length (ow_states (oc_owner (oc_upd f c))) = length (ow_states (oc_owner c))" by (simp add: oc_upd_def)
  ultimately show ?thesis using assms by (simp add: counts_kept_def)
qed

lemma counts_kept_upd:
  assumes "\<And>st. n_rdonly (f st) = n_rdonly st \<and> n_wronly (f st) = n_wronly st \<and> n_rdwr (f st) = n_rdwr st \<and> st_mode (f st) = st_mode st"
  shows "counts_kept c (oc_upd f c)"
  using assms by (intro counts_kept_state) simp_all

lemma counts_kept_represents:
  assumes "counts_kept c d" and "oc_ok c"
  shows "oc_ok d" and "represents M (oc_state d) = represents M (oc_state c)" and "write_first (ow_states (oc_owner d)) = write_first (ow_states (oc_owner c))"
proof -
  show "oc_ok d" using assms by (simp add: counts_kept_def oc_ok_def)
  have m: "st_mode (ow_states (oc_owner d) ! i) = st_mode (ow_states (oc_owner c) ! i)" if "i < length (ow_states (oc_owner c))" for i
    using assms(1) that unfolding counts_kept_def by (metis nth_map)
  have "st_mode (oc_state d) = st_mode (oc_state c)" using m [of "oc_index c"] assms by (simp add: oc_state_def counts_kept_def oc_ok_def)
  then show "represents M (oc_state d) = represents M (oc_state c)" using assms by (simp add: represents_def counts_kept_def)
  have w: "write_first sts \<longleftrightarrow> sorted (map (\<lambda>m. \<not> m AND WRITE \<noteq> 0) (map st_mode sts))" for sts by (simp add: write_first_def writable_def comp_def)
  have "map st_mode (ow_states (oc_owner d)) = map st_mode (ow_states (oc_owner c))" using assms(1) by (simp add: counts_kept_def)
  then show "write_first (ow_states (oc_owner d)) = write_first (ow_states (oc_owner c))" unfolding w by (simp only:)
qed

text \<open>State ids and marks do not touch the counts.\<close>

lemma oc_mark_kept: "counts_kept c (oc_mark c)"
  unfolding oc_mark_def Let_def
  by (rule counts_kept_trans [OF counts_kept_state counts_kept_refl(4)]) (simp_all add: nfs4_state_mark_reclaim_nograce_def)

lemmas kept_upds = set_flag_def clear_flag_def copy_stateid_def clear_modes_def set_modes_def Let_def

lemma test_and_clear_kept: "counts_kept c (nfs_test_and_clear_all_open_stateid c)"
proof -
  have "counts_kept c (oc_upd (clear_flag NFS_O_RDWR_STATE \<circ> clear_flag NFS_O_WRONLY_STATE \<circ> clear_flag NFS_O_RDONLY_STATE) c)"
    by (rule counts_kept_upd) (simp add: kept_upds)
  then show ?thesis by (simp add: nfs_test_and_clear_all_open_stateid_def Let_def counts_kept_trans [OF _ oc_mark_kept])
qed

lemma update_stateid_kept: "counts_kept c (update_stateid S s c)"
proof -
  have f: "counts_kept c (oc_upd (set_flag NFS_OPEN_STATE) c)" by (rule counts_kept_upd) (simp add: kept_upds)
  have "counts_kept c (snd (nfs_need_update_open_stateid S s c))"
    using f counts_kept_trans [OF f test_and_clear_kept] by (simp add: nfs_need_update_open_stateid_def Let_def)
  moreover have "counts_kept d (oc_upd (copy_stateid s) d)" for d :: "'a open_ctx" by (rule counts_kept_upd) (simp add: kept_upds)
  ultimately show ?thesis using counts_kept_trans by (fastforce simp: update_stateid_def case_prod_beta)
qed

lemma oc_schedule_kept: "counts_kept c (oc_schedule E c)"
  by (simp add: oc_schedule_def)

lemma clear_open_stateid_kept: "counts_kept c (nfs_clear_open_stateid E S s fmode c)"
proof -
  have f: "counts_kept c (oc_upd (clear_modes fmode) c)" by (rule counts_kept_upd) (simp add: kept_upds)
  have "counts_kept c (nfs_clear_open_stateid_locked S s fmode c)"
    using f counts_kept_trans [OF f update_stateid_kept] by (simp add: nfs_clear_open_stateid_locked_def Let_def split: option.split)
  then show ?thesis unfolding nfs_clear_open_stateid_def by (rule counts_kept_trans [OF _ oc_schedule_kept])
qed

lemma set_open_stateid_kept: "counts_kept c (nfs_set_open_stateid_locked S s fmode c)"
proof -
  have "counts_kept c (oc_upd (set_modes fmode) c)" by (rule counts_kept_upd) (simp add: kept_upds)
  then show ?thesis unfolding nfs_set_open_stateid_locked_def by (rule counts_kept_trans [OF _ update_stateid_kept])
qed

lemma close_done_kept:
  assumes "open_law X"
  shows "counts_kept c (snd (nfs4_close_done E S X roc fmode s ts status c))"
proof -
  have k: "counts_kept d (snd (finish_sequence X d))" "counts_kept d (release_seqid X d)" "counts_kept d (refresh_inode X d)"
    "counts_kept d (pnfs_roc_set_barrier X d)" "counts_kept d (snd (async_error X d))" for d
    using assms unfolding open_law_def by (blast intro: states_counts_kept)+
  have fin: "counts_kept c (refresh_inode X (release_seqid X d))" if "counts_kept c d" for d
    using that counts_kept_trans k(2,3) by blast
  have clr: "counts_kept c (nfs_clear_open_stateid E S os fm d)" if "counts_kept c d" for os fm d
    using that clear_open_stateid_kept counts_kept_trans by blast
  have clp: "counts_kept c (d\<lparr>oc_clp := x\<rparr>)" if "counts_kept c d" for d x
    using that counts_kept_trans counts_kept_refl(2) by blast
  define d where "d = snd (finish_sequence X c)"
  have d: "counts_kept c d" "counts_kept c (pnfs_roc_set_barrier X d)" "counts_kept c (snd (async_error X d))"
    unfolding d_def using k counts_kept_trans by blast+
  show ?thesis using d
    by (auto simp: nfs4_close_done_def d_def [symmetric] case_prod_beta Let_def intro!: fin clr clp split: bool.split)
qed

text \<open>An open counts once, whatever state ids come with it.\<close>

definition file_ok :: "u32 multiset \<times> 'w open_ctx \<Rightarrow> bool" where
  "file_ok = (\<lambda>(M, c). oc_ok c \<and> represents M (oc_state c) \<and> write_first (ow_states (oc_owner c)))"

lemma file_ok_kept: "counts_kept c d \<Longrightarrow> file_ok (M, c) \<Longrightarrow> file_ok (M, d)"
  by (simp add: file_ok_def counts_kept_represents)

lemma file_ok_flags:
  assumes "file_ok (M, c)" and "f \<in> {READ, WRITE, RDWR}" and "count M f < 2 ^ 32 - 1"
  shows "file_ok (add_mset f M, update_open_stateflags f c)"
proof -
  have c: "oc_ok c" "represents M (oc_state c)" "write_first (ow_states (oc_owner c))" using assms(1) by (simp_all add: file_ok_def)
  have "write_first (ow_states (oc_owner (oc_upd (count_open f) c)))"
    using c by (simp add: oc_upd_def) (intro write_first_update; simp add: oc_ok_def oc_state_def writable_def count_open_def)
  then have "write_first (ow_states (oc_owner (update_open_stateflags f c)))"
    using c(1) by (simp add: update_open_stateflags_def Let_def set_mode_write_first)
  with update_open_stateflags_represents [OF c(1,2) assms(2,3)] show ?thesis by (simp add: file_ok_def)
qed

lemma file_ok_open:
  assumes "file_ok (M, c)" and "f \<in> {READ, WRITE, RDWR}" and "count M f < 2 ^ 32 - 1" and "update_open_stateid E S os d f c = (True, c')"
  shows "file_ok (add_mset f M, c')"
proof -
  have f: "f AND RDWR = f" using assms(2) by auto
  have now: "file_ok (add_mset f M, update_open_stateid_now S os ds f e)" if "counts_kept c e" for ds e
  proof -
    let ?e = "case ds of None \<Rightarrow> e | Some d \<Rightarrow> oc_upd (\<lambda>st. set_flag NFS_DELEGATED_STATE (st\<lparr>st_stateid := d\<rparr>)) e"
    have "counts_kept e ?e" by (auto intro!: counts_kept_upd simp: set_flag_def split: option.split)
    moreover have "counts_kept ?e (case os of None \<Rightarrow> ?e | Some s \<Rightarrow> nfs_set_open_stateid_locked S s f ?e)"
      using set_open_stateid_kept by (auto split: option.split)
    ultimately have "file_ok (M, case os of None \<Rightarrow> ?e | Some s \<Rightarrow> nfs_set_open_stateid_locked S s f ?e)"
      using that assms(1) by (meson file_ok_kept)
    from file_ok_flags [OF this assms(2,3)] show ?thesis by (simp add: update_open_stateid_now_def Let_def)
  qed
  have sched: "file_ok (N, oc_schedule E e)" if "file_ok (N, e)" for N e using file_ok_kept [OF oc_schedule_kept that] .
  from assms(4) show ?thesis using now [OF counts_kept_refl(1)] now [OF counts_kept_refl(3)]
    by (auto simp: update_open_stateid_def f Let_def intro!: sched split: option.splits)
qed

lemma file_ok_close:
  assumes "file_ok (M, c)" and "f \<in># M" and "nfs4_close_local f c = (call, c')"
  shows "file_ok (M - {#f#}, c')"
proof -
  let ?c = "oc_upd (count_close f) (c\<lparr>oc_owner := (oc_owner c)\<lparr>ow_count := ow_count (oc_owner c) + 1\<rparr>\<rparr>)"
  have c: "oc_ok c" "represents M (oc_state c)" "write_first (ow_states (oc_owner c))" using assms(1) by (simp_all add: file_ok_def)
  have "write_first (ow_states (oc_owner ?c))"
    using c by (simp add: oc_upd_def oc_state_def) (intro write_first_update; simp add: oc_ok_def writable_def count_close_def Let_def)
  then have w: "write_first (ow_states (oc_owner (oc_upd (clear_flag b) ?c)))" "write_first (ow_states (oc_owner ?c))" for b
    using counts_kept_represents(3) [OF counts_kept_upd, of "clear_flag b" ?c] c(1) by (simp_all add: clear_flag_def)
  have "write_first (ow_states (oc_owner c'))" using assms(3) c(1) w
    by (auto simp: nfs4_close_local_def Let_def split: prod.splits if_splits intro!: set_mode_write_first)
  with close_represents [OF c(1,2) assms(2,3)] show ?thesis by (simp add: file_ok_def)
qed

text \<open>Opens that ask the server or use a delegation, opens from the cache, closes, and the answers to CLOSE and OPEN_DOWNGRADE.\<close>

inductive file_step ::
  "'w client_env \<Rightarrow> stateid_env \<Rightarrow> 'w open_env \<Rightarrow> u32 multiset \<times> 'w open_ctx \<Rightarrow> u32 multiset \<times> 'w open_ctx \<Rightarrow> bool"
  for E S X where
  opened: "f \<in> {READ, WRITE, RDWR} \<Longrightarrow> count M f < 2 ^ 32 - 1 \<Longrightarrow> update_open_stateid E S os d f c = (True, c') \<Longrightarrow>
    file_step E S X (M, c) (add_mset f M, c')"
| cached: "f \<in> {READ, WRITE, RDWR} \<Longrightarrow> count M f < 2 ^ 32 - 1 \<Longrightarrow> can_open_cached (oc_state c) f excl \<Longrightarrow>
    file_step E S X (M, c) (add_mset f M, update_open_stateflags f c)"
| closed: "f \<in># M \<Longrightarrow> nfs4_close_local f c = (call, c') \<Longrightarrow> file_step E S X (M, c) (M - {#f#}, c')"
| close_reply: "file_step E S X (M, c) (M, snd (nfs4_close_done E S X roc fmode s ts status c))"

lemma file_step_ok:
  assumes "open_law X" and "file_step E S X p q" and "file_ok p"
  shows "file_ok q"
  using assms(2,3)
proof (induction rule: file_step.induct)
  case (opened f M os d c c')
  then show ?case by (blast intro: file_ok_open)
next
  case (cached f M c excl)
  then show ?case by (blast intro: file_ok_flags)
next
  case (closed f M c call c')
  then show ?case by (blast intro: file_ok_close)
next
  case (close_reply M c roc fmode s ts status)
  have "counts_kept c (snd (nfs4_close_done E S X roc fmode s ts status c))"
    by (rule close_done_kept [OF assms(1)])
  then show ?case using close_reply by (rule file_ok_kept)
qed

interpretation opens: step_invariant "file_step E S X" "\<lambda>p. open_law X \<and> file_ok p" for E S X
  by unfold_locales (blast intro: file_step_ok)

end
