(* ===== verification/Nfs4_Open_Proc_Correct.thy ===== *)
theory Nfs4_Open_Proc_Correct
  imports Nfs4_Open_Proc Nfs4_Close_Correct
begin

text \<open>
  Reclaiming an open state after a reboot: with a server that grants what is asked for, every mode that is in use is opened again, nothing is closed, and counts and references are as before.
\<close>

section \<open>Composition of updates\<close>

lemma oc_upd_comp: "oc_ok c \<Longrightarrow> oc_upd f (oc_upd g c) = oc_upd (\<lambda>st. f (g st)) c"
  by (simp add: oc_upd_def oc_state_def oc_ok_def)

lemma set_mode_same: "st_mode (oc_state c) = m \<Longrightarrow> nfs4_state_set_mode_locked m c = c"
  by (simp add: nfs4_state_set_mode_locked_def Let_def)

lemma update_stateid_match:
  assumes "oc_ok c" and "NFS_OPEN_STATE \<in> st_flags (oc_state c) \<Longrightarrow> nfs4_stateid_match_other S s (st_open_stateid (oc_state c))"
  shows "update_stateid S s c =
    oc_upd (\<lambda>st. if NFS_OPEN_STATE \<in> st_flags (oc_state c) \<and> \<not> nfs4_stateid_is_newer S s (st_open_stateid st) then set_flag NFS_OPEN_STATE st
                 else copy_stateid s (set_flag NFS_OPEN_STATE st)) c"
proof -
  have upd: "oc_upd f c = oc_upd g c" if "f (oc_state c) = g (oc_state c)" for f g using that by (simp add: oc_upd_def)
  show ?thesis using assms
    by (auto simp: update_stateid_def nfs_need_update_open_stateid_def Let_def oc_upd_comp set_flag_def intro!: upd)
qed

section \<open>What the server and the kernel do\<close>

text \<open>\<open>quiet\<close>: a function of the kernel leaves the states, the position and the delegation alone.\<close>

definition same_states :: "'w open_ctx \<Rightarrow> 'w open_ctx \<Rightarrow> bool" where
  "same_states c d \<longleftrightarrow> ow_states (oc_owner d) = ow_states (oc_owner c) \<and> oc_index d = oc_index c \<and> oc_deleg d = oc_deleg c"

lemma same_states_refl [simp]: "same_states c c" "same_states c (c\<lparr>oc_clp := x\<rparr>)" "same_states c (c\<lparr>oc_deleg := oc_deleg c\<rparr>)"
  by (simp_all add: same_states_def)

lemma same_states_trans: "same_states c d \<Longrightarrow> same_states d e \<Longrightarrow> same_states c e"
  by (simp add: same_states_def)

lemma same_statesD: "same_states c d \<Longrightarrow> oc_state d = oc_state c" "same_states c d \<Longrightarrow> oc_ok d = oc_ok c" "same_states c d \<Longrightarrow> oc_deleg d = oc_deleg c"
  by (simp_all add: same_states_def oc_state_def oc_ok_def)

definition quiet :: "('w open_ctx \<Rightarrow> 'w open_ctx) \<Rightarrow> bool" where
  "quiet f \<longleftrightarrow> (\<forall>c. same_states c (f c))"

definition succeeds :: "('w open_ctx \<Rightarrow> bool \<times> 'w open_ctx) \<Rightarrow> bool" where
  "succeeds f \<longleftrightarrow> (\<forall>c. \<exists>d. f c = (True, d) \<and> same_states c d)"

definition plain_res :: "open_res \<Rightarrow> bool" where
  "plain_res r \<longleftrightarrow> or_deleg_type r = 0 \<and> or_rflags r AND OPEN_RESULT_CONFIRM = 0 \<and> (or_valid r AND NFS_ATTR_FATTR_TYPE = 0 \<or> or_mode r AND S_IFMT = S_IFREG)"

text \<open>The state ids the server gives are those of \<open>ids\<close>, which all belong to one open.\<close>

definition granting :: "stateid_env \<Rightarrow> nfs4_stateid set \<Rightarrow> 'w open_proc \<Rightarrow> bool" where
  "granting S ids P \<longleftrightarrow>
     succeeds (wait_on_sequence (open_hooks P)) \<and> succeeds (setup_sequence (open_hooks P)) \<and> succeeds (finish_sequence (open_hooks P)) \<and>
     quiet (nfs_confirm_seqid P) \<and> (\<forall>c. rpc_run_error P c = None) \<and> (\<forall>c. \<exists>d. rpc_wait P c = (0, d) \<and> same_states c d) \<and>
     (\<forall>r c. \<exists>d. refresh_attrs P r c = (0, d) \<and> same_states c d) \<and>
     (\<forall>data c. \<exists>r d. rpc_open P data c = ((0, r), d) \<and> same_states c d \<and> plain_res r \<and> or_stateid r \<in> ids) \<and>
     (\<forall>a\<in>ids. \<forall>b\<in>ids. nfs4_stateid_match_other S a b)"

lemma grantingD:
  assumes "granting S ids P"
  shows "\<exists>d. wait_on_sequence (open_hooks P) c = (True, d) \<and> same_states c d" "\<exists>d. setup_sequence (open_hooks P) c = (True, d) \<and> same_states c d"
    "\<exists>d. finish_sequence (open_hooks P) c = (True, d) \<and> same_states c d" "same_states c (nfs_confirm_seqid P c)" "rpc_run_error P c = None"
    "\<exists>d. rpc_wait P c = (0, d) \<and> same_states c d" "\<exists>d. refresh_attrs P r c = (0, d) \<and> same_states c d"
    "\<exists>r d. rpc_open P data c = ((0, r), d) \<and> same_states c d \<and> plain_res r \<and> or_stateid r \<in> ids"
    "a \<in> ids \<Longrightarrow> b \<in> ids \<Longrightarrow> nfs4_stateid_match_other S a b"
  using assms unfolding granting_def succeeds_def quiet_def by blast+

text \<open>The OPEN of a mode that is neither cached nor delegated is sent and answered.\<close>

lemma open_task_granted:
  assumes P: "granting S ids P" and c: "oc_deleg c = None" "\<not> can_open_cached (oc_state c) (op_fmode data) (op_excl data \<or> op_trunc data)"
  obtains r t d m na where "open_task P (Suc n) data c =
      Some (data\<lparr>op_noattr := na, op_timestamp := t, op_createmode := m, op_res := r, op_status := 0, op_done := True\<rparr>, d)"
    "same_states c d" "plain_res r" "or_stateid r \<in> ids"
proof -
  let ?X = "open_hooks P"
  obtain c1 where c1: "wait_on_sequence ?X c = (True, c1)" "same_states c c1" using grantingD(1) [OF P] by blast
  let ?c1 = "c1\<lparr>oc_deleg := None\<rparr>"
  have d1: "oc_deleg c1 = None" "same_states c1 ?c1" using same_statesD(3) [OF c1(2)] c(1) by (simp_all add: same_states_def)
  obtain c2 where c2: "setup_sequence ?X ?c1 = (True, c2)" "same_states ?c1 c2" using grantingD(2) [OF P] by blast
  have uncached: "\<not> can_open_cached (oc_state c1) (op_fmode data) (op_excl data \<or> op_trunc data)" using c(2) same_statesD(1) [OF c1(2)] by simp
  then have uncached': "\<not> (op_has_state data \<and> can_open_cached (oc_state c1) (op_fmode data) (op_excl data \<or> op_trunc data))" by blast
  have no_deleg: "(if b then can_open_delegated (oc_deleg c1) f else (False, oc_deleg c1)) = (False, None)" for b f
    by (simp add: d1(1) can_open_delegated_def)
  have "\<exists>na t m. nfs4_open_prepare P data c = (Open_Send, data\<lparr>op_noattr := na, op_timestamp := t, op_createmode := m\<rparr>, c2)"
    unfolding nfs4_open_prepare_def Let_def c1(1) prod.case bool.case no_deleg if_not_P [OF uncached'] if_False c2(1) by (intro exI) (rule refl)
  then obtain na t m where prep: "nfs4_open_prepare P data c = (Open_Send, data\<lparr>op_noattr := na, op_timestamp := t, op_createmode := m\<rparr>, c2)" by blast
  let ?data = "data\<lparr>op_noattr := na, op_timestamp := t, op_createmode := m\<rparr>"
  obtain r c3 where c3: "rpc_open P ?data c2 = ((0, r), c3)" "same_states c2 c3" and r: "plain_res r" "or_stateid r \<in> ids"
    using grantingD(8) [OF P] by blast
  obtain c4 where c4: "finish_sequence ?X c3 = (True, c4)" "same_states c3 c4" using grantingD(3) [OF P] by blast
  let ?c4 = "c4\<lparr>oc_clp := renew_lease t (oc_clp c4)\<rparr>"
  have c5: "same_states ?c4 (nfs_confirm_seqid P ?c4)" by (rule grantingD(4) [OF P])
  have same: "same_states c (nfs_confirm_seqid P ?c4)"
    using c1(2) d1(2) c2(2) c3(2) c4(2) c5 by (simp add: same_states_def)
  have "nfs4_open_done P 0 (?data\<lparr>op_res := r\<rparr>) c3 = (True, ?data\<lparr>op_res := r, op_status := 0, op_done := True\<rparr>, nfs_confirm_seqid P ?c4)"
    using c4(1) r(1) by (cases "or_valid r AND NFS_ATTR_FATTR_TYPE = 0") (simp_all add: nfs4_open_done_def plain_res_def Let_def)
  with prep c3(1) have "open_task P (Suc n) data c = Some (?data\<lparr>op_res := r, op_status := 0, op_done := True\<rparr>, nfs_confirm_seqid P ?c4)" by simp
  then show thesis using that same r by simp
qed

text \<open>What the loop over the modes keeps of the request.\<close>

definition reclaiming :: "open_data \<Rightarrow> bool" where
  "reclaiming data \<longleftrightarrow> op_claim data = NFS4_OPEN_CLAIM_PREVIOUS \<and> op_has_state data \<and> op_refs data = 1"

lemma recover_proc_granted:
  assumes P: "granting S ids P" and c: "oc_deleg c = None" "\<not> can_open_cached (oc_state c) (op_fmode data) (op_excl data \<or> op_trunc data)" and data: "reclaiming data"
  obtains data' d where "nfs4_recover_proc_open E S P (Suc n) data c = Some (0, data', d)" "same_states c d" "reclaiming data'" "op_done data'"
    "plain_res (op_res data')" "or_stateid (op_res data') \<in> ids" "op_fmode data' = op_fmode data"
proof -
  let ?data = "data\<lparr>op_refs := op_refs data + 1, op_done := False, op_status := 0, op_cancelled := False, op_is_recover := True\<rparr>"
  obtain c1 where c1: "rpc_run_error P c = None" "rpc_wait P c = (0, c1)" "same_states c c1" using grantingD(5,6) [OF P] by blast
  have c1': "oc_deleg c1 = None" "\<not> can_open_cached (oc_state c1) (op_fmode ?data) (op_excl ?data \<or> op_trunc ?data)"
    using c same_statesD [OF c1(3)] by simp_all
  obtain r t d m na where task: "open_task P (Suc n) ?data c1 =
      Some (?data\<lparr>op_noattr := na, op_timestamp := t, op_createmode := m, op_res := r, op_status := 0, op_done := True\<rparr>, d)"
    and d: "same_states c1 d" "plain_res r" "or_stateid r \<in> ids" by (rule open_task_granted [OF P c1'])
  let ?data' = "?data\<lparr>op_noattr := na, op_timestamp := t, op_createmode := m, op_res := r, op_status := 0, op_done := True, op_refs := op_refs data\<rparr>"
  have "nfs4_run_open_task E S P (Suc n) True data c = Some (0, ?data', d)"
    using c1 task data by (simp add: nfs4_run_open_task_def nfs4_open_release_def nfs4_opendata_put_def reclaiming_def Let_def del: open_task.simps)
  then have "nfs4_recover_proc_open E S P (Suc n) data c = Some (0, ?data', d)"
    using d(2) by (simp add: nfs4_recover_proc_open_def plain_res_def)
  then show thesis using that [of ?data' d] d data same_states_trans [OF c1(3) d(1)] by (simp add: reclaiming_def)
qed

section \<open>One mode\<close>

text \<open>The state with the mode opened again under the state id \<open>s\<close>.\<close>

definition reopened :: "stateid_env \<Rightarrow> nfs4_stateid \<Rightarrow> u32 \<Rightarrow> open_state \<Rightarrow> open_state" where
  "reopened S s f st =
     (let st' = set_flag NFS_OPEN_STATE (set_modes f st)
      in if NFS_OPEN_STATE \<in> st_flags st \<and> \<not> nfs4_stateid_is_newer S s (st_open_stateid st) then st' else copy_stateid s st')"

lemma set_modes_fields [simp]:
  "NFS_OPEN_STATE \<in> st_flags (set_modes f st) \<longleftrightarrow> NFS_OPEN_STATE \<in> st_flags st" "st_open_stateid (set_modes f st) = st_open_stateid st"
  by (auto simp: set_modes_def set_flag_def)

lemma oc_upd_cong: "f (oc_state c) = g (oc_state c) \<Longrightarrow> oc_upd f c = oc_upd g c"
  by (simp add: oc_upd_def)

lemma oc_upd_same: "f (oc_state c) = oc_state c \<Longrightarrow> oc_upd f c = c"
  by (simp add: oc_upd_def oc_state_def)

lemma same_states_upd: "same_states c d \<Longrightarrow> same_states (oc_upd f c) (oc_upd f d)"
  by (simp add: same_states_def oc_upd_def oc_state_def)

lemma set_open_stateid_reopened:
  assumes "oc_ok c" and "NFS_OPEN_STATE \<in> st_flags (oc_state c) \<Longrightarrow> nfs4_stateid_match_other S s (st_open_stateid (oc_state c))"
  shows "nfs_set_open_stateid_locked S s f c = oc_upd (reopened S s f) c"
proof -
  let ?c = "oc_upd (set_modes f) c"
  have "NFS_OPEN_STATE \<in> st_flags (oc_state ?c) \<Longrightarrow> nfs4_stateid_match_other S s (st_open_stateid (oc_state ?c))" and ok: "oc_ok ?c"
    using assms by simp_all
  from update_stateid_match [OF ok this(1)] show ?thesis using assms(1)
    by (simp add: nfs_set_open_stateid_locked_def oc_upd_comp) (rule oc_upd_cong; simp add: reopened_def Let_def)
qed

lemma count_close_open: "count_close f (count_open f st) = st" if "f \<in> {READ, WRITE, RDWR}"
  using that by (auto simp: count_close_def count_open_def)

lemma reopened_fields [simp]:
  "n_rdonly (reopened S s f st) = n_rdonly st" "n_wronly (reopened S s f st) = n_wronly st" "n_rdwr (reopened S s f st) = n_rdwr st"
  "st_mode (reopened S s f st) = st_mode st" "st_count (reopened S s f st) = st_count st" "st_inode (reopened S s f st) = st_inode st"
  "st_locks (reopened S s f st) = st_locks st" "st_flags (reopened S s f st) = insert NFS_OPEN_STATE (st_flags (set_modes f st))"
  by (simp_all add: reopened_def Let_def copy_stateid_def set_flag_def set_modes_def)

text \<open>The modes the server knows of are in use.\<close>

definition mode_bit :: "u32 \<Rightarrow> state_bit" where
  "mode_bit f = (if f = READ then NFS_O_RDONLY_STATE else if f = WRITE then NFS_O_WRONLY_STATE else NFS_O_RDWR_STATE)"

definition known_used :: "u32 multiset \<Rightarrow> open_state \<Rightarrow> bool" where
  "known_used M st \<longleftrightarrow> st_flags st \<inter> {NFS_O_RDONLY_STATE, NFS_O_WRONLY_STATE, NFS_O_RDWR_STATE} \<subseteq> mode_bit ` set_mset M"

lemma represents_zero:
  assumes "represents M st"
  shows "n_rdonly st = 0 \<longleftrightarrow> READ \<notin># M" "n_wronly st = 0 \<longleftrightarrow> WRITE \<notin># M" "n_rdwr st = 0 \<longleftrightarrow> RDWR \<notin># M"
  using assms by (simp_all add: represents_def not_in_iff flip: unat_eq_0)

lemma close_newstate_used:
  assumes "represents M st" and "known_used M st"
  shows "close_newstate st = (mode_of M, False)"
proof -
  have "mode_bit ` set_mset M \<subseteq> {b. b = NFS_O_RDONLY_STATE \<and> READ \<in># M \<or> b = NFS_O_WRONLY_STATE \<and> WRITE \<in># M \<or> b = NFS_O_RDWR_STATE \<and> RDWR \<in># M}"
    using assms(1) by (auto simp: represents_def mode_bit_def)
  with assms(2) have "st_flags st \<inter> {NFS_O_RDONLY_STATE, NFS_O_WRONLY_STATE, NFS_O_RDWR_STATE} \<subseteq>
      {b. b = NFS_O_RDONLY_STATE \<and> READ \<in># M \<or> b = NFS_O_WRONLY_STATE \<and> WRITE \<in># M \<or> b = NFS_O_RDWR_STATE \<and> RDWR \<in># M}"
    unfolding known_used_def by (rule subset_trans)
  then have "NFS_O_RDONLY_STATE \<in> st_flags st \<Longrightarrow> READ \<in># M" "NFS_O_WRONLY_STATE \<in> st_flags st \<Longrightarrow> WRITE \<in># M"
    "NFS_O_RDWR_STATE \<in> st_flags st \<Longrightarrow> RDWR \<in># M"
    by auto
  then have "\<not> snd (close_newstate st)" by (auto simp: close_newstate_def represents_zero [OF assms(1)])
  moreover have "fst (close_newstate st) = mode_of M" using assms(1) by (intro close_newstate_mode) (simp_all add: represents_def)
  ultimately show ?thesis by (cases "close_newstate st") simp
qed

lemma mode_of_member: "f \<in># M \<Longrightarrow> f \<in> {READ, WRITE, RDWR} \<Longrightarrow> mode_of M OR f = mode_of M"
  by (auto simp: mode_of_def)

text \<open>The open that recovery counts is closed again without a word to the server.\<close>

lemma close_counted:
  assumes c: "oc_ok c" "represents M st" "known_used M st" "f \<in># M" "st_count st \<noteq> 0" and st: "oc_state c = (count_open f st)\<lparr>st_count := st_count st + 1\<rparr>"
  shows "same_states (oc_upd (\<lambda>_. st) c) (nfs4_close D f c)"
proof -
  have f: "f \<in> {READ, WRITE, RDWR}" using c(2,4) by (auto simp: represents_def)
  have cl: "count_close f (oc_state c) = st\<lparr>st_count := st_count st + 1\<rparr>"
    using f count_close_open [OF f, of st] by (auto simp: st count_close_def count_open_def Let_def)
  have nz: "mode_of M \<noteq> 0" using c(4) f by (auto simp: mode_of_def)
  let ?c = "c\<lparr>oc_owner := (oc_owner c)\<lparr>ow_count := ow_count (oc_owner c) + 1\<rparr>\<rparr>" and ?st = "st\<lparr>st_count := st_count st + 1\<rparr>"
  let ?d = "oc_upd (count_close f) ?c"
  have d: "oc_state ?d = ?st" "oc_ok ?d" using c(1) cl by simp_all
  have "represents M ?st" "known_used M ?st" using c(2,3) by (simp_all add: represents_def known_used_def)
  then have new: "close_newstate (oc_state ?d) = (mode_of M, False)" unfolding d(1) by (rule close_newstate_used)
  have "st_mode (oc_state ?d) = mode_of M" using c(2) unfolding d(1) by (simp add: represents_def)
  then have local: "nfs4_close_local f c = (False, ?d)" using new nz unfolding nfs4_close_local_def Let_def by (simp add: set_mode_same del: oc_upd_simps oc_fields)
  have "nfs4_close D f c = put_owner_ref (oc_upd (\<lambda>st. st\<lparr>st_count := st_count st - 1\<rparr>) ?d)"
    using c(5) d by (simp add: nfs4_close_def local nfs4_put_open_state_def Let_def)
  then show ?thesis using c(1) d by (simp add: same_states_def put_owner_ref_def oc_upd_def oc_state_def oc_ok_def)
qed

lemma reopen_counted:
  assumes c: "oc_ok c" "oc_deleg c = None" "represents M (oc_state c)" "known_used M (oc_state c)" "f \<in># M" "st_count (oc_state c) \<noteq> 0"
    and s: "NFS_OPEN_STATE \<in> st_flags (oc_state c) \<Longrightarrow> nfs4_stateid_match_other S s (st_open_stateid (oc_state c))"
  shows "same_states (oc_upd (reopened S s f) c) (nfs4_close D f (take_state (snd (update_open_stateid E S (Some s) None f c))))"
proof -
  have f: "f \<in> {READ, WRITE, RDWR}" using c(3,5) by (auto simp: represents_def)
  let ?st = "reopened S s f (oc_state c)" and ?c = "oc_upd (reopened S s f) c"
  have "st_mode ?st OR f = st_mode ?st" using c(3) mode_of_member [OF c(5) f] by (simp add: represents_def)
  then have mode: "nfs4_state_set_mode_locked (st_mode ?st OR f) (oc_upd (count_open f) ?c) = oc_upd (count_open f) ?c"
    using c(1) by (intro set_mode_same) (simp add: count_open_def)
  have m: "st_mode (count_open f ?st) = st_mode ?st" by (simp add: count_open_def)
  have fm: "f AND RDWR = f" using f by auto
  have upd: "snd (update_open_stateid E S (Some s) None f c) = oc_schedule E (oc_upd (count_open f) ?c)"
    using c(1,2) mode m set_open_stateid_reopened [OF c(1) s, of f]
    by (simp add: update_open_stateid_def usable_delegation_def update_open_stateid_now_def update_open_stateflags_def fm Let_def)
  let ?d = "take_state (oc_schedule E (oc_upd (count_open f) ?c))"
  have d: "oc_ok ?d" "oc_state ?d = (count_open f ?st)\<lparr>st_count := st_count ?st + 1\<rparr>"
    using c(1) by (simp_all add: take_state_def oc_ok_def oc_state_def oc_upd_def oc_schedule_def count_open_def)
  have "represents M ?st" using c(3) by (simp add: represents_def)
  moreover have "known_used M ?st" using c(4,5) f by (auto simp: known_used_def set_modes_def set_flag_def mode_bit_def)
  ultimately have "same_states (oc_upd (\<lambda>_. ?st) ?d) (nfs4_close D f ?d)" using c(5,6) d by (intro close_counted) simp_all
  moreover have "same_states ?c (oc_upd (\<lambda>_. ?st) ?d)"
    using c(1) by (simp add: same_states_def take_state_def oc_upd_def oc_schedule_def oc_state_def oc_ok_def)
  ultimately show ?thesis unfolding upd by (blast intro: same_states_trans)
qed

lemma reopen_inode:
  assumes "oc_ok c" "oc_deleg c = None" "f \<in> {READ, WRITE, RDWR}" "NFS_OPEN_STATE \<in> st_flags (oc_state c) \<Longrightarrow> nfs4_stateid_match_other S s (st_open_stateid (oc_state c))"
  shows "st_inode (oc_state (take_state (snd (update_open_stateid E S (Some s) None f c)))) = st_inode (oc_state c)"
proof -
  have fm: "f AND RDWR = f" using assms(3) by auto
  show ?thesis using assms set_open_stateid_reopened [OF assms(1,4), of f]
    by (simp add: update_open_stateid_def usable_delegation_def update_open_stateid_now_def update_open_stateflags_def fm Let_def take_state_def
        oc_schedule_def set_mode_state count_open_def)
qed

lemma recover_helper_granted:
  assumes P: "granting S ids P" and c: "oc_ok c" "oc_deleg c = None" "represents M (oc_state c)" "known_used M (oc_state c)" "f \<in># M" "st_count (oc_state c) \<noteq> 0"
    and new: "mode_bit f \<notin> st_flags (oc_state c)" and s: "NFS_OPEN_STATE \<in> st_flags (oc_state c) \<Longrightarrow> st_open_stateid (oc_state c) \<in> ids" and data: "reclaiming data"
  obtains data' s d where "nfs4_open_recover_helper E S P (Suc n) f data c = Some (0, st_inode (oc_state c), data', d)" "reclaiming data'" "s \<in> ids"
    "same_states (oc_upd (reopened S s f) c) d"
proof -
  have f: "f \<in> {READ, WRITE, RDWR}" using c(3,5) by (auto simp: represents_def)
  let ?data = "data\<lparr>op_creat := False, op_excl := False, op_trunc := False, op_fmode := f, op_res := zero_res\<rparr>"
  have un: "\<not> can_open_cached (oc_state c) (op_fmode ?data) (op_excl ?data \<or> op_trunc ?data)"
    using f new by (auto simp: can_open_cached_def mode_bit_def)
  have data: "reclaiming ?data" using data by (simp add: reclaiming_def)
  obtain data' d where r: "nfs4_recover_proc_open E S P (Suc n) ?data c = Some (0, data', d)" and d: "same_states c d" "reclaiming data'" "op_done data'"
    "plain_res (op_res data')" "or_stateid (op_res data') \<in> ids" "op_fmode data' = op_fmode ?data" by (rule recover_proc_granted [OF P c(2) un data])
  obtain e where e: "refresh_attrs P (op_res data') d = (0, e)" "same_states d e" using grantingD(7) [OF P] by blast
  have ce: "same_states c e" using d(1) e(2) by (rule same_states_trans)
  let ?s = "or_stateid (op_res data')"
  let ?e = "take_state (snd (update_open_stateid E S (Some ?s) None f e))"
  have "opendata_reclaim_to_nfs4_state E S P data' d = (0, ?e)"
    using d e(1) by (simp add: opendata_reclaim_to_nfs4_state_def plain_res_def)
  then have helper: "nfs4_open_recover_helper E S P (Suc n) f data c = Some (0, st_inode (oc_state ?e), data', nfs4_close (nfs4_do_close P) f ?e)"
    using r d(2) by (simp add: nfs4_open_recover_helper_def nfs4_opendata_to_nfs4_state_def reclaiming_def Let_def)
  note st = same_statesD [OF ce]
  have match: "NFS_OPEN_STATE \<in> st_flags (oc_state e) \<Longrightarrow> nfs4_stateid_match_other S ?s (st_open_stateid (oc_state e))"
    using s d(5) st grantingD(9) [OF P] by simp
  have same: "same_states (oc_upd (reopened S ?s f) e) (nfs4_close (nfs4_do_close P) f ?e)"
    using c st match by (intro reopen_counted) simp_all
  have inode: "st_inode (oc_state ?e) = st_inode (oc_state c)"
    using reopen_inode [OF _ _ f match, of E] c(1,2) st by simp
  show thesis using that [OF helper [unfolded inode] d(2) d(5)] same_states_trans [OF same_states_upd [OF ce] same] .
qed

section \<open>All modes\<close>

text \<open>The state with the modes \<open>B\<close> restored, under a state id of the server.\<close>

definition restored :: "nfs4_stateid set \<Rightarrow> u32 set \<Rightarrow> open_state \<Rightarrow> open_state \<Rightarrow> bool" where
  "restored ids B st0 st \<longleftrightarrow>
     (if B = {} then st = st0
      else \<exists>s\<in>ids. st = st0\<lparr>st_flags := insert NFS_OPEN_STATE (mode_bit ` B \<union> st_flags st0), st_stateid := s, st_open_stateid := s\<rparr>)"

lemma set_modes_bit: "f \<in> {READ, WRITE, RDWR} \<Longrightarrow> set_modes f st = set_flag (mode_bit f) st"
  by (auto simp: set_modes_def mode_bit_def)

lemma reopened_restored:
  assumes "restored ids B st0 st" and "s \<in> ids" and "f \<in> {READ, WRITE, RDWR}" and "NFS_OPEN_STATE \<notin> st_flags st0" "NFS_DELEGATED_STATE \<notin> st_flags st0"
  shows "restored ids (insert f B) st0 (reopened S s f st)"
proof -
  have b: "mode_bit g \<noteq> NFS_DELEGATED_STATE" "NFS_DELEGATED_STATE \<noteq> mode_bit g" for g by (simp_all add: mode_bit_def)
  have nd: "NFS_DELEGATED_STATE \<notin> mode_bit ` B" using b by (metis imageE)
  show ?thesis
  proof (cases "B = {}")
    case True
    with assms b show ?thesis
      by (auto simp: restored_def reopened_def set_modes_bit copy_stateid_def set_flag_def Let_def intro!: bexI [of _ s])
  next
    case False
    then obtain t where t: "t \<in> ids" "st = st0\<lparr>st_flags := insert NFS_OPEN_STATE (mode_bit ` B \<union> st_flags st0), st_stateid := t, st_open_stateid := t\<rparr>"
      using assms(1) by (auto simp: restored_def)
    have fl: "insert NFS_OPEN_STATE (insert (mode_bit f) (insert NFS_OPEN_STATE (mode_bit ` B \<union> st_flags st0))) = insert NFS_OPEN_STATE (mode_bit ` insert f B \<union> st_flags st0)"
      by auto
    have "reopened S s f st = st0\<lparr>st_flags := insert NFS_OPEN_STATE (mode_bit ` insert f B \<union> st_flags st0),
        st_stateid := if nfs4_stateid_is_newer S s t then s else t, st_open_stateid := if nfs4_stateid_is_newer S s t then s else t\<rparr>"
      using assms(3,5) b nd fl by (simp add: t(2) reopened_def set_modes_bit copy_stateid_def set_flag_def Let_def)
    with assms(2) t(1) show ?thesis by (auto simp: restored_def)
  qed
qed

lemma restored_fields:
  assumes "restored ids B st0 st"
  shows "represents M st = represents M st0" "st_count st = st_count st0" "st_inode st = st_inode st0" "n_rdonly st = n_rdonly st0" "n_wronly st = n_wronly st0"
    "n_rdwr st = n_rdwr st0" "st_flags st = (if B = {} then {} else {NFS_OPEN_STATE}) \<union> mode_bit ` B \<union> st_flags st0"
    "B \<noteq> {} \<Longrightarrow> st_open_stateid st \<in> ids \<and> st_stateid st = st_open_stateid st"
  using assms by (auto simp: restored_def represents_def split: if_splits)

text \<open>What is true between two modes.\<close>

definition recovering :: "nfs4_stateid set \<Rightarrow> u32 multiset \<Rightarrow> 'w open_ctx \<Rightarrow> u32 set \<Rightarrow> (int \<times> open_data \<times> 'w open_ctx) option \<Rightarrow> bool" where
  "recovering ids M c0 B r \<longleftrightarrow>
     (\<exists>data c st. r = Some (0, data, c) \<and> reclaiming data \<and> restored ids B (oc_state c0) st \<and> same_states (oc_upd (\<lambda>_. st) c0) c)"

text \<open>A state whose modes have been reset, with openers.\<close>

definition stale :: "u32 multiset \<Rightarrow> 'w open_ctx \<Rightarrow> bool" where
  "stale M c \<longleftrightarrow> oc_ok c \<and> oc_deleg c = None \<and> represents M (oc_state c) \<and> st_count (oc_state c) \<noteq> 0 \<and>
     st_flags (oc_state c) \<inter> {NFS_O_RDWR_STATE, NFS_O_WRONLY_STATE, NFS_O_RDONLY_STATE, NFS_DELEGATED_STATE, NFS_OPEN_STATE} = {}"

lemma recover_mode_granted:
  assumes P: "granting S ids P" and c0: "stale M c0" and r: "recovering ids M c0 B r" and f: "f \<in> {READ, WRITE, RDWR}" "f \<notin> B" "B \<subseteq> set_mset M"
    and used_count: "\<And>st. represents M st \<Longrightarrow> n_f st = 0 \<longleftrightarrow> f \<notin># M"
  shows "recovering ids M c0 (if f \<in># M then insert f B else B) (recover_mode E S P (Suc n) (st_inode (oc_state c0)) n_f f r)"
proof -
  obtain data c st where r: "r = Some (0, data, c)" "reclaiming data" and st: "restored ids B (oc_state c0) st" "same_states (oc_upd (\<lambda>_. st) c0) c"
    using r by (auto simp: recovering_def)
  note fields = restored_fields [OF st(1)]
  have c: "oc_state c = st" "oc_ok c" "oc_deleg c = None" using same_statesD [OF st(2)] c0 by (simp_all add: stale_def)
  have rep: "represents M st" using c0 fields(1) by (simp add: stale_def)
  have B: "B \<subseteq> {READ, WRITE, RDWR}" using f(3) rep by (auto simp: represents_def)
  show ?thesis
  proof (cases "f \<in># M")
    case False
    then show ?thesis using r st c(1) used_count [OF rep] by (auto simp: recovering_def recover_mode_def)
  next
    case True
    have used: "known_used M st" using c0 f(3) by (auto simp: known_used_def fields(7) stale_def)
    have new: "mode_bit f \<notin> st_flags st" using c0 f(1,2) B by (auto simp: fields(7) stale_def mode_bit_def split: if_splits)
    have ids: "NFS_OPEN_STATE \<in> st_flags st \<Longrightarrow> st_open_stateid st \<in> ids"
      using c0 fields(8) by (cases "B = {}") (auto simp: fields(7) stale_def)
    have cnt: "st_count st \<noteq> 0" using c0 fields(2) by (simp add: stale_def)
    obtain data' s d where h: "nfs4_open_recover_helper E S P (Suc n) f data c = Some (0, st_inode (oc_state c), data', d)" and d: "reclaiming data'" "s \<in> ids"
      "same_states (oc_upd (reopened S s f) c) d"
      by (rule recover_helper_granted [OF P c(2,3)]) (use c(1) rep used True cnt new ids r(2) in simp_all)
    have "same_states (oc_upd (\<lambda>_. reopened S s f st) c0) (oc_upd (reopened S s f) c)"
      using st(2) c(1) by (simp add: same_states_def oc_upd_def)
    with d(3) have "same_states (oc_upd (\<lambda>_. reopened S s f st) c0) d" by (blast intro: same_states_trans)
    moreover have "restored ids (insert f B) (oc_state c0) (reopened S s f st)" using c0 by (intro reopened_restored st(1) d(2) f(1)) (auto simp: stale_def)
    ultimately show ?thesis using r(1) d(1) h True used_count [OF rep] c(1) fields(3) by (auto simp: recovering_def recover_mode_def)
  qed
qed

lemma open_recover_granted:
  assumes P: "granting S ids P" and c: "oc_ok c" "oc_deleg c = None" "represents M (oc_state c)" "M \<noteq> {#}" "st_count (oc_state c) \<noteq> 0" and data: "reclaiming data"
  obtains data' st d where "nfs4_open_recover E S P (Suc n) data c = Some (0, data', d)" "reclaiming data'"
    "restored ids (set_mset M) (reset_modes (oc_state c)) st" "same_states (oc_upd (\<lambda>_. st) c) d"
proof -
  let ?c = "oc_upd reset_modes c" and ?r = "recover_mode E S P (Suc n) (st_inode (oc_state c))"
  have stale: "stale M ?c" and inode: "st_inode (oc_state ?c) = st_inode (oc_state c)" using c by (auto simp: stale_def reset_modes_def represents_def)
  have step: "recovering ids M ?c ((if f \<in># M then {f} else {}) \<union> B) (?r n_f f r)"
    if "recovering ids M ?c B r" "f \<in> {READ, WRITE, RDWR}" "f \<notin> B" "B \<subseteq> set_mset M" "\<And>st. represents M st \<Longrightarrow> n_f st = 0 \<longleftrightarrow> f \<notin># M" for B n_f f r
    using recover_mode_granted [OF P stale that, where E = E and n = n] unfolding inode by (cases "f \<in># M") simp_all
  let ?m = "\<lambda>f. if f \<in># M then {f} else {}"
  have "recovering ids M ?c {} (Some (0, data, ?c))" using data c(1) oc_upd_cong [of "\<lambda>_. reset_modes (oc_state c)" c reset_modes]
    by (auto simp: recovering_def restored_def oc_upd_comp)
  from step [OF this, of RDWR n_rdwr] have "recovering ids M ?c (?m RDWR \<union> {}) (?r n_rdwr RDWR (Some (0, data, ?c)))"
    using represents_zero(3) by (auto split: if_splits simp del: Un_empty_right)
  from step [OF this, of WRITE n_wronly] have "recovering ids M ?c (?m WRITE \<union> (?m RDWR \<union> {})) (?r n_wronly WRITE (?r n_rdwr RDWR (Some (0, data, ?c))))"
    using represents_zero(2) by (auto split: if_splits simp del: Un_empty_right)
  from step [OF this, of READ n_rdonly]
  have "recovering ids M ?c (?m READ \<union> (?m WRITE \<union> (?m RDWR \<union> {}))) (?r n_rdonly READ (?r n_wronly WRITE (?r n_rdwr RDWR (Some (0, data, ?c)))))"
    using represents_zero(1) by (auto split: if_splits simp del: Un_empty_right)
  moreover have "?m READ \<union> (?m WRITE \<union> (?m RDWR \<union> {})) = set_mset M" using c(3) by (auto simp: represents_def)
  ultimately obtain data' d st where r: "?r n_rdonly READ (?r n_wronly WRITE (?r n_rdwr RDWR (Some (0, data, ?c)))) = Some (0, data', d)"
    and d: "reclaiming data'" "restored ids (set_mset M) (oc_state ?c) st" "same_states (oc_upd (\<lambda>_. st) ?c) d"
    by (auto simp: recovering_def)
  have d3: "same_states (oc_upd (\<lambda>_. st) c) d" using d(3) c(1) by (simp add: oc_upd_comp)
  have "oc_state d = st" "oc_ok d" using same_statesD [OF d3] c(1) by simp_all
  moreover have "st_stateid st = st_open_stateid st" using restored_fields(8) [OF d(2)] c(4) by simp
  moreover from this have "sync_stateid S st = st" by (cases st) (simp add: sync_stateid_def)
  ultimately have "oc_upd (sync_stateid S) d = d" by (simp add: oc_upd_same)
  then have "nfs4_open_recover E S P (Suc n) data c = Some (0, data', d)" using r by (simp add: nfs4_open_recover_def Let_def)
  then show thesis using that d(1,2) d3 c(1) by simp
qed

text \<open>The request holds a reference to the state, which is given back.\<close>

definition can_alloc :: "'w open_proc \<Rightarrow> bool" where
  "can_alloc P \<longleftrightarrow> succeeds (alloc_opendata P)"

lemma reclaim_granted:
  assumes P: "granting S ids P" "can_alloc P" and c: "oc_ok c" "oc_deleg c = None" "represents M (oc_state c)" "M \<noteq> {#}" "st_count (oc_state c) \<noteq> 0"
  obtains st d where "nfs4_open_reclaim Q S P (Suc n) cap True c = Some (0, d)" "restored ids (set_mset M) (reset_modes (oc_state c)) st"
    "same_states (oc_upd (\<lambda>_. st) c) d"
proof -
  let ?E = "xe_client Q"
  obtain c1 where c1: "alloc_opendata P c = (True, c1)" "same_states c c1" using P(2) by (auto simp: can_alloc_def succeeds_def)
  let ?c = "take_state (c1\<lparr>oc_owner := (oc_owner c1)\<lparr>ow_count := Suc (ow_count (oc_owner c1))\<rparr>\<rparr>)"
  have cc: "same_states (take_state c) ?c" using c1(2) by (simp add: same_states_def take_state_def oc_upd_def oc_state_def)
  have st: "oc_state ?c = (oc_state c)\<lparr>st_count := Suc (st_count (oc_state c))\<rparr>" "oc_ok ?c" "oc_deleg ?c = None"
    using same_statesD [OF cc] c(1,2) by (simp_all add: take_state_def)
  obtain data where data: "nfs4_open_recoverdata_alloc P cap NFS4_OPEN_CLAIM_PREVIOUS c = (Some data, ?c)" "reclaiming data"
    using c1(1) by (auto simp: nfs4_open_recoverdata_alloc_def reclaiming_def nfs4_map_atomic_open_claim_def)
  have "represents M (oc_state ?c)" "st_count (oc_state ?c) \<noteq> 0" using c(3) by (simp_all add: st(1) represents_def)
  then obtain data' st1 d where r: "nfs4_open_recover ?E S P (Suc n) data ?c = Some (0, data', d)" "reclaiming data'"
    and d: "restored ids (set_mset M) (reset_modes (oc_state ?c)) st1" "same_states (oc_upd (\<lambda>_. st1) ?c) d"
    using open_recover_granted [OF P(1) st(2,3) _ c(4) _ data(2)] by metis
  let ?st = "st1\<lparr>st_count := st_count (oc_state c)\<rparr>"
  have res: "restored ids (set_mset M) (reset_modes (oc_state c)) ?st" using d(1) c(4) by (auto simp: restored_def st(1) reset_modes_def)
  have ds: "oc_state d = st1" "oc_ok d" using same_statesD [OF d(2)] st(2) by simp_all
  have "st_count st1 = st_count (oc_state c) + 1" using restored_fields(2) [OF d(1)] by (simp add: st(1) reset_modes_def)
  then have put: "nfs4_put_open_state d = oc_upd (\<lambda>_. ?st) d"
    using ds c(5) oc_upd_cong [of "\<lambda>st. st\<lparr>st_count := st_count st - 1\<rparr>" d "\<lambda>_. ?st"] by (simp add: nfs4_put_open_state_def Let_def)
  have same: "same_states (oc_upd (\<lambda>_. ?st) c) (put_owner_ref (nfs4_put_open_state d))"
    using d(2) c1(2) unfolding put by (simp add: same_states_def put_owner_ref_def oc_upd_def take_state_def)
  have "open_recover_claim ?E S P (Suc n) NFS4_OPEN_CLAIM_PREVIOUS cap c = Some (0, put_owner_ref (nfs4_put_open_state d))"
    using data(1) r by (simp add: open_recover_claim_def nfs4_opendata_put_def reclaiming_def)
  then have "nfs4_open_reclaim Q S P (Suc n) cap True c = Some (0, put_owner_ref (nfs4_put_open_state d))" by (simp add: nfs4_open_reclaim_def)
  then show thesis using that res same by blast
qed

lemma share_restored:
  assumes "restored ids (set_mset M) (reset_modes st0) st" and "set_mset M \<subseteq> {READ, WRITE, RDWR}"
  shows "share (st_flags st) = mode_of M"
proof -
  have "NFS_O_RDONLY_STATE \<in> st_flags st \<longleftrightarrow> READ \<in># M" "NFS_O_WRONLY_STATE \<in> st_flags st \<longleftrightarrow> WRITE \<in># M" "NFS_O_RDWR_STATE \<in> st_flags st \<longleftrightarrow> RDWR \<in># M"
    using assms(2) by (auto simp: restored_fields(7) [OF assms(1)] reset_modes_def mode_bit_def image_iff split: if_splits)
  then show ?thesis by (simp add: share_def mode_of_def)
qed

end
