(* ===== verification/Nfs4_Owners.thy ===== *)
theory Nfs4_Owners
  imports Nfs4_Client
begin

text \<open>
  The open owners of a server: \<^verbatim>\<open>nfs4_find_state_owner_locked\<close> to \<^verbatim>\<open>nfs4_purge_state_owners\<close> of \<^verbatim>\<open>fs/nfs/nfs4state.c\<close>. Owners are kept in a red-black tree
  that is ordered by credential; the tree (\<^verbatim>\<open>lib/rbtree.c\<close>) appears as the map it implements. Owners that nobody uses wait on a list, oldest first, until they are
  used again or a lease time has passed. The ids come from an \<^verbatim>\<open>ida\<close>.

  Owners and credentials are named by their addresses. Each function that holds \<^verbatim>\<open>cl_lock\<close> is one step.
\<close>

section \<open>Data\<close>

record owner_entry =
  oe_cred :: nat
  oe_count :: nat
  oe_linked :: bool
  oe_id :: nat
  oe_expires :: u64

record owner_db =
  od_owners :: "nat \<rightharpoonup> owner_entry"
  od_tree :: "nat \<rightharpoonup> nat"
  od_lru :: "nat list"
  od_ids :: "nat set"

text \<open>What the functions return: a null pointer, an error pointer or an owner.\<close>

datatype owner_ptr = Null | Err int | Owner nat

text \<open>The kernel's memory and ids: the address of a new owner, if there is memory; whether \<^verbatim>\<open>ida_pre_get\<close> could reserve memory; and the id that
  \<^verbatim>\<open>ida_get_new\<close> finds, or its error. \<open>meanwhile\<close> is what other tasks do while \<^verbatim>\<open>nfs4_get_state_owner\<close> does not hold the lock.\<close>

record owner_env =
  alloc_owner :: "owner_db \<Rightarrow> nat option"
  ida_pre_get :: "nat \<Rightarrow> bool"
  ida_get_new :: "nat \<Rightarrow> owner_db \<Rightarrow> int + nat"
  meanwhile :: "owner_db \<Rightarrow> owner_db"

definition time_in_range :: "u64 \<Rightarrow> u64 \<Rightarrow> u64 \<Rightarrow> bool" where
  "time_in_range a b c \<longleftrightarrow> sint (a - b) \<ge> 0 \<and> sint (c - a) \<ge> 0"

section \<open>Operations\<close>

definition upd_owner :: "nat \<Rightarrow> (owner_entry \<Rightarrow> owner_entry) \<Rightarrow> owner_db \<Rightarrow> owner_db" where
  "upd_owner a f d = d\<lparr>od_owners := (od_owners d)(a := map_option f (od_owners d a))\<rparr>"

definition use_owner :: "nat \<Rightarrow> owner_db \<Rightarrow> owner_db" where
  "use_owner a d = upd_owner a (\<lambda>e. e\<lparr>oe_count := oe_count e + 1\<rparr>) (d\<lparr>od_lru := filter (\<lambda>b. b \<noteq> a) (od_lru d)\<rparr>)"

definition nfs4_find_state_owner_locked :: "nat \<Rightarrow> owner_db \<Rightarrow> owner_ptr \<times> owner_db" where
  "nfs4_find_state_owner_locked cred d = (case od_tree d cred of None \<Rightarrow> (Null, d) | Some a \<Rightarrow> (Owner a, use_owner a d))"

definition nfs4_insert_state_owner_locked :: "(int + nat) \<Rightarrow> nat \<Rightarrow> nat \<Rightarrow> owner_db \<Rightarrow> owner_ptr \<times> owner_db" where
  "nfs4_insert_state_owner_locked r cred new d =
     (case od_tree d cred of
        Some a \<Rightarrow> (Owner a, use_owner a d)
      | None \<Rightarrow>
          (case r of
             Inl err \<Rightarrow> (Err err, d)
           | Inr i \<Rightarrow> (Owner new, upd_owner new (\<lambda>e. e\<lparr>oe_id := i, oe_linked := True\<rparr>) (d\<lparr>od_tree := (od_tree d)(cred \<mapsto> new), od_ids := insert i (od_ids d)\<rparr>))))"

definition nfs4_remove_state_owner_locked :: "nat \<Rightarrow> owner_db \<Rightarrow> owner_db" where
  "nfs4_remove_state_owner_locked a d =
     (case od_owners d a of
        None \<Rightarrow> d
      | Some e \<Rightarrow> d\<lparr>od_tree := if oe_linked e then (od_tree d)(oe_cred e := None) else od_tree d, od_ids := od_ids d - {oe_id e}\<rparr>)"

definition nfs4_alloc_state_owner :: "owner_env \<Rightarrow> nat \<Rightarrow> owner_db \<Rightarrow> nat option \<times> owner_db" where
  "nfs4_alloc_state_owner E cred d =
     (case alloc_owner E d of
        None \<Rightarrow> (None, d)
      | Some a \<Rightarrow> (Some a, d\<lparr>od_owners := (od_owners d)(a \<mapsto> \<lparr>oe_cred = cred, oe_count = 1, oe_linked = False, oe_id = 0, oe_expires = 0\<rparr>)\<rparr>))"

text \<open>\<^verbatim>\<open>nfs4_drop_state_owner\<close>: an owner whose sequence id is bad is not found any more.\<close>

definition drop_owner :: "nat \<Rightarrow> owner_db \<Rightarrow> owner_db" where
  "drop_owner a d =
     (case od_owners d a of
        None \<Rightarrow> d
      | Some e \<Rightarrow> if oe_linked e then upd_owner a (\<lambda>e. e\<lparr>oe_linked := False\<rparr>) (d\<lparr>od_tree := (od_tree d)(oe_cred e := None)\<rparr>) else d)"

definition nfs4_free_state_owner :: "nat \<Rightarrow> owner_db \<Rightarrow> owner_db" where
  "nfs4_free_state_owner a d = d\<lparr>od_owners := (od_owners d)(a := None)\<rparr>"

text \<open>The owners in \<open>doomed\<close> leave the list and the tree, and are freed.\<close>

definition reap :: "nat list \<Rightarrow> owner_db \<Rightarrow> owner_db" where
  "reap doomed d =
     fold nfs4_free_state_owner doomed (fold nfs4_remove_state_owner_locked doomed (d\<lparr>od_lru := filter (\<lambda>a. a \<notin> set doomed) (od_lru d)\<rparr>))"

definition nfs4_gc_state_owners :: "u64 \<Rightarrow> u64 \<Rightarrow> owner_db \<Rightarrow> owner_db" where
  "nfs4_gc_state_owners jiffies lease_time d =
     (let expired = (\<lambda>a. case od_owners d a of None \<Rightarrow> True | Some e \<Rightarrow> \<not> time_in_range (oe_expires e) (jiffies - lease_time) jiffies)
      in reap (takeWhile expired (od_lru d)) d)"

text \<open>The loop of \<^verbatim>\<open>nfs4_get_state_owner\<close>, round \<open>k\<close>: it is left when memory runs out, with whatever the last round returned.\<close>

fun insert_loop :: "owner_env \<Rightarrow> nat \<Rightarrow> nat \<Rightarrow> nat \<Rightarrow> nat \<Rightarrow> owner_ptr \<Rightarrow> owner_db \<Rightarrow> (owner_ptr \<times> owner_db) option" where
  "insert_loop E cred new k 0 sp d = None"
| "insert_loop E cred new k (Suc n) sp d =
     (if \<not> ida_pre_get E k then Some (sp, d)
      else case nfs4_insert_state_owner_locked (ida_get_new E k d) cred new d of (sp, d) \<Rightarrow>
        if sp = Err (- EAGAIN) then insert_loop E cred new (Suc k) n sp d else Some (sp, d))"

definition nfs4_get_state_owner :: "owner_env \<Rightarrow> nat \<Rightarrow> u64 \<Rightarrow> u64 \<Rightarrow> nat \<Rightarrow> owner_db \<Rightarrow> (owner_ptr \<times> owner_db) option" where
  "nfs4_get_state_owner E n jiffies lease_time cred d =
     (let out = (\<lambda>sp d. Some (sp, nfs4_gc_state_owners jiffies lease_time d))
      in case nfs4_find_state_owner_locked cred d of
           (Owner a, d) \<Rightarrow> out (Owner a) d
         | (_, d) \<Rightarrow>
             (case nfs4_alloc_state_owner E cred (meanwhile E d) of
                (None, d) \<Rightarrow> out Null d
              | (Some new, d) \<Rightarrow>
                  (case insert_loop E cred new 0 n Null d of
                     None \<Rightarrow> None
                   | Some (sp, d) \<Rightarrow> out sp (if sp \<noteq> Owner new then nfs4_free_state_owner new d else d))))"

definition nfs4_put_state_owner :: "u64 \<Rightarrow> nat \<Rightarrow> owner_db \<Rightarrow> owner_db" where
  "nfs4_put_state_owner jiffies a d =
     (case od_owners d a of
        None \<Rightarrow> d
      | Some e \<Rightarrow>
          if oe_count e \<noteq> 1 then upd_owner a (\<lambda>e. e\<lparr>oe_count := oe_count e - 1\<rparr>) d
          else upd_owner a (\<lambda>e. e\<lparr>oe_count := 0, oe_expires := jiffies\<rparr>) (d\<lparr>od_lru := od_lru d @ [a]\<rparr>))"

definition nfs4_purge_owners :: "owner_db \<Rightarrow> owner_db" where
  "nfs4_purge_owners d = reap (od_lru d) d"

section \<open>Well-formed sets of owners\<close>

text \<open>The tree finds exactly the linked owners under their credential; exactly the owners without references wait on the list; ids are unique.\<close>

definition owners_ok :: "owner_db \<Rightarrow> bool" where
  "owners_ok d \<longleftrightarrow>
     (\<forall>cred a. od_tree d cred = Some a \<longleftrightarrow> (\<exists>e. od_owners d a = Some e \<and> oe_linked e \<and> oe_cred e = cred)) \<and>
     distinct (od_lru d) \<and> (\<forall>a. a \<in> set (od_lru d) \<longleftrightarrow> (\<exists>e. od_owners d a = Some e \<and> oe_count e = 0)) \<and>
     (\<forall>a b e f. od_owners d a = Some e \<longrightarrow> od_owners d b = Some f \<longrightarrow> oe_id e = oe_id f \<longrightarrow> a = b) \<and>
     (\<forall>a e. od_owners d a = Some e \<longrightarrow> oe_id e \<in> od_ids d)"

text \<open>Uses and puts of an owner that exists.\<close>

lemma upd_owner_simps [simp]:
  "od_tree (upd_owner a f d) = od_tree d" "od_lru (upd_owner a f d) = od_lru d" "od_ids (upd_owner a f d) = od_ids d"
  "od_owners (upd_owner a f d) b = (if b = a then map_option f (od_owners d a) else od_owners d b)"
  by (simp_all add: upd_owner_def)

lemma owners_okD:
  assumes "owners_ok d"
  shows "od_tree d cred = Some a \<longleftrightarrow> (\<exists>e. od_owners d a = Some e \<and> oe_linked e \<and> oe_cred e = cred)"
    and "distinct (od_lru d)" and "a \<in> set (od_lru d) \<longleftrightarrow> (\<exists>e. od_owners d a = Some e \<and> oe_count e = 0)"
    and "od_owners d a = Some e \<Longrightarrow> od_owners d b = Some f \<Longrightarrow> oe_id e = oe_id f \<Longrightarrow> a = b"
    and "od_owners d a = Some e \<Longrightarrow> oe_id e \<in> od_ids d"
  using assms unfolding owners_ok_def by blast+

lemma owners_ok_upd:
  assumes "owners_ok d" and "od_owners d a = Some e" and "oe_cred (f e) = oe_cred e" "oe_linked (f e) = oe_linked e" "oe_id (f e) = oe_id e"
    and "distinct l" and "\<And>b. b \<noteq> a \<Longrightarrow> b \<in> set l \<longleftrightarrow> b \<in> set (od_lru d)" and "a \<in> set l \<longleftrightarrow> oe_count (f e) = 0"
  shows "owners_ok (upd_owner a f (d\<lparr>od_lru := l\<rparr>))"
proof -
  note ok = owners_okD [OF assms(1)]
  have "(\<exists>x. od_owners (upd_owner a f (d\<lparr>od_lru := l\<rparr>)) b = Some x \<and> oe_linked x \<and> oe_cred x = cred) \<longleftrightarrow>
      (\<exists>x. od_owners d b = Some x \<and> oe_linked x \<and> oe_cred x = cred)" for b cred
    using assms(2-5) by auto
  moreover have "b \<in> set l \<longleftrightarrow> (\<exists>x. od_owners (upd_owner a f (d\<lparr>od_lru := l\<rparr>)) b = Some x \<and> oe_count x = 0)" for b
    using assms(2,7,8) ok(3) by (cases "b = a") auto
  moreover have "b = c" if "od_owners (upd_owner a f (d\<lparr>od_lru := l\<rparr>)) b = Some x" "od_owners (upd_owner a f (d\<lparr>od_lru := l\<rparr>)) c = Some y" "oe_id x = oe_id y" for b c x y
    using that assms(2,5) ok(4) by (auto split: if_splits)
  moreover have "oe_id x \<in> od_ids d" if "od_owners (upd_owner a f (d\<lparr>od_lru := l\<rparr>)) b = Some x" for b x
    using that assms(2,5) ok(5) by (auto split: if_splits)
  ultimately show ?thesis using ok(1) assms(6) unfolding owners_ok_def by (simp del: upd_owner_simps(4))
qed

lemma use_owner_ok:
  assumes "owners_ok d" and "od_owners d a = Some e"
  shows "owners_ok (use_owner a d)"
  unfolding use_owner_def using assms owners_okD(2) [OF assms(1)] by (intro owners_ok_upd) auto

lemma put_owner_ok:
  assumes "owners_ok d" and "od_owners d a = Some e" and "0 < oe_count e"
  shows "owners_ok (nfs4_put_state_owner jiffies a d)"
proof -
  have out: "a \<notin> set (od_lru d)" using owners_okD(3) [OF assms(1), of a] assms(2,3) by auto
  have d: "d = d\<lparr>od_lru := od_lru d\<rparr>" by simp
  show ?thesis
  proof (cases "oe_count e = 1")
    case True
    with assms(2) have "nfs4_put_state_owner jiffies a d = upd_owner a (\<lambda>e. e\<lparr>oe_count := 0, oe_expires := jiffies\<rparr>) (d\<lparr>od_lru := od_lru d @ [a]\<rparr>)"
      by (simp add: nfs4_put_state_owner_def)
    then show ?thesis using assms(1,2) out owners_okD(2) [OF assms(1)] by (simp only:) (intro owners_ok_upd; auto)
  next
    case False
    with assms(2) have "nfs4_put_state_owner jiffies a d = upd_owner a (\<lambda>e. e\<lparr>oe_count := oe_count e - 1\<rparr>) (d\<lparr>od_lru := od_lru d\<rparr>)"
      by (simp add: nfs4_put_state_owner_def)
    moreover have "oe_count e - 1 \<noteq> 0" using False assms(3) by simp
    ultimately show ?thesis using assms out owners_okD(2) [OF assms(1)] by (simp only:) (intro owners_ok_upd; auto)
  qed
qed

text \<open>Freeing owners.\<close>

definition has_cred :: "nat set \<Rightarrow> owner_db \<Rightarrow> nat \<Rightarrow> bool" where
  "has_cred A d cred \<longleftrightarrow> (\<exists>a \<in> A. \<exists>e. od_owners d a = Some e \<and> oe_linked e \<and> oe_cred e = cred)"

lemma remove_simps:
  "od_owners (nfs4_remove_state_owner_locked a d) = od_owners d" "od_lru (nfs4_remove_state_owner_locked a d) = od_lru d"
  "od_tree (nfs4_remove_state_owner_locked a d) cred = (if has_cred {a} d cred then None else od_tree d cred)"
  "od_ids (nfs4_remove_state_owner_locked a d) = od_ids d - {oe_id e |e. od_owners d a = Some e}"
  by (auto simp: nfs4_remove_state_owner_locked_def has_cred_def split: option.split)

lemma has_cred_Cons: "has_cred (insert a A) d cred \<longleftrightarrow> has_cred {a} d cred \<or> has_cred A d cred"
  by (auto simp: has_cred_def)

lemma has_cred_remove: "has_cred A (nfs4_remove_state_owner_locked a d) cred = has_cred A d cred"
  by (simp add: has_cred_def remove_simps)

lemma fold_remove_owners:
  "od_owners (fold nfs4_remove_state_owner_locked ds d) = od_owners d" "od_lru (fold nfs4_remove_state_owner_locked ds d) = od_lru d"
  by (induction ds arbitrary: d) (simp_all only: fold_simps remove_simps)

lemma fold_remove_tree: "od_tree (fold nfs4_remove_state_owner_locked ds d) cred = (if has_cred (set ds) d cred then None else od_tree d cred)"
proof (induction ds arbitrary: d)
  case (Cons a ds)
  then show ?case by (simp only: fold_simps remove_simps has_cred_remove list.set has_cred_Cons [of a "set ds"] split: if_split) simp
qed (simp add: has_cred_def)

lemma fold_remove_ids:
  "i \<in> od_ids (fold nfs4_remove_state_owner_locked ds d) \<longleftrightarrow> i \<in> od_ids d \<and> (\<forall>a \<in> set ds. \<forall>e. od_owners d a = Some e \<longrightarrow> oe_id e \<noteq> i)"
  by (induction ds arbitrary: d) (auto simp: remove_simps)

lemma fold_free: "fold nfs4_free_state_owner ds d = d\<lparr>od_owners := (\<lambda>a. if a \<in> set ds then None else od_owners d a)\<rparr>"
  by (induction ds arbitrary: d) (auto simp: nfs4_free_state_owner_def fun_eq_iff)

lemma has_cred_lru: "has_cred A (d\<lparr>od_lru := l\<rparr>) cred = has_cred A d cred"
  by (simp add: has_cred_def)

lemma reap_simps:
  "od_owners (reap ds d) a = (if a \<in> set ds then None else od_owners d a)" "od_lru (reap ds d) = filter (\<lambda>a. a \<notin> set ds) (od_lru d)"
  "od_tree (reap ds d) cred = (if has_cred (set ds) d cred then None else od_tree d cred)"
  "i \<in> od_ids (reap ds d) \<longleftrightarrow> i \<in> od_ids d \<and> (\<forall>a \<in> set ds. \<forall>e. od_owners d a = Some e \<longrightarrow> oe_id e \<noteq> i)"
  by (simp_all add: reap_def fold_free fold_remove_owners fold_remove_tree fold_remove_ids has_cred_lru)

lemma reap_ok:
  assumes "owners_ok d"
  shows "owners_ok (reap ds d)"
proof -
  note ok = owners_okD [OF assms]
  have "od_tree (reap ds d) cred = Some a \<longleftrightarrow> (\<exists>e. od_owners (reap ds d) a = Some e \<and> oe_linked e \<and> oe_cred e = cred)" for cred a
  proof -
    have "has_cred (set ds) d cred \<longleftrightarrow> a \<in> set ds" if "od_tree d cred = Some a" for a
      using that ok(1) [of cred] unfolding has_cred_def by (metis option.inject)
    moreover have "od_tree d cred = Some a" if "od_owners d a = Some e" "oe_linked e" "oe_cred e = cred" for e using that ok(1) by blast
    ultimately show ?thesis using ok(1) [of cred a] by (auto simp: reap_simps)
  qed
  moreover have "oe_id e \<in> od_ids (reap ds d)" if "od_owners (reap ds d) a = Some e" for a e
    using that ok(4,5) by (auto simp: reap_simps split: if_splits)
  ultimately show ?thesis using ok unfolding owners_ok_def by (simp add: reap_simps)
qed

text \<open>Only owners that nobody uses are freed.\<close>

lemma gc_keeps:
  assumes "owners_ok d" and "od_owners d a = Some e" and "0 < oe_count e"
  shows "od_owners (nfs4_gc_state_owners jiffies lease d) a = Some e" and "od_owners (nfs4_purge_owners d) a = Some e"
proof -
  have "a \<notin> set (od_lru d)" using owners_okD(3) [OF assms(1), of a] assms(2,3) by auto
  then show "od_owners (nfs4_gc_state_owners jiffies lease d) a = Some e" "od_owners (nfs4_purge_owners d) a = Some e"
    using assms(2) by (auto simp: nfs4_gc_state_owners_def nfs4_purge_owners_def reap_simps Let_def dest: set_takeWhileD)
qed

lemma gc_ok: "owners_ok d \<Longrightarrow> owners_ok (nfs4_gc_state_owners jiffies lease d)" "owners_ok d \<Longrightarrow> owners_ok (nfs4_purge_owners d)"
  by (simp_all add: nfs4_gc_state_owners_def nfs4_purge_owners_def Let_def reap_ok)

lemma drop_ok:
  assumes "owners_ok d"
  shows "owners_ok (drop_owner a d)"
proof (cases "od_owners d a")
  case (Some e)
  note ok = owners_okD [OF assms]
  show ?thesis
  proof (cases "oe_linked e")
    case True
    let ?d = "upd_owner a (\<lambda>e. e\<lparr>oe_linked := False\<rparr>) (d\<lparr>od_tree := (od_tree d)(oe_cred e := None)\<rparr>)"
    have tree: "od_tree d (oe_cred e) = Some a" using ok(1) Some True by blast
    have "od_tree ?d cred = Some b \<longleftrightarrow> (\<exists>x. od_owners ?d b = Some x \<and> oe_linked x \<and> oe_cred x = cred)" for cred b
      using ok(1) [of cred b] ok(1) [of "oe_cred e" b] tree Some by auto
    moreover have "b \<in> set (od_lru ?d) \<longleftrightarrow> (\<exists>x. od_owners ?d b = Some x \<and> oe_count x = 0)" for b using ok(3) [of b] Some by auto
    moreover have "b = c" if "od_owners ?d b = Some x" "od_owners ?d c = Some y" "oe_id x = oe_id y" for b c x y
      using that Some ok(4) by (auto split: if_splits)
    moreover have "oe_id x \<in> od_ids ?d" if "od_owners ?d b = Some x" for b x using that Some ok(5) by (auto split: if_splits)
    ultimately have "owners_ok ?d" using ok(2) unfolding owners_ok_def by (simp del: upd_owner_simps(4))
    with Some True show ?thesis by (simp add: drop_owner_def)
  qed (use Some assms in \<open>simp add: drop_owner_def\<close>)
qed (use assms in \<open>simp add: drop_owner_def\<close>)

section \<open>Getting an owner\<close>

definition new_entry :: "nat \<Rightarrow> owner_entry" where
  "new_entry cred = \<lparr>oe_cred = cred, oe_count = 1, oe_linked = False, oe_id = 0, oe_expires = 0\<rparr>"

definition with_new :: "nat \<Rightarrow> nat \<Rightarrow> owner_db \<Rightarrow> owner_db" where
  "with_new new cred d = d\<lparr>od_owners := (od_owners d)(new \<mapsto> new_entry cred)\<rparr>"

lemma insert_new_ok:
  assumes "owners_ok d" and "od_owners d new = None" and "od_tree d cred = None" and "i \<notin> od_ids d"
    and "nfs4_insert_state_owner_locked (Inr i) cred new (with_new new cred d) = (sp, d')"
  shows "sp = Owner new" and "owners_ok d'" and "od_owners d' new = Some ((new_entry cred)\<lparr>oe_id := i, oe_linked := True\<rparr>)"
proof -
  note ok = owners_okD [OF assms(1)]
  have d': "sp = Owner new" "od_tree d' = (od_tree d)(cred \<mapsto> new)" "od_ids d' = insert i (od_ids d)" "od_lru d' = od_lru d"
    "od_owners d' = (od_owners d)(new \<mapsto> (new_entry cred)\<lparr>oe_id := i, oe_linked := True\<rparr>)"
    using assms(3,5) by (auto simp: nfs4_insert_state_owner_locked_def with_new_def upd_owner_def)
  then show "sp = Owner new" "od_owners d' new = Some ((new_entry cred)\<lparr>oe_id := i, oe_linked := True\<rparr>)" by simp_all
  have "od_tree d' c = Some b \<longleftrightarrow> (\<exists>e. od_owners d' b = Some e \<and> oe_linked e \<and> oe_cred e = c)" for c b
  proof (cases "b = new")
    case True
    then show ?thesis using ok(1) [of c new] assms(2) by (simp add: d' new_entry_def eq_commute)
  next
    case False
    then show ?thesis using ok(1) [of c b] assms(3) by (cases "c = cred") (simp_all add: d')
  qed
  moreover have "b \<in> set (od_lru d') \<longleftrightarrow> (\<exists>e. od_owners d' b = Some e \<and> oe_count e = 0)" for b
    using ok(3) [of b] assms(2) by (auto simp: d' new_entry_def)
  moreover have "b = c" if "od_owners d' b = Some e" "od_owners d' c = Some f" "oe_id e = oe_id f" for b c e f
    using that assms(4) by (cases "b = new"; cases "c = new") (auto simp: d' new_entry_def dest: ok(4) ok(5))
  moreover have "oe_id e \<in> od_ids d'" if "od_owners d' b = Some e" for b e
    using that by (cases "b = new") (auto simp: d' new_entry_def dest: ok(5))
  moreover have "distinct (od_lru d')" using ok(2) by (simp add: d')
  ultimately show "owners_ok d'" unfolding owners_ok_def by blast
qed

lemma insert_other:
  assumes "owners_ok d" and "od_owners d new = None" and "od_tree d cred = Some b"
  shows "nfs4_insert_state_owner_locked r cred new (with_new new cred d) = (Owner b, use_owner b (with_new new cred d))"
    and "b \<noteq> new" and "nfs4_free_state_owner new (use_owner b (with_new new cred d)) = use_owner b d"
proof -
  obtain e where e: "od_owners d b = Some e" using owners_okD(1) [OF assms(1)] assms(3) by blast
  then show "b \<noteq> new" using assms(2) by auto
  then show "nfs4_free_state_owner new (use_owner b (with_new new cred d)) = use_owner b d"
    using assms(2) by (simp add: nfs4_free_state_owner_def use_owner_def upd_owner_def with_new_def fun_eq_iff)
  show "nfs4_insert_state_owner_locked r cred new (with_new new cred d) = (Owner b, use_owner b (with_new new cred d))"
    using assms(3) by (simp add: nfs4_insert_state_owner_locked_def with_new_def)
qed

lemma free_new: "od_owners d new = None \<Longrightarrow> nfs4_free_state_owner new (with_new new cred d) = d"
  by (simp add: nfs4_free_state_owner_def with_new_def fun_upd_idem)

text \<open>What the loop leaves behind.\<close>

lemma insert_loop_result:
  "insert_loop E cred new k n sp d = Some (sp', d') \<Longrightarrow>
   d' = d \<and> (sp' = sp \<or> (\<exists>err. sp' = Err err)) \<or> (\<exists>a j. sp' = Owner a \<and> nfs4_insert_state_owner_locked (ida_get_new E j d) cred new d = (Owner a, d'))"
proof (induction n arbitrary: k sp)
  case (Suc n)
  obtain s2 d2 where r: "nfs4_insert_state_owner_locked (ida_get_new E k d) cred new d = (s2, d2)"
    by (cases "nfs4_insert_state_owner_locked (ida_get_new E k d) cred new d")
  have e: "d2 = d" if "s2 = Err x" for x using r that by (auto simp: nfs4_insert_state_owner_locked_def split: option.splits sum.splits)
  have nn: "s2 \<noteq> Null" using r by (auto simp: nfs4_insert_state_owner_locked_def split: option.splits sum.splits)
  show ?case
  proof (cases "ida_pre_get E k")
    case True
    show ?thesis
    proof (cases "s2 = Err (- EAGAIN)")
      case True
      with Suc.prems r \<open>ida_pre_get E k\<close> e have "insert_loop E cred new (Suc k) n s2 d = Some (sp', d')" by simp
      from Suc.IH [OF this] True show ?thesis by auto
    next
      case False
      with Suc.prems r \<open>ida_pre_get E k\<close> have "sp' = s2" "d' = d2" by simp_all
      with r e nn show ?thesis by (cases s2) auto
    qed
  qed (use Suc.prems in simp)
qed simp

definition owner_law :: "owner_env \<Rightarrow> bool" where
  "owner_law E \<longleftrightarrow> (\<forall>d a. alloc_owner E d = Some a \<longrightarrow> od_owners d a = None) \<and>
     (\<forall>k d i. ida_get_new E k d = Inr i \<longrightarrow> i \<notin> od_ids d) \<and> (\<forall>d. owners_ok d \<longrightarrow> owners_ok (meanwhile E d))"

definition in_use :: "nat \<Rightarrow> owner_db \<Rightarrow> nat \<Rightarrow> bool" where
  "in_use a d cred \<longleftrightarrow> (\<exists>e. od_owners d a = Some e \<and> oe_cred e = cred \<and> 0 < oe_count e)"

lemma use_owner_in_use:
  assumes "owners_ok d" and "od_tree d cred = Some a"
  shows "owners_ok (use_owner a d)" and "in_use a (use_owner a d) cred"
proof -
  obtain e where e: "od_owners d a = Some e" "oe_cred e = cred" using owners_okD(1) [OF assms(1)] assms(2) by blast
  show "owners_ok (use_owner a d)" by (rule use_owner_ok [OF assms(1) e(1)])
  show "in_use a (use_owner a d) cred" using e by (simp add: in_use_def use_owner_def)
qed

lemma gc_in_use: "owners_ok d \<Longrightarrow> in_use a d cred \<Longrightarrow> in_use a (nfs4_gc_state_owners jiffies lease d) cred"
  unfolding in_use_def by (blast intro: gc_keeps)

lemma nfs4_get_state_owner_ok:
  assumes law: "owner_law E" and ok: "owners_ok d" and get: "nfs4_get_state_owner E n jiffies lease cred d = Some (sp, d')"
  shows "owners_ok d' \<and> (\<forall>a. sp = Owner a \<longrightarrow> in_use a d' cred)"
proof (cases "od_tree d cred")
  case (Some a)
  with get have "sp = Owner a" "d' = nfs4_gc_state_owners jiffies lease (use_owner a d)"
    by (auto simp: nfs4_get_state_owner_def nfs4_find_state_owner_locked_def Let_def)
  with use_owner_in_use [OF ok Some] show ?thesis by (simp add: gc_ok gc_in_use)
next
  case None
  let ?d = "meanwhile E d"
  have ok1: "owners_ok ?d" using law ok by (simp add: owner_law_def)
  show ?thesis
  proof (cases "alloc_owner E ?d")
    case None
    with get \<open>od_tree d cred = None\<close> ok1 show ?thesis
      by (auto simp: nfs4_get_state_owner_def nfs4_find_state_owner_locked_def nfs4_alloc_state_owner_def Let_def gc_ok)
  next
    case (Some new)
    have fresh: "od_owners ?d new = None" using law Some by (simp add: owner_law_def)
    obtain d2 where l: "insert_loop E cred new 0 n Null (with_new new cred ?d) = Some (sp, d2)"
      and d': "d' = nfs4_gc_state_owners jiffies lease (if sp \<noteq> Owner new then nfs4_free_state_owner new d2 else d2)"
      using get Some \<open>od_tree d cred = None\<close>
      by (auto simp: nfs4_get_state_owner_def nfs4_find_state_owner_locked_def nfs4_alloc_state_owner_def with_new_def new_entry_def Let_def split: option.splits)
    from insert_loop_result [OF l] consider (kept) "d2 = with_new new cred ?d" "sp = Null \<or> (\<exists>err. sp = Err err)"
      | (ins) a j where "sp = Owner a" "nfs4_insert_state_owner_locked (ida_get_new E j (with_new new cred ?d)) cred new (with_new new cred ?d) = (Owner a, d2)" by blast
    then show ?thesis
    proof cases
      case kept
      then have "d' = nfs4_gc_state_owners jiffies lease ?d" using d' free_new [OF fresh] by auto
      with kept(2) gc_ok(1) [OF ok1] show ?thesis by auto
    next
      case (ins a j)
      show ?thesis
      proof (cases "od_tree ?d cred")
        case (Some b)
        note o = insert_other [OF ok1 fresh Some]
        have "a = b" "d2 = use_owner b (with_new new cred ?d)" using ins(2) unfolding o(1) by auto
        with ins(1) d' o(2,3) have "sp = Owner b" "d' = nfs4_gc_state_owners jiffies lease (use_owner b ?d)" by simp_all
        with use_owner_in_use [OF ok1 Some] show ?thesis by (simp add: gc_ok gc_in_use)
      next
        case None
        then obtain i where i: "ida_get_new E j (with_new new cred ?d) = Inr i"
          using ins(2) by (auto simp: nfs4_insert_state_owner_locked_def with_new_def split: sum.splits)
        have "i \<notin> od_ids (with_new new cred ?d)" using law i unfolding owner_law_def by blast
        then have ni: "i \<notin> od_ids ?d" by (simp add: with_new_def)
        note new = insert_new_ok [OF ok1 fresh None ni ins(2) [unfolded i]]
        have "in_use new d2 cred" using new(3) by (simp add: in_use_def new_entry_def)
        with new(1,2) ins(1) d' show ?thesis by (simp add: gc_ok gc_in_use)
      qed
    qed
  qed
qed

text \<open>The loop ends as soon as a round does not ask for another one.\<close>

lemma insert_loop_returns:
  "j < n \<Longrightarrow> \<not> ida_pre_get E (k + j) \<or> ida_get_new E (k + j) d \<noteq> Inl (- EAGAIN) \<Longrightarrow> \<exists>r. insert_loop E cred new k n sp d = Some r"
proof (induction n arbitrary: j k sp)
  case (Suc n)
  show ?case
  proof (cases "ida_pre_get E k \<and> od_tree d cred = None \<and> ida_get_new E k d = Inl (- EAGAIN)")
    case True
    with Suc.prems obtain i where i: "j = Suc i" by (cases j) auto
    have "\<exists>r. insert_loop E cred new (Suc k) n (Err (- EAGAIN)) d = Some r" by (rule Suc.IH [of i]) (use Suc.prems i in simp_all)
    with True show ?thesis by (simp add: nfs4_insert_state_owner_locked_def)
  next
    case False
    then show ?thesis by (auto simp: nfs4_insert_state_owner_locked_def split: option.splits sum.splits)
  qed
qed simp

lemma nfs4_get_state_owner_returns:
  assumes "\<And>d. \<exists>j<n. \<not> ida_pre_get E j \<or> ida_get_new E j d \<noteq> Inl (- EAGAIN)"
  shows "\<exists>sp d'. nfs4_get_state_owner E n jiffies lease cred d = Some (sp, d')"
proof -
  have l: "(insert_loop E cred new 0 n Null e = None) = False" for new e
    using assms [of e] insert_loop_returns [of _ n E 0 e cred new Null] by auto
  have "nfs4_get_state_owner E n jiffies lease cred d \<noteq> None"
    by (simp add: nfs4_get_state_owner_def nfs4_find_state_owner_locked_def nfs4_alloc_state_owner_def Let_def l split: option.split)
  then show ?thesis by auto
qed

end
