(* ===== verification/Nfs4_Open_Properties.thy ===== *)
theory Nfs4_Open_Properties
  imports Nfs4_State_Sample Nfs4_Open_Proc_Correct Nfs4_Lock_State Nfs4_Owners Nfs4_Exception
begin

text \<open>
  The properties of open files, locks, open owners and error handling, stated over the definitions of \<^verbatim>\<open>Nfs4_Open_State\<close>, \<^verbatim>\<open>Nfs4_Close\<close>, \<^verbatim>\<open>Nfs4_Open_Proc\<close>,
  \<^verbatim>\<open>Nfs4_Lock_State\<close>, \<^verbatim>\<open>Nfs4_Owners\<close> and \<^verbatim>\<open>Nfs4_Exception\<close>, each with an example.
\<close>

section \<open>Samples\<close>

definition sample_stateids :: stateid_env where
  "sample_stateids = \<lparr>nfs4_stateid_match_other = (\<lambda>a b. st_other a = st_other b), nfs4_stateid_is_newer = (\<lambda>a b. sint (st_seqid a - st_seqid b) > 0),
     nfs4_stateid_match = (=)\<rparr>"

definition sample_open_env :: "unit open_env" where
  "sample_open_env = \<lparr>nfs_may_open = Pair 0, release_seqid = (\<lambda>c. c), wait_on_sequence = Pair True, setup_sequence = Pair True, finish_sequence = Pair True,
     async_error = Pair False, refresh_inode = (\<lambda>c. c), pnfs_roc_drain = Pair False, pnfs_roc_set_barrier = (\<lambda>c. c)\<rparr>"

lemma sample_open_law: "open_law sample_open_env" "fst (finish_sequence sample_open_env c)"
  by (simp_all add: open_law_def sample_open_env_def states_kept_def)

definition sample_file :: "state_bit set \<Rightarrow> u32 \<Rightarrow> u32 \<Rightarrow> u32 \<Rightarrow> u32 \<Rightarrow> unit open_ctx" where
  "sample_file fl r w rw m = \<lparr>oc_owner = \<lparr>ow_flags = {}, ow_count = 1, ow_seqid_flags = 0,
       ow_states = [(sample_open_state fl)\<lparr>n_rdonly := r, n_wronly := w, n_rdwr := rw, st_mode := m\<rparr>]\<rparr>,
     oc_index = 0, oc_deleg = None, oc_clp = sample_client {}\<rparr>"

lemma sample_file_ok: "oc_ok (sample_file fl r w rw m)"
  "oc_state (sample_file fl r w rw m) = (sample_open_state fl)\<lparr>n_rdonly := r, n_wronly := w, n_rdwr := rw, st_mode := m\<rparr>"
  by (simp_all add: sample_file_def oc_ok_def oc_state_def)

section \<open>Open files\<close>

text \<open>C32: an open state stands for the multiset of the modes in which the file is open. Whatever opens (asking the server, with a
  delegation, from the cache), closes and answers to closes happen, in any order, the three counts are those of the modes, the mode of the state is their
  union, and the states of the owner that are open for writing come first in its list, as long as no count passes the largest 32-bit number.\<close>

theorem open_state_counts:
  assumes "open_law X" and "(file_step E S X)\<^sup>*\<^sup>* ({#}, c) (M, d)"
    and "oc_ok c" and "n_rdonly (oc_state c) = 0" "n_wronly (oc_state c) = 0" "n_rdwr (oc_state c) = 0" "st_mode (oc_state c) = 0"
    and "write_first (ow_states (oc_owner c))"
  shows "unat (n_rdonly (oc_state d)) = count M READ \<and> unat (n_wronly (oc_state d)) = count M WRITE \<and> unat (n_rdwr (oc_state d)) = count M RDWR \<and>
    st_mode (oc_state d) = mode_of M \<and> write_first (ow_states (oc_owner d))"
proof -
  have "file_ok ({#}, c)" using assms(3-8) by (simp add: file_ok_def represents_def mode_of_def)
  then have "file_ok (M, d)" using opens.steps_inv [OF assms(2)] assms(1) by simp
  then show ?thesis by (simp add: file_ok_def represents_def)
qed

text \<open>The file is opened for reading and writing, then from the cache once more, and closed once.\<close>

abbreviation (input) sample_opened :: "unit open_ctx" where
  "sample_opened \<equiv> snd (update_open_stateid sample_client_env sample_stateids (Some sample_stateid) None RDWR (sample_file {} 0 0 0 0))"

lemma sample_open_ok: "fst (update_open_stateid sample_client_env sample_stateids (Some sample_stateid) None RDWR (sample_file {} 0 0 0 0))"
  by (simp add: update_open_stateid_def usable_delegation_def sample_file_def)

lemma sample_file_step:
  "(file_step sample_client_env sample_stateids sample_open_env)\<^sup>*\<^sup>* ({#}, sample_file {} 0 0 0 0) ({#RDWR#}, sample_opened)"
proof -
  have "file_step sample_client_env sample_stateids sample_open_env ({#}, sample_file {} 0 0 0 0) (add_mset RDWR {#}, sample_opened)"
    by (rule file_step.opened [where os = "Some sample_stateid" and d = None]) (use sample_open_ok in \<open>auto simp: prod_eq_iff\<close>)
  then show ?thesis by blast
qed

theorem open_state_counts_witness: "st_mode (oc_state sample_opened) = RDWR \<and> unat (n_rdwr (oc_state sample_opened)) = 1"
  using open_state_counts [OF sample_open_law(1) sample_file_step] by (simp add: sample_file_ok mode_of_def write_first_def) (simp add: sample_file_def)

text \<open>C33: telling the server. When a CLOSE or an OPEN_DOWNGRADE is sent, it asks for exactly the access that the remaining openers need, and once the server has
  agreed the flags of the state record exactly that access; no flag with an opener behind it is lost.\<close>

theorem close_leaves_needed:
  assumes "open_law X" and "oc_ok c" and "fst (finish_sequence X c)" and "close_mode (oc_state c) = (fmode, True)"
    and "fmode \<noteq> 0 \<Longrightarrow> nfs4_stateid_match_other S s (st_open_stateid (oc_state c))"
  shows "fmode = share (needed (oc_state c)) \<and>
    share (st_flags (oc_state (snd (nfs4_close_done E S X roc fmode s ts 0 c)))) = fmode \<and>
    needed (oc_state c) \<subseteq> st_flags (oc_state (snd (nfs4_close_done E S X roc fmode s ts 0 c)))"
proof -
  note m = close_mode_sent [OF assms(4)]
  have "st_flags (oc_state (snd (nfs4_close_done E S X roc fmode s ts 0 c))) = insert NFS_OPEN_STATE (st_flags (clear_modes fmode (oc_state c)))"
    by (rule close_done_flags [OF assms(1-3,5) m(5)])
  with m show ?thesis by (auto simp: share_open_flag)
qed

theorem close_leaves_needed_witness:
  "share (st_flags (oc_state (snd (nfs4_close_done sample_client_env sample_stateids sample_open_env True READ sample_stateid 0 0
     (sample_file {NFS_OPEN_STATE, NFS_O_RDONLY_STATE, NFS_O_WRONLY_STATE} 1 0 0 1))))) = READ"
  using close_leaves_needed [of sample_open_env "sample_file {NFS_OPEN_STATE, NFS_O_RDONLY_STATE, NFS_O_WRONLY_STATE} 1 0 0 1" READ sample_stateids sample_stateid
      sample_client_env True 0]
  by (simp add: sample_open_law sample_file_ok close_mode_def nfs4_valid_open_stateid_def sample_open_state_def sample_stateids_def)

text \<open>An OPEN_DOWNGRADE that is never sent. A file that was opened for reading and for reading and writing, and of which only the readers are left: closing the last
  writer asks for the server to be told, but the request is dropped while it is prepared, and the server keeps the write access that nobody needs.\<close>

lemma close_skips_downgrade:
  assumes "n_rdwr st = 0" and "n_wronly st = 0" and "n_rdonly st \<noteq> 0"
    and "NFS_O_RDONLY_STATE \<in> st_flags st" and "NFS_O_RDWR_STATE \<in> st_flags st" and "NFS_O_WRONLY_STATE \<notin> st_flags st"
  shows "snd (close_newstate st) \<and> \<not> snd (close_mode st) \<and> share (needed st) = READ \<and> share (st_flags st) = RDWR"
  using assms by (auto simp: close_newstate_def close_mode_def share_def needed_def Let_def)

text \<open>After a CLOSE. The flag that says that the state is open on the server is cleared and set again by the update of the state id, so that reads and writes without a
  lock or delegation use the state id that CLOSE returned instead of the anonymous one.\<close>

lemma close_keeps_open_flag:
  assumes "open_law X" and "oc_ok c" and "fst (finish_sequence X c)"
  shows "nfs4_copy_open_stateid (oc_state (snd (nfs4_close_done E S X roc 0 s ts 0 c))) = s"
proof -
  obtain e where "oc_ok e" "oc_state e = oc_state c"
    "oc_state (snd (nfs4_close_done E S X roc 0 s ts 0 c)) = oc_state (nfs_clear_open_stateid E S (Some s) 0 e)"
    by (rule close_done_success [OF assms])
  then show ?thesis by (simp add: nfs4_copy_open_stateid_def nfs_clear_open_stateid_def nfs_clear_open_stateid_locked_def update_stateid_def
      nfs_need_update_open_stateid_def clear_modes_def clear_flag_def set_flag_def copy_stateid_def Let_def)
qed

section \<open>Locks and state ids\<close>

text \<open>C39: the state id of a READ or WRITE. A lock of the caller that was lost is an error; otherwise a delegation comes first, then an established lock of the
  caller, then the open state, and the anonymous state id last. The references to lock states are as before, and with the capability for it the sequence number is 0.\<close>

theorem select_rw_stateid:
  assumes "locks_ok st"
  shows "nfs4_select_rw_stateid deleg cap dst lockowner st =
    (case rw_stateid deleg lockowner st of
       None \<Rightarrow> (- EIO, if cap then dst\<lparr>st_seqid := 0\<rparr> else dst, st)
     | Some s \<Rightarrow> (0, if cap then s\<lparr>st_seqid := 0\<rparr> else s, st))"
  using assms by (rule nfs4_select_rw_stateid_spec)

definition sample_locked :: "lock_bit set \<Rightarrow> open_state" where
  "sample_locked fl = (sample_open_state {LK_STATE_IN_USE, NFS_OPEN_STATE})\<lparr>st_locks :=
     [\<lparr>ls_owner = 7, ls_count = 1, ls_flags = fl, ls_seqid_flags = 0, ls_stateid = zero_stateid\<rparr>]\<rparr>"

lemma sample_locks_ok: "locks_ok (sample_locked fl)"
  by (simp add: locks_ok_def sample_locked_def sample_open_state_def)

theorem select_rw_stateid_witness:
  "nfs4_select_rw_stateid None False sample_stateid (Some 7) (sample_locked {NFS_LOCK_INITIALIZED}) = (0, zero_stateid, sample_locked {NFS_LOCK_INITIALIZED}) \<and>
   fst (nfs4_select_rw_stateid None False sample_stateid (Some 7) (sample_locked {NFS_LOCK_LOST})) = - EIO"
  using select_rw_stateid [OF sample_locks_ok [of "{NFS_LOCK_INITIALIZED}"], of None False sample_stateid "Some 7"]
    select_rw_stateid [OF sample_locks_ok [of "{NFS_LOCK_LOST}"], of None False sample_stateid "Some 7"]
  by (simp add: rw_stateid_def lock_of_def sample_locked_def)

text \<open>References to lock states. Taking and giving back references keeps one lock state per owner, with a positive count, and the flag that says whether there are any; taking one
  adds exactly one reference, also when it makes the lock state, and giving one back after that leaves the number of references as it was.\<close>

lemma lock_state_references:
  assumes "locks_ok st" and "nfs4_get_lock_state True (\<lambda>s. s) owner st = (r, st')"
  shows "(\<exists>l. r = Some l \<and> ls_owner l = owner) \<and> locks_ok st' \<and> (\<forall>x. lock_refs st' x = lock_refs st x + of_bool (x = owner)) \<and>
    locks_ok (snd (nfs4_put_lock_state owner st')) \<and> lock_refs (snd (nfs4_put_lock_state owner st')) = lock_refs st"
proof -
  note g = get_lock_state_ok [OF assms(1) assms(1) assms(2)]
  then obtain l where r: "r = Some l" "ls_owner l = owner" by (cases r) simp_all
  then have ok: "locks_ok st'" and refs: "\<forall>x. lock_refs st' x = lock_refs st x + of_bool (x = owner)" using g by simp_all
  obtain told st2 where p: "nfs4_put_lock_state owner st' = (told, st2)" by (cases "nfs4_put_lock_state owner st'")
  with put_lock_state_ok [OF ok p] r ok refs show ?thesis by (simp add: fun_eq_iff)
qed

section \<open>Open owners\<close>







text \<open>Running out of ids. When no id is left, or when memory runs out after a first try, \<^verbatim>\<open>nfs4_get_state_owner\<close> returns an error pointer, not the null pointer that
  its description promises and its callers test for; the owner it allocated is freed.\<close>

lemma get_state_owner_error_pointer:
  assumes "od_tree d cred = None" and "od_tree (meanwhile E d) cred = None" and "alloc_owner E (meanwhile E d) = Some new"
    and "ida_pre_get E 0" and "\<And>d. ida_get_new E 0 d = Inl err" and "err \<noteq> - EAGAIN \<or> \<not> ida_pre_get E 1"
  shows "\<exists>d'. nfs4_get_state_owner E 2 jiffies lease cred d = Some (Err err, d') \<and> od_owners d' new = None"
proof -
  let ?D = "with_new new cred (meanwhile E d)"
  have ins: "nfs4_insert_state_owner_locked (ida_get_new E 0 ?D) cred new ?D = (Err err, ?D)"
    using assms(2,5) by (simp add: nfs4_insert_state_owner_locked_def with_new_def)
  have loop: "insert_loop E cred new 0 2 Null ?D = Some (Err err, ?D)"
    using assms(4,6) ins by (auto simp: numeral_2_eq_2)
  have gone: "od_owners (nfs4_gc_state_owners jiffies lease (nfs4_free_state_owner new e)) new = None" for e
    by (simp add: nfs4_gc_state_owners_def reap_simps nfs4_free_state_owner_def Let_def)
  show ?thesis using assms(1,3) loop gone
    by (simp add: nfs4_get_state_owner_def nfs4_find_state_owner_locked_def nfs4_alloc_state_owner_def with_new_def new_entry_def Let_def)
qed

section \<open>Errors\<close>

text \<open>Errors of the protocol stay inside. Whatever a procedure returns and however recovery goes, the error handler returns an error number of the system or 0, never
  an NFSv4 status, provided that waiting for recovery does.\<close>

lemma no_protocol_errors:
  assumes "wait_law (xe_client E)"
  shows "-1000 \<le> fst (nfs4_handle_exception E err ex x)"
  using assms by (rule nfs4_handle_exception_range)

definition sample_exc :: "unit exc" where
  "sample_exc = \<lparr>x_mark = \<lparr>m_state = sample_open_state {}, m_owner_flags = {}, m_clp = sample_client {}\<rparr>, x_server = 0, x_nomap = True, x_slept = 0\<rparr>"

definition sample_exc_env :: "unit exc_env" where
  "sample_exc_env = \<lparr>xe_client = sample_client_env\<lparr>wait_on_manager := (\<lambda>c. (0, c\<lparr>cl_cons_state := 0\<rparr>))\<rparr>, xe_HZ = 250, nfs4_inode_return_delegation = (\<lambda>x. x),
     fatal_signal_pending = (\<lambda>x. False)\<rparr>"

lemma sample_wait_law: "wait_law (xe_client sample_exc_env)"
  by (simp add: wait_law_def sample_exc_env_def)

text \<open>A file that stays open on the server. A procedure that is always answered with FILE_OPEN is given up with -EBUSY after at most six tries, having waited about one second and
  never more than two.\<close>

lemma file_open_busy:
  assumes "xe_HZ E \<ge> 10" and "\<And>x. \<not> fatal_signal_pending E x"
    and "\<And>x. call x = (- NFS4ERR_FILE_OPEN, f x)" and "\<And>x. x_slept (f x) = x_slept x"
  shows "\<exists>y. nfs4_proc_getattr E call 6 x = Some (- EBUSY, y) \<and> x_slept x + xe_HZ E < x_slept y + 10 + xe_HZ E div 10 \<and> x_slept y \<le> x_slept x + 2 * xe_HZ E"
  by (rule file_open_gives_up [OF assms(1) refl assms(2-4)])

text \<open>The delays between tries. The first is a tenth of a second, and each is twice the one before until the maximum of fifteen seconds is reached.\<close>

lemma delay_backoff:
  assumes "HZ \<ge> 10"
  shows "fst (nfs4_update_delay HZ (((\<lambda>t. snd (nfs4_update_delay HZ t)) ^^ k) (Some 0))) = min (2 ^ k * (HZ div 10)) (15 * HZ)"
proof -
  let ?next = "\<lambda>t. snd (nfs4_update_delay HZ t)" and ?d = "\<lambda>k. min (2 ^ k * (HZ div 10)) (15 * HZ)"
  have d0: "HZ div 10 \<ge> 1" using assms by simp
  have d: "?d k > 0" for k using d0 assms by (simp add: zero_less_mult_iff)
  have step: "nfs4_update_delay HZ (Some (2 * ?d k)) = (?d (Suc k), Some (2 * ?d (Suc k)))" for k
    using d [of k] assms by (auto simp: nfs4_update_delay_def NFS4_POLL_RETRY_MIN_def NFS4_POLL_RETRY_MAX_def Let_def min_def)
  have first: "nfs4_update_delay HZ (Some 0) = (?d 0, Some (2 * ?d 0))"
    using assms by (auto simp: nfs4_update_delay_def NFS4_POLL_RETRY_MIN_def NFS4_POLL_RETRY_MAX_def Let_def)
  have "nfs4_update_delay HZ ((?next ^^ k) (Some 0)) = (?d k, Some (2 * ?d k))"
  proof (induction k)
    case 0
    show ?case using first by simp
  next
    case (Suc k)
    then show ?case using step [of k] by simp
  qed
  then show ?thesis by simp
qed

section \<open>Recovery of open files\<close>

text \<open>C34: reclaiming a file after a reboot of the server. With a server that grants what is asked for, every mode in which the file is open is opened again and nothing is closed: the
  call succeeds, the access the server has on record is the union of the modes of the openers, the state and the server agree on one state id, and counts, mode, references,
  locks and the place in the list of the owner are as before. No other state changes.\<close>

theorem open_reclaim_restores:
  assumes "granting S ids P" and "can_alloc P" and "oc_ok c" and "oc_deleg c = None" and "represents M (oc_state c)" and "M \<noteq> {#}" and "st_count (oc_state c) \<noteq> 0"
  shows "\<exists>d. \<exists>s\<in>ids. nfs4_open_reclaim Q S P (Suc n) cap True c = Some (0, d) \<and> share (st_flags (oc_state d)) = mode_of M \<and>
    oc_state d = (oc_state c)\<lparr>st_flags := insert NFS_OPEN_STATE (mode_bit ` set_mset M \<union> st_flags (reset_modes (oc_state c))), st_stateid := s, st_open_stateid := s\<rparr> \<and>
    ow_states (oc_owner d) = (ow_states (oc_owner c))[oc_index c := oc_state d] \<and> oc_index d = oc_index c"
proof -
  obtain st d where d: "nfs4_open_reclaim Q S P (Suc n) cap True c = Some (0, d)" "restored ids (set_mset M) (reset_modes (oc_state c)) st"
    "same_states (oc_upd (\<lambda>_. st) c) d" by (rule reclaim_granted [OF assms])
  have st: "oc_state d = st" using same_statesD(1) [OF d(3)] assms(3) by simp
  have "share (st_flags st) = mode_of M" using d(2) assms(5) by (intro share_restored) (simp_all add: represents_def)
  moreover have "ow_states (oc_owner d) = (ow_states (oc_owner c))[oc_index c := st] \<and> oc_index d = oc_index c"
    using d(3) by (simp add: same_states_def oc_upd_def)
  moreover obtain s where "s \<in> ids"
    "st = (oc_state c)\<lparr>st_flags := insert NFS_OPEN_STATE (mode_bit ` set_mset M \<union> st_flags (reset_modes (oc_state c))), st_stateid := s, st_open_stateid := s\<rparr>"
    using d(2) assms(6) by (auto simp: restored_def reset_modes_def)
  ultimately show ?thesis using d(1) by (intro exI [of _ d] bexI [of _ s]) (simp_all only: st simp_thms)
qed

definition sample_open_proc :: "unit open_proc" where
  "sample_open_proc = \<lparr>open_hooks = sample_open_env, rpc_run_error = (\<lambda>_. None), rpc_open = (\<lambda>_ c. ((0, zero_res), c)), rpc_confirm = (\<lambda>_ c. ((0, zero_stateid), c)),
     rpc_wait = Pair 0, open_jiffies = (\<lambda>_. 0), persistent_session = True, open_minorversion = 1, nfs_confirm_seqid = (\<lambda>c. c), nfs_inode_set_delegation = (\<lambda>_ c. c),
     nfs_inode_reclaim_delegation = (\<lambda>_ c. c), refresh_attrs = (\<lambda>_. Pair 0), open_fhget = (\<lambda>_. Pair (Inr 0)), alloc_open_state = Pair True, alloc_opendata = Pair True,
     nfs4_do_close = (\<lambda>c. c)\<rparr>"

lemma sample_granting: "granting sample_stateids {zero_stateid} sample_open_proc" "can_alloc sample_open_proc"
  by (simp_all add: granting_def can_alloc_def succeeds_def quiet_def sample_open_proc_def sample_open_env_def sample_stateids_def plain_res_def zero_res_def)

text \<open>A file that is open twice for reading and once for reading and writing.\<close>

abbreviation (input) sample_stale :: "unit open_ctx" where
  "sample_stale \<equiv> sample_file {NFS_STATE_RECLAIM_REBOOT} 2 0 1 RDWR"

lemma sample_represents: "represents {#READ, READ, RDWR#} (oc_state sample_stale)" "st_count (oc_state sample_stale) \<noteq> 0"
  by (simp_all add: sample_file_ok represents_def mode_of_def sample_open_state_def)

theorem open_reclaim_restores_witness:
  "\<exists>d. nfs4_open_reclaim sample_exc_env sample_stateids sample_open_proc 1 True True sample_stale = Some (0, d) \<and> share (st_flags (oc_state d)) = RDWR \<and>
    NFS_O_RDONLY_STATE \<in> st_flags (oc_state d) \<and> NFS_O_RDWR_STATE \<in> st_flags (oc_state d)"
  using open_reclaim_restores [OF sample_granting sample_file_ok(1) _ sample_represents(1) _ sample_represents(2), of sample_exc_env 0 True]
  by (fastforce simp: sample_file_def mode_of_def mode_bit_def)

text \<open>An interrupted recovery counts as done. When opening an expired state again is answered with DELAY or GRACE and the state manager is killed while it waits, the loop returns 0,
  and the caller takes the state for recovered although nothing was opened.\<close>

lemma expired_signal_success:
  assumes "err \<in> {- NFS4ERR_DELAY, - NFS4ERR_GRACE}" and "call cap c = Some (err, d)" and "\<And>x. fatal_signal_pending Q x"
  shows "\<exists>e. do_open_expired_loop Q call (Suc k) cap ex c = Some (0, e) \<and> st_flags (oc_state e) = st_flags (oc_state d)"
proof -
  obtain ex' e where e: "oc_exception Q err ex d = (ex', e)" by (cases "oc_exception Q err ex d")
  have "\<not> ex_retry ex' \<and> e = d" using assms(1,3) e
    by (auto simp: oc_exception_def nfs4_handle_exception_def nfs4_delay_def Let_def oc_upd_same split: prod.splits)
  then show ?thesis using assms(1,2) e by auto
qed

end
