(* ===== verification/Nfs4_Lock_Proc.thy ===== *)
theory Nfs4_Lock_Proc
  imports Nfs4_Open_Proc
begin

text \<open>
  File locks, \<^verbatim>\<open>fs/nfs/nfs4proc.c\<close> from \<^verbatim>\<open>nfs4_set_lock_task_retry\<close> to \<^verbatim>\<open>nfs4_release_lockowner\<close>: the LOCK, LOCKT and LOCKU calls of a system call, and the recovery of locks.

  The context is that of an open file; its lock states are named by their owners. The VFS's own record of locks, the RPC layer and the queues of sequence ids are the parameter
  \<open>'w lock_env\<close>. A task that has to wait is prepared again when it is woken; \<open>n\<close> bounds how often. When the caller is killed while it waits, the task goes on without it: the
  model runs it to its end at that moment. The mutexes around the VFS lock do not appear, and a lock is either a POSIX lock or one of \<^verbatim>\<open>flock\<close>.
\<close>

section \<open>Data\<close>

datatype lock_type = F_RDLCK | F_WRLCK | F_UNLCK

datatype lock_kind = FL_POSIX | FL_FLOCK

datatype lock_cmd = F_GETLK | F_SETLK | F_SETLKW | F_OTHER

datatype recovery_type = NFS_LOCK_NEW | NFS_LOCK_RECLAIM | NFS_LOCK_EXPIRED

text \<open>\<^verbatim>\<open>struct file_lock\<close>; \<open>fl_has_state\<close> says that it holds a reference to the lock state of its owner.\<close>

record file_lock =
  fl_type :: lock_type
  fl_kind :: lock_kind
  fl_flags :: u32
  fl_start :: int
  fl_end :: int
  fl_owner :: nat
  fl_has_state :: bool

abbreviation (input) FL_ACCESS :: u32 where "FL_ACCESS \<equiv> 8"
abbreviation (input) FL_EXISTS :: u32 where "FL_EXISTS \<equiv> 16"
abbreviation (input) FL_SLEEP :: u32 where "FL_SLEEP \<equiv> 128"
abbreviation (input) NFS_SEQID_CONFIRMED :: u32 where "NFS_SEQID_CONFIRMED \<equiv> 1"
abbreviation (input) ENOLCK :: int where "ENOLCK \<equiv> 37"

text \<open>\<^verbatim>\<open>struct nfs4_lockdata\<close>.\<close>

record lock_data =
  ld_owner :: nat
  ld_fl :: file_lock
  ld_new_owner :: bool
  ld_block :: bool
  ld_reclaim :: bool
  ld_privileged :: bool
  ld_timestamp :: u64
  ld_status :: int
  ld_cancelled :: bool

record 'w lock_env =
  le_client :: "'w client_env"
  le_exc :: "'w exc_env"
  le_alloc :: "'w open_ctx \<Rightarrow> bool \<times> 'w open_ctx"
  le_lock_state_ok :: "'w open_ctx \<Rightarrow> bool"
  le_meanwhile :: "open_state \<Rightarrow> open_state"
  le_posix_locks :: bool
  le_recover_lost_locks :: bool
  le_minorversion :: nat
  le_vfs_lock :: "lock_kind \<Rightarrow> file_lock \<Rightarrow> 'w open_ctx \<Rightarrow> int \<times> 'w open_ctx"
  le_wait_lock_seqid :: "nat \<Rightarrow> 'w open_ctx \<Rightarrow> bool \<times> 'w open_ctx"
  le_wait_open_seqid :: "'w open_ctx \<Rightarrow> bool \<times> 'w open_ctx"
  le_release_lock_seqid :: "nat \<Rightarrow> 'w open_ctx \<Rightarrow> 'w open_ctx"
  le_release_open_seqid :: "'w open_ctx \<Rightarrow> 'w open_ctx"
  le_setup_sequence :: "'w open_ctx \<Rightarrow> bool \<times> 'w open_ctx"
  le_finish_sequence :: "'w open_ctx \<Rightarrow> bool \<times> 'w open_ctx"
  le_async_error :: "int \<Rightarrow> 'w open_ctx \<Rightarrow> bool \<times> 'w open_ctx"
  le_run_error :: "'w open_ctx \<Rightarrow> int option"
  le_wait :: "'w open_ctx \<Rightarrow> int \<times> 'w open_ctx"
  le_jiffies :: "'w open_ctx \<Rightarrow> u64"
  le_reclaim_seqcount :: "'w open_ctx \<Rightarrow> nat"
  le_sleep :: "int \<Rightarrow> 'w open_ctx \<Rightarrow> bool \<times> 'w open_ctx"
  le_tell_server :: "nat \<Rightarrow> 'w open_ctx \<Rightarrow> 'w open_ctx"
  le_test_stateid :: "nfs4_stateid \<Rightarrow> 'w open_ctx \<Rightarrow> int \<times> 'w open_ctx"
  le_free_stateid :: "nfs4_stateid \<Rightarrow> 'w open_ctx \<Rightarrow> 'w open_ctx"
  rpc_lock :: "lock_data \<Rightarrow> 'w open_ctx \<Rightarrow> (int \<times> nfs4_stateid) \<times> 'w open_ctx"
  rpc_unlock :: "nat \<Rightarrow> nfs4_stateid \<Rightarrow> 'w open_ctx \<Rightarrow> (int \<times> nfs4_stateid) \<times> 'w open_ctx"
  rpc_lockt :: "file_lock \<Rightarrow> 'w open_ctx \<Rightarrow> (int \<times> file_lock) \<times> 'w open_ctx"

text \<open>Changing the lock state of an owner, and reading it.\<close>

definition upd_lock :: "nat \<Rightarrow> (lock_state \<Rightarrow> lock_state) \<Rightarrow> open_state \<Rightarrow> open_state" where
  "upd_lock owner f st = st\<lparr>st_locks := map (\<lambda>l. if ls_owner l = owner then f l else l) (st_locks st)\<rparr>"

definition lock_flag :: "lock_bit \<Rightarrow> nat \<Rightarrow> open_state \<Rightarrow> bool" where
  "lock_flag b owner st \<longleftrightarrow> (case lock_of (Some owner) st of None \<Rightarrow> False | Some l \<Rightarrow> b \<in> ls_flags l)"

definition lock_confirmed :: "nat \<Rightarrow> open_state \<Rightarrow> bool" where
  "lock_confirmed owner st \<longleftrightarrow> (case lock_of (Some owner) st of None \<Rightarrow> False | Some l \<Rightarrow> ls_seqid_flags l AND NFS_SEQID_CONFIRMED \<noteq> 0)"

section \<open>Helpers\<close>

definition NFS4_LOCK_MINTIMEOUT :: "int \<Rightarrow> int" where
  "NFS4_LOCK_MINTIMEOUT HZ = HZ"

definition NFS4_LOCK_MAXTIMEOUT :: "int \<Rightarrow> int" where
  "NFS4_LOCK_MAXTIMEOUT HZ = 30 * HZ"

text \<open>The sleep itself is a step of the caller.\<close>

definition nfs4_set_lock_task_retry :: "int \<Rightarrow> int \<Rightarrow> int" where
  "nfs4_set_lock_task_retry HZ timeout = (if timeout * 2 > NFS4_LOCK_MAXTIMEOUT HZ then NFS4_LOCK_MAXTIMEOUT HZ else timeout * 2)"

definition set_lock :: "'w lock_env \<Rightarrow> file_lock \<Rightarrow> 'w open_ctx \<Rightarrow> int \<times> file_lock \<times> 'w open_ctx" where
  "set_lock L fl c =
     (case nfs4_set_lock_state (le_lock_state_ok L c) (le_meanwhile L) (fl_has_state fl) (fl_owner fl) (oc_state c) of (status, st) \<Rightarrow>
        (status, if status = 0 then fl\<lparr>fl_has_state := True\<rparr> else fl, oc_upd (\<lambda>_. st) c))"

text \<open>Giving back a reference to a lock state; the server is told when the last one of a state it knows is gone.\<close>

definition put_lock_ref :: "'w lock_env \<Rightarrow> nat \<Rightarrow> 'w open_ctx \<Rightarrow> 'w open_ctx" where
  "put_lock_ref L owner c =
     (case nfs4_put_lock_state owner (oc_state c) of (tell, st) \<Rightarrow>
        let c = oc_upd (\<lambda>_. st) c in if tell then le_tell_server L owner c else c)"

definition do_vfs_lock :: "'w lock_env \<Rightarrow> file_lock \<Rightarrow> 'w open_ctx \<Rightarrow> int \<times> 'w open_ctx" where
  "do_vfs_lock L fl c = le_vfs_lock L (fl_kind fl) fl c"

definition lock_exception :: "'w lock_env \<Rightarrow> int \<Rightarrow> nfs4_exception \<Rightarrow> 'w open_ctx \<Rightarrow> int \<times> nfs4_exception \<times> 'w open_ctx" where
  "lock_exception L err ex c =
     (case nfs4_handle_exception (le_exc L) err ex
             \<lparr>x_mark = \<lparr>m_state = oc_state c, m_owner_flags = ow_flags (oc_owner c), m_clp = oc_clp c\<rparr>, x_server = 0, x_nomap = False, x_slept = 0\<rparr> of (ret, ex, x) \<Rightarrow>
        let m = x_mark x; c = oc_upd (\<lambda>_. m_state m) c
        in (ret, ex, c\<lparr>oc_owner := (oc_owner c)\<lparr>ow_flags := m_owner_flags m\<rparr>, oc_clp := m_clp m\<rparr>))"

definition fresh_exception :: "bool \<Rightarrow> nfs4_exception" where
  "fresh_exception has_state = \<lparr>ex_timeout = 0, ex_retry = False, ex_has_state = has_state, ex_deleg = False\<rparr>"

section \<open>Unlocking\<close>

text \<open>The task: \<^verbatim>\<open>nfs4_locku_prepare\<close>, the call and \<^verbatim>\<open>nfs4_locku_done\<close>.\<close>

datatype lock_action = Lock_Wait | Lock_No_Action | Lock_Send

definition nfs4_locku_prepare :: "'w lock_env \<Rightarrow> nat \<Rightarrow> 'w open_ctx \<Rightarrow> lock_action \<times> u64 \<times> 'w open_ctx" where
  "nfs4_locku_prepare L owner c =
     (case le_wait_lock_seqid L owner c of
        (False, c) \<Rightarrow> (Lock_Wait, 0, snd (le_finish_sequence L c))
      | (True, c) \<Rightarrow>
          if \<not> lock_flag NFS_LOCK_INITIALIZED owner (oc_state c) then (Lock_No_Action, 0, snd (le_finish_sequence L c))
          else
            let timestamp = le_jiffies L c
            in case le_setup_sequence L c of
                 (True, c) \<Rightarrow> (Lock_Send, timestamp, c)
               | (False, c) \<Rightarrow> (Lock_Wait, timestamp, le_release_lock_seqid L owner c))"

definition nfs4_locku_done :: "'w lock_env \<Rightarrow> nat \<Rightarrow> u64 \<Rightarrow> int \<Rightarrow> nfs4_stateid \<Rightarrow> 'w open_ctx \<Rightarrow> bool \<times> 'w open_ctx" where
  "nfs4_locku_done L owner timestamp status stateid c =
     (case le_finish_sequence L c of
        (False, c) \<Rightarrow> (False, c)
      | (True, c) \<Rightarrow>
          (case (if status = 0 then (True, (oc_upd (upd_lock owner (\<lambda>l. l\<lparr>ls_stateid := stateid\<rparr>)) c)\<lparr>oc_clp := renew_lease timestamp (oc_clp c)\<rparr>)
                 else if status \<in> {- NFS4ERR_BAD_STATEID, - NFS4ERR_OLD_STATEID, - NFS4ERR_STALE_STATEID, - NFS4ERR_EXPIRED} then (True, c)
                 else case le_async_error L status c of (again, c) \<Rightarrow> (\<not> again, c)) of (fin, c) \<Rightarrow>
             (fin, le_release_lock_seqid L owner c)))"

fun unlock_task :: "'w lock_env \<Rightarrow> nat \<Rightarrow> nat \<Rightarrow> 'w open_ctx \<Rightarrow> 'w open_ctx option" where
  "unlock_task L 0 owner c = None"
| "unlock_task L (Suc n) owner c =
     (case nfs4_locku_prepare L owner c of
        (Lock_Wait, ts, c) \<Rightarrow> unlock_task L n owner c
      | (Lock_No_Action, ts, c) \<Rightarrow> Some c
      | (Lock_Send, ts, c) \<Rightarrow>
          (case rpc_unlock L owner (case lock_of (Some owner) (oc_state c) of None \<Rightarrow> zero_stateid | Some l \<Rightarrow> ls_stateid l) c of ((status, stateid), c) \<Rightarrow>
             case nfs4_locku_done L owner ts status stateid c of
               (True, c) \<Rightarrow> Some c
             | (False, c) \<Rightarrow> unlock_task L n owner c))"

definition nfs4_locku_release_calldata :: "'w lock_env \<Rightarrow> nat \<Rightarrow> 'w open_ctx \<Rightarrow> 'w open_ctx" where
  "nfs4_locku_release_calldata L owner c = put_lock_ref L owner (le_release_lock_seqid L owner c)"

text \<open>\<^verbatim>\<open>nfs4_alloc_unlockdata\<close> takes a reference to the lock state.\<close>

definition nfs4_do_unlck :: "'w lock_env \<Rightarrow> nat \<Rightarrow> nat \<Rightarrow> 'w open_ctx \<Rightarrow> (int \<times> 'w open_ctx) option" where
  "nfs4_do_unlck L n owner c =
     (case le_alloc L c of
        (False, c) \<Rightarrow> Some (- ENOMEM, le_release_lock_seqid L owner c)
      | (True, c) \<Rightarrow>
          let c = oc_upd (upd_lock owner (\<lambda>l. l\<lparr>ls_count := ls_count l + 1\<rparr>)) c
          in case le_run_error L c of
               Some e \<Rightarrow> Some (e, nfs4_locku_release_calldata L owner c)
             | None \<Rightarrow> map_option (\<lambda>c. (0, nfs4_locku_release_calldata L owner c)) (unlock_task L n owner c))"

definition nfs4_proc_unlck :: "'w lock_env \<Rightarrow> nat \<Rightarrow> file_lock \<Rightarrow> 'w open_ctx \<Rightarrow> (int \<times> file_lock \<times> 'w open_ctx) option" where
  "nfs4_proc_unlck L n fl c =
     (let flags = fl_flags fl
      in case set_lock L fl c of (status, fl, c) \<Rightarrow>
           case do_vfs_lock L (fl\<lparr>fl_flags := flags OR FL_EXISTS\<rparr>) c of (vfs, c) \<Rightarrow>
             if vfs = - ENOENT \<or> status \<noteq> 0 then Some (status, fl, c)
             else if \<not> lock_flag NFS_LOCK_INITIALIZED (fl_owner fl) (oc_state c) then Some (status, fl, c)
             else case le_alloc L c of
                    (False, c) \<Rightarrow> Some (- ENOMEM, fl, c)
                  | (True, c) \<Rightarrow>
                      (case nfs4_do_unlck L n (fl_owner fl) c of
                         None \<Rightarrow> None
                       | Some (status, c) \<Rightarrow>
                           if status \<noteq> 0 then Some (status, fl, c) else (case le_wait L c of (status, c) \<Rightarrow> Some (status, fl, c))))"

section \<open>Locking\<close>

text \<open>\<^verbatim>\<open>nfs4_alloc_lockdata\<close>: three allocations; the data holds a reference to the lock state.\<close>

definition nfs4_alloc_lockdata :: "'w lock_env \<Rightarrow> file_lock \<Rightarrow> 'w open_ctx \<Rightarrow> lock_data option \<times> 'w open_ctx" where
  "nfs4_alloc_lockdata L fl c =
     (case le_alloc L c of
        (False, c) \<Rightarrow> (None, c)
      | (True, c) \<Rightarrow>
          (case le_alloc L c of
             (False, c) \<Rightarrow> (None, c)
           | (True, c) \<Rightarrow>
               (case le_alloc L c of
                  (False, c) \<Rightarrow> (None, le_release_open_seqid L c)
                | (True, c) \<Rightarrow>
                    (Some \<lparr>ld_owner = fl_owner fl, ld_fl = fl, ld_new_owner = False, ld_block = False, ld_reclaim = False, ld_privileged = False, ld_timestamp = 0, ld_status = 0,
                           ld_cancelled = False\<rparr>,
                     oc_upd (upd_lock (fl_owner fl) (\<lambda>l. l\<lparr>ls_count := ls_count l + 1\<rparr>)) c))))"

definition nfs4_lock_prepare :: "'w lock_env \<Rightarrow> lock_data \<Rightarrow> 'w open_ctx \<Rightarrow> lock_action \<times> lock_data \<times> 'w open_ctx" where
  "nfs4_lock_prepare L data c =
     (let owner = ld_owner data; finish = (\<lambda>c. snd (le_finish_sequence L c)); undo = (\<lambda>c. finish (le_release_lock_seqid L owner (le_release_open_seqid L c)))
      in case le_wait_lock_seqid L owner c of
           (False, c) \<Rightarrow> (Lock_Wait, data, finish c)
         | (True, c) \<Rightarrow>
             let new_owner = \<not> lock_confirmed owner (oc_state c)
             in case (if new_owner then le_wait_open_seqid L c else (True, c)) of
                  (False, c) \<Rightarrow> (Lock_Wait, data, finish (le_release_lock_seqid L owner c))
                | (True, c) \<Rightarrow>
                    let data = data\<lparr>ld_new_owner := new_owner\<rparr>
                    in if \<not> nfs4_valid_open_stateid (oc_state c) then (Lock_No_Action, data\<lparr>ld_status := - EBADF\<rparr>, undo c)
                       else
                         let data = data\<lparr>ld_timestamp := le_jiffies L c\<rparr>
                         in case le_setup_sequence L c of (True, c) \<Rightarrow> (Lock_Send, data, c) | (False, c) \<Rightarrow> (Lock_Wait, data, undo c))"

definition nfs4_lock_done :: "'w lock_env \<Rightarrow> int \<Rightarrow> nfs4_stateid \<Rightarrow> lock_data \<Rightarrow> 'w open_ctx \<Rightarrow> bool \<times> lock_data \<times> 'w open_ctx" where
  "nfs4_lock_done L status stateid data c =
     (case le_finish_sequence L c of
        (False, c) \<Rightarrow> (False, data, c)
      | (True, c) \<Rightarrow>
          let data = data\<lparr>ld_status := status\<rparr>
          in if status \<noteq> 0 then (True, data, c)
             else
               let c = (if ld_new_owner data then oc_upd (upd_lock (ld_owner data) (\<lambda>l. l\<lparr>ls_seqid_flags := ls_seqid_flags l OR NFS_SEQID_CONFIRMED\<rparr>)) c else c);
                   c = oc_upd (upd_lock (ld_owner data) (\<lambda>l. l\<lparr>ls_stateid := stateid, ls_flags := insert NFS_LOCK_INITIALIZED (ls_flags l)\<rparr>)) c
               in (True, data, c\<lparr>oc_clp := renew_lease (ld_timestamp data) (oc_clp c)\<rparr>))"

fun lock_task :: "'w lock_env \<Rightarrow> nat \<Rightarrow> lock_data \<Rightarrow> 'w open_ctx \<Rightarrow> (lock_data \<times> 'w open_ctx) option" where
  "lock_task L 0 data c = None"
| "lock_task L (Suc n) data c =
     (case nfs4_lock_prepare L data c of
        (Lock_Wait, data, c) \<Rightarrow> lock_task L n data c
      | (Lock_No_Action, data, c) \<Rightarrow> Some (data, c)
      | (Lock_Send, data, c) \<Rightarrow>
          (case rpc_lock L data c of ((status, stateid), c) \<Rightarrow>
             case nfs4_lock_done L status stateid data c of
               (True, data, c) \<Rightarrow> Some (data, c)
             | (False, data, c) \<Rightarrow> lock_task L n data c))"

text \<open>A lock that was cancelled is unlocked again.\<close>

definition nfs4_lock_release :: "'w lock_env \<Rightarrow> nat \<Rightarrow> lock_data \<Rightarrow> 'w open_ctx \<Rightarrow> 'w open_ctx option" where
  "nfs4_lock_release L n data c =
     (let c = le_release_open_seqid L c; owner = ld_owner data
      in map_option (put_lock_ref L owner)
           (if ld_cancelled data then map_option snd (nfs4_do_unlck L n owner c) else Some (le_release_lock_seqid L owner c)))"

definition nfs4_handle_setlk_error :: "'w lock_env \<Rightarrow> nat \<Rightarrow> bool \<Rightarrow> int \<Rightarrow> 'w open_ctx \<Rightarrow> 'w open_ctx" where
  "nfs4_handle_setlk_error L owner new_owner error c =
     (let unconfirm = oc_upd (upd_lock owner (\<lambda>l. l\<lparr>ls_seqid_flags := ls_seqid_flags l AND NOT NFS_SEQID_CONFIRMED\<rparr>));
          lease = (\<lambda>c. c\<lparr>oc_clp := nfs4_schedule_lease_recovery (le_client L) (oc_clp c)\<rparr>)
      in if error \<in> {- NFS4ERR_ADMIN_REVOKED, - NFS4ERR_BAD_STATEID} then
           let c = unconfirm c
           in if new_owner \<or> lock_flag NFS_LOCK_INITIALIZED owner (oc_state c) then
                let m = snd (nfs4_schedule_stateid_recovery (le_client L) \<lparr>m_state = oc_state c, m_owner_flags = ow_flags (oc_owner c), m_clp = oc_clp c\<rparr>);
                    c = oc_upd (\<lambda>_. m_state m) c
                in c\<lparr>oc_owner := (oc_owner c)\<lparr>ow_flags := m_owner_flags m\<rparr>, oc_clp := m_clp m\<rparr>
              else c
         else if error = - NFS4ERR_STALE_STATEID then lease (unconfirm c)
         else if error = - NFS4ERR_EXPIRED then lease c
         else c)"

definition nfs4_do_setlk :: "'w lock_env \<Rightarrow> nat \<Rightarrow> lock_cmd \<Rightarrow> file_lock \<Rightarrow> recovery_type \<Rightarrow> 'w open_ctx \<Rightarrow> (int \<times> 'w open_ctx) option" where
  "nfs4_do_setlk L n cmd fl recovery c =
     (case nfs4_alloc_lockdata L fl c of
        (None, c) \<Rightarrow> Some (- ENOMEM, c)
      | (Some data, c) \<Rightarrow>
          let data = data\<lparr>ld_block := (cmd = F_SETLKW), ld_reclaim := (recovery = NFS_LOCK_RECLAIM), ld_privileged := (recovery \<noteq> NFS_LOCK_NEW)\<rparr>
          in case le_run_error L c of
               Some e \<Rightarrow> map_option (\<lambda>c. (e, c)) (nfs4_lock_release L n data c)
             | None \<Rightarrow>
                 (case le_wait L c of (ret, c) \<Rightarrow>
                    case lock_task L n data c of
                      None \<Rightarrow> None
                    | Some (data, c) \<Rightarrow>
                        let data = data\<lparr>ld_cancelled := (ret \<noteq> 0)\<rparr>;
                            ret' = (if ret = 0 then ld_status data else ret);
                            c = (if ret = 0 \<and> ld_status data \<noteq> 0 then nfs4_handle_setlk_error L (ld_owner data) (ld_new_owner data) (ld_status data) c else c)
                        in map_option (\<lambda>c. (ret', c)) (nfs4_lock_release L n data c)))"

section \<open>Recovery of locks\<close>

fun lock_reclaim_loop :: "'w lock_env \<Rightarrow> nat \<Rightarrow> nat \<Rightarrow> file_lock \<Rightarrow> nfs4_exception \<Rightarrow> 'w open_ctx \<Rightarrow> (int \<times> 'w open_ctx) option" where
  "lock_reclaim_loop L n 0 fl ex c = None"
| "lock_reclaim_loop L n (Suc k) fl ex c =
     (if NFS_DELEGATED_STATE \<in> st_flags (oc_state c) then Some (0, c)
      else case nfs4_do_setlk L n F_SETLK fl NFS_LOCK_RECLAIM c of
             None \<Rightarrow> None
           | Some (err, c) \<Rightarrow>
               if err \<noteq> - NFS4ERR_DELAY then Some (err, c)
               else case lock_exception L err ex c of (_, ex, c) \<Rightarrow> if ex_retry ex then lock_reclaim_loop L n k fl ex c else Some (err, c))"

definition nfs4_lock_reclaim :: "'w lock_env \<Rightarrow> nat \<Rightarrow> file_lock \<Rightarrow> 'w open_ctx \<Rightarrow> (int \<times> 'w open_ctx) option" where
  "nfs4_lock_reclaim L n fl c = lock_reclaim_loop L n n fl (fresh_exception False) c"

text \<open>As in the source, an error that is waited for counts as 0 when no other try follows.\<close>

fun lock_expired_loop :: "'w lock_env \<Rightarrow> nat \<Rightarrow> nat \<Rightarrow> file_lock \<Rightarrow> nfs4_exception \<Rightarrow> 'w open_ctx \<Rightarrow> (int \<times> 'w open_ctx) option" where
  "lock_expired_loop L n 0 fl ex c = None"
| "lock_expired_loop L n (Suc k) fl ex c =
     (if NFS_DELEGATED_STATE \<in> st_flags (oc_state c) then Some (0, c)
      else case nfs4_do_setlk L n F_SETLK fl NFS_LOCK_EXPIRED c of
             None \<Rightarrow> None
           | Some (err, c) \<Rightarrow>
               if err \<notin> {- NFS4ERR_GRACE, - NFS4ERR_DELAY} then Some (err, c)
               else case lock_exception L err ex c of (_, ex, c) \<Rightarrow> if ex_retry ex then lock_expired_loop L n k fl ex c else Some (0, c))"

definition nfs4_lock_expired :: "'w lock_env \<Rightarrow> nat \<Rightarrow> file_lock \<Rightarrow> 'w open_ctx \<Rightarrow> (int \<times> 'w open_ctx) option" where
  "nfs4_lock_expired L n fl c =
     (case set_lock L fl c of (err, fl, c) \<Rightarrow>
        if err \<noteq> 0 then Some (err, c)
        else if \<not> le_recover_lost_locks L then Some (0, oc_upd (upd_lock (fl_owner fl) (\<lambda>l. l\<lparr>ls_flags := insert NFS_LOCK_LOST (ls_flags l)\<rparr>)) c)
        else lock_expired_loop L n n fl (fresh_exception False) c)"

text \<open>The loop over the lock states. They do not change while it runs.\<close>

fun check_locks_loop :: "'w lock_env \<Rightarrow> lock_state list \<Rightarrow> int \<Rightarrow> 'w open_ctx \<Rightarrow> int \<times> 'w open_ctx" where
  "check_locks_loop L [] ret c = (ret, c)"
| "check_locks_loop L (l # ls) ret c =
     (if NFS_LOCK_INITIALIZED \<notin> ls_flags l then check_locks_loop L ls ret c
      else case le_test_stateid L (ls_stateid l) c of (status, c) \<Rightarrow>
             if status = 0 then check_locks_loop L ls ret c
             else
               let c = (if status \<noteq> - NFS4ERR_BAD_STATEID then le_free_stateid L (ls_stateid l) c else c)
               in check_locks_loop L ls status (oc_upd (upd_lock (ls_owner l) (\<lambda>l. l\<lparr>ls_flags := ls_flags l - {NFS_LOCK_INITIALIZED}\<rparr>)) c))"

definition nfs41_check_expired_locks :: "'w lock_env \<Rightarrow> 'w open_ctx \<Rightarrow> int \<times> 'w open_ctx" where
  "nfs41_check_expired_locks L c = check_locks_loop L (st_locks (oc_state c)) (- NFS4ERR_BAD_STATEID) c"

definition nfs41_lock_expired :: "'w lock_env \<Rightarrow> nat \<Rightarrow> file_lock \<Rightarrow> 'w open_ctx \<Rightarrow> (int \<times> 'w open_ctx) option" where
  "nfs41_lock_expired L n fl c =
     (case (if LK_STATE_IN_USE \<in> st_flags (oc_state c) then nfs41_check_expired_locks L c else (0, c)) of (status, c) \<Rightarrow>
        if status \<noteq> 0 then nfs4_lock_expired L n fl c else Some (status, c))"

definition nfs4_lock_delegation_recall ::
  "'w lock_env \<Rightarrow> nat \<Rightarrow> ('w open_ctx \<Rightarrow> 'w open_ctx) \<Rightarrow> nat \<Rightarrow> file_lock \<Rightarrow> 'w open_ctx \<Rightarrow> (int \<times> 'w open_ctx) option" where
  "nfs4_lock_delegation_recall L n find_recover srv fl c =
     (case set_lock L fl c of (err, fl, c) \<Rightarrow>
        if err \<noteq> 0 then Some (err, c)
        else map_option (\<lambda>(err, c). nfs4_handle_delegation_recall_error (le_client L) find_recover srv err c) (nfs4_do_setlk L n F_SETLK fl NFS_LOCK_NEW c))"

section \<open>The system call\<close>

definition nfs4_setlk_once :: "'w lock_env \<Rightarrow> nat \<Rightarrow> lock_cmd \<Rightarrow> file_lock \<Rightarrow> 'w open_ctx \<Rightarrow> (int \<times> file_lock \<times> 'w open_ctx) option" where
  "nfs4_setlk_once L n cmd fl c =
     (let flags = fl_flags fl
      in if fl_kind fl = FL_POSIX \<and> \<not> le_posix_locks L then Some (- ENOLCK, fl, c)
         else case set_lock L fl c of (status, fl, c) \<Rightarrow>
           if status \<noteq> 0 then Some (status, fl, c)
           else case do_vfs_lock L (fl\<lparr>fl_flags := flags OR FL_ACCESS\<rparr>) c of (status, c) \<Rightarrow>
             if status < 0 then Some (status, fl, c)
             else if NFS_DELEGATED_STATE \<in> st_flags (oc_state c) then
               (case do_vfs_lock L (fl\<lparr>fl_flags := flags AND NOT FL_SLEEP\<rparr>) c of (status, c) \<Rightarrow> Some (status, fl, c))
             else
               let seq = le_reclaim_seqcount L c
               in case nfs4_do_setlk L n cmd fl NFS_LOCK_NEW c of
                    None \<Rightarrow> None
                  | Some (status, c) \<Rightarrow>
                      if status \<noteq> 0 then Some (status, fl, c)
                      else if le_reclaim_seqcount L c \<noteq> seq then Some (- NFS4ERR_DELAY, fl, c)
                      else (case do_vfs_lock L (fl\<lparr>fl_flags := flags OR FL_SLEEP\<rparr>) c of (_, c) \<Rightarrow> Some (0, fl, c)))"

fun setlk_loop :: "'w lock_env \<Rightarrow> nat \<Rightarrow> nat \<Rightarrow> lock_cmd \<Rightarrow> file_lock \<Rightarrow> nfs4_exception \<Rightarrow> 'w open_ctx \<Rightarrow> (int \<times> file_lock \<times> 'w open_ctx) option" where
  "setlk_loop L n 0 cmd fl ex c = None"
| "setlk_loop L n (Suc k) cmd fl ex c =
     (case nfs4_setlk_once L n cmd fl c of
        None \<Rightarrow> None
      | Some (err, fl, c) \<Rightarrow>
          (case lock_exception L (if err = - NFS4ERR_DENIED then - EAGAIN else err) ex c of (err, ex, c) \<Rightarrow>
             if ex_retry ex then setlk_loop L n k cmd fl ex c else Some (err, fl, c)))"

definition nfs4_proc_setlk :: "'w lock_env \<Rightarrow> nat \<Rightarrow> lock_cmd \<Rightarrow> file_lock \<Rightarrow> 'w open_ctx \<Rightarrow> (int \<times> file_lock \<times> 'w open_ctx) option" where
  "nfs4_proc_setlk L n cmd fl c = setlk_loop L n n cmd fl (fresh_exception True) c"

definition nfs4_getlk_once :: "'w lock_env \<Rightarrow> file_lock \<Rightarrow> 'w open_ctx \<Rightarrow> int \<times> file_lock \<times> 'w open_ctx" where
  "nfs4_getlk_once L fl c =
     (case set_lock L fl c of (status, fl, c) \<Rightarrow>
        if status \<noteq> 0 then (status, fl, c)
        else case rpc_lockt L fl c of ((status, fl'), c) \<Rightarrow>
               let fl' = (if status = 0 then fl'\<lparr>fl_type := F_UNLCK\<rparr> else fl'); status = (if status = - NFS4ERR_DENIED then 0 else status)
               in (status, fl'\<lparr>fl_has_state := False\<rparr>, put_lock_ref L (fl_owner fl) c))"

fun getlk_loop :: "'w lock_env \<Rightarrow> nat \<Rightarrow> file_lock \<Rightarrow> nfs4_exception \<Rightarrow> 'w open_ctx \<Rightarrow> (int \<times> file_lock \<times> 'w open_ctx) option" where
  "getlk_loop L 0 fl ex c = None"
| "getlk_loop L (Suc k) fl ex c =
     (case nfs4_getlk_once L fl c of (err, fl, c) \<Rightarrow>
        case lock_exception L err ex c of (err, ex, c) \<Rightarrow> if ex_retry ex then getlk_loop L k fl ex c else Some (err, fl, c))"

text \<open>Waiting for a lock: the sleeps get longer, and a signal ends them.\<close>

fun lock_wait_loop :: "'w lock_env \<Rightarrow> nat \<Rightarrow> nat \<Rightarrow> lock_cmd \<Rightarrow> int \<Rightarrow> file_lock \<Rightarrow> 'w open_ctx \<Rightarrow> (int \<times> file_lock \<times> 'w open_ctx) option" where
  "lock_wait_loop L n 0 cmd timeout fl c = None"
| "lock_wait_loop L n (Suc k) cmd timeout fl c =
     (case nfs4_proc_setlk L n cmd fl c of
        None \<Rightarrow> None
      | Some (status, fl, c) \<Rightarrow>
          if status \<noteq> - EAGAIN \<or> cmd = F_SETLK then Some (status, fl, c)
          else case le_sleep L timeout c of (signalled, c) \<Rightarrow>
                 if signalled then Some (- ERESTARTSYS, fl, c)
                 else lock_wait_loop L n k cmd (nfs4_set_lock_task_retry (xe_HZ (le_exc L)) timeout) fl c)"

text \<open>\<open>has_state\<close>: the open context of the file has a state. \<open>f_mode\<close> is how the file is open.\<close>

definition nfs4_proc_lock :: "'w lock_env \<Rightarrow> nat \<Rightarrow> bool \<Rightarrow> u32 \<Rightarrow> lock_cmd \<Rightarrow> file_lock \<Rightarrow> 'w open_ctx \<Rightarrow> (int \<times> file_lock \<times> 'w open_ctx) option" where
  "nfs4_proc_lock L n has_state f_mode cmd fl c =
     (if fl_start fl < 0 \<or> fl_end fl < 0 then Some (- EINVAL, fl, c)
      else if cmd = F_GETLK then if has_state then getlk_loop L n fl (fresh_exception False) c else Some (0, fl, c)
      else if cmd = F_OTHER then Some (- EINVAL, fl, c)
      else if fl_type fl = F_UNLCK then if has_state then nfs4_proc_unlck L n fl c else Some (0, fl, c)
      else if \<not> has_state then Some (- ENOLCK, fl, c)
      else if fl_type fl = F_RDLCK \<and> f_mode AND READ = 0 \<or> fl_type fl = F_WRLCK \<and> f_mode AND WRITE = 0 then Some (- EBADF, fl, c)
      else lock_wait_loop L n n cmd (NFS4_LOCK_MINTIMEOUT (xe_HZ (le_exc L))) fl c)"

section \<open>Lock owners\<close>

text \<open>The reply to RELEASE_LOCKOWNER; the result says whether the call is repeated. Only version 4.0 has it.\<close>

definition nfs4_release_lockowner_done :: "'w lock_env \<Rightarrow> u64 \<Rightarrow> int \<Rightarrow> 'w open_ctx \<Rightarrow> bool \<times> 'w open_ctx" where
  "nfs4_release_lockowner_done L timestamp status c =
     (let c = snd (le_finish_sequence L c)
      in if status = 0 then (False, c\<lparr>oc_clp := renew_lease timestamp (oc_clp c)\<rparr>)
         else if status \<in> {- NFS4ERR_STALE_CLIENTID, - NFS4ERR_EXPIRED} then (False, c\<lparr>oc_clp := nfs4_schedule_lease_recovery (le_client L) (oc_clp c)\<rparr>)
         else if status \<in> {- NFS4ERR_LEASE_MOVED, - NFS4ERR_DELAY} then le_async_error L status c
         else (False, c))"

end
