(* ===== verification/Nfs4_Lock_Proc_Correct.thy ===== *)
theory Nfs4_Lock_Proc_Correct
  imports Nfs4_Lock_Proc Nfs4_Close_Correct
begin

text \<open>
  When a lock has been granted, how references to lock states are kept, and what happens to locks that cannot be recovered.
\<close>

section \<open>Granted locks\<close>

lemma map_errors_zero: "nfs4_map_errors e = 0 \<longleftrightarrow> e = 0"
  by (auto simp: nfs4_map_errors_def)

lemma wait_on_recovery_zero: "wait_on_recovery E ex x = (0, ex', x') \<Longrightarrow> ex_retry ex'"
  by (auto simp: wait_on_recovery_def Let_def split: prod.splits if_splits)

text \<open>The handler of errors returns 0 only for no error, or when it asks for another try.\<close>

lemma handle_exception_zero:
  assumes "nfs4_handle_exception E err ex x = (0, ex', x')" and "\<not> ex_retry ex'"
  shows "err = 0"
proof (rule ccontr)
  assume "err \<noteq> 0"
  with assms show False
    by (auto simp: nfs4_handle_exception_def Let_def map_errors_zero nfs4_delay_def simp del: insert_iff split: if_splits prod.splits dest: wait_on_recovery_zero)
qed

lemma lock_exception_zero: "lock_exception L err ex c = (0, ex', c') \<Longrightarrow> \<not> ex_retry ex' \<Longrightarrow> err = 0"
  by (auto simp: lock_exception_def Let_def split: prod.splits dest: handle_exception_zero)

lemma lock_prepare_owner: "nfs4_lock_prepare L data c = (a, data', c') \<Longrightarrow> ld_owner data' = ld_owner data \<and> (a = Lock_No_Action \<longrightarrow> ld_status data' = - EBADF)"
  by (auto simp: nfs4_lock_prepare_def Let_def split: prod.splits bool.splits if_splits)

lemma lock_done_owner: "nfs4_lock_done L status sid data c = (b, data', c') \<Longrightarrow> ld_owner data' = ld_owner data \<and> (b \<longrightarrow> ld_status data' = status)"
  by (auto simp: nfs4_lock_done_def Let_def split: prod.splits bool.splits if_splits)

lemma lock_task_owner: "lock_task L n data c = Some (data', c') \<Longrightarrow> ld_owner data' = ld_owner data"
proof (induction n arbitrary: data c)
  case (Suc n)
  obtain a data1 c1 where p: "nfs4_lock_prepare L data c = (a, data1, c1)" by (metis surj_pair)
  obtain status sid c2 where r: "rpc_lock L data1 c1 = ((status, sid), c2)" by (metis surj_pair)
  obtain b data3 c3 where d: "nfs4_lock_done L status sid data1 c2 = (b, data3, c3)" by (metis surj_pair)
  show ?case using Suc lock_prepare_owner [OF p] lock_done_owner [OF d] p r d by (auto split: lock_action.splits bool.splits)
qed simp

lemma set_lock_owner: "set_lock L fl c = (status, fl', c') \<Longrightarrow> fl_owner fl' = fl_owner fl \<and> (status = 0 \<longrightarrow> fl_has_state fl')"
  by (auto simp: set_lock_def split: prod.splits if_splits)

section \<open>References\<close>

text \<open>The request holds one reference to the lock state of its owner if it says so, everybody else holds the references \<open>R\<close>.\<close>

definition lock_refs_are :: "(nat \<Rightarrow> nat) \<Rightarrow> 'w open_ctx \<Rightarrow> bool" where
  "lock_refs_are R c \<longleftrightarrow> oc_ok c \<and> locks_ok (oc_state c) \<and> lock_refs (oc_state c) = R"

definition held_by :: "file_lock \<Rightarrow> (nat \<Rightarrow> nat) \<Rightarrow> nat \<Rightarrow> nat" where
  "held_by fl R x = R x + of_bool (fl_has_state fl \<and> x = fl_owner fl)"

text \<open>What leaves the lock states of the file alone.\<close>

definition same_locks :: "open_state \<Rightarrow> open_state \<Rightarrow> bool" where
  "same_locks st st' \<longleftrightarrow> st_locks st' = st_locks st \<and> (LK_STATE_IN_USE \<in> st_flags st' \<longleftrightarrow> LK_STATE_IN_USE \<in> st_flags st)"

definition keeps_locks :: "'w open_ctx \<Rightarrow> 'w open_ctx \<Rightarrow> bool" where
  "keeps_locks c d \<longleftrightarrow> (oc_ok c \<longrightarrow> oc_ok d) \<and> same_locks (oc_state c) (oc_state d)"

lemma same_locks_refl [simp]: "same_locks st st"
  by (simp add: same_locks_def)

lemma same_locks_trans: "same_locks a b \<Longrightarrow> same_locks b c \<Longrightarrow> same_locks a c"
  by (simp add: same_locks_def)

lemma keeps_locks_refs: "keeps_locks c d \<Longrightarrow> lock_refs_are R c \<Longrightarrow> lock_refs_are R d"
  by (auto simp: keeps_locks_def same_locks_def lock_refs_are_def locks_ok_def lock_refs_def fun_eq_iff)

lemma refs_clp [simp]: "lock_refs_are R (c\<lparr>oc_clp := x\<rparr>) = lock_refs_are R c"
  by (simp add: lock_refs_are_def)

definition steady :: "'w lock_env \<Rightarrow> bool" where
  "steady L \<longleftrightarrow> (\<forall>c i. keeps_locks c (snd (le_alloc L c)) \<and> keeps_locks c (snd (le_wait_lock_seqid L i c)) \<and> keeps_locks c (snd (le_wait_open_seqid L c)) \<and>
       keeps_locks c (le_release_lock_seqid L i c) \<and> keeps_locks c (le_release_open_seqid L c) \<and> keeps_locks c (snd (le_setup_sequence L c)) \<and>
       keeps_locks c (snd (le_finish_sequence L c)) \<and> keeps_locks c (snd (le_wait L c)) \<and> keeps_locks c (le_tell_server L i c)) \<and>
     (\<forall>c k fl. keeps_locks c (snd (le_vfs_lock L k fl c)) \<and> st_flags (oc_state (snd (le_vfs_lock L k fl c))) = st_flags (oc_state c)) \<and> (\<forall>c e. keeps_locks c (snd (le_async_error L e c)) \<and> keeps_locks c (snd (le_sleep L e c))) \<and>
     (\<forall>c i data sid fl. keeps_locks c (snd (rpc_lock L data c)) \<and> keeps_locks c (snd (rpc_unlock L i sid c)) \<and> keeps_locks c (snd (rpc_lockt L fl c)) \<and>
       fl_owner (snd (fst (rpc_lockt L fl c))) = fl_owner fl) \<and>
     (\<forall>st. le_meanwhile L st = st) \<and> (\<forall>x. same_locks (m_state (x_mark x)) (m_state (x_mark (nfs4_inode_return_delegation (le_exc L) x))))"

lemma steadyD:
  assumes "steady L"
  shows "le_alloc L c = (b, d) \<Longrightarrow> keeps_locks c d" "le_wait_lock_seqid L i c = (b, d) \<Longrightarrow> keeps_locks c d" "le_wait_open_seqid L c = (b, d) \<Longrightarrow> keeps_locks c d"
    "keeps_locks c (le_release_lock_seqid L i c)" "keeps_locks c (le_release_open_seqid L c)" "le_setup_sequence L c = (b, d) \<Longrightarrow> keeps_locks c d"
    "le_finish_sequence L c = (b, d) \<Longrightarrow> keeps_locks c d" "le_wait L c = (r, d) \<Longrightarrow> keeps_locks c d" "keeps_locks c (le_tell_server L i c)"
    "do_vfs_lock L fl c = (r, d) \<Longrightarrow> keeps_locks c d" "le_async_error L e c = (b, d) \<Longrightarrow> keeps_locks c d" "le_sleep L e c = (b, d) \<Longrightarrow> keeps_locks c d"
    "rpc_lock L data c = (p, d) \<Longrightarrow> keeps_locks c d" "rpc_unlock L i sid c = (p, d) \<Longrightarrow> keeps_locks c d" "rpc_lockt L fl c = ((r, fl'), d) \<Longrightarrow> keeps_locks c d \<and> fl_owner fl' = fl_owner fl"
    "le_meanwhile L st = st" "do_vfs_lock L fl c = (r, d) \<Longrightarrow> st_flags (oc_state d) = st_flags (oc_state c)"
  using assms unfolding steady_def do_vfs_lock_def by (metis fst_conv snd_conv)+

lemma refs_upd:
  assumes "lock_refs_are R c" and "\<And>l. ls_owner (f l) = ls_owner l \<and> ls_count (f l) = ls_count l"
  shows "lock_refs_are R (oc_upd (upd_lock owner f) c)"
proof -
  have own: "map (\<lambda>l. ls_owner (if ls_owner l = owner then f l else l)) ls = map ls_owner ls" for ls using assms(2) by (auto intro: map_cong)
  have refs: "refs_in x (map (\<lambda>l. if ls_owner l = owner then f l else l) ls) = refs_in x ls" for x ls using assms(2) by (induction ls) auto
  have "locks_ok (upd_lock owner f (oc_state c))" using assms by (auto simp: lock_refs_are_def locks_ok_def upd_lock_def comp_def own)
  then show ?thesis using assms(1) by (simp add: lock_refs_are_def upd_lock_def lock_refs_def refs fun_eq_iff)
qed

lemma refs_take:
  assumes "lock_refs_are R c"
  shows "lock_refs_are (\<lambda>x. R x + of_bool (x = owner \<and> 0 < R owner)) (oc_upd (upd_lock owner (\<lambda>l. l\<lparr>ls_count := ls_count l + 1\<rparr>)) c)"
proof -
  let ?f = "\<lambda>l. if ls_owner l = owner then l\<lparr>ls_count := Suc (ls_count l)\<rparr> else l"
  have own: "map (\<lambda>l. ls_owner (if ls_owner l = owner then l\<lparr>ls_count := Suc (ls_count l)\<rparr> else l)) ls = map ls_owner ls" for ls by (auto intro: map_cong)
  have refs: "refs_in x (map ?f ls) = refs_in x ls + of_bool (x = owner \<and> owner \<in> ls_owner ` set ls)" if "distinct (map ls_owner ls)" for x ls
    using that by (induction ls) (auto simp: refs_in_absent)
  have ok: "oc_ok c" "distinct (map ls_owner (st_locks (oc_state c)))" "\<forall>l\<in>set (st_locks (oc_state c)). 0 < ls_count l" using assms by (auto simp: lock_refs_are_def locks_ok_def)
  have pos: "0 < R owner \<longleftrightarrow> owner \<in> ls_owner ` set (st_locks (oc_state c))"
  proof -
    have "0 < refs_in owner ls \<longleftrightarrow> owner \<in> ls_owner ` set ls" if "\<forall>l\<in>set ls. 0 < ls_count l" for ls using that by (induction ls) auto
    then show ?thesis using ok assms by (auto simp: lock_refs_are_def lock_refs_def)
  qed
  have "locks_ok (upd_lock owner (\<lambda>l. l\<lparr>ls_count := ls_count l + 1\<rparr>) (oc_state c))" using assms by (auto simp: lock_refs_are_def locks_ok_def upd_lock_def comp_def own)
  then show ?thesis using assms ok refs [OF ok(2)] pos by (auto simp: lock_refs_are_def upd_lock_def lock_refs_def fun_eq_iff)
qed

lemma refs_put:
  assumes "steady L" and "lock_refs_are R c"
  shows "lock_refs_are (\<lambda>x. R x - of_bool (x = owner)) (put_lock_ref L owner c)"
proof -
  obtain tell st where p: "nfs4_put_lock_state owner (oc_state c) = (tell, st)" by fastforce
  have ok: "oc_ok c" "locks_ok (oc_state c)" "lock_refs (oc_state c) = R" using assms(2) by (simp_all add: lock_refs_are_def)
  have "lock_refs_are (\<lambda>x. R x - of_bool (x = owner)) (oc_upd (\<lambda>_. st) c)"
    using put_lock_state_ok [OF ok(2) p] ok by (simp add: lock_refs_are_def fun_eq_iff)
  then show ?thesis using keeps_locks_refs [OF steadyD(9) [OF assms(1)]] p by (simp add: put_lock_ref_def Let_def)
qed

text \<open>Taking a reference for a call and giving it back.\<close>

lemma refs_take_put:
  assumes "steady L" and "lock_refs_are (\<lambda>x. R x + of_bool (x = owner \<and> 0 < R owner)) c"
  shows "lock_refs_are R (put_lock_ref L owner c)"
proof -
  have "(\<lambda>x. R x + of_bool (x = owner \<and> 0 < R owner) - of_bool (x = owner)) = R" by (auto simp: fun_eq_iff)
  then show ?thesis using refs_put [OF assms, of owner] by simp
qed

lemma refs_alloc: "steady L \<Longrightarrow> le_alloc L c = (b, d) \<Longrightarrow> lock_refs_are R c \<Longrightarrow> lock_refs_are R d"
  by (rule keeps_locks_refs [OF steadyD(1)])

lemma refs_release: "steady L \<Longrightarrow> lock_refs_are R c \<Longrightarrow> lock_refs_are R (le_release_lock_seqid L i c)" "steady L \<Longrightarrow> lock_refs_are R c \<Longrightarrow> lock_refs_are R (le_release_open_seqid L c)"
  by (rule keeps_locks_refs [OF steadyD(4)], assumption+) (rule keeps_locks_refs [OF steadyD(5)], assumption+)

lemma refs_finish: "steady L \<Longrightarrow> lock_refs_are R c \<Longrightarrow> lock_refs_are R (snd (le_finish_sequence L c))"
  by (metis keeps_locks_refs prod.collapse steadyD(7))

lemma locku_prepare_refs:
  assumes "steady L" and "lock_refs_are R c" and "nfs4_locku_prepare L owner c = (a, ts, d)"
  shows "lock_refs_are R d"
proof -
  obtain b c1 where 1: "le_wait_lock_seqid L owner c = (b, c1)" by fastforce
  obtain b2 c2 where 2: "le_setup_sequence L c1 = (b2, c2)" by fastforce
  have r1: "lock_refs_are R c1" and r2: "lock_refs_are R c2" using assms(1,2) 1 2 by (blast intro: keeps_locks_refs steadyD)+
  have "d \<in> {snd (le_finish_sequence L c1), c2, le_release_lock_seqid L owner c2}"
    using assms(3) 1 2 by (auto simp: nfs4_locku_prepare_def Let_def split: bool.splits if_splits)
  then show ?thesis using r1 r2 assms(1) by (auto intro: refs_release refs_finish)
qed

lemma locku_done_refs:
  assumes "steady L" and "lock_refs_are R c" and "nfs4_locku_done L owner ts status sid c = (b, d)"
  shows "lock_refs_are R d"
proof -
  obtain b1 c1 where 1: "le_finish_sequence L c = (b1, c1)" by fastforce
  have r1: "lock_refs_are R c1" using assms(1,2) 1 by (blast intro: keeps_locks_refs steadyD)
  obtain b2 c2 where 2: "le_async_error L status c1 = (b2, c2)" by fastforce
  have r2: "lock_refs_are R c2" using assms(1) r1 2 by (blast intro: keeps_locks_refs steadyD)
  have u: "lock_refs_are R ((oc_upd (upd_lock owner (\<lambda>l. l\<lparr>ls_stateid := sid\<rparr>)) c1)\<lparr>oc_clp := renew_lease ts (oc_clp c1)\<rparr>)" using r1 by (simp add: refs_upd)
  show ?thesis using assms(3) 1 2 r1 r2 u by (auto simp: nfs4_locku_done_def split: bool.splits if_splits intro: refs_release [OF assms(1)])
qed

lemma unlock_task_refs:
  assumes "steady L"
  shows "lock_refs_are R c \<Longrightarrow> unlock_task L n owner c = Some d \<Longrightarrow> lock_refs_are R d"
proof (induction n arbitrary: c)
  case (Suc n)
  obtain a ts c1 where p: "nfs4_locku_prepare L owner c = (a, ts, c1)" by (metis surj_pair)
  have r1: "lock_refs_are R c1" by (rule locku_prepare_refs [OF assms Suc.prems(1) p])
  obtain status sid c2 where u: "rpc_unlock L owner (case lock_of (Some owner) (oc_state c1) of None \<Rightarrow> zero_stateid | Some l \<Rightarrow> ls_stateid l) c1 = ((status, sid), c2)" by (metis surj_pair)
  have r2: "lock_refs_are R c2" using r1 u assms by (blast intro: keeps_locks_refs steadyD)
  obtain b c3 where d: "nfs4_locku_done L owner ts status sid c2 = (b, c3)" by fastforce
  have r3: "lock_refs_are R c3" by (rule locku_done_refs [OF assms r2 d])
  show ?case using Suc p u d r1 r3 by (auto split: lock_action.splits bool.splits)
qed simp

lemma do_unlck_refs:
  assumes "steady L" and "lock_refs_are R c" and "nfs4_do_unlck L n owner c = Some (r, d)"
  shows "lock_refs_are R d"
proof -
  obtain b c1 where 1: "le_alloc L c = (b, c1)" by fastforce
  have r1: "lock_refs_are R c1" using assms(1,2) 1 by (blast intro: refs_alloc)
  let ?c2 = "oc_upd (upd_lock owner (\<lambda>l. l\<lparr>ls_count := ls_count l + 1\<rparr>)) c1" and ?R = "\<lambda>x. R x + of_bool (x = owner \<and> 0 < R owner)"
  have r2: "lock_refs_are ?R ?c2" by (rule refs_take [OF r1])
  have fin: "lock_refs_are R (nfs4_locku_release_calldata L owner x)" if "lock_refs_are ?R x" for x
    unfolding nfs4_locku_release_calldata_def by (rule refs_take_put [OF assms(1)], rule refs_release [OF assms(1) that])
  show ?thesis using assms(3) 1 r1 fin [OF r2] fin [OF unlock_task_refs [OF assms(1) r2]]
    by (auto simp: nfs4_do_unlck_def Let_def split: bool.splits option.splits intro: refs_release [OF assms(1)])
qed

lemma lock_prepare_refs:
  assumes "steady L" and "lock_refs_are R c" and "nfs4_lock_prepare L data c = (a, data', d)"
  shows "lock_refs_are R d"
proof -
  let ?o = "ld_owner data"
  obtain b c1 where 1: "le_wait_lock_seqid L ?o c = (b, c1)" by fastforce
  have r1: "lock_refs_are R c1" using assms(1,2) 1 by (blast intro: keeps_locks_refs steadyD)
  obtain b2 c2 where 2: "(if \<not> lock_confirmed ?o (oc_state c1) then le_wait_open_seqid L c1 else (True, c1)) = (b2, c2)" by fastforce
  have r2: "lock_refs_are R c2" using assms(1) r1 2 by (auto split: if_splits intro: keeps_locks_refs steadyD)
  obtain b3 c3 where 3: "le_setup_sequence L c2 = (b3, c3)" by fastforce
  have r3: "lock_refs_are R c3" using assms(1) r2 3 by (blast intro: keeps_locks_refs steadyD)
  let ?f = "\<lambda>c. snd (le_finish_sequence L c)" and ?u = "\<lambda>c. snd (le_finish_sequence L (le_release_lock_seqid L ?o (le_release_open_seqid L c)))"
  have "d \<in> {?f c1, ?f (le_release_lock_seqid L ?o c2), ?u c2, c3, ?u c3}"
    using assms(3) unfolding nfs4_lock_prepare_def Let_def 1 prod.case by (cases b) (auto simp: 2 3 split: bool.splits if_splits prod.splits)
  then show ?thesis using r1 r2 r3 assms(1) by (auto intro: refs_release refs_finish)
qed

lemma lock_done_refs:
  assumes "steady L" and "lock_refs_are R c" and "nfs4_lock_done L status sid data c = (b, data', d)"
  shows "lock_refs_are R d"
proof -
  obtain b1 c1 where 1: "le_finish_sequence L c = (b1, c1)" by fastforce
  have r1: "lock_refs_are R c1" using assms(1,2) 1 by (blast intro: keeps_locks_refs steadyD)
  show ?thesis using assms(3) 1 r1 by (auto simp: nfs4_lock_done_def Let_def refs_upd split: bool.splits if_splits)
qed

lemma lock_task_refs:
  assumes "steady L"
  shows "lock_refs_are R c \<Longrightarrow> lock_task L n data c = Some (data', d) \<Longrightarrow> lock_refs_are R d"
proof (induction n arbitrary: data c)
  case (Suc n)
  obtain a data1 c1 where p: "nfs4_lock_prepare L data c = (a, data1, c1)" by (metis surj_pair)
  have r1: "lock_refs_are R c1" by (rule lock_prepare_refs [OF assms Suc.prems(1) p])
  obtain status sid c2 where u: "rpc_lock L data1 c1 = ((status, sid), c2)" by (metis surj_pair)
  have r2: "lock_refs_are R c2" using r1 u assms by (blast intro: keeps_locks_refs steadyD)
  obtain b data3 c3 where d: "nfs4_lock_done L status sid data1 c2 = (b, data3, c3)" by (metis surj_pair)
  have r3: "lock_refs_are R c3" by (rule lock_done_refs [OF assms r2 d])
  show ?case using Suc p u d r1 r3 by (auto split: lock_action.splits bool.splits)
qed simp

end
