(* ===== verification/Nfs4_Lock_Refs.thy ===== *)
theory Nfs4_Lock_Refs
  imports Nfs4_Lock_Proc_Correct
begin

text \<open>
  The references that a whole locking call keeps and the lock state that it leaves behind.
\<close>

section \<open>The handlers of errors\<close>

lemma recover_stateid_locks: "recover_stateid E x = (r, x') \<Longrightarrow> same_locks (m_state (x_mark x)) (m_state (x_mark x'))"
  by (auto simp: recover_stateid_def nfs4_schedule_stateid_recovery_def nfs4_state_mark_reclaim_nograce_def Let_def same_locks_def split: if_splits prod.splits)

lemma wait_on_recovery_locks: "wait_on_recovery E ex x = (r, ex', x') \<Longrightarrow> m_state (x_mark x') = m_state (x_mark x)"
  by (auto simp: wait_on_recovery_def Let_def split: if_splits prod.splits)

lemma x_clnt_locks [simp]: "m_state (x_mark (x_clnt f x)) = m_state (x_mark x)"
  by (simp add: x_clnt_def)

lemma handle_exception_locks:
  assumes "nfs4_handle_exception E err ex x = (r, ex', x')" and "\<And>x. same_locks (m_state (x_mark x)) (m_state (x_mark (nfs4_inode_return_delegation E x)))"
  shows "same_locks (m_state (x_mark x)) (m_state (x_mark x'))"
proof -
  have wait: "same_locks st (m_state (x_mark y'))" if "same_locks st (m_state (x_mark y))" "wait_on_recovery E e y = (r', e', y')" for st e y r' e' y'
    using that wait_on_recovery_locks by metis
  have later: "same_locks st (m_state (x_mark y'))" if "recover_stateid E y = (r1, y1)" "same_locks st (m_state (x_mark y))" "wait_on_recovery E e (x_clnt f y1) = (r', e', y')" for st e y r1 y1 f r' e' y'
    using wait_on_recovery_locks [OF that(3)] same_locks_trans [OF that(2) recover_stateid_locks [OF that(1)]] by simp
  show ?thesis using assms(1)
    by (auto simp: nfs4_handle_exception_def nfs4_delay_def Let_def assms(2) simp del: insert_iff split: if_splits prod.splits dest: recover_stateid_locks wait_on_recovery_locks intro: wait later)
qed

lemma refs_owner_flags [simp]: "lock_refs_are R (c\<lparr>oc_owner := (oc_owner c)\<lparr>ow_flags := fl\<rparr>\<rparr>) = lock_refs_are R c"
  by (simp add: lock_refs_are_def oc_state_def oc_ok_def)

lemma state_owner_flags [simp]: "oc_state (c\<lparr>oc_owner := (oc_owner c)\<lparr>ow_flags := fl\<rparr>\<rparr>) = oc_state c" "oc_ok (c\<lparr>oc_owner := (oc_owner c)\<lparr>ow_flags := fl\<rparr>\<rparr>) = oc_ok c"
  by (simp_all add: oc_state_def oc_ok_def)

lemma refs_state: "lock_refs_are R c \<Longrightarrow> same_locks (oc_state c) st \<Longrightarrow> lock_refs_are R (oc_upd (\<lambda>_. st) c)"
  by (auto simp: lock_refs_are_def same_locks_def locks_ok_def lock_refs_def fun_eq_iff)

lemma lock_exception_refs:
  assumes "steady L" and "lock_refs_are R c" and "lock_exception L err ex c = (r, ex', d)"
  shows "lock_refs_are R d"
proof -
  let ?x = "\<lparr>x_mark = \<lparr>m_state = oc_state c, m_owner_flags = ow_flags (oc_owner c), m_clp = oc_clp c\<rparr>, x_server = 0, x_nomap = False, x_slept = 0\<rparr>"
  obtain r1 ex1 x1 where h: "nfs4_handle_exception (le_exc L) err ex ?x = (r1, ex1, x1)" by (metis surj_pair)
  have "same_locks (oc_state c) (m_state (x_mark x1))" using handle_exception_locks [OF h] assms(1) by (simp add: steady_def)
  then show ?thesis using refs_state [OF assms(2)] assms(3) h by (auto simp: lock_exception_def Let_def)
qed

lemma stateid_recovery_locks:
  "same_locks (oc_state c) (m_state (snd (nfs4_schedule_stateid_recovery E \<lparr>m_state = oc_state c, m_owner_flags = fl, m_clp = x\<rparr>)))"
  by (auto simp: nfs4_schedule_stateid_recovery_def nfs4_state_mark_reclaim_nograce_def Let_def same_locks_def)

lemma setlk_error_refs: "lock_refs_are R c \<Longrightarrow> lock_refs_are R (nfs4_handle_setlk_error L owner new_owner err c)"
  unfolding nfs4_handle_setlk_error_def Let_def by (auto intro!: refs_state refs_upd stateid_recovery_locks)

section \<open>A locking call keeps the references\<close>

lemma lock_release_refs:
  assumes "steady L" and "lock_refs_are (\<lambda>x. R x + of_bool (x = ld_owner data \<and> 0 < R (ld_owner data))) c" and "nfs4_lock_release L n data c = Some d"
  shows "lock_refs_are R d"
proof -
  let ?R = "\<lambda>x. R x + of_bool (x = ld_owner data \<and> 0 < R (ld_owner data))"
  have o: "lock_refs_are ?R (le_release_open_seqid L c)" by (rule refs_release [OF assms(1,2)])
  show ?thesis using assms(3) refs_take_put [OF assms(1) refs_release(1) [OF assms(1) o]] refs_take_put [OF assms(1) do_unlck_refs [OF assms(1) o]]
    by (auto simp: nfs4_lock_release_def Let_def split: if_splits)
qed

lemma alloc_lockdata_refs:
  assumes "steady L" and "lock_refs_are R c" and "nfs4_alloc_lockdata L fl c = (r, d)"
  shows "case r of None \<Rightarrow> lock_refs_are R d | Some data \<Rightarrow> ld_owner data = fl_owner fl \<and> lock_refs_are (\<lambda>x. R x + of_bool (x = fl_owner fl \<and> 0 < R (fl_owner fl))) d"
proof -
  obtain b1 c1 where 1: "le_alloc L c = (b1, c1)" by fastforce
  obtain b2 c2 where 2: "le_alloc L c1 = (b2, c2)" by fastforce
  obtain b3 c3 where 3: "le_alloc L c2 = (b3, c3)" by fastforce
  have r1: "lock_refs_are R c1" and r2: "lock_refs_are R c2" and r3: "lock_refs_are R c3" using refs_alloc [OF assms(1)] assms(2) 1 2 3 by blast+
  show ?thesis using assms(3) 1 2 3 r1 r2 refs_release(2) [OF assms(1) r3] refs_take [OF r3, of "fl_owner fl"]
    by (auto simp: nfs4_alloc_lockdata_def split: bool.splits)
qed

lemma do_setlk_refs:
  assumes "steady L" and "lock_refs_are R c" and "nfs4_do_setlk L n cmd fl recovery c = Some (r, d)"
  shows "lock_refs_are R d"
proof -
  obtain dt c1 where a: "nfs4_alloc_lockdata L fl c = (dt, c1)" by fastforce
  note al = alloc_lockdata_refs [OF assms(1,2) a]
  show ?thesis
  proof (cases dt)
    case None
    then show ?thesis using assms(3) a al by (simp add: nfs4_do_setlk_def)
  next
    case (Some data)
    let ?R = "\<lambda>x. R x + of_bool (x = fl_owner fl \<and> 0 < R (fl_owner fl))"
    let ?data = "data\<lparr>ld_block := (cmd = F_SETLKW), ld_reclaim := (recovery = NFS_LOCK_RECLAIM), ld_privileged := (recovery \<noteq> NFS_LOCK_NEW)\<rparr>"
    have own: "ld_owner data = fl_owner fl" and r1: "lock_refs_are ?R c1" using al Some by simp_all
    have fin: "lock_refs_are R y" if "lock_refs_are ?R x" "ld_owner dd = fl_owner fl" "nfs4_lock_release L n dd x = Some y" for dd x y
      by (rule lock_release_refs [OF assms(1) _ that(3)]) (use that(1,2) in simp)
    obtain w c2 where w: "le_wait L c1 = (w, c2)" by fastforce
    have r2: "lock_refs_are ?R c2" using keeps_locks_refs [OF steadyD(8) [OF assms(1) w] r1] .
    have t: "lock_refs_are ?R x \<and> ld_owner dd = fl_owner fl" if "lock_task L n ?data c2 = Some (dd, x)" for dd x
      using lock_task_refs [OF assms(1) r2 that] lock_task_owner [OF that] own by simp
    show ?thesis
    proof (cases "le_run_error L c1")
      case None
      obtain dd c3 where l: "lock_task L n ?data c2 = Some (dd, c3)" using assms(3) Some a None w by (auto simp: nfs4_do_setlk_def Let_def split: option.splits)
      note t = t [OF l]
      let ?c4 = "if w = 0 \<and> ld_status dd \<noteq> 0 then nfs4_handle_setlk_error L (ld_owner dd) (ld_new_owner dd) (ld_status dd) c3 else c3"
      have "lock_refs_are ?R ?c4" using t setlk_error_refs by auto
      moreover have "nfs4_lock_release L n (dd\<lparr>ld_cancelled := (w \<noteq> 0)\<rparr>) ?c4 = Some d" using assms(3) Some a None w l by (auto simp: nfs4_do_setlk_def Let_def)
      ultimately show ?thesis using fin [of ?c4 "dd\<lparr>ld_cancelled := (w \<noteq> 0)\<rparr>"] t by simp
    next
      case (Some e)
      then show ?thesis using assms(3) \<open>dt = Some data\<close> a fin [OF r1, of ?data] own by (auto simp: nfs4_do_setlk_def Let_def)
    qed
  qed
qed

lemma set_lock_refs:
  assumes "steady L" and "lock_refs_are (held_by fl R) c" and "set_lock L fl c = (status, fl', d)"
  shows "lock_refs_are (held_by fl' R) d"
proof (cases "fl_has_state fl")
  case True
  then have "fl' = fl" "d = oc_upd (\<lambda>_. oc_state c) c" using assms(3) by (auto simp: set_lock_def nfs4_set_lock_state_def)
  then show ?thesis using assms(2) by (simp add: lock_refs_are_def)
next
  case False
  obtain r st where g: "nfs4_get_lock_state (le_lock_state_ok L c) (le_meanwhile L) (fl_owner fl) (oc_state c) = (r, st)" by fastforce
  have ok: "oc_ok c" "locks_ok (oc_state c)" "lock_refs (oc_state c) = held_by fl R" using assms(2) by (simp_all add: lock_refs_are_def)
  have same: "le_meanwhile L (oc_state c) = oc_state c" by (rule steadyD(16) [OF assms(1)])
  note get = get_lock_state_ok [OF ok(2) _ g, unfolded same, OF ok(2)]
  show ?thesis
  proof (cases r)
    case None
    then show ?thesis using assms(3) False g get ok by (auto simp: set_lock_def nfs4_set_lock_state_def lock_refs_are_def)
  next
    case (Some l)
    then show ?thesis using assms(3) False g get ok by (auto simp: set_lock_def nfs4_set_lock_state_def lock_refs_are_def held_by_def fun_eq_iff)
  qed
qed

lemma vfs_lock_refs: "steady L \<Longrightarrow> lock_refs_are R c \<Longrightarrow> do_vfs_lock L fl c = (r, d) \<Longrightarrow> lock_refs_are R d"
  by (rule keeps_locks_refs [OF steadyD(10)])

lemma setlk_once_refs:
  assumes "steady L" and "lock_refs_are (held_by fl R) c" and "nfs4_setlk_once L n cmd fl c = Some (r, fl', d)"
  shows "lock_refs_are (held_by fl' R) d"
proof -
  obtain status fl1 c1 where s: "set_lock L fl c = (status, fl1, c1)" by (metis surj_pair)
  note r1 = set_lock_refs [OF assms(1,2) s]
  obtain v c2 where v: "do_vfs_lock L (fl1\<lparr>fl_flags := fl_flags fl OR FL_ACCESS\<rparr>) c1 = (v, c2)" by fastforce
  note r2 = vfs_lock_refs [OF assms(1) r1 v]
  note run = assms(3) [unfolded nfs4_setlk_once_def Let_def s prod.case v]
  show ?thesis using run assms(2) r1 r2
    by (auto split: if_splits option.splits prod.splits intro: vfs_lock_refs [OF assms(1)] do_setlk_refs [OF assms(1)])
qed

lemma setlk_loop_refs:
  assumes "steady L"
  shows "lock_refs_are (held_by fl R) c \<Longrightarrow> setlk_loop L n k cmd fl ex c = Some (r, fl', d) \<Longrightarrow> lock_refs_are (held_by fl' R) d"
proof (induction k arbitrary: fl ex c)
  case (Suc k)
  obtain err fl1 c1 where s: "nfs4_setlk_once L n cmd fl c = Some (err, fl1, c1)" using Suc.prems by (auto split: option.splits)
  obtain e ex2 c2 where x: "lock_exception L (if err = - NFS4ERR_DENIED then - EAGAIN else err) ex c1 = (e, ex2, c2)" by (metis surj_pair)
  have "lock_refs_are (held_by fl1 R) c2" by (rule lock_exception_refs [OF assms setlk_once_refs [OF assms Suc.prems(1) s] x])
  then show ?case using Suc.prems Suc.IH s x by (auto split: if_splits)
qed simp

lemma lock_wait_refs:
  assumes "steady L"
  shows "lock_refs_are (held_by fl R) c \<Longrightarrow> lock_wait_loop L n k cmd timeout fl c = Some (r, fl', d) \<Longrightarrow> lock_refs_are (held_by fl' R) d"
proof (induction k arbitrary: timeout fl c)
  case (Suc k)
  obtain status fl1 c1 where s: "nfs4_proc_setlk L n cmd fl c = Some (status, fl1, c1)" using Suc.prems by (auto split: option.splits)
  have r1: "lock_refs_are (held_by fl1 R) c1" using setlk_loop_refs [OF assms Suc.prems(1)] s unfolding nfs4_proc_setlk_def by blast
  obtain b c2 where w: "le_sleep L timeout c1 = (b, c2)" by fastforce
  have "lock_refs_are (held_by fl1 R) c2" by (rule keeps_locks_refs [OF steadyD(12) [OF assms w] r1])
  then show ?case using Suc.prems Suc.IH s w r1 by (auto split: if_splits)
qed simp

text \<open>LOCKT gives its reference back; unlocking keeps it.\<close>

lemma getlk_once_refs:
  assumes "steady L" and "lock_refs_are (held_by fl R) c" and "nfs4_getlk_once L fl c = (r, fl', d)"
  shows "lock_refs_are (held_by fl' R) d"
proof -
  obtain status fl1 c1 where s: "set_lock L fl c = (status, fl1, c1)" by (metis surj_pair)
  note r1 = set_lock_refs [OF assms(1,2) s] and o1 = set_lock_owner [OF s]
  obtain t fl2 c2 where t: "rpc_lockt L fl1 c1 = ((t, fl2), c2)" by (metis surj_pair)
  have r2: "lock_refs_are (held_by fl1 R) c2" using keeps_locks_refs [OF _ r1] steadyD(15) [OF assms(1) t] by blast
  show ?thesis
  proof (cases "status = 0")
    case True
    then have "(\<lambda>x. held_by fl1 R x - of_bool (x = fl_owner fl1)) = held_by fl' R" using o1 assms(3) s t by (auto simp: nfs4_getlk_once_def Let_def held_by_def fun_eq_iff)
    moreover have "d = put_lock_ref L (fl_owner fl1) c2" using True assms(3) s t by (auto simp: nfs4_getlk_once_def Let_def)
    ultimately show ?thesis using refs_put [OF assms(1) r2, of "fl_owner fl1"] by simp
  next
    case False
    then show ?thesis using assms(3) s r1 by (simp add: nfs4_getlk_once_def)
  qed
qed

lemma getlk_loop_refs:
  assumes "steady L"
  shows "lock_refs_are (held_by fl R) c \<Longrightarrow> getlk_loop L k fl ex c = Some (r, fl', d) \<Longrightarrow> lock_refs_are (held_by fl' R) d"
proof (induction k arbitrary: fl ex c)
  case (Suc k)
  obtain err fl1 c1 where s: "nfs4_getlk_once L fl c = (err, fl1, c1)" by (metis surj_pair)
  obtain e ex2 c2 where x: "lock_exception L err ex c1 = (e, ex2, c2)" by (metis surj_pair)
  have "lock_refs_are (held_by fl1 R) c2" by (rule lock_exception_refs [OF assms getlk_once_refs [OF assms Suc.prems(1) s] x])
  then show ?case using Suc.prems Suc.IH s x by (auto split: if_splits)
qed simp

lemma proc_unlck_refs:
  assumes "steady L" and "lock_refs_are (held_by fl R) c" and "nfs4_proc_unlck L n fl c = Some (r, fl', d)"
  shows "lock_refs_are (held_by fl' R) d"
proof -
  obtain status fl1 c1 where s: "set_lock L fl c = (status, fl1, c1)" by (metis surj_pair)
  note r1 = set_lock_refs [OF assms(1,2) s]
  obtain v c2 where v: "do_vfs_lock L (fl1\<lparr>fl_flags := fl_flags fl OR FL_EXISTS\<rparr>) c1 = (v, c2)" by fastforce
  note r2 = vfs_lock_refs [OF assms(1) r1 v]
  obtain b c3 where a: "le_alloc L c2 = (b, c3)" by fastforce
  note r3 = refs_alloc [OF assms(1) a r2]
  show ?thesis using assms(3) r2 r3 s v a
    by (auto simp: nfs4_proc_unlck_def Let_def split: if_splits option.splits prod.splits bool.splits intro: do_unlck_refs [OF assms(1)] keeps_locks_refs [OF steadyD(8) [OF assms(1)]])
qed

lemma proc_lock_refs:
  assumes "steady L" and "lock_refs_are (held_by fl R) c" and "nfs4_proc_lock L n has_state f_mode cmd fl c = Some (r, fl', d)"
  shows "lock_refs_are (held_by fl' R) d"
  using assms(2,3) getlk_loop_refs [OF assms(1,2)] proc_unlck_refs [OF assms(1,2)] lock_wait_refs [OF assms(1,2)]
  by (auto simp: nfs4_proc_lock_def split: if_splits)

section \<open>Granted locks\<close>

text \<open>The lock state of the owner is in use and has the state id that the server gave with the lock.\<close>

definition lock_is :: "nat \<Rightarrow> nfs4_stateid \<Rightarrow> 'w open_ctx \<Rightarrow> bool" where
  "lock_is owner sid c \<longleftrightarrow> (case lock_of (Some owner) (oc_state c) of None \<Rightarrow> False | Some l \<Rightarrow> ls_stateid l = sid \<and> NFS_LOCK_INITIALIZED \<in> ls_flags l)"

definition server_granted :: "'w lock_env \<Rightarrow> nat \<Rightarrow> 'w open_ctx \<Rightarrow> bool" where
  "server_granted L owner c \<longleftrightarrow> (\<exists>data b sid e. ld_owner data = owner \<and> rpc_lock L data b = ((0, sid), e) \<and> lock_is owner sid c)"

text \<open>The open has a delegation, and the VFS has granted the lock.\<close>

definition locally_granted :: "'w lock_env \<Rightarrow> nat \<Rightarrow> 'w open_ctx \<Rightarrow> bool" where
  "locally_granted L owner c \<longleftrightarrow> NFS_DELEGATED_STATE \<in> st_flags (oc_state c) \<and> (\<exists>fl b e. fl_owner fl = owner \<and> do_vfs_lock L fl b = (0, e) \<and> oc_state e = oc_state c)"

lemma lock_of_upd: "(\<And>l. ls_owner (f l) = ls_owner l) \<Longrightarrow> lock_of (Some owner) (upd_lock owner f st) = map_option f (lock_of (Some owner) st)"
proof -
  assume own: "\<And>l. ls_owner (f l) = ls_owner l"
  have "find (\<lambda>l. ls_owner l = owner) (map (\<lambda>l. if ls_owner l = owner then f l else l) ls) = map_option f (find (\<lambda>l. ls_owner l = owner) ls)" for ls
    by (induction ls) (simp_all add: own)
  then show ?thesis by (simp add: lock_of_def upd_lock_def)
qed

lemma lock_present: "lock_refs_are R c \<Longrightarrow> 0 < R owner \<Longrightarrow> \<exists>l. lock_of (Some owner) (oc_state c) = Some l"
proof -
  have "refs_in owner ls = 0" if "find (\<lambda>l. ls_owner l = owner) ls = None" for ls using that by (induction ls) (auto split: if_splits)
  then show "lock_refs_are R c \<Longrightarrow> 0 < R owner \<Longrightarrow> ?thesis" by (cases "lock_of (Some owner) (oc_state c)") (auto simp: lock_refs_are_def lock_refs_def lock_of_def)
qed

lemma lock_is_keeps: "keeps_locks c d \<Longrightarrow> lock_is owner sid c \<Longrightarrow> lock_is owner sid d"
  by (simp add: keeps_locks_def same_locks_def lock_is_def lock_of_def)

lemma server_granted_keeps: "keeps_locks c d \<Longrightarrow> server_granted L owner c \<Longrightarrow> server_granted L owner d"
  unfolding server_granted_def using lock_is_keeps by blast

lemma lock_done_is:
  assumes "steady L" and "lock_refs_are R c" and "0 < R (ld_owner data)" and "nfs4_lock_done L 0 sid data c = (True, data', d)"
  shows "lock_is (ld_owner data) sid d"
proof -
  obtain b c1 where 1: "le_finish_sequence L c = (b, c1)" by fastforce
  have r1: "lock_refs_are R c1" using assms(1,2) 1 by (blast intro: keeps_locks_refs steadyD)
  obtain l where l: "lock_of (Some (ld_owner data)) (oc_state c1) = Some l" using lock_present [OF r1 assms(3)] by blast
  have ok: "oc_ok c1" using r1 by (simp add: lock_refs_are_def)
  show ?thesis using assms(4) 1 l ok by (auto simp: nfs4_lock_done_def Let_def lock_is_def lock_of_upd split: bool.splits if_splits)
qed

lemma lock_task_granted:
  assumes "steady L"
  shows "lock_refs_are R c \<Longrightarrow> 0 < R (ld_owner data) \<Longrightarrow> lock_task L n data c = Some (data', d) \<Longrightarrow> ld_status data' = 0 \<Longrightarrow> server_granted L (ld_owner data) d"
proof (induction n arbitrary: data c)
  case (Suc n)
  obtain a data1 c1 where p: "nfs4_lock_prepare L data c = (a, data1, c1)" by (metis surj_pair)
  have r1: "lock_refs_are R c1" by (rule lock_prepare_refs [OF assms Suc.prems(1) p])
  note o1 = lock_prepare_owner [OF p]
  obtain status sid c2 where u: "rpc_lock L data1 c1 = ((status, sid), c2)" by (metis surj_pair)
  have r2: "lock_refs_are R c2" using r1 u assms by (blast intro: keeps_locks_refs steadyD)
  obtain b data3 c3 where d: "nfs4_lock_done L status sid data1 c2 = (b, data3, c3)" by (metis surj_pair)
  have r3: "lock_refs_are R c3" by (rule lock_done_refs [OF assms r2 d])
  note o3 = lock_done_owner [OF d]
  have g: "server_granted L (ld_owner data) c3" if "b" "status = 0"
    using lock_done_is [OF assms r2, of data1 sid data3 c3] that d o1 u Suc.prems(2) unfolding server_granted_def by metis
  show ?case using Suc.prems Suc.IH [OF r1, of data1] Suc.IH [OF r3, of data3] p u d o1 o3 g by (auto split: lock_action.splits bool.splits)
qed simp

text \<open>Giving back one of two references leaves the lock state alone.\<close>

lemma put_lock_find: "distinct (map ls_owner ls) \<Longrightarrow> 2 \<le> refs_in owner ls \<Longrightarrow> put_lock owner ls = (r, ls') \<Longrightarrow>
    find (\<lambda>l. ls_owner l = owner) ls' = map_option (\<lambda>l. l\<lparr>ls_count := ls_count l - 1\<rparr>) (find (\<lambda>l. ls_owner l = owner) ls)"
proof (induction ls arbitrary: r ls')
  case (Cons k ls)
  then show ?case by (cases "ls_owner k = owner") (auto simp: Let_def refs_in_absent split: prod.splits if_splits)
qed simp

lemma put_lock_is:
  assumes "steady L" and "lock_refs_are R c" and "2 \<le> R owner" and "lock_is owner sid c"
  shows "lock_is owner sid (put_lock_ref L owner c)"
proof -
  obtain r ls where p: "put_lock owner (st_locks (oc_state c)) = (r, ls)" by fastforce
  obtain tell st where q: "nfs4_put_lock_state owner (oc_state c) = (tell, st)" by fastforce
  have ok: "oc_ok c" "distinct (map ls_owner (st_locks (oc_state c)))" "2 \<le> refs_in owner (st_locks (oc_state c))"
    using assms by (auto simp: lock_refs_are_def locks_ok_def lock_refs_def)
  have "st_locks st = ls" using p q by (auto simp: nfs4_put_lock_state_def Let_def clear_flag_def split: option.splits)
  then have "lock_is owner sid (oc_upd (\<lambda>_. st) c)" using put_lock_find [OF ok(2,3) p] assms(4) ok(1) by (auto simp: lock_is_def lock_of_def split: option.splits)
  then show ?thesis using lock_is_keeps [OF steadyD(9) [OF assms(1)]] q by (simp add: put_lock_ref_def Let_def)
qed

lemma do_setlk_granted:
  assumes "steady L" and "lock_refs_are R c" and "0 < R (fl_owner fl)" and "nfs4_do_setlk L n cmd fl recovery c = Some (0, d)" and "\<And>d. le_run_error L d \<noteq> Some 0"
  shows "server_granted L (fl_owner fl) d"
proof -
  let ?R = "\<lambda>x. R x + of_bool (x = fl_owner fl \<and> 0 < R (fl_owner fl))"
  obtain dt c1 where a: "nfs4_alloc_lockdata L fl c = (dt, c1)" by fastforce
  then obtain data where dt: "dt = Some data" using assms(4) by (cases dt) (auto simp: nfs4_do_setlk_def)
  have own: "ld_owner data = fl_owner fl" and r1: "lock_refs_are ?R c1" using alloc_lockdata_refs [OF assms(1,2) a] dt by simp_all
  let ?data = "data\<lparr>ld_block := (cmd = F_SETLKW), ld_reclaim := (recovery = NFS_LOCK_RECLAIM), ld_privileged := (recovery \<noteq> NFS_LOCK_NEW)\<rparr>"
  have re: "le_run_error L c1 = None" using assms(4,5) a dt by (auto simp: nfs4_do_setlk_def Let_def split: option.splits)
  obtain ret c2 where w: "le_wait L c1 = (ret, c2)" by fastforce
  have r2: "lock_refs_are ?R c2" using keeps_locks_refs [OF steadyD(8) [OF assms(1) w] r1] .
  obtain dd c3 where t: "lock_task L n ?data c2 = Some (dd, c3)" using assms(4) a dt re w by (auto simp: nfs4_do_setlk_def Let_def split: option.splits)
  have 0: "ret = 0" "ld_status dd = 0" and rel: "nfs4_lock_release L n (dd\<lparr>ld_cancelled := False\<rparr>) c3 = Some d"
    using assms(4) unfolding nfs4_do_setlk_def a dt by (auto simp: re w t Let_def split: if_splits)
  have o3: "ld_owner dd = fl_owner fl" using lock_task_owner [OF t] own by simp
  have g3: "server_granted L (fl_owner fl) c3" using lock_task_granted [OF assms(1) r2 _ t 0(2)] own assms(3) by simp
  let ?c4 = "le_release_lock_seqid L (fl_owner fl) (le_release_open_seqid L c3)"
  have g4: "server_granted L (fl_owner fl) ?c4" by (intro server_granted_keeps [OF steadyD(4) [OF assms(1)]] server_granted_keeps [OF steadyD(5) [OF assms(1)] g3])
  have r4: "lock_refs_are ?R ?c4" by (intro refs_release [OF assms(1)] lock_task_refs [OF assms(1) r2 t])
  have "d = put_lock_ref L (fl_owner fl) ?c4" using rel o3 by (simp add: nfs4_lock_release_def Let_def)
  moreover have "lock_is (fl_owner fl) sid (put_lock_ref L (fl_owner fl) ?c4)" if "lock_is (fl_owner fl) sid ?c4" for sid
    by (rule put_lock_is [OF assms(1) r4 _ that]) (use assms(3) in simp)
  ultimately show ?thesis using g4 unfolding server_granted_def by blast
qed

lemma lock_exception_keeps: "lock_exception L 0 ex c = (r, ex', d) \<Longrightarrow> oc_ok c \<Longrightarrow> keeps_locks c d \<and> oc_state d = oc_state c"
  by (auto simp: lock_exception_def nfs4_handle_exception_def Let_def keeps_locks_def)

lemma setlk_once_owner: "nfs4_setlk_once L n cmd fl c = Some (err, fl', d) \<Longrightarrow> fl_owner fl' = fl_owner fl"
  by (auto simp: nfs4_setlk_once_def Let_def split: if_splits prod.splits option.splits dest!: set_lock_owner)

lemma setlk_once_granted:
  assumes "steady L" and "lock_refs_are (held_by fl R) c" and "nfs4_setlk_once L n cmd fl c = Some (0, fl', d)" and "\<And>d. le_run_error L d \<noteq> Some 0"
  shows "server_granted L (fl_owner fl) d \<or> locally_granted L (fl_owner fl) d"
proof -
  obtain status fl1 c1 where s: "set_lock L fl c = (status, fl1, c1)" by (metis surj_pair)
  note o1 = set_lock_owner [OF s] and r1 = set_lock_refs [OF assms(1,2) s]
  obtain v c2 where v: "do_vfs_lock L (fl1\<lparr>fl_flags := fl_flags fl OR FL_ACCESS\<rparr>) c1 = (v, c2)" by fastforce
  note r2 = vfs_lock_refs [OF assms(1) r1 v]
  obtain w c3 where w: "do_vfs_lock L (fl1\<lparr>fl_flags := fl_flags fl AND NOT FL_SLEEP\<rparr>) c2 = (w, c3)" by fastforce
  note run = assms(3) [unfolded nfs4_setlk_once_def Let_def s prod.case v w]
  have local: "locally_granted L (fl_owner fl) c3" if "NFS_DELEGATED_STATE \<in> st_flags (oc_state c2)" "w = 0"
    unfolding locally_granted_def
  proof (intro conjI exI)
    show "NFS_DELEGATED_STATE \<in> st_flags (oc_state c3)" using steadyD(17) [OF assms(1) w] that(1) by simp
    show "do_vfs_lock L (fl1\<lparr>fl_flags := fl_flags fl AND NOT FL_SLEEP\<rparr>) c2 = (0, c3)" using w that(2) by simp
  qed (use o1 in simp_all)
  have server: "server_granted L (fl_owner fl) e" if "nfs4_do_setlk L n cmd fl1 NFS_LOCK_NEW c2 = Some (0, x)" "do_vfs_lock L f x = (y, e)" "status = 0" for x f y e
    using server_granted_keeps [OF steadyD(10) [OF assms(1) that(2)] do_setlk_granted [OF assms(1) r2 _ that(1) assms(4)]] o1 that(3) by (simp add: held_by_def)
  show ?thesis using run local server by (auto split: if_splits option.splits prod.splits)
qed

lemma setlk_loop_granted:
  assumes "steady L" and "\<And>d. le_run_error L d \<noteq> Some 0"
  shows "lock_refs_are (held_by fl R) c \<Longrightarrow> setlk_loop L n k cmd fl ex c = Some (r, fl', d) \<Longrightarrow>
    fl_owner fl' = fl_owner fl \<and> (r = 0 \<longrightarrow> server_granted L (fl_owner fl) d \<or> locally_granted L (fl_owner fl) d)"
proof (induction k arbitrary: fl ex c)
  case (Suc k)
  obtain err fl1 c1 where s: "nfs4_setlk_once L n cmd fl c = Some (err, fl1, c1)" using Suc.prems by (auto split: option.splits)
  note o1 = setlk_once_owner [OF s] and r1 = setlk_once_refs [OF assms(1) Suc.prems(1) s]
  obtain e ex2 c2 where x: "lock_exception L (if err = - NFS4ERR_DENIED then - EAGAIN else err) ex c1 = (e, ex2, c2)" by (metis surj_pair)
  show ?case
  proof (cases "ex_retry ex2")
    case True
    then show ?thesis using Suc.prems Suc.IH [OF lock_exception_refs [OF assms(1) r1 x], of ex2] s x o1 by simp
  next
    case False
    then have fin: "e = r" "fl' = fl1" "d = c2" using Suc.prems s x by simp_all
    have "server_granted L (fl_owner fl) d \<or> locally_granted L (fl_owner fl) d" if "r = 0"
    proof -
      have "err = 0" using lock_exception_zero [of L "if err = - NFS4ERR_DENIED then - EAGAIN else err" ex c1 ex2 c2] x False fin that by (auto split: if_splits)
      moreover have "oc_ok c1" using r1 by (simp add: lock_refs_are_def)
      ultimately have k: "keeps_locks c1 d" "oc_state d = oc_state c1" using x fin lock_exception_keeps [of L ex c1] by simp_all
      have "server_granted L (fl_owner fl) c1 \<or> locally_granted L (fl_owner fl) c1" using setlk_once_granted [OF assms(1) Suc.prems(1) _ assms(2)] s \<open>err = 0\<close> by blast
      then show ?thesis using server_granted_keeps [OF k(1)] k(2) by (auto simp: locally_granted_def)
    qed
    then show ?thesis using o1 fin by simp
  qed
qed simp

lemma lock_wait_granted:
  assumes "steady L" and "\<And>d. le_run_error L d \<noteq> Some 0"
  shows "lock_refs_are (held_by fl R) c \<Longrightarrow> lock_wait_loop L n k cmd timeout fl c = Some (0, fl', d) \<Longrightarrow> server_granted L (fl_owner fl) d \<or> locally_granted L (fl_owner fl) d"
proof (induction k arbitrary: timeout fl c)
  case (Suc k)
  obtain status fl1 c1 where s: "nfs4_proc_setlk L n cmd fl c = Some (status, fl1, c1)" using Suc.prems by (auto split: option.splits)
  note g = setlk_loop_granted [OF assms Suc.prems(1) s [unfolded nfs4_proc_setlk_def]] and r1 = setlk_loop_refs [OF assms(1) Suc.prems(1) s [unfolded nfs4_proc_setlk_def]]
  obtain b c2 where w: "le_sleep L timeout c1 = (b, c2)" by fastforce
  have "lock_refs_are (held_by fl1 R) c2" by (rule keeps_locks_refs [OF steadyD(12) [OF assms(1) w] r1])
  then show ?case using Suc.prems s w g Suc.IH [of fl1 c2] by (auto split: if_splits)
qed simp

lemma proc_lock_granted:
  assumes "steady L" and "\<And>d. le_run_error L d \<noteq> Some 0" and "lock_refs_are (held_by fl R) c" and "nfs4_proc_lock L n has_state f_mode cmd fl c = Some (0, fl', d)"
    and "cmd \<in> {F_SETLK, F_SETLKW}" and "fl_type fl \<noteq> F_UNLCK"
  shows "server_granted L (fl_owner fl) d \<or> locally_granted L (fl_owner fl) d"
  using assms(4-6) lock_wait_granted [OF assms(1-3)] by (auto simp: nfs4_proc_lock_def split: if_splits)

section \<open>Locks that are lost\<close>

text \<open>With a lease that has expired and no permission to take locks again, the lock is marked, and reading and writing under it fail from then on.\<close>

lemma lock_expired_lost:
  assumes "steady L" and "lock_refs_are (held_by fl R) c" and "fl_has_state fl" and "\<not> le_recover_lost_locks L" and "nfs4_lock_expired L n fl c = Some (r, d)"
  shows "r = 0 \<and> fst (nfs4_select_rw_stateid deleg cap dst (Some (fl_owner fl)) (oc_state d)) = - EIO"
proof -
  obtain err fl1 c1 where s: "set_lock L fl c = (err, fl1, c1)" by (metis surj_pair)
  have 1: "err = 0" "fl1 = fl" using assms(3) s by (auto simp: set_lock_def nfs4_set_lock_state_def)
  have r1: "lock_refs_are (held_by fl R) c1" using set_lock_refs [OF assms(1,2) s] 1 by simp
  let ?d = "oc_upd (upd_lock (fl_owner fl) (\<lambda>l. l\<lparr>ls_flags := insert NFS_LOCK_LOST (ls_flags l)\<rparr>)) c1"
  have d: "r = 0" "d = ?d" using assms(4,5) s 1 by (simp_all add: nfs4_lock_expired_def)
  have rd: "lock_refs_are (held_by fl R) ?d" using r1 by (simp add: refs_upd)
  obtain l where l: "lock_of (Some (fl_owner fl)) (oc_state c1) = Some l" using lock_present [OF r1, of "fl_owner fl"] assms(3) by (auto simp: held_by_def)
  have "lock_of (Some (fl_owner fl)) (oc_state ?d) = Some (l\<lparr>ls_flags := insert NFS_LOCK_LOST (ls_flags l)\<rparr>)" using r1 l by (simp add: lock_refs_are_def lock_of_upd)
  then have "rw_stateid deleg (Some (fl_owner fl)) (oc_state ?d) = None" by (simp add: rw_stateid_def)
  moreover have "locks_ok (oc_state ?d)" using rd unfolding lock_refs_are_def by blast
  ultimately show ?thesis using d by (simp add: nfs4_select_rw_stateid_spec)
qed

text \<open>The check of locks by their state ids does not say that they are all valid, even when the server says so of each.\<close>

lemma check_locks_valid:
  assumes "\<And>sid c. fst (le_test_stateid L sid c) = 0 \<and> keeps_locks c (snd (le_test_stateid L sid c))"
  shows "lock_refs_are R c \<Longrightarrow> check_locks_loop L ls ret c = (r, d) \<Longrightarrow> r = ret \<and> lock_refs_are R d"
proof (induction ls arbitrary: c)
  case (Cons l ls)
  obtain t c1 where t: "le_test_stateid L (ls_stateid l) c = (t, c1)" by fastforce
  have "t = 0" "keeps_locks c c1" using assms [of "ls_stateid l" c] t by simp_all
  then show ?case using Cons t keeps_locks_refs by (auto split: if_splits)
qed simp

lemma valid_locks_lost:
  assumes "steady L" and "\<And>sid c. fst (le_test_stateid L sid c) = 0 \<and> keeps_locks c (snd (le_test_stateid L sid c))" and "lock_refs_are (held_by fl R) c"
    and "fl_has_state fl" and "\<not> le_recover_lost_locks L" and "nfs41_lock_expired L n fl c = Some (r, d)"
  shows "fst (nfs4_select_rw_stateid deleg cap dst (Some (fl_owner fl)) (oc_state d)) = - EIO"
proof -
  have used: "LK_STATE_IN_USE \<in> st_flags (oc_state c)"
  proof -
    have "st_locks (oc_state c) \<noteq> []" using lock_present [OF assms(3), of "fl_owner fl"] assms(4) by (auto simp: held_by_def lock_of_def)
    then show ?thesis using assms(3) by (simp add: lock_refs_are_def locks_ok_def)
  qed
  obtain s c1 where s: "nfs41_check_expired_locks L c = (s, c1)" by fastforce
  then have "s = - NFS4ERR_BAD_STATEID" and r1: "lock_refs_are (held_by fl R) c1" using check_locks_valid [OF assms(2,3)] unfolding nfs41_check_expired_locks_def by blast+
  then have "nfs4_lock_expired L n fl c1 = Some (r, d)" using assms(6) used s by (simp add: nfs41_lock_expired_def)
  then show ?thesis using lock_expired_lost [OF assms(1) r1 assms(4,5)] by blast
qed

end
