(* ===== verification/Nfs4_Lock_Taken.thy ===== *)
theory Nfs4_Lock_Taken
  imports Nfs4_Lock_Refs
begin

text \<open>
  A lock that nobody holds is taken: with a server that grants it and a system that does its part, the call returns, and it returns 0.
\<close>

section \<open>The environment\<close>

definition state_kept :: "'w open_ctx \<Rightarrow> 'w open_ctx \<Rightarrow> bool" where
  "state_kept c d \<longleftrightarrow> (oc_ok c \<longrightarrow> oc_ok d \<and> oc_state d = oc_state c)"

text \<open>The server grants locks with the state id \<open>sid\<close>, memory and the VFS do their part, and nothing else happens to the open state.\<close>

definition obliging :: "'w lock_env \<Rightarrow> nfs4_stateid \<Rightarrow> bool" where
  "obliging L sid \<longleftrightarrow> (\<forall>c. (\<exists>d. le_alloc L c = (True, d) \<and> state_kept c d)) \<and> (\<forall>c i. \<exists>d. le_wait_lock_seqid L i c = (True, d) \<and> state_kept c d) \<and>
     (\<forall>c. \<exists>d. le_wait_open_seqid L c = (True, d) \<and> state_kept c d) \<and> (\<forall>c. \<exists>d. le_setup_sequence L c = (True, d) \<and> state_kept c d) \<and>
     (\<forall>c. \<exists>d. le_finish_sequence L c = (True, d) \<and> state_kept c d) \<and> (\<forall>c. \<exists>d. le_wait L c = (0, d) \<and> state_kept c d) \<and>
     (\<forall>c. le_run_error L c = None \<and> le_lock_state_ok L c) \<and> (\<forall>c data. \<exists>d. rpc_lock L data c = ((0, sid), d) \<and> state_kept c d) \<and>
     (\<forall>c k fl. \<exists>d. le_vfs_lock L k fl c = (0, d) \<and> state_kept c d) \<and> (\<forall>c d. le_reclaim_seqcount L c = le_reclaim_seqcount L d) \<and> le_posix_locks L"

lemma obligingD:
  assumes "obliging L sid"
  shows "\<exists>d. le_alloc L c = (True, d) \<and> state_kept c d" "\<exists>d. le_wait_lock_seqid L i c = (True, d) \<and> state_kept c d"
    "\<exists>d. le_wait_open_seqid L c = (True, d) \<and> state_kept c d" "\<exists>d. le_setup_sequence L c = (True, d) \<and> state_kept c d"
    "\<exists>d. le_finish_sequence L c = (True, d) \<and> state_kept c d" "\<exists>d. le_wait L c = (0, d) \<and> state_kept c d" "le_run_error L c = None" "le_lock_state_ok L c"
    "\<exists>d. rpc_lock L data c = ((0, sid), d) \<and> state_kept c d" "\<exists>d. do_vfs_lock L fl c = (0, d) \<and> state_kept c d" "le_reclaim_seqcount L c = le_reclaim_seqcount L d" "le_posix_locks L"
  using assms unfolding obliging_def do_vfs_lock_def by blast+

section \<open>The task\<close>

lemma prepare_sends:
  assumes "obliging L sid" and "oc_ok c" and "nfs4_valid_open_stateid (oc_state c)"
  shows "\<exists>data' d. nfs4_lock_prepare L data c = (Lock_Send, data', d)"
proof -
  obtain c1 where 1: "le_wait_lock_seqid L (ld_owner data) c = (True, c1)" "state_kept c c1" using obligingD(2) [OF assms(1)] by blast
  obtain c2 where 2: "(if \<not> lock_confirmed (ld_owner data) (oc_state c1) then le_wait_open_seqid L c1 else (True, c1)) = (True, c2)" "state_kept c1 c2"
    using obligingD(3) [OF assms(1), of c1] by (cases "lock_confirmed (ld_owner data) (oc_state c1)") (auto simp: state_kept_def)
  obtain c3 where 3: "le_setup_sequence L c2 = (True, c3)" using obligingD(4) [OF assms(1)] by blast
  have "nfs4_valid_open_stateid (oc_state c2)" using 1 2 assms(2,3) by (simp add: state_kept_def)
  then show ?thesis using 1(1) 2(1) 3 by (simp add: nfs4_lock_prepare_def Let_def split: if_splits)
qed

lemma task_succeeds:
  assumes "obliging L sid" and "oc_ok c" and "nfs4_valid_open_stateid (oc_state c)"
  shows "\<exists>data' d. lock_task L (Suc n) data c = Some (data', d) \<and> ld_status data' = 0"
proof -
  obtain data1 c1 where p: "nfs4_lock_prepare L data c = (Lock_Send, data1, c1)" using prepare_sends [OF assms] by blast
  obtain c2 where r: "rpc_lock L data1 c1 = ((0, sid), c2)" using obligingD(9) [OF assms(1)] by blast
  obtain c3 where f: "le_finish_sequence L c2 = (True, c3)" using obligingD(5) [OF assms(1)] by blast
  have "\<exists>data3 c4. nfs4_lock_done L 0 sid data1 c2 = (True, data3, c4) \<and> ld_status data3 = 0" using f by (simp add: nfs4_lock_done_def Let_def)
  then obtain data3 c4 where d: "nfs4_lock_done L 0 sid data1 c2 = (True, data3, c4)" "ld_status data3 = 0" by blast
  then show ?thesis using p r by simp
qed

lemma alloc_succeeds:
  assumes "obliging L sid" and "oc_ok c"
  shows "\<exists>data d. nfs4_alloc_lockdata L fl c = (Some data, d) \<and> oc_ok d \<and> st_flags (oc_state d) = st_flags (oc_state c)"
proof -
  obtain c1 where 1: "le_alloc L c = (True, c1)" "state_kept c c1" using obligingD(1) [OF assms(1)] by blast
  obtain c2 where 2: "le_alloc L c1 = (True, c2)" "state_kept c1 c2" using obligingD(1) [OF assms(1)] by blast
  obtain c3 where 3: "le_alloc L c2 = (True, c3)" "state_kept c2 c3" using obligingD(1) [OF assms(1)] by blast
  show ?thesis using 1 2 3 assms(2) by (simp add: nfs4_alloc_lockdata_def state_kept_def upd_lock_def)
qed

lemma do_setlk_succeeds:
  assumes "obliging L sid" and "oc_ok c" and "nfs4_valid_open_stateid (oc_state c)"
  shows "\<exists>d. nfs4_do_setlk L (Suc n) cmd fl recovery c = Some (0, d)"
proof -
  obtain data c1 where a: "nfs4_alloc_lockdata L fl c = (Some data, c1)" "oc_ok c1" "st_flags (oc_state c1) = st_flags (oc_state c)" using alloc_succeeds [OF assms(1,2)] by blast
  obtain c2 where w: "le_wait L c1 = (0, c2)" "state_kept c1 c2" using obligingD(6) [OF assms(1)] by blast
  have "oc_ok c2" "nfs4_valid_open_stateid (oc_state c2)" using a w assms(3) by (simp_all add: state_kept_def nfs4_valid_open_stateid_def)
  then obtain dd c3 where t: "lock_task L (Suc n) (data\<lparr>ld_block := (cmd = F_SETLKW), ld_reclaim := (recovery = NFS_LOCK_RECLAIM), ld_privileged := (recovery \<noteq> NFS_LOCK_NEW)\<rparr>) c2 = Some (dd, c3)"
    "ld_status dd = 0" using task_succeeds [OF assms(1)] by blast
  show ?thesis unfolding nfs4_do_setlk_def by (simp del: lock_task.simps add: a(1) obligingD(7) [OF assms(1)] w(1) t Let_def nfs4_lock_release_def)
qed

section \<open>The call\<close>

lemma set_lock_succeeds:
  assumes "obliging L sid" and "steady L" and "oc_ok c"
  shows "\<exists>fl' d. set_lock L fl c = (0, fl', d) \<and> oc_ok d \<and> st_flags (oc_state d) - {LK_STATE_IN_USE} = st_flags (oc_state c) - {LK_STATE_IN_USE} \<and> fl_kind fl' = fl_kind fl"
  using assms(3) obligingD(8) [OF assms(1)] steadyD(16) [OF assms(2)]
  by (auto simp: set_lock_def nfs4_set_lock_state_def nfs4_get_lock_state_def nfs4_alloc_lock_state_def Let_def set_flag_def split: option.splits)

lemma setlk_once_succeeds:
  assumes "obliging L sid" and "steady L" and "oc_ok c" and "nfs4_valid_open_stateid (oc_state c)"
  shows "\<exists>fl' d. nfs4_setlk_once L (Suc n) cmd fl c = Some (0, fl', d)"
proof -
  obtain fl1 c1 where s: "set_lock L fl c = (0, fl1, c1)" "oc_ok c1" "st_flags (oc_state c1) - {LK_STATE_IN_USE} = st_flags (oc_state c) - {LK_STATE_IN_USE}"
    using set_lock_succeeds [OF assms(1-3)] by blast
  obtain c2 where v: "do_vfs_lock L (fl1\<lparr>fl_flags := fl_flags fl OR FL_ACCESS\<rparr>) c1 = (0, c2)" "state_kept c1 c2" using obligingD(10) [OF assms(1)] by blast
  obtain c3 where w: "do_vfs_lock L (fl1\<lparr>fl_flags := fl_flags fl AND NOT FL_SLEEP\<rparr>) c2 = (0, c3)" using obligingD(10) [OF assms(1)] by blast
  have "oc_ok c2" "nfs4_valid_open_stateid (oc_state c2)" using s v assms(4) by (auto simp: state_kept_def nfs4_valid_open_stateid_def)
  then obtain c4 where d: "nfs4_do_setlk L (Suc n) cmd fl1 NFS_LOCK_NEW c2 = Some (0, c4)" using do_setlk_succeeds [OF assms(1)] by blast
  obtain c5 where x: "do_vfs_lock L (fl1\<lparr>fl_flags := fl_flags fl OR FL_SLEEP\<rparr>) c4 = (0, c5)" using obligingD(10) [OF assms(1)] by blast
  show ?thesis unfolding nfs4_setlk_once_def Let_def s(1) prod.case v(1) w d
    by (simp add: obligingD(12) [OF assms(1)] obligingD(11) [OF assms(1), of c4 c2] x)
qed

lemma proc_setlk_succeeds:
  assumes "obliging L sid" and "steady L" and "oc_ok c" and "nfs4_valid_open_stateid (oc_state c)"
  shows "\<exists>fl' d. nfs4_proc_setlk L (Suc n) cmd fl c = Some (0, fl', d)"
proof -
  obtain fl1 c1 where s: "nfs4_setlk_once L (Suc n) cmd fl c = Some (0, fl1, c1)" using setlk_once_succeeds [OF assms] by blast
  have "\<exists>ex d. lock_exception L 0 (fresh_exception True) c1 = (0, ex, d) \<and> \<not> ex_retry ex" by (simp add: lock_exception_def nfs4_handle_exception_def Let_def)
  then show ?thesis using s by (auto simp: nfs4_proc_setlk_def)
qed

lemma proc_lock_succeeds:
  assumes "obliging L sid" and "steady L" and "oc_ok c" and "nfs4_valid_open_stateid (oc_state c)" and "cmd \<in> {F_SETLK, F_SETLKW}"
    and "0 \<le> fl_start fl" "0 \<le> fl_end fl" and "fl_type fl = F_RDLCK \<and> f_mode AND READ \<noteq> 0 \<or> fl_type fl = F_WRLCK \<and> f_mode AND WRITE \<noteq> 0"
  shows "\<exists>fl' d. nfs4_proc_lock L (Suc n) True f_mode cmd fl c = Some (0, fl', d)"
proof -
  obtain fl1 c1 where s: "nfs4_proc_setlk L (Suc n) cmd fl c = Some (0, fl1, c1)" using proc_setlk_succeeds [OF assms(1-4)] by blast
  then show ?thesis using assms(5-8) by (auto simp: nfs4_proc_lock_def)
qed

end
