(* ===== verification/Nfs4_Lock_Properties.thy ===== *)
theory Nfs4_Lock_Properties
  imports Nfs4_Open_Properties Nfs4_Lock_Taken
begin

text \<open>
  The properties of file locks, stated over the definitions of \<^verbatim>\<open>Nfs4_Lock_Proc\<close> and \<^verbatim>\<open>Nfs4_Lock_State\<close>, each with an example.
\<close>

section \<open>Samples\<close>

definition sample_lock_env :: "unit lock_env" where
  "sample_lock_env = \<lparr>le_client = sample_client_env, le_exc = sample_exc_env, le_alloc = Pair True, le_lock_state_ok = (\<lambda>_. True), le_meanwhile = (\<lambda>st. st), le_posix_locks = True,
     le_recover_lost_locks = False, le_minorversion = 1, le_vfs_lock = (\<lambda>_ _. Pair 0), le_wait_lock_seqid = (\<lambda>_. Pair True), le_wait_open_seqid = Pair True,
     le_release_lock_seqid = (\<lambda>_ c. c), le_release_open_seqid = (\<lambda>c. c), le_setup_sequence = Pair True, le_finish_sequence = Pair True, le_async_error = (\<lambda>_. Pair False),
     le_run_error = (\<lambda>_. None), le_wait = Pair 0, le_jiffies = (\<lambda>_. 0), le_reclaim_seqcount = (\<lambda>_. 0), le_sleep = (\<lambda>_. Pair False), le_tell_server = (\<lambda>_ c. c),
     le_test_stateid = (\<lambda>_. Pair 0), le_free_stateid = (\<lambda>_ c. c), rpc_lock = (\<lambda>_. Pair (0, sample_stateid)), rpc_unlock = (\<lambda>_ s. Pair (0, s)), rpc_lockt = (\<lambda>fl. Pair (0, fl))\<rparr>"

lemma keeps_locks_refl [simp]: "keeps_locks c c"
  by (simp add: keeps_locks_def)

lemma sample_steady: "steady sample_lock_env" "\<And>d. le_run_error sample_lock_env d \<noteq> Some 0"
  by (simp_all add: steady_def sample_lock_env_def sample_exc_env_def)


definition sample_request :: "bool \<Rightarrow> file_lock" where
  "sample_request h = \<lparr>fl_type = F_WRLCK, fl_kind = FL_POSIX, fl_flags = 0, fl_start = 0, fl_end = 100, fl_owner = 7, fl_has_state = h\<rparr>"




section \<open>Taking a lock\<close>





section \<open>References\<close>



section \<open>Lost locks\<close>

text \<open>C38: valid locks are given up. After a lease has expired, version 4.1 asks the server about every lock. Even when the server answers that each is still valid, the result of the check is an
  error (\<^verbatim>\<open>ret\<close> of \<^verbatim>\<open>nfs41_check_expired_locks\<close> starts as BAD_STATEID and is never set to 0), so the lock is marked lost and reading and writing under it fail with
  \<^verbatim>\<open>-EIO\<close>.\<close>

theorem valid_lock_declared_lost:
  assumes "steady L" and "\<And>sid c. fst (le_test_stateid L sid c) = 0 \<and> keeps_locks c (snd (le_test_stateid L sid c))" and "lock_refs_are (held_by fl R) c"
    and "fl_has_state fl" and "\<not> le_recover_lost_locks L"
  shows "\<exists>r d. nfs41_lock_expired L n fl c = Some (r, d) \<and> fst (nfs4_select_rw_stateid deleg cap dst (Some (fl_owner fl)) (oc_state d)) = - EIO"
proof -
  have "\<exists>r d. nfs41_lock_expired L n fl c = Some (r, d)" using assms(4,5)
    by (auto simp: nfs41_lock_expired_def nfs4_lock_expired_def set_lock_def nfs4_set_lock_state_def split: prod.splits)
  then show ?thesis using valid_locks_lost [OF assms] by blast
qed

definition sample_held :: "unit open_ctx" where
  "sample_held = (sample_file {} 0 0 1 RDWR)\<lparr>oc_owner := \<lparr>ow_flags = {}, ow_count = 1, ow_seqid_flags = 0, ow_states = [sample_locked {NFS_LOCK_INITIALIZED}]\<rparr>\<rparr>"

lemma sample_held_refs: "lock_refs_are (held_by (sample_request True) (\<lambda>_. 0)) sample_held"
proof -
  have "oc_state sample_held = sample_locked {NFS_LOCK_INITIALIZED}" "oc_ok sample_held" by (simp_all add: sample_held_def oc_state_def oc_ok_def sample_file_def)
  then show ?thesis using sample_locks_ok [of "{NFS_LOCK_INITIALIZED}"] by (simp add: lock_refs_are_def lock_refs_def held_by_def sample_request_def sample_locked_def fun_eq_iff)
qed

theorem valid_lock_declared_lost_witness:
  "\<exists>r d. nfs41_lock_expired sample_lock_env 1 (sample_request True) sample_held = Some (r, d) \<and>
    fst (nfs4_select_rw_stateid None True zero_stateid (Some 7) (oc_state d)) = - EIO"
  using valid_lock_declared_lost [OF sample_steady(1) _ sample_held_refs, of 1 None True zero_stateid] by (simp add: sample_lock_env_def sample_request_def)

text \<open>An interrupted recovery of a lock counts as done, like that of an open state (\<^verbatim>\<open>nfs4_do_open_expired\<close>).\<close>

lemma lock_expired_interrupted:
  assumes "err \<in> {- NFS4ERR_DELAY, - NFS4ERR_GRACE}" and "nfs4_do_setlk L n F_SETLK fl NFS_LOCK_EXPIRED c = Some (err, d)" and "\<And>x. fatal_signal_pending (le_exc L) x"
    and "NFS_DELEGATED_STATE \<notin> st_flags (oc_state c)"
  shows "\<exists>e. lock_expired_loop L n (Suc k) fl ex c = Some (0, e)"
proof -
  obtain r ex' e where x: "lock_exception L err ex d = (r, ex', e)" by (metis surj_pair)
  have "\<not> ex_retry ex'" using assms(1,3) x by (auto simp: lock_exception_def nfs4_handle_exception_def nfs4_delay_def Let_def split: prod.splits)
  then show ?thesis using assms(1,2,4) x by auto
qed

end
