(* ===== verification/Nfs4_Session_Setup.thy ===== *)
theory Nfs4_Session_Setup
  imports Nfs4_Manager Nfs4_Close Nfs4_Exception Xdr_Decode_Session
begin

text \<open>
  Setting up a client id and a session, \<^verbatim>\<open>fs/nfs/nfs4proc.c\<close> from \<^verbatim>\<open>nfs4_init_boot_verifier\<close> to \<^verbatim>\<open>nfs4_proc_setclientid_confirm\<close> and from \<^verbatim>\<open>nfs4_check_cl_exchange_flags\<close> to
  \<^verbatim>\<open>nfs41_proc_reclaim_complete\<close>: what the state manager calls.

  The fields of \<^verbatim>\<open>struct nfs_client\<close> and of its session that only these procedures use are the record \<open>'w sess_setup\<close>, which is the world of the client of the state manager. The RPC layer
  and the slot tables are the parameter \<open>'w setup_env\<close>; they act on the rest of the world. Memory is a set of live blocks: a block that is freed twice is recorded.
\<close>

section \<open>Data\<close>

datatype sp4_bit = NFS_SP4_MACH_CRED_MINIMAL | NFS_SP4_MACH_CRED_CLEANUP | NFS_SP4_MACH_CRED_SECINFO | NFS_SP4_MACH_CRED_STATEID | NFS_SP4_MACH_CRED_WRITE | NFS_SP4_MACH_CRED_COMMIT

text \<open>\<^verbatim>\<open>struct nfs41_server_scope\<close>.\<close>

record nfs41_server_scope =
  server_scope_sz :: u32
  server_scope :: bytes

record 'w sess_setup =
  su_world :: 'w
  su_clientid :: u64
  su_seqid :: u32
  su_exchange_flags :: u32
  su_sp4_flags :: "sp4_bit set"
  su_preserve_clid :: bool
  su_acceptor :: "nat option"
  su_serverowner :: "nat option"
  su_implid :: "nat option"
  su_serverscope :: "(nat \<times> nfs41_server_scope) option"
  su_sess_id :: bytes
  su_fc_attrs :: nfs4_channel_attrs
  su_bc_attrs :: nfs4_channel_attrs
  su_live :: "nat set"
  su_next :: nat
  su_bad_free :: bool

type_synonym 'w sclient = "'w sess_setup nfs_client"

record eid_request =
  er_verifier :: "u32 \<times> u32"
  er_id :: string
  er_flags :: u32
  er_state_protect :: nfs41_state_protection

record setclientid_request =
  sr_verifier :: "u32 \<times> u32"
  sr_name :: string
  sr_netid :: string
  sr_uaddr :: string
  sr_prog :: u32
  sr_cb_ident :: u32

record 'w setup_env =
  se_client :: "'w sess_setup client_env"
  se_sizes :: kconst
  se_migration :: bool
  se_alloc_ok :: "nat \<Rightarrow> bool"
  se_boot_time :: "u32 \<times> u32"
  se_ipaddr :: string
  se_peer :: string
  se_proto :: string
  se_nodename :: string
  se_uniquifier :: string
  se_version :: nat
  se_minorversion :: nat
  se_cs_migration :: bool
  se_cb_ident :: u32
  se_integrity :: bool
  se_max_session_slots :: u32
  se_max_slot_table :: u32
  se_page_size :: u32
  se_max_loop :: nat
  se_clid_cred :: bool
  rpc_exchange_id :: "eid_request \<Rightarrow> 'w \<Rightarrow> (int \<times> nfs41_exchange_id_res) \<times> 'w"
  rpc_bind_conn :: "'w \<Rightarrow> (int \<times> nfs41_bind_conn_res) \<times> 'w"
  rpc_create_session :: "nfs4_channel_attrs \<Rightarrow> nfs4_channel_attrs \<Rightarrow> u32 \<Rightarrow> nfs41_create_session_res \<Rightarrow> 'w \<Rightarrow> (int \<times> nfs41_create_session_res) \<times> 'w"
  rpc_destroy_session :: "'w \<Rightarrow> int \<times> 'w"
  rpc_destroy_clientid :: "'w \<Rightarrow> int \<times> 'w"
  rpc_setclientid :: "setclientid_request \<Rightarrow> 'w \<Rightarrow> int \<times> 'w"
  rpc_setclientid_confirm :: "nfs4_setclientid_res \<Rightarrow> 'w \<Rightarrow> int \<times> 'w"
  nfs4_setup_session_slot_tables :: "nfs4_channel_attrs \<Rightarrow> 'w \<Rightarrow> int \<times> 'w"
  ssleep :: "'w \<Rightarrow> 'w"
  se_task_error :: "'w \<Rightarrow> int option"
  se_task_wait :: "'w \<Rightarrow> int \<times> 'w"
  se_sequence_ok :: "'w \<Rightarrow> bool \<times> 'w"
  rpc_sequence :: "bool \<Rightarrow> 'w \<Rightarrow> (int \<times> u32) \<times> 'w"
  rpc_reclaim_complete :: "'w \<Rightarrow> int \<times> 'w"
  rpc_lease_time :: "'w \<Rightarrow> (int \<times> u32) \<times> 'w"
  se_schedule_renewal :: "'w \<Rightarrow> 'w"

definition su :: "('w sess_setup \<Rightarrow> 'w sess_setup) \<Rightarrow> 'w sclient \<Rightarrow> 'w sclient" where
  "su f clp = clp\<lparr>cl_world := f (cl_world clp)\<rparr>"

text \<open>Running a call on the rest of the world.\<close>

definition on_world :: "('w \<Rightarrow> 'a \<times> 'w) \<Rightarrow> 'w sclient \<Rightarrow> 'a \<times> 'w sclient" where
  "on_world f clp = (case f (su_world (cl_world clp)) of (a, w) \<Rightarrow> (a, su (\<lambda>s. s\<lparr>su_world := w\<rparr>) clp))"

definition kzalloc :: "'w setup_env \<Rightarrow> 'w sclient \<Rightarrow> nat option \<times> 'w sclient" where
  "kzalloc E clp =
     (let n = su_next (cl_world clp); clp = su (\<lambda>s. s\<lparr>su_next := n + 1\<rparr>) clp
      in if se_alloc_ok E n then (Some n, su (\<lambda>s. s\<lparr>su_live := insert n (su_live s)\<rparr>) clp) else (None, clp))"

definition kfree :: "nat option \<Rightarrow> 'w sclient \<Rightarrow> 'w sclient" where
  "kfree p clp = (case p of None \<Rightarrow> clp | Some b \<Rightarrow> su (\<lambda>s. s\<lparr>su_bad_free := (su_bad_free s \<or> b \<notin> su_live s), su_live := su_live s - {b}\<rparr>) clp)"

section \<open>Names of the client\<close>

text \<open>The two words of the verifier. A state that is to be purged gets a time that no boot can have.\<close>

definition nfs4_init_boot_verifier :: "'w setup_env \<Rightarrow> 'w sclient \<Rightarrow> u32 \<times> u32" where
  "nfs4_init_boot_verifier E clp = (if NFS4CLNT_PURGE_STATE \<in> cl_state clp then (0, 1000000000 + 1) else se_boot_time E)"

fun decimal :: "nat \<Rightarrow> string" where
  "decimal n = (if n < 10 then [char_of (48 + n)] else decimal (n div 10) @ [char_of (48 + n mod 10)])"

text \<open>\<^verbatim>\<open>scnprintf\<close> keeps room for the terminating 0.\<close>

definition scnprintf :: "nat \<Rightarrow> string \<Rightarrow> string" where
  "scnprintf len s = take (len - 1) s"

definition nfs4_init_nonuniform_client_string :: "'w setup_env \<Rightarrow> nat \<Rightarrow> string" where
  "nfs4_init_nonuniform_client_string E len = scnprintf len (''Linux NFSv4.0 '' @ se_ipaddr E @ ''/'' @ se_peer E @ '' '' @ se_proto E)"

definition nfs4_init_uniform_client_string :: "'w setup_env \<Rightarrow> nat \<Rightarrow> string" where
  "nfs4_init_uniform_client_string E len =
     (let prefix = ''Linux NFSv'' @ decimal (se_version E) @ ''.'' @ decimal (se_minorversion E) @ '' ''
      in scnprintf len (if se_uniquifier E \<noteq> [] then prefix @ se_uniquifier E @ ''/'' @ se_nodename E else prefix @ se_nodename E))"

definition nfs4_init_callback_netid :: "'w setup_env \<Rightarrow> nat \<Rightarrow> string" where
  "nfs4_init_callback_netid E len = scnprintf len (if CHR '':'' \<in> set (se_ipaddr E) then ''tcp6'' else ''tcp'')"

text \<open>After a success the name of the acceptor is kept in a block that the credential code allocates (\<^verbatim>\<open>rpcauth_stringify_acceptor\<close>).\<close>

definition nfs4_proc_setclientid :: "'w setup_env \<Rightarrow> u32 \<Rightarrow> u16 \<Rightarrow> 'w sclient \<Rightarrow> int \<times> 'w sclient" where
  "nfs4_proc_setclientid E program port clp =
     (let name = (if se_cs_migration E then nfs4_init_uniform_client_string E (NFS4_SETCLIENTID_NAMELEN + 1)
                  else nfs4_init_nonuniform_client_string E (NFS4_SETCLIENTID_NAMELEN + 1));
          netid = nfs4_init_callback_netid E (RPCBIND_MAXNETIDLEN (se_sizes E) + 1);
          uaddr = scnprintf (RPCBIND_MAXUADDRLEN (se_sizes E) + 1) (se_ipaddr E @ ''.'' @ decimal (unat (drop_bit 8 port)) @ ''.'' @ decimal (unat (port AND 255)));
          req = \<lparr>sr_verifier = nfs4_init_boot_verifier E clp, sr_name = name, sr_netid = netid, sr_uaddr = uaddr, sr_prog = program, sr_cb_ident = se_cb_ident E\<rparr>
      in case se_task_error E (su_world (cl_world clp)) of
           Some e \<Rightarrow> (e, clp)
         | None \<Rightarrow>
             (case on_world (rpc_setclientid E req) clp of (status, clp) \<Rightarrow>
                if status = 0 then (case kzalloc E clp of (a, clp) \<Rightarrow> (0, su (\<lambda>s. s\<lparr>su_acceptor := a\<rparr>) clp)) else (status, clp)))"

definition nfs4_proc_setclientid_confirm :: "'w setup_env \<Rightarrow> nfs4_setclientid_res \<Rightarrow> 'w sclient \<Rightarrow> int \<times> 'w sclient" where
  "nfs4_proc_setclientid_confirm E arg clp = on_world (rpc_setclientid_confirm E arg) clp"

section \<open>EXCHANGE_ID\<close>

definition nfs4_check_cl_exchange_flags :: "u32 \<Rightarrow> int" where
  "nfs4_check_cl_exchange_flags flags =
     (if flags AND NOT EXCHGID4_FLAG_MASK_R \<noteq> 0 then - NFS4ERR_INVAL
      else if flags AND EXCHGID4_FLAG_USE_PNFS_MDS \<noteq> 0 \<and> flags AND EXCHGID4_FLAG_USE_NON_PNFS \<noteq> 0 then - NFS4ERR_INVAL
      else if flags AND EXCHGID4_FLAG_MASK_PNFS = 0 then - NFS4ERR_INVAL
      else 0)"

definition nfs41_same_server_scope :: "nfs41_server_scope \<Rightarrow> nfs41_server_scope \<Rightarrow> bool" where
  "nfs41_same_server_scope a b \<longleftrightarrow> server_scope_sz a = server_scope_sz b \<and>
     take (unat (server_scope_sz a)) (server_scope a) = take (unat (server_scope_sz a)) (server_scope b)"

definition proc_bind_conn_to_session :: "'w setup_env \<Rightarrow> 'w sclient \<Rightarrow> int \<times> 'w sclient" where
  "proc_bind_conn_to_session E clp =
     (case kzalloc E clp of
        (None, clp) \<Rightarrow> (- ENOMEM, clp)
      | (Some b, clp) \<Rightarrow>
          (case on_world (rpc_bind_conn E) clp of ((status, res), clp) \<Rightarrow>
             let status = (if status \<noteq> 0 then status else if bcr_sess_id res \<noteq> su_sess_id (cl_world clp) then - EIO else if bcr_dir res \<noteq> NFS4_CDFS4_BOTH then - EIO
                           else if bcr_rdma res then - EIO else 0)
             in (status, kfree (Some b) clp)))"

text \<open>Maps of operations, with the bits of a word numbered as on a little-endian machine.\<close>

definition op_bit :: "nfs_opnum4 \<Rightarrow> u32" where
  "op_bit op = push_bit (unat (opnum op) mod 32) 1"

definition test_op :: "nfs_opnum4 \<Rightarrow> u32 list \<Rightarrow> bool" where
  "test_op op m \<longleftrightarrow> unat (opnum op) div 32 < length m \<and> m ! (unat (opnum op) div 32) AND op_bit op \<noteq> 0"

definition supported_enforce :: "u32 list" where
  "supported_enforce = [0, op_bit OP_BIND_CONN_TO_SESSION OR op_bit OP_EXCHANGE_ID OR op_bit OP_CREATE_SESSION OR op_bit OP_DESTROY_SESSION OR op_bit OP_DESTROY_CLIENTID]"

definition nfs4_sp4_mach_cred_request :: nfs41_state_protection where
  "nfs4_sp4_mach_cred_request = \<lparr>sp_how = SP4_MACH_CRED, sp_enforce = supported_enforce,
     sp_allow = [op_bit OP_CLOSE OR op_bit OP_LOCKU OR op_bit OP_COMMIT,
                 op_bit OP_SECINFO OR op_bit OP_SECINFO_NO_NAME OR op_bit OP_TEST_STATEID OR op_bit OP_FREE_STATEID OR op_bit OP_WRITE]\<rparr>"

definition nfs4_sp4_select_mode :: "nfs41_state_protection \<Rightarrow> 'w sclient \<Rightarrow> int \<times> 'w sclient" where
  "nfs4_sp4_select_mode sp clp =
     (if sp_how sp \<noteq> SP4_MACH_CRED then (0, clp)
      else if \<exists>(a, b) \<in> set (zip (sp_enforce sp) supported_enforce). a AND NOT b \<noteq> 0 then (- EINVAL, clp)
      else if test_op OP_BIND_CONN_TO_SESSION (sp_enforce sp) \<and> test_op OP_CREATE_SESSION (sp_enforce sp) \<and> test_op OP_DESTROY_SESSION (sp_enforce sp) \<and>
              test_op OP_DESTROY_CLIENTID (sp_enforce sp) then
        let flag = (\<lambda>ops b fl. if \<forall>op \<in> set ops. test_op op (sp_allow sp) then insert b fl else fl)
        in (0, su (\<lambda>s. s\<lparr>su_sp4_flags :=
              flag [OP_COMMIT] NFS_SP4_MACH_CRED_COMMIT (flag [OP_WRITE] NFS_SP4_MACH_CRED_WRITE (flag [OP_TEST_STATEID, OP_FREE_STATEID] NFS_SP4_MACH_CRED_STATEID
                (flag [OP_SECINFO, OP_SECINFO_NO_NAME] NFS_SP4_MACH_CRED_SECINFO (flag [OP_CLOSE, OP_LOCKU] NFS_SP4_MACH_CRED_CLEANUP
                  (insert NFS_SP4_MACH_CRED_MINIMAL (su_sp4_flags s))))))\<rparr>) clp)
      else (- EINVAL, clp))"

text \<open>What is taken over from a reply that was accepted; the blocks of the old values are freed.\<close>

definition exchange_id_accept :: "nfs41_exchange_id_res \<Rightarrow> nat \<Rightarrow> nat \<Rightarrow> nat \<Rightarrow> 'w sclient \<Rightarrow> 'w sclient" where
  "exchange_id_accept res server_owner scope impl_id clp =
     (let flags = eir_flags res; new = \<lparr>server_scope_sz = eir_scope_sz res, server_scope = eir_scope res\<rparr>;
          clp = su (\<lambda>s. s\<lparr>su_clientid := eir_clientid res, su_exchange_flags := flags AND NOT EXCHGID4_FLAG_CONFIRMED_R,
                        su_seqid := (if flags AND EXCHGID4_FLAG_CONFIRMED_R = 0 then eir_seqid res else su_seqid s)\<rparr>) clp;
          clp = su (\<lambda>s. s\<lparr>su_serverowner := Some server_owner\<rparr>) (kfree (su_serverowner (cl_world clp)) clp);
          clp = su (\<lambda>s. s\<lparr>su_implid := Some impl_id\<rparr>) (kfree (su_implid (cl_world clp)) clp);
          clp = (case su_serverscope (cl_world clp) of
                   None \<Rightarrow> clp
                 | Some (b, old) \<Rightarrow>
                     if nfs41_same_server_scope old new then clp
                     else su (\<lambda>s. s\<lparr>su_serverscope := None\<rparr>) (kfree (Some b) (set_bit_clnt NFS4CLNT_SERVER_SCOPE_MISMATCH clp)))
      in case su_serverscope (cl_world clp) of
           None \<Rightarrow> su (\<lambda>s. s\<lparr>su_serverscope := Some (scope, new)\<rparr>) clp
         | Some _ \<Rightarrow> kfree (Some scope) clp)"

text \<open>The call and what follows it.\<close>

definition exchange_id_call :: "'w setup_env \<Rightarrow> eid_request \<Rightarrow> nat \<Rightarrow> nat \<Rightarrow> nat \<Rightarrow> 'w sclient \<Rightarrow> int \<times> 'w sclient" where
  "exchange_id_call E req server_owner scope impl_id clp =
     (case on_world (rpc_exchange_id E req) clp of ((status, res), clp) \<Rightarrow>
        let status = (if status = 0 then nfs4_check_cl_exchange_flags (eir_flags res) else status)
        in case (if status = 0 then nfs4_sp4_select_mode (eir_state_protect res) clp else (status, clp)) of (status, clp) \<Rightarrow>
             if status = 0 then (0, exchange_id_accept res server_owner scope impl_id clp)
             else (status, kfree (Some scope) (kfree (Some server_owner) (kfree (Some impl_id) clp))))"

definition exchange_id_once :: "'w setup_env \<Rightarrow> u32 \<Rightarrow> 'w sclient \<Rightarrow> int \<times> 'w sclient" where
  "exchange_id_once E sp4_how clp =
     (let req = \<lparr>er_verifier = nfs4_init_boot_verifier E clp, er_id = nfs4_init_uniform_client_string E NFS4_EXCHANGE_ID_LEN,
                 er_flags = EXCHGID4_FLAG_SUPP_MOVED_REFER OR EXCHGID4_FLAG_BIND_PRINC_STATEID OR (if se_migration E then EXCHGID4_FLAG_SUPP_MOVED_MIGR else 0),
                 er_state_protect = (if sp4_how = SP4_NONE then \<lparr>sp_how = SP4_NONE, sp_enforce = [0, 0], sp_allow = [0, 0]\<rparr> else nfs4_sp4_mach_cred_request)\<rparr>
      in case kzalloc E clp of
           (None, clp) \<Rightarrow> (- ENOMEM, clp)
         | (Some server_owner, clp) \<Rightarrow>
             (case kzalloc E clp of
                (None, clp) \<Rightarrow> (- ENOMEM, kfree (Some server_owner) clp)
              | (Some scope, clp) \<Rightarrow>
                  (case kzalloc E clp of
                     (None, clp) \<Rightarrow> (- ENOMEM, kfree (Some scope) clp)
                   | (Some impl_id, clp) \<Rightarrow>
                       if sp4_how \<noteq> SP4_NONE \<and> sp4_how \<noteq> SP4_MACH_CRED then (- EINVAL, kfree (Some scope) clp)
                       else exchange_id_call E req server_owner scope impl_id clp)))"

text \<open>\<open>se_integrity\<close>: the client uses krb5i or krb5p.\<close>

definition nfs4_proc_exchange_id :: "'w setup_env \<Rightarrow> 'w sclient \<Rightarrow> int \<times> 'w sclient" where
  "nfs4_proc_exchange_id E clp =
     (case (if se_integrity E then exchange_id_once E SP4_MACH_CRED clp else (1, clp)) of (status, clp) \<Rightarrow>
        if status = 0 then (0, clp) else exchange_id_once E SP4_NONE clp)"

section \<open>DESTROY_CLIENTID\<close>

fun destroy_clientid_loop :: "'w setup_env \<Rightarrow> nat \<Rightarrow> 'w sclient \<Rightarrow> int \<times> 'w sclient" where
  "destroy_clientid_loop E 0 clp = (0, clp)"
| "destroy_clientid_loop E (Suc loop) clp =
     (case on_world (rpc_destroy_clientid E) clp of (ret, clp) \<Rightarrow>
        if ret \<in> {- NFS4ERR_DELAY, - NFS4ERR_CLIENTID_BUSY} then destroy_clientid_loop E loop (snd (on_world (\<lambda>w. ((), ssleep E w)) clp)) else (ret, clp))"

definition nfs4_destroy_clientid :: "'w setup_env \<Rightarrow> 'w sclient \<Rightarrow> int \<times> 'w sclient" where
  "nfs4_destroy_clientid E clp =
     (if se_minorversion E < 1 \<or> su_exchange_flags (cl_world clp) = 0 \<or> su_preserve_clid (cl_world clp) then (0, clp)
      else case destroy_clientid_loop E (se_max_loop E) clp of (ret, clp) \<Rightarrow>
             (ret, if ret \<in> {0, - NFS4ERR_STALE_CLIENTID} then su (\<lambda>s. s\<lparr>su_exchange_flags := 0\<rparr>) clp else clp))"

section \<open>CREATE_SESSION\<close>

text \<open>\<open>max_resp_sz_cached\<close> of the fore channel is not set by the code: the structure is cleared by its initialiser.\<close>

definition nfs4_init_channel_attrs :: "'w setup_env \<Rightarrow> nfs4_channel_attrs \<times> nfs4_channel_attrs" where
  "nfs4_init_channel_attrs E =
     (\<lparr>max_rqst_sz = 1048576 + of_nat (nfs41_maxwrite_overhead (se_sizes E)), max_resp_sz = 1048576 + of_nat (nfs41_maxread_overhead (se_sizes E)), max_resp_sz_cached = 0,
        max_ops = of_nat NFS4_MAX_OPS, max_reqs = se_max_session_slots E\<rparr>,
      \<lparr>max_rqst_sz = se_page_size E, max_resp_sz = se_page_size E, max_resp_sz_cached = 0, max_ops = of_nat NFS4_MAX_BACK_CHANNEL_OPS, max_reqs = 1\<rparr>)"

definition nfs4_verify_fore_channel_attrs :: "'w setup_env \<Rightarrow> nfs4_channel_attrs \<Rightarrow> nfs4_channel_attrs \<Rightarrow> int \<times> nfs4_channel_attrs" where
  "nfs4_verify_fore_channel_attrs E sent rcvd =
     (if max_resp_sz rcvd > max_resp_sz sent then (- EINVAL, rcvd)
      else if max_ops rcvd < max_ops sent then (- EINVAL, rcvd)
      else if max_reqs rcvd = 0 then (- EINVAL, rcvd)
      else (0, if max_reqs rcvd > se_max_slot_table E then rcvd\<lparr>max_reqs := se_max_slot_table E\<rparr> else rcvd))"

definition nfs4_verify_back_channel_attrs :: "nfs4_channel_attrs \<Rightarrow> nfs4_channel_attrs \<Rightarrow> int" where
  "nfs4_verify_back_channel_attrs sent rcvd =
     (if max_rqst_sz rcvd > max_rqst_sz sent then - EINVAL
      else if max_resp_sz rcvd < max_resp_sz sent then - EINVAL
      else if max_resp_sz_cached rcvd > max_resp_sz_cached sent then - EINVAL
      else if max_ops rcvd \<noteq> max_ops sent then - EINVAL
      else if max_reqs rcvd \<noteq> max_reqs sent then - EINVAL
      else 0)"

definition nfs4_verify_channel_attrs :: "'w setup_env \<Rightarrow> nfs4_channel_attrs \<Rightarrow> nfs4_channel_attrs \<Rightarrow> 'w sclient \<Rightarrow> int \<times> 'w sclient" where
  "nfs4_verify_channel_attrs E fc bc clp =
     (case nfs4_verify_fore_channel_attrs E fc (su_fc_attrs (cl_world clp)) of (ret, rcvd) \<Rightarrow>
        let clp = su (\<lambda>s. s\<lparr>su_fc_attrs := rcvd\<rparr>) clp
        in (if ret \<noteq> 0 then ret else nfs4_verify_back_channel_attrs bc (su_bc_attrs (cl_world clp)), clp))"

abbreviation (input) SESSION4_PERSIST :: u32 where "SESSION4_PERSIST \<equiv> 1"
abbreviation (input) SESSION4_BACK_CHAN :: u32 where "SESSION4_BACK_CHAN \<equiv> 2"

text \<open>The decoder writes into the session and the client directly, also when it fails later.\<close>

definition create_session_once :: "'w setup_env \<Rightarrow> 'w sclient \<Rightarrow> int \<times> 'w sclient" where
  "create_session_once E clp =
     (case nfs4_init_channel_attrs E of (fc, bc) \<Rightarrow>
        let s = cl_world clp; old = \<lparr>csr_sess_id = su_sess_id s, csr_seqid = su_seqid s, csr_flags = 0, csr_fc_attrs = su_fc_attrs s, csr_bc_attrs = su_bc_attrs s\<rparr>
        in case on_world (rpc_create_session E fc bc (SESSION4_PERSIST OR SESSION4_BACK_CHAN) old) clp of ((status, res), clp) \<Rightarrow>
             let clp = su (\<lambda>s. s\<lparr>su_sess_id := csr_sess_id res, su_seqid := csr_seqid res, su_fc_attrs := csr_fc_attrs res, su_bc_attrs := csr_bc_attrs res\<rparr>) clp
             in if status \<noteq> 0 then (status, clp)
                else case nfs4_verify_channel_attrs E fc bc clp of (status, clp) \<Rightarrow> (status, su (\<lambda>s. s\<lparr>su_seqid := su_seqid s + 1\<rparr>) clp))"

definition proc_create_session :: "'w setup_env \<Rightarrow> 'w sclient \<Rightarrow> int \<times> 'w sclient" where
  "proc_create_session E clp =
     (case create_session_once E clp of (status, clp) \<Rightarrow>
        if status \<noteq> 0 then (status, clp) else on_world (nfs4_setup_session_slot_tables E (su_fc_attrs (cl_world clp))) clp)"

abbreviation (input) NFS_CS_READY :: int where "NFS_CS_READY \<equiv> 0"

definition proc_destroy_session :: "'w setup_env \<Rightarrow> 'w sclient \<Rightarrow> int \<times> 'w sclient" where
  "proc_destroy_session E clp = (if cl_cons_state clp \<noteq> NFS_CS_READY then (0, clp) else on_world (rpc_destroy_session E) clp)"

section \<open>Calls in the session\<close>

text \<open>The task of GET_LEASE_TIME. A session that is being set up is not recovered from within.\<close>

fun lease_time_task :: "'w setup_env \<Rightarrow> nat \<Rightarrow> 'w sclient \<Rightarrow> ((int \<times> u32) \<times> 'w sclient) option" where
  "lease_time_task E 0 clp = None"
| "lease_time_task E (Suc n) clp =
     (case on_world (rpc_lease_time E) clp of ((status, lease), clp) \<Rightarrow>
        case on_world (se_sequence_ok E) clp of (ok, clp) \<Rightarrow>
          if \<not> ok \<or> status \<in> {- NFS4ERR_DELAY, - NFS4ERR_GRACE, - NFS4ERR_RETRY_UNCACHED_REP} then lease_time_task E n clp else Some ((status, lease), clp))"

definition nfs4_proc_get_lease_time :: "'w setup_env \<Rightarrow> nat \<Rightarrow> 'w sclient \<Rightarrow> ((int \<times> u32) \<times> 'w sclient) option" where
  "nfs4_proc_get_lease_time E n clp = (case se_task_error E (su_world (cl_world clp)) of Some e \<Rightarrow> Some ((e, 0), clp) | None \<Rightarrow> lease_time_task E n clp)"

text \<open>The SEQUENCE that renews the lease. The result of the handler says whether the call is repeated.\<close>

definition nfs41_sequence_handle_errors :: "'w setup_env \<Rightarrow> int \<Rightarrow> 'w sclient \<Rightarrow> int \<times> 'w sclient" where
  "nfs41_sequence_handle_errors E status clp = (if status = - NFS4ERR_DELAY then (- EAGAIN, clp) else (0, nfs4_schedule_lease_recovery (se_client E) clp))"

definition nfs41_sequence_call_done :: "'w setup_env \<Rightarrow> int \<Rightarrow> 'w sclient \<Rightarrow> bool \<times> 'w sclient" where
  "nfs41_sequence_call_done E status clp =
     (case on_world (se_sequence_ok E) clp of (ok, clp) \<Rightarrow>
        if \<not> ok then (False, clp)
        else if status < 0 \<and> cl_count clp \<noteq> 1 then (case nfs41_sequence_handle_errors E status clp of (r, clp) \<Rightarrow> (r \<noteq> - EAGAIN, clp))
        else (True, clp))"

definition nfs41_sequence_release :: "'w setup_env \<Rightarrow> nat \<Rightarrow> 'w sclient \<Rightarrow> 'w sclient" where
  "nfs41_sequence_release E calldata clp =
     kfree (Some calldata) (nfs_put_client (se_client E) (if cl_count clp > 1 then snd (on_world (\<lambda>w. ((), se_schedule_renewal E w)) clp) else clp))"

fun sequence_task :: "'w setup_env \<Rightarrow> nat \<Rightarrow> bool \<Rightarrow> 'w sclient \<Rightarrow> ((int \<times> u32) \<times> 'w sclient) option" where
  "sequence_task E 0 privileged clp = None"
| "sequence_task E (Suc n) privileged clp =
     (case on_world (rpc_sequence E privileged) clp of ((status, flags), clp) \<Rightarrow>
        case nfs41_sequence_call_done E status clp of (fin, clp) \<Rightarrow> if fin then Some ((status, flags), clp) else sequence_task E n privileged clp)"

text \<open>\<^verbatim>\<open>_nfs41_proc_sequence\<close> up to \<^verbatim>\<open>rpc_run_task\<close>: an error, or the block of the task, which holds one more reference to the client. The end of the task gives both back.\<close>

definition proc_sequence_start :: "'w setup_env \<Rightarrow> 'w sclient \<Rightarrow> (int + nat) \<times> 'w sclient" where
  "proc_sequence_start E clp =
     (if cl_count clp = 0 then (Inl (- EIO), clp)
      else case kzalloc E (clp\<lparr>cl_count := cl_count clp + 1\<rparr>) of
             (None, clp) \<Rightarrow> (Inl (- ENOMEM), nfs_put_client (se_client E) clp)
           | (Some calldata, clp) \<Rightarrow>
               (case se_task_error E (su_world (cl_world clp)) of
                  Some e \<Rightarrow> (Inl e, nfs41_sequence_release E calldata clp)
                | None \<Rightarrow> (Inr calldata, clp)))"

abbreviation (input) NFS4_RENEW_TIMEOUT :: u32 where "NFS4_RENEW_TIMEOUT \<equiv> 1"

definition nfs41_proc_async_sequence :: "'w setup_env \<Rightarrow> nat \<Rightarrow> u32 \<Rightarrow> 'w sclient \<Rightarrow> (int \<times> 'w sclient) option" where
  "nfs41_proc_async_sequence E n renew_flags clp =
     (if renew_flags AND NFS4_RENEW_TIMEOUT = 0 then Some (- EAGAIN, clp)
      else case proc_sequence_start E clp of
             (Inl e, clp) \<Rightarrow> Some (e, clp)
           | (Inr calldata, clp) \<Rightarrow> map_option (\<lambda>(_, clp). (0, nfs41_sequence_release E calldata clp)) (sequence_task E n False clp))"

definition nfs4_proc_sequence :: "'w setup_env \<Rightarrow> nat \<Rightarrow> 'w sclient \<Rightarrow> (int \<times> 'w sclient) option" where
  "nfs4_proc_sequence E n clp =
     (case proc_sequence_start E clp of
        (Inl e, clp) \<Rightarrow> Some (e, clp)
      | (Inr calldata, clp) \<Rightarrow>
          (case on_world (se_task_wait E) clp of (ret, clp) \<Rightarrow>
             map_option (\<lambda>((status, flags), clp).
                 (if ret \<noteq> 0 then ret else status,
                  nfs41_sequence_release E calldata (if ret = 0 \<and> status = 0 then nfs41_handle_sequence_flag_errors (se_client E) flags clp else clp)))
               (sequence_task E n True clp)))"

definition nfs41_reclaim_complete_handle_errors :: "'w setup_env \<Rightarrow> int \<Rightarrow> 'w sclient \<Rightarrow> int \<times> 'w sclient" where
  "nfs41_reclaim_complete_handle_errors E status clp =
     (if status \<in> {0, - NFS4ERR_COMPLETE_ALREADY, - NFS4ERR_WRONG_CRED} then (0, clp)
      else if status \<in> {- NFS4ERR_DELAY, - NFS4ERR_RETRY_UNCACHED_REP} then (- EAGAIN, clp)
      else (0, nfs4_schedule_lease_recovery (se_client E) clp))"

definition nfs4_reclaim_complete_done :: "'w setup_env \<Rightarrow> int \<Rightarrow> 'w sclient \<Rightarrow> bool \<times> 'w sclient" where
  "nfs4_reclaim_complete_done E status clp =
     (case on_world (se_sequence_ok E) clp of (ok, clp) \<Rightarrow>
        if \<not> ok then (False, clp) else (case nfs41_reclaim_complete_handle_errors E status clp of (r, clp) \<Rightarrow> (r \<noteq> - EAGAIN, clp)))"

fun reclaim_complete_task :: "'w setup_env \<Rightarrow> nat \<Rightarrow> 'w sclient \<Rightarrow> (int \<times> 'w sclient) option" where
  "reclaim_complete_task E 0 clp = None"
| "reclaim_complete_task E (Suc n) clp =
     (case on_world (rpc_reclaim_complete E) clp of (status, clp) \<Rightarrow>
        case nfs4_reclaim_complete_done E status clp of (fin, clp) \<Rightarrow> if fin then Some (status, clp) else reclaim_complete_task E n clp)"

text \<open>The status of the task is computed and dropped.\<close>

definition nfs41_proc_reclaim_complete :: "'w setup_env \<Rightarrow> nat \<Rightarrow> 'w sclient \<Rightarrow> (int \<times> 'w sclient) option" where
  "nfs41_proc_reclaim_complete E n clp =
     (case kzalloc E clp of
        (None, clp) \<Rightarrow> Some (- ENOMEM, clp)
      | (Some b, clp) \<Rightarrow>
          (case se_task_error E (su_world (cl_world clp)) of
             Some e \<Rightarrow> Some (e, kfree (Some b) clp)
           | None \<Rightarrow> (case on_world (se_task_wait E) clp of (status, clp) \<Rightarrow> map_option (\<lambda>(_, clp). (0, kfree (Some b) clp)) (reclaim_complete_task E n clp))))"

end
