(* ===== verification/Nfs4_Session_Correct.thy ===== *)
theory Nfs4_Session_Correct
  imports Nfs4_Session_Setup
begin

text \<open>
  What the set-up of client ids and sessions does with memory, what a session that was created guarantees, and which errors get lost.
\<close>

section \<open>Memory\<close>

definition opt_list :: "'a option \<Rightarrow> 'a list" where
  "opt_list p = (case p of None \<Rightarrow> [] | Some x \<Rightarrow> [x])"

lemma opt_list_simps [simp]: "opt_list None = []" "opt_list (Some x) = [x]"
  by (simp_all add: opt_list_def)

text \<open>The blocks that the client points to.\<close>

definition blocks :: "'w sess_setup \<Rightarrow> nat list" where
  "blocks s = opt_list (su_acceptor s) @ opt_list (su_serverowner s) @ opt_list (su_implid s) @ map fst (opt_list (su_serverscope s))"

text \<open>Every block is pointed to by exactly one field of the client or is one of \<open>X\<close>, and nothing was freed twice.\<close>

definition accounts :: "nat set \<Rightarrow> 'w sclient \<Rightarrow> bool" where
  "accounts X clp \<longleftrightarrow> (let s = cl_world clp in su_live s = set (blocks s) \<union> X \<and> \<not> su_bad_free s \<and> distinct (blocks s) \<and> X \<inter> set (blocks s) = {} \<and> (\<forall>b \<in> su_live s. b < su_next s))"

lemma su_simps [simp]: "cl_world (su f clp) = f (cl_world clp)" "cl_state (su f clp) = cl_state clp" "cl_count (su f clp) = cl_count clp"
  by (simp_all add: su_def)

lemma blocks_cong: "su_acceptor s = su_acceptor t \<Longrightarrow> su_serverowner s = su_serverowner t \<Longrightarrow> su_implid s = su_implid t \<Longrightarrow> su_serverscope s = su_serverscope t \<Longrightarrow> blocks s = blocks t"
  by (simp add: blocks_def)

lemma accounts_cong:
  assumes "accounts X c" and "blocks (cl_world d) = blocks (cl_world c)" and "su_live (cl_world d) = su_live (cl_world c)" and "su_next (cl_world d) = su_next (cl_world c)"
    and "su_bad_free (cl_world d) = su_bad_free (cl_world c)"
  shows "accounts X d"
  using assms by (simp add: accounts_def Let_def)

lemma on_world_accounts:
  assumes "on_world f c = (a, d)" and "accounts X c"
  shows "accounts X d \<and> su_next (cl_world d) = su_next (cl_world c)"
proof -
  obtain w where "d = su (\<lambda>s. s\<lparr>su_world := w\<rparr>) c" using assms(1) by (auto simp: on_world_def split: prod.splits)
  then show ?thesis using accounts_cong [OF assms(2), of d] by (simp add: blocks_def)
qed

lemma select_mode_accounts: "nfs4_sp4_select_mode sp c = (r, d) \<Longrightarrow> accounts X c \<Longrightarrow> accounts X d"
  by (erule accounts_cong) (auto simp: nfs4_sp4_select_mode_def Let_def blocks_def split: if_splits)

lemma kzalloc_accounts:
  assumes "kzalloc E c = (p, d)" and "accounts X c"
  shows "su_next (cl_world d) = su_next (cl_world c) + 1 \<and>
    (if se_alloc_ok E (su_next (cl_world c)) then p = Some (su_next (cl_world c)) \<and> accounts (insert (su_next (cl_world c)) X) d \<and> su_next (cl_world c) \<notin> X
     else p = None \<and> accounts X d)"
proof -
  let ?n = "su_next (cl_world c)"
  have b: "blocks (cl_world d) = blocks (cl_world c)" using assms(1) by (auto simp: kzalloc_def Let_def blocks_def split: if_splits)
  have "?n \<notin> set (blocks (cl_world c)) \<union> X" using assms(2) by (auto simp: accounts_def Let_def)
  then show ?thesis using assms b by (auto simp: kzalloc_def Let_def accounts_def less_Suc_eq split: if_splits)
qed

lemma kfree_accounts:
  assumes "accounts X c" and "b \<in> X"
  shows "accounts (X - {b}) (kfree (Some b) c)"
proof -
  have "blocks (cl_world (kfree (Some b) c)) = blocks (cl_world c)" by (simp add: kfree_def blocks_def)
  then show ?thesis using assms by (auto simp: kfree_def accounts_def Let_def)
qed

lemma kfree_world [simp]: "blocks (cl_world (kfree p c)) = blocks (cl_world c)" "su_next (cl_world (kfree p c)) = su_next (cl_world c)"
  by (simp_all add: kfree_def blocks_def split: option.splits)

text \<open>A field of the client gets another block: the old one is freed.\<close>

lemma replace_accounts:
  assumes "accounts (insert b X) c" and "b \<notin> X" and "blocks (cl_world c) = xs @ opt_list p @ ys" and "blocks (f (cl_world (kfree p c))) = xs @ b # ys"
    and "\<And>s. su_live (f s) = su_live s \<and> su_next (f s) = su_next s \<and> su_bad_free (f s) = su_bad_free s"
  shows "accounts X (su f (kfree p c))"
  using assms by (cases p) (auto simp: accounts_def Let_def kfree_def)

lemma accept_accounts:
  assumes "accounts (insert o1 (insert sc (insert im X))) c" and "distinct [o1, sc, im]" and "{o1, sc, im} \<inter> X = {}"
  shows "accounts X (exchange_id_accept res o1 sc im c)"
proof -
  let ?f = "\<lambda>s. s\<lparr>su_clientid := eir_clientid res, su_exchange_flags := eir_flags res AND NOT EXCHGID4_FLAG_CONFIRMED_R,
              su_seqid := (if eir_flags res AND EXCHGID4_FLAG_CONFIRMED_R = 0 then eir_seqid res else su_seqid s)\<rparr>"
  let ?new = "\<lparr>server_scope_sz = eir_scope_sz res, server_scope = eir_scope res\<rparr>"
  define c1 where "c1 = su ?f c"
  define c2 where "c2 = su (\<lambda>s. s\<lparr>su_serverowner := Some o1\<rparr>) (kfree (su_serverowner (cl_world c1)) c1)"
  define c3 where "c3 = su (\<lambda>s. s\<lparr>su_implid := Some im\<rparr>) (kfree (su_implid (cl_world c2)) c2)"
  have a1: "accounts (insert o1 (insert sc (insert im X))) c1" using assms(1) by (rule accounts_cong) (simp_all add: c1_def blocks_def)
  have a2: "accounts (insert sc (insert im X)) c2" unfolding c2_def
    by (rule replace_accounts [where xs = "opt_list (su_acceptor (cl_world c1))" and ys = "opt_list (su_implid (cl_world c1)) @ map fst (opt_list (su_serverscope (cl_world c1)))"])
      (use a1 assms(2,3) in \<open>auto simp: blocks_def kfree_def split: option.splits\<close>)
  have a3: "accounts (insert sc X) c3" unfolding c3_def
    by (rule replace_accounts [where xs = "opt_list (su_acceptor (cl_world c2)) @ opt_list (su_serverowner (cl_world c2))" and ys = "map fst (opt_list (su_serverscope (cl_world c2)))"])
      (use a2 assms(2,3) in \<open>auto simp: blocks_def kfree_def insert_commute split: option.splits\<close>)
  show ?thesis
  proof (cases "su_serverscope (cl_world c3)")
    case None
    then have "exchange_id_accept res o1 sc im c = su (\<lambda>s. s\<lparr>su_serverscope := Some (sc, ?new)\<rparr>) c3"
      by (simp add: exchange_id_accept_def Let_def c1_def c2_def c3_def)
    then show ?thesis using a3 None assms(3) by (auto simp: accounts_def Let_def blocks_def)
  next
    case (Some q)
    obtain b old where q: "q = (b, old)" by fastforce
    show ?thesis
    proof (cases "nfs41_same_server_scope old ?new")
      case True
      then have "exchange_id_accept res o1 sc im c = kfree (Some sc) c3" using Some q by (simp add: exchange_id_accept_def Let_def c1_def c2_def c3_def)
      then show ?thesis using kfree_accounts [OF a3, of sc] assms(3) by simp
    next
      case False
      let ?d = "set_bit_clnt NFS4CLNT_SERVER_SCOPE_MISMATCH c3"
      have w: "cl_world ?d = cl_world c3" by (simp add: set_bit_clnt_def)
      have "exchange_id_accept res o1 sc im c = su (\<lambda>s. s\<lparr>su_serverscope := Some (sc, ?new)\<rparr>) (su (\<lambda>s. s\<lparr>su_serverscope := None\<rparr>) (kfree (Some b) ?d))"
        using False Some q by (simp add: exchange_id_accept_def Let_def c1_def c2_def c3_def)
      then show ?thesis using a3 Some q w assms(3) by (auto simp: accounts_def Let_def blocks_def kfree_def)
    qed
  qed
qed

lemma exchange_id_call_accounts:
  assumes "exchange_id_call E req o1 sc im c = (r, d)" and "accounts (insert o1 (insert sc (insert im X))) c" and "distinct [o1, sc, im]" and "{o1, sc, im} \<inter> X = {}"
  shows "accounts X d"
proof -
  obtain status res c4 where r: "on_world (rpc_exchange_id E req) c = ((status, res), c4)" by (metis surj_pair)
  have a4: "accounts (insert o1 (insert sc (insert im X))) c4" using on_world_accounts [OF r assms(2)] by simp
  let ?st = "if status = 0 then nfs4_check_cl_exchange_flags (eir_flags res) else status"
  obtain st5 c5 where m: "(if ?st = 0 then nfs4_sp4_select_mode (eir_state_protect res) c4 else (?st, c4)) = (st5, c5)" by fastforce
  have a5: "accounts (insert o1 (insert sc (insert im X))) c5" using m a4 select_mode_accounts by (metis prod.inject)
  show ?thesis
  proof (cases "st5 = 0")
    case True
    then show ?thesis using assms(1) accept_accounts [OF a5 assms(3,4)] unfolding exchange_id_call_def Let_def r prod.case m by auto
  next
    case False
    have "accounts (insert o1 (insert sc X)) (kfree (Some im) c5)" using kfree_accounts [OF a5, of im] assms(3,4) by (simp add: insert_Diff_if)
    from kfree_accounts [OF this, of o1] have "accounts (insert sc X) (kfree (Some o1) (kfree (Some im) c5))" using assms(3,4) by (simp add: insert_Diff_if)
    from kfree_accounts [OF this, of sc] have "accounts X (kfree (Some sc) (kfree (Some o1) (kfree (Some im) c5)))" using assms(4) by simp
    then show ?thesis using False assms(1) unfolding exchange_id_call_def Let_def r prod.case m by auto
  qed
qed

text \<open>EXCHANGE_ID: which allocation fails decides what is left behind.\<close>

definition leak_at :: "'w setup_env \<Rightarrow> nat \<Rightarrow> nat set" where
  "leak_at E n = (if se_alloc_ok E n \<and> se_alloc_ok E (n + 1) \<and> \<not> se_alloc_ok E (n + 2) then {n} else {})"

lemma exchange_id_once_accounts:
  assumes "exchange_id_once E how c = (r, d)" and "accounts X c" and "how \<in> {SP4_NONE, SP4_MACH_CRED}"
  shows "accounts (X \<union> leak_at E (su_next (cl_world c))) d"
proof -
  let ?n = "su_next (cl_world c)"
  obtain p1 c1 where 1: "kzalloc E c = (p1, c1)" by fastforce
  obtain p2 c2 where 2: "kzalloc E c1 = (p2, c2)" by fastforce
  obtain p3 c3 where 3: "kzalloc E c2 = (p3, c3)" by fastforce
  note k1 = kzalloc_accounts [OF 1 assms(2)]
  show ?thesis
  proof (cases "se_alloc_ok E ?n")
    case False
    then show ?thesis using k1 assms(1) 1 by (auto simp: exchange_id_once_def Let_def leak_at_def)
  next
    case ok1: True
    then have a1: "p1 = Some ?n" "accounts (insert ?n X) c1" "?n \<notin> X" "su_next (cl_world c1) = ?n + 1" using k1 by simp_all
    note k2 = kzalloc_accounts [OF 2 a1(2)]
    show ?thesis
    proof (cases "se_alloc_ok E (?n + 1)")
      case False
      then have "accounts (insert ?n X) c2" "d = kfree (Some ?n) c2" using k2 a1 assms(1) 1 2 by (auto simp: exchange_id_once_def Let_def)
      then show ?thesis using kfree_accounts [of "insert ?n X" c2 ?n] False a1 by (simp add: leak_at_def)
    next
      case ok2: True
      then have a2: "p2 = Some (?n + 1)" "accounts (insert (?n + 1) (insert ?n X)) c2" "?n + 1 \<notin> X" "su_next (cl_world c2) = ?n + 2" using k2 a1 by simp_all
      note k3 = kzalloc_accounts [OF 3 a2(2)]
      show ?thesis
      proof (cases "se_alloc_ok E (?n + 2)")
        case False
        then have "accounts (insert (?n + 1) (insert ?n X)) c3" "d = kfree (Some (?n + 1)) c3" using k3 a1 a2 assms(1) 1 2 3 by (auto simp: exchange_id_once_def Let_def)
        then show ?thesis using kfree_accounts [of "insert (?n + 1) (insert ?n X)" c3 "?n + 1"] False ok1 ok2 a2 by (simp add: leak_at_def)
      next
        case True
        then have a3: "p3 = Some (?n + 2)" "accounts (insert (?n + 2) (insert (?n + 1) (insert ?n X))) c3" "?n + 2 \<notin> X" using k3 a2 by simp_all
        obtain req where "exchange_id_call E req ?n (?n + 1) (?n + 2) c3 = (r, d)" using assms(1,3) a1 a2 a3 1 2 3 by (auto simp: exchange_id_once_def Let_def)
        then have "accounts X d" by (rule exchange_id_call_accounts) (use a1(3) a2 a3 in \<open>simp_all add: insert_commute\<close>)
        then show ?thesis using True by (simp add: leak_at_def)
      qed
    qed
  qed
qed

section \<open>Sessions\<close>

text \<open>A session that was created has a fore channel with at least one slot, no more slots than the client has room for, and at least as many operations in a COMPOUND as were asked for.\<close>

lemma create_session_negotiated:
  assumes "proc_create_session E c = (0, d)" and "nfs4_init_channel_attrs E = (fc, bc)" and "0 < se_max_slot_table E"
  shows "max_resp_sz (su_fc_attrs (cl_world d)) \<le> max_resp_sz fc \<and> max_ops fc \<le> max_ops (su_fc_attrs (cl_world d)) \<and> 0 < max_reqs (su_fc_attrs (cl_world d)) \<and>
    max_reqs (su_fc_attrs (cl_world d)) \<le> se_max_slot_table E \<and> max_reqs (su_bc_attrs (cl_world d)) = 1 \<and> max_ops (su_bc_attrs (cl_world d)) = max_ops bc"
proof -
  obtain status c1 where 1: "create_session_once E c = (status, c1)" by fastforce
  have s: "status = 0" using assms(1) 1 by (auto simp: proc_create_session_def split: if_splits)
  have w: "su_fc_attrs (cl_world d) = su_fc_attrs (cl_world c1)" "su_bc_attrs (cl_world d) = su_bc_attrs (cl_world c1)"
    using assms(1) 1 s by (auto simp: proc_create_session_def on_world_def split: prod.splits)
  have bc: "max_reqs bc = 1" using assms(2) by (auto simp: nfs4_init_channel_attrs_def)
  show ?thesis unfolding w using 1 s assms(2,3) bc
    by (auto simp: create_session_once_def nfs4_verify_channel_attrs_def nfs4_verify_fore_channel_attrs_def nfs4_verify_back_channel_attrs_def Let_def word_neq_0_conv
        split: prod.splits if_splits)
qed

section \<open>Lost errors\<close>

text \<open>Whatever RECLAIM_COMPLETE was answered with, and whatever ended the wait, the procedure returns 0 once the task runs.\<close>

lemma reclaim_complete_zero:
  assumes "nfs41_proc_reclaim_complete E n c = Some (r, d)" and "kzalloc E c = (Some b, c1)" and "se_task_error E (su_world (cl_world c1)) = None"
  shows "r = 0"
  using assms by (auto simp: nfs41_proc_reclaim_complete_def split: prod.splits)

lemma reclaim_complete_runs:
  assumes "se_alloc_ok E (su_next (cl_world c))" and "\<And>w. se_task_error E w = None" and "\<And>w. fst (se_sequence_ok E w)" and "\<And>w. fst (rpc_reclaim_complete E w) = err"
    and "err \<notin> {- NFS4ERR_DELAY, - NFS4ERR_RETRY_UNCACHED_REP}"
  shows "\<exists>d. nfs41_proc_reclaim_complete E (Suc n) c = Some (0, d)"
proof -
  obtain b c1 where 1: "kzalloc E c = (Some b, c1)" using assms(1) by (auto simp: kzalloc_def Let_def)
  obtain st c2 where 2: "on_world (se_task_wait E) c1 = (st, c2)" by fastforce
  obtain e c3 where 3: "on_world (rpc_reclaim_complete E) c2 = (e, c3)" by fastforce
  have "e = err" using 3 assms(4) by (auto simp: on_world_def split: prod.splits) (metis fst_conv)
  obtain ok c4 where 4: "on_world (se_sequence_ok E) c3 = (ok, c4)" by fastforce
  have "ok" using 4 assms(3) by (auto simp: on_world_def split: prod.splits) (metis fst_conv)
  have "\<exists>d. nfs4_reclaim_complete_done E err c3 = (True, d)" using 4 \<open>ok\<close> assms(5) by (auto simp: nfs4_reclaim_complete_done_def nfs41_reclaim_complete_handle_errors_def)
  then obtain d where "nfs4_reclaim_complete_done E err c3 = (True, d)" by blast
  then show ?thesis using 1 2 3 assms(2) \<open>e = err\<close> by (simp add: nfs41_proc_reclaim_complete_def)
qed

text \<open>A client id that stays busy counts as destroyed, after a bounded number of tries.\<close>

lemma destroy_clientid_busy:
  assumes "\<And>w. fst (rpc_destroy_clientid E w) \<in> {- NFS4ERR_DELAY, - NFS4ERR_CLIENTID_BUSY}"
  shows "\<exists>d. destroy_clientid_loop E k c = (0, d) \<and> su_exchange_flags (cl_world d) = su_exchange_flags (cl_world c)"
proof (induction k arbitrary: c)
  case (Suc k)
  obtain r c1 where 1: "on_world (rpc_destroy_clientid E) c = (r, c1)" by fastforce
  have r: "r \<in> {- NFS4ERR_DELAY, - NFS4ERR_CLIENTID_BUSY}" using 1 assms [of "su_world (cl_world c)"] by (auto simp: on_world_def split: prod.splits)
  have f: "su_exchange_flags (cl_world (snd (on_world (\<lambda>w. ((), ssleep E w)) c1))) = su_exchange_flags (cl_world c)" using 1 by (auto simp: on_world_def split: prod.splits)
  show ?case using Suc.IH [of "snd (on_world (\<lambda>w. ((), ssleep E w)) c1)"] r 1 f by auto
qed simp

lemma destroy_clientid_gives_up:
  assumes "\<And>w. fst (rpc_destroy_clientid E w) \<in> {- NFS4ERR_DELAY, - NFS4ERR_CLIENTID_BUSY}" and "1 \<le> se_minorversion E"
    and "su_exchange_flags (cl_world c) \<noteq> 0" and "\<not> su_preserve_clid (cl_world c)"
  shows "\<exists>d. nfs4_destroy_clientid E c = (0, d) \<and> su_exchange_flags (cl_world d) = 0"
  using destroy_clientid_busy [of E "se_max_loop E" c, OF assms(1)] assms(2-4) by (auto simp: nfs4_destroy_clientid_def)

text \<open>SETCLIENTID forgets the block of the previous acceptor.\<close>

lemma setclientid_leak:
  assumes "accounts X c" and "se_task_error E (su_world (cl_world c)) = None" and "nfs4_proc_setclientid E prog port c = (0, d)" and "su_acceptor (cl_world c) = Some b"
  shows "accounts (insert b X) d"
proof -
  obtain req c1 where 1: "on_world (rpc_setclientid E req) c = (0, c1)" and d: "d = (case kzalloc E c1 of (a, x) \<Rightarrow> su (\<lambda>s. s\<lparr>su_acceptor := a\<rparr>) x)"
    using assms(2,3) by (auto simp: nfs4_proc_setclientid_def Let_def split: prod.splits if_splits)
  have b: "su_acceptor (cl_world c1) = Some b" using 1 assms(4) by (auto simp: on_world_def split: prod.splits)
  obtain a c2 where 2: "kzalloc E c1 = (a, c2)" by fastforce
  have a1: "accounts X c1" using on_world_accounts [OF 1 assms(1)] by simp
  obtain rest where rest: "blocks (cl_world c2) = b # rest" "blocks (cl_world d) = opt_list a @ rest"
    using 2 b d by (auto simp: kzalloc_def Let_def blocks_def split: if_splits)
  have same: "su_live (cl_world d) = su_live (cl_world c2)" "su_bad_free (cl_world d) = su_bad_free (cl_world c2)" "su_next (cl_world d) = su_next (cl_world c2)" using 2 d by simp_all
  have c2: "case a of None \<Rightarrow> accounts X c2 | Some m \<Rightarrow> accounts (insert m X) c2" using kzalloc_accounts [OF 2 a1] by (auto split: if_splits)
  show ?thesis
  proof (cases a)
    case None
    then have "accounts X c2" using c2 by simp
    then show ?thesis using rest same None unfolding accounts_def Let_def by auto
  next
    case (Some m)
    then have "accounts (insert m X) c2" "m \<notin> X" using c2 kzalloc_accounts [OF 2 a1] by (auto split: if_splits)
    then show ?thesis using rest same Some unfolding accounts_def Let_def by auto
  qed
qed

end
