(* ===== verification/Nfs4_Session_Properties.thy ===== *)
theory Nfs4_Session_Properties
  imports Nfs4_Session_Correct Xdr_Sample
begin

text \<open>
  The properties of the set-up of client ids and sessions, stated over the definitions of \<^verbatim>\<open>Nfs4_Session_Setup\<close> and \<^verbatim>\<open>Xdr_Request\<close>, each with an example.
\<close>

section \<open>Samples\<close>

definition sample_channel :: "u32 \<Rightarrow> u32 \<Rightarrow> nfs4_channel_attrs" where
  "sample_channel ops reqs = \<lparr>max_rqst_sz = 4096, max_resp_sz = 4096, max_resp_sz_cached = 0, max_ops = ops, max_reqs = reqs\<rparr>"

definition sample_eid_res :: nfs41_exchange_id_res where
  "sample_eid_res = \<lparr>eir_clientid = 5, eir_seqid = 1, eir_flags = EXCHGID4_FLAG_USE_NON_PNFS, eir_so_minor_id = 0, eir_so_major_id = [], eir_so_major_id_sz = 0, eir_scope = [1], eir_scope_sz = 1,
     eir_impl_domain = [], eir_impl_name = [], eir_impl_date = (0, 0), eir_state_protect = \<lparr>sp_how = SP4_NONE, sp_enforce = [0, 0], sp_allow = [0, 0]\<rparr>\<rparr>"

definition sample_setup_env :: "(nat \<Rightarrow> bool) \<Rightarrow> unit setup_env" where
  "sample_setup_env ok = \<lparr>se_client = \<lparr>kthread_run = (\<lambda>c. (True, c)), nfs_put_client = (\<lambda>c. c\<lparr>cl_count := cl_count c - 1\<rparr>), nfs_expire_all_delegations = (\<lambda>c. c),
       nfs_delegation_mark_reclaim = (\<lambda>c. c), nfs_delegation_reap_unclaimed = (\<lambda>c. c), wait_on_manager = (\<lambda>c. (0, c))\<rparr>,
     se_sizes = kconst.truncate sample_kernel, se_migration = False, se_alloc_ok = ok, se_boot_time = (7, 8), se_ipaddr = ''10.0.0.1'', se_peer = ''10.0.0.2'', se_proto = ''tcp'', se_nodename = ''host'',
     se_uniquifier = '''', se_version = 4, se_minorversion = 1, se_cs_migration = False, se_cb_ident = 1, se_integrity = False, se_max_session_slots = 64, se_max_slot_table = 1024,
     se_page_size = 4096, se_max_loop = 10, se_clid_cred = True, rpc_exchange_id = (\<lambda>_. Pair (0, sample_eid_res)), rpc_bind_conn = Pair (0, \<lparr>bcr_sess_id = [], bcr_dir = 3, bcr_rdma = False\<rparr>),
     rpc_create_session = (\<lambda>fc bc _ old. Pair (0, old\<lparr>csr_fc_attrs := fc\<lparr>max_ops := 128, max_reqs := 2000\<rparr>, csr_bc_attrs := bc\<rparr>)), rpc_destroy_session = Pair 0,
     rpc_destroy_clientid = Pair 0, rpc_setclientid = (\<lambda>_. Pair 0), rpc_setclientid_confirm = (\<lambda>_. Pair 0), nfs4_setup_session_slot_tables = (\<lambda>_. Pair 0), ssleep = (\<lambda>w. w),
     se_task_error = (\<lambda>_. None), se_task_wait = Pair 0, se_sequence_ok = Pair True, rpc_sequence = (\<lambda>_. Pair (0, 0)), rpc_reclaim_complete = Pair (- NFS4ERR_WRONG_CRED),
     rpc_lease_time = Pair (0, 90), se_schedule_renewal = (\<lambda>w. w)\<rparr>"

definition sample_setup_client :: "unit sclient" where
  "sample_setup_client = \<lparr>cl_world = \<lparr>su_world = (), su_clientid = 0, su_seqid = 0, su_exchange_flags = 0, su_sp4_flags = {}, su_preserve_clid = False, su_acceptor = None,
       su_serverowner = None, su_implid = None, su_serverscope = None, su_sess_id = [], su_fc_attrs = sample_channel 0 0, su_bc_attrs = sample_channel 0 0, su_live = {}, su_next = 0,
       su_bad_free = False\<rparr>,
     cl_state = {}, cl_count = 1, cl_cons_state = 0, cl_last_renewal = 0, cl_tables = Session_Tables \<lparr>dt_draining = False, dt_used = False\<rparr> \<lparr>dt_draining = False, dt_used = False\<rparr>, cl_mig_gen = 0,
     cl_threads = 0, cl_superblocks = []\<rparr>"

lemma sample_setup_accounts: "accounts {} sample_setup_client"
  by (simp add: accounts_def sample_setup_client_def blocks_def)

section \<open>Sessions\<close>

text \<open>C28: the session and the chained lookup. When CREATE_SESSION has succeeded, a COMPOUND of the session may have at least as many operations as the longest chain that the walk sends
  (thirty names) needs with its SEQUENCE and PUTFH, there is at least one slot and there are at most as many as the table of the client holds, replies are no longer than the
  client asked for, and the back channel is the one that was asked for.\<close>

theorem session_fits_chain:
  assumes "proc_create_session E c = (0, d)" and "0 < se_max_slot_table E" and "length (chain_dchain_list a) \<le> 30"
  shows "length (request_ops K (PROC_CHAIN_LOOKUP a)) \<le> unat (max_ops (su_fc_attrs (cl_world d))) \<and>
    0 < max_reqs (su_fc_attrs (cl_world d)) \<and> max_reqs (su_fc_attrs (cl_world d)) \<le> se_max_slot_table E \<and>
    max_resp_sz (su_fc_attrs (cl_world d)) \<le> 1048576 + of_nat (nfs41_maxread_overhead (se_sizes E)) \<and>
    max_ops (su_bc_attrs (cl_world d)) = 2 \<and> max_reqs (su_bc_attrs (cl_world d)) = 1"
proof -
  obtain fc bc where i: "nfs4_init_channel_attrs E = (fc, bc)" by fastforce
  then have f: "max_ops fc = 100" "max_ops bc = 2" "max_resp_sz fc = 1048576 + of_nat (nfs41_maxread_overhead (se_sizes E))" by (auto simp: nfs4_init_channel_attrs_def)
  note n = create_session_negotiated [OF assms(1) i assms(2)]
  have "100 \<le> unat (max_ops (su_fc_attrs (cl_world d)))" using n f by (simp add: word_le_nat_alt)
  moreover have "length (request_ops K (PROC_CHAIN_LOOKUP a)) \<le> 92" using assms(3) by (auto simp: request_ops_def seq_ops_def length_chain_ops split: option.splits)
  ultimately show ?thesis using n f by simp
qed

lemma sample_session_created: "\<exists>d. proc_create_session (sample_setup_env (\<lambda>_. True)) sample_setup_client = (0, d)"
  by (simp add: proc_create_session_def create_session_once_def nfs4_init_channel_attrs_def on_world_def nfs4_verify_channel_attrs_def
      nfs4_verify_fore_channel_attrs_def nfs4_verify_back_channel_attrs_def Let_def sample_setup_env_def)

theorem session_fits_chain_witness:
  "\<exists>d. proc_create_session (sample_setup_env (\<lambda>_. True)) sample_setup_client = (0, d) \<and> max_reqs (su_fc_attrs (cl_world d)) \<le> 1024 \<and>
     length (request_ops sample_kernel (PROC_CHAIN_LOOKUP sample_chain)) \<le> unat (max_ops (su_fc_attrs (cl_world d)))"
proof -
  obtain d where d: "proc_create_session (sample_setup_env (\<lambda>_. True)) sample_setup_client = (0, d)" using sample_session_created by blast
  have t: "se_max_slot_table (sample_setup_env (\<lambda>_. True)) = 1024" by (simp add: sample_setup_env_def)
  have l: "length (chain_dchain_list sample_chain) \<le> 30" by (simp add: sample_chain_def)
  show ?thesis using session_fits_chain [OF d _ l, of sample_kernel] d t by auto
qed

section \<open>Memory\<close>

text \<open>C29: the memory of EXCHANGE_ID. If before the call every live block belongs to exactly one field of the client, so it does afterwards, whatever the server answers, and nothing is freed
  twice, with one exception: when the third allocation fails after the first two, the block of the first is lost (\<^verbatim>\<open>goto out_server_scope\<close> skips the \<^verbatim>\<open>kfree\<close> of the server owner).\<close>

theorem exchange_id_memory:
  assumes "exchange_id_once E how c = (r, d)" and "how \<in> {SP4_NONE, SP4_MACH_CRED}" and "accounts {} c"
  shows "su_live (cl_world d) = set (blocks (cl_world d)) \<union>
      (let n = su_next (cl_world c) in if se_alloc_ok E n \<and> se_alloc_ok E (n + 1) \<and> \<not> se_alloc_ok E (n + 2) then {n} else {}) \<and>
    \<not> su_bad_free (cl_world d) \<and> distinct (blocks (cl_world d))"
  using exchange_id_once_accounts [OF assms(1,3,2)] by (auto simp: accounts_def leak_at_def Let_def)

theorem exchange_id_memory_witness:
  "su_live (cl_world (snd (exchange_id_once (sample_setup_env (\<lambda>n. n \<noteq> 2)) SP4_NONE sample_setup_client))) =
     insert 0 (set (blocks (cl_world (snd (exchange_id_once (sample_setup_env (\<lambda>n. n \<noteq> 2)) SP4_NONE sample_setup_client)))))"
proof -
  obtain r d where x: "exchange_id_once (sample_setup_env (\<lambda>n. n \<noteq> 2)) SP4_NONE sample_setup_client = (r, d)" by fastforce
  then show ?thesis using exchange_id_memory [OF x _ sample_setup_accounts] by (simp add: sample_setup_env_def sample_setup_client_def)
qed

section \<open>Lost errors\<close>

text \<open>An error of RECLAIM_COMPLETE gets lost. Whatever final answer the server gives, and also when the wait for it was interrupted, \<^verbatim>\<open>nfs41_proc_reclaim_complete\<close> returns 0: the status that it
  computes is dropped, so the state manager takes the end of the reclaim for announced.\<close>

lemma reclaim_complete_error_lost:
  assumes "se_alloc_ok E (su_next (cl_world c))" and "\<And>w. se_task_error E w = None" and "\<And>w. fst (se_sequence_ok E w)" and "\<And>w. fst (rpc_reclaim_complete E w) = err"
    and "err \<notin> {- NFS4ERR_DELAY, - NFS4ERR_RETRY_UNCACHED_REP}"
  shows "\<exists>d. nfs41_proc_reclaim_complete E (Suc n) c = Some (0, d)"
  by (rule reclaim_complete_runs [OF assms])

end
