(* ===== verification/Nfs_Access.thy ===== *)
theory Nfs_Access
  imports Nfs_Inode "HOL-Library.Tree"
begin

text \<open>
  The access cache, the end of \<^verbatim>\<open>fs/nfs/dir.c\<close>: for every inode a search tree of the rights that credentials were found to have, a list of its entries with the least
  recently used first, and a list of the inodes that have entries, from which memory is reclaimed.

  An entry is never changed once it is in the tree, so the tree and the list of an inode hold copies of it. Credentials are their addresses. \<open>as_creds\<close> counts the references to a
  credential, \<open>as_now\<close> is \<^verbatim>\<open>jiffies\<close>. The rebalancing of the tree (\<^verbatim>\<open>lib/rbtree.c\<close>) is the parameter \<open>rb_env\<close>: \<^verbatim>\<open>rb_insert_color\<close> is called when a node has been linked in,
  \<^verbatim>\<open>rb_erase\<close> takes a node out. Searching and linking are code of the cache.
\<close>

section \<open>State\<close>

record access_entry =
  ae_jiffies :: u64
  ae_cred :: nat
  ae_mask :: u32

record access_inode =
  ai_inode :: nfs_inode
  ai_tree :: "access_entry tree"
  ai_entry_lru :: "access_entry list"
  ai_lru_set :: bool

record access_state =
  as_inodes :: "nat \<Rightarrow> access_inode"
  as_lru :: "nat list"
  as_nr :: int
  as_creds :: "nat \<Rightarrow> int"
  as_now :: u64

record rb_env =
  rb_insert_color :: "access_entry \<Rightarrow> access_entry tree \<Rightarrow> access_entry tree"
  rb_erase :: "access_entry \<Rightarrow> access_entry tree \<Rightarrow> access_entry tree"

abbreviation (input) MAY_EXEC :: u32 where "MAY_EXEC \<equiv> 0x1"
abbreviation (input) MAY_WRITE :: u32 where "MAY_WRITE \<equiv> 0x2"
abbreviation (input) MAY_READ :: u32 where "MAY_READ \<equiv> 0x4"
abbreviation (input) MAY_NOT_BLOCK :: u32 where "MAY_NOT_BLOCK \<equiv> 0x80"

definition upd_access :: "nat \<Rightarrow> (access_inode \<Rightarrow> access_inode) \<Rightarrow> access_state \<Rightarrow> access_state" where
  "upd_access i f s = s\<lparr>as_inodes := (as_inodes s)(i := f (as_inodes s i))\<rparr>"

section \<open>Freeing entries\<close>

definition nfs_access_free_entry :: "access_entry \<Rightarrow> access_state \<Rightarrow> access_state" where
  "nfs_access_free_entry entry s = s\<lparr>as_creds := (as_creds s)(ae_cred entry := as_creds s (ae_cred entry) - 1), as_nr := as_nr s - 1\<rparr>"

fun nfs_access_free_list :: "access_entry list \<Rightarrow> access_state \<Rightarrow> access_state" where
  "nfs_access_free_list [] s = s"
| "nfs_access_free_list (cache # head) s = nfs_access_free_list head (nfs_access_free_entry cache s)"

text \<open>The end of an iteration of the shrinker: the inode leaves the list.\<close>

definition remove_lru_entry :: "nat \<Rightarrow> access_state \<Rightarrow> access_state" where
  "remove_lru_entry i s = upd_access i (\<lambda>ai. ai\<lparr>ai_lru_set := False\<rparr>) (s\<lparr>as_lru := remove1 i (as_lru s)\<rparr>)"

text \<open>One inode: the entry that is freed, and the new state.\<close>

definition shrink_inode :: "rb_env \<Rightarrow> nat \<Rightarrow> access_state \<Rightarrow> access_entry list \<times> access_state" where
  "shrink_inode R i s =
     (case ai_entry_lru (as_inodes s i) of
        [] \<Rightarrow> ([], remove_lru_entry i s)
      | cache # rest \<Rightarrow>
          let s = upd_access i (\<lambda>ai. ai\<lparr>ai_tree := rb_erase R cache (ai_tree ai), ai_entry_lru := rest\<rparr>) s
          in ([cache], if rest \<noteq> [] then s\<lparr>as_lru := remove1 i (as_lru s) @ [i]\<rparr> else remove_lru_entry i s))"

text \<open>\<^verbatim>\<open>list_for_each_entry_safe\<close>: the successor is read before the body, which may move the inode to the end of the list.\<close>

definition lru_next :: "nat \<Rightarrow> nat list \<Rightarrow> nat option" where
  "lru_next i xs = (case drop 1 (dropWhile (\<lambda>j. j \<noteq> i) xs) of [] \<Rightarrow> None | j # _ \<Rightarrow> Some j)"

fun shrink_loop :: "rb_env \<Rightarrow> nat \<Rightarrow> nat option \<Rightarrow> access_entry list \<Rightarrow> access_state \<Rightarrow> access_entry list \<times> access_state" where
  "shrink_loop R n None head s = (head, s)"
| "shrink_loop R 0 (Some i) head s = (head, s)"
| "shrink_loop R (Suc n) (Some i) head s =
     (let next_inode = lru_next i (as_lru s)
      in case shrink_inode R i s of (freed, s) \<Rightarrow> shrink_loop R n next_inode (freed @ head) s)"

definition nfs_access_cache_shrinker :: "rb_env \<Rightarrow> nat \<Rightarrow> bool \<Rightarrow> nat \<Rightarrow> access_state \<Rightarrow> int \<times> access_state" where
  "nfs_access_cache_shrinker R pressure gfp_kernel nr_to_scan s =
     (if \<not> gfp_kernel then (if nr_to_scan = 0 then 0 else -1, s)
      else case shrink_loop R nr_to_scan (case as_lru s of [] \<Rightarrow> None | i # _ \<Rightarrow> Some i) [] s of (head, s) \<Rightarrow>
             let s = nfs_access_free_list head s in (as_nr s div 100 * int pressure, s))"

text \<open>\<^verbatim>\<open>__nfs_access_zap_cache\<close> takes the entries out from left to right and pushes each on the list.\<close>

definition zap_entries :: "nat \<Rightarrow> access_state \<Rightarrow> access_entry list \<times> access_state" where
  "zap_entries i s =
     (let ai = as_inodes s i; es = inorder (ai_tree ai)
      in (rev es,
          upd_access i (\<lambda>ai. ai\<lparr>ai_tree := Leaf, ai_entry_lru := filter (\<lambda>e. e \<notin> set es) (ai_entry_lru ai),
              ai_inode := (ai_inode ai)\<lparr>cache_validity := cache_validity (ai_inode ai) AND NOT NFS_INO_INVALID_ACCESS\<rparr>\<rparr>) s))"

definition nfs_access_zap_cache :: "nat \<Rightarrow> access_state \<Rightarrow> access_state" where
  "nfs_access_zap_cache i s =
     (if \<not> ai_lru_set (as_inodes s i) then s
      else case zap_entries i (remove_lru_entry i s) of (head, s) \<Rightarrow> nfs_access_free_list head s)"

section \<open>Looking up\<close>

fun nfs_access_search_rbtree :: "access_entry tree \<Rightarrow> nat \<Rightarrow> access_entry option" where
  "nfs_access_search_rbtree Leaf cred = None"
| "nfs_access_search_rbtree (Node l entry r) cred =
     (if cred < ae_cred entry then nfs_access_search_rbtree l cred
      else if cred > ae_cred entry then nfs_access_search_rbtree r cred
      else Some entry)"

definition entry_fresh :: "inode_hooks \<Rightarrow> access_inode \<Rightarrow> u64 \<Rightarrow> access_entry \<Rightarrow> bool" where
  "entry_fresh H ai jiffies cache \<longleftrightarrow>
     nfs_have_delegated_attributes H (ai_inode ai) \<or>
     time_in_range_open jiffies (ae_jiffies cache) (ae_jiffies cache + attrtimeo (ai_inode ai))"

definition access_invalid :: "access_inode \<Rightarrow> bool" where
  "access_invalid ai \<longleftrightarrow> cache_validity (ai_inode ai) AND NFS_INO_INVALID_ACCESS \<noteq> 0"

text \<open>\<open>None\<close> is \<^verbatim>\<open>-ENOENT\<close>.\<close>

definition nfs_access_get_cached :: "inode_hooks \<Rightarrow> rb_env \<Rightarrow> nat \<Rightarrow> nat \<Rightarrow> access_state \<Rightarrow> access_entry option \<times> access_state" where
  "nfs_access_get_cached H R i cred s =
     (let ai = as_inodes s i
      in if access_invalid ai then (None, nfs_access_zap_cache i s)
         else case nfs_access_search_rbtree (ai_tree ai) cred of
                None \<Rightarrow> (None, s)
              | Some cache \<Rightarrow>
                  if entry_fresh H ai (as_now s) cache
                  then (Some cache, upd_access i (\<lambda>ai. ai\<lparr>ai_entry_lru := remove1 cache (ai_entry_lru ai) @ [cache]\<rparr>) s)
                  else (None, nfs_access_free_entry cache
                         (upd_access i (\<lambda>ai. ai\<lparr>ai_tree := rb_erase R cache (ai_tree ai), ai_entry_lru := remove1 cache (ai_entry_lru ai)\<rparr>) s)))"

text \<open>Only the entry that was used last, without a lock; \<open>None\<close> is \<^verbatim>\<open>-ECHILD\<close>.\<close>

definition nfs_access_get_cached_rcu :: "inode_hooks \<Rightarrow> nat \<Rightarrow> nat \<Rightarrow> access_state \<Rightarrow> access_entry option" where
  "nfs_access_get_cached_rcu H i cred s =
     (let ai = as_inodes s i
      in if access_invalid ai then None
         else case rev (ai_entry_lru ai) of
                [] \<Rightarrow> None
              | cache # _ \<Rightarrow> if cred \<noteq> ae_cred cache then None else if entry_fresh H ai (as_now s) cache then Some cache else None)"

section \<open>Adding\<close>

text \<open>The descent: the new node is linked in at a leaf, or takes the place of the node with the same credential.\<close>

fun rb_link :: "access_entry \<Rightarrow> access_entry tree \<Rightarrow> access_entry option \<times> access_entry tree" where
  "rb_link new Leaf = (None, Node Leaf new Leaf)"
| "rb_link new (Node l entry r) =
     (if ae_cred new < ae_cred entry then case rb_link new l of (found, l) \<Rightarrow> (found, Node l entry r)
      else if ae_cred new > ae_cred entry then case rb_link new r of (found, r) \<Rightarrow> (found, Node l entry r)
      else (Some entry, Node l new r))"

definition nfs_access_add_rbtree :: "rb_env \<Rightarrow> nat \<Rightarrow> access_entry \<Rightarrow> access_state \<Rightarrow> access_state" where
  "nfs_access_add_rbtree R i new s =
     (case rb_link new (ai_tree (as_inodes s i)) of
        (None, t) \<Rightarrow> upd_access i (\<lambda>ai. ai\<lparr>ai_tree := rb_insert_color R new t, ai_entry_lru := ai_entry_lru ai @ [new]\<rparr>) s
      | (Some entry, t) \<Rightarrow>
          nfs_access_free_entry entry
            (upd_access i (\<lambda>ai. ai\<lparr>ai_tree := t, ai_entry_lru := remove1 entry (ai_entry_lru ai @ [new])\<rparr>) s))"

text \<open>\<open>ok\<close> is the outcome of the allocation.\<close>

definition nfs_access_add_cache :: "rb_env \<Rightarrow> bool \<Rightarrow> nat \<Rightarrow> access_entry \<Rightarrow> access_state \<Rightarrow> access_state" where
  "nfs_access_add_cache R ok i new s =
     (if \<not> ok then s
      else
        let s = s\<lparr>as_creds := (as_creds s)(ae_cred new := as_creds s (ae_cred new) + 1)\<rparr>;
            s = nfs_access_add_rbtree R i new s;
            s = s\<lparr>as_nr := as_nr s + 1\<rparr>
        in if ai_lru_set (as_inodes s i) then s
           else upd_access i (\<lambda>ai. ai\<lparr>ai_lru_set := True\<rparr>) (s\<lparr>as_lru := as_lru s @ [i]\<rparr>))"

definition nfs_access_set_mask :: "u32 \<Rightarrow> u32" where
  "nfs_access_set_mask access_result =
     (if access_result AND NFS4_ACCESS_READ \<noteq> 0 then MAY_READ else 0) OR
     (if access_result AND (NFS4_ACCESS_MODIFY OR NFS4_ACCESS_EXTEND OR NFS4_ACCESS_DELETE) \<noteq> 0 then MAY_WRITE else 0) OR
     (if access_result AND (NFS4_ACCESS_LOOKUP OR NFS4_ACCESS_EXECUTE) \<noteq> 0 then MAY_EXEC else 0)"

section \<open>Asking\<close>

text \<open>\<open>proto_access\<close> is the ACCESS procedure: a status and the rights. Other tasks may use the cache while it waits.\<close>

record access_env =
  ac_hooks :: inode_hooks
  ac_rb :: rb_env
  ac_sb :: nfs_sb
  ac_alloc :: "access_state \<Rightarrow> bool"
  proto_access :: "nat \<Rightarrow> nat \<Rightarrow> access_state \<Rightarrow> (int \<times> u32) \<times> access_state"

definition access_estale :: "access_env \<Rightarrow> nat \<Rightarrow> access_state \<Rightarrow> access_state" where
  "access_estale A i s =
     upd_access i (\<lambda>ai. let ino = nfs_zap_caches_locked (ac_hooks A) (ac_sb A) (as_now s) (ai_inode ai)
                        in ai\<lparr>ai_inode := if S_ISDIR (i_mode ino) then ino else ino\<lparr>ino_stale := True\<rparr>\<rparr>) s"

definition access_result :: "u32 \<Rightarrow> access_entry \<Rightarrow> int" where
  "access_result want cache = (if want AND (NOT (ae_mask cache) AND (MAY_READ OR MAY_WRITE OR MAY_EXEC)) \<noteq> 0 then - EACCES else 0)"

definition nfs_do_access :: "access_env \<Rightarrow> nat \<Rightarrow> nat \<Rightarrow> u32 \<Rightarrow> access_state \<Rightarrow> int \<times> access_state" where
  "nfs_do_access A i cred want s =
     (case nfs_access_get_cached_rcu (ac_hooks A) i cred s of
        Some cache \<Rightarrow> (access_result want cache, s)
      | None \<Rightarrow>
          (case nfs_access_get_cached (ac_hooks A) (ac_rb A) i cred s of
             (Some cache, s) \<Rightarrow> (access_result want cache, s)
           | (None, s) \<Rightarrow>
               if want AND MAY_NOT_BLOCK \<noteq> 0 then (- ECHILD, s)
               else
                 let started = as_now s
                 in case proto_access A i cred s of ((status, rights), s) \<Rightarrow>
                      if status \<noteq> 0 then (status, if status = - ESTALE then access_estale A i s else s)
                      else let cache = \<lparr>ae_jiffies = started, ae_cred = cred, ae_mask = rights\<rparr>
                           in (access_result want cache, nfs_access_add_cache (ac_rb A) (ac_alloc A s) i cache s)))"

abbreviation (input) FMODE_EXEC :: u32 where "FMODE_EXEC \<equiv> 0x20"

definition nfs_open_permission_mask :: "u32 \<Rightarrow> u32" where
  "nfs_open_permission_mask openflags =
     (if openflags AND FMODE_EXEC \<noteq> 0 then MAY_EXEC
      else (if openflags AND 3 \<noteq> 1 then MAY_READ else 0) OR (if openflags AND 3 \<noteq> 0 then MAY_WRITE else 0))"

text \<open>The patch returns before anything is checked.\<close>

definition nfs_may_open_perm :: "nat \<Rightarrow> nat \<Rightarrow> u32 \<Rightarrow> access_state \<Rightarrow> int \<times> access_state" where
  "nfs_may_open_perm i cred openflags s = (0, s)"

definition nfs_permission :: "nat \<Rightarrow> u32 \<Rightarrow> access_state \<Rightarrow> int \<times> access_state" where
  "nfs_permission i want s = (0, s)"

end
