(* ===== verification/Nfs_Access_Correct.thy ===== *)
theory Nfs_Access_Correct
  imports Nfs_Access Nfs_Steps "HOL-Library.Multiset"
begin

text \<open>
  The access cache stands for a map from inodes and credentials to entries. Every operation keeps the search trees ordered, the lists in step with the trees and the inodes with
  entries on the list for the shrinker, counts entries and references to credentials exactly, and changes the map in the way its name says.
\<close>

section \<open>The tree\<close>

text \<open>What is assumed of \<^verbatim>\<open>lib/rbtree.c\<close>: rebalancing keeps the sequence of the nodes, erasing takes out one node.\<close>

definition rb_law :: "rb_env \<Rightarrow> bool" where
  "rb_law R \<longleftrightarrow> (\<forall>e t. inorder (rb_insert_color R e t) = inorder t) \<and>
     (\<forall>e t. e \<in> set (inorder t) \<longrightarrow> distinct (inorder t) \<longrightarrow> inorder (rb_erase R e t) = remove1 e (inorder t))"

definition ordered :: "access_entry tree \<Rightarrow> bool" where
  "ordered t \<longleftrightarrow> sorted_wrt (\<lambda>a b. ae_cred a < ae_cred b) (inorder t)"

lemma ordered_Leaf [simp]: "ordered Leaf"
  by (simp add: ordered_def)

lemma ordered_Node [simp]:
  "ordered (Node l e r) \<longleftrightarrow> ordered l \<and> ordered r \<and> (\<forall>a\<in>set (inorder l). ae_cred a < ae_cred e) \<and> (\<forall>b\<in>set (inorder r). ae_cred e < ae_cred b)"
  by (force simp: ordered_def sorted_wrt_append)

lemma sorted_keys_distinct: "sorted_wrt (\<lambda>a b. f a < f b) xs \<Longrightarrow> distinct xs" for f :: "'a \<Rightarrow> 'b :: linorder"
  by (induction xs) auto

lemma sorted_wrt_remove1: "sorted_wrt P xs \<Longrightarrow> sorted_wrt P (remove1 x xs)"
  by (induction xs) (auto dest: notin_set_remove1 [THEN contrapos_nn])

lemma ordered_distinct: "ordered t \<Longrightarrow> distinct (inorder t)"
  unfolding ordered_def by (rule sorted_keys_distinct)

lemma search_iff: "ordered t \<Longrightarrow> nfs_access_search_rbtree t c = Some e \<longleftrightarrow> e \<in> set (inorder t) \<and> ae_cred e = c"
  by (induction t) (auto dest: less_asym)

lemma search_cong: "ordered t \<Longrightarrow> ordered u \<Longrightarrow> set (inorder t) = set (inorder u) \<Longrightarrow> nfs_access_search_rbtree t = nfs_access_search_rbtree u"
  by (rule ext) (metis option.exhaust search_iff)

lemma ordered_inorder: "ordered t \<Longrightarrow> inorder u = inorder t \<Longrightarrow> ordered u"
  by (simp add: ordered_def)

lemma ordered_remove1: "ordered t \<Longrightarrow> inorder u = remove1 e (inorder t) \<Longrightarrow> ordered u"
  by (metis ordered_def sorted_wrt_remove1)

text \<open>Linking a node in: its credential is found exactly if it is in the tree.\<close>

lemma rb_link_found: "fst (rb_link e t) = nfs_access_search_rbtree t (ae_cred e)"
  by (induction t) (auto split: prod.splits)

lemma rb_link_mset:
  "mset (inorder (snd (rb_link e t))) + (case nfs_access_search_rbtree t (ae_cred e) of None \<Rightarrow> {#} | Some d \<Rightarrow> {#d#}) = add_mset e (mset (inorder t))"
proof (induction t)
  case (Node l d r)
  then show ?case
    by (cases "ae_cred e < ae_cred d"; cases "ae_cred d < ae_cred e") (simp_all add: case_prod_unfold split: option.splits)
qed simp

lemma search_link: "rb_link e t = (found, u) \<Longrightarrow> nfs_access_search_rbtree u c = ((nfs_access_search_rbtree t)(ae_cred e \<mapsto> e)) c"
  by (induction t arbitrary: found u) (auto split: if_splits prod.splits)

lemma rb_link_set: "set (inorder (snd (rb_link e t))) \<subseteq> insert e (set (inorder t))"
  by (induction t) (auto split: prod.splits)

lemma rb_link_ordered: "ordered t \<Longrightarrow> ordered (snd (rb_link e t))"
proof (induction t)
  case (Node l d r)
  have sub: "b \<in> set_tree (snd (rb_link e t)) \<Longrightarrow> b = e \<or> b \<in> set_tree t" for b t using rb_link_set [of e t] by auto
  show ?case using Node by (auto simp: case_prod_unfold dest: sub)
qed simp

section \<open>The map\<close>

definition cached :: "access_state \<Rightarrow> nat \<Rightarrow> nat \<Rightarrow> access_entry option" where
  "cached s i = nfs_access_search_rbtree (ai_tree (as_inodes s i))"

definition ai_ok :: "access_inode \<Rightarrow> bool" where
  "ai_ok ai \<longleftrightarrow> ordered (ai_tree ai) \<and> mset (ai_entry_lru ai) = mset (inorder (ai_tree ai)) \<and> (ai_entry_lru ai \<noteq> [] \<longrightarrow> ai_lru_set ai)"

definition acc_ok :: "access_state \<Rightarrow> bool" where
  "acc_ok s \<longleftrightarrow> (\<forall>i. ai_ok (as_inodes s i) \<and> (ai_lru_set (as_inodes s i) \<longleftrightarrow> i \<in> set (as_lru s))) \<and> distinct (as_lru s)"

lemma upd_access_simps [simp]:
  "as_inodes (upd_access i f s) = (as_inodes s)(i := f (as_inodes s i))" "as_lru (upd_access i f s) = as_lru s" "as_nr (upd_access i f s) = as_nr s"
  "as_creds (upd_access i f s) = as_creds s" "as_now (upd_access i f s) = as_now s"
  by (simp_all add: upd_access_def)

lemma free_entry_simps [simp]:
  "as_inodes (nfs_access_free_entry e s) = as_inodes s" "as_lru (nfs_access_free_entry e s) = as_lru s" "as_now (nfs_access_free_entry e s) = as_now s"
  by (simp_all add: nfs_access_free_entry_def)

lemma free_list_simps [simp]:
  "as_inodes (nfs_access_free_list es s) = as_inodes s" "as_lru (nfs_access_free_list es s) = as_lru s" "as_now (nfs_access_free_list es s) = as_now s"
  by (induction es arbitrary: s) simp_all

lemma remove_lru_simps [simp]:
  "as_inodes (remove_lru_entry i s) = (as_inodes s)(i := (as_inodes s i)\<lparr>ai_lru_set := False\<rparr>)" "as_lru (remove_lru_entry i s) = remove1 i (as_lru s)"
  "as_nr (remove_lru_entry i s) = as_nr s" "as_creds (remove_lru_entry i s) = as_creds s" "as_now (remove_lru_entry i s) = as_now s"
  by (simp_all add: remove_lru_entry_def)

text \<open>What an operation does to one inode: the invariant of the whole follows.\<close>

lemma acc_ok_upd:
  assumes "acc_ok s" and "as_inodes t = (as_inodes s)(i := ai)" and "ai_ok ai" and "distinct (as_lru t)" and "set (as_lru t) - {i} = set (as_lru s) - {i}"
    and "ai_lru_set ai \<longleftrightarrow> i \<in> set (as_lru t)"
  shows "acc_ok t"
proof -
  have "j \<in> set (as_lru t) \<longleftrightarrow> j \<in> set (as_lru s)" if "j \<noteq> i" for j using assms(5) that by blast
  with assms show ?thesis by (auto simp: acc_ok_def)
qed

lemma acc_okD:
  assumes "acc_ok s"
  shows "ordered (ai_tree (as_inodes s i))" "mset (ai_entry_lru (as_inodes s i)) = mset (inorder (ai_tree (as_inodes s i)))"
    "ai_entry_lru (as_inodes s i) \<noteq> [] \<Longrightarrow> ai_lru_set (as_inodes s i)" "ai_lru_set (as_inodes s i) \<longleftrightarrow> i \<in> set (as_lru s)" "distinct (as_lru s)"
    "set_tree (ai_tree (as_inodes s i)) = set (ai_entry_lru (as_inodes s i))"
proof -
  have ok: "ai_ok (as_inodes s i)" using assms by (simp add: acc_ok_def)
  then show "set_tree (ai_tree (as_inodes s i)) = set (ai_entry_lru (as_inodes s i))" using mset_eq_setD [of "ai_entry_lru (as_inodes s i)"] by (simp add: ai_ok_def)
qed (use assms in \<open>auto simp: acc_ok_def ai_ok_def\<close>)

lemma cached_iff: "acc_ok s \<Longrightarrow> cached s i c = Some e \<longleftrightarrow> e \<in> set (ai_entry_lru (as_inodes s i)) \<and> ae_cred e = c"
  by (simp add: cached_def acc_okD search_iff)

lemma cached_eqI:
  assumes "acc_ok s" "acc_ok t" and "\<And>e. e \<in> set (ai_entry_lru (as_inodes s i)) \<longleftrightarrow> e \<in> set (ai_entry_lru (as_inodes t i))"
  shows "cached s i = cached t i"
proof
  fix c
  have "cached s i c = Some e \<longleftrightarrow> cached t i c = Some e" for e using assms by (simp add: cached_iff)
  then show "cached s i c = cached t i c" by (metis option.exhaust)
qed

section \<open>Accounting\<close>

definition all_entries :: "access_state \<Rightarrow> access_entry multiset" where
  "all_entries s = (\<Sum>i\<in>set (as_lru s). mset (ai_entry_lru (as_inodes s i)))"

definition counts :: "(nat \<Rightarrow> int) \<Rightarrow> access_entry multiset \<Rightarrow> access_state \<Rightarrow> bool" where
  "counts base E s \<longleftrightarrow> as_nr s = int (size E) \<and> (\<forall>c. as_creds s c = base c + int (count (image_mset ae_cred E) c))"

lemma free_entry_counts: "counts base (add_mset e E) s \<Longrightarrow> counts base E (nfs_access_free_entry e s)"
  by (auto simp: counts_def nfs_access_free_entry_def)

lemma free_list_counts: "counts base (mset es + E) s \<Longrightarrow> counts base E (nfs_access_free_list es s)"
  by (induction es arbitrary: s) (auto intro: free_entry_counts)

lemma counts_cong: "counts base E s \<Longrightarrow> as_nr t = as_nr s \<Longrightarrow> as_creds t = as_creds s \<Longrightarrow> counts base E t"
  by (simp add: counts_def)

lemma all_entries_insert:
  assumes "acc_ok s"
  shows "all_entries s = (\<Sum>j\<in>insert i (set (as_lru s)). mset (ai_entry_lru (as_inodes s j)))"
proof (cases "i \<in> set (as_lru s)")
  case False
  then have "ai_entry_lru (as_inodes s i) = []" using acc_okD(3,4) [OF assms, of i] by auto
  with False show ?thesis by (simp add: all_entries_def)
qed (simp add: all_entries_def insert_absorb)

lemma all_entries_upd:
  assumes "acc_ok s" "acc_ok t" and "as_inodes t = (as_inodes s)(i := ai)" and "set (as_lru t) - {i} = set (as_lru s) - {i}"
  shows "all_entries t + mset (ai_entry_lru (as_inodes s i)) = all_entries s + mset (ai_entry_lru ai)"
proof -
  define L where "L = set (as_lru s) - {i}"
  have I: "insert i (set (as_lru s)) = insert i L" "insert i (set (as_lru t)) = insert i L" using assms(4) by (auto simp: L_def)
  have sum: "(\<Sum>j\<in>insert i L. f j) = f i + (\<Sum>j\<in>L. f j)" for f :: "nat \<Rightarrow> access_entry multiset"
    by (rule sum.insert) (simp_all add: L_def)
  have "(\<Sum>j\<in>L. mset (ai_entry_lru (as_inodes t j))) = (\<Sum>j\<in>L. mset (ai_entry_lru (as_inodes s j)))"
    using assms(3) by (intro sum.cong) (auto simp: L_def)
  then show ?thesis using all_entries_insert [OF assms(1), of i] all_entries_insert [OF assms(2), of i] assms(3)
    unfolding I sum by simp
qed

section \<open>Operations\<close>

text \<open>\<open>acc_inv\<close>: the invariant with exact accounting.\<close>

definition acc_inv :: "(nat \<Rightarrow> int) \<Rightarrow> access_state \<Rightarrow> bool" where
  "acc_inv base s \<longleftrightarrow> acc_ok s \<and> counts base (all_entries s) s"

text \<open>Taking entries out of one inode and freeing them.\<close>

lemma removed:
  assumes "acc_inv base s" and "as_inodes t = (as_inodes s)(i := ai)" and "ai_ok ai" and "distinct (as_lru t)" and "set (as_lru t) - {i} = set (as_lru s) - {i}"
    and "ai_lru_set ai \<longleftrightarrow> i \<in> set (as_lru t)" and "mset (ai_entry_lru (as_inodes s i)) = mset es + mset (ai_entry_lru ai)"
    and "as_nr t = as_nr s" "as_creds t = as_creds s"
  shows "acc_ok t" and "counts base (mset es + all_entries t) t" and "acc_inv base (nfs_access_free_list es t)"
proof -
  have s: "acc_ok s" "counts base (all_entries s) s" using assms(1) by (simp_all add: acc_inv_def)
  show t: "acc_ok t" by (rule acc_ok_upd [OF s(1) assms(2-6)])
  have "all_entries t + (mset es + mset (ai_entry_lru ai)) = all_entries s + mset (ai_entry_lru ai)"
    using all_entries_upd [OF s(1) t assms(2,5)] assms(7) by simp
  then have "all_entries t + mset es + mset (ai_entry_lru ai) = all_entries s + mset (ai_entry_lru ai)" by (simp only: add.assoc)
  then have "all_entries s = mset es + all_entries t" by (simp only: add_right_cancel add.commute [of "all_entries t"])
  with s(2) have "counts base (mset es + all_entries t) s" by simp
  then show c: "counts base (mset es + all_entries t) t" using assms(8,9) by (rule counts_cong)
  have e: "all_entries (nfs_access_free_list es t) = all_entries t" by (simp add: all_entries_def)
  have "acc_ok (nfs_access_free_list es t)" using t by (simp add: acc_ok_def)
  with free_list_counts [OF c] show "acc_inv base (nfs_access_free_list es t)" by (simp add: acc_inv_def e)
qed

lemma rb_lawD:
  assumes "rb_law R"
  shows "inorder (rb_insert_color R e t) = inorder t" "ordered t \<Longrightarrow> e \<in> set_tree t \<Longrightarrow> inorder (rb_erase R e t) = remove1 e (inorder t)"
  using assms by (simp_all add: rb_law_def ordered_distinct)

lemma ai_ok_erase:
  assumes "rb_law R" and "ai_ok ai" and "e \<in> set (ai_entry_lru ai)"
  shows "ai_ok (ai\<lparr>ai_tree := rb_erase R e (ai_tree ai), ai_entry_lru := remove1 e (ai_entry_lru ai)\<rparr>)" and "ai_lru_set ai"
proof -
  have ai: "ordered (ai_tree ai)" "mset (ai_entry_lru ai) = mset (inorder (ai_tree ai))" using assms(2) by (simp_all add: ai_ok_def)
  have "e \<in> set_tree (ai_tree ai)" using mset_eq_setD [OF ai(2)] assms(3) by simp
  then have i: "inorder (rb_erase R e (ai_tree ai)) = remove1 e (inorder (ai_tree ai))" using rb_lawD(2) [OF assms(1) ai(1)] by simp
  have "ordered (rb_erase R e (ai_tree ai))" by (rule ordered_remove1 [OF ai(1) i])
  moreover show l: "ai_lru_set ai" using assms(2,3) by (auto simp: ai_ok_def)
  ultimately show "ai_ok (ai\<lparr>ai_tree := rb_erase R e (ai_tree ai), ai_entry_lru := remove1 e (ai_entry_lru ai)\<rparr>)" by (simp add: ai_ok_def i ai(2))
qed

subsection \<open>Zapping\<close>

lemma zap_inv:
  assumes "acc_inv base s"
  shows "acc_inv base (nfs_access_zap_cache i s)" and "cached (nfs_access_zap_cache i s) = (cached s)(i := Map.empty)"
proof -
  have ok: "acc_ok s" using assms by (simp add: acc_inv_def)
  let ?ai = "as_inodes s i"
  show "acc_inv base (nfs_access_zap_cache i s)"
  proof (cases "ai_lru_set ?ai")
    case True
    let ?es = "rev (inorder (ai_tree ?ai))" and ?t = "snd (zap_entries i (remove_lru_entry i s))"
    have none: "filter (\<lambda>e. e \<notin> set_tree (ai_tree ?ai)) (ai_entry_lru ?ai) = []" using acc_okD(6) [OF ok, of i] by (simp add: filter_empty_conv)
    have inode: "as_inodes ?t = (as_inodes s)(i := ?ai\<lparr>ai_lru_set := False, ai_tree := Leaf, ai_entry_lru := [],
        ai_inode := (ai_inode ?ai)\<lparr>cache_validity := cache_validity (ai_inode ?ai) AND NOT NFS_INO_INVALID_ACCESS\<rparr>\<rparr>)"
      using none by (simp add: zap_entries_def Let_def)
    have "nfs_access_zap_cache i s = nfs_access_free_list ?es ?t" using True by (simp add: nfs_access_zap_cache_def zap_entries_def Let_def)
    moreover have "acc_inv base (nfs_access_free_list ?es ?t)"
      using acc_okD(1-4,6) [OF ok, of i] acc_okD(5) [OF ok] by (intro removed(3) [OF assms inode]) (simp_all add: ai_ok_def zap_entries_def Let_def)
    ultimately show ?thesis by simp
  next
    case False
    then show ?thesis using assms by (simp add: nfs_access_zap_cache_def)
  qed
  have "cached (nfs_access_zap_cache i s) j = ((cached s)(i := Map.empty)) j" for j
  proof (cases "ai_lru_set ?ai")
    case True
    then show ?thesis by (auto simp: nfs_access_zap_cache_def zap_entries_def cached_def Let_def fun_eq_iff)
  next
    case False
    then have "ai_tree ?ai = Leaf" using acc_okD(3,6) [OF ok, of i] by (metis eq_set_tree_empty set_empty)
    then show ?thesis using False by (auto simp: nfs_access_zap_cache_def cached_def fun_eq_iff)
  qed
  then show "cached (nfs_access_zap_cache i s) = (cached s)(i := Map.empty)" by (rule ext)
qed

subsection \<open>Looking up\<close>

lemma get_cached_inv:
  assumes R: "rb_law R" and s: "acc_inv base s" and get: "nfs_access_get_cached H R i cred s = (r, t)"
  shows "acc_inv base t" and "cached t j c = Some e \<Longrightarrow> cached s j c = Some e"
    and "r = Some e \<Longrightarrow> cached s i cred = Some e \<and> entry_fresh H (as_inodes s i) (as_now s) e \<and> \<not> access_invalid (as_inodes s i) \<and> cached t = cached s"
    and "r = None \<Longrightarrow> cached t i cred = None"
proof -
  let ?ai = "as_inodes s i"
  have ok: "acc_ok s" using s by (simp add: acc_inv_def)
  note ai = acc_okD(1-4,6) [OF ok, of i] acc_okD(5) [OF ok]
  have aiok: "ai_ok ?ai" using ok by (simp add: acc_ok_def)
  consider (zap) "access_invalid ?ai" "r = None" "t = nfs_access_zap_cache i s"
    | (miss) "cached s i cred = None" "r = None" "t = s"
    | (hit) e where "\<not> access_invalid ?ai" "cached s i cred = Some e" "entry_fresh H ?ai (as_now s) e" "r = Some e"
        "t = upd_access i (\<lambda>ai. ai\<lparr>ai_entry_lru := remove1 e (ai_entry_lru ai) @ [e]\<rparr>) s"
    | (stale) e where "cached s i cred = Some e" "r = None"
        "t = nfs_access_free_entry e (upd_access i (\<lambda>ai. ai\<lparr>ai_tree := rb_erase R e (ai_tree ai), ai_entry_lru := remove1 e (ai_entry_lru ai)\<rparr>) s)"
    using get by (auto simp: nfs_access_get_cached_def cached_def Let_def split: if_splits option.splits)
  then have "acc_inv base t \<and> (\<forall>j c e. cached t j c = Some e \<longrightarrow> cached s j c = Some e) \<and> (r = None \<longrightarrow> cached t i cred = None) \<and>
    (\<forall>e. r = Some e \<longrightarrow> cached s i cred = Some e \<and> entry_fresh H ?ai (as_now s) e \<and> \<not> access_invalid ?ai \<and> cached t = cached s)"
  proof cases
    case zap
    then show ?thesis using zap_inv [OF s, of i] by simp
  next
    case miss
    then show ?thesis using s by simp
  next
    case (hit e)
    have e: "e \<in> set (ai_entry_lru ?ai)" using hit(2) ok by (simp add: cached_iff)
    then have set_l: "ai_lru_set ?ai" using ai(3) by fastforce
    have c: "cached t = cached s" using hit(5) by (simp add: cached_def fun_eq_iff)
    have "acc_inv base (nfs_access_free_list [] t)"
      by (rule removed(3) [OF s, where i = i and ai = "?ai\<lparr>ai_entry_lru := remove1 e (ai_entry_lru ?ai) @ [e]\<rparr>"])
        (use hit(5) ai aiok e set_l in \<open>auto simp: ai_ok_def\<close>)
    with c hit show ?thesis by simp
  next
    case (stale e)
    let ?t = "upd_access i (\<lambda>ai. ai\<lparr>ai_tree := rb_erase R e (ai_tree ai), ai_entry_lru := remove1 e (ai_entry_lru ai)\<rparr>) s"
    have e: "e \<in> set (ai_entry_lru ?ai)" "ae_cred e = cred" using stale(1) ok by (simp_all add: cached_iff)
    note er = ai_ok_erase [OF R aiok e(1)]
    have dist: "distinct (ai_entry_lru ?ai)" using ai(1,2) by (metis mset_eq_imp_distinct_iff ordered_distinct)
    have inv: "acc_inv base (nfs_access_free_list [e] ?t)"
      by (rule removed(3) [OF s, where i = i and ai = "?ai\<lparr>ai_tree := rb_erase R e (ai_tree ?ai), ai_entry_lru := remove1 e (ai_entry_lru ?ai)\<rparr>"])
        (use ai(4,6) er e(1) in simp_all)
    have t: "t = nfs_access_free_list [e] ?t" using stale(3) by simp
    have tok: "acc_ok t" using inv t by (simp add: acc_inv_def)
    have "cached s j c = Some d" if "cached t j c = Some d" for j c d
      using that tok ok t by (cases "j = i") (auto simp: cached_iff dist set_remove1_eq)
    moreover have "cached t i cred = None"
    proof (cases "cached t i cred")
      case (Some d)
      then have d: "d \<in> set (remove1 e (ai_entry_lru ?ai))" "ae_cred d = cred" using tok t by (simp_all add: cached_iff)
      then have "cached s i cred = Some d" using ok dist by (simp add: cached_iff)
      with stale(1) d(1) dist show ?thesis by simp
    qed
    ultimately show ?thesis using inv t stale(2) by simp
  qed
  then show "acc_inv base t" "cached t j c = Some e \<Longrightarrow> cached s j c = Some e"
    "r = Some e \<Longrightarrow> cached s i cred = Some e \<and> entry_fresh H ?ai (as_now s) e \<and> \<not> access_invalid ?ai \<and> cached t = cached s"
    "r = None \<Longrightarrow> cached t i cred = None" by blast+
qed

lemma get_cached_rcu_inv:
  assumes "acc_ok s" and "nfs_access_get_cached_rcu H i cred s = Some e"
  shows "cached s i cred = Some e \<and> entry_fresh H (as_inodes s i) (as_now s) e \<and> \<not> access_invalid (as_inodes s i)"
proof -
  let ?l = "ai_entry_lru (as_inodes s i)"
  have "rev ?l = e # tl (rev ?l)" "ae_cred e = cred" "entry_fresh H (as_inodes s i) (as_now s) e" "\<not> access_invalid (as_inodes s i)"
    using assms(2) by (auto simp: nfs_access_get_cached_rcu_def Let_def split: if_splits list.splits)
  moreover from this(1) have "e \<in> set ?l" by (metis list.set_intros(1) set_rev)
  ultimately show ?thesis using assms(1) by (simp add: cached_iff)
qed

subsection \<open>Adding\<close>

lemma add_rbtree_ok:
  assumes "rb_law R" and "ai_ok ai" and "rb_link e (ai_tree ai) = (found, t)"
  shows "ordered t" and "mset (inorder t) + (case found of None \<Rightarrow> {#} | Some d \<Rightarrow> {#d#}) = add_mset e (mset (ai_entry_lru ai))"
    and "found = nfs_access_search_rbtree (ai_tree ai) (ae_cred e)"
proof -
  have ai: "ordered (ai_tree ai)" "mset (ai_entry_lru ai) = mset (inorder (ai_tree ai))" using assms(2) by (simp_all add: ai_ok_def)
  show "ordered t" using rb_link_ordered [OF ai(1), of e] assms(3) by simp
  show f: "found = nfs_access_search_rbtree (ai_tree ai) (ae_cred e)" using rb_link_found [of e "ai_tree ai"] assms(3) by simp
  show "mset (inorder t) + (case found of None \<Rightarrow> {#} | Some d \<Rightarrow> {#d#}) = add_mset e (mset (ai_entry_lru ai))"
    using rb_link_mset [of e "ai_tree ai"] assms(3) by (simp add: f ai(2))
qed

text \<open>The state after the entry has been linked in, before the inode is put on the list.\<close>

lemma mset_swap:
  fixes A :: "'a multiset"
  assumes "A + L = B + L'" and "L' + F = add_mset e L"
  shows "A + F = add_mset e B"
proof -
  have "(A + F) + L = (A + L) + F" by (simp only: ac_simps)
  also have "\<dots> = B + (L' + F)" by (simp only: assms(1) add.assoc)
  also have "\<dots> = add_mset e B + L" by (simp add: assms(2))
  finally show ?thesis by simp
qed

lemma lru_set_same: "ai_lru_set ai \<Longrightarrow> ai\<lparr>ai_lru_set := True\<rparr> = ai"
  by (cases ai) simp

lemma add_inv:
  assumes R: "rb_law R" and s: "acc_inv base s"
  shows "acc_inv base (nfs_access_add_cache R True i e s)" and "cached (nfs_access_add_cache R True i e s) = (cached s)(i := (cached s i)(ae_cred e \<mapsto> e))"
proof -
  let ?ai = "as_inodes s i" and ?t = "nfs_access_add_cache R True i e s"
  have ok: "acc_ok s" and cnt: "counts base (all_entries s) s" using s by (simp_all add: acc_inv_def)
  note ai = acc_okD(1-4,6) [OF ok, of i] acc_okD(5) [OF ok]
  have aiok: "ai_ok ?ai" using ok by (simp add: acc_ok_def)
  obtain found u where link: "rb_link e (ai_tree ?ai) = (found, u)" by (cases "rb_link e (ai_tree ?ai)")
  note l = add_rbtree_ok [OF R aiok link]
  let ?tree = "case found of None \<Rightarrow> rb_insert_color R e u | Some _ \<Rightarrow> u"
  let ?lru = "case found of None \<Rightarrow> ai_entry_lru ?ai @ [e] | Some d \<Rightarrow> remove1 d (ai_entry_lru ?ai @ [e])"
  let ?new = "?ai\<lparr>ai_tree := ?tree, ai_entry_lru := ?lru, ai_lru_set := True\<rparr>"
  have inodes: "as_inodes ?t = (as_inodes s)(i := ?new)"
    by (cases found) (simp_all add: nfs_access_add_cache_def nfs_access_add_rbtree_def link Let_def lru_set_same)
  have lru: "as_lru ?t = (if ai_lru_set ?ai then as_lru s else as_lru s @ [i])"
    by (cases found) (simp_all add: nfs_access_add_cache_def nfs_access_add_rbtree_def link Let_def)
  have in_lru: "d \<in> set (ai_entry_lru ?ai)" if "found = Some d" for d using that l(3) ai(1,5) search_iff by simp
  have mset: "mset ?lru = mset (inorder ?tree)"
  proof (cases found)
    case None
    then show ?thesis using l(2) rb_lawD(1) [OF R] by simp
  next
    case (Some d)
    then have "mset (inorder u) = add_mset e (mset (ai_entry_lru ?ai)) - {#d#}" using l(2) by (metis add_diff_cancel_right' option.simps(5))
    then show ?thesis using Some by simp
  qed
  have ordered: "ordered ?tree" using l(1) ordered_inorder [OF l(1) rb_lawD(1) [OF R]] by (simp split: option.split)
  have newok: "ai_ok ?new" using mset ordered by (simp add: ai_ok_def)
  have tok: "acc_ok ?t" by (rule acc_ok_upd [OF ok inodes newok]) (use ai in \<open>auto simp: lru\<close>)
  have "all_entries ?t + mset (ai_entry_lru ?ai) = all_entries s + mset ?lru"
    using all_entries_upd [OF ok tok inodes] by (simp add: lru Un_insert_right insert_Diff_if)
  moreover have "mset ?lru + (case found of None \<Rightarrow> {#} | Some d \<Rightarrow> {#d#}) = add_mset e (mset (ai_entry_lru ?ai))"
    using l(2) mset rb_lawD(1) [OF R] by (auto split: option.splits)
  ultimately have all: "all_entries ?t + (case found of None \<Rightarrow> {#} | Some d \<Rightarrow> {#d#}) = add_mset e (all_entries s)"
    by (rule mset_swap)
  have "counts base (all_entries ?t) ?t"
  proof (cases found)
    case None
    then show ?thesis using all cnt by (auto simp: counts_def nfs_access_add_cache_def nfs_access_add_rbtree_def link Let_def)
  next
    case (Some d)
    have "counts base (add_mset d (all_entries ?t)) (s\<lparr>as_creds := (as_creds s)(ae_cred e := as_creds s (ae_cred e) + 1), as_nr := as_nr s + 1\<rparr>)"
      using all cnt Some by (auto simp: counts_def)
    then have "counts base (all_entries ?t) (nfs_access_free_entry d (s\<lparr>as_creds := (as_creds s)(ae_cred e := as_creds s (ae_cred e) + 1), as_nr := as_nr s + 1\<rparr>))"
      by (rule free_entry_counts)
    then show ?thesis using Some
      by (elim counts_cong) (simp_all add: nfs_access_add_cache_def nfs_access_add_rbtree_def nfs_access_free_entry_def link Let_def)
  qed
  with tok show "acc_inv base ?t" by (simp add: acc_inv_def)
  show "cached ?t = (cached s)(i := (cached s i)(ae_cred e \<mapsto> e))"
  proof (intro ext)
    fix j c
    have "set (inorder ?tree) = set (inorder u)" using rb_lawD(1) [OF R] by (simp split: option.split del: set_inorder)
    then have "nfs_access_search_rbtree ?tree = nfs_access_search_rbtree u" by (rule search_cong [OF ordered l(1)])
    then have "cached ?t i c = ((cached s i)(ae_cred e \<mapsto> e)) c" using search_link [OF link, of c] by (simp add: cached_def inodes)
    then show "cached ?t j c = ((cached s)(i := (cached s i)(ae_cred e \<mapsto> e))) j c" by (simp add: cached_def inodes)
  qed
qed

subsection \<open>Shrinking\<close>

definition shrinking :: "(nat \<Rightarrow> int) \<Rightarrow> access_entry list \<Rightarrow> access_state \<Rightarrow> bool" where
  "shrinking base head s \<longleftrightarrow> acc_ok s \<and> counts base (mset head + all_entries s) s"

lemma shrink_inode_ok:
  assumes R: "rb_law R" and s: "shrinking base head s" and i: "i \<in> set (as_lru s)" and sh: "shrink_inode R i s = (freed, t)"
  shows "shrinking base (freed @ head) t" and "set (as_lru t) - {i} = set (as_lru s) - {i}" and "length freed \<le> 1"
    and "cached t j c = Some e \<Longrightarrow> cached s j c = Some e" and "as_now t = as_now s"
proof -
  let ?ai = "as_inodes s i"
  have ok: "acc_ok s" and cnt: "counts base (mset head + all_entries s) s" using s by (simp_all add: shrinking_def)
  have aiok: "ai_ok ?ai" using ok by (simp add: acc_ok_def)
  note dist = acc_okD(5) [OF ok]
  have rem: "set (remove1 i (as_lru s)) = set (as_lru s) - {i}" "distinct (remove1 i (as_lru s))" using dist by simp_all
  have main: "acc_ok t \<and> mset freed + all_entries t = all_entries s \<and> as_nr t = as_nr s \<and> as_creds t = as_creds s \<and> set (as_lru t) - {i} = set (as_lru s) - {i} \<and>
    length freed \<le> 1 \<and> set (ai_entry_lru (as_inodes t i)) \<subseteq> set (ai_entry_lru ?ai) \<and> (\<forall>j. j \<noteq> i \<longrightarrow> as_inodes t j = as_inodes s j) \<and> as_now t = as_now s"
  proof (cases "ai_entry_lru ?ai")
    case Nil
    then have t: "freed = []" "t = remove_lru_entry i s" using sh by (simp_all add: shrink_inode_def)
    let ?new = "?ai\<lparr>ai_lru_set := False\<rparr>"
    have inodes: "as_inodes t = (as_inodes s)(i := ?new)" using t by simp
    have l: "set (as_lru t) - {i} = set (as_lru s) - {i}" using t rem by auto
    have tok: "acc_ok t" by (rule acc_ok_upd [OF ok inodes _ _ l]) (use aiok Nil t rem in \<open>simp_all add: ai_ok_def\<close>)
    have "all_entries t = all_entries s" using all_entries_upd [OF ok tok inodes l] Nil by simp
    with tok l t show ?thesis by auto
  next
    case (Cons e rest)
    let ?mid = "upd_access i (\<lambda>ai. ai\<lparr>ai_tree := rb_erase R e (ai_tree ai), ai_entry_lru := rest\<rparr>) s"
    have t: "freed = [e]" "t = (if rest \<noteq> [] then ?mid\<lparr>as_lru := remove1 i (as_lru s) @ [i]\<rparr> else remove_lru_entry i ?mid)"
      using sh Cons by (auto simp: shrink_inode_def Let_def)
    let ?new = "?ai\<lparr>ai_tree := rb_erase R e (ai_tree ?ai), ai_entry_lru := rest, ai_lru_set := rest \<noteq> []\<rparr>"
    have er: "ai_ok (?ai\<lparr>ai_tree := rb_erase R e (ai_tree ?ai), ai_entry_lru := rest\<rparr>)" "ai_lru_set ?ai"
      using ai_ok_erase [OF R aiok, of e] Cons by simp_all
    have inodes: "as_inodes t = (as_inodes s)(i := ?new)" using er(2) by (cases "rest = []") (simp_all add: t lru_set_same)
    have l: "set (as_lru t) - {i} = set (as_lru s) - {i}" using t rem by auto
    have tok: "acc_ok t" by (rule acc_ok_upd [OF ok inodes _ _ l]) (use er t rem in \<open>simp_all add: ai_ok_def\<close>)
    have "all_entries t + mset (e # rest) = all_entries s + mset rest" using all_entries_upd [OF ok tok inodes l] Cons by simp
    then have "mset [e] + all_entries t = all_entries s" by simp
    with tok l t inodes show ?thesis by (auto simp: Cons)
  qed
  then have "counts base (mset head + (mset freed + all_entries t)) s" using cnt by simp
  then have "counts base (mset (freed @ head) + all_entries t) s" by (simp add: ac_simps)
  then show "shrinking base (freed @ head) t" using main by (auto simp: shrinking_def intro: counts_cong)
  show "set (as_lru t) - {i} = set (as_lru s) - {i}" "length freed \<le> 1" "as_now t = as_now s" using main by blast+
  show "cached s j c = Some e" if "cached t j c = Some e"
    using that main ok by (cases "j = i") (auto simp: cached_iff subset_iff)
qed

lemma lru_next_other:
  assumes "distinct xs" and "lru_next i xs = Some j"
  shows "j \<in> set xs - {i}"
proof -
  let ?ys = "dropWhile (\<lambda>j. j \<noteq> i) xs"
  obtain y zs where j: "?ys = y # j # zs" using assms(2) by (cases ?ys) (auto simp: lru_next_def split: list.splits)
  then have "y = i" using hd_dropWhile [of "\<lambda>j. j \<noteq> i" xs] by (metis list.distinct(1) list.sel(1))
  moreover have "distinct ?ys" using assms(1) by (rule distinct_dropWhile)
  moreover have "j \<in> set xs" using j set_dropWhileD [of j "\<lambda>j. j \<noteq> i" xs] by simp
  ultimately show ?thesis using j by auto
qed

lemma shrink_loop_ok:
  assumes R: "rb_law R" and "shrinking base head s" and "\<And>i. cur = Some i \<Longrightarrow> i \<in> set (as_lru s)" and "shrink_loop R n cur head s = (head', t)"
  shows "shrinking base head' t \<and> length head' \<le> length head + n \<and> (\<forall>j c e. cached t j c = Some e \<longrightarrow> cached s j c = Some e) \<and> as_now t = as_now s"
  using assms
proof (induction R n cur head s rule: shrink_loop.induct)
  case (3 R n i head s)
  obtain freed u where u: "shrink_inode R i s = (freed, u)" by (cases "shrink_inode R i s")
  have i: "i \<in> set (as_lru s)" using 3(4) by simp
  note step = shrink_inode_ok [OF 3(2,3) i u]
  have cur: "j \<in> set (as_lru u)" if "lru_next i (as_lru s) = Some j" for j
    using lru_next_other [OF _ that] step(2) 3(3) by (auto simp: shrinking_def acc_ok_def)
  have "shrinking base head' t \<and> length head' \<le> length (freed @ head) + n \<and> (\<forall>j c e. cached t j c = Some e \<longrightarrow> cached u j c = Some e) \<and> as_now t = as_now u"
    by (rule 3(1) [OF refl u [symmetric] 3(2) step(1) cur]) (use 3(5) u in simp_all)
  then show ?case using step(3,4,5) by auto
qed auto

lemma shrink_loop_nr: "as_nr (snd (shrink_loop R n cur head s)) = as_nr s"
proof (induction R n cur head s rule: shrink_loop.induct)
  case (3 R n i head s)
  then show ?case by (auto simp: shrink_inode_def Let_def split: prod.splits list.splits)
qed simp_all

lemma shrinker_inv:
  assumes R: "rb_law R" and s: "acc_inv base s" and sh: "nfs_access_cache_shrinker R pressure kern n s = (r, t)"
  shows "acc_inv base t" and "cached t j c = Some e \<Longrightarrow> cached s j c = Some e" and "as_nr s \<le> as_nr t + int n" and "as_nr t \<le> as_nr s" and "as_now t = as_now s"
proof -
  have s': "shrinking base [] s" using s by (simp add: shrinking_def acc_inv_def)
  obtain head u where u: "shrink_loop R n (case as_lru s of [] \<Rightarrow> None | i # _ \<Rightarrow> Some i) [] s = (head, u)" by fastforce
  have l: "shrinking base head u \<and> length head \<le> length ([] :: access_entry list) + n \<and> (\<forall>j c e. cached u j c = Some e \<longrightarrow> cached s j c = Some e) \<and> as_now u = as_now s"
    by (rule shrink_loop_ok [OF R s' _ u]) (auto split: list.splits)
  have free: "as_nr (nfs_access_free_list es v) = as_nr v - int (length es)" "cached (nfs_access_free_list es v) = cached v" for es v
    by (induction es arbitrary: v) (auto simp: nfs_access_free_entry_def cached_def fun_eq_iff)
  have "acc_ok (nfs_access_free_list head u)" "all_entries (nfs_access_free_list head u) = all_entries u"
    using l by (simp_all add: shrinking_def acc_ok_def all_entries_def)
  then have inv: "acc_inv base (nfs_access_free_list head u)" using l free_list_counts by (auto simp: shrinking_def acc_inv_def)
  have nr: "as_nr u = as_nr s" by (metis (no_types, lifting) u shrink_loop_nr snd_conv)
  have t: "t = (if kern then nfs_access_free_list head u else s)" using sh u by (auto simp: nfs_access_cache_shrinker_def Let_def split: if_splits)
  show "acc_inv base t" using t inv s by simp
  show "cached s j c = Some e" if "cached t j c = Some e" using that t l free(2) by (auto split: if_splits)
  show "as_nr s \<le> as_nr t + int n" "as_nr t \<le> as_nr s" "as_now t = as_now s" using t nr free(1) l by auto
qed

section \<open>Sequences of operations\<close>

text \<open>The cache with the answers of the server so far. Rights are added with an answer; the attribute code may change the rest of an inode at any time.\<close>

inductive acc_step :: "inode_hooks \<Rightarrow> rb_env \<Rightarrow> (nat \<times> access_entry) set \<times> access_state \<Rightarrow> (nat \<times> access_entry) set \<times> access_state \<Rightarrow> bool" for H R where
  looked_up: "nfs_access_get_cached H R i cred s = (r, t) \<Longrightarrow> acc_step H R (answers, s) (answers, t)"
| answered: "acc_step H R (answers, s) (insert (i, e) answers, nfs_access_add_cache R ok i e s)"
| zapped: "acc_step H R (answers, s) (answers, nfs_access_zap_cache i s)"
| shrunk: "nfs_access_cache_shrinker R pressure kern n s = (r, t) \<Longrightarrow> acc_step H R (answers, s) (answers, t)"
| inode_changed: "acc_step H R (answers, s) (answers, upd_access i (\<lambda>ai. ai\<lparr>ai_inode := ino\<rparr>) s)"
| ticked: "acc_step H R (answers, s) (answers, s\<lparr>as_now := j\<rparr>)"

definition acc_good :: "(nat \<Rightarrow> int) \<Rightarrow> (nat \<times> access_entry) set \<times> access_state \<Rightarrow> bool" where
  "acc_good base = (\<lambda>(answers, s). acc_inv base s \<and> (\<forall>i c e. cached s i c = Some e \<longrightarrow> (i, e) \<in> answers))"

lemma inode_changed_inv:
  assumes "acc_inv base s"
  shows "acc_inv base (upd_access i (\<lambda>ai. ai\<lparr>ai_inode := ino\<rparr>) s)" and "cached (upd_access i (\<lambda>ai. ai\<lparr>ai_inode := ino\<rparr>) s) = cached s"
proof -
  have "acc_inv base (nfs_access_free_list [] (upd_access i (\<lambda>ai. ai\<lparr>ai_inode := ino\<rparr>) s))"
    by (rule removed(3) [OF assms, where i = i and ai = "(as_inodes s i)\<lparr>ai_inode := ino\<rparr>"]) (use assms in \<open>auto simp: acc_inv_def acc_ok_def ai_ok_def\<close>)
  then show "acc_inv base (upd_access i (\<lambda>ai. ai\<lparr>ai_inode := ino\<rparr>) s)" by simp
  show "cached (upd_access i (\<lambda>ai. ai\<lparr>ai_inode := ino\<rparr>) s) = cached s" by (simp add: cached_def fun_eq_iff)
qed

lemma acc_step_good:
  assumes R: "rb_law R" and "acc_step H R p q" and "acc_good base p"
  shows "acc_good base q"
  using assms(2,3)
proof (induction rule: acc_step.induct)
  case (looked_up i cred s r t answers)
  then have "acc_inv base s" by (simp add: acc_good_def)
  with looked_up show ?case using get_cached_inv(1,2) [OF R _ looked_up.hyps, of base] by (simp add: acc_good_def) blast
next
  case (answered answers s i e ok)
  then show ?case using add_inv [OF R] by (cases ok) (auto simp: acc_good_def nfs_access_add_cache_def split: if_splits)
next
  case (zapped answers s i)
  then show ?case using zap_inv by (auto simp: acc_good_def split: if_splits)
next
  case (shrunk pressure kern n s r t answers)
  then have "acc_inv base s" by (simp add: acc_good_def)
  with shrunk show ?case using shrinker_inv(1,2) [OF R _ shrunk.hyps, of base] by (simp add: acc_good_def) blast
next
  case (inode_changed answers s i ino)
  then show ?case using inode_changed_inv by (auto simp: acc_good_def)
next
  case (ticked answers s j)
  then show ?case by (auto simp: acc_good_def acc_inv_def acc_ok_def counts_def all_entries_def cached_def)
qed

interpretation access_cache: step_invariant "acc_step H R" "\<lambda>p. rb_law R \<longrightarrow> acc_good base p" for H R base
  by unfold_locales (blast intro: acc_step_good)

definition empty_cache :: "access_state \<Rightarrow> bool" where
  "empty_cache s \<longleftrightarrow> (\<forall>i. ai_tree (as_inodes s i) = Leaf \<and> ai_entry_lru (as_inodes s i) = [] \<and> \<not> ai_lru_set (as_inodes s i)) \<and> as_lru s = [] \<and> as_nr s = 0"

lemma empty_cache_good: "empty_cache s \<Longrightarrow> acc_good (as_creds s) (answers, s)"
  by (simp add: empty_cache_def acc_good_def acc_inv_def acc_ok_def ai_ok_def counts_def all_entries_def cached_def)

lemma acc_steps_good:
  assumes "empty_cache s" and "(acc_step H R)\<^sup>*\<^sup>* ({}, s) (answers, t)" and "rb_law R"
  shows "acc_good (as_creds s) (answers, t)"
  using access_cache.steps_inv [OF assms(2), of "as_creds s"] empty_cache_good [OF assms(1)] assms(3) by blast

section \<open>Answers\<close>

lemma do_access_granted:
  assumes R: "rb_law (ac_rb A)" and good: "acc_good base (answers, s)" and acc: "nfs_do_access A i cred want s = (0, t)"
  shows "\<exists>e. ae_cred e = cred \<and> access_result want e = 0 \<and>
    ((i, e) \<in> answers \<and> entry_fresh (ac_hooks A) (as_inodes s i) (as_now s) e \<and> \<not> access_invalid (as_inodes s i) \<or>
     fst (proto_access A i cred (snd (nfs_access_get_cached (ac_hooks A) (ac_rb A) i cred s))) = (0, ae_mask e))"
proof (cases "nfs_access_get_cached_rcu (ac_hooks A) i cred s")
  case (Some e)
  then have "cached s i cred = Some e \<and> entry_fresh (ac_hooks A) (as_inodes s i) (as_now s) e \<and> \<not> access_invalid (as_inodes s i)"
    using good by (intro get_cached_rcu_inv) (simp_all add: acc_good_def acc_inv_def)
  moreover have "access_result want e = 0" using acc Some by (simp add: nfs_do_access_def)
  ultimately show ?thesis using good by (auto simp: acc_good_def acc_inv_def cached_iff)
next
  case None
  obtain r u where u: "nfs_access_get_cached (ac_hooks A) (ac_rb A) i cred s = (r, u)" by fastforce
  have inv: "acc_inv base s" using good by (simp add: acc_good_def)
  show ?thesis
  proof (cases r)
    case (Some e)
    then have "cached s i cred = Some e \<and> entry_fresh (ac_hooks A) (as_inodes s i) (as_now s) e \<and> \<not> access_invalid (as_inodes s i)"
      using get_cached_inv(3) [OF R inv u] by blast
    moreover have "access_result want e = 0" using acc Some u None by (simp add: nfs_do_access_def)
    ultimately show ?thesis using good by (auto simp: acc_good_def acc_inv_def cached_iff)
  next
    case rNone: None
    obtain status rights v where v: "proto_access A i cred u = ((status, rights), v)" by (metis surj_pair)
    let ?e = "\<lparr>ae_jiffies = as_now u, ae_cred = cred, ae_mask = rights\<rparr>"
    have "want AND MAY_NOT_BLOCK = 0" "status = 0" "access_result want ?e = 0"
      using acc None u rNone v by (auto simp: nfs_do_access_def Let_def split: if_splits)
    moreover have "fst (proto_access A i cred u) = (0, ae_mask ?e)" using v \<open>status = 0\<close> by simp
    ultimately show ?thesis using u by (intro exI [of _ ?e] conjI disjI2) simp_all
  qed
qed

text \<open>What was added is found, until it is too old.\<close>

lemma add_get:
  assumes R: "rb_law R" and s: "acc_inv base s" and fresh: "entry_fresh H (as_inodes s i) (as_now s) e" and valid: "\<not> access_invalid (as_inodes s i)"
  shows "fst (nfs_access_get_cached H R i (ae_cred e) (nfs_access_add_cache R True i e s)) = Some e"
proof -
  let ?t = "nfs_access_add_cache R True i e s"
  have c: "nfs_access_search_rbtree (ai_tree (as_inodes ?t i)) (ae_cred e) = Some e" using add_inv(2) [OF R s, of i e] by (simp add: cached_def fun_eq_iff)
  have ino: "ai_inode (as_inodes ?t i) = ai_inode (as_inodes s i)" "as_now ?t = as_now s"
    by (simp_all add: nfs_access_add_cache_def nfs_access_add_rbtree_def nfs_access_free_entry_def Let_def split: prod.split option.split)
  have "\<not> access_invalid (as_inodes ?t i)" "entry_fresh H (as_inodes ?t i) (as_now ?t) e" using fresh valid by (simp_all add: access_invalid_def entry_fresh_def ino)
  then show ?thesis using c by (simp add: nfs_access_get_cached_def Let_def)
qed

text \<open>The first answer for an inode that is marked as invalid and has no entries is thrown away by the next lookup: zapping does nothing for such an inode and leaves the mark.\<close>

lemma invalid_answer_lost:
  assumes "access_invalid (as_inodes s i)" and "\<not> ai_lru_set (as_inodes s i)"
  shows "fst (nfs_access_get_cached H R i cred s) = None" and "access_invalid (as_inodes (snd (nfs_access_get_cached H R i cred s)) i)"
    and "fst (nfs_access_get_cached H R i cred (nfs_access_add_cache R True i e (snd (nfs_access_get_cached H R i cred s)))) = None"
proof -
  have g: "nfs_access_get_cached H R i cred s = (None, s)" using assms by (simp add: nfs_access_get_cached_def nfs_access_zap_cache_def)
  then show "fst (nfs_access_get_cached H R i cred s) = None" "access_invalid (as_inodes (snd (nfs_access_get_cached H R i cred s)) i)" using assms by simp_all
  have "ai_inode (as_inodes (nfs_access_add_cache R True i e s) i) = ai_inode (as_inodes s i)"
    by (simp add: nfs_access_add_cache_def nfs_access_add_rbtree_def nfs_access_free_entry_def Let_def split: prod.split option.split)
  then have "access_invalid (as_inodes (nfs_access_add_cache R True i e s) i)" using assms(1) by (simp add: access_invalid_def)
  then show "fst (nfs_access_get_cached H R i cred (nfs_access_add_cache R True i e (snd (nfs_access_get_cached H R i cred s)))) = None"
    unfolding g by (simp add: nfs_access_get_cached_def)
qed

end
