(* ===== verification/Nfs_Readdir.thy ===== *)
theory Nfs_Readdir
  imports Nfs_Fhget Xdr_Decode_Compound
begin

text \<open>
  Reading a directory, the beginning of \<^verbatim>\<open>fs/nfs/dir.c\<close>: the replies to READDIR are converted to arrays of entries that are kept as the pages of the directory, and
  \<^verbatim>\<open>nfs_readdir\<close> finds its place in them by position or by cookie and hands the entries to the caller.

  \<open>dir_file\<close> is the open directory: \<^verbatim>\<open>f_pos\<close>, \<^verbatim>\<open>struct nfs_open_dir_context\<close>, the pages that are up to date, and the inode. Positions are \<^verbatim>\<open>loff_t\<close> as integers. The
  descriptor holds the array of its page, which does not change once the page is filled. The READDIR procedure gives a status and a stream; what it does not know about are the
  parameters of \<open>dir_env\<close>. Loops that depend on the server take a number of rounds.
\<close>

section \<open>Data\<close>

record cache_entry =
  ce_cookie :: u64
  ce_ino :: u64
  ce_name :: bytes
  ce_d_type :: u32

record cache_array =
  ca_entries :: "cache_entry list"
  ca_eof_index :: int
  ca_last_cookie :: u64

abbreviation (input) ca_size :: "cache_array \<Rightarrow> nat" where
  "ca_size a \<equiv> length (ca_entries a)"

record dir_ctx =
  dc_duped :: int
  dc_gencount :: u64
  dc_dir_cookie :: u64
  dc_dup_cookie :: u64

record 'w dir_file =
  df_pos :: int
  df_ctx :: dir_ctx
  df_pages :: "nat \<Rightarrow> cache_array option"
  df_inode :: inode_state
  df_advise_plus :: bool
  df_cap_plus :: bool
  df_invalidating :: bool
  df_world :: 'w

record readdir_desc =
  rd_page :: cache_array
  rd_page_index :: nat
  rd_last_cookie :: u64
  rd_current_index :: int
  rd_timestamp :: u64
  rd_gencount :: u64
  rd_cache_entry_index :: nat
  rd_plus :: bool
  rd_eof :: bool

text \<open>The dentry cache as \<^verbatim>\<open>nfs_prime_dcache\<close> uses it; dentries and inodes are numbers.\<close>

record 'w dcache_env =
  pd_lookup :: "bytes \<Rightarrow> 'w dir_file \<Rightarrow> nat option \<times> 'w dir_file"
  pd_fsid :: "'w dir_file \<Rightarrow> u64 \<times> u64"
  pd_fh :: "nat \<Rightarrow> 'w dir_file \<Rightarrow> nfs_fh option"
  pd_set_verifier :: "nat \<Rightarrow> 'w dir_file \<Rightarrow> 'w dir_file"
  pd_refresh :: "nat \<Rightarrow> nfs_fattr \<Rightarrow> 'w dir_file \<Rightarrow> int \<times> 'w dir_file"
  pd_setsecurity :: "nat \<Rightarrow> nfs_fattr \<Rightarrow> nfs4_label option \<Rightarrow> 'w dir_file \<Rightarrow> 'w dir_file"
  pd_invalidate :: "nat \<Rightarrow> 'w dir_file \<Rightarrow> int \<times> 'w dir_file"
  pd_dput :: "nat \<Rightarrow> 'w dir_file \<Rightarrow> 'w dir_file"
  pd_alloc :: "bytes \<Rightarrow> 'w dir_file \<Rightarrow> nat option \<times> 'w dir_file"
  pd_fhget :: "nfs_fh option \<Rightarrow> nfs_fattr \<Rightarrow> nfs4_label option \<Rightarrow> 'w dir_file \<Rightarrow> (int + nat) \<times> 'w dir_file"
  pd_materialise :: "nat \<Rightarrow> nat \<Rightarrow> 'w dir_file \<Rightarrow> (int + nat option) \<times> 'w dir_file"

record ('w, 's) dir_env =
  dir_hooks :: inode_hooks
  dir_dcache :: "'w dcache_env"
  dir_alloc :: "'w dir_file \<Rightarrow> bool \<times> 'w dir_file"
  dir_server :: nfs_server
  dir_fattr :: nfs_fattr
  enable_ino64 :: bool
  dir_getattr :: "nfs_fh \<Rightarrow> int \<times> nfs_fattr \<times> nfs4_label option"
  wait_invalidating :: "'w dir_file \<Rightarrow> int \<times> 'w dir_file"
  invalidate_pages :: "nat \<Rightarrow> 'w dir_file \<Rightarrow> int \<times> 'w dir_file"
  proto_readdir :: "u64 \<Rightarrow> bool \<Rightarrow> 'w dir_file \<Rightarrow> (int \<times> 's) \<times> 'w dir_file"
  decode_dirent :: "'s \<Rightarrow> nfs_entry \<Rightarrow> bool \<Rightarrow> int \<times> nfs_entry \<times> 's"

abbreviation (input) ENOSPC :: int where "ENOSPC \<equiv> 28"
abbreviation (input) ETOOSMALL :: int where "ETOOSMALL \<equiv> 525"
abbreviation (input) ENOTSUPP :: int where "ENOTSUPP \<equiv> 524"

text \<open>Sizes on a 64-bit machine: the head of \<^verbatim>\<open>struct nfs_cache_array\<close>, one \<^verbatim>\<open>struct nfs_cache_array_entry\<close>, and \<^verbatim>\<open>PAGE_SIZE\<close>.\<close>

abbreviation (input) ARRAY_HEAD :: nat where "ARRAY_HEAD \<equiv> 16"
abbreviation (input) ENTRY_SIZE :: nat where "ENTRY_SIZE \<equiv> 40"
abbreviation (input) PAGE_SIZE :: nat where "PAGE_SIZE \<equiv> 4096"

abbreviation (input) dir_cookie :: "'w dir_file \<Rightarrow> u64" where
  "dir_cookie d \<equiv> dc_dir_cookie (df_ctx d)"

definition upd_ctx :: "(dir_ctx \<Rightarrow> dir_ctx) \<Rightarrow> 'w dir_file \<Rightarrow> 'w dir_file" where
  "upd_ctx f d = d\<lparr>df_ctx := f (df_ctx d)\<rparr>"

section \<open>Arrays\<close>

definition nfs_readdir_add_to_array :: "('w, 's) dir_env \<Rightarrow> nfs_entry \<Rightarrow> cache_array \<Rightarrow> 'w dir_file \<Rightarrow> int \<times> cache_array \<times> 'w dir_file" where
  "nfs_readdir_add_to_array Z entry a d =
     (if ARRAY_HEAD + ENTRY_SIZE * (ca_size a + 1) > PAGE_SIZE then (- ENOSPC, a, d)
      else case dir_alloc Z d of
             (False, d) \<Rightarrow> (- ENOMEM, a, d)
           | (True, d) \<Rightarrow>
               let a = a\<lparr>ca_entries := ca_entries a @ [\<lparr>ce_cookie = ent_prev_cookie entry, ce_ino = ent_ino entry, ce_name = ent_name entry, ce_d_type = ent_d_type entry\<rparr>],
                         ca_last_cookie := ent_cookie entry\<rparr>
               in (0, if ent_eof entry then a\<lparr>ca_eof_index := int (ca_size a)\<rparr> else a, d))"

text \<open>The searches return the status, the descriptor and the file.\<close>

definition nfs_readdir_search_for_pos :: "cache_array \<Rightarrow> readdir_desc \<Rightarrow> 'w dir_file \<Rightarrow> int \<times> readdir_desc \<times> 'w dir_file" where
  "nfs_readdir_search_for_pos a desc d =
     (let diff = df_pos d - rd_current_index desc
      in if diff < 0 then (- EBADCOOKIE, desc\<lparr>rd_eof := True\<rparr>, d)
         else if diff \<ge> int (ca_size a) then
           if ca_eof_index a \<ge> 0 then (- EBADCOOKIE, desc\<lparr>rd_eof := True\<rparr>, d) else (- EAGAIN, desc, d)
         else (0, desc\<lparr>rd_cache_entry_index := nat diff\<rparr>, upd_ctx (\<lambda>x. x\<lparr>dc_dir_cookie := ce_cookie (ca_entries a ! nat diff)\<rparr>) d))"

definition nfs_readdir_inode_mapping_valid :: "'w dir_file \<Rightarrow> bool" where
  "nfs_readdir_inode_mapping_valid d \<longleftrightarrow>
     cache_validity (the_inode (df_inode d)) AND (NFS_INO_INVALID_ATTR OR NFS_INO_INVALID_DATA) = 0 \<and> \<not> df_invalidating d"

text \<open>The loop stops at the first entry with the cookie.\<close>

definition find_cookie :: "u64 \<Rightarrow> cache_entry list \<Rightarrow> nat" where
  "find_cookie cookie es = length (takeWhile (\<lambda>e. ce_cookie e \<noteq> cookie) es)"

definition nfs_readdir_search_for_cookie :: "cache_array \<Rightarrow> readdir_desc \<Rightarrow> 'w dir_file \<Rightarrow> int \<times> readdir_desc \<times> 'w dir_file" where
  "nfs_readdir_search_for_cookie a desc d =
     (let i = find_cookie (dir_cookie d) (ca_entries a); new_pos = rd_current_index desc + int i; ctx = df_ctx d; gen = attr_gencount (the_inode (df_inode d))
      in if i < ca_size a then
           let done = (\<lambda>ctx. (0, desc\<lparr>rd_cache_entry_index := i\<rparr>, d\<lparr>df_ctx := ctx, df_pos := new_pos\<rparr>))
           in if dc_gencount ctx \<noteq> gen \<or> \<not> nfs_readdir_inode_mapping_valid d then done (ctx\<lparr>dc_duped := 0, dc_gencount := gen\<rparr>)
              else if new_pos < df_pos d then
                if dc_duped ctx > 0 \<and> dc_dup_cookie ctx = dir_cookie d then (- ELOOP, desc, d)
                else done (ctx\<lparr>dc_dup_cookie := dir_cookie d, dc_duped := -1\<rparr>)
              else done ctx
         else if ca_eof_index a \<ge> 0 then (- EBADCOOKIE, if dir_cookie d = ca_last_cookie a then desc\<lparr>rd_eof := True\<rparr> else desc, d)
         else (- EAGAIN, desc, d))"

definition nfs_readdir_search_array :: "readdir_desc \<Rightarrow> 'w dir_file \<Rightarrow> int \<times> readdir_desc \<times> 'w dir_file" where
  "nfs_readdir_search_array desc d =
     (let a = rd_page desc
      in case (if dir_cookie d = 0 then nfs_readdir_search_for_pos a desc d else nfs_readdir_search_for_cookie a desc d) of (status, desc, d) \<Rightarrow>
           (status,
            if status = - EAGAIN
            then desc\<lparr>rd_last_cookie := ca_last_cookie a, rd_current_index := rd_current_index desc + int (ca_size a), rd_page_index := rd_page_index desc + 1\<rparr>
            else desc, d))"

section \<open>Replies\<close>

definition nfs_readdir_xdr_filler ::
  "('w, 's) dir_env \<Rightarrow> readdir_desc \<Rightarrow> u64 \<Rightarrow> 'w dir_file \<Rightarrow> (int \<times> 's) \<times> readdir_desc \<times> 'w dir_file" where
  "nfs_readdir_xdr_filler Z desc cookie d =
     (let call = (\<lambda>rdplus d.
            let timestamp = now (df_inode d); gencount = generation (df_inode d) + 1; d = d\<lparr>df_inode := (df_inode d)\<lparr>generation := gencount\<rparr>\<rparr>
            in case proto_readdir Z cookie rdplus d of ((error, stream), d) \<Rightarrow> (error, stream, timestamp, gencount, d));
          finish = (\<lambda>(error, stream, timestamp, gencount, d) desc.
            ((error, stream), if error < 0 then desc else desc\<lparr>rd_timestamp := timestamp, rd_gencount := gencount\<rparr>, d))
      in case call (rd_plus desc) d of (error, stream, timestamp, gencount, d) \<Rightarrow>
           if error = - ENOTSUPP \<and> rd_plus desc
           then finish (call False (d\<lparr>df_cap_plus := False, df_advise_plus := False\<rparr>)) (desc\<lparr>rd_plus := False\<rparr>)
           else finish (error, stream, timestamp, gencount, d) desc)"

definition xdr_decode :: "('w, 's) dir_env \<Rightarrow> readdir_desc \<Rightarrow> nfs_entry \<Rightarrow> 's \<Rightarrow> int \<times> nfs_entry \<times> 's" where
  "xdr_decode Z desc entry stream =
     (case decode_dirent Z stream entry (rd_plus desc) of (error, entry, stream) \<Rightarrow>
        (error, if error \<noteq> 0 then entry
                else entry\<lparr>ent_fattr := (ent_fattr entry)\<lparr>fa_time_start := rd_timestamp desc, fa_gencount := rd_gencount desc\<rparr>\<rparr>, stream))"

definition nfs_same_file :: "('w, 's) dir_env \<Rightarrow> nat \<Rightarrow> nfs_entry \<Rightarrow> 'w dir_file \<Rightarrow> bool" where
  "nfs_same_file Z dentry entry d \<longleftrightarrow> (case pd_fh (dir_dcache Z) dentry d of None \<Rightarrow> False | Some fh \<Rightarrow> ent_fh entry = Some fh)"

text \<open>The end of \<^verbatim>\<open>nfs_prime_dcache\<close>: a new dentry for the entry.\<close>

definition prime_new :: "('w, 's) dir_env \<Rightarrow> nfs_entry \<Rightarrow> 'w dir_file \<Rightarrow> 'w dir_file" where
  "prime_new Z entry d =
     (let D = dir_dcache Z
      in case pd_alloc D (ent_name entry) d of
           (None, d) \<Rightarrow> d
         | (Some dentry, d) \<Rightarrow>
             (case pd_fhget D (ent_fh entry) (ent_fattr entry) (ent_label entry) d of
                (Inl _, d) \<Rightarrow> pd_dput D dentry d
              | (Inr inode, d) \<Rightarrow>
                  (case pd_materialise D dentry inode d of
                     (Inl _, d) \<Rightarrow> pd_dput D dentry d
                   | (Inr (Some alias), d) \<Rightarrow> pd_dput D dentry (pd_dput D alias (pd_set_verifier D alias d))
                   | (Inr None, d) \<Rightarrow> pd_dput D dentry (pd_set_verifier D dentry d))))"

definition nfs_prime_dcache :: "('w, 's) dir_env \<Rightarrow> nfs_entry \<Rightarrow> 'w dir_file \<Rightarrow> 'w dir_file" where
  "nfs_prime_dcache Z entry d =
     (let D = dir_dcache Z; dot = 46
      in if fa_valid (ent_fattr entry) AND NFS_ATTR_FATTR_FSID = 0 then d
         else if ent_name entry = [dot] \<or> ent_name entry = [dot, dot] then d
         else case pd_lookup D (ent_name entry) d of
                (None, d) \<Rightarrow> prime_new Z entry d
              | (Some dentry, d) \<Rightarrow>
                  if pd_fsid D d \<noteq> (fa_fsid (ent_fattr entry)) then pd_dput D dentry d
                  else if nfs_same_file Z dentry entry d then
                    (case pd_refresh D dentry (ent_fattr entry) (pd_set_verifier D dentry d) of (status, d) \<Rightarrow>
                       pd_dput D dentry (if status = 0 then pd_setsecurity D dentry (ent_fattr entry) (ent_label entry) d else d))
                  else case pd_invalidate D dentry d of (r, d) \<Rightarrow>
                         if r \<noteq> 0 then pd_dput D dentry d else prime_new Z entry (pd_dput D dentry d))"

text \<open>The loop of \<^verbatim>\<open>nfs_readdir_page_filler\<close>: status, number of entries, entry, array and file.\<close>

fun page_fill_loop ::
  "('w, 's) dir_env \<Rightarrow> nat \<Rightarrow> readdir_desc \<Rightarrow> nat \<Rightarrow> nfs_entry \<Rightarrow> 's \<Rightarrow> cache_array \<Rightarrow> 'w dir_file \<Rightarrow>
   (int \<times> nat \<times> nfs_entry \<times> cache_array \<times> 'w dir_file) option" where
  "page_fill_loop Z 0 desc count entry stream a d = None"
| "page_fill_loop Z (Suc n) desc count entry stream a d =
     (case xdr_decode Z desc entry stream of (status, entry, stream) \<Rightarrow>
        if status \<noteq> 0 then Some (if status = - EAGAIN then 0 else status, count, entry, a, d)
        else case nfs_readdir_add_to_array Z entry a (if rd_plus desc then nfs_prime_dcache Z entry d else d) of (status, a, d) \<Rightarrow>
               if status \<noteq> 0 \<or> ent_eof entry then Some (status, count + 1, entry, a, d)
               else page_fill_loop Z n desc (count + 1) entry stream a d)"

definition nfs_readdir_page_filler ::
  "('w, 's) dir_env \<Rightarrow> nat \<Rightarrow> readdir_desc \<Rightarrow> nfs_entry \<Rightarrow> nat \<Rightarrow> 's \<Rightarrow> cache_array \<Rightarrow> 'w dir_file \<Rightarrow> (int \<times> nfs_entry \<times> cache_array \<times> 'w dir_file) option" where
  "nfs_readdir_page_filler Z n desc entry buflen stream a d =
     (case dir_alloc Z d of
        (False, d) \<Rightarrow> Some (- ENOMEM, entry, a, d)
      | (True, d) \<Rightarrow>
          (case (if buflen = 0 then Some (0, 0, entry, a, d) else page_fill_loop Z n desc 0 entry stream a d) of
             None \<Rightarrow> None
           | Some (status, count, entry, a, d) \<Rightarrow>
               if count = 0 \<or> status = - EBADCOOKIE \<and> ent_eof entry then Some (0, entry, a\<lparr>ca_eof_index := int (ca_size a)\<rparr>, d)
               else Some (status, entry, a, d)))"

fun array_loop ::
  "('w, 's) dir_env \<Rightarrow> nat \<Rightarrow> nat \<Rightarrow> readdir_desc \<Rightarrow> nfs_entry \<Rightarrow> cache_array \<Rightarrow> 'w dir_file \<Rightarrow> (int \<times> readdir_desc \<times> cache_array \<times> 'w dir_file) option" where
  "array_loop Z n 0 desc entry a d = None"
| "array_loop Z n (Suc k) desc entry a d =
     (case nfs_readdir_xdr_filler Z desc (ent_cookie entry) d of ((status, stream), desc, d) \<Rightarrow>
        if status < 0 then Some (status, desc, a, d)
        else case nfs_readdir_page_filler Z n desc entry (nat status) stream a d of
               None \<Rightarrow> None
             | Some (status, entry, a, d) \<Rightarrow>
                 if status < 0 then Some (if status = - ENOSPC then 0 else status, desc, a, d)
                 else if ca_eof_index a < 0 then array_loop Z n k desc entry a d
                 else Some (status, desc, a, d))"

definition first_entry :: "('w, 's) dir_env \<Rightarrow> u64 \<Rightarrow> nfs_entry" where
  "first_entry Z cookie = \<lparr>ent_ino = 0, ent_cookie = cookie, ent_prev_cookie = 0, ent_name = [], ent_len = 0, ent_eof = False, ent_fh = None,
     ent_fattr = dir_fattr Z, ent_label = None, ent_d_type = 0, ent_server = dir_server Z\<rparr>"

text \<open>\<^verbatim>\<open>nfs_readdir_xdr_to_array\<close> with its allocations: the file handle and the attributes, the label, the pages.\<close>

definition nfs_readdir_xdr_to_array ::
  "('w, 's) dir_env \<Rightarrow> nat \<Rightarrow> readdir_desc \<Rightarrow> 'w dir_file \<Rightarrow> (int \<times> readdir_desc \<times> cache_array \<times> 'w dir_file) option" where
  "nfs_readdir_xdr_to_array Z n desc d =
     (let a = \<lparr>ca_entries = [], ca_eof_index = -1, ca_last_cookie = 0\<rparr>
      in case dir_alloc Z d of
           (False, d) \<Rightarrow> Some (- ENOMEM, desc, a, d)
         | (True, d) \<Rightarrow> array_loop Z n n desc (first_entry Z (rd_last_cookie desc)) a d)"

section \<open>The page cache\<close>

definition zap_mapping :: "'w dir_file \<Rightarrow> 'w dir_file" where
  "zap_mapping d = d\<lparr>df_inode := (df_inode d)\<lparr>the_inode := nfs_zap_mapping (the_inode (df_inode d))\<rparr>\<rparr>"

text \<open>A page that was read again makes the pages behind it worthless.\<close>

definition nfs_readdir_filler :: "('w, 's) dir_env \<Rightarrow> nat \<Rightarrow> readdir_desc \<Rightarrow> 'w dir_file \<Rightarrow> (int \<times> readdir_desc \<times> 'w dir_file) option" where
  "nfs_readdir_filler Z n desc d =
     (case nfs_readdir_xdr_to_array Z n desc d of
        None \<Rightarrow> None
      | Some (ret, desc, a, d) \<Rightarrow>
          if ret < 0 then Some (ret, desc, d)
          else case invalidate_pages Z (rd_page_index desc + 1) (d\<lparr>df_pages := (df_pages d)(rd_page_index desc \<mapsto> a)\<rparr>) of (r, d) \<Rightarrow>
                 Some (0, desc\<lparr>rd_page := a\<rparr>, if r < 0 then zap_mapping d else d))"

text \<open>\<^verbatim>\<open>read_cache_page\<close> calls the filler for a page that is not up to date.\<close>

definition get_cache_page :: "('w, 's) dir_env \<Rightarrow> nat \<Rightarrow> readdir_desc \<Rightarrow> 'w dir_file \<Rightarrow> (int \<times> readdir_desc \<times> 'w dir_file) option" where
  "get_cache_page Z n desc d =
     (case df_pages d (rd_page_index desc) of
        Some a \<Rightarrow> Some (0, desc\<lparr>rd_page := a\<rparr>, d)
      | None \<Rightarrow> nfs_readdir_filler Z n desc d)"

definition find_cache_page :: "('w, 's) dir_env \<Rightarrow> nat \<Rightarrow> readdir_desc \<Rightarrow> 'w dir_file \<Rightarrow> (int \<times> readdir_desc \<times> 'w dir_file) option" where
  "find_cache_page Z n desc d =
     (case get_cache_page Z n desc d of
        None \<Rightarrow> None
      | Some (ret, desc, d) \<Rightarrow> if ret < 0 then Some (ret, desc, d) else Some (nfs_readdir_search_array desc d))"

fun search_loop :: "('w, 's) dir_env \<Rightarrow> nat \<Rightarrow> nat \<Rightarrow> readdir_desc \<Rightarrow> 'w dir_file \<Rightarrow> (int \<times> readdir_desc \<times> 'w dir_file) option" where
  "search_loop Z n 0 desc d = None"
| "search_loop Z n (Suc k) desc d =
     (case find_cache_page Z n desc d of
        None \<Rightarrow> None
      | Some (res, desc, d) \<Rightarrow> if res = - EAGAIN then search_loop Z n k desc d else Some (res, desc, d))"

definition readdir_search_pagecache :: "('w, 's) dir_env \<Rightarrow> nat \<Rightarrow> readdir_desc \<Rightarrow> 'w dir_file \<Rightarrow> (int \<times> readdir_desc \<times> 'w dir_file) option" where
  "readdir_search_pagecache Z n desc d =
     search_loop Z n n (if rd_page_index desc = 0 then desc\<lparr>rd_current_index := 0, rd_last_cookie := 0\<rparr> else desc) d"

section \<open>Handing out entries\<close>

text \<open>\<open>fd\<close> is the caller's \<^verbatim>\<open>filldir\<close> on its buffer: name, position, number and type of an entry.\<close>

type_synonym 'f filldir = "'f \<Rightarrow> bytes \<times> int \<times> u64 \<times> u32 \<Rightarrow> int \<times> 'f"

fun filldir_loop :: "bool \<Rightarrow> 'f filldir \<Rightarrow> u64 \<Rightarrow> cache_entry list \<Rightarrow> 'f \<Rightarrow> 'w dir_file \<Rightarrow> bool \<times> 'f \<times> 'w dir_file" where
  "filldir_loop ino64 fd last_cookie [] f d = (False, f, d)"
| "filldir_loop ino64 fd last_cookie (ent # es) f d =
     (case fd f (ce_name ent, df_pos d, nfs_compat_user_ino64 ino64 (ce_ino ent), ce_d_type ent) of (r, f) \<Rightarrow>
        if r < 0 then (True, f, d)
        else filldir_loop ino64 fd last_cookie es f
               (upd_ctx (\<lambda>x. x\<lparr>dc_dir_cookie := (case es of [] \<Rightarrow> last_cookie | e # _ \<Rightarrow> ce_cookie e), dc_duped := if dc_duped x \<noteq> 0 then 1 else 0\<rparr>)
                  (d\<lparr>df_pos := df_pos d + 1\<rparr>)))"

definition nfs_do_filldir :: "bool \<Rightarrow> 'f filldir \<Rightarrow> readdir_desc \<Rightarrow> 'f \<Rightarrow> 'w dir_file \<Rightarrow> readdir_desc \<times> 'f \<times> 'w dir_file" where
  "nfs_do_filldir ino64 fd desc f d =
     (let a = rd_page desc
      in case filldir_loop ino64 fd (ca_last_cookie a) (drop (rd_cache_entry_index desc) (ca_entries a)) f d of (full, f, d) \<Rightarrow>
           (if full \<or> ca_eof_index a \<ge> 0 then desc\<lparr>rd_eof := True\<rparr> else desc, f, d))"

definition uncached_readdir ::
  "('w, 's) dir_env \<Rightarrow> nat \<Rightarrow> 'f filldir \<Rightarrow> readdir_desc \<Rightarrow> 'f \<Rightarrow> 'w dir_file \<Rightarrow> (int \<times> readdir_desc \<times> 'f \<times> 'w dir_file) option" where
  "uncached_readdir Z n fd desc f d =
     (case dir_alloc Z d of
        (False, d) \<Rightarrow> Some (- ENOMEM, desc, f, d)
      | (True, d) \<Rightarrow>
          (case nfs_readdir_xdr_to_array Z n (desc\<lparr>rd_page_index := 0, rd_last_cookie := dir_cookie d\<rparr>) (upd_ctx (\<lambda>x. x\<lparr>dc_duped := 0\<rparr>) d) of
             None \<Rightarrow> None
           | Some (status, desc, a, d) \<Rightarrow>
               if status < 0 then Some (status, desc, f, d)
               else case nfs_do_filldir (enable_ino64 Z) fd (desc\<lparr>rd_page := a\<rparr>) f d of (desc, f, d) \<Rightarrow> Some (0, desc, f, d)))"

section \<open>Revalidation\<close>

definition nfs_use_readdirplus :: "'w dir_file \<Rightarrow> bool \<times> 'w dir_file" where
  "nfs_use_readdirplus d =
     (if \<not> df_cap_plus d then (False, d)
      else if df_advise_plus d then (True, d\<lparr>df_advise_plus := False\<rparr>)
      else (df_pos d = 0, d))"

definition nfs_dir_mapping_need_revalidate :: "('w, 's) dir_env \<Rightarrow> 'w dir_file \<Rightarrow> bool" where
  "nfs_dir_mapping_need_revalidate Z d \<longleftrightarrow>
     nfs_attribute_cache_expired (dir_hooks Z) (now (df_inode d)) (the_inode (df_inode d)) \<or>
     cache_validity (the_inode (df_inode d)) AND NFS_INO_INVALID_DATA \<noteq> 0"

definition upd_inode :: "(nfs_inode \<Rightarrow> nfs_inode) \<Rightarrow> 'w dir_file \<Rightarrow> 'w dir_file" where
  "upd_inode g d = d\<lparr>df_inode := (df_inode d)\<lparr>the_inode := g (the_inode (df_inode d))\<rparr>\<rparr>"

definition nfs_invalidate_mapping :: "('w, 's) dir_env \<Rightarrow> 'w dir_file \<Rightarrow> int \<times> 'w dir_file" where
  "nfs_invalidate_mapping Z d =
     (case (if i_nrpages (the_inode (df_inode d)) \<noteq> 0 then invalidate_pages Z 0 d else (0, d)) of (ret, d) \<Rightarrow>
        if ret < 0 then (ret, d) else (0, upd_inode (\<lambda>ino. ino\<lparr>cookieverf := (0, 0)\<rparr>) d))"

text \<open>Waiting until nobody else invalidates the pages: \<open>Inl\<close> ends the function, \<open>Inr\<close> goes on with the bit not set and the data invalid.\<close>

fun invalidating_loop :: "('w, 's) dir_env \<Rightarrow> nat \<Rightarrow> 'w dir_file \<Rightarrow> (int \<times> 'w dir_file + 'w dir_file) option" where
  "invalidating_loop Z 0 d = None"
| "invalidating_loop Z (Suc n) d =
     (case wait_invalidating Z d of (ret, d) \<Rightarrow>
        if ret \<noteq> 0 then Some (Inl (ret, d))
        else if df_invalidating d then invalidating_loop Z n d
        else if cache_validity (the_inode (df_inode d)) AND NFS_INO_INVALID_DATA \<noteq> 0 then Some (Inr d)
        else Some (Inl (0, d)))"

text \<open>\<^verbatim>\<open>__nfs_revalidate_mapping\<close> for a directory\<close>

definition nfs_revalidate_mapping :: "('w, 's) dir_env \<Rightarrow> nat \<Rightarrow> 'w dir_file \<Rightarrow> (int \<times> 'w dir_file) option" where
  "nfs_revalidate_mapping Z n d =
     (case (if nfs_mapping_need_revalidate_inode (dir_hooks Z) (now (df_inode d)) (the_inode (df_inode d))
            then case dir_alloc Z d of (ok, d) \<Rightarrow>
                   (case nfs_revalidate_inode_now (dir_hooks Z) ok 0 (dir_getattr Z) (df_inode d) of (ret, ino) \<Rightarrow> (ret, d\<lparr>df_inode := ino\<rparr>))
            else (0, d)) of (ret, d) \<Rightarrow>
        if ret < 0 then Some (ret, d)
        else case invalidating_loop Z n d of
               None \<Rightarrow> None
             | Some (Inl r) \<Rightarrow> Some r
             | Some (Inr d) \<Rightarrow>
                 (case nfs_invalidate_mapping Z (upd_inode (\<lambda>ino. ino\<lparr>cache_validity := cache_validity ino AND NOT NFS_INO_INVALID_DATA\<rparr>) (d\<lparr>df_invalidating := True\<rparr>)) of
                    (ret, d) \<Rightarrow> Some (ret, d\<lparr>df_invalidating := False\<rparr>)))"

section \<open>The system call\<close>

definition zap_caches :: "('w, 's) dir_env \<Rightarrow> 'w dir_file \<Rightarrow> 'w dir_file" where
  "zap_caches Z d = upd_inode (nfs_zap_caches_locked (dir_hooks Z) (the_sb (df_inode d)) (now (df_inode d))) d"

fun readdir_loop ::
  "('w, 's) dir_env \<Rightarrow> nat \<Rightarrow> nat \<Rightarrow> 'f filldir \<Rightarrow> readdir_desc \<Rightarrow> 'f \<Rightarrow> 'w dir_file \<Rightarrow> (int \<times> 'f \<times> 'w dir_file) option" where
  "readdir_loop Z n 0 fd desc f d = None"
| "readdir_loop Z n (Suc k) fd desc f d =
     (let continue = (\<lambda>res desc f d. if rd_eof desc then Some (res, f, d) else readdir_loop Z n k fd desc f d)
      in case readdir_search_pagecache Z n desc d of
           None \<Rightarrow> None
         | Some (res, desc, d) \<Rightarrow>
             if res = - EBADCOOKIE then
               if dir_cookie d \<noteq> 0 \<and> \<not> rd_eof desc
               then case uncached_readdir Z n fd desc f d of
                      None \<Rightarrow> None
                    | Some (res, desc, f, d) \<Rightarrow> if res = 0 then continue 0 desc f d else Some (res, f, d)
               else Some (0, f, d)
             else if res = - ETOOSMALL \<and> rd_plus desc then
               continue res (desc\<lparr>rd_page_index := 0, rd_plus := False, rd_eof := False\<rparr>) f (zap_caches Z (d\<lparr>df_advise_plus := False\<rparr>))
             else if res < 0 then Some (res, f, d)
             else case nfs_do_filldir (enable_ino64 Z) fd desc f d of (desc, f, d) \<Rightarrow> continue 0 desc f d)"

definition nfs_readdir :: "('w, 's) dir_env \<Rightarrow> nat \<Rightarrow> 'f filldir \<Rightarrow> 'f \<Rightarrow> 'w dir_file \<Rightarrow> (int \<times> 'f \<times> 'w dir_file) option" where
  "nfs_readdir Z n fd f d =
     (case nfs_use_readdirplus d of (rdplus, d) \<Rightarrow>
        let desc = \<lparr>rd_page = \<lparr>ca_entries = [], ca_eof_index = 0, ca_last_cookie = 0\<rparr>, rd_page_index = 0, rd_last_cookie = 0, rd_current_index = 0, rd_timestamp = 0,
              rd_gencount = 0, rd_cache_entry_index = 0, rd_plus = rdplus, rd_eof = False\<rparr>
        in case (if df_pos d = 0 \<or> nfs_dir_mapping_need_revalidate Z d then nfs_revalidate_mapping Z n d else Some (0, d)) of
             None \<Rightarrow> None
           | Some (res, d) \<Rightarrow>
               if res < 0 then Some (res, f, d)
               else map_option (\<lambda>(res, f, d). (if res > 0 then 0 else res, f, d)) (readdir_loop Z n n fd desc f d))"

datatype whence = SEEK_SET | SEEK_CUR | SEEK_OTHER

definition nfs_llseek_dir :: "int \<Rightarrow> whence \<Rightarrow> 'w dir_file \<Rightarrow> int \<times> 'w dir_file" where
  "nfs_llseek_dir offset whence d =
     (let offset = (case whence of SEEK_CUR \<Rightarrow> offset + df_pos d | _ \<Rightarrow> offset)
      in if whence = SEEK_OTHER \<or> offset < 0 then (- EINVAL, d)
         else (offset, if offset \<noteq> df_pos d then upd_ctx (\<lambda>x. x\<lparr>dc_dir_cookie := 0, dc_duped := 0\<rparr>) (d\<lparr>df_pos := offset\<rparr>) else d))"

text \<open>\<^verbatim>\<open>alloc_nfs_open_dir_context\<close>\<close>

definition open_dir_context :: "u64 \<Rightarrow> dir_ctx" where
  "open_dir_context gencount = \<lparr>dc_duped = 0, dc_gencount = gencount, dc_dir_cookie = 0, dc_dup_cookie = 0\<rparr>"

end
