(* ===== verification/Nfs_Readdir_Correct.thy ===== *)
theory Nfs_Readdir_Correct
  imports Nfs_Readdir
begin

text \<open>
  Reading a directory that does not change: whatever the server puts into its replies and however small the caller's buffer is, every call goes on where the last one stopped and
  hands out the entries of the directory in order, each of them once.
\<close>

section \<open>The directory and its pages\<close>

record dir_item =
  it_cookie :: u64
  it_ino :: u64
  it_name :: bytes
  it_type :: u32

text \<open>The cookie with which the entry at a position is asked for: that of the entry before it.\<close>

definition before :: "dir_item list \<Rightarrow> nat \<Rightarrow> u64" where
  "before ds g = (if g = 0 then 0 else it_cookie (ds ! (g - 1)))"

definition good_cookies :: "dir_item list \<Rightarrow> bool" where
  "good_cookies ds \<longleftrightarrow> distinct (map it_cookie ds) \<and> 0 \<notin> set (map it_cookie ds)"

lemma before_inj:
  assumes "good_cookies ds" and "g \<le> length ds" and "h \<le> length ds"
  shows "before ds g = before ds h \<longleftrightarrow> g = h"
proof -
  have nz: "it_cookie (ds ! k) \<noteq> 0" if "k < length ds" for k using assms(1) that unfolding good_cookies_def by (metis length_map nth_map nth_mem)
  have eq: "it_cookie (ds ! k) = it_cookie (ds ! l) \<longleftrightarrow> k = l" if "k < length ds" "l < length ds" for k l
    using nth_eq_iff_index_eq [of "map it_cookie ds" k l] assms(1) that by (simp add: good_cookies_def)
  show ?thesis using assms(2,3) nz [of "g - 1"] nz [of "h - 1"] by (cases g; cases h) (auto simp: before_def eq)
qed

lemma before_0 [simp]: "before ds 0 = 0"
  by (simp add: before_def)

definition entry_of :: "dir_item list \<Rightarrow> nat \<Rightarrow> cache_entry" where
  "entry_of ds g = \<lparr>ce_cookie = before ds g, ce_ino = it_ino (ds ! g), ce_name = it_name (ds ! g), ce_d_type = it_type (ds ! g)\<rparr>"

text \<open>A page holds 102 entries.\<close>

definition CAP :: nat where "CAP = (PAGE_SIZE - ARRAY_HEAD) div ENTRY_SIZE"

lemma CAP_pos [simp]: "0 < CAP" "CAP \<noteq> 0"
  by (simp_all add: CAP_def)

definition page_of :: "dir_item list \<Rightarrow> nat \<Rightarrow> cache_array" where
  "page_of ds i = (let s = CAP * i; e = min (s + CAP) (length ds)
     in \<lparr>ca_entries = map (entry_of ds) [s..<e], ca_eof_index = if length ds \<le> s + CAP then int (e - s) else -1, ca_last_cookie = before ds e\<rparr>)"

definition pages_ok :: "dir_item list \<Rightarrow> 'w dir_file \<Rightarrow> bool" where
  "pages_ok ds d \<longleftrightarrow> (\<forall>i a. df_pages d i = Some a \<longrightarrow> a = page_of ds i)"

section \<open>What the server and the kernel do\<close>

text \<open>Others may throw pages away.\<close>

definition keeps :: "'w dir_file \<Rightarrow> 'w dir_file \<Rightarrow> bool" where
  "keeps d e \<longleftrightarrow> df_pos e = df_pos d \<and> df_ctx e = df_ctx d \<and> df_pages e \<subseteq>\<^sub>m df_pages d"

lemma keeps_refl [simp]: "keeps d d" "keeps d (d\<lparr>df_inode := x\<rparr>)" "keeps d (d\<lparr>df_advise_plus := b\<rparr>)"
  by (simp_all add: keeps_def)

lemma keeps_trans: "keeps d e \<Longrightarrow> keeps e g \<Longrightarrow> keeps d g"
  by (auto simp: keeps_def intro: map_le_trans)

lemma keeps_pages: "keeps d e \<Longrightarrow> pages_ok ds d \<Longrightarrow> pages_ok ds e"
  by (auto simp: keeps_def pages_ok_def map_le_def dom_def)

text \<open>A stream that decodes to the given entries, after which the server says whether the directory ends here.\<close>

fun stands :: "('w, 's) dir_env \<Rightarrow> bool \<Rightarrow> 's \<Rightarrow> dir_item list \<Rightarrow> bool \<Rightarrow> bool" where
  "stands Z p str [] eof \<longleftrightarrow>
     (\<forall>e. \<exists>e' str'. decode_dirent Z str e p = (if eof then - EBADCOOKIE else - EAGAIN, e', str') \<and> ent_eof e' = (eof \<or> ent_eof e) \<and> ent_cookie e' = ent_cookie e)"
| "stands Z p str (x # xs) eof \<longleftrightarrow>
     (\<forall>e. \<exists>e' str'. decode_dirent Z str e p = (0, e', str') \<and> ent_prev_cookie e' = ent_cookie e \<and> ent_cookie e' = it_cookie x \<and> ent_ino e' = it_ino x \<and>
        ent_name e' = it_name x \<and> ent_d_type e' = it_type x \<and> ent_eof e' = ent_eof e \<and> stands Z p str' xs eof)"

text \<open>The server answers every cookie it gave out with some of the entries behind it, at least one unless there are none.\<close>

definition serves :: "('w, 's) dir_env \<Rightarrow> dir_item list \<Rightarrow> bool" where
  "serves Z ds \<longleftrightarrow> (\<forall>g p d. g \<le> length ds \<longrightarrow>
     (\<exists>len str d' m eof. proto_readdir Z (before ds g) p d = ((len, str), d') \<and> 0 < len \<and> keeps d d' \<and> g + m \<le> length ds \<and>
        (eof \<longrightarrow> g + m = length ds) \<and> (\<not> eof \<longrightarrow> 0 < m) \<and> stands Z p str (take m (drop g ds)) eof))"

definition dcache_calm :: "'w dcache_env \<Rightarrow> bool" where
  "dcache_calm D \<longleftrightarrow> (\<forall>d. (\<forall>x. keeps d (snd (pd_lookup D x d)) \<and> keeps d (snd (pd_alloc D x d))) \<and> (\<forall>x a l. keeps d (snd (pd_fhget D x a l d))) \<and>
     (\<forall>x. keeps d (pd_set_verifier D x d) \<and> keeps d (pd_dput D x d) \<and> keeps d (snd (pd_invalidate D x d))) \<and> (\<forall>x y. keeps d (snd (pd_materialise D x y d))) \<and>
     (\<forall>x a. keeps d (snd (pd_refresh D x a d))) \<and> (\<forall>x a l. keeps d (pd_setsecurity D x a l d)))"

definition calm :: "('w, 's) dir_env \<Rightarrow> bool" where
  "calm Z \<longleftrightarrow> dcache_calm (dir_dcache Z) \<and> (\<forall>d. \<exists>d'. dir_alloc Z d = (True, d') \<and> keeps d d') \<and> (\<forall>k d. \<exists>r d'. invalidate_pages Z k d = (r, d') \<and> keeps d d')"

lemma dcache_calmD:
  assumes "dcache_calm D"
  shows "pd_lookup D x d = (r1, e) \<Longrightarrow> keeps d e" "pd_alloc D x d = (r2, e) \<Longrightarrow> keeps d e" "pd_fhget D fh a l d = (r3, e) \<Longrightarrow> keeps d e"
    "keeps d (pd_set_verifier D y d)" "keeps d (pd_dput D y d)" "pd_invalidate D y d = (r4, e) \<Longrightarrow> keeps d e" "pd_materialise D y z d = (r5, e) \<Longrightarrow> keeps d e"
    "pd_refresh D y a d = (r6, e) \<Longrightarrow> keeps d e" "keeps d (pd_setsecurity D y a l d)"
  using assms unfolding dcache_calm_def by (metis snd_conv)+

lemma dcache_calm_then:
  assumes "dcache_calm D" and "keeps c d"
  shows "keeps c (pd_set_verifier D y d)" "keeps c (pd_dput D y d)" "keeps c (pd_setsecurity D y a l d)"
  using assms dcache_calmD(4,5,9) [OF assms(1)] by (blast intro: keeps_trans)+

lemma prime_new_keeps:
  assumes "dcache_calm (dir_dcache Z)"
  shows "keeps d (prime_new Z entry d)"
  unfolding prime_new_def Let_def
  by (auto split: prod.split option.split sum.split intro!: dcache_calm_then [OF assms] dest!: dcache_calmD(2,3,7) [OF assms]) (meson keeps_trans)+

lemma prime_keeps:
  assumes "dcache_calm (dir_dcache Z)"
  shows "keeps d (nfs_prime_dcache Z entry d)"
proof -
  have new: "keeps c (prime_new Z entry e)" if "keeps c e" for c e using that prime_new_keeps [OF assms] by (blast intro: keeps_trans)
  show ?thesis unfolding nfs_prime_dcache_def Let_def
    by (auto split: prod.split option.split intro!: dcache_calm_then [OF assms] new dest!: dcache_calmD(1,6,8) [OF assms])
      (meson keeps_trans dcache_calmD(4) [OF assms])+
qed

section \<open>Filling a page\<close>

text \<open>An array with the entries from \<open>s\<close> to \<open>g\<close>.\<close>

definition partial :: "dir_item list \<Rightarrow> nat \<Rightarrow> nat \<Rightarrow> cache_array \<Rightarrow> bool" where
  "partial ds s g a \<longleftrightarrow> ca_entries a = map (entry_of ds) [s..<g] \<and> ca_eof_index a = -1 \<and> ca_last_cookie a = (if g = s then 0 else before ds g)"

lemma add_to_array_ok:
  assumes "calm Z" and "partial ds s g a" and "s \<le> g" and "g < length ds" and "ent_prev_cookie e = before ds g" "ent_cookie e = it_cookie (ds ! g)"
    "ent_ino e = it_ino (ds ! g)" "ent_name e = it_name (ds ! g)" "ent_d_type e = it_type (ds ! g)" "\<not> ent_eof e"
  shows "if g < s + CAP then \<exists>a' d'. nfs_readdir_add_to_array Z e a d = (0, a', d') \<and> partial ds s (g + 1) a' \<and> keeps d d'
    else nfs_readdir_add_to_array Z e a d = (- ENOSPC, a, d)"
proof -
  have size: "ca_size a = g - s" using assms(2) by (simp add: partial_def)
  have full: "ARRAY_HEAD + ENTRY_SIZE * (ca_size a + 1) > PAGE_SIZE \<longleftrightarrow> \<not> g < s + CAP" using assms(3) by (auto simp: size CAP_def)
  obtain d' where d': "dir_alloc Z d = (True, d')" "keeps d d'" using assms(1) unfolding calm_def by blast
  have "before ds (g + 1) = it_cookie (ds ! g)" by (simp add: before_def)
  then show ?thesis using full assms d' by (auto simp: nfs_readdir_add_to_array_def Let_def partial_def entry_of_def)
qed

lemma page_fill_loop_ok:
  assumes calm: "calm Z" and "stands Z (rd_plus desc) str (take m (drop g ds)) eof" and "partial ds s g a" and "s \<le> g" "g \<le> s + CAP" "g + m \<le> length ds"
    and "ent_cookie e = before ds g" "\<not> ent_eof e" and "m < n"
  shows "\<exists>e' a' d' status c'. page_fill_loop Z n desc c e str a d = Some (status, c', e', a', d') \<and> keeps d d' \<and>
    (if g + m \<le> s + CAP then status = (if eof then - EBADCOOKIE else 0) \<and> c' = c + m \<and> partial ds s (g + m) a' \<and> ent_eof e' = eof \<and> ent_cookie e' = before ds (g + m)
     else status = - ENOSPC \<and> 0 < c' \<and> partial ds s (s + CAP) a')"
  using assms(2-9)
proof (induction m arbitrary: n str g a e d c)
  case 0
  then obtain k where n: "n = Suc k" by (cases n) auto
  obtain e' str' where dec: "decode_dirent Z str e (rd_plus desc) = (if eof then - EBADCOOKIE else - EAGAIN, e', str')" "ent_eof e' = eof" "ent_cookie e' = ent_cookie e"
    using spec [OF 0(1) [unfolded take_0 stands.simps], of e] 0(7) by auto
  then show ?case using 0 by (cases eof) (auto simp: n xdr_decode_def)
next
  case (Suc m)
  then obtain k where n: "n = Suc k" by (cases n) auto
  have g: "g < length ds" using Suc.prems(5) by simp
  have items: "take (Suc m) (drop g ds) = ds ! g # take m (drop (g + 1) ds)" using g by (simp add: Cons_nth_drop_Suc [symmetric])
  obtain e' str' where dec: "decode_dirent Z str e (rd_plus desc) = (0, e', str')" and e': "ent_prev_cookie e' = ent_cookie e" "ent_cookie e' = it_cookie (ds ! g)"
    "ent_ino e' = it_ino (ds ! g)" "ent_name e' = it_name (ds ! g)" "ent_d_type e' = it_type (ds ! g)" "ent_eof e' = ent_eof e"
    "stands Z (rd_plus desc) str' (take m (drop (g + 1) ds)) eof"
    using Suc.prems(1) unfolding items by (simp only: stands.simps) blast
  let ?e = "e'\<lparr>ent_fattr := (ent_fattr e')\<lparr>fa_time_start := rd_timestamp desc, fa_gencount := rd_gencount desc\<rparr>\<rparr>"
  let ?d = "if rd_plus desc then nfs_prime_dcache Z ?e d else d"
  have kd: "keeps d ?d" using prime_keeps calm by (auto simp: calm_def)
  have add: "if g < s + CAP then \<exists>a' d'. nfs_readdir_add_to_array Z ?e a ?d = (0, a', d') \<and> partial ds s (g + 1) a' \<and> keeps ?d d'
    else nfs_readdir_add_to_array Z ?e a ?d = (- ENOSPC, a, ?d)"
    by (rule add_to_array_ok [OF calm Suc.prems(2,3) g]) (use Suc.prems(6,7) e' in simp_all)
  have step: "page_fill_loop Z n desc c e str a d = (case nfs_readdir_add_to_array Z ?e a ?d of (status, a, d) \<Rightarrow>
      if status \<noteq> 0 then Some (status, c + 1, ?e, a, d) else page_fill_loop Z k desc (c + 1) ?e str' a d)"
    using dec e'(6) Suc.prems(7) by (simp add: n xdr_decode_def Let_def split: prod.split)
  show ?case
  proof (cases "g < s + CAP")
    case True
    then obtain a' d' where a': "nfs_readdir_add_to_array Z ?e a ?d = (0, a', d')" "partial ds s (g + 1) a'" "keeps ?d d'" using add by auto
    have "\<exists>e'' a'' d'' status c'. page_fill_loop Z k desc (c + 1) ?e str' a' d' = Some (status, c', e'', a'', d'') \<and> keeps d' d'' \<and>
      (if g + 1 + m \<le> s + CAP then status = (if eof then - EBADCOOKIE else 0) \<and> c' = c + 1 + m \<and> partial ds s (g + 1 + m) a'' \<and> ent_eof e'' = eof \<and>
         ent_cookie e'' = before ds (g + 1 + m)
       else status = - ENOSPC \<and> 0 < c' \<and> partial ds s (s + CAP) a'')"
      by (rule Suc.IH) (use Suc.prems True e' a'(2) n in \<open>simp_all add: before_def\<close>)
    moreover have eqs: "g + Suc m = g + 1 + m" "c + Suc m = c + 1 + m" by simp_all
    moreover have "page_fill_loop Z n desc c e str a d = page_fill_loop Z k desc (c + 1) ?e str' a' d'" using step a'(1) by simp
    ultimately show ?thesis using keeps_trans [OF keeps_trans [OF kd a'(3)]] unfolding eqs by metis
  next
    case False
    then show ?thesis using step add Suc.prems(2-4) kd by auto
  qed
qed

lemma page_filler_ok:
  assumes calm: "calm Z" and st: "stands Z (rd_plus desc) str (take m (drop g ds)) eof" and a: "partial ds s g a" and g: "s \<le> g" "g \<le> s + CAP" "g + m \<le> length ds"
    and e: "ent_cookie e = before ds g" "\<not> ent_eof e" and n: "m < n" and len: "0 < len" and some: "\<not> eof \<longrightarrow> 0 < m"
  shows "\<exists>e' a' d' status. nfs_readdir_page_filler Z n desc e len str a d = Some (status, e', a', d') \<and> keeps d d' \<and>
    (if g + m \<le> s + CAP then status = 0 \<and> (if eof then \<exists>b. partial ds s (g + m) b \<and> a' = b\<lparr>ca_eof_index := int (g + m - s)\<rparr>
         else partial ds s (g + m) a' \<and> \<not> ent_eof e' \<and> ent_cookie e' = before ds (g + m))
     else status = - ENOSPC \<and> partial ds s (s + CAP) a')"
proof -
  obtain d1 where d1: "dir_alloc Z d = (True, d1)" "keeps d d1" using calm unfolding calm_def by blast
  obtain e' a' d' status c' where loop: "page_fill_loop Z n desc 0 e str a d1 = Some (status, c', e', a', d')" and k: "keeps d1 d'"
    and r: "if g + m \<le> s + CAP then status = (if eof then - EBADCOOKIE else 0) \<and> c' = 0 + m \<and> partial ds s (g + m) a' \<and> ent_eof e' = eof \<and> ent_cookie e' = before ds (g + m)
     else status = - ENOSPC \<and> 0 < c' \<and> partial ds s (s + CAP) a'"
    using page_fill_loop_ok [OF calm st a g e n, of 0 d1] by blast
  have kd: "keeps d d'" using d1(2) k by (rule keeps_trans)
  have size: "ca_size a' = g + m - s" if "partial ds s (g + m) a'" using that by (simp add: partial_def)
  have f: "nfs_readdir_page_filler Z n desc e len str a d =
      (if c' = 0 \<or> status = - EBADCOOKIE \<and> ent_eof e' then Some (0, e', a'\<lparr>ca_eof_index := int (ca_size a')\<rparr>, d') else Some (status, e', a', d'))"
    using d1(1) loop len by (simp add: nfs_readdir_page_filler_def)
  show ?thesis
  proof (cases "g + m \<le> s + CAP")
    case True
    then show ?thesis using f r kd some size by (cases eof) auto
  next
    case False
    then show ?thesis using f r kd by auto
  qed
qed

lemma page_of_eof:
  assumes "partial ds (CAP * i) (length ds) b" and "CAP * i \<le> length ds" "length ds \<le> CAP * i + CAP" and "i = 0 \<or> CAP * i < length ds"
  shows "b\<lparr>ca_eof_index := int (length ds - CAP * i)\<rparr> = page_of ds i"
proof -
  have e: "min (CAP * i + CAP) (length ds) = length ds" using assms(3) by (rule min_absorb2)
  have "ca_last_cookie b = before ds (length ds)" using assms(1,4) by (auto simp: partial_def)
  then show ?thesis using assms(1,3) unfolding page_of_def Let_def e partial_def by (intro cache_array.equality) simp_all
qed

lemma page_of_full:
  assumes "partial ds (CAP * i) (CAP * i + CAP) b" and "CAP * i + CAP < length ds"
  shows "b = page_of ds i"
proof -
  have e: "min (CAP * i + CAP) (length ds) = CAP * i + CAP" using assms(2) by (intro min_absorb1) simp
  show ?thesis using assms unfolding page_of_def Let_def e partial_def by (intro cache_array.equality) simp_all
qed

lemma xdr_filler_ok:
  assumes "serves Z ds" and "g \<le> length ds"
  shows "\<exists>len str d' m eof t gen. nfs_readdir_xdr_filler Z desc (before ds g) d = ((len, str), desc\<lparr>rd_timestamp := t, rd_gencount := gen\<rparr>, d') \<and> 0 < len \<and> keeps d d' \<and>
    g + m \<le> length ds \<and> (eof \<longrightarrow> g + m = length ds) \<and> (\<not> eof \<longrightarrow> 0 < m) \<and> stands Z (rd_plus desc) str (take m (drop g ds)) eof"
proof -
  let ?d = "d\<lparr>df_inode := (df_inode d)\<lparr>generation := generation (df_inode d) + 1\<rparr>\<rparr>"
  obtain len str d' m eof where r: "proto_readdir Z (before ds g) (rd_plus desc) ?d = ((len, str), d')" "0 < len" "keeps ?d d'" "g + m \<le> length ds"
    "eof \<longrightarrow> g + m = length ds" "\<not> eof \<longrightarrow> 0 < m" "stands Z (rd_plus desc) str (take m (drop g ds)) eof"
    using assms(1) [unfolded serves_def, rule_format, OF assms(2), of "rd_plus desc" ?d] by (elim exE conjE) (rule that)
  have kd: "keeps d d'" using r(3) by (simp add: keeps_def)
  have call: "nfs_readdir_xdr_filler Z desc (before ds g) d =
      ((len, str), desc\<lparr>rd_timestamp := now (df_inode d), rd_gencount := generation (df_inode d) + 1\<rparr>, d')"
    using r(1,2) by (simp add: nfs_readdir_xdr_filler_def Let_def)
  show ?thesis by (intro exI conjI) (rule call, rule r(2), rule kd, rule r(4), rule r(5), rule r(6), rule r(7))
qed

lemma array_loop_ok:
  assumes Z: "calm Z" "serves Z ds" and i: "i = 0 \<or> CAP * i < length ds"
    and "partial ds (CAP * i) g a" "CAP * i \<le> g" "g \<le> CAP * i + CAP" "g \<le> length ds" "ent_cookie e = before ds g" "\<not> ent_eof e" "length ds - g < k" "length ds < n"
  shows "\<exists>t gen d'. array_loop Z n k desc e a d = Some (0, desc\<lparr>rd_timestamp := t, rd_gencount := gen\<rparr>, page_of ds i, d') \<and> keeps d d'"
  using assms(4-)
proof (induction k arbitrary: g a e d desc)
  case (Suc k)
  obtain len str d1 m eof t gen where f: "nfs_readdir_xdr_filler Z desc (before ds g) d = ((len, str), desc\<lparr>rd_timestamp := t, rd_gencount := gen\<rparr>, d1)" "0 < len" "keeps d d1"
    "g + m \<le> length ds" "eof \<longrightarrow> g + m = length ds" "\<not> eof \<longrightarrow> 0 < m" "stands Z (rd_plus desc) str (take m (drop g ds)) eof"
    using xdr_filler_ok [OF Z(2) Suc.prems(4)] by blast
  let ?desc = "desc\<lparr>rd_timestamp := t, rd_gencount := gen\<rparr>"
  obtain e' a' d' status where p: "nfs_readdir_page_filler Z n ?desc e (nat len) str a d1 = Some (status, e', a', d')" "keeps d1 d'"
    and r: "if g + m \<le> CAP * i + CAP then status = 0 \<and> (if eof then \<exists>b. partial ds (CAP * i) (g + m) b \<and> a' = b\<lparr>ca_eof_index := int (g + m - CAP * i)\<rparr>
         else partial ds (CAP * i) (g + m) a' \<and> \<not> ent_eof e' \<and> ent_cookie e' = before ds (g + m))
     else status = - ENOSPC \<and> partial ds (CAP * i) (CAP * i + CAP) a'"
    using page_filler_ok [OF Z(1) _ Suc.prems(1-3) f(4) Suc.prems(5,6), of ?desc str eof n "nat len" d1] f Suc.prems(8) by auto
  have kd: "keeps d d'" using f(3) p(2) by (rule keeps_trans)
  have step: "array_loop Z n (Suc k) desc e a d =
      (if status < 0 then Some (if status = - ENOSPC then 0 else status, ?desc, a', d')
       else if ca_eof_index a' < 0 then array_loop Z n k ?desc e' a' d' else Some (status, ?desc, a', d'))"
    using f(1,2) p(1) Suc.prems(5) by simp
  consider (full) "CAP * i + CAP < g + m" | (eof) "g + m \<le> CAP * i + CAP" "eof" | (more) "g + m \<le> CAP * i + CAP" "\<not> eof" by linarith
  then show ?case
  proof cases
    case full
    then have "a' = page_of ds i" using r f(4) by (intro page_of_full) auto
    then show ?thesis using step full r kd by auto
  next
    case eof
    then have e: "g + m = length ds" using f(5) by simp
    then obtain b where "partial ds (CAP * i) (length ds) b" "a' = b\<lparr>ca_eof_index := int (length ds - CAP * i)\<rparr>" using r eof by auto
    then have a': "a' = page_of ds i" using page_of_eof [of ds i b] e eof(1) i Suc.prems(2) by auto
    moreover have "\<not> ca_eof_index a' < 0" using e eof(1) a' by (simp add: page_of_def Let_def)
    ultimately show ?thesis using step r eof kd by auto
  next
    case more
    then have a': "status = 0" "partial ds (CAP * i) (g + m) a'" "\<not> ent_eof e'" "ent_cookie e' = before ds (g + m)" using r by auto
    have "\<exists>t' gen' d''. array_loop Z n k ?desc e' a' d' = Some (0, ?desc\<lparr>rd_timestamp := t', rd_gencount := gen'\<rparr>, page_of ds i, d'') \<and> keeps d' d''"
      by (rule Suc.IH [OF a'(2)]) (use a' more f(4,6) Suc.prems in auto)
    moreover have "ca_eof_index a' < 0" using a'(2) by (simp add: partial_def)
    ultimately show ?thesis using step a'(1) kd by (auto intro: keeps_trans)
  qed
qed simp

section \<open>Finding the place\<close>

text \<open>The descriptor before page \<open>i\<close> is read.\<close>

definition desc_at :: "dir_item list \<Rightarrow> nat \<Rightarrow> readdir_desc \<Rightarrow> bool" where
  "desc_at ds i desc \<longleftrightarrow> rd_page_index desc = i \<and> rd_last_cookie desc = before ds (CAP * i) \<and> rd_current_index desc = int (CAP * i) \<and> \<not> rd_eof desc"

lemma get_cache_page_ok:
  assumes Z: "calm Z" "serves Z ds" and i: "i = 0 \<or> CAP * i < length ds" and desc: "desc_at ds i desc" and d: "pages_ok ds d" and n: "length ds + 1 < n"
  shows "\<exists>desc' d'. get_cache_page Z n desc d = Some (0, desc', d') \<and> rd_page desc' = page_of ds i \<and> desc_at ds i desc' \<and> df_pos d' = df_pos d \<and> df_ctx d' = df_ctx d \<and> pages_ok ds d'"
proof (cases "df_pages d i")
  case (Some a)
  then have "get_cache_page Z n desc d = Some (0, desc\<lparr>rd_page := a\<rparr>, d)" "a = page_of ds i" using desc d by (simp_all add: get_cache_page_def desc_at_def pages_ok_def)
  then show ?thesis using desc d by (auto simp: desc_at_def)
next
  case None
  obtain d1 where d1: "dir_alloc Z d = (True, d1)" "keeps d d1" using Z(1) unfolding calm_def by blast
  let ?a = "\<lparr>ca_entries = [], ca_eof_index = -1, ca_last_cookie = 0\<rparr>" and ?e = "first_entry Z (rd_last_cookie desc)"
  have e: "ent_cookie ?e = before ds (CAP * i)" "\<not> ent_eof ?e" using desc by (simp_all add: first_entry_def desc_at_def)
  have p: "partial ds (CAP * i) (CAP * i) ?a" by (simp add: partial_def)
  have "CAP * i \<le> length ds" "length ds - CAP * i < n" "length ds < n" using i n by auto
  from array_loop_ok [OF Z i p order_refl le_add1 this(1) e this(2,3)]
  obtain t gen d2 where l: "array_loop Z n n desc ?e ?a d1 = Some (0, desc\<lparr>rd_timestamp := t, rd_gencount := gen\<rparr>, page_of ds i, d2)" "keeps d1 d2" by blast
  let ?d2 = "d2\<lparr>df_pages := (df_pages d2)(i \<mapsto> page_of ds i)\<rparr>"
  obtain r d3 where d3: "invalidate_pages Z (i + 1) ?d2 = (r, d3)" "keeps ?d2 d3" using Z(1) unfolding calm_def by blast
  have "pages_ok ds d2" using keeps_pages [OF keeps_trans [OF d1(2) l(2)] d] .
  then have "pages_ok ds ?d2" by (auto simp: pages_ok_def)
  then have ok: "pages_ok ds d3" using d3(2) by (blast intro: keeps_pages)
  have same: "df_pos d3 = df_pos d" "df_ctx d3 = df_ctx d" using d1(2) l(2) d3(2) by (simp_all add: keeps_def)
  have "get_cache_page Z n desc d = Some (0, desc\<lparr>rd_timestamp := t, rd_gencount := gen, rd_page := page_of ds i\<rparr>, if r < 0 then zap_mapping d3 else d3)"
    using None desc d1(1) l(1) d3(1) by (simp add: get_cache_page_def nfs_readdir_filler_def nfs_readdir_xdr_to_array_def desc_at_def Let_def)
  moreover have "pages_ok ds (zap_mapping d3)" "df_pos (zap_mapping d3) = df_pos d3" "df_ctx (zap_mapping d3) = df_ctx d3"
    using ok by (simp_all add: zap_mapping_def pages_ok_def)
  ultimately show ?thesis using desc ok same by (auto simp: desc_at_def)
qed

lemma find_cookie_map:
  assumes "good_cookies ds" and "k \<le> length ds" and "s \<le> e" "e \<le> length ds"
  shows "find_cookie (before ds k) (map (entry_of ds) [s..<e]) = (if s \<le> k \<and> k < e then k - s else e - s)"
  using assms(3,4)
proof (induction "e - s" arbitrary: s)
  case (Suc n)
  then have s: "s < e" "[s..<e] = s # [Suc s..<e]" "n = e - Suc s" by (simp_all add: upt_conv_Cons)
  have IH: "find_cookie (before ds k) (map (entry_of ds) [Suc s..<e]) = (if Suc s \<le> k \<and> k < e then k - Suc s else e - Suc s)"
    using Suc s by (intro Suc.hyps(1)) simp_all
  have eq: "before ds s = before ds k \<longleftrightarrow> s = k" using before_inj [OF assms(1), of s k] s(1) Suc.prems(2) assms(2) by simp
  show ?case using IH s(1) eq by (auto simp: s(2) find_cookie_def entry_of_def)
qed (simp add: find_cookie_def)

text \<open>The place of the caller: it has \<open>k\<close> entries.\<close>

definition at_pos :: "dir_item list \<Rightarrow> nat \<Rightarrow> 'w dir_file \<Rightarrow> bool" where
  "at_pos ds k d \<longleftrightarrow> df_pos d = int k \<and> dir_cookie d = before ds k \<and> k \<le> length ds \<and> pages_ok ds d"

text \<open>Searching one page: the entry is in it, or the directory ends in it, or the search goes on.\<close>

lemma search_array_ok:
  assumes ds: "good_cookies ds" and i: "i = 0 \<or> CAP * i < length ds" and desc: "desc_at ds i desc" "rd_page desc = page_of ds i" and d: "at_pos ds k d" and k: "CAP * i \<le> k"
  shows "\<exists>status desc' d'. nfs_readdir_search_array desc d = (status, desc', d') \<and> at_pos ds k d' \<and>
    (if k < length ds \<and> k < CAP * i + CAP then status = 0 \<and> desc_at ds i desc' \<and> rd_page desc' = page_of ds i \<and> rd_cache_entry_index desc' = k - CAP * i
     else if length ds \<le> CAP * i + CAP then status = - EBADCOOKIE \<and> rd_eof desc'
     else status = - EAGAIN \<and> desc_at ds (i + 1) desc')"
proof -
  let ?s = "CAP * i" and ?e = "min (CAP * i + CAP) (length ds)" and ?a = "page_of ds i"
  have se: "?s \<le> ?e" using i by auto
  have a: "ca_entries ?a = map (entry_of ds) [?s..<?e]" "ca_last_cookie ?a = before ds ?e" "ca_eof_index ?a = (if length ds \<le> ?s + CAP then int (?e - ?s) else -1)"
    by (simp_all add: page_of_def Let_def)
  have d': "df_pos d = int k" "dir_cookie d = before ds k" "k \<le> length ds" "pages_ok ds d" using d by (simp_all add: at_pos_def)
  have size: "ca_size ?a = ?e - ?s" by (simp add: a(1))
  have cur: "rd_current_index desc = int ?s" "rd_page_index desc = i" "\<not> rd_eof desc" using desc(1) by (simp_all add: desc_at_def)
  have z: "before ds k = 0 \<longleftrightarrow> k = 0" using before_inj [OF ds d'(3), of 0] by simp
  show ?thesis
  proof (cases "k = 0")
    case True
    then have i0: "i = 0" using k by simp
    have "nfs_readdir_search_array desc d = (case nfs_readdir_search_for_pos ?a desc d of (status, desc, d) \<Rightarrow>
        (status, if status = - EAGAIN then desc\<lparr>rd_last_cookie := ca_last_cookie ?a, rd_current_index := rd_current_index desc + int (ca_size ?a),
           rd_page_index := rd_page_index desc + 1\<rparr> else desc, d))"
      using True d'(2) desc(2) by (simp add: nfs_readdir_search_array_def Let_def)
    moreover have "nfs_readdir_search_for_pos ?a desc d = (if ds = [] then (- EBADCOOKIE, desc\<lparr>rd_eof := True\<rparr>, d)
        else (0, desc\<lparr>rd_cache_entry_index := 0\<rparr>, upd_ctx (\<lambda>x. x\<lparr>dc_dir_cookie := 0\<rparr>) d))"
    proof (cases "ds = []")
      case False
      then have "0 < min CAP (length ds)" by simp
      then have "ca_size ?a \<noteq> 0" "ce_cookie (ca_entries ?a ! 0) = 0" using size a(1) i0 by (simp_all add: entry_of_def)
      then show ?thesis using False True i0 d'(1) cur(1) by (simp add: nfs_readdir_search_for_pos_def Let_def)
    qed (use True i0 d'(1) cur(1) size a in \<open>simp add: nfs_readdir_search_for_pos_def Let_def\<close>)
    ultimately show ?thesis using True i0 d' desc by (auto simp: at_pos_def desc_at_def upd_ctx_def pages_ok_def)
  next
    case False
    let ?i = "find_cookie (before ds k) (ca_entries ?a)"
    have fc: "?i = (if k < ?e then k - ?s else ?e - ?s)" using find_cookie_map [OF ds d'(3) se] k by (simp add: a(1))
    have arr: "nfs_readdir_search_array desc d = (case nfs_readdir_search_for_cookie ?a desc d of (status, desc, d) \<Rightarrow>
        (status, if status = - EAGAIN then desc\<lparr>rd_last_cookie := ca_last_cookie ?a, rd_current_index := rd_current_index desc + int (ca_size ?a),
           rd_page_index := rd_page_index desc + 1\<rparr> else desc, d))"
      using False z d'(2) desc(2) by (simp add: nfs_readdir_search_array_def Let_def)
    show ?thesis
    proof (cases "k < ?e")
      case True
      have "\<exists>ctx. nfs_readdir_search_for_cookie ?a desc d = (0, desc\<lparr>rd_cache_entry_index := k - ?s\<rparr>, d\<lparr>df_ctx := ctx, df_pos := int k\<rparr>) \<and> dc_dir_cookie ctx = before ds k"
        using True k fc d' cur(1) size by (auto simp: nfs_readdir_search_for_cookie_def Let_def intro: exI [of _ "df_ctx d"])
      then show ?thesis using arr True d' desc by (auto simp: at_pos_def desc_at_def pages_ok_def)
    next
      case no: False
      show ?thesis
      proof (cases "length ds \<le> ?s + CAP")
        case True
        then have "k = length ds" "?e = length ds" using no d'(3) by simp_all
        then have "nfs_readdir_search_for_cookie ?a desc d = (- EBADCOOKIE, desc\<lparr>rd_eof := True\<rparr>, d)"
          using True fc d' size a by (simp add: nfs_readdir_search_for_cookie_def Let_def)
        then show ?thesis using arr True no d by auto
      next
        case more: False
        then have e: "?e = ?s + CAP" by simp
        then have "nfs_readdir_search_for_cookie ?a desc d = (- EAGAIN, desc, d)"
          using more no fc d' size a by (simp add: nfs_readdir_search_for_cookie_def Let_def)
        moreover have "desc_at ds (i + 1) (desc\<lparr>rd_last_cookie := ca_last_cookie ?a, rd_current_index := rd_current_index desc + int (ca_size ?a), rd_page_index := rd_page_index desc + 1\<rparr>)"
          using cur size e a by (simp add: desc_at_def algebra_simps)
        ultimately show ?thesis using arr more no d e by auto
      qed
    qed
  qed
qed

lemma search_loop_ok:
  assumes Z: "calm Z" "serves Z ds" "good_cookies ds" and "i = 0 \<or> CAP * i < length ds" "desc_at ds i desc" "at_pos ds k d" "CAP * i \<le> k" "k - CAP * i < r" and n: "length ds + 1 < n"
  shows "\<exists>desc' d' j. at_pos ds k d' \<and>
    (if k < length ds then search_loop Z n r desc d = Some (0, desc', d') \<and> CAP * j \<le> k \<and> k < CAP * j + CAP \<and> desc_at ds j desc' \<and> rd_page desc' = page_of ds j \<and>
       rd_cache_entry_index desc' = k - CAP * j
     else search_loop Z n r desc d = Some (- EBADCOOKIE, desc', d') \<and> rd_eof desc')"
  using assms(4-8)
proof (induction r arbitrary: i desc d)
  case (Suc r)
  have p: "pages_ok ds d" using Suc.prems(3) by (simp add: at_pos_def)
  obtain desc1 d1 where g: "get_cache_page Z n desc d = Some (0, desc1, d1)" "rd_page desc1 = page_of ds i" "desc_at ds i desc1" "df_pos d1 = df_pos d" "df_ctx d1 = df_ctx d" "pages_ok ds d1"
    using get_cache_page_ok [OF Z(1,2) Suc.prems(1,2) p n] by blast
  have d1: "at_pos ds k d1" using Suc.prems(3) g(4-6) by (simp add: at_pos_def)
  obtain status desc2 d2 where s: "nfs_readdir_search_array desc1 d1 = (status, desc2, d2)" "at_pos ds k d2"
    and r: "if k < length ds \<and> k < CAP * i + CAP then status = 0 \<and> desc_at ds i desc2 \<and> rd_page desc2 = page_of ds i \<and> rd_cache_entry_index desc2 = k - CAP * i
     else if length ds \<le> CAP * i + CAP then status = - EBADCOOKIE \<and> rd_eof desc2
     else status = - EAGAIN \<and> desc_at ds (i + 1) desc2"
    using search_array_ok [OF Z(3) Suc.prems(1) g(3,2) d1 Suc.prems(4)] by blast
  have step: "search_loop Z n (Suc r) desc d = (if status = - EAGAIN then search_loop Z n r desc2 d2 else Some (status, desc2, d2))"
    using g(1) s(1) by (simp add: find_cache_page_def)
  have kl: "k \<le> length ds" using Suc.prems(3) by (simp add: at_pos_def)
  consider (here) "k < length ds" "k < CAP * i + CAP" | (stop) "\<not> (k < length ds \<and> k < CAP * i + CAP)" "length ds \<le> CAP * i + CAP"
    | (more) "\<not> (k < length ds \<and> k < CAP * i + CAP)" "\<not> length ds \<le> CAP * i + CAP" by blast
  then show ?case
  proof cases
    case here
    then show ?thesis using step r s(2) Suc.prems(4) by auto
  next
    case stop
    then have "\<not> k < length ds" using kl by auto
    then show ?thesis using step r s(2) stop by auto
  next
    case more
    then have k: "CAP * i + CAP \<le> k" using kl by auto
    have rr: "k - CAP * (i + 1) < r" using Suc.prems(5) k CAP_pos(1) by (simp add: algebra_simps) (use CAP_pos(1) in linarith)
    have IH: "\<exists>desc' d' j. at_pos ds k d' \<and>
      (if k < length ds then search_loop Z n r desc2 d2 = Some (0, desc', d') \<and> CAP * j \<le> k \<and> k < CAP * j + CAP \<and> desc_at ds j desc' \<and> rd_page desc' = page_of ds j \<and>
         rd_cache_entry_index desc' = k - CAP * j
       else search_loop Z n r desc2 d2 = Some (- EBADCOOKIE, desc', d') \<and> rd_eof desc')"
      by (rule Suc.IH [of "i + 1"]) (use r more k rr s(2) in \<open>simp_all add: algebra_simps\<close>)
    have eq: "search_loop Z n (Suc r) desc d = search_loop Z n r desc2 d2" using step r more by simp
    show ?thesis unfolding eq by (rule IH)
  qed
qed simp

section \<open>Handing out\<close>

text \<open>What a caller takes of a list of entries: how many it accepted, and its buffer.\<close>

fun deliver :: "bool \<Rightarrow> 'f filldir \<Rightarrow> 'f \<Rightarrow> nat \<Rightarrow> dir_item list \<Rightarrow> nat \<times> 'f" where
  "deliver b fd f k [] = (0, f)"
| "deliver b fd f k (x # xs) =
     (case fd f (it_name x, int k, nfs_compat_user_ino64 b (it_ino x), it_type x) of (r, f) \<Rightarrow>
        if r < 0 then (0, f) else (case deliver b fd f (k + 1) xs of (m, f) \<Rightarrow> (m + 1, f)))"

lemma deliver_le: "fst (deliver b fd f k xs) \<le> length xs"
  by (induction xs arbitrary: f k) (auto split: prod.split, metis fst_conv)

lemma deliver_append:
  "deliver b fd f k (xs @ ys) = (case deliver b fd f k xs of (m, f') \<Rightarrow>
     if m = length xs then (case deliver b fd f' (k + m) ys of (m', f'') \<Rightarrow> (m + m', f'')) else (m, f'))"
  by (induction xs arbitrary: f k) (auto split: prod.split)

lemma filldir_loop_ok:
  assumes "k \<le> e" "e \<le> length ds" "df_pos d = int k" "dir_cookie d = before ds k" "pages_ok ds d"
  shows "\<exists>d'. filldir_loop b fd (before ds e) (map (entry_of ds) [k..<e]) f d =
      (fst (deliver b fd f k (take (e - k) (drop k ds))) < e - k, snd (deliver b fd f k (take (e - k) (drop k ds))), d') \<and>
    at_pos ds (k + fst (deliver b fd f k (take (e - k) (drop k ds)))) d'"
  using assms
proof (induction "e - k" arbitrary: k f d)
  case 0
  then show ?case by (auto simp: at_pos_def)
next
  case (Suc n)
  then have k: "k < e" "[k..<e] = k # [Suc k..<e]" "n = e - Suc k" by (simp_all add: upt_conv_Cons)
  have items: "take (e - k) (drop k ds) = ds ! k # take (e - Suc k) (drop (Suc k) ds)"
    using k(1) Suc.prems(2) by (simp add: Cons_nth_drop_Suc [symmetric] Suc_diff_Suc [symmetric])
  obtain r f' where fd: "fd f (it_name (ds ! k), int k, nfs_compat_user_ino64 b (it_ino (ds ! k)), it_type (ds ! k)) = (r, f')" by fastforce
  show ?case
  proof (cases "r < 0")
    case True
    then show ?thesis using fd k Suc.prems by (auto simp: items entry_of_def at_pos_def)
  next
    case False
    let ?d = "upd_ctx (\<lambda>x. x\<lparr>dc_dir_cookie := (case map (entry_of ds) [Suc k..<e] of [] \<Rightarrow> before ds e | e # _ \<Rightarrow> ce_cookie e), dc_duped := if dc_duped x \<noteq> 0 then 1 else 0\<rparr>)
      (d\<lparr>df_pos := df_pos d + 1\<rparr>)"
    have ck: "(case map (entry_of ds) [Suc k..<e] of [] \<Rightarrow> before ds e | e # _ \<Rightarrow> ce_cookie e) = before ds (Suc k)"
      using k(1) by (cases "Suc k = e") (simp_all add: upt_conv_Cons entry_of_def)
    obtain d' where IH: "filldir_loop b fd (before ds e) (map (entry_of ds) [Suc k..<e]) f' ?d =
        (fst (deliver b fd f' (Suc k) (take (e - Suc k) (drop (Suc k) ds))) < e - Suc k, snd (deliver b fd f' (Suc k) (take (e - Suc k) (drop (Suc k) ds))), d')"
      "at_pos ds (Suc k + fst (deliver b fd f' (Suc k) (take (e - Suc k) (drop (Suc k) ds)))) d'"
      using Suc.hyps(1) [OF k(3), of ?d f'] Suc.prems k(1) ck by (auto simp: upd_ctx_def pages_ok_def)
    have "filldir_loop b fd (before ds e) (map (entry_of ds) [k..<e]) f d = filldir_loop b fd (before ds e) (map (entry_of ds) [Suc k..<e]) f' ?d"
      using fd False Suc.prems(3) by (simp add: k(2) entry_of_def)
    then show ?thesis using IH fd False k(1) by (auto simp: items split: prod.split)
  qed
qed

lemma page_of_entries:
  assumes "CAP * j \<le> k" "k < CAP * j + CAP"
  shows "drop (k - CAP * j) (ca_entries (page_of ds j)) = map (entry_of ds) [k..<min (CAP * j + CAP) (length ds)]"
  using assms by (simp add: page_of_def Let_def drop_map)

lemma do_filldir_ok:
  fixes b :: bool and fd :: "'f filldir" and f :: 'f
  assumes d: "at_pos ds k d" "k < length ds" and j: "CAP * j \<le> k" "k < CAP * j + CAP" and desc: "desc_at ds j desc" "rd_page desc = page_of ds j" "rd_cache_entry_index desc = k - CAP * j"
  defines "e \<equiv> min (CAP * j + CAP) (length ds)"
  defines "m \<equiv> fst (deliver b fd f k (take (e - k) (drop k ds)))" and "f' \<equiv> snd (deliver b fd f k (take (e - k) (drop k ds)))"
  shows "\<exists>desc' d'. nfs_do_filldir b fd desc f d = (desc', f', d') \<and> at_pos ds (k + m) d' \<and>
    (if m < e - k \<or> e = length ds then rd_eof desc' else desc_at ds j desc')"
proof -
  have ke: "k \<le> e" "e \<le> length ds" using d(2) j by (simp_all add: e_def)
  have last: "ca_last_cookie (page_of ds j) = before ds e" "ca_eof_index (page_of ds j) \<ge> 0 \<longleftrightarrow> e = length ds"
    by (simp_all add: page_of_def Let_def e_def min_def)
  obtain d' where l: "filldir_loop b fd (before ds e) (map (entry_of ds) [k..<e]) f d = (m < e - k, f', d')" "at_pos ds (k + m) d'"
    using filldir_loop_ok [OF ke, of d b fd f] d(1) unfolding m_def f'_def at_pos_def by blast
  then show ?thesis using desc last page_of_entries [OF j, of ds] unfolding e_def [symmetric]
    by (auto simp: nfs_do_filldir_def Let_def desc_at_def)
qed

lemma readdir_loop_ok:
  assumes Z: "calm Z" "serves Z ds" "good_cookies ds" and n: "length ds + 1 < n"
    and "i = 0 \<or> CAP * i < length ds" "desc_at ds i desc" "at_pos ds k d" "CAP * i \<le> k" "length ds - k < r"
  shows "\<exists>d'. readdir_loop Z n r fd desc f d = Some (0, snd (deliver (enable_ino64 Z) fd f k (drop k ds)), d') \<and>
    at_pos ds (k + fst (deliver (enable_ino64 Z) fd f k (drop k ds))) d'"
  using assms(5-)
proof (induction r arbitrary: i desc k f d)
  case (Suc r)
  let ?desc = "if rd_page_index desc = 0 then desc\<lparr>rd_current_index := 0, rd_last_cookie := 0\<rparr> else desc"
  have kl: "k \<le> length ds" using Suc.prems(3) by (simp add: at_pos_def)
  have "desc_at ds i ?desc" using Suc.prems(2) by (auto simp: desc_at_def)
  moreover have "k - CAP * i < n" using kl n by simp
  ultimately obtain desc1 d1 j where d1: "at_pos ds k d1" and s: "if k < length ds then readdir_search_pagecache Z n desc d = Some (0, desc1, d1) \<and> CAP * j \<le> k \<and> k < CAP * j + CAP \<and>
       desc_at ds j desc1 \<and> rd_page desc1 = page_of ds j \<and> rd_cache_entry_index desc1 = k - CAP * j
     else readdir_search_pagecache Z n desc d = Some (- EBADCOOKIE, desc1, d1) \<and> rd_eof desc1"
    using search_loop_ok [OF Z Suc.prems(1) _ Suc.prems(3,4) _ n, of ?desc n] unfolding readdir_search_pagecache_def by blast
  show ?case
  proof (cases "k < length ds")
    case False
    then have "readdir_loop Z n (Suc r) fd desc f d = Some (0, f, d1)" "drop k ds = []" using s kl by simp_all
    then show ?thesis using d1 by simp
  next
    case True
    then have s: "readdir_search_pagecache Z n desc d = Some (0, desc1, d1)" "CAP * j \<le> k" "k < CAP * j + CAP" "desc_at ds j desc1" "rd_page desc1 = page_of ds j"
      "rd_cache_entry_index desc1 = k - CAP * j" using s by simp_all
    define e where "e = min (CAP * j + CAP) (length ds)"
    obtain m f1 where m: "deliver (enable_ino64 Z) fd f k (take (e - k) (drop k ds)) = (m, f1)" by fastforce
    obtain desc2 d2 where fd: "nfs_do_filldir (enable_ino64 Z) fd desc1 f d1 = (desc2, f1, d2)" "at_pos ds (k + m) d2"
      "if m < e - k \<or> e = length ds then rd_eof desc2 else desc_at ds j desc2"
      using do_filldir_ok [OF d1 True s(2-6), of "enable_ino64 Z" fd f] m unfolding e_def by auto
    have step: "readdir_loop Z n (Suc r) fd desc f d = (if rd_eof desc2 then Some (0, f1, d2) else readdir_loop Z n r fd desc2 f1 d2)"
      using s(1) fd(1) by simp
    have ke: "k < e" "e \<le> length ds" using True s(2,3) by (simp_all add: e_def)
    have m_le: "m \<le> e - k" using deliver_le [of "enable_ino64 Z" fd f k "take (e - k) (drop k ds)"] m ke by simp
    have split: "deliver (enable_ino64 Z) fd f k (drop k ds) =
        (if m = e - k then (case deliver (enable_ino64 Z) fd f1 e (drop e ds) of (m', f'') \<Rightarrow> (m + m', f'')) else (m, f1))"
      using deliver_append [of "enable_ino64 Z" fd f k "take (e - k) (drop k ds)" "drop e ds"] m ke append_take_drop_id [of "e - k" "drop k ds"] by (simp add: min_absorb2)
    show ?thesis
    proof (cases "m < e - k \<or> e = length ds")
      case True
      then show ?thesis using step fd split m_le by (auto split: prod.split)
    next
      case False
      then have me: "m = e - k" "e < length ds" using m_le ke(2) by simp_all
      then have ej: "e = CAP * j + CAP" by (simp add: e_def min_def split: if_splits)
      have "\<exists>d'. readdir_loop Z n r fd desc2 f1 d2 = Some (0, snd (deliver (enable_ino64 Z) fd f1 e (drop e ds)), d') \<and>
          at_pos ds (e + fst (deliver (enable_ino64 Z) fd f1 e (drop e ds))) d'"
        by (rule Suc.IH [of j]) (use fd False me ej ke Suc.prems(5) in auto)
      moreover have "\<not> rd_eof desc2" using fd(3) False by (simp add: desc_at_def)
      ultimately show ?thesis using step split me ke by (auto split: prod.split)
    qed
  qed
qed simp

section \<open>The system call\<close>

text \<open>The attributes of the directory are fresh, or can be fetched.\<close>

definition revalidates :: "('w, 's) dir_env \<Rightarrow> nat \<Rightarrow> 'w dir_file \<Rightarrow> bool" where
  "revalidates Z n d \<longleftrightarrow> (df_pos d = 0 \<or> nfs_dir_mapping_need_revalidate Z d \<longrightarrow> (\<exists>r d'. nfs_revalidate_mapping Z n d = Some (r, d') \<and> 0 \<le> r \<and> keeps d d'))"

lemma nfs_readdir_ok:
  assumes Z: "calm Z" "serves Z ds" "good_cookies ds" and n: "length ds + 1 < n" and d: "at_pos ds k d" and r: "revalidates Z n (snd (nfs_use_readdirplus d))"
  shows "\<exists>d'. nfs_readdir Z n fd f d = Some (0, snd (deliver (enable_ino64 Z) fd f k (drop k ds)), d') \<and>
    at_pos ds (k + fst (deliver (enable_ino64 Z) fd f k (drop k ds))) d'"
proof -
  obtain rdplus d1 where d1: "nfs_use_readdirplus d = (rdplus, d1)" by fastforce
  have k1: "keeps d d1" using d1 by (auto simp: nfs_use_readdirplus_def split: if_splits)
  let ?c = "df_pos d1 = 0 \<or> nfs_dir_mapping_need_revalidate Z d1"
  obtain res d2 where d2: "(if ?c then nfs_revalidate_mapping Z n d1 else Some (0, d1)) = Some (res, d2)" "0 \<le> res" "keeps d1 d2"
    using r d1 by (cases ?c) (auto simp: revalidates_def)
  have k2: "keeps d d2" using k1 d2(3) by (rule keeps_trans)
  have "pages_ok ds d2" by (rule keeps_pages [OF k2]) (use d in \<open>simp add: at_pos_def\<close>)
  then have a2: "at_pos ds k d2" using d k2 by (simp add: at_pos_def keeps_def)
  let ?desc = "\<lparr>rd_page = \<lparr>ca_entries = [], ca_eof_index = 0, ca_last_cookie = 0\<rparr>, rd_page_index = 0, rd_last_cookie = 0, rd_current_index = 0, rd_timestamp = 0,
      rd_gencount = 0, rd_cache_entry_index = 0, rd_plus = rdplus, rd_eof = False\<rparr>"
  have desc: "desc_at ds 0 ?desc" and fuel: "length ds - k < n" using n by (simp_all add: desc_at_def)
  obtain d' where l: "readdir_loop Z n n fd ?desc f d2 = Some (0, snd (deliver (enable_ino64 Z) fd f k (drop k ds)), d')"
    "at_pos ds (k + fst (deliver (enable_ino64 Z) fd f k (drop k ds))) d'"
    using readdir_loop_ok [OF Z n _ desc a2 _ fuel, of fd f] by auto
  have "nfs_readdir Z n fd f d = map_option (\<lambda>(res, f, d). (if res > 0 then 0 else res, f, d)) (readdir_loop Z n n fd ?desc f d2)"
    using d1 d2 unfolding nfs_readdir_def by (simp add: Let_def)
  then show ?thesis using l by simp
qed

end
