(* ===== verification/Nfs_Dir_Properties.thy ===== *)
theory Nfs_Dir_Properties
  imports Nfs_Access_Correct Nfs_Readdir_Correct Vfs_Sample
begin

text \<open>
  The properties of the access cache and of directory reading, with a small concrete cache, tree and directory at which their hypotheses hold.
\<close>

section \<open>Samples\<close>

text \<open>A tree that is rebuilt as a list when a node is taken out.\<close>

fun right_spine :: "access_entry list \<Rightarrow> access_entry tree" where
  "right_spine [] = Leaf"
| "right_spine (e # es) = Node Leaf e (right_spine es)"

lemma inorder_right_spine [simp]: "inorder (right_spine es) = es"
  by (induction es) simp_all

definition sample_rb :: rb_env where
  "sample_rb = \<lparr>rb_insert_color = (\<lambda>e t. t), rb_erase = (\<lambda>e t. right_spine (remove1 e (inorder t)))\<rparr>"

lemma sample_rb_law: "rb_law sample_rb"
  by (simp add: rb_law_def sample_rb_def)

definition sample_access :: access_state where
  "sample_access = \<lparr>as_inodes = (\<lambda>i. \<lparr>ai_inode = sample_inode, ai_tree = Leaf, ai_entry_lru = [], ai_lru_set = False\<rparr>), as_lru = [], as_nr = 0, as_creds = (\<lambda>c. 1), as_now = 50\<rparr>"

definition sample_rights :: "nat \<Rightarrow> u32 \<Rightarrow> access_entry" where
  "sample_rights c m = \<lparr>ae_jiffies = 50, ae_cred = c, ae_mask = m\<rparr>"

lemma sample_empty_cache: "empty_cache sample_access"
  by (simp add: empty_cache_def sample_access_def)

lemma sample_access_step:
  "(acc_step H sample_rb)\<^sup>*\<^sup>* ({}, sample_access) ({(4, sample_rights 2 5)}, nfs_access_add_cache sample_rb True 4 (sample_rights 2 5) sample_access)"
  by (rule r_into_rtranclp) (rule acc_step.answered)


section \<open>The access cache\<close>

text \<open>C18: the access cache, whatever is looked up, answered, invalidated and reclaimed. From an empty cache on, an entry that the search tree of an inode gives for a credential is an
  answer of the server for this inode and this credential; trees, lists of entries and the list of inodes agree; and the number of entries and the references to every credential are
  exact, so that a credential is neither freed under an entry nor kept after it.\<close>

theorem access_cache_exact:
  assumes "empty_cache s" and "(acc_step H R)\<^sup>*\<^sup>* ({}, s) (told, t)" and "rb_law R"
  shows "(\<forall>i c e. nfs_access_search_rbtree (ai_tree (as_inodes t i)) c = Some e \<longrightarrow> (i, e) \<in> told \<and> ae_cred e = c) \<and> acc_ok t \<and>
    as_nr t = int (size (all_entries t)) \<and> (\<forall>c. as_creds t c = as_creds s c + int (count (image_mset ae_cred (all_entries t)) c))"
proof -
  have good: "acc_inv (as_creds s) t" "\<forall>i c e. cached t i c = Some e \<longrightarrow> (i, e) \<in> told" using acc_steps_good [OF assms] by (auto simp: acc_good_def)
  then show ?thesis by (auto simp: acc_inv_def counts_def cached_iff cached_def [symmetric])
qed

theorem access_cache_exact_witness:
  "as_nr (nfs_access_add_cache sample_rb True 4 (sample_rights 2 5) sample_access) = int (size (all_entries (nfs_access_add_cache sample_rb True 4 (sample_rights 2 5) sample_access)))"
  using access_cache_exact [OF sample_empty_cache sample_access_step [of sample_hooks] sample_rb_law] by blast



text \<open>Adding and finding. What is added for a credential, in any state the operations reach, is what the next lookup of the credential finds, while it is fresh and the inode is
  not marked, even if there was an entry for the credential; and the lookups of other credentials and inodes do not notice.\<close>

lemma access_roundtrip:
  assumes "empty_cache s0" and "(acc_step H R)\<^sup>*\<^sup>* ({}, s0) (told, s)" and "rb_law R" and "entry_fresh H (as_inodes s i) (as_now s) e" and "\<not> access_invalid (as_inodes s i)"
  shows "fst (nfs_access_get_cached H R i (ae_cred e) (nfs_access_add_cache R True i e s)) = Some e \<and>
    ((j, c) \<noteq> (i, ae_cred e) \<longrightarrow>
      nfs_access_search_rbtree (ai_tree (as_inodes (nfs_access_add_cache R True i e s) j)) c = nfs_access_search_rbtree (ai_tree (as_inodes s j)) c)"
proof -
  have inv: "acc_inv (as_creds s0) s" using acc_steps_good [OF assms(1,2,3)] by (simp add: acc_good_def)
  show ?thesis using add_get [OF assms(3) inv assms(4,5)] add_inv(2) [OF assms(3) inv, of i e] by (auto simp: cached_def fun_eq_iff)
qed

text \<open>An answer that is lost. A lookup for an inode that is marked and has no entry does not clear the mark, because \<^verbatim>\<open>nfs_access_zap_cache\<close> does nothing for an inode that is not on
  the list. The answer that is then added is thrown away by the next lookup of any credential, so the ACCESS request is sent a second time.\<close>

lemma access_answer_lost:
  assumes "access_invalid (as_inodes s i)" and "\<not> ai_lru_set (as_inodes s i)"
  shows "nfs_access_get_cached H R i cred s = (None, s) \<and> fst (nfs_access_get_cached H R i cred (nfs_access_add_cache R True i e s)) = None"
proof -
  have "nfs_access_get_cached H R i cred s = (None, s)" using assms by (simp add: nfs_access_get_cached_def nfs_access_zap_cache_def)
  then show ?thesis using invalid_answer_lost(3) [OF assms, of H R cred e] by simp
qed

section \<open>Reading a directory\<close>

text \<open>A directory of three entries: the server sends two entries in a reply. A stream is the rest of a reply and whether it is the last one.\<close>

definition sample_items :: "dir_item list" where
  "sample_items = [\<lparr>it_cookie = 11, it_ino = 1, it_name = [0x61], it_type = 8\<rparr>, \<lparr>it_cookie = 22, it_ino = 2, it_name = [0x62], it_type = 4\<rparr>,
     \<lparr>it_cookie = 33, it_ino = 3, it_name = [0x63], it_type = 8\<rparr>]"

definition sample_behind :: "u64 \<Rightarrow> dir_item list" where
  "sample_behind cookie = (if cookie = 0 then sample_items else drop 1 (dropWhile (\<lambda>x. it_cookie x \<noteq> cookie) sample_items))"

definition sample_dirent :: "dir_item list \<times> bool \<Rightarrow> nfs_entry \<Rightarrow> bool \<Rightarrow> int \<times> nfs_entry \<times> dir_item list \<times> bool" where
  "sample_dirent str e p =
     (case fst str of
        [] \<Rightarrow> if snd str then (- EBADCOOKIE, e\<lparr>ent_eof := True\<rparr>, str) else (- EAGAIN, e, str)
      | x # xs \<Rightarrow> (0, e\<lparr>ent_prev_cookie := ent_cookie e, ent_cookie := it_cookie x, ent_ino := it_ino x, ent_name := it_name x, ent_d_type := it_type x\<rparr>, xs, snd str))"

definition sample_dcache :: "unit dcache_env" where
  "sample_dcache = \<lparr>pd_lookup = (\<lambda>x d. (None, d)), pd_fsid = (\<lambda>d. (1, 0)), pd_fh = (\<lambda>x d. None), pd_set_verifier = (\<lambda>x d. d), pd_refresh = (\<lambda>x a d. (0, d)),
     pd_setsecurity = (\<lambda>x a l d. d), pd_invalidate = (\<lambda>x d. (0, d)), pd_dput = (\<lambda>x d. d), pd_alloc = (\<lambda>x d. (None, d)), pd_fhget = (\<lambda>x a l d. (Inl (-12), d)),
     pd_materialise = (\<lambda>x y d. (Inl (-12), d))\<rparr>"

definition sample_dir_env :: "(unit, dir_item list \<times> bool) dir_env" where
  "sample_dir_env = \<lparr>dir_hooks = sample_hooks\<lparr>nfs_have_delegated_attributes := \<lambda>i. True\<rparr>, dir_dcache = sample_dcache, dir_alloc = (\<lambda>d. (True, d)),
     dir_server = sample_server, dir_fattr = empty_fattr, enable_ino64 = True, dir_getattr = (\<lambda>fh. (0, empty_fattr, None)), wait_invalidating = (\<lambda>d. (0, d)),
     invalidate_pages = (\<lambda>k d. (0, d)),
     proto_readdir = (\<lambda>cookie p d. ((1, take 2 (sample_behind cookie), length (sample_behind cookie) \<le> 2), d)), decode_dirent = sample_dirent\<rparr>"

definition sample_dir_file :: "unit dir_file" where
  "sample_dir_file = \<lparr>df_pos = 0, df_ctx = open_dir_context 0, df_pages = Map.empty, df_inode = sample_state, df_advise_plus = False, df_cap_plus = True,
     df_invalidating = False, df_world = ()\<rparr>"

text \<open>A buffer with room for two names.\<close>

definition sample_filldir :: "bytes list \<Rightarrow> bytes \<times> int \<times> u64 \<times> u32 \<Rightarrow> int \<times> bytes list" where
  "sample_filldir f x = (if length f < 2 then (0, f @ [fst x]) else (-1, f))"

lemma sample_dir_calm: "calm sample_dir_env"
  by (simp add: calm_def dcache_calm_def sample_dir_env_def sample_dcache_def)

lemma sample_stands: "stands sample_dir_env p (xs, eof) xs eof"
proof (induction xs)
  case Nil
  have "ent_eof (e\<lparr>ent_eof := True\<rparr>)" for e :: nfs_entry by simp
  then show ?case by (auto simp: sample_dir_env_def sample_dirent_def)
qed (simp add: sample_dir_env_def sample_dirent_def)

lemma sample_behind_before: "g \<le> 3 \<Longrightarrow> sample_behind (before sample_items g) = drop g sample_items"
proof -
  assume "g \<le> 3"
  then have "g = 0 \<or> g = 1 \<or> g = 2 \<or> g = 3" by linarith
  then show ?thesis by (elim disjE) (simp_all add: before_def sample_behind_def sample_items_def)
qed

lemma sample_serves: "serves sample_dir_env sample_items"
  unfolding serves_def
proof (intro allI impI)
  fix g p and d :: "unit dir_file"
  assume "g \<le> length sample_items"
  then have g: "g \<le> 3" by (simp add: sample_items_def)
  let ?b = "drop g sample_items" and ?m = "min 2 (3 - g)"
  have take: "take 2 ?b = take ?m ?b" and l: "length sample_items = 3" by (simp_all add: min_def sample_items_def)
  have "proto_readdir sample_dir_env (before sample_items g) p d = ((1, take ?m ?b, length ?b \<le> 2), d)"
    unfolding take [symmetric] by (simp add: sample_dir_env_def sample_behind_before [OF g])
  moreover have "stands sample_dir_env p (take ?m ?b, length ?b \<le> 2) (take ?m ?b) (length ?b \<le> 2)" by (rule sample_stands)
  ultimately show "\<exists>len str d' m eof. proto_readdir sample_dir_env (before sample_items g) p d = ((len, str), d') \<and> 0 < len \<and> keeps d d' \<and> g + m \<le> length sample_items \<and>
        (eof \<longrightarrow> g + m = length sample_items) \<and> (\<not> eof \<longrightarrow> 0 < m) \<and> stands sample_dir_env p str (take m (drop g sample_items)) eof"
    using g l by (intro exI [of _ 1] exI [of _ "(take ?m ?b, length ?b \<le> 2)"] exI [of _ d] exI [of _ ?m] exI [of _ "length ?b \<le> 2"]) auto
qed

text \<open>C17: reading a directory that does not change. Whatever part of the directory the server puts into each reply, whether READDIRPLUS is used or not, whatever pages of it are cached and
  however many entries the caller's buffer takes, \<^verbatim>\<open>nfs_readdir\<close> returns 0 and hands out the entries behind the caller's position in order, each of them once with its
  position and its number, until there are no more or the caller's \<^verbatim>\<open>filldir\<close> refuses one; position and cookie then stand at the first entry that was not taken, so that the next
  call goes on there. It needs no more than two rounds of a loop more than the directory has entries.\<close>

theorem readdir_in_order:
  assumes "calm Z" "serves Z ds" "good_cookies ds" and "length ds + 1 < n" and "at_pos ds k d" and "revalidates Z n (snd (nfs_use_readdirplus d))"
  shows "\<exists>d'. nfs_readdir Z n fd f d = Some (0, snd (deliver (enable_ino64 Z) fd f k (drop k ds)), d') \<and>
    at_pos ds (k + fst (deliver (enable_ino64 Z) fd f k (drop k ds))) d'"
  using assms by (rule nfs_readdir_ok)

theorem readdir_in_order_witness:
  "\<exists>d'. nfs_readdir sample_dir_env 5 sample_filldir [] sample_dir_file = Some (0, [[0x61], [0x62]], d') \<and> df_pos d' = 2 \<and> dir_cookie d' = 22"
proof -
  have good: "good_cookies sample_items" and n: "length sample_items + 1 < 5" by (simp_all add: good_cookies_def sample_items_def)
  have d: "at_pos sample_items 0 sample_dir_file" by (simp add: at_pos_def sample_dir_file_def open_dir_context_def pages_ok_def)
  have u: "snd (nfs_use_readdirplus sample_dir_file) = sample_dir_file" by (simp add: nfs_use_readdirplus_def sample_dir_file_def)
  have "nfs_revalidate_mapping sample_dir_env 5 sample_dir_file = Some (0, sample_dir_file)"
    by (simp add: nfs_revalidate_mapping_def nfs_mapping_need_revalidate_inode_def sample_dir_env_def sample_dir_file_def sample_state_def sample_inode_def
        sample_hooks_def eval_nat_numeral)
  then have r: "revalidates sample_dir_env 5 (snd (nfs_use_readdirplus sample_dir_file))" by (simp add: u revalidates_def)
  have del: "deliver (enable_ino64 sample_dir_env) sample_filldir [] 0 (drop 0 sample_items) = (2, [[0x61], [0x62]])"
    by (simp add: sample_items_def sample_filldir_def)
  show ?thesis using readdir_in_order [OF sample_dir_calm sample_serves good n d r, of sample_filldir "[]", unfolded del]
    by (auto simp: at_pos_def before_def sample_items_def)
qed

end
