(* ===== verification/Nfs_Lookup.thy ===== *)
theory Nfs_Lookup
  imports Nfs_Access Namei_Walk
begin

text \<open>
  Names, the middle of \<^verbatim>\<open>fs/nfs/dir.c\<close>: looking up one name, deciding whether a dentry can still be trusted, opening, and the operations that change a directory.

  Dentries and inodes are numbers of the state \<open>'w ns\<close>. The dentry cache of the VFS, the procedures of the protocol version and what belongs to other files (silly renames, open
  contexts, delegations) are the parameter \<open>'w ns_env\<close>: they may change the whole state, since other tasks run while they wait. Locks that keep silly renames out, tracing and
  statistics do not appear.
\<close>

section \<open>State\<close>

text \<open>Of \<^verbatim>\<open>struct dentry\<close>: \<open>dn_time\<close> is the verifier \<^verbatim>\<open>d_time\<close>, \<open>dn_renamed\<close> the flag \<^verbatim>\<open>DCACHE_NFSFS_RENAMED\<close>. A root is its own parent.\<close>

record dnode =
  dn_name :: bytes
  dn_parent :: nat
  dn_inode :: "nat option"
  dn_time :: u64
  dn_hashed :: bool
  dn_count :: int
  dn_renamed :: bool

record 'w ns =
  ns_dentries :: "nat \<Rightarrow> dnode"
  ns_inodes :: "nat \<Rightarrow> nfs_inode"
  ns_advise :: "nat \<Rightarrow> bool"
  ns_super :: nfs_sb
  ns_generation :: u64
  ns_now :: u64
  ns_world :: 'w

record 'w ns_env =
  ns_hooks :: inode_hooks
  lookup_cache_none :: bool
  lookup_cache_noneg :: bool
  mount_nocto :: bool
  ms_active :: bool
  ns_namelen :: nat
  proto_version :: nat
  lk_alloc :: "'w ns \<Rightarrow> bool \<times> 'w ns"
  lk_label :: "'w ns \<Rightarrow> int \<times> 'w ns"
  lk_iget :: "'w ns \<Rightarrow> u64 \<Rightarrow> (nfs_inode \<Rightarrow> bool) \<Rightarrow> (nfs_inode \<Rightarrow> nfs_inode) \<Rightarrow> (nat \<times> bool) option \<times> 'w ns"
  lk_dget :: "nat \<Rightarrow> 'w ns \<Rightarrow> 'w ns"
  lk_dput :: "nat \<Rightarrow> 'w ns \<Rightarrow> 'w ns"
  lk_drop :: "nat \<Rightarrow> 'w ns \<Rightarrow> 'w ns"
  lk_rehash :: "nat \<Rightarrow> 'w ns \<Rightarrow> 'w ns"
  lk_instantiate :: "nat \<Rightarrow> nat option \<Rightarrow> 'w ns \<Rightarrow> 'w ns"
  lk_add :: "nat \<Rightarrow> nat option \<Rightarrow> 'w ns \<Rightarrow> 'w ns"
  lk_delete :: "nat \<Rightarrow> 'w ns \<Rightarrow> 'w ns"
  lk_move :: "nat \<Rightarrow> nat \<Rightarrow> 'w ns \<Rightarrow> 'w ns"
  lk_d_alloc :: "nat \<Rightarrow> bytes \<Rightarrow> 'w ns \<Rightarrow> nat option \<times> 'w ns"
  lk_materialise :: "nat \<Rightarrow> nat option \<Rightarrow> 'w ns \<Rightarrow> (int + nat option) \<times> 'w ns"
  lk_submounts_drop :: "nat \<Rightarrow> 'w ns \<Rightarrow> int \<times> 'w ns"
  lk_iput :: "nat \<Rightarrow> 'w ns \<Rightarrow> 'w ns"
  lk_ihold :: "nat \<Rightarrow> 'w ns \<Rightarrow> 'w ns"
  lk_sillyrename :: "nat \<Rightarrow> nat \<Rightarrow> 'w ns \<Rightarrow> int \<times> 'w ns"
  lk_complete_unlink :: "nat \<Rightarrow> nat \<Rightarrow> 'w ns \<Rightarrow> 'w ns"
  lk_writeback :: "nat \<Rightarrow> 'w ns \<Rightarrow> 'w ns"
  lk_check_flags :: "u32 \<Rightarrow> int"
  lk_umask :: u16
  lk_valid_dev :: "u32 \<Rightarrow> bool"
  lk_finish_open :: "nat \<Rightarrow> u32 \<Rightarrow> 'w ns \<Rightarrow> int \<times> 'w ns"
  lk_finish_no_open :: "nat option \<Rightarrow> 'w ns \<Rightarrow> int \<times> 'w ns"
  lk_add_page :: "nat \<Rightarrow> bytes \<Rightarrow> 'w ns \<Rightarrow> 'w ns"
  np_lookup :: "nat \<Rightarrow> bytes \<Rightarrow> 'w ns \<Rightarrow> (int \<times> nfs_fh \<times> nfs_fattr \<times> nfs4_label option) \<times> 'w ns"
  np_getattr :: "nfs_fh \<Rightarrow> int \<times> nfs_fattr \<times> nfs4_label option"
  np_open_context :: "nat \<Rightarrow> nat \<Rightarrow> u32 \<Rightarrow> u32 \<Rightarrow> iattr \<Rightarrow> u32 \<Rightarrow> 'w ns \<Rightarrow> ((int + nat) \<times> u32) \<times> 'w ns"
  np_create :: "nat \<Rightarrow> nat \<Rightarrow> iattr \<Rightarrow> u32 \<Rightarrow> 'w ns \<Rightarrow> int \<times> 'w ns"
  np_mknod :: "nat \<Rightarrow> nat \<Rightarrow> iattr \<Rightarrow> u32 \<Rightarrow> 'w ns \<Rightarrow> int \<times> 'w ns"
  np_mkdir :: "nat \<Rightarrow> nat \<Rightarrow> iattr \<Rightarrow> 'w ns \<Rightarrow> int \<times> 'w ns"
  np_rmdir :: "nat \<Rightarrow> bytes \<Rightarrow> 'w ns \<Rightarrow> int \<times> 'w ns"
  np_remove :: "nat \<Rightarrow> bytes \<Rightarrow> 'w ns \<Rightarrow> int \<times> 'w ns"
  np_symlink :: "nat \<Rightarrow> nat \<Rightarrow> bytes \<Rightarrow> iattr \<Rightarrow> 'w ns \<Rightarrow> int \<times> 'w ns"
  np_link :: "nat \<Rightarrow> nat \<Rightarrow> bytes \<Rightarrow> 'w ns \<Rightarrow> int \<times> 'w ns"
  np_rename :: "nat \<Rightarrow> nat \<Rightarrow> nat \<Rightarrow> nat \<Rightarrow> 'w ns \<Rightarrow> (int + int \<times> int) \<times> 'w ns"
  np_return_delegation :: "nat \<Rightarrow> 'w ns \<Rightarrow> 'w ns"

text \<open>Faults: using a parent without inode, freeing a label that is an error pointer.\<close>

datatype ns_fault = NO_DIRECTORY | LABEL_ERROR_POINTER

type_synonym ('w, 'a) ns_result = "ns_fault + 'a \<times> 'w ns"

abbreviation (input) LOOKUP_EXCL :: u32 where "LOOKUP_EXCL \<equiv> 0x400"
abbreviation (input) O_EXCL :: u32 where "O_EXCL \<equiv> 0x80"
abbreviation (input) O_TRUNC :: u32 where "O_TRUNC \<equiv> 0x200"
abbreviation (input) O_DIRECTORY :: u32 where "O_DIRECTORY \<equiv> 0x10000"
abbreviation (input) O_NOFOLLOW :: u32 where "O_NOFOLLOW \<equiv> 0x20000"
abbreviation (input) ATTR_OPEN :: u32 where "ATTR_OPEN \<equiv> 0x8000"
abbreviation (input) FILE_CREATED :: u32 where "FILE_CREATED \<equiv> 1"

definition upd_dn :: "nat \<Rightarrow> (dnode \<Rightarrow> dnode) \<Rightarrow> 'w ns \<Rightarrow> 'w ns" where
  "upd_dn d f s = s\<lparr>ns_dentries := (ns_dentries s)(d := f (ns_dentries s d))\<rparr>"

definition upd_ino :: "nat \<Rightarrow> (nfs_inode \<Rightarrow> nfs_inode) \<Rightarrow> 'w ns \<Rightarrow> 'w ns" where
  "upd_ino i f s = s\<lparr>ns_inodes := (ns_inodes s)(i := f (ns_inodes s i))\<rparr>"

text \<open>Running an operation of the attribute cache on one inode.\<close>

definition on_inode :: "nat \<Rightarrow> (inode_state \<Rightarrow> int \<times> inode_state) \<Rightarrow> 'w ns \<Rightarrow> int \<times> 'w ns" where
  "on_inode i f s =
     (case f \<lparr>the_inode = ns_inodes s i, the_sb = ns_super s, generation = ns_generation s, now = ns_now s\<rparr> of
        (r, x) \<Rightarrow> (r, s\<lparr>ns_inodes := (ns_inodes s)(i := the_inode x), ns_super := the_sb x, ns_generation := generation x\<rparr>))"

definition ns_icache :: "'w ns_env \<Rightarrow> 'w ns icache" where
  "ns_icache E = \<lparr>iget5_locked = lk_iget E, ic_inode = ns_inodes, ic_set_inode = (\<lambda>s i x. s\<lparr>ns_inodes := (ns_inodes s)(i := x)\<rparr>), ic_sb = ns_super,
     ic_set_sb = (\<lambda>s x. s\<lparr>ns_super := x\<rparr>), ic_generation = ns_generation, ic_set_generation = (\<lambda>s x. s\<lparr>ns_generation := x\<rparr>), ic_jiffies = ns_now\<rparr>"

abbreviation (input) inode_of :: "'w ns \<Rightarrow> nat \<Rightarrow> nat option" where
  "inode_of s d \<equiv> dn_inode (ns_dentries s d)"

abbreviation (input) IS_ROOT :: "'w ns \<Rightarrow> nat \<Rightarrow> bool" where
  "IS_ROOT s d \<equiv> dn_parent (ns_dentries s d) = d"

definition zap_dir :: "'w ns_env \<Rightarrow> nat \<Rightarrow> 'w ns \<Rightarrow> 'w ns" where
  "zap_dir E i s = upd_ino i (nfs_zap_caches_locked (ns_hooks E) (ns_super s) (ns_now s)) s"

section \<open>Verifiers\<close>

definition nfs_set_verifier :: "nat \<Rightarrow> u64 \<Rightarrow> 'w ns \<Rightarrow> 'w ns" where
  "nfs_set_verifier d verf = upd_dn d (\<lambda>x. x\<lparr>dn_time := verf\<rparr>)"

definition nfs_save_change_attribute :: "nat \<Rightarrow> 'w ns \<Rightarrow> u64" where
  "nfs_save_change_attribute dir s = cache_change_attribute (ns_inodes s dir)"

definition nfs_verify_change_attribute :: "nat \<Rightarrow> u64 \<Rightarrow> 'w ns \<Rightarrow> bool" where
  "nfs_verify_change_attribute dir chattr s \<longleftrightarrow> chattr = cache_change_attribute (ns_inodes s dir)"

definition nfs_advise_use_readdirplus :: "nat \<Rightarrow> 'w ns \<Rightarrow> 'w ns" where
  "nfs_advise_use_readdirplus dir s = s\<lparr>ns_advise := (ns_advise s)(dir := True)\<rparr>"

text \<open>\<^verbatim>\<open>__nfs_revalidate_inode\<close> with its allocations, and \<^verbatim>\<open>nfs_revalidate_inode\<close>.\<close>

definition revalidate_now :: "'w ns_env \<Rightarrow> nat \<Rightarrow> 'w ns \<Rightarrow> int \<times> 'w ns" where
  "revalidate_now E i s =
     (case lk_alloc E s of (ok, s) \<Rightarrow> case lk_label E s of (label_err, s) \<Rightarrow> on_inode i (nfs_revalidate_inode_now (ns_hooks E) ok label_err (np_getattr E)) s)"

definition revalidate_inode :: "'w ns_env \<Rightarrow> nat \<Rightarrow> 'w ns \<Rightarrow> int \<times> 'w ns" where
  "revalidate_inode E i s =
     (if \<not> nfs_need_revalidate_inode (ns_hooks E) (ns_now s) (ns_inodes s i) then (if ino_stale (ns_inodes s i) then - ESTALE else 0, s)
      else revalidate_now E i s)"

definition nfs_check_verifier :: "'w ns_env \<Rightarrow> nat \<Rightarrow> nat \<Rightarrow> bool \<Rightarrow> 'w ns \<Rightarrow> bool \<times> 'w ns" where
  "nfs_check_verifier E dir d rcu_walk s =
     (if IS_ROOT s d then (True, s)
      else if lookup_cache_none E then (False, s)
      else if \<not> nfs_verify_change_attribute dir (dn_time (ns_dentries s d)) s then (False, s)
      else case (if rcu_walk then (nfs_revalidate_inode_rcu (ns_hooks E) (ns_now s) (ns_inodes s dir), s) else revalidate_inode E dir s) of (ret, s) \<Rightarrow>
             if ret < 0 then (False, s) else (nfs_verify_change_attribute dir (dn_time (ns_dentries s d)) s, s))"

definition nfs_is_exclusive_create :: "'w ns_env \<Rightarrow> u32 \<Rightarrow> bool" where
  "nfs_is_exclusive_create E flags \<longleftrightarrow> (if proto_version E = 2 then False else flags AND LOOKUP_EXCL \<noteq> 0)"

definition nfs_lookup_verify_inode :: "'w ns_env \<Rightarrow> nat \<Rightarrow> u32 \<Rightarrow> 'w ns \<Rightarrow> int \<times> 'w ns" where
  "nfs_lookup_verify_inode E i flags s =
     (let ino = ns_inodes s i; check = (\<lambda>s. (if i_nlink (ns_inodes s i) = 0 then - ENOENT else 0, s))
      in if i_automount ino then (0, s)
         else if flags AND LOOKUP_REVAL \<noteq> 0 \<or> flags AND LOOKUP_OPEN \<noteq> 0 \<and> \<not> mount_nocto E \<and> (S_ISREG (i_mode ino) \<or> S_ISDIR (i_mode ino)) then
           if flags AND LOOKUP_RCU \<noteq> 0 then (- ECHILD, s)
           else case revalidate_now E i s of (ret, s) \<Rightarrow> if ret \<noteq> 0 then (ret, s) else check s
         else check s)"

definition nfs_neg_need_reval :: "'w ns_env \<Rightarrow> nat \<Rightarrow> nat \<Rightarrow> u32 \<Rightarrow> 'w ns \<Rightarrow> bool \<times> 'w ns" where
  "nfs_neg_need_reval E dir d flags s =
     (if flags AND LOOKUP_CREATE \<noteq> 0 then (False, s)
      else if lookup_cache_noneg E then (True, s)
      else case nfs_check_verifier E dir d (flags AND LOOKUP_RCU \<noteq> 0) s of (ok, s) \<Rightarrow> (\<not> ok, s))"

section \<open>Revalidation\<close>

text \<open>The ends of \<^verbatim>\<open>nfs_lookup_revalidate\<close>: \<^verbatim>\<open>out_valid_noent\<close>, \<^verbatim>\<open>out_valid\<close> and \<^verbatim>\<open>out_bad\<close>.\<close>

definition out_valid_noent :: "'w ns_env \<Rightarrow> nat \<Rightarrow> nat \<Rightarrow> u32 \<Rightarrow> 'w ns \<Rightarrow> int \<times> 'w ns" where
  "out_valid_noent E parent d flags s =
     (if flags AND LOOKUP_RCU \<noteq> 0 then (if parent \<noteq> dn_parent (ns_dentries s d) then - ECHILD else 1, s) else (1, lk_dput E parent s))"

definition out_valid :: "'w ns_env \<Rightarrow> nat \<Rightarrow> nat \<Rightarrow> nat \<Rightarrow> u32 \<Rightarrow> 'w ns \<Rightarrow> int \<times> 'w ns" where
  "out_valid E parent dir d flags s = out_valid_noent E parent d flags (nfs_advise_use_readdirplus dir s)"

definition out_bad :: "'w ns_env \<Rightarrow> nat \<Rightarrow> nat \<Rightarrow> nat \<Rightarrow> nat option \<Rightarrow> u32 \<Rightarrow> 'w ns \<Rightarrow> int \<times> 'w ns" where
  "out_bad E parent dir d inode flags s =
     (let s = upd_ino dir nfs_mark_for_revalidate s;
          drop = (\<lambda>s. case lk_submounts_drop E d s of (r, s) \<Rightarrow> if r \<noteq> 0 then out_valid E parent dir d flags s else (0, lk_dput E parent s))
      in case inode of
           None \<Rightarrow> drop s
         | Some i \<Rightarrow>
             if S_ISDIR (i_mode (ns_inodes s i)) then let s = zap_dir E i s in if IS_ROOT s d then out_valid E parent dir d flags s else drop s
             else drop s)"

text \<open>The server is asked. \<open>Inl\<close> is the error pointer that \<^verbatim>\<open>nfs4_label_free\<close> is given.\<close>

definition lookup_again :: "'w ns_env \<Rightarrow> nat \<Rightarrow> nat \<Rightarrow> nat \<Rightarrow> nat \<Rightarrow> u32 \<Rightarrow> 'w ns \<Rightarrow> ('w, int) ns_result" where
  "lookup_again E parent dir d i flags s =
     (case lk_alloc E s of
        (False, s) \<Rightarrow> Inr (- ENOMEM, lk_dput E parent s)
      | (True, s) \<Rightarrow>
          (case lk_label E s of (label_err, s) \<Rightarrow>
             if label_err \<noteq> 0 then Inl LABEL_ERROR_POINTER
             else case np_lookup E dir (dn_name (ns_dentries s d)) s of ((error, fh, fa, label), s) \<Rightarrow>
               if error \<noteq> 0 then Inr (out_bad E parent dir d (Some i) flags s)
               else if \<not> nfs_same_fh (ino_fh (ns_inodes s i)) fh then Inr (out_bad E parent dir d (Some i) flags s)
               else case on_inode i (nfs_refresh_inode (ns_hooks E) fa) s of (error, s) \<Rightarrow>
                 if error \<noteq> 0 then Inr (out_bad E parent dir d (Some i) flags s)
                 else let s = upd_ino i (nfs_setsecurity fa label) s
                      in Inr (out_valid E parent dir d flags (nfs_set_verifier d (nfs_save_change_attribute dir s) s))))"

definition nfs_lookup_revalidate :: "'w ns_env \<Rightarrow> nat \<Rightarrow> u32 \<Rightarrow> 'w ns \<Rightarrow> ('w, int) ns_result" where
  "nfs_lookup_revalidate E d flags s =
     (let rcu = flags AND LOOKUP_RCU \<noteq> 0; parent = dn_parent (ns_dentries s d); s = (if rcu then s else lk_dget E parent s)
      in case inode_of s parent of
           None \<Rightarrow> if rcu then Inr (- ECHILD, s) else Inl NO_DIRECTORY
         | Some dir \<Rightarrow>
             (case inode_of s d of
                None \<Rightarrow>
                  (case nfs_neg_need_reval E dir d flags s of (need, s) \<Rightarrow>
                     if need then Inr (if rcu then (- ECHILD, s) else out_bad E parent dir d None flags s)
                     else Inr (out_valid_noent E parent d flags s))
              | Some i \<Rightarrow>
                  if is_bad_inode (ns_inodes s i) then Inr (if rcu then (- ECHILD, s) else out_bad E parent dir d (Some i) flags s)
                  else if have_read_delegation (ns_hooks E) (ns_inodes s i) then
                    Inr (out_valid E parent dir d flags (nfs_set_verifier d (nfs_save_change_attribute dir s) s))
                  else case (if nfs_is_exclusive_create E flags then (False, s) else nfs_check_verifier E dir d rcu s) of (trusted, s) \<Rightarrow>
                    if trusted then
                      case nfs_lookup_verify_inode E i flags s of (error, s) \<Rightarrow>
                        if error \<noteq> 0 then Inr (if rcu then (- ECHILD, s) else out_bad E parent dir d (Some i) flags (zap_dir E dir s))
                        else Inr (out_valid E parent dir d flags s)
                    else if rcu then Inr (- ECHILD, s)
                    else if ino_stale (ns_inodes s i) then Inr (out_bad E parent dir d (Some i) flags s)
                    else lookup_again E parent dir d i flags s))"

definition nfs_weak_revalidate :: "'w ns_env \<Rightarrow> nat \<Rightarrow> 'w ns \<Rightarrow> int \<times> 'w ns" where
  "nfs_weak_revalidate E d s =
     (case inode_of s d of
        None \<Rightarrow> (1, s)
      | Some i \<Rightarrow>
          if is_bad_inode (ns_inodes s i) then (0, s)
          else case revalidate_inode E i s of (error, s) \<Rightarrow> (if error \<noteq> 0 then 0 else 1, s))"

text \<open>The version of the patch: only the age of the attributes of the inode counts.\<close>

definition nfs4_lookup_revalidate :: "'w ns_env \<Rightarrow> nat \<Rightarrow> u32 \<Rightarrow> 'w ns \<Rightarrow> ('w, int) ns_result" where
  "nfs4_lookup_revalidate E d flags s =
     (case inode_of s d of
        None \<Rightarrow>
          let rcu = flags AND LOOKUP_RCU \<noteq> 0; parent = dn_parent (ns_dentries s d); s = (if rcu then s else lk_dget E parent s)
          in (case inode_of s parent of
                None \<Rightarrow> if rcu then Inr (- ECHILD, s) else Inl NO_DIRECTORY
              | Some dir \<Rightarrow>
                  (case nfs_neg_need_reval E dir d flags s of (need, s) \<Rightarrow>
                     let ret = (if \<not> need then 1 else if rcu then - ECHILD else 0)
                     in if \<not> rcu then Inr (ret, lk_dput E parent s)
                        else if parent \<noteq> dn_parent (ns_dentries s d) then Inr (- ECHILD, s)
                        else Inr (ret, s)))
      | Some i \<Rightarrow> Inr (if nfs_need_revalidate_inode (ns_hooks E) (ns_now s) (ns_inodes s i) then 0 else 1, s))"

section \<open>Losing a dentry\<close>

definition nfs_dentry_delete :: "'w ns_env \<Rightarrow> nat \<Rightarrow> 'w ns \<Rightarrow> bool" where
  "nfs_dentry_delete E d s \<longleftrightarrow>
     (case inode_of s d of Some i \<Rightarrow> ino_stale (ns_inodes s i) | None \<Rightarrow> False) \<or> dn_renamed (ns_dentries s d) \<or> \<not> ms_active E"

definition nfs_drop_nlink :: "nat \<Rightarrow> 'w ns \<Rightarrow> 'w ns" where
  "nfs_drop_nlink i = upd_ino i (\<lambda>ino.
     let ino = (if i_nlink ino = 1 then ino\<lparr>i_nlink := 0\<rparr> else ino) in ino\<lparr>cache_validity := cache_validity ino OR NFS_INO_INVALID_ATTR\<rparr>)"

definition nfs_dentry_iput :: "'w ns_env \<Rightarrow> nat \<Rightarrow> nat \<Rightarrow> 'w ns \<Rightarrow> 'w ns" where
  "nfs_dentry_iput E d i s =
     (let s = (if S_ISDIR (i_mode (ns_inodes s i)) then upd_ino i (\<lambda>ino. ino\<lparr>cache_validity := cache_validity ino OR NFS_INO_INVALID_DATA\<rparr>) s else s);
          s = (if dn_renamed (ns_dentries s d) then nfs_drop_nlink i (lk_complete_unlink E d i s) else s)
      in lk_iput E i s)"

section \<open>Looking up\<close>

text \<open>The result is an error, \<^verbatim>\<open>NULL\<close> for the dentry itself, or another dentry.\<close>

definition lookup_finish :: "'w ns_env \<Rightarrow> nat \<Rightarrow> nat \<Rightarrow> nat option \<Rightarrow> 'w ns \<Rightarrow> (int + nat option) \<times> 'w ns" where
  "lookup_finish E dir d inode s =
     (case lk_materialise E d inode s of
        (Inl e, s) \<Rightarrow> (Inl e, s)
      | (Inr res, s) \<Rightarrow> (Inr res, nfs_set_verifier (case res of None \<Rightarrow> d | Some a \<Rightarrow> a) (nfs_save_change_attribute dir s) s))"

definition nfs_lookup :: "'w ns_env \<Rightarrow> nat \<Rightarrow> nat \<Rightarrow> u32 \<Rightarrow> 'w ns \<Rightarrow> (int + nat option) \<times> 'w ns" where
  "nfs_lookup E dir d flags s =
     (if length (dn_name (ns_dentries s d)) > ns_namelen E then (Inl (- ENAMETOOLONG), s)
      else if nfs_is_exclusive_create E flags then (Inr None, lk_instantiate E d None s)
      else case lk_alloc E s of
             (False, s) \<Rightarrow> (Inl (- ENOMEM), s)
           | (True, s) \<Rightarrow>
               (case lk_label E s of (label_err, s) \<Rightarrow>
                  if label_err \<noteq> 0 then (Inl (- ENOMEM), s)
                  else case np_lookup E dir (dn_name (ns_dentries s d)) s of ((error, fh, fa, label), s) \<Rightarrow>
                    if error = - ENOENT then lookup_finish E dir d None s
                    else if error < 0 then (Inl error, s)
                    else case nfs_fhget (ns_hooks E) (ns_icache E) fh fa label s of
                           (Inl e, fa, s) \<Rightarrow> (Inl e, s)
                         | (Inr i, fa, s) \<Rightarrow> lookup_finish E dir d (Some i) (nfs_advise_use_readdirplus dir s)))"

section \<open>Opening\<close>

definition flags_to_mode :: "u32 \<Rightarrow> u32" where
  "flags_to_mode flags = (flags AND FMODE_EXEC) OR (if flags AND 3 \<noteq> 1 then FMODE_READ else 0) OR (if flags AND 3 \<noteq> 0 then FMODE_WRITE else 0)"

text \<open>\<open>opened\<close> tells the caller what has happened.\<close>

definition nfs_finish_open :: "'w ns_env \<Rightarrow> nat \<Rightarrow> u32 \<Rightarrow> u32 \<Rightarrow> 'w ns \<Rightarrow> int \<times> u32 \<times> 'w ns" where
  "nfs_finish_open E d oflags opened s =
     (let opened = (if oflags AND (O_CREAT OR O_EXCL) = (O_CREAT OR O_EXCL) then opened OR FILE_CREATED else opened)
      in case lk_finish_open E d opened s of (err, s) \<Rightarrow> (err, opened, s))"

definition open_attr :: "'w ns_env \<Rightarrow> u32 \<Rightarrow> u16 \<Rightarrow> iattr" where
  "open_attr E oflags mode =
     \<lparr>ia_valid = ATTR_OPEN OR (if oflags AND O_CREAT \<noteq> 0 then ATTR_MODE else 0) OR (if oflags AND O_TRUNC \<noteq> 0 then ATTR_SIZE else 0),
      ia_mode = if oflags AND O_CREAT \<noteq> 0 then mode AND NOT (lk_umask E) else 0, ia_uid = 0, ia_gid = 0, ia_size = 0, ia_atime = zero_time, ia_mtime = zero_time\<rparr>"

definition no_open :: "'w ns_env \<Rightarrow> nat \<Rightarrow> nat \<Rightarrow> u32 \<Rightarrow> u32 \<Rightarrow> 'w ns \<Rightarrow> int \<times> u32 \<times> 'w ns" where
  "no_open E dir d lookup_flags opened s =
     (case nfs_lookup E dir d lookup_flags s of
        (Inl e, s) \<Rightarrow> (e, opened, s)
      | (Inr res, s) \<Rightarrow> (case lk_finish_no_open E res s of (err, s) \<Rightarrow> (err, opened, s)))"

text \<open>\<open>np_open_context\<close> gives an error, or the dentry of the open context.\<close>

definition nfs_atomic_open :: "'w ns_env \<Rightarrow> nat \<Rightarrow> nat \<Rightarrow> u32 \<Rightarrow> u16 \<Rightarrow> u32 \<Rightarrow> 'w ns \<Rightarrow> int \<times> u32 \<times> 'w ns" where
  "nfs_atomic_open E dir d oflags mode opened s =
     (if lk_check_flags E oflags \<noteq> 0 then (lk_check_flags E oflags, opened, s)
      else if oflags AND O_DIRECTORY \<noteq> 0 then
        if dn_hashed (ns_dentries s d) then (- ENOENT, opened, s) else no_open E dir d (LOOKUP_OPEN OR LOOKUP_DIRECTORY) opened s
      else if length (dn_name (ns_dentries s d)) > ns_namelen E then (- ENAMETOOLONG, opened, s)
      else case lk_alloc E s of
             (False, s) \<Rightarrow> (- ENOMEM, opened, s)
           | (True, s) \<Rightarrow>
               (case np_open_context E dir d (flags_to_mode oflags) oflags (open_attr E oflags mode) opened s of
                  ((Inr d', opened), s) \<Rightarrow> nfs_finish_open E d' oflags opened s
                | ((Inl err, opened), s) \<Rightarrow>
                    if err = - ENOENT then
                      let s = lk_add E d None (lk_drop E d s) in (err, opened, nfs_set_verifier d (nfs_save_change_attribute dir s) s)
                    else if err = - EISDIR \<or> err = - ENOTDIR \<or> err = - ELOOP \<and> oflags AND O_NOFOLLOW = 0 then no_open E dir d 0 opened s
                    else (err, opened, s)))"

section \<open>Changing directories\<close>

text \<open>Only the type and the permissions of a new object are set.\<close>

definition mode_attr :: "u16 \<Rightarrow> iattr" where
  "mode_attr mode = \<lparr>ia_valid = ATTR_MODE, ia_mode = mode, ia_uid = 0, ia_gid = 0, ia_size = 0, ia_atime = zero_time, ia_mtime = zero_time\<rparr>"

definition nfs_instantiate :: "'w ns_env \<Rightarrow> nat \<Rightarrow> nfs_fh \<Rightarrow> nfs_fattr \<Rightarrow> nfs4_label option \<Rightarrow> 'w ns \<Rightarrow> ('w, int) ns_result" where
  "nfs_instantiate E d fh fa label s =
     (let parent = dn_parent (ns_dentries s d); s = lk_dget E parent s
      in case inode_of s parent of
           None \<Rightarrow> Inl NO_DIRECTORY
         | Some dir \<Rightarrow>
             let s = lk_drop E d s; failed = (\<lambda>error s. Inr (error, lk_dput E parent (upd_ino dir nfs_mark_for_revalidate s)))
             in if inode_of s d \<noteq> None then Inr (0, lk_dput E parent s)
                else case (if fh_size fh = 0
                           then case np_lookup E dir (dn_name (ns_dentries s d)) s of ((error, fh, fa, l), s) \<Rightarrow> (error, fh, fa, s)
                           else (0, fh, fa, s)) of (error, fh, fa, s) \<Rightarrow>
                       if error \<noteq> 0 then failed error s
                       else
                         let s = nfs_set_verifier d (nfs_save_change_attribute dir s) s
                         in case (if fa_valid fa AND NFS_ATTR_FATTR = 0 then case np_getattr E fh of (error, fa, l) \<Rightarrow> (error, fa) else (0, fa)) of (error, fa) \<Rightarrow>
                              if error < 0 then failed error s
                              else case nfs_fhget (ns_hooks E) (ns_icache E) fh fa label s of
                                     (Inl e, fa, s) \<Rightarrow> failed e s
                                   | (Inr i, fa, s) \<Rightarrow> Inr (0, lk_dput E parent (lk_add E d (Some i) s)))"

text \<open>After a failure the dentry is dropped.\<close>

definition drop_failed :: "'w ns_env \<Rightarrow> nat \<Rightarrow> int \<times> 'w ns \<Rightarrow> int \<times> 'w ns" where
  "drop_failed E d = (\<lambda>(error, s). if error \<noteq> 0 then (error, lk_drop E d s) else (0, s))"

definition nfs_create :: "'w ns_env \<Rightarrow> nat \<Rightarrow> nat \<Rightarrow> u16 \<Rightarrow> bool \<Rightarrow> 'w ns \<Rightarrow> int \<times> 'w ns" where
  "nfs_create E dir d mode excl s = drop_failed E d (np_create E dir d (mode_attr mode) (if excl then O_CREAT OR O_EXCL else O_CREAT) s)"

definition nfs_mknod :: "'w ns_env \<Rightarrow> nat \<Rightarrow> nat \<Rightarrow> u16 \<Rightarrow> u32 \<Rightarrow> 'w ns \<Rightarrow> int \<times> 'w ns" where
  "nfs_mknod E dir d mode rdev s = (if \<not> lk_valid_dev E rdev then (- EINVAL, s) else drop_failed E d (np_mknod E dir d (mode_attr mode) rdev s))"

definition nfs_mkdir :: "'w ns_env \<Rightarrow> nat \<Rightarrow> nat \<Rightarrow> u16 \<Rightarrow> 'w ns \<Rightarrow> int \<times> 'w ns" where
  "nfs_mkdir E dir d mode s = drop_failed E d (np_mkdir E dir d (mode_attr (mode OR S_IFDIR)) s)"

definition nfs_dentry_handle_enoent :: "'w ns_env \<Rightarrow> nat \<Rightarrow> 'w ns \<Rightarrow> 'w ns" where
  "nfs_dentry_handle_enoent E d s = (if inode_of s d \<noteq> None \<and> dn_hashed (ns_dentries s d) then lk_delete E d s else s)"

definition nfs_rmdir :: "'w ns_env \<Rightarrow> nat \<Rightarrow> nat \<Rightarrow> 'w ns \<Rightarrow> int \<times> 'w ns" where
  "nfs_rmdir E dir d s =
     (case np_rmdir E dir (dn_name (ns_dentries s d)) s of (error, t) \<Rightarrow>
        (error,
         case inode_of s d of
           None \<Rightarrow> t
         | Some i \<Rightarrow> if error = 0 then upd_ino i (\<lambda>ino. ino\<lparr>i_nlink := 0\<rparr>) t else if error = - ENOENT then nfs_dentry_handle_enoent E d t else t))"

definition nfs_safe_remove :: "'w ns_env \<Rightarrow> nat \<Rightarrow> nat \<Rightarrow> 'w ns \<Rightarrow> int \<times> 'w ns" where
  "nfs_safe_remove E dir d s =
     (if dn_renamed (ns_dentries s d) then (0, s)
      else
        let name = dn_name (ns_dentries s d); inode = inode_of s d; s = (case inode of None \<Rightarrow> s | Some i \<Rightarrow> np_return_delegation E i s)
        in case np_remove E dir name s of (error, s) \<Rightarrow>
             let s = (case inode of Some i \<Rightarrow> if error = 0 then nfs_drop_nlink i s else s | None \<Rightarrow> s)
             in (error, if error = - ENOENT then nfs_dentry_handle_enoent E d s else s))"

definition nfs_unlink :: "'w ns_env \<Rightarrow> nat \<Rightarrow> nat \<Rightarrow> 'w ns \<Rightarrow> int \<times> 'w ns" where
  "nfs_unlink E dir d s =
     (if dn_count (ns_dentries s d) > 1 then lk_sillyrename E dir d (case inode_of s d of None \<Rightarrow> s | Some i \<Rightarrow> lk_writeback E i s)
      else
        let need_rehash = dn_hashed (ns_dentries s d); s = (if need_rehash then lk_drop E d s else s)
        in case nfs_safe_remove E dir d s of (error, s) \<Rightarrow>
             (error,
              if error = 0 \<or> error = - ENOENT then nfs_set_verifier d (nfs_save_change_attribute dir s) s
              else if need_rehash then lk_rehash E d s else s))"

text \<open>The target of a symbolic link has to fit into a page.\<close>

definition nfs_symlink :: "'w ns_env \<Rightarrow> nat \<Rightarrow> nat \<Rightarrow> bytes \<Rightarrow> 'w ns \<Rightarrow> int \<times> 'w ns" where
  "nfs_symlink E dir d symname s =
     (if length symname > 4096 then (- ENAMETOOLONG, s)
      else case lk_alloc E s of
             (False, s) \<Rightarrow> (- ENOMEM, s)
           | (True, s) \<Rightarrow>
               (case np_symlink E dir d symname (mode_attr (S_IFLNK OR 0x1FF)) s of (error, s) \<Rightarrow>
                  if error \<noteq> 0 then (error, lk_drop E d s) else (0, lk_add_page E d symname s)))"

definition nfs_link :: "'w ns_env \<Rightarrow> nat \<Rightarrow> nat \<Rightarrow> nat \<Rightarrow> 'w ns \<Rightarrow> int \<times> 'w ns" where
  "nfs_link E i dir d s =
     (let name = dn_name (ns_dentries s d); s = lk_drop E d (np_return_delegation E i s)
      in case np_link E i dir name s of (error, s) \<Rightarrow> (error, if error = 0 then lk_add E d (Some i) (lk_ihold E i s) else s))"

text \<open>\<^verbatim>\<open>nfs_rename\<close>. Making room at the target: \<open>Inl\<close> when it fails, otherwise the dentry and inode of the target, what has to be hashed again and the dentry that was made.\<close>

definition rename_target ::
  "'w ns_env \<Rightarrow> nat \<Rightarrow> nat \<Rightarrow> 'w ns \<Rightarrow> (nat option \<times> nat option + nat \<times> nat option \<times> nat option \<times> nat option) \<times> 'w ns" where
  "rename_target E new_dir new_d s =
     (let target_inode = inode_of s new_d
      in if case target_inode of None \<Rightarrow> True | Some i \<Rightarrow> S_ISDIR (i_mode (ns_inodes s i)) then (Inr (new_d, target_inode, None, None), s)
         else
           let hashed = dn_hashed (ns_dentries s new_d); s = (if hashed then lk_drop E new_d s else s); rehash = (if hashed then Some new_d else None)
           in if dn_count (ns_dentries s new_d) > 2 then
                case lk_d_alloc E (dn_parent (ns_dentries s new_d)) (dn_name (ns_dentries s new_d)) s of
                  (None, s) \<Rightarrow> (Inl (rehash, None), s)
                | (Some d, s) \<Rightarrow>
                    (case lk_sillyrename E new_dir new_d s of (err, s) \<Rightarrow>
                       if err \<noteq> 0 then (Inl (rehash, Some d), s) else (Inr (d, None, None, Some d), s))
              else (Inr (new_d, target_inode, rehash, None), s))"

definition rename_rehash :: "'w ns_env \<Rightarrow> nat option \<Rightarrow> 'w ns \<Rightarrow> 'w ns" where
  "rename_rehash E rehash s = (case rehash of None \<Rightarrow> s | Some d \<Rightarrow> lk_rehash E d s)"

definition rename_put :: "'w ns_env \<Rightarrow> nat option \<Rightarrow> 'w ns \<Rightarrow> 'w ns" where
  "rename_put E dentry s = (case dentry of None \<Rightarrow> s | Some d \<Rightarrow> lk_dput E d s)"

definition nfs_rename :: "'w ns_env \<Rightarrow> nat \<Rightarrow> nat \<Rightarrow> nat \<Rightarrow> nat \<Rightarrow> nat \<Rightarrow> 'w ns \<Rightarrow> int \<times> 'w ns" where
  "nfs_rename E old_dir old_d old_inode new_dir new_d s =
     (case rename_target E new_dir new_d s of
        (Inl (rehash, dentry), s) \<Rightarrow> (- EBUSY, rename_put E dentry (rename_rehash E rehash s))
      | (Inr (new_d, target_inode, rehash, dentry), s) \<Rightarrow>
          let s = np_return_delegation E old_inode s; s = (case target_inode of None \<Rightarrow> s | Some i \<Rightarrow> np_return_delegation E i s)
          in case np_rename E old_dir new_dir old_d new_d s of (r, s) \<Rightarrow>
               let (error, s) = (case r of Inl e \<Rightarrow> (e, s) | Inr (w, status) \<Rightarrow> (if w = 0 then status else w, upd_ino old_inode nfs_mark_for_revalidate s));
                   s = rename_rehash E rehash s;
                   s = (if error = 0 then
                          let s = (case target_inode of None \<Rightarrow> s | Some i \<Rightarrow> nfs_drop_nlink i s); s = lk_move E old_d new_d s
                          in nfs_set_verifier new_d (nfs_save_change_attribute new_dir s) s
                        else if error = - ENOENT then nfs_dentry_handle_enoent E old_d s else s)
               in (error, rename_put E dentry s))"

end
