(* ===== verification/Nfs_Lookup_Correct.thy ===== *)
theory Nfs_Lookup_Correct
  imports Nfs_Lookup
begin

text \<open>
  When a dentry is trusted, and what the operations that change a directory leave behind in the dentry cache.
\<close>

section \<open>The dentry cache\<close>

text \<open>What is assumed of \<^verbatim>\<open>fs/dcache.c\<close>.\<close>

definition names_law :: "'w ns_env \<Rightarrow> bool" where
  "names_law E \<longleftrightarrow> (\<forall>d s. lk_dget E d s = upd_dn d (\<lambda>x. x\<lparr>dn_count := dn_count x + 1\<rparr>) s) \<and> (\<forall>d s. lk_dput E d s = upd_dn d (\<lambda>x. x\<lparr>dn_count := dn_count x - 1\<rparr>) s) \<and>
     (\<forall>d s. lk_drop E d s = upd_dn d (\<lambda>x. x\<lparr>dn_hashed := False\<rparr>) s) \<and> (\<forall>d s. lk_rehash E d s = upd_dn d (\<lambda>x. x\<lparr>dn_hashed := True\<rparr>) s)"

lemma upd_dn_simps [simp]:
  "ns_dentries (upd_dn d f s) = (ns_dentries s)(d := f (ns_dentries s d))" "ns_inodes (upd_dn d f s) = ns_inodes s" "ns_super (upd_dn d f s) = ns_super s"
  "ns_generation (upd_dn d f s) = ns_generation s" "ns_now (upd_dn d f s) = ns_now s" "ns_advise (upd_dn d f s) = ns_advise s"
  by (simp_all add: upd_dn_def)

lemma upd_ino_simps [simp]:
  "ns_inodes (upd_ino i f s) = (ns_inodes s)(i := f (ns_inodes s i))" "ns_dentries (upd_ino i f s) = ns_dentries s" "ns_super (upd_ino i f s) = ns_super s"
  "ns_generation (upd_ino i f s) = ns_generation s" "ns_now (upd_ino i f s) = ns_now s"
  by (simp_all add: upd_ino_def)

lemma zap_dir_dentries [simp]: "ns_dentries (zap_dir E i s) = ns_dentries s"
  by (simp add: zap_dir_def)

lemma set_verifier_simps [simp]:
  "ns_dentries (nfs_set_verifier d v s) = (ns_dentries s)(d := (ns_dentries s d)\<lparr>dn_time := v\<rparr>)" "ns_inodes (nfs_set_verifier d v s) = ns_inodes s" "ns_now (nfs_set_verifier d v s) = ns_now s"
  by (simp_all add: nfs_set_verifier_def)

lemma advise_simps [simp]: "ns_dentries (nfs_advise_use_readdirplus i s) = ns_dentries s" "ns_inodes (nfs_advise_use_readdirplus i s) = ns_inodes s"
  "ns_now (nfs_advise_use_readdirplus i s) = ns_now s"
  by (simp_all add: nfs_advise_use_readdirplus_def)

lemma names_lawD:
  assumes "names_law E"
  shows "lk_dget E d s = upd_dn d (\<lambda>x. x\<lparr>dn_count := dn_count x + 1\<rparr>) s" "lk_dput E d s = upd_dn d (\<lambda>x. x\<lparr>dn_count := dn_count x - 1\<rparr>) s"
    "lk_drop E d s = upd_dn d (\<lambda>x. x\<lparr>dn_hashed := False\<rparr>) s" "lk_rehash E d s = upd_dn d (\<lambda>x. x\<lparr>dn_hashed := True\<rparr>) s"
  using assms by (simp_all add: names_law_def)

text \<open>Holding the parent.\<close>

lemma dget_parent [simp]:
  assumes "names_law E"
  shows "dn_parent (ns_dentries (lk_dget E p s) d) = dn_parent (ns_dentries s d)" "dn_inode (ns_dentries (lk_dget E p s) d) = dn_inode (ns_dentries s d)"
    "dn_time (ns_dentries (lk_dget E p s) d) = dn_time (ns_dentries s d)" "dn_name (ns_dentries (lk_dget E p s) d) = dn_name (ns_dentries s d)"
    "ns_inodes (lk_dget E p s) = ns_inodes s" "ns_now (lk_dget E p s) = ns_now s"
  by (simp_all add: names_lawD [OF assms])

section \<open>Trust\<close>

text \<open>The verifier of a dentry agrees with a directory whose attributes are fresh or have just been fetched.\<close>

lemma check_verifier_true:
  assumes "nfs_check_verifier E dir d rcu s = (True, t)" and "\<not> IS_ROOT s d"
  shows "dn_time (ns_dentries s d) = cache_change_attribute (ns_inodes s dir)" and "dn_time (ns_dentries t d) = cache_change_attribute (ns_inodes t dir)"
    and "\<not> nfs_need_revalidate_inode (ns_hooks E) (ns_now s) (ns_inodes s dir) \<and> \<not> ino_stale (ns_inodes s dir) \<and> t = s \<or>
      \<not> rcu \<and> (\<exists>r\<ge>0. revalidate_now E dir s = (r, t))"
proof -
  have v: "nfs_verify_change_attribute dir (dn_time (ns_dentries s d)) s" "\<not> lookup_cache_none E" using assms by (auto simp: nfs_check_verifier_def split: if_splits)
  then show "dn_time (ns_dentries s d) = cache_change_attribute (ns_inodes s dir)" by (simp add: nfs_verify_change_attribute_def)
  obtain ret u where r: "(if rcu then (nfs_revalidate_inode_rcu (ns_hooks E) (ns_now s) (ns_inodes s dir), s) else revalidate_inode E dir s) = (ret, u)" by fastforce
  have u: "0 \<le> ret" "nfs_verify_change_attribute dir (dn_time (ns_dentries u d)) u" "u = t" using assms v r by (auto simp: nfs_check_verifier_def split: if_splits)
  then show "dn_time (ns_dentries t d) = cache_change_attribute (ns_inodes t dir)" by (simp add: nfs_verify_change_attribute_def)
  show "\<not> nfs_need_revalidate_inode (ns_hooks E) (ns_now s) (ns_inodes s dir) \<and> \<not> ino_stale (ns_inodes s dir) \<and> t = s \<or> \<not> rcu \<and> (\<exists>r\<ge>0. revalidate_now E dir s = (r, t))"
    using r u by (cases rcu) (auto simp: nfs_revalidate_inode_rcu_def revalidate_inode_def nfs_need_revalidate_inode_def split: if_splits)
qed

text \<open>A dentry that has to go, and has no submounts, goes.\<close>

lemma out_bad_zero:
  assumes "\<And>u. fst (lk_submounts_drop E d u) = 0" and "\<not> IS_ROOT s d"
  shows "fst (out_bad E parent dir d inode flags s) = 0"
proof -
  have "fst (case lk_submounts_drop E d u of (r, s) \<Rightarrow> if r \<noteq> 0 then out_valid E parent dir d flags s else (0, lk_dput E parent s)) = 0" for u
    using assms(1) [of u] by (simp add: case_prod_unfold)
  then show ?thesis using assms(2) by (auto simp: out_bad_def Let_def split: option.split)
qed

lemma out_bad_not_one: "(\<And>u. fst (lk_submounts_drop E d u) = 0) \<Longrightarrow> \<not> IS_ROOT s d \<Longrightarrow> out_bad E parent dir d inode flags s \<noteq> (1, t)"
  using out_bad_zero [of E d s parent dir inode flags] by (metis fst_conv zero_neq_one)

text \<open>The environment does not move the dentry.\<close>

definition unmoved :: "'w ns_env \<Rightarrow> nat \<Rightarrow> bool" where
  "unmoved E d \<longleftrightarrow> (\<forall>s dir name. (IS_ROOT (snd (lk_alloc E s)) d \<longrightarrow> IS_ROOT s d) \<and> (IS_ROOT (snd (lk_label E s)) d \<longrightarrow> IS_ROOT s d) \<and>
     (IS_ROOT (snd (np_lookup E dir name s)) d \<longrightarrow> IS_ROOT s d))"

lemma on_inode_dentries: "on_inode i f s = (r, t) \<Longrightarrow> ns_dentries t = ns_dentries s"
  by (auto simp: on_inode_def split: prod.splits)

lemma revalidate_now_stays: "unmoved E d \<Longrightarrow> revalidate_now E i s = (r, t) \<Longrightarrow> \<not> IS_ROOT s d \<Longrightarrow> \<not> IS_ROOT t d"
  by (auto simp: revalidate_now_def split: prod.splits dest!: on_inode_dentries) (metis snd_conv unmoved_def)

lemma verify_inode_ok:
  assumes "nfs_lookup_verify_inode E i flags s = (e, t)" and "unmoved E d" and "\<not> IS_ROOT s d"
  shows "\<not> IS_ROOT t d" and "e = 0 \<Longrightarrow> i_automount (ns_inodes s i) \<or> i_nlink (ns_inodes t i) \<noteq> 0"
  using assms by (auto simp: nfs_lookup_verify_inode_def Let_def split: if_splits prod.splits dest: revalidate_now_stays)

lemma check_verifier_stays:
  "nfs_check_verifier E dir d rcu s = (b, t) \<Longrightarrow> unmoved E d \<Longrightarrow> \<not> IS_ROOT s d \<Longrightarrow> \<not> IS_ROOT t d"
  by (auto simp: nfs_check_verifier_def revalidate_inode_def split: if_splits prod.splits dest: revalidate_now_stays)

lemma lookup_again_valid:
  assumes "lookup_again E parent dir d i flags s = Inr (1, t)" and "unmoved E d" and "\<And>u. fst (lk_submounts_drop E d u) = 0" and "\<not> IS_ROOT s d"
  shows "\<exists>u v name fh fa l. np_lookup E dir name u = ((0, fh, fa, l), v) \<and> nfs_same_fh (ino_fh (ns_inodes v i)) fh \<and> fst (on_inode i (nfs_refresh_inode (ns_hooks E) fa) v) = 0 \<and>
    name = dn_name (ns_dentries u d)"
proof -
  obtain ok s1 where 1: "lk_alloc E s = (ok, s1)" by fastforce
  obtain le s2 where 2: "lk_label E s1 = (le, s2)" by fastforce
  obtain e fh fa l v where 3: "np_lookup E dir (dn_name (ns_dentries s2 d)) s2 = ((e, fh, fa, l), v)" by (metis surj_pair)
  have root: "\<not> IS_ROOT v d" using assms(2,4) 1 2 3 unfolding unmoved_def by (metis snd_conv)
  obtain e' w where 4: "on_inode i (nfs_refresh_inode (ns_hooks E) fa) v = (e', w)" by fastforce
  then have root': "\<not> IS_ROOT w d" using root on_inode_dentries by fastforce
  have ok: "ok = True" using assms(1) 1 by (cases ok) (auto simp: lookup_again_def)
  have le: "le = 0" using assms(1) 1 2 ok by (auto simp: lookup_again_def split: if_splits)
  note run = assms(1) [unfolded lookup_again_def 1 prod.case ok bool.case 2 le 3 4, simplified]
  have "e = 0" using run out_bad_not_one [OF assms(3) root] by (auto split: if_splits)
  moreover have "nfs_same_fh (ino_fh (ns_inodes v i)) fh" using run out_bad_not_one [OF assms(3) root] by (auto split: if_splits)
  moreover have "e' = 0" using run out_bad_not_one [OF assms(3) root] out_bad_not_one [OF assms(3) root'] by (auto split: if_splits)
  ultimately show ?thesis using 3 4 by (intro exI conjI) (assumption | simp)+
qed

text \<open>Why a dentry with an inode counts as valid.\<close>

lemma lookup_revalidate_valid:
  assumes law: "names_law E" "unmoved E d" and sub: "\<And>u. fst (lk_submounts_drop E d u) = 0" and d: "\<not> IS_ROOT s d" "inode_of s d = Some i"
    and dir: "inode_of s (dn_parent (ns_dentries s d)) = Some dir" and run: "nfs_lookup_revalidate E d flags s = Inr (1, t)"
  shows "have_read_delegation (ns_hooks E) (ns_inodes s i) \<or>
    (\<exists>u v. dn_time (ns_dentries u d) = cache_change_attribute (ns_inodes u dir) \<and>
       (\<not> nfs_need_revalidate_inode (ns_hooks E) (ns_now s) (ns_inodes s dir) \<and> \<not> ino_stale (ns_inodes s dir) \<and> ns_inodes u = ns_inodes s \<or> (\<exists>r\<ge>0. \<exists>w. revalidate_now E dir w = (r, u))) \<and>
       nfs_lookup_verify_inode E i flags u = (0, v) \<and> (i_automount (ns_inodes u i) \<or> i_nlink (ns_inodes v i) \<noteq> 0)) \<or>
    (\<exists>u v name fh fa l. np_lookup E dir name u = ((0, fh, fa, l), v) \<and> nfs_same_fh (ino_fh (ns_inodes v i)) fh \<and> fst (on_inode i (nfs_refresh_inode (ns_hooks E) fa) v) = 0 \<and>
       name = dn_name (ns_dentries u d))"
proof (cases "have_read_delegation (ns_hooks E) (ns_inodes s i)")
  case False
  let ?rcu = "flags AND LOOKUP_RCU \<noteq> 0" and ?p = "dn_parent (ns_dentries s d)"
  define s1 where "s1 = (if ?rcu then s else lk_dget E ?p s)"
  have s1: "dn_parent (ns_dentries s1 x) = dn_parent (ns_dentries s x)" "inode_of s1 x = inode_of s x" "ns_inodes s1 = ns_inodes s" "ns_now s1 = ns_now s" for x
    using law(1) by (simp_all add: s1_def)
  have root: "\<not> IS_ROOT s1 d" using d(1) s1(1) by simp
  note r0 = run [unfolded nfs_lookup_revalidate_def Let_def s1_def [symmetric] s1 d dir option.case]
  have nb: "\<not> is_bad_inode (ns_inodes s i)" using r0 out_bad_not_one [OF sub root] by (auto split: if_splits)
  obtain b u where u: "(if nfs_is_exclusive_create E flags then (False, s1) else nfs_check_verifier E dir d ?rcu s1) = (b, u)" by fastforce
  note r = r0 [simplified nb False if_False, unfolded u prod.case]
  show ?thesis
  proof (cases b)
    case True
    then have cv: "nfs_check_verifier E dir d ?rcu s1 = (True, u)" using u by (simp split: if_splits)
    obtain e v where v: "nfs_lookup_verify_inode E i flags u = (e, v)" by fastforce
    have ru: "\<not> IS_ROOT u d" using check_verifier_stays [OF cv law(2) root] .
    have "\<not> IS_ROOT (zap_dir E dir v) d" using verify_inode_ok(1) [OF v law(2) ru] by simp
    then have "e = 0" using r True v out_bad_not_one [OF sub, of "zap_dir E dir v"] by (auto split: if_splits)
    then show ?thesis using check_verifier_true [OF cv root] verify_inode_ok(2) [OF v law(2) ru] v s1 by (intro disjI2 disjI1 exI [of _ u] exI [of _ v]) auto
  next
    case f: False
    have ru: "\<not> IS_ROOT u d" using u root check_verifier_stays [OF _ law(2) root] by (auto split: if_splits)
    have "lookup_again E ?p dir d i flags u = Inr (1, t)" using r f out_bad_not_one [OF sub ru] by (auto split: if_splits)
    then show ?thesis using lookup_again_valid [OF _ law(2) sub ru] by blast
  qed
qed simp

section \<open>The patch\<close>

text \<open>A name that the server has given to something else: \<^verbatim>\<open>nfs_lookup_revalidate\<close> notices, \<^verbatim>\<open>nfs4_lookup_revalidate\<close> does not.\<close>

definition gone :: "'w ns_env \<Rightarrow> nat \<Rightarrow> nat \<Rightarrow> nat \<Rightarrow> bool" where
  "gone E dir d i \<longleftrightarrow> (\<forall>u e fh fa l v. np_lookup E dir (dn_name (ns_dentries u d)) u = ((e, fh, fa, l), v) \<longrightarrow> e \<noteq> 0 \<or> \<not> nfs_same_fh (ino_fh (ns_inodes v i)) fh)"

lemma lookup_again_gone:
  assumes "gone E dir d i" "unmoved E d" and "\<And>u. fst (lk_submounts_drop E d u) = 0" and "\<And>u. fst (lk_alloc E u)" "\<And>u. fst (lk_label E u) = 0" and "\<not> IS_ROOT s d"
  shows "\<exists>t. lookup_again E parent dir d i flags s = Inr (0, t)"
proof -
  obtain s1 where 1: "lk_alloc E s = (True, s1)" using assms(4) [of s] by (metis prod.collapse)
  obtain s2 where 2: "lk_label E s1 = (0, s2)" using assms(5) [of s1] by (metis prod.collapse)
  obtain e fh fa l v where 3: "np_lookup E dir (dn_name (ns_dentries s2 d)) s2 = ((e, fh, fa, l), v)" by (metis surj_pair)
  have root: "\<not> IS_ROOT v d" using assms(2,6) 1 2 3 unfolding unmoved_def by (metis snd_conv)
  have "e \<noteq> 0 \<or> \<not> nfs_same_fh (ino_fh (ns_inodes v i)) fh" using assms(1) 3 unfolding gone_def by blast
  then have "lookup_again E parent dir d i flags s = Inr (out_bad E parent dir d (Some i) flags v)" by (auto simp: lookup_again_def 1 2 3)
  then show ?thesis using out_bad_zero [OF assms(3) root] by (metis prod.collapse)
qed

lemma changed_name_noticed:
  assumes law: "names_law E" "unmoved E d" and sub: "\<And>u. fst (lk_submounts_drop E d u) = 0" and mem: "\<And>u. fst (lk_alloc E u)" "\<And>u. fst (lk_label E u) = 0"
    and d: "\<not> IS_ROOT s d" "inode_of s d = Some i" and dir: "inode_of s (dn_parent (ns_dentries s d)) = Some dir"
    and deleg: "\<not> have_read_delegation (ns_hooks E) (ns_inodes s i)" and changed: "dn_time (ns_dentries s d) \<noteq> cache_change_attribute (ns_inodes s dir)"
    and "gone E dir d i" and rcu: "flags AND LOOKUP_RCU = 0"
  shows "\<exists>t. nfs_lookup_revalidate E d flags s = Inr (0, t)"
proof -
  let ?p = "dn_parent (ns_dentries s d)"
  define s1 where "s1 = lk_dget E ?p s"
  have s1: "dn_parent (ns_dentries s1 x) = dn_parent (ns_dentries s x)" "inode_of s1 x = inode_of s x" "ns_inodes s1 = ns_inodes s"
      "dn_time (ns_dentries s1 x) = dn_time (ns_dentries s x)" for x using law(1) by (simp_all add: s1_def)
  have root: "\<not> IS_ROOT s1 d" using d(1) s1(1) by simp
  have cv: "nfs_check_verifier E dir d False s1 = (False, s1)"
    using changed root by (simp add: nfs_check_verifier_def nfs_verify_change_attribute_def s1)
  obtain t where t: "lookup_again E ?p dir d i flags s1 = Inr (0, t)" using lookup_again_gone [OF assms(11) law(2) sub mem root] by blast
  have bad: "\<exists>t. out_bad E ?p dir d (Some i) flags s1 = (0, t)" using out_bad_zero [OF sub root] by (metis prod.collapse)
  show ?thesis using t bad by (simp add: nfs_lookup_revalidate_def Let_def rcu s1_def [symmetric] s1 d dir deleg cv)
qed

lemma nfs4_revalidate_positive:
  "inode_of s d = Some i \<Longrightarrow> \<not> nfs_need_revalidate_inode (ns_hooks E) (ns_now s) (ns_inodes s i) \<Longrightarrow> nfs4_lookup_revalidate E d flags s = Inr (1, s)"
  by (simp add: nfs4_lookup_revalidate_def)

section \<open>Looking up and trusting\<close>

text \<open>\<^verbatim>\<open>d_materialise_unique\<close>: the dentry, or the one it returns, stands for the inode below the same parent.\<close>

definition res_dentry :: "nat \<Rightarrow> nat option \<Rightarrow> nat" where
  "res_dentry d res = (case res of None \<Rightarrow> d | Some a \<Rightarrow> a)"

definition joins :: "'w ns_env \<Rightarrow> bool" where
  "joins E \<longleftrightarrow> (\<forall>d i s r t. lk_materialise E d i s = (Inr r, t) \<longrightarrow>
     inode_of t (res_dentry d r) = i \<and> dn_parent (ns_dentries t (res_dentry d r)) = dn_parent (ns_dentries s d) \<and>
     (\<forall>x. x \<noteq> d \<longrightarrow> x \<noteq> res_dentry d r \<longrightarrow> ns_dentries t x = ns_dentries s x) \<and> ns_inodes t = ns_inodes s)"

text \<open>Nobody else touches dentries while the server is asked.\<close>

definition quiet_lookup :: "'w ns_env \<Rightarrow> bool" where
  "quiet_lookup E \<longleftrightarrow> (\<forall>s dir name h test init. ns_dentries (snd (lk_alloc E s)) = ns_dentries s \<and> ns_dentries (snd (lk_label E s)) = ns_dentries s \<and>
     ns_dentries (snd (np_lookup E dir name s)) = ns_dentries s \<and> ns_dentries (snd (lk_iget E s h test init)) = ns_dentries s)"

lemma fhget_dentries:
  assumes "quiet_lookup E"
  shows "nfs_fhget H (ns_icache E) fh fa label s = (r, fa', t) \<Longrightarrow> ns_dentries t = ns_dentries s"
proof -
  have "lk_iget E s h test init = (x, w) \<Longrightarrow> ns_dentries w = ns_dentries s" for h test init x w using assms unfolding quiet_lookup_def by (metis snd_conv)
  then show "nfs_fhget H (ns_icache E) fh fa label s = (r, fa', t) \<Longrightarrow> ns_dentries t = ns_dentries s"
    by (auto simp: nfs_fhget_def ns_icache_def ic_store_def Let_def split: if_splits prod.splits option.splits)
qed

lemma lookup_finish_ok:
  assumes "joins E" and "lookup_finish E dir d inode s = (Inr res, t)"
  shows "inode_of t (res_dentry d res) = inode" "dn_parent (ns_dentries t (res_dentry d res)) = dn_parent (ns_dentries s d)"
    "dn_time (ns_dentries t (res_dentry d res)) = cache_change_attribute (ns_inodes t dir)"
    "\<And>x. x \<noteq> d \<Longrightarrow> x \<noteq> res_dentry d res \<Longrightarrow> ns_dentries t x = ns_dentries s x"
proof -
  obtain u where u: "lk_materialise E d inode s = (Inr res, u)" "t = nfs_set_verifier (res_dentry d res) (nfs_save_change_attribute dir u) u"
    using assms(2) by (auto simp: lookup_finish_def res_dentry_def split: prod.splits sum.splits)
  note j = assms(1) [unfolded joins_def, rule_format, OF u(1)]
  show "inode_of t (res_dentry d res) = inode" "dn_parent (ns_dentries t (res_dentry d res)) = dn_parent (ns_dentries s d)"
    "dn_time (ns_dentries t (res_dentry d res)) = cache_change_attribute (ns_inodes t dir)" using j by (simp_all add: u(2) nfs_save_change_attribute_def)
  show "\<And>x. x \<noteq> d \<Longrightarrow> x \<noteq> res_dentry d res \<Longrightarrow> ns_dentries t x = ns_dentries s x" using j by (simp add: u(2))
qed

lemma lookup_result:
  assumes "joins E" "quiet_lookup E" and "\<not> nfs_is_exclusive_create E flags" and "nfs_lookup E dir d flags s = (Inr res, t)"
  shows "dn_parent (ns_dentries t (res_dentry d res)) = dn_parent (ns_dentries s d)" "dn_time (ns_dentries t (res_dentry d res)) = cache_change_attribute (ns_inodes t dir)"
    "\<And>x. x \<noteq> d \<Longrightarrow> x \<noteq> res_dentry d res \<Longrightarrow> ns_dentries t x = ns_dentries s x"
proof -
  obtain ok s1 where 1: "lk_alloc E s = (ok, s1)" by fastforce
  obtain le s2 where 2: "lk_label E s1 = (le, s2)" by fastforce
  obtain e fh fa l s3 where 3: "np_lookup E dir (dn_name (ns_dentries s2 d)) s2 = ((e, fh, fa, l), s3)" by (metis surj_pair)
  have n3: "ns_dentries s3 = ns_dentries s" using assms(2) 1 2 3 unfolding quiet_lookup_def by (metis snd_conv)
  obtain f fa' s4 where 4: "nfs_fhget (ns_hooks E) (ns_icache E) fh fa l s3 = (f, fa', s4)" by (metis surj_pair)
  have n4: "ns_dentries s4 = ns_dentries s" using fhget_dentries [OF assms(2) 4] n3 by simp
  have "ok" using assms(4) 1 assms(3) by (cases ok) (auto simp: nfs_lookup_def split: if_splits)
  then have "\<exists>inode u. ns_dentries u = ns_dentries s \<and> lookup_finish E dir d inode u = (Inr res, t)"
    using assms(3,4) 1 2 3 4 n3 n4 by (auto simp: nfs_lookup_def split: if_splits sum.splits) (metis advise_simps(1))+
  then obtain inode u where u: "ns_dentries u = ns_dentries s" "lookup_finish E dir d inode u = (Inr res, t)" by blast
  note f = lookup_finish_ok [OF assms(1) u(2)]
  show "dn_parent (ns_dentries t (res_dentry d res)) = dn_parent (ns_dentries s d)" "dn_time (ns_dentries t (res_dentry d res)) = cache_change_attribute (ns_inodes t dir)"
    "\<And>x. x \<noteq> d \<Longrightarrow> x \<noteq> res_dentry d res \<Longrightarrow> ns_dentries t x = ns_dentries s x" using f(2-4) u(1) by simp_all
qed

text \<open>A dentry whose verifier is that of its directory is trusted without a request while the attributes of the directory are fresh.\<close>

lemma trusted_while_fresh:
  assumes law: "names_law E" and p: "dn_parent (ns_dentries t a) = p" "p \<noteq> a" "inode_of t p = Some dir" and v: "dn_time (ns_dentries t a) = cache_change_attribute (ns_inodes t dir)"
    and fresh: "\<not> nfs_need_revalidate_inode (ns_hooks E) (ns_now t) (ns_inodes t dir)" "\<not> ino_stale (ns_inodes t dir)" and opt: "\<not> lookup_cache_none E" "\<not> lookup_cache_noneg E"
    and ino: "\<And>i. inode_of t a = Some i \<Longrightarrow> \<not> is_bad_inode (ns_inodes t i) \<and> (i_automount (ns_inodes t i) \<or> i_nlink (ns_inodes t i) \<noteq> 0)"
  shows "\<exists>u. nfs_lookup_revalidate E a 0 t = Inr (1, u)"
proof -
  define t1 where "t1 = lk_dget E p t"
  have t1: "dn_parent (ns_dentries t1 x) = dn_parent (ns_dentries t x)" "inode_of t1 x = inode_of t x" "ns_inodes t1 = ns_inodes t" "ns_now t1 = ns_now t"
      "dn_time (ns_dentries t1 x) = dn_time (ns_dentries t x)" for x using law by (simp_all add: t1_def)
  have cv: "nfs_check_verifier E dir a False t1 = (True, t1)"
    using p v fresh opt by (simp add: nfs_check_verifier_def revalidate_inode_def nfs_verify_change_attribute_def t1)
  have ok: "\<exists>u. out_valid E p dir a 0 x = (1, u)" "\<exists>u. out_valid_noent E p a 0 x = (1, u)" for x by (simp_all add: out_valid_def out_valid_noent_def)
  have ex: "\<not> nfs_is_exclusive_create E 0" by (simp add: nfs_is_exclusive_create_def)
  show ?thesis
  proof (cases "inode_of t a")
    case None
    then show ?thesis using ok by (simp add: nfs_lookup_revalidate_def Let_def p t1_def [symmetric] t1 nfs_neg_need_reval_def opt cv)
  next
    case (Some i)
    have "nfs_lookup_verify_inode E i 0 t1 = (0, t1)" using ino [OF Some] by (auto simp: nfs_lookup_verify_inode_def t1 Let_def)
    then show ?thesis using ok ino [OF Some] by (simp add: nfs_lookup_revalidate_def Let_def p t1_def [symmetric] t1 Some ex cv)
  qed
qed

section \<open>Removing and renaming\<close>

text \<open>The requests leave the dentry cache alone, and so does a silly rename that fails. A dentry that is allocated is a new one, and holds its parent.\<close>

definition quiet_change :: "'w ns_env \<Rightarrow> bool" where
  "quiet_change E \<longleftrightarrow> (\<forall>s i j k l name. ns_dentries (snd (np_remove E i name s)) = ns_dentries s \<and> ns_dentries (np_return_delegation E i s) = ns_dentries s \<and>
     ns_dentries (snd (np_rename E i j k l s)) = ns_dentries s) \<and>
     (\<forall>i d s e t. lk_sillyrename E i d s = (e, t) \<longrightarrow> e \<noteq> 0 \<longrightarrow> ns_dentries t = ns_dentries s)"

lemma drop_nlink_dentries [simp]: "ns_dentries (nfs_drop_nlink i s) = ns_dentries s"
  by (simp add: nfs_drop_nlink_def)

lemma unlink_outcome:
  assumes law: "names_law E" "quiet_change E" and d: "dn_count (ns_dentries s d) \<le> 1" and run: "nfs_unlink E dir d s = (error, t)"
  shows "dn_hashed (ns_dentries t d) \<longleftrightarrow> dn_hashed (ns_dentries s d) \<and> error \<noteq> 0 \<and> error \<noteq> - ENOENT" and "\<And>x. x \<noteq> d \<Longrightarrow> ns_dentries t x = ns_dentries s x"
    and "inode_of t d = inode_of s d"
    and "error = 0 \<Longrightarrow> \<not> dn_renamed (ns_dentries s d) \<Longrightarrow> inode_of s d = Some i \<Longrightarrow> i_nlink (ns_inodes t i) \<noteq> 1 \<and> cache_validity (ns_inodes t i) AND NFS_INO_INVALID_ATTR \<noteq> 0"
proof -
  let ?h = "dn_hashed (ns_dentries s d)"
  define s1 where "s1 = (if ?h then lk_drop E d s else s)"
  have s1: "ns_dentries s1 = (ns_dentries s)(d := (ns_dentries s d)\<lparr>dn_hashed := False\<rparr>)" using names_lawD(3) [OF law(1)] by (auto simp: s1_def fun_eq_iff)
  obtain e u where u: "nfs_safe_remove E dir d s1 = (e, u)" by fastforce
  have q: "ns_dentries (snd (np_remove E i nm x)) = ns_dentries x" "ns_dentries (np_return_delegation E i x) = ns_dentries x" for i nm x using law(2) by (simp_all add: quiet_change_def)
  have rm: "np_remove E i nm x = (r, y) \<Longrightarrow> ns_dentries y = ns_dentries x" for i nm x r y using q(1) by (metis snd_conv)
  have en: "nfs_dentry_handle_enoent E d y = y" if "ns_dentries y = ns_dentries s1" for y using that by (simp add: nfs_dentry_handle_enoent_def s1)
  have n: "ns_dentries u = ns_dentries s1"
    using u by (auto simp: nfs_safe_remove_def Let_def en q split: if_splits prod.splits option.splits dest!: rm)
  have t: "error = e" "t = (if e = 0 \<or> e = - ENOENT then nfs_set_verifier d (nfs_save_change_attribute dir u) u else if ?h then lk_rehash E d u else u)"
    using run d u by (auto simp: nfs_unlink_def Let_def s1_def [symmetric])
  show "dn_hashed (ns_dentries t d) \<longleftrightarrow> ?h \<and> error \<noteq> 0 \<and> error \<noteq> - ENOENT" "inode_of t d = inode_of s d" using t n s1 by (auto simp: names_lawD [OF law(1)])
  show "\<And>x. x \<noteq> d \<Longrightarrow> ns_dentries t x = ns_dentries s x" using t n s1 by (auto simp: names_lawD [OF law(1)])
  assume a: "error = 0" "\<not> dn_renamed (ns_dentries s d)" "inode_of s d = Some i"
  have "i_nlink (ns_inodes u i) \<noteq> 1 \<and> cache_validity (ns_inodes u i) AND NFS_INO_INVALID_ATTR \<noteq> 0"
    using u a t by (auto simp: nfs_safe_remove_def s1 Let_def nfs_drop_nlink_def bit_simps split: if_splits prod.splits)
  then show "i_nlink (ns_inodes t i) \<noteq> 1 \<and> cache_validity (ns_inodes t i) AND NFS_INO_INVALID_ATTR \<noteq> 0" using a t by simp
qed

definition alloc_law :: "'w ns_env \<Rightarrow> bool" where
  "alloc_law E \<longleftrightarrow> (\<forall>p name u r v y. lk_d_alloc E p name u = (r, v) \<longrightarrow> r \<noteq> Some y \<longrightarrow> ns_dentries v y = ns_dentries u y)"

text \<open>A rename that fails leaves every dentry as it was, hashed or not, unless the target was renamed out of the way.\<close>

lemma rename_failed:
  assumes law: "names_law E" "quiet_change E" "alloc_law E" and silly: "dn_count (ns_dentries s new_d) \<le> 2 \<or> (\<forall>u. fst (lk_sillyrename E new_dir new_d u) \<noteq> 0)"
    and run: "nfs_rename E old_dir old_d old_inode new_dir new_d s = (error, t)" and error: "error \<noteq> 0" "error \<noteq> - ENOENT"
    and y: "\<And>p name u v. lk_d_alloc E p name u \<noteq> (Some y, v)"
  shows "ns_dentries t y = ns_dentries s y"
proof -
  let ?h = "dn_hashed (ns_dentries s new_d)"
  define s1 where "s1 = (if ?h then lk_drop E new_d s else s)"
  have s1: "ns_dentries s1 = (ns_dentries s)(new_d := (ns_dentries s new_d)\<lparr>dn_hashed := False\<rparr>)" using names_lawD(3) [OF law(1)] by (auto simp: s1_def fun_eq_iff)
  have rehash: "ns_dentries (rename_rehash E (if ?h then Some new_d else None) u) y = ns_dentries s y" if "ns_dentries u y = ns_dentries s1 y" for u
    using that s1 by (auto simp: rename_rehash_def names_lawD [OF law(1)])
  have put: "ns_dentries (rename_put E dentry u) y = ns_dentries u y" if "dentry \<noteq> Some y" for dentry u
    using that by (auto simp: rename_put_def names_lawD [OF law(1)] split: option.split)
  have q: "ns_dentries (np_return_delegation E i x) = ns_dentries x" "ns_dentries (snd (np_rename E i j k l x)) = ns_dentries x" for i j k l x using law(2) by (simp_all add: quiet_change_def)
  obtain r u where u: "rename_target E new_dir new_d s = (r, u)" by fastforce
  show ?thesis
  proof (cases r)
    case (Inl x)
    then obtain dentry where x: "x = (if ?h then Some new_d else None, dentry)" "dentry \<noteq> Some y" "ns_dentries u y = ns_dentries s1 y"
      using u y law(2,3) unfolding quiet_change_def alloc_law_def
      by (auto simp: rename_target_def Let_def s1_def [symmetric] split: if_splits prod.splits option.splits) (metis option.distinct(1) | metis option.inject)+
    have "t = rename_put E dentry (rename_rehash E (if ?h then Some new_d else None) u)" using run u Inl x(1) by (simp add: nfs_rename_def)
    then show ?thesis using put [OF x(2)] rehash [OF x(3)] by simp
  next
    case (Inr x)
    then have "\<exists>nd ti rh. x = (nd, ti, rh, None) \<and> (\<forall>v. ns_dentries v = ns_dentries u \<longrightarrow> ns_dentries (rename_rehash E rh v) y = ns_dentries s y)"
      using u silly s1 rehash
      by (auto simp: rename_target_def Let_def s1_def [symmetric] rename_rehash_def split: if_splits prod.splits option.splits) (metis fst_conv)+
    then obtain nd ti rh where x: "x = (nd, ti, rh, None)" and rh: "\<And>v. ns_dentries v = ns_dentries u \<Longrightarrow> ns_dentries (rename_rehash E rh v) y = ns_dentries s y" by blast
    let ?w = "case ti of None \<Rightarrow> np_return_delegation E old_inode u | Some i \<Rightarrow> np_return_delegation E i (np_return_delegation E old_inode u)"
    obtain res v where v: "np_rename E old_dir new_dir old_d nd ?w = (res, v)" by fastforce
    have nv: "ns_dentries v = ns_dentries u" using q(2) [of old_dir new_dir old_d nd ?w] v q(1) by (cases ti) simp_all
    have "t = rename_rehash E rh (case res of Inl e \<Rightarrow> v | Inr p \<Rightarrow> upd_ino old_inode nfs_mark_for_revalidate v)"
      using run u Inr x v error by (auto simp: nfs_rename_def Let_def rename_put_def split: sum.splits prod.splits if_splits)
    then show ?thesis using rh nv by (cases res) simp_all
  qed
qed

end
