(* ===== verification/Nfs_Name_Properties.thy ===== *)
theory Nfs_Name_Properties
  imports Nfs_Lookup_Correct Vfs_Sample
begin

text \<open>
  The properties of dentries and of the operations that change a directory, with a small concrete dentry cache at which their hypotheses hold.
\<close>

section \<open>A sample\<close>

text \<open>Dentry 1 with inode 1 is the root directory, dentry 2 with inode 2 a name in it. The server answers every lookup with \<open>answer\<close>, and every change with \<open>status\<close>.\<close>

definition sample_ns :: "unit ns" where
  "sample_ns = \<lparr>ns_dentries = (\<lambda>d. \<lparr>dn_name = [0x61], dn_parent = 1, dn_inode = Some d, dn_time = 0, dn_hashed = True, dn_count = 1, dn_renamed = False\<rparr>),
     ns_inodes = (\<lambda>i. sample_inode), ns_advise = (\<lambda>i. False), ns_super = sample_sb, ns_generation = 7, ns_now = 100, ns_world = ()\<rparr>"

definition sample_ns_env :: "int \<times> nfs_fh \<times> nfs_fattr \<times> nfs4_label option \<Rightarrow> int \<Rightarrow> unit ns_env" where
  "sample_ns_env answer status = \<lparr>ns_hooks = sample_hooks, lookup_cache_none = False, lookup_cache_noneg = False, mount_nocto = False, ms_active = True, ns_namelen = 255,
     proto_version = 4, lk_alloc = (\<lambda>s. (True, s)), lk_label = (\<lambda>s. (0, s)), lk_iget = (\<lambda>s h t u. (Some (0, True), s)),
     lk_dget = (\<lambda>d. upd_dn d (\<lambda>x. x\<lparr>dn_count := dn_count x + 1\<rparr>)), lk_dput = (\<lambda>d. upd_dn d (\<lambda>x. x\<lparr>dn_count := dn_count x - 1\<rparr>)),
     lk_drop = (\<lambda>d. upd_dn d (\<lambda>x. x\<lparr>dn_hashed := False\<rparr>)), lk_rehash = (\<lambda>d. upd_dn d (\<lambda>x. x\<lparr>dn_hashed := True\<rparr>)),
     lk_instantiate = (\<lambda>d i. upd_dn d (\<lambda>x. x\<lparr>dn_inode := i\<rparr>)), lk_add = (\<lambda>d i. upd_dn d (\<lambda>x. x\<lparr>dn_inode := i, dn_hashed := True\<rparr>)),
     lk_delete = (\<lambda>d. upd_dn d (\<lambda>x. x\<lparr>dn_inode := None\<rparr>)), lk_move = (\<lambda>d e s. s), lk_d_alloc = (\<lambda>p n s. (None, s)),
     lk_materialise = (\<lambda>d i s. (Inr None, upd_dn d (\<lambda>x. x\<lparr>dn_inode := i, dn_hashed := True\<rparr>) s)), lk_submounts_drop = (\<lambda>d s. (0, s)), lk_iput = (\<lambda>i s. s), lk_ihold = (\<lambda>i s. s),
     lk_sillyrename = (\<lambda>i d s. (-16, s)), lk_complete_unlink = (\<lambda>d i s. s), lk_writeback = (\<lambda>i s. s), lk_check_flags = (\<lambda>f. 0), lk_umask = 0, lk_valid_dev = (\<lambda>r. True),
     lk_finish_open = (\<lambda>d f s. (0, s)), lk_finish_no_open = (\<lambda>r s. (0, s)), lk_add_page = (\<lambda>d t s. s), np_lookup = (\<lambda>i n s. (answer, s)), np_getattr = (\<lambda>fh. (0, empty_fattr, None)),
     np_open_context = (\<lambda>i d m f a opened s. ((Inr d, opened), s)), np_create = (\<lambda>i d a f s. (status, s)), np_mknod = (\<lambda>i d a r s. (status, s)), np_mkdir = (\<lambda>i d a s. (status, s)),
     np_rmdir = (\<lambda>i n s. (status, s)), np_remove = (\<lambda>i n s. (status, s)), np_symlink = (\<lambda>i d t a s. (status, s)), np_link = (\<lambda>i d n s. (status, s)),
     np_rename = (\<lambda>i j k l s. (Inr (0, status), s)), np_return_delegation = (\<lambda>i s. s)\<rparr>"

lemma sample_ns_laws:
  "names_law (sample_ns_env a b)" "unmoved (sample_ns_env a b) d" "fst (lk_submounts_drop (sample_ns_env a b) d u) = 0" "quiet_change (sample_ns_env a b)" "alloc_law (sample_ns_env a b)"
  "fst (lk_alloc (sample_ns_env a b) u)" "fst (lk_label (sample_ns_env a b) u) = 0" "lk_d_alloc (sample_ns_env a b) p n u \<noteq> (Some y, v)"
  by (simp_all add: sample_ns_env_def names_law_def unmoved_def quiet_change_def alloc_law_def)


section \<open>Trusting dentries\<close>



text \<open>C21: a name that is trusted too long. The directory has changed since the dentry was made, and the server has the name for something else or not at all. For the dentries of
  version 4 the patch looks only at the age of the attributes of the inode: the dentry counts as valid without a request, also with \<^verbatim>\<open>LOOKUP_REVAL\<close>. \<^verbatim>\<open>nfs_lookup_revalidate\<close>, which
  was called before the patch, asks the server and drops the dentry.\<close>

theorem nfs4_trusts_changed_name:
  assumes "names_law E" "unmoved E d" and "\<And>u. fst (lk_submounts_drop E d u) = 0" and "\<And>u. fst (lk_alloc E u)" "\<And>u. fst (lk_label E u) = 0"
    and "\<not> IS_ROOT s d" "inode_of s d = Some i" and "inode_of s (dn_parent (ns_dentries s d)) = Some dir"
    and "\<not> have_read_delegation (ns_hooks E) (ns_inodes s i)" and "dn_time (ns_dentries s d) \<noteq> cache_change_attribute (ns_inodes s dir)"
    and "gone E dir d i" and "flags AND LOOKUP_RCU = 0" and "\<not> nfs_need_revalidate_inode (ns_hooks E) (ns_now s) (ns_inodes s i)"
  shows "nfs4_lookup_revalidate E d flags s = Inr (1, s) \<and> (\<exists>t. nfs_lookup_revalidate E d flags s = Inr (0, t))"
  using changed_name_noticed [OF assms(1-12)] nfs4_revalidate_positive [OF assms(7,13)] by blast

definition sample_changed :: "unit ns" where
  "sample_changed = upd_ino 1 nfs_force_lookup_revalidate sample_ns"

theorem nfs4_trusts_changed_name_witness:
  "nfs4_lookup_revalidate (sample_ns_env (-2, fh_zero, empty_fattr, None) 0) 2 LOOKUP_REVAL sample_changed = Inr (1, sample_changed) \<and>
   (\<exists>t. nfs_lookup_revalidate (sample_ns_env (-2, fh_zero, empty_fattr, None) 0) 2 LOOKUP_REVAL sample_changed = Inr (0, t))"
  by (rule nfs4_trusts_changed_name [where i = 2 and dir = 1])
    (simp_all add: sample_ns_laws, simp_all add: gone_def sample_ns_env_def sample_changed_def sample_ns_def sample_inode_def sample_hooks_def nfs_force_lookup_revalidate_def
      nfs_need_revalidate_inode_def nfs_attribute_cache_expired_def nfs_attribute_timeout_def time_in_range_open_def)

section \<open>Changing directories\<close>



end
