(* ===== verification/Spec2Isabelle.thy ===== *)
theory Spec2Isabelle
  imports Xdr_Properties Nfs_Chain_Sample Namei_Properties Nfs_Inode_Steps Nfs4_State_Properties Nfs4_Open_Properties Nfs4_Lock_Properties Nfs4_Session_Properties Nfs_Dir_Properties Nfs_Name_Properties
begin

text \<open>
  This development verifies the NFSv4 client of \<^verbatim>\<open>src/nfs_open_compounds_fix\<close>: the files of the CentOS 7 kernel (3.10) with the patch that looks up a whole path
  with one COMPOUND request. All file names below are relative to that directory.

  \<^bold>\<open>The program.\<close> A path is walked by \<^verbatim>\<open>fs/namei.c\<close>. In a directory whose inode operations have \<^verbatim>\<open>chain_lookup\<close> the walk does not look up a component that the dentry cache does
  not know: it appends it to a chain and goes on. The chain is sent when it has thirty names or at the last component: \<^verbatim>\<open>nfs_chain_lookup\<close> (\<^verbatim>\<open>fs/nfs/dir.c\<close>) allocates arrays
  for handles, attributes and labels, \<^verbatim>\<open>nfs4_proc_chain_lookup\<close> (\<^verbatim>\<open>fs/nfs/nfs4proc.c\<close>) runs the call, the encoder and the decoder of \<^verbatim>\<open>fs/nfs/nfs4xdr.c\<close> translate between its
  arguments and the wire, and the results are turned into inodes and dentries (\<^verbatim>\<open>fs/nfs/inode.c\<close>). Around it are the rest of the XDR code, the attribute cache, and the
  state of the client: sequence ids, sessions, open and lock states, their recovery by the state manager, and the handling of errors (\<^verbatim>\<open>fs/nfs/nfs4state.c\<close>, \<^verbatim>\<open>fs/nfs/nfs4proc.c\<close>).

  \<^bold>\<open>Shared theories.\<close> \<^verbatim>\<open>Nfs_Prelude\<close> has the machine integers, byte orders, collections of simplification rules and lemmas that all components use. \<^verbatim>\<open>Nfs_Steps\<close> has the interfaces (locales)
  of the step relations: invariants and relations that every step keeps. They are interpreted for slots, sequence ids, inodes, open files and the access cache.

  \<^bold>\<open>Requests\<close> (\<^verbatim>\<open>fs/nfs/nfs4xdr.c\<close>). \<^verbatim>\<open>Nfs4_Const\<close>: the constants of the protocol and \<^verbatim>\<open>nfs4_stat_to_errno\<close>. \<^verbatim>\<open>Xdr_Sizes\<close>: every size macro. \<^verbatim>\<open>Nfs4_Args\<close>: the argument and result structures of
  \<^verbatim>\<open>include/linux/nfs_xdr.h\<close>. \<^verbatim>\<open>Xdr_Encode_Prim\<close>, \<^verbatim>\<open>Xdr_Encode_Attrs\<close>, \<^verbatim>\<open>Xdr_Encode_Ops\<close>, \<^verbatim>\<open>Xdr_Encode_Compound\<close>: one definition per encoder, under the name of the C function, and the procedure
  table (\<open>p_encode\<close>, \<open>p_arglen\<close>, \<open>p_replen\<close>). An encoder is a function on the buffer that may fault (no space, a read out of bounds). \<^verbatim>\<open>Xdr_Wire\<close> is the abstract side, the operations of a
  COMPOUND as values with their bytes; \<^verbatim>\<open>Xdr_Encode_Correct\<close> (locales \<open>op_encoder\<close> and \<open>bounded_op\<close>, interpreted for every operation), \<^verbatim>\<open>Xdr_Message\<close> and \<^verbatim>\<open>Xdr_Request\<close> show that every
  request is encoded as the COMPOUND it stands for (C1, C2) and fits its buffer (C3).

  \<^bold>\<open>Replies\<close> (\<^verbatim>\<open>fs/nfs/nfs4xdr.c\<close>). \<^verbatim>\<open>Xdr_Decode_Prim\<close>, \<^verbatim>\<open>Xdr_Decode_Attrs\<close>, \<^verbatim>\<open>Xdr_Decode_Getattr\<close>, \<^verbatim>\<open>Xdr_Decode_Ops\<close>, \<^verbatim>\<open>Xdr_Decode_Session\<close>, \<^verbatim>\<open>Xdr_Decode_Compound\<close>: one definition per decoder.
  \<^verbatim>\<open>Xdr_Decode_Fattr\<close> (locale \<open>attr_law\<close>, interpreted for every attribute), \<^verbatim>\<open>Xdr_Decode_Attr_Reply\<close> and \<^verbatim>\<open>Xdr_Decode_Chain\<close> show that attributes (C5) and replies to the chain (C4) are read
  back as they were sent.

  \<^bold>\<open>The chained lookup.\<close> \<^verbatim>\<open>Nfs_Chain_Call\<close> has the two procedures; \<^verbatim>\<open>Nfs_Chain_Server\<close> has a server that runs the operations of a COMPOUND in order, and the lookup from end to end (C6).
  \<^verbatim>\<open>Vfs_State\<close> is \<^verbatim>\<open>struct nameidata\<close> with the references and mutexes the walk holds, \<^verbatim>\<open>Nfs_Chain_Dir\<close> the inode operation, \<^verbatim>\<open>Namei_Chain\<close> the chain, \<^verbatim>\<open>Namei_Walk\<close> the walk from single components
  and symbolic links to \<^verbatim>\<open>kern_path\<close> and \<^verbatim>\<open>kern_path_locked\<close>. \<^verbatim>\<open>Namei_Chain_Correct\<close> and \<^verbatim>\<open>Namei_Walk_Correct\<close> show that references and mutexes balance (C12, C14), that names are batched (lemma \<open>walk_chain_collects\<close>), that a
  path is looked up with one request (C7), and where the code goes wrong (C13, C15, C16). The order of dentries in the tree is the parameter \<open>depth\<close>.

  \<^bold>\<open>The attribute cache.\<close> \<^verbatim>\<open>Nfs_Inode\<close> and \<^verbatim>\<open>Nfs_Fhget\<close> model \<^verbatim>\<open>fs/nfs/inode.c\<close>; \<^verbatim>\<open>Nfs_Inode_Correct\<close> and \<^verbatim>\<open>Nfs_Inode_Steps\<close> show that an update refines the specification \<open>apply_fattr\<close> (C8, C11), what errors (lemma \<open>inode_update_stale\<close>) and old
  replies do (C9), and what every sequence of operations keeps (C10).

  \<^bold>\<open>Directories\<close> (\<^verbatim>\<open>fs/nfs/dir.c\<close>). \<^verbatim>\<open>Nfs_Readdir\<close>: the pages of a directory, from READDIR replies to the buffer of the caller; \<^verbatim>\<open>Nfs_Readdir_Correct\<close> shows that a directory that does not change is read in order and
  completely (C17). \<^verbatim>\<open>Nfs_Access\<close>: the access cache; \<^verbatim>\<open>Nfs_Access_Correct\<close> shows that it refines a map from inodes and credentials to answers of the server with exact accounting (C18),
  that a right is granted only if the server gave it (C19), and which answers are lost. The patch has made \<^verbatim>\<open>nfs_permission\<close> and \<^verbatim>\<open>nfs_may_open\<close> return at once. \<^verbatim>\<open>Nfs_Lookup\<close>: looking up a name, revalidating a
  dentry, opening, and the changes of directories; \<^verbatim>\<open>Nfs_Lookup_Correct\<close> shows why a dentry is trusted (C20), that the patch trusts dentries it should not (C21), that what was looked up is trusted,
  and what removals and failed renames leave (C22).

  \<^bold>\<open>Client state.\<close> \<^verbatim>\<open>Nfs4_Seqid\<close> and \<^verbatim>\<open>Nfs4_Seqid_Queue\<close>: sequence ids and the queue of an owner (C25, lemma \<open>seqid_counting\<close>). \<^verbatim>\<open>Nfs4_Sequence\<close> and \<^verbatim>\<open>Nfs4_Slot_Protocol\<close>: the slot of a session between client and server (C23, C24).
  \<^verbatim>\<open>Nfs4_Client\<close>, \<^verbatim>\<open>Nfs4_Recovery\<close>, \<^verbatim>\<open>Nfs4_Manager\<close> with \<^verbatim>\<open>Nfs4_Recovery_Correct\<close>, \<^verbatim>\<open>Nfs4_Manager_Correct\<close>, \<^verbatim>\<open>Nfs4_Reboot\<close>: marking, reclaiming and the state manager (C26 to C31; locale \<open>marking\<close>).
  \<^verbatim>\<open>Nfs4_Open_State\<close>, \<^verbatim>\<open>Nfs4_Close\<close>, \<^verbatim>\<open>Nfs4_Close_Correct\<close>: an open state refines the multiset of the modes in which the file is open, and CLOSE leaves what is needed. \<^verbatim>\<open>Nfs4_Open_Proc\<close>, \<^verbatim>\<open>Nfs4_Open_Proc_Correct\<close>: the task of an OPEN and the recovery of open states, which restores what the openers asked for (C32 to C34, lemmas \<open>close_skips_downgrade\<close>, \<open>close_keeps_open_flag\<close>, \<open>expired_signal_success\<close>). \<^verbatim>\<open>Nfs4_Lock_State\<close>: lock
  states and the state id for I/O (C39, lemma \<open>lock_state_references\<close>). \<^verbatim>\<open>Nfs4_Lock_Proc\<close>: file locks, from the system call to the tasks and their recovery; \<^verbatim>\<open>Nfs4_Lock_Proc_Correct\<close> and \<^verbatim>\<open>Nfs4_Lock_Refs\<close> show who granted a lock (C35), that references are exact on every path (C37) and that valid locks are given up (C38); \<^verbatim>\<open>Nfs4_Lock_Taken\<close> that a free lock is taken (C36). \<^verbatim>\<open>Nfs4_Owners\<close>: the open owners of a server (C40). \<^verbatim>\<open>Nfs4_Exception\<close>: errors, delays and retries (lemmas \<open>file_open_busy\<close>, \<open>delay_backoff\<close>). Bits of flag words are sets of names.

  \<^verbatim>\<open>Nfs4_Session_Setup\<close>, \<^verbatim>\<open>Nfs4_Session_Correct\<close>: client ids and sessions, with the fields that the state manager's client calls its world; a session has room for a chained lookup (C28), memory is accounted for (C29), and some errors get lost (lemmas \<open>reclaim_complete_error_lost\<close>, \<open>destroy_clientid_gives_up\<close>, \<open>setclientid_leak\<close>).

  \<^bold>\<open>Examples.\<close> \<^verbatim>\<open>Xdr_Sample\<close>, \<^verbatim>\<open>Xdr_Decode_Sample\<close>, \<^verbatim>\<open>Nfs_Chain_Sample\<close>, \<^verbatim>\<open>Vfs_Sample\<close> and \<^verbatim>\<open>Nfs4_State_Sample\<close> have concrete parameters that satisfy the hypotheses, and concrete inputs. The properties
  are in this theory and in \<^verbatim>\<open>Xdr_Properties\<close>, \<^verbatim>\<open>Namei_Properties\<close>, \<^verbatim>\<open>Nfs_Dir_Properties\<close>, \<^verbatim>\<open>Nfs_Name_Properties\<close>, \<^verbatim>\<open>Nfs4_State_Properties\<close>, \<^verbatim>\<open>Nfs4_Open_Properties\<close>, \<^verbatim>\<open>Nfs4_Lock_Properties\<close> and \<^verbatim>\<open>Nfs4_Session_Properties\<close>.

  \<^bold>\<open>Parameters.\<close> Code outside the sources is a parameter with named laws: the sunrpc library (\<open>xdr_env\<close>, \<open>rcv_env\<close>, \<open>rpc_exchange\<close>), the id mapper, the dentry cache, mounts and allocator (\<open>'w vfs\<close>, \<open>'w walk_env\<close>
  with \<open>memory_law\<close>, \<open>dcache_law\<close>, \<open>in_place\<close>, \<open>no_links\<close>, \<open>no_mounts\<close>, \<open>answers_with\<close>), the inode cache, delegations, pNFS, the slot table of \<^verbatim>\<open>fs/nfs/nfs4session.c\<close>, threads and the comparison of state ids, \<^verbatim>\<open>lib/rbtree.c\<close> (\<open>rb_law\<close>), the server of a directory (\<open>serves\<close>, \<open>calm\<close>) and the dentry cache under \<^verbatim>\<open>fs/nfs/dir.c\<close> (\<open>names_law\<close>, \<open>joins\<close>), and what runs under a locking call (\<open>steady\<close>, \<open>obliging\<close>). Where other
  tasks may run meanwhile, the parameter is a function on the state they share.

  \<^bold>\<open>Bounds.\<close> Loops that the program does not bound take a number of rounds: \<open>follow_mount\<close>, \<open>managed_loop\<close>, \<open>path_loop\<close>, \<open>nested_loop\<close>, \<open>last_links\<close> and \<open>relookup\<close> (the walk of \<open>n\<close> plain components needs \<open>n\<close>; C7),
  \<open>do_reclaim_loop\<close> (more than the marked owners and than the states of any owner; C26), \<open>nfs4_state_manager\<close> (two rounds for a reboot; C31), \<open>insert_loop\<close>, \<open>retry_loop\<close> (six rounds for lemma \<open>file_open_busy\<close>), \<open>open_task\<close> and the loops of the recovery of open states (one round when the server grants the open; C34), the tasks and loops of locks (one round when the server grants the lock; C36), the tasks of a session (one round for a final answer; lemma \<open>reclaim_complete_error_lost\<close>), \<open>nfs4_try_open_cached\<close>, the loops of \<open>nfs_readdir\<close> (two rounds more than the directory has entries; C17), \<open>invalidating_loop\<close>. Every
  other loop is recursion on its data. Machine integers have the width of the source; counters that C code increments wrap.

  \<^bold>\<open>Not modelled.\<close> The procedures of \<^verbatim>\<open>fs/nfs/nfs4proc.c\<close> that only fill in arguments, run one RPC and copy results (the OPEN of a system call, delegations, ACLs, security negotiation, pNFS, referrals): their requests and
  replies are covered by the XDR theories, their state by the state theories. In \<^verbatim>\<open>fs/namei.c\<close>: RCU walks (the patch has turned them off), permissions, and the system calls that open, create, remove and rename.
  In \<^verbatim>\<open>fs/nfs/dir.c\<close> and \<^verbatim>\<open>fs/nfs/inode.c\<close>: open contexts, freeing of pages, module set-up. \<^verbatim>\<open>fs/nfs/proc.c\<close> (NFSv2), headers beyond the structures that are used. The patch file repeats the sources. \<^verbatim>\<open>src/rpc_exploits\<close> and
  \<^verbatim>\<open>src/tarFS\<close> are separate kernel modules: test drivers of the RPC layer, and student file systems.
\<close>

section \<open>Requests\<close>

text \<open>C1: the request encoder of the chained lookup. In the buffer that
  \<^verbatim>\<open>nfs4_proc_chain_lookup\<close> asks for (the table's size times the length of the chain) every non-empty chain
  of well-formed names is encoded without a fault, and what is sent is the COMPOUND that looks the
  names up one after the other below the directory: SEQUENCE (in a session), PUTFH, and LOOKUP, GETFH,
  GETATTR for each name, with the minor version and the true number of operations in the header.\<close>

theorem chain_lookup_request:
  assumes "xdr_env K avail" and "xpages s = []" and "request_ok K (PROC_CHAIN_LOOKUP a)"
    and "chain_dchain_list a \<noteq> []"
    and "4 * (p_arglen K (PROC_CHAIN_LOOKUP a) * length (chain_dchain_list a)) \<le> avail (strm s)"
  shows "\<exists>t. nfs4_xdr_enc_chain_lookup K req a s = Inr t \<and>
           message t = xbuf s @ compound_bytes (nfs4_xdr_minorversion (chain_seq_args a))
             (seq_ops (chain_seq_args a) @ Putfh (fh_bytes (chain_dir_fh a)) #
              chain_ops (chain_bitmask a) (chain_dchain_list a))"
  using chain_lookup_encodes [OF assms, of req] by blast

theorem chain_lookup_request_witness:
  "\<exists>t. nfs4_xdr_enc_chain_lookup sample_kernel sample_rqst sample_chain (enc_init 8192) = Inr t \<and>
     message t = compound_bytes 1
       [Sequence (replicate 16 1) 7 0 0 False, Putfh [1, 2, 3, 4],
        Lookup [0x61], Getfh, Getattr [2], Lookup [0x62, 0x63], Getfh, Getattr [2]]"
  using chain_lookup_request [OF sample_env _ sample_chain_ok, of "enc_init 8192" sample_rqst]
  by (simp add: enc_init_def sample_chain_ops del: p_arglen.simps)



section \<open>Replies\<close>

text \<open>C4: the reply decoder of the chained lookup. On the bytes of a reply that resolves the names \<open>es\<close> and
  then stops (at the end of the chain, or at a LOOKUP, GETFH or GETATTR the server refuses) it takes exactly those
  bytes, returns 0 or the errno of the operation that failed, has filled file handle, attributes and label of
  every resolved name, and has changed no attributes or label of a later one.\<close>

theorem chain_lookup_reply:
  assumes "rcv_env D rest" and "chain_reply_ok sres res (status, tag, n) es stop"
    and "rest r = chain_reply_bytes sres (status, tag, n) (hi, target, flags) es stop @ c"
  shows "\<exists>t res'. nfs4_xdr_dec_chain_lookup D (sres, res) r =
             Inr ((stop_status stop, sequence_done sres hi target flags, res'), t) \<and> rest t = c \<and>
           (\<forall>j<length es. filled D es res res' j) \<and>
           (\<forall>j\<ge>length es. chr_fattrs res' ! j = chr_fattrs res ! j \<and> chr_labels res' ! j = chr_labels res ! j) \<and>
           (\<forall>j>length es. chr_fhandles res' ! j = chr_fhandles res ! j)"
proof -
  let ?res = "stop_put (length es) stop (put_entries D 0 es res)"
  obtain t where "nfs4_xdr_dec_chain_lookup D (sres, res) r = Inr ((stop_status stop, sequence_done sres hi target flags, ?res), t)"
    and "rest t = c"
    using nfs4_xdr_dec_chain_lookup_reads [OF assms(1,2)] assms(3) by (rule readsD)
  moreover have "arrays_ok (0 + length es) res"
    using assms(2) by (auto simp: chain_reply_ok_def arrays_ok_def split: if_splits)
  then have "filled D es res ?res j" if "j < length es" for j
    using put_entries_nth [of 0 es res j D] that by (auto simp: filled_def stop_put_other)
  ultimately show ?thesis
    by (intro exI [of _ t] exI [of _ ?res]) (simp add: stop_put_other put_entries_other)
qed

theorem chain_lookup_reply_witness:
  "\<exists>t res'. nfs4_xdr_dec_chain_lookup sample_receiver (sample_seq_res, sample_chain_res) (sample_reply, 0) =
       Inr ((- ENOENT, sequence_done sample_seq_res 0 0 0, res'), t) \<and>
     filled sample_receiver [sample_entry] sample_chain_res res' 0 \<and> chr_fattrs res' ! 1 = empty_fattr"
  using chain_lookup_reply [OF sample_receiver_env sample_reply_ok(1) sample_reply_stream [unfolded sample_reply_def],
      folded sample_reply_def]
  by (simp add: nfs4_stat_to_errno_noent) (auto simp: sample_chain_res_def)

section \<open>The chained lookup from end to end\<close>

text \<open>C6: the chained lookup resolves its names one after the other. When the server runs the operations of a
  COMPOUND in order and the RPC layer carries request and reply, \<^verbatim>\<open>nfs4_proc_chain_lookup\<close> returns without a
  fault the errno of the first name that the server cannot resolve (0 if there is none), fills the handle and the attributes
  of every name before it with what resolving the names one at a time gives, leaves the attributes of every other
  name without a valid bit, and puts the sizes in the procedure table back.\<close>

theorem chain_lookup_end_to_end:
  assumes "xdr_env K avail" and "rcv_env D rest" and "rpc_exchange K avail D net seq call_sync"
    and "chain_client_ok K seq server fh names s" and "tree_ok T"
    and "answers rest net T (nfs4_xdr_minorversion seq)
      (seq_ops seq @ Putfh (fh_bytes fh) # chain_ops (attr_bitmask_nl server) names) (cs_world s)"
    and "chain_walk T (chain_request_words server) (fh_bytes fh) (map name_bytes names) = (es, stop)"
    and "length fhandles = length names" and "length fattrs = length names" and "length labels = length names"
  shows "\<exists>res s'. nfs4_proc_chain_lookup call_sync (Some (server, fh)) names fhandles fattrs labels (int (length names)) s =
      Inr ((stop_status stop, res), s') \<and> cs_proc s' = cs_proc s \<and>
    (\<forall>j<length es. chr_fhandles res ! j = fh_of (fst (es ! j)) \<and>
       (\<exists>fa. fresh_fattr fa \<and> chr_fattrs res ! j = fattr_of D server (snd (snd (es ! j))) fa)) \<and>
    (\<forall>j. length es \<le> j \<and> j < length names \<longrightarrow> fa_valid (chr_fattrs res ! j) = 0)"
  using assms by (rule nfs4_proc_chain_lookup_exchange)

theorem chain_lookup_end_to_end_witness:
  "\<exists>res s'. nfs4_proc_chain_lookup sample_call_sync (Some (sample_chain_server, sample_fh)) sample_names
       [fh_zero, fh_zero] [empty_fattr, empty_fattr] [None, None] 2 sample_call_state = Inr ((- ENOENT, res), s') \<and>
     cs_proc s' = cs_proc sample_call_state \<and> chr_fhandles res ! 0 = fh_of [5, 6, 7, 8] \<and> fa_valid (chr_fattrs res ! 1) = 0"
proof -
  have "length sample_names = 2" by (simp add: sample_names_def)
  with chain_lookup_end_to_end [OF sample_env sample_receiver_env sample_rpc sample_client_ok sample_tree_ok
      sample_answers [unfolded sample_ops_def] sample_walk, of "[fh_zero, fh_zero]" "[empty_fattr, empty_fattr]" "[None, None]"]
  show ?thesis by force
qed

section \<open>The attribute cache\<close>

text \<open>C8: an update of the attribute cache. When the reply is about the object the inode stands for (the file ids agree as \<^verbatim>\<open>nfs_fileid_valid\<close> checks them, and the type is the same),
  \<^verbatim>\<open>nfs_update_inode\<close> returns 0 and the cached attributes are exactly those the reply has, the others being kept; in particular
  the order of the blocks and the weak cache consistency data make no difference. The size is not reduced while writes
  are outstanding.\<close>

theorem inode_update_refines:
  assumes "same_object (the_inode s) fa"
  shows "fst (nfs_update_inode H fa s) = 0 \<and>
    attrs_view (the_inode (snd (nfs_update_inode H fa s))) = apply_fattr fa (attrs_view (the_inode s))"
  using nfs_update_inode_view [OF assms] nfs_update_inode_same [OF assms] by simp

theorem inode_update_refines_witness:
  "fst (nfs_update_inode sample_hooks sample_fattr sample_state) = 0 \<and>
   i_size (the_inode (snd (nfs_update_inode sample_hooks sample_fattr sample_state))) = 9"
proof -
  let ?t = "the_inode (snd (nfs_update_inode sample_hooks sample_fattr sample_state))"
  have "same_object (the_inode sample_state) sample_fattr" using sample_same_object by (simp add: sample_state_def)
  from inode_update_refines [OF this, of sample_hooks]
  have "fst (nfs_update_inode sample_hooks sample_fattr sample_state) = 0"
    and "i_size (attrs_view ?t) = i_size (apply_fattr sample_fattr (attrs_view (the_inode sample_state)))" by simp_all
  moreover have "i_size (apply_fattr sample_fattr (attrs_view (the_inode sample_state))) = 9"
    by (simp add: apply_fattr_def attrs_view_def sample_inode_defs has_def nfs_size_to_loff_t_def)
  ultimately show ?thesis by (simp add: view_fields)
qed

text \<open>A reply about another object. \<^verbatim>\<open>nfs_update_inode\<close> returns \<^verbatim>\<open>-ESTALE\<close>, marks the inode stale and its attributes
  invalid, resets the timeout, and takes over nothing from the reply.\<close>

lemma inode_update_stale:
  assumes "\<not> same_object (the_inode s) fa" and "label_law H"
  shows "\<exists>m. bit m 0 \<and> nfs_update_inode H fa s = (- ESTALE, s\<lparr>the_inode := (the_inode s)\<lparr>ino_stale := True,
    attrtimeo := ucast (NFS_MINATTRTIMEO (the_sb s) (the_inode s)), attrtimeo_timestamp := now s, cookieverf := (0, 0),
    cache_validity := cache_validity (the_inode s) OR m\<rparr>\<rparr>)"
  using assms by (rule nfs_update_inode_stale)



text \<open>C10: the life of an inode. Whatever replies arrive, whatever is set locally, invalidated or revalidated, and however time
  passes: the inode keeps its file id, its handle and its file type, a stale inode stays stale, and the attribute
  timeout stays between the two limits of the mount.\<close>

theorem inode_lifetime:
  assumes "(attr_step H)\<^sup>*\<^sup>* s t" and "label_law H" and "inode_ok s"
  shows "identity (the_inode t) = identity (the_inode s) \<and> (ino_stale (the_inode s) \<longrightarrow> ino_stale (the_inode t)) \<and> inode_ok t"
  using attr_steps_kept [OF assms(1,2)] assms(3) by (simp add: kept_def)

theorem inode_lifetime_witness:
  "inode_ok (snd (nfs_post_op_update_inode sample_hooks sample_fattr (snd (nfs_refresh_inode sample_hooks sample_fattr sample_state))))"
proof -
  let ?t = "snd (nfs_refresh_inode sample_hooks sample_fattr sample_state)"
  have "(attr_step sample_hooks)\<^sup>*\<^sup>* sample_state (snd (nfs_post_op_update_inode sample_hooks sample_fattr ?t))"
    by (rule rtranclp_trans [OF r_into_rtranclp r_into_rtranclp]) (rule attr_step.refresh, rule attr_step.post_op)
  moreover have "inode_ok sample_state" using sample_timeout by (simp add: inode_ok_def sample_state_def)
  ultimately show ?thesis using inode_lifetime [OF _ sample_label_law] by blast
qed



section \<open>The walk\<close>

text \<open>C12: looking up a collected chain. When the server answers, a chain of at most thirty names is looked up without a
  fault; on success the walk stands on the last of its names, holds one reference to it and to its mount, and nothing
  else; on \<^verbatim>\<open>-ENOENT\<close>, \<^verbatim>\<open>-EACCES\<close> and \<^verbatim>\<open>-40\<close> it has given back every reference. In both cases the mutex of the
  directory is released and the chain is empty.\<close>

theorem chain_lookup_balanced:
  assumes "memory_law V" "in_place V" "no_links V" and "chain_pending V depth base mbase s"
    and "answers_with V (map cd_name (dchain_list s)) err" and "fill_status err" "err \<le> 0"
  shows "\<exists>s'. chain_lookup V H C path s = Inr ((err, path), s') \<and>
    (if err < 0 then released base mbase s'
     else walk_inv depth base mbase 0 s' \<and> nd_path s' = (nd_path s)\<lparr>p_dentry := last (chain_ds s)\<rparr>)"
  using chain_lookup_run [OF assms] by blast

theorem chain_lookup_balanced_witness:
  "\<exists>s'. chain_lookup (sample_vfs 0) sample_hooks sample_icache \<lparr>p_mnt = 0, p_dentry = 0\<rparr> (sample_walk_state 3) =
     Inr ((0, \<lparr>p_mnt = 0, p_dentry = 0\<rparr>), s') \<and> walk_inv id (\<lambda>_. 0) (\<lambda>_. 0) 0 s' \<and> p_dentry (nd_path s') = 8"
  using chain_lookup_balanced [where V = "sample_vfs 0" and err = 0 and H = sample_hooks and C = sample_icache and path = "\<lparr>p_mnt = 0, p_dentry = 0\<rparr>",
      OF sample_vfs_laws(1-3) sample_pending [of 3] sample_vfs_laws(6)]
  by (force simp: fill_status_def chain_ds_def sample_walk_state_def upt_rec)

text \<open>C13: any other error. The reference to the directory is given back by \<^verbatim>\<open>nfs_chain_lookup\<close> and once more by
  \<^verbatim>\<open>terminate_walk\<close>.\<close>

theorem chain_lookup_error_double_put:
  assumes "memory_law V" "in_place V" "no_links V" and "chain_pending V depth base mbase s"
    and "answers_with V (map cd_name (dchain_list s)) err" and "\<not> fill_status err" and "base (p_dentry (nd_path s)) = 0"
  shows "chain_lookup V H C path s = Inl (OVER_PUT (p_dentry (nd_path s)))"
  using assms by (rule chain_lookup_double_put)

theorem chain_lookup_error_double_put_witness:
  "chain_lookup (sample_vfs (- EIO)) sample_hooks sample_icache \<lparr>p_mnt = 0, p_dentry = 0\<rparr> (sample_walk_state 3) =
     Inl (OVER_PUT 5)"
  using chain_lookup_error_double_put [where V = "sample_vfs (- EIO)" and err = "- EIO" and H = sample_hooks and C = sample_icache
      and path = "\<lparr>p_mnt = 0, p_dentry = 0\<rparr>", OF sample_vfs_laws(1-3) sample_pending [of 3] sample_vfs_laws(6)]
  by (simp add: fill_status_def) (simp add: sample_walk_state_def)



end
